(* ===== verification/Prelude.thy ===== *)
theory Prelude
  imports Main "HOL-Library.Multiset" "HOL-Library.Char_ord" "HOL-Library.List_Lexorder" "HOL-Library.Sublist"
begin

text \<open>
  What every component of the harness shares: the result type of fallible Go functions, the
  parts of Go's \<^verbatim>\<open>strings\<close>, \<^verbatim>\<open>sort\<close> and \<^verbatim>\<open>fmt\<close> packages the code calls, and
  the lemmas on them.

  A Go string is a sequence of bytes, and a \<^typ>\<open>char\<close> of HOL is a byte, so a Go string is a
  \<^typ>\<open>string\<close>.  \<open>trim_space\<close> knows the UTF-8 encodings of all Unicode white space.
  \<open>to_lower\<close> maps the ASCII letters and leaves every other byte alone: it agrees with Go on
  ASCII strings, which is what the code compares with.
  \<^verbatim>\<open>time.Time\<close> is an \<^typ>\<open>int\<close>, the nanoseconds since Go's zero time, so
  \<^verbatim>\<open>IsZero\<close> is \<open>t = 0\<close>; \<^verbatim>\<open>time.Duration\<close> is an \<^typ>\<open>int\<close> of nanoseconds.
\<close>

named_theorems str_simps "evaluation of the string functions"
named_theorems inv_intros "introduction rules of component invariants"
named_theorems frame_simps "fields an operation leaves unchanged"

type_synonym gotime = int
type_synonym duration = int

abbreviation second :: duration where "second \<equiv> 1000000000"

section \<open>Results\<close>

text \<open>A Go function returning \<^verbatim>\<open>(T, error)\<close> returns \<open>Inl\<close> its error or \<open>Inr\<close> its value.\<close>

type_synonym ('e, 'a) result = "'e + 'a"

definition is_ok :: "('e, 'a) result \<Rightarrow> bool" where
  "is_ok r = (case r of Inl _ \<Rightarrow> False | Inr _ \<Rightarrow> True)"

lemma is_ok_simps [simp]: "\<not> is_ok (Inl e)" "is_ok (Inr a)"
  by (simp_all add: is_ok_def)

lemma is_ok_iff: "is_ok r \<longleftrightarrow> (\<exists>a. r = Inr a)"
  by (cases r) simp_all

section \<open>Errors\<close>

text \<open>
  Go's error values: the two of package \<^verbatim>\<open>context\<close>, an error with its text, and an error
  that \<^verbatim>\<open>fmt.Errorf\<close> wraps with \<^verbatim>\<open>%w\<close>, with its whole text.  \<^verbatim>\<open>errors.Is\<close> looks
  through the wrapping.
\<close>

datatype go_error = Canceled | DeadlineExceeded | Message string | Wrapped string go_error

fun errors_is :: "go_error \<Rightarrow> go_error \<Rightarrow> bool" where
  "errors_is (Wrapped t e) target = (Wrapped t e = target \<or> errors_is e target)"
| "errors_is e target = (e = target)"

fun error_text :: "go_error \<Rightarrow> string" where
  "error_text Canceled = ''context canceled''"
| "error_text DeadlineExceeded = ''context deadline exceeded''"
| "error_text (Message t) = t"
| "error_text (Wrapped t e) = t"

lemma errors_is_refl [simp]: "errors_is e e"
  by (cases e) simp_all

section \<open>Strings\<close>

text \<open>\<^verbatim>\<open>strings.HasPrefix\<close> and \<^verbatim>\<open>strings.TrimPrefix\<close>, prefix first.\<close>

fun has_prefix :: "string \<Rightarrow> string \<Rightarrow> bool" where
  "has_prefix [] s = True"
| "has_prefix (c # cs) [] = False"
| "has_prefix (c # cs) (d # ds) = (c = d \<and> has_prefix cs ds)"

definition trim_prefix :: "string \<Rightarrow> string \<Rightarrow> string" where
  "trim_prefix p s = (if has_prefix p s then drop (length p) s else s)"

text \<open>\<^verbatim>\<open>strings.Contains s sub\<close>.\<close>

fun contains_str :: "string \<Rightarrow> string \<Rightarrow> bool" where
  "contains_str [] sub = (sub = [])"
| "contains_str (c # cs) sub = (has_prefix sub (c # cs) \<or> contains_str cs sub)"

lemma has_prefix_iff: "has_prefix p s \<longleftrightarrow> (\<exists>t. s = p @ t)"
  by (induction p s rule: has_prefix.induct) auto

lemma has_prefix_append [simp]: "has_prefix p (p @ t)"
  by (simp add: has_prefix_iff)

lemma has_prefix_take: "has_prefix p (take n s) \<Longrightarrow> has_prefix p s"
  by (metis append.assoc append_take_drop_id has_prefix_iff)

lemma contains_str_iff: "contains_str s sub \<longleftrightarrow> (\<exists>a b. s = a @ sub @ b)"
proof (induction s)
  case Nil
  then show ?case by simp
next
  case (Cons c cs)
  show ?case
  proof
    assume "contains_str (c # cs) sub"
    then consider "has_prefix sub (c # cs)" | "contains_str cs sub" by auto
    then show "\<exists>a b. c # cs = a @ sub @ b"
    proof cases
      case 1
      then show ?thesis by (metis append_Nil has_prefix_iff)
    next
      case 2
      then show ?thesis by (metis Cons.IH append_Cons)
    qed
  next
    assume "\<exists>a b. c # cs = a @ sub @ b"
    then obtain a b where ab: "c # cs = a @ sub @ b" by blast
    show "contains_str (c # cs) sub"
    proof (cases a)
      case Nil
      with ab show ?thesis by (metis append_Nil contains_str.simps(2) has_prefix_append)
    next
      case (Cons x xs)
      with ab Cons.IH show ?thesis by auto
    qed
  qed
qed

text \<open>
  \<^verbatim>\<open>strings.TrimSpace\<close>.  \<open>strip ws s\<close> removes words of \<open>ws\<close> from the front of \<open>s\<close>
  as long as one is there; \<open>space_words\<close> holds the UTF-8 encodings of the runes for which
  \<^verbatim>\<open>unicode.IsSpace\<close> holds.
\<close>

definition space_words :: "string list" where
  "space_words =
     map (\<lambda>c. [c]) [CHR 0x09, CHR 0x0A, CHR 0x0B, CHR 0x0C, CHR 0x0D, CHR 0x20] @
     [[CHR 0xC2, CHR 0x85], [CHR 0xC2, CHR 0xA0], [CHR 0xE1, CHR 0x9A, CHR 0x80]] @
     map (\<lambda>c. [CHR 0xE2, CHR 0x80, c])
       [CHR 0x80, CHR 0x81, CHR 0x82, CHR 0x83, CHR 0x84, CHR 0x85, CHR 0x86, CHR 0x87,
        CHR 0x88, CHR 0x89, CHR 0x8A, CHR 0xA8, CHR 0xA9, CHR 0xAF] @
     [[CHR 0xE2, CHR 0x81, CHR 0x9F], [CHR 0xE3, CHR 0x80, CHR 0x80]]"

function strip :: "string list \<Rightarrow> string \<Rightarrow> string" where
  "strip ws s =
     (case find (\<lambda>w. w \<noteq> [] \<and> has_prefix w s) ws of
        None \<Rightarrow> s
      | Some w \<Rightarrow> strip ws (drop (length w) s))"
  by pat_completeness auto
termination
proof (relation "measure (\<lambda>(ws, s). length s)")
  fix ws :: "string list" and s w
  assume "find (\<lambda>w. w \<noteq> [] \<and> has_prefix w s) ws = Some w"
  then have "w \<noteq> []" and "has_prefix w s" by (auto simp: find_Some_iff)
  then show "((ws, drop (length w) s), ws, s) \<in> measure (\<lambda>(ws, s). length s)"
    by (auto simp: has_prefix_iff)
qed simp

declare strip.simps [simp del]

definition starts_with_any :: "string list \<Rightarrow> string \<Rightarrow> bool" where
  "starts_with_any ws s = (\<exists>w \<in> set ws. w \<noteq> [] \<and> has_prefix w s)"

definition trim_space :: "string \<Rightarrow> string" where
  "trim_space s = rev (strip (map rev space_words) (rev (strip space_words s)))"

lemma strip_None: "find (\<lambda>w. w \<noteq> [] \<and> has_prefix w s) ws = None \<Longrightarrow> strip ws s = s"
  by (subst strip.simps) simp

lemma strip_Some:
  "find (\<lambda>w. w \<noteq> [] \<and> has_prefix w s) ws = Some w \<Longrightarrow> strip ws s = strip ws (drop (length w) s)"
  by (subst strip.simps) simp

lemma find_prefix_None:
  "find (\<lambda>w. w \<noteq> [] \<and> has_prefix w s) ws = None \<longleftrightarrow> \<not> starts_with_any ws s"
  by (auto simp: starts_with_any_def find_None_iff)

lemma strip_id: "\<not> starts_with_any ws s \<Longrightarrow> strip ws s = s"
  by (simp add: strip_None find_prefix_None)

lemma strip_done: "\<not> starts_with_any ws (strip ws s)"
proof (induction ws s rule: strip.induct)
  case (1 ws s)
  show ?case
  proof (cases "find (\<lambda>w. w \<noteq> [] \<and> has_prefix w s) ws")
    case None
    then show ?thesis by (simp add: strip_None find_prefix_None)
  next
    case (Some w)
    with 1 show ?thesis by (simp add: strip_Some)
  qed
qed

lemma strip_suffix: "\<exists>t. s = t @ strip ws s"
proof (induction ws s rule: strip.induct)
  case (1 ws s)
  show ?case
  proof (cases "find (\<lambda>w. w \<noteq> [] \<and> has_prefix w s) ws")
    case None
    then show ?thesis by (simp add: strip_None)
  next
    case (Some w)
    with 1 obtain t where "drop (length w) s = t @ strip ws (drop (length w) s)" by blast
    then have "s = (take (length w) s @ t) @ strip ws s"
      by (metis Some append.assoc append_take_drop_id strip_Some)
    then show ?thesis by blast
  qed
qed

lemma starts_with_any_append: "starts_with_any ws s \<Longrightarrow> starts_with_any ws (s @ t)"
  by (auto simp: starts_with_any_def has_prefix_iff)

lemma trim_space_idem [simp]: "trim_space (trim_space s) = trim_space s"
proof -
  let ?l = "strip space_words s"
  let ?r = "strip (map rev space_words) (rev ?l)"
  obtain t where "rev ?l = t @ ?r" using strip_suffix by blast
  then have "?l = rev ?r @ rev t" by (metis rev_append rev_rev_ident)
  then have "\<not> starts_with_any space_words (rev ?r)"
    using strip_done [of space_words s] starts_with_any_append by metis
  moreover have "\<not> starts_with_any (map rev space_words) ?r" by (rule strip_done)
  ultimately show ?thesis by (simp add: trim_space_def strip_id)
qed

lemma trim_space_Nil [simp]: "trim_space [] = []"
  by (simp add: trim_space_def strip_id starts_with_any_def space_words_def)

text \<open>A string is blank if nothing is left of it.\<close>

definition blank :: "string \<Rightarrow> bool" where
  "blank s = (trim_space s = [])"

lemma blank_Nil [simp]: "blank []"
  by (simp add: blank_def)

lemma blank_trim_space [simp]: "blank (trim_space s) = blank s"
  by (simp add: blank_def)

text \<open>\<^verbatim>\<open>strings.ToLower\<close> on ASCII.\<close>

definition lower_char :: "char \<Rightarrow> char" where
  "lower_char c =
     (let n = of_char c :: nat in if 65 \<le> n \<and> n \<le> 90 then char_of (n + 32) else c)"

definition to_lower :: "string \<Rightarrow> string" where
  "to_lower s = map lower_char s"

lemma lower_char_idem [simp]: "lower_char (lower_char c) = lower_char c"
  by (simp add: lower_char_def Let_def)

lemma to_lower_idem [simp]: "to_lower (to_lower s) = to_lower s"
  by (simp add: to_lower_def)

lemma find_nonempty: "find (\<lambda>w. w \<noteq> [] \<and> p w) ws = Some w \<Longrightarrow> 0 < length w"
  by (auto simp: find_Some_iff)

text \<open>\<^verbatim>\<open>strings.Fields\<close>: \<open>cur\<close> is the field being read, reversed.\<close>

function fields_from :: "string \<Rightarrow> string \<Rightarrow> string list" where
  "fields_from cur s =
     (case s of
        [] \<Rightarrow> if cur = [] then [] else [rev cur]
      | c # cs \<Rightarrow>
          (case find (\<lambda>w. w \<noteq> [] \<and> has_prefix w s) space_words of
             Some w \<Rightarrow> (if cur = [] then [] else [rev cur]) @ fields_from [] (drop (length w) s)
           | None \<Rightarrow> fields_from (c # cur) cs))"
  by pat_completeness auto
termination
  by (relation "measure (\<lambda>(cur, s). length s)") (auto dest!: find_nonempty)

text \<open>\<^verbatim>\<open>strings.EqualFold\<close> on ASCII.\<close>

definition equal_fold :: "string \<Rightarrow> string \<Rightarrow> bool" where
  "equal_fold a b = (to_lower a = to_lower b)"

text \<open>\<^verbatim>\<open>strings.Split(s, "\<newline>")\<close> for one separating byte: never empty.\<close>

fun split_on :: "char \<Rightarrow> string \<Rightarrow> string list" where
  "split_on c [] = [[]]"
| "split_on c (x # xs) =
     (if x = c then [] # split_on c xs
      else (case split_on c xs of [] \<Rightarrow> [[x]] | w # ws \<Rightarrow> (x # w) # ws))"

text \<open>\<^verbatim>\<open>strings.Join\<close>.\<close>

fun join_str :: "string \<Rightarrow> string list \<Rightarrow> string" where
  "join_str sep [] = []"
| "join_str sep [s] = s"
| "join_str sep (s # t # ss) = s @ sep @ join_str sep (t # ss)"

lemma split_on_nonempty [simp]: "split_on c s \<noteq> []"
  by (induction s) (auto split: list.split)

lemma join_split_on: "join_str [c] (split_on c s) = s"
proof (induction s)
  case Nil
  then show ?case by simp
next
  case (Cons x xs)
  obtain w ws where w: "split_on c xs = w # ws" by (cases "split_on c xs") auto
  with Cons show ?case by (cases ws) auto
qed

text \<open>\<^verbatim>\<open>%d\<close> of a number that is not negative, and \<^verbatim>\<open>%q\<close> of a string.\<close>

fun show_nat :: "nat \<Rightarrow> string" where
  "show_nat n = (if n < 10 then [char_of (48 + n)] else show_nat (n div 10) @ [char_of (48 + n mod 10)])"

declare show_nat.simps [simp del]

definition newline :: string where "newline = [CHR 0x0A]"

definition quote_char :: "char \<Rightarrow> string" where
  "quote_char c =
     (if c = CHR 0x22 then [CHR 0x5C, CHR 0x22]
      else if c = CHR 0x5C then [CHR 0x5C, CHR 0x5C]
      else if c = CHR 0x0A then [CHR 0x5C, CHR ''n'']
      else if c = CHR 0x09 then [CHR 0x5C, CHR ''t'']
      else if c = CHR 0x0D then [CHR 0x5C, CHR ''r'']
      else [c])"

definition quote_str :: "string \<Rightarrow> string" where
  "quote_str s = [CHR 0x22] @ concat (map quote_char s) @ [CHR 0x22]"

end
