(* ===== verification/Domain.thy ===== *)
theory Domain
  imports Prelude
begin

text \<open>
  The data model of \<^verbatim>\<open>internal/domain\<close>: tasks, sessions, plans, steps, actions, tool calls,
  observations with their evidence, verification results, plugin metadata and provenance.

  The Go enumerations are open string types with named constants and functions that treat any
  other string as unknown, so they are strings here, and the constants are abbreviations.
  A nil pointer is \<^term>\<open>None\<close>; nothing in the code writes through these pointers.
\<close>

section \<open>Enumerations\<close>

type_synonym task_category = string
abbreviation cat_coding :: task_category where "cat_coding \<equiv> ''coding''"
abbreviation cat_research :: task_category where "cat_research \<equiv> ''research''"
abbreviation cat_file_workflow :: task_category where "cat_file_workflow \<equiv> ''file_workflow''"
abbreviation cat_general :: task_category where "cat_general \<equiv> ''general''"

type_synonym session_status = string
abbreviation ss_pending :: session_status where "ss_pending \<equiv> ''pending''"
abbreviation ss_running :: session_status where "ss_running \<equiv> ''running''"
abbreviation ss_blocked_input :: session_status where "ss_blocked_input \<equiv> ''blocked_input''"
abbreviation ss_success :: session_status where "ss_success \<equiv> ''success''"
abbreviation ss_verification_failed :: session_status
  where "ss_verification_failed \<equiv> ''verification_failed''"
abbreviation ss_budget_exceeded :: session_status where "ss_budget_exceeded \<equiv> ''budget_exceeded''"
abbreviation ss_fatal_error :: session_status where "ss_fatal_error \<equiv> ''fatal_error''"
abbreviation ss_interrupted :: session_status where "ss_interrupted \<equiv> ''interrupted''"

type_synonym action_type = string
abbreviation at_respond :: action_type where "at_respond \<equiv> ''respond''"
abbreviation at_tool_call :: action_type where "at_tool_call \<equiv> ''tool_call''"
abbreviation at_request_input :: action_type where "at_request_input \<equiv> ''request_input''"
abbreviation at_complete :: action_type where "at_complete \<equiv> ''complete''"

type_synonym verification_status = string
abbreviation vs_passed :: verification_status where "vs_passed \<equiv> ''passed''"
abbreviation vs_failed :: verification_status where "vs_failed \<equiv> ''failed''"
abbreviation vs_not_applicable :: verification_status where "vs_not_applicable \<equiv> ''not_applicable''"

section \<open>Tools, actions, observations\<close>

record tool_call =
  tc_name :: string
  tc_input :: string
  tc_timeout :: duration

record tool_info =
  ti_name :: string
  ti_description :: string
  ti_schema :: string

record tool_result =
  tr_tool_name :: string
  tr_output :: string
  tr_error :: string
  tr_duration :: duration

record action =
  act_type :: action_type
  act_summary :: string
  act_tool_call :: "tool_call option"
  act_response :: string

record evidence_source =
  src_id :: string
  src_kind :: string
  src_locator :: string
  src_excerpt :: string

record evidence_finding =
  fnd_claim :: string
  fnd_source_ids :: "string list"

record research_evidence =
  re_sources :: "evidence_source list"
  re_findings :: "evidence_finding list"
  re_conclusion :: string

record file_expectation =
  fe_path :: string
  fe_should_exist :: bool
  fe_required_contents :: "string list"

record file_result =
  fr_path :: string
  fr_exists :: bool
  fr_content :: string
  fr_error :: string

record file_workflow_evidence =
  fw_expectations :: "file_expectation list"
  fw_results :: "file_result list"
  fw_summary :: string

record evidence =
  ev_research :: "research_evidence option"
  ev_file_workflow :: "file_workflow_evidence option"

record observation =
  obs_summary :: string
  obs_tool_result :: "tool_result option"
  obs_final_response :: string
  obs_evidence :: "evidence option"

section \<open>Verification results\<close>

record verification_result =
  vr_passed :: bool
  vr_status :: verification_status
  vr_reason :: string

datatype vr_error =
    EmptyReason
  | StatusNeedsPassed verification_status
  | StatusNeedsNotPassed verification_status
  | UnknownVerificationStatus verification_status

definition vr_status_or_default :: "verification_result \<Rightarrow> verification_status" where
  "vr_status_or_default r =
     (if vr_status r \<noteq> [] then vr_status r
      else if vr_passed r then vs_passed
      else vs_failed)"

definition vr_normalize :: "verification_result \<Rightarrow> verification_result" where
  "vr_normalize r = r\<lparr>vr_status := vr_status_or_default r\<rparr>"

text \<open>\<^verbatim>\<open>Validate\<close>: \<^term>\<open>None\<close> is Go's nil error.\<close>

definition vr_validate :: "verification_result \<Rightarrow> vr_error option" where
  "vr_validate r0 =
     (let r = vr_normalize r0 in
      if trim_space (vr_reason r) = [] then Some EmptyReason
      else if vr_status r = vs_passed then
        (if \<not> vr_passed r then Some (StatusNeedsPassed (vr_status r)) else None)
      else if vr_status r = vs_failed \<or> vr_status r = vs_not_applicable then
        (if vr_passed r then Some (StatusNeedsNotPassed (vr_status r)) else None)
      else Some (UnknownVerificationStatus (vr_status r)))"

text \<open>
  \<^verbatim>\<open>MarshalJSON\<close> and \<^verbatim>\<open>UnmarshalJSON\<close>: \<^verbatim>\<open>encoding/json\<close> copies the three fields of
  the value the method hands to it, so a payload is a record of the same fields.
\<close>

definition vr_marshal :: "verification_result \<Rightarrow> verification_result" where
  "vr_marshal r =
     (let n = vr_normalize r in
      if trim_space (vr_reason n) = [] \<and> vr_status n \<noteq> [] then n\<lparr>vr_reason := ''verified''\<rparr>
      else n)"

definition vr_unmarshal :: "verification_result \<Rightarrow> (vr_error, verification_result) result" where
  "vr_unmarshal payload =
     (let n = vr_normalize payload in
      case vr_validate n of Some e \<Rightarrow> Inl e | None \<Rightarrow> Inr n)"

text \<open>What a validated result promises: the flag and the status say the same.\<close>

definition vr_coherent :: "verification_result \<Rightarrow> bool" where
  "vr_coherent r \<longleftrightarrow>
     (vr_passed r \<and> vr_status r = vs_passed) \<or>
     (\<not> vr_passed r \<and> vr_status r \<in> {vs_failed, vs_not_applicable})"

lemma vr_normalize_idem [simp]: "vr_normalize (vr_normalize r) = vr_normalize r"
  by (simp add: vr_normalize_def vr_status_or_default_def)

lemma vr_normalize_simps [simp]:
  "vr_passed (vr_normalize r) = vr_passed r"
  "vr_reason (vr_normalize r) = vr_reason r"
  "vr_status (vr_normalize r) = vr_status_or_default r"
  by (simp_all add: vr_normalize_def)

lemma vr_status_nonempty [simp]: "vr_status_or_default r \<noteq> []"
  by (simp add: vr_status_or_default_def)

lemma vr_validate_normalize [simp]: "vr_validate (vr_normalize r) = vr_validate r"
  by (simp add: vr_validate_def)

lemma vr_validate_ok_iff:
  "vr_validate r = None \<longleftrightarrow> vr_coherent (vr_normalize r) \<and> \<not> blank (vr_reason r)"
  by (auto simp: vr_validate_def vr_coherent_def Let_def blank_def)

lemma vr_status_or_default_cong [simp]:
  "vr_status_or_default (r\<lparr>vr_reason := x\<rparr>) = vr_status_or_default r"
  by (simp add: vr_status_or_default_def)

lemma vr_normalize_id: "vr_status r \<noteq> [] \<Longrightarrow> vr_normalize r = r"
  by (simp add: vr_normalize_def vr_status_or_default_def)

lemma vr_marshal_normal [simp]: "vr_normalize (vr_marshal r) = vr_marshal r"
  by (rule vr_normalize_id) (simp add: vr_marshal_def Let_def)

lemma verified_not_blank [simp]: "\<not> blank ''verified''"
  by code_simp

lemma vr_marshal_reason_not_blank: "\<not> blank (vr_reason (vr_marshal r))"
  using verified_not_blank by (simp add: vr_marshal_def Let_def blank_def)

lemma vr_marshal_coherent [simp]: "vr_coherent (vr_marshal r) = vr_coherent (vr_normalize r)"
  by (simp add: vr_marshal_def vr_coherent_def Let_def)

section \<open>Tasks\<close>

record task =
  task_id :: string
  task_description :: string
  task_goal :: string
  task_category :: task_category
  task_protocol_hint :: string
  task_verification_policy :: string
  task_created_at :: gotime

definition category_normalize :: "task_category \<Rightarrow> task_category" where
  "category_normalize c =
     (if c = cat_coding \<or> c = cat_research \<or> c = cat_file_workflow \<or> c = cat_general then c
      else cat_general)"

definition category_or_default :: "task \<Rightarrow> task_category" where
  "category_or_default t = category_normalize (task_category t)"

definition task_normalize :: "task \<Rightarrow> task" where
  "task_normalize t = t\<lparr>task_category := category_or_default t\<rparr>"

definition task_marshal :: "task \<Rightarrow> task" where
  "task_marshal t = task_normalize t"

definition task_unmarshal :: "task \<Rightarrow> task" where
  "task_unmarshal payload = task_normalize payload"

definition supported_category :: "task_category \<Rightarrow> bool" where
  "supported_category c \<longleftrightarrow> c \<in> {cat_coding, cat_research, cat_file_workflow, cat_general}"

lemma category_normalize_supported [simp]: "supported_category (category_normalize c)"
  by (simp add: category_normalize_def supported_category_def)

lemma category_normalize_id: "supported_category c \<Longrightarrow> category_normalize c = c"
  by (auto simp: category_normalize_def supported_category_def)

lemma category_normalize_idem [simp]: "category_normalize (category_normalize c) = category_normalize c"
  by (simp add: category_normalize_id)

lemma task_normalize_simps [simp]:
  "task_category (task_normalize t) = category_normalize (task_category t)"
  "task_id (task_normalize t) = task_id t"
  "task_protocol_hint (task_normalize t) = task_protocol_hint t"
  "task_verification_policy (task_normalize t) = task_verification_policy t"
  "task_description (task_normalize t) = task_description t"
  by (simp_all add: task_normalize_def category_or_default_def)

lemma task_normalize_idem [simp]: "task_normalize (task_normalize t) = task_normalize t"
  by (simp add: task_normalize_def category_or_default_def)

end
