(* ===== verification/Provenance.thy ===== *)
theory Provenance
  imports Domain
begin

text \<open>
  Plugin metadata and provenance (\<^verbatim>\<open>internal/domain/plugin_metadata.go\<close>), the merging of
  provenance the engine does (\<^verbatim>\<open>mergeProvenance\<close>, \<^verbatim>\<open>agentStrategyMetadata\<close> in
  \<^verbatim>\<open>internal/runtime/runtime.go\<close>), and the records that carry provenance: steps, plans and
  sessions.
\<close>

section \<open>Plugin metadata\<close>

type_synonym plugin_family = string
abbreviation pf_tool :: plugin_family where "pf_tool \<equiv> ''tool''"
abbreviation pf_provider :: plugin_family where "pf_provider \<equiv> ''provider''"
abbreviation pf_verifier :: plugin_family where "pf_verifier \<equiv> ''verifier''"
abbreviation pf_agent_strategy :: plugin_family where "pf_agent_strategy \<equiv> ''agent_strategy''"

type_synonym execution_mode = string
abbreviation pm_external :: execution_mode where "pm_external \<equiv> ''external''"
abbreviation pm_native :: execution_mode where "pm_native \<equiv> ''native''"

record plugin_metadata =
  pl_family :: plugin_family
  pl_logical_id :: string
  pl_display_name :: string
  pl_contract_version :: string
  pl_implementation_version :: string
  pl_execution_mode :: execution_mode
  pl_source_path :: string

datatype metadata_error =
    EmptyFamily
  | UnknownFamily plugin_family
  | EmptyMode
  | UnknownMode execution_mode
  | EmptyLogicalId
  | EmptyDisplayName
  | EmptyVersion string
  | MalformedVersion string string
  | DuplicateProvenance plugin_family string

section \<open>Semantic versions\<close>

text \<open>
  The regular expression \<^verbatim>\<open>pluginVersionPattern\<close>.  Each part is followed by a byte that is
  not in its class (a dot, \<^verbatim>\<open>-\<close>, \<^verbatim>\<open>+\<close> or the end), so matching is by longest match.
\<close>

definition is_digit :: "char \<Rightarrow> bool" where
  "is_digit c = (let n = of_char c :: nat in 48 \<le> n \<and> n \<le> 57)"

definition is_version_char :: "char \<Rightarrow> bool" where
  "is_version_char c =
     (let n = of_char c :: nat in
      (48 \<le> n \<and> n \<le> 57) \<or> (65 \<le> n \<and> n \<le> 90) \<or> (97 \<le> n \<and> n \<le> 122) \<or> n = 45 \<or> n = 46)"

definition version_number :: "string \<Rightarrow> bool" where
  "version_number ds = (ds = ''0'' \<or> (ds \<noteq> [] \<and> hd ds \<noteq> CHR ''0''))"

definition skip_number :: "string \<Rightarrow> string option" where
  "skip_number s =
     (if version_number (takeWhile is_digit s) then Some (dropWhile is_digit s) else None)"

definition skip_char :: "char \<Rightarrow> string \<Rightarrow> string option" where
  "skip_char c s = (case s of [] \<Rightarrow> None | x # xs \<Rightarrow> if x = c then Some xs else None)"

text \<open>An optional suffix: \<open>c\<close> and one or more version characters.\<close>

definition skip_suffix :: "char \<Rightarrow> string \<Rightarrow> string" where
  "skip_suffix c s =
     (case skip_char c s of
        None \<Rightarrow> s
      | Some r \<Rightarrow> if takeWhile is_version_char r = [] then s else dropWhile is_version_char r)"

definition version_ok :: "string \<Rightarrow> bool" where
  "version_ok s =
     (case Option.bind (skip_number s) (skip_char CHR ''.'') of
        None \<Rightarrow> False
      | Some r1 \<Rightarrow>
         (case Option.bind (skip_number r1) (skip_char CHR ''.'') of
            None \<Rightarrow> False
          | Some r2 \<Rightarrow>
             (case skip_number r2 of
                None \<Rightarrow> False
              | Some r3 \<Rightarrow> skip_suffix CHR ''+'' (skip_suffix CHR ''-'' r3) = [])))"

definition validate_plugin_version :: "string \<Rightarrow> string \<Rightarrow> bool \<Rightarrow> metadata_error option" where
  "validate_plugin_version field version required =
     (let trimmed = trim_space version in
      if trimmed = [] then (if required then Some (EmptyVersion field) else None)
      else if \<not> version_ok trimmed then Some (MalformedVersion field trimmed)
      else None)"

section \<open>Validation\<close>

definition family_validate :: "plugin_family \<Rightarrow> metadata_error option" where
  "family_validate f =
     (let n = trim_space f in
      if n = pf_tool \<or> n = pf_provider \<or> n = pf_verifier \<or> n = pf_agent_strategy then None
      else if n = [] then Some EmptyFamily
      else Some (UnknownFamily f))"

definition mode_validate :: "execution_mode \<Rightarrow> metadata_error option" where
  "mode_validate m =
     (let n = trim_space m in
      if n = pm_external \<or> n = pm_native then None
      else if n = [] then Some EmptyMode
      else Some (UnknownMode m))"

definition pl_normalize :: "plugin_metadata \<Rightarrow> plugin_metadata" where
  "pl_normalize m =
     \<lparr>pl_family = trim_space (pl_family m),
      pl_logical_id = trim_space (pl_logical_id m),
      pl_display_name = trim_space (pl_display_name m),
      pl_contract_version = trim_space (pl_contract_version m),
      pl_implementation_version = trim_space (pl_implementation_version m),
      pl_execution_mode = trim_space (pl_execution_mode m),
      pl_source_path = trim_space (pl_source_path m)\<rparr>"

definition pl_validate :: "plugin_metadata \<Rightarrow> metadata_error option" where
  "pl_validate m0 =
     (let m = pl_normalize m0 in
      case family_validate (pl_family m) of
        Some e \<Rightarrow> Some e
      | None \<Rightarrow>
      if pl_logical_id m = [] then Some EmptyLogicalId
      else if pl_display_name m = [] then Some EmptyDisplayName
      else case validate_plugin_version ''contract version'' (pl_contract_version m) True of
        Some e \<Rightarrow> Some e
      | None \<Rightarrow>
      (case validate_plugin_version ''implementation version'' (pl_implementation_version m) False of
        Some e \<Rightarrow> Some e
      | None \<Rightarrow> mode_validate (pl_execution_mode m)))"

fun metadata_error_text :: "metadata_error \<Rightarrow> string" where
  "metadata_error_text EmptyFamily = ''plugin family must not be empty''"
| "metadata_error_text (UnknownFamily f) = ''unknown plugin family '' @ quote_str f"
| "metadata_error_text EmptyMode = ''plugin execution mode must not be empty''"
| "metadata_error_text (UnknownMode m) = ''unknown plugin execution mode '' @ quote_str m"
| "metadata_error_text EmptyLogicalId = ''plugin logical ID must not be empty''"
| "metadata_error_text EmptyDisplayName = ''plugin display name must not be empty''"
| "metadata_error_text (EmptyVersion field) = ''plugin '' @ field @ '' must not be empty''"
| "metadata_error_text (MalformedVersion field v) =
     ''plugin '' @ field @ '' '' @ quote_str v @ '' must use semantic version format''"
| "metadata_error_text (DuplicateProvenance f i) =
     ''duplicate plugin provenance for family '' @ quote_str f @ '' logical ID '' @ quote_str i"

text \<open>\<^verbatim>\<open>MarshalJSON\<close> and \<^verbatim>\<open>UnmarshalJSON\<close>: both normalize, then validate.\<close>

definition pl_marshal :: "plugin_metadata \<Rightarrow> (metadata_error, plugin_metadata) result" where
  "pl_marshal m =
     (let n = pl_normalize m in case pl_validate n of Some e \<Rightarrow> Inl e | None \<Rightarrow> Inr n)"

definition pl_unmarshal :: "plugin_metadata \<Rightarrow> (metadata_error, plugin_metadata) result" where
  "pl_unmarshal payload =
     (let n = pl_normalize payload in case pl_validate n of Some e \<Rightarrow> Inl e | None \<Rightarrow> Inr n)"

lemma pl_normalize_idem [simp]: "pl_normalize (pl_normalize m) = pl_normalize m"
  by (simp add: pl_normalize_def)

lemma pl_validate_normalize [simp]: "pl_validate (pl_normalize m) = pl_validate m"
  by (simp add: pl_validate_def)

section \<open>Provenance\<close>

record provenance =
  pv_plugins :: "plugin_metadata list"

definition pv_normalize :: "provenance \<Rightarrow> provenance" where
  "pv_normalize p =
     (if pv_plugins p = [] then \<lparr>pv_plugins = []\<rparr>
      else \<lparr>pv_plugins = map pl_normalize (pv_plugins p)\<rparr>)"

text \<open>
  The loop of \<^verbatim>\<open>Provenance.Validate\<close> over the normalized plugins.  The key of \<open>seen\<close> is
  \<^verbatim>\<open>family + "\x00" + logical id\<close>.
\<close>

definition pv_key :: "plugin_metadata \<Rightarrow> string" where
  "pv_key m = pl_family m @ [CHR 0x00] @ pl_logical_id m"

fun pv_validate_loop :: "plugin_metadata list \<Rightarrow> string set \<Rightarrow> metadata_error option" where
  "pv_validate_loop [] seen = None"
| "pv_validate_loop (m # ms) seen =
     (case pl_validate m of
        Some e \<Rightarrow> Some e
      | None \<Rightarrow>
          if pv_key m \<in> seen then Some (DuplicateProvenance (pl_family m) (pl_logical_id m))
          else pv_validate_loop ms (insert (pv_key m) seen))"

definition pv_validate :: "provenance \<Rightarrow> metadata_error option" where
  "pv_validate p = pv_validate_loop (pv_plugins (pv_normalize p)) {}"

definition pv_marshal :: "provenance \<Rightarrow> (metadata_error, provenance) result" where
  "pv_marshal p =
     (let n = pv_normalize p in case pv_validate n of Some e \<Rightarrow> Inl e | None \<Rightarrow> Inr n)"

definition pv_unmarshal :: "provenance \<Rightarrow> (metadata_error, provenance) result" where
  "pv_unmarshal payload =
     (let n = pv_normalize payload in case pv_validate n of Some e \<Rightarrow> Inl e | None \<Rightarrow> Inr n)"

lemma pv_normalize_plugins [simp]: "pv_plugins (pv_normalize p) = map pl_normalize (pv_plugins p)"
  by (simp add: pv_normalize_def)

lemma pv_normalize_idem [simp]: "pv_normalize (pv_normalize p) = pv_normalize p"
  by (simp add: pv_normalize_def comp_def)

lemma pv_validate_normalize [simp]: "pv_validate (pv_normalize p) = pv_validate p"
  by (simp add: pv_validate_def comp_def)

lemma pv_validate_loop_None:
  "pv_validate_loop ms seen = None \<longleftrightarrow>
     (\<forall>m \<in> set ms. pl_validate m = None) \<and> distinct (map pv_key ms) \<and> set (map pv_key ms) \<inter> seen = {}"
  by (induction ms arbitrary: seen) (auto split: option.split)

lemma pv_validate_ok_iff:
  "pv_validate p = None \<longleftrightarrow>
     (\<forall>m \<in> set (pv_plugins p). pl_validate m = None) \<and>
     distinct (map (pv_key \<circ> pl_normalize) (pv_plugins p))"
  by (simp add: pv_validate_def pv_validate_loop_None)

lemma pv_validate_normal_list:
  assumes normal: "\<And>y. y \<in> set ms \<Longrightarrow> pl_normalize y = y \<and> pl_validate y = None"
    and "distinct (map pv_key ms)"
  shows "pv_validate \<lparr>pv_plugins = ms\<rparr> = None"
proof -
  have "map (pv_key \<circ> pl_normalize) ms = map pv_key ms"
    by (rule map_cong [OF refl]) (simp add: normal)
  with assms(2) have "distinct (map (pv_key \<circ> pl_normalize) ms)" by (simp only:)
  with normal show ?thesis unfolding pv_validate_ok_iff by simp
qed

section \<open>Merging\<close>

text \<open>
  \<^verbatim>\<open>mergeProvenance\<close>: metadata that does not validate, or that would make the provenance
  invalid, is dropped; a plugin already there (same family and logical id) is not added again.
\<close>

definition merge_provenance :: "provenance option \<Rightarrow> plugin_metadata \<Rightarrow> provenance option" where
  "merge_provenance existing metadata =
     (let normalized = pl_normalize metadata in
      case pl_validate normalized of
        Some e \<Rightarrow> existing
      | None \<Rightarrow>
         (let plugins = (case existing of None \<Rightarrow> [] | Some p \<Rightarrow> pv_plugins (pv_normalize p)) in
          if existing \<noteq> None \<and>
             (\<exists>current \<in> set plugins. pl_family current = pl_family normalized \<and>
                 pl_logical_id current = pl_logical_id normalized)
          then Some (pv_normalize (the existing))
          else
            (let merged = pv_normalize \<lparr>pv_plugins = plugins @ [normalized]\<rparr> in
             case pv_validate merged of Some e \<Rightarrow> existing | None \<Rightarrow> Some merged)))"

definition pv_ok :: "provenance option \<Rightarrow> bool" where
  "pv_ok p = (case p of None \<Rightarrow> True | Some q \<Rightarrow> pv_validate q = None)"

lemma merge_provenance_ok [inv_intros]: "pv_ok p \<Longrightarrow> pv_ok (merge_provenance p m)"
  by (auto simp: merge_provenance_def pv_ok_def Let_def split: option.split)

text \<open>A valid plugin is recorded after merging it, and no recorded plugin is lost.\<close>

definition pv_recorded :: "provenance option \<Rightarrow> (plugin_family \<times> string) set" where
  "pv_recorded p =
     (case p of None \<Rightarrow> {}
      | Some q \<Rightarrow> (\<lambda>m. (pl_family m, pl_logical_id m)) ` pl_normalize ` set (pv_plugins q))"

lemma valid_family_no_nul:
  assumes "pl_validate m = None"
  shows "CHR 0x00 \<notin> set (pl_family (pl_normalize m))"
proof -
  from assms have "family_validate (pl_family (pl_normalize m)) = None"
    by (simp add: pl_validate_def Let_def split: option.splits)
  then have "pl_family (pl_normalize m) \<in> {pf_tool, pf_provider, pf_verifier, pf_agent_strategy}"
    by (simp add: family_validate_def pl_normalize_def Let_def split: if_splits)
  then show ?thesis by auto
qed

lemma nul_split:
  "c \<notin> set a \<Longrightarrow> c \<notin> set b \<Longrightarrow> a @ c # x = b @ c # y \<Longrightarrow> a = b \<and> x = y"
  by (induction a arbitrary: b) (auto simp: Cons_eq_append_conv)

lemma pv_key_inj:
  assumes "pl_validate m = None" "pl_validate m' = None"
    and "pv_key (pl_normalize m) = pv_key (pl_normalize m')"
  shows "pl_family (pl_normalize m) = pl_family (pl_normalize m') \<and>
         pl_logical_id (pl_normalize m) = pl_logical_id (pl_normalize m')"
  using nul_split [OF valid_family_no_nul [OF assms(1)] valid_family_no_nul [OF assms(2)]] assms(3)
  by (simp add: pv_key_def)

lemma merge_provenance_recorded_ok:
  assumes ok: "pv_ok p" and valid: "pl_validate m = None"
  shows "pv_recorded (merge_provenance p m) =
         insert (pl_family (pl_normalize m), pl_logical_id (pl_normalize m)) (pv_recorded p)"
proof -
  let ?n = "pl_normalize m"
  define ms where "ms = (case p of None \<Rightarrow> [] | Some q \<Rightarrow> pv_plugins (pv_normalize q))"
  have norm: "\<And>x. x \<in> set ms \<Longrightarrow> pl_normalize x = x \<and> pl_validate x = None"
    using ok by (auto simp: ms_def pv_ok_def pv_validate_ok_iff split: option.splits)
  have rec: "pv_recorded p = (\<lambda>m. (pl_family m, pl_logical_id m)) ` set ms"
    by (simp add: ms_def pv_recorded_def split: option.split)
  have dist: "distinct (map pv_key ms)"
    using ok by (auto simp: ms_def pv_ok_def pv_validate_ok_iff comp_def split: option.splits)
  show ?thesis
  proof (cases "\<exists>x \<in> set ms. pl_family x = pl_family ?n \<and> pl_logical_id x = pl_logical_id ?n")
    case True
    then have "p \<noteq> None" by (auto simp: ms_def)
    with True valid have "merge_provenance p m = Some (pv_normalize (the p))"
      by (auto simp: merge_provenance_def ms_def)
    moreover have "pv_recorded (Some (pv_normalize (the p))) = pv_recorded p"
      using \<open>p \<noteq> None\<close> by (auto simp: pv_recorded_def image_image)
    moreover have "(pl_family ?n, pl_logical_id ?n) \<in> pv_recorded p"
      unfolding rec using True by (metis (mono_tags, lifting) image_eqI)
    ultimately show ?thesis by (simp add: insert_absorb)
  next
    case False
    have new: "pv_key ?n \<notin> pv_key ` set ms"
    proof
      assume "pv_key ?n \<in> pv_key ` set ms"
      then obtain x where x: "x \<in> set ms" "pv_key ?n = pv_key x" by auto
      note nx = norm [OF x(1)]
      have "pl_family ?n = pl_family x \<and> pl_logical_id ?n = pl_logical_id x"
        using pv_key_inj [of m x] valid x(2) nx by simp
      with x(1) False show False by metis
    qed
    have v: "pv_validate \<lparr>pv_plugins = ms @ [?n]\<rparr> = None"
    proof (rule pv_validate_normal_list)
      show "pl_normalize y = y \<and> pl_validate y = None" if "y \<in> set (ms @ [?n])" for y
        using that norm [of y] valid by auto
      show "distinct (map pv_key (ms @ [?n]))" using dist new by simp
    qed
    with False valid have "merge_provenance p m = Some (pv_normalize \<lparr>pv_plugins = ms @ [?n]\<rparr>)"
      by (auto simp: merge_provenance_def Let_def simp flip: ms_def)
    moreover have "pl_normalize ` set ms = set ms" using norm by force
    ultimately show ?thesis unfolding rec by (simp add: pv_recorded_def image_Un)
  qed
qed

section \<open>Steps, plans, sessions\<close>

record step =
  step_index :: int
  step_action :: action
  step_observation :: observation
  step_verification :: verification_result
  step_provenance :: "provenance option"

record plan =
  plan_id :: string
  plan_task_id :: string
  plan_summary :: string
  plan_steps :: "step list"
  plan_created_at :: gotime

record session =
  sess_id :: string
  sess_task_id :: string
  sess_status :: session_status
  sess_provenance :: "provenance option"
  sess_created_at :: gotime
  sess_updated_at :: gotime

text \<open>Go's zero values, which the code returns with an error.\<close>

definition zero_plan :: plan where
  "zero_plan = \<lparr>plan_id = [], plan_task_id = [], plan_summary = [], plan_steps = [], plan_created_at = 0\<rparr>"

definition zero_session :: session where
  "zero_session = \<lparr>sess_id = [], sess_task_id = [], sess_status = [], sess_provenance = None,
     sess_created_at = 0, sess_updated_at = 0\<rparr>"

end
