(* ===== verification/Decomposition.thy ===== *)
theory Decomposition
  imports Prelude
begin

text \<open>
  Task decompositions (\<^verbatim>\<open>internal/orchestration/types.go\<close>): subtasks, dependency edges, their
  validation, and the depth-first search for a circular dependency.  The lemmas on them are in
  \<^verbatim>\<open>Decomposition_Correct\<close>.
\<close>

section \<open>Data\<close>

type_synonym subtask_status = string
abbreviation st_pending :: subtask_status where "st_pending \<equiv> ''pending''"
abbreviation st_running :: subtask_status where "st_running \<equiv> ''running''"
abbreviation st_completed :: subtask_status where "st_completed \<equiv> ''completed''"
abbreviation st_failed :: subtask_status where "st_failed \<equiv> ''failed''"

definition status_is_valid :: "subtask_status \<Rightarrow> bool" where
  "status_is_valid s = (s = st_pending \<or> s = st_running \<or> s = st_completed \<or> s = st_failed)"

definition status_normalize :: "subtask_status \<Rightarrow> subtask_status" where
  "status_normalize s =
     (if s = st_pending \<or> s = st_running \<or> s = st_completed \<or> s = st_failed then s else st_pending)"

type_synonym dependency_type = string
abbreviation dt_depends_on :: dependency_type where "dt_depends_on \<equiv> ''depends-on''"
abbreviation dt_sequential :: dependency_type where "dt_sequential \<equiv> ''sequential''"
abbreviation dt_parallel_with :: dependency_type where "dt_parallel_with \<equiv> ''parallel-with''"

definition dependency_type_is_valid :: "dependency_type \<Rightarrow> bool" where
  "dependency_type_is_valid d = (d = dt_depends_on \<or> d = dt_sequential \<or> d = dt_parallel_with)"

record dependency =
  dep_from :: string
  dep_to :: string
  dep_type :: dependency_type

record subtask =
  sub_id :: string
  sub_description :: string
  sub_input :: string
  sub_expected_output :: string
  sub_dependencies :: "string list"
  sub_status :: subtask_status

record task_decomposition =
  td_task_id :: string
  td_subtasks :: "subtask list"
  td_dag :: "dependency list"
  td_metadata :: "string \<rightharpoonup> string"

datatype decomp_error =
    DepFromRequired
  | DepToRequired
  | DepTypeUnsupported dependency_type
  | DepUnknownSubtask string
  | DepSelf string
  | SubIdRequired
  | SubDescriptionRequired string
  | SubStatusUnsupported string subtask_status
  | SubEmptyDependency string
  | SubSelfDependency string
  | SubDuplicateDependency string string
  | SubUnknownDependency string string
  | TaskIdRequired
  | NoSubtasks
  | DuplicateSubtask string
  | Circular "string list"

text \<open>\<^verbatim>\<open>Normalize\<close>: a nil and an empty dependency list are the same list here.\<close>

definition sub_normalize :: "subtask \<Rightarrow> subtask" where
  "sub_normalize s = s\<lparr>sub_status := status_normalize (sub_status s)\<rparr>"

definition sub_marshal :: "subtask \<Rightarrow> subtask" where
  "sub_marshal s = sub_normalize s"

definition sub_unmarshal :: "subtask \<Rightarrow> subtask" where
  "sub_unmarshal payload = sub_normalize payload"

section \<open>Validation\<close>

text \<open>\<^verbatim>\<open>errors.Join\<close> collects the errors in order; the empty list is the nil error.\<close>

definition dependency_validate :: "dependency \<Rightarrow> string set \<Rightarrow> decomp_error list" where
  "dependency_validate d valid_ids =
     (if dep_from d = [] then [DepFromRequired] else []) @
     (if dep_to d = [] then [DepToRequired] else []) @
     (if \<not> dependency_type_is_valid (dep_type d) then [DepTypeUnsupported (dep_type d)] else []) @
     (if dep_from d \<noteq> [] \<and> dep_from d \<notin> valid_ids then [DepUnknownSubtask (dep_from d)] else []) @
     (if dep_to d \<noteq> [] \<and> dep_to d \<notin> valid_ids then [DepUnknownSubtask (dep_to d)] else []) @
     (if dep_from d \<noteq> [] \<and> dep_from d = dep_to d then [DepSelf (dep_from d)] else [])"

text \<open>The loop over a subtask's dependencies, with the set \<^verbatim>\<open>seenDeps\<close>.\<close>

fun sub_validate_deps ::
  "string \<Rightarrow> string set \<Rightarrow> string list \<Rightarrow> string set \<Rightarrow> decomp_error list" where
  "sub_validate_deps sid valid_ids [] seen = []"
| "sub_validate_deps sid valid_ids (dep # deps) seen =
     (if dep = [] then SubEmptyDependency sid # sub_validate_deps sid valid_ids deps seen
      else
        (if dep = sid then [SubSelfDependency sid] else []) @
        (if dep \<in> seen
         then SubDuplicateDependency sid dep # sub_validate_deps sid valid_ids deps seen
         else
           (if dep \<notin> valid_ids then [SubUnknownDependency sid dep] else []) @
           sub_validate_deps sid valid_ids deps (insert dep seen)))"

definition sub_validate_in :: "subtask \<Rightarrow> string set \<Rightarrow> decomp_error list" where
  "sub_validate_in s valid_ids =
     (if sub_id s = [] then [SubIdRequired] else []) @
     (if sub_description s = [] then [SubDescriptionRequired (sub_id s)] else []) @
     (if \<not> status_is_valid (sub_status s) then [SubStatusUnsupported (sub_id s) (sub_status s)] else []) @
     sub_validate_deps (sub_id s) valid_ids (sub_dependencies s) {}"

text \<open>\<^verbatim>\<open>Subtask.Validate\<close>: on its own, a subtask takes its dependencies to exist.\<close>

definition sub_validate :: "subtask \<Rightarrow> decomp_error list" where
  "sub_validate s =
     sub_validate_in s
       ((if sub_id s \<noteq> [] then {sub_id s} else {}) \<union> set (filter (\<lambda>d. d \<noteq> []) (sub_dependencies s)))"

text \<open>The loop that collects the identifiers and reports duplicates.\<close>

fun collect_ids :: "subtask list \<Rightarrow> string set \<Rightarrow> decomp_error list \<times> string set" where
  "collect_ids [] ids = ([], ids)"
| "collect_ids (s # ss) ids =
     (if sub_id s = [] then collect_ids ss ids
      else if sub_id s \<in> ids then
        (let (errs, ids') = collect_ids ss ids in (DuplicateSubtask (sub_id s) # errs, ids'))
      else collect_ids ss (insert (sub_id s) ids))"

section \<open>The dependency graph and its search\<close>

text \<open>
  \<^verbatim>\<open>adjacency map[string][]string\<close> as an association list: \<open>adj_append\<close> is
  \<^verbatim>\<open>adjacency[k] = append(adjacency[k], vs...)\<close>.
\<close>

type_synonym adjacency = "(string \<times> string list) list"

fun adj_append :: "string \<Rightarrow> string list \<Rightarrow> adjacency \<Rightarrow> adjacency" where
  "adj_append k vs [] = [(k, vs)]"
| "adj_append k vs ((k', ws) # adj) =
     (if k' = k then (k', ws @ vs) # adj else (k', ws) # adj_append k vs adj)"

definition adj_get :: "adjacency \<Rightarrow> string \<Rightarrow> string list" where
  "adj_get adj k = (case map_of adj k of None \<Rightarrow> [] | Some vs \<Rightarrow> vs)"

definition adj_add_subtask :: "subtask \<Rightarrow> adjacency \<Rightarrow> adjacency" where
  "adj_add_subtask s adj =
     fold (\<lambda>dep. adj_append dep [sub_id s]) (sub_dependencies s) (adj_append (sub_id s) [] adj)"

definition adj_add_edge :: "dependency \<Rightarrow> adjacency \<Rightarrow> adjacency" where
  "adj_add_edge e adj =
     (if dep_type e = dt_parallel_with then adj else adj_append (dep_from e) [dep_to e] adj)"

definition build_adjacency :: "task_decomposition \<Rightarrow> adjacency" where
  "build_adjacency d = fold adj_add_edge (td_dag d) (fold adj_add_subtask (td_subtasks d) [])"

text \<open>The state \<^verbatim>\<open>walkCycle\<close> shares through its map and slice arguments.\<close>

record dfs =
  visited :: "string \<Rightarrow> bool"
  in_stack :: "string \<Rightarrow> bool"
  path :: "string list"

text \<open>
  \<^verbatim>\<open>walkCycle\<close>.  Each call marks a node that was not visited, so its depth is bounded by the
  number of nodes: that is the fuel, and \<^term>\<open>None\<close> is running out of it.  The inner value is
  the cycle, \<^term>\<open>[]\<close> for Go's nil.
\<close>

function (sequential) walk_cycle :: "nat \<Rightarrow> adjacency \<Rightarrow> string \<Rightarrow> dfs \<Rightarrow> (string list \<times> dfs) option"
  and walk_nexts :: "nat \<Rightarrow> adjacency \<Rightarrow> string \<Rightarrow> string list \<Rightarrow> dfs \<Rightarrow> (string list \<times> dfs) option" where
  "walk_cycle 0 adj node st = None"
| "walk_cycle (Suc n) adj node st =
     walk_nexts n adj node (adj_get adj node)
       (st\<lparr>visited := (visited st)(node := True), in_stack := (in_stack st)(node := True),
           path := path st @ [node]\<rparr>)"
| "walk_nexts n adj node [] st =
     Some ([], st\<lparr>in_stack := (in_stack st)(node := False), path := butlast (path st)\<rparr>)"
| "walk_nexts n adj node (next # nexts) st =
     (if \<not> visited st next then
        (case walk_cycle n adj next st of
           None \<Rightarrow> None
         | Some (cycle, st') \<Rightarrow>
             if cycle \<noteq> [] then Some (cycle, st') else walk_nexts n adj node nexts st')
      else if in_stack st next then
        Some ((if next \<in> set (path st) then dropWhile (\<lambda>x. x \<noteq> next) (path st) else path st) @ [next], st)
      else walk_nexts n adj node nexts st)"
  by pat_completeness auto
termination
  by (relation "measures [\<lambda>x. case x of Inl (n, _) \<Rightarrow> 2 * n | Inr (n, _) \<Rightarrow> 2 * n + 1,
        \<lambda>x. case x of Inl _ \<Rightarrow> 0 | Inr (_, _, _, ns, _) \<Rightarrow> length ns]") auto

text \<open>The loop of \<^verbatim>\<open>findCycle\<close> over the sorted keys.\<close>

fun find_cycle_loop :: "nat \<Rightarrow> adjacency \<Rightarrow> string list \<Rightarrow> dfs \<Rightarrow> string list option" where
  "find_cycle_loop n adj [] st = Some []"
| "find_cycle_loop n adj (k # ks) st =
     (if visited st k then find_cycle_loop n adj ks st
      else case walk_cycle n adj k st of
        None \<Rightarrow> None
      | Some (cycle, st') \<Rightarrow> if cycle \<noteq> [] then Some cycle else find_cycle_loop n adj ks st')"

definition dfs_init :: dfs where
  "dfs_init = \<lparr>visited = (\<lambda>_. False), in_stack = (\<lambda>_. False), path = []\<rparr>"

text \<open>Every node of the graph: the keys and the successors.\<close>

definition adj_nodes :: "adjacency \<Rightarrow> string list" where
  "adj_nodes adj = remdups (map fst adj @ concat (map snd adj))"

definition find_cycle :: "task_decomposition \<Rightarrow> string list option" where
  "find_cycle d =
     (let adj = build_adjacency d in
      find_cycle_loop (Suc (length (adj_nodes adj))) adj (sort (map fst adj)) dfs_init)"

text \<open>\<^verbatim>\<open>formatCycle\<close>.\<close>

definition format_cycle :: "string list \<Rightarrow> string" where
  "format_cycle cycle = join_str '' -> '' cycle"

text \<open>The texts of the errors, and of several joined.\<close>

fun decomp_error_text :: "decomp_error \<Rightarrow> string" where
  "decomp_error_text DepFromRequired = ''dependency from is required''"
| "decomp_error_text DepToRequired = ''dependency to is required''"
| "decomp_error_text (DepTypeUnsupported t) = ''dependency type '' @ quote_str t @ '' is not supported''"
| "decomp_error_text (DepUnknownSubtask i) = ''dependency references unknown subtask '' @ quote_str i"
| "decomp_error_text (DepSelf i) = ''dependency cannot reference itself '' @ quote_str i"
| "decomp_error_text SubIdRequired = ''subtask id is required''"
| "decomp_error_text (SubDescriptionRequired i) = ''subtask '' @ quote_str i @ '' description is required''"
| "decomp_error_text (SubStatusUnsupported i s) =
     ''subtask '' @ quote_str i @ '' has unsupported status '' @ quote_str s"
| "decomp_error_text (SubEmptyDependency i) = ''subtask '' @ quote_str i @ '' has empty dependency id''"
| "decomp_error_text (SubSelfDependency i) = ''subtask '' @ quote_str i @ '' cannot depend on itself''"
| "decomp_error_text (SubDuplicateDependency i x) =
     ''subtask '' @ quote_str i @ '' has duplicate dependency '' @ quote_str x"
| "decomp_error_text (SubUnknownDependency i x) =
     ''subtask '' @ quote_str i @ '' references unknown dependency '' @ quote_str x"
| "decomp_error_text TaskIdRequired = ''task decomposition task_id is required''"
| "decomp_error_text NoSubtasks = ''task decomposition requires at least one subtask''"
| "decomp_error_text (DuplicateSubtask i) = ''duplicate subtask id '' @ quote_str i"
| "decomp_error_text (Circular c) = ''task decomposition contains circular dependency: '' @ format_cycle c"

definition join_decomp_errors :: "decomp_error list \<Rightarrow> string" where
  "join_decomp_errors errs = join_str newline (map decomp_error_text errs)"

text \<open>\<^verbatim>\<open>TaskDecomposition.Validate\<close>.\<close>

definition td_validate_ids :: "task_decomposition \<Rightarrow> decomp_error list" where
  "td_validate_ids d =
     (let (dups, valid_ids) = collect_ids (td_subtasks d) {} in
      (if td_task_id d = [] then [TaskIdRequired] else []) @
      (if td_subtasks d = [] then [NoSubtasks] else []) @
      dups @
      concat (map (\<lambda>s. sub_validate_in s valid_ids) (td_subtasks d)) @
      concat (map (\<lambda>e. dependency_validate e valid_ids) (td_dag d)))"

definition td_validate :: "task_decomposition \<Rightarrow> decomp_error list option" where
  "td_validate d =
     (let errs = td_validate_ids d in
      if errs \<noteq> [] then Some errs
      else case find_cycle d of
        None \<Rightarrow> None
      | Some cycle \<Rightarrow> if cycle \<noteq> [] then Some [Circular cycle] else Some [])"

end
