(* ===== verification/Decomposition_Correct.thy ===== *)
theory Decomposition_Correct
  imports Decomposition
begin

text \<open>
  Correctness of \<^verbatim>\<open>internal/orchestration/types.go\<close>.  The search for a circular dependency
  returns (its fuel is enough), what it reports is a cycle of the dependency graph, and it
  reports one exactly if the graph is cyclic.  So a decomposition that validates has distinct,
  non-empty identifiers, edges between its own subtasks only, and an acyclic graph: the contract
  \<open>valid_graphs\<close> that the scheduler and the orchestrator rely on.
\<close>

section \<open>The graph\<close>

definition adj_edges :: "adjacency \<Rightarrow> (string \<times> string) set" where
  "adj_edges adj = {(a, b). b \<in> set (adj_get adj a)}"

text \<open>The dependency edges a decomposition states, whatever the code does with them.\<close>

definition dep_edges :: "task_decomposition \<Rightarrow> (string \<times> string) set" where
  "dep_edges d =
     {(a, b). (\<exists>s \<in> set (td_subtasks d). a \<in> set (sub_dependencies s) \<and> b = sub_id s) \<or>
              (\<exists>e \<in> set (td_dag d). dep_type e \<noteq> dt_parallel_with \<and> a = dep_from e \<and> b = dep_to e)}"

lemma adj_get_append:
  "adj_get (adj_append k vs adj) k' = (if k' = k then adj_get adj k @ vs else adj_get adj k')"
  by (induction k vs adj rule: adj_append.induct) (auto simp: adj_get_def)

lemma adj_edges_append [simp]: "adj_edges (adj_append k vs adj) = adj_edges adj \<union> {k} \<times> set vs"
  by (auto simp: adj_edges_def adj_get_append split: if_splits)

lemma adj_edges_fold_deps:
  "adj_edges (fold (\<lambda>dep. adj_append dep [b]) deps adj) = adj_edges adj \<union> set deps \<times> {b}"
  by (induction deps arbitrary: adj) auto

lemma adj_edges_add_subtask [simp]:
  "adj_edges (adj_add_subtask s adj) = adj_edges adj \<union> set (sub_dependencies s) \<times> {sub_id s}"
  by (simp add: adj_add_subtask_def adj_edges_fold_deps)

lemma adj_edges_fold_subtasks:
  "adj_edges (fold adj_add_subtask ss adj) =
   adj_edges adj \<union> {(a, b). \<exists>s \<in> set ss. a \<in> set (sub_dependencies s) \<and> b = sub_id s}"
  by (induction ss arbitrary: adj) auto

lemma adj_edges_fold_dag:
  "adj_edges (fold adj_add_edge es adj) =
   adj_edges adj \<union> {(a, b). \<exists>e \<in> set es. dep_type e \<noteq> dt_parallel_with \<and> a = dep_from e \<and> b = dep_to e}"
  by (induction es arbitrary: adj) (auto simp: adj_add_edge_def)

lemma adj_edges_build: "adj_edges (build_adjacency d) = dep_edges d"
  by (auto simp: build_adjacency_def adj_edges_fold_subtasks adj_edges_fold_dag dep_edges_def)
     (simp_all add: adj_edges_def adj_get_def)

lemma adj_get_mem: "b \<in> set (adj_get adj a) \<Longrightarrow> \<exists>vs. (a, vs) \<in> set adj \<and> b \<in> set vs"
  by (cases "map_of adj a") (auto simp: adj_get_def dest: map_of_SomeD)

lemma adj_edges_fst: "(a, b) \<in> adj_edges adj \<Longrightarrow> a \<in> set (map fst adj)"
  using adj_get_mem by (force simp: adj_edges_def)

lemma adj_edges_nodes: "(a, b) \<in> adj_edges adj \<Longrightarrow> a \<in> set (adj_nodes adj) \<and> b \<in> set (adj_nodes adj)"
  using adj_get_mem by (force simp: adj_edges_def adj_nodes_def)

text \<open>A cycle as the search reports it: from a node along edges back to the node.\<close>

definition is_cycle :: "(string \<times> string) set \<Rightarrow> string list \<Rightarrow> bool" where
  "is_cycle E c \<longleftrightarrow> 2 \<le> length c \<and> hd c = last c \<and> successively (\<lambda>a b. (a, b) \<in> E) c"

lemma successively_trancl:
  "successively (\<lambda>a b. (a, b) \<in> E) c \<Longrightarrow> 2 \<le> length c \<Longrightarrow> (hd c, last c) \<in> E\<^sup>+"
proof (induction c)
  case Nil
  then show ?case by simp
next
  case (Cons x c)
  then obtain y c' where c: "c = y # c'" by (cases c) auto
  show ?case
  proof (cases c')
    case Nil
    with Cons c show ?thesis by auto
  next
    case (Cons z zs)
    with Cons.prems c have "(y, last c) \<in> E\<^sup>+" using Cons.IH by simp
    with Cons.prems c show ?thesis by (auto intro: trancl_into_trancl2)
  qed
qed

lemma is_cycle_not_acyclic: "is_cycle E c \<Longrightarrow> \<not> acyclic E"
  using successively_trancl by (fastforce simp: is_cycle_def acyclic_def)

section \<open>The depth-first search\<close>

definition finished :: "dfs \<Rightarrow> string \<Rightarrow> bool" where
  "finished st x \<longleftrightarrow> visited st x \<and> \<not> in_stack st x"

definition dfs_inv :: "(string \<times> string) set \<Rightarrow> dfs \<Rightarrow> bool" where
  "dfs_inv E st \<longleftrightarrow>
     (\<forall>x. in_stack st x \<longleftrightarrow> x \<in> set (path st)) \<and> distinct (path st) \<and>
     (\<forall>x \<in> set (path st). visited st x) \<and>
     successively (\<lambda>a b. (a, b) \<in> E) (path st) \<and>
     (\<forall>x y. finished st x \<longrightarrow> (x, y) \<in> E \<longrightarrow> finished st y) \<and>
     (\<forall>x. finished st x \<longrightarrow> (x, x) \<notin> E\<^sup>+)"

lemma dfs_inv_init [simp]: "dfs_inv E dfs_init"
  by (simp add: dfs_inv_def dfs_init_def finished_def)

lemma finished_closed_trancl:
  assumes "dfs_inv E st" and "(x, y) \<in> E\<^sup>+"
  shows "finished st x \<Longrightarrow> finished st y"
  using assms(2) by (induction rule: trancl_induct) (use assms(1) in \<open>auto simp: dfs_inv_def\<close>)

text \<open>Entering a node.\<close>

definition dfs_push :: "string \<Rightarrow> dfs \<Rightarrow> dfs" where
  "dfs_push node st = st\<lparr>visited := (visited st)(node := True),
     in_stack := (in_stack st)(node := True), path := path st @ [node]\<rparr>"

definition dfs_pop :: "string \<Rightarrow> dfs \<Rightarrow> dfs" where
  "dfs_pop node st = st\<lparr>in_stack := (in_stack st)(node := False), path := butlast (path st)\<rparr>"

lemma finished_push: "\<not> visited st node \<Longrightarrow> finished (dfs_push node st) x \<longleftrightarrow> finished st x"
  by (auto simp: finished_def dfs_push_def)

lemma finished_pop: "visited st node \<Longrightarrow> finished (dfs_pop node st) x \<longleftrightarrow> finished st x \<or> x = node"
  by (auto simp: finished_def dfs_pop_def)

lemma dfs_inv_push:
  assumes inv: "dfs_inv E st" and new: "\<not> visited st node"
    and edge: "path st = [] \<or> (last (path st), node) \<in> E"
  shows "dfs_inv E (dfs_push node st)"
proof -
  have "node \<notin> set (path st)" using inv new by (auto simp: dfs_inv_def)
  moreover have "successively (\<lambda>a b. (a, b) \<in> E) (path st @ [node])"
    using inv edge by (auto simp: dfs_inv_def successively_append_iff)
  ultimately show ?thesis
    unfolding dfs_inv_def finished_push [OF new]
    using inv by (auto simp: dfs_push_def dfs_inv_def split: if_splits)
qed

lemma dfs_inv_pop:
  assumes inv: "dfs_inv E st" and p: "path st = p @ [node]"
    and succs: "\<And>y. (node, y) \<in> E \<Longrightarrow> finished st y"
  shows "dfs_inv E (dfs_pop node st)"
proof -
  have vis: "visited st node" and stk: "in_stack st node" using inv p by (auto simp: dfs_inv_def)
  then have not_fin: "\<not> finished st node" by (simp add: finished_def)
  have acyc: "(node, node) \<notin> E\<^sup>+"
  proof
    assume "(node, node) \<in> E\<^sup>+"
    then obtain y where "(node, y) \<in> E" "y = node \<or> (y, node) \<in> E\<^sup>+"
      by (metis tranclD rtranclD)
    with succs finished_closed_trancl [OF inv] have "finished st node" by blast
    with not_fin show False ..
  qed
  have "successively (\<lambda>a b. (a, b) \<in> E) p" "distinct p" "node \<notin> set p"
    using inv p by (auto simp: dfs_inv_def successively_append_iff)
  with inv p acyc succs finished_pop [OF vis] show ?thesis
    unfolding dfs_inv_def by (simp add: dfs_pop_def)
qed

lemma walk_cycle_Suc: "walk_cycle (Suc n) adj node st = walk_nexts n adj node (adj_get adj node) (dfs_push node st)"
  by (simp add: dfs_push_def)

lemma walk_nexts_Nil: "walk_nexts n adj node [] st = Some ([], dfs_pop node st)"
  by (simp add: dfs_pop_def)

lemmas walk_simps = walk_cycle.simps(1) walk_cycle_Suc walk_nexts_Nil walk_nexts.simps(2)

declare walk_cycle.simps [simp del] walk_nexts.simps [simp del]

lemma walk_visited_mono:
  "walk_cycle n adj node st = Some (c, st') \<Longrightarrow> visited st x \<Longrightarrow> visited st' x"
  "walk_nexts n adj node nexts st = Some (c, st') \<Longrightarrow> visited st x \<Longrightarrow> visited st' x"
proof (induction n adj node st and n adj node nexts st arbitrary: c st' and c st'
    rule: walk_cycle_walk_nexts.induct)
  case (2 n adj node st)
  then show ?case by (simp add: walk_simps dfs_push_def)
next
  case (4 n adj node nxt nexts st)
  then show ?case by (auto simp: walk_simps split: if_splits option.splits prod.splits)
qed (auto simp: walk_simps dfs_pop_def)

text \<open>What a call without a cycle leaves behind.\<close>

definition walk_post :: "(string \<times> string) set \<Rightarrow> string list \<Rightarrow> string list \<Rightarrow> dfs \<Rightarrow> string \<Rightarrow> bool" where
  "walk_post E c p st' node \<longleftrightarrow>
     (if c \<noteq> [] then is_cycle E c
      else dfs_inv E st' \<and> path st' = p \<and> visited st' node)"

lemma stack_cycle:
  assumes inv: "dfs_inv E st" and p: "path st = p @ [node]"
    and stk: "in_stack st next" and edge: "(node, next) \<in> E"
  shows "is_cycle E (dropWhile (\<lambda>x. x \<noteq> next) (path st) @ [next])"
proof -
  let ?d = "dropWhile (\<lambda>x. x \<noteq> next) (path st)"
  have mem: "next \<in> set (path st)" using inv stk by (simp add: dfs_inv_def)
  then have ne: "?d \<noteq> []" by (simp add: dropWhile_eq_Nil_conv)
  then have hd: "hd ?d = next" by (metis (mono_tags, lifting) hd_dropWhile)
  have last: "last ?d = node" 
    using ne p by (metis last_appendR last_snoc takeWhile_dropWhile_id)
  have "successively (\<lambda>a b. (a, b) \<in> E) (takeWhile (\<lambda>x. x \<noteq> next) (path st) @ ?d)"
    using inv by (simp add: dfs_inv_def)
  then have "successively (\<lambda>a b. (a, b) \<in> E) ?d" by (simp only: successively_append_iff)
  with ne last edge have "successively (\<lambda>a b. (a, b) \<in> E) (?d @ [next])"
    by (simp add: successively_append_iff)
  moreover have "2 \<le> length (?d @ [next])" using ne by (cases ?d) simp_all
  ultimately show ?thesis using ne hd by (simp only: is_cycle_def last_snoc hd_append2 simp_thms)
qed

lemma walk_correct:
  "walk_cycle n adj node st = Some (c, st') \<Longrightarrow> dfs_inv (adj_edges adj) st \<Longrightarrow> \<not> visited st node \<Longrightarrow>
     path st = [] \<or> (last (path st), node) \<in> adj_edges adj \<Longrightarrow>
     walk_post (adj_edges adj) c (path st) st' node"
  "walk_nexts n adj node nexts st = Some (c, st') \<Longrightarrow> dfs_inv (adj_edges adj) st \<Longrightarrow>
     path st = p @ [node] \<Longrightarrow> set nexts \<subseteq> set (adj_get adj node) \<Longrightarrow>
     \<forall>y. (node, y) \<in> adj_edges adj \<longrightarrow> y \<in> set nexts \<or> finished st y \<Longrightarrow>
     walk_post (adj_edges adj) c p st' node"
proof (induction n adj node st and n adj node nexts st arbitrary: c st' and c st' p
    rule: walk_cycle_walk_nexts.induct)
  case (1 adj node st)
  then show ?case by (simp add: walk_simps)
next
  case (2 n adj node st)
  from 2(2) have run: "walk_nexts n adj node (adj_get adj node) (dfs_push node st) = Some (c, st')"
    by (simp add: walk_simps)
  from 2(3-5) have inv: "dfs_inv (adj_edges adj) (dfs_push node st)" by (rule dfs_inv_push)
  show ?case
  proof (rule 2(1) [folded dfs_push_def, OF run inv])
    show "path (dfs_push node st) = path st @ [node]" by (simp add: dfs_push_def)
  qed (auto simp: adj_edges_def)
next
  case (3 n adj node st)
  then have "c = []" "st' = dfs_pop node st" by (auto simp: walk_simps)
  with 3 dfs_inv_pop [OF 3(2,3)] show ?case
    by (auto simp: walk_post_def dfs_pop_def dfs_inv_def)
next
  case (4 n adj node nxt nexts st)
  let ?E = "adj_edges adj"
  have edge: "(node, nxt) \<in> ?E" using 4(7) by (auto simp: adj_edges_def)
  show ?case
  proof (cases "visited st nxt")
    case False
    then obtain c1 st1 where w: "walk_cycle n adj nxt st = Some (c1, st1)"
      using 4(4) by (auto simp: walk_simps split: option.splits)
    have post: "walk_post ?E c1 (path st) st1 nxt"
      using 4(1) [OF False w 4(5) False] edge 4(6) by simp
    show ?thesis
    proof (cases "c1 = []")
      case False
      with w \<open>\<not> visited st nxt\<close> 4(4) have "c = c1" "st' = st1" by (simp_all add: walk_simps)
      with False post show ?thesis by (simp add: walk_post_def)
    next
      case True
      with post have inv1: "dfs_inv ?E st1" and p1: "path st1 = path st" and v1: "visited st1 nxt"
        by (simp_all add: walk_post_def)
      have fin: "finished st1 y" if "finished st y" for y
        using that walk_visited_mono(1) [OF w] inv1 p1 4(5) by (auto simp: finished_def dfs_inv_def)
      have "\<not> in_stack st1 nxt" using inv1 p1 4(5) \<open>\<not> visited st nxt\<close> by (auto simp: dfs_inv_def)
      with v1 have "finished st1 nxt" by (simp add: finished_def)
      with fin 4(8) have rest: "\<forall>y. (node, y) \<in> ?E \<longrightarrow> y \<in> set nexts \<or> finished st1 y" by auto
      from 4(4) w False True \<open>\<not> visited st nxt\<close>
      have run: "walk_nexts n adj node nexts st1 = Some (c, st')" by (simp add: walk_simps)
      show ?thesis
        using 4(2) [OF \<open>\<not> visited st nxt\<close> w] True run inv1 p1 4(6,7) rest by simp
    qed
  next
    case True
    show ?thesis
    proof (cases "in_stack st nxt")
      case True
      with \<open>visited st nxt\<close> 4(4,5) have "c = dropWhile (\<lambda>x. x \<noteq> nxt) (path st) @ [nxt]"
        by (auto simp: walk_simps dfs_inv_def)
      with stack_cycle [OF 4(5,6) True edge] show ?thesis by (simp add: walk_post_def)
    next
      case False
      with True have fin: "finished st nxt" by (simp add: finished_def)
      have run: "walk_nexts n adj node nexts st = Some (c, st')"
        using 4(4) True False by (simp add: walk_simps)
      show ?thesis
        using 4(3) [OF _ False run 4(5,6)] True 4(7,8) fin by auto
    qed
  qed
qed

section \<open>The fuel is enough\<close>

definition unvisited :: "adjacency \<Rightarrow> dfs \<Rightarrow> nat" where
  "unvisited adj st = card {x \<in> set (adj_nodes adj). \<not> visited st x}"

lemma unvisited_mono: "(\<And>x. visited st x \<Longrightarrow> visited st' x) \<Longrightarrow> unvisited adj st' \<le> unvisited adj st"
  by (auto simp: unvisited_def intro!: card_mono)

lemma unvisited_push:
  assumes "node \<in> set (adj_nodes adj)" "\<not> visited st node"
  shows "Suc (unvisited adj (dfs_push node st)) = unvisited adj st"
proof -
  have eq: "{x \<in> set (adj_nodes adj). \<not> visited (dfs_push node st) x} =
        {x \<in> set (adj_nodes adj). \<not> visited st x} - {node}"
    by (auto simp: dfs_push_def)
  show ?thesis unfolding unvisited_def eq by (rule card_Suc_Diff1) (use assms in auto)
qed

lemma unvisited_pos: "node \<in> set (adj_nodes adj) \<Longrightarrow> \<not> visited st node \<Longrightarrow> 0 < unvisited adj st"
  by (auto simp: unvisited_def card_gt_0_iff)

lemma walk_fuel:
  "node \<in> set (adj_nodes adj) \<Longrightarrow> \<not> visited st node \<Longrightarrow> unvisited adj st \<le> n \<Longrightarrow>
     walk_cycle n adj node st \<noteq> None"
  "set nexts \<subseteq> set (adj_nodes adj) \<Longrightarrow> unvisited adj st \<le> n \<Longrightarrow> walk_nexts n adj node nexts st \<noteq> None"
proof (induction n adj node st and n adj node nexts st rule: walk_cycle_walk_nexts.induct)
  case (1 adj node st)
  then show ?case using unvisited_pos by fastforce
next
  case (2 n adj node st)
  have "set (adj_get adj node) \<subseteq> set (adj_nodes adj)"
    using adj_edges_nodes by (auto simp: adj_edges_def)
  then show ?case
    using 2(1) [folded dfs_push_def] unvisited_push [OF 2(2,3)] 2(4) by (simp add: walk_simps)
next
  case (3 n adj node st)
  then show ?case by (simp add: walk_simps)
next
  case (4 n adj node nxt nexts st)
  show ?case
  proof (cases "visited st nxt")
    case False
    with 4 obtain c1 st1 where w: "walk_cycle n adj nxt st = Some (c1, st1)" by auto
    have "unvisited adj st1 \<le> n"
      using unvisited_mono [OF walk_visited_mono(1) [OF w]] 4(5) le_trans by blast
    with 4(2) [OF False w] 4(4) w False show ?thesis by (simp add: walk_simps)
  next
    case True
    then show ?thesis using 4(3) [of ] 4(4,5) by (auto simp: walk_simps)
  qed
qed

text \<open>The loop over the keys: it ends, and without a cycle every key is finished.\<close>

lemma find_cycle_loop_total:
  "unvisited adj st \<le> n \<Longrightarrow> set ks \<subseteq> set (adj_nodes adj) \<Longrightarrow> \<exists>c. find_cycle_loop n adj ks st = Some c"
proof (induction ks arbitrary: st)
  case (Cons k ks)
  show ?case
  proof (cases "visited st k")
    case False
    with Cons.prems obtain c1 st1 where w: "walk_cycle n adj k st = Some (c1, st1)"
      using walk_fuel(1) [of k adj st n] by auto
    have "unvisited adj st1 \<le> n"
      using unvisited_mono [OF walk_visited_mono(1) [OF w]] Cons.prems(1) le_trans by blast
    with Cons False w show ?thesis by simp
  qed (use Cons in simp)
qed simp

lemma find_cycle_loop_correct:
  assumes "find_cycle_loop n adj ks st = Some c" "dfs_inv (adj_edges adj) st" "path st = []"
  shows "if c \<noteq> [] then is_cycle (adj_edges adj) c
         else \<exists>st'. dfs_inv (adj_edges adj) st' \<and> path st' = [] \<and>
                    (\<forall>x. visited st x \<or> x \<in> set ks \<longrightarrow> visited st' x)"
  using assms
proof (induction ks arbitrary: st)
  case Nil
  then show ?case by auto
next
  case (Cons k ks)
  show ?case
  proof (cases "visited st k")
    case True
    with Cons.prems Cons.IH [of st] show ?thesis by (auto split: if_splits)
  next
    case False
    with Cons.prems obtain c1 st1 where w: "walk_cycle n adj k st = Some (c1, st1)"
      by (auto split: option.splits)
    have post: "walk_post (adj_edges adj) c1 [] st1 k"
      using walk_correct(1) [OF w Cons.prems(2) False] Cons.prems(3) by simp
    show ?thesis
    proof (cases "c1 = []")
      case True
      with post have s1: "dfs_inv (adj_edges adj) st1" "path st1 = []" "visited st1 k"
        by (simp_all add: walk_post_def)
      have run: "find_cycle_loop n adj ks st1 = Some c" using Cons.prems False w True by simp
      note mono = walk_visited_mono(1) [OF w]
      from Cons.IH [OF run s1(1,2)] mono s1(3) show ?thesis by (auto split: if_splits)
    next
      case False
      with w \<open>\<not> visited st k\<close> Cons.prems post show ?thesis by (auto simp: walk_post_def)
    qed
  qed
qed

lemma all_finished_acyclic:
  assumes inv: "dfs_inv (adj_edges adj) st" and "path st = []"
    and vis: "\<forall>x \<in> set (map fst adj). visited st x"
  shows "acyclic (adj_edges adj)"
proof (rule acyclicI, rule allI, rule notI)
  fix x
  assume x: "(x, x) \<in> (adj_edges adj)\<^sup>+"
  then obtain y where "(x, y) \<in> adj_edges adj" by (meson tranclD)
  then have "x \<in> set (map fst adj)" by (rule adj_edges_fst)
  with vis inv \<open>path st = []\<close> have "finished st x" by (auto simp: finished_def dfs_inv_def)
  with inv x show False by (auto simp: dfs_inv_def)
qed

lemma find_cycle_total: "\<exists>c. find_cycle d = Some c"
proof -
  let ?adj = "build_adjacency d"
  have "card (set (adj_nodes ?adj)) = length (adj_nodes ?adj)"
    unfolding adj_nodes_def by (rule distinct_card) (rule distinct_remdups)
  then have "unvisited ?adj dfs_init = length (adj_nodes ?adj)"
    by (simp add: unvisited_def dfs_init_def)
  then show ?thesis
    unfolding find_cycle_def Let_def
    by (intro find_cycle_loop_total) (auto simp: adj_nodes_def)
qed

lemma find_cycle_cases:
  assumes "find_cycle d = Some c"
  shows "if c \<noteq> [] then is_cycle (dep_edges d) c else acyclic (dep_edges d)"
proof -
  let ?adj = "build_adjacency d"
  have p: "path dfs_init = []" by (simp add: dfs_init_def)
  note run = find_cycle_loop_correct [OF assms [unfolded find_cycle_def Let_def] dfs_inv_init p]
  show ?thesis
  proof (cases "c = []")
    case True
    with run obtain st' where st': "dfs_inv (adj_edges ?adj) st'" "path st' = []"
        and vis: "\<forall>x. visited dfs_init x \<or> x \<in> set (sort (map fst ?adj)) \<longrightarrow> visited st' x"
      by (simp only: simp_thms if_False) blast
    from vis have "\<forall>x \<in> set (map fst ?adj). visited st' x" by simp
    with all_finished_acyclic [OF st'] True show ?thesis by (simp add: adj_edges_build)
  next
    case False
    with run show ?thesis by (simp add: adj_edges_build)
  qed
qed

section \<open>What validation accepts\<close>

definition subtask_wf :: "subtask \<Rightarrow> string set \<Rightarrow> bool" where
  "subtask_wf s ids \<longleftrightarrow>
     sub_id s \<noteq> [] \<and> sub_description s \<noteq> [] \<and> status_is_valid (sub_status s) \<and>
     distinct (sub_dependencies s) \<and> [] \<notin> set (sub_dependencies s) \<and>
     sub_id s \<notin> set (sub_dependencies s) \<and> set (sub_dependencies s) \<subseteq> ids"

definition dependency_wf :: "dependency \<Rightarrow> string set \<Rightarrow> bool" where
  "dependency_wf e ids \<longleftrightarrow>
     dep_from e \<noteq> [] \<and> dep_to e \<noteq> [] \<and> dependency_type_is_valid (dep_type e) \<and>
     dep_from e \<in> ids \<and> dep_to e \<in> ids \<and> dep_from e \<noteq> dep_to e"

abbreviation sub_ids :: "task_decomposition \<Rightarrow> string list" where
  "sub_ids d \<equiv> map sub_id (td_subtasks d)"

text \<open>The specification of a decomposition, with no mention of how it is checked.\<close>

definition td_wf :: "task_decomposition \<Rightarrow> bool" where
  "td_wf d \<longleftrightarrow>
     td_task_id d \<noteq> [] \<and> td_subtasks d \<noteq> [] \<and> distinct (sub_ids d) \<and>
     (\<forall>s \<in> set (td_subtasks d). subtask_wf s (set (sub_ids d))) \<and>
     (\<forall>e \<in> set (td_dag d). dependency_wf e (set (sub_ids d))) \<and>
     acyclic (dep_edges d)"

lemma sub_validate_deps_Nil:
  "sub_validate_deps sid ids deps seen = [] \<longleftrightarrow>
     [] \<notin> set deps \<and> sid \<notin> set deps \<and> distinct deps \<and> set deps \<inter> seen = {} \<and> set deps \<subseteq> ids"
  by (induction sid ids deps seen rule: sub_validate_deps.induct) auto

lemma sub_validate_in_Nil: "sub_validate_in s ids = [] \<longleftrightarrow> subtask_wf s ids"
  by (auto simp: sub_validate_in_def subtask_wf_def sub_validate_deps_Nil)

lemma dependency_validate_Nil: "dependency_validate e ids = [] \<longleftrightarrow> dependency_wf e ids"
  by (auto simp: dependency_validate_def dependency_wf_def)

lemma collect_ids_snd: "snd (collect_ids ss ids) = ids \<union> (set (map sub_id ss) - {[]})"
  by (induction ss ids rule: collect_ids.induct) (auto simp: split_def Let_def)

lemma collect_ids_fst:
  "fst (collect_ids ss ids) = [] \<longleftrightarrow>
     distinct (filter (\<lambda>i. i \<noteq> []) (map sub_id ss)) \<and> (set (map sub_id ss) - {[]}) \<inter> ids = {}"
  by (induction ss ids rule: collect_ids.induct) (auto simp: split_def Let_def)

lemma subtask_wf_nonempty: "(\<forall>s \<in> set ss. subtask_wf s ids) \<Longrightarrow> [] \<notin> set (map sub_id ss)"
  by (auto simp: subtask_wf_def)

lemma td_validate_ids_Nil:
  "td_validate_ids d = [] \<longleftrightarrow>
     td_task_id d \<noteq> [] \<and> td_subtasks d \<noteq> [] \<and> distinct (sub_ids d) \<and>
     (\<forall>s \<in> set (td_subtasks d). subtask_wf s (set (sub_ids d))) \<and>
     (\<forall>e \<in> set (td_dag d). dependency_wf e (set (sub_ids d)))"
proof -
  let ?ids = "snd (collect_ids (td_subtasks d) {})"
  have "td_validate_ids d = [] \<longleftrightarrow>
     td_task_id d \<noteq> [] \<and> td_subtasks d \<noteq> [] \<and> fst (collect_ids (td_subtasks d) {}) = [] \<and>
     (\<forall>s \<in> set (td_subtasks d). subtask_wf s ?ids) \<and> (\<forall>e \<in> set (td_dag d). dependency_wf e ?ids)"
    by (auto simp: td_validate_ids_def split_def Let_def sub_validate_in_Nil dependency_validate_Nil)
  also have "\<dots> \<longleftrightarrow> td_task_id d \<noteq> [] \<and> td_subtasks d \<noteq> [] \<and> distinct (sub_ids d) \<and>
     (\<forall>s \<in> set (td_subtasks d). subtask_wf s (set (sub_ids d))) \<and>
     (\<forall>e \<in> set (td_dag d). dependency_wf e (set (sub_ids d)))" (is "?l \<longleftrightarrow> ?r")
  proof (cases "[] \<in> set (sub_ids d)")
    case True
    then have "\<not> ?l" "\<not> ?r" using subtask_wf_nonempty by blast+
    then show ?thesis by blast
  next
    case False
    then have "?ids = set (sub_ids d)" and "filter (\<lambda>i. i \<noteq> []) (sub_ids d) = sub_ids d"
      by (auto simp: collect_ids_snd filter_id_conv image_iff)
    then show ?thesis by (simp only: collect_ids_fst) simp
  qed
  finally show ?thesis .
qed

lemma td_validate_total: "\<exists>errs. td_validate d = Some errs"
  using find_cycle_total [of d] by (auto simp: td_validate_def Let_def)

lemma td_validate_iff_wf: "td_validate d = Some [] \<longleftrightarrow> td_wf d"
proof -
  obtain c where c: "find_cycle d = Some c" using find_cycle_total by blast
  have "c = [] \<longleftrightarrow> acyclic (dep_edges d)"
    using find_cycle_cases [OF c] is_cycle_not_acyclic by (auto split: if_splits)
  then show ?thesis
    using c td_validate_ids_Nil [of d] by (auto simp: td_validate_def td_wf_def Let_def)
qed

section \<open>The contract of validated graphs\<close>

text \<open>What a client of validated graphs may rely on, whatever they are made of.\<close>

locale valid_graphs =
  fixes valid :: "'d \<Rightarrow> bool"
    and nodes :: "'d \<Rightarrow> 'n list"
    and edges :: "'d \<Rightarrow> ('n \<times> 'n) set"
  assumes nodes_distinct: "valid d \<Longrightarrow> distinct (nodes d)"
    and edge_nodes: "valid d \<Longrightarrow> (a, b) \<in> edges d \<Longrightarrow> a \<in> set (nodes d) \<and> b \<in> set (nodes d)"
    and edges_acyclic: "valid d \<Longrightarrow> acyclic (edges d)"
begin

lemma edges_finite: "valid d \<Longrightarrow> finite (edges d)"
  by (rule finite_subset [of _ "set (nodes d) \<times> set (nodes d)"]) (auto dest: edge_nodes)

lemma edges_wf: "valid d \<Longrightarrow> wf (edges d)"
  by (simp add: finite_acyclic_wf edges_finite edges_acyclic)

text \<open>Among any unfinished nodes there is one that waits for none of them.\<close>

lemma minimal_exists:
  assumes "valid d" "S \<noteq> {}"
  shows "\<exists>x \<in> S. \<forall>y. (y, x) \<in> edges d \<longrightarrow> y \<notin> S"
  using wfE_min [OF edges_wf [OF assms(1)]] assms(2) by (metis ex_in_conv)

lemma no_self_edge: "valid d \<Longrightarrow> (a, a) \<notin> edges d"
  using edges_acyclic by (meson acyclic_def r_into_trancl')

lemma no_back_edge: "valid d \<Longrightarrow> (a, b) \<in> edges d \<Longrightarrow> (b, a) \<notin> edges d"
  using edges_acyclic by (meson acyclic_def trancl.intros)

lemma preds_finite: "valid d \<Longrightarrow> finite {a. (a, b) \<in> edges d}"
  by (rule finite_subset [of _ "set (nodes d)"]) (auto dest: edge_nodes)

end

abbreviation td_valid :: "task_decomposition \<Rightarrow> bool" where
  "td_valid d \<equiv> td_validate d = Some []"

lemma td_wf_edge_nodes: "td_wf d \<Longrightarrow> (a, b) \<in> dep_edges d \<Longrightarrow> a \<in> set (sub_ids d) \<and> b \<in> set (sub_ids d)"
  by (auto simp: td_wf_def dep_edges_def subtask_wf_def dependency_wf_def)

interpretation td: valid_graphs td_valid sub_ids dep_edges
proof (unfold_locales, goal_cases)
  case (1 d)
  then show ?case by (simp add: td_validate_iff_wf td_wf_def)
next
  case (2 d a b)
  then show ?case unfolding td_validate_iff_wf by (rule td_wf_edge_nodes)
next
  case (3 d)
  then show ?case by (simp add: td_validate_iff_wf td_wf_def)
qed

section \<open>Properties\<close>

text \<open>
  C3. Validation accepts exactly the well-formed decompositions.  \<^verbatim>\<open>TaskDecomposition.Validate\<close>
  returns for every decomposition, and it returns no error exactly if the task id is there, there
  is a subtask, the subtask ids are distinct and not empty, every subtask and every edge is well
  formed and refers to subtasks of the decomposition, and the dependency graph (the subtasks'
  dependencies and the edges that are not parallel-with) is acyclic.
\<close>

theorem validate_accepts_exactly_wf:
  "(\<exists>errs. td_validate d = Some errs) \<and> (td_validate d = Some [] \<longleftrightarrow> td_wf d)"
  by (simp add: td_validate_total td_validate_iff_wf)

text \<open>
  C4. The search for a circular dependency returns for every decomposition, what it reports is a
  cycle of the dependency graph (at least two nodes, the last the same as the first, every node
  followed by one of its dependents), and it reports one exactly if the graph is not acyclic.
\<close>

theorem find_cycle_correct:
  "\<exists>c. find_cycle d = Some c \<and> (c \<noteq> [] \<longleftrightarrow> \<not> acyclic (dep_edges d)) \<and>
       (c = [] \<or> is_cycle (dep_edges d) c)"
proof -
  obtain c where c: "find_cycle d = Some c" using find_cycle_total by blast
  with find_cycle_cases [OF c] is_cycle_not_acyclic show ?thesis by (auto split: if_splits)
qed

end
