(* ===== verification/Scheduler.thy ===== *)
theory Scheduler
  imports Decomposition_Correct
begin

text \<open>
  The dependency-aware scheduler (\<^verbatim>\<open>internal/orchestration/scheduler.go\<close>): its construction
  from a decomposition, \<^verbatim>\<open>Schedule\<close>, \<^verbatim>\<open>MarkComplete\<close> and \<^verbatim>\<open>TopologicalSort\<close>.  The
  lemmas are in \<^verbatim>\<open>Scheduler_Correct\<close>.
\<close>

text \<open>
  Go maps with boolean or number values are total functions here: a key that is not there reads
  as \<^verbatim>\<open>false\<close>, \<^verbatim>\<open>0\<close> or the nil slice, as in Go.
\<close>

record scheduler =
  sc_decomposition :: task_decomposition
  ready_queue :: "string list"
  dependency_count :: "string \<Rightarrow> int"
  dependents :: "string \<Rightarrow> string list"
  sc_subtasks :: "string \<rightharpoonup> subtask"
  ordered_ids :: "string list"
  completed :: "string \<Rightarrow> bool"
  scheduled :: "string \<Rightarrow> bool"
  queued :: "string \<Rightarrow> bool"

datatype scheduler_error =
    InvalidDecomposition "decomp_error list"
  | EmptyEndpoint
  | UnknownEndpoint string
  | Unschedulable string

definition zero_subtask :: subtask where
  "zero_subtask = \<lparr>sub_id = [], sub_description = [], sub_input = [], sub_expected_output = [],
     sub_dependencies = [], sub_status = []\<rparr>"

text \<open>Reading \<^verbatim>\<open>s.subtasks[id]\<close>: the zero subtask for a key that is not there.\<close>

definition sc_subtask :: "scheduler \<Rightarrow> string \<Rightarrow> subtask" where
  "sc_subtask s i = (case sc_subtasks s i of None \<Rightarrow> zero_subtask | Some t \<Rightarrow> t)"

text \<open>The map \<^verbatim>\<open>order[id] = i\<close>, a later index overwriting an earlier one.\<close>

definition index_map :: "string list \<Rightarrow> string \<Rightarrow> nat" where
  "index_map xs = fold (\<lambda>(i, x) m. m(x := i)) (enumerate 0 xs) (\<lambda>_. 0)"

definition sort_ids :: "string list \<Rightarrow> string list \<Rightarrow> string list" where
  "sort_ids ordered ids =
     (if length ids < 2 then ids else sort_key (index_map ordered) ids)"

section \<open>Construction\<close>

text \<open>
  The closure \<^verbatim>\<open>addEdge\<close> of \<^verbatim>\<open>buildGraph\<close>; the set is its map \<^verbatim>\<open>edges\<close>, which drops an
  edge that was added before.
\<close>

definition add_edge ::
  "string \<Rightarrow> string \<Rightarrow> scheduler \<times> (string \<times> string) set
     \<Rightarrow> (scheduler_error, scheduler \<times> (string \<times> string) set) result" where
  "add_edge from to st =
     (let (s, edges) = st in
      if from = [] \<or> to = [] then Inl EmptyEndpoint
      else if sc_subtasks s from = None then Inl (UnknownEndpoint from)
      else if sc_subtasks s to = None then Inl (UnknownEndpoint to)
      else if (from, to) \<in> edges then Inr (s, edges)
      else Inr (s\<lparr>dependents := (dependents s)(from := dependents s from @ [to]),
                  dependency_count := (dependency_count s)(to := dependency_count s to + 1)\<rparr>,
                insert (from, to) edges))"

fun add_edges ::
  "(string \<times> string) list \<Rightarrow> scheduler \<times> (string \<times> string) set
     \<Rightarrow> (scheduler_error, scheduler \<times> (string \<times> string) set) result" where
  "add_edges [] st = Inr st"
| "add_edges ((from, to) # es) st =
     (case add_edge from to st of Inl e \<Rightarrow> Inl e | Inr st' \<Rightarrow> add_edges es st')"

text \<open>The edges in the order the two loops add them.\<close>

definition edge_list :: "task_decomposition \<Rightarrow> (string \<times> string) list" where
  "edge_list d =
     concat (map (\<lambda>t. map (\<lambda>dep. (dep, sub_id t)) (sub_dependencies t)) (td_subtasks d)) @
     map (\<lambda>e. (dep_from e, dep_to e)) (filter (\<lambda>e. dep_type e \<noteq> dt_parallel_with) (td_dag d))"

definition empty_scheduler :: "task_decomposition \<Rightarrow> scheduler" where
  "empty_scheduler d =
     \<lparr>sc_decomposition = d, ready_queue = [], dependency_count = (\<lambda>_. 0), dependents = (\<lambda>_. []),
      sc_subtasks = Map.empty, ordered_ids = [], completed = (\<lambda>_. False),
      scheduled = (\<lambda>_. False), queued = (\<lambda>_. False)\<rparr>"

definition add_subtask :: "subtask \<Rightarrow> scheduler \<Rightarrow> scheduler" where
  "add_subtask t s =
     (let n = sub_normalize t in
      s\<lparr>sc_subtasks := (sc_subtasks s)(sub_id n \<mapsto> n),
        ordered_ids := ordered_ids s @ [sub_id n],
        dependency_count := (dependency_count s)(sub_id n := 0)\<rparr>)"

definition sort_dependents :: "scheduler \<Rightarrow> scheduler" where
  "sort_dependents s =
     s\<lparr>dependents := (\<lambda>i. if sc_subtasks s i \<noteq> None \<and> 1 < length (dependents s i)
                           then sort_key (index_map (ordered_ids s)) (dependents s i)
                           else dependents s i)\<rparr>"

definition queue_root :: "string \<Rightarrow> scheduler \<Rightarrow> scheduler" where
  "queue_root i s =
     (if dependency_count s i = 0
      then s\<lparr>ready_queue := ready_queue s @ [i], queued := (queued s)(i := True)\<rparr>
      else s)"

definition build_graph :: "scheduler \<Rightarrow> (scheduler_error, scheduler) result" where
  "build_graph s0 =
     (let d = sc_decomposition s0; s1 = fold add_subtask (td_subtasks d) s0 in
      case add_edges (edge_list d) (s1, {}) of
        Inl e \<Rightarrow> Inl e
      | Inr (s2, _) \<Rightarrow>
          (let s3 = sort_dependents s2 in Inr (fold queue_root (ordered_ids s3) s3)))"

text \<open>\<^verbatim>\<open>NewDAGScheduler\<close>; \<^term>\<open>None\<close> would be a validation that does not return.\<close>

definition new_dag_scheduler :: "task_decomposition \<Rightarrow> (scheduler_error, scheduler) result option" where
  "new_dag_scheduler d =
     (case td_validate d of
        None \<Rightarrow> None
      | Some errs \<Rightarrow>
          if errs \<noteq> [] then Some (Inl (InvalidDecomposition errs))
          else Some (build_graph (empty_scheduler d)))"

section \<open>Operations\<close>

definition schedule :: "scheduler \<Rightarrow> subtask list \<times> scheduler" where
  "schedule s =
     (if ready_queue s = [] then ([], s)
      else
        (let batch_ids = ready_queue s;
             s' = fold (\<lambda>i s. s\<lparr>queued := (queued s)(i := False), scheduled := (scheduled s)(i := True)\<rparr>)
                    batch_ids (s\<lparr>ready_queue := []\<rparr>)
         in (map (sc_subtask s') batch_ids, s')))"

text \<open>One round of the loop of \<^verbatim>\<open>MarkComplete\<close> over the dependents, with \<^verbatim>\<open>newlyReadyIDs\<close>.\<close>

definition unblock :: "string \<Rightarrow> scheduler \<times> string list \<Rightarrow> scheduler \<times> string list" where
  "unblock i st =
     (let (s, newly) = st in
      if completed s i then (s, newly)
      else
        (let s1 = (if 0 < dependency_count s i
                   then s\<lparr>dependency_count := (dependency_count s)(i := dependency_count s i - 1)\<rparr>
                   else s)
         in if dependency_count s1 i = 0 \<and> \<not> scheduled s1 i \<and> \<not> queued s1 i
            then (s1\<lparr>ready_queue := ready_queue s1 @ [i], queued := (queued s1)(i := True)\<rparr>, newly @ [i])
            else (s1, newly)))"

definition mark_complete :: "string \<Rightarrow> scheduler \<Rightarrow> subtask list \<times> scheduler" where
  "mark_complete i s =
     (if sc_subtasks s i = None then ([], s)
      else if completed s i then ([], s)
      else
        (let s1 = s\<lparr>completed := (completed s)(i := True)\<rparr>;
             (s2, newly) = fold unblock (dependents s1 i) (s1, []);
             s3 = s2\<lparr>ready_queue := sort_ids (ordered_ids s2) (ready_queue s2)\<rparr>
         in (map (sc_subtask s3) (sort_ids (ordered_ids s3) newly), s3)))"

text \<open>
  The loop of \<^verbatim>\<open>TopologicalSort\<close>.  Every round takes one subtask from the ready list; the fuel
  is one round for each subtask and one for the end, and \<^term>\<open>None\<close> is running out of it.
\<close>

definition release :: "string \<Rightarrow> (string \<Rightarrow> int) \<times> string list \<Rightarrow> (string \<Rightarrow> int) \<times> string list" where
  "release i st =
     (let (remaining, ready) = st; r = remaining i - 1 in
      (remaining(i := r), if r = 0 then ready @ [i] else ready))"

fun topo_loop ::
  "nat \<Rightarrow> scheduler \<Rightarrow> (string \<Rightarrow> int) \<Rightarrow> string list \<Rightarrow> subtask list \<Rightarrow> subtask list option" where
  "topo_loop 0 s remaining ready ordered = None"
| "topo_loop (Suc n) s remaining [] ordered = Some ordered"
| "topo_loop (Suc n) s remaining (i # ready) ordered =
     (let (remaining', ready') = fold release (dependents s i) (remaining, ready) in
      topo_loop n s remaining' (sort_ids (ordered_ids s) ready') (ordered @ [sc_subtask s i]))"

definition topological_sort :: "scheduler \<Rightarrow> (scheduler_error, subtask list) result option" where
  "topological_sort s =
     (let remaining = dependency_count s;
          ready = sort_ids (ordered_ids s) (filter (\<lambda>i. remaining i = 0) (ordered_ids s))
      in case topo_loop (Suc (length (ordered_ids s))) s remaining ready [] of
           None \<Rightarrow> None
         | Some ordered \<Rightarrow>
             if length ordered \<noteq> length (ordered_ids s)
             then Some (Inl (Unschedulable (td_task_id (sc_decomposition s))))
             else Some (Inr ordered))"

end
