(* ===== verification/Scheduler_Correct.thy ===== *)
theory Scheduler_Correct
  imports Scheduler
begin

text \<open>
  Correctness of the scheduler.  A validated decomposition always yields a scheduler; whatever
  sequence of \<^verbatim>\<open>Schedule\<close> and \<^verbatim>\<open>MarkComplete\<close> calls follows, a subtask is handed out at
  most once and only when all it depends on is complete, and there is one to hand out as long as
  everything handed out is complete and something is left; \<^verbatim>\<open>TopologicalSort\<close> returns every
  subtask once, each after all it depends on.
\<close>

section \<open>Sorting by the original order\<close>

lemma mset_sort_ids [simp]: "mset (sort_ids os ids) = mset ids"
  by (simp add: sort_ids_def)

lemma set_sort_ids [simp]: "set (sort_ids os ids) = set ids"
  using mset_sort_ids by (metis set_mset_mset)

lemma distinct_sort_ids [simp]: "distinct (sort_ids os ids) = distinct ids"
  by (metis mset_sort_ids mset_eq_imp_distinct_iff)

lemma length_sort_ids [simp]: "length (sort_ids os ids) = length ids"
  by (metis mset_sort_ids size_mset)

lemma sort_ids_sorted: "sorted (map (index_map os) (sort_ids os ids))"
proof (cases "length ids < 2")
  case True
  then show ?thesis by (cases ids) (auto simp: sort_ids_def)
next
  case False
  then show ?thesis by (simp add: sort_ids_def)
qed

section \<open>What construction establishes\<close>

definition preds :: "task_decomposition \<Rightarrow> string \<Rightarrow> string set" where
  "preds d b = {a. (a, b) \<in> dep_edges d}"

text \<open>The part of a scheduler that construction fixes and no operation changes.\<close>

definition sched_graph :: "task_decomposition \<Rightarrow> scheduler \<Rightarrow> bool" where
  "sched_graph d s \<longleftrightarrow>
     sc_decomposition s = d \<and> ordered_ids s = sub_ids d \<and>
     (\<forall>i. sc_subtasks s i = None \<longleftrightarrow> i \<notin> set (sub_ids d)) \<and>
     (\<forall>i t. sc_subtasks s i = Some t \<longrightarrow> sub_id t = i \<and> t \<in> sub_normalize ` set (td_subtasks d)) \<and>
     (\<forall>a. distinct (dependents s a) \<and> set (dependents s a) = {b. (a, b) \<in> dep_edges d})"

lemma set_edge_list: "set (edge_list d) = dep_edges d"
  by (auto simp: edge_list_def dep_edges_def)

lemma sub_id_normalize [simp]: "sub_id (sub_normalize t) = sub_id t"
  by (simp add: sub_normalize_def)

lemma fold_add_subtask_frame [frame_simps]:
  "sc_decomposition (fold add_subtask ts s) = sc_decomposition s"
  "ready_queue (fold add_subtask ts s) = ready_queue s"
  "dependents (fold add_subtask ts s) = dependents s"
  "completed (fold add_subtask ts s) = completed s"
  "scheduled (fold add_subtask ts s) = scheduled s"
  "queued (fold add_subtask ts s) = queued s"
  by (induction ts arbitrary: s) (simp_all add: add_subtask_def Let_def)

lemma fold_add_subtask_ordered: "ordered_ids (fold add_subtask ts s) = ordered_ids s @ map sub_id ts"
  by (induction ts arbitrary: s) (simp_all add: add_subtask_def Let_def)

lemma fold_add_subtask_count:
  "(\<And>i. dependency_count s i = 0) \<Longrightarrow> dependency_count (fold add_subtask ts s) i = 0"
  by (induction ts arbitrary: s) (simp_all add: add_subtask_def Let_def)

lemma fold_add_subtask_None:
  "sc_subtasks (fold add_subtask ts s) i = None \<longleftrightarrow> sc_subtasks s i = None \<and> i \<notin> set (map sub_id ts)"
  by (induction ts arbitrary: s) (auto simp: add_subtask_def Let_def)

lemma fold_add_subtask_Some:
  "sc_subtasks (fold add_subtask ts s) i = Some t \<Longrightarrow>
     sc_subtasks s i = Some t \<or> sub_id t = i \<and> t \<in> sub_normalize ` set ts"
proof (induction ts arbitrary: s)
  case (Cons u ts)
  from Cons.IH [of "add_subtask u s"] Cons.prems show ?case
    by (auto simp: add_subtask_def Let_def split: if_splits)
qed simp

lemmas fold_add_subtask = fold_add_subtask_frame fold_add_subtask_ordered fold_add_subtask_count
  fold_add_subtask_None

definition edges_counted :: "scheduler \<Rightarrow> (string \<times> string) set \<Rightarrow> bool" where
  "edges_counted s E \<longleftrightarrow> finite E \<and>
     (\<forall>a. distinct (dependents s a) \<and> set (dependents s a) = {b. (a, b) \<in> E}) \<and>
     (\<forall>b. dependency_count s b = int (card {a. (a, b) \<in> E}))"

lemma finite_preds: "finite E \<Longrightarrow> finite {a. (a, b) \<in> E}"
  by (rule finite_subset [of _ "fst ` E"]) force+

lemma edges_counted_insert:
  assumes "edges_counted s E" "(from, to) \<notin> E"
  shows "edges_counted (s\<lparr>dependents := (dependents s)(from := dependents s from @ [to]),
                          dependency_count := (dependency_count s)(to := dependency_count s to + 1)\<rparr>)
           (insert (from, to) E)"
proof -
  have "{a. (a, to) \<in> insert (from, to) E} = insert from {a. (a, to) \<in> E}" by auto
  moreover have "{a. (a, b) \<in> insert (from, to) E} = {a. (a, b) \<in> E}" if "b \<noteq> to" for b
    using that by auto
  ultimately show ?thesis
    using assms finite_preds [of E to] by (auto simp: edges_counted_def)
qed

text \<open>With both ends known, every edge is added, and nothing but the two maps changes.\<close>

lemma add_edges_ok:
  assumes "edges_counted s E"
    and "\<forall>(a, b) \<in> set es. a \<noteq> [] \<and> b \<noteq> [] \<and> sc_subtasks s a \<noteq> None \<and> sc_subtasks s b \<noteq> None"
  shows "\<exists>deps cnt. add_edges es (s, E) = Inr (s\<lparr>dependents := deps, dependency_count := cnt\<rparr>, E \<union> set es) \<and>
                    edges_counted (s\<lparr>dependents := deps, dependency_count := cnt\<rparr>) (E \<union> set es)"
  using assms
proof (induction es arbitrary: s E)
  case Nil
  then show ?case
    by (intro exI [of _ "dependents s"] exI [of _ "dependency_count s"]) simp
next
  case (Cons e es)
  obtain a b where e: "e = (a, b)" by (cases e)
  show ?case
  proof (cases "(a, b) \<in> E")
    case True
    then have "add_edge a b (s, E) = Inr (s, E)" using Cons.prems(2) e by (simp add: add_edge_def)
    with Cons.IH [of s E] Cons.prems e True show ?thesis by (simp add: insert_absorb)
  next
    case False
    let ?s = "s\<lparr>dependents := (dependents s)(a := dependents s a @ [b]),
                dependency_count := (dependency_count s)(b := dependency_count s b + 1)\<rparr>"
    have step: "add_edge a b (s, E) = Inr (?s, insert (a, b) E)"
      using False Cons.prems(2) e by (simp add: add_edge_def)
    have "edges_counted ?s (insert (a, b) E)"
      using Cons.prems(1) False by (rule edges_counted_insert)
    from Cons.IH [OF this] Cons.prems(2) e step show ?thesis by auto
  qed
qed

lemma fold_queue_root:
  assumes "distinct is" "set is \<inter> set (ready_queue s) = {}"
  shows "fold queue_root is s =
    s\<lparr>ready_queue := ready_queue s @ filter (\<lambda>i. dependency_count s i = 0) is,
      queued := (\<lambda>i. queued s i \<or> i \<in> set is \<and> dependency_count s i = 0)\<rparr>"
  using assms
proof (induction "is" arbitrary: s)
  case (Cons i "is")
  then show ?case
    by (auto simp: queue_root_def fun_eq_iff intro!: scheduler.equality)
qed simp

section \<open>The invariant of a scheduler in use\<close>

definition ready_now :: "task_decomposition \<Rightarrow> scheduler \<Rightarrow> string \<Rightarrow> bool" where
  "ready_now d s i \<longleftrightarrow> i \<in> set (sub_ids d) \<and> (\<forall>a \<in> preds d i. completed s a)"

definition sched_inv :: "task_decomposition \<Rightarrow> scheduler \<Rightarrow> bool" where
  "sched_inv d s \<longleftrightarrow>
     sched_graph d s \<and> distinct (ready_queue s) \<and>
     (\<forall>i. queued s i \<longleftrightarrow> i \<in> set (ready_queue s)) \<and>
     (\<forall>i. completed s i \<longrightarrow> i \<in> set (sub_ids d)) \<and>
     (\<forall>i. \<not> completed s i \<longrightarrow> dependency_count s i = int (card {a \<in> preds d i. \<not> completed s a})) \<and>
     (\<forall>i. queued s i \<or> scheduled s i \<longrightarrow> ready_now d s i) \<and>
     (\<forall>i. \<not> (queued s i \<and> scheduled s i)) \<and>
     (\<forall>i. ready_now d s i \<longrightarrow> completed s i \<or> queued s i \<or> scheduled s i)"

lemma sched_preds_finite [simp]: "td_valid d \<Longrightarrow> finite (preds d b)"
  unfolding preds_def by (rule td.preds_finite)

lemma td_valid_edge_ends:
  "td_valid d \<Longrightarrow> (a, b) \<in> dep_edges d \<Longrightarrow> a \<noteq> [] \<and> b \<noteq> [] \<and> a \<in> set (sub_ids d) \<and> b \<in> set (sub_ids d)"
  using td.edge_nodes [of d a b] by (auto simp: td_validate_iff_wf td_wf_def subtask_wf_def)

lemma sort_dependents_graph:
  "edges_counted s E \<Longrightarrow> edges_counted (sort_dependents s) E"
  by (simp add: edges_counted_def sort_dependents_def)

lemma count_zero_iff:
  assumes "td_valid d"
  shows "card {a \<in> preds d i. \<not> completed s a} = 0 \<longleftrightarrow> (\<forall>a \<in> preds d i. completed s a)"
  using sched_preds_finite [OF assms] by (auto simp: card_eq_0_iff)

text \<open>The state the construction ends in, before the roots are queued.\<close>

lemma build_graph_ok:
  assumes "td_valid d"
  shows "\<exists>s. build_graph (empty_scheduler d) = Inr s \<and> sched_inv d s \<and>
             (\<forall>i. \<not> completed s i \<and> \<not> scheduled s i)"
proof -
  let ?s1 = "fold add_subtask (td_subtasks d) (empty_scheduler d)"
  have f: "sc_subtasks ?s1 i = None \<longleftrightarrow> i \<notin> set (sub_ids d)"
    "sc_subtasks ?s1 i = Some t \<Longrightarrow> sub_id t = i \<and> t \<in> sub_normalize ` set (td_subtasks d)" for i t
    using fold_add_subtask_Some [of "td_subtasks d" "empty_scheduler d" i t]
    by (simp_all add: fold_add_subtask_None empty_scheduler_def)
  have counted: "edges_counted ?s1 {}"
    by (simp add: edges_counted_def fold_add_subtask empty_scheduler_def)
  have "\<forall>(a, b) \<in> set (edge_list d). a \<noteq> [] \<and> b \<noteq> [] \<and> sc_subtasks ?s1 a \<noteq> None \<and> sc_subtasks ?s1 b \<noteq> None"
    by (auto simp: set_edge_list f(1) dest: td_valid_edge_ends [OF assms])
  from add_edges_ok [OF counted this] obtain deps cnt
    where ae: "add_edges (edge_list d) (?s1, {}) =
                 Inr (?s1\<lparr>dependents := deps, dependency_count := cnt\<rparr>, dep_edges d)"
      and ec: "edges_counted (?s1\<lparr>dependents := deps, dependency_count := cnt\<rparr>) (dep_edges d)"
    by (auto simp: set_edge_list)
  define s3 where "s3 = sort_dependents (?s1\<lparr>dependents := deps, dependency_count := cnt\<rparr>)"
  have ec3: "edges_counted s3 (dep_edges d)" unfolding s3_def using ec by (rule sort_dependents_graph)
  have s3: "ordered_ids s3 = sub_ids d" "ready_queue s3 = []" "sc_decomposition s3 = d"
    "sc_subtasks s3 = sc_subtasks ?s1" "\<And>i. \<not> completed s3 i" "\<And>i. \<not> scheduled s3 i" "\<And>i. \<not> queued s3 i"
    by (simp_all add: s3_def sort_dependents_def fold_add_subtask empty_scheduler_def)
  have dist: "distinct (sub_ids d)" using assms by (rule td.nodes_distinct)
  define s where "s = fold queue_root (ordered_ids s3) s3"
  have s: "s = s3\<lparr>ready_queue := filter (\<lambda>i. dependency_count s3 i = 0) (sub_ids d),
      queued := (\<lambda>i. i \<in> set (sub_ids d) \<and> dependency_count s3 i = 0)\<rparr>"
    unfolding s_def using fold_queue_root [of "ordered_ids s3" s3] dist s3 by (auto simp: fun_eq_iff)
  have g: "sched_graph d s"
    using ec3 f s3(1,3,4) by (auto simp: s sched_graph_def edges_counted_def)
  have cnt3: "dependency_count s3 i = int (card (preds d i))" for i
    using ec3 by (simp add: edges_counted_def preds_def)
  have "sched_inv d s"
    unfolding sched_inv_def using g dist cnt3 s3 sched_preds_finite [OF assms]
    by (auto simp: s ready_now_def card_eq_0_iff)
  moreover have "build_graph (empty_scheduler d) = Inr s"
    using ae by (simp add: build_graph_def empty_scheduler_def [of d] s_def s3_def Let_def)
  ultimately show ?thesis using s3 by (auto simp: s)
qed

section \<open>The operations keep it\<close>

lemma sched_inv_graph: "sched_inv d s \<Longrightarrow> sched_graph d s"
  by (simp add: sched_inv_def)

lemma fold_hand_out:
  "fold (\<lambda>i s. s\<lparr>queued := (queued s)(i := False), scheduled := (scheduled s)(i := True)\<rparr>) is s =
   s\<lparr>queued := (\<lambda>i. queued s i \<and> i \<notin> set is), scheduled := (\<lambda>i. scheduled s i \<or> i \<in> set is)\<rparr>"
  by (induction "is" arbitrary: s) (auto simp: fun_eq_iff intro!: scheduler.equality)

lemma schedule_state:
  "snd (schedule s) =
     s\<lparr>ready_queue := [], queued := (\<lambda>i. queued s i \<and> i \<notin> set (ready_queue s)),
       scheduled := (\<lambda>i. scheduled s i \<or> i \<in> set (ready_queue s))\<rparr>"
  by (auto simp: schedule_def fold_hand_out Let_def intro!: scheduler.equality)

lemma schedule_batch: "fst (schedule s) = map (sc_subtask s) (ready_queue s)"
  by (auto simp: schedule_def fold_hand_out Let_def sc_subtask_def)

lemma schedule_inv [inv_intros]: "sched_inv d s \<Longrightarrow> sched_inv d (snd (schedule s))"
  unfolding sched_inv_def by (auto simp: schedule_state sched_graph_def ready_now_def)

text \<open>The loop over the dependents of a completed subtask.\<close>

definition dec_count :: "scheduler \<Rightarrow> string \<Rightarrow> int" where
  "dec_count s i =
     (if \<not> completed s i \<and> 0 < dependency_count s i then dependency_count s i - 1 else dependency_count s i)"

definition unblocks :: "scheduler \<Rightarrow> string \<Rightarrow> bool" where
  "unblocks s i \<longleftrightarrow> \<not> completed s i \<and> dec_count s i = 0 \<and> \<not> scheduled s i \<and> \<not> queued s i"

definition after_unblock :: "string list \<Rightarrow> scheduler \<Rightarrow> scheduler" where
  "after_unblock ds s =
     s\<lparr>dependency_count := (\<lambda>i. if i \<in> set ds then dec_count s i else dependency_count s i),
       ready_queue := ready_queue s @ filter (unblocks s) ds,
       queued := (\<lambda>i. queued s i \<or> i \<in> set ds \<and> unblocks s i)\<rparr>"

lemma unblock_one:
  "unblock i (s, newly) = (after_unblock [i] s, newly @ filter (unblocks s) [i])"
proof -
  have "fst (unblock i (s, newly)) = after_unblock [i] s"
    by (cases "completed s i"; cases "0 < dependency_count s i"; rule scheduler.equality)
      (auto simp: unblock_def after_unblock_def unblocks_def dec_count_def Let_def fun_eq_iff)
  moreover have "snd (unblock i (s, newly)) = newly @ filter (unblocks s) [i]"
    by (simp add: unblock_def unblocks_def dec_count_def Let_def)
  ultimately show ?thesis by (simp add: prod_eq_iff)
qed

lemma after_unblock_append:
  assumes "i \<notin> set ds"
  shows "after_unblock ds (after_unblock [i] s) = after_unblock (i # ds) s"
    and "filter (unblocks (after_unblock [i] s)) ds = filter (unblocks s) ds"
proof -
  define A where "A = after_unblock [i] s"
  have A: "dependency_count A j = (if j = i then dec_count s i else dependency_count s j)"
    "ready_queue A = ready_queue s @ filter (unblocks s) [i]"
    "queued A j \<longleftrightarrow> queued s j \<or> j = i \<and> unblocks s i"
    "sc_decomposition A = sc_decomposition s" "dependents A = dependents s"
    "sc_subtasks A = sc_subtasks s" "ordered_ids A = ordered_ids s" "completed A = completed s"
    "scheduled A = scheduled s" "scheduler.more A = scheduler.more s" for j
    by (auto simp: A_def after_unblock_def)
  have same: "dec_count A j = dec_count s j" "unblocks A j = unblocks s j" if "j \<noteq> i" for j
    using that A by (simp_all add: dec_count_def unblocks_def)
  have filt: "filter (unblocks A) ds = filter (unblocks s) ds"
    by (rule filter_cong [OF refl]) (use same assms in metis)
  then show "filter (unblocks (after_unblock [i] s)) ds = filter (unblocks s) ds"
    by (simp add: A_def)
  have cnt: "(if j \<in> set ds then dec_count A j else dependency_count A j) =
             (if j \<in> set (i # ds) then dec_count s j else dependency_count s j)" for j
    using same(1) [of j] A(1) [of j] assms by (cases "j = i") simp_all
  have que: "(queued A j \<or> j \<in> set ds \<and> unblocks A j) =
             (queued s j \<or> j \<in> set (i # ds) \<and> unblocks s j)" for j
    using same(2) [of j] A(3) [of j] assms by (cases "j = i") auto
  have "after_unblock ds A = after_unblock (i # ds) s"
  proof (rule scheduler.equality)
    show "dependency_count (after_unblock ds A) = dependency_count (after_unblock (i # ds) s)"
      using cnt by (simp add: after_unblock_def fun_eq_iff)
    show "queued (after_unblock ds A) = queued (after_unblock (i # ds) s)"
      using que by (simp add: after_unblock_def fun_eq_iff)
    show "ready_queue (after_unblock ds A) = ready_queue (after_unblock (i # ds) s)"
      using filt A(2) by (simp add: after_unblock_def)
  qed (simp_all add: after_unblock_def A)
  then show "after_unblock ds (after_unblock [i] s) = after_unblock (i # ds) s" by (simp add: A_def)
qed

lemma fold_unblock:
  "distinct ds \<Longrightarrow> fold unblock ds (s, newly) = (after_unblock ds s, newly @ filter (unblocks s) ds)"
proof (induction ds arbitrary: s newly)
  case Nil
  then show ?case by (auto simp: after_unblock_def fun_eq_iff intro!: scheduler.equality)
next
  case (Cons i ds)
  then show ?case by (simp add: unblock_one after_unblock_append)
qed

definition complete_mark :: "string \<Rightarrow> scheduler \<Rightarrow> scheduler" where
  "complete_mark i s = s\<lparr>completed := (completed s)(i := True)\<rparr>"

lemma mark_complete_state:
  assumes "sched_graph d s" "i \<in> set (sub_ids d)" "\<not> completed s i"
  shows "snd (mark_complete i s) =
    (let s2 = after_unblock (dependents s i) (complete_mark i s) in
     s2\<lparr>ready_queue := sort_ids (ordered_ids s) (ready_queue s2)\<rparr>)"
proof -
  have "distinct (dependents s i)" "sc_subtasks s i \<noteq> None"
    using assms by (auto simp: sched_graph_def)
  with assms(3) show ?thesis
    by (auto simp: mark_complete_def complete_mark_def fold_unblock Let_def after_unblock_def)
qed

lemma mark_complete_idle:
  "sched_graph d s \<Longrightarrow> i \<notin> set (sub_ids d) \<or> completed s i \<Longrightarrow> mark_complete i s = ([], s)"
  by (auto simp: mark_complete_def sched_graph_def)

lemma incomplete_preds_mark:
  assumes "td_valid d" "\<not> completed s i"
  shows "card {a \<in> preds d j. \<not> completed (complete_mark i s) a} =
         card {a \<in> preds d j. \<not> completed s a} - (if i \<in> preds d j then 1 else 0)"
proof -
  have "{a \<in> preds d j. \<not> completed (complete_mark i s) a} = {a \<in> preds d j. \<not> completed s a} - {i}"
    by (auto simp: complete_mark_def)
  then show ?thesis using sched_preds_finite [OF assms(1), of j] assms(2)
    by (auto simp: card_Diff_singleton_if)
qed

lemma dec_count_mark:
  assumes v: "td_valid d" and inv: "sched_inv d s" and i: "\<not> completed s i" and j: "\<not> completed (complete_mark i s) j"
  shows "(if j \<in> set (dependents s i) then dec_count (complete_mark i s) j else dependency_count s j) =
         int (card {a \<in> preds d j. \<not> completed (complete_mark i s) a})"
proof -
  have mem: "j \<in> set (dependents s i) \<longleftrightarrow> i \<in> preds d j"
    using inv by (simp add: sched_inv_def sched_graph_def preds_def)
  have cnt: "dependency_count s j = int (card {a \<in> preds d j. \<not> completed s a})"
    using inv j by (auto simp: sched_inv_def complete_mark_def split: if_splits)
  have pos: "i \<in> preds d j \<Longrightarrow> 0 < card {a \<in> preds d j. \<not> completed s a}"
    using i sched_preds_finite [OF v, of j] by (auto simp: card_gt_0_iff)
  show ?thesis
    using mem cnt pos j incomplete_preds_mark [OF v i, of j]
    by (auto simp: dec_count_def complete_mark_def)
qed

lemma mark_complete_inv [inv_intros]:
  assumes v: "td_valid d" and inv: "sched_inv d s"
  shows "sched_inv d (snd (mark_complete i s))"
proof (cases "i \<in> set (sub_ids d) \<and> \<not> completed s i")
  case False
  then show ?thesis using mark_complete_idle [OF sched_inv_graph [OF inv]] inv by auto
next
  case True
  define s1 where "s1 = complete_mark i s"
  define ds where "ds = dependents s i"
  note g = sched_inv_graph [OF inv]
  have s': "snd (mark_complete i s) = (after_unblock ds s1)\<lparr>ready_queue :=
              sort_ids (ordered_ids s) (ready_queue (after_unblock ds s1))\<rparr>"
    using mark_complete_state [OF g] True by (simp add: s1_def ds_def Let_def)
  have s1: "completed s1 = (completed s)(i := True)" "queued s1 = queued s" "scheduled s1 = scheduled s"
    "ready_queue s1 = ready_queue s" "dependency_count s1 = dependency_count s"
    by (simp_all add: s1_def complete_mark_def)
  have ds: "distinct ds" "j \<in> set ds \<longleftrightarrow> i \<in> preds d j" for j
    using g by (simp_all add: ds_def sched_graph_def preds_def)
  have cnt: "(if j \<in> set ds then dec_count s1 j else dependency_count s j) =
             int (card {a \<in> preds d j. \<not> completed s1 a})" if "\<not> completed s1 j" for j
    unfolding s1_def ds_def
    by (rule dec_count_mark [OF v inv]) (use True that in \<open>simp_all add: s1_def\<close>)
  have ids: "j \<in> set (sub_ids d)" if "j \<in> set ds" for j
    using that ds td.edge_nodes [OF v, of i j] by (simp add: preds_def)
  have new: "unblocks s1 j \<Longrightarrow> j \<in> set ds \<Longrightarrow> \<forall>a \<in> preds d j. completed s1 a" for j
    using cnt [of j] count_zero_iff [OF v, of j s1] by (auto simp: unblocks_def)
  have old: "\<forall>a \<in> preds d j. completed s1 a \<Longrightarrow> \<not> completed s1 j \<Longrightarrow> j \<in> set ds \<Longrightarrow> dec_count s1 j = 0" for j
    using cnt [of j] count_zero_iff [OF v, of j s1] by auto
  have ready: "ready_now d s1 j \<Longrightarrow> completed s1 j \<or> queued s j \<or> scheduled s j \<or> j \<in> set ds \<and> unblocks s1 j" for j
  proof -
    assume r: "ready_now d s1 j"
    show ?thesis
    proof (cases "i \<in> preds d j")
      case True
      with r old [of j] ds(2) [of j] s1 show ?thesis by (auto simp: unblocks_def ready_now_def)
    next
      case False
      with r s1 have "ready_now d s j" by (auto simp: ready_now_def split: if_splits)
      with inv s1 show ?thesis by (auto simp: sched_inv_def)
    qed
  qed
  have keep: "ready_now d s j \<Longrightarrow> ready_now d s1 j" for j
    using s1 by (auto simp: ready_now_def)
  let ?s' = "snd (mark_complete i s)"
  have rn: "ready_now d ?s' = ready_now d s1" and cp: "completed ?s' = completed s1"
    by (auto simp: s' ready_now_def fun_eq_iff after_unblock_def)
  have c: "dependency_count ?s' j = int (card {a \<in> preds d j. \<not> completed ?s' a})" if "\<not> completed ?s' j" for j
    using cnt [of j] that s1(5) unfolding cp by (auto simp: s' after_unblock_def split: if_splits)
  have q: "queued ?s' j \<longleftrightarrow> queued s j \<or> j \<in> set ds \<and> unblocks s1 j" "scheduled ?s' = scheduled s" for j
    using s1 by (auto simp: s' after_unblock_def)
  have rq: "set (ready_queue ?s') = set (ready_queue s) \<union> {j \<in> set ds. unblocks s1 j}"
    using s1 by (auto simp: s' after_unblock_def)
  have nb: "unblocks s1 j \<Longrightarrow> \<not> queued s j \<and> \<not> scheduled s j" for j
    using s1 by (simp add: unblocks_def)
  show ?thesis
    unfolding sched_inv_def
  proof (intro conjI allI impI)
    show "sched_graph d ?s'"
      using g by (simp add: s' after_unblock_def sched_graph_def s1_def complete_mark_def)
    show "distinct (ready_queue ?s')"
      using inv ds(1) nb s1 by (auto simp: s' after_unblock_def sched_inv_def)
    fix j
    show "queued ?s' j \<longleftrightarrow> j \<in> set (ready_queue ?s')"
      using inv unfolding q rq by (auto simp: sched_inv_def)
    show "j \<in> set (sub_ids d)" if "completed ?s' j"
      using that inv True unfolding cp s1(1) by (auto simp: sched_inv_def split: if_splits)
    show "dependency_count ?s' j = int (card {a \<in> preds d j. \<not> completed ?s' a})" if "\<not> completed ?s' j"
      using that by (rule c)
    show "ready_now d ?s' j" if "queued ?s' j \<or> scheduled ?s' j"
    proof (cases "j \<in> set ds \<and> unblocks s1 j")
      case True
      with new ids show ?thesis unfolding rn by (auto simp: ready_now_def)
    next
      case False
      with that inv keep show ?thesis unfolding rn q by (auto simp: sched_inv_def)
    qed
    show "\<not> (queued ?s' j \<and> scheduled ?s' j)"
      using inv nb [of j] unfolding q by (auto simp: sched_inv_def)
    show "completed ?s' j \<or> queued ?s' j \<or> scheduled ?s' j" if "ready_now d ?s' j"
      using that ready [of j] unfolding rn cp q by blast
  qed
qed

end
