(* ===== verification/Scheduler_Properties.thy ===== *)
theory Scheduler_Properties
  imports Scheduler_Correct
begin

text \<open>
  What a client of the scheduler sees: runs of \<^verbatim>\<open>Schedule\<close> and \<^verbatim>\<open>MarkComplete\<close> calls in
  any order, and \<^verbatim>\<open>TopologicalSort\<close>.
\<close>

section \<open>Runs\<close>

datatype sched_call = CallSchedule | CallComplete string

text \<open>A run collects, in order, the subtasks the \<^verbatim>\<open>Schedule\<close> calls handed out.\<close>

fun sched_run :: "sched_call list \<Rightarrow> scheduler \<Rightarrow> subtask list \<times> scheduler" where
  "sched_run [] s = ([], s)"
| "sched_run (CallSchedule # cs) s =
     (let (batch, s1) = schedule s; (rest, s2) = sched_run cs s1 in (batch @ rest, s2))"
| "sched_run (CallComplete i # cs) s = sched_run cs (snd (mark_complete i s))"

lemma sched_run_append:
  "sched_run (cs @ cs') s =
     (let (out1, s1) = sched_run cs s; (out2, s2) = sched_run cs' s1 in (out1 @ out2, s2))"
  by (induction cs s rule: sched_run.induct) (auto simp: Let_def split: prod.splits)

lemma sched_run_inv: "td_valid d \<Longrightarrow> sched_inv d s \<Longrightarrow> sched_inv d (snd (sched_run cs s))"
  by (induction cs s rule: sched_run.induct)
     (auto simp: Let_def split: prod.splits intro: mark_complete_inv dest: schedule_inv)

lemma mark_complete_frame:
  assumes "sched_inv d s"
  shows "completed (snd (mark_complete i s)) j \<longleftrightarrow> completed s j \<or> j = i \<and> i \<in> set (sub_ids d)"
    and "scheduled (snd (mark_complete i s)) = scheduled s"
proof -
  note g = sched_inv_graph [OF assms]
  have "(completed (snd (mark_complete i s)) j \<longleftrightarrow> completed s j \<or> j = i \<and> i \<in> set (sub_ids d)) \<and>
        scheduled (snd (mark_complete i s)) = scheduled s"
  proof (cases "i \<in> set (sub_ids d) \<and> \<not> completed s i")
    case True
    with mark_complete_state [OF g, of i] show ?thesis
      by (auto simp: Let_def after_unblock_def complete_mark_def)
  next
    case False
    with mark_complete_idle [OF g, of i] show ?thesis by auto
  qed
  then show "completed (snd (mark_complete i s)) j \<longleftrightarrow> completed s j \<or> j = i \<and> i \<in> set (sub_ids d)"
    and "scheduled (snd (mark_complete i s)) = scheduled s" by blast+
qed

lemma batch_ids:
  assumes "sched_inv d s"
  shows "map sub_id (fst (schedule s)) = ready_queue s"
proof -
  have "sub_id (sc_subtask s i) = i" if "i \<in> set (ready_queue s)" for i
    using that assms by (auto simp: sched_inv_def sched_graph_def ready_now_def sc_subtask_def
        split: option.splits)
  then show ?thesis by (simp add: schedule_batch map_idI)
qed

text \<open>How a run moves the sets of completed and scheduled subtasks.\<close>

lemma sched_run_completed:
  "td_valid d \<Longrightarrow> sched_inv d s \<Longrightarrow>
     completed (snd (sched_run cs s)) j \<longleftrightarrow> completed s j \<or> CallComplete j \<in> set cs \<and> j \<in> set (sub_ids d)"
proof (induction cs s rule: sched_run.induct)
  case (2 cs s)
  obtain batch s1 where b: "schedule s = (batch, s1)" by (cases "schedule s")
  with 2 schedule_inv [of d s] have inv1: "sched_inv d s1" by simp
  have "completed s1 = completed s" using schedule_state [of s] b by simp
  with 2(1) [OF b [symmetric] refl 2(2) inv1] b show ?case
    by (auto simp: Let_def split: prod.splits)
next
  case (3 i cs s)
  then show ?case using mark_complete_inv [of d s i] mark_complete_frame(1) [of d s i j] by auto
qed simp

lemma sched_run_scheduled:
  "td_valid d \<Longrightarrow> sched_inv d s \<Longrightarrow>
     scheduled (snd (sched_run cs s)) j \<longleftrightarrow> scheduled s j \<or> j \<in> sub_id ` set (fst (sched_run cs s))"
proof (induction cs s rule: sched_run.induct)
  case (2 cs s)
  obtain batch s1 where b: "schedule s = (batch, s1)" by (cases "schedule s")
  with 2 schedule_inv [of d s] have inv1: "sched_inv d s1" by simp
  have "scheduled s1 j \<longleftrightarrow> scheduled s j \<or> j \<in> sub_id ` set batch"
    using schedule_state [of s] batch_ids [OF 2(3)] b by (auto simp flip: set_map)
  with 2(1) [OF b [symmetric] refl 2(2) inv1] b show ?case
    by (auto simp: Let_def split: prod.splits)
next
  case (3 i cs s)
  then show ?case using mark_complete_inv [of d s i] mark_complete_frame(2) [of d s i] by simp
qed simp

lemma sched_run_distinct:
  "td_valid d \<Longrightarrow> sched_inv d s \<Longrightarrow>
     distinct (map sub_id (fst (sched_run cs s))) \<and> (\<forall>t \<in> set (fst (sched_run cs s)). \<not> scheduled s (sub_id t))"
proof (induction cs s rule: sched_run.induct)
  case (2 cs s)
  obtain batch s1 where b: "schedule s = (batch, s1)" by (cases "schedule s")
  with 2 schedule_inv [of d s] have inv1: "sched_inv d s1" by simp
  have ids: "map sub_id batch = ready_queue s" using batch_ids [OF 2(3)] b by simp
  have sch: "scheduled s1 j \<longleftrightarrow> scheduled s j \<or> j \<in> sub_id ` set batch" for j
    using schedule_state [of s] ids b by (auto simp flip: set_map)
  have "distinct (map sub_id batch)" using ids 2(3) by (simp add: sched_inv_def)
  moreover have "\<not> scheduled s (sub_id t)" if "t \<in> set batch" for t
  proof -
    have "sub_id t \<in> set (ready_queue s)" using that ids by (metis image_eqI set_map)
    then show ?thesis using 2(3) by (auto simp: sched_inv_def)
  qed
  ultimately show ?case
    using 2(1) [OF b [symmetric] refl 2(2) inv1] sch b
    by (auto simp: Let_def split: prod.splits) (metis image_eqI)
next
  case (3 i cs s)
  then show ?case using mark_complete_inv [of d s i] mark_complete_frame(2) [of d s i] by simp
qed simp

lemma new_scheduler_inv:
  assumes "new_dag_scheduler d = Some (Inr s)"
  shows "td_valid d \<and> sched_inv d s \<and> (\<forall>i. \<not> completed s i \<and> \<not> scheduled s i)"
proof -
  have v: "td_valid d"
    using assms by (auto simp: new_dag_scheduler_def split: option.splits if_splits)
  with build_graph_ok [OF v] assms show ?thesis by (auto simp: new_dag_scheduler_def)
qed

lemma sched_progress:
  assumes v: "td_valid d" and inv: "sched_inv d s"
    and left: "\<exists>i \<in> set (sub_ids d). \<not> completed s i"
    and fin: "\<forall>i. scheduled s i \<longrightarrow> completed s i"
  shows "ready_queue s \<noteq> []"
proof -
  let ?S = "{i \<in> set (sub_ids d). \<not> completed s i}"
  from left have "?S \<noteq> {}" by auto
  then obtain i where i: "i \<in> ?S" and min: "\<forall>a. (a, i) \<in> dep_edges d \<longrightarrow> a \<notin> ?S"
    using td.minimal_exists [OF v] by meson
  have "completed s a" if "a \<in> preds d i" for a
    using that min td.edge_nodes [OF v, of a i] by (auto simp: preds_def)
  with i have "ready_now d s i" by (simp add: ready_now_def)
  with inv i fin have "queued s i" by (auto simp: sched_inv_def)
  with inv show ?thesis by (auto simp: sched_inv_def)
qed

section \<open>Topological sort\<close>

lemma fold_release:
  "distinct ds \<Longrightarrow> fold release ds (remaining, ready) =
     (\<lambda>i. if i \<in> set ds then remaining i - 1 else remaining i,
      ready @ filter (\<lambda>i. remaining i = 1) ds)"
proof (induction ds arbitrary: remaining ready)
  case (Cons a ds)
  have "filter (\<lambda>i. (remaining(a := remaining a - 1)) i = 1) ds = filter (\<lambda>i. remaining i = 1) ds"
    by (rule filter_cong [OF refl]) (use Cons.prems in auto)
  with Cons show ?case by (auto simp: release_def Let_def fun_eq_iff)
qed simp

text \<open>The state of the loop: \<open>fin\<close> are the identifiers already in the result.\<close>

definition topo_inv ::
  "task_decomposition \<Rightarrow> (string \<Rightarrow> int) \<Rightarrow> string list \<Rightarrow> string list \<Rightarrow> bool" where
  "topo_inv d remaining ready fin \<longleftrightarrow>
     distinct (fin @ ready) \<and> set (fin @ ready) \<subseteq> set (sub_ids d) \<and>
     (\<forall>i. i \<notin> set fin \<longrightarrow> remaining i = int (card (preds d i - set fin))) \<and>
     (\<forall>i \<in> set (sub_ids d). i \<notin> set fin \<longrightarrow> (i \<in> set ready \<longleftrightarrow> remaining i = 0)) \<and>
     (\<forall>xs b ys. fin = xs @ b # ys \<longrightarrow> preds d b \<subseteq> set xs)"

lemma topo_inv_step:
  assumes v: "td_valid d" and inv: "topo_inv d remaining (i # ready) fin"
    and ds: "distinct ds" "set ds = {b. (i, b) \<in> dep_edges d}"
  shows "topo_inv d (\<lambda>j. if j \<in> set ds then remaining j - 1 else remaining j)
           (sort_ids os (ready @ filter (\<lambda>j. remaining j = 1) ds)) (fin @ [i])"
proof -
  have i: "i \<notin> set fin" "i \<in> set (sub_ids d)" "i \<notin> set ready" and "remaining i = 0"
    using inv by (auto simp: topo_inv_def)
  then have pi: "preds d i \<subseteq> set fin"
    using inv sched_preds_finite [OF v, of i] by (auto simp: topo_inv_def card_eq_0_iff)
  have mem: "j \<in> set ds \<longleftrightarrow> i \<in> preds d j" for j using ds by (simp add: preds_def)
  have rem: "(if j \<in> set ds then remaining j - 1 else remaining j) = int (card (preds d j - set (fin @ [i])))"
    if "j \<notin> set fin" for j
  proof -
    have eq: "preds d j - set (fin @ [i]) = (preds d j - set fin) - {i}" by auto
    have "i \<in> preds d j \<Longrightarrow> 0 < card (preds d j - set fin)"
      using i sched_preds_finite [OF v, of j] by (auto simp: card_gt_0_iff)
    then show ?thesis using inv that i mem [of j] sched_preds_finite [OF v, of j] unfolding eq
      by (auto simp: topo_inv_def card_Diff_singleton_if)
  qed
  have ds_new: "j \<notin> set fin" "j \<noteq> i" if "j \<in> set ds" "remaining j = 1 \<or> j \<in> set fin" for j
  proof -
    show ne: "j \<noteq> i" using that mem [of i] td.no_self_edge [OF v, of i] by (auto simp: preds_def)
    show "j \<notin> set fin"
    proof
      assume "j \<in> set fin"
      then obtain xs ys where d: "fin = xs @ j # ys" by (meson split_list)
      with inv have "preds d j \<subseteq> set xs" by (auto simp: topo_inv_def)
      with that(1) mem d i show False by auto
    qed
  qed
  have in_ids: "j \<in> set (sub_ids d)" if "j \<in> set ds" for j
    using that ds td.edge_nodes [OF v, of i j] by auto
  have not_ready: "j \<notin> set ready" if "j \<in> set ds" "remaining j = 1" for j
  proof
    assume "j \<in> set ready"
    moreover have "j \<in> set (sub_ids d)" "j \<notin> set fin" using that in_ids ds_new by blast+
    ultimately have "remaining j = 0" using inv by (auto simp: topo_inv_def)
    with that show False by simp
  qed
  have dist: "distinct ((fin @ [i]) @ sort_ids os (ready @ filter (\<lambda>j. remaining j = 1) ds))"
    using inv ds(1) ds_new not_ready by (auto simp: topo_inv_def)
  have iff: "j \<in> set (sort_ids os (ready @ filter (\<lambda>j. remaining j = 1) ds)) \<longleftrightarrow>
      (if j \<in> set ds then remaining j - 1 else remaining j) = 0"
    if "j \<in> set (sub_ids d)" "j \<notin> set (fin @ [i])" for j
  proof -
    have "j \<in> set ready \<longleftrightarrow> remaining j = 0" using inv that by (auto simp: topo_inv_def)
    moreover have "0 \<le> (if j \<in> set ds then remaining j - 1 else remaining j)"
      using rem [of j] that by simp
    ultimately show ?thesis by (auto split: if_splits)
  qed
  have order: "preds d b \<subseteq> set xs" if "fin @ [i] = xs @ b # ys" for xs b ys
  proof (cases ys rule: rev_cases)
    case Nil
    with that pi show ?thesis by simp
  next
    case (snoc zs z)
    with that have "fin = xs @ b # zs" by simp
    with inv show ?thesis by (auto simp: topo_inv_def)
  qed
  show ?thesis
    unfolding topo_inv_def
    using dist rem iff order inv i in_ids by (auto simp: topo_inv_def)
qed

lemma topo_loop_ok:
  assumes v: "td_valid d" and g: "sched_graph d s"
  shows "topo_inv d remaining ready (map sub_id ordered) \<Longrightarrow>
    length (sub_ids d) - length ordered < n \<Longrightarrow>
    \<exists>ordered' r. topo_loop n s remaining ready ordered = Some ordered' \<and>
       topo_inv d r [] (map sub_id ordered')"
proof (induction n arbitrary: remaining ready ordered)
  case (Suc n)
  show ?case
  proof (cases ready)
    case Nil
    with Suc.prems show ?thesis by auto
  next
    case (Cons i ready')
    let ?ds = "dependents s i"
    have ds: "distinct ?ds" "set ?ds = {b. (i, b) \<in> dep_edges d}"
      using g by (simp_all add: sched_graph_def)
    have i: "i \<in> set (sub_ids d)" using Suc.prems Cons by (simp add: topo_inv_def)
    have id: "sub_id (sc_subtask s i) = i"
      using g i by (auto simp: sched_graph_def sc_subtask_def split: option.splits)
    have "distinct (map sub_id ordered @ ready)" "set (map sub_id ordered @ ready) \<subseteq> set (sub_ids d)"
      using Suc.prems(1) by (auto simp: topo_inv_def)
    then have "length (map sub_id ordered @ ready) \<le> length (sub_ids d)"
      using td.nodes_distinct [OF v] by (metis card_mono distinct_card finite_set)
    then have len: "length (sub_ids d) - length (ordered @ [sc_subtask s i]) < n"
      using Suc.prems(2) Cons by simp
    have "topo_inv d (\<lambda>j. if j \<in> set ?ds then remaining j - 1 else remaining j)
            (sort_ids (ordered_ids s) (ready' @ filter (\<lambda>j. remaining j = 1) ?ds))
            (map sub_id (ordered @ [sc_subtask s i]))"
      using topo_inv_step [OF v _ ds] Suc.prems(1) Cons id by simp
    from Suc.IH [OF this len] show ?thesis
      by (simp add: Cons fold_release [OF ds(1)] Let_def)
  qed
qed simp

lemma topo_inv_complete:
  assumes v: "td_valid d" and inv: "topo_inv d r [] fin"
  shows "set fin = set (sub_ids d)"
proof (rule ccontr)
  assume "set fin \<noteq> set (sub_ids d)"
  with inv have "set (sub_ids d) - set fin \<noteq> {}" by (auto simp: topo_inv_def)
  then obtain i where i: "i \<in> set (sub_ids d) - set fin"
    and min: "\<forall>a. (a, i) \<in> dep_edges d \<longrightarrow> a \<notin> set (sub_ids d) - set fin"
    using td.minimal_exists [OF v] by meson
  then have "preds d i - set fin = {}"
    using td.edge_nodes [OF v] by (auto simp: preds_def)
  then have "card (preds d i - set fin) = 0" by (simp only: card.empty)
  moreover have "r i = int (card (preds d i - set fin))" "r i \<noteq> 0"
    using inv i by (auto simp: topo_inv_def)
  ultimately show False by simp
qed

lemma topo_inv_start:
  assumes v: "td_valid d" and inv: "sched_inv d s" and fresh: "\<forall>i. \<not> completed s i"
  shows "topo_inv d (dependency_count s)
           (sort_ids os (filter (\<lambda>i. dependency_count s i = 0) (sub_ids d))) []"
  using inv fresh td.nodes_distinct [OF v] by (auto simp: topo_inv_def sched_inv_def)

section \<open>An example decomposition\<close>

definition ex_sub :: "string \<Rightarrow> string list \<Rightarrow> subtask" where
  "ex_sub i ds = \<lparr>sub_id = i, sub_description = ''work'', sub_input = [], sub_expected_output = [],
     sub_dependencies = ds, sub_status = st_pending\<rparr>"

text \<open>Two subtasks that are ready at once, and a third that needs both.\<close>

definition ex_td :: task_decomposition where
  "ex_td = \<lparr>td_task_id = ''t'', td_subtasks = [ex_sub ''a'' [], ex_sub ''b'' [''a''], ex_sub ''c'' []],
     td_dag = [\<lparr>dep_from = ''c'', dep_to = ''b'', dep_type = dt_sequential\<rparr>], td_metadata = Map.empty\<rparr>"

definition ex_scheduler :: scheduler where
  "ex_scheduler = (case new_dag_scheduler ex_td of Some (Inr s) \<Rightarrow> s | _ \<Rightarrow> empty_scheduler ex_td)"

lemma ex_td_valid: "td_validate ex_td = Some []"
  by code_simp

lemma ex_scheduler_new: "new_dag_scheduler ex_td = Some (Inr ex_scheduler)"
proof -
  from build_graph_ok [OF ex_td_valid] obtain s where "build_graph (empty_scheduler ex_td) = Inr s" by blast
  then have "new_dag_scheduler ex_td = Some (Inr s)" by (simp add: new_dag_scheduler_def ex_td_valid)
  then show ?thesis by (simp add: ex_scheduler_def)
qed

lemma ex_ids: "sub_ids ex_td = [''a'', ''b'', ''c'']"
  by (simp add: ex_td_def ex_sub_def)

section \<open>Properties\<close>

text \<open>
  C10. A scheduler hands out work in dependency order.  For any sequence of \<^verbatim>\<open>Schedule\<close> and
  \<^verbatim>\<open>MarkComplete\<close> calls on a new scheduler, no subtask is handed out twice, every subtask
  handed out is one of the decomposition's, and when a further \<^verbatim>\<open>Schedule\<close> call hands out a
  subtask, \<^verbatim>\<open>MarkComplete\<close> was called before for everything the subtask depends on.
\<close>

theorem schedule_respects_dependencies:
  assumes new: "new_dag_scheduler d = Some (Inr s0)" and run: "sched_run calls s0 = (out, s)"
  shows "distinct (map sub_id (out @ fst (schedule s))) \<and>
    (\<forall>t \<in> set (fst (schedule s)). sub_id t \<in> set (sub_ids d) \<and>
       (\<forall>a. (a, sub_id t) \<in> dep_edges d \<longrightarrow> CallComplete a \<in> set calls))"
proof -
  from new_scheduler_inv [OF new] have v: "td_valid d" and i0: "sched_inv d s0"
    and fresh: "\<not> completed s0 i" for i by auto
  have inv: "sched_inv d s" using sched_run_inv [OF v i0, of calls] run by simp
  have two: "sched_run (calls @ [CallSchedule]) s0 = (out @ fst (schedule s), snd (schedule s))"
    by (simp add: sched_run_append run Let_def split: prod.splits)
  have "distinct (map sub_id (out @ fst (schedule s)))"
    using sched_run_distinct [OF v i0, of "calls @ [CallSchedule]"] two by simp
  moreover have "sub_id t \<in> set (sub_ids d) \<and> (\<forall>a. (a, sub_id t) \<in> dep_edges d \<longrightarrow> CallComplete a \<in> set calls)"
    if "t \<in> set (fst (schedule s))" for t
  proof -
    have "sub_id t \<in> set (ready_queue s)" using that batch_ids [OF inv] by (metis image_eqI set_map)
    with inv have "ready_now d s (sub_id t)" by (auto simp: sched_inv_def)
    then show ?thesis
      using sched_run_completed [OF v i0, of calls] run fresh by (auto simp: ready_now_def preds_def)
  qed
  ultimately show ?thesis by blast
qed

theorem schedule_respects_dependencies_witness:
  "let s = snd (sched_run [CallSchedule, CallComplete ''a'', CallComplete ''c''] ex_scheduler);
       out = fst (sched_run [CallSchedule, CallComplete ''a'', CallComplete ''c''] ex_scheduler)
   in map sub_id out = [''a'', ''c''] \<and> map sub_id (fst (schedule s)) = [''b''] \<and>
      distinct (map sub_id (out @ fst (schedule s)))"
proof -
  have "map sub_id (fst (sched_run [CallSchedule, CallComplete ''a'', CallComplete ''c''] ex_scheduler)) =
      [''a'', ''c'']"
    "map sub_id (fst (schedule (snd (sched_run [CallSchedule, CallComplete ''a'', CallComplete ''c''] ex_scheduler)))) =
      [''b'']"
    by code_simp+
  with schedule_respects_dependencies [OF ex_scheduler_new,
      of "[CallSchedule, CallComplete ''a'', CallComplete ''c'']"]
  show ?thesis by (metis prod.collapse)
qed

text \<open>
  C11. A scheduler never stalls: after any calls on a new scheduler, if every subtask handed out so
  far was marked complete and some subtask was not, the next \<^verbatim>\<open>Schedule\<close> call hands out
  something.
\<close>

theorem schedule_never_stalls:
  assumes new: "new_dag_scheduler d = Some (Inr s0)" and run: "sched_run calls s0 = (out, s)"
    and fin: "\<forall>t \<in> set out. CallComplete (sub_id t) \<in> set calls"
    and left: "\<exists>i \<in> set (sub_ids d). CallComplete i \<notin> set calls"
  shows "fst (schedule s) \<noteq> []"
proof -
  from new_scheduler_inv [OF new] have v: "td_valid d" and i0: "sched_inv d s0"
    and fresh: "\<not> completed s0 i" "\<not> scheduled s0 i" for i by auto
  have inv: "sched_inv d s" using sched_run_inv [OF v i0, of calls] run by simp
  have c: "completed s i \<longleftrightarrow> CallComplete i \<in> set calls \<and> i \<in> set (sub_ids d)" for i
    using sched_run_completed [OF v i0, of calls i] run fresh by simp
  have sc: "scheduled s i \<longleftrightarrow> i \<in> sub_id ` set out" for i
    using sched_run_scheduled [OF v i0, of calls i] run fresh by simp
  have "scheduled s i \<Longrightarrow> i \<in> set (sub_ids d)" for i using inv by (auto simp: sched_inv_def ready_now_def)
  with sched_progress [OF v inv] left fin c sc show ?thesis by (auto simp: schedule_batch)
qed

theorem schedule_never_stalls_witness:
  "fst (schedule (snd (sched_run [CallSchedule, CallComplete ''a'', CallComplete ''c''] ex_scheduler))) \<noteq> []"
proof -
  have ids: "map sub_id (fst (sched_run [CallSchedule, CallComplete ''a'', CallComplete ''c''] ex_scheduler)) =
      [''a'', ''c'']" by code_simp
  then have "\<forall>t \<in> set (fst (sched_run [CallSchedule, CallComplete ''a'', CallComplete ''c''] ex_scheduler)).
      CallComplete (sub_id t) \<in> set [CallSchedule, CallComplete ''a'', CallComplete ''c'']"
    by (auto simp: map_eq_Cons_conv)
  moreover have "\<exists>i \<in> set (sub_ids ex_td).
      CallComplete i \<notin> set [CallSchedule, CallComplete ''a'', CallComplete ''c'']"
    unfolding ex_ids by (rule bexI [of _ "''b''"]) auto
  ultimately show ?thesis
    by (rule schedule_never_stalls [OF ex_scheduler_new prod.collapse [symmetric]])
qed

text \<open>
  A validated decomposition has a scheduler, and the topological sort of the new scheduler
  returns every subtask exactly once, each after every subtask it depends on.
\<close>

theorem topological_sort_sorts:
  assumes "td_validate d = Some []"
  shows "\<exists>s ordered. new_dag_scheduler d = Some (Inr s) \<and> topological_sort s = Some (Inr ordered) \<and>
    mset (map sub_id ordered) = mset (sub_ids d) \<and>
    (\<forall>xs b ys. map sub_id ordered = xs @ b # ys \<longrightarrow> {a. (a, b) \<in> dep_edges d} \<subseteq> set xs)"
proof -
  note v = assms
  from build_graph_ok [OF v] obtain s where s: "build_graph (empty_scheduler d) = Inr s"
    and inv: "sched_inv d s" and fresh: "\<forall>i. \<not> completed s i" by auto
  have new: "new_dag_scheduler d = Some (Inr s)" using v s by (simp add: new_dag_scheduler_def)
  have g: "sched_graph d s" using inv by (rule sched_inv_graph)
  then have os: "ordered_ids s = sub_ids d" by (simp add: sched_graph_def)
  have "topo_inv d (dependency_count s)
      (sort_ids (sub_ids d) (filter (\<lambda>i. dependency_count s i = 0) (sub_ids d))) (map sub_id [])"
    using topo_inv_start [OF v inv fresh] by simp
  from topo_loop_ok [OF v g this, of "Suc (length (sub_ids d))"] obtain ordered r
    where loop: "topo_loop (Suc (length (sub_ids d))) s (dependency_count s)
        (sort_ids (sub_ids d) (filter (\<lambda>i. dependency_count s i = 0) (sub_ids d))) [] = Some ordered"
      and t: "topo_inv d r [] (map sub_id ordered)" by auto
  have dist: "distinct (map sub_id ordered)" using t by (simp add: topo_inv_def)
  have m: "mset (map sub_id ordered) = mset (sub_ids d)"
    using topo_inv_complete [OF v t] dist td.nodes_distinct [OF v] by (metis set_eq_iff_mset_eq_distinct)
  then have "length ordered = length (sub_ids d)" by (metis length_map size_mset)
  then have "topological_sort s = Some (Inr ordered)"
    using loop os by (simp add: topological_sort_def Let_def)
  with new m t show ?thesis by (auto simp: topo_inv_def preds_def)
qed

theorem topological_sort_sorts_witness:
  "\<exists>ordered. topological_sort ex_scheduler = Some (Inr ordered) \<and>
     mset (map sub_id ordered) = {#''a'', ''b'', ''c''#}"
  using topological_sort_sorts [OF ex_td_valid] ex_scheduler_new
  by (auto simp: ex_ids [simplified])

text \<open>
  \<^verbatim>\<open>TopologicalSort\<close> is only right for a new scheduler.  It starts from the counters that
  \<^verbatim>\<open>MarkComplete\<close> has been counting down, and takes one off again for every edge: once
  \<open>a\<close> is complete in the example, the sort puts \<open>b\<close> before \<open>c\<close>, which \<open>b\<close> depends on, and
  reports no error.
\<close>

theorem topological_sort_after_completion:
  "(''c'', ''b'') \<in> dep_edges ex_td \<and>
   map_option (map_sum id (map sub_id))
     (topological_sort (snd (mark_complete ''a'' ex_scheduler))) = Some (Inr [''a'', ''b'', ''c''])"
proof
  show "(''c'', ''b'') \<in> dep_edges ex_td" by (auto simp: dep_edges_def ex_td_def)
  show "map_option (map_sum id (map sub_id))
     (topological_sort (snd (mark_complete ''a'' ex_scheduler))) = Some (Inr [''a'', ''b'', ''c''])"
    by code_simp
qed

end
