(* ===== verification/Workers.thy ===== *)
theory Workers
  imports Provenance Decomposition
begin

text \<open>
  What the orchestrator runs for one subtask: the worker that wraps the runtime
  (\<^verbatim>\<open>internal/orchestration/worker.go\<close>), the worker interface, the choice of a worker and its
  life cycle (\<^verbatim>\<open>runWorker\<close> and its helpers in \<^verbatim>\<open>orchestrator.go\<close>).

  A worker is a record of operations on a state of type \<^typ>\<open>'w\<close>, which stands for everything
  the worker can change; the two optional interfaces \<^verbatim>\<open>workerReporter\<close> and
  \<^verbatim>\<open>terminableWorker\<close>, which the code finds with type assertions, are options.
\<close>

section \<open>Results of workers\<close>

record worker_result =
  wr_task_id :: string
  wr_subtask_id :: string
  wr_status :: subtask_status
  wr_output :: string
  wr_session_status :: session_status
  wr_verification_passed :: bool
  wr_err :: "go_error option"
  wr_terminated :: bool

definition zero_worker_result :: worker_result where
  "zero_worker_result = \<lparr>wr_task_id = [], wr_subtask_id = [], wr_status = [], wr_output = [],
     wr_session_status = [], wr_verification_passed = False, wr_err = None, wr_terminated = False\<rparr>"

section \<open>The worker interface\<close>

text \<open>A context of package \<^verbatim>\<open>context\<close>: one the caller gives, or one derived from another.\<close>

datatype go_context = CallerContext nat | WithCancel go_context

record 'w worker =
  wk_plan :: "go_context \<Rightarrow> subtask \<Rightarrow> task_decomposition \<Rightarrow> 'w \<Rightarrow> go_error option \<times> 'w"
  wk_execute :: "go_context \<Rightarrow> subtask \<Rightarrow> task_decomposition \<Rightarrow> 'w \<Rightarrow> go_error option \<times> 'w"
  wk_verify :: "go_context \<Rightarrow> subtask \<Rightarrow> task_decomposition \<Rightarrow> 'w \<Rightarrow> go_error option \<times> 'w"
  wk_reporter :: "(('w \<Rightarrow> go_error option \<times> 'w) \<times> ('w \<Rightarrow> worker_result)) option"
  wk_terminate :: "('w \<Rightarrow> 'w) option"

text \<open>\<^verbatim>\<open>NewWorker\<close>: only \<^verbatim>\<open>Execute\<close> does anything, and only with a callback.\<close>

definition new_worker ::
  "(go_context \<Rightarrow> subtask \<Rightarrow> task_decomposition \<Rightarrow> 'w \<Rightarrow> go_error option \<times> 'w) option \<Rightarrow> 'w worker" where
  "new_worker fn = \<lparr>wk_plan = (\<lambda>_ _ _ w. (None, w)),
     wk_execute = (\<lambda>ctx s d w. case fn of None \<Rightarrow> (None, w) | Some f \<Rightarrow> f ctx s d w),
     wk_verify = (\<lambda>_ _ _ w. (None, w)), wk_reporter = None, wk_terminate = None\<rparr>"

section \<open>The worker agent\<close>

text \<open>
  \<open>wa_engine\<close> says whether all five dependencies of the engine are there, \<open>wa_sent\<close> is the
  result channel with what was sent to it (\<^term>\<open>None\<close> for the nil channel), and
  \<open>wa_scope_cancelled\<close> records the call of the cancel function of the scoped context.
\<close>

record worker_agent =
  wa_id :: string
  wa_subtask :: subtask
  wa_engine :: bool
  wa_result :: worker_result
  wa_status :: subtask_status
  wa_sent :: "worker_result list option"
  wa_reported :: bool
  wa_terminated :: bool
  wa_steps :: "step list"
  wa_session :: session
  wa_plan :: plan
  wa_ctx :: "go_context option"
  wa_scope_cancelled :: bool

definition new_worker_agent :: "string \<Rightarrow> subtask \<Rightarrow> bool \<Rightarrow> worker_result list option \<Rightarrow> worker_agent" where
  "new_worker_agent i s engine ch =
     \<lparr>wa_id = i, wa_subtask = sub_normalize s, wa_engine = engine,
      wa_result = zero_worker_result\<lparr>wr_subtask_id := sub_id s, wr_status := st_pending\<rparr>,
      wa_status = st_pending, wa_sent = ch, wa_reported = False, wa_terminated = False,
      wa_steps = [], wa_session = zero_session, wa_plan = zero_plan, wa_ctx = None,
      wa_scope_cancelled = False\<rparr>"

definition wa_task_id :: "worker_agent \<Rightarrow> subtask \<Rightarrow> string" where
  "wa_task_id w s =
     (if wr_task_id (wa_result w) \<noteq> [] then wr_task_id (wa_result w)
      else if wa_id w \<noteq> [] then wa_id w
      else sub_id s)"

definition summarize_worker_output :: "step list \<Rightarrow> string" where
  "summarize_worker_output steps =
     (if steps = [] then []
      else
        (let obs = step_observation (last steps) in
         if obs_final_response obs \<noteq> [] then obs_final_response obs
         else if obs_summary obs \<noteq> [] then obs_summary obs
         else case obs_tool_result obs of
                Some tr \<Rightarrow> if tr_output tr \<noteq> [] then tr_output tr else act_summary (step_action (last steps))
              | None \<Rightarrow> act_summary (step_action (last steps))))"

fun coalesce :: "string list \<Rightarrow> string" where
  "coalesce [] = []"
| "coalesce (v # vs) = (if v \<noteq> [] then v else coalesce vs)"

definition last_step_passed :: "step list \<Rightarrow> bool" where
  "last_step_passed steps = (steps \<noteq> [] \<and> vr_passed (vr_normalize (step_verification (last steps))))"

definition wa_fail :: "subtask \<Rightarrow> go_error \<Rightarrow> worker_agent \<Rightarrow> worker_agent" where
  "wa_fail s err w =
     (let err' = (if errors_is err Canceled \<or> errors_is err DeadlineExceeded then Canceled else err);
          r = (wa_result w)\<lparr>wr_task_id := wa_task_id w s, wr_subtask_id := sub_id s,
                             wr_status := st_failed, wr_err := Some err'\<rparr>;
          r1 = (if sess_status (wa_session w) \<noteq> [] then r\<lparr>wr_session_status := sess_status (wa_session w)\<rparr> else r);
          r2 = (if wa_steps w \<noteq> []
                then r1\<lparr>wr_verification_passed := last_step_passed (wa_steps w),
                         wr_output := summarize_worker_output (wa_steps w)\<rparr>
                else r1)
      in w\<lparr>wa_status := st_failed, wa_result := r2\<rparr>)"

definition wa_capture_success :: "subtask \<Rightarrow> session \<Rightarrow> step list \<Rightarrow> worker_agent \<Rightarrow> worker_agent" where
  "wa_capture_success s ses steps w =
     w\<lparr>wa_status := st_completed,
       wa_result := (wa_result w)\<lparr>wr_task_id := wa_task_id w s, wr_subtask_id := sub_id s,
         wr_status := st_completed, wr_session_status := sess_status ses,
         wr_verification_passed := last_step_passed steps,
         wr_output := summarize_worker_output steps, wr_err := None\<rparr>\<rparr>"

definition engine_required :: go_error where
  "engine_required = Message ''worker engine requires all runtime dependencies''"

definition invalid_subtask :: "decomp_error list \<Rightarrow> go_error" where
  "invalid_subtask errs = Message (join_decomp_errors errs)"

definition wa_plan_op :: "go_context \<Rightarrow> subtask \<Rightarrow> task_decomposition \<Rightarrow> worker_agent \<Rightarrow> go_error option \<times> worker_agent" where
  "wa_plan_op ctx s d w =
     (let s = sub_normalize s; errs = sub_validate s in
      if errs \<noteq> [] then (Some (invalid_subtask errs), wa_fail s (invalid_subtask errs) w)
      else if \<not> wa_engine w then (Some engine_required, wa_fail s engine_required w)
      else
        (None,
         w\<lparr>wa_subtask := s, wa_status := st_running,
           wa_result := \<lparr>wr_task_id = wa_task_id w s, wr_subtask_id = sub_id s, wr_status = st_running,
              wr_output = [], wr_session_status = [], wr_verification_passed = False, wr_err = None,
              wr_terminated = False\<rparr>,
           wa_ctx := Some (WithCancel ctx), wa_scope_cancelled := False\<rparr>))"

text \<open>\<open>run\<close> is \<^verbatim>\<open>Engine.Run\<close> of the worker's engine.\<close>

type_synonym engine_run = "go_context \<Rightarrow> task \<Rightarrow> session \<times> plan \<times> step list \<times> go_error option"

definition subtask_task :: "subtask \<Rightarrow> task" where
  "subtask_task s =
     \<lparr>task_id = sub_id s, task_description = sub_description s,
      task_goal = coalesce [sub_expected_output s, sub_input s, sub_description s],
      task_category = [], task_protocol_hint = [], task_verification_policy = [], task_created_at = 0\<rparr>"

definition wa_execute_op ::
  "engine_run \<Rightarrow> go_context \<Rightarrow> subtask \<Rightarrow> task_decomposition \<Rightarrow> worker_agent \<Rightarrow> go_error option \<times> worker_agent" where
  "wa_execute_op run ctx s d w =
     (let run_ctx = (case wa_ctx w of Some c \<Rightarrow> c | None \<Rightarrow> ctx);
          (ses, pl, steps, err) = run run_ctx (subtask_task s);
          w1 = w\<lparr>wa_session := ses, wa_plan := pl, wa_steps := steps\<rparr>
      in case err of
           Some e \<Rightarrow> (Some e, wa_fail s e w1)
         | None \<Rightarrow> (None, wa_capture_success s ses steps w1))"

definition status_error :: "subtask \<Rightarrow> session_status \<Rightarrow> go_error" where
  "status_error s st = Message (''worker subtask '' @ quote_str (sub_id s) @
     '' ended with session status '' @ quote_str st)"

definition no_steps_error :: "subtask \<Rightarrow> go_error" where
  "no_steps_error s = Message (''worker subtask '' @ quote_str (sub_id s) @ '' produced no execution steps'')"

definition not_verified_error :: "subtask \<Rightarrow> string \<Rightarrow> go_error" where
  "not_verified_error s reason =
     Message (''worker subtask '' @ quote_str (sub_id s) @ '' verification failed: '' @ reason)"

definition wa_verify_op :: "go_context \<Rightarrow> subtask \<Rightarrow> task_decomposition \<Rightarrow> worker_agent \<Rightarrow> go_error option \<times> worker_agent" where
  "wa_verify_op ctx s d w =
     (let r = wa_result w; st = sess_status (wa_session w) in
      case wr_err r of
        Some e \<Rightarrow> (Some e, w)
      | None \<Rightarrow>
          if st \<noteq> ss_success
          then (Some (status_error s st),
                w\<lparr>wa_status := st_failed, wa_result := r\<lparr>wr_status := st_failed, wr_session_status := st,
                   wr_err := Some (status_error s st)\<rparr>\<rparr>)
          else if wa_steps w = []
          then (Some (no_steps_error s),
                w\<lparr>wa_status := st_failed,
                  wa_result := r\<lparr>wr_status := st_failed, wr_err := Some (no_steps_error s)\<rparr>\<rparr>)
          else
            (let v = vr_normalize (step_verification (last (wa_steps w))) in
             if \<not> vr_passed v
             then (Some (not_verified_error s (vr_reason v)),
                   w\<lparr>wa_status := st_failed, wa_result := r\<lparr>wr_status := st_failed,
                      wr_verification_passed := False, wr_err := Some (not_verified_error s (vr_reason v))\<rparr>\<rparr>)
             else (None,
                   w\<lparr>wa_status := st_completed, wa_result := r\<lparr>wr_status := st_completed,
                      wr_session_status := st, wr_verification_passed := True,
                      wr_output := summarize_worker_output (wa_steps w)\<rparr>\<rparr>)))"

text \<open>\<^verbatim>\<open>Report\<close>; the send is recorded, as for \<open>report_result\<close> below.\<close>

definition wa_report :: "worker_agent \<Rightarrow> go_error option \<times> worker_agent" where
  "wa_report w =
     (if wa_reported w then (None, w)
      else case wa_sent w of
             None \<Rightarrow> (Some (Message ''worker result channel is required''), w)
           | Some sent \<Rightarrow>
               (let r = (wa_result w)\<lparr>wr_terminated := wa_terminated w \<or> wr_terminated (wa_result w)\<rparr> in
                (None, w\<lparr>wa_result := r, wa_sent := Some (sent @ [r]), wa_reported := True\<rparr>)))"

definition wa_current_result :: "worker_agent \<Rightarrow> worker_result" where
  "wa_current_result w =
     (wa_result w)\<lparr>wr_terminated := wa_terminated w \<or> wr_terminated (wa_result w)\<rparr>"

definition wa_terminate :: "worker_agent \<Rightarrow> worker_agent" where
  "wa_terminate w =
     (if wa_terminated w then w
      else
        (let w1 = w\<lparr>wa_terminated := True\<rparr>;
             w2 = (if wa_status w = st_running \<and> wr_status (wa_result w) = st_running
                   then w1\<lparr>wa_status := st_failed, wa_result := (wa_result w)\<lparr>wr_status := st_failed,
                             wr_err := (case wr_err (wa_result w) of None \<Rightarrow> Some Canceled | Some e \<Rightarrow> Some e)\<rparr>\<rparr>
                   else w1)
         in w2\<lparr>wa_result := (wa_result w2)\<lparr>wr_terminated := True\<rparr>,
               wa_scope_cancelled := (wa_ctx w \<noteq> None)\<rparr>))"

definition agent_worker :: "engine_run \<Rightarrow> worker_agent worker" where
  "agent_worker run =
     \<lparr>wk_plan = wa_plan_op, wk_execute = wa_execute_op run, wk_verify = wa_verify_op,
      wk_reporter = Some (wa_report, wa_current_result), wk_terminate = Some wa_terminate\<rparr>"

section \<open>The life cycle of a worker\<close>

text \<open>
  What running a worker can change: the orchestrator's \<^verbatim>\<open>Workers\<close> map and what it sent to its
  \<^verbatim>\<open>ResultChannel\<close> (\<^term>\<open>None\<close> for the nil channel), and the workers' own state.
\<close>

record 'w worker_env =
  we_workers :: "string \<rightharpoonup> 'w worker"
  we_sent :: "worker_result list option"
  we_state :: 'w

record worker_selection =
  sel_subtask :: subtask
  sel_decomposition :: task_decomposition
  sel_max_workers :: int
  sel_active_workers :: int

record 'w worker_decision =
  dec_worker :: "'w worker option"
  dec_spawn :: "subtask list"

definition recursive_spawn :: go_error where
  "recursive_spawn = Message ''agent strategy attempted recursive worker spawn''"

definition decision_validate :: "'w worker_decision \<Rightarrow> go_error option" where
  "decision_validate dec = (if 0 < length (dec_spawn dec) then Some recursive_spawn else None)"

text \<open>
  The part of the orchestrator that \<^verbatim>\<open>runWorker\<close> reads: \<^verbatim>\<open>SelectWorker\<close> of the agent
  strategy, if it has it, the worker factory, which may return nil, and the worker limit.
\<close>

record 'w worker_source =
  ws_select :: "(go_context \<Rightarrow> worker_selection \<Rightarrow> (go_error, 'w worker_decision) result) option"
  ws_factory :: "subtask \<Rightarrow> 'w worker option"
  ws_max_workers :: int

definition active_worker_count :: "'w worker_env \<Rightarrow> int" where
  "active_worker_count e = int (card (dom (we_workers e)))"

definition select_worker ::
  "'w worker_source \<Rightarrow> go_context \<Rightarrow> task_decomposition \<Rightarrow> subtask \<Rightarrow> 'w worker_env
     \<Rightarrow> (go_error, 'w worker option) result" where
  "select_worker ws ctx d s e =
     (case ws_select ws of
        None \<Rightarrow> Inr (ws_factory ws s)
      | Some sel \<Rightarrow>
          (case sel ctx \<lparr>sel_subtask = s, sel_decomposition = d, sel_max_workers = ws_max_workers ws,
                        sel_active_workers = active_worker_count e\<rparr> of
             Inl err \<Rightarrow> Inl err
           | Inr dec \<Rightarrow>
               (case decision_validate dec of
                  Some err \<Rightarrow> Inl err
                | None \<Rightarrow>
                    (case dec_worker dec of
                       Some wk \<Rightarrow> Inr (Some wk)
                     | None \<Rightarrow> Inr (ws_factory ws s)))))"

definition merge_reported :: "'w worker \<Rightarrow> 'w \<Rightarrow> worker_result \<Rightarrow> worker_result" where
  "merge_reported wk st fallback =
     (case wk_reporter wk of
        None \<Rightarrow> fallback
      | Some (_, current) \<Rightarrow>
          (let r = current st in
           \<lparr>wr_task_id = (if wr_task_id r = [] then wr_task_id fallback else wr_task_id r),
            wr_subtask_id = (if wr_subtask_id r = [] then wr_subtask_id fallback else wr_subtask_id r),
            wr_status = (if wr_status r = [] then wr_status fallback else wr_status r),
            wr_output = (if wr_output r = [] then wr_output fallback else wr_output r),
            wr_session_status =
              (if wr_session_status r = [] then wr_session_status fallback else wr_session_status r),
            wr_verification_passed =
              (if \<not> wr_verification_passed r then wr_verification_passed fallback else True),
            wr_err = (if wr_err r = None then wr_err fallback else wr_err r),
            wr_terminated = (if \<not> wr_terminated r then wr_terminated fallback else True)\<rparr>))"

text \<open>
  A send to the result channel is recorded where it is made.  The channel is bounded, so in the code the
  send returns only once there is room: this is \<open>publish_step\<close> of \<^verbatim>\<open>Publishing\<close>, where a worker that has not
  published does not go on.
\<close>

definition report_result :: "worker_result \<Rightarrow> 'w worker_env \<Rightarrow> 'w worker_env" where
  "report_result r e = e\<lparr>we_sent := map_option (\<lambda>sent. sent @ [r]) (we_sent e)\<rparr>"

definition publish_result :: "'w worker option \<Rightarrow> worker_result \<Rightarrow> 'w worker_env \<Rightarrow> 'w worker_env" where
  "publish_result wk r e =
     (case wk of
        None \<Rightarrow> report_result r e
      | Some wk \<Rightarrow>
          (case wk_reporter wk of
             None \<Rightarrow> report_result r e
           | Some (report, _) \<Rightarrow>
               (let (err, st) = report (we_state e); e' = e\<lparr>we_state := st\<rparr> in
                if err = None then e' else report_result r e')))"

definition register_worker :: "string \<Rightarrow> 'w worker \<Rightarrow> 'w worker_env \<Rightarrow> 'w worker_env" where
  "register_worker i wk e = e\<lparr>we_workers := (we_workers e)(i \<mapsto> wk)\<rparr>"

definition unregister_worker :: "string \<Rightarrow> 'w worker_env \<Rightarrow> 'w worker_env" where
  "unregister_worker i e = e\<lparr>we_workers := (we_workers e)(i := None)\<rparr>"

definition terminate_worker :: "'w worker \<Rightarrow> 'w worker_env \<Rightarrow> 'w worker_env" where
  "terminate_worker wk e =
     (case wk_terminate wk of None \<Rightarrow> e | Some f \<Rightarrow> e\<lparr>we_state := f (we_state e)\<rparr>)"

text \<open>The three calls in order, stopping at the first error.\<close>

fun run_phases ::
  "(go_context \<Rightarrow> subtask \<Rightarrow> task_decomposition \<Rightarrow> 'w \<Rightarrow> go_error option \<times> 'w) list
     \<Rightarrow> go_context \<Rightarrow> subtask \<Rightarrow> task_decomposition \<Rightarrow> 'w \<Rightarrow> go_error option \<times> 'w" where
  "run_phases [] ctx s d w = (None, w)"
| "run_phases (f # fs) ctx s d w =
     (let (err, w') = f ctx s d w in
      case err of Some e \<Rightarrow> (Some e, w') | None \<Rightarrow> run_phases fs ctx s d w')"

definition nil_worker :: "subtask \<Rightarrow> go_error" where
  "nil_worker s = Message (''worker factory returned nil for subtask '' @ quote_str (sub_id s))"

definition base_result :: "task_decomposition \<Rightarrow> subtask \<Rightarrow> worker_result" where
  "base_result d s = zero_worker_result\<lparr>wr_task_id := td_task_id d, wr_subtask_id := sub_id s,
     wr_status := st_completed\<rparr>"

definition run_worker ::
  "'w worker_source \<Rightarrow> go_context \<Rightarrow> task_decomposition \<Rightarrow> subtask \<Rightarrow> 'w worker_env
     \<Rightarrow> worker_result \<times> 'w worker_env" where
  "run_worker ws ctx d s e =
     (case select_worker ws ctx d s e of
        Inl err \<Rightarrow>
          (let r = (base_result d s)\<lparr>wr_status := st_failed, wr_err := Some err, wr_terminated := True\<rparr>
           in (r, publish_result None r e))
      | Inr None \<Rightarrow>
          (let r = (base_result d s)\<lparr>wr_status := st_failed, wr_err := Some (nil_worker s),
                     wr_terminated := True\<rparr>
           in (r, publish_result None r e))
      | Inr (Some wk) \<Rightarrow>
          (let e1 = register_worker (sub_id s) wk e;
               (err, st) = run_phases [wk_plan wk, wk_execute wk, wk_verify wk] ctx s d (we_state e1);
               r = (case err of
                      Some x \<Rightarrow> (base_result d s)\<lparr>wr_status := st_failed, wr_err := Some x, wr_terminated := True\<rparr>
                    | None \<Rightarrow> (base_result d s)\<lparr>wr_terminated := True\<rparr>);
               r' = merge_reported wk st r;
               e2 = publish_result (Some wk) r' (e1\<lparr>we_state := st\<rparr>)
           in (r', unregister_worker (sub_id s) (terminate_worker wk e2))))"

end
