(* ===== verification/Orchestrator.thy ===== *)
theory Orchestrator
  imports Workers Scheduler_Correct
begin

text \<open>
  The concurrent execution of one decomposition: \<^verbatim>\<open>executeDecomposition\<close> of
  \<^verbatim>\<open>internal/orchestration/orchestrator.go\<close> as a step relation.  A state is what the main
  goroutine and the goroutines of the error group share: the dependency counters, the map
  \<^verbatim>\<open>started\<close>, where every subtask's goroutine stands, the tokens in the semaphore, the results
  channel, the group's first error and the error of its context.  Every step is one blocking
  operation of one goroutine, with the code up to the next one, so all interleavings are covered.
  \<open>runs d t r\<close> says that \<^verbatim>\<open>runWorker\<close> may return \<open>r\<close> for the subtask \<open>t\<close>.
\<close>

section \<open>The dependency counters\<close>

text \<open>The map \<^verbatim>\<open>subtasks\<close>, a later subtask overwriting an earlier one with its identifier.\<close>

definition ex_subtask :: "task_decomposition \<Rightarrow> string \<Rightarrow> subtask" where
  "ex_subtask d i =
     (case fold (\<lambda>t m. m(sub_id t \<mapsto> t)) (td_subtasks d) Map.empty i of
        None \<Rightarrow> zero_subtask | Some t \<Rightarrow> t)"

type_synonym ex_graph = "(string \<Rightarrow> int) \<times> (string \<Rightarrow> string list)"

definition ex_add_subtask :: "subtask \<Rightarrow> ex_graph \<Rightarrow> ex_graph" where
  "ex_add_subtask t g =
     ((fst g)(sub_id t := int (length (sub_dependencies t))),
      fold (\<lambda>dep m. m(dep := m dep @ [sub_id t])) (sub_dependencies t) (snd g))"

definition ex_add_edge :: "dependency \<Rightarrow> ex_graph \<Rightarrow> ex_graph" where
  "ex_add_edge e g =
     (if dep_type e = dt_parallel_with then g
      else ((fst g)(dep_to e := fst g (dep_to e) + 1),
            (snd g)(dep_from e := snd g (dep_from e) @ [dep_to e])))"

definition ex_graph :: "task_decomposition \<Rightarrow> ex_graph" where
  "ex_graph d =
     fold ex_add_edge (td_dag d) (fold ex_add_subtask (td_subtasks d) (\<lambda>_. 0, \<lambda>_. []))"

definition ex_roots :: "task_decomposition \<Rightarrow> string list" where
  "ex_roots d = filter (\<lambda>i. fst (ex_graph d) i = 0) (map sub_id (td_subtasks d))"

section \<open>States\<close>

text \<open>
  Where the goroutine of a subtask stands.  The last three have sent their result, given their
  token back, and returned the error of their result to the group.
\<close>

datatype phase =
    NotLaunched
  | AtSemaphore
  | InWorker
  | Sent "go_error option"
  | Released "go_error option"
  | Exited "go_error option"

text \<open>
  Where the main goroutine stands: launching the roots that are left, at the \<^verbatim>\<open>select\<close> of its
  loop, in the loop over the dependents of a result, in \<^verbatim>\<open>group.Wait\<close> (with whether it came
  from the context's branch), or returned.
\<close>

datatype main_phase =
    Launching "string list"
  | Looping
  | Releasing "string list"
  | InWait bool
  | Returned "go_error option"

record exec_state =
  ex_remaining :: "string \<Rightarrow> int"
  ex_started :: "string \<Rightarrow> bool"
  ex_phase :: "string \<Rightarrow> phase"
  ex_tokens :: nat
  ex_results :: "worker_result list"
  ex_completed :: nat
  ex_main :: main_phase
  ex_group_err :: "go_error option"
  ex_ctx_err :: "go_error option"

definition no_roots :: "task_decomposition \<Rightarrow> go_error" where
  "no_roots d = Message (''task decomposition '' @ quote_str (td_task_id d) @ '' has no runnable root subtasks'')"

text \<open>The state after the setup; \<open>ctx_err\<close> is the error of the caller's context, if it is done.\<close>

definition exec_init :: "task_decomposition \<Rightarrow> go_error option \<Rightarrow> exec_state" where
  "exec_init d ctx_err =
     \<lparr>ex_remaining = fst (ex_graph d), ex_started = (\<lambda>_. False), ex_phase = (\<lambda>_. NotLaunched),
      ex_tokens = 0, ex_results = [], ex_completed = 0,
      ex_main = (if td_subtasks d = [] then Returned None
                 else if ex_roots d = [] then Returned (Some (no_roots d))
                 else Launching (ex_roots d)),
      ex_group_err = None, ex_ctx_err = ctx_err\<rparr>"

section \<open>Steps\<close>

definition launch :: "string \<Rightarrow> exec_state \<Rightarrow> exec_state" where
  "launch i s =
     (if ex_started s i then s
      else s\<lparr>ex_started := (ex_started s)(i := True), ex_phase := (ex_phase s)(i := AtSemaphore)\<rparr>)"

text \<open>One round of the loop over the dependents of a result.\<close>

definition release_dependent :: "string \<Rightarrow> exec_state \<Rightarrow> exec_state" where
  "release_dependent i s =
     (let s1 = s\<lparr>ex_remaining := (ex_remaining s)(i := ex_remaining s i - 1)\<rparr> in
      if ex_remaining s1 i = 0 then launch i s1 else s1)"

definition set_phase :: "string \<Rightarrow> phase \<Rightarrow> exec_state \<Rightarrow> exec_state" where
  "set_phase i p s = s\<lparr>ex_phase := (ex_phase s)(i := p)\<rparr>"

text \<open>
  The error group (\<^verbatim>\<open>third_party/golang.org/x/sync/errgroup\<close>).  When a function of the group
  returns, the first error is kept and cancels the group's context; a context that is done
  already keeps its error.
\<close>

definition cancel_ctx :: "exec_state \<Rightarrow> exec_state" where
  "cancel_ctx s = (if ex_ctx_err s = None then s\<lparr>ex_ctx_err := Some Canceled\<rparr> else s)"

definition group_record :: "go_error option \<Rightarrow> exec_state \<Rightarrow> exec_state" where
  "group_record err s =
     (if err \<noteq> None \<and> ex_group_err s = None then cancel_ctx (s\<lparr>ex_group_err := err\<rparr>) else s)"

definition group_exit :: "string \<Rightarrow> go_error option \<Rightarrow> exec_state \<Rightarrow> exec_state" where
  "group_exit i err s = group_record err (set_phase i (Exited err) s)"

definition quiet :: "phase \<Rightarrow> bool" where
  "quiet p = (case p of NotLaunched \<Rightarrow> True | Exited _ \<Rightarrow> True | _ \<Rightarrow> False)"

definition all_quiet :: "task_decomposition \<Rightarrow> exec_state \<Rightarrow> bool" where
  "all_quiet d s = list_all (\<lambda>t. quiet (ex_phase s (sub_id t))) (td_subtasks d)"

text \<open>
  \<^verbatim>\<open>Wait\<close> returns once no function of the group is running; it cancels the context and returns
  the group's error.  The context's branch of the loop falls back on the context's error.
\<close>

definition group_wait :: "bool \<Rightarrow> exec_state \<Rightarrow> exec_state" where
  "group_wait from_ctx s =
     (let s1 = cancel_ctx s in
      s1\<lparr>ex_main := Returned (case ex_group_err s1 of
           Some e \<Rightarrow> Some e
         | None \<Rightarrow> if from_ctx then ex_ctx_err s1 else None)\<rparr>)"

inductive exec_step ::
  "(task_decomposition \<Rightarrow> subtask \<Rightarrow> worker_result \<Rightarrow> bool) \<Rightarrow> task_decomposition \<Rightarrow> nat
     \<Rightarrow> exec_state \<Rightarrow> exec_state \<Rightarrow> bool"
  for runs :: "task_decomposition \<Rightarrow> subtask \<Rightarrow> worker_result \<Rightarrow> bool"
    and d :: task_decomposition and max_workers :: nat where
  launch_root:
    "ex_main s = Launching (i # is) \<Longrightarrow>
     exec_step runs d max_workers s ((launch i s)\<lparr>ex_main := Launching is\<rparr>)"
| launched_roots:
    "ex_main s = Launching [] \<Longrightarrow> exec_step runs d max_workers s (s\<lparr>ex_main := Looping\<rparr>)"
| acquire:
    "ex_phase s i = AtSemaphore \<Longrightarrow> ex_tokens s < max_workers \<Longrightarrow>
     exec_step runs d max_workers s ((set_phase i InWorker s)\<lparr>ex_tokens := ex_tokens s + 1\<rparr>)"
| give_up:
    "ex_phase s i = AtSemaphore \<Longrightarrow> ex_ctx_err s = Some e \<Longrightarrow>
     exec_step runs d max_workers s (group_exit i (Some e) s)"
| work:
    "ex_phase s i = InWorker \<Longrightarrow> runs d (ex_subtask d i) r \<Longrightarrow>
     length (ex_results s) < length (td_subtasks d) \<Longrightarrow>
     exec_step runs d max_workers s
       ((set_phase i (Sent (wr_err r)) s)\<lparr>ex_results := ex_results s @ [r]\<rparr>)"
| release:
    "ex_phase s i = Sent err \<Longrightarrow>
     exec_step runs d max_workers s ((set_phase i (Released err) s)\<lparr>ex_tokens := ex_tokens s - 1\<rparr>)"
| exit:
    "ex_phase s i = Released err \<Longrightarrow> exec_step runs d max_workers s (group_exit i err s)"
| loop_done:
    "ex_main s = Looping \<Longrightarrow> length (td_subtasks d) \<le> ex_completed s \<Longrightarrow>
     exec_step runs d max_workers s (s\<lparr>ex_main := InWait False\<rparr>)"
| loop_cancelled:
    "ex_main s = Looping \<Longrightarrow> ex_completed s < length (td_subtasks d) \<Longrightarrow> ex_ctx_err s \<noteq> None \<Longrightarrow>
     exec_step runs d max_workers s (s\<lparr>ex_main := InWait True\<rparr>)"
| receive:
    "ex_main s = Looping \<Longrightarrow> ex_completed s < length (td_subtasks d) \<Longrightarrow>
     ex_results s = r # rs \<Longrightarrow>
     exec_step runs d max_workers s
       (s\<lparr>ex_results := rs, ex_completed := ex_completed s + 1,
          ex_main := (if wr_err r \<noteq> None then InWait False
                      else Releasing (snd (ex_graph d) (wr_subtask_id r)))\<rparr>)"
| release_next:
    "ex_main s = Releasing (i # is) \<Longrightarrow>
     exec_step runs d max_workers s ((release_dependent i s)\<lparr>ex_main := Releasing is\<rparr>)"
| released_all:
    "ex_main s = Releasing [] \<Longrightarrow> exec_step runs d max_workers s (s\<lparr>ex_main := Looping\<rparr>)"
| return:
    "ex_main s = InWait from_ctx \<Longrightarrow> all_quiet d s \<Longrightarrow>
     exec_step runs d max_workers s (group_wait from_ctx s)"

text \<open>The caller's context is cancelled or its deadline passes.\<close>

inductive exec_cancel :: "exec_state \<Rightarrow> exec_state \<Rightarrow> bool" where
  "ex_ctx_err s = None \<Longrightarrow> e = Canceled \<or> e = DeadlineExceeded \<Longrightarrow>
   exec_cancel s (s\<lparr>ex_ctx_err := Some e\<rparr>)"

inductive exec_reachable ::
  "(task_decomposition \<Rightarrow> subtask \<Rightarrow> worker_result \<Rightarrow> bool) \<Rightarrow> task_decomposition \<Rightarrow> nat
     \<Rightarrow> exec_state \<Rightarrow> bool"
  for runs :: "task_decomposition \<Rightarrow> subtask \<Rightarrow> worker_result \<Rightarrow> bool"
    and d :: task_decomposition and max_workers :: nat where
  start: "exec_reachable runs d max_workers (exec_init d ctx_err)"
| step: "exec_reachable runs d max_workers s \<Longrightarrow> exec_step runs d max_workers s s' \<Longrightarrow>
    exec_reachable runs d max_workers s'"
| cancel: "exec_reachable runs d max_workers s \<Longrightarrow> exec_cancel s s' \<Longrightarrow>
    exec_reachable runs d max_workers s'"

inductive_cases exec_stepE: "exec_step runs d m s s'"
inductive_cases exec_cancelE: "exec_cancel s s'"

text \<open>
  The same steps as a function: a move names the goroutine that goes on, and the result of its
  worker where it runs one.
\<close>

datatype go_move =
    MoveMain
  | MoveReceive
  | MoveContext
  | MoveAcquire string
  | MoveGiveUp string
  | MoveWork string worker_result
  | MoveRelease string
  | MoveExit string

fun exec_move :: "task_decomposition \<Rightarrow> nat \<Rightarrow> go_move \<Rightarrow> exec_state \<Rightarrow> exec_state option" where
  "exec_move d m MoveMain s =
     (case ex_main s of
        Launching [] \<Rightarrow> Some (s\<lparr>ex_main := Looping\<rparr>)
      | Launching (i # is) \<Rightarrow> Some ((launch i s)\<lparr>ex_main := Launching is\<rparr>)
      | Releasing [] \<Rightarrow> Some (s\<lparr>ex_main := Looping\<rparr>)
      | Releasing (i # is) \<Rightarrow> Some ((release_dependent i s)\<lparr>ex_main := Releasing is\<rparr>)
      | Looping \<Rightarrow> if length (td_subtasks d) \<le> ex_completed s then Some (s\<lparr>ex_main := InWait False\<rparr>) else None
      | InWait b \<Rightarrow> if all_quiet d s then Some (group_wait b s) else None
      | Returned v \<Rightarrow> None)"
| "exec_move d m MoveReceive s =
     (if ex_main s = Looping \<and> ex_completed s < length (td_subtasks d)
      then case ex_results s of
             [] \<Rightarrow> None
           | r # rs \<Rightarrow>
               Some (s\<lparr>ex_results := rs, ex_completed := ex_completed s + 1,
                       ex_main := (if wr_err r \<noteq> None then InWait False
                                   else Releasing (snd (ex_graph d) (wr_subtask_id r)))\<rparr>)
      else None)"
| "exec_move d m MoveContext s =
     (if ex_main s = Looping \<and> ex_completed s < length (td_subtasks d) \<and> ex_ctx_err s \<noteq> None
      then Some (s\<lparr>ex_main := InWait True\<rparr>) else None)"
| "exec_move d m (MoveAcquire i) s =
     (if ex_phase s i = AtSemaphore \<and> ex_tokens s < m
      then Some ((set_phase i InWorker s)\<lparr>ex_tokens := ex_tokens s + 1\<rparr>) else None)"
| "exec_move d m (MoveGiveUp i) s =
     (if ex_phase s i = AtSemaphore
      then (case ex_ctx_err s of None \<Rightarrow> None | Some e \<Rightarrow> Some (group_exit i (Some e) s)) else None)"
| "exec_move d m (MoveWork i r) s =
     (if ex_phase s i = InWorker \<and> length (ex_results s) < length (td_subtasks d)
      then Some ((set_phase i (Sent (wr_err r)) s)\<lparr>ex_results := ex_results s @ [r]\<rparr>) else None)"
| "exec_move d m (MoveRelease i) s =
     (case ex_phase s i of
        Sent err \<Rightarrow> Some ((set_phase i (Released err) s)\<lparr>ex_tokens := ex_tokens s - 1\<rparr>)
      | _ \<Rightarrow> None)"
| "exec_move d m (MoveExit i) s =
     (case ex_phase s i of Released err \<Rightarrow> Some (group_exit i err s) | _ \<Rightarrow> None)"

definition allowed_move ::
  "(task_decomposition \<Rightarrow> subtask \<Rightarrow> worker_result \<Rightarrow> bool) \<Rightarrow> task_decomposition \<Rightarrow> go_move \<Rightarrow> bool" where
  "allowed_move runs d mv \<longleftrightarrow> (case mv of MoveWork i r \<Rightarrow> runs d (ex_subtask d i) r | _ \<Rightarrow> True)"

lemma exec_move_step:
  "exec_move d m mv s = Some s' \<Longrightarrow> allowed_move runs d mv \<Longrightarrow> exec_step runs d m s s'"
  using exec_step.receive [of s d _ _ runs m] exec_step.acquire [of s _ m runs d]
    exec_step.release [of s _ _ runs d m]
  by (cases mv) (auto simp: allowed_move_def intro: exec_step.intros
      split: main_phase.splits list.splits if_splits option.splits phase.splits)

lemma exec_step_move:
  "exec_step runs d m s s' \<Longrightarrow> \<exists>mv. exec_move d m mv s = Some s' \<and> allowed_move runs d mv"
proof (induction rule: exec_step.induct)
  case (launch_root s i "is")
  then show ?case by (intro exI [of _ MoveMain]) (simp add: allowed_move_def)
next
  case (launched_roots s)
  then show ?case by (intro exI [of _ MoveMain]) (simp add: allowed_move_def)
next
  case (acquire s i)
  then show ?case by (intro exI [of _ "MoveAcquire i"]) (simp add: allowed_move_def)
next
  case (give_up s i e)
  then show ?case by (intro exI [of _ "MoveGiveUp i"]) (simp add: allowed_move_def)
next
  case (work s i r)
  then show ?case by (intro exI [of _ "MoveWork i r"]) (simp add: allowed_move_def)
next
  case (release s i err)
  then show ?case by (intro exI [of _ "MoveRelease i"]) (simp add: allowed_move_def)
next
  case (exit s i err)
  then show ?case by (intro exI [of _ "MoveExit i"]) (simp add: allowed_move_def)
next
  case (loop_done s)
  then show ?case by (intro exI [of _ MoveMain]) (simp add: allowed_move_def)
next
  case (loop_cancelled s)
  then show ?case by (intro exI [of _ MoveContext]) (simp add: allowed_move_def)
next
  case (receive s r rs)
  then show ?case by (intro exI [of _ MoveReceive]) (simp add: allowed_move_def)
next
  case (release_next s i "is")
  then show ?case by (intro exI [of _ MoveMain]) (simp add: allowed_move_def)
next
  case (released_all s)
  then show ?case by (intro exI [of _ MoveMain]) (simp add: allowed_move_def)
next
  case (return s b)
  then show ?case by (intro exI [of _ MoveMain]) (simp add: allowed_move_def)
qed

fun exec_moves :: "task_decomposition \<Rightarrow> nat \<Rightarrow> go_move list \<Rightarrow> exec_state \<Rightarrow> exec_state option" where
  "exec_moves d m [] s = Some s"
| "exec_moves d m (mv # mvs) s =
     (case exec_move d m mv s of None \<Rightarrow> None | Some s' \<Rightarrow> exec_moves d m mvs s')"

lemma exec_moves_steps:
  "exec_moves d m mvs s = Some s' \<Longrightarrow> list_all (allowed_move runs d) mvs \<Longrightarrow> (exec_step runs d m)\<^sup>*\<^sup>* s s'"
  by (induction mvs arbitrary: s)
     (auto split: option.splits intro: converse_rtranclp_into_rtranclp exec_move_step)

lemma steps_reachable:
  "(exec_step runs d m)\<^sup>*\<^sup>* s s' \<Longrightarrow> exec_reachable runs d m s \<Longrightarrow> exec_reachable runs d m s'"
  by (induction rule: rtranclp_induct) (auto intro: exec_reachable.step)

section \<open>The orchestrator around it\<close>

text \<open>
  The fields of \<^verbatim>\<open>Orchestrator\<close> that its own methods use.  \<open>or_tasks\<close> is the task channel with
  what is buffered in it, \<^term>\<open>None\<close> for the nil channel; \<open>or_capacity\<close> is its buffer size.
\<close>

record orchestrator =
  or_max_workers :: int
  or_has_factory :: bool
  or_tasks :: "task_decomposition list option"
  or_capacity :: nat
  or_results :: bool
  or_started :: bool
  or_closed :: bool
  or_ctx_err :: "go_error option"

definition default_max_workers :: int where
  "default_max_workers = 4"

definition effective_max_workers :: "int \<Rightarrow> int" where
  "effective_max_workers m = (if m \<le> 0 then default_max_workers else m)"

text \<open>\<^verbatim>\<open>Start\<close>; \<open>strategy\<close> is the result of \<^verbatim>\<open>resolveAgentStrategy\<close>, \<open>ctx_err\<close> the error of the caller's context.\<close>

definition or_start :: "go_error option \<Rightarrow> (go_error, 'a) result \<Rightarrow> orchestrator \<Rightarrow> (go_error, orchestrator) result" where
  "or_start ctx_err strategy orc =
     (if or_started orc then Inl (Message ''orchestrator already started'')
      else if \<not> or_has_factory orc then Inl (Message ''orchestrator worker factory is required'')
      else case strategy of
             Inl e \<Rightarrow> Inl e
           | Inr _ \<Rightarrow>
               (let m = effective_max_workers (or_max_workers orc) in
                Inr (orc\<lparr>or_max_workers := m,
                        or_capacity := (if or_tasks orc = None then nat m else or_capacity orc),
                        or_tasks := (case or_tasks orc of None \<Rightarrow> Some [] | Some q \<Rightarrow> Some q),
                        or_results := True, or_ctx_err := ctx_err, or_started := True\<rparr>)))"

text \<open>
  What a call of \<^verbatim>\<open>SubmitTask\<close> can end with.  Its \<^verbatim>\<open>select\<close> takes any case that is ready, and a
  send on a closed channel is ready and panics; with no case ready the call blocks.
\<close>

datatype submit_outcome = SubmitError go_error | SubmitInvalid "decomp_error list" | Submitted orchestrator | SubmitPanic

definition submit_select :: "go_error option \<Rightarrow> task_decomposition \<Rightarrow> orchestrator \<Rightarrow> submit_outcome list" where
  "submit_select ctx_err d orc =
     (case ctx_err of Some e \<Rightarrow> [SubmitError e] | None \<Rightarrow> []) @
     (case or_ctx_err orc of Some e \<Rightarrow> [SubmitError e] | None \<Rightarrow> []) @
     (case or_tasks orc of
        None \<Rightarrow> []
      | Some q \<Rightarrow>
          if or_closed orc then [SubmitPanic]
          else if length q < or_capacity orc then [Submitted (orc\<lparr>or_tasks := Some (q @ [d])\<rparr>)]
          else [])"

definition submit_task :: "go_error option \<Rightarrow> task_decomposition \<Rightarrow> orchestrator \<Rightarrow> submit_outcome list" where
  "submit_task ctx_err d orc =
     (if \<not> or_started orc then [SubmitError (Message ''orchestrator not started'')]
      else case td_validate d of
             None \<Rightarrow> []
           | Some errs \<Rightarrow> if errs \<noteq> [] then [SubmitInvalid errs] else submit_select ctx_err d orc)"

definition or_stop :: "orchestrator \<Rightarrow> orchestrator" where
  "or_stop orc = (if or_tasks orc \<noteq> None \<and> \<not> or_closed orc then orc\<lparr>or_closed := True\<rparr> else orc)"

text \<open>\<^verbatim>\<open>Wait\<close>, given whether \<^verbatim>\<open>Start\<close> made a group and the error of that group.\<close>

definition or_wait :: "bool \<Rightarrow> go_error option \<Rightarrow> go_error option" where
  "or_wait has_group err =
     (if \<not> has_group then None
      else case err of None \<Rightarrow> None | Some e \<Rightarrow> if errors_is e Canceled then None else Some e)"

text \<open>
  The processing loop, once it takes a decomposition from the channel: it stops with the error of
  the first decomposition that fails.  \<open>execute\<close> is \<^verbatim>\<open>executeDecomposition\<close>.
\<close>

fun process_loop :: "(task_decomposition \<Rightarrow> go_error option) \<Rightarrow> task_decomposition list \<Rightarrow> go_error option" where
  "process_loop execute [] = None"
| "process_loop execute (d # ds) =
     (case execute d of Some e \<Rightarrow> Some e | None \<Rightarrow> process_loop execute ds)"

end
