(* ===== verification/Orchestrator_Correct.thy ===== *)
theory Orchestrator_Correct
  imports Orchestrator
begin

text \<open>
  The invariant of a concurrent execution, and that every step keeps it.  It has four parts: where
  the goroutines stand (with the tokens of the semaphore and the results channel), the dependency
  counters and what was launched, the error group, and the main goroutine.  The lemmas about steps
  are proved for any behaviour of the workers that returns and reports under the subtask's own
  identifier (the locale \<open>honest_runs\<close>).
\<close>

section \<open>The counters\<close>

definition sub_edges :: "subtask list \<Rightarrow> (string \<times> string) list" where
  "sub_edges ts = concat (map (\<lambda>t. map (\<lambda>dep. (dep, sub_id t)) (sub_dependencies t)) ts)"

definition dag_edges :: "dependency list \<Rightarrow> (string \<times> string) list" where
  "dag_edges es = map (\<lambda>e. (dep_from e, dep_to e)) (filter (\<lambda>e. dep_type e \<noteq> dt_parallel_with) es)"

lemma edge_list_split: "edge_list d = sub_edges (td_subtasks d) @ dag_edges (td_dag d)"
  by (simp add: edge_list_def sub_edges_def dag_edges_def)

lemma fold_append_at:
  "fold (\<lambda>dep m. m(dep := m dep @ [x])) deps m a = m a @ map snd (filter (\<lambda>e. fst e = a) (map (\<lambda>dep. (dep, x)) deps))"
  by (induction deps arbitrary: m) auto

lemma sub_edges_to_other: "j \<notin> set (map sub_id ts) \<Longrightarrow> filter (\<lambda>e. snd e = j) (sub_edges ts) = []"
  by (auto simp: sub_edges_def filter_empty_conv)

lemma sub_edges_Cons:
  "sub_edges (t # ts) = map (\<lambda>dep. (dep, sub_id t)) (sub_dependencies t) @ sub_edges ts"
  by (simp add: sub_edges_def)

lemma ex_add_subtask_parts:
  "fst (ex_add_subtask t g) j = (if j = sub_id t then int (length (sub_dependencies t)) else fst g j)"
  "snd (ex_add_subtask t g) a =
     snd g a @ map snd (filter (\<lambda>e. fst e = a) (map (\<lambda>dep. (dep, sub_id t)) (sub_dependencies t)))"
  by (simp_all add: ex_add_subtask_def fold_append_at)

lemma fold_ex_add_subtask:
  "distinct (map sub_id ts) \<Longrightarrow>
   fst (fold ex_add_subtask ts g) j =
     (if j \<in> set (map sub_id ts) then int (length (filter (\<lambda>e. snd e = j) (sub_edges ts))) else fst g j) \<and>
   snd (fold ex_add_subtask ts g) a = snd g a @ map snd (filter (\<lambda>e. fst e = a) (sub_edges ts))"
proof (induction ts arbitrary: g)
  case Nil
  then show ?case by (simp add: sub_edges_def)
next
  case (Cons t ts)
  have other: "filter (\<lambda>e. snd e = sub_id t) (sub_edges ts) = []"
    by (rule sub_edges_to_other) (use Cons.prems in auto)
  have own: "filter (\<lambda>e. snd e = j) (map (\<lambda>dep. (dep, sub_id t)) (sub_dependencies t)) =
      (if j = sub_id t then map (\<lambda>dep. (dep, sub_id t)) (sub_dependencies t) else [])"
    by (simp add: filter_map comp_def)
  have "fst (fold ex_add_subtask ts (ex_add_subtask t g)) j =
     (if j \<in> set (map sub_id ts) then int (length (filter (\<lambda>e. snd e = j) (sub_edges ts)))
      else fst (ex_add_subtask t g) j)"
    and "snd (fold ex_add_subtask ts (ex_add_subtask t g)) a =
      snd (ex_add_subtask t g) a @ map snd (filter (\<lambda>e. fst e = a) (sub_edges ts))"
    using Cons by auto
  then show ?case
    using other own Cons.prems
    by (auto simp: ex_add_subtask_parts sub_edges_Cons split: if_splits)
qed

lemma fold_ex_add_edge:
  "fst (fold ex_add_edge es g) j = fst g j + int (length (filter (\<lambda>e. snd e = j) (dag_edges es))) \<and>
   snd (fold ex_add_edge es g) a = snd g a @ map snd (filter (\<lambda>e. fst e = a) (dag_edges es))"
  by (induction es arbitrary: g) (auto simp: ex_add_edge_def dag_edges_def)

lemma ex_graph_counts:
  assumes "distinct (sub_ids d)"
  shows "fst (ex_graph d) j = int (length (filter (\<lambda>e. snd e = j) (edge_list d)))"
    and "snd (ex_graph d) a = map snd (filter (\<lambda>e. fst e = a) (edge_list d))"
proof -
  note s = fold_ex_add_subtask [OF assms, of "(\<lambda>_. 0, \<lambda>_. [])" j a]
  note e = fold_ex_add_edge [of "td_dag d" "fold ex_add_subtask (td_subtasks d) (\<lambda>_. 0, \<lambda>_. [])" j a]
  show "fst (ex_graph d) j = int (length (filter (\<lambda>e. snd e = j) (edge_list d)))"
    using s e sub_edges_to_other [of j "td_subtasks d"]
    by (auto simp: ex_graph_def edge_list_split)
  show "snd (ex_graph d) a = map snd (filter (\<lambda>e. fst e = a) (edge_list d))"
    using s e by (simp add: ex_graph_def edge_list_split)
qed

lemma fold_subtask_map:
  "fold (\<lambda>t m. m(sub_id t \<mapsto> t)) ts m i = (case map_of (map (\<lambda>t. (sub_id t, t)) (rev ts)) i of
     Some t \<Rightarrow> Some t | None \<Rightarrow> m i)"
  by (induction ts arbitrary: m) (auto simp: map_of_append map_add_def split: option.splits)

lemma ex_subtask_id: "i \<in> set (sub_ids d) \<Longrightarrow> sub_id (ex_subtask d i) = i \<and> ex_subtask d i \<in> set (td_subtasks d)"
proof -
  assume i: "i \<in> set (sub_ids d)"
  let ?m = "map_of (map (\<lambda>t. (sub_id t, t)) (rev (td_subtasks d)))"
  from i have "?m i \<noteq> None" by (auto simp: map_of_eq_None_iff image_image)
  then obtain t where t: "?m i = Some t" by auto
  from map_of_SomeD [OF this] t show ?thesis by (auto simp: ex_subtask_def fold_subtask_map)
qed

section \<open>The invariant\<close>

text \<open>What the goroutine has sent, if it has.\<close>

fun sent_err :: "phase \<Rightarrow> go_error option option" where
  "sent_err (Sent e) = Some e"
| "sent_err (Released e) = Some e"
| "sent_err (Exited e) = Some e"
| "sent_err _ = None"

fun holds_token :: "phase \<Rightarrow> bool" where
  "holds_token InWorker = True"
| "holds_token (Sent e) = True"
| "holds_token _ = False"

abbreviation result_ids :: "exec_state \<Rightarrow> string list" where
  "result_ids s \<equiv> map wr_subtask_id (ex_results s)"

text \<open>The main goroutine has received the success of the subtask.\<close>

definition got :: "exec_state \<Rightarrow> string \<Rightarrow> bool" where
  "got s i \<longleftrightarrow> sent_err (ex_phase s i) = Some None \<and> i \<notin> set (result_ids s)"

definition go_inv :: "nat \<Rightarrow> task_decomposition \<Rightarrow> exec_state \<Rightarrow> bool" where
  "go_inv m d s \<longleftrightarrow>
     (\<forall>i. ex_started s i \<longleftrightarrow> ex_phase s i \<noteq> NotLaunched) \<and>
     (\<forall>i. ex_started s i \<longrightarrow> i \<in> set (sub_ids d)) \<and>
     distinct (result_ids s) \<and>
     (\<forall>r \<in> set (ex_results s). sent_err (ex_phase s (wr_subtask_id r)) = Some (wr_err r)) \<and>
     ex_tokens s = card {i \<in> set (sub_ids d). holds_token (ex_phase s i)} \<and> ex_tokens s \<le> m"

definition pending_releases :: "main_phase \<Rightarrow> string list" where
  "pending_releases p = (case p of Releasing ds \<Rightarrow> ds | _ \<Rightarrow> [])"

definition pending_launches :: "main_phase \<Rightarrow> string list" where
  "pending_launches p = (case p of Launching ls \<Rightarrow> ls | _ \<Rightarrow> [])"

definition blocking :: "task_decomposition \<Rightarrow> exec_state \<Rightarrow> string \<Rightarrow> (string \<times> string) list" where
  "blocking d s j = filter (\<lambda>e. snd e = j \<and> \<not> got s (fst e)) (edge_list d)"

definition dep_inv :: "task_decomposition \<Rightarrow> exec_state \<Rightarrow> bool" where
  "dep_inv d s \<longleftrightarrow>
     (\<forall>j. ex_remaining s j =
        int (length (blocking d s j)) + int (count_list (pending_releases (ex_main s)) j)) \<and>
     (\<forall>j \<in> set (sub_ids d). ex_started s j \<longleftrightarrow>
        ex_remaining s j = 0 \<and> j \<notin> set (pending_launches (ex_main s))) \<and>
     set (pending_releases (ex_main s)) \<subseteq> set (sub_ids d) \<and>
     distinct (pending_launches (ex_main s)) \<and>
     (\<forall>j \<in> set (pending_launches (ex_main s)). j \<in> set (sub_ids d) \<and> ex_remaining s j = 0)"

definition grp_inv :: "exec_state \<Rightarrow> bool" where
  "grp_inv s \<longleftrightarrow>
     (\<forall>i e. ex_phase s i = Exited (Some e) \<longrightarrow> ex_group_err s \<noteq> None) \<and>
     (\<forall>e. ex_group_err s = Some e \<longrightarrow> ex_ctx_err s \<noteq> None \<and> (\<exists>i. ex_phase s i = Exited (Some e)))"

definition all_got :: "task_decomposition \<Rightarrow> exec_state \<Rightarrow> bool" where
  "all_got d s \<longleftrightarrow> (\<forall>i \<in> set (sub_ids d). got s i)"

definition main_inv :: "task_decomposition \<Rightarrow> exec_state \<Rightarrow> bool" where
  "main_inv d s \<longleftrightarrow>
     (case ex_main s of
        InWait True \<Rightarrow> ex_ctx_err s \<noteq> None
      | InWait False \<Rightarrow> all_got d s \<or> (\<exists>i e. sent_err (ex_phase s i) = Some (Some e))
      | Returned v \<Rightarrow> all_quiet d s \<and>
          (if v = None then \<forall>i \<in> set (sub_ids d). ex_phase s i = Exited None
           else v = ex_group_err s \<or> ex_group_err s = None \<and> v = ex_ctx_err s)
      | _ \<Rightarrow> ex_completed s = card {i \<in> set (sub_ids d). got s i})"

definition exec_inv :: "nat \<Rightarrow> task_decomposition \<Rightarrow> exec_state \<Rightarrow> bool" where
  "exec_inv m d s \<longleftrightarrow> go_inv m d s \<and> dep_inv d s \<and> grp_inv s \<and> main_inv d s"

section \<open>Frame lemmas\<close>

lemma set_phase_simps [simp]:
  "ex_phase (set_phase i p s) = (ex_phase s)(i := p)"
  "ex_remaining (set_phase i p s) = ex_remaining s" "ex_started (set_phase i p s) = ex_started s"
  "ex_tokens (set_phase i p s) = ex_tokens s" "ex_results (set_phase i p s) = ex_results s"
  "ex_completed (set_phase i p s) = ex_completed s" "ex_main (set_phase i p s) = ex_main s"
  "ex_group_err (set_phase i p s) = ex_group_err s" "ex_ctx_err (set_phase i p s) = ex_ctx_err s"
  by (simp_all add: set_phase_def)

lemma group_exit_simps [simp]:
  "ex_phase (group_exit i e s) = (ex_phase s)(i := Exited e)"
  "ex_remaining (group_exit i e s) = ex_remaining s" "ex_started (group_exit i e s) = ex_started s"
  "ex_tokens (group_exit i e s) = ex_tokens s" "ex_results (group_exit i e s) = ex_results s"
  "ex_completed (group_exit i e s) = ex_completed s" "ex_main (group_exit i e s) = ex_main s"
  "ex_group_err (group_exit i e s) = (if ex_group_err s = None then e else ex_group_err s)"
  "ex_ctx_err (group_exit i e s) =
     (if e \<noteq> None \<and> ex_group_err s = None \<and> ex_ctx_err s = None then Some Canceled else ex_ctx_err s)"
  by (auto simp: group_exit_def group_record_def cancel_ctx_def)

lemma group_wait_simps [simp]:
  "ex_phase (group_wait b s) = ex_phase s"
  "ex_remaining (group_wait b s) = ex_remaining s" "ex_started (group_wait b s) = ex_started s"
  "ex_tokens (group_wait b s) = ex_tokens s" "ex_results (group_wait b s) = ex_results s"
  "ex_completed (group_wait b s) = ex_completed s" "ex_group_err (group_wait b s) = ex_group_err s"
  "ex_ctx_err (group_wait b s) = (if ex_ctx_err s = None then Some Canceled else ex_ctx_err s)"
  "ex_main (group_wait b s) = Returned (case ex_group_err s of
     Some e \<Rightarrow> Some e
   | None \<Rightarrow> if b then (if ex_ctx_err s = None then Some Canceled else ex_ctx_err s) else None)"
  by (auto simp: group_wait_def cancel_ctx_def Let_def split: option.splits)

lemma launch_simps [simp]:
  "ex_phase (launch i s) = (if ex_started s i then ex_phase s else (ex_phase s)(i := AtSemaphore))"
  "ex_started (launch i s) = (ex_started s)(i := True)"
  "ex_remaining (launch i s) = ex_remaining s" "ex_tokens (launch i s) = ex_tokens s"
  "ex_results (launch i s) = ex_results s" "ex_completed (launch i s) = ex_completed s"
  "ex_main (launch i s) = ex_main s" "ex_group_err (launch i s) = ex_group_err s"
  "ex_ctx_err (launch i s) = ex_ctx_err s"
  by (auto simp: launch_def fun_eq_iff)

lemma release_dependent_simps [simp]:
  "ex_remaining (release_dependent i s) = (ex_remaining s)(i := ex_remaining s i - 1)"
  "ex_phase (release_dependent i s) =
     (if ex_remaining s i = 1 \<and> \<not> ex_started s i then (ex_phase s)(i := AtSemaphore) else ex_phase s)"
  "ex_started (release_dependent i s) =
     (if ex_remaining s i = 1 then (ex_started s)(i := True) else ex_started s)"
  "ex_tokens (release_dependent i s) = ex_tokens s"
  "ex_results (release_dependent i s) = ex_results s"
  "ex_completed (release_dependent i s) = ex_completed s"
  "ex_main (release_dependent i s) = ex_main s"
  "ex_group_err (release_dependent i s) = ex_group_err s"
  "ex_ctx_err (release_dependent i s) = ex_ctx_err s"
  by (auto simp: release_dependent_def Let_def)

end
