(* ===== verification/Orchestrator_Invariant.thy ===== *)
theory Orchestrator_Invariant
  imports Orchestrator_Correct
begin

text \<open>
  Every step of a concurrent execution keeps the invariant of \<^verbatim>\<open>Orchestrator_Correct\<close>, one part
  of the invariant at a time.
\<close>

locale honest_runs =
  fixes runs :: "task_decomposition \<Rightarrow> subtask \<Rightarrow> worker_result \<Rightarrow> bool"
  assumes own_id: "runs d t r \<Longrightarrow> wr_subtask_id r = sub_id t"
    and returns: "\<exists>r. runs d t r"

section \<open>Where the goroutines stand\<close>

lemma go_inv_tokens:
  "go_inv m d s \<Longrightarrow> ex_tokens s = card {i \<in> set (sub_ids d). holds_token (ex_phase s i)}"
  unfolding go_inv_def by (elim conjE)

lemma go_inv_started:
  "go_inv m d s \<Longrightarrow> ex_phase s i \<noteq> NotLaunched \<Longrightarrow> ex_started s i \<and> i \<in> set (sub_ids d)"
  unfolding go_inv_def by blast

lemma card_filter_upd:
  assumes "finite I" "i \<in> I"
  shows "card {j \<in> I. P ((f(i := p)) j)} + (if P (f i) then 1 else 0) =
         card {j \<in> I. P (f j)} + (if P p then 1 else 0)"
proof -
  have "card {j \<in> I. Q j} = card {j \<in> I - {i}. Q j} + (if Q i then 1 else 0)" for Q
  proof -
    have "{j \<in> I. Q j} = {j \<in> I - {i}. Q j} \<union> (if Q i then {i} else {})" using assms by auto
    then show ?thesis using assms by (simp add: card_insert_if)
  qed
  from this [of "\<lambda>j. P ((f(i := p)) j)"] this [of "\<lambda>j. P (f j)"]
  have a: "card {j \<in> I. P ((f(i := p)) j)} = card {j \<in> I - {i}. P ((f(i := p)) j)} + (if P p then 1 else 0)"
    and b: "card {j \<in> I. P (f j)} = card {j \<in> I - {i}. P (f j)} + (if P (f i) then 1 else 0)" by simp_all
  have "{j \<in> I - {i}. P ((f(i := p)) j)} = {j \<in> I - {i}. P (f j)}" by auto
  with a b show ?thesis by simp
qed

lemma holders_upd:
  assumes "i \<in> set (sub_ids d)"
  shows "card {j \<in> set (sub_ids d). holds_token ((f(i := p)) j)} + (if holds_token (f i) then 1 else 0) =
         card {j \<in> set (sub_ids d). holds_token (f j)} + (if holds_token p then 1 else 0)"
  by (rule card_filter_upd) (use assms in simp_all)

text \<open>A goroutine that moves: the parts of the invariant it does not touch stay.\<close>

lemma go_inv_move:
  assumes inv: "go_inv m d s" and old: "ex_phase s i \<noteq> NotLaunched" and new: "p \<noteq> NotLaunched"
    and s': "ex_phase s' = (ex_phase s)(i := p)" "ex_started s' = ex_started s"
    and res: "distinct (result_ids s')"
      "\<forall>r \<in> set (ex_results s'). sent_err (ex_phase s' (wr_subtask_id r)) = Some (wr_err r)"
    and tok: "ex_tokens s' + (if holds_token (ex_phase s i) then 1 else 0) =
              ex_tokens s + (if holds_token p then 1 else 0)" "ex_tokens s' \<le> m"
  shows "go_inv m d s'"
proof -
  have i: "i \<in> set (sub_ids d)" using inv old by (auto simp: go_inv_def)
  have "ex_tokens s' = card {j \<in> set (sub_ids d). holds_token (ex_phase s' j)}"
    using holders_upd [OF i, of "ex_phase s" p] tok inv by (simp add: s' go_inv_def)
  with inv old new res tok(2) show ?thesis unfolding go_inv_def s' by auto
qed

lemma go_inv_unlaunched: "go_inv m d s \<Longrightarrow> \<not> ex_started s i \<longleftrightarrow> ex_phase s i = NotLaunched"
  by (auto simp: go_inv_def)

lemma go_inv_launch:
  assumes inv: "go_inv m d s" and i: "i \<in> set (sub_ids d)"
    and s': "ex_phase s' = (if ex_started s i then ex_phase s else (ex_phase s)(i := AtSemaphore))"
      "ex_started s' = (ex_started s)(i := True)" "ex_results s' = ex_results s" "ex_tokens s' = ex_tokens s"
  shows "go_inv m d s'"
proof (cases "ex_started s i")
  case True
  with inv i show ?thesis unfolding go_inv_def s' by (auto simp: fun_upd_idem)
next
  case False
  then have nl: "ex_phase s i = NotLaunched" using go_inv_unlaunched [OF inv] by simp
  have "ex_tokens s' = card {j \<in> set (sub_ids d). holds_token (ex_phase s' j)}"
    using holders_upd [OF i, of "ex_phase s" AtSemaphore] inv nl False by (simp add: s' go_inv_def)
  moreover have "\<forall>r \<in> set (ex_results s). wr_subtask_id r \<noteq> i"
    using inv nl by (auto simp: go_inv_def)
  ultimately show ?thesis using inv i False unfolding go_inv_def s' by auto
qed

lemma go_inv_same:
  "go_inv m d s \<Longrightarrow> ex_phase s' = ex_phase s \<Longrightarrow> ex_started s' = ex_started s \<Longrightarrow>
   ex_tokens s' = ex_tokens s \<Longrightarrow> distinct (result_ids s') \<Longrightarrow> set (ex_results s') \<subseteq> set (ex_results s) \<Longrightarrow>
   go_inv m d s'"
  unfolding go_inv_def by auto

context honest_runs begin

lemma step_go_inv:
  assumes st: "exec_step runs d m s s'" and go: "go_inv m d s" and dep: "dep_inv d s"
  shows "go_inv m d s'"
  using st
proof cases
  case (launch_root i "is")
  then have "i \<in> set (sub_ids d)" using dep by (simp add: dep_inv_def pending_launches_def)
  with go show ?thesis unfolding launch_root by (rule go_inv_launch) simp_all
next
  case launched_roots
  with go show ?thesis by (auto intro: go_inv_same simp: go_inv_def)
next
  case (acquire i)
  show ?thesis unfolding acquire
    by (rule go_inv_move [OF go, where i = i]) (use go acquire in \<open>auto simp: go_inv_def\<close>)
next
  case (give_up i e)
  have "i \<notin> set (result_ids s)" using go give_up by (auto simp: go_inv_def)
  then show ?thesis unfolding give_up
    by (intro go_inv_move [OF go, where i = i and p = "Exited (Some e)"])
       (use go give_up in \<open>auto simp: go_inv_def\<close>)
next
  case (work i r)
  have i: "i \<in> set (sub_ids d)" using go work by (auto simp: go_inv_def)
  have id: "wr_subtask_id r = i" using own_id [OF work(3)] ex_subtask_id [OF i] by simp
  have "i \<notin> set (result_ids s)" using go work by (auto simp: go_inv_def)
  then show ?thesis unfolding work
    by (intro go_inv_move [OF go, where i = i and p = "Sent (wr_err r)"])
       (use go work id in \<open>auto simp: go_inv_def\<close>)
next
  case (release i err)
  have i: "i \<in> set (sub_ids d)" using go release by (auto simp: go_inv_def)
  have "i \<in> {j \<in> set (sub_ids d). holds_token (ex_phase s j)}" using i release by simp
  then have "0 < card {j \<in> set (sub_ids d). holds_token (ex_phase s j)}"
    by (intro card_gt_0_iff [THEN iffD2] conjI) auto
  then have "ex_tokens s \<noteq> 0" using go_inv_tokens [OF go] by (simp only: not_gr_zero)
  moreover have "distinct (result_ids s)" "ex_tokens s \<le> m"
    "\<forall>r \<in> set (ex_results s). sent_err (ex_phase s (wr_subtask_id r)) = Some (wr_err r)"
    using go unfolding go_inv_def by blast+
  ultimately show ?thesis using release(2) unfolding release(1)
    by (intro go_inv_move [OF go, where i = i and p = "Released err"]) auto
next
  case (exit i err)
  have "distinct (result_ids s)" "ex_tokens s \<le> m"
    "\<forall>r \<in> set (ex_results s). sent_err (ex_phase s (wr_subtask_id r)) = Some (wr_err r)"
    using go unfolding go_inv_def by blast+
  with exit(2) show ?thesis unfolding exit(1)
    by (intro go_inv_move [OF go, where i = i and p = "Exited err"]) auto
next
  case loop_done
  with go show ?thesis by (auto intro: go_inv_same simp: go_inv_def)
next
  case loop_cancelled
  with go show ?thesis by (auto intro: go_inv_same simp: go_inv_def)
next
  case (receive r rs)
  show ?thesis unfolding receive
    by (rule go_inv_same [OF go]) (use go receive in \<open>auto simp: go_inv_def\<close>)
next
  case (release_next i "is")
  then have i: "i \<in> set (sub_ids d)" using dep by (simp add: dep_inv_def pending_releases_def)
  show ?thesis
  proof (cases "ex_remaining s i = 1")
    case True
    then show ?thesis unfolding release_next by (intro go_inv_launch [OF go i]) simp_all
  next
    case False
    then show ?thesis unfolding release_next
      by (intro go_inv_same [OF go]) (use go in \<open>auto simp: go_inv_def\<close>)
  qed
next
  case released_all
  with go show ?thesis by (auto intro: go_inv_same simp: go_inv_def)
next
  case (return from_ctx)
  show ?thesis unfolding return
    by (rule go_inv_same [OF go]) (use go in \<open>auto simp: go_inv_def\<close>)
qed

end

section \<open>The counters and what was launched\<close>

lemma got_started: "go_inv m d s \<Longrightarrow> got s i \<Longrightarrow> ex_started s i \<and> i \<in> set (sub_ids d)"
  using go_inv_started [of m d s i] by (cases "ex_phase s i") (auto simp: got_def)

lemma got_cong:
  "(\<And>i. sent_err (ex_phase s' i) = sent_err (ex_phase s i)) \<Longrightarrow> set (result_ids s') = set (result_ids s) \<Longrightarrow>
   got s' = got s"
  unfolding got_def by (simp add: fun_eq_iff)

lemma dep_inv_same:
  assumes inv: "dep_inv d s"
    and eq: "got s' = got s" "ex_remaining s' = ex_remaining s" "ex_started s' = ex_started s"
      "pending_releases (ex_main s') = pending_releases (ex_main s)"
      "pending_launches (ex_main s') = pending_launches (ex_main s)"
  shows "dep_inv d s'"
  using inv unfolding dep_inv_def blocking_def eq .

lemma got_not_in_worker: "sent_err (ex_phase s i) = None \<Longrightarrow> \<not> got s i"
  by (simp add: got_def)

context honest_runs begin

text \<open>Only receiving a success changes what was received.\<close>

lemma step_got:
  assumes st: "exec_step runs d m s s'" and go: "go_inv m d s"
  shows "got s' = (case ex_main s' of
      Releasing ds \<Rightarrow> (if ex_main s = Looping then (\<lambda>j. got s j \<or> j = wr_subtask_id (hd (ex_results s))) else got s)
    | _ \<Rightarrow> got s)"
  using st
proof cases
  case (work i r)
  have i: "i \<in> set (sub_ids d)" using go work by (auto simp: go_inv_def)
  have id: "wr_subtask_id r = i" using own_id [OF work(3)] ex_subtask_id [OF i] by simp
  have "got s' = got s" using work id by (auto simp: got_def fun_eq_iff)
  moreover have "ex_main s' = ex_main s" using work by simp
  ultimately show ?thesis by (auto split: main_phase.splits)
next
  case (receive r rs)
  have r: "sent_err (ex_phase s (wr_subtask_id r)) = Some (wr_err r)" "wr_subtask_id r \<notin> set (map wr_subtask_id rs)"
    using go receive by (auto simp: go_inv_def)
  then show ?thesis using receive by (auto simp: got_def fun_eq_iff)
qed (use go in \<open>auto simp: got_def fun_eq_iff go_inv_def split: main_phase.splits\<close>)

end

lemma blocking_receive:
  assumes "\<not> got s i" "got s' = (\<lambda>j. got s j \<or> j = i)"
  shows "length (blocking d s j) =
    length (blocking d s' j) + count_list (map snd (filter (\<lambda>e. fst e = i) (edge_list d))) j"
proof -
  have "length (filter (\<lambda>e. snd e = j \<and> \<not> got s (fst e)) es) =
    length (filter (\<lambda>e. snd e = j \<and> \<not> (got s (fst e) \<or> fst e = i)) es) +
    count_list (map snd (filter (\<lambda>e. fst e = i) es)) j" for es :: "(string \<times> string) list"
    using assms(1) by (induction es) auto
  then show ?thesis by (simp add: blocking_def assms(2))
qed

lemma count_list_pos: "x \<in> set xs \<Longrightarrow> 0 < count_list xs x"
  by (metis count_notin gr0I count_list_0_iff)

context honest_runs begin

lemma step_dep_inv:
  assumes v: "td_valid d" and st: "exec_step runs d m s s'" and go: "go_inv m d s" and dep: "dep_inv d s"
  shows "dep_inv d s'"
proof -
  note g = step_got [OF st go]
  have rem: "ex_remaining s j = int (length (blocking d s j)) + int (count_list (pending_releases (ex_main s)) j)"
    and stt: "j \<in> set (sub_ids d) \<Longrightarrow>
      ex_started s j \<longleftrightarrow> ex_remaining s j = 0 \<and> j \<notin> set (pending_launches (ex_main s))" for j
    using dep unfolding dep_inv_def by blast+
  from st show ?thesis
  proof cases
    case (launch_root i "is")
    have g': "got s' = got s" using g launch_root by simp
    have p: "pending_launches (ex_main s) = i # is" "pending_releases (ex_main s) = []"
      "pending_launches (ex_main s') = is" "pending_releases (ex_main s') = []"
      using launch_root by (simp_all add: pending_launches_def pending_releases_def)
    have i: "i \<notin> set is" "distinct is" "ex_remaining s i = 0" "\<forall>j \<in> set is. j \<in> set (sub_ids d) \<and> ex_remaining s j = 0"
      using dep unfolding dep_inv_def p by auto
    have s': "ex_remaining s' = ex_remaining s" "ex_started s' = (ex_started s)(i := True)"
      using launch_root by simp_all
    show ?thesis
      unfolding dep_inv_def blocking_def g' p s' using rem stt i unfolding p blocking_def by auto
  next
    case (receive r rs)
    show ?thesis
    proof (cases "wr_err r = None")
      case False
      show ?thesis
        by (rule dep_inv_same [OF dep])
          (use receive False g in \<open>simp_all add: pending_releases_def pending_launches_def\<close>)
    next
      case True
      let ?i = "wr_subtask_id r"
      have ids: "distinct (sub_ids d)" using v by (rule td.nodes_distinct)
      have m: "ex_main s' = Releasing (map snd (filter (\<lambda>e. fst e = ?i) (edge_list d)))"
        using receive True ex_graph_counts(2) [OF ids] by simp
      have g': "got s' = (\<lambda>j. got s j \<or> j = ?i)" using g m receive by simp
      have ng: "\<not> got s ?i" using receive by (simp add: got_def)
      have p: "pending_releases (ex_main s) = []" "pending_launches (ex_main s) = []"
        using receive by (simp_all add: pending_launches_def pending_releases_def)
      have s': "ex_remaining s' = ex_remaining s" "ex_started s' = ex_started s" using receive by simp_all
      have sub: "set (map snd (filter (\<lambda>e. fst e = ?i) (edge_list d))) \<subseteq> set (sub_ids d)"
      proof
        fix b assume "b \<in> set (map snd (filter (\<lambda>e. fst e = ?i) (edge_list d)))"
        then have "(?i, b) \<in> dep_edges d" by (auto simp flip: set_edge_list)
        then show "b \<in> set (sub_ids d)" using td.edge_nodes [OF v] by blast
      qed
      have rem': "ex_remaining s' j = int (length (blocking d s' j)) + int (count_list (pending_releases (ex_main s')) j)" for j
        using rem [of j] blocking_receive [OF ng g', of d j] unfolding s' m p by (simp add: pending_releases_def)
      have p': "pending_releases (ex_main s') = map snd (filter (\<lambda>e. fst e = ?i) (edge_list d))"
        "pending_launches (ex_main s') = []"
        unfolding m by (simp_all add: pending_releases_def pending_launches_def)
      show ?thesis
        unfolding dep_inv_def
      proof (intro conjI)
        show "\<forall>j. ex_remaining s' j = int (length (blocking d s' j)) + int (count_list (pending_releases (ex_main s')) j)"
          using rem' by blast
        show "\<forall>j \<in> set (sub_ids d). ex_started s' j \<longleftrightarrow> ex_remaining s' j = 0 \<and> j \<notin> set (pending_launches (ex_main s'))"
          using stt unfolding s' p p' by blast
        show "set (pending_releases (ex_main s')) \<subseteq> set (sub_ids d)" using sub unfolding p' .
      qed (simp_all add: p')
    qed
  next
    case (release_next i "is")
    have g': "got s' = got s" using g release_next by simp
    have p: "pending_releases (ex_main s) = i # is" "pending_launches (ex_main s) = []"
      "pending_releases (ex_main s') = is" "pending_launches (ex_main s') = []"
      using release_next by (simp_all add: pending_launches_def pending_releases_def)
    have ids: "i \<in> set (sub_ids d)" "set is \<subseteq> set (sub_ids d)"
      using dep unfolding dep_inv_def p by auto
    have s': "ex_remaining s' = (ex_remaining s)(i := ex_remaining s i - 1)"
      "ex_started s' = (if ex_remaining s i = 1 then (ex_started s)(i := True) else ex_started s)"
      using release_next by simp_all
    have bl: "blocking d s' = blocking d s" by (simp add: blocking_def g' fun_eq_iff)
    have pos: "0 < ex_remaining s i" using rem [of i] unfolding p by simp
    show ?thesis
      unfolding dep_inv_def
    proof (intro conjI)
      show "\<forall>j. ex_remaining s' j = int (length (blocking d s' j)) + int (count_list (pending_releases (ex_main s')) j)"
        using rem unfolding s' bl p by auto
      show "\<forall>j \<in> set (sub_ids d). ex_started s' j \<longleftrightarrow> ex_remaining s' j = 0 \<and> j \<notin> set (pending_launches (ex_main s'))"
        using stt pos unfolding s' p by auto
      show "set (pending_releases (ex_main s')) \<subseteq> set (sub_ids d)" using ids unfolding p by blast
    qed (simp_all add: p)
  qed (rule dep_inv_same [OF dep],
       use g in \<open>simp_all add: pending_releases_def pending_launches_def split: main_phase.splits if_splits\<close>)+
qed

section \<open>The error group\<close>

lemma step_grp_inv:
  assumes st: "exec_step runs d m s s'" and go: "go_inv m d s" and grp: "grp_inv s"
  shows "grp_inv s'"
  using st
proof cases
  case (launch_root i "is")
  show ?thesis
  proof (cases "ex_started s i")
    case False
    with go have "ex_phase s i = NotLaunched" by (simp add: go_inv_def)
    then have "ex_phase s j = Exited x \<Longrightarrow> j \<noteq> i" for j x by auto
    with launch_root grp show ?thesis by (fastforce simp: grp_inv_def)
  qed (use launch_root grp in \<open>auto simp: grp_inv_def\<close>)
next
  case (release_next i "is")
  show ?thesis
  proof (cases "ex_remaining s i = 1 \<and> \<not> ex_started s i")
    case True
    with go have "ex_phase s i = NotLaunched" by (simp add: go_inv_def)
    then have "ex_phase s j = Exited x \<Longrightarrow> j \<noteq> i" for j x by auto
    with release_next grp show ?thesis by (fastforce simp: grp_inv_def)
  qed (use release_next grp in \<open>auto simp: grp_inv_def\<close>)
next
  case (give_up i e)
  have "ex_phase s j = Exited x \<Longrightarrow> j \<noteq> i" for j x using give_up by auto
  with give_up grp show ?thesis by (fastforce simp: grp_inv_def)
next
  case (exit i err)
  have "ex_phase s j = Exited x \<Longrightarrow> j \<noteq> i" for j x using exit by auto
  with exit grp show ?thesis by (fastforce simp: grp_inv_def)
next
  case (acquire i)
  have "ex_phase s j = Exited x \<Longrightarrow> j \<noteq> i" for j x using acquire by auto
  with acquire grp show ?thesis by (fastforce simp: grp_inv_def)
next
  case (work i r)
  have "ex_phase s j = Exited x \<Longrightarrow> j \<noteq> i" for j x using work by auto
  with work grp show ?thesis by (fastforce simp: grp_inv_def)
next
  case (release i err)
  have "ex_phase s j = Exited x \<Longrightarrow> j \<noteq> i" for j x using release by auto
  with release grp show ?thesis by (fastforce simp: grp_inv_def)
qed (use grp in \<open>auto simp: grp_inv_def\<close>)

section \<open>The main goroutine\<close>

lemma step_sent_err:
  assumes st: "exec_step runs d m s s'" and go: "go_inv m d s" and e: "sent_err (ex_phase s j) = Some x"
  shows "sent_err (ex_phase s' j) = Some x"
proof -
  have nl: "ex_started s j" using go_inv_started [OF go, of j] e by (cases "ex_phase s j") auto
  from st show ?thesis
    by cases (use e nl in \<open>auto split: if_splits\<close>)
qed

lemma step_ctx_err: "exec_step runs d m s s' \<Longrightarrow> ex_ctx_err s \<noteq> None \<Longrightarrow> ex_ctx_err s' = ex_ctx_err s"
  by (erule exec_step.cases) auto

lemma all_quiet_phase:
  "all_quiet d s \<Longrightarrow> go_inv m d s \<Longrightarrow> ex_phase s i = NotLaunched \<or> (\<exists>e. ex_phase s i = Exited e)"
  using go_inv_started [of m d s i]
  by (cases "ex_phase s i") (auto simp: all_quiet_def list_all_iff quiet_def)

text \<open>After the return there is nothing left to do.\<close>

lemma returned_final:
  assumes "ex_main s = Returned v" "all_quiet d s" "go_inv m d s"
  shows "\<not> exec_step runs d m s s'"
proof
  assume "exec_step runs d m s s'"
  then show False
    by cases (use assms all_quiet_phase [OF assms(2,3)] in \<open>auto, (metis phase.distinct)+\<close>)
qed

lemma all_got_exited:
  assumes "all_got d s" "all_quiet d s" "go_inv m d s" "i \<in> set (sub_ids d)"
  shows "ex_phase s i = Exited None"
proof -
  have "sent_err (ex_phase s i) = Some None" using assms by (auto simp: all_got_def got_def)
  with all_quiet_phase [OF assms(2,3), of i] show ?thesis by auto
qed

lemma main_inv_same:
  assumes st: "exec_step runs d m s s'" and go: "go_inv m d s" and mi: "main_inv d s"
    and s': "ex_main s' = ex_main s" "ex_completed s' = ex_completed s" and got: "got s' = got s"
  shows "main_inv d s'"
proof (cases "ex_main s")
  case (InWait b)
  show ?thesis
  proof (cases b)
    case True
    then show ?thesis using mi InWait s' step_ctx_err [OF st] by (simp add: main_inv_def)
  next
    case False
    with mi InWait have "all_got d s \<or> (\<exists>i e. sent_err (ex_phase s i) = Some (Some e))"
      by (simp add: main_inv_def)
    then have "all_got d s' \<or> (\<exists>i e. sent_err (ex_phase s' i) = Some (Some e))"
      using step_sent_err [OF st go] unfolding all_got_def got by blast
    with InWait False s' show ?thesis by (simp add: main_inv_def)
  qed
next
  case (Returned v)
  then have False using returned_final [OF Returned _ go] st mi by (simp add: main_inv_def)
  then show ?thesis ..
qed (use mi s' got in \<open>simp_all add: main_inv_def\<close>)

lemma step_main_inv:
  assumes v: "td_valid d" and st: "exec_step runs d m s s'"
    and go: "go_inv m d s" and grp: "grp_inv s" and mi: "main_inv d s"
  shows "main_inv d s'"
proof -
  note g = step_got [OF st go]
  have card_ids: "card (set (sub_ids d)) = length (td_subtasks d)"
    using td.nodes_distinct [OF v] by (metis distinct_card length_map)
  from st show ?thesis
  proof cases
    case (launch_root i "is")
    have "got s' = got s" using g launch_root by simp
    then show ?thesis using mi launch_root by (simp add: main_inv_def)
  next
    case launched_roots
    have "got s' = got s" using g launched_roots by simp
    then show ?thesis using mi launched_roots by (simp add: main_inv_def)
  next
    case loop_done
    have got: "got s' = got s" using g loop_done by simp
    have "{i \<in> set (sub_ids d). got s i} = set (sub_ids d)"
    proof (rule card_seteq)
      show "card (set (sub_ids d)) \<le> card {i \<in> set (sub_ids d). got s i}"
        using mi loop_done card_ids by (simp add: main_inv_def)
    qed auto
    then have "all_got d s'" unfolding all_got_def got by blast
    with loop_done show ?thesis by (simp add: main_inv_def)
  next
    case loop_cancelled
    then show ?thesis by (simp add: main_inv_def)
  next
    case (receive r rs)
    let ?i = "wr_subtask_id r"
    have e: "sent_err (ex_phase s ?i) = Some (wr_err r)" using go receive by (simp add: go_inv_def)
    then have nl: "ex_phase s ?i \<noteq> NotLaunched" by auto
    show ?thesis
    proof (cases "wr_err r")
      case (Some x)
      with e receive show ?thesis by (auto simp: main_inv_def)
    next
      case None
      have got: "got s' = (\<lambda>j. got s j \<or> j = ?i)" using g receive None by simp
      have i: "?i \<in> set (sub_ids d)" "\<not> got s ?i"
        using go_inv_started [OF go nl] receive by (auto simp: got_def)
      then have "{j \<in> set (sub_ids d). got s' j} = insert ?i {j \<in> set (sub_ids d). got s j}"
        unfolding got by auto
      then have "card {j \<in> set (sub_ids d). got s' j} = Suc (card {j \<in> set (sub_ids d). got s j})"
        using i by simp
      with mi receive None show ?thesis by (simp add: main_inv_def)
    qed
  next
    case (release_next i "is")
    have "got s' = got s" using g release_next by simp
    then show ?thesis using mi release_next by (simp add: main_inv_def)
  next
    case released_all
    have "got s' = got s" using g released_all by simp
    then show ?thesis using mi released_all by (simp add: main_inv_def)
  next
    case (return from_ctx)
    have q: "all_quiet d s'" using return by (simp add: all_quiet_def)
    show ?thesis
    proof (cases "ex_group_err s")
      case (Some e)
      with return q show ?thesis by (simp add: main_inv_def)
    next
      case None
      show ?thesis
      proof (cases from_ctx)
        case True
        with mi return have "ex_ctx_err s \<noteq> None" by (simp add: main_inv_def)
        with None True return q show ?thesis by (auto simp: main_inv_def)
      next
        case False
        have "sent_err (ex_phase s i) \<noteq> Some (Some e)" for i e
          using all_quiet_phase [OF return(3) go, of i] None grp by (auto simp: grp_inv_def)
        with mi return False have "all_got d s" by (simp add: main_inv_def)
        then have "\<forall>i \<in> set (sub_ids d). ex_phase s i = Exited None"
          using all_got_exited [OF _ return(3) go] by blast
        with None False return q show ?thesis by (simp add: main_inv_def)
      qed
    qed
  qed (rule main_inv_same [OF st go mi]; use g in \<open>simp split: main_phase.splits\<close>)+
qed

lemma step_inv [inv_intros]:
  "td_valid d \<Longrightarrow> exec_step runs d m s s' \<Longrightarrow> exec_inv m d s \<Longrightarrow> exec_inv m d s'"
  unfolding exec_inv_def using step_go_inv step_dep_inv step_grp_inv step_main_inv by blast

end

section \<open>Start and cancellation\<close>

lemma cancel_inv [inv_intros]:
  assumes "exec_cancel s s'" "exec_inv m d s"
  shows "exec_inv m d s'"
  using assms(1)
proof cases
  case (1 e)
  have got: "got s' = got s" using 1 by (simp add: got_def fun_eq_iff)
  have "go_inv m d s'" "grp_inv s'"
    using assms(2) 1 by (auto simp: exec_inv_def go_inv_def grp_inv_def)
  moreover have "dep_inv d s'"
    by (rule dep_inv_same [of d s]) (use assms(2) 1 got in \<open>simp_all add: exec_inv_def\<close>)
  moreover have "main_inv d s'"
    using assms(2) 1 unfolding exec_inv_def main_inv_def all_got_def got
    by (auto simp: all_quiet_def split: main_phase.splits bool.splits if_splits)
  ultimately show ?thesis by (simp add: exec_inv_def)
qed

lemma init_roots:
  assumes v: "td_valid d"
  shows "td_subtasks d \<noteq> [] \<and> ex_roots d \<noteq> []"
proof -
  have ne: "td_subtasks d \<noteq> []" using v td_validate_iff_wf [of d] by (simp add: td_wf_def)
  then have "set (sub_ids d) \<noteq> {}" by simp
  then obtain i where i: "i \<in> set (sub_ids d)" and min: "\<forall>a. (a, i) \<in> dep_edges d \<longrightarrow> a \<notin> set (sub_ids d)"
    using td.minimal_exists [OF v] by blast
  have "filter (\<lambda>e. snd e = i) (edge_list d) = []"
    unfolding filter_empty_conv
  proof
    fix e assume "e \<in> set (edge_list d)"
    then have "(fst e, snd e) \<in> dep_edges d" by (simp add: set_edge_list)
    then show "snd e \<noteq> i" using min td.edge_nodes [OF v, of "fst e" "snd e"] by metis
  qed
  then have "fst (ex_graph d) i = 0"
    using ex_graph_counts(1) [OF td.nodes_distinct [OF v]] by simp
  with i have "i \<in> set (ex_roots d)" by (auto simp: ex_roots_def)
  with ne show ?thesis by (metis empty_iff empty_set)
qed

lemma init_inv [inv_intros]:
  assumes v: "td_valid d"
  shows "exec_inv m d (exec_init d ctx_err)"
proof -
  let ?s = "exec_init d ctx_err"
  have ids: "distinct (sub_ids d)" using v by (rule td.nodes_distinct)
  have m: "ex_main ?s = Launching (ex_roots d)" using init_roots [OF v] by (simp add: exec_init_def)
  have ng: "got ?s = (\<lambda>_. False)" by (simp add: got_def exec_init_def fun_eq_iff)
  have p: "pending_launches (ex_main ?s) = ex_roots d" "pending_releases (ex_main ?s) = []"
    unfolding m by (simp_all add: pending_launches_def pending_releases_def)
  have "go_inv m d ?s" by (simp add: go_inv_def exec_init_def)
  moreover have "grp_inv ?s" by (simp add: grp_inv_def exec_init_def)
  moreover have "main_inv d ?s" unfolding main_inv_def m by (simp add: ng) (simp add: exec_init_def)
  moreover have "dep_inv d ?s"
    unfolding dep_inv_def blocking_def p ng
    using ids ex_graph_counts(1) [OF ids] by (auto simp: exec_init_def ex_roots_def)
  ultimately show ?thesis by (simp add: exec_inv_def)
qed

context honest_runs begin

lemma reachable_inv:
  assumes v: "td_valid d" and r: "exec_reachable runs d m s"
  shows "exec_inv m d s"
  using r by induction (use init_inv [OF v] step_inv [OF v] cancel_inv in blast)+

end

end
