(* ===== verification/Workers_Correct.thy ===== *)
theory Workers_Correct
  imports Workers
begin

text \<open>
  What a run of a worker reports: the life cycle of any worker, of a callback worker and of a
  worker agent (\<^verbatim>\<open>runWorker\<close> and \<^verbatim>\<open>WorkerAgent\<close>).
\<close>

section \<open>Any worker\<close>

lemma run_phases_three:
  "run_phases [f, g, h] ctx s d w =
     (case f ctx s d w of
        (Some e, w1) \<Rightarrow> (Some e, w1)
      | (None, w1) \<Rightarrow>
          (case g ctx s d w1 of
             (Some e, w2) \<Rightarrow> (Some e, w2)
           | (None, w2) \<Rightarrow>
               (case h ctx s d w2 of (Some e, w3) \<Rightarrow> (Some e, w3) | (None, w3) \<Rightarrow> (None, w3))))"
  by (auto split: prod.splits option.splits)

lemma base_result_simps [simp]:
  "wr_task_id (base_result d s) = td_task_id d" "wr_subtask_id (base_result d s) = sub_id s"
  "wr_status (base_result d s) = st_completed" "wr_output (base_result d s) = []"
  "wr_session_status (base_result d s) = []" "wr_verification_passed (base_result d s) = False"
  "wr_err (base_result d s) = None" "wr_terminated (base_result d s) = False"
  by (simp_all add: base_result_def zero_worker_result_def)

lemma merge_reported_err:
  "wr_err (merge_reported wk st r) =
     (case wk_reporter wk of None \<Rightarrow> wr_err r
      | Some (_, current) \<Rightarrow> if wr_err (current st) = None then wr_err r else wr_err (current st))"
  by (simp add: merge_reported_def Let_def split: option.splits prod.splits)

lemma we_workers_simps [simp]:
  "we_workers (report_result r e) = we_workers e" "we_state (report_result r e) = we_state e"
  "we_workers (publish_result wo r e) = we_workers e"
  "we_workers (terminate_worker wk e) = we_workers e" "we_sent (terminate_worker wk e) = we_sent e"
  "we_sent (unregister_worker i e) = we_sent e" "we_state (unregister_worker i e) = we_state e"
  by (simp_all add: report_result_def publish_result_def terminate_worker_def unregister_worker_def
      Let_def split: option.splits prod.splits)

section \<open>Callback workers\<close>

definition callback_source ::
  "(go_context \<Rightarrow> subtask \<Rightarrow> task_decomposition \<Rightarrow> 'w \<Rightarrow> go_error option \<times> 'w) option \<Rightarrow> int \<Rightarrow> 'w worker_source" where
  "callback_source fn m = \<lparr>ws_select = None, ws_factory = (\<lambda>_. Some (new_worker fn)), ws_max_workers = m\<rparr>"

lemma callback_result:
  "fst (run_worker (callback_source fn m) ctx d s e) =
     (case (case fn of None \<Rightarrow> None | Some f \<Rightarrow> fst (f ctx s d (we_state e))) of
        None \<Rightarrow> (base_result d s)\<lparr>wr_terminated := True\<rparr>
      | Some err \<Rightarrow> (base_result d s)\<lparr>wr_status := st_failed, wr_err := Some err, wr_terminated := True\<rparr>)"
  by (simp add: run_worker_def callback_source_def select_worker_def new_worker_def run_phases_three
      merge_reported_def register_worker_def Let_def split: option.splits prod.splits)

section \<open>Worker agents\<close>

definition agent_source :: "engine_run \<Rightarrow> int \<Rightarrow> worker_agent worker_source" where
  "agent_source run m = \<lparr>ws_select = None, ws_factory = (\<lambda>_. Some (agent_worker run)), ws_max_workers = m\<rparr>"

text \<open>The three calls on an agent, in the order of \<^verbatim>\<open>runWorker\<close>.\<close>

definition agent_phases ::
  "engine_run \<Rightarrow> go_context \<Rightarrow> subtask \<Rightarrow> task_decomposition \<Rightarrow> worker_agent \<Rightarrow> go_error option \<times> worker_agent" where
  "agent_phases run ctx s d w = run_phases [wa_plan_op, wa_execute_op run, wa_verify_op] ctx s d w"

lemma agent_run_worker:
  "run_worker (agent_source run m) ctx d s e =
     (let (err, w) = agent_phases run ctx s d (we_state e);
          r = (case err of
                 Some x \<Rightarrow> (base_result d s)\<lparr>wr_status := st_failed, wr_err := Some x, wr_terminated := True\<rparr>
               | None \<Rightarrow> (base_result d s)\<lparr>wr_terminated := True\<rparr>);
          r' = merge_reported (agent_worker run) w r;
          e1 = publish_result (Some (agent_worker run)) r' (register_worker (sub_id s) (agent_worker run) e\<lparr>we_state := w\<rparr>)
      in (r', unregister_worker (sub_id s) (terminate_worker (agent_worker run) e1)))"
  by (simp add: run_worker_def agent_source_def select_worker_def agent_phases_def agent_worker_def
      register_worker_def Let_def split: option.splits prod.splits)

lemma wa_fail_simps [simp]:
  "wr_subtask_id (wa_result (wa_fail s e w)) = sub_id s"
  "wr_status (wa_result (wa_fail s e w)) = st_failed"
  "wr_err (wa_result (wa_fail s e w)) \<noteq> None"
  "wa_sent (wa_fail s e w) = wa_sent w" "wa_reported (wa_fail s e w) = wa_reported w"
  "wa_terminated (wa_fail s e w) = wa_terminated w"
  by (simp_all add: wa_fail_def Let_def)

lemma sub_id_normalized [simp]: "sub_id (sub_normalize s) = sub_id s"
  by (simp add: sub_normalize_def)

definition engine_verified :: "session \<times> plan \<times> step list \<times> go_error option \<Rightarrow> bool" where
  "engine_verified x =
     (case x of (ses, _, steps, err) \<Rightarrow>
        err = None \<and> sess_status ses = ss_success \<and> last_step_passed steps)"

lemma agent_phases_result:
  assumes "agent_phases run ctx s d w = (err, w')"
  shows "wr_subtask_id (wa_result w') = sub_id s"
    and "wa_sent w' = wa_sent w \<and> wa_reported w' = wa_reported w \<and> wa_terminated w' = wa_terminated w"
    and "err = None \<longleftrightarrow> wr_err (wa_result w') = None"
    and "err = None \<longleftrightarrow> sub_validate (sub_normalize s) = [] \<and> wa_engine w \<and>
       engine_verified (run (WithCancel ctx) (subtask_task s))"
    and "wr_status (wa_result w') = (if err = None then st_completed else st_failed)"
    and "err = None \<Longrightarrow> wr_session_status (wa_result w') = ss_success \<and>
       wr_verification_passed (wa_result w') \<and>
       wr_output (wa_result w') = summarize_worker_output (fst (snd (snd (run (WithCancel ctx) (subtask_task s)))))"
proof -
  obtain ses pl steps eerr where r: "run (WithCancel ctx) (subtask_task s) = (ses, pl, steps, eerr)"
    by (metis prod_cases4)
  note defs = agent_phases_def run_phases_three wa_plan_op_def wa_execute_op_def wa_verify_op_def Let_def
    wa_capture_success_def last_step_passed_def engine_verified_def r
  show "wr_subtask_id (wa_result w') = sub_id s"
    using assms by (auto simp: defs split: if_splits option.splits)
  show "wa_sent w' = wa_sent w \<and> wa_reported w' = wa_reported w \<and> wa_terminated w' = wa_terminated w"
    using assms by (auto simp: defs split: if_splits option.splits)
  show "err = None \<longleftrightarrow> wr_err (wa_result w') = None"
    using assms by (auto simp: defs split: if_splits option.splits)
  show "err = None \<longleftrightarrow> sub_validate (sub_normalize s) = [] \<and> wa_engine w \<and>
       engine_verified (run (WithCancel ctx) (subtask_task s))"
    using assms by (auto simp: defs split: if_splits option.splits)
  show "wr_status (wa_result w') = (if err = None then st_completed else st_failed)"
    using assms by (auto simp: defs split: if_splits option.splits)
  show "err = None \<Longrightarrow> wr_session_status (wa_result w') = ss_success \<and>
       wr_verification_passed (wa_result w') \<and>
       wr_output (wa_result w') = summarize_worker_output (fst (snd (snd (run (WithCancel ctx) (subtask_task s)))))"
    using assms by (auto simp: defs split: if_splits option.splits)
qed

lemma wa_terminate_sent [simp]: "wa_sent (wa_terminate w) = wa_sent w"
  by (simp add: wa_terminate_def Let_def)

lemma agent_phases_terminated:
  "agent_phases run ctx s d w = (err, w') \<Longrightarrow> \<not> wr_terminated (wa_result w) \<Longrightarrow> \<not> wr_terminated (wa_result w')"
  by (auto simp: agent_phases_def run_phases_three wa_plan_op_def wa_execute_op_def wa_verify_op_def Let_def
      wa_fail_def wa_capture_success_def split: if_splits option.splits prod.splits)

text \<open>What the orchestrator gets and what the agent publishes, from the agent's own result.\<close>

lemma agent_run_reports:
  assumes p: "agent_phases run ctx s d (we_state e) = (err, w)"
    and w: "wa_sent (we_state e) = Some []" "\<not> wa_reported (we_state e)" "\<not> wa_terminated (we_state e)"
      "\<not> wr_terminated (wa_result (we_state e))"
  shows "fst (run_worker (agent_source run m) ctx d s e) =
      (let c = wa_result w in
       c\<lparr>wr_task_id := (if wr_task_id c = [] then td_task_id d else wr_task_id c), wr_subtask_id := sub_id s,
         wr_terminated := True\<rparr>)"
    and "wa_sent (we_state (snd (run_worker (agent_source run m) ctx d s e))) = Some [wa_result w]"
    and "we_workers (snd (run_worker (agent_source run m) ctx d s e)) (sub_id s) = None"
    and "we_sent (snd (run_worker (agent_source run m) ctx d s e)) = we_sent e"
proof -
  note r = agent_phases_result [OF p]
  have s: "wa_sent w = Some []" "\<not> wa_reported w" "\<not> wa_terminated w" using r(2) w by simp_all
  have nt: "\<not> wr_terminated (wa_result w)" using agent_phases_terminated [OF p w(4)] .
  show "fst (run_worker (agent_source run m) ctx d s e) =
      (let c = wa_result w in
       c\<lparr>wr_task_id := (if wr_task_id c = [] then td_task_id d else wr_task_id c), wr_subtask_id := sub_id s,
         wr_terminated := True\<rparr>)"
    by (insert r(1,3,5), cases err; rule worker_result.equality;
        auto simp: agent_run_worker p Let_def merge_reported_def agent_worker_def wa_current_result_def)
  show "wa_sent (we_state (snd (run_worker (agent_source run m) ctx d s e))) = Some [wa_result w]"
    using s nt by (simp add: agent_run_worker p Let_def publish_result_def terminate_worker_def agent_worker_def
        wa_report_def register_worker_def)
  show "we_workers (snd (run_worker (agent_source run m) ctx d s e)) (sub_id s) = None"
    by (simp add: agent_run_worker p Let_def unregister_worker_def)
  show "we_sent (snd (run_worker (agent_source run m) ctx d s e)) = we_sent e"
    using s by (simp add: agent_run_worker p Let_def publish_result_def agent_worker_def
        wa_report_def register_worker_def)
qed

section \<open>Properties\<close>

text \<open>
  C12. A worker agent reports success exactly when the runtime verified the subtask.  Its result
  has no error exactly if the subtask is valid, the engine is complete, and the engine's run ended
  without error, in a session with status success, with a last step whose verification passed;
  then the status, the session status and the output say so.  Otherwise the status is failed.  The
  agent publishes exactly one result, with the same verdict (but not yet marked as terminated),
  and is no longer registered.
\<close>

theorem agent_run_verdict:
  "\<exists>r e'. run_worker (agent_source run m) ctx d s (e\<lparr>we_state := new_worker_agent i t engine (Some [])\<rparr>) = (r, e') \<and>
     wr_subtask_id r = sub_id s \<and> sub_id s \<notin> dom (we_workers e') \<and> we_sent e' = we_sent e \<and>
     (if sub_validate (sub_normalize s) = [] \<and> engine \<and> engine_verified (run (WithCancel ctx) (subtask_task s))
      then wr_err r = None \<and> wr_status r = st_completed \<and> wr_session_status r = ss_success \<and>
           wr_verification_passed r \<and>
           wr_output r = summarize_worker_output (fst (snd (snd (run (WithCancel ctx) (subtask_task s)))))
      else wr_err r \<noteq> None \<and> wr_status r = st_failed) \<and>
     (\<exists>sent. wa_sent (we_state e') = Some [sent] \<and> wr_subtask_id sent = wr_subtask_id r \<and>
        wr_err sent = wr_err r \<and> wr_status sent = wr_status r \<and> \<not> wr_terminated sent \<and> wr_terminated r)"
proof -
  let ?e = "e\<lparr>we_state := new_worker_agent i t engine (Some [])\<rparr>"
  obtain err w where p: "agent_phases run ctx s d (we_state ?e) = (err, w)" by fastforce
  note r = agent_phases_result [OF p]
  note f = agent_run_reports [OF p, of m]
  obtain rr e' where rw: "run_worker (agent_source run m) ctx d s ?e = (rr, e')" by fastforce
  let ?ok = "sub_validate (sub_normalize s) = [] \<and> engine \<and> engine_verified (run (WithCancel ctx) (subtask_task s))"
  have new: "wa_sent (we_state ?e) = Some []" "\<not> wa_reported (we_state ?e)" "\<not> wa_terminated (we_state ?e)"
    "\<not> wr_terminated (wa_result (we_state ?e))" "wa_engine (we_state ?e) = engine"
    by (simp_all add: new_worker_agent_def zero_worker_result_def)
  note f = f [OF new(1-4), unfolded rw fst_conv snd_conv Let_def]
  have nt: "\<not> wr_terminated (wa_result w)" using agent_phases_terminated [OF p] new by simp
  have ok: "err = None \<longleftrightarrow> ?ok" using r(4) new by simp
  have rr: "wr_subtask_id rr = sub_id s" "wr_err rr = wr_err (wa_result w)" "wr_status rr = wr_status (wa_result w)"
    "wr_session_status rr = wr_session_status (wa_result w)" "wr_output rr = wr_output (wa_result w)"
    "wr_verification_passed rr = wr_verification_passed (wa_result w)" "wr_terminated rr"
    using f(1) r(1) by simp_all
  have e': "sub_id s \<notin> dom (we_workers e')" "we_sent e' = we_sent e" "wa_sent (we_state e') = Some [wa_result w]"
    using f(2-4) by (simp_all add: domIff)
  have verdict: "if ?ok
      then wr_err rr = None \<and> wr_status rr = st_completed \<and> wr_session_status rr = ss_success \<and>
           wr_verification_passed rr \<and>
           wr_output rr = summarize_worker_output (fst (snd (snd (run (WithCancel ctx) (subtask_task s)))))
      else wr_err rr \<noteq> None \<and> wr_status rr = st_failed"
    using r(3,5,6) rr ok by (cases "err = None") auto
  have "\<exists>sent. wa_sent (we_state e') = Some [sent] \<and> wr_subtask_id sent = wr_subtask_id rr \<and>
      wr_err sent = wr_err rr \<and> wr_status sent = wr_status rr \<and> \<not> wr_terminated sent \<and> wr_terminated rr"
    using e'(3) rr r(1) nt by (intro exI [of _ "wa_result w"]) simp
  with rw rr(1) e'(1,2) verdict show ?thesis
    by (intro exI [of _ rr] exI [of _ e']) blast
qed

end
