(* ===== verification/Orchestrator_Properties.thy ===== *)
theory Orchestrator_Properties
  imports Orchestrator_Invariant Workers_Correct Scheduler_Properties
begin

text \<open>
  What the invariant gives: the worker limit, that subtasks start only after what they depend on,
  that an execution never gets stuck and always ends, and what its result means.  The section on
  the repository's own workers instantiates the locale with the results that \<^verbatim>\<open>runWorker\<close> gives
  for callback workers and for worker agents.
\<close>

section \<open>Progress\<close>

lemma blocking_Nil_iff:
  "blocking d s j = [] \<longleftrightarrow> (\<forall>a. (a, j) \<in> dep_edges d \<longrightarrow> got s a)"
  by (auto simp: blocking_def filter_empty_conv simp flip: set_edge_list)

lemma inv_dependencies:
  assumes "exec_inv m d s" "ex_phase s i \<noteq> NotLaunched" "(a, i) \<in> dep_edges d"
  shows "got s a"
proof -
  have st: "ex_started s i" "i \<in> set (sub_ids d)"
    using assms go_inv_started [of m d s i] by (auto simp: exec_inv_def)
  have "dep_inv d s" using assms by (simp add: exec_inv_def)
  then have "ex_remaining s i = 0"
    "ex_remaining s i = int (length (blocking d s i)) + int (count_list (pending_releases (ex_main s)) i)"
    using st unfolding dep_inv_def by blast+
  then have "length (blocking d s i) = 0" by linarith
  then have "blocking d s i = []" by simp
  with assms(3) show ?thesis using blocking_Nil_iff by blast
qed

lemma results_room:
  assumes v: "td_valid d" and go: "go_inv m d s" and w: "ex_phase s i = InWorker"
  shows "length (ex_results s) < length (td_subtasks d)"
proof -
  have i: "i \<in> set (sub_ids d)" using go_inv_started [OF go, of i] w by simp
  have "set (result_ids s) \<subseteq> set (sub_ids d) - {i}"
  proof
    fix x assume "x \<in> set (result_ids s)"
    then have "sent_err (ex_phase s x) \<noteq> None" using go by (auto simp: go_inv_def)
    then have "ex_phase s x \<noteq> NotLaunched" "x \<noteq> i" using w by auto
    then show "x \<in> set (sub_ids d) - {i}" using go_inv_started [OF go, of x] by simp
  qed
  then have "card (set (result_ids s)) \<le> card (set (sub_ids d) - {i})" by (intro card_mono) auto
  moreover have "card (set (result_ids s)) = length (ex_results s)"
    using go unfolding go_inv_def by (metis distinct_card length_map)
  moreover have "card (set (sub_ids d)) = length (td_subtasks d)"
    using td.nodes_distinct [OF v] by (metis distinct_card length_map)
  moreover have "0 < length (td_subtasks d)" using i by (cases "td_subtasks d") auto
  moreover have "card (set (sub_ids d) - {i}) = card (set (sub_ids d)) - 1"
    using i by (simp add: card_Diff_singleton)
  ultimately show ?thesis by linarith
qed

text \<open>When no goroutine can move, all have returned.\<close>

lemma all_exited:
  assumes stuck: "\<And>i. \<not> holds_token (ex_phase s i)" "\<And>i e. ex_phase s i \<noteq> Released e"
    "\<And>i. ex_phase s i \<noteq> AtSemaphore"
  shows "all_quiet d s"
  unfolding all_quiet_def list_all_iff
proof
  fix t
  show "quiet (ex_phase s (sub_id t))"
    using stuck [of "sub_id t"] by (cases "ex_phase s (sub_id t)") (auto simp: quiet_def)
qed

context honest_runs begin

lemma goroutine_step:
  assumes v: "td_valid d" and go: "go_inv m d s" and m: "0 < m"
    and busy: "\<not> all_quiet d s"
  shows "\<exists>s'. exec_step runs d m s s'"
proof (rule ccontr)
  assume no: "\<not> ?thesis"
  have w: "ex_phase s i \<noteq> InWorker" for i
  proof
    assume i: "ex_phase s i = InWorker"
    obtain r where "runs d (ex_subtask d i) r" using returns by blast
    from exec_step.work [where runs = runs, OF i this results_room [OF v go i]] no show False by blast
  qed
  have snt: "ex_phase s i \<noteq> Sent e" for i e using no exec_step.release by blast
  have "ex_phase s i \<noteq> Released e" for i e using no exec_step.exit by blast
  moreover have h: "\<not> holds_token (ex_phase s i)" for i using w snt by (cases "ex_phase s i") auto
  moreover have "ex_phase s i \<noteq> AtSemaphore" for i
  proof
    assume i: "ex_phase s i = AtSemaphore"
    have "ex_tokens s = 0" using go_inv_tokens [OF go] h by simp
    then have "ex_tokens s < m" using m by simp
    from exec_step.acquire [where runs = runs and d = d, OF i this] no show False by blast
  qed
  ultimately show False using busy all_exited by blast
qed

lemma progress:
  assumes v: "td_valid d" and inv: "exec_inv m d s" and m: "0 < m"
    and running: "\<And>v. ex_main s \<noteq> Returned v"
  shows "\<exists>s'. exec_step runs d m s s'"
proof (cases "all_quiet d s")
  case False
  then show ?thesis using goroutine_step [OF v _ m] inv by (simp add: exec_inv_def)
next
  case True
  show ?thesis
  proof (cases "ex_main s")
    case (Launching ls)
    then show ?thesis using exec_step.launch_root exec_step.launched_roots by (cases ls) blast+
  next
    case (Releasing ls)
    then show ?thesis using exec_step.release_next exec_step.released_all by (cases ls) blast+
  next
    case (InWait b)
    with True show ?thesis using exec_step.return by blast
  next
    case (Returned v)
    with running show ?thesis by blast
  next
    case Looping
    note l = Looping
    show ?thesis
    proof (cases "ex_completed s < length (td_subtasks d)")
      case False
      with l show ?thesis using exec_step.loop_done [of s d runs m] by auto
    next
      case unfinished: True
      consider "ex_ctx_err s \<noteq> None" | r rs where "ex_results s = r # rs"
        | "ex_ctx_err s = None" "ex_results s = []"
        by (cases "ex_results s") auto
      then show ?thesis
      proof cases
        case 1
        with l unfinished show ?thesis using exec_step.loop_cancelled by blast
      next
        case 2
        with l unfinished show ?thesis using exec_step.receive by blast
      next
        case 3
        have go: "go_inv m d s" and dep: "dep_inv d s" and grp: "grp_inv s" and mi: "main_inv d s"
          using inv by (simp_all add: exec_inv_def)
        have ok: "got s i" if "ex_started s i" for i
        proof -
          have "ex_phase s i \<noteq> NotLaunched" using go that by (simp add: go_inv_def)
          then obtain e where e: "ex_phase s i = Exited e" using all_quiet_phase [OF True go, of i] by blast
          have "e = None" using e grp 3 by (cases e) (auto simp: grp_inv_def)
          with e 3 show ?thesis by (simp add: got_def)
        qed
        let ?S = "{i \<in> set (sub_ids d). \<not> got s i}"
        have "card {i \<in> set (sub_ids d). got s i} < length (td_subtasks d)"
          using mi l unfinished by (simp add: main_inv_def)
        moreover have "card (set (sub_ids d)) = length (td_subtasks d)"
          using td.nodes_distinct [OF v] by (metis distinct_card length_map)
        ultimately have "{i \<in> set (sub_ids d). got s i} \<noteq> set (sub_ids d)" by auto
        then have "?S \<noteq> {}" by blast
        then obtain i where i: "i \<in> ?S" and min: "\<forall>a. (a, i) \<in> dep_edges d \<longrightarrow> a \<notin> ?S"
          using td.minimal_exists [OF v, of ?S] by blast
        have "got s a" if "(a, i) \<in> dep_edges d" for a
          using min that td.edge_nodes [OF v that] by blast
        then have "blocking d s i = []" using blocking_Nil_iff by blast
        moreover have "pending_releases (ex_main s) = []" "pending_launches (ex_main s) = []"
          by (simp_all add: l pending_releases_def pending_launches_def)
        moreover have "ex_remaining s i =
            int (length (blocking d s i)) + int (count_list (pending_releases (ex_main s)) i)"
          using dep unfolding dep_inv_def by blast
        moreover have "i \<in> set (sub_ids d) \<Longrightarrow>
            ex_started s i \<longleftrightarrow> ex_remaining s i = 0 \<and> i \<notin> set (pending_launches (ex_main s))"
          using dep unfolding dep_inv_def by blast
        ultimately have "ex_started s i" using i by simp
        with ok i show ?thesis by blast
      qed
    qed
  qed
qed

end

section \<open>Termination\<close>

fun phase_weight :: "nat \<Rightarrow> phase \<Rightarrow> nat" where
  "phase_weight n NotLaunched = n + 8"
| "phase_weight n AtSemaphore = n + 7"
| "phase_weight n InWorker = n + 6"
| "phase_weight n (Sent e) = 2"
| "phase_weight n (Released e) = 1"
| "phase_weight n (Exited e) = 0"

fun main_weight :: "main_phase \<Rightarrow> nat" where
  "main_weight (Launching ls) = 3 + length ls"
| "main_weight (Releasing ls) = 3 + length ls"
| "main_weight Looping = 2"
| "main_weight (InWait b) = 1"
| "main_weight (Returned v) = 0"

text \<open>How much an execution still has to do; \<open>n\<close> is the number of edges.\<close>

definition exec_measure :: "task_decomposition \<Rightarrow> exec_state \<Rightarrow> nat" where
  "exec_measure d s =
     (let n = length (edge_list d) in
      (\<Sum>i \<in> set (sub_ids d). phase_weight n (ex_phase s i)) + (n + 3) * length (ex_results s) +
      main_weight (ex_main s) + (if ex_ctx_err s = None then 1 else 0))"

lemma sum_upd:
  fixes w :: "phase \<Rightarrow> nat"
  assumes "finite I" "i \<in> I"
  shows "(\<Sum>j \<in> I. w ((f(i := p)) j)) + w (f i) = (\<Sum>j \<in> I. w (f j)) + w p"
proof -
  have "(\<Sum>j \<in> I. w ((f(i := p)) j)) = w p + (\<Sum>j \<in> I - {i}. w ((f(i := p)) j))"
    using sum.remove [OF assms, of "\<lambda>j. w ((f(i := p)) j)"] by simp
  moreover have "(\<Sum>j \<in> I - {i}. w ((f(i := p)) j)) = (\<Sum>j \<in> I - {i}. w (f j))"
    by (rule sum.cong) auto
  moreover have "(\<Sum>j \<in> I. w (f j)) = w (f i) + (\<Sum>j \<in> I - {i}. w (f j))"
    using sum.remove [OF assms, of "\<lambda>j. w (f j)"] .
  ultimately show ?thesis by simp
qed

lemma weight_upd:
  assumes "i \<in> set (sub_ids d)"
  shows "(\<Sum>j \<in> set (sub_ids d). phase_weight n ((f(i := p)) j)) + phase_weight n (f i) =
         (\<Sum>j \<in> set (sub_ids d). phase_weight n (f j)) + phase_weight n p"
  by (rule sum_upd) (use assms in simp_all)

lemma measure_move:
  assumes i: "i \<in> set (sub_ids d)"
    and s': "ex_phase s' = (ex_phase s)(i := p)" "ex_main s' = ex_main s"
    and res: "length (ex_results s') = length (ex_results s) + k"
    and w: "phase_weight (length (edge_list d)) p + (length (edge_list d) + 3) * k <
            phase_weight (length (edge_list d)) (ex_phase s i)"
    and ctx: "ex_ctx_err s' = None \<Longrightarrow> ex_ctx_err s = None"
  shows "exec_measure d s' < exec_measure d s"
  using weight_upd [OF i, of "length (edge_list d)" "ex_phase s" p] w ctx
  by (simp add: exec_measure_def Let_def s' res algebra_simps)

lemma measure_main:
  assumes "ex_phase s' = ex_phase s" "length (ex_results s') \<le> length (ex_results s)"
    and "main_weight (ex_main s') < main_weight (ex_main s)"
    and ctx: "ex_ctx_err s' = None \<Longrightarrow> ex_ctx_err s = None"
  shows "exec_measure d s' < exec_measure d s"
proof -
  have "(length (edge_list d) + 3) * length (ex_results s') \<le> (length (edge_list d) + 3) * length (ex_results s)"
    using assms(2) by (rule mult_le_mono2)
  moreover have "(if ex_ctx_err s' = None then 1 else 0) \<le> (if ex_ctx_err s = None then 1 else (0 :: nat))"
    using ctx by simp
  ultimately show ?thesis using assms(3) unfolding exec_measure_def Let_def assms(1) by linarith
qed

lemma measure_launch:
  assumes i: "i \<in> set (sub_ids d)" and old: "ex_phase s i = NotLaunched"
    and s': "ex_phase s' = (ex_phase s)(i := AtSemaphore)" "ex_results s' = ex_results s"
      "ex_ctx_err s' = ex_ctx_err s"
    and main: "main_weight (ex_main s') < main_weight (ex_main s)"
  shows "exec_measure d s' < exec_measure d s"
  using weight_upd [OF i, of "length (edge_list d)" "ex_phase s" AtSemaphore] old main
  by (simp add: exec_measure_def Let_def s')

context honest_runs begin

lemma step_measure:
  assumes v: "td_valid d" and st: "exec_step runs d m s s'" and inv: "exec_inv m d s"
  shows "exec_measure d s' < exec_measure d s"
proof -
  have go: "go_inv m d s" and dep: "dep_inv d s" using inv by (simp_all add: exec_inv_def)
  note started = go_inv_started [OF go]
  from st show ?thesis
  proof cases
    case (launch_root i "is")
    then have i: "i \<in> set (sub_ids d)" using dep by (simp add: dep_inv_def pending_launches_def)
    show ?thesis
    proof (cases "ex_started s i")
      case True
      with launch_root show ?thesis by (intro measure_main) simp_all
    next
      case False
      with go have "ex_phase s i = NotLaunched" by (simp add: go_inv_def)
      with launch_root False i show ?thesis by (intro measure_launch [where i = i]) simp_all
    qed
  next
    case (release_next i "is")
    then have i: "i \<in> set (sub_ids d)" using dep by (simp add: dep_inv_def pending_releases_def)
    show ?thesis
    proof (cases "ex_remaining s i = 1 \<and> \<not> ex_started s i")
      case False
      with release_next show ?thesis by (intro measure_main) auto
    next
      case True
      with go have "ex_phase s i = NotLaunched" by (simp add: go_inv_def)
      with release_next True i show ?thesis by (intro measure_launch [where i = i]) simp_all
    qed
  next
    case (acquire i)
    then show ?thesis using started [of i] by (intro measure_move [where i = i and p = "InWorker" and k = 0]) simp_all
  next
    case (give_up i e)
    then show ?thesis using started [of i] by (intro measure_move [where i = i and p = "Exited (Some e)" and k = 0]) simp_all
  next
    case (work i r)
    then show ?thesis using started [of i] by (intro measure_move [where i = i and p = "Sent (wr_err r)" and k = 1]) simp_all
  next
    case (release i err)
    then show ?thesis using started [of i] by (intro measure_move [where i = i and p = "Released err" and k = 0]) simp_all
  next
    case (exit i err)
    then show ?thesis using started [of i]
      by (intro measure_move [where i = i and p = "Exited err" and k = 0]) (simp_all split: if_splits)
  next
    case (receive r rs)
    have "length (map snd (filter (\<lambda>e. fst e = wr_subtask_id r) (edge_list d))) \<le> length (edge_list d)"
      by simp
    then have "main_weight (ex_main s') \<le> length (edge_list d) + 3"
      using receive ex_graph_counts(2) [OF td.nodes_distinct [OF v]] by simp
    with receive show ?thesis by (simp add: exec_measure_def Let_def algebra_simps)
  qed (rule measure_main; simp split: if_splits)+
qed

end

lemma cancel_measure: "exec_cancel s s' \<Longrightarrow> exec_measure d s' < exec_measure d s"
  by (erule exec_cancelE) (simp add: exec_measure_def Let_def)

section \<open>Executions\<close>

context honest_runs begin

lemma worker_limit:
  assumes "td_valid d" "exec_reachable runs d m s"
  shows "card {i \<in> set (sub_ids d). holds_token (ex_phase s i)} \<le> m"
  using reachable_inv [OF assms] go_inv_tokens [of m d s] unfolding exec_inv_def go_inv_def by argo

lemma started_after_dependencies:
  assumes "td_valid d" "exec_reachable runs d m s" "ex_phase s i \<noteq> NotLaunched" "(a, i) \<in> dep_edges d"
  shows "sent_err (ex_phase s a) = Some None"
  using inv_dependencies [OF reachable_inv [OF assms(1,2)] assms(3,4)] by (simp add: got_def)

lemma stuck_returned:
  assumes "td_valid d" "exec_reachable runs d m s" "0 < m" "\<nexists>s'. exec_step runs d m s s'"
  shows "\<exists>v. ex_main s = Returned v"
  using progress [OF assms(1) reachable_inv [OF assms(1,2)] assms(3)] assms(4) by blast

lemma no_infinite_execution:
  assumes v: "td_valid d"
    and f: "\<forall>k. exec_step runs d m (f k) (f (Suc k)) \<or> exec_cancel (f k) (f (Suc k))"
    and start: "exec_reachable runs d m (f 0)"
  shows False
proof -
  have r: "exec_reachable runs d m (f k)" for k
    by (induction k) (use start f exec_reachable.step exec_reachable.cancel in \<open>blast+\<close>)
  have dec: "exec_measure d (f (Suc k)) < exec_measure d (f k)" for k
    using f step_measure [OF v _ reachable_inv [OF v r]] cancel_measure by blast
  have "exec_measure d (f k) + k \<le> exec_measure d (f 0)" for k
  proof (induction k)
    case (Suc k)
    with dec [of k] show ?case by linarith
  qed simp
  from this [of "Suc (exec_measure d (f 0))"] show False by simp
qed

lemma returned_nil:
  assumes "td_valid d" "exec_reachable runs d m s" "ex_main s = Returned None"
  shows "\<forall>i \<in> set (sub_ids d). ex_phase s i = Exited None"
  using reachable_inv [OF assms(1,2)] assms(3) by (simp add: exec_inv_def main_inv_def)

text \<open>Executions nobody cancels: the context is done only because of the group.\<close>

definition own_ctx :: "exec_state \<Rightarrow> bool" where
  "own_ctx s \<longleftrightarrow> ex_ctx_err s = None \<or> ex_group_err s \<noteq> None \<or> ex_main s = Returned None"

lemma own_ctx_step:
  assumes st: "exec_step runs d m s s'" and own: "own_ctx s" and run: "ex_main s \<noteq> Returned None"
    and mi: "main_inv d s"
  shows "own_ctx s'"
  using st
proof cases
  case (return b)
  with own mi show ?thesis by (cases b) (auto simp: own_ctx_def main_inv_def split: option.splits)
qed (use own run in \<open>auto simp: own_ctx_def\<close>)

lemma uncancelled_run:
  assumes v: "td_valid d" and run: "(exec_step runs d m)\<^sup>*\<^sup>* (exec_init d None) s"
  shows "exec_reachable runs d m s \<and> own_ctx s"
  using run
proof induction
  case base
  have "own_ctx (exec_init d None)" by (simp add: own_ctx_def exec_init_def)
  then show ?case using exec_reachable.start by blast
next
  case (step s s')
  then have r: "exec_reachable runs d m s" and r': "exec_reachable runs d m s'"
    using exec_reachable.step by blast+
  have inv: "go_inv m d s" "main_inv d s" using reachable_inv [OF v r] by (simp_all add: exec_inv_def)
  have "ex_main s \<noteq> Returned None"
  proof
    assume "ex_main s = Returned None"
    moreover from this have "all_quiet d s" using inv(2) by (simp add: main_inv_def)
    ultimately show False using returned_final [OF _ _ inv(1)] step.hyps(2) by blast
  qed
  then have "own_ctx s'" using own_ctx_step [OF step.hyps(2)] step.IH inv by blast
  with r' show ?case by blast
qed

lemma uncancelled_error:
  assumes v: "td_valid d" and run: "(exec_step runs d m)\<^sup>*\<^sup>* (exec_init d None) s"
    and fin: "ex_main s = Returned (Some e)"
  shows "\<exists>i \<in> set (sub_ids d). ex_phase s i = Exited (Some e)"
proof -
  note r = uncancelled_run [OF v run]
  have inv: "go_inv m d s" "grp_inv s" "main_inv d s"
    using reachable_inv [OF v, of m s] r by (auto simp: exec_inv_def)
  have "ex_group_err s = Some e"
    using inv(3) fin r by (auto simp: main_inv_def own_ctx_def)
  then obtain i where i: "ex_phase s i = Exited (Some e)" using inv(2) by (auto simp: grp_inv_def)
  then have "i \<in> set (sub_ids d)" using go_inv_started [OF inv(1), of i] by simp
  with i show ?thesis by blast
qed

end

section \<open>The repository's workers\<close>

text \<open>
  The results \<^verbatim>\<open>runWorker\<close> can give for a subtask when the factory makes callback workers
  (\<^verbatim>\<open>NewWorker\<close>, with any callback) or worker agents (\<^verbatim>\<open>NewWorkerAgent\<close>, with any engine).
\<close>

definition callback_runs :: "task_decomposition \<Rightarrow> subtask \<Rightarrow> worker_result \<Rightarrow> bool" where
  "callback_runs d t r \<longleftrightarrow>
     (\<exists>fn m ctx e. r = fst (run_worker (callback_source fn m :: unit worker_source) ctx d t e))"

definition agent_runs :: "task_decomposition \<Rightarrow> subtask \<Rightarrow> worker_result \<Rightarrow> bool" where
  "agent_runs d t r \<longleftrightarrow>
     (\<exists>run m ctx i engine ch e. we_state e = new_worker_agent i t engine ch \<and>
        r = fst (run_worker (agent_source run m) ctx d t e))"

definition repo_runs :: "task_decomposition \<Rightarrow> subtask \<Rightarrow> worker_result \<Rightarrow> bool" where
  "repo_runs d t r \<longleftrightarrow> callback_runs d t r \<or> agent_runs d t r"

lemma agent_run_id: "wr_subtask_id (fst (run_worker (agent_source run m) ctx d t e)) = sub_id t"
proof -
  obtain err w where p: "agent_phases run ctx t d (we_state e) = (err, w)" by fastforce
  show ?thesis
    using agent_phases_result(1) [OF p]
    by (auto simp: agent_run_worker p Let_def merge_reported_def agent_worker_def wa_current_result_def
        split: option.splits)
qed

interpretation repo: honest_runs repo_runs
proof (unfold_locales, goal_cases)
  case (1 d t r)
  then show ?case
    using agent_run_id by (auto simp: repo_runs_def callback_runs_def agent_runs_def callback_result split: option.splits)
next
  case (2 d t)
  show ?case unfolding repo_runs_def callback_runs_def by blast
qed

abbreviation workers_of :: "int \<Rightarrow> nat" where
  "workers_of k \<equiv> nat (effective_max_workers k)"

lemma workers_of_pos: "0 < workers_of k"
  by (simp add: effective_max_workers_def default_max_workers_def)

section \<open>An example execution\<close>

text \<open>The example decomposition of the scheduler, with callback workers that all succeed.\<close>

definition ex_work :: "string \<Rightarrow> go_move" where
  "ex_work i = MoveWork i ((base_result ex_td (ex_subtask ex_td i))\<lparr>wr_terminated := True\<rparr>)"

definition ex_moves :: "go_move list" where
  "ex_moves =
     [MoveMain, MoveMain, MoveAcquire ''a'', MoveMain, MoveAcquire ''c'', ex_work ''a'', MoveReceive,
      MoveMain, MoveMain, ex_work ''c'', MoveRelease ''a'', MoveReceive, MoveMain,
      MoveMain, MoveAcquire ''b'', MoveExit ''a'', ex_work ''b'', MoveReceive, MoveMain, MoveMain,
      MoveRelease ''c'', MoveRelease ''b'', MoveExit ''c'', MoveExit ''b'', MoveMain]"

text \<open>The state after the first moves.\<close>

definition ex_state :: "nat \<Rightarrow> exec_state" where
  "ex_state n = (case exec_moves ex_td (workers_of 0) (take n ex_moves) (exec_init ex_td None) of
     Some s \<Rightarrow> s | None \<Rightarrow> exec_init ex_td None)"

lemma ex_allowed: "list_all (allowed_move repo_runs ex_td) ex_moves"
proof -
  have "callback_runs ex_td t ((base_result ex_td t)\<lparr>wr_terminated := True\<rparr>)" for t
    unfolding callback_runs_def
    by (intro exI [of _ None] exI) (simp add: callback_result)
  then show ?thesis by (simp add: ex_moves_def ex_work_def allowed_move_def repo_runs_def)
qed

lemma ex_steps: "(exec_step repo_runs ex_td (workers_of 0))\<^sup>*\<^sup>* (exec_init ex_td None) (ex_state n)"
proof (cases "exec_moves ex_td (workers_of 0) (take n ex_moves) (exec_init ex_td None)")
  case None
  then show ?thesis by (simp add: ex_state_def)
next
  case (Some s)
  have "list_all (allowed_move repo_runs ex_td) (take n ex_moves)"
    using ex_allowed by (auto simp: list_all_iff dest: in_set_takeD)
  from exec_moves_steps [OF Some this] Some show ?thesis by (simp add: ex_state_def)
qed

lemma ex_reachable: "exec_reachable repo_runs ex_td (workers_of 0) (ex_state n)"
  by (rule steps_reachable [OF ex_steps exec_reachable.start])

definition ex_orchestrator :: orchestrator where
  "ex_orchestrator = \<lparr>or_max_workers = 2, or_has_factory = True, or_tasks = None, or_capacity = 0,
     or_results = False, or_started = False, or_closed = False, or_ctx_err = None\<rparr>"

section \<open>Properties\<close>

text \<open>
  C8. The worker limit holds: in every state an execution can reach, whatever the interleaving and
  the cancellations, no more than the configured number of workers (four, if none is configured)
  have left the semaphore with their token.
\<close>

theorem exec_worker_limit:
  assumes "td_validate d = Some []" "exec_reachable repo_runs d (workers_of k) s"
  shows "card {i \<in> set (sub_ids d). holds_token (ex_phase s i)} \<le> workers_of k"
  using assms by (rule repo.worker_limit)

theorem exec_worker_limit_witness:
  "ex_tokens (ex_state 5) = 2 \<and> card {i \<in> set (sub_ids ex_td). holds_token (ex_phase (ex_state 5) i)} \<le> 4"
proof
  show "ex_tokens (ex_state 5) = 2" by code_simp
  show "card {i \<in> set (sub_ids ex_td). holds_token (ex_phase (ex_state 5) i)} \<le> 4"
    using exec_worker_limit [OF ex_td_valid ex_reachable [of 5]]
    by (simp add: effective_max_workers_def default_max_workers_def)
qed

text \<open>
  C5. A subtask starts only after what it depends on succeeded: when its goroutine is launched,
  the worker of every subtask it depends on has sent a result without error.
\<close>

theorem exec_dependency_order:
  assumes "td_validate d = Some []" "exec_reachable repo_runs d (workers_of k) s"
    and "ex_phase s i \<noteq> NotLaunched" "(a, i) \<in> dep_edges d"
  shows "sent_err (ex_phase s a) = Some None"
  using assms by (rule repo.started_after_dependencies)

theorem exec_dependency_order_witness:
  "ex_phase (ex_state 13) ''b'' = AtSemaphore \<and> sent_err (ex_phase (ex_state 13) ''c'') = Some None"
proof
  show b: "ex_phase (ex_state 13) ''b'' = AtSemaphore" by code_simp
  have "(''c'', ''b'') \<in> dep_edges ex_td" by (auto simp: dep_edges_def ex_td_def)
  with b show "sent_err (ex_phase (ex_state 13) ''c'') = Some None"
    by (intro exec_dependency_order [OF ex_td_valid ex_reachable [of 13]]) simp_all
qed

text \<open>
  C7. The result means what it says.  When \<^verbatim>\<open>executeDecomposition\<close> returns nil, the goroutine of
  every subtask has run its worker and returned without error.  When nobody cancels the execution
  and it returns an error, that is the error that the goroutine of one of the subtasks returned.
\<close>

theorem exec_result:
  assumes "td_validate d = Some []"
  shows "(\<forall>s. exec_reachable repo_runs d (workers_of k) s \<and> ex_main s = Returned None \<longrightarrow>
       (\<forall>i \<in> set (sub_ids d). ex_phase s i = Exited None)) \<and>
    (\<forall>s e. (exec_step repo_runs d (workers_of k))\<^sup>*\<^sup>* (exec_init d None) s \<and> ex_main s = Returned (Some e) \<longrightarrow>
       (\<exists>i \<in> set (sub_ids d). ex_phase s i = Exited (Some e)))"
  using repo.returned_nil [OF assms] repo.uncancelled_error [OF assms] by blast

theorem exec_result_witness:
  "ex_main (ex_state 25) = Returned None \<and> map (ex_phase (ex_state 25)) [''a'', ''b'', ''c''] = [Exited None, Exited None, Exited None]"
proof
  show m: "ex_main (ex_state 25) = Returned None" by code_simp
  have "\<forall>i \<in> set (sub_ids ex_td). ex_phase (ex_state 25) i = Exited None"
    using conjunct1 [OF exec_result [OF ex_td_valid, of 0]] ex_reachable [of 25] m by blast
  then show "map (ex_phase (ex_state 25)) [''a'', ''b'', ''c''] = [Exited None, Exited None, Exited None]"
    unfolding ex_ids by simp
qed

text \<open>
  A submission after \<^verbatim>\<open>Stop\<close> panics.  \<^verbatim>\<open>Stop\<close> closes the task channel, and
  \<^verbatim>\<open>SubmitTask\<close> checks that the orchestrator was started but not that it was stopped: with no
  context done, its \<^verbatim>\<open>select\<close> can only send on the closed channel.
\<close>

theorem submit_after_stop_panics:
  assumes "td_validate d = Some []" "or_start None strategy orc = Inr orc'"
  shows "submit_task None d (or_stop orc') = [SubmitPanic]"
proof -
  have "or_started orc'" "or_ctx_err orc' = None" "or_tasks orc' \<noteq> None"
    using assms(2) by (auto simp: or_start_def Let_def split: if_splits sum.splits option.splits)
  then show ?thesis using assms(1) by (auto simp: submit_task_def submit_select_def or_stop_def split: option.splits)
qed

theorem submit_after_stop_panics_witness:
  "\<exists>orc'. or_start None (Inr () :: (go_error, unit) result) ex_orchestrator = Inr orc' \<and>
     or_capacity orc' = 2 \<and> submit_task None ex_td (or_stop orc') = [SubmitPanic]"
proof -
  let ?o = "ex_orchestrator\<lparr>or_capacity := 2, or_tasks := Some [], or_results := True, or_started := True\<rparr>"
  have s: "or_start None (Inr () :: (go_error, unit) result) ex_orchestrator = Inr ?o"
    by (simp add: or_start_def ex_orchestrator_def effective_max_workers_def)
  with submit_after_stop_panics [OF ex_td_valid s] show ?thesis by simp
qed

end
