(* ===== verification/Publishing.thy ===== *)
theory Publishing
  imports Orchestrator_Properties
begin

text \<open>
  The orchestrator's result channel (\<^verbatim>\<open>internal/orchestration/orchestrator.go\<close>,
  \<^verbatim>\<open>publishWorkerResult\<close> and \<^verbatim>\<open>reportResult\<close>, and \<^verbatim>\<open>WorkerAgent.Report\<close> in \<^verbatim>\<open>worker.go\<close>).
  Before \<^verbatim>\<open>runWorker\<close> returns it sends the subtask's result to \<^verbatim>\<open>ResultChannel\<close>, a
  buffered channel that only the client of the orchestrator receives from: the send blocks while the
  buffer is full, whatever the contexts say.  \<^verbatim>\<open>Orchestrator\<close> lets a goroutine go from its worker to
  the internal channel in one step and \<^verbatim>\<open>Workers\<close> records the sends in the order in which they are
  made; here an execution is put together with the channel, so that a worker publishes first, when
  there is room, and goes on after that.  Workers themselves are assumed to return: their calls are not
  modelled as steps that can hang.
\<close>

section \<open>Steps\<close>

text \<open>
  The execution, what the channel holds, and the results that \<^verbatim>\<open>runWorker\<close> has published and is
  about to return, by the subtask.
\<close>

record publish_state =
  pub_exec :: exec_state
  pub_held :: "worker_result list"
  pub_done :: "string \<Rightarrow> worker_result option"

text \<open>
  What is published has the verdict of the result that is returned; an agent publishes its own result,
  before it is terminated (\<open>agent_run_verdict\<close>), the orchestrator the one it returns.
\<close>

definition published_as :: "worker_result \<Rightarrow> worker_result \<Rightarrow> bool" where
  "published_as r sent \<longleftrightarrow>
     wr_subtask_id sent = wr_subtask_id r \<and> wr_err sent = wr_err r \<and> wr_status sent = wr_status r"

definition returning ::
  "(task_decomposition \<Rightarrow> subtask \<Rightarrow> worker_result \<Rightarrow> bool) \<Rightarrow> publish_state
     \<Rightarrow> task_decomposition \<Rightarrow> subtask \<Rightarrow> worker_result \<Rightarrow> bool" where
  "returning runs p d t r \<longleftrightarrow> runs d t r \<and> pub_done p (sub_id t) = Some r"

definition publish_init :: "worker_result list \<Rightarrow> task_decomposition \<Rightarrow> go_error option \<Rightarrow> publish_state" where
  "publish_init held d ctx_err = \<lparr>pub_exec = exec_init d ctx_err, pub_held = held, pub_done = Map.empty\<rparr>"

inductive publish_step ::
  "(task_decomposition \<Rightarrow> subtask \<Rightarrow> worker_result \<Rightarrow> bool) \<Rightarrow> task_decomposition \<Rightarrow> nat \<Rightarrow> nat
     \<Rightarrow> publish_state \<Rightarrow> publish_state \<Rightarrow> bool"
  for runs :: "task_decomposition \<Rightarrow> subtask \<Rightarrow> worker_result \<Rightarrow> bool"
    and d :: task_decomposition and max_workers :: nat and room :: nat where
  publish:
    "ex_phase (pub_exec p) i = InWorker \<Longrightarrow> pub_done p i = None \<Longrightarrow> runs d (ex_subtask d i) r \<Longrightarrow>
     published_as r sent \<Longrightarrow> length (pub_held p) < room \<Longrightarrow>
     publish_step runs d max_workers room p
       (p\<lparr>pub_held := pub_held p @ [sent], pub_done := (pub_done p)(i \<mapsto> r)\<rparr>)"
| go_on:
    "exec_step (returning runs p) d max_workers (pub_exec p) s \<Longrightarrow>
     publish_step runs d max_workers room p (p\<lparr>pub_exec := s\<rparr>)"

text \<open>The client receives a result; and the caller's context is cancelled.\<close>

inductive publish_collect :: "publish_state \<Rightarrow> publish_state \<Rightarrow> bool" where
  "pub_held p = r # rs \<Longrightarrow> publish_collect p (p\<lparr>pub_held := rs\<rparr>)"

inductive publish_cancel :: "publish_state \<Rightarrow> publish_state \<Rightarrow> bool" where
  "exec_cancel (pub_exec p) s \<Longrightarrow> publish_cancel p (p\<lparr>pub_exec := s\<rparr>)"

inductive_cases publish_stepE: "publish_step runs d m room p p'"
inductive_cases publish_collectE: "publish_collect p p'"
inductive_cases publish_cancelE: "publish_cancel p p'"

inductive publish_reachable ::
  "(task_decomposition \<Rightarrow> subtask \<Rightarrow> worker_result \<Rightarrow> bool) \<Rightarrow> task_decomposition \<Rightarrow> nat \<Rightarrow> nat
     \<Rightarrow> worker_result list \<Rightarrow> publish_state \<Rightarrow> bool"
  for runs :: "task_decomposition \<Rightarrow> subtask \<Rightarrow> worker_result \<Rightarrow> bool"
    and d :: task_decomposition and max_workers :: nat and room :: nat and held :: "worker_result list" where
  start: "publish_reachable runs d max_workers room held (publish_init held d ctx_err)"
| step: "publish_reachable runs d max_workers room held p \<Longrightarrow> publish_step runs d max_workers room p p' \<Longrightarrow>
    publish_reachable runs d max_workers room held p'"
| collect: "publish_reachable runs d max_workers room held p \<Longrightarrow> publish_collect p p' \<Longrightarrow>
    publish_reachable runs d max_workers room held p'"
| cancel: "publish_reachable runs d max_workers room held p \<Longrightarrow> publish_cancel p p' \<Longrightarrow>
    publish_reachable runs d max_workers room held p'"

text \<open>Executions during which nobody receives from the channel, as in the command line's \<^verbatim>\<open>run --decompose\<close>.\<close>

inductive publish_alone ::
  "(task_decomposition \<Rightarrow> subtask \<Rightarrow> worker_result \<Rightarrow> bool) \<Rightarrow> task_decomposition \<Rightarrow> nat \<Rightarrow> nat
     \<Rightarrow> worker_result list \<Rightarrow> publish_state \<Rightarrow> bool"
  for runs :: "task_decomposition \<Rightarrow> subtask \<Rightarrow> worker_result \<Rightarrow> bool"
    and d :: task_decomposition and max_workers :: nat and room :: nat and held :: "worker_result list" where
  start: "publish_alone runs d max_workers room held (publish_init held d ctx_err)"
| step: "publish_alone runs d max_workers room held p \<Longrightarrow> publish_step runs d max_workers room p p' \<Longrightarrow>
    publish_alone runs d max_workers room held p'"
| cancel: "publish_alone runs d max_workers room held p \<Longrightarrow> publish_cancel p p' \<Longrightarrow>
    publish_alone runs d max_workers room held p'"

lemma alone_reachable:
  "publish_alone runs d m room held p \<Longrightarrow> publish_reachable runs d m room held p"
  by (induction rule: publish_alone.induct) (blast intro: publish_reachable.intros)+

section \<open>What a worker publishes\<close>

text \<open>A callback worker publishes exactly one result, the one that \<^verbatim>\<open>runWorker\<close> returns.\<close>

lemma callback_publishes_once:
  "we_sent (snd (run_worker (callback_source fn m) ctx d t e)) =
     map_option (\<lambda>sent. sent @ [fst (run_worker (callback_source fn m) ctx d t e)]) (we_sent e)"
  by (simp add: run_worker_def callback_source_def select_worker_def new_worker_def run_phases_three publish_result_def
      report_result_def merge_reported_def register_worker_def Let_def split: option.splits prod.splits)

section \<open>Executions\<close>

lemma exec_step_mono:
  assumes "exec_step runs d m s s'" and "\<And>i r. ex_phase s i = InWorker \<Longrightarrow> length (ex_results s) < length (td_subtasks d) \<Longrightarrow>
      runs d (ex_subtask d i) r \<Longrightarrow> runs' d (ex_subtask d i) r"
  shows "exec_step runs' d m s s'"
  using assms(1)
proof cases
  case (work i r)
  then show ?thesis using exec_step.work [of s i runs' d r] assms(2) by simp
next
  case (acquire i)
  then show ?thesis using exec_step.acquire [of s i m runs' d] by simp
next
  case (release i err)
  then show ?thesis using exec_step.release [of s i err runs' d m] by simp
next
  case (receive r rs)
  then show ?thesis using exec_step.receive [of s d r rs runs' m] by simp
qed (auto intro: exec_step.intros)

lemma returning_step: "exec_step (returning runs p) d m s s' \<Longrightarrow> exec_step runs d m s s'"
  by (erule exec_step_mono) (simp add: returning_def)

text \<open>The subtasks whose results have not been published.\<close>

definition unpublished :: "task_decomposition \<Rightarrow> publish_state \<Rightarrow> string set" where
  "unpublished d p = {i \<in> set (sub_ids d). pub_done p i = None}"

text \<open>Only subtasks publish, what they publish is what their worker gives, and nobody goes on without it.\<close>

definition publish_inv ::
  "(task_decomposition \<Rightarrow> subtask \<Rightarrow> worker_result \<Rightarrow> bool) \<Rightarrow> task_decomposition \<Rightarrow> publish_state \<Rightarrow> bool" where
  "publish_inv runs d p \<longleftrightarrow>
     (\<forall>i r. pub_done p i = Some r \<longrightarrow> i \<in> set (sub_ids d) \<and> runs d (ex_subtask d i) r) \<and>
     (\<forall>i. sent_err (ex_phase (pub_exec p) i) = Some None \<longrightarrow> pub_done p i \<noteq> None)"

lemma exec_step_sent:
  assumes "exec_step runs d m s s'" "sent_err (ex_phase s' i) = Some None" "sent_err (ex_phase s i) \<noteq> Some None"
  shows "ex_phase s i = InWorker \<and> (\<exists>r. runs d (ex_subtask d i) r)"
  using assms(1)
  by cases (insert assms(2,3),
    auto simp: set_phase_def launch_def release_dependent_def group_exit_def group_record_def cancel_ctx_def
      group_wait_def Let_def split: if_splits)

lemma unpublished_publish:
  assumes "i \<in> set (sub_ids d)" "pub_done p i = None"
  shows "card (unpublished d p) = Suc (card (unpublished d (p\<lparr>pub_held := h, pub_done := (pub_done p)(i \<mapsto> r)\<rparr>)))"
proof -
  let ?p = "p\<lparr>pub_held := h, pub_done := (pub_done p)(i \<mapsto> r)\<rparr>"
  have "unpublished d p = insert i (unpublished d ?p)" "i \<notin> unpublished d ?p" "finite (unpublished d ?p)"
    using assms by (auto simp: unpublished_def)
  then show ?thesis by simp
qed

lemma unpublished_same: "unpublished d (p\<lparr>pub_exec := s\<rparr>) = unpublished d p" "unpublished d (p\<lparr>pub_held := h\<rparr>) = unpublished d p"
  by (simp_all add: unpublished_def)

context honest_runs begin

lemma publish_step_exec:
  assumes "publish_step runs d m room p p'"
  shows "pub_exec p' = pub_exec p \<or> exec_step runs d m (pub_exec p) (pub_exec p')"
  using assms by cases (auto dest: returning_step)

lemma reachable_exec:
  "publish_reachable runs d m room held p \<Longrightarrow> exec_reachable runs d m (pub_exec p)"
proof (induction rule: publish_reachable.induct)
  case (start ctx_err)
  then show ?case by (simp add: publish_init_def exec_reachable.start)
next
  case (step p p')
  then show ?case using publish_step_exec [OF step.hyps(2)] exec_reachable.step by auto
next
  case (collect p p')
  then show ?case by (auto elim: publish_collectE)
next
  case (cancel p p')
  then show ?case by (auto elim!: publish_cancelE intro: exec_reachable.cancel)
qed

lemma worker_subtask:
  assumes "td_valid d" "exec_reachable runs d m s" "ex_phase s i = InWorker"
  shows "i \<in> set (sub_ids d)"
  using reachable_inv [OF assms(1,2)] go_inv_started [of m d s i] assms(3) by (simp add: exec_inv_def)

lemma reachable_publish_inv:
  assumes v: "td_valid d" and r: "publish_reachable runs d m room held p"
  shows "publish_inv runs d p"
  using r
proof (induction rule: publish_reachable.induct)
  case (start ctx_err)
  then show ?case by (simp add: publish_inv_def publish_init_def exec_init_def)
next
  case (step p p')
  note inv = step.IH[unfolded publish_inv_def]
  from step.hyps(2) show ?case
  proof cases
    case (publish i r sent)
    then have "i \<in> set (sub_ids d)" using worker_subtask [OF v reachable_exec [OF step.hyps(1)]] by blast
    with publish inv show ?thesis by (auto simp: publish_inv_def)
  next
    case (go_on s)
    have "pub_done p i \<noteq> None" if "sent_err (ex_phase s i) = Some None" for i
    proof (cases "sent_err (ex_phase (pub_exec p) i) = Some None")
      case False
      from exec_step_sent [OF go_on(2) that False]
      obtain r where w: "ex_phase (pub_exec p) i = InWorker" "pub_done p (sub_id (ex_subtask d i)) = Some r"
        by (auto simp: returning_def)
      with ex_subtask_id [OF worker_subtask [OF v reachable_exec [OF step.hyps(1)] w(1)]] show ?thesis by simp
    qed (use inv in blast)
    with go_on inv show ?thesis by (simp add: publish_inv_def)
  qed
next
  case (collect p p')
  then show ?case by (auto simp: publish_inv_def elim: publish_collectE)
next
  case (cancel p p')
  then show ?case by (auto simp: publish_inv_def elim!: publish_cancelE exec_cancelE)
qed

lemma reachable_room:
  assumes v: "td_valid d" and r: "publish_reachable runs d m room held p"
  shows "length (pub_held p) + card (unpublished d p) \<le> length held + length (td_subtasks d)"
  using r
proof (induction rule: publish_reachable.induct)
  case (start ctx_err)
  have "card (set (sub_ids d)) \<le> length (td_subtasks d)" using card_length [of "sub_ids d"] by simp
  then show ?case by (simp add: publish_init_def unpublished_def)
next
  case (step p p')
  from step.hyps(2) show ?case
  proof cases
    case (publish i r sent)
    then have i: "i \<in> set (sub_ids d)" using worker_subtask [OF v reachable_exec [OF step.hyps(1)]] by blast
    show ?thesis using step.IH publish unpublished_publish [of i d p r "pub_held p @ [sent]", OF i] by simp
  next
    case (go_on s)
    with step.IH show ?thesis by (simp add: unpublished_same)
  qed
next
  case (collect p p')
  then show ?case by (auto simp: unpublished_same elim!: publish_collectE)
next
  case (cancel p p')
  then show ?case by (auto simp: unpublished_same elim!: publish_cancelE)
qed

text \<open>With room for every result that is left, no goroutine waits for the channel.\<close>

lemma publish_progress:
  assumes v: "td_valid d" and r: "publish_reachable runs d m room held p" and m: "0 < m"
    and room: "length held + length (td_subtasks d) \<le> room" and running: "\<And>v. ex_main (pub_exec p) \<noteq> Returned v"
  shows "\<exists>p'. publish_step runs d m room p p'"
proof -
  note e = reachable_exec [OF r]
  obtain s' where st: "exec_step runs d m (pub_exec p) s'"
    using progress [OF v reachable_inv [OF v e] m running] by blast
  show ?thesis
  proof (cases "\<exists>i. ex_phase (pub_exec p) i = InWorker \<and> length (ex_results (pub_exec p)) < length (td_subtasks d)")
    case True
    then obtain i where i: "ex_phase (pub_exec p) i = InWorker" "length (ex_results (pub_exec p)) < length (td_subtasks d)" by blast
    note sub = worker_subtask [OF v e i(1)]
    show ?thesis
    proof (cases "pub_done p i")
      case None
      have "finite (unpublished d p)" by (simp add: unpublished_def)
      with None sub have "0 < card (unpublished d p)" by (auto simp: card_gt_0_iff unpublished_def)
      then have "length (pub_held p) < room" using reachable_room [OF v r] room by linarith
      moreover obtain r where "runs d (ex_subtask d i) r" using returns by blast
      ultimately show ?thesis using publish_step.publish [of p i runs d r r] i None by (auto simp: published_as_def)
    next
      case (Some r)
      then have "returning runs p d (ex_subtask d i) r"
        using reachable_publish_inv [OF v r] ex_subtask_id [OF sub] by (simp add: returning_def publish_inv_def)
      with i show ?thesis using exec_step.work publish_step.go_on by blast
    qed
  next
    case False
    have "exec_step (returning runs p) d m (pub_exec p) s'"
      using st by (rule exec_step_mono) (use False in blast)
    then show ?thesis using publish_step.go_on by blast
  qed
qed

text \<open>What is left: first of the execution, then of the results to publish and to receive.\<close>

definition publish_order :: "task_decomposition \<Rightarrow> (publish_state \<times> publish_state) set" where
  "publish_order d = inv_image (less_than <*lex*> less_than)
     (\<lambda>p. (exec_measure d (pub_exec p), 2 * card (unpublished d p) + length (pub_held p)))"

lemma wf_publish_order: "wf (publish_order d)"
  unfolding publish_order_def by (intro wf_inv_image wf_lex_prod wf_less_than)

lemma publish_decreases:
  assumes v: "td_valid d" and r: "publish_reachable runs d m room held p"
    and st: "publish_step runs d m room p p' \<or> publish_collect p p' \<or> publish_cancel p p'"
  shows "(p', p) \<in> publish_order d"
  using st
proof (elim disjE)
  assume "publish_step runs d m room p p'"
  then show ?thesis
  proof cases
    case (publish i r sent)
    then have i: "i \<in> set (sub_ids d)" using worker_subtask [OF v reachable_exec [OF assms(2)]] by blast
    show ?thesis using publish unpublished_publish [of i d p r "pub_held p @ [sent]", OF i] by (simp add: publish_order_def)
  next
    case (go_on s)
    then have "exec_measure d s < exec_measure d (pub_exec p)"
      using step_measure [OF v returning_step reachable_inv [OF v reachable_exec [OF r]]] by blast
    with go_on show ?thesis by (simp add: publish_order_def)
  qed
next
  assume "publish_collect p p'"
  then show ?thesis by (auto simp: publish_order_def unpublished_same elim!: publish_collectE)
next
  assume "publish_cancel p p'"
  then show ?thesis by (auto simp: publish_order_def dest: cancel_measure elim!: publish_cancelE)
qed

lemma no_infinite_publishing:
  assumes v: "td_valid d" and start: "publish_reachable runs d m room held (f 0)"
    and f: "\<forall>n. publish_step runs d m room (f n) (f (Suc n)) \<or> publish_collect (f n) (f (Suc n)) \<or> publish_cancel (f n) (f (Suc n))"
  shows False
proof -
  have r: "publish_reachable runs d m room held (f n)" for n
  proof (induction n)
    case (Suc n)
    from f consider "publish_step runs d m room (f n) (f (Suc n))" | "publish_collect (f n) (f (Suc n))"
      | "publish_cancel (f n) (f (Suc n))" by blast
    then show ?case
      by cases (rule publish_reachable.step [OF Suc], assumption | rule publish_reachable.collect [OF Suc], assumption
        | rule publish_reachable.cancel [OF Suc], assumption)+
  qed (rule start)
  have "(f (Suc n), f n) \<in> publish_order d" for n by (rule publish_decreases [OF v r f [rule_format]])
  then have "\<exists>f. \<forall>n. (f (Suc n), f n) \<in> publish_order d" by blast
  then show False using wf_publish_order [of d] unfolding wf_iff_no_infinite_down_chain by (rule rev_notE)
qed

text \<open>Alone, the channel holds one result for every subtask that has published, and no more than its room.\<close>

lemma alone_held:
  assumes v: "td_valid d" and r: "publish_alone runs d m room held p" and le: "length held \<le> room"
  shows "length (pub_held p) + card (unpublished d p) = length held + length (td_subtasks d) \<and> length (pub_held p) \<le> room"
  using r
proof (induction rule: publish_alone.induct)
  case (start ctx_err)
  have "card (set (sub_ids d)) = length (td_subtasks d)" using td.nodes_distinct [OF v] by (metis distinct_card length_map)
  with le show ?case by (simp add: publish_init_def unpublished_def)
next
  case (step p p')
  from step.hyps(2) show ?case
  proof cases
    case (publish i r sent)
    then have i: "i \<in> set (sub_ids d)"
      using worker_subtask [OF v reachable_exec [OF alone_reachable [OF step.hyps(1)]]] by blast
    show ?thesis using step.IH publish unpublished_publish [of i d p r "pub_held p @ [sent]", OF i] by simp
  next
    case (go_on s)
    with step.IH show ?thesis by (simp add: unpublished_same)
  qed
next
  case (cancel p p')
  then show ?case by (auto simp: unpublished_same elim!: publish_cancelE)
qed

lemma alone_not_nil:
  assumes v: "td_valid d" and r: "publish_alone runs d m room held p" and le: "length held \<le> room"
    and full: "room < length held + length (td_subtasks d)"
  shows "ex_main (pub_exec p) \<noteq> Returned None"
proof
  assume "ex_main (pub_exec p) = Returned None"
  note all = returned_nil [OF v reachable_exec [OF alone_reachable [OF r]] this]
  have "pub_done p i \<noteq> None" if "i \<in> set (sub_ids d)" for i
    using reachable_publish_inv [OF v alone_reachable [OF r]] all that by (auto simp: publish_inv_def)
  then have "unpublished d p = {}" by (auto simp: unpublished_def)
  with alone_held [OF v r le] full show False by simp
qed

end

section \<open>An example\<close>

text \<open>Steps of the execution in which no worker returns do not touch the channel.\<close>

lemma alone_moves:
  assumes "publish_alone runs d m room held p" "exec_moves d m mvs (pub_exec p) = Some s"
    and "list_all (\<lambda>mv. case mv of MoveWork i r \<Rightarrow> False | _ \<Rightarrow> True) mvs"
  shows "publish_alone runs d m room held (p\<lparr>pub_exec := s\<rparr>)"
  using assms
proof (induction mvs arbitrary: p)
  case Nil
  then show ?case by (cases p) auto
next
  case (Cons mv mvs)
  from Cons.prems(2) obtain s1 where s1: "exec_move d m mv (pub_exec p) = Some s1" "exec_moves d m mvs s1 = Some s"
    by (auto simp: bind_eq_Some_conv split: option.splits)
  have "allowed_move (returning runs p) d mv" using Cons.prems(3) by (simp add: allowed_move_def split: go_move.splits)
  from publish_step.go_on [OF exec_move_step [OF s1(1) this], where room = room]
  have "publish_alone runs d m room held (p\<lparr>pub_exec := s1\<rparr>)" by (rule publish_alone.step [OF Cons.prems(1)])
  from Cons.IH [OF this] s1(2) Cons.prems(3) show ?case by simp
qed

text \<open>Two workers run, one has published and filled a channel of one place: the other hangs.\<close>

definition full_state :: publish_state where
  "full_state =
     (let r = (base_result ex_td (ex_subtask ex_td ''a''))\<lparr>wr_terminated := True\<rparr>
      in (publish_init [] ex_td None)\<lparr>pub_exec := ex_state 5, pub_held := [r], pub_done := [''a'' \<mapsto> r]\<rparr>)"

lemma full_state_reached: "publish_alone repo_runs ex_td (workers_of 0) 1 [] full_state"
proof -
  let ?r = "(base_result ex_td (ex_subtask ex_td ''a''))\<lparr>wr_terminated := True\<rparr>"
  let ?p = "(publish_init [] ex_td None)\<lparr>pub_exec := ex_state 5\<rparr>"
  have "exec_moves ex_td (workers_of 0) (take 5 ex_moves) (exec_init ex_td None) \<noteq> None" by code_simp
  then have "exec_moves ex_td (workers_of 0) (take 5 ex_moves) (pub_exec (publish_init [] ex_td None)) = Some (ex_state 5)"
    by (auto simp: ex_state_def publish_init_def)
  from alone_moves [OF publish_alone.start this]
  have "publish_alone repo_runs ex_td (workers_of 0) 1 [] ?p" by (simp add: ex_moves_def)
  moreover have "ex_phase (pub_exec ?p) ''a'' = InWorker" by simp code_simp
  moreover have "allowed_move repo_runs ex_td (ex_work ''a'')" using ex_allowed by (simp add: ex_moves_def)
  then have "repo_runs ex_td (ex_subtask ex_td ''a'') ?r" by (simp add: ex_work_def allowed_move_def)
  ultimately have "publish_step repo_runs ex_td (workers_of 0) 1 ?p (?p\<lparr>pub_held := pub_held ?p @ [?r], pub_done := (pub_done ?p)(''a'' \<mapsto> ?r)\<rparr>)"
    by (intro publish_step.publish) (simp_all add: publish_init_def published_as_def)
  from publish_alone.step [OF \<open>publish_alone repo_runs ex_td (workers_of 0) 1 [] ?p\<close> this]
  show ?thesis by (simp add: full_state_def publish_init_def Let_def)
qed

section \<open>Properties\<close>

text \<open>
  C6. Executing a validated decomposition always ends, if the workers return and the result channel
  has room.  There is no infinite execution, whatever the room, with cancellations and a client that
  receives results in between; and when the channel has room for one result of every subtask beside
  what it holds at the start, an execution that has no step left has returned: no interleaving
  deadlocks on the semaphore, the internal channel, the result channel or the group, even if nobody
  receives a result.
\<close>

theorem exec_terminates:
  assumes "td_validate d = Some []"
  shows "(\<nexists>f. publish_reachable repo_runs d (workers_of k) room held (f 0) \<and>
       (\<forall>n. publish_step repo_runs d (workers_of k) room (f n) (f (Suc n)) \<or>
          publish_collect (f n) (f (Suc n)) \<or> publish_cancel (f n) (f (Suc n)))) \<and>
    (length held + length (td_subtasks d) \<le> room \<longrightarrow>
       (\<forall>p. publish_reachable repo_runs d (workers_of k) room held p \<longrightarrow>
          (\<exists>v. ex_main (pub_exec p) = Returned v) \<or> (\<exists>p'. publish_step repo_runs d (workers_of k) room p p')))"
  using repo.no_infinite_publishing [OF assms] repo.publish_progress [OF assms _ workers_of_pos] by blast

theorem exec_terminates_witness:
  "\<exists>p'. publish_step repo_runs ex_td (workers_of 0) 3 (publish_init [] ex_td None) p'"
proof -
  have "length [] + length (td_subtasks ex_td) \<le> 3" by (simp add: ex_td_def)
  moreover have "ex_main (pub_exec (publish_init [] ex_td None)) \<noteq> Returned v" for v
    by (simp add: publish_init_def) code_simp
  ultimately show ?thesis
    using conjunct2 [OF exec_terminates [OF ex_td_valid, of 0 3 "[]"]] publish_reachable.start by blast
qed

text \<open>
  C9. Without a client that receives, a decomposition needs room for all its results.  When the channel
  has less room than one result per subtask beside what it holds, no execution during which nobody
  receives returns nil, although all workers may succeed: since it cannot go on forever, it ends
  with an error or hangs in a send.  The command line receives only after the orchestrator is done.
\<close>

theorem full_channel_never_nil:
  assumes "td_validate d = Some []" and "length held \<le> room" "room < length held + length (td_subtasks d)"
    and "publish_alone repo_runs d (workers_of k) room held p"
  shows "ex_main (pub_exec p) \<noteq> Returned None"
  using assms by (intro repo.alone_not_nil)

theorem full_channel_never_nil_witness:
  "ex_main (pub_exec full_state) \<noteq> Returned None \<and> length (pub_held full_state) = 1 \<and>
   map (ex_phase (pub_exec full_state)) [''a'', ''b'', ''c''] = [InWorker, NotLaunched, InWorker]"
proof (intro conjI)
  have "length (td_subtasks ex_td) = 3" by (simp add: ex_td_def)
  then show "ex_main (pub_exec full_state) \<noteq> Returned None"
    by (intro full_channel_never_nil [OF ex_td_valid _ _ full_state_reached]) simp_all
  show "length (pub_held full_state) = 1" by (simp add: full_state_def publish_init_def Let_def)
  show "map (ex_phase (pub_exec full_state)) [''a'', ''b'', ''c''] = [InWorker, NotLaunched, InWorker]"
    by (simp add: full_state_def Let_def) code_simp
qed

end
