(* ===== verification/Channels.thy ===== *)
theory Channels
  imports Prelude
begin

text \<open>
  The typed channels of \<^verbatim>\<open>internal/orchestration/channel.go\<close>: a buffered Go channel that is
  closed at most once, whose \<^verbatim>\<open>Send\<close> turns the panic of a send on the closed channel into a
  result.  \<^verbatim>\<open>RequestChannel\<close> and \<^verbatim>\<open>ResultChannel\<close> are the same code for two element types, so
  they are one record here.  The nil pointer is \<^term>\<open>None\<close>.
\<close>

section \<open>Go's buffered channels\<close>

record 'a channel =
  ch_items :: "'a list"
  ch_capacity :: nat
  ch_closed :: bool

text \<open>
  What an operation on a Go channel does when it is tried: it completes, it blocks, or it panics.
\<close>

datatype 'b attempt = Done 'b | Blocks | Panics

definition go_send :: "'a \<Rightarrow> 'a channel \<Rightarrow> 'a channel attempt" where
  "go_send x c =
     (if ch_closed c then Panics
      else if length (ch_items c) < ch_capacity c then Done (c\<lparr>ch_items := ch_items c @ [x]\<rparr>)
      else Blocks)"

text \<open>A receive from a closed and drained channel completes with no element.\<close>

definition go_receive :: "'a channel \<Rightarrow> ('a option \<times> 'a channel) attempt" where
  "go_receive c =
     (case ch_items c of
        x # xs \<Rightarrow> Done (Some x, c\<lparr>ch_items := xs\<rparr>)
      | [] \<Rightarrow> if ch_closed c then Done (None, c) else Blocks)"

definition go_close :: "'a channel \<Rightarrow> 'a channel attempt" where
  "go_close c = (if ch_closed c then Panics else Done (c\<lparr>ch_closed := True\<rparr>))"

section \<open>The typed channels\<close>

text \<open>\<open>tc_closed_once\<close> is the \<^verbatim>\<open>sync.Once\<close>; \<open>tc_channel\<close> may be the nil channel.\<close>

record 'a typed_channel =
  tc_channel :: "'a channel option"
  tc_closed_once :: bool

definition default_request_buffer :: int where
  "default_request_buffer = 4"

definition default_result_buffer :: int where
  "default_result_buffer = 1024"

definition normalize_buffer :: "int \<Rightarrow> int \<Rightarrow> int" where
  "normalize_buffer buffer fallback = (if 0 < buffer then buffer else if 0 < fallback then fallback else 1)"

definition new_typed_channel :: "int \<Rightarrow> int \<Rightarrow> 'a typed_channel" where
  "new_typed_channel buffer fallback =
     \<lparr>tc_channel = Some \<lparr>ch_items = [], ch_capacity = nat (normalize_buffer buffer fallback), ch_closed = False\<rparr>,
      tc_closed_once = False\<rparr>"

definition new_request_channel :: "int \<Rightarrow> 'a typed_channel" where
  "new_request_channel buffer = new_typed_channel buffer default_request_buffer"

definition new_result_channel :: "int \<Rightarrow> 'a typed_channel" where
  "new_result_channel buffer = new_typed_channel buffer default_result_buffer"

text \<open>\<^verbatim>\<open>Send\<close>: whether the element was accepted.  The deferred \<^verbatim>\<open>recover\<close> catches the panic.\<close>

definition tc_send :: "'a \<Rightarrow> 'a typed_channel option \<Rightarrow> (bool \<times> 'a typed_channel option) attempt" where
  "tc_send x c =
     (case c of
        None \<Rightarrow> Done (False, None)
      | Some t \<Rightarrow>
          (case tc_channel t of
             None \<Rightarrow> Done (False, Some t)
           | Some ch \<Rightarrow>
               (case go_send x ch of
                  Done ch' \<Rightarrow> Done (True, Some (t\<lparr>tc_channel := Some ch'\<rparr>))
                | Panics \<Rightarrow> Done (False, Some t)
                | Blocks \<Rightarrow> Blocks)))"

definition tc_receive :: "'a typed_channel option \<Rightarrow> ('a option \<times> 'a typed_channel option) attempt" where
  "tc_receive c =
     (case c of
        None \<Rightarrow> Done (None, None)
      | Some t \<Rightarrow>
          (case tc_channel t of
             None \<Rightarrow> Done (None, Some t)
           | Some ch \<Rightarrow>
               (case go_receive ch of
                  Done (x, ch') \<Rightarrow> Done (x, Some (t\<lparr>tc_channel := Some ch'\<rparr>))
                | Panics \<Rightarrow> Panics
                | Blocks \<Rightarrow> Blocks)))"

definition tc_close :: "'a typed_channel option \<Rightarrow> 'a typed_channel option attempt" where
  "tc_close c =
     (case c of
        None \<Rightarrow> Done None
      | Some t \<Rightarrow>
          if tc_closed_once t then Done (Some t)
          else
            (let t1 = t\<lparr>tc_closed_once := True\<rparr> in
             case tc_channel t of
               None \<Rightarrow> Done (Some t1)
             | Some ch \<Rightarrow>
                 (case go_close ch of
                    Done ch' \<Rightarrow> Done (Some (t1\<lparr>tc_channel := Some ch'\<rparr>))
                  | Panics \<Rightarrow> Panics
                  | Blocks \<Rightarrow> Blocks)))"

section \<open>The contract of a first-in first-out channel\<close>

text \<open>
  A channel is seen through the elements it holds and whether it is closed: an accepted element is
  added at the end, the first element is taken, closing keeps the elements, and no operation
  panics.
\<close>

locale fifo_channel =
  fixes send :: "'a \<Rightarrow> 'c \<Rightarrow> (bool \<times> 'c) attempt"
    and recv :: "'c \<Rightarrow> ('a option \<times> 'c) attempt"
    and close :: "'c \<Rightarrow> 'c attempt"
    and items :: "'c \<Rightarrow> 'a list"
    and closed :: "'c \<Rightarrow> bool"
    and ok :: "'c \<Rightarrow> bool"
  assumes send_accepted: "ok c \<Longrightarrow> send x c = Done (True, c') \<Longrightarrow>
      \<not> closed c \<and> ok c' \<and> items c' = items c @ [x] \<and> closed c' = closed c"
    and send_refused: "ok c \<Longrightarrow> send x c = Done (False, c') \<Longrightarrow> closed c \<and> c' = c"
    and send_safe: "ok c \<Longrightarrow> send x c \<noteq> Panics"
    and recv_item: "ok c \<Longrightarrow> recv c = Done (Some x, c') \<Longrightarrow>
      ok c' \<and> items c = x # items c' \<and> closed c' = closed c"
    and recv_end: "ok c \<Longrightarrow> recv c = Done (None, c') \<Longrightarrow> items c = [] \<and> closed c \<and> c' = c"
    and recv_safe: "ok c \<Longrightarrow> recv c \<noteq> Panics"
    and close_closes: "ok c \<Longrightarrow> \<exists>c'. close c = Done c' \<and> ok c' \<and> items c' = items c \<and> closed c'"

text \<open>A use of the channel: what was accepted and what was received, in order.\<close>

datatype 'a channel_call = CallSend 'a | CallReceive | CallClose

fun channel_run ::
  "('a \<Rightarrow> 'c \<Rightarrow> (bool \<times> 'c) attempt) \<Rightarrow> ('c \<Rightarrow> ('a option \<times> 'c) attempt) \<Rightarrow> ('c \<Rightarrow> 'c attempt)
     \<Rightarrow> 'a channel_call list \<Rightarrow> 'c \<Rightarrow> ('a list \<times> 'a list \<times> 'c) attempt" where
  "channel_run send recv close [] c = Done ([], [], c)"
| "channel_run send recv close (CallSend x # calls) c =
     (case send x c of
        Done (acc, c1) \<Rightarrow>
          (case channel_run send recv close calls c1 of
             Done (ins, outs, c2) \<Rightarrow> Done (if acc then x # ins else ins, outs, c2)
           | Blocks \<Rightarrow> Blocks | Panics \<Rightarrow> Panics)
      | Blocks \<Rightarrow> Blocks | Panics \<Rightarrow> Panics)"
| "channel_run send recv close (CallReceive # calls) c =
     (case recv c of
        Done (x, c1) \<Rightarrow>
          (case channel_run send recv close calls c1 of
             Done (ins, outs, c2) \<Rightarrow> Done (ins, (case x of Some y \<Rightarrow> y # outs | None \<Rightarrow> outs), c2)
           | Blocks \<Rightarrow> Blocks | Panics \<Rightarrow> Panics)
      | Blocks \<Rightarrow> Blocks | Panics \<Rightarrow> Panics)"
| "channel_run send recv close (CallClose # calls) c =
     (case close c of
        Done c1 \<Rightarrow> channel_run send recv close calls c1
      | Blocks \<Rightarrow> Blocks | Panics \<Rightarrow> Panics)"

context fifo_channel begin

lemma run_fifo:
  "ok c \<Longrightarrow> channel_run send recv close calls c = Done (ins, outs, c') \<Longrightarrow>
     ok c' \<and> items c @ ins = outs @ items c'"
proof (induction calls arbitrary: c ins outs)
  case (Cons call calls)
  show ?case
  proof (cases call)
    case (CallSend x)
    with Cons.prems obtain acc c1 ins1 where s: "send x c = Done (acc, c1)"
      and r: "channel_run send recv close calls c1 = Done (ins1, outs, c')"
      and ins: "ins = (if acc then x # ins1 else ins1)"
      by (auto split: attempt.splits prod.splits)
    show ?thesis
    proof (cases acc)
      case True
      then have "ok c1" "items c1 = items c @ [x]" using send_accepted [OF Cons.prems(1)] s by auto
      with Cons.IH [OF _ r] ins True show ?thesis by simp
    next
      case False
      then have "c1 = c" using send_refused [OF Cons.prems(1)] s by auto
      with Cons.IH [OF _ r] ins False Cons.prems(1) show ?thesis by simp
    qed
  next
    case CallReceive
    with Cons.prems obtain x c1 outs1 where s: "recv c = Done (x, c1)"
      and r: "channel_run send recv close calls c1 = Done (ins, outs1, c')"
      and outs: "outs = (case x of Some y \<Rightarrow> y # outs1 | None \<Rightarrow> outs1)"
      by (auto split: attempt.splits prod.splits)
    show ?thesis
    proof (cases x)
      case (Some y)
      then have "ok c1" "items c = y # items c1" using recv_item [OF Cons.prems(1)] s by auto
      with Cons.IH [OF _ r] outs Some show ?thesis by simp
    next
      case None
      then have "c1 = c" using recv_end [OF Cons.prems(1)] s by auto
      with Cons.IH [OF _ r] outs None Cons.prems(1) show ?thesis by simp
    qed
  next
    case CallClose
    obtain c1 where "close c = Done c1" "ok c1" "items c1 = items c"
      using close_closes [OF Cons.prems(1)] by blast
    with Cons.IH [of c1] Cons.prems CallClose show ?thesis by simp
  qed
qed simp

lemma send_keeps_ok: "ok c \<Longrightarrow> send x c = Done (acc, c') \<Longrightarrow> ok c'"
  by (cases acc) (auto dest: send_accepted send_refused)

lemma recv_keeps_ok: "ok c \<Longrightarrow> recv c = Done (x, c') \<Longrightarrow> ok c'"
  by (cases x) (auto dest: recv_item recv_end)

lemma run_safe: "ok c \<Longrightarrow> channel_run send recv close calls c \<noteq> Panics"
proof (induction calls arbitrary: c)
  case (Cons call calls)
  show ?case
  proof (cases call)
    case (CallSend x)
    show ?thesis
    proof (cases "send x c")
      case (Done r)
      obtain acc c1 where r: "r = (acc, c1)" by (cases r)
      from Cons.IH [OF send_keeps_ok [OF Cons.prems Done [unfolded r]]] CallSend Done r
      show ?thesis by (cases "channel_run send recv close calls c1") auto
    qed (use CallSend send_safe [OF Cons.prems] in auto)
  next
    case CallReceive
    show ?thesis
    proof (cases "recv c")
      case (Done r)
      obtain x c1 where r: "r = (x, c1)" by (cases r)
      from Cons.IH [OF recv_keeps_ok [OF Cons.prems Done [unfolded r]]] CallReceive Done r
      show ?thesis by (cases "channel_run send recv close calls c1") auto
    qed (use CallReceive recv_safe [OF Cons.prems] in auto)
  next
    case CallClose
    obtain c1 where "close c = Done c1" "ok c1" using close_closes [OF Cons.prems] by blast
    with Cons.IH CallClose show ?thesis by simp
  qed
qed simp

end

section \<open>The typed channels keep the contract\<close>

definition tc_items :: "'a typed_channel option \<Rightarrow> 'a list" where
  "tc_items c = (case c of None \<Rightarrow> [] | Some t \<Rightarrow> (case tc_channel t of None \<Rightarrow> [] | Some ch \<Rightarrow> ch_items ch))"

text \<open>A channel without a Go channel refuses sends and ends receives, as if it were closed.\<close>

definition tc_closed :: "'a typed_channel option \<Rightarrow> bool" where
  "tc_closed c = (case c of None \<Rightarrow> True | Some t \<Rightarrow> (case tc_channel t of None \<Rightarrow> True | Some ch \<Rightarrow> ch_closed ch))"

text \<open>Only \<^verbatim>\<open>Close\<close> closes the Go channel.\<close>

definition tc_ok :: "'a typed_channel option \<Rightarrow> bool" where
  "tc_ok c = (case c of None \<Rightarrow> True | Some t \<Rightarrow>
     (case tc_channel t of None \<Rightarrow> True | Some ch \<Rightarrow> ch_closed ch = tc_closed_once t))"

lemmas tc_defs = tc_send_def tc_receive_def tc_close_def go_send_def go_receive_def go_close_def
  tc_items_def tc_closed_def tc_ok_def Let_def

interpretation tc: fifo_channel tc_send tc_receive tc_close tc_items tc_closed tc_ok
  by unfold_locales (auto simp: tc_defs split: option.splits attempt.splits list.splits if_splits)

section \<open>Properties\<close>

text \<open>
  Whatever is sent through a typed channel comes out in the order it went in: after any calls
  of \<^verbatim>\<open>Send\<close>, \<^verbatim>\<open>Receive\<close> and \<^verbatim>\<open>Close\<close> on a new result channel, the accepted elements are the
  received ones followed by those still buffered.  No call ever panics: neither a second
  \<^verbatim>\<open>Close\<close> nor a \<^verbatim>\<open>Send\<close> after it.
\<close>

theorem result_channel_fifo:
  fixes calls :: "'a channel_call list"
  shows "(case channel_run tc_send tc_receive tc_close calls (Some (new_result_channel buffer)) of
      Done (ins, outs, c) \<Rightarrow> ins = outs @ tc_items c
    | Blocks \<Rightarrow> True
    | Panics \<Rightarrow> False)"
proof -
  let ?c = "Some (new_result_channel buffer) :: 'a typed_channel option"
  have ok: "tc_ok ?c" and it: "tc_items ?c = []"
    by (simp_all add: tc_ok_def tc_items_def new_result_channel_def new_typed_channel_def)
  show ?thesis
  proof (cases "channel_run tc_send tc_receive tc_close calls ?c")
    case (Done r)
    obtain ins outs c where r: "r = (ins, outs, c)" by (cases r)
    have "tc_items ?c @ ins = outs @ tc_items c" using tc.run_fifo [OF ok Done [unfolded r]] by blast
    with Done r it show ?thesis by simp
  qed (use tc.run_safe [OF ok, of calls] in auto)
qed

end
