(* ===== verification/Aggregation.thy ===== *)
theory Aggregation
  imports Channels Decomposition Domain
begin

text \<open>
  The roll-up of subtask results (\<^verbatim>\<open>internal/orchestration/aggregation.go\<close>): one aggregator, its
  two strategies, and the collection of an expected number of results from a channel with a
  timeout.
\<close>

section \<open>Data\<close>

type_synonym aggregation_strategy = string
abbreviation ag_all_succeed :: aggregation_strategy where "ag_all_succeed \<equiv> ''all_succeed''"
abbreviation ag_best_effort :: aggregation_strategy where "ag_best_effort \<equiv> ''best_effort''"

type_synonym aggregation_status = string
abbreviation as_succeeded :: aggregation_status where "as_succeeded \<equiv> ''succeeded''"
abbreviation as_partial_success :: aggregation_status where "as_partial_success \<equiv> ''partial_success''"
abbreviation as_failed :: aggregation_status where "as_failed \<equiv> ''failed''"
abbreviation as_timed_out :: aggregation_status where "as_timed_out \<equiv> ''timed_out''"

definition strategy_normalize :: "aggregation_strategy \<Rightarrow> aggregation_strategy" where
  "strategy_normalize s = (if s = ag_best_effort then s else ag_all_succeed)"

record task_res =
  res_subtask_id :: string
  res_output :: string
  res_error :: "go_error option"
  res_verification_status :: verification_status
  res_duration :: duration

record subtask_outcome =
  so_subtask_id :: string
  so_status :: subtask_status
  so_output :: string
  so_error :: "go_error option"
  so_verification_status :: verification_status
  so_duration :: duration

record aggregation_result =
  ar_strategy :: aggregation_strategy
  ar_status :: aggregation_status
  ar_results :: "string \<rightharpoonup> subtask_outcome"
  ar_completed :: nat
  ar_failed :: nat
  ar_timed_out :: bool
  ar_summary :: string

text \<open>\<open>agg_results\<close> is \<^term>\<open>None\<close> for the nil map.\<close>

record aggregator =
  agg_strategy :: aggregation_strategy
  agg_results :: "(string \<rightharpoonup> subtask_outcome) option"
  agg_timeout :: duration

definition default_aggregation_timeout :: duration where
  "default_aggregation_timeout = 30 * second"

section \<open>Aggregate\<close>

definition normalize_task_result :: "task_res \<Rightarrow> subtask_outcome" where
  "normalize_task_result r =
     \<lparr>so_subtask_id = res_subtask_id r,
      so_status = (if res_error r \<noteq> None \<or>
                      (case res_error r of None \<Rightarrow> False | Some e \<Rightarrow> errors_is e Canceled) \<or>
                      res_verification_status r = vs_failed
                   then st_failed else st_completed),
      so_output = res_output r, so_error = res_error r,
      so_verification_status = res_verification_status r, so_duration = res_duration r\<rparr>"

definition ensure_defaults :: "aggregator \<Rightarrow> aggregator" where
  "ensure_defaults a =
     a\<lparr>agg_strategy := (if agg_strategy a = [] then ag_all_succeed else strategy_normalize (agg_strategy a)),
       agg_results := (case agg_results a of None \<Rightarrow> Some Map.empty | Some m \<Rightarrow> Some m),
       agg_timeout := (if agg_timeout a \<le> 0 then default_aggregation_timeout else agg_timeout a)\<rparr>"

text \<open>One round of the loop: the aggregator's map, the result so far, the ids that failed.\<close>

definition aggregate_one ::
  "task_res \<Rightarrow> (string \<rightharpoonup> subtask_outcome) \<times> aggregation_result \<times> string list
     \<Rightarrow> (string \<rightharpoonup> subtask_outcome) \<times> aggregation_result \<times> string list" where
  "aggregate_one r st =
     (let (m, ar, failures) = st; n = normalize_task_result r;
          m' = m(so_subtask_id n \<mapsto> n);
          ar' = ar\<lparr>ar_results := (ar_results ar)(so_subtask_id n \<mapsto> n), ar_completed := ar_completed ar + 1\<rparr>
      in if so_status n = st_failed
         then (m', ar'\<lparr>ar_failed := ar_failed ar' + 1\<rparr>, failures @ [so_subtask_id n])
         else (m', ar', failures))"

definition failed_summary :: "nat \<Rightarrow> nat \<Rightarrow> string list \<Rightarrow> string" where
  "failed_summary failed completed ids =
     show_nat failed @ '' of '' @ show_nat completed @ '' subtasks failed: '' @ join_str '', '' ids"

definition succeeded_summary :: "nat \<Rightarrow> string" where
  "succeeded_summary completed = ''all '' @ show_nat completed @ '' subtasks succeeded''"

definition aggregate :: "task_res list \<Rightarrow> aggregator \<Rightarrow> (aggregation_result \<times> go_error option) \<times> aggregator" where
  "aggregate results a0 =
     (let a = ensure_defaults a0;
          start = \<lparr>ar_strategy = strategy_normalize (agg_strategy a), ar_status = [], ar_results = Map.empty,
                   ar_completed = 0, ar_failed = 0, ar_timed_out = False, ar_summary = []\<rparr>;
          (m, ar, failures) = fold aggregate_one results (case agg_results a of Some m \<Rightarrow> m | None \<Rightarrow> Map.empty, start, []);
          a' = a\<lparr>agg_results := Some m\<rparr>;
          failed = failed_summary (ar_failed ar) (ar_completed ar) (sort failures);
          good = succeeded_summary (ar_completed ar)
      in if ar_strategy ar = ag_best_effort
         then (if 0 < ar_failed ar
               then ((ar\<lparr>ar_status := as_partial_success, ar_summary := failed\<rparr>, None), a')
               else ((ar\<lparr>ar_status := as_succeeded, ar_summary := good\<rparr>, None), a'))
         else (if 0 < ar_failed ar
               then ((ar\<lparr>ar_status := as_failed, ar_summary := failed\<rparr>,
                      Some (Message (''all-succeed aggregation failed: '' @ failed))), a')
               else ((ar\<lparr>ar_status := as_succeeded, ar_summary := good\<rparr>, None), a')))"

section \<open>Collect\<close>

text \<open>
  The cases the \<^verbatim>\<open>select\<close> of \<^verbatim>\<open>Collect\<close> takes, one after the other: the caller's context is
  done, the timeout has passed, a result arrives, the channel is closed.
\<close>

datatype collect_event = CallerDone go_error | TimeoutDone go_error | Arrived task_res | ChannelClosed

definition timeout_summary :: "nat \<Rightarrow> int \<Rightarrow> string" where
  "timeout_summary collected expected =
     ''timed out waiting for results: collected '' @ show_nat collected @ '' of '' @ show_nat (nat expected)"

definition timed_out :: "nat \<Rightarrow> int \<Rightarrow> aggregation_result \<Rightarrow> aggregation_result" where
  "timed_out collected expected ar =
     ar\<lparr>ar_status := as_timed_out, ar_timed_out := True, ar_summary := timeout_summary collected expected\<rparr>"

text \<open>
  The loop, \<^term>\<open>None\<close> while it waits for another event; \<open>show_duration\<close> is the standard
  library's text of a duration.
\<close>

fun collect_loop ::
  "(duration \<Rightarrow> string) \<Rightarrow> nat \<Rightarrow> task_res list \<Rightarrow> collect_event list \<Rightarrow> aggregator
     \<Rightarrow> ((aggregation_result \<times> go_error option) \<times> aggregator) option" where
  "collect_loop show_duration expected collected [] a =
     (if length collected < expected then None else Some (aggregate collected a))"
| "collect_loop show_duration expected collected (ev # evs) a =
     (if \<not> length collected < expected then Some (aggregate collected a)
      else case ev of
             Arrived r \<Rightarrow> collect_loop show_duration expected (collected @ [r]) evs a
           | CallerDone e \<Rightarrow>
               (let ((ar, _), a') = aggregate collected a in
                Some ((timed_out (length collected) (int expected) ar, Some e), a'))
           | TimeoutDone e \<Rightarrow>
               (let ((ar, _), a') = aggregate collected a in
                Some ((timed_out (length collected) (int expected) ar,
                       Some (Wrapped (''aggregation timed out after '' @ show_duration (agg_timeout a) @
                                      '': '' @ error_text e) e)), a'))
           | ChannelClosed \<Rightarrow>
               (let ((ar, _), a') = aggregate collected a in
                Some ((timed_out (length collected) (int expected) ar,
                       Some (Message (''result channel closed after '' @ show_nat (length collected) @
                                      '' of '' @ show_nat expected @ '' results''))), a')))"

definition collect ::
  "(duration \<Rightarrow> string) \<Rightarrow> int \<Rightarrow> collect_event list \<Rightarrow> aggregator
     \<Rightarrow> ((aggregation_result \<times> go_error option) \<times> aggregator) option" where
  "collect show_duration expected evs a =
     collect_loop show_duration (nat expected) [] evs (ensure_defaults a)"

section \<open>What aggregation computes\<close>

definition res_failed :: "task_res \<Rightarrow> bool" where
  "res_failed r \<longleftrightarrow> res_error r \<noteq> None \<or> res_verification_status r = vs_failed"

lemma normalized_status: "so_status (normalize_task_result r) = (if res_failed r then st_failed else st_completed)"
  by (auto simp: normalize_task_result_def res_failed_def split: option.splits)

lemma normalized_id [simp]: "so_subtask_id (normalize_task_result r) = res_subtask_id r"
  by (simp add: normalize_task_result_def)

text \<open>The map from subtask ids to the last result with that id.\<close>

definition last_outcomes :: "task_res list \<Rightarrow> string \<rightharpoonup> subtask_outcome" where
  "last_outcomes rs = map_of (map (\<lambda>r. (res_subtask_id r, normalize_task_result r)) (rev rs))"

lemma last_outcomes_Cons:
  "m ++ last_outcomes (r # rs) = m(res_subtask_id r \<mapsto> normalize_task_result r) ++ last_outcomes rs"
  by (rule ext) (auto simp: map_add_def last_outcomes_def split: option.splits)

lemma aggregate_one_eq:
  "aggregate_one r (m, ar, fs) =
     (m(res_subtask_id r \<mapsto> normalize_task_result r),
      ar\<lparr>ar_results := (ar_results ar)(res_subtask_id r \<mapsto> normalize_task_result r),
         ar_completed := ar_completed ar + 1,
         ar_failed := ar_failed ar + (if res_failed r then 1 else 0)\<rparr>,
      fs @ (if res_failed r then [res_subtask_id r] else []))"
  by (simp add: aggregate_one_def Let_def normalized_status)

lemma fold_aggregate_one:
  "fold aggregate_one rs (m, ar, fs) =
     (m ++ last_outcomes rs,
      ar\<lparr>ar_results := ar_results ar ++ last_outcomes rs, ar_completed := ar_completed ar + length rs,
         ar_failed := ar_failed ar + length (filter res_failed rs)\<rparr>,
      fs @ map res_subtask_id (filter res_failed rs))"
proof (induction rs arbitrary: m ar fs)
  case Nil
  then show ?case by (simp add: last_outcomes_def)
next
  case (Cons r rs)
  show ?case
    by (simp add: aggregate_one_eq Cons.IH last_outcomes_Cons del: fun_upd_apply)
qed

lemma aggregate_cases:
  "aggregate rs a =
    (let bad = filter res_failed rs; strategy = strategy_normalize (agg_strategy a);
         ar = \<lparr>ar_strategy = strategy,
               ar_status = (if bad = [] then as_succeeded
                            else if strategy = ag_best_effort then as_partial_success else as_failed),
               ar_results = last_outcomes rs, ar_completed = length rs, ar_failed = length bad,
               ar_timed_out = False,
               ar_summary = (if bad = [] then succeeded_summary (length rs)
                             else failed_summary (length bad) (length rs) (sort (map res_subtask_id bad)))\<rparr>
     in ((ar, if bad \<noteq> [] \<and> strategy \<noteq> ag_best_effort
              then Some (Message (''all-succeed aggregation failed: '' @ ar_summary ar)) else None),
         (ensure_defaults a)\<lparr>agg_results :=
            Some ((case agg_results a of Some m \<Rightarrow> m | None \<Rightarrow> Map.empty) ++ last_outcomes rs)\<rparr>))"
  by (auto simp: aggregate_def Let_def fold_aggregate_one ensure_defaults_def strategy_normalize_def split: option.splits)

lemma ensure_defaults_idem [simp]: "ensure_defaults (ensure_defaults a) = ensure_defaults a"
  by (auto simp: ensure_defaults_def strategy_normalize_def default_aggregation_timeout_def split: option.splits)

text \<open>The results a collection takes before the first event that ends it.\<close>

fun arrived :: "collect_event list \<Rightarrow> task_res list" where
  "arrived (Arrived r # evs) = r # arrived evs"
| "arrived evs = []"

lemma collect_loop_enough:
  "expected \<le> length collected + length (arrived evs) \<Longrightarrow>
   collect_loop sd expected collected evs a = Some (aggregate (collected @ take (expected - length collected) (arrived evs)) a)"
proof (induction evs arbitrary: collected)
  case Nil
  then show ?case by simp
next
  case (Cons ev evs)
  show ?case
  proof (cases "length collected < expected")
    case True
    then obtain r where ev: "ev = Arrived r" using Cons.prems by (cases ev) auto
    have "expected - length collected = Suc (expected - length (collected @ [r]))" using True by simp
    then show ?thesis using Cons.IH [of "collected @ [r]"] Cons.prems True ev by simp
  qed simp
qed

lemma collect_loop_short:
  "length collected + length (arrived evs) < expected \<Longrightarrow>
   collect_loop sd expected collected evs a = Some ((ar, err), a') \<Longrightarrow>
   ar_timed_out ar \<and> ar_status ar = as_timed_out \<and> err \<noteq> None \<and>
   ar_completed ar = length collected + length (arrived evs)"
proof (induction evs arbitrary: collected)
  case (Cons ev evs)
  then have short: "length collected < expected" by simp
  show ?case
  proof (cases ev)
    case (Arrived r)
    with Cons.IH [of "collected @ [r]"] Cons.prems short show ?thesis by simp
  qed (use Cons.prems short in \<open>auto simp: aggregate_cases Let_def timed_out_def\<close>)
qed simp

section \<open>Properties\<close>

text \<open>
  C13. Aggregation decides by the failed results.  It counts every result, reports success exactly
  if none failed, returns an error exactly if one failed and the strategy is not best effort (an
  unknown strategy counts as all-succeed), and keeps the last result of every subtask.
\<close>

theorem aggregate_decides:
  "\<exists>ar err a'. aggregate rs a = ((ar, err), a') \<and>
     ar_completed ar = length rs \<and> ar_failed ar = length (filter res_failed rs) \<and>
     (ar_status ar = as_succeeded \<longleftrightarrow> (\<nexists>r. r \<in> set rs \<and> res_failed r)) \<and>
     (err \<noteq> None \<longleftrightarrow> (\<exists>r \<in> set rs. res_failed r) \<and> agg_strategy a \<noteq> ag_best_effort) \<and>
     ar_results ar = last_outcomes rs"
  by (auto simp: aggregate_cases Let_def filter_empty_conv strategy_normalize_def)

text \<open>
  Collection takes what arrives first, and never more than expected.  With enough results
  before anything else happens, it aggregates the first ones; when it returns with fewer, the
  outcome is a timeout with an error.
\<close>

theorem collect_outcome:
  "(if nat expected \<le> length (arrived evs)
    then collect sd expected evs a = Some (aggregate (take (nat expected) (arrived evs)) (ensure_defaults a))
    else (case collect sd expected evs a of
            None \<Rightarrow> True
          | Some ((ar, err), a') \<Rightarrow> ar_timed_out ar \<and> ar_status ar = as_timed_out \<and> err \<noteq> None \<and>
              ar_completed ar = length (arrived evs)))"
proof (cases "nat expected \<le> length (arrived evs)")
  case True
  then show ?thesis
    using collect_loop_enough [of "nat expected" "[]" evs sd "ensure_defaults a"] by (simp add: collect_def)
next
  case False
  then show ?thesis
    using collect_loop_short [of "[]" evs "nat expected" sd "ensure_defaults a"]
    by (auto simp: collect_def split: option.splits)
qed

end
