(* ===== verification/Registries.thy ===== *)
theory Registries
  imports Prelude
begin

text \<open>
  The contract the harness's registries share (tools, agent strategies, verifiers): entries under
  a normalised name, each name taken at most once and never overwritten.  A registry is an
  association list with the newest entry first; Go's map has the same entries.
\<close>

locale named_registry =
  fixes key :: "string \<Rightarrow> string"
    and acceptable :: "string \<Rightarrow> 'v \<Rightarrow> bool"
    and register :: "string \<Rightarrow> 'v \<Rightarrow> 'r \<Rightarrow> ('e, 'r) result"
    and lookup :: "'r \<Rightarrow> string \<Rightarrow> 'v option"
  assumes register_ok: "is_ok (register i v r) \<longleftrightarrow> acceptable i v \<and> lookup r i = None"
    and register_lookup: "register i v r = Inr r' \<Longrightarrow>
      lookup r' j = (if key j = key i then Some v else lookup r j)"
    and lookup_key: "key i = key j \<Longrightarrow> lookup r i = lookup r j"

text \<open>Registering a list of entries, one call after the other; a refused entry changes nothing.\<close>

fun register_all ::
  "(string \<Rightarrow> 'v \<Rightarrow> 'r \<Rightarrow> ('e, 'r) result) \<Rightarrow> (string \<times> 'v) list \<Rightarrow> 'r \<Rightarrow> 'r" where
  "register_all register [] r = r"
| "register_all register ((i, v) # es) r =
     (case register i v r of Inl _ \<Rightarrow> register_all register es r | Inr r' \<Rightarrow> register_all register es r')"

context named_registry begin

lemma register_keeps:
  assumes "register i v r = Inr r'" "lookup r j = Some u"
  shows "lookup r' j = Some u"
proof -
  have "lookup r i = None" using assms(1) register_ok [of i v r] by simp
  then have "key j \<noteq> key i" using assms(2) lookup_key [of j i r] by auto
  with register_lookup [OF assms(1)] assms(2) show ?thesis by simp
qed

lemma register_step_keeps:
  "lookup r j = Some u \<Longrightarrow> lookup (case register i v r of Inl _ \<Rightarrow> r | Inr r' \<Rightarrow> r') j = Some u"
  by (cases "register i v r") (auto dest: register_keeps)

lemma register_all_keeps: "lookup r j = Some u \<Longrightarrow> lookup (register_all register es r) j = Some u"
proof (induction es arbitrary: r)
  case (Cons e es)
  obtain i v where e: "e = (i, v)" by (cases e)
  from Cons.IH [OF register_step_keeps [OF Cons.prems, of i v]] show ?case
    by (simp add: e split: sum.splits)
qed simp

text \<open>
  After registering a list, a name has the first acceptable entry given for it, unless it was
  taken before.
\<close>

lemma register_all_lookup:
  "lookup (register_all register es r) j =
     (case lookup r j of
        Some u \<Rightarrow> Some u
      | None \<Rightarrow> map_option snd (find (\<lambda>(i, v). key i = key j \<and> acceptable i v) es))"
proof (induction es arbitrary: r)
  case Nil
  then show ?case by (simp split: option.splits)
next
  case (Cons e es)
  obtain i v where e: "e = (i, v)" by (cases e)
  show ?case
  proof (cases "register i v r")
    case (Inl err)
    then have "\<not> acceptable i v \<or> lookup r i \<noteq> None" using register_ok [of i v r] by auto
    with Cons.IH [of r] Inl show ?thesis
      using lookup_key [of i j r] by (auto simp: e split: option.splits)
  next
    case (Inr r')
    then have a: "acceptable i v" "lookup r i = None" using register_ok [of i v r] by auto
    show ?thesis
    proof (cases "key j = key i")
      case True
      then have "lookup r j = None" using a lookup_key by metis
      with Cons.IH [of r'] Inr a True register_lookup [OF Inr, of j] show ?thesis by (simp add: e)
    next
      case False
      with Cons.IH [of r'] Inr register_lookup [OF Inr, of j] show ?thesis
        by (auto simp: e split: option.splits)
    qed
  qed
qed

end

end
