(* ===== verification/Memory_Model.thy ===== *)
theory Memory_Model
  imports Domain
begin

text \<open>
  Memory entries and queries (\<^verbatim>\<open>internal/domain/memory.go\<close>).
\<close>

type_synonym memory_scope = string
abbreviation ms_session :: memory_scope where "ms_session \<equiv> ''session''"
abbreviation ms_project :: memory_scope where "ms_project \<equiv> ''project''"
abbreviation ms_global :: memory_scope where "ms_global \<equiv> ''global''"

type_synonym memory_type = string
abbreviation mt_preference :: memory_type where "mt_preference \<equiv> ''preference''"
abbreviation mt_fact :: memory_type where "mt_fact \<equiv> ''fact''"
abbreviation mt_summary :: memory_type where "mt_summary \<equiv> ''summary''"

record memory_entry =
  me_id :: string
  me_session_id :: string
  me_project_key :: string
  me_scope :: memory_scope
  me_type :: memory_type
  me_key :: string
  me_content :: string
  me_source :: string
  me_confidence :: int
  me_provenance :: string
  me_created_at :: gotime
  me_updated_at :: gotime
  me_expires_at :: "gotime option"

record recall_query =
  rq_session_id :: string
  rq_scope :: memory_scope
  rq_type :: memory_type
  rq_key :: string
  rq_source :: string
  rq_limit :: int
  rq_prefix :: string

end
