(* ===== verification/Agent_Strategy.thy ===== *)
theory Agent_Strategy
  imports Registries Provenance Memory_Model
begin

text \<open>
  Agent strategies (\<^verbatim>\<open>internal/runtime/agent_strategy.go\<close>): the strategy interface, the built-in
  strategy on a model, the registry of factories, and the host's validation of what a strategy
  decides.  A strategy and a model act on a state \<^typ>\<open>'w\<close>, the world.
\<close>

section \<open>Models and strategies\<close>

record 'w model =
  md_create_plan :: "task \<Rightarrow> session \<Rightarrow> memory_entry list \<Rightarrow> 'w \<Rightarrow> (go_error, plan) result \<times> 'w"
  md_next_action :: "task \<Rightarrow> session \<Rightarrow> plan \<Rightarrow> step list \<Rightarrow> memory_entry list \<Rightarrow> tool_info list
    \<Rightarrow> 'w \<Rightarrow> (go_error, action) result \<times> 'w"
  md_observe :: "task \<Rightarrow> session \<Rightarrow> plan \<Rightarrow> action \<Rightarrow> tool_result option \<Rightarrow> 'w \<Rightarrow> (go_error, observation) result \<times> 'w"
  md_provenance :: "plugin_metadata option"

record plan_context =
  pc_task :: task
  pc_session :: session
  pc_memory :: "memory_entry list"

record action_context =
  ac_task :: task
  ac_session :: session
  ac_plan :: plan
  ac_steps :: "step list"
  ac_memory :: "memory_entry list"
  ac_allowed_tools :: "tool_info list"

record observation_context =
  oc_task :: task
  oc_session :: session
  oc_plan :: plan
  oc_action :: action
  oc_tool_result :: "tool_result option"

record 'w strategy =
  st_metadata :: plugin_metadata
  st_create_plan :: "plan_context \<Rightarrow> 'w \<Rightarrow> (go_error, plan) result \<times> 'w"
  st_next_action :: "action_context \<Rightarrow> 'w \<Rightarrow> (go_error, action) result \<times> 'w"
  st_observe :: "observation_context \<Rightarrow> 'w \<Rightarrow> (go_error, observation) result \<times> 'w"

definition strategy_contract_version :: string where
  "strategy_contract_version = ''1.0.0''"

definition host_default :: string where
  "host_default = ''host_default''"

definition builtin_metadata :: plugin_metadata where
  "builtin_metadata =
     \<lparr>pl_family = pf_agent_strategy, pl_logical_id = host_default,
      pl_display_name = ''Host Default Runtime Strategy'', pl_contract_version = strategy_contract_version,
      pl_implementation_version = ''1.0.0'', pl_execution_mode = pm_native,
      pl_source_path = ''builtin://runtime/model''\<rparr>"

text \<open>\<^verbatim>\<open>newBuiltinModelAgentStrategy\<close>; its \<^verbatim>\<open>Observe\<close> drops a tool result the model returned.\<close>

definition builtin_strategy :: "'w model \<Rightarrow> 'w strategy" where
  "builtin_strategy md =
     \<lparr>st_metadata = builtin_metadata,
      st_create_plan = (\<lambda>c. md_create_plan md (pc_task c) (pc_session c) (pc_memory c)),
      st_next_action = (\<lambda>c. md_next_action md (ac_task c) (ac_session c) (ac_plan c) (ac_steps c)
         (ac_memory c) (ac_allowed_tools c)),
      st_observe = (\<lambda>c w.
         case md_observe md (oc_task c) (oc_session c) (oc_plan c) (oc_action c) (oc_tool_result c) w of
           (Inl e, w') \<Rightarrow> (Inl e, w')
         | (Inr obs, w') \<Rightarrow> (Inr (obs\<lparr>obs_tool_result := None\<rparr>), w'))\<rparr>"

section \<open>The registry\<close>

text \<open>A factory may fail and may return nil.\<close>

type_synonym 'w strategy_factory = "'w \<Rightarrow> (go_error, 'w strategy option) result \<times> 'w"

record 'w strategy_registry =
  sr_entries :: "(string \<times> 'w strategy_factory) list"
  sr_default :: string

definition new_strategy_registry :: "'w strategy_registry" where
  "new_strategy_registry = \<lparr>sr_entries = [], sr_default = host_default\<rparr>"

text \<open>\<^verbatim>\<open>Register\<close>; a nil factory is \<^term>\<open>None\<close>.\<close>

definition sr_register ::
  "string \<Rightarrow> 'w strategy_factory option \<Rightarrow> 'w strategy_registry \<Rightarrow> (go_error, 'w strategy_registry) result" where
  "sr_register i factory r =
     (let n = trim_space i in
      if n = [] then Inl (Message ''agent strategy id must not be empty'')
      else case factory of
             None \<Rightarrow> Inl (Message ''agent strategy factory must not be nil'')
           | Some f \<Rightarrow>
               if map_of (sr_entries r) n \<noteq> None
               then Inl (Message (''duplicate agent strategy id '' @ quote_str n))
               else Inr (r\<lparr>sr_entries := (n, f) # sr_entries r\<rparr>))"

definition sr_get :: "'w strategy_registry \<Rightarrow> string \<Rightarrow> 'w strategy_factory option" where
  "sr_get r i = (let n = trim_space i in if n = [] then None else map_of (sr_entries r) n)"

definition sr_clone :: "'w strategy_registry option \<Rightarrow> 'w strategy_registry" where
  "sr_clone r = (case r of None \<Rightarrow> new_strategy_registry | Some r \<Rightarrow> r)"

definition strategy_not_found :: go_error where
  "strategy_not_found = Message ''agent strategy not found''"

definition contract_version_mismatch :: go_error where
  "contract_version_mismatch = Message ''agent strategy plugin contract version mismatch''"

definition validate_strategy_metadata :: "plugin_metadata \<Rightarrow> go_error option" where
  "validate_strategy_metadata m =
     (case pl_validate m of
        Some e \<Rightarrow> Some (Message (metadata_error_text e))
      | None \<Rightarrow>
          if pl_family m \<noteq> pf_agent_strategy
          then Some (Message (''agent strategy metadata family must be '' @ quote_str pf_agent_strategy @
                 '', got '' @ quote_str (pl_family m)))
          else if pl_contract_version m \<noteq> strategy_contract_version
          then Some (Wrapped (error_text contract_version_mismatch @ '': plugin='' @
                 quote_str (pl_contract_version m) @ '' expected='' @ quote_str strategy_contract_version)
                 contract_version_mismatch)
          else None)"

definition sr_resolve :: "'w strategy_registry \<Rightarrow> string \<Rightarrow> 'w \<Rightarrow> (go_error, 'w strategy) result \<times> 'w" where
  "sr_resolve r i w =
     (let selected = (if trim_space i = [] then sr_default r else trim_space i) in
      case map_of (sr_entries r) selected of
        None \<Rightarrow>
          (Inl (Wrapped (error_text strategy_not_found @ '': '' @ quote_str selected) strategy_not_found), w)
      | Some factory \<Rightarrow>
          (case factory w of
             (Inl e, w') \<Rightarrow> (Inl e, w')
           | (Inr None, w') \<Rightarrow>
               (Inl (Message (''agent strategy '' @ quote_str selected @ '' factory returned nil strategy'')), w')
           | (Inr (Some st), w') \<Rightarrow>
               (let m = pl_normalize (st_metadata st) in
                case validate_strategy_metadata m of
                  Some e \<Rightarrow> (Inl e, w')
                | None \<Rightarrow>
                    if pl_logical_id m \<noteq> selected
                    then (Inl (Message (''agent strategy metadata logical id '' @ quote_str (pl_logical_id m) @
                            '' must match registry id '' @ quote_str selected)), w')
                    else (Inr st, w'))))"

definition sr_acceptable :: "string \<Rightarrow> 'w strategy_factory option \<Rightarrow> bool" where
  "sr_acceptable i factory \<longleftrightarrow> trim_space i \<noteq> [] \<and> factory \<noteq> None"

interpretation sr: named_registry trim_space sr_acceptable sr_register
  "\<lambda>r i. map_option Some (sr_get r i)"
proof (unfold_locales, goal_cases)
  case (1 i v r)
  then show ?case by (auto simp: sr_register_def sr_acceptable_def sr_get_def Let_def split: option.splits)
next
  case (2 i v r r' j)
  then show ?case by (auto simp: sr_register_def sr_get_def Let_def split: option.splits if_splits)
next
  case (3 i j r)
  then show ?case by (simp add: sr_get_def)
qed

section \<open>What the host accepts\<close>

definition invalid_response :: go_error where
  "invalid_response = Message ''invalid agent strategy response''"

definition invalid_because :: "string \<Rightarrow> go_error" where
  "invalid_because why = Wrapped (error_text invalid_response @ '': '' @ why) invalid_response"

definition validate_plan :: "task \<Rightarrow> plan \<Rightarrow> (go_error, plan) result" where
  "validate_plan t pl =
     (if trim_space (plan_task_id pl) \<noteq> [] \<and> plan_task_id pl \<noteq> task_id t
      then Inl (invalid_because (''plan task_id '' @ quote_str (plan_task_id pl) @ '' does not match task '' @
                  quote_str (task_id t)))
      else Inr pl)"

definition is_allowed_tool :: "string \<Rightarrow> tool_info list \<Rightarrow> bool" where
  "is_allowed_tool name tools = (if tools = [] then True else list_ex (\<lambda>t. ti_name t = name) tools)"

definition validate_action :: "tool_info list \<Rightarrow> action \<Rightarrow> (go_error, action) result" where
  "validate_action allowed a =
     (if act_type a = at_tool_call
      then (case act_tool_call a of
              None \<Rightarrow> Inl (invalid_because ''tool_call action requires tool call payload'')
            | Some call \<Rightarrow>
                if \<not> is_allowed_tool (tc_name call) allowed
                then Inl (invalid_because (''tool '' @ quote_str (tc_name call) @ '' is not in host allowlist''))
                else Inr a)
      else if act_type a = at_respond \<or> act_type a = at_request_input \<or> act_type a = at_complete
      then (if act_tool_call a \<noteq> None
            then Inl (invalid_because (''action type '' @ quote_str (act_type a) @ '' must not include tool call payload''))
            else Inr a)
      else Inl (invalid_because (''unsupported action type '' @ quote_str (act_type a))))"

definition validate_observation :: "observation \<Rightarrow> (go_error, observation) result" where
  "validate_observation obs =
     (if obs_tool_result obs \<noteq> None
      then Inl (invalid_because ''observation must not include tool result payload'')
      else Inr obs)"

section \<open>Lemmas\<close>

lemma validate_action_Inr:
  "validate_action allowed a = Inr b \<longleftrightarrow> b = a \<and>
     (case act_tool_call a of
        Some call \<Rightarrow> act_type a = at_tool_call \<and> is_allowed_tool (tc_name call) allowed
      | None \<Rightarrow> act_type a \<in> {at_respond, at_request_input, at_complete})"
  by (auto simp: validate_action_def split: option.splits)

lemma validate_plan_Inr:
  "validate_plan t pl = Inr pl' \<Longrightarrow> pl' = pl \<and> (trim_space (plan_task_id pl) = [] \<or> plan_task_id pl = task_id t)"
  by (auto simp: validate_plan_def split: if_splits)

lemma validate_observation_Inr: "validate_observation obs = Inr obs' \<Longrightarrow> obs' = obs \<and> obs_tool_result obs = None"
  by (auto simp: validate_observation_def split: if_splits)

text \<open>A strategy that resolves is registered under its own logical id, with the host's version.\<close>

lemma sr_resolve_ok:
  assumes "sr_resolve r i w = (Inr st, w')"
  shows "pl_validate (pl_normalize (st_metadata st)) = None \<and>
    pl_family (pl_normalize (st_metadata st)) = pf_agent_strategy \<and>
    pl_contract_version (pl_normalize (st_metadata st)) = strategy_contract_version \<and>
    pl_logical_id (pl_normalize (st_metadata st)) = (if trim_space i = [] then sr_default r else trim_space i)"
  using assms
  by (auto simp: sr_resolve_def Let_def validate_strategy_metadata_def split: option.splits prod.splits sum.splits if_splits)

end
