(* ===== verification/Task_Protocol.thy ===== *)
theory Task_Protocol
  imports Domain
begin

text \<open>
  The task protocols (\<^verbatim>\<open>internal/runtime/task_registry.go\<close>): static metadata per task category,
  the registry built from it, and the resolution of a task to its protocol.
\<close>

definition policy_command :: string where "policy_command = ''command''"
definition policy_evidence :: string where "policy_evidence = ''evidence''"
definition policy_state_output :: string where "policy_state_output = ''state_output''"

record protocol_metadata =
  pm_task_type :: task_category
  pm_verifier_policy :: string
  pm_prompting_hints :: "string list"
  pm_default_hint :: string
  pm_default_policy :: string

record resolved_protocol =
  rp_task :: task
  rp_metadata :: protocol_metadata

text \<open>The map \<^verbatim>\<open>staticTaskProtocolMetadata\<close>.\<close>

definition static_metadata :: "(task_category \<times> protocol_metadata) list" where
  "static_metadata =
     [(cat_coding,
       \<lparr>pm_task_type = cat_coding, pm_verifier_policy = policy_command,
        pm_prompting_hints =
          [''Prefer repository-backed evidence and executable validation.'',
           ''Use tool calls only when they advance the code or test state.''],
        pm_default_hint = ''cli-first coding workflow'', pm_default_policy = policy_command\<rparr>),
      (cat_research,
       \<lparr>pm_task_type = cat_research, pm_verifier_policy = policy_evidence,
        pm_prompting_hints =
          [''Ground claims in gathered evidence before responding.'',
           ''Prefer concise synthesis over speculative implementation steps.''],
        pm_default_hint = ''evidence-first research workflow'', pm_default_policy = policy_evidence\<rparr>),
      (cat_file_workflow,
       \<lparr>pm_task_type = cat_file_workflow, pm_verifier_policy = policy_state_output,
        pm_prompting_hints =
          [''Track file inputs, outputs, and handoff state explicitly.'',
           ''Confirm artifact paths and completion criteria before finishing.''],
        pm_default_hint = ''artifact-tracking file workflow'', pm_default_policy = policy_state_output\<rparr>)]"

definition fallback_metadata :: protocol_metadata where
  "fallback_metadata =
     \<lparr>pm_task_type = cat_general, pm_verifier_policy = policy_evidence,
      pm_prompting_hints =
        [''Use a conservative general-purpose workflow when no specialized protocol exists.''],
      pm_default_hint = ''general compatibility workflow'', pm_default_policy = policy_evidence\<rparr>"

record task_registry =
  tg_entries :: "(task_category \<times> protocol_metadata) list"
  tg_fallback :: protocol_metadata
  tg_order :: "task_category list"

definition new_task_registry :: task_registry where
  "new_task_registry =
     \<lparr>tg_entries = static_metadata, tg_fallback = fallback_metadata, tg_order = sort (map fst static_metadata)\<rparr>"

text \<open>The nil registry is \<^term>\<open>None\<close>.\<close>

definition resolve_category :: "task_registry option \<Rightarrow> task_category \<Rightarrow> protocol_metadata" where
  "resolve_category r c =
     (case r of
        None \<Rightarrow> fallback_metadata
      | Some r \<Rightarrow>
          (case map_of (tg_entries r) (category_normalize c) of
             Some m \<Rightarrow> m
           | None \<Rightarrow> tg_fallback r))"

definition resolve_task :: "task_registry option \<Rightarrow> task \<Rightarrow> resolved_protocol" where
  "resolve_task r t =
     (let m = resolve_category r (category_or_default t);
          t1 = (task_normalize t)\<lparr>task_category := pm_task_type m\<rparr>;
          t2 = (if trim_space (task_protocol_hint t1) = [] then t1\<lparr>task_protocol_hint := pm_default_hint m\<rparr> else t1);
          t3 = (if trim_space (task_verification_policy t2) = []
                then t2\<lparr>task_verification_policy := pm_default_policy m\<rparr> else t2)
      in \<lparr>rp_task = t3, rp_metadata = m\<rparr>)"

definition list_protocols :: "task_registry option \<Rightarrow> protocol_metadata list" where
  "list_protocols r =
     (case r of
        None \<Rightarrow> []
      | Some r \<Rightarrow> map (\<lambda>c. the (map_of (tg_entries r) c)) (tg_order r))"

section \<open>Lemmas\<close>

lemma resolve_category_type:
  "pm_task_type (resolve_category (Some new_task_registry) c) = category_normalize c"
  by (auto simp: resolve_category_def new_task_registry_def static_metadata_def fallback_metadata_def
      category_normalize_def)

lemma pm_default_policy_nonblank:
  "pm_default_policy (resolve_category (Some new_task_registry) c) \<in> {policy_command, policy_evidence, policy_state_output} \<and>
   pm_verifier_policy (resolve_category (Some new_task_registry) c) = pm_default_policy (resolve_category (Some new_task_registry) c)"
  by (auto simp: resolve_category_def new_task_registry_def static_metadata_def fallback_metadata_def)

lemma resolve_task_fields [simp]:
  "task_id (rp_task (resolve_task r t)) = task_id t"
  "task_description (rp_task (resolve_task r t)) = task_description t"
  "task_created_at (rp_task (resolve_task r t)) = task_created_at t"
  by (simp_all add: resolve_task_def Let_def task_normalize_def)

lemma blank_policies: "trim_space policy_command \<noteq> []" "trim_space policy_evidence \<noteq> []" "trim_space policy_state_output \<noteq> []"
  by code_simp+

lemma blank_hints:
  "trim_space (pm_default_hint (resolve_category (Some new_task_registry) c)) \<noteq> []"
proof -
  have "resolve_category (Some new_task_registry) c \<in> set (fallback_metadata # map snd static_metadata)"
    by (auto simp: resolve_category_def new_task_registry_def static_metadata_def)
  moreover have "list_all (\<lambda>m. trim_space (pm_default_hint m) \<noteq> []) (fallback_metadata # map snd static_metadata)"
    by code_simp
  ultimately show ?thesis unfolding list_all_iff by blast
qed

section \<open>Properties\<close>

text \<open>
  Every task resolves to a complete protocol.  The resolved task keeps its identifier and
  description, has a supported category that is the metadata's, and a protocol hint and a
  verification policy that are not blank (its own, when it has one, else the category's);
  resolving it again changes nothing.
\<close>

theorem resolve_task_complete:
  "let p = resolve_task (Some new_task_registry) t; rt = rp_task p in
     task_id rt = task_id t \<and> task_description rt = task_description t \<and>
     task_category rt = category_normalize (task_category t) \<and> pm_task_type (rp_metadata p) = task_category rt \<and>
     trim_space (task_protocol_hint rt) \<noteq> [] \<and> trim_space (task_verification_policy rt) \<noteq> [] \<and>
     task_verification_policy rt =
       (if trim_space (task_verification_policy t) = [] then pm_verifier_policy (rp_metadata p)
        else task_verification_policy t) \<and>
     resolve_task (Some new_task_registry) rt = p"
proof -
  let ?m = "resolve_category (Some new_task_registry) (category_or_default t)"
  let ?p = "resolve_task (Some new_task_registry) t"
  have type: "pm_task_type ?m = category_normalize (task_category t)"
    by (simp add: resolve_category_type category_or_default_def)
  have pol: "trim_space (pm_default_policy ?m) \<noteq> []" "pm_verifier_policy ?m = pm_default_policy ?m"
    using pm_default_policy_nonblank [of "category_or_default t"] blank_policies by auto
  note hint = blank_hints [of "category_or_default t"]
  have cat: "task_category (rp_task ?p) = category_normalize (task_category t)"
    using type by (simp add: resolve_task_def Let_def)
  have meta: "rp_metadata ?p = ?m" by (simp add: resolve_task_def Let_def)
  have policy: "task_verification_policy (rp_task ?p) =
      (if trim_space (task_verification_policy t) = [] then pm_verifier_policy ?m else task_verification_policy t)"
    using pol by (simp add: resolve_task_def Let_def)
  have h: "trim_space (task_protocol_hint (rp_task ?p)) \<noteq> []"
    using hint by (simp add: resolve_task_def Let_def)
  have v: "trim_space (task_verification_policy (rp_task ?p)) \<noteq> []" using policy pol by simp
  have "category_or_default (rp_task ?p) = category_or_default t" using cat by (simp add: category_or_default_def)
  then have "resolve_task (Some new_task_registry) (rp_task ?p) =
      \<lparr>rp_task = (task_normalize (rp_task ?p))\<lparr>task_category := pm_task_type ?m\<rparr>, rp_metadata = ?m\<rparr>"
    using h v by (simp add: resolve_task_def [of _ "rp_task ?p"] Let_def)
  moreover have "(task_normalize (rp_task ?p))\<lparr>task_category := pm_task_type ?m\<rparr> = rp_task ?p"
    using cat type by (simp add: task_normalize_def)
  ultimately have "resolve_task (Some new_task_registry) (rp_task ?p) = ?p" using meta by simp
  then show ?thesis
    using cat type meta policy h v by (simp add: Let_def)
qed

end
