(* ===== verification/Events.thy ===== *)
theory Events
  imports Channels
begin

text \<open>
  Streaming events (\<^verbatim>\<open>internal/domain/events.go\<close>) and the channel that delivers them without
  blocking (\<^verbatim>\<open>internal/runtime/emitter.go\<close>).  A payload is kept as the value that is marshalled;
  these values hold strings only, so marshalling them does not fail.
\<close>

section \<open>Events\<close>

type_synonym event_type = string
abbreviation ev_token_delta :: event_type where "ev_token_delta \<equiv> ''token_delta''"
abbreviation ev_tool_start :: event_type where "ev_tool_start \<equiv> ''tool_start''"
abbreviation ev_tool_end :: event_type where "ev_tool_end \<equiv> ''tool_end''"
abbreviation ev_step_complete :: event_type where "ev_step_complete \<equiv> ''step_complete''"
abbreviation ev_error :: event_type where "ev_error \<equiv> ''error''"
abbreviation ev_session_complete :: event_type where "ev_session_complete \<equiv> ''session_complete''"

datatype event_payload =
    TokenDeltaPayload string
  | ToolStartPayload string string
  | ToolEndPayload string string string
  | StepCompletePayload string
  | ErrorPayload string
  | SessionCompletePayload string string

record streaming_event =
  ev_type :: event_type
  ev_step_index :: int
  ev_payload :: event_payload
  ev_timestamp :: gotime

definition new_streaming_event :: "event_type \<Rightarrow> int \<Rightarrow> event_payload \<Rightarrow> gotime \<Rightarrow> streaming_event" where
  "new_streaming_event ty i p now = \<lparr>ev_type = ty, ev_step_index = i, ev_payload = p, ev_timestamp = now\<rparr>"

definition token_delta :: "int \<Rightarrow> string \<Rightarrow> gotime \<Rightarrow> streaming_event" where
  "token_delta i content = new_streaming_event ev_token_delta i (TokenDeltaPayload content)"

definition tool_start :: "int \<Rightarrow> string \<Rightarrow> string \<Rightarrow> gotime \<Rightarrow> streaming_event" where
  "tool_start i name input = new_streaming_event ev_tool_start i (ToolStartPayload name input)"

definition tool_end :: "int \<Rightarrow> string \<Rightarrow> string \<Rightarrow> string \<Rightarrow> gotime \<Rightarrow> streaming_event" where
  "tool_end i name out err = new_streaming_event ev_tool_end i (ToolEndPayload name out err)"

definition step_complete :: "int \<Rightarrow> string \<Rightarrow> gotime \<Rightarrow> streaming_event" where
  "step_complete i summary = new_streaming_event ev_step_complete i (StepCompletePayload summary)"

definition error_event :: "int \<Rightarrow> string \<Rightarrow> gotime \<Rightarrow> streaming_event" where
  "error_event i message = new_streaming_event ev_error i (ErrorPayload message)"

definition session_complete :: "string \<Rightarrow> string \<Rightarrow> gotime \<Rightarrow> streaming_event" where
  "session_complete sid status = new_streaming_event ev_session_complete 0 (SessionCompletePayload sid status)"

section \<open>The event channel\<close>

record 'a event_channel =
  ec_channel :: "'a channel"
  ec_closed :: bool

definition event_channel_closed :: go_error where
  "event_channel_closed = Message ''runtime event channel closed''"

definition new_event_channel :: "int \<Rightarrow> 'a event_channel" where
  "new_event_channel buffer =
     \<lparr>ec_channel = \<lparr>ch_items = [], ch_capacity = nat (if buffer < 0 then 0 else buffer), ch_closed = False\<rparr>,
      ec_closed = False\<rparr>"

text \<open>
  \<^verbatim>\<open>Emit\<close>; the nil channel is \<^term>\<open>None\<close>.  The \<^verbatim>\<open>select\<close> with a default case drops the
  event when the send would block.
\<close>

definition ec_emit :: "'a \<Rightarrow> 'a event_channel option \<Rightarrow> (go_error option \<times> 'a event_channel option) attempt" where
  "ec_emit ev c =
     (case c of
        None \<Rightarrow> Done (None, None)
      | Some ec \<Rightarrow>
          if ec_closed ec then Done (Some event_channel_closed, Some ec)
          else case go_send ev (ec_channel ec) of
                 Done ch \<Rightarrow> Done (None, Some (ec\<lparr>ec_channel := ch\<rparr>))
               | Blocks \<Rightarrow> Done (None, Some ec)
               | Panics \<Rightarrow> Panics)"

definition ec_close :: "'a event_channel option \<Rightarrow> 'a event_channel option attempt" where
  "ec_close c =
     (case c of
        None \<Rightarrow> Done None
      | Some ec \<Rightarrow>
          if ec_closed ec then Done (Some ec)
          else case go_close (ec_channel ec) of
                 Done ch \<Rightarrow> Done (Some (ec\<lparr>ec_channel := ch, ec_closed := True\<rparr>))
               | Blocks \<Rightarrow> Blocks
               | Panics \<Rightarrow> Panics)"

text \<open>A consumer receives from the channel that \<^verbatim>\<open>Events\<close> returns.\<close>

definition ec_receive :: "'a event_channel option \<Rightarrow> ('a option \<times> 'a event_channel option) attempt" where
  "ec_receive c =
     (case c of
        None \<Rightarrow> Blocks
      | Some ec \<Rightarrow>
          (case go_receive (ec_channel ec) of
             Done (x, ch) \<Rightarrow> Done (x, Some (ec\<lparr>ec_channel := ch\<rparr>))
           | Blocks \<Rightarrow> Blocks
           | Panics \<Rightarrow> Panics))"

section \<open>Uses of the event channel\<close>

text \<open>
  A use of the channel: what was emitted without error and what was received, in order.  A receive
  that blocks leaves the use where it is, so it is skipped.
\<close>

datatype 'a event_call = EmitCall 'a | ReceiveCall | CloseCall

fun event_run ::
  "'a event_call list \<Rightarrow> 'a event_channel option \<Rightarrow> ('a list \<times> 'a list \<times> 'a event_channel option) attempt" where
  "event_run [] c = Done ([], [], c)"
| "event_run (EmitCall ev # calls) c =
     (case ec_emit ev c of
        Done (err, c1) \<Rightarrow>
          (case event_run calls c1 of
             Done (ins, outs, c2) \<Rightarrow> Done (if err = None then ev # ins else ins, outs, c2)
           | Blocks \<Rightarrow> Blocks | Panics \<Rightarrow> Panics)
      | Blocks \<Rightarrow> Blocks | Panics \<Rightarrow> Panics)"
| "event_run (ReceiveCall # calls) c =
     (case ec_receive c of
        Done (x, c1) \<Rightarrow>
          (case event_run calls c1 of
             Done (ins, outs, c2) \<Rightarrow> Done (ins, (case x of Some y \<Rightarrow> y # outs | None \<Rightarrow> outs), c2)
           | Blocks \<Rightarrow> Blocks | Panics \<Rightarrow> Panics)
      | Blocks \<Rightarrow> event_run calls c
      | Panics \<Rightarrow> Panics)"
| "event_run (CloseCall # calls) c =
     (case ec_close c of
        Done c1 \<Rightarrow> event_run calls c1
      | Blocks \<Rightarrow> Blocks | Panics \<Rightarrow> Panics)"

definition ec_items :: "'a event_channel option \<Rightarrow> 'a list" where
  "ec_items c = (case c of None \<Rightarrow> [] | Some ec \<Rightarrow> ch_items (ec_channel ec))"

definition ec_ok :: "nat \<Rightarrow> 'a event_channel option \<Rightarrow> bool" where
  "ec_ok n c \<longleftrightarrow> (case c of None \<Rightarrow> True | Some ec \<Rightarrow>
     ch_closed (ec_channel ec) = ec_closed ec \<and> ch_capacity (ec_channel ec) = n \<and>
     length (ch_items (ec_channel ec)) \<le> n)"

lemmas ec_defs = ec_emit_def ec_close_def ec_receive_def ec_items_def ec_ok_def go_send_def go_receive_def go_close_def

lemma emit_cases:
  "ec_ok n c \<Longrightarrow> \<exists>err c'. ec_emit ev c = Done (err, c') \<and> ec_ok n c' \<and>
     (ec_items c' = ec_items c @ [ev] \<and> err = None \<or> ec_items c' = ec_items c)"
  by (cases c; cases "ec_closed (the c)";
      cases "length (ch_items (ec_channel (the c))) < ch_capacity (ec_channel (the c))")
     (simp_all add: ec_defs)

lemma receive_cases:
  "ec_ok n c \<Longrightarrow>
     ec_receive c = Blocks \<and> ec_items c = [] \<or>
     (\<exists>c'. ec_receive c = Done (None, c') \<and> ec_ok n c' \<and> ec_items c' = ec_items c) \<or>
     (\<exists>x c'. ec_receive c = Done (Some x, c') \<and> ec_ok n c' \<and> ec_items c = x # ec_items c')"
  by (cases c; cases "ch_items (ec_channel (the c))"; cases "ec_closed (the c)") (simp_all add: ec_defs)

lemma close_cases:
  "ec_ok n c \<Longrightarrow> \<exists>c'. ec_close c = Done c' \<and> ec_ok n c' \<and> ec_items c' = ec_items c"
  by (cases c; cases "ec_closed (the c)") (simp_all add: ec_defs)

lemma event_run_subseq:
  "ec_ok n c \<Longrightarrow> \<exists>ins outs c'. event_run calls c = Done (ins, outs, c') \<and> ec_ok n c' \<and>
     subseq (outs @ ec_items c') (ec_items c @ ins)"
proof (induction calls arbitrary: c)
  case (Cons call calls)
  show ?case
  proof (cases call)
    case (EmitCall ev)
    obtain err c1 where e: "ec_emit ev c = Done (err, c1)" "ec_ok n c1"
      "ec_items c1 = ec_items c @ [ev] \<and> err = None \<or> ec_items c1 = ec_items c"
      using emit_cases [OF Cons.prems, of ev] by blast
    obtain ins outs c' where r: "event_run calls c1 = Done (ins, outs, c')" "ec_ok n c'"
      "subseq (outs @ ec_items c') (ec_items c1 @ ins)" using Cons.IH [OF e(2)] by blast
    have "subseq (ec_items c1 @ ins) (ec_items c @ (if err = None then ev # ins else ins))"
      using e(3) by (auto intro: list_emb_append_mono)
    with r(3) have "subseq (outs @ ec_items c') (ec_items c @ (if err = None then ev # ins else ins))"
      by (rule subseq_order.trans)
    with e r EmitCall show ?thesis by auto
  next
    case ReceiveCall
    consider "ec_receive c = Blocks"
      | c1 where "ec_receive c = Done (None, c1)" "ec_ok n c1" "ec_items c1 = ec_items c"
      | x c1 where "ec_receive c = Done (Some x, c1)" "ec_ok n c1" "ec_items c = x # ec_items c1"
      using receive_cases [OF Cons.prems] by blast
    then show ?thesis
    proof cases
      case 1
      with Cons.IH [OF Cons.prems] ReceiveCall show ?thesis by simp
    next
      case (2 c1)
      with Cons.IH [of c1] ReceiveCall show ?thesis by fastforce
    next
      case (3 x c1)
      with Cons.IH [of c1] ReceiveCall show ?thesis by fastforce
    qed
  next
    case CloseCall
    from close_cases [OF Cons.prems] obtain c1
      where "ec_close c = Done c1" "ec_ok n c1" "ec_items c1 = ec_items c" by blast
    with Cons.IH [of c1] CloseCall show ?thesis by simp
  qed
qed simp

section \<open>Properties\<close>

text \<open>
  Event delivery never blocks, never panics and never reorders.  After any calls of
  \<^verbatim>\<open>Emit\<close>, receives and \<^verbatim>\<open>Close\<close> on a new event channel, what was received and what is still
  buffered are, in order, some of the events that were emitted without error (the others were
  dropped), and the buffer holds no more events than its size.
\<close>

theorem event_channel_delivery:
  fixes calls :: "'a event_call list"
  shows "\<exists>ins outs c. event_run calls (Some (new_event_channel buffer)) = Done (ins, outs, c) \<and>
     subseq (outs @ ec_items c) ins \<and> length (ec_items c) \<le> nat buffer"
proof -
  let ?c = "Some (new_event_channel buffer) :: 'a event_channel option"
  have ok: "ec_ok (nat buffer) ?c" by (simp add: ec_ok_def new_event_channel_def)
  have nil: "ec_items ?c = []" by (simp add: ec_items_def new_event_channel_def)
  obtain ins outs c where r: "event_run calls ?c = Done (ins, outs, c)" "ec_ok (nat buffer) c"
    "subseq (outs @ ec_items c) ins"
    using event_run_subseq [OF ok, of calls] nil by auto
  from r(2) have "length (ec_items c) \<le> nat buffer"
    by (auto simp: ec_ok_def ec_items_def split: option.splits)
  with r show ?thesis by blast
qed

end
