(* ===== verification/Engine.thy ===== *)
theory Engine
  imports Agent_Strategy Task_Protocol Events
begin

text \<open>
  The runtime engine (\<^verbatim>\<open>internal/runtime/runtime.go\<close>): \<^verbatim>\<open>Engine.Run\<close> and its helpers.

  The engine works through ports: the model or strategies, the tools, the memory, the session
  store, the verifier, the clock and the event channel.  They act on a state \<^typ>\<open>'w\<close>, the world,
  which also holds the caller's context.  A \<open>world\<close> pairs it with a log of the calls the engine
  made and what they returned; the log is not read by any definition of the engine, only by the
  statements about it.  A computation returns an error or a value, with the new world.
\<close>

section \<open>Ports\<close>

record 'w tool_port =
  tp_execute :: "tool_call \<Rightarrow> 'w \<Rightarrow> (tool_result \<times> go_error option) \<times> 'w"
  tp_infos :: "tool_info list option"

record 'w memory_port =
  mp_remember :: "string \<Rightarrow> observation \<Rightarrow> 'w \<Rightarrow> go_error option \<times> 'w"
  mp_recall :: "recall_query \<Rightarrow> 'w \<Rightarrow> (go_error, memory_entry list) result \<times> 'w"

record 'w session_port =
  sp_save_session :: "session \<Rightarrow> 'w \<Rightarrow> go_error option \<times> 'w"
  sp_save_plan :: "plan \<Rightarrow> 'w \<Rightarrow> go_error option \<times> 'w"
  sp_append_step :: "string \<Rightarrow> step \<Rightarrow> 'w \<Rightarrow> go_error option \<times> 'w"

record 'w verifier_port =
  vp_verify :: "task \<Rightarrow> session \<Rightarrow> plan \<Rightarrow> step list \<Rightarrow> observation
    \<Rightarrow> 'w \<Rightarrow> (go_error, verification_result) result \<times> 'w"
  vp_provenance :: "'w \<Rightarrow> plugin_metadata option"

text \<open>
  The fields of \<^verbatim>\<open>Engine\<close>; an interface that may be nil is an option.  \<open>eng_time\<close> is
  \<^verbatim>\<open>time.Now\<close>, \<open>eng_ctx_err\<close> is \<^verbatim>\<open>ctx.Err\<close>, and \<open>eng_events\<close> is \<^verbatim>\<open>Emit\<close> of the event
  channel.
\<close>

record 'w engine =
  eng_model :: "'w model option"
  eng_tools :: "'w tool_port option"
  eng_memory :: "'w memory_port option"
  eng_sessions :: "'w session_port option"
  eng_verifier :: "'w verifier_port option"
  eng_strategies :: "'w strategy_registry option"
  eng_strategy_id :: string
  eng_events :: "(streaming_event \<Rightarrow> 'w \<Rightarrow> go_error option \<times> 'w) option"
  eng_clock :: "('w \<Rightarrow> gotime \<times> 'w) option"
  eng_time :: "'w \<Rightarrow> gotime \<times> 'w"
  eng_ctx_err :: "'w \<Rightarrow> go_error option \<times> 'w"
  eng_max_steps :: int
  eng_max_retries :: int
  eng_session_timeout :: duration

text \<open>The ports that \<^verbatim>\<open>hasRequiredDependencies\<close> requires, once they are there.\<close>

record 'w ports =
  po_tools :: "'w tool_port"
  po_memory :: "'w memory_port"
  po_sessions :: "'w session_port"
  po_verifier :: "'w verifier_port"

definition required_ports :: "'w engine \<Rightarrow> 'w ports option" where
  "required_ports E =
     (case (eng_tools E, eng_memory E, eng_sessions E, eng_verifier E) of
        (Some t, Some m, Some s, Some v) \<Rightarrow>
          if eng_model E \<noteq> None \<or> eng_strategies E \<noteq> None
          then Some \<lparr>po_tools = t, po_memory = m, po_sessions = s, po_verifier = v\<rparr>
          else None
      | _ \<Rightarrow> None)"

section \<open>Worlds and computations\<close>

datatype call =
    SaveSession session "go_error option"
  | SavePlan plan "go_error option"
  | AppendStep string step "go_error option"
  | Remember string observation "go_error option"
  | Recall recall_query
  | CreatePlan plan_context
  | NextAction action_context
  | ExecuteTool tool_call tool_result
  | Observe observation_context
  | Verify task observation "(go_error, verification_result) result"
  | EmitEvent streaming_event "go_error option"

record 'w world =
  wd_state :: 'w
  wd_log :: "call list"

text \<open>A call of a port: the operation on the state, and the entry its result makes.\<close>

definition perform :: "('w \<Rightarrow> 'r \<times> 'w) \<Rightarrow> ('r \<Rightarrow> call) \<Rightarrow> 'w world \<Rightarrow> 'r \<times> 'w world" where
  "perform f entry wd =
     (let (r, w) = f (wd_state wd) in (r, \<lparr>wd_state = w, wd_log = wd_log wd @ [entry r]\<rparr>))"

text \<open>An operation that is not logged: the clocks, the context, a strategy factory.\<close>

definition silent :: "('w \<Rightarrow> 'r \<times> 'w) \<Rightarrow> 'w world \<Rightarrow> 'r \<times> 'w world" where
  "silent f wd = (let (r, w) = f (wd_state wd) in (r, wd\<lparr>wd_state := w\<rparr>))"

type_synonym ('w, 'a) comp = "'w world \<Rightarrow> (go_error, 'a) result \<times> 'w world"

definition seq :: "('w, 'a) comp \<Rightarrow> ('a \<Rightarrow> ('w, 'b) comp) \<Rightarrow> ('w, 'b) comp" where
  "seq m f wd = (case m wd of (Inl e, wd') \<Rightarrow> (Inl e, wd') | (Inr a, wd') \<Rightarrow> f a wd')"

definition ret :: "(go_error, 'a) result \<Rightarrow> ('w, 'a) comp" where
  "ret r wd = (r, wd)"

definition from_error :: "go_error option \<Rightarrow> (go_error, unit) result" where
  "from_error e = (case e of None \<Rightarrow> Inr () | Some x \<Rightarrow> Inl x)"

definition checked :: "('w world \<Rightarrow> go_error option \<times> 'w world) \<Rightarrow> ('w, unit) comp" where
  "checked f wd = (let (e, wd') = f wd in (from_error e, wd'))"

definition save_session :: "'w ports \<Rightarrow> session \<Rightarrow> ('w, unit) comp" where
  "save_session P ses = checked (perform (sp_save_session (po_sessions P) ses) (SaveSession ses))"

definition save_plan :: "'w ports \<Rightarrow> plan \<Rightarrow> ('w, unit) comp" where
  "save_plan P pl = checked (perform (sp_save_plan (po_sessions P) pl) (SavePlan pl))"

definition append_step :: "'w ports \<Rightarrow> string \<Rightarrow> step \<Rightarrow> ('w, unit) comp" where
  "append_step P sid st = checked (perform (sp_append_step (po_sessions P) sid st) (AppendStep sid st))"

definition remember :: "'w ports \<Rightarrow> string \<Rightarrow> observation \<Rightarrow> ('w, unit) comp" where
  "remember P sid obs = checked (perform (mp_remember (po_memory P) sid obs) (Remember sid obs))"

definition engine_now :: "'w engine \<Rightarrow> 'w world \<Rightarrow> gotime \<times> 'w world" where
  "engine_now E = silent (case eng_clock E of Some c \<Rightarrow> c | None \<Rightarrow> eng_time E)"

definition wall_now :: "'w engine \<Rightarrow> 'w world \<Rightarrow> gotime \<times> 'w world" where
  "wall_now E = silent (eng_time E)"

section \<open>Events\<close>

text \<open>\<open>mk\<close> is the event without its time stamp, which is \<^verbatim>\<open>time.Now\<close>.\<close>

definition emit_event :: "'w engine \<Rightarrow> (gotime \<Rightarrow> streaming_event) \<Rightarrow> ('w, unit) comp" where
  "emit_event E mk wd =
     (let (now, wd1) = wall_now E wd; ev = mk now in
      case eng_events E of
        None \<Rightarrow> (Inr (), wd1)
      | Some emit \<Rightarrow> checked (perform (emit ev) (EmitEvent ev)) wd1)"

definition emit_tool_start :: "'w engine \<Rightarrow> int \<Rightarrow> tool_call \<Rightarrow> ('w, unit) comp" where
  "emit_tool_start E i c = emit_event E (tool_start i (tc_name c) (tc_input c))"

definition emit_tool_end :: "'w engine \<Rightarrow> int \<Rightarrow> tool_result \<Rightarrow> ('w, unit) comp" where
  "emit_tool_end E i r = emit_event E (tool_end i (tr_tool_name r) (tr_output r) (tr_error r))"

definition emit_step_complete :: "'w engine \<Rightarrow> int \<Rightarrow> string \<Rightarrow> ('w, unit) comp" where
  "emit_step_complete E i summary = emit_event E (step_complete i summary)"

definition emit_error :: "'w engine \<Rightarrow> int \<Rightarrow> string \<Rightarrow> ('w, unit) comp" where
  "emit_error E i message = emit_event E (error_event i message)"

definition emit_session_complete :: "'w engine \<Rightarrow> session \<Rightarrow> ('w, unit) comp" where
  "emit_session_complete E ses = emit_event E (session_complete (sess_id ses) (sess_status ses))"

section \<open>Recalling memory\<close>

definition recall_limit :: nat where
  "recall_limit = 10"

definition recall_queries :: "string \<Rightarrow> recall_query list" where
  "recall_queries sid =
     map (\<lambda>(scope, ty). \<lparr>rq_session_id = sid, rq_scope = scope, rq_type = ty, rq_key = [], rq_source = [],
            rq_limit = int recall_limit, rq_prefix = []\<rparr>)
       [(ms_session, mt_fact), (ms_session, mt_summary), (ms_project, mt_fact), (ms_project, mt_summary)]"

definition recall_key :: "memory_entry \<Rightarrow> string" where
  "recall_key e = join_str ''|'' [me_id e, me_session_id e, me_key e, me_content e, me_source e, me_provenance e]"

text \<open>The loop over the entries of one query, with the set \<^verbatim>\<open>seen\<close>.\<close>

fun collect_entries ::
  "memory_entry list \<Rightarrow> memory_entry list \<times> string set \<Rightarrow> memory_entry list \<times> string set" where
  "collect_entries [] st = st"
| "collect_entries (e # es) (combined, seen) =
     (if recall_key e \<in> seen then collect_entries es (combined, seen)
      else collect_entries es (combined @ [e], insert (recall_key e) seen))"

text \<open>The loop over the queries; \<^term>\<open>None\<close> when one fails.\<close>

fun recall_all ::
  "'w ports \<Rightarrow> recall_query list \<Rightarrow> memory_entry list \<times> string set \<Rightarrow> 'w world
     \<Rightarrow> memory_entry list option \<times> 'w world" where
  "recall_all P [] st wd = (Some (fst st), wd)"
| "recall_all P (q # qs) st wd =
     (case perform (mp_recall (po_memory P) q) (\<lambda>_. Recall q) wd of
        (Inl e, wd') \<Rightarrow> (None, wd')
      | (Inr es, wd') \<Rightarrow> recall_all P qs (collect_entries es st) wd')"

definition keyword_cutset :: string where
  "keyword_cutset = '' .,;:!?()[]{}'' @ [CHR 0x22, CHR 0x27, CHR 0x60]"

definition trim_cutset :: "string \<Rightarrow> string \<Rightarrow> string" where
  "trim_cutset chars s = rev (dropWhile (\<lambda>c. c \<in> set chars) (rev (dropWhile (\<lambda>c. c \<in> set chars) s)))"

fun tokenize_loop :: "string list \<Rightarrow> string set \<Rightarrow> string list" where
  "tokenize_loop [] seen = []"
| "tokenize_loop (f # fs) seen =
     (let t = trim_cutset keyword_cutset f in
      if length t < 3 then tokenize_loop fs seen
      else if t \<in> seen then tokenize_loop fs seen
      else t # tokenize_loop fs (insert t seen))"

definition tokenize_keywords :: "string \<Rightarrow> string list" where
  "tokenize_keywords text = tokenize_loop (fields_from [] (to_lower text)) {}"

definition entry_score :: "string list \<Rightarrow> memory_entry \<Rightarrow> nat" where
  "entry_score keywords e =
     length (filter (contains_str (to_lower (join_str '' '' [me_key e, me_content e, me_source e, me_provenance e])))
       keywords)"

definition rank_entries :: "string \<Rightarrow> memory_entry list \<Rightarrow> memory_entry list" where
  "rank_entries description combined =
     (let keywords = tokenize_keywords description in
      if combined = [] then []
      else if keywords = [] then take recall_limit combined
      else take recall_limit (sort_key (\<lambda>e. - int (entry_score keywords e)) combined))"

definition recall_memory :: "'w ports \<Rightarrow> task \<Rightarrow> session \<Rightarrow> 'w world \<Rightarrow> memory_entry list \<times> 'w world" where
  "recall_memory P t ses wd =
     (case recall_all P (recall_queries (sess_id ses)) ([], {}) wd of
        (None, wd') \<Rightarrow> ([], wd')
      | (Some combined, wd') \<Rightarrow> (rank_entries (task_description t) combined, wd'))"

section \<open>Strategies\<close>

definition builtin_factory :: "'w engine \<Rightarrow> 'w strategy_factory" where
  "builtin_factory E w =
     (case eng_model E of
        None \<Rightarrow> (Inl (Message ''runtime engine requires model for built-in agent strategy''), w)
      | Some md \<Rightarrow> (Inr (Some (builtin_strategy md)), w))"

text \<open>The registry \<^verbatim>\<open>resolveAgentStrategy\<close> resolves in.\<close>

definition engine_registry :: "'w engine \<Rightarrow> (go_error, 'w strategy_registry) result" where
  "engine_registry E =
     (case eng_strategies E of
        None \<Rightarrow> sr_register host_default (Some (builtin_factory E)) new_strategy_registry
      | Some r \<Rightarrow>
          (let r' = sr_clone (Some r) in
           if sr_get r' host_default = None then sr_register host_default (Some (builtin_factory E)) r'
           else Inr r'))"

definition resolve_strategy :: "'w engine \<Rightarrow> ('w, 'w strategy) comp" where
  "resolve_strategy E =
     (case engine_registry E of
        Inl e \<Rightarrow> ret (Inl e)
      | Inr r \<Rightarrow> silent (sr_resolve r (eng_strategy_id E)))"

definition strategy_metadata :: "'w strategy \<Rightarrow> plugin_metadata option" where
  "strategy_metadata st =
     (let m = pl_normalize (st_metadata st) in
      if pl_validate m \<noteq> None then None
      else if pl_family m = pf_agent_strategy \<and> pl_logical_id m = host_default \<and>
              pl_execution_mode m = pm_native \<and> pl_source_path m = ''builtin://runtime/model''
      then None
      else Some m)"

definition provider_provenance :: "'w engine \<Rightarrow> plugin_metadata option" where
  "provider_provenance E = (case eng_model E of None \<Rightarrow> None | Some md \<Rightarrow> md_provenance md)"

definition merge_opt :: "provenance option \<Rightarrow> plugin_metadata option \<Rightarrow> provenance option" where
  "merge_opt p m = (case m of None \<Rightarrow> p | Some m \<Rightarrow> merge_provenance p m)"

definition list_tool_info :: "'w ports \<Rightarrow> tool_info list" where
  "list_tool_info P = (case tp_infos (po_tools P) of None \<Rightarrow> [] | Some infos \<Rightarrow> infos)"

section \<open>Planning\<close>

definition engine_create_plan :: "'w engine \<Rightarrow> 'w ports \<Rightarrow> resolved_protocol \<Rightarrow> session \<Rightarrow> gotime \<Rightarrow> ('w, plan) comp" where
  "engine_create_plan E P proto ses created_at wd =
     (let (memory, wd1) = recall_memory P (rp_task proto) ses wd in
      seq (resolve_strategy E) (\<lambda>st.
        let ctx = \<lparr>pc_task = rp_task proto, pc_session = ses, pc_memory = memory\<rparr> in
        seq (perform (st_create_plan st ctx) (\<lambda>_. CreatePlan ctx)) (\<lambda>decision.
        seq (ret (validate_plan (rp_task proto) decision)) (\<lambda>pl.
          let pl1 = (if plan_task_id pl = [] then pl\<lparr>plan_task_id := task_id (rp_task proto)\<rparr> else pl);
              pl2 = (if plan_created_at pl1 = 0 then pl1\<lparr>plan_created_at := created_at\<rparr> else pl1)
          in seq (save_plan P pl2) (\<lambda>_. ret (Inr pl2))))) wd1)"

section \<open>One iteration\<close>

definition normalize_observation :: "action \<Rightarrow> observation \<Rightarrow> observation" where
  "normalize_observation a obs =
     (let obs1 = (if trim_space (obs_summary obs) = [] then obs\<lparr>obs_summary := trim_space (act_summary a)\<rparr> else obs)
      in if trim_space (obs_final_response obs1) = [] \<and>
            (act_type a = at_respond \<or> act_type a = at_request_input \<or> act_type a = at_complete)
         then obs1\<lparr>obs_final_response := trim_space (act_response a)\<rparr>
         else obs1)"

definition blocked_verification :: "protocol_metadata \<Rightarrow> verification_result" where
  "blocked_verification m =
     \<lparr>vr_passed = False, vr_status = vs_not_applicable,
      vr_reason = pm_task_type m @ '' task blocked waiting for external input''\<rparr>"

definition verify_iteration ::
  "'w ports \<Rightarrow> resolved_protocol \<Rightarrow> session \<Rightarrow> plan \<Rightarrow> step list \<Rightarrow> action \<Rightarrow> observation
     \<Rightarrow> ('w, verification_result) comp" where
  "verify_iteration P proto ses pl steps a obs =
     (if act_type a = at_request_input then ret (Inr (blocked_verification (rp_metadata proto)))
      else perform (vp_verify (po_verifier P) (rp_task proto) ses pl steps obs) (Verify (rp_task proto) obs))"

text \<open>The tool call of an action, between its two events; an error becomes the result's error.\<close>

definition execute_tool :: "'w engine \<Rightarrow> 'w ports \<Rightarrow> int \<Rightarrow> action \<Rightarrow> ('w, tool_result option) comp" where
  "execute_tool E P i a =
     (case act_tool_call a of
        None \<Rightarrow> ret (Inr None)
      | Some call \<Rightarrow>
          seq (emit_tool_start E i call) (\<lambda>_ wd.
            let (r, wd1) = perform (\<lambda>w.
                    let ((r0, err), w') = tp_execute (po_tools P) call w in
                    (case err of None \<Rightarrow> r0 | Some e \<Rightarrow> r0\<lparr>tr_error := error_text e\<rparr>, w'))
                  (ExecuteTool call) wd
            in seq (emit_tool_end E i r) (\<lambda>_. ret (Inr (Some r))) wd1))"

definition execute_iteration ::
  "'w engine \<Rightarrow> 'w ports \<Rightarrow> resolved_protocol \<Rightarrow> session \<Rightarrow> plan \<Rightarrow> step list
     \<Rightarrow> ('w, action \<times> observation \<times> verification_result) comp" where
  "execute_iteration E P proto ses pl steps wd =
     (let tools = list_tool_info P;
          (memory, wd1) = recall_memory P (rp_task proto) ses wd;
          i = int (length steps) + 1
      in seq (resolve_strategy E) (\<lambda>st.
        let ctx = \<lparr>ac_task = rp_task proto, ac_session = ses, ac_plan = pl, ac_steps = steps,
                   ac_memory = memory, ac_allowed_tools = tools\<rparr> in
        seq (perform (st_next_action st ctx) (\<lambda>_. NextAction ctx)) (\<lambda>decision.
        seq (ret (validate_action tools decision)) (\<lambda>a.
        seq (execute_tool E P i a) (\<lambda>result.
        let octx = \<lparr>oc_task = rp_task proto, oc_session = ses, oc_plan = pl, oc_action = a, oc_tool_result = result\<rparr> in
        seq (perform (st_observe st octx) (\<lambda>_. Observe octx)) (\<lambda>odecision.
        seq (ret (validate_observation odecision)) (\<lambda>obs0.
        let obs = normalize_observation a (obs0\<lparr>obs_tool_result := result\<rparr>) in
        seq (emit_step_complete E i (obs_summary obs)) (\<lambda>_.
        seq (verify_iteration P proto ses pl steps a obs) (\<lambda>v.
        ret (Inr (a, obs, v)))))))))) wd1)"

record iteration_outcome =
  io_terminal :: bool
  io_status :: session_status
  io_error :: "go_error option"

definition decide_outcome :: "action \<Rightarrow> verification_result \<Rightarrow> iteration_outcome" where
  "decide_outcome a v =
     (if act_type a = at_request_input
      then \<lparr>io_terminal = True, io_status = ss_blocked_input, io_error = None\<rparr>
      else if vr_passed v then \<lparr>io_terminal = True, io_status = ss_success, io_error = None\<rparr>
      else \<lparr>io_terminal = False, io_status = [], io_error = None\<rparr>)"

definition record_step :: "'w ports \<Rightarrow> string \<Rightarrow> step \<Rightarrow> observation \<Rightarrow> ('w, unit) comp" where
  "record_step P sid st obs = seq (append_step P sid st) (\<lambda>_. remember P sid obs)"

section \<open>The run\<close>

type_synonym run_result = "session \<times> plan \<times> step list \<times> go_error option"

definition failed_run :: "go_error \<Rightarrow> run_result" where
  "failed_run e = (zero_session, zero_plan, [], Some e)"

definition fail_session ::
  "'w engine \<Rightarrow> 'w ports \<Rightarrow> session \<Rightarrow> session_status \<Rightarrow> plan \<Rightarrow> step list \<Rightarrow> go_error option
     \<Rightarrow> 'w world \<Rightarrow> run_result \<times> 'w world" where
  "fail_session E P ses status pl steps cause wd =
     (let (now, wd1) = engine_now E wd;
          ses1 = ses\<lparr>sess_status := status, sess_updated_at := now\<rparr>
      in case seq (save_session P ses1) (\<lambda>_.
           seq (case cause of None \<Rightarrow> ret (Inr ())
                | Some e \<Rightarrow> emit_error E (int (length steps)) (error_text e)) (\<lambda>_.
           emit_session_complete E ses1)) wd1 of
           (Inl e, wd2) \<Rightarrow> (failed_run e, wd2)
         | (Inr _, wd2) \<Rightarrow> ((ses1, pl, steps, cause), wd2))"

definition is_interruption :: "go_error \<Rightarrow> bool" where
  "is_interruption e = (errors_is e Canceled \<or> errors_is e DeadlineExceeded)"

definition retry_budget_exceeded :: go_error where
  "retry_budget_exceeded = Message ''runtime retry budget exceeded''"

definition make_step :: "'w engine \<Rightarrow> 'w ports \<Rightarrow> 'w strategy \<Rightarrow> int \<Rightarrow> action \<Rightarrow> observation \<Rightarrow> verification_result
     \<Rightarrow> session \<Rightarrow> 'w world \<Rightarrow> step \<times> session" where
  "make_step E P st i a obs v ses wd =
     (let metas = [strategy_metadata st, provider_provenance E, vp_provenance (po_verifier P) (wd_state wd)] in
      (\<lparr>step_index = i, step_action = a, step_observation = obs, step_verification = v,
        step_provenance = fold (\<lambda>m p. merge_opt p m) metas None\<rparr>,
       ses\<lparr>sess_provenance := fold (\<lambda>m p. merge_opt p m) metas (sess_provenance ses)\<rparr>))"

text \<open>What follows an iteration that ended the run.\<close>

definition finish_run ::
  "'w engine \<Rightarrow> 'w ports \<Rightarrow> session \<Rightarrow> plan \<Rightarrow> step list \<Rightarrow> iteration_outcome \<Rightarrow> 'w world \<Rightarrow> run_result \<times> 'w world" where
  "finish_run E P ses pl steps out wd =
     (let ses1 = ses\<lparr>sess_status := io_status out\<rparr> in
      case seq (save_session P ses1) (\<lambda>_. emit_session_complete E ses1) wd of
        (Inl e, wd1) \<Rightarrow> (failed_run e, wd1)
      | (Inr _, wd1) \<Rightarrow> ((ses1, pl, steps, io_error out), wd1))"

text \<open>
  The rounds of the loop, in three parts; \<open>k\<close> is what follows.  \<open>left\<close> is the number of steps
  left after this one, \<open>retries\<close> and \<open>max_retries\<close> are as in the code.  First the part after a
  round that did not end the run: the retry budget, a new plan and its event.
\<close>

definition next_round ::
  "'w engine \<Rightarrow> 'w ports \<Rightarrow> resolved_protocol \<Rightarrow> int \<Rightarrow> int \<Rightarrow> session \<Rightarrow> plan \<Rightarrow> step list
     \<Rightarrow> (plan \<Rightarrow> 'w world \<Rightarrow> run_result \<times> 'w world) \<Rightarrow> 'w world \<Rightarrow> run_result \<times> 'w world" where
  "next_round E P proto max_retries retries ses pl steps k wd =
     (if retries + 1 > max_retries
      then fail_session E P ses ss_verification_failed pl steps (Some retry_budget_exceeded) wd
      else
     (case engine_now E wd of (created, wd1) \<Rightarrow>
     (case engine_create_plan E P proto ses created wd1 of
        (Inl e, wd2) \<Rightarrow> fail_session E P ses ss_fatal_error zero_plan steps (Some e) wd2
      | (Inr pl1, wd2) \<Rightarrow>
     (case emit_step_complete E (int (length steps) + 1) (plan_summary pl1) wd2 of
        (Inl e, wd3) \<Rightarrow> fail_session E P ses ss_fatal_error pl1 steps (Some e) wd3
      | (Inr _, wd3) \<Rightarrow> k pl1 wd3))))"

text \<open>The part after a step was recorded: the outcome of the round and the step budget.\<close>

definition after_step ::
  "nat \<Rightarrow> 'w engine \<Rightarrow> 'w ports \<Rightarrow> resolved_protocol \<Rightarrow> int \<Rightarrow> int \<Rightarrow> action \<Rightarrow> verification_result
     \<Rightarrow> session \<Rightarrow> plan \<Rightarrow> step list \<Rightarrow> (session \<Rightarrow> plan \<Rightarrow> 'w world \<Rightarrow> run_result \<times> 'w world)
     \<Rightarrow> 'w world \<Rightarrow> run_result \<times> 'w world" where
  "after_step left E P proto max_retries retries a v ses pl steps k wd =
     (case engine_now E wd of (updated, wd1) \<Rightarrow>
     (let ses1 = ses\<lparr>sess_updated_at := updated\<rparr>; out = decide_outcome a v in
      if io_terminal out then finish_run E P ses1 pl steps out wd1
      else if left = 0 then fail_session E P ses1 ss_budget_exceeded pl steps None wd1
      else next_round E P proto max_retries retries ses1 pl steps (k ses1) wd1))"

text \<open>The part up to a recorded step: context, deadline, iteration, step.\<close>

definition start_round ::
  "'w engine \<Rightarrow> 'w ports \<Rightarrow> resolved_protocol \<Rightarrow> 'w strategy \<Rightarrow> gotime \<Rightarrow> session \<Rightarrow> plan \<Rightarrow> step list
     \<Rightarrow> (action \<Rightarrow> verification_result \<Rightarrow> session \<Rightarrow> step list \<Rightarrow> 'w world \<Rightarrow> run_result \<times> 'w world)
     \<Rightarrow> 'w world \<Rightarrow> run_result \<times> 'w world" where
  "start_round E P proto st deadline ses pl steps k wd =
     (case silent (eng_ctx_err E) wd of
        (Some e, wd1) \<Rightarrow> fail_session E P ses ss_interrupted pl steps (Some e) wd1
      | (None, wd1) \<Rightarrow>
     (case wall_now E wd1 of (now, wd2) \<Rightarrow>
      if \<not> now < deadline then fail_session E P ses ss_interrupted pl steps (Some DeadlineExceeded) wd2
      else
     (case execute_iteration E P proto ses pl steps wd2 of
        (Inl e, wd3) \<Rightarrow>
          fail_session E P ses (if is_interruption e then ss_interrupted else ss_fatal_error) pl steps (Some e) wd3
      | (Inr (a, obs, v), wd3) \<Rightarrow>
     (let (stp, ses1) = make_step E P st (int (length steps) + 1) a obs v ses wd3 in
      case record_step P (sess_id ses1) stp obs wd3 of
        (Inl e, wd4) \<Rightarrow> fail_session E P ses1 ss_fatal_error pl (steps @ [stp]) (Some e) wd4
      | (Inr _, wd4) \<Rightarrow> k a v ses1 (steps @ [stp]) wd4))))"

text \<open>
  The loop.  The first argument is the number of steps left; the index of a step is
  \<open>length steps + 1\<close> before it.
\<close>

fun run_loop ::
  "nat \<Rightarrow> 'w engine \<Rightarrow> 'w ports \<Rightarrow> resolved_protocol \<Rightarrow> 'w strategy \<Rightarrow> gotime \<Rightarrow> int \<Rightarrow> int
     \<Rightarrow> session \<Rightarrow> plan \<Rightarrow> step list \<Rightarrow> 'w world \<Rightarrow> run_result \<times> 'w world" where
  "run_loop 0 E P proto st deadline max_retries retries ses pl steps wd =
     fail_session E P ses ss_budget_exceeded pl steps None wd"
| "run_loop (Suc left) E P proto st deadline max_retries retries ses pl steps wd =
     start_round E P proto st deadline ses pl steps
       (\<lambda>a v ses1 steps1. after_step left E P proto max_retries retries a v ses1 pl steps1
          (\<lambda>ses2 pl1. run_loop left E P proto st deadline max_retries (retries + 1) ses2 pl1 steps1)) wd"

definition dependencies_required :: go_error where
  "dependencies_required = Message ''runtime engine requires all dependencies''"

definition effective_timeout :: "duration \<Rightarrow> duration" where
  "effective_timeout d = (if d \<le> 0 then 5 * 60 * second else d)"

text \<open>The run once the session is saved: the first plan, and the loop.\<close>

definition run_session ::
  "'w engine \<Rightarrow> 'w ports \<Rightarrow> resolved_protocol \<Rightarrow> 'w strategy \<Rightarrow> session \<Rightarrow> gotime \<Rightarrow> 'w world \<Rightarrow> run_result \<times> 'w world" where
  "run_session E P proto st ses timestamp wd =
     (case engine_create_plan E P proto ses timestamp wd of
        (Inl e, wd1) \<Rightarrow> fail_session E P ses ss_fatal_error zero_plan [] (Some e) wd1
      | (Inr pl, wd1) \<Rightarrow>
     (case emit_step_complete E 0 (plan_summary pl) wd1 of
        (Inl e, wd2) \<Rightarrow> fail_session E P ses ss_fatal_error pl [] (Some e) wd2
      | (Inr _, wd2) \<Rightarrow>
     (case wall_now E wd2 of (start, wd3) \<Rightarrow>
        run_loop (nat (max (eng_max_steps E) 1)) E P proto st (start + effective_timeout (eng_session_timeout E))
          (max (eng_max_retries E) 0) 0 ses pl [] wd3)))"

definition new_session :: "'w engine \<Rightarrow> 'w strategy \<Rightarrow> task \<Rightarrow> gotime \<Rightarrow> session" where
  "new_session E st t timestamp =
     \<lparr>sess_id = task_id t @ ''-session'', sess_task_id = task_id t, sess_status = ss_running,
      sess_provenance = merge_opt (merge_opt None (strategy_metadata st)) (provider_provenance E),
      sess_created_at = timestamp, sess_updated_at = timestamp\<rparr>"

definition engine_run :: "'w engine \<Rightarrow> task \<Rightarrow> 'w world \<Rightarrow> run_result \<times> 'w world" where
  "engine_run E t0 wd =
     (case required_ports E of
        None \<Rightarrow> (failed_run dependencies_required, wd)
      | Some P \<Rightarrow>
     (case engine_now E wd of (timestamp, wd1) \<Rightarrow>
     (let t = (if task_created_at t0 = 0 then t0\<lparr>task_created_at := timestamp\<rparr> else t0);
          proto = resolve_task (Some new_task_registry) t
      in case resolve_strategy E wd1 of
        (Inl e, wd2) \<Rightarrow> (failed_run e, wd2)
      | (Inr st, wd2) \<Rightarrow>
     (let ses = new_session E st (rp_task proto) timestamp in
      case save_session P ses wd2 of
        (Inl e, wd3) \<Rightarrow> (failed_run e, wd3)
      | (Inr _, wd3) \<Rightarrow> run_session E P proto st ses timestamp wd3))))"

end
