(* ===== verification/Engine_Correct.thy ===== *)
theory Engine_Correct
  imports Engine
begin

text \<open>
  What a run of the engine does, read off its result and the log of its calls: which tools are
  executed, which steps are recorded, what is saved last, and what the returned status means.
\<close>

section \<open>Reading the log\<close>

definition executed :: "'w world \<Rightarrow> (tool_call \<times> tool_result) list" where
  "executed wd = List.map_filter (\<lambda>c. case c of ExecuteTool call r \<Rightarrow> Some (call, r) | _ \<Rightarrow> None) (wd_log wd)"

definition appended :: "'w world \<Rightarrow> (step \<times> go_error option) list" where
  "appended wd = List.map_filter (\<lambda>c. case c of AppendStep sid st e \<Rightarrow> Some (st, e) | _ \<Rightarrow> None) (wd_log wd)"

definition saved :: "'w world \<Rightarrow> (session \<times> go_error option) list" where
  "saved wd = List.map_filter (\<lambda>c. case c of SaveSession ses e \<Rightarrow> Some (ses, e) | _ \<Rightarrow> None) (wd_log wd)"

definition planned :: "'w world \<Rightarrow> plan_context list" where
  "planned wd = List.map_filter (\<lambda>c. case c of CreatePlan ctx \<Rightarrow> Some ctx | _ \<Rightarrow> None) (wd_log wd)"

lemmas log_defs = executed_def appended_def saved_def planned_def

lemma map_filter_append: "List.map_filter f (xs @ ys) = List.map_filter f xs @ List.map_filter f ys"
  by (simp add: map_filter_def)

lemma map_filter_single: "List.map_filter f [x] = (case f x of None \<Rightarrow> [] | Some y \<Rightarrow> [y])"
  by (simp add: map_filter_def split: option.splits)

text \<open>The parts of the log that most computations leave alone.\<close>

definition same :: "'w world \<Rightarrow> 'w world \<Rightarrow> bool" where
  "same wd wd' \<longleftrightarrow> executed wd' = executed wd \<and> appended wd' = appended wd \<and> saved wd' = saved wd \<and> planned wd' = planned wd"

lemma same_refl [simp]: "same wd wd"
  by (simp add: same_def)

lemma same_trans: "same wd wd1 \<Longrightarrow> same wd1 wd2 \<Longrightarrow> same wd wd2"
  by (simp add: same_def)

lemma perform_log: "wd_log (snd (perform f entry wd)) = wd_log wd @ [entry (fst (perform f entry wd))]"
  by (simp add: perform_def Let_def split: prod.splits)

lemma perform_cases:
  assumes "perform f entry wd = (r, wd')"
  shows "wd_log wd' = wd_log wd @ [entry r]"
  using assms perform_log [of f entry wd] by simp

lemma silent_cases: "silent f wd = (r, wd') \<Longrightarrow> wd_log wd' = wd_log wd"
  by (auto simp: silent_def Let_def split: prod.splits)

lemma same_log: "wd_log wd' = wd_log wd \<Longrightarrow> same wd wd'"
  by (simp add: same_def log_defs)

lemma same_entry:
  "wd_log wd' = wd_log wd @ [c] \<Longrightarrow>
   (case c of ExecuteTool call r \<Rightarrow> False | AppendStep sid st e \<Rightarrow> False | SaveSession ses e \<Rightarrow> False
            | CreatePlan ctx \<Rightarrow> False | _ \<Rightarrow> True) \<Longrightarrow> same wd wd'"
  by (cases c) (simp_all add: same_def log_defs map_filter_append map_filter_single)

section \<open>Computations that leave the log's parts alone\<close>

definition silent_comp :: "('w, 'a) comp \<Rightarrow> bool" where
  "silent_comp m \<longleftrightarrow> (\<forall>wd r wd'. m wd = (r, wd') \<longrightarrow> same wd wd')"

lemma silent_compD: "silent_comp m \<Longrightarrow> m wd = (r, wd') \<Longrightarrow> same wd wd'"
  by (auto simp: silent_comp_def)

lemma seq_cases:
  assumes "seq m f wd = (r, wd')"
  obtains e where "m wd = (Inl e, wd')" "r = Inl e"
  | a wd1 where "m wd = (Inr a, wd1)" "f a wd1 = (r, wd')"
  using assms by (auto simp: seq_def split: prod.splits sum.splits)

lemma silent_seq:
  assumes "silent_comp m" "\<And>a. silent_comp (f a)"
  shows "silent_comp (seq m f)"
  unfolding silent_comp_def
proof (intro allI impI)
  fix wd r wd' assume "seq m f wd = (r, wd')"
  then show "same wd wd'"
    by (cases rule: seq_cases) (use assms in \<open>auto dest: silent_compD intro: same_trans\<close>)
qed

lemma silent_ret [simp]: "silent_comp (ret r)"
  by (simp add: silent_comp_def ret_def)

lemma silent_silent [simp]: "silent_comp (silent f)"
  by (auto simp: silent_comp_def intro: same_log silent_cases)

lemma checked_cases: "checked f wd = (r, wd') \<Longrightarrow> \<exists>e. f wd = (e, wd') \<and> r = from_error e"
  by (auto simp: checked_def Let_def split: prod.splits)

lemma from_error_simps [simp]:
  "from_error e = Inr u \<longleftrightarrow> e = None" "from_error e = Inl x \<longleftrightarrow> e = Some x"
  "Inr u = from_error e \<longleftrightarrow> e = None" "Inl x = from_error e \<longleftrightarrow> e = Some x"
  by (auto simp: from_error_def split: option.splits)

lemma silent_emit [simp]: "silent_comp (emit_event E mk)"
  unfolding silent_comp_def
proof (intro allI impI)
  fix wd r wd' assume a: "emit_event E mk wd = (r, wd')"
  obtain now wd1 where n: "wall_now E wd = (now, wd1)" by fastforce
  then have s: "same wd wd1" by (auto simp: wall_now_def intro: same_log silent_cases)
  show "same wd wd'"
  proof (cases "eng_events E")
    case None
    with a n s show ?thesis by (simp add: emit_event_def)
  next
    case (Some emit)
    with a n have "checked (perform (emit (mk now)) (EmitEvent (mk now))) wd1 = (r, wd')"
      by (simp add: emit_event_def Let_def)
    then obtain e where "perform (emit (mk now)) (EmitEvent (mk now)) wd1 = (e, wd')"
      using checked_cases by blast
    then have "same wd1 wd'" by (auto dest!: perform_cases intro: same_entry)
    with s show ?thesis by (rule same_trans)
  qed
qed

lemma silent_emits [simp]:
  "silent_comp (emit_tool_start E i c)" "silent_comp (emit_tool_end E i r)"
  "silent_comp (emit_step_complete E i s)" "silent_comp (emit_error E i m)"
  "silent_comp (emit_session_complete E ses)"
  by (simp_all add: emit_tool_start_def emit_tool_end_def emit_step_complete_def emit_error_def
      emit_session_complete_def)

lemma silent_resolve [simp]: "silent_comp (resolve_strategy E)"
  by (auto simp: resolve_strategy_def split: sum.splits)

lemma silent_perform:
  "(\<And>r. case entry r of ExecuteTool call r \<Rightarrow> False | AppendStep sid st e \<Rightarrow> False | SaveSession ses e \<Rightarrow> False
            | CreatePlan ctx \<Rightarrow> False | _ \<Rightarrow> True) \<Longrightarrow> silent_comp (perform f entry)"
  by (auto simp: silent_comp_def dest!: perform_cases intro: same_entry)

lemma recall_all_same: "recall_all P qs st wd = (r, wd') \<Longrightarrow> same wd wd'"
proof (induction P qs st wd rule: recall_all.induct)
  case (2 P q qs st wd)
  obtain x wd1 where x: "perform (mp_recall (po_memory P) q) (\<lambda>_. Recall q) wd = (x, wd1)" by fastforce
  then have s: "same wd wd1" by (auto dest!: perform_cases intro: same_entry)
  show ?case
  proof (cases x)
    case (Inl e)
    with 2 x s show ?thesis by simp
  next
    case (Inr es)
    with 2 x have "same wd1 wd'" by simp
    with s show ?thesis by (rule same_trans)
  qed
qed simp

lemma recall_memory_same: "recall_memory P t ses wd = (m, wd') \<Longrightarrow> same wd wd'"
  by (auto simp: recall_memory_def split: prod.splits option.splits dest: recall_all_same)

section \<open>One iteration\<close>

lemma silent_verify [simp]: "silent_comp (verify_iteration P proto ses pl steps a obs)"
  by (auto simp: verify_iteration_def intro: silent_perform)

lemma execute_tool_spec:
  assumes "execute_tool E P i a wd = (r, wd')"
  shows "appended wd' = appended wd \<and> saved wd' = saved wd \<and> planned wd' = planned wd \<and>
    (case act_tool_call a of
       None \<Rightarrow> executed wd' = executed wd \<and> r = Inr None
     | Some call \<Rightarrow> (r \<noteq> Inr None \<and> (\<forall>tr. r = Inr (Some tr) \<longrightarrow> executed wd' = executed wd @ [(call, tr)]) \<and>
         (executed wd' = executed wd \<or> (\<exists>tr. executed wd' = executed wd @ [(call, tr)]))))"
proof (cases "act_tool_call a")
  case None
  with assms show ?thesis by (simp add: execute_tool_def ret_def)
next
  case (Some call)
  let ?f = "\<lambda>w. let ((r0, err), w') = tp_execute (po_tools P) call w in
                    (case err of None \<Rightarrow> r0 | Some e \<Rightarrow> r0\<lparr>tr_error := error_text e\<rparr>, w')"
  from assms Some have s: "seq (emit_tool_start E i call) (\<lambda>_ wd.
            let (r, wd1) = perform ?f (ExecuteTool call) wd
            in seq (emit_tool_end E i r) (\<lambda>_. ret (Inr (Some r))) wd1) wd = (r, wd')"
    by (simp add: execute_tool_def)
  from s show ?thesis
  proof (cases rule: seq_cases)
    case (1 e)
    then have "same wd wd'" using silent_compD [OF silent_emits(1)] by blast
    with 1 Some show ?thesis by (simp add: same_def)
  next
    case (2 u wd1)
    then have s1: "same wd wd1" using silent_compD [OF silent_emits(1)] by blast
    obtain tr wd2 where p: "perform ?f (ExecuteTool call) wd1 = (tr, wd2)" by fastforce
    from perform_cases [OF p] have l2: "wd_log wd2 = wd_log wd1 @ [ExecuteTool call tr]" .
    from 2 p have "seq (emit_tool_end E i tr) (\<lambda>_. ret (Inr (Some tr))) wd2 = (r, wd')" by simp
    then have "same wd2 wd' \<and> ((\<exists>e. r = Inl e) \<or> r = Inr (Some tr))"
      by (cases rule: seq_cases) (auto simp: ret_def dest: silent_compD [OF silent_emits(2)])
    with s1 l2 Some show ?thesis
      by (auto simp: same_def log_defs map_filter_append map_filter_single)
  qed
qed

text \<open>What follows the tool call of an iteration leaves the log's parts alone and keeps its result.\<close>

definition observe_part ::
  "'w engine \<Rightarrow> 'w ports \<Rightarrow> resolved_protocol \<Rightarrow> session \<Rightarrow> plan \<Rightarrow> step list \<Rightarrow> 'w strategy \<Rightarrow> int \<Rightarrow> action
     \<Rightarrow> tool_result option \<Rightarrow> ('w, action \<times> observation \<times> verification_result) comp" where
  "observe_part E P proto ses pl steps st i a result =
     (let octx = \<lparr>oc_task = rp_task proto, oc_session = ses, oc_plan = pl, oc_action = a, oc_tool_result = result\<rparr> in
        seq (perform (st_observe st octx) (\<lambda>_. Observe octx)) (\<lambda>odecision.
        seq (ret (validate_observation odecision)) (\<lambda>obs0.
        let obs = normalize_observation a (obs0\<lparr>obs_tool_result := result\<rparr>) in
        seq (emit_step_complete E i (obs_summary obs)) (\<lambda>_.
        seq (verify_iteration P proto ses pl steps a obs) (\<lambda>v.
        ret (Inr (a, obs, v)))))))"

lemma silent_observe_part: "silent_comp (observe_part E P proto ses pl steps st i a result)"
  unfolding observe_part_def Let_def
  by (intro silent_seq silent_ret silent_emits silent_verify silent_perform) simp

lemma normalize_keeps_result [simp]:
  "obs_tool_result (normalize_observation a obs) = obs_tool_result obs"
  by (simp add: normalize_observation_def Let_def)

lemma observe_part_result:
  assumes "observe_part E P proto ses pl steps st i a result wd = (Inr (a', obs, v), wd')"
  shows "a' = a \<and> obs_tool_result obs = result"
  using assms unfolding observe_part_def Let_def
  by (auto elim!: seq_cases simp: ret_def)

text \<open>The tool calls an iteration makes: at most one, for an allowed tool, and its result is the step's.\<close>

definition call_fits :: "'w ports \<Rightarrow> (tool_call \<times> tool_result) list \<Rightarrow> bool" where
  "call_fits P xs \<longleftrightarrow> length xs \<le> 1 \<and> (\<forall>(c, tr) \<in> set xs. is_allowed_tool (tc_name c) (list_tool_info P))"

definition result_fits :: "action \<Rightarrow> observation \<Rightarrow> (tool_call \<times> tool_result) list \<Rightarrow> bool" where
  "result_fits a obs xs \<longleftrightarrow>
     (case act_tool_call a of
        None \<Rightarrow> xs = [] \<and> obs_tool_result obs = None
      | Some c \<Rightarrow> \<exists>tr. xs = [(c, tr)] \<and> obs_tool_result obs = Some tr)"

lemma execute_iteration_spec:
  assumes "execute_iteration E P proto ses pl steps wd = (r, wd')"
  shows "appended wd' = appended wd \<and> saved wd' = saved wd \<and> planned wd' = planned wd \<and>
    (\<exists>xs. executed wd' = executed wd @ xs \<and> call_fits P xs \<and>
       (\<forall>a obs v. r = Inr (a, obs, v) \<longrightarrow> result_fits a obs xs))"
proof -
  let ?i = "int (length steps) + 1"
  obtain memory wd1 where m: "recall_memory P (rp_task proto) ses wd = (memory, wd1)" by fastforce
  note s1 = recall_memory_same [OF m]
  let ?ctx = "\<lparr>ac_task = rp_task proto, ac_session = ses, ac_plan = pl, ac_steps = steps,
                   ac_memory = memory, ac_allowed_tools = list_tool_info P\<rparr>"
  have run: "seq (resolve_strategy E) (\<lambda>st.
        seq (perform (st_next_action st ?ctx) (\<lambda>_. NextAction ?ctx)) (\<lambda>decision.
        seq (ret (validate_action (list_tool_info P) decision)) (\<lambda>a.
        seq (execute_tool E P ?i a) (observe_part E P proto ses pl steps st ?i a)))) wd1 = (r, wd')"
    using assms m by (simp add: execute_iteration_def observe_part_def [abs_def] Let_def)
  have quiet: ?thesis if "same wd wd'" "\<And>a obs v. r \<noteq> Inr (a, obs, v)"
    using that by (auto simp: same_def call_fits_def)
  from run show ?thesis
  proof (cases rule: seq_cases)
    case (1 e)
    with quiet s1 silent_compD [OF silent_resolve] same_trans show ?thesis by blast
  next
    case (2 st wd2)
    have s2: "same wd wd2" using 2(1) s1 silent_compD [OF silent_resolve] same_trans by blast
    have sn: "silent_comp (perform (st_next_action st ?ctx) (\<lambda>_. NextAction ?ctx))" by (rule silent_perform) simp
    from 2(2) show ?thesis
    proof (cases rule: seq_cases)
      case (1 e)
      with quiet s2 silent_compD [OF sn] same_trans show ?thesis by blast
    next
      case (2 decision wd3)
      have s3: "same wd wd3" using 2(1) s2 silent_compD [OF sn] same_trans by blast
      from 2(2) show ?thesis
      proof (cases rule: seq_cases)
        case (1 e)
        with quiet s3 silent_compD [OF silent_ret] same_trans show ?thesis by blast
      next
        case (2 a wd4)
        then have va: "validate_action (list_tool_info P) decision = Inr a" "wd4 = wd3" by (auto simp: ret_def)
        have allowed: "is_allowed_tool (tc_name c) (list_tool_info P)" if "act_tool_call a = Some c" for c
          using va(1) that by (auto simp: validate_action_Inr)
        from 2(2) show ?thesis
        proof (cases rule: seq_cases)
          case (1 e)
          note x = execute_tool_spec [OF 1(1)]
          have "executed wd' = executed wd4 \<or> (\<exists>c tr. act_tool_call a = Some c \<and> executed wd' = executed wd4 @ [(c, tr)])"
            using x by (auto split: option.splits)
          then obtain xs where "executed wd' = executed wd4 @ xs" "call_fits P xs"
            using allowed by (fastforce simp: call_fits_def)
          with x 1 s3 va show ?thesis by (auto simp: same_def)
        next
          case (2 result wd5)
          note x = execute_tool_spec [OF 2(1)]
          note s6 = silent_compD [OF silent_observe_part 2(2)]
          have keep: "a' = a \<and> obs_tool_result obs = result" if "r = Inr (a', obs, v)" for a' obs v
            using observe_part_result 2(2) that by blast
          obtain xs where xs: "executed wd5 = executed wd4 @ xs" "call_fits P xs"
            "case act_tool_call a of None \<Rightarrow> xs = [] \<and> result = None | Some c \<Rightarrow> \<exists>tr. xs = [(c, tr)] \<and> result = Some tr"
          proof (cases "act_tool_call a")
            case None
            with x have "executed wd5 = executed wd4 @ []" "result = None" by auto
            with None show ?thesis using that [of "[]"] by (simp add: call_fits_def)
          next
            case (Some c)
            with x obtain tr where "result = Some tr" "executed wd5 = executed wd4 @ [(c, tr)]" by (cases result) auto
            with Some allowed [OF Some] show ?thesis using that [of "[(c, tr)]"] by (simp add: call_fits_def)
          qed
          have "result_fits a' obs xs" if "r = Inr (a', obs, v)" for a' obs v
            using keep [OF that] xs(3) by (simp add: result_fits_def split: option.splits)
          with xs x s6 s3 va show ?thesis by (auto simp: same_def)
        qed
      qed
    qed
  qed
qed

end
