(* ===== verification/Engine_Run.thy ===== *)
theory Engine_Run
  imports Engine_Correct
begin

text \<open>
  The loop of a run and the run as a whole: what they record, what they return, and that the two
  agree.
\<close>

section \<open>Planning, failing and finishing\<close>

lemma save_session_spec:
  assumes "save_session P ses wd = (r, wd')"
  shows "executed wd' = executed wd \<and> appended wd' = appended wd \<and> planned wd' = planned wd \<and>
    (\<exists>e. saved wd' = saved wd @ [(ses, e)] \<and> r = from_error e)"
proof -
  obtain e where e: "perform (sp_save_session (po_sessions P) ses) (SaveSession ses) wd = (e, wd')" "r = from_error e"
    using checked_cases assms unfolding save_session_def by blast
  from perform_cases [OF e(1)] e(2) show ?thesis
    by (simp add: log_defs map_filter_append map_filter_single)
qed

lemma append_step_spec:
  assumes "append_step P sid st wd = (r, wd')"
  shows "executed wd' = executed wd \<and> saved wd' = saved wd \<and> planned wd' = planned wd \<and>
    (\<exists>e. appended wd' = appended wd @ [(st, e)] \<and> r = from_error e)"
proof -
  obtain e where e: "perform (sp_append_step (po_sessions P) sid st) (AppendStep sid st) wd = (e, wd')" "r = from_error e"
    using checked_cases assms unfolding append_step_def by blast
  from perform_cases [OF e(1)] e(2) show ?thesis
    by (simp add: log_defs map_filter_append map_filter_single)
qed

lemma silent_checked: "silent_comp f' \<Longrightarrow> (\<And>wd e wd'. f wd = (e, wd') \<Longrightarrow> same wd wd') \<Longrightarrow> silent_comp (checked f)"
  by (auto simp: silent_comp_def dest!: checked_cases)

lemma silent_save_plan [simp]: "silent_comp (save_plan P pl)"
  unfolding save_plan_def silent_comp_def
  by (auto dest!: checked_cases perform_cases intro: same_entry)

lemma silent_remember [simp]: "silent_comp (remember P sid obs)"
  unfolding remember_def silent_comp_def
  by (auto dest!: checked_cases perform_cases intro: same_entry)

lemma record_step_spec:
  assumes "record_step P sid st obs wd = (r, wd')"
  shows "executed wd' = executed wd \<and> saved wd' = saved wd \<and> planned wd' = planned wd \<and>
    map fst (appended wd') = map fst (appended wd) @ [st]"
  using assms unfolding record_step_def
proof (cases rule: seq_cases)
  case (1 e)
  from append_step_spec [OF 1(1)] show ?thesis by auto
next
  case (2 u wd1)
  from append_step_spec [OF 2(1)] silent_compD [OF silent_remember 2(2)] show ?thesis by (auto simp: same_def)
qed

lemma create_plan_spec:
  assumes "engine_create_plan E P proto ses created wd = (r, wd')"
  shows "executed wd' = executed wd \<and> appended wd' = appended wd \<and> saved wd' = saved wd \<and>
    length (planned wd') \<le> Suc (length (planned wd))"
proof -
  obtain memory wd1 where m: "recall_memory P (rp_task proto) ses wd = (memory, wd1)" by fastforce
  let ?ctx = "\<lparr>pc_task = rp_task proto, pc_session = ses, pc_memory = memory\<rparr>"
  let ?rest = "\<lambda>decision. seq (ret (validate_plan (rp_task proto) decision)) (\<lambda>pl.
          let pl1 = (if plan_task_id pl = [] then pl\<lparr>plan_task_id := task_id (rp_task proto)\<rparr> else pl);
              pl2 = (if plan_created_at pl1 = 0 then pl1\<lparr>plan_created_at := created\<rparr> else pl1)
          in seq (save_plan P pl2) (\<lambda>_. ret (Inr pl2)))"
  have rest: "silent_comp (?rest decision)" for decision
    by (intro silent_seq silent_ret) (simp add: Let_def silent_seq)
  have "seq (resolve_strategy E) (\<lambda>st. seq (perform (st_create_plan st ?ctx) (\<lambda>_. CreatePlan ?ctx)) ?rest) wd1 = (r, wd')"
    using assms m by (simp add: engine_create_plan_def Let_def)
  then show ?thesis
  proof (cases rule: seq_cases)
    case (1 e)
    with recall_memory_same [OF m] silent_compD [OF silent_resolve 1(1)] show ?thesis by (simp add: same_def)
  next
    case (2 st wd2)
    then have s2: "same wd wd2"
      using recall_memory_same [OF m] silent_compD [OF silent_resolve 2(1)] same_trans by blast
    have "\<exists>wd3 x. perform (st_create_plan st ?ctx) (\<lambda>_. CreatePlan ?ctx) wd2 = (x, wd3) \<and> same wd3 wd'"
      using 2(2) by (cases rule: seq_cases) (auto dest: silent_compD [OF rest])
    then obtain wd3 x where p: "perform (st_create_plan st ?ctx) (\<lambda>_. CreatePlan ?ctx) wd2 = (x, wd3)"
      and s3: "same wd3 wd'" by blast
    from perform_cases [OF p] s2 s3 show ?thesis
      by (simp add: same_def log_defs map_filter_append map_filter_single)
  qed
qed

lemma engine_now_same: "engine_now E wd = (t, wd') \<Longrightarrow> same wd wd'"
  by (auto simp: engine_now_def intro: same_log silent_cases)

lemma wall_now_same: "wall_now E wd = (t, wd') \<Longrightarrow> same wd wd'"
  by (auto simp: wall_now_def intro: same_log silent_cases)

text \<open>How a run ends: with nothing and an error, or with a session that was saved last.\<close>

definition ended :: "'w world \<Rightarrow> session \<Rightarrow> step list \<Rightarrow> go_error option \<Rightarrow> run_result \<Rightarrow> 'w world \<Rightarrow> bool" where
  "ended wd ses steps cause res wd' \<longleftrightarrow>
     executed wd' = executed wd \<and> appended wd' = appended wd \<and> planned wd' = planned wd \<and>
     ((\<exists>e. res = failed_run e) \<or>
      (\<exists>now pl. res = (ses\<lparr>sess_updated_at := now\<rparr>, pl, steps, cause) \<and>
         saved wd' = saved wd @ [(ses\<lparr>sess_updated_at := now\<rparr>, None)]))"

lemma fail_session_spec:
  assumes "fail_session E P ses status pl steps cause wd = (res, wd')"
  shows "ended wd (ses\<lparr>sess_status := status\<rparr>) steps cause res wd'"
proof -
  obtain now wd1 where n: "engine_now E wd = (now, wd1)" by fastforce
  let ?ses = "ses\<lparr>sess_status := status, sess_updated_at := now\<rparr>"
  let ?rest = "\<lambda>_. seq (case cause of None \<Rightarrow> ret (Inr ())
                | Some e \<Rightarrow> emit_error E (int (length steps)) (error_text e)) (\<lambda>_. emit_session_complete E ?ses)"
  have rest: "silent_comp (?rest u)" for u
    by (intro silent_seq) (simp_all split: option.splits)
  obtain x wd2 where x: "seq (save_session P ?ses) ?rest wd1 = (x, wd2)" by fastforce
  have res: "res = (case x of Inl e \<Rightarrow> failed_run e | Inr _ \<Rightarrow> (?ses, pl, steps, cause))" "wd' = wd2"
    using assms n x by (auto simp: fail_session_def Let_def split: sum.splits)
  from x have "executed wd2 = executed wd1 \<and> appended wd2 = appended wd1 \<and> planned wd2 = planned wd1 \<and>
      (is_ok x \<longrightarrow> saved wd2 = saved wd1 @ [(?ses, None)])"
  proof (cases rule: seq_cases)
    case (1 e)
    from save_session_spec [OF 1(1)] 1(2) show ?thesis by auto
  next
    case (2 u wd3)
    from save_session_spec [OF 2(1)] silent_compD [OF rest 2(2)] show ?thesis by (auto simp: same_def)
  qed
  with engine_now_same [OF n] res show ?thesis
    by (cases x) (auto simp: ended_def same_def)
qed

lemma finish_run_spec:
  assumes "finish_run E P ses pl steps out wd = (res, wd')"
  shows "ended wd (ses\<lparr>sess_status := io_status out\<rparr>) steps (io_error out) res wd'"
proof -
  let ?ses = "ses\<lparr>sess_status := io_status out\<rparr>"
  obtain x wd2 where x: "seq (save_session P ?ses) (\<lambda>_. emit_session_complete E ?ses) wd = (x, wd2)" by fastforce
  have res: "res = (case x of Inl e \<Rightarrow> failed_run e | Inr _ \<Rightarrow> (?ses, pl, steps, io_error out))" "wd' = wd2"
    using assms x by (auto simp: finish_run_def Let_def split: sum.splits)
  from x have "executed wd2 = executed wd \<and> appended wd2 = appended wd \<and> planned wd2 = planned wd \<and>
      (is_ok x \<longrightarrow> saved wd2 = saved wd @ [(?ses, None)])"
  proof (cases rule: seq_cases)
    case (1 e)
    from save_session_spec [OF 1(1)] 1(2) show ?thesis by auto
  next
    case (2 u wd3)
    from save_session_spec [OF 2(1)] silent_compD [OF silent_emits(5) 2(2)] show ?thesis by (auto simp: same_def)
  qed
  moreover have "?ses = ?ses\<lparr>sess_updated_at := sess_updated_at ses\<rparr>" by simp
  ultimately show ?thesis using res
    by (cases x) (auto simp: ended_def intro!: exI [of _ "sess_updated_at ses"])
qed

section \<open>The loop\<close>

text \<open>A step that ends the run: it asks for input, or its verification passed.\<close>

definition step_ends :: "step \<Rightarrow> bool" where
  "step_ends s \<longleftrightarrow> act_type (step_action s) = at_request_input \<or> vr_passed (step_verification s)"

text \<open>The tool call a step records, with the result the observation carries.\<close>

definition step_calls :: "step \<Rightarrow> (tool_call \<times> tool_result) list" where
  "step_calls s =
     (case (act_tool_call (step_action s), obs_tool_result (step_observation s)) of
        (Some c, Some r) \<Rightarrow> [(c, r)]
      | _ \<Rightarrow> [])"

text \<open>What a status says about the steps of the run and its error; \<open>n\<close> is the step budget.\<close>

definition verdict :: "nat \<Rightarrow> session_status \<Rightarrow> step list \<Rightarrow> go_error option \<Rightarrow> bool" where
  "verdict n status steps err \<longleftrightarrow>
     (status = ss_success \<and> err = None \<and> steps \<noteq> [] \<and>
        act_type (step_action (last steps)) \<noteq> at_request_input \<and> vr_passed (step_verification (last steps))) \<or>
     (status = ss_blocked_input \<and> err = None \<and> steps \<noteq> [] \<and>
        act_type (step_action (last steps)) = at_request_input) \<or>
     (status = ss_budget_exceeded \<and> err = None \<and> length steps = n \<and> (\<forall>s \<in> set steps. \<not> step_ends s)) \<or>
     (status = ss_verification_failed \<and> err = Some retry_budget_exceeded \<and> steps \<noteq> [] \<and>
        (\<forall>s \<in> set steps. \<not> step_ends s)) \<or>
     (status = ss_interrupted \<and> err \<noteq> None) \<or>
     (status = ss_fatal_error \<and> err \<noteq> None)"

text \<open>
  What a run from given steps does: \<open>new\<close> are the steps it adds, \<open>xs\<close> the tool call of an
  iteration that failed afterwards.
\<close>

definition run_post ::
  "'w ports \<Rightarrow> nat \<Rightarrow> int \<Rightarrow> session \<Rightarrow> step list \<Rightarrow> 'w world \<Rightarrow> run_result \<Rightarrow> 'w world \<Rightarrow> step list
     \<Rightarrow> (tool_call \<times> tool_result) list \<Rightarrow> bool" where
  "run_post P n retries_left ses steps wd res wd' new xs \<longleftrightarrow>
     executed wd' = executed wd @ concat (map step_calls new) @ xs \<and> call_fits P xs \<and>
     (\<forall>s \<in> set new. call_fits P (step_calls s)) \<and>
     map fst (appended wd') = map fst (appended wd) @ new \<and>
     length new \<le> n \<and> int (length new) \<le> retries_left + 1 \<and>
     int (length (planned wd')) \<le> int (length (planned wd)) + retries_left \<and>
     map step_index new = map (\<lambda>k. int (length steps + k + 1)) [0..<length new] \<and>
     (\<forall>s \<in> set (butlast new). \<not> step_ends s) \<and>
     ((\<exists>e. res = failed_run e) \<or>
      (\<exists>ses' pl err. res = (ses', pl, steps @ new, err) \<and> verdict n (sess_status ses') new err \<and>
         sess_id ses' = sess_id ses \<and> saved wd' = saved wd @ [(ses', None)]))"

lemma make_step_simps:
  assumes "make_step E P st i a obs v ses wd = (stp, ses1)"
  shows "step_index stp = i" "step_action stp = a" "step_observation stp = obs" "step_verification stp = v"
    "sess_id ses1 = sess_id ses"
  using assms by (auto simp: make_step_def Let_def)

lemma result_fits_calls:
  "result_fits a obs xs \<Longrightarrow> step_action s = a \<Longrightarrow> step_observation s = obs \<Longrightarrow> step_calls s = xs"
  by (auto simp: result_fits_def step_calls_def split: option.splits)

text \<open>Ending the run right away.\<close>

lemma run_post_end:
  assumes e: "ended wd0 (ses\<lparr>sess_status := status\<rparr>) steps cause res wd'"
    and wd0: "executed wd0 = executed wd @ xs" "map fst (appended wd0) = map fst (appended wd)"
      "planned wd0 = planned wd" "saved wd0 = saved wd"
    and fits: "call_fits P xs" and n: "0 \<le> r" and v: "verdict n status [] cause"
  shows "run_post P n r ses steps wd res wd' [] xs"
  using assms by (auto simp: run_post_def ended_def)

text \<open>Ending the run after one more step.\<close>

lemma run_post_last:
  assumes e: "ended wd0 (ses1\<lparr>sess_status := status\<rparr>) (steps @ [stp]) cause res wd'"
    and wd0: "executed wd0 = executed wd @ step_calls stp" "map fst (appended wd0) = map fst (appended wd) @ [stp]"
      "length (planned wd0) \<le> length (planned wd) + k" "saved wd0 = saved wd"
    and fits: "call_fits P (step_calls stp)" and n: "int k \<le> r" and i: "step_index stp = int (length steps) + 1"
    and v: "verdict (Suc left) status [stp] cause" and id: "sess_id ses1 = sess_id ses"
  shows "run_post P (Suc left) r ses steps wd res wd' [stp] []"
  using assms by (auto simp: run_post_def ended_def call_fits_def)

text \<open>Going on after one more step.\<close>

lemma verdict_Cons:
  "verdict left status new err \<Longrightarrow> \<not> step_ends stp \<Longrightarrow> verdict (Suc left) status (stp # new) err"
  unfolding verdict_def by (elim disjE conjE; simp)

lemma run_post_step:
  assumes rest: "run_post P left (r - 1) ses1 (steps @ [stp]) wd0 res wd' new xs"
    and wd0: "executed wd0 = executed wd @ step_calls stp" "map fst (appended wd0) = map fst (appended wd) @ [stp]"
      "length (planned wd0) \<le> Suc (length (planned wd))" "saved wd0 = saved wd"
    and fits: "call_fits P (step_calls stp)" and i: "step_index stp = int (length steps) + 1"
    and going: "\<not> step_ends stp" and id: "sess_id ses1 = sess_id ses"
  shows "run_post P (Suc left) r ses steps wd res wd' (stp # new) xs"
proof -
  have idx: "map step_index (stp # new) = map (\<lambda>k. int (length steps + k + 1)) [0..<length (stp # new)]"
  proof -
    have "map step_index new = map (\<lambda>k. int (length steps + Suc k + 1)) [0..<length new]"
      using rest by (simp add: run_post_def)
    then show ?thesis using i by (simp add: upt_conv_Cons map_Suc_upt [symmetric] del: upt_Suc)
  qed
  have mid: "\<forall>s \<in> set (butlast (stp # new)). \<not> step_ends s"
    using rest going by (auto simp: run_post_def split: if_splits)
  have "verdict (Suc left) status (stp # new) err" if "verdict left status new err" for status err
    using that going by (rule verdict_Cons)
  then have res: "(\<exists>e. res = failed_run e) \<or>
      (\<exists>ses' pl err. res = (ses', pl, steps @ stp # new, err) \<and> verdict (Suc left) (sess_status ses') (stp # new) err \<and>
         sess_id ses' = sess_id ses \<and> saved wd' = saved wd @ [(ses', None)])"
    using rest wd0(4) id by (fastforce simp: run_post_def)
  show ?thesis
    unfolding run_post_def
    using rest wd0 fits idx mid res by (auto simp: run_post_def)
qed

lemma verdict_errors [simp]:
  "verdict n ss_interrupted steps (Some e)" "verdict n ss_fatal_error steps (Some e)"
  by (simp_all add: verdict_def)

lemma verdict_terminal:
  assumes "io_terminal (decide_outcome a v)" "step_action stp = a" "step_verification stp = v"
  shows "verdict n (io_status (decide_outcome a v)) [stp] (io_error (decide_outcome a v))"
  using assms by (simp add: decide_outcome_def verdict_def split: if_splits)

lemma outcome_ends:
  "step_action stp = a \<Longrightarrow> step_verification stp = v \<Longrightarrow> io_terminal (decide_outcome a v) \<longleftrightarrow> step_ends stp"
  by (simp add: decide_outcome_def step_ends_def)

lemma next_round_spec:
  assumes "next_round E P proto mr rt ses pl steps k wd = (res, wd')"
  shows "\<exists>wd0. executed wd0 = executed wd \<and> appended wd0 = appended wd \<and> saved wd0 = saved wd \<and>
     (mr < rt + 1 \<and> planned wd0 = planned wd \<and>
        ended wd0 (ses\<lparr>sess_status := ss_verification_failed\<rparr>) steps (Some retry_budget_exceeded) res wd' \<or>
      rt + 1 \<le> mr \<and> length (planned wd0) \<le> Suc (length (planned wd)) \<and>
        ((\<exists>e. ended wd0 (ses\<lparr>sess_status := ss_fatal_error\<rparr>) steps (Some e) res wd') \<or>
         (\<exists>pl1. k pl1 wd0 = (res, wd'))))"
proof (cases "rt + 1 > mr")
  case True
  with assms have "fail_session E P ses ss_verification_failed pl steps (Some retry_budget_exceeded) wd = (res, wd')"
    by (simp add: next_round_def)
  from fail_session_spec [OF this] True show ?thesis by (intro exI [of _ wd]) simp
next
  case False
  obtain created wd1 where n: "engine_now E wd = (created, wd1)" by fastforce
  obtain x wd2 where x: "engine_create_plan E P proto ses created wd1 = (x, wd2)" by fastforce
  note s1 = engine_now_same [OF n]
  note s2 = create_plan_spec [OF x]
  show ?thesis
  proof (cases x)
    case (Inl e)
    with assms False n x have "fail_session E P ses ss_fatal_error zero_plan steps (Some e) wd2 = (res, wd')"
      by (simp add: next_round_def)
    from fail_session_spec [OF this] False s1 s2 show ?thesis
      by (intro exI [of _ wd2]) (auto simp: same_def)
  next
    case (Inr pl1)
    obtain y wd3 where y: "emit_step_complete E (int (length steps) + 1) (plan_summary pl1) wd2 = (y, wd3)" by fastforce
    note s3 = silent_compD [OF silent_emits(3) y]
    have "(\<exists>e. fail_session E P ses ss_fatal_error pl1 steps (Some e) wd3 = (res, wd')) \<or> k pl1 wd3 = (res, wd')"
      using assms False n x y Inr by (cases y) (auto simp: next_round_def)
    then have "(\<exists>e. ended wd3 (ses\<lparr>sess_status := ss_fatal_error\<rparr>) steps (Some e) res wd') \<or>
         (\<exists>pl1. k pl1 wd3 = (res, wd'))"
      using fail_session_spec by blast
    with False s1 s2 s3 show ?thesis by (intro exI [of _ wd3]) (simp add: same_def)
  qed
qed

text \<open>A recorded step, seen from the world before its round.\<close>

definition step_recorded ::
  "'w ports \<Rightarrow> session \<Rightarrow> step list \<Rightarrow> 'w world \<Rightarrow> step \<Rightarrow> session \<Rightarrow> 'w world \<Rightarrow> bool" where
  "step_recorded P ses steps wd stp ses1 wd0 \<longleftrightarrow>
     executed wd0 = executed wd @ step_calls stp \<and> map fst (appended wd0) = map fst (appended wd) @ [stp] \<and>
     planned wd0 = planned wd \<and> saved wd0 = saved wd \<and> call_fits P (step_calls stp) \<and>
     step_index stp = int (length steps) + 1 \<and> sess_id ses1 = sess_id ses"

lemma after_step_post:
  assumes run: "after_step left E P proto mr rt a v ses1 pl (steps @ [stp]) k wd0 = (res, wd')"
    and rec: "step_recorded P ses steps wd stp ses1 wd0"
    and stp: "step_action stp = a" "step_verification stp = v" and rt: "rt \<le> mr"
    and IH: "\<And>ses2 pl1 wd8. k ses2 pl1 wd8 = (res, wd') \<Longrightarrow> rt + 1 \<le> mr \<Longrightarrow>
      \<exists>new xs. run_post P left (mr - (rt + 1)) ses2 (steps @ [stp]) wd8 res wd' new xs"
  shows "\<exists>new xs. run_post P (Suc left) (mr - rt) ses steps wd res wd' new xs"
proof -
  obtain now wd1 where n: "engine_now E wd0 = (now, wd1)" by fastforce
  let ?ses = "ses1\<lparr>sess_updated_at := now\<rparr>"
  note s = engine_now_same [OF n]
  have rec1: "executed wd1 = executed wd @ step_calls stp" "map fst (appended wd1) = map fst (appended wd) @ [stp]"
    "planned wd1 = planned wd" "saved wd1 = saved wd"
    "call_fits P (step_calls stp)" "step_index stp = int (length steps) + 1" "sess_id ?ses = sess_id ses"
    using rec s by (simp_all add: step_recorded_def same_def)
  have last: "run_post P (Suc left) (mr - rt) ses steps wd res wd' [stp] []"
    if "ended wd2 (?ses\<lparr>sess_status := status\<rparr>) (steps @ [stp]) cause res wd'" "verdict (Suc left) status [stp] cause"
      "executed wd2 = executed wd1" "appended wd2 = appended wd1" "saved wd2 = saved wd1"
      "length (planned wd2) \<le> length (planned wd1) + i" "int i \<le> mr - rt"
    for status cause wd2 i
    by (rule run_post_last [where ?ses1.0 = ?ses and ?wd0.0 = wd2 and k = i]) (use that rec1 in simp_all)
  show ?thesis
  proof (cases "io_terminal (decide_outcome a v)")
    case True
    with run n have "finish_run E P ?ses pl (steps @ [stp]) (decide_outcome a v) wd1 = (res, wd')"
      by (simp add: after_step_def Let_def)
    from last [OF finish_run_spec [OF this] verdict_terminal [OF True stp], of 0] rt show ?thesis by auto
  next
    case False
    then have going: "\<not> step_ends stp" using outcome_ends [OF stp] by simp
    show ?thesis
    proof (cases "left = 0")
      case True
      with run n False have "fail_session E P ?ses ss_budget_exceeded pl (steps @ [stp]) None wd1 = (res, wd')"
        by (simp add: after_step_def Let_def)
      from last [OF fail_session_spec [OF this], of 0] going True rt show ?thesis
        by (auto simp: verdict_def)
    next
      case more: False
      with run n False have "next_round E P proto mr rt ?ses pl (steps @ [stp]) (k ?ses) wd1 = (res, wd')"
        by (simp add: after_step_def Let_def)
      from next_round_spec [OF this] obtain wd2
        where w: "executed wd2 = executed wd1" "appended wd2 = appended wd1" "saved wd2 = saved wd1"
        and c: "mr < rt + 1 \<and> planned wd2 = planned wd1 \<and>
            ended wd2 (?ses\<lparr>sess_status := ss_verification_failed\<rparr>) (steps @ [stp]) (Some retry_budget_exceeded) res wd' \<or>
          rt + 1 \<le> mr \<and> length (planned wd2) \<le> Suc (length (planned wd1)) \<and>
          ((\<exists>e. ended wd2 (?ses\<lparr>sess_status := ss_fatal_error\<rparr>) (steps @ [stp]) (Some e) res wd') \<or>
           (\<exists>pl1. k ?ses pl1 wd2 = (res, wd')))" by blast
      from c consider
          "planned wd2 = planned wd1"
          "ended wd2 (?ses\<lparr>sess_status := ss_verification_failed\<rparr>) (steps @ [stp]) (Some retry_budget_exceeded) res wd'"
        | e where "rt + 1 \<le> mr" "length (planned wd2) \<le> Suc (length (planned wd1))"
          "ended wd2 (?ses\<lparr>sess_status := ss_fatal_error\<rparr>) (steps @ [stp]) (Some e) res wd'"
        | pl1 where "rt + 1 \<le> mr" "length (planned wd2) \<le> Suc (length (planned wd1))" "k ?ses pl1 wd2 = (res, wd')"
        by blast
      then show ?thesis
      proof cases
        case 1
        have "verdict (Suc left) ss_verification_failed [stp] (Some retry_budget_exceeded)"
          using going by (simp add: verdict_def)
        from last [OF 1(2) this w, of 0] 1(1) rt show ?thesis by auto
      next
        case 2
        from last [OF 2(3) verdict_errors(2) w, of 1] 2(1,2) show ?thesis by auto
      next
        case 3
        from IH [OF 3(3,1)] obtain new xs
          where "run_post P left (mr - (rt + 1)) ?ses (steps @ [stp]) wd2 res wd' new xs" by blast
        moreover have "mr - (rt + 1) = mr - rt - 1" by simp
        ultimately have "run_post P (Suc left) (mr - rt) ses steps wd res wd' (stp # new) xs"
          using w rec1 3(2) going by (intro run_post_step [where ?ses1.0 = ?ses and ?wd0.0 = wd2]) simp_all
        then show ?thesis by blast
      qed
    qed
  qed
qed

lemma start_round_spec:
  assumes "start_round E P proto st dl ses pl steps k wd = (res, wd')"
  shows "(\<exists>wd0 status e xs. ended wd0 (ses\<lparr>sess_status := status\<rparr>) steps (Some e) res wd' \<and>
       status \<in> {ss_interrupted, ss_fatal_error} \<and> executed wd0 = executed wd @ xs \<and>
       map fst (appended wd0) = map fst (appended wd) \<and> planned wd0 = planned wd \<and> saved wd0 = saved wd \<and>
       call_fits P xs) \<or>
     (\<exists>a v stp ses1 wd0. step_action stp = a \<and> step_verification stp = v \<and>
       step_recorded P ses steps wd stp ses1 wd0 \<and>
       ((\<exists>e. ended wd0 (ses1\<lparr>sess_status := ss_fatal_error\<rparr>) (steps @ [stp]) (Some e) res wd') \<or>
        k a v ses1 (steps @ [stp]) wd0 = (res, wd')))"
proof -
  have early: ?thesis
    if "fail_session E P ses status pl steps (Some e) wd0 = (res, wd')" "status \<in> {ss_interrupted, ss_fatal_error}"
      "executed wd0 = executed wd @ xs" "appended wd0 = appended wd" "planned wd0 = planned wd" "saved wd0 = saved wd"
      "call_fits P xs" for wd0 status e xs
  proof -
    have "map fst (appended wd0) = map fst (appended wd)" using that(4) by simp
    with fail_session_spec [OF that(1)] that(2,3,5-7) show ?thesis by blast
  qed
  obtain ce wd1 where c: "silent (eng_ctx_err E) wd = (ce, wd1)" by fastforce
  then have s1: "same wd wd1" by (auto intro: same_log silent_cases)
  show ?thesis
  proof (cases ce)
    case (Some e)
    with assms c have "fail_session E P ses ss_interrupted pl steps (Some e) wd1 = (res, wd')"
      by (simp add: start_round_def)
    from early [OF this, of "[]"] s1 show ?thesis by (simp add: same_def call_fits_def)
  next
    case None
    obtain now wd2 where n: "wall_now E wd1 = (now, wd2)" by fastforce
    have s2: "same wd wd2" using s1 wall_now_same [OF n] same_trans by blast
    show ?thesis
    proof (cases "now < dl")
      case False
      with assms c None n have "fail_session E P ses ss_interrupted pl steps (Some DeadlineExceeded) wd2 = (res, wd')"
        by (simp add: start_round_def)
      from early [OF this, of "[]"] s2 show ?thesis by (simp add: same_def call_fits_def)
    next
      case True
      obtain x wd3 where x: "execute_iteration E P proto ses pl steps wd2 = (x, wd3)" by fastforce
      from execute_iteration_spec [OF x] s2 obtain xs
        where w3: "executed wd3 = executed wd @ xs" "appended wd3 = appended wd" "saved wd3 = saved wd" "planned wd3 = planned wd"
        and xs: "call_fits P xs" "\<And>a obs v. x = Inr (a, obs, v) \<Longrightarrow> result_fits a obs xs"
        by (auto simp: same_def)
      show ?thesis
      proof (cases x)
        case (Inl e)
        with assms c None n True x have "fail_session E P ses (if is_interruption e then ss_interrupted else ss_fatal_error)
            pl steps (Some e) wd3 = (res, wd')" by (simp add: start_round_def)
        from early [OF this, of xs] w3 xs(1) show ?thesis by simp
      next
        case (Inr r)
        obtain a obs v where r: "r = (a, obs, v)" by (cases r) auto
        obtain stp ses1 where m: "make_step E P st (int (length steps) + 1) a obs v ses wd3 = (stp, ses1)" by fastforce
        obtain y wd4 where y: "record_step P (sess_id ses1) stp obs wd3 = (y, wd4)" by fastforce
        note ms = make_step_simps [OF m]
        have calls: "step_calls stp = xs" using result_fits_calls xs(2) Inr r ms by blast
        have rec: "step_recorded P ses steps wd stp ses1 wd4"
          using record_step_spec [OF y] w3 xs(1) calls ms by (simp add: step_recorded_def)
        have "(\<exists>e. fail_session E P ses1 ss_fatal_error pl (steps @ [stp]) (Some e) wd4 = (res, wd')) \<or>
            k a v ses1 (steps @ [stp]) wd4 = (res, wd')"
          using assms c None n True x Inr r m y by (cases y) (auto simp: start_round_def)
        with rec ms fail_session_spec show ?thesis by blast
      qed
    qed
  qed
qed

lemma run_loop_post:
  "run_loop n E P proto st dl mr rt ses pl steps wd = (res, wd') \<Longrightarrow> rt \<le> mr \<Longrightarrow>
   \<exists>new xs. run_post P n (mr - rt) ses steps wd res wd' new xs"
proof (induction n arbitrary: rt ses pl steps wd)
  case 0
  then have "fail_session E P ses ss_budget_exceeded pl steps None wd = (res, wd')" by simp
  from run_post_end [OF fail_session_spec [OF this], where xs = "[]" and P = P and wd = wd and n = 0 and r = "mr - rt"] 0(2)
  show ?case by (auto simp: call_fits_def verdict_def)
next
  case (Suc left)
  let ?k = "\<lambda>a v ses1 steps1. after_step left E P proto mr rt a v ses1 pl steps1
          (\<lambda>ses2 pl1. run_loop left E P proto st dl mr (rt + 1) ses2 pl1 steps1)"
  from Suc.prems(1) have "start_round E P proto st dl ses pl steps ?k wd = (res, wd')" by simp
  from start_round_spec [OF this] show ?case
  proof (elim disjE exE conjE)
    fix wd0 status e xs
    assume "ended wd0 (ses\<lparr>sess_status := status\<rparr>) steps (Some e) res wd'"
      "executed wd0 = executed wd @ xs" "map fst (appended wd0) = map fst (appended wd)"
      "planned wd0 = planned wd" "saved wd0 = saved wd" "call_fits P xs"
      and st: "status \<in> {ss_interrupted, ss_fatal_error}"
    moreover have "verdict (Suc left) status [] (Some e)" using st by (elim insertE) simp_all
    ultimately show ?case using Suc.prems(2)
      by (intro exI [of _ "[]"] exI [of _ xs] run_post_end [where ses = ses and status = status and ?wd0.0 = wd0]) simp_all
  next
    fix a v stp ses1 wd0 e
    assume s: "step_action stp = a" "step_verification stp = v" "step_recorded P ses steps wd stp ses1 wd0"
      and e: "ended wd0 (ses1\<lparr>sess_status := ss_fatal_error\<rparr>) (steps @ [stp]) (Some e) res wd'"
    have "run_post P (Suc left) (mr - rt) ses steps wd res wd' [stp] []"
      by (rule run_post_last [OF e, where k = 0]) (use s Suc.prems(2) in \<open>simp_all add: step_recorded_def\<close>)
    then show ?case by blast
  next
    fix a v stp ses1 wd0
    assume s: "step_action stp = a" "step_verification stp = v" "step_recorded P ses steps wd stp ses1 wd0"
      and k: "?k a v ses1 (steps @ [stp]) wd0 = (res, wd')"
    show ?case
      by (rule after_step_post [OF k s(3,1,2) Suc.prems(2)]) (use Suc.IH in blast)
  qed
qed

end
