(* ===== verification/Engine_Properties.thy ===== *)
theory Engine_Properties
  imports Engine_Run
begin

text \<open>
  What a whole run of the engine does and returns: the properties of \<^verbatim>\<open>Engine.Run\<close>, with a
  concrete host on which they are applied.
\<close>

section \<open>From the loop to the run\<close>

lemma run_post_shift:
  "run_post P n r ses steps wd1 res wd' new xs \<Longrightarrow> same wd wd1 \<Longrightarrow> run_post P n r ses steps wd res wd' new xs"
  by (simp add: run_post_def same_def)

text \<open>A run from its saved session: a loop after a first plan.\<close>

definition run_budget :: "'w engine \<Rightarrow> nat" where
  "run_budget E = nat (max (eng_max_steps E) 1)"

definition run_retries :: "'w engine \<Rightarrow> int" where
  "run_retries E = max (eng_max_retries E) 0"

lemma run_budget_pos: "0 < run_budget E" "0 \<le> run_retries E"
  by (simp_all add: run_budget_def run_retries_def)

lemma run_session_post:
  assumes "run_session E P proto st ses timestamp wd = (res, wd')"
  shows "\<exists>new xs wd0. run_post P (run_budget E) (run_retries E) ses [] wd0 res wd' new xs \<and>
     executed wd0 = executed wd \<and> appended wd0 = appended wd \<and> saved wd0 = saved wd \<and>
     length (planned wd0) \<le> Suc (length (planned wd))"
proof -
  obtain x wd1 where x: "engine_create_plan E P proto ses timestamp wd = (x, wd1)" by fastforce
  note s1 = create_plan_spec [OF x]
  have early: ?thesis
    if "fail_session E P ses ss_fatal_error pl [] (Some e) wd2 = (res, wd')" "same wd1 wd2" for pl e wd2
  proof -
    have "run_post P (run_budget E) (run_retries E) ses [] wd2 res wd' [] []"
      by (rule run_post_end [OF fail_session_spec [OF that(1)]]) (simp_all add: call_fits_def run_budget_pos)
    with s1 that(2) show ?thesis unfolding same_def by (intro exI [of _ "[]"] exI [of _ wd2]) simp
  qed
  show ?thesis
  proof (cases x)
    case (Inl e)
    with assms x early [of zero_plan e wd1] show ?thesis by (simp add: run_session_def)
  next
    case (Inr pl)
    obtain y wd2 where y: "emit_step_complete E 0 (plan_summary pl) wd1 = (y, wd2)" by fastforce
    note s2 = silent_compD [OF silent_emits(3) y]
    show ?thesis
    proof (cases y)
      case (Inl e)
      with assms x Inr y s2 early [of pl e wd2] show ?thesis by (simp add: run_session_def)
    next
      case ok: (Inr u)
      obtain start wd3 where w: "wall_now E wd2 = (start, wd3)" by fastforce
      from assms x Inr y ok w have "run_loop (run_budget E) E P proto st
          (start + effective_timeout (eng_session_timeout E)) (run_retries E) 0 ses pl [] wd3 = (res, wd')"
        by (simp add: run_session_def run_budget_def run_retries_def)
      from run_loop_post [OF this run_budget_pos(2)] obtain new xs
        where "run_post P (run_budget E) (run_retries E) ses [] wd3 res wd' new xs" by auto
      moreover have "same wd1 wd3" using s2 wall_now_same [OF w] same_trans by blast
      ultimately show ?thesis using s1 unfolding same_def by (metis le_trans)
    qed
  qed
qed

text \<open>What a run did, in one statement; \<open>new\<close> and \<open>xs\<close> as in \<^const>\<open>run_post\<close>.\<close>

definition run_report ::
  "'w engine \<Rightarrow> task \<Rightarrow> 'w world \<Rightarrow> run_result \<Rightarrow> 'w world \<Rightarrow> step list \<Rightarrow> (tool_call \<times> tool_result) list \<Rightarrow> bool" where
  "run_report E t wd res wd' new xs \<longleftrightarrow>
     executed wd' = executed wd @ concat (map step_calls new) @ xs \<and> length xs \<le> 1 \<and>
     (case required_ports E of
        None \<Rightarrow> new = [] \<and> xs = []
      | Some P \<Rightarrow> list_all (\<lambda>(c, tr). is_allowed_tool (tc_name c) (list_tool_info P)) (concat (map step_calls new) @ xs)) \<and>
     map fst (appended wd') = map fst (appended wd) @ new \<and>
     length new \<le> run_budget E \<and> int (length new) \<le> run_retries E + 1 \<and>
     int (length (planned wd')) \<le> int (length (planned wd)) + run_retries E + 1 \<and>
     map step_index new = map int [1..<length new + 1] \<and>
     list_all (\<lambda>s. \<not> step_ends s) (butlast new) \<and>
     ((\<exists>e. res = failed_run e) \<or>
      (\<exists>ses0 ses pl err. res = (ses, pl, new, err) \<and> verdict (run_budget E) (sess_status ses) new err \<and>
         sess_id ses = task_id t @ ''-session'' \<and> sess_id ses0 = sess_id ses \<and> sess_status ses0 = ss_running \<and>
         saved wd' = saved wd @ [(ses0, None), (ses, None)]))"

lemma run_report_nothing:
  assumes "executed wd' = executed wd" "appended wd' = appended wd" "planned wd' = planned wd"
  shows "run_report E t wd (failed_run e) wd' [] []"
  using assms run_budget_pos [of E] by (auto simp: run_report_def split: option.splits)

lemma indices_from_one: "map (\<lambda>k. int (k + 1)) [0..<n] = map int [1..<n + 1]"
  by (simp add: map_Suc_upt [symmetric] del: upt_Suc)

lemma engine_run_report:
  assumes "engine_run E t0 wd = (res, wd')"
  shows "\<exists>new xs. run_report E t0 wd res wd' new xs"
proof (cases "required_ports E")
  case None
  with assms show ?thesis using run_report_nothing [of wd wd E t0] by (auto simp: engine_run_def)
next
  case (Some P)
  obtain timestamp wd1 where n: "engine_now E wd = (timestamp, wd1)" by fastforce
  let ?t = "if task_created_at t0 = 0 then t0\<lparr>task_created_at := timestamp\<rparr> else t0"
  let ?proto = "resolve_task (Some new_task_registry) ?t"
  obtain x wd2 where x: "resolve_strategy E wd1 = (x, wd2)" by fastforce
  have s2: "same wd wd2" using engine_now_same [OF n] silent_compD [OF silent_resolve x] same_trans by blast
  show ?thesis
  proof (cases x)
    case (Inl e)
    with assms Some n x have "res = failed_run e" "wd' = wd2" by (simp_all add: engine_run_def Let_def)
    with run_report_nothing s2 show ?thesis unfolding same_def by blast
  next
    case (Inr st)
    let ?ses = "new_session E st (rp_task ?proto) timestamp"
    have ids: "sess_id ?ses = task_id t0 @ ''-session''" "sess_status ?ses = ss_running"
      by (simp_all add: new_session_def)
    obtain y wd3 where y: "save_session P ?ses wd2 = (y, wd3)" by fastforce
    from save_session_spec [OF y] s2
    have s3: "executed wd3 = executed wd" "appended wd3 = appended wd" "planned wd3 = planned wd"
      "is_ok y \<longrightarrow> saved wd3 = saved wd @ [(?ses, None)]"
      by (auto simp: same_def is_ok_def from_error_def split: option.splits)
    show ?thesis
    proof (cases y)
      case (Inl e)
      with assms Some n x Inr y have "res = failed_run e" "wd' = wd3" by (simp_all add: engine_run_def Let_def)
      with run_report_nothing s3 show ?thesis by blast
    next
      case ok: (Inr u)
      from assms Some n x Inr y ok have "run_session E P ?proto st ?ses timestamp wd3 = (res, wd')"
        by (simp add: engine_run_def Let_def)
      from run_session_post [OF this] obtain new xs wd4
        where p: "run_post P (run_budget E) (run_retries E) ?ses [] wd4 res wd' new xs"
          and w4: "executed wd4 = executed wd3" "appended wd4 = appended wd3" "saved wd4 = saved wd3"
            "length (planned wd4) \<le> Suc (length (planned wd3))" by blast
      have idx: "map step_index new = map int [1..<length new + 1]"
        using p unfolding run_post_def indices_from_one [symmetric] by simp
      have fin: "(\<exists>e. res = failed_run e) \<or>
          (\<exists>ses0 ses pl err. res = (ses, pl, new, err) \<and> verdict (run_budget E) (sess_status ses) new err \<and>
             sess_id ses = task_id t0 @ ''-session'' \<and> sess_id ses0 = sess_id ses \<and> sess_status ses0 = ss_running \<and>
             saved wd' = saved wd @ [(ses0, None), (ses, None)])"
        using p ids s3(4) ok w4(3) unfolding run_post_def by (fastforce simp: is_ok_def)
      have allowed: "list_all (\<lambda>(c, tr). is_allowed_tool (tc_name c) (list_tool_info P)) (concat (map step_calls new) @ xs)"
        using p by (fastforce simp: run_post_def call_fits_def list_all_iff)
      have "run_report E t0 wd res wd' new xs"
        unfolding run_report_def
        using p idx fin allowed s3 w4 Some by (auto simp: run_post_def call_fits_def list_all_iff)
      then show ?thesis by blast
    qed
  qed
qed


section \<open>A run returns a session\<close>

text \<open>
  \<^verbatim>\<open>SaveSession\<close> and the event channel are the only calls whose failure keeps the session from the
  caller: when the store always saves and there is no event channel, a run returns one.
\<close>

definition always_saves :: "'w ports \<Rightarrow> bool" where
  "always_saves P \<longleftrightarrow> (\<forall>ses w. fst (sp_save_session (po_sessions P) ses w) = None)"

lemma save_session_ok: "always_saves P \<Longrightarrow> fst (save_session P ses wd) = Inr ()"
  by (simp add: always_saves_def save_session_def checked_def perform_def from_error_def split: prod.splits)
     (metis fst_conv option.simps(4))

lemma emit_event_ok: "eng_events E = None \<Longrightarrow> fst (emit_event E mk wd) = Inr ()"
  by (simp add: emit_event_def split: prod.splits)

lemmas emits_ok = emit_error_def emit_session_complete_def emit_event_ok

definition run_id :: "run_result \<times> 'w world \<Rightarrow> string" where
  "run_id r = sess_id (fst (fst r))"

lemma fail_session_id:
  assumes "always_saves P" "eng_events E = None"
  shows "run_id (fail_session E P ses status pl steps cause wd) = sess_id ses"
  using save_session_ok [OF assms(1)] emit_event_ok [OF assms(2)]
  by (auto simp: fail_session_def seq_def Let_def run_id_def emit_error_def emit_session_complete_def ret_def
      split: prod.splits sum.splits option.splits) (metis fst_conv sum.distinct(1))+

lemma finish_run_id:
  assumes "always_saves P" "eng_events E = None"
  shows "run_id (finish_run E P ses pl steps out wd) = sess_id ses"
  using save_session_ok [OF assms(1)] emit_event_ok [OF assms(2)]
  by (auto simp: finish_run_def seq_def Let_def run_id_def emit_session_complete_def
      split: prod.splits sum.splits) (metis fst_conv sum.distinct(1))+

lemma run_loop_id:
  assumes "always_saves P" "eng_events E = None"
  shows "run_id (run_loop n E P proto st dl mr rt ses pl steps wd) = sess_id ses"
proof (induction n arbitrary: rt ses pl steps wd)
  case 0
  then show ?case by (simp add: fail_session_id [OF assms])
next
  case (Suc left)
  have after: "run_id (after_step left E P proto mr rt a v ses1 pl steps1
      (\<lambda>ses2 pl1. run_loop left E P proto st dl mr (rt + 1) ses2 pl1 steps1) wd1) = sess_id ses1"
    for a v ses1 steps1 wd1
    by (simp add: after_step_def next_round_def Let_def fail_session_id [OF assms] finish_run_id [OF assms] Suc.IH
        split: prod.splits sum.splits)
  show ?case
    by (auto simp: start_round_def make_step_def Let_def fail_session_id [OF assms] after
        split: prod.splits sum.splits option.splits)
qed

lemma run_session_id:
  assumes "always_saves P" "eng_events E = None"
  shows "run_id (run_session E P proto st ses timestamp wd) = sess_id ses"
  by (simp add: run_session_def fail_session_id [OF assms] run_loop_id [OF assms] split: prod.splits sum.splits)
lemma allowed_names: "is_allowed_tool n infos \<longleftrightarrow> infos = [] \<or> n \<in> ti_name ` set infos"
  by (auto simp: is_allowed_tool_def list_ex_iff)

section \<open>A concrete host\<close>

text \<open>
  The world is a clock.  The model reads a file first and then completes; the verifier passes a
  final response; every store operation succeeds.
\<close>

definition ex_call :: tool_call where
  "ex_call = \<lparr>tc_name = ''read_file'', tc_input = ''README.md'', tc_timeout = 0\<rparr>"

definition ex_model :: "nat model" where
  "ex_model =
     \<lparr>md_create_plan = (\<lambda>t ses mem w. (Inr (zero_plan\<lparr>plan_summary := ''read, then answer''\<rparr>), Suc w)),
      md_next_action = (\<lambda>t ses pl steps mem infos w.
        (Inr (if steps = []
              then \<lparr>act_type = at_tool_call, act_summary = ''read'', act_tool_call = Some ex_call, act_response = []\<rparr>
              else \<lparr>act_type = at_complete, act_summary = ''answer'', act_tool_call = None, act_response = ''ok''\<rparr>), Suc w)),
      md_observe = (\<lambda>t ses pl a r w.
        (Inr \<lparr>obs_summary = [], obs_tool_result = None, obs_final_response = [], obs_evidence = None\<rparr>, Suc w)),
      md_provenance = None\<rparr>"

definition ex_engine :: "nat engine" where
  "ex_engine =
     \<lparr>eng_model = Some ex_model,
      eng_tools = Some \<lparr>tp_execute = (\<lambda>c w.
          ((\<lparr>tr_tool_name = tc_name c, tr_output = ''text'', tr_error = [], tr_duration = 1\<rparr>, None), Suc w)),
        tp_infos = Some [\<lparr>ti_name = ''read_file'', ti_description = [], ti_schema = []\<rparr>]\<rparr>,
      eng_memory = Some \<lparr>mp_remember = (\<lambda>sid obs w. (None, w)), mp_recall = (\<lambda>q w. (Inr [], w))\<rparr>,
      eng_sessions = Some \<lparr>sp_save_session = (\<lambda>ses w. (None, w)), sp_save_plan = (\<lambda>pl w. (None, w)),
        sp_append_step = (\<lambda>sid st w. (None, w))\<rparr>,
      eng_verifier = Some \<lparr>vp_verify = (\<lambda>t ses pl steps obs w.
          (Inr (if obs_final_response obs = []
                then \<lparr>vr_passed = False, vr_status = vs_failed, vr_reason = ''no answer''\<rparr>
                else \<lparr>vr_passed = True, vr_status = vs_passed, vr_reason = ''answered''\<rparr>), w)),
        vp_provenance = (\<lambda>w. None)\<rparr>,
      eng_strategies = None, eng_strategy_id = [], eng_events = None,
      eng_clock = None, eng_time = (\<lambda>w. (int w, Suc w)), eng_ctx_err = (\<lambda>w. (None, w)),
      eng_max_steps = 3, eng_max_retries = 2, eng_session_timeout = 0\<rparr>"

definition ex_task :: task where
  "ex_task = \<lparr>task_id = ''t1'', task_description = ''read the file'', task_goal = ''answer'', task_category = cat_general,
     task_protocol_hint = [], task_verification_policy = [], task_created_at = 0\<rparr>"

definition ex_world :: "nat world" where
  "ex_world = \<lparr>wd_state = 1, wd_log = []\<rparr>"

lemma ex_resolves: "is_ok (fst (resolve_strategy ex_engine (snd (engine_now ex_engine ex_world))))"
  by code_simp

section \<open>Properties\<close>

text \<open>
  C1. Every run ends in exactly one of two ways.  Either it returns nothing but an error, or it returns
  a session whose status is justified by the steps of the run: success needs a last step that did not
  ask for input and passed verification, blocked_input a last step that asked for input,
  budget_exceeded as many steps as \<open>MaxSteps\<close> allows and none that ends a run,
  verification_failed the retry-budget error; interrupted and fatal_error carry an error.  The
  returned session was saved last and successfully, after a first save of the same session as running.
\<close>

theorem engine_run_verdict:
  "\<exists>wd' res. engine_run E t wd = (res, wd') \<and>
     ((\<exists>e. res = failed_run e) \<or>
      (\<exists>ses0 ses pl steps err. res = (ses, pl, steps, err) \<and>
         verdict (run_budget E) (sess_status ses) steps err \<and>
         sess_id ses = task_id t @ ''-session'' \<and> sess_id ses0 = sess_id ses \<and> sess_status ses0 = ss_running \<and>
         saved wd' = saved wd @ [(ses0, None), (ses, None)]))"
proof -
  obtain res wd' where r: "engine_run E t wd = (res, wd')" by fastforce
  from engine_run_report [OF r] obtain new xs where "run_report E t wd res wd' new xs" by blast
  with r show ?thesis by (intro exI [of _ wd'] exI [of _ res] conjI) (auto simp: run_report_def)
qed

text \<open>
  C14. The steps a run appends to the store are numbered 1, 2, 3, \<dots>; there are at most \<open>MaxSteps\<close> of
  them (one when it is not positive) and at most one more than \<open>MaxRetries\<close>, only the last of them
  may be one that ends a run, and a returned session comes with exactly these steps.  The model is
  asked for at most one plan more than there are retries.
\<close>

theorem engine_run_steps:
  "\<exists>wd' res new. engine_run E t wd = (res, wd') \<and>
     map fst (appended wd') = map fst (appended wd) @ new \<and>
     map step_index new = map int [1..<length new + 1] \<and>
     length new \<le> run_budget E \<and> int (length new) \<le> run_retries E + 1 \<and>
     list_all (\<lambda>s. \<not> step_ends s) (butlast new) \<and>
     int (length (planned wd')) \<le> int (length (planned wd)) + run_retries E + 1 \<and>
     ((\<exists>e. res = failed_run e) \<or> (\<exists>ses pl err. res = (ses, pl, new, err)))"
proof -
  obtain res wd' where r: "engine_run E t wd = (res, wd')" by fastforce
  from engine_run_report [OF r] obtain new xs where "run_report E t wd res wd' new xs" by blast
  with r show ?thesis
    by (intro exI [of _ wd'] exI [of _ res] exI [of _ new] conjI) (auto simp: run_report_def)
qed

text \<open>
  C2. The tool calls of a run are those of the steps it appends, in order, each with the result its
  step records, and at most one more, made by an iteration that failed afterwards; every one of them
  is for a tool of the list the model was given, or that list is empty, which allows any tool (and with
  the repository's executors it always is).
\<close>

theorem engine_tools_allowed:
  "\<exists>wd' res new xs. engine_run E t wd = (res, wd') \<and>
     map fst (appended wd') = map fst (appended wd) @ new \<and>
     executed wd' = executed wd @ concat (map step_calls new) @ xs \<and> length xs \<le> 1 \<and>
     (case required_ports E of
        None \<Rightarrow> new = [] \<and> xs = []
      | Some P \<Rightarrow> list_all (\<lambda>(c, tr). list_tool_info P = [] \<or> tc_name c \<in> ti_name ` set (list_tool_info P))
          (concat (map step_calls new) @ xs))"
proof -
  obtain res wd' where r: "engine_run E t wd = (res, wd')" by fastforce
  from engine_run_report [OF r] obtain new xs where "run_report E t wd res wd' new xs" by blast
  with r show ?thesis
    by (intro exI [of _ wd'] exI [of _ res] exI [of _ new] exI [of _ xs] conjI)
       (auto simp: run_report_def allowed_names split: option.splits)
qed

text \<open>
  C15. With a store that always saves, no event channel and a strategy that resolves, a run never
  loses its session: it returns one, with a status its steps justify.
\<close>

theorem engine_run_returns:
  assumes "required_ports E = Some P" "always_saves P" "eng_events E = None"
    and "is_ok (fst (resolve_strategy E (snd (engine_now E wd))))"
  shows "\<exists>wd' ses pl steps err. engine_run E t wd = ((ses, pl, steps, err), wd') \<and>
     sess_id ses = task_id t @ ''-session'' \<and> verdict (run_budget E) (sess_status ses) steps err"
proof -
  obtain ses pl steps err wd' where r: "engine_run E t wd = ((ses, pl, steps, err), wd')"
    by (metis prod_cases4 surj_pair)
  obtain timestamp wd1 where n: "engine_now E wd = (timestamp, wd1)" by fastforce
  with assms(4) obtain st wd2 where s: "resolve_strategy E wd1 = (Inr st, wd2)"
    by (cases "resolve_strategy E wd1") (auto simp: is_ok_def split: sum.splits)
  have "run_id (engine_run E t wd) = task_id t @ ''-session''"
    using save_session_ok [OF assms(2)] n s assms(1)
    by (auto simp: engine_run_def Let_def run_session_id [OF assms(2,3)] new_session_def split: prod.splits sum.splits)
       (metis fst_conv sum.distinct(1))+
  then have "sess_id ses = task_id t @ ''-session''" using r by (simp add: run_id_def)
  moreover from engine_run_report [OF r] obtain new xs where "run_report E t wd (ses, pl, steps, err) wd' new xs" by blast
  ultimately have "verdict (run_budget E) (sess_status ses) steps err"
    by (auto simp: run_report_def failed_run_def zero_session_def)
  with r \<open>sess_id ses = _\<close> show ?thesis by blast
qed

lemma engine_run_returns_witness:
  "\<exists>wd' ses pl steps err. engine_run ex_engine ex_task ex_world = ((ses, pl, steps, err), wd') \<and>
     sess_id ses = task_id ex_task @ ''-session'' \<and> verdict (run_budget ex_engine) (sess_status ses) steps err"
  by (rule engine_run_returns [OF _ _ _ ex_resolves])
     (auto simp: required_ports_def ex_engine_def always_saves_def)

end
