(* ===== verification/Session_Manager.thy ===== *)
theory Session_Manager
  imports Provenance Events
begin

text \<open>
  The session manager (\<^verbatim>\<open>internal/runtime/session_manager.go\<close>): its actors, the goroutine
  \<^verbatim>\<open>runActor\<close> of each, the calls of its clients and of \<^verbatim>\<open>Shutdown\<close>.

  A pointer to an actor is its position in the list of all actors that were created, which is
  never shortened; the manager's map \<^verbatim>\<open>actors\<close> is an association list.  Goroutines and clients
  interleave: \<open>sm_act\<close> is the effect of one action, from one lock to the next or around one
  blocking call, and gives \<^term>\<open>None\<close> when the action is not enabled.  The session runner, its
  factory, the clock and the contexts are chosen by the environment, as arguments of the actions.
\<close>

section \<open>Actors\<close>

type_synonym actor_state = string
abbreviation ast_pending :: actor_state where "ast_pending \<equiv> ''pending''"
abbreviation ast_running :: actor_state where "ast_running \<equiv> ''running''"
abbreviation ast_completed :: actor_state where "ast_completed \<equiv> ''completed''"
abbreviation ast_failed :: actor_state where "ast_failed \<equiv> ''failed''"
abbreviation ast_cancelled :: actor_state where "ast_cancelled \<equiv> ''cancelled''"

definition session_already_active :: go_error where
  "session_already_active = Message ''runtime session already active''"

definition active_session_limit :: go_error where
  "active_session_limit = Message ''runtime active session limit exceeded''"

definition session_manager_closed :: go_error where
  "session_manager_closed = Message ''runtime session manager is shutting down''"

text \<open>A request; a nil factory and a nil finalizer are \<^term>\<open>False\<close>.\<close>

record start_request =
  sq_session_id :: string
  sq_task :: task
  sq_new_runner :: bool
  sq_persist_final :: bool

record actor_result =
  ar_session_id :: string
  ar_task :: task
  ar_state :: actor_state
  ar_session :: session
  ar_plan :: plan
  ar_steps :: "step list"
  ar_err :: "go_error option"
  ar_created_at :: gotime
  ar_started_at :: gotime
  ar_finished_at :: gotime
  ar_cancelled :: bool

text \<open>Where the goroutine of an actor is: the next thing it does.\<close>

datatype actor_phase =
    Spawned | Attached | Building | Running | Finishing | Removed
  | Persisted | ContextDone | EventsClosed | DoneClosed | Exited

text \<open>
  \<open>sa_has_cancel\<close> tells whether the field \<^verbatim>\<open>cancel\<close> was set, \<open>sa_ctx_cancelled\<close> whether that
  function was called, and \<open>sa_parent_done\<close> whether the context of \<^verbatim>\<open>Start\<close> is done: the
  runner's context is done in either case.
\<close>

record session_actor =
  sa_session_id :: string
  sa_request :: start_request
  sa_events :: "streaming_event event_channel"
  sa_done :: bool
  sa_has_cancel :: bool
  sa_ctx_cancelled :: bool
  sa_parent_done :: bool
  sa_state :: actor_state
  sa_created_at :: gotime
  sa_started_at :: gotime
  sa_finished_at :: gotime
  sa_err :: "go_error option"
  sa_result :: "actor_result option"
  sa_cancelled :: bool
  sa_cancel_cause :: "go_error option"
  sa_finalized :: bool
  sa_phase :: actor_phase

definition runner_ctx_done :: "session_actor \<Rightarrow> bool" where
  "runner_ctx_done a = (sa_ctx_cancelled a \<or> sa_parent_done a)"

definition validate_start_request :: "start_request \<Rightarrow> go_error option" where
  "validate_start_request req =
     (if \<not> sq_new_runner req then Some (Message ''runtime session start requires runner factory'')
      else if task_id (sq_task req) = [] then Some (Message ''runtime session start requires task id'')
      else if sq_session_id req = [] then Some (Message ''runtime session start requires session id'')
      else if task_id (sq_task req) \<noteq> sq_session_id req
      then Some (Message (''runtime session start requires task id '' @ quote_str (sq_session_id req) @
             '' to match session id''))
      else None)"

definition classify_actor_state :: "session \<Rightarrow> go_error option \<Rightarrow> bool \<Rightarrow> actor_state" where
  "classify_actor_state ses run_err cancelled =
     (if cancelled \<or> (case run_err of None \<Rightarrow> False | Some e \<Rightarrow> errors_is e Canceled \<or> errors_is e DeadlineExceeded) \<or>
         sess_status ses = ss_interrupted
      then ast_cancelled
      else if run_err \<noteq> None then ast_failed
      else if sess_status ses \<in> {ss_fatal_error, ss_verification_failed, ss_budget_exceeded} then ast_failed
      else if sess_status ses = ss_interrupted then ast_cancelled
      else ast_completed)"

definition new_actor :: "int \<Rightarrow> start_request \<Rightarrow> gotime \<Rightarrow> session_actor" where
  "new_actor buffer req now =
     \<lparr>sa_session_id = sq_session_id req, sa_request = req, sa_events = new_event_channel buffer,
      sa_done = False, sa_has_cancel = False, sa_ctx_cancelled = False, sa_parent_done = False,
      sa_state = ast_pending, sa_created_at = now, sa_started_at = 0, sa_finished_at = 0,
      sa_err = None, sa_result = None, sa_cancelled = False, sa_cancel_cause = None,
      sa_finalized = False, sa_phase = Spawned\<rparr>"

definition attach_cancel :: "session_actor \<Rightarrow> session_actor" where
  "attach_cancel a = a\<lparr>sa_has_cancel := True\<rparr>"

definition transition_to_running :: "gotime \<Rightarrow> session_actor \<Rightarrow> session_actor" where
  "transition_to_running started a = a\<lparr>sa_state := ast_running, sa_started_at := started\<rparr>"

definition mark_cancelled :: "go_error option \<Rightarrow> session_actor \<Rightarrow> session_actor" where
  "mark_cancelled cause a =
     (let a1 = a\<lparr>sa_cancelled := True, sa_cancel_cause := cause\<rparr> in
      if sa_has_cancel a then a1\<lparr>sa_ctx_cancelled := True\<rparr> else a1)"

definition finish :: "gotime \<Rightarrow> session \<Rightarrow> plan \<Rightarrow> step list \<Rightarrow> go_error option \<Rightarrow> session_actor \<Rightarrow> session_actor" where
  "finish finished ses pl steps run_err a =
     (let state = classify_actor_state ses run_err (sa_cancelled a);
          result = \<lparr>ar_session_id = sa_session_id a, ar_task = sq_task (sa_request a), ar_state = state,
            ar_session = ses, ar_plan = pl, ar_steps = steps, ar_err = run_err,
            ar_created_at = sa_created_at a, ar_started_at = sa_started_at a, ar_finished_at = finished,
            ar_cancelled = sa_cancelled a\<rparr>
      in a\<lparr>sa_state := state, sa_finished_at := finished, sa_err := run_err, sa_result := Some result,
           sa_finalized := True\<rparr>)"

text \<open>\<^verbatim>\<open>Result\<close>; the stored result is read only once the actor is final.\<close>

definition actor_result_of :: "session_actor \<Rightarrow> actor_result option" where
  "actor_result_of a = (if sa_finalized a then sa_result a else None)"

section \<open>The manager\<close>

text \<open>
  What a call of \<^verbatim>\<open>Shutdown\<close> does next.  \<open>FirstWait\<close> and \<open>SecondWait\<close> are its two
  \<^verbatim>\<open>select\<close> statements; \<open>Cancelling\<close> holds the actors that are still to be marked and what
  follows; \<open>DrainThen\<close> waits for all actors and returns the error.
\<close>

datatype shutdown_phase =
    NoShutdown | FirstWait | Cancelling "go_error option" "nat list" shutdown_phase
  | SecondWait | DrainThen go_error | ShutdownReturned "go_error option"

record manager_options =
  mo_active_session_cap :: int
  mo_shutdown_timeout :: duration
  mo_event_buffer_size :: int

record session_manager =
  smg_pool :: "session_actor list"
  smg_actors :: "(string \<times> nat) list"
  smg_active_count :: int
  smg_accepting :: bool
  smg_cap :: int
  smg_shutdown_timeout :: duration
  smg_buffer_size :: int
  smg_finals :: "actor_result list"
  smg_shutdown :: shutdown_phase

definition default_active_session_cap :: int where "default_active_session_cap = 8"
definition default_shutdown_timeout :: duration where "default_shutdown_timeout = 30 * second"
definition default_event_buffer_size :: int where "default_event_buffer_size = 64"
definition default_subscriber_buffer :: int where "default_subscriber_buffer = 256"

definition new_session_manager :: "manager_options \<Rightarrow> session_manager" where
  "new_session_manager opts =
     \<lparr>smg_pool = [], smg_actors = [], smg_active_count = 0, smg_accepting = True,
      smg_cap = (if mo_active_session_cap opts \<le> 0 then default_active_session_cap else mo_active_session_cap opts),
      smg_shutdown_timeout =
        (if mo_shutdown_timeout opts \<le> 0 then default_shutdown_timeout else mo_shutdown_timeout opts),
      smg_buffer_size =
        (if mo_event_buffer_size opts \<le> 0 then default_event_buffer_size else mo_event_buffer_size opts),
      smg_finals = [], smg_shutdown = NoShutdown\<rparr>"

text \<open>\<^verbatim>\<open>Start\<close> with its goroutine; the nil manager is \<^term>\<open>None\<close>.\<close>

definition sm_start ::
  "start_request \<Rightarrow> gotime \<Rightarrow> session_manager option \<Rightarrow> (go_error, nat) result \<times> session_manager option" where
  "sm_start req now m =
     (case m of
        None \<Rightarrow> (Inl (Message ''runtime session manager is nil''), None)
      | Some s \<Rightarrow>
          (case validate_start_request req of
             Some e \<Rightarrow> (Inl e, Some s)
           | None \<Rightarrow>
               if \<not> smg_accepting s then (Inl session_manager_closed, Some s)
               else if map_of (smg_actors s) (sq_session_id req) \<noteq> None then (Inl session_already_active, Some s)
               else if smg_active_count s \<ge> smg_cap s then (Inl active_session_limit, Some s)
               else (Inr (length (smg_pool s)),
                     Some (s\<lparr>smg_pool := smg_pool s @ [new_actor (smg_buffer_size s) req now],
                             smg_actors := (sq_session_id req, length (smg_pool s)) # smg_actors s,
                             smg_active_count := smg_active_count s + 1\<rparr>))))"

definition sm_lookup :: "string \<Rightarrow> session_manager option \<Rightarrow> nat option" where
  "sm_lookup sid m = (case m of None \<Rightarrow> None | Some s \<Rightarrow> map_of (smg_actors s) sid)"

definition sm_active_count :: "session_manager option \<Rightarrow> int" where
  "sm_active_count m = (case m of None \<Rightarrow> 0 | Some s \<Rightarrow> smg_active_count s)"

definition sm_is_accepting :: "session_manager option \<Rightarrow> bool" where
  "sm_is_accepting m = (case m of None \<Rightarrow> False | Some s \<Rightarrow> smg_accepting s)"

definition sm_active_session_cap :: "session_manager option \<Rightarrow> int" where
  "sm_active_session_cap m = (case m of None \<Rightarrow> 0 | Some s \<Rightarrow> smg_cap s)"

text \<open>The part of \<^verbatim>\<open>completeActor\<close> under the lock.\<close>

definition remove_actor :: "string \<Rightarrow> session_manager \<Rightarrow> session_manager" where
  "remove_actor sid s =
     (let s1 = s\<lparr>smg_actors := filter (\<lambda>p. fst p \<noteq> sid) (smg_actors s)\<rparr> in
      if smg_active_count s > 0 then s1\<lparr>smg_active_count := smg_active_count s - 1\<rparr> else s1)"

text \<open>\<^verbatim>\<open>m.wg\<close> is at zero: every goroutine has passed its deferred \<^verbatim>\<open>wg.Done\<close>.\<close>

definition all_done :: "session_manager \<Rightarrow> bool" where
  "all_done s = list_all (\<lambda>a. sa_phase a = Exited) (smg_pool s)"

definition set_actor :: "nat \<Rightarrow> session_actor \<Rightarrow> session_manager \<Rightarrow> session_manager" where
  "set_actor i a s = s\<lparr>smg_pool := (smg_pool s)[i := a]\<rparr>"

section \<open>Actions\<close>

text \<open>What the factory of a request returns: an error, a nil runner, or a runner.\<close>

datatype built = BuildError go_error | BuildNil | BuildRunner

datatype sm_action =
    CallStart start_request gotime
  | CallCancel nat "go_error option"
  | ParentDone nat
  | ActAttach nat
  | ActRun nat gotime
  | ActBuild nat built gotime
  | ActEmit nat streaming_event
  | ActReturn nat gotime session plan "step list" "go_error option"
  | ActComplete nat
  | ActPersist nat
  | ActCancelContext nat
  | ActCloseEvents nat
  | ActCloseDone nat
  | ActExit nat
  | ShutdownBegin
  | ShutdownWaited
  | ShutdownTimeout
  | ShutdownContext go_error
  | ShutdownCancelOne

definition actor_at :: "nat \<Rightarrow> actor_phase \<Rightarrow> session_manager \<Rightarrow> session_actor option" where
  "actor_at i p s =
     (if i < length (smg_pool s) \<and> sa_phase (smg_pool s ! i) = p then Some (smg_pool s ! i) else None)"

definition move_actor ::
  "nat \<Rightarrow> actor_phase \<Rightarrow> actor_phase \<Rightarrow> (session_actor \<Rightarrow> session_actor) \<Rightarrow> session_manager \<Rightarrow> session_manager option" where
  "move_actor i p q f s = map_option (\<lambda>a. set_actor i ((f a)\<lparr>sa_phase := q\<rparr>) s) (actor_at i p s)"

definition nil_runner :: go_error where
  "nil_runner = Message ''runtime session runner factory returned nil runner''"

text \<open>The goroutine \<^verbatim>\<open>runActor\<close>, with the deferred calls in the order they run.\<close>

fun run_actor_act :: "sm_action \<Rightarrow> session_manager \<Rightarrow> session_manager option" where
  "run_actor_act (ActAttach i) s = move_actor i Spawned Attached attach_cancel s"
| "run_actor_act (ActRun i now) s = move_actor i Attached Building (transition_to_running now) s"
| "run_actor_act (ActBuild i (BuildError e) now) s =
     move_actor i Building Finishing (finish now zero_session zero_plan [] (Some e)) s"
| "run_actor_act (ActBuild i BuildNil now) s =
     move_actor i Building Finishing (finish now zero_session zero_plan [] (Some nil_runner)) s"
| "run_actor_act (ActBuild i BuildRunner now) s = move_actor i Building Running (\<lambda>a. a) s"
| "run_actor_act (ActEmit i ev) s =
     (case actor_at i Running s of
        None \<Rightarrow> None
      | Some a \<Rightarrow>
          (case ec_emit ev (Some (sa_events a)) of
             Done (err, Some ec) \<Rightarrow> Some (set_actor i (a\<lparr>sa_events := ec\<rparr>) s)
           | _ \<Rightarrow> None))"
| "run_actor_act (ActReturn i now ses pl steps err) s = move_actor i Running Finishing (finish now ses pl steps err) s"
| "run_actor_act (ActComplete i) s =
     map_option (\<lambda>s1. remove_actor (sq_session_id (sa_request (smg_pool s ! i))) s1)
       (move_actor i Finishing Removed (\<lambda>a. a) s)"
| "run_actor_act (ActPersist i) s =
     (case actor_at i Removed s of
        None \<Rightarrow> None
      | Some a \<Rightarrow>
          map_option
            (\<lambda>s1. s1\<lparr>smg_finals := smg_finals s1 @
               (case actor_result_of a of
                  Some r \<Rightarrow> if sq_persist_final (sa_request a) then [r] else []
                | None \<Rightarrow> [])\<rparr>)
            (move_actor i Removed Persisted (\<lambda>a. a) s))"
| "run_actor_act (ActCancelContext i) s = move_actor i Persisted ContextDone (\<lambda>a. a\<lparr>sa_ctx_cancelled := True\<rparr>) s"
| "run_actor_act (ActCloseEvents i) s =
     (case actor_at i ContextDone s of
        None \<Rightarrow> None
      | Some a \<Rightarrow>
          (case ec_close (Some (sa_events a)) of
             Done (Some ec) \<Rightarrow> Some (set_actor i (a\<lparr>sa_events := ec, sa_phase := EventsClosed\<rparr>) s)
           | _ \<Rightarrow> None))"
| "run_actor_act (ActCloseDone i) s = move_actor i EventsClosed DoneClosed (\<lambda>a. a\<lparr>sa_done := True\<rparr>) s"
| "run_actor_act (ActExit i) s = move_actor i DoneClosed Exited (\<lambda>a. a) s"
| "run_actor_act _ s = None"

text \<open>\<^verbatim>\<open>Shutdown\<close>: the actors that \<^verbatim>\<open>cancelAllActive\<close> reads from the map, then its branches.\<close>

definition begin_cancel_all :: "go_error option \<Rightarrow> shutdown_phase \<Rightarrow> session_manager \<Rightarrow> session_manager" where
  "begin_cancel_all cause after s = s\<lparr>smg_shutdown := Cancelling cause (map snd (smg_actors s)) after\<rparr>"

fun shutdown_act :: "sm_action \<Rightarrow> session_manager \<Rightarrow> session_manager option" where
  "shutdown_act ShutdownBegin s =
     (case smg_shutdown s of
        NoShutdown \<Rightarrow> Some (s\<lparr>smg_accepting := False, smg_shutdown := FirstWait\<rparr>)
      | ShutdownReturned e \<Rightarrow> Some (s\<lparr>smg_shutdown := FirstWait\<rparr>)
      | _ \<Rightarrow> None)"
| "shutdown_act ShutdownWaited s =
     (if \<not> all_done s then None
      else (case smg_shutdown s of
              FirstWait \<Rightarrow> Some (s\<lparr>smg_shutdown := ShutdownReturned None\<rparr>)
            | SecondWait \<Rightarrow> Some (s\<lparr>smg_shutdown := ShutdownReturned None\<rparr>)
            | DrainThen e \<Rightarrow> Some (s\<lparr>smg_shutdown := ShutdownReturned (Some e)\<rparr>)
            | _ \<Rightarrow> None))"
| "shutdown_act ShutdownTimeout s =
     (case smg_shutdown s of
        FirstWait \<Rightarrow> Some (begin_cancel_all (Some DeadlineExceeded) SecondWait s)
      | _ \<Rightarrow> None)"
| "shutdown_act (ShutdownContext e) s =
     (case smg_shutdown s of
        FirstWait \<Rightarrow> Some (begin_cancel_all (Some e) (DrainThen e) s)
      | SecondWait \<Rightarrow> Some (s\<lparr>smg_shutdown := ShutdownReturned (Some e)\<rparr>)
      | _ \<Rightarrow> None)"
| "shutdown_act ShutdownCancelOne s =
     (case smg_shutdown s of
        Cancelling cause [] after \<Rightarrow> Some (s\<lparr>smg_shutdown := after\<rparr>)
      | Cancelling cause (i # is) after \<Rightarrow>
          Some ((set_actor i (mark_cancelled cause (smg_pool s ! i)) s)\<lparr>smg_shutdown := Cancelling cause is after\<rparr>)
      | _ \<Rightarrow> None)"
| "shutdown_act _ s = None"

text \<open>The calls of the clients and of the environment; a refused start changes nothing.\<close>

fun client_act :: "sm_action \<Rightarrow> session_manager \<Rightarrow> session_manager option" where
  "client_act (CallStart req now) s = snd (sm_start req now (Some s))"
| "client_act (CallCancel i cause) s =
     (if i < length (smg_pool s) then Some (set_actor i (mark_cancelled cause (smg_pool s ! i)) s) else None)"
| "client_act (ParentDone i) s =
     (if i < length (smg_pool s) then Some (set_actor i ((smg_pool s ! i)\<lparr>sa_parent_done := True\<rparr>) s) else None)"
| "client_act _ s = None"

definition sm_act :: "sm_action \<Rightarrow> session_manager \<Rightarrow> session_manager option" where
  "sm_act x s =
     (case client_act x s of
        Some s' \<Rightarrow> Some s'
      | None \<Rightarrow> (case shutdown_act x s of Some s' \<Rightarrow> Some s' | None \<Rightarrow> run_actor_act x s))"

fun sm_acts :: "sm_action list \<Rightarrow> session_manager \<Rightarrow> session_manager option" where
  "sm_acts [] s = Some s"
| "sm_acts (x # xs) s = (case sm_act x s of None \<Rightarrow> None | Some s' \<Rightarrow> sm_acts xs s')"

inductive sm_reachable :: "manager_options \<Rightarrow> session_manager \<Rightarrow> bool" for opts where
  start: "sm_reachable opts (new_session_manager opts)"
| act: "sm_reachable opts s \<Longrightarrow> sm_act x s = Some s' \<Longrightarrow> sm_reachable opts s'"

end
