(* ===== verification/Session_Manager_Correct.thy ===== *)
theory Session_Manager_Correct
  imports Session_Manager
begin

text \<open>
  The invariant of the session manager: what its map, its counter and its actors say of each other
  in every reachable state, and that every action keeps it.
\<close>

section \<open>Phases\<close>

primrec phase_rank :: "actor_phase \<Rightarrow> nat" where
  "phase_rank Spawned = 0"
| "phase_rank Attached = 1"
| "phase_rank Building = 2"
| "phase_rank Running = 3"
| "phase_rank Finishing = 4"
| "phase_rank Removed = 5"
| "phase_rank Persisted = 6"
| "phase_rank ContextDone = 7"
| "phase_rank EventsClosed = 8"
| "phase_rank DoneClosed = 9"
| "phase_rank Exited = 10"

abbreviation rank :: "session_actor \<Rightarrow> nat" where
  "rank a \<equiv> phase_rank (sa_phase a)"

lemma rank_le_10: "phase_rank p \<le> 10"
  by (cases p) simp_all

lemma exited_iff: "sa_phase a = Exited \<longleftrightarrow> 10 \<le> rank a"
  by (cases "sa_phase a") simp_all

text \<open>An actor is live until \<^verbatim>\<open>completeActor\<close> takes it out of the map.\<close>

definition live :: "session_actor \<Rightarrow> bool" where
  "live a \<longleftrightarrow> rank a \<le> 4"

section \<open>One actor\<close>

definition result_ok :: "session_actor \<Rightarrow> actor_result \<Rightarrow> bool" where
  "result_ok a r \<longleftrightarrow>
     ar_state r = sa_state a \<and> ar_state r = classify_actor_state (ar_session r) (ar_err r) (ar_cancelled r) \<and>
     ar_session_id r = sa_session_id a \<and> ar_task r = sq_task (sa_request a) \<and> ar_err r = sa_err a \<and>
     (ar_cancelled r \<longrightarrow> sa_cancelled a)"

definition actor_ok :: "session_actor \<Rightarrow> bool" where
  "actor_ok a \<longleftrightarrow>
     sa_session_id a = sq_session_id (sa_request a) \<and>
     (sa_finalized a \<longleftrightarrow> 4 \<le> rank a) \<and> (sa_done a \<longleftrightarrow> 9 \<le> rank a) \<and> (sa_has_cancel a \<longleftrightarrow> 1 \<le> rank a) \<and>
     (7 \<le> rank a \<longrightarrow> sa_ctx_cancelled a) \<and>
     (sa_state a = ast_pending \<longleftrightarrow> rank a \<le> 1) \<and> (sa_state a = ast_running \<longleftrightarrow> rank a = 2 \<or> rank a = 3) \<and>
     ch_closed (ec_channel (sa_events a)) = ec_closed (sa_events a) \<and> (ec_closed (sa_events a) \<longleftrightarrow> 8 \<le> rank a) \<and>
     (case sa_result a of None \<Rightarrow> \<not> sa_finalized a | Some r \<Rightarrow> sa_finalized a \<and> result_ok a r)"

lemma result_ok_simps [simp]:
  "result_ok (a\<lparr>sa_phase := p\<rparr>) r = result_ok a r" "result_ok (a\<lparr>sa_ctx_cancelled := b\<rparr>) r = result_ok a r"
  "result_ok (a\<lparr>sa_done := b\<rparr>) r = result_ok a r" "result_ok (a\<lparr>sa_parent_done := b\<rparr>) r = result_ok a r"
  "result_ok (a\<lparr>sa_events := ec\<rparr>) r = result_ok a r"
  by (simp_all add: result_ok_def)

lemma classify_final: "classify_actor_state ses e c \<in> {ast_completed, ast_failed, ast_cancelled}"
  by (simp add: classify_actor_state_def)

lemma classify_not_early [simp]:
  "classify_actor_state ses e c \<noteq> ast_pending" "classify_actor_state ses e c \<noteq> ast_running"
  by (simp_all add: classify_actor_state_def)

lemma actor_ok_new: "actor_ok (new_actor b req now)"
  by (simp add: actor_ok_def new_actor_def new_event_channel_def)

lemma actor_ok_attach: "actor_ok a \<Longrightarrow> sa_phase a = Spawned \<Longrightarrow> actor_ok ((attach_cancel a)\<lparr>sa_phase := Attached\<rparr>)"
  by (auto simp: actor_ok_def attach_cancel_def result_ok_def split: option.splits)

lemma actor_ok_run:
  "actor_ok a \<Longrightarrow> sa_phase a = Attached \<Longrightarrow> actor_ok ((transition_to_running now a)\<lparr>sa_phase := Building\<rparr>)"
  by (auto simp: actor_ok_def transition_to_running_def result_ok_def split: option.splits)

lemma result_ok_cancel: "result_ok a r \<Longrightarrow> result_ok (mark_cancelled cause a) r"
  by (auto simp: result_ok_def mark_cancelled_def Let_def)

lemma mark_cancelled_fields:
  "sa_session_id (mark_cancelled cause a) = sa_session_id a" "sa_request (mark_cancelled cause a) = sa_request a"
  "sa_finalized (mark_cancelled cause a) = sa_finalized a" "sa_done (mark_cancelled cause a) = sa_done a"
  "sa_has_cancel (mark_cancelled cause a) = sa_has_cancel a" "sa_phase (mark_cancelled cause a) = sa_phase a"
  "sa_state (mark_cancelled cause a) = sa_state a" "sa_events (mark_cancelled cause a) = sa_events a"
  "sa_result (mark_cancelled cause a) = sa_result a"
  "sa_ctx_cancelled (mark_cancelled cause a) = (sa_ctx_cancelled a \<or> sa_has_cancel a)"
  by (simp_all add: mark_cancelled_def Let_def)

lemma actor_ok_cancel: "actor_ok a \<Longrightarrow> actor_ok (mark_cancelled cause a)"
  unfolding actor_ok_def mark_cancelled_fields by (cases "sa_result a") (auto simp: result_ok_cancel)

lemma actor_ok_finish:
  "actor_ok a \<Longrightarrow> sa_phase a = Building \<or> sa_phase a = Running \<Longrightarrow>
   actor_ok ((finish now ses pl steps e a)\<lparr>sa_phase := Finishing\<rparr>)"
proof -
  assume ok: "actor_ok a" and p: "sa_phase a = Building \<or> sa_phase a = Running"
  then have "\<not> sa_finalized a" by (auto simp: actor_ok_def)
  then have "sa_result a = None" using ok by (auto simp: actor_ok_def split: option.splits)
  with ok p show ?thesis by (elim disjE) (simp_all add: actor_ok_def finish_def Let_def result_ok_def)
qed

text \<open>Steps of the goroutine that change nothing but the phase and what they are named after.\<close>

lemma actor_ok_phase:
  "actor_ok a \<Longrightarrow> sa_phase a = Building \<Longrightarrow> actor_ok (a\<lparr>sa_phase := Running\<rparr>)"
  "actor_ok a \<Longrightarrow> sa_phase a = Finishing \<Longrightarrow> actor_ok (a\<lparr>sa_phase := Removed\<rparr>)"
  "actor_ok a \<Longrightarrow> sa_phase a = Removed \<Longrightarrow> actor_ok (a\<lparr>sa_phase := Persisted\<rparr>)"
  "actor_ok a \<Longrightarrow> sa_phase a = DoneClosed \<Longrightarrow> actor_ok (a\<lparr>sa_phase := Exited\<rparr>)"
  by (auto simp: actor_ok_def split: option.splits)

lemma actor_ok_context:
  "actor_ok a \<Longrightarrow> sa_phase a = Persisted \<Longrightarrow> actor_ok (a\<lparr>sa_ctx_cancelled := True, sa_phase := ContextDone\<rparr>)"
  by (auto simp: actor_ok_def split: option.splits)

lemma actor_ok_done:
  "actor_ok a \<Longrightarrow> sa_phase a = EventsClosed \<Longrightarrow> actor_ok (a\<lparr>sa_done := True, sa_phase := DoneClosed\<rparr>)"
  by (auto simp: actor_ok_def split: option.splits)

lemma actor_ok_parent: "actor_ok a \<Longrightarrow> actor_ok (a\<lparr>sa_parent_done := True\<rparr>)"
  by (auto simp: actor_ok_def split: option.splits)

lemma actor_ok_events:
  "actor_ok a \<Longrightarrow> rank a < 8 \<Longrightarrow> ch_closed (ec_channel ec) = ec_closed ec \<Longrightarrow> ec_closed ec = False \<Longrightarrow>
   actor_ok (a\<lparr>sa_events := ec\<rparr>)"
  by (auto simp: actor_ok_def split: option.splits)

lemma actor_ok_close_events:
  "actor_ok a \<Longrightarrow> sa_phase a = ContextDone \<Longrightarrow> ch_closed (ec_channel ec) \<Longrightarrow> ec_closed ec \<Longrightarrow>
   actor_ok (a\<lparr>sa_events := ec, sa_phase := EventsClosed\<rparr>)"
  by (auto simp: actor_ok_def split: option.splits)

section \<open>The manager\<close>

text \<open>What \<^verbatim>\<open>PersistFinal\<close> has been given for an actor.\<close>

definition final_of :: "session_actor \<Rightarrow> actor_result option" where
  "final_of a = (if 6 \<le> rank a \<and> sq_persist_final (sa_request a) then sa_result a else None)"

definition shutdown_ok :: "session_manager \<Rightarrow> bool" where
  "shutdown_ok s \<longleftrightarrow>
     (smg_shutdown s \<noteq> NoShutdown \<longrightarrow> \<not> smg_accepting s) \<and>
     (case smg_shutdown s of
        Cancelling cause is after \<Rightarrow> (\<forall>i \<in> set is. i < length (smg_pool s)) \<and> (after = SecondWait \<or> (\<exists>e. after = DrainThen e))
      | ShutdownReturned None \<Rightarrow> all_done s
      | _ \<Rightarrow> True)"

definition sm_inv :: "session_manager \<Rightarrow> bool" where
  "sm_inv s \<longleftrightarrow>
     distinct (map fst (smg_actors s)) \<and>
     (\<forall>k i. (k, i) \<in> set (smg_actors s) \<longleftrightarrow>
        i < length (smg_pool s) \<and> sa_session_id (smg_pool s ! i) = k \<and> live (smg_pool s ! i)) \<and>
     smg_active_count s = int (length (smg_actors s)) \<and> smg_active_count s \<le> smg_cap s \<and>
     (\<forall>a \<in> set (smg_pool s). actor_ok a) \<and>
     mset (smg_finals s) = mset (List.map_filter final_of (smg_pool s)) \<and> shutdown_ok s"

lemma map_filter_update:
  "i < length xs \<Longrightarrow> f y = f (xs ! i) \<Longrightarrow> List.map_filter f (xs[i := y]) = List.map_filter f xs"
proof (induction xs arbitrary: i)
  case (Cons x xs)
  then show ?case by (cases i) (simp_all add: map_filter_def)
qed simp

lemma map_filter_insert:
  "i < length xs \<Longrightarrow> f (xs ! i) = None \<Longrightarrow> f y = Some r \<Longrightarrow>
   mset (List.map_filter f (xs[i := y])) = add_mset r (mset (List.map_filter f xs))"
proof (induction xs arbitrary: i)
  case (Cons x xs)
  then show ?case by (cases i) (auto simp: map_filter_def)
qed simp

lemma set_actor_simps [simp]:
  "smg_actors (set_actor i a s) = smg_actors s" "smg_active_count (set_actor i a s) = smg_active_count s"
  "smg_accepting (set_actor i a s) = smg_accepting s" "smg_cap (set_actor i a s) = smg_cap s"
  "smg_finals (set_actor i a s) = smg_finals s" "smg_shutdown (set_actor i a s) = smg_shutdown s"
  "smg_pool (set_actor i a s) = (smg_pool s)[i := a]"
  by (simp_all add: set_actor_def)

text \<open>An actor moves; the map, the finals and the counters are not concerned.\<close>

lemma shutdown_ok_set:
  "shutdown_ok s \<Longrightarrow> i < length (smg_pool s) \<Longrightarrow> (sa_phase (smg_pool s ! i) = Exited \<Longrightarrow> sa_phase a = Exited) \<Longrightarrow>
   shutdown_ok (set_actor i a s)"
  by (auto simp: shutdown_ok_def all_done_def list_all_iff nth_mem dest!: set_update_subset_insert [THEN subsetD]
       split: shutdown_phase.splits option.splits)

lemma sm_inv_set:
  assumes inv: "sm_inv s" and i: "i < length (smg_pool s)" and ok: "actor_ok a"
    and same: "live a = live (smg_pool s ! i)" "sa_session_id a = sa_session_id (smg_pool s ! i)"
      "final_of a = final_of (smg_pool s ! i)"
    and up: "sa_phase (smg_pool s ! i) = Exited \<Longrightarrow> sa_phase a = Exited"
  shows "sm_inv (set_actor i a s)"
proof -
  have "\<forall>b \<in> set ((smg_pool s)[i := a]). actor_ok b"
    using inv ok set_update_subset_insert [of "smg_pool s" i a] by (auto simp: sm_inv_def)
  moreover have "(j < length (smg_pool s) \<and> sa_session_id (smg_pool s ! j) = k \<and> live (smg_pool s ! j)) =
      (j < length (smg_pool s) \<and> sa_session_id ((smg_pool s)[i := a] ! j) = k \<and> live ((smg_pool s)[i := a] ! j))" for j k
    using same i by (cases "i = j") auto
  ultimately show ?thesis
    using inv i same(3) shutdown_ok_set [OF _ i up] by (simp add: sm_inv_def map_filter_update)
qed

lemma sm_inv_actor: "sm_inv s \<Longrightarrow> i < length (smg_pool s) \<Longrightarrow> actor_ok (smg_pool s ! i)"
  by (simp add: sm_inv_def)

lemma actor_at_Some:
  "actor_at i p s = Some a \<longleftrightarrow> i < length (smg_pool s) \<and> a = smg_pool s ! i \<and> sa_phase a = p"
  by (auto simp: actor_at_def)

text \<open>A move that leaves the actor on its side of \<^verbatim>\<open>completeActor\<close> and of \<^verbatim>\<open>PersistFinal\<close>.\<close>

lemma move_actor_inv:
  assumes inv: "sm_inv s" and m: "move_actor i p q f s = Some s'"
    and ok: "\<And>a. actor_ok a \<Longrightarrow> sa_phase a = p \<Longrightarrow> actor_ok ((f a)\<lparr>sa_phase := q\<rparr>)"
    and side: "phase_rank p \<le> 4 \<longleftrightarrow> phase_rank q \<le> 4" "6 \<le> phase_rank p \<longleftrightarrow> 6 \<le> phase_rank q" "p \<noteq> Exited"
    and frame: "\<And>a. sa_session_id (f a) = sa_session_id a" "\<And>a. sa_request (f a) = sa_request a"
      "\<And>a. 6 \<le> phase_rank p \<Longrightarrow> sa_result (f a) = sa_result a"
  shows "sm_inv s'"
proof -
  from m obtain a where a: "i < length (smg_pool s)" "a = smg_pool s ! i" "sa_phase a = p"
    and s': "s' = set_actor i ((f a)\<lparr>sa_phase := q\<rparr>) s"
    by (auto simp: move_actor_def actor_at_Some)
  show ?thesis
    unfolding s'
    by (rule sm_inv_set [OF inv a(1) ok])
       (use inv a side frame sm_inv_actor in \<open>auto simp: live_def final_of_def\<close>)
qed

lemma finish_simps [simp]:
  "sa_session_id (finish now ses pl steps e a) = sa_session_id a" "sa_request (finish now ses pl steps e a) = sa_request a"
  "sa_cancelled (finish now ses pl steps e a) = sa_cancelled a" "sa_done (finish now ses pl steps e a) = sa_done a"
  by (simp_all add: finish_def Let_def)

section \<open>The clients\<close>

lemma mark_cancelled_simps [simp]:
  "sa_phase (mark_cancelled c a) = sa_phase a" "sa_session_id (mark_cancelled c a) = sa_session_id a"
  "sa_request (mark_cancelled c a) = sa_request a" "sa_result (mark_cancelled c a) = sa_result a"
  "sa_state (mark_cancelled c a) = sa_state a" "sa_finalized (mark_cancelled c a) = sa_finalized a"
  "sa_done (mark_cancelled c a) = sa_done a" "sa_err (mark_cancelled c a) = sa_err a"
  "sa_cancelled (mark_cancelled c a)" "sa_parent_done (mark_cancelled c a) = sa_parent_done a"
  "sa_has_cancel (mark_cancelled c a) = sa_has_cancel a"
  by (simp_all add: mark_cancelled_def Let_def)

lemma sm_inv_cancel: "sm_inv s \<Longrightarrow> i < length (smg_pool s) \<Longrightarrow> sm_inv (set_actor i (mark_cancelled c (smg_pool s ! i)) s)"
  by (rule sm_inv_set) (auto simp: live_def final_of_def intro: actor_ok_cancel sm_inv_actor)

lemma sm_inv_parent: "sm_inv s \<Longrightarrow> i < length (smg_pool s) \<Longrightarrow> sm_inv (set_actor i ((smg_pool s ! i)\<lparr>sa_parent_done := True\<rparr>) s)"
  by (rule sm_inv_set) (auto simp: live_def final_of_def intro: actor_ok_parent sm_inv_actor)

text \<open>What \<^verbatim>\<open>Start\<close> does on a manager, in one equation per outcome.\<close>

definition started :: "start_request \<Rightarrow> gotime \<Rightarrow> session_manager \<Rightarrow> session_manager" where
  "started req now s =
     s\<lparr>smg_pool := smg_pool s @ [new_actor (smg_buffer_size s) req now],
       smg_actors := (sq_session_id req, length (smg_pool s)) # smg_actors s,
       smg_active_count := smg_active_count s + 1\<rparr>"

definition may_start :: "start_request \<Rightarrow> session_manager \<Rightarrow> bool" where
  "may_start req s \<longleftrightarrow> validate_start_request req = None \<and> smg_accepting s \<and>
     map_of (smg_actors s) (sq_session_id req) = None \<and> smg_active_count s < smg_cap s"

lemma sm_start_cases:
  "sm_start req now (Some s) =
     (if may_start req s then (Inr (length (smg_pool s)), Some (started req now s))
      else (fst (sm_start req now (Some s)), Some s)) \<and>
   (is_ok (fst (sm_start req now (Some s))) \<longleftrightarrow> may_start req s)"
  by (auto simp: sm_start_def may_start_def started_def split: option.splits)

lemma sm_start_snd: "snd (sm_start req now (Some s)) = Some (if may_start req s then started req now s else s)"
  by (auto simp: sm_start_def may_start_def started_def split: option.splits)

lemma sm_inv_started:
  assumes inv: "sm_inv s" and may: "may_start req s"
  shows "sm_inv (started req now s)"
proof -
  let ?n = "length (smg_pool s)" and ?a = "new_actor (smg_buffer_size s) req now"
  have a: "sa_session_id ?a = sq_session_id req" "live ?a" "final_of ?a = None"
    by (simp_all add: new_actor_def live_def final_of_def)
  have map: "(k, i) \<in> set (smg_actors (started req now s)) \<longleftrightarrow>
      i < length (smg_pool (started req now s)) \<and> sa_session_id (smg_pool (started req now s) ! i) = k \<and>
      live (smg_pool (started req now s) ! i)" for k i
    using inv a by (auto simp: sm_inv_def started_def nth_append less_Suc_eq)
  have "\<not> all_done (started req now s)" "shutdown_ok s"
    using inv by (simp_all add: all_done_def started_def new_actor_def sm_inv_def)
  with may have sh: "shutdown_ok (started req now s)"
    by (auto simp: shutdown_ok_def may_start_def started_def split: shutdown_phase.splits option.splits)
  from inv may a(3) map sh actor_ok_new show ?thesis
    by (simp add: sm_inv_def may_start_def map_of_eq_None_iff)
       (auto simp: started_def map_filter_def)
qed

lemma client_act_inv: "client_act x s = Some s' \<Longrightarrow> sm_inv s \<Longrightarrow> sm_inv s'"
proof (cases x)
  case (CallStart req now)
  assume "client_act x s = Some s'" "sm_inv s"
  with CallStart sm_start_snd [of req now s] show ?thesis by (auto simp: sm_inv_started split: if_splits)
qed (auto split: if_splits intro: sm_inv_cancel sm_inv_parent)

section \<open>Shutdown\<close>

lemma sm_inv_shutdown:
  "sm_inv s \<Longrightarrow> shutdown_ok (s\<lparr>smg_shutdown := p\<rparr>) \<Longrightarrow> sm_inv (s\<lparr>smg_shutdown := p\<rparr>)"
  by (simp add: sm_inv_def)

lemma sm_inv_keys: "sm_inv s \<Longrightarrow> i \<in> set (map snd (smg_actors s)) \<Longrightarrow> i < length (smg_pool s)"
  by (auto simp: sm_inv_def)

lemma shutdown_begin_inv: "sm_inv s \<Longrightarrow> sm_inv (s\<lparr>smg_accepting := False, smg_shutdown := FirstWait\<rparr>)"
  by (simp add: sm_inv_def shutdown_ok_def)

lemma shutdown_begins: "sm_inv s \<Longrightarrow> smg_shutdown s \<noteq> NoShutdown \<Longrightarrow> \<not> smg_accepting s"
  by (simp add: sm_inv_def shutdown_ok_def)

lemma shutdown_act_inv:
  assumes act: "shutdown_act x s = Some s'" and inv: "sm_inv s"
  shows "sm_inv s'"
proof -
  have sh: "shutdown_ok s" using inv by (simp add: sm_inv_def)
  show ?thesis
  proof (cases x)
    case ShutdownBegin
    with act shutdown_begin_inv [OF inv] sm_inv_shutdown [OF inv, of FirstWait] sh show ?thesis
      by (auto simp: shutdown_ok_def split: shutdown_phase.splits)
  next
    case ShutdownWaited
    with act sh show ?thesis
      by (auto simp: shutdown_ok_def all_done_def split: shutdown_phase.splits if_splits intro!: sm_inv_shutdown [OF inv])
  next
    case ShutdownTimeout
    with act sh sm_inv_keys [OF inv] show ?thesis
      by (auto simp: shutdown_ok_def begin_cancel_all_def split: shutdown_phase.splits intro!: sm_inv_shutdown [OF inv])
  next
    case (ShutdownContext e)
    with act sh sm_inv_keys [OF inv] show ?thesis
      by (auto simp: shutdown_ok_def begin_cancel_all_def split: shutdown_phase.splits intro!: sm_inv_shutdown [OF inv])
  next
    case ShutdownCancelOne
    with act obtain c "is" after where p: "smg_shutdown s = Cancelling c is after"
      by (auto split: shutdown_phase.splits)
    show ?thesis
    proof (cases "is")
      case Nil
      with act ShutdownCancelOne p sh show ?thesis
        by (auto simp: shutdown_ok_def intro!: sm_inv_shutdown [OF inv])
    next
      case (Cons i js)
      with sh p have i: "i < length (smg_pool s)" by (simp add: shutdown_ok_def)
      let ?s1 = "set_actor i (mark_cancelled c (smg_pool s ! i)) s"
      have i1: "sm_inv ?s1" using sm_inv_cancel [OF inv i] .
      then have "shutdown_ok ?s1" by (simp add: sm_inv_def)
      with p Cons have ok: "shutdown_ok (?s1\<lparr>smg_shutdown := Cancelling c js after\<rparr>)" by (simp add: shutdown_ok_def)
      have s': "s' = ?s1\<lparr>smg_shutdown := Cancelling c js after\<rparr>" using act ShutdownCancelOne p Cons by simp
      show ?thesis unfolding s' by (rule sm_inv_shutdown [OF i1 ok])
    qed
  qed (use act in auto)
qed

section \<open>The goroutine of an actor\<close>

lemma length_filter_key:
  "distinct (map fst xs) \<Longrightarrow> (k, v) \<in> set xs \<Longrightarrow> Suc (length (filter (\<lambda>p. fst p \<noteq> k) xs)) = length xs"
proof (induction xs)
  case (Cons x xs)
  show ?case
  proof (cases "fst x = k")
    case True
    with Cons.prems have "filter (\<lambda>p. fst p \<noteq> k) xs = xs" by (intro filter_True ballI) (metis True distinct.simps(2) image_eqI list.set_map list.simps(9))
    with True show ?thesis by (auto simp: case_prod_beta)
  next
    case False
    with Cons show ?thesis by (auto simp: case_prod_beta)
  qed
qed simp

lemma remove_actor_simps [simp]:
  "smg_pool (remove_actor k s) = smg_pool s" "smg_accepting (remove_actor k s) = smg_accepting s"
  "smg_shutdown (remove_actor k s) = smg_shutdown s" "smg_finals (remove_actor k s) = smg_finals s"
  "smg_cap (remove_actor k s) = smg_cap s"
  "smg_actors (remove_actor k s) = filter (\<lambda>p. fst p \<noteq> k) (smg_actors s)"
  "smg_active_count (remove_actor k s) = (if 0 < smg_active_count s then smg_active_count s - 1 else smg_active_count s)"
  by (simp_all add: remove_actor_def Let_def)

lemma complete_inv:
  assumes inv: "sm_inv s" and a: "actor_at i Finishing s = Some a"
  shows "sm_inv (remove_actor (sa_session_id a) (set_actor i (a\<lparr>sa_phase := Removed\<rparr>) s))"
    (is "sm_inv ?s'")
proof -
  let ?k = "sa_session_id a" and ?a = "a\<lparr>sa_phase := Removed\<rparr>"
  from a have i: "i < length (smg_pool s)" "a = smg_pool s ! i" "sa_phase a = Finishing" by (auto simp: actor_at_Some)
  have ok: "actor_ok ?a" using actor_ok_phase(2) sm_inv_actor [OF inv i(1)] i by blast
  have acts: "distinct (map fst (smg_actors s))" "(k, j) \<in> set (smg_actors s) \<longleftrightarrow>
      j < length (smg_pool s) \<and> sa_session_id (smg_pool s ! j) = k \<and> live (smg_pool s ! j)" for k j
    using inv by (simp_all add: sm_inv_def)
  have mem: "(?k, i) \<in> set (smg_actors s)" using acts(2) i by (simp add: live_def)
  have only: "j = i" if "(?k, j) \<in> set (smg_actors s)" for j
    using eq_key_imp_eq_value [OF acts(1) mem that] by simp
  have map: "(k, j) \<in> set (smg_actors ?s') \<longleftrightarrow>
      j < length (smg_pool ?s') \<and> sa_session_id (smg_pool ?s' ! j) = k \<and> live (smg_pool ?s' ! j)" for k j
  proof (cases "j = i")
    case True
    then show ?thesis using i acts(2) [of k i] by (auto simp: live_def)
  next
    case False
    then have "k \<noteq> ?k" if "(k, j) \<in> set (smg_actors s)" using that only by blast
    with False acts(2) [of k j] show ?thesis by auto
  qed
  have count: "smg_active_count ?s' = int (length (smg_actors ?s'))" "smg_active_count ?s' \<le> smg_cap ?s'"
    using inv length_filter_key [OF acts(1) mem] by (auto simp: sm_inv_def)
  have "final_of ?a = final_of (smg_pool s ! i)" using i by (simp add: final_of_def)
  moreover have "shutdown_ok (set_actor i ?a s)"
    using inv i by (intro shutdown_ok_set) (simp_all add: sm_inv_def)
  then have "shutdown_ok ?s'" by (simp add: shutdown_ok_def all_done_def cong: shutdown_phase.case_cong option.case_cong)
  moreover have "\<forall>b \<in> set (smg_pool ?s'). actor_ok b"
    using inv ok set_update_subset_insert [of "smg_pool s" i ?a] by (auto simp: sm_inv_def)
  moreover have "distinct (map fst (smg_actors ?s'))"
    using acts(1) by (simp add: distinct_map_filter)
  ultimately show ?thesis
    using inv i map count unfolding sm_inv_def by (simp add: map_filter_update)
qed

lemma persist_inv:
  assumes inv: "sm_inv s" and a: "actor_at i Removed s = Some a"
  shows "sm_inv ((set_actor i (a\<lparr>sa_phase := Persisted\<rparr>) s)\<lparr>smg_finals :=
           smg_finals s @ (case final_of (a\<lparr>sa_phase := Persisted\<rparr>) of None \<Rightarrow> [] | Some r \<Rightarrow> [r])\<rparr>)"
    (is "sm_inv ?s'")
proof -
  let ?a = "a\<lparr>sa_phase := Persisted\<rparr>"
  from a have i: "i < length (smg_pool s)" "a = smg_pool s ! i" "sa_phase a = Removed" by (auto simp: actor_at_Some)
  have ok: "actor_ok ?a" using actor_ok_phase(3) sm_inv_actor [OF inv i(1)] i by blast
  have before: "final_of (smg_pool s ! i) = None" using i by (simp add: final_of_def)
  have finals: "mset (smg_finals ?s') = mset (List.map_filter final_of (smg_pool ?s'))"
    using inv map_filter_insert [where f = final_of, OF i(1) before, of ?a] map_filter_update [OF i(1), of final_of ?a] before
    by (cases "final_of ?a") (simp_all add: sm_inv_def)
  have sh: "shutdown_ok (set_actor i ?a s)" using inv i by (intro shutdown_ok_set) (simp_all add: sm_inv_def)
  then have sh': "shutdown_ok ?s'" by (simp add: shutdown_ok_def all_done_def cong: shutdown_phase.case_cong option.case_cong)
  have pool: "\<forall>b \<in> set (smg_pool ?s'). actor_ok b"
    using inv ok set_update_subset_insert [of "smg_pool s" i ?a] by (auto simp: sm_inv_def)
  have "(j < length (smg_pool s) \<and> sa_session_id (smg_pool s ! j) = k \<and> live (smg_pool s ! j)) =
      (j < length (smg_pool s) \<and> sa_session_id ((smg_pool s)[i := ?a] ! j) = k \<and> live ((smg_pool s)[i := ?a] ! j))" for j k
    using i by (cases "i = j") (auto simp: live_def)
  with inv finals sh' pool show ?thesis unfolding sm_inv_def by simp
qed

lemma sm_inv_events:
  assumes inv: "sm_inv s" and a: "actor_at i p s = Some a"
    and ok: "actor_ok (a\<lparr>sa_events := ec, sa_phase := q\<rparr>)"
    and side: "phase_rank p \<le> 4 \<longleftrightarrow> phase_rank q \<le> 4" "6 \<le> phase_rank p \<longleftrightarrow> 6 \<le> phase_rank q" "p \<noteq> Exited"
  shows "sm_inv (set_actor i (a\<lparr>sa_events := ec, sa_phase := q\<rparr>) s)"
  using assms by (intro sm_inv_set) (auto simp: actor_at_Some live_def final_of_def)

text \<open>The event channel of a live goroutine is open.\<close>

lemma ec_emit_open:
  "ec_closed ec = False \<Longrightarrow> ch_closed (ec_channel ec) = False \<Longrightarrow>
   \<exists>ec'. ec_emit ev (Some ec) = Done (None, Some ec') \<and> ec_closed ec' = False \<and> ch_closed (ec_channel ec') = False"
  by (auto simp: ec_emit_def go_send_def)

lemma ec_close_open:
  "ec_closed ec = False \<Longrightarrow> ch_closed (ec_channel ec) = False \<Longrightarrow>
   \<exists>ec'. ec_close (Some ec) = Done (Some ec') \<and> ec_closed ec' \<and> ch_closed (ec_channel ec')"
  by (auto simp: ec_close_def go_close_def)

lemma actor_open:
  "actor_ok a \<Longrightarrow> rank a < 8 \<Longrightarrow> ec_closed (sa_events a) = False \<and> ch_closed (ec_channel (sa_events a)) = False"
  by (auto simp: actor_ok_def)

lemma move_actor_self: "move_actor i p q f s = Some s' \<Longrightarrow> \<exists>a. actor_at i p s = Some a \<and> s' = set_actor i ((f a)\<lparr>sa_phase := q\<rparr>) s"
  by (auto simp: move_actor_def)

lemma run_actor_act_inv:
  assumes act: "run_actor_act x s = Some s'" and inv: "sm_inv s"
  shows "sm_inv s'"
proof (cases x)
  case (ActAttach i)
  with act show ?thesis
    by (intro move_actor_inv [OF inv, of i Spawned Attached attach_cancel])
       (auto simp: attach_cancel_def intro: actor_ok_attach [unfolded attach_cancel_def])
next
  case (ActRun i now)
  with act show ?thesis
    by (intro move_actor_inv [OF inv, of i Attached Building "transition_to_running now"])
       (auto simp: transition_to_running_def intro: actor_ok_run [unfolded transition_to_running_def])
next
  case (ActBuild i b now)
  have fin: "sm_inv s'" if "move_actor i Building Finishing (finish now zero_session zero_plan [] e) s = Some s'" for e
    by (rule move_actor_inv [OF inv that]) (auto intro: actor_ok_finish)
  show ?thesis
  proof (cases b)
    case BuildRunner
    with act ActBuild have "move_actor i Building Running (\<lambda>a. a) s = Some s'" by simp
    from move_actor_inv [OF inv this] actor_ok_phase(1) show ?thesis by simp
  qed (use act ActBuild fin in auto)
next
  case (ActEmit i ev)
  with act obtain a where a: "actor_at i Running s = Some a" by (cases "actor_at i Running s") auto
  then have r: "sa_phase a = Running" "actor_ok a" using sm_inv_actor [OF inv] by (auto simp: actor_at_Some)
  with actor_open obtain ec where e: "ec_emit ev (Some (sa_events a)) = Done (None, Some ec)"
      "ec_closed ec = False" "ch_closed (ec_channel ec) = False"
    using ec_emit_open [of "sa_events a" ev] by fastforce
  have same: "a\<lparr>sa_events := ec, sa_phase := Running\<rparr> = a\<lparr>sa_events := ec\<rparr>" using r(1) by (cases a) simp
  have "actor_ok (a\<lparr>sa_events := ec, sa_phase := Running\<rparr>)"
    unfolding same using actor_ok_events [OF r(2)] r(1) e by simp
  from sm_inv_events [OF inv a this] same act ActEmit a e show ?thesis by simp
next
  case (ActReturn i now ses pl steps err)
  with act have "move_actor i Running Finishing (finish now ses pl steps err) s = Some s'" by simp
  then show ?thesis by (rule move_actor_inv [OF inv]) (auto intro: actor_ok_finish)
next
  case (ActComplete i)
  with act obtain s1 where m: "move_actor i Finishing Removed (\<lambda>a. a) s = Some s1"
    and s': "s' = remove_actor (sq_session_id (sa_request (smg_pool s ! i))) s1" by auto
  from move_actor_self [OF m] obtain a where a: "actor_at i Finishing s = Some a" "s1 = set_actor i (a\<lparr>sa_phase := Removed\<rparr>) s"
    by blast
  then have "sq_session_id (sa_request (smg_pool s ! i)) = sa_session_id a"
    using sm_inv_actor [OF inv, of i] by (auto simp: actor_at_Some actor_ok_def)
  with s' a complete_inv [OF inv a(1)] show ?thesis by simp
next
  case (ActPersist i)
  with act obtain a where a: "actor_at i Removed s = Some a" by (cases "actor_at i Removed s") auto
  then have "actor_ok a" "sa_phase a = Removed" using sm_inv_actor [OF inv] by (auto simp: actor_at_Some)
  then have r: "sa_finalized a" by (simp add: actor_ok_def)
  have "s' = (set_actor i (a\<lparr>sa_phase := Persisted\<rparr>) s)\<lparr>smg_finals :=
           smg_finals s @ (case final_of (a\<lparr>sa_phase := Persisted\<rparr>) of None \<Rightarrow> [] | Some r \<Rightarrow> [r])\<rparr>"
    using act ActPersist a r by (auto simp: move_actor_def actor_result_of_def final_of_def split: option.splits)
  with persist_inv [OF inv a] show ?thesis by simp
next
  case (ActCancelContext i)
  with act have "move_actor i Persisted ContextDone (\<lambda>a. a\<lparr>sa_ctx_cancelled := True\<rparr>) s = Some s'" by simp
  then show ?thesis by (rule move_actor_inv [OF inv]) (auto intro: actor_ok_context)
next
  case (ActCloseEvents i)
  with act obtain a where a: "actor_at i ContextDone s = Some a" by (cases "actor_at i ContextDone s") auto
  then have r: "sa_phase a = ContextDone" "actor_ok a" using sm_inv_actor [OF inv] by (auto simp: actor_at_Some)
  with actor_open obtain ec where e: "ec_close (Some (sa_events a)) = Done (Some ec)" "ec_closed ec" "ch_closed (ec_channel ec)"
    using ec_close_open [of "sa_events a"] by fastforce
  from sm_inv_events [OF inv a actor_ok_close_events [OF r(2,1) e(3,2)]] act ActCloseEvents a e show ?thesis by simp
next
  case (ActCloseDone i)
  with act have "move_actor i EventsClosed DoneClosed (\<lambda>a. a\<lparr>sa_done := True\<rparr>) s = Some s'" by simp
  then show ?thesis by (rule move_actor_inv [OF inv]) (auto intro: actor_ok_done)
next
  case (ActExit i)
  with act have "move_actor i DoneClosed Exited (\<lambda>a. a) s = Some s'" by simp
  then show ?thesis by (rule move_actor_inv [OF inv]) (auto intro: actor_ok_phase(4))
qed (use act in auto)

lemma sm_act_inv: "sm_act x s = Some s' \<Longrightarrow> sm_inv s \<Longrightarrow> sm_inv s'"
  by (auto simp: sm_act_def split: option.splits dest: client_act_inv shutdown_act_inv run_actor_act_inv)

lemma sm_inv_new: "sm_inv (new_session_manager opts)"
  by (auto simp: sm_inv_def new_session_manager_def shutdown_ok_def map_filter_def default_active_session_cap_def)

lemma sm_reachable_inv: "sm_reachable opts s \<Longrightarrow> sm_inv s"
  by (induction rule: sm_reachable.induct) (auto intro: sm_inv_new sm_act_inv)

lemma sm_acts_reachable: "sm_acts xs s = Some s' \<Longrightarrow> sm_reachable opts s \<Longrightarrow> sm_reachable opts s'"
  by (induction xs s rule: sm_acts.induct) (auto split: option.splits intro: sm_reachable.act)

end
