(* ===== verification/Session_Manager_Properties.thy ===== *)
theory Session_Manager_Properties
  imports Session_Manager_Correct
begin

text \<open>
  The properties of the session manager: the bound on active sessions, one actor per session, the
  life cycle of an actor, shutdown, and what a cancellation does.
\<close>

section \<open>Actors and the map\<close>

lemma sm_inv_lookup:
  assumes "sm_inv s"
  shows "map_of (smg_actors s) k = Some i \<longleftrightarrow>
    i < length (smg_pool s) \<and> sa_session_id (smg_pool s ! i) = k \<and> live (smg_pool s ! i)"
  using assms map_of_eq_Some_iff [of "smg_actors s" k i] by (simp add: sm_inv_def)

lemma sm_inv_active:
  assumes "sm_inv s"
  shows "smg_active_count s = int (card {i. i < length (smg_pool s) \<and> live (smg_pool s ! i)})"
proof -
  have inv: "distinct (map fst (smg_actors s))" "\<And>k i. (k, i) \<in> set (smg_actors s) \<longleftrightarrow>
      i < length (smg_pool s) \<and> sa_session_id (smg_pool s ! i) = k \<and> live (smg_pool s ! i)"
    "smg_active_count s = int (length (smg_actors s))"
    using assms by (simp_all add: sm_inv_def)
  have keys: "i \<in> snd ` set (smg_actors s) \<longleftrightarrow> i < length (smg_pool s) \<and> live (smg_pool s ! i)" for i
  proof -
    have "i \<in> snd ` set (smg_actors s) \<longleftrightarrow> (\<exists>k. (k, i) \<in> set (smg_actors s))" by force
    then show ?thesis using inv(2) by simp
  qed
  have "inj_on snd (set (smg_actors s))"
    by (rule inj_onI) (metis inv(2) prod.collapse)
  then have "card (snd ` set (smg_actors s)) = length (smg_actors s)"
    using inv(1) by (simp add: card_image distinct_card distinct_map)
  moreover have "snd ` set (smg_actors s) = {i. i < length (smg_pool s) \<and> live (smg_pool s ! i)}"
    using keys by blast
  ultimately show ?thesis using inv(3) by simp
qed

lemma sm_reachable_cap: "sm_reachable opts s \<Longrightarrow> smg_cap s = smg_cap (new_session_manager opts)"
proof (induction rule: sm_reachable.induct)
  case (act s x s')
  have m: "move_actor i p q f s = Some s'' \<Longrightarrow> smg_cap s'' = smg_cap s" for i p q f s''
    by (auto simp: move_actor_def)
  have "smg_cap s' = smg_cap s"
  proof (cases "client_act x s")
    case None
    show ?thesis
    proof (cases "shutdown_act x s")
      case none: None
      with None act(2) have "run_actor_act x s = Some s'" by (simp add: sm_act_def)
      then show ?thesis
        by (cases "(x, s)" rule: run_actor_act.cases)
           (auto split: option.splits attempt.splits prod.splits if_split_asm dest: m)
    next
      case (Some t)
      with None act(2) have "shutdown_act x s = Some s'" by (simp add: sm_act_def)
      then show ?thesis
        by (cases "(x, s)" rule: shutdown_act.cases)
           (auto simp: begin_cancel_all_def split: shutdown_phase.splits if_splits list.splits)
    qed
  next
    case (Some t)
    with act(2) have "client_act x s = Some s'" by (simp add: sm_act_def)
    then show ?thesis
      by (cases "(x, s)" rule: client_act.cases)
         (auto simp: sm_start_snd started_def split: if_splits)
  qed
  with act.IH show ?case by simp
qed simp

section \<open>What an action can do to an actor\<close>

definition may_follow :: "session_actor \<Rightarrow> session_actor \<Rightarrow> bool" where
  "may_follow a b \<longleftrightarrow>
     rank a \<le> rank b \<and> (sa_cancelled a \<longrightarrow> sa_cancelled b) \<and> sa_session_id b = sa_session_id a \<and>
     sa_request b = sa_request a \<and>
     (if sa_finalized a then sa_state b = sa_state a \<and> sa_result b = sa_result a \<and> sa_finalized b
      else sa_state b = sa_state a \<or> sa_state a = ast_pending \<and> sa_state b = ast_running \<or>
           sa_state a = ast_running \<and> sa_state b \<in> {ast_completed, ast_failed, ast_cancelled} \<and> sa_finalized b)"

lemma may_follow_refl [simp]: "may_follow a a"
  by (simp add: may_follow_def)

definition pool_follows :: "session_manager \<Rightarrow> session_manager \<Rightarrow> bool" where
  "pool_follows s s' \<longleftrightarrow> length (smg_pool s) \<le> length (smg_pool s') \<and>
     (\<forall>i < length (smg_pool s). may_follow (smg_pool s ! i) (smg_pool s' ! i))"

lemma pool_follows_same: "smg_pool s' = smg_pool s \<Longrightarrow> pool_follows s s'"
  by (simp add: pool_follows_def)

lemma pool_follows_set:
  "may_follow (smg_pool s ! i) a \<Longrightarrow> smg_pool s' = (smg_pool s)[i := a] \<Longrightarrow> pool_follows s s'"
proof -
  assume a: "may_follow (smg_pool s ! i) a" "smg_pool s' = (smg_pool s)[i := a]"
  have "may_follow (smg_pool s ! j) (smg_pool s' ! j)" if "j < length (smg_pool s)" for j
    using a that by (cases "j = i") simp_all
  with a(2) show ?thesis by (simp add: pool_follows_def)
qed

lemma may_follow_phase [simp]: "may_follow a (a\<lparr>sa_phase := q\<rparr>) \<longleftrightarrow> rank a \<le> phase_rank q"
  by (auto simp: may_follow_def)

lemma may_follow_cancel: "may_follow a (mark_cancelled c a)"
  by (simp add: may_follow_def)

lemma may_follow_finish:
  assumes ok: "actor_ok a" and p: "sa_phase a = Building \<or> sa_phase a = Running"
  shows "may_follow a ((finish now ses pl steps e a)\<lparr>sa_phase := Finishing\<rparr>)"
proof -
  have "\<not> sa_finalized a" "sa_state a = ast_running" "rank a \<le> 4"
    by (use p in \<open>elim disjE; use ok in \<open>simp add: actor_ok_def\<close>\<close>)+
  then show ?thesis
    using classify_final [of ses e "sa_cancelled a"] by (simp add: may_follow_def finish_def Let_def)
qed

lemma move_follows:
  assumes inv: "sm_inv s" and m: "move_actor i p q f s = Some s'"
    and f: "\<And>a. actor_ok a \<Longrightarrow> sa_phase a = p \<Longrightarrow> may_follow a ((f a)\<lparr>sa_phase := q\<rparr>)"
  shows "pool_follows s s'"
proof -
  from move_actor_self [OF m] obtain a where a: "actor_at i p s = Some a" "s' = set_actor i ((f a)\<lparr>sa_phase := q\<rparr>) s" by blast
  then have "actor_ok a" "sa_phase a = p" "a = smg_pool s ! i" using sm_inv_actor [OF inv] by (auto simp: actor_at_Some)
  with f a show ?thesis by (intro pool_follows_set [of s i]) auto
qed

lemma run_actor_follows:
  assumes act: "run_actor_act x s = Some s'" and inv: "sm_inv s"
  shows "pool_follows s s'"
proof (cases x)
  case (ActAttach i)
  with act have "move_actor i Spawned Attached attach_cancel s = Some s'" by simp
  from move_follows [OF inv this] show ?thesis by (simp add: may_follow_def attach_cancel_def)
next
  case (ActRun i now)
  with act have "move_actor i Attached Building (transition_to_running now) s = Some s'" by simp
  from move_follows [OF inv this] show ?thesis by (auto simp: may_follow_def transition_to_running_def actor_ok_def)
next
  case (ActBuild i b now)
  have fin: "pool_follows s s'" if "move_actor i Building Finishing (finish now zero_session zero_plan [] e) s = Some s'" for e
    by (rule move_follows [OF inv that]) (simp add: may_follow_finish)
  show ?thesis
  proof (cases b)
    case BuildRunner
    with act ActBuild have "move_actor i Building Running (\<lambda>a. a) s = Some s'" by simp
    from move_follows [OF inv this] show ?thesis by (simp add: may_follow_def)
  qed (use act ActBuild fin in auto)
next
  case (ActEmit i ev)
  with act show ?thesis
    by (auto simp: actor_at_Some may_follow_def split: option.splits attempt.splits prod.splits
        intro!: pool_follows_set [of s i])
next
  case (ActReturn i now ses pl steps err)
  with act have "move_actor i Running Finishing (finish now ses pl steps err) s = Some s'" by simp
  then show ?thesis by (rule move_follows [OF inv]) (simp add: may_follow_finish)
next
  case (ActComplete i)
  with act obtain s1 where m: "move_actor i Finishing Removed (\<lambda>a. a) s = Some s1" "smg_pool s' = smg_pool s1" by auto
  have "pool_follows s s1" by (rule move_follows [OF inv m(1)]) simp
  with m(2) show ?thesis by (simp add: pool_follows_def)
next
  case (ActPersist i)
  with act obtain s1 where m: "move_actor i Removed Persisted (\<lambda>a. a) s = Some s1" "smg_pool s' = smg_pool s1"
    by (auto split: option.splits if_splits)
  have "pool_follows s s1" by (rule move_follows [OF inv m(1)]) simp
  with m(2) show ?thesis by (simp add: pool_follows_def)
next
  case (ActCancelContext i)
  with act have "move_actor i Persisted ContextDone (\<lambda>a. a\<lparr>sa_ctx_cancelled := True\<rparr>) s = Some s'" by simp
  from move_follows [OF inv this] show ?thesis by (simp add: may_follow_def)
next
  case (ActCloseEvents i)
  with act show ?thesis
    by (auto simp: actor_at_Some may_follow_def split: option.splits attempt.splits intro!: pool_follows_set [of s i])
next
  case (ActCloseDone i)
  with act have "move_actor i EventsClosed DoneClosed (\<lambda>a. a\<lparr>sa_done := True\<rparr>) s = Some s'" by simp
  from move_follows [OF inv this] show ?thesis by (simp add: may_follow_def)
next
  case (ActExit i)
  with act have "move_actor i DoneClosed Exited (\<lambda>a. a) s = Some s'" by simp
  from move_follows [OF inv this] show ?thesis by (simp add: may_follow_def)
qed (use act in auto)

lemma client_follows: "client_act x s = Some s' \<Longrightarrow> pool_follows s s'"
  by (cases x)
     (auto simp: sm_start_snd started_def pool_follows_def nth_append may_follow_cancel nth_list_update may_follow_def
       split: if_splits)

lemma shutdown_pool:
  assumes "shutdown_act x s = Some s'"
  shows "smg_pool s' = smg_pool s \<or> (\<exists>i c. smg_pool s' = (smg_pool s)[i := mark_cancelled c (smg_pool s ! i)])"
proof (cases "x = ShutdownCancelOne")
  case True
  with assms obtain c "is" after where p: "smg_shutdown s = Cancelling c is after"
    by (auto split: shutdown_phase.splits)
  show ?thesis
  proof (cases "is")
    case (Cons i js)
    with True assms p have "smg_pool s' = (smg_pool s)[i := mark_cancelled c (smg_pool s ! i)]" by auto
    then show ?thesis by blast
  qed (use True assms p in auto)
next
  case False
  with assms show ?thesis
    by (cases "(x, s)" rule: shutdown_act.cases)
       (auto simp: begin_cancel_all_def split: shutdown_phase.splits if_splits)
qed

lemma shutdown_follows: "shutdown_act x s = Some s' \<Longrightarrow> pool_follows s s'"
  using shutdown_pool pool_follows_same pool_follows_set [OF may_follow_cancel] by blast

lemma sm_act_follows: "sm_act x s = Some s' \<Longrightarrow> sm_inv s \<Longrightarrow> pool_follows s s'"
  by (auto simp: sm_act_def split: option.splits
      dest: client_follows shutdown_follows run_actor_follows)

section \<open>Shutdown\<close>

text \<open>What the goroutines still have to do, in moves; an emitted event is not counted.\<close>

definition work :: "session_manager \<Rightarrow> nat" where
  "work s = sum_list (map (\<lambda>a. 10 - rank a) (smg_pool s))"

fun goroutine_move :: "sm_action \<Rightarrow> bool" where
  "goroutine_move (ActAttach i) = True"
| "goroutine_move (ActRun i now) = True"
| "goroutine_move (ActBuild i b now) = True"
| "goroutine_move (ActReturn i now ses pl steps err) = True"
| "goroutine_move (ActComplete i) = True"
| "goroutine_move (ActPersist i) = True"
| "goroutine_move (ActCancelContext i) = True"
| "goroutine_move (ActCloseEvents i) = True"
| "goroutine_move (ActCloseDone i) = True"
| "goroutine_move (ActExit i) = True"
| "goroutine_move _ = False"

lemma work_update:
  "i < length xs \<Longrightarrow> sum_list (map f (xs[i := y])) + f (xs ! i) = sum_list (map f xs) + (f y :: nat)"
proof (induction xs arbitrary: i)
  case (Cons x xs)
  then show ?case by (cases i) (auto simp: algebra_simps)
qed simp

lemma work_move:
  assumes "move_actor i p q f s = Some s1" "smg_pool s' = smg_pool s1" "phase_rank p < phase_rank q"
  shows "work s' < work s"
proof -
  from move_actor_self [OF assms(1)] obtain a where a: "actor_at i p s = Some a" "s1 = set_actor i ((f a)\<lparr>sa_phase := q\<rparr>) s" by blast
  then have i: "i < length (smg_pool s)" "rank (smg_pool s ! i) = phase_rank p" by (auto simp: actor_at_Some)
  show ?thesis
    using work_update [OF i(1), of "\<lambda>a. 10 - rank a" "(f a)\<lparr>sa_phase := q\<rparr>"] i(2) assms(2,3) a(2) rank_le_10 [of q]
    by (simp add: work_def)
qed

lemma work_goroutine:
  assumes "run_actor_act x s = Some s'" "goroutine_move x"
  shows "work s' < work s"
proof (cases x)
  case (ActBuild i b now)
  with assms show ?thesis by (cases b) (auto intro: work_move)
next
  case (ActComplete i)
  with assms obtain s1 where "move_actor i Finishing Removed (\<lambda>a. a) s = Some s1" "smg_pool s' = smg_pool s1" by auto
  then show ?thesis by (rule work_move) simp
next
  case (ActPersist i)
  with assms obtain s1 where "move_actor i Removed Persisted (\<lambda>a. a) s = Some s1" "smg_pool s' = smg_pool s1"
    by (auto split: option.splits)
  then show ?thesis by (rule work_move) simp
next
  case (ActCloseEvents i)
  with assms obtain a ec where a: "actor_at i ContextDone s = Some a"
    "s' = set_actor i (a\<lparr>sa_events := ec, sa_phase := EventsClosed\<rparr>) s"
    by (auto split: option.splits attempt.splits)
  then have i: "i < length (smg_pool s)" "rank (smg_pool s ! i) = 7" by (auto simp: actor_at_Some)
  show ?thesis
    using work_update [OF i(1), of "\<lambda>a. 10 - rank a" "a\<lparr>sa_events := ec, sa_phase := EventsClosed\<rparr>"] i(2) a(2)
    by (simp add: work_def)
qed (use assms in \<open>auto intro: work_move\<close>)

lemma work_follows:
  "pool_follows s s' \<Longrightarrow> length (smg_pool s') = length (smg_pool s) \<Longrightarrow> work s' \<le> work s"
proof -
  assume f: "pool_follows s s'" "length (smg_pool s') = length (smg_pool s)"
  have "10 - rank (smg_pool s' ! i) \<le> 10 - rank (smg_pool s ! i)" if "i < length (smg_pool s)" for i
    using f that by (auto simp: pool_follows_def may_follow_def)
  then have "list_all2 (\<le>) (map (\<lambda>a. 10 - rank a) (smg_pool s')) (map (\<lambda>a. 10 - rank a) (smg_pool s))"
    using f(2) by (auto simp: list_all2_conv_all_nth)
  then show ?thesis unfolding work_def by (induction rule: list_all2_induct) auto
qed

text \<open>Once the manager does not accept, no actor is added.\<close>

lemma closed_pool:
  assumes act: "sm_act x s = Some s'" and closed: "\<not> smg_accepting s"
  shows "length (smg_pool s') = length (smg_pool s) \<and> \<not> smg_accepting s'"
proof -
  have m: "move_actor i p q f s = Some s1 \<Longrightarrow> length (smg_pool s1) = length (smg_pool s) \<and> smg_accepting s1 = smg_accepting s"
    for i p q f s1 by (auto simp: move_actor_def)
  have "client_act x s = Some s' \<or> shutdown_act x s = Some s' \<or> run_actor_act x s = Some s'"
    using act by (auto simp: sm_act_def split: option.splits)
  then show ?thesis
  proof (elim disjE)
    assume "client_act x s = Some s'"
    with closed show ?thesis
      by (cases "(x, s)" rule: client_act.cases) (auto simp: sm_start_snd may_start_def split: if_splits)
  next
    assume "shutdown_act x s = Some s'"
    with closed show ?thesis
      by (cases "(x, s)" rule: shutdown_act.cases)
         (auto simp: begin_cancel_all_def split: shutdown_phase.splits if_splits list.splits)
  next
    assume "run_actor_act x s = Some s'"
    with closed show ?thesis
      by (cases "(x, s)" rule: run_actor_act.cases)
         (auto split: option.splits attempt.splits prod.splits dest: m)
  qed
qed

lemma goroutine_run: "goroutine_move x \<Longrightarrow> sm_act x s = run_actor_act x s"
  by (cases x) (auto simp: sm_act_def split: option.splits)

lemma work_bounds_moves:
  "sm_acts xs s = Some s' \<Longrightarrow> sm_inv s \<Longrightarrow> \<not> smg_accepting s \<Longrightarrow>
   length (filter goroutine_move xs) + work s' \<le> work s"
proof (induction xs s rule: sm_acts.induct)
  case (2 x xs s)
  then obtain s1 where s1: "sm_act x s = Some s1" "sm_acts xs s1 = Some s'" by (auto split: option.splits)
  have c: "length (smg_pool s1) = length (smg_pool s)" "\<not> smg_accepting s1"
    using closed_pool [OF s1(1) 2(4)] by blast+
  have rest: "length (filter goroutine_move xs) + work s' \<le> work s1"
    using 2(1) [OF s1] sm_act_inv [OF s1(1) 2(3)] c(2) by blast
  have "work s1 + (if goroutine_move x then 1 else 0) \<le> work s"
  proof (cases "goroutine_move x")
    case True
    with s1(1) work_goroutine [of x s s1] show ?thesis by (simp add: goroutine_run)
  next
    case False
    with work_follows [OF sm_act_follows [OF s1(1) 2(3)] c(1)] show ?thesis by simp
  qed
  with rest show ?case by (auto split: if_splits)
qed simp

text \<open>Until all goroutines are done, one of them has a move.\<close>

definition next_move :: "nat \<Rightarrow> session_actor \<Rightarrow> sm_action" where
  "next_move i a =
     (case sa_phase a of
        Spawned \<Rightarrow> ActAttach i | Attached \<Rightarrow> ActRun i 0 | Building \<Rightarrow> ActBuild i BuildNil 0
      | Running \<Rightarrow> ActReturn i 0 zero_session zero_plan [] None | Finishing \<Rightarrow> ActComplete i
      | Removed \<Rightarrow> ActPersist i | Persisted \<Rightarrow> ActCancelContext i | ContextDone \<Rightarrow> ActCloseEvents i
      | EventsClosed \<Rightarrow> ActCloseDone i | _ \<Rightarrow> ActExit i)"

lemma next_move_enabled:
  assumes inv: "sm_inv s" and i: "i < length (smg_pool s)" and p: "sa_phase (smg_pool s ! i) \<noteq> Exited"
  shows "goroutine_move (next_move i (smg_pool s ! i)) \<and> (\<exists>s'. sm_act (next_move i (smg_pool s ! i)) s = Some s')"
proof -
  let ?a = "smg_pool s ! i" let ?x = "next_move i ?a"
  have at: "actor_at i (sa_phase ?a) s = Some ?a" using i by (simp add: actor_at_Some)
  have g: "goroutine_move ?x" by (simp add: next_move_def split: actor_phase.splits)
  have "\<exists>s'. run_actor_act ?x s = Some s'"
  proof (cases "sa_phase ?a = ContextDone")
    case True
    have ok: "actor_ok ?a" by (rule sm_inv_actor [OF inv i])
    obtain ec where "ec_close (Some (sa_events ?a)) = Done (Some ec)"
      using ec_close_open [of "sa_events ?a"] actor_open [OF ok] True by auto
    with True at show ?thesis by (simp add: next_move_def)
  next
    case False
    with p at show ?thesis by (auto simp: next_move_def move_actor_def split: actor_phase.splits)
  qed
  with g show ?thesis by (simp add: goroutine_run)
qed

lemma all_done_iff: "all_done s \<longleftrightarrow> (\<forall>i < length (smg_pool s). sa_phase (smg_pool s ! i) = Exited)"
  by (auto simp: all_done_def list_all_length)

section \<open>Properties\<close>

definition ex_options :: manager_options where
  "ex_options = \<lparr>mo_active_session_cap = 1, mo_shutdown_timeout = 0, mo_event_buffer_size = 2\<rparr>"

definition ex_session_request :: start_request where
  "ex_session_request = \<lparr>sq_session_id = ''t1'', sq_task = \<lparr>task_id = ''t1'', task_description = [], task_goal = [],
     task_category = cat_general, task_protocol_hint = [], task_verification_policy = [], task_created_at = 0\<rparr>,
     sq_new_runner = True, sq_persist_final = True\<rparr>"

text \<open>A session that is started, run to its end, and a shutdown that waits for it.\<close>

definition ex_session_acts :: "sm_action list" where
  "ex_session_acts =
     [CallStart ex_session_request 5, ActAttach 0, ActRun 0 6, ActBuild 0 BuildRunner 6, ShutdownBegin,
      ActReturn 0 7 (zero_session\<lparr>sess_status := ss_success\<rparr>) zero_plan [] None, ActComplete 0, ActPersist 0,
      ActCancelContext 0, ActCloseEvents 0, ActCloseDone 0, ActExit 0, ShutdownWaited]"

definition ex_manager :: "nat \<Rightarrow> session_manager" where
  "ex_manager n = the (sm_acts (take n ex_session_acts) (new_session_manager ex_options))"

lemma ex_manager_runs: "list_all (\<lambda>n. sm_acts (take n ex_session_acts) (new_session_manager ex_options) \<noteq> None) [0..<14]"
  by code_simp

lemma ex_manager_reachable: "n < 14 \<Longrightarrow> sm_reachable ex_options (ex_manager n)"
proof -
  assume "n < 14"
  with ex_manager_runs obtain s where "sm_acts (take n ex_session_acts) (new_session_manager ex_options) = Some s"
    unfolding list_all_iff by fastforce
  then show ?thesis using sm_acts_reachable [OF _ sm_reachable.start] by (simp add: ex_manager_def)
qed

text \<open>
  C16. The number of active sessions stays within its cap.  In every reachable state the counter that
  \<^verbatim>\<open>Start\<close> compares with the cap is the number of actors whose goroutine has not completed, and it
  never exceeds the configured cap (8 when that is not positive).
\<close>

theorem sm_active_bound:
  assumes "sm_reachable opts s"
  shows "sm_active_count (Some s) = int (card {i. i < length (smg_pool s) \<and> live (smg_pool s ! i)}) \<and>
    0 \<le> sm_active_count (Some s) \<and> sm_active_count (Some s) \<le> sm_active_session_cap (Some s) \<and>
    sm_active_session_cap (Some s) = (if mo_active_session_cap opts \<le> 0 then 8 else mo_active_session_cap opts)"
  using sm_inv_active [OF sm_reachable_inv [OF assms]] sm_reachable_inv [OF assms] sm_reachable_cap [OF assms]
  by (simp add: sm_active_count_def sm_active_session_cap_def sm_inv_def new_session_manager_def
      default_active_session_cap_def)

lemma sm_active_bound_witness:
  "sm_active_count (Some (ex_manager 4)) = 1 \<and> sm_active_count (Some (ex_manager 4)) \<le> sm_active_session_cap (Some (ex_manager 4))"
proof
  show "sm_active_count (Some (ex_manager 4)) = 1" by code_simp
  show "sm_active_count (Some (ex_manager 4)) \<le> sm_active_session_cap (Some (ex_manager 4))"
    using sm_active_bound [OF ex_manager_reachable [of 4]] by simp
qed

text \<open>
  A session has at most one active actor.  In every reachable state \<^verbatim>\<open>Lookup\<close> finds an actor
  exactly if its goroutine has not completed, and two such actors for the same session are the same.
\<close>

theorem sm_one_actor_per_session:
  assumes "sm_reachable opts s"
  shows "sm_lookup k (Some s) = Some i \<longleftrightarrow>
    i < length (smg_pool s) \<and> sa_session_id (smg_pool s ! i) = k \<and> live (smg_pool s ! i) \<and>
    {j. j < length (smg_pool s) \<and> sa_session_id (smg_pool s ! j) = k \<and> live (smg_pool s ! j)} = {i}"
proof -
  note look = sm_inv_lookup [OF sm_reachable_inv [OF assms]]
  have same: "{j. j < length (smg_pool s) \<and> sa_session_id (smg_pool s ! j) = k \<and> live (smg_pool s ! j)} =
      {j. map_of (smg_actors s) k = Some j}"
    unfolding look ..
  show ?thesis
  proof (cases "map_of (smg_actors s) k = Some i")
    case True
    with look [of k i] show ?thesis unfolding same sm_lookup_def by simp
  next
    case False
    with look [of k i] show ?thesis unfolding sm_lookup_def by auto
  qed
qed

lemma sm_one_actor_per_session_witness:
  "sm_lookup ''t1'' (Some (ex_manager 4)) = Some 0 \<and>
   {j. j < length (smg_pool (ex_manager 4)) \<and> sa_session_id (smg_pool (ex_manager 4) ! j) = ''t1'' \<and>
       live (smg_pool (ex_manager 4) ! j)} = {0}"
proof -
  have "sm_lookup ''t1'' (Some (ex_manager 4)) = Some 0" by code_simp
  with sm_one_actor_per_session [OF ex_manager_reachable [of 4]] show ?thesis by simp
qed

text \<open>
  C17. An actor goes from pending to running to one final state and stays there.  No action takes a
  state back, and once \<^verbatim>\<open>Result\<close> returns a result every later call returns the same.
\<close>

theorem sm_actor_lifecycle:
  assumes "sm_reachable opts s" "sm_act x s = Some s'" "i < length (smg_pool s)"
    and "a = smg_pool s ! i" "b = smg_pool s' ! i"
  shows "(sa_state b = sa_state a \<or> (sa_state a, sa_state b) = (ast_pending, ast_running) \<or>
      sa_state a = ast_running \<and> sa_state b \<in> {ast_completed, ast_failed, ast_cancelled}) \<and>
    (case actor_result_of a of
       None \<Rightarrow> sa_state a \<in> {ast_pending, ast_running}
     | Some r \<Rightarrow> actor_result_of b = Some r \<and> sa_state b = ar_state r)"
proof -
  note inv = sm_reachable_inv [OF assms(1)]
  have "may_follow a b" using sm_act_follows [OF assms(2) inv] assms(3-5) by (simp add: pool_follows_def)
  moreover have "actor_ok a" using sm_inv_actor [OF inv assms(3)] assms(4) by simp
  moreover have "rank a \<le> 1 \<or> rank a = 2 \<or> rank a = 3 \<or> 4 \<le> rank a" by linarith
  ultimately show ?thesis
    by (auto simp: may_follow_def actor_ok_def actor_result_of_def result_ok_def split: option.splits if_splits)
qed

lemma sm_actor_lifecycle_witness:
  "sa_state (smg_pool (ex_manager 6) ! 0) = ast_completed \<and>
   (sa_state (smg_pool (ex_manager 5) ! 0), sa_state (smg_pool (ex_manager 6) ! 0)) \<noteq> (ast_running, ast_pending)"
proof -
  have "sm_act (ex_session_acts ! 5) (ex_manager 5) = Some (ex_manager 6)" "0 < length (smg_pool (ex_manager 5))"
    "sa_state (smg_pool (ex_manager 6) ! 0) = ast_completed"
    by code_simp+
  with sm_actor_lifecycle [OF ex_manager_reachable [of 5], of "ex_session_acts ! 5" "ex_manager 6" 0 _ _, OF _ _ _ refl refl]
  show ?thesis by auto
qed

text \<open>
  C18. When the done channel of an actor is closed, everything about it is settled: it has a final
  state and a result with that state, classified from what the runner returned and whether it was
  cancelled; \<^verbatim>\<open>Lookup\<close> no longer finds it; its event channel is closed and the context of its runner
  is cancelled; and the finalizer was given its result, exactly once for each such actor.
\<close>

theorem sm_done_settled:
  assumes "sm_reachable opts s" "i < length (smg_pool s)" "sa_done (smg_pool s ! i)"
  shows "\<exists>r. actor_result_of (smg_pool s ! i) = Some r \<and> sa_state (smg_pool s ! i) = ar_state r \<and>
    ar_state r = classify_actor_state (ar_session r) (ar_err r) (ar_cancelled r) \<and>
    sm_lookup (sa_session_id (smg_pool s ! i)) (Some s) \<noteq> Some i \<and>
    ec_closed (sa_events (smg_pool s ! i)) \<and> runner_ctx_done (smg_pool s ! i) \<and>
    final_of (smg_pool s ! i) = (if sq_persist_final (sa_request (smg_pool s ! i)) then Some r else None) \<and>
    mset (smg_finals s) = mset (List.map_filter final_of (smg_pool s))"
proof -
  let ?a = "smg_pool s ! i"
  note inv = sm_reachable_inv [OF assms(1)]
  have ok: "actor_ok ?a" by (rule sm_inv_actor [OF inv assms(2)])
  then have r9: "9 \<le> rank ?a" using assms(3) by (simp add: actor_ok_def)
  with ok obtain r where r: "sa_result ?a = Some r" "sa_finalized ?a" "result_ok ?a r"
    by (auto simp: actor_ok_def split: option.splits)
  have "sm_lookup (sa_session_id ?a) (Some s) \<noteq> Some i"
    using sm_inv_lookup [OF inv] r9 by (simp add: sm_lookup_def live_def)
  moreover have "ec_closed (sa_events ?a)" "runner_ctx_done ?a"
    using ok r9 by (auto simp: actor_ok_def runner_ctx_done_def)
  moreover have "mset (smg_finals s) = mset (List.map_filter final_of (smg_pool s))"
    using inv by (simp add: sm_inv_def)
  moreover have "sa_state ?a = ar_state r" "ar_state r = classify_actor_state (ar_session r) (ar_err r) (ar_cancelled r)"
    using r(3) unfolding result_ok_def by metis+
  ultimately show ?thesis
    using r(1,2) r9 by (intro exI [of _ r] conjI) (simp_all add: actor_result_of_def final_of_def)
qed

lemma sm_done_settled_witness:
  "sa_done (smg_pool (ex_manager 11) ! 0) \<and> ec_closed (sa_events (smg_pool (ex_manager 11) ! 0))"
proof -
  have "sa_done (smg_pool (ex_manager 11) ! 0)" "0 < length (smg_pool (ex_manager 11))" by code_simp+
  with sm_done_settled [OF ex_manager_reachable [of 11], of 0] show ?thesis by auto
qed

text \<open>
  C19. A shutdown drains the manager.  Once it has begun, no run makes more than \<open>work s\<close> further moves
  of goroutines (ten for each actor), whatever the clients do; while a goroutine is not done, one
  has a move, provided its runner returns; when all are done, a waiting \<^verbatim>\<open>Shutdown\<close> returns; and when it
  has returned nil, all are done and no session is active.
\<close>

theorem sm_shutdown_drains:
  assumes "sm_reachable opts s" "smg_shutdown s \<noteq> NoShutdown"
  shows "\<not> smg_accepting s \<and>
    (\<forall>xs s'. sm_acts xs s = Some s' \<longrightarrow> length (filter goroutine_move xs) + work s' \<le> work s) \<and>
    (all_done s \<or> (\<exists>x s'. goroutine_move x \<and> sm_act x s = Some s')) \<and>
    (all_done s \<and> smg_shutdown s \<in> {FirstWait, SecondWait} \<longrightarrow>
       sm_act ShutdownWaited s = Some (s\<lparr>smg_shutdown := ShutdownReturned None\<rparr>)) \<and>
    (smg_shutdown s = ShutdownReturned None \<longrightarrow> all_done s \<and> sm_active_count (Some s) = 0)"
proof -
  note inv = sm_reachable_inv [OF assms(1)]
  have closed: "\<not> smg_accepting s" by (rule shutdown_begins [OF inv assms(2)])
  have moves: "length (filter goroutine_move xs) + work s' \<le> work s" if "sm_acts xs s = Some s'" for xs s'
    by (rule work_bounds_moves [OF that inv closed])
  have progress: "all_done s \<or> (\<exists>x s'. goroutine_move x \<and> sm_act x s = Some s')"
    using next_move_enabled [OF inv] unfolding all_done_iff by blast
  have waited: "sm_act ShutdownWaited s = Some (s\<lparr>smg_shutdown := ShutdownReturned None\<rparr>)"
    if "all_done s" "smg_shutdown s \<in> {FirstWait, SecondWait}"
    using that by (auto simp: sm_act_def)
  have "all_done s" if "smg_shutdown s = ShutdownReturned None"
    using inv that by (simp add: sm_inv_def shutdown_ok_def)
  moreover have "sm_active_count (Some s) = 0" if "all_done s"
    using sm_inv_active [OF inv] that by (auto simp: all_done_iff live_def sm_active_count_def)
  ultimately show ?thesis using closed moves progress waited by blast
qed

lemma sm_shutdown_drains_witness:
  "smg_shutdown (ex_manager 13) = ShutdownReturned None \<and> all_done (ex_manager 13) \<and> sm_active_count (Some (ex_manager 13)) = 0"
proof -
  have "smg_shutdown (ex_manager 13) = ShutdownReturned None" by code_simp
  with sm_shutdown_drains [OF ex_manager_reachable [of 13]] show ?thesis by simp
qed

text \<open>
  A cancellation that comes before the goroutine has attached its cancel function is lost:
  \<^verbatim>\<open>markCancelled\<close> finds no function to call and nothing calls it later.  The runner then works with
  a context that is not done, and when it has done all its work the result is classified as
  cancelled, whatever it is.
\<close>

definition after_return ::
  "start_request \<Rightarrow> session \<Rightarrow> plan \<Rightarrow> step list \<Rightarrow> go_error option \<Rightarrow> sm_action list \<times> sm_action list" where
  "after_return req ses pl steps err =
     ([CallStart req 1, CallCancel 0 (Some Canceled), ActAttach 0, ActRun 0 2, ActBuild 0 BuildRunner 2],
      [ActReturn 0 3 ses pl steps err])"

theorem sm_early_cancel_lost:
  assumes "validate_start_request req = None"
  shows "\<exists>s1 s2 r. sm_acts (fst (after_return req ses pl steps err)) (new_session_manager opts) = Some s1 \<and>
    sm_acts (snd (after_return req ses pl steps err)) s1 = Some s2 \<and>
    sa_cancelled (smg_pool s1 ! 0) \<and> sa_phase (smg_pool s1 ! 0) = Running \<and> \<not> runner_ctx_done (smg_pool s1 ! 0) \<and>
    actor_result_of (smg_pool s2 ! 0) = Some r \<and> ar_state r = ast_cancelled \<and> ar_session r = ses \<and> ar_err r = err"
  using assms
  by (simp add: after_return_def sm_act_def sm_start_def new_session_manager_def default_active_session_cap_def
      new_actor_def set_actor_def mark_cancelled_def move_actor_def actor_at_def attach_cancel_def transition_to_running_def
      finish_def Let_def runner_ctx_done_def actor_result_of_def classify_actor_state_def)

lemma sm_early_cancel_lost_witness:
  "\<exists>s1 s2 r. sm_acts (fst (after_return ex_session_request (zero_session\<lparr>sess_status := ss_success\<rparr>) zero_plan [] None))
        (new_session_manager ex_options) = Some s1 \<and>
    sm_acts (snd (after_return ex_session_request (zero_session\<lparr>sess_status := ss_success\<rparr>) zero_plan [] None)) s1 = Some s2 \<and>
    sa_cancelled (smg_pool s1 ! 0) \<and> sa_phase (smg_pool s1 ! 0) = Running \<and> \<not> runner_ctx_done (smg_pool s1 ! 0) \<and>
    actor_result_of (smg_pool s2 ! 0) = Some r \<and> ar_state r = ast_cancelled \<and>
    ar_session r = zero_session\<lparr>sess_status := ss_success\<rparr> \<and> ar_err r = None"
proof (rule sm_early_cancel_lost)
  show "validate_start_request ex_session_request = None" by code_simp
qed

end
