(* ===== verification/Subscriptions.thy ===== *)
theory Subscriptions
  imports Session_Manager
begin

text \<open>
  Event subscriptions and the relay that feeds them (\<^verbatim>\<open>sessionEventRelay\<close> and
  \<^verbatim>\<open>EventSubscription\<close> in \<^verbatim>\<open>internal/runtime/session_manager.go\<close>).  Operations on a
  subscription are attempts, since sending on a closed channel panics.  The relay's goroutine and
  its clients interleave between the critical sections of the code.
\<close>

section \<open>Subscriptions\<close>

record subscription =
  es_channel :: "streaming_event channel"
  es_closed :: bool
  es_overflowed :: bool
  es_error_event :: "streaming_event option"
  es_close_once :: bool

definition new_subscription :: "int \<Rightarrow> subscription" where
  "new_subscription buffer =
     \<lparr>es_channel = \<lparr>ch_items = [], ch_capacity = nat buffer, ch_closed = False\<rparr>,
      es_closed = False, es_overflowed = False, es_error_event = None, es_close_once = False\<rparr>"

text \<open>\<^verbatim>\<open>Close\<close> but for the callback \<^verbatim>\<open>onClose\<close>, which is the relay's.\<close>

definition sub_close :: "subscription \<Rightarrow> subscription attempt" where
  "sub_close s =
     (if es_close_once s then Done s
      else case go_close (es_channel s) of
             Done ch \<Rightarrow> Done (s\<lparr>es_close_once := True, es_closed := True, es_channel := ch\<rparr>)
           | Blocks \<Rightarrow> Blocks
           | Panics \<Rightarrow> Panics)"

definition try_send :: "streaming_event \<Rightarrow> subscription \<Rightarrow> (bool \<times> subscription) attempt" where
  "try_send ev s =
     (if es_closed s then Done (False, s)
      else case go_send ev (es_channel s) of
             Done ch \<Rightarrow> Done (True, s\<lparr>es_channel := ch\<rparr>)
           | Blocks \<Rightarrow> Done (False, s)
           | Panics \<Rightarrow> Panics)"

text \<open>A receive with a default case: what is taken, if anything, is dropped.\<close>

definition drain_one :: "'a channel \<Rightarrow> 'a channel" where
  "drain_one c = (case go_receive c of Done (x, c') \<Rightarrow> c' | _ \<Rightarrow> c)"

definition mark_overflow :: "streaming_event option \<Rightarrow> subscription \<Rightarrow> subscription attempt" where
  "mark_overflow event s =
     (if es_overflowed s then Done s
      else let s1 = s\<lparr>es_overflowed := True, es_error_event := event\<rparr> in
        (case event of
           None \<Rightarrow> sub_close s1
         | Some ev \<Rightarrow>
             (let ch = drain_one (es_channel s1) in
              case go_send ev ch of
                Done ch' \<Rightarrow> sub_close (s1\<lparr>es_channel := ch'\<rparr>)
              | Blocks \<Rightarrow> sub_close (s1\<lparr>es_channel := ch\<rparr>)
              | Panics \<Rightarrow> Panics)))"


definition subscriber_overflow_event :: "gotime \<Rightarrow> streaming_event" where
  "subscriber_overflow_event now = error_event 0 ''stream subscriber fell behind and was disconnected'' now"

definition overflow_signal :: "streaming_event \<Rightarrow> gotime \<Rightarrow> streaming_event option" where
  "overflow_signal ev now = (if ev_type ev = ev_session_complete then Some ev else Some (subscriber_overflow_event now))"

definition new_closed_subscription :: "int \<Rightarrow> subscription attempt" where
  "new_closed_subscription buffer =
     sub_close (new_subscription (if buffer \<le> 0 then default_subscriber_buffer else buffer))"

definition sub_receive :: "subscription \<Rightarrow> (streaming_event option \<times> subscription) attempt" where
  "sub_receive s =
     (case go_receive (es_channel s) of
        Done (x, ch) \<Rightarrow> Done (x, s\<lparr>es_channel := ch\<rparr>)
      | Blocks \<Rightarrow> Blocks
      | Panics \<Rightarrow> Panics)"

section \<open>The relay\<close>

text \<open>
  \<open>rl_all\<close> are all subscriptions of the relay, \<open>rl_subs\<close> those in its map.  The goroutine reads an
  event, offers it to the subscriptions that were in the map then, and at the end of its input
  closes those that are in the map then.
\<close>

datatype relay_phase =
    Reading | Offering streaming_event "nat list" | Overflowing streaming_event nat "nat list"
  | ClosingAll "nat list" | RelayDone

record relay =
  rl_buffer :: int
  rl_all :: "subscription list"
  rl_subs :: "nat list"
  rl_closed :: bool
  rl_phase :: relay_phase

definition new_relay :: "int \<Rightarrow> relay" where
  "new_relay buffer =
     \<lparr>rl_buffer = (if buffer \<le> 0 then default_subscriber_buffer else buffer), rl_all = [], rl_subs = [],
      rl_closed = False, rl_phase = Reading\<rparr>"

definition set_sub :: "nat \<Rightarrow> subscription \<Rightarrow> relay \<Rightarrow> relay" where
  "set_sub i s r = r\<lparr>rl_all := (rl_all r)[i := s]\<rparr>"

text \<open>A close with its callback.\<close>

definition relay_close_sub :: "nat \<Rightarrow> relay \<Rightarrow> relay attempt" where
  "relay_close_sub i r =
     (case sub_close (rl_all r ! i) of
        Done s \<Rightarrow> Done ((set_sub i s r)\<lparr>rl_subs := if es_close_once (rl_all r ! i) then rl_subs r else removeAll i (rl_subs r)\<rparr>)
      | Blocks \<Rightarrow> Blocks
      | Panics \<Rightarrow> Panics)"

text \<open>\<^verbatim>\<open>subscribe\<close>; the result is the position of the new subscription.\<close>

definition relay_subscribe :: "int \<Rightarrow> relay \<Rightarrow> relay attempt" where
  "relay_subscribe buffer r =
     (let size = (if buffer \<le> 0 then rl_buffer r else buffer) in
      if rl_closed r
      then (case new_closed_subscription size of
              Done s \<Rightarrow> Done (r\<lparr>rl_all := rl_all r @ [s]\<rparr>)
            | Blocks \<Rightarrow> Blocks | Panics \<Rightarrow> Panics)
      else Done (r\<lparr>rl_all := rl_all r @ [new_subscription size], rl_subs := rl_subs r @ [length (rl_all r)]\<rparr>))"

datatype relay_action =
    Subscribe int
  | ClientClose nat
  | ClientReceive nat
  | ReadEvent streaming_event
  | InputClosed
  | OfferNext
  | SignalOverflow gotime
  | CloseNext

text \<open>An action that is not possible in a state blocks.\<close>

definition relay_act :: "relay_action \<Rightarrow> relay \<Rightarrow> relay attempt" where
  "relay_act x r =
     (case x of
        Subscribe buffer \<Rightarrow> relay_subscribe buffer r
      | ClientClose i \<Rightarrow> if i < length (rl_all r) then relay_close_sub i r else Blocks
      | ClientReceive i \<Rightarrow>
          if i < length (rl_all r)
          then (case sub_receive (rl_all r ! i) of
                  Done (ev, s) \<Rightarrow> Done (set_sub i s r) | Blocks \<Rightarrow> Blocks | Panics \<Rightarrow> Panics)
          else Blocks
      | ReadEvent ev \<Rightarrow>
          (case rl_phase r of Reading \<Rightarrow> Done (r\<lparr>rl_phase := Offering ev (rl_subs r)\<rparr>) | _ \<Rightarrow> Blocks)
      | InputClosed \<Rightarrow>
          (case rl_phase r of
             Reading \<Rightarrow> Done (r\<lparr>rl_closed := True, rl_subs := [], rl_phase := ClosingAll (rl_subs r)\<rparr>)
           | _ \<Rightarrow> Blocks)
      | OfferNext \<Rightarrow>
          (case rl_phase r of
             Offering ev [] \<Rightarrow> Done (r\<lparr>rl_phase := Reading\<rparr>)
           | Offering ev (i # is) \<Rightarrow>
               (case try_send ev (rl_all r ! i) of
                  Done (ok, s) \<Rightarrow>
                    Done ((set_sub i s r)\<lparr>rl_phase := if ok then Offering ev is else Overflowing ev i is\<rparr>)
                | Blocks \<Rightarrow> Blocks | Panics \<Rightarrow> Panics)
           | _ \<Rightarrow> Blocks)
      | SignalOverflow now \<Rightarrow>
          (case rl_phase r of
             Overflowing ev i is \<Rightarrow>
               (case mark_overflow (overflow_signal ev now) (rl_all r ! i) of
                  Done s \<Rightarrow>
                    Done ((set_sub i s r)\<lparr>rl_subs := if es_overflowed (rl_all r ! i) then rl_subs r else removeAll i (rl_subs r),
                       rl_phase := Offering ev is\<rparr>)
                | Blocks \<Rightarrow> Blocks | Panics \<Rightarrow> Panics)
           | _ \<Rightarrow> Blocks)
      | CloseNext \<Rightarrow>
          (case rl_phase r of
             ClosingAll [] \<Rightarrow> Done (r\<lparr>rl_phase := RelayDone\<rparr>)
           | ClosingAll (i # is) \<Rightarrow>
               (case relay_close_sub i r of
                  Done r' \<Rightarrow> Done (r'\<lparr>rl_phase := ClosingAll is\<rparr>) | Blocks \<Rightarrow> Blocks | Panics \<Rightarrow> Panics)
           | _ \<Rightarrow> Blocks))"

fun relay_acts :: "relay_action list \<Rightarrow> relay \<Rightarrow> relay attempt" where
  "relay_acts [] r = Done r"
| "relay_acts (x # xs) r = (case relay_act x r of Done r' \<Rightarrow> relay_acts xs r' | Blocks \<Rightarrow> Blocks | Panics \<Rightarrow> Panics)"

section \<open>One subscription under offers and receives\<close>






lemma overflow_signal_Some: "\<exists>sig. overflow_signal ev now = Some sig"
  by (simp add: overflow_signal_def)










definition unsent :: "streaming_event option \<Rightarrow> streaming_event list" where
  "unsent p = (case p of None \<Rightarrow> [] | Some ev \<Rightarrow> [ev])"

lemma unsent_simps [simp]: "unsent None = []" "unsent (Some ev) = [ev]"
  by (simp_all add: unsent_def)





section \<open>The relay without client closes\<close>

definition sub_sound :: "subscription \<Rightarrow> bool" where
  "sub_sound s \<longleftrightarrow> es_closed s = es_close_once s \<and> ch_closed (es_channel s) = es_closed s \<and> (es_overflowed s \<longrightarrow> es_closed s)"

fun phase_subs :: "relay_phase \<Rightarrow> nat list" where
  "phase_subs (Offering ev is) = is"
| "phase_subs (Overflowing ev i is) = i # is"
| "phase_subs (ClosingAll is) = is"
| "phase_subs _ = []"

definition closing :: "relay_phase \<Rightarrow> bool" where
  "closing p \<longleftrightarrow> p = RelayDone \<or> (\<exists>is. p = ClosingAll is)"

definition relay_inv :: "relay \<Rightarrow> bool" where
  "relay_inv r \<longleftrightarrow>
     (\<forall>s \<in> set (rl_all r). sub_sound s) \<and> (\<forall>i \<in> set (phase_subs (rl_phase r)) \<union> set (rl_subs r). i < length (rl_all r)) \<and>
     (rl_closed r \<longleftrightarrow> closing (rl_phase r)) \<and>
     (\<not> closing (rl_phase r) \<longrightarrow> (\<forall>s \<in> set (rl_all r). es_closed s \<longrightarrow> es_overflowed s))"

definition fits :: "relay \<Rightarrow> subscription \<Rightarrow> bool" where
  "fits r s \<longleftrightarrow> sub_sound s \<and> (closing (rl_phase r) \<or> (es_closed s \<longrightarrow> es_overflowed s))"

lemma relay_inv_at: "relay_inv r \<Longrightarrow> i < length (rl_all r) \<Longrightarrow> fits r (rl_all r ! i)"
  by (auto simp: relay_inv_def fits_def)

lemma relay_inv_set:
  assumes "relay_inv r" "fits r s" "set (phase_subs p) \<subseteq> set (phase_subs (rl_phase r))" "closing p = closing (rl_phase r)"
    and "set subs \<subseteq> set (rl_subs r)"
  shows "relay_inv ((set_sub i s r)\<lparr>rl_subs := subs, rl_phase := p\<rparr>)"
  using assms by (auto simp: relay_inv_def set_sub_def fits_def dest!: set_update_subset_insert [THEN subsetD])

lemma relay_inv_set_subs:
  assumes "relay_inv r" "fits r s" "set subs \<subseteq> set (rl_subs r)"
  shows "relay_inv ((set_sub i s r)\<lparr>rl_subs := subs\<rparr>)"
  using relay_inv_set [OF assms(1,2) _ _ assms(3), of "rl_phase r" i] by (simp add: set_sub_def)

lemma sub_close_sound: "sub_sound s \<Longrightarrow> \<exists>s'. sub_close s = Done s' \<and> sub_sound s' \<and> es_overflowed s' = es_overflowed s"
  by (auto simp: sub_close_def sub_sound_def go_close_def)

lemma sub_receive_sound:
  "sub_sound s \<Longrightarrow> sub_receive s = Blocks \<or>
   (\<exists>x s'. sub_receive s = Done (x, s') \<and> sub_sound s' \<and> es_closed s' = es_closed s \<and> es_overflowed s' = es_overflowed s)"
  by (auto simp: sub_receive_def go_receive_def sub_sound_def split: list.splits)

lemma try_send_sound:
  "sub_sound s \<Longrightarrow> \<exists>ok s'. try_send ev s = Done (ok, s') \<and> sub_sound s' \<and> es_closed s' = es_closed s \<and> es_overflowed s' = es_overflowed s"
  by (auto simp: try_send_def go_send_def sub_sound_def)

lemma mark_overflow_sound:
  assumes "sub_sound s" "es_closed s \<longrightarrow> es_overflowed s"
  shows "\<exists>s'. mark_overflow (overflow_signal ev now) s = Done s' \<and> sub_sound s' \<and> es_overflowed s'"
proof (cases "es_overflowed s")
  case True
  with assms show ?thesis by (simp add: mark_overflow_def)
next
  case False
  obtain sig where "overflow_signal ev now = Some sig" using overflow_signal_Some by blast
  with False assms show ?thesis
    by (auto simp: mark_overflow_def Let_def drain_one_def go_receive_def go_send_def sub_close_def go_close_def
        sub_sound_def split: list.splits)
qed

definition by_relay :: "relay_action \<Rightarrow> bool" where
  "by_relay x \<longleftrightarrow> (\<forall>i. x \<noteq> ClientClose i)"

lemma relay_act_sound:
  assumes inv: "relay_inv r" and x: "by_relay x"
  shows "relay_act x r = Blocks \<or> (\<exists>r'. relay_act x r = Done r' \<and> relay_inv r')"
proof (cases x)
  case (Subscribe b)
  let ?n = "if b \<le> 0 then rl_buffer r else b"
  obtain s where s: "new_closed_subscription ?n = Done s" "sub_sound s"
    using sub_close_sound [of "new_subscription (if ?n \<le> 0 then default_subscriber_buffer else ?n)"]
    by (auto simp: new_closed_subscription_def new_subscription_def sub_sound_def)
  show ?thesis
  proof (cases "rl_closed r")
    case True
    with Subscribe s inv show ?thesis by (auto simp: relay_act_def relay_subscribe_def Let_def relay_inv_def ball_Un less_SucI)
  next
    case False
    with Subscribe inv show ?thesis
      by (auto simp: relay_act_def relay_subscribe_def Let_def relay_inv_def new_subscription_def sub_sound_def
          ball_Un less_SucI)
  qed
next
  case (ClientReceive i)
  show ?thesis
  proof (cases "i < length (rl_all r)")
    case True
    note f = relay_inv_at [OF inv True]
    from sub_receive_sound [of "rl_all r ! i"] f consider "sub_receive (rl_all r ! i) = Blocks"
      | y s where "sub_receive (rl_all r ! i) = Done (y, s)" "fits r s" by (auto simp: fits_def)
    then show ?thesis
    proof cases
      case 2
      from relay_inv_set_subs [OF inv 2(2) order_refl, of i] 2 True ClientReceive show ?thesis
        by (simp add: relay_act_def set_sub_def)
    qed (use True ClientReceive in \<open>simp add: relay_act_def\<close>)
  qed (use ClientReceive in \<open>simp add: relay_act_def\<close>)
next
  case (ReadEvent ev)
  with inv show ?thesis by (cases "rl_phase r") (auto simp: relay_act_def relay_inv_def closing_def)
next
  case InputClosed
  with inv show ?thesis by (cases "rl_phase r") (auto simp: relay_act_def relay_inv_def closing_def)
next
  case OfferNext
  show ?thesis
  proof (cases "rl_phase r")
    case (Offering ev "is")
    show ?thesis
    proof (cases "is")
      case Nil
      with OfferNext Offering inv show ?thesis by (auto simp: relay_act_def relay_inv_def closing_def)
    next
      case (Cons i js)
      with inv Offering have "i < length (rl_all r)" by (simp add: relay_inv_def)
      from relay_inv_at [OF inv this] try_send_sound [of "rl_all r ! i" ev] obtain ok s
        where s: "try_send ev (rl_all r ! i) = Done (ok, s)" "fits r s" by (auto simp: fits_def)
      have "relay_inv ((set_sub i s r)\<lparr>rl_subs := rl_subs r, rl_phase := if ok then Offering ev js else Overflowing ev i js\<rparr>)"
        by (rule relay_inv_set [OF inv s(2)]) (auto simp: Offering Cons closing_def)
      with OfferNext Offering Cons s show ?thesis by (simp add: relay_act_def set_sub_def)
    qed
  qed (use OfferNext in \<open>simp_all add: relay_act_def\<close>)
next
  case (SignalOverflow now)
  show ?thesis
  proof (cases "rl_phase r")
    case (Overflowing ev i "is")
    with inv have "i < length (rl_all r)" "\<not> closing (rl_phase r)" by (simp_all add: relay_inv_def closing_def)
    with relay_inv_at [OF inv] mark_overflow_sound [of "rl_all r ! i" ev now] obtain s
      where s: "mark_overflow (overflow_signal ev now) (rl_all r ! i) = Done s" "fits r s" by (auto simp: fits_def)
    have "relay_inv ((set_sub i s r)\<lparr>rl_subs := if es_overflowed (rl_all r ! i) then rl_subs r else removeAll i (rl_subs r),
        rl_phase := Offering ev is\<rparr>)"
      by (rule relay_inv_set [OF inv s(2)]) (auto simp: Overflowing closing_def)
    with SignalOverflow Overflowing s show ?thesis by (simp add: relay_act_def)
  qed (use SignalOverflow in \<open>simp_all add: relay_act_def\<close>)
next
  case CloseNext
  show ?thesis
  proof (cases "rl_phase r")
    case (ClosingAll "is")
    show ?thesis
    proof (cases "is")
      case Nil
      with CloseNext ClosingAll inv show ?thesis by (auto simp: relay_act_def relay_inv_def closing_def)
    next
      case (Cons i js)
      with inv ClosingAll have "i < length (rl_all r)" by (simp add: relay_inv_def)
      from relay_inv_at [OF inv this] sub_close_sound [of "rl_all r ! i"] obtain s
        where s: "sub_close (rl_all r ! i) = Done s" "fits r s" by (auto simp: fits_def ClosingAll closing_def)
      have "relay_inv ((set_sub i s r)\<lparr>rl_subs := if es_close_once (rl_all r ! i) then rl_subs r else removeAll i (rl_subs r),
          rl_phase := ClosingAll js\<rparr>)"
        by (rule relay_inv_set [OF inv s(2)]) (auto simp: ClosingAll Cons closing_def)
      with CloseNext ClosingAll Cons s show ?thesis by (simp add: relay_act_def relay_close_sub_def)
    qed
  qed (use CloseNext in \<open>simp_all add: relay_act_def\<close>)
qed (use x in \<open>auto simp: by_relay_def\<close>)

lemma relay_acts_sound:
  "relay_inv r \<Longrightarrow> list_all by_relay xs \<Longrightarrow> relay_acts xs r \<noteq> Panics"
proof (induction xs arbitrary: r)
  case (Cons x xs)
  then show ?case using relay_act_sound [of r x] by auto
qed simp

lemma relay_inv_new: "relay_inv (new_relay b)"
  by (simp add: relay_inv_def new_relay_def closing_def)

section \<open>Properties\<close>


text \<open>
  C21. Clients that subscribe and receive but leave closing to the relay are safe: over any interleaving
  of new subscriptions, receives, events, overflows and the end of the input, the relay never panics.
\<close>

theorem relay_never_panics:
  assumes "list_all by_relay xs"
  shows "relay_acts xs (new_relay buffer) \<noteq> Panics"
  using relay_acts_sound [OF relay_inv_new assms] .

lemma relay_never_panics_witness:
  "relay_acts [Subscribe 1, ReadEvent (error_event 1 [] 0), OfferNext, OfferNext, ReadEvent (error_event 2 [] 0), OfferNext,
     SignalOverflow 5, OfferNext, ClientReceive 0, InputClosed, CloseNext, Subscribe 3] (new_relay 0) \<noteq> Panics"
  by (rule relay_never_panics) (simp add: by_relay_def)

text \<open>
  A client that closes its subscription while the relay is between the failed send and the
  overflow signal makes the relay panic: \<^verbatim>\<open>markOverflow\<close> does not look at \<^verbatim>\<open>closed\<close> and sends on the
  closed channel.  The same happens when the client closes between the relay's snapshot of its
  subscribers and the send.
\<close>

theorem close_during_broadcast_panics:
  "relay_acts [Subscribe 1, ReadEvent ev, OfferNext, OfferNext, ReadEvent ev, OfferNext, ClientClose 0, SignalOverflow now]
     (new_relay buffer) = Panics \<and>
   relay_acts [Subscribe 1, ReadEvent ev, ClientClose 0, OfferNext, SignalOverflow now] (new_relay buffer) = Panics"
  by (simp add: new_relay_def relay_act_def relay_subscribe_def Let_def new_subscription_def try_send_def go_send_def
      set_sub_def relay_close_sub_def sub_close_def go_close_def mark_overflow_def overflow_signal_def drain_one_def
      go_receive_def)

end
