(* ===== verification/Paths.thy ===== *)
theory Paths
  imports Prelude
begin

text \<open>
  The part of Go's \<^verbatim>\<open>path/filepath\<close> the tools rely on, for a Unix system: \<^verbatim>\<open>Clean\<close>,
  \<^verbatim>\<open>Join\<close>, \<^verbatim>\<open>IsAbs\<close> and \<^verbatim>\<open>Abs\<close>.  The working directory is an argument.  The lemmas
  relate cleaned absolute paths, which the code compares as strings, to lists of segments.
\<close>

abbreviation slash :: char where "slash \<equiv> CHR 0x2F"
abbreviation dot_seg :: string where "dot_seg \<equiv> ''.''"
abbreviation up_seg :: string where "up_seg \<equiv> ''..''"

section \<open>Cleaning\<close>

text \<open>One segment of a path, on the stack of those kept so far (the last one first).\<close>

definition clean_step :: "bool \<Rightarrow> string \<Rightarrow> string list \<Rightarrow> string list" where
  "clean_step rooted p st =
     (if p = [] \<or> p = dot_seg then st
      else if p = up_seg
      then (case st of
              [] \<Rightarrow> if rooted then [] else [up_seg]
            | q # qs \<Rightarrow> if q = up_seg then up_seg # st else qs)
      else p # st)"

definition clean_segments :: "bool \<Rightarrow> string \<Rightarrow> string list" where
  "clean_segments rooted s = rev (fold (clean_step rooted) (split_on slash s) [])"

definition is_abs :: "string \<Rightarrow> bool" where
  "is_abs s = has_prefix [slash] s"

definition clean_path :: "string \<Rightarrow> string" where
  "clean_path s =
     (if is_abs s then slash # join_str [slash] (clean_segments True s)
      else (let segs = clean_segments False s in if segs = [] then dot_seg else join_str [slash] segs))"

definition join_path :: "string list \<Rightarrow> string" where
  "join_path elems =
     (case dropWhile (\<lambda>e. e = []) elems of [] \<Rightarrow> [] | es \<Rightarrow> clean_path (join_str [slash] es))"

text \<open>\<^verbatim>\<open>Abs\<close>; \<open>wd\<close> is what \<^verbatim>\<open>os.Getwd\<close> returns.\<close>

definition abs_path :: "(go_error, string) result \<Rightarrow> string \<Rightarrow> (go_error, string) result" where
  "abs_path wd s =
     (if is_abs s then Inr (clean_path s)
      else case wd of Inl e \<Rightarrow> Inl e | Inr d \<Rightarrow> Inr (join_path [d, s]))"

section \<open>Segments\<close>

definition segment :: "string \<Rightarrow> bool" where
  "segment p \<longleftrightarrow> p \<noteq> [] \<and> slash \<notin> set p \<and> p \<noteq> dot_seg"

definition plain_segment :: "string \<Rightarrow> bool" where
  "plain_segment p \<longleftrightarrow> segment p \<and> p \<noteq> up_seg"

lemma split_on_no_sep: "p \<in> set (split_on c s) \<Longrightarrow> c \<notin> set p"
proof (induction s arbitrary: p)
  case (Cons x xs)
  then show ?case by (cases "split_on c xs") (auto split: if_splits)
qed simp

lemma split_on_append: "split_on c (a @ c # b) = split_on c a @ split_on c b"
proof (induction a)
  case (Cons x xs)
  then show ?case by (cases "split_on c xs") auto
qed simp

lemma split_on_id: "c \<notin> set p \<Longrightarrow> split_on c p = [p]"
  by (induction p) auto

lemma split_join: "xs \<noteq> [] \<Longrightarrow> \<forall>p \<in> set xs. c \<notin> set p \<Longrightarrow> split_on c (join_str [c] xs) = xs"
proof (induction "[c]" xs rule: join_str.induct)
  case (3 s t ss)
  then show ?case by (simp add: split_on_append split_on_id)
qed (simp_all add: split_on_id)

lemma fold_step_rooted:
  "(\<forall>q \<in> set ps. slash \<notin> set q) \<Longrightarrow> list_all plain_segment st \<Longrightarrow> list_all plain_segment (fold (clean_step True) ps st)"
proof (induction ps arbitrary: st)
  case (Cons p ps)
  have "list_all plain_segment (clean_step True p st)"
    using Cons.prems
    by (cases st) (auto simp: clean_step_def plain_segment_def [of p] plain_segment_def [of up_seg] segment_def [of p])
  with Cons show ?case by simp
qed simp

lemma segments_rooted: "list_all plain_segment (clean_segments True s)"
  using fold_step_rooted [of "split_on slash s" "[]"] split_on_no_sep [of _ slash s]
  by (simp add: clean_segments_def)

lemma segments_no_slash: "p \<in> set (clean_segments True s) \<Longrightarrow> slash \<notin> set p \<and> p \<noteq> []"
  using segments_rooted [of s] by (auto simp: list_all_iff plain_segment_def segment_def)

lemma is_abs_iff: "is_abs s \<longleftrightarrow> (\<exists>t. s = slash # t)"
  by (simp add: is_abs_def has_prefix_iff)

lemma clean_abs: "is_abs s \<Longrightarrow> clean_path s = slash # join_str [slash] (clean_segments True s)"
  by (simp add: clean_path_def)

lemma clean_is_abs [simp]: "is_abs s \<Longrightarrow> is_abs (clean_path s)"
  by (simp add: clean_abs is_abs_def)

lemma fold_plain: "list_all plain_segment ps \<Longrightarrow> fold (clean_step r) ps st = rev ps @ st"
  by (induction ps arbitrary: st) (auto simp: clean_step_def plain_segment_def segment_def)

lemma segments_clean: "is_abs s \<Longrightarrow> clean_segments True (clean_path s) = clean_segments True s"
proof -
  assume a: "is_abs s"
  let ?ps = "clean_segments True s"
  have "split_on slash (clean_path s) = [] # (if ?ps = [] then [[]] else ?ps)"
    using split_join [of ?ps slash] segments_no_slash [of _ s] by (auto simp: clean_abs [OF a])
  then have "clean_segments True (clean_path s) = rev (fold (clean_step True) ([] # (if ?ps = [] then [[]] else ?ps)) [])"
    by (simp only: clean_segments_def [of True "clean_path s"])
  also have "\<dots> = ?ps"
    using fold_plain [OF segments_rooted [of s], of True "[]"] by (simp add: clean_step_def)
  finally show ?thesis .
qed

section \<open>Cleaned absolute paths as lists of segments\<close>

definition path_of :: "string list \<Rightarrow> string" where
  "path_of ps = slash # join_str [slash] ps"

lemma path_of_inj:
  assumes "list_all plain_segment xs" "list_all plain_segment ys" "path_of xs = path_of ys"
  shows "xs = ys"
proof -
  have e: "join_str [slash] zs = [] \<longleftrightarrow> zs = []" if "list_all plain_segment zs" for zs
    using that by (cases "([slash], zs)" rule: join_str.cases) (auto simp: plain_segment_def segment_def)
  have j: "join_str [slash] xs = join_str [slash] ys" using assms(3) by (simp add: path_of_def)
  have no: "\<forall>p \<in> set xs. slash \<notin> set p" "\<forall>p \<in> set ys. slash \<notin> set p"
    using assms(1,2) by (auto simp: list_all_iff plain_segment_def segment_def)
  show ?thesis
  proof (cases "xs = []")
    case True
    with j e [OF assms(2)] show ?thesis by simp
  next
    case False
    then have "ys \<noteq> []" using j e [OF assms(1)] by auto
    then show ?thesis using split_join [OF False no(1)] split_join [OF _ no(2)] j by metis
  qed
qed

lemma join_str_append:
  "xs \<noteq> [] \<Longrightarrow> ys \<noteq> [] \<Longrightarrow> join_str sep (xs @ ys) = join_str sep xs @ sep @ join_str sep ys"
proof (induction sep xs rule: join_str.induct)
  case (2 sep s)
  then show ?case by (cases ys) auto
qed auto

text \<open>
  The code's test that a cleaned path lies below a cleaned root: the root with a separator is a
  prefix.  It says that the root's segments are a proper prefix, but for the root directory itself,
  for which it never holds.
\<close>

lemma below_iff:
  assumes R: "list_all plain_segment R" and T: "list_all plain_segment T"
  shows "has_prefix (path_of R @ [slash]) (path_of T) \<longleftrightarrow> R \<noteq> [] \<and> strict_prefix R T"
proof
  assume "has_prefix (path_of R @ [slash]) (path_of T)"
  then obtain t where t: "join_str [slash] T = join_str [slash] R @ slash # t"
    by (auto simp: has_prefix_iff path_of_def)
  then have Tne: "T \<noteq> []" by (cases T) auto
  have sp: "split_on slash (join_str [slash] R) @ split_on slash t = T"
    using split_join [OF Tne, of slash] T t by (auto simp: list_all_iff plain_segment_def segment_def split_on_append)
  show "R \<noteq> [] \<and> strict_prefix R T"
  proof (cases "R = []")
    case True
    with sp T show ?thesis by (auto simp: plain_segment_def segment_def)
  next
    case False
    with sp split_join [OF False, of slash] R have "R @ split_on slash t = T"
      by (auto simp: list_all_iff plain_segment_def segment_def)
    with False show ?thesis by (auto simp: strict_prefix_def prefix_def)
  qed
next
  assume "R \<noteq> [] \<and> strict_prefix R T"
  then obtain U where "U \<noteq> []" "T = R @ U" "R \<noteq> []" by (auto simp: strict_prefix_def prefix_def)
  then show "has_prefix (path_of R @ [slash]) (path_of T)"
    by (simp add: path_of_def join_str_append has_prefix_iff)
qed

lemma clean_path_of: "is_abs s \<Longrightarrow> clean_path s = path_of (clean_segments True s)"
  by (simp add: path_of_def clean_abs)

lemma clean_idem [simp]: "is_abs s \<Longrightarrow> clean_path (clean_path s) = clean_path s"
  by (simp add: clean_path_of [of "clean_path s"] segments_clean) (simp add: clean_path_of)

lemma inside_iff:
  assumes "is_abs root" "is_abs target"
  shows "clean_path target = clean_path root \<or> has_prefix (clean_path root @ [slash]) (clean_path target) \<longleftrightarrow>
    clean_segments True target = clean_segments True root \<or>
    clean_segments True root \<noteq> [] \<and> strict_prefix (clean_segments True root) (clean_segments True target)"
  using path_of_inj [OF segments_rooted segments_rooted] below_iff [OF segments_rooted segments_rooted]
  by (auto simp: clean_path_of [OF assms(1)] clean_path_of [OF assms(2)])

lemma join_path_abs: "is_abs d \<Longrightarrow> is_abs (join_path (d # es))"
proof -
  assume "is_abs d"
  then obtain t where d: "d = slash # t" by (auto simp: is_abs_iff)
  then have "is_abs (join_str [slash] (d # es))" by (cases es) (auto simp: is_abs_iff)
  with d show ?thesis by (simp add: join_path_def)
qed

end
