(* ===== verification/Tools.thy ===== *)
theory Tools
  imports Registries Domain Paths
begin

text \<open>
  Tools (\<^verbatim>\<open>internal/tools\<close>): the registry of tool definitions, the safety policy that every call
  has to pass, and the executor that puts them together.

  A handler acts on a state \<^typ>\<open>'w\<close>.  The host of a web request is the part of the policy's input
  that the web adapter computes: it is the argument \<open>web_host\<close>.  \<open>wd\<close> is the working directory.
\<close>

section \<open>The registry\<close>

type_synonym 'w tool_handler = "duration \<Rightarrow> tool_call \<Rightarrow> 'w \<Rightarrow> (tool_result \<times> go_error option) \<times> 'w"

record 'w tool_definition =
  tdf_name :: string
  tdf_description :: string
  tdf_schema :: string
  tdf_default_timeout :: duration
  tdf_safety_level :: string
  tdf_handler :: "'w tool_handler option"

type_synonym 'w tool_registry = "(string \<times> 'w tool_definition) list"

definition new_tool_registry :: "'w tool_registry" where
  "new_tool_registry = []"

definition tool_error :: "string \<Rightarrow> string \<Rightarrow> go_error" where
  "tool_error name what = Message (''tool '' @ quote_str name @ what)"

definition tr_register :: "'w tool_definition \<Rightarrow> 'w tool_registry \<Rightarrow> (go_error, 'w tool_registry) result" where
  "tr_register d r =
     (if tdf_name d = [] then Inl (Message ''tool name must not be empty'')
      else if tdf_description d = [] then Inl (tool_error (tdf_name d) '' description must not be empty'')
      else if tdf_schema d = [] then Inl (tool_error (tdf_name d) '' schema must not be empty'')
      else if tdf_default_timeout d \<le> 0 then Inl (tool_error (tdf_name d) '' timeout must be greater than zero'')
      else if tdf_handler d = None then Inl (tool_error (tdf_name d) '' handler must not be nil'')
      else if map_of r (tdf_name d) \<noteq> None then Inl (tool_error (tdf_name d) '' already registered'')
      else Inr ((tdf_name d, d) # r))"

definition tr_get :: "'w tool_registry \<Rightarrow> string \<Rightarrow> 'w tool_definition option" where
  "tr_get r name = map_of r name"

definition tr_list :: "'w tool_registry \<Rightarrow> 'w tool_definition list" where
  "tr_list r = sort_key tdf_name (map snd r)"

definition tr_list_tool_info :: "'w tool_registry \<Rightarrow> tool_info list" where
  "tr_list_tool_info r =
     map (\<lambda>d. \<lparr>ti_name = tdf_name d, ti_description = tdf_description d, ti_schema = tdf_schema d\<rparr>) (tr_list r)"

text \<open>The names of the definitions are the keys, so an entry is registered under its own name.\<close>

definition tool_complete :: "'w tool_definition \<Rightarrow> bool" where
  "tool_complete d \<longleftrightarrow> tdf_name d \<noteq> [] \<and> tdf_description d \<noteq> [] \<and> tdf_schema d \<noteq> [] \<and>
     0 < tdf_default_timeout d \<and> tdf_handler d \<noteq> None"

interpretation tr: named_registry "\<lambda>n. n" "\<lambda>n d. n = tdf_name d \<and> tool_complete d"
  "\<lambda>n d r. if n = tdf_name d then tr_register d r else Inl (Message [])" tr_get
  by unfold_locales (auto simp: tr_register_def tool_complete_def tr_get_def split: if_splits)

section \<open>The safety policy\<close>

record safety_policy =
  pol_workspace_root :: string
  pol_allowed_commands :: "string list"
  pol_denied_commands :: "string list"
  pol_allowed_domains :: "string list"
  pol_allowed_read_roots :: "string list"
  pol_allowed_write_roots :: "string list"
  pol_allowed_plugin_paths :: "string list"
  pol_plugin_capabilities :: "string list"

definition resolve_roots :: "string \<Rightarrow> string list \<Rightarrow> string list" where
  "resolve_roots ws roots = map (\<lambda>r. clean_path (if is_abs r then r else join_path [ws, r])) roots"

definition read_roots :: "safety_policy \<Rightarrow> string \<Rightarrow> string list" where
  "read_roots p ws = (if pol_allowed_read_roots p = [] then [ws] else resolve_roots ws (pol_allowed_read_roots p))"

definition write_roots :: "safety_policy \<Rightarrow> string \<Rightarrow> string list" where
  "write_roots p ws = (if pol_allowed_write_roots p = [] then [ws] else resolve_roots ws (pol_allowed_write_roots p))"

definition plugin_roots :: "safety_policy \<Rightarrow> string \<Rightarrow> string list" where
  "plugin_roots p ws = resolve_roots ws (pol_allowed_plugin_paths p)"

definition validate_path_payload ::
  "(go_error, string) result \<Rightarrow> string \<Rightarrow> string \<Rightarrow> string list \<Rightarrow> go_error option" where
  "validate_path_payload wd raw ws roots =
     (let target = trim_space raw in
      if target = [] then Some (Message ''path payload must not be empty'')
      else case abs_path wd (join_path [ws, target]) of
             Inl e \<Rightarrow> Some (Wrapped (''resolve path: '' @ error_text e) e)
           | Inr resolved \<Rightarrow>
               (let t = clean_path resolved in
                if list_ex (\<lambda>r. t = clean_path r \<or> has_prefix (clean_path r @ [slash]) t) roots then None
                else Some (Message (''path '' @ quote_str target @ '' escapes allowed roots''))))"

definition validate_command :: "safety_policy \<Rightarrow> string \<Rightarrow> go_error option" where
  "validate_command p raw =
     (let command = trim_space raw in
      if command = [] then Some (Message ''command must not be empty'')
      else if contains_str command ''&&'' \<or> contains_str command ''||'' \<or> contains_str command '';''
      then Some (Message ''command chaining (&&, ||, ;) is not allowed'')
      else case fields_from [] command of
             [] \<Rightarrow> Some (Message ''command must not be empty'')
           | executable # args \<Rightarrow>
               if \<not> list_ex (\<lambda>c. equal_fold c executable) (sort (pol_allowed_commands p))
               then Some (Message (''command '' @ quote_str executable @ '' is not allowlisted''))
               else if list_ex (\<lambda>b. equal_fold b executable) (sort (pol_denied_commands p))
               then Some (Message ''command is explicitly denied for safety'')
               else None)"

definition validate_allowed_domain :: "safety_policy \<Rightarrow> string \<Rightarrow> go_error option" where
  "validate_allowed_domain p host =
     (if pol_allowed_domains p = [] then None
      else if list_ex (\<lambda>d. equal_fold (trim_space d) (to_lower host)) (pol_allowed_domains p) then None
      else Some (Message (''web_fetch domain '' @ quote_str host @ '' is not allowed'')))"

definition validate_web_fetch ::
  "(string \<Rightarrow> (go_error, string) result) \<Rightarrow> safety_policy \<Rightarrow> string \<Rightarrow> go_error option" where
  "validate_web_fetch web_host p raw =
     (case web_host raw of Inl e \<Rightarrow> Some e | Inr host \<Rightarrow> validate_allowed_domain p host)"

definition first_line :: "string \<Rightarrow> string" where
  "first_line s = takeWhile (\<lambda>c. c \<noteq> CHR 0x0A) s"

definition policy_validate ::
  "(go_error, string) result \<Rightarrow> (string \<Rightarrow> (go_error, string) result) \<Rightarrow> safety_policy \<Rightarrow> 'w tool_definition
     \<Rightarrow> tool_call \<Rightarrow> go_error option" where
  "policy_validate wd web_host p d call =
     (case abs_path wd (pol_workspace_root p) of
        Inl e \<Rightarrow> Some (Wrapped (''resolve workspace root: '' @ error_text e) e)
      | Inr ws \<Rightarrow>
          if pol_workspace_root p = [] then Some (Message ''workspace root must not be empty'')
          else if tdf_name d \<in> {''read_file'', ''list_dir'', ''grep_search''}
          then validate_path_payload wd (tc_input call) ws (read_roots p ws)
          else if tdf_name d \<in> {''write_file'', ''edit_file''}
          then validate_path_payload wd (trim_space (first_line (tc_input call))) ws (write_roots p ws)
          else if tdf_name d = ''web_fetch'' then validate_web_fetch web_host p (tc_input call)
          else if tdf_name d = ''exec_command'' then validate_command p (tc_input call)
          else None)"

definition validate_plugin_path :: "(go_error, string) result \<Rightarrow> safety_policy \<Rightarrow> string \<Rightarrow> go_error option" where
  "validate_plugin_path wd p path =
     (if trim_space path = [] then Some (Message ''plugin path must not be empty'')
      else if pol_allowed_plugin_paths p = [] then None
      else if pol_workspace_root p = [] then Some (Message ''workspace root must not be empty'')
      else case abs_path wd (pol_workspace_root p) of
             Inl e \<Rightarrow> Some (Wrapped (''resolve workspace root: '' @ error_text e) e)
           | Inr ws \<Rightarrow> validate_path_payload wd path ws (plugin_roots p ws))"

definition declares_capability :: "safety_policy \<Rightarrow> string \<Rightarrow> bool" where
  "declares_capability p capability =
     (if pol_plugin_capabilities p = [] then True
      else let trimmed = trim_space capability in
        trimmed \<noteq> [] \<and> list_ex (\<lambda>c. equal_fold (trim_space c) trimmed) (pol_plugin_capabilities p))"

fun check_capabilities :: "safety_policy \<Rightarrow> string list \<Rightarrow> go_error option" where
  "check_capabilities p [] = None"
| "check_capabilities p (c # cs) =
     (let trimmed = trim_space c in
      if trimmed = [] then Some (Message ''plugin capability must not be empty'')
      else if \<not> declares_capability p trimmed
      then Some (Message (''plugin capability '' @ quote_str trimmed @ '' is not allowed''))
      else check_capabilities p cs)"

definition validate_plugin_capabilities :: "safety_policy \<Rightarrow> string list \<Rightarrow> go_error option" where
  "validate_plugin_capabilities p capabilities =
     (if pol_plugin_capabilities p = [] then None
      else if capabilities = [] then Some (Message ''plugin capabilities must be declared'')
      else check_capabilities p capabilities)"

section \<open>The executor\<close>

definition default_allowed_commands :: "string list" where
  "default_allowed_commands =
     [''go'', ''git'', ''pwd'', ''ls'', ''dir'',
      ''npm'', ''node'', ''npx'', ''yarn'', ''pnpm'',
      ''python'', ''python3'', ''pip'', ''pip3'', ''uv'',
      ''make'', ''cargo'', ''rustc'',
      ''docker'', ''docker-compose'',
      ''cat'', ''head'', ''tail'', ''echo'',
      ''mkdir'', ''cp'', ''mv'', ''env'', ''which'', ''ctest'']"

fun collect_commands :: "string list \<Rightarrow> string set \<Rightarrow> string list" where
  "collect_commands [] seen = []"
| "collect_commands (c # cs) seen =
     (let trimmed = trim_space c in
      if trimmed = [] then collect_commands cs seen
      else if to_lower trimmed \<in> seen then collect_commands cs seen
      else trimmed # collect_commands cs (insert (to_lower trimmed) seen))"

definition build_allowed_commands :: "string list \<Rightarrow> string list \<Rightarrow> string list" where
  "build_allowed_commands configured extras =
     collect_commands ((if configured \<noteq> [] then configured else default_allowed_commands) @ extras) {}"

text \<open>The policy of \<^verbatim>\<open>NewExecutor\<close>.\<close>

definition executor_policy :: "string \<Rightarrow> string list \<Rightarrow> string list \<Rightarrow> safety_policy" where
  "executor_policy ws configured extras =
     \<lparr>pol_workspace_root = ws, pol_allowed_commands = build_allowed_commands configured extras,
      pol_denied_commands = [''rm''], pol_allowed_domains = [], pol_allowed_read_roots = [''.''],
      pol_allowed_write_roots = [''.''], pol_allowed_plugin_paths = [], pol_plugin_capabilities = []\<rparr>"

record 'w tool_executor =
  te_registry :: "'w tool_registry"
  te_policy :: safety_policy

text \<open>
  \<^verbatim>\<open>builtinDefinitions\<close>: the handlers are the adapters' and come as a function from the tool's name.
\<close>

definition builtin_tools :: "(string \<times> string \<times> string \<times> duration \<times> string) list" where
  "builtin_tools =
     [(''list_dir'', ''List directory contents within the workspace'',
       ''{\"type\":\"string\",\"description\":\"relative directory path\"}'', 5 * second, ''low''),
      (''read_file'', ''Read a file within the workspace'',
       ''{\"type\":\"string\",\"description\":\"relative file path\"}'', 5 * second, ''low''),
      (''write_file'', ''Write content to a file within the workspace'',
       ''{\"type\":\"string\",\"description\":\"first line is relative file path; remaining content is file body\"}'',
       5 * second, ''medium''),
      (''edit_file'', ''Edit file content by replacing one unique text occurrence'',
       ''{\"type\":\"string\",\"description\":\"first line is relative file path; remaining payload is <<<OLD'' @ [CHR 0x5C] @
         ''n<multiline old text>'' @ [CHR 0x5C] @ ''n<<<NEW'' @ [CHR 0x5C] @ ''n<multiline new text>\"}'', 5 * second, ''medium''),
      (''glob'', ''Find files matching a glob pattern (e.g., **/*.go, src/**/*.ts, *.json)'',
       ''{\"type\":\"string\",\"description\":\"glob pattern to match files (supports ** for recursive)\"}'', 5 * second, ''low''),
      (''code_search'', ''Search source code with language-aware filtering'',
       ''{\"pattern\": \"string (required)\", \"language\": \"string (optional)\", \"output_mode\": \"string (optional: content|files_with_matches|count)\", \"max_results\": \"int (optional, default 50)\"}'',
       10 * second, ''low''),
      (''grep_search'', ''Search text under the workspace'',
       ''{\"type\":\"string\",\"description\":\"search term or regular expression literal\"}'', 5 * second, ''low''),
      (''ask_user'', ''Prompt the CLI user for interactive input'',
       ''{\"question\": \"string (required)\", \"options\": \"[]string (optional)\"}'', 300 * second, ''low''),
      (''web_fetch'', ''Fetch a web page over HTTP or HTTPS'',
       ''{\"url\": \"string (required)\", \"max_length\": \"int (optional, default 10000)\"}'', 15 * second, ''medium''),
      (''exec_command'', ''Execute an allowlisted local command'',
       ''{\"type\":\"string\",\"description\":\"command line beginning with an allowlisted executable\"}'', 10 * second, ''high'')]"

definition builtin_definitions :: "(string \<Rightarrow> 'w tool_handler) \<Rightarrow> 'w tool_definition list" where
  "builtin_definitions handlers =
     map (\<lambda>(n, de, sc, t, l). \<lparr>tdf_name = n, tdf_description = de, tdf_schema = sc, tdf_default_timeout = t,
            tdf_safety_level = l, tdf_handler = Some (handlers n)\<rparr>) builtin_tools"

fun register_tools :: "'w tool_definition list \<Rightarrow> 'w tool_registry \<Rightarrow> (go_error, 'w tool_registry) result" where
  "register_tools [] r = Inr r"
| "register_tools (d # ds) r = (case tr_register d r of Inl e \<Rightarrow> Inl e | Inr r' \<Rightarrow> register_tools ds r')"

definition new_executor ::
  "(string \<Rightarrow> 'w tool_handler) \<Rightarrow> string \<Rightarrow> string list \<Rightarrow> string list \<Rightarrow> (go_error, 'w tool_executor) result" where
  "new_executor handlers ws configured extras =
     (case register_tools (builtin_definitions handlers) new_tool_registry of
        Inl e \<Rightarrow> Inl e
      | Inr r \<Rightarrow> Inr \<lparr>te_registry = r, te_policy = executor_policy ws configured extras\<rparr>)"

definition empty_result :: "string \<Rightarrow> tool_result" where
  "empty_result name = \<lparr>tr_tool_name = name, tr_output = [], tr_error = [], tr_duration = 0\<rparr>"

definition executor_execute ::
  "(go_error, string) result \<Rightarrow> (string \<Rightarrow> (go_error, string) result) \<Rightarrow> 'w tool_executor \<Rightarrow> tool_call \<Rightarrow> 'w
     \<Rightarrow> (tool_result \<times> go_error option) \<times> 'w" where
  "executor_execute wd web_host ex call w =
     (case tr_get (te_registry ex) (tc_name call) of
        None \<Rightarrow> ((empty_result (tc_name call), Some (tool_error (tc_name call) '' is not registered'')), w)
      | Some d \<Rightarrow>
          (case policy_validate wd web_host (te_policy ex) d call of
             Some e \<Rightarrow> ((empty_result (tc_name call), Some e), w)
           | None \<Rightarrow>
               (let timeout = (if tc_timeout call \<le> 0 then tdf_default_timeout d else tc_timeout call) in
                case tdf_handler d of
                  Some h \<Rightarrow> h timeout call w
                | None \<Rightarrow> ((empty_result (tc_name call), None), w))))"

end
