(* ===== verification/Tools_Properties.thy ===== *)
theory Tools_Properties
  imports Tools
begin

text \<open>
  What the tool layer guarantees: which paths the policy accepts, which tool calls reach a handler,
  which commands are on the list, and what the registry lists.
\<close>

section \<open>Paths\<close>

text \<open>Where a path payload points, below an absolute workspace root.\<close>

definition target_segments :: "string \<Rightarrow> string \<Rightarrow> string list" where
  "target_segments ws raw = clean_segments True (ws @ slash # trim_space raw)"

lemma join_two: "is_abs ws \<Longrightarrow> t \<noteq> [] \<Longrightarrow> join_path [ws, t] = clean_path (ws @ slash # t)"
  by (auto simp: join_path_def is_abs_iff)

lemma is_abs_append: "is_abs ws \<Longrightarrow> is_abs (ws @ t)"
  by (auto simp: is_abs_iff)

lemma validate_path_payload_iff:
  assumes "is_abs ws" "\<forall>r \<in> set roots. is_abs r"
  shows "validate_path_payload wd raw ws roots = None \<longleftrightarrow> trim_space raw \<noteq> [] \<and>
    (\<exists>r \<in> set roots. target_segments ws raw = clean_segments True r \<or>
       clean_segments True r \<noteq> [] \<and> strict_prefix (clean_segments True r) (target_segments ws raw))"
proof (cases "trim_space raw = []")
  case True
  then show ?thesis by (simp add: validate_path_payload_def)
next
  case False
  let ?p = "ws @ slash # trim_space raw"
  have p: "is_abs ?p" by (rule is_abs_append [OF assms(1)])
  have t: "clean_path (clean_path ?p) = clean_path ?p" "is_abs (clean_path ?p)"
    using p by simp_all
  have a: "abs_path wd (join_path [ws, trim_space raw]) = Inr (clean_path ?p)"
    by (simp add: join_two [OF assms(1) False] abs_path_def t(2) clean_idem [OF p])
  have "validate_path_payload wd raw ws roots = None \<longleftrightarrow>
      (\<exists>r \<in> set roots. clean_path ?p = clean_path r \<or> has_prefix (clean_path r @ [slash]) (clean_path ?p))"
    using False by (simp add: validate_path_payload_def Let_def a clean_idem [OF p] list_ex_iff)
  also have "\<dots> \<longleftrightarrow> (\<exists>r \<in> set roots. target_segments ws raw = clean_segments True r \<or>
       clean_segments True r \<noteq> [] \<and> strict_prefix (clean_segments True r) (target_segments ws raw))"
    using assms(2) inside_iff [OF _ p] unfolding target_segments_def by blast
  finally show ?thesis using False by simp
qed

text \<open>
  C22. The path policy keeps a call inside its roots.  For an absolute workspace and absolute roots, a
  payload is accepted exactly if it is not blank and the path it names, cleaned of every \<open>.\<close> and
  \<open>..\<close>, is one of the roots or lies strictly below one of them, segment by segment; the one root
  below which nothing is accepted is the root directory itself.
\<close>

theorem path_policy_contains:
  assumes "is_abs ws" "list_all is_abs roots"
  shows "(validate_path_payload wd raw ws roots = None \<longleftrightarrow> trim_space raw \<noteq> [] \<and>
      (\<exists>r. r \<in> set roots \<and> (target_segments ws raw = clean_segments True r \<or>
         clean_segments True r \<noteq> [] \<and> strict_prefix (clean_segments True r) (target_segments ws raw)))) \<and>
    list_all plain_segment (target_segments ws raw)"
  using validate_path_payload_iff [OF assms(1), of roots wd raw] assms(2)
  by (auto simp: list_all_iff target_segments_def segments_rooted [unfolded list_all_iff])

lemma path_policy_contains_witness:
  "validate_path_payload (Inr ''/'') ''src/../../etc/passwd'' ''/work'' [''/work''] \<noteq> None \<and>
   validate_path_payload (Inr ''/'') ''src/./a.go'' ''/work'' [''/work''] = None"
proof -
  have s: "trim_space ''src/../../etc/passwd'' \<noteq> []" "target_segments ''/work'' ''src/../../etc/passwd'' = [''etc'', ''passwd'']"
    "trim_space ''src/./a.go'' \<noteq> []" "target_segments ''/work'' ''src/./a.go'' = [''work'', ''src'', ''a.go'']"
    "clean_segments True ''/work'' = [''work'']" "is_abs ''/work''"
    by code_simp+
  have ok: "list_all is_abs [''/work'']" using s(6) by simp
  show ?thesis
    using path_policy_contains [OF s(6) ok, of "Inr ''/''" "''src/../../etc/passwd''"]
      path_policy_contains [OF s(6) ok, of "Inr ''/''" "''src/./a.go''"] s(1-5)
    by (simp add: strict_prefix_def)
qed

text \<open>
  A workspace at the root directory refuses every file.  With \<open>/\<close> as workspace and only root, a
  payload is accepted only if it names the root directory itself: the test compares with \<open>//\<close>.
\<close>

theorem root_workspace_refuses:
  "validate_path_payload wd raw [slash] [[slash]] = None \<longleftrightarrow>
     trim_space raw \<noteq> [] \<and> target_segments [slash] raw = []"
proof -
  have "clean_segments True [slash] = []" "is_abs [slash]" by code_simp+
  then show ?thesis using validate_path_payload_iff [of "[slash]" "[[slash]]" wd raw] by simp
qed

section \<open>The executor\<close>

definition builtin_names :: "string list" where
  "builtin_names = map fst builtin_tools"

lemma builtin_names_distinct: "distinct builtin_names"
  by code_simp

lemma builtin_tools_complete:
  "list_all (\<lambda>(n, de, sc, t, l). n \<noteq> [] \<and> de \<noteq> [] \<and> sc \<noteq> [] \<and> 0 < t) builtin_tools"
  by code_simp

lemma register_tools_ok:
  "list_all tool_complete ds \<Longrightarrow> distinct (map tdf_name ds) \<Longrightarrow> (\<forall>d \<in> set ds. map_of r (tdf_name d) = None) \<Longrightarrow>
   register_tools ds r = Inr (rev (map (\<lambda>d. (tdf_name d, d)) ds) @ r)"
proof (induction ds arbitrary: r)
  case (Cons d ds)
  then have "tr_register d r = Inr ((tdf_name d, d) # r)"
    by (auto simp: tr_register_def tool_complete_def)
  moreover have "\<forall>d' \<in> set ds. map_of ((tdf_name d, d) # r) (tdf_name d') = None"
    using Cons.prems(2,3) by (auto simp: image_iff)
  ultimately show ?case using Cons by simp
qed simp

lemma builtin_definitions_complete: "list_all tool_complete (builtin_definitions handlers)"
  using builtin_tools_complete by (auto simp: builtin_definitions_def list_all_iff tool_complete_def)

lemma builtin_definitions_names: "map tdf_name (builtin_definitions handlers) = builtin_names"
  by (simp add: builtin_definitions_def builtin_names_def case_prod_beta comp_def)

lemma new_executor_ok:
  "new_executor handlers ws conf extras = Inr
     \<lparr>te_registry = rev (map (\<lambda>d. (tdf_name d, d)) (builtin_definitions handlers)),
      te_policy = executor_policy ws conf extras\<rparr>"
  using register_tools_ok [OF builtin_definitions_complete, of handlers new_tool_registry]
    builtin_definitions_names [of handlers] builtin_names_distinct
  by (simp add: new_executor_def new_tool_registry_def)

lemma builtin_handler:
  "d \<in> set (builtin_definitions handlers) \<Longrightarrow> tdf_handler d = Some (handlers (tdf_name d)) \<and> 0 < tdf_default_timeout d"
  using builtin_definitions_complete [of handlers]
  by (auto simp: builtin_definitions_def list_all_iff tool_complete_def)

lemma executor_execute_cases:
  "\<exists>ex. new_executor handlers ws conf extras = Inr ex \<and>
     (case tr_get (te_registry ex) (tc_name call) of
        None \<Rightarrow> tc_name call \<notin> set builtin_names \<and>
          executor_execute wd web_host ex call w =
            ((empty_result (tc_name call), Some (tool_error (tc_name call) '' is not registered'')), w)
      | Some d \<Rightarrow> tc_name call \<in> set builtin_names \<and> tdf_name d = tc_name call \<and>
          (case policy_validate wd web_host (executor_policy ws conf extras) d call of
             Some e \<Rightarrow> executor_execute wd web_host ex call w = ((empty_result (tc_name call), Some e), w)
           | None \<Rightarrow> \<exists>timeout. 0 < timeout \<and> timeout = (if tc_timeout call \<le> 0 then tdf_default_timeout d else tc_timeout call) \<and>
               executor_execute wd web_host ex call w = handlers (tc_name call) timeout call w))"
proof -
  let ?r = "rev (map (\<lambda>d. (tdf_name d, d)) (builtin_definitions handlers))"
  let ?ex = "\<lparr>te_registry = ?r, te_policy = executor_policy ws conf extras\<rparr>"
  have keys: "fst ` set ?r = set builtin_names"
    using builtin_definitions_names [of handlers] by (force simp flip: set_map simp: comp_def)
  show ?thesis
  proof (cases "tr_get ?r (tc_name call)")
    case None
    then have "tc_name call \<notin> set builtin_names" using keys by (simp add: tr_get_def map_of_eq_None_iff)
    with None show ?thesis
      by (intro exI [of _ ?ex]) (simp add: new_executor_ok executor_execute_def)
  next
    case (Some d)
    then have "(tc_name call, d) \<in> set ?r" by (auto simp: tr_get_def dest: map_of_SomeD)
    then have d: "d \<in> set (builtin_definitions handlers)" "tdf_name d = tc_name call" by auto
    then have "tc_name call \<in> set builtin_names"
      using builtin_definitions_names [of handlers] by (metis image_eqI set_map)
    with Some d(2) builtin_handler [OF d(1)] show ?thesis
      by (intro exI [of _ ?ex]) (auto simp: new_executor_ok executor_execute_def Let_def split: option.splits)
  qed
qed

text \<open>
  C23. A tool call of a new executor reaches a handler only through the policy.  Construction always
  succeeds; a call whose tool is not a built-in one, or that the policy refuses, returns an error and
  leaves the world as it is; any other call is exactly the handler of that tool, with the call's own
  timeout when it is positive and the tool's default otherwise.
\<close>

theorem executor_gate:
  "\<exists>ex. new_executor handlers ws conf extras = Inr ex \<and>
     (case tr_get (te_registry ex) (tc_name call) of
        None \<Rightarrow> tc_name call \<notin> set builtin_names \<and>
          executor_execute wd web_host ex call w =
            ((empty_result (tc_name call), Some (tool_error (tc_name call) '' is not registered'')), w)
      | Some d \<Rightarrow> tc_name call \<in> set builtin_names \<and> tdf_name d = tc_name call \<and>
          (case policy_validate wd web_host (executor_policy ws conf extras) d call of
             Some e \<Rightarrow> executor_execute wd web_host ex call w = ((empty_result (tc_name call), Some e), w)
           | None \<Rightarrow> \<exists>timeout. 0 < timeout \<and> timeout = (if tc_timeout call \<le> 0 then tdf_default_timeout d else tc_timeout call) \<and>
               executor_execute wd web_host ex call w = handlers (tc_name call) timeout call w))"
  by (rule executor_execute_cases)

section \<open>Commands\<close>

lemma collect_commands_keys:
  "distinct (map to_lower (collect_commands cs seen)) \<and> to_lower ` set (collect_commands cs seen) \<inter> seen = {}"
  by (induction cs seen rule: collect_commands.induct) (auto simp: Let_def)

lemma collect_commands_from:
  "c \<in> set (collect_commands cs seen) \<Longrightarrow> c \<noteq> [] \<and> (\<exists>d \<in> set cs. c = trim_space d)"
  by (induction cs seen rule: collect_commands.induct) (auto simp: Let_def split: if_splits)

lemma collect_commands_all:
  "d \<in> set cs \<Longrightarrow> trim_space d \<noteq> [] \<Longrightarrow> to_lower (trim_space d) \<notin> seen \<Longrightarrow>
   to_lower (trim_space d) \<in> to_lower ` set (collect_commands cs seen)"
proof (induction cs seen rule: collect_commands.induct)
  case (2 c cs seen)
  show ?case
  proof (cases "trim_space c = [] \<or> to_lower (trim_space c) \<in> seen")
    case True
    with 2 show ?thesis by (cases "trim_space c = []") (auto simp: Let_def)
  next
    case False
    with 2 show ?thesis by (cases "to_lower (trim_space d) = to_lower (trim_space c)") (auto simp: Let_def)
  qed
qed simp

text \<open>
  The list of allowed commands has no blank entry and no command twice, up to case; it holds the
  trimmed commands of the configured list, or of the default one when that is empty, and of the extra
  list, every one of them once.
\<close>

theorem allowed_commands_complete:
  "distinct (map to_lower (build_allowed_commands conf extras)) \<and>
   to_lower ` set (build_allowed_commands conf extras) =
     to_lower ` {trim_space d | d. trim_space d \<noteq> [] \<and>
       d \<in> set (if conf \<noteq> [] then conf else default_allowed_commands) \<union> set extras} \<and>
   [] \<notin> set (build_allowed_commands conf extras)"
proof -
  let ?in = "(if conf \<noteq> [] then conf else default_allowed_commands) @ extras"
  let ?out = "collect_commands ?in {}"
  have "to_lower ` set ?out = to_lower ` {trim_space d | d. trim_space d \<noteq> [] \<and> d \<in> set ?in}"
  proof
    show "to_lower ` set ?out \<subseteq> to_lower ` {trim_space d | d. trim_space d \<noteq> [] \<and> d \<in> set ?in}"
      by (rule image_mono) (use collect_commands_from [of _ ?in "{}"] in blast)
    show "to_lower ` {trim_space d | d. trim_space d \<noteq> [] \<and> d \<in> set ?in} \<subseteq> to_lower ` set ?out"
      using collect_commands_all [of _ ?in "{}"] by blast
  qed
  moreover have "[] \<notin> set ?out" using collect_commands_from by blast
  ultimately show ?thesis
    using collect_commands_keys [of ?in "{}"] unfolding build_allowed_commands_def set_append [symmetric] by blast
qed

lemma default_commands_lower: "list_all (\<lambda>c. to_lower c = c) default_allowed_commands \<and> ''rm'' \<notin> set default_allowed_commands"
  by code_simp

lemma default_build: "build_allowed_commands [] [] = default_allowed_commands"
  by code_simp

lemma default_commands_iff:
  "validate_command (executor_policy ws [] []) raw = None \<longleftrightarrow>
     (let c = trim_space raw in
      \<not> contains_str c ''&&'' \<and> \<not> contains_str c ''||'' \<and> \<not> contains_str c '';'' \<and> c \<noteq> [] \<and>
      (case fields_from [] c of [] \<Rightarrow> False | x # xs \<Rightarrow> to_lower x \<in> set default_allowed_commands))"
proof -
  have fold: "(\<exists>c \<in> set default_allowed_commands. equal_fold c x) \<longleftrightarrow> to_lower x \<in> set default_allowed_commands" for x
    using default_commands_lower by (auto simp: equal_fold_def list_all_iff)
  have rm: "to_lower x \<in> set default_allowed_commands \<Longrightarrow> \<not> equal_fold ''rm'' x" for x
    using default_commands_lower by (auto simp: equal_fold_def to_lower_def lower_char_def)
  show ?thesis
    using rm by (auto simp: validate_command_def executor_policy_def default_build Let_def list_ex_iff fold split: list.splits)
qed

text \<open>
  What an executor without configured commands lets through: a command line is accepted exactly if
  it holds no chaining operator and its first field is, up to case, one of the default commands.
\<close>

theorem default_commands_accepted:
  "validate_command (executor_policy ws [] []) raw = None \<longleftrightarrow>
     (let c = trim_space raw in
      \<not> contains_str c ''&&'' \<and> \<not> contains_str c ''||'' \<and> \<not> contains_str c '';'' \<and> c \<noteq> [] \<and>
      (case fields_from [] c of [] \<Rightarrow> False | x # xs \<Rightarrow> to_lower x \<in> set default_allowed_commands))"
  by (rule default_commands_iff)

text \<open>
  The list of denied commands does not keep \<open>rm\<close> from being run: the default list allows \<open>env\<close>,
  which runs its arguments.
\<close>

theorem denied_command_bypassed:
  "validate_command (executor_policy ws [] []) ''rm -rf .'' \<noteq> None \<and>
   validate_command (executor_policy ws [] []) ''env rm -rf .'' = None"
  unfolding default_commands_iff by code_simp

section \<open>The registry\<close>

text \<open>
  The registry takes a definition exactly if it is complete and its name is free, never changes
  one it has, and lists what it has in order of names: after any registrations, a name has the first
  complete definition that was given for it.
\<close>

theorem tool_registry_first_wins:
  "map_of (fold (\<lambda>d r. case tr_register d r of Inl _ \<Rightarrow> r | Inr r' \<Rightarrow> r') ds []) n =
     find (\<lambda>d. tdf_name d = n \<and> tool_complete d) ds \<and>
   sorted (map tdf_name (tr_list r)) \<and> mset (tr_list r) = mset (map snd r)"
proof -
  let ?reg = "\<lambda>n d r. if n = tdf_name d then tr_register d r else Inl (Message [])"
  have f: "fold (\<lambda>d r. case tr_register d r of Inl _ \<Rightarrow> r | Inr r' \<Rightarrow> r') ds r =
      register_all ?reg (map (\<lambda>d. (tdf_name d, d)) ds) r" for r
    by (induction ds arbitrary: r) (auto split: sum.splits)
  have "find (\<lambda>(i, v). i = n \<and> i = tdf_name v \<and> tool_complete v) (map (\<lambda>d. (tdf_name d, d)) ds) =
      map_option (\<lambda>d. (tdf_name d, d)) (find (\<lambda>d. tdf_name d = n \<and> tool_complete d) ds)"
    by (induction ds) auto
  then show ?thesis
    using tr.register_all_lookup [of "map (\<lambda>d. (tdf_name d, d)) ds" "[]" n]
    by (simp add: f tr_get_def tr_list_def option.map_comp comp_def option.map_ident)
qed

end
