(* ===== verification/File_Adapter.thy ===== *)
theory File_Adapter
  imports Tools_Properties
begin

text \<open>
  The file tools (\<^verbatim>\<open>internal/tools/adapters/files.go\<close>).  The operating system's files are a record of
  functions on a state \<^typ>\<open>'w\<close>; \<open>dur\<close> is what \<^verbatim>\<open>time.Since\<close> measures.  The context is looked at
  by \<^verbatim>\<open>ListDir\<close> only: \<open>ctx_err\<close> tells, for each entry, whether it is done.
\<close>

section \<open>The operating system\<close>

record 'w file_system =
  fs_read :: "string \<Rightarrow> 'w \<Rightarrow> (go_error, string) result"
  fs_write :: "string \<Rightarrow> string \<Rightarrow> 'w \<Rightarrow> go_error option \<times> 'w"
  fs_mkdir_all :: "string \<Rightarrow> 'w \<Rightarrow> go_error option \<times> 'w"
  fs_read_dir :: "string \<Rightarrow> 'w \<Rightarrow> (go_error, (string \<times> bool) list) result"

type_synonym tool_outcome = "tool_result \<times> go_error option"

definition refused :: "duration \<Rightarrow> tool_call \<Rightarrow> go_error \<Rightarrow> tool_outcome" where
  "refused dur call e = (\<lparr>tr_tool_name = tc_name call, tr_output = [], tr_error = [], tr_duration = dur\<rparr>, Some e)"

definition answered :: "duration \<Rightarrow> tool_call \<Rightarrow> string \<Rightarrow> tool_outcome" where
  "answered dur call out = (\<lparr>tr_tool_name = tc_name call, tr_output = out, tr_error = [], tr_duration = dur\<rparr>, None)"

section \<open>Parts of the package strings\<close>

text \<open>\<^verbatim>\<open>strings.SplitN(s, "\<newline>", 2)\<close>: the first part, and the second when there is one.\<close>

fun split_line :: "string \<Rightarrow> string \<times> string option" where
  "split_line [] = ([], None)"
| "split_line (c # cs) =
     (if c = CHR 0x0A then ([], Some cs) else (let (a, b) = split_line cs in (c # a, b)))"

text \<open>\<^verbatim>\<open>strings.Index\<close>, with the text before and after the first occurrence.\<close>

fun find_str :: "string \<Rightarrow> string \<Rightarrow> (string \<times> string) option" where
  "find_str sub [] = (if sub = [] then Some ([], []) else None)"
| "find_str sub (c # cs) =
     (if has_prefix sub (c # cs) then Some ([], drop (length sub) (c # cs))
      else map_option (\<lambda>(a, b). (c # a, b)) (find_str sub cs))"

text \<open>\<^verbatim>\<open>strings.Count\<close> of a string that is not empty: occurrences that do not overlap.\<close>

lemma find_str_Some: "find_str sub s = Some (a, b) \<Longrightarrow> s = a @ sub @ b"
proof (induction sub s arbitrary: a rule: find_str.induct)
  case (2 sub c cs)
  then show ?case by (auto simp: has_prefix_iff split: if_splits)
qed (auto split: if_splits)

function count_str :: "string \<Rightarrow> string \<Rightarrow> nat" where
  "count_str sub s =
     (if sub = [] then 0
      else case find_str sub s of None \<Rightarrow> 0 | Some (a, b) \<Rightarrow> Suc (count_str sub b))"
  by pat_completeness auto
termination
  by (relation "measure (\<lambda>(sub, s). length s)") (auto dest: find_str_Some)

declare count_str.simps [simp del]

text \<open>\<^verbatim>\<open>strings.Replace\<close> of one occurrence.\<close>

definition replace_one :: "string \<Rightarrow> string \<Rightarrow> string \<Rightarrow> string" where
  "replace_one s sub new = (case find_str sub s of None \<Rightarrow> s | Some (a, b) \<Rightarrow> a @ new @ b)"

text \<open>\<^verbatim>\<open>filepath.Dir\<close> of a cleaned absolute path.\<close>

definition dir_of :: "string \<Rightarrow> string" where
  "dir_of path = clean_path (rev (dropWhile (\<lambda>c. c \<noteq> slash) (rev path)))"

section \<open>The adapter\<close>

definition file_resolve :: "(go_error, string) result \<Rightarrow> string \<Rightarrow> string \<Rightarrow> (go_error, string) result" where
  "file_resolve wd ws raw =
     (case abs_path wd ws of
        Inl e \<Rightarrow> Inl e
      | Inr root \<Rightarrow>
          (let trimmed = (if trim_space raw = [] then ''.'' else trim_space raw);
               target = clean_path (join_path [root, trimmed])
           in if target \<noteq> root \<and> \<not> has_prefix (root @ [slash]) target
              then Inl (Message (''path '' @ quote_str raw @ '' escapes workspace''))
              else Inr target))"

fun list_lines :: "(nat \<Rightarrow> go_error option) \<Rightarrow> nat \<Rightarrow> (string \<times> bool) list \<Rightarrow> (go_error, string list) result" where
  "list_lines ctx_err i [] = Inr []"
| "list_lines ctx_err i ((name, is_dir) # es) =
     (case ctx_err i of
        Some e \<Rightarrow> Inl e
      | None \<Rightarrow>
          (case list_lines ctx_err (Suc i) es of
             Inl e \<Rightarrow> Inl e
           | Inr ls \<Rightarrow> Inr ((if is_dir then name @ ''/'' else name) # ls)))"

definition list_dir ::
  "'w file_system \<Rightarrow> (go_error, string) result \<Rightarrow> string \<Rightarrow> (nat \<Rightarrow> go_error option) \<Rightarrow> duration \<Rightarrow> tool_call \<Rightarrow> 'w
     \<Rightarrow> tool_outcome \<times> 'w" where
  "list_dir fs wd ws ctx_err dur call w =
     (case file_resolve wd ws (tc_input call) of
        Inl e \<Rightarrow> (refused dur call e, w)
      | Inr path \<Rightarrow>
          (case fs_read_dir fs path w of
             Inl e \<Rightarrow> (refused dur call e, w)
           | Inr entries \<Rightarrow>
               (case list_lines ctx_err 0 entries of
                  Inl e \<Rightarrow> (refused dur call e, w)
                | Inr ls \<Rightarrow> (answered dur call (join_str newline ls), w))))"

definition read_file ::
  "'w file_system \<Rightarrow> (go_error, string) result \<Rightarrow> string \<Rightarrow> duration \<Rightarrow> tool_call \<Rightarrow> 'w \<Rightarrow> tool_outcome \<times> 'w" where
  "read_file fs wd ws dur call w =
     (case file_resolve wd ws (tc_input call) of
        Inl e \<Rightarrow> (refused dur call e, w)
      | Inr path \<Rightarrow>
          (case fs_read fs path w of
             Inl e \<Rightarrow> (refused dur call e, w)
           | Inr content \<Rightarrow> (answered dur call content, w)))"

definition write_file ::
  "'w file_system \<Rightarrow> (go_error, string) result \<Rightarrow> string \<Rightarrow> duration \<Rightarrow> tool_call \<Rightarrow> 'w \<Rightarrow> tool_outcome \<times> 'w" where
  "write_file fs wd ws dur call w =
     (case split_line (tc_input call) of
        (p, None) \<Rightarrow> (refused dur call (Message ''write_file input must contain path and body separated by newline''), w)
      | (p, Some body) \<Rightarrow>
          (case file_resolve wd ws p of
             Inl e \<Rightarrow> (refused dur call e, w)
           | Inr path \<Rightarrow>
               (case fs_mkdir_all fs (dir_of path) w of
                  (Some e, w1) \<Rightarrow> (refused dur call e, w1)
                | (None, w1) \<Rightarrow>
                    (case fs_write fs path body w1 of
                       (Some e, w2) \<Rightarrow> (refused dur call e, w2)
                     | (None, w2) \<Rightarrow> (answered dur call ''ok'', w2)))))"

definition old_marker :: string where "old_marker = ''<<<OLD'' @ newline"
definition new_marker :: string where "new_marker = newline @ ''<<<NEW'' @ newline"

definition edit_blocks_missing :: go_error where
  "edit_blocks_missing = Message ''edit_file input must contain <<<OLD and <<<NEW blocks''"

text \<open>The two texts of an edit.\<close>

definition parse_edit :: "string \<Rightarrow> (go_error, string \<times> string) result" where
  "parse_edit payload =
     (if \<not> has_prefix old_marker payload then Inl edit_blocks_missing
      else case find_str new_marker (trim_prefix old_marker payload) of
             None \<Rightarrow> Inl edit_blocks_missing
           | Some (old, new) \<Rightarrow>
               if old = [] then Inl (Message ''edit_file old text must not be empty'') else Inr (old, new))"

definition edit_body :: "string \<Rightarrow> string \<Rightarrow> string \<Rightarrow> (go_error, string) result" where
  "edit_body body old new =
     (let n = count_str old body in
      if n = 0 then Inl (Message ''edit_file old text not found in target file'')
      else if n > 1 then Inl (Message (''edit_file old text is ambiguous ('' @ show_nat n @ '' matches)''))
      else Inr (replace_one body old new))"

definition edit_file ::
  "'w file_system \<Rightarrow> (go_error, string) result \<Rightarrow> string \<Rightarrow> duration \<Rightarrow> tool_call \<Rightarrow> 'w \<Rightarrow> tool_outcome \<times> 'w" where
  "edit_file fs wd ws dur call w =
     (case split_line (tc_input call) of
        (p, None) \<Rightarrow> (refused dur call (Message ''edit_file input must contain path and edit blocks''), w)
      | (p, Some payload) \<Rightarrow>
          (case file_resolve wd ws p of
             Inl e \<Rightarrow> (refused dur call e, w)
           | Inr path \<Rightarrow>
               (case parse_edit payload of
                  Inl e \<Rightarrow> (refused dur call e, w)
                | Inr (old, new) \<Rightarrow>
                    (case fs_read fs path w of
                       Inl e \<Rightarrow> (refused dur call e, w)
                     | Inr body \<Rightarrow>
                         (case edit_body body old new of
                            Inl e \<Rightarrow> (refused dur call e, w)
                          | Inr updated \<Rightarrow>
                              (case fs_write fs path updated w of
                                 (Some e, w1) \<Rightarrow> (refused dur call e, w1)
                               | (None, w1) \<Rightarrow> (answered dur call ''ok'', w1)))))))"

section \<open>Lemmas\<close>

lemma find_str_None: "find_str sub s = None \<longleftrightarrow> \<not> contains_str s sub"
  by (induction sub s rule: find_str.induct) (auto split: if_splits)

lemma count_str_pos: "sub \<noteq> [] \<Longrightarrow> count_str sub s = 0 \<longleftrightarrow> \<not> contains_str s sub"
  by (subst count_str.simps) (auto simp: find_str_None [symmetric] split: option.splits prod.splits)

lemma count_str_one:
  "sub \<noteq> [] \<Longrightarrow> count_str sub s = 1 \<longleftrightarrow> (\<exists>a b. find_str sub s = Some (a, b) \<and> \<not> contains_str b sub)"
  by (subst count_str.simps) (auto simp: count_str_pos split: option.splits prod.splits)

lemma split_line_join: "CHR 0x0A \<notin> set p \<Longrightarrow> split_line (p @ CHR 0x0A # body) = (p, Some body)"
  by (induction p) auto

lemma edit_body_Inr:
  assumes "old \<noteq> []"
  shows "edit_body body old new = Inr updated \<longleftrightarrow>
    (\<exists>a b. find_str old body = Some (a, b) \<and> \<not> contains_str b old \<and> updated = a @ new @ b)"
  using count_str_one [OF assms, of body] count_str_pos [OF assms, of body]
  by (auto simp: edit_body_def Let_def replace_one_def find_str_None [symmetric])

text \<open>The first occurrence is found where the text before it, with the occurrence, holds none earlier.\<close>

lemma find_str_first:
  "sub \<noteq> [] \<Longrightarrow> find_str sub s = Some (a, b) \<Longrightarrow> \<not> contains_str (butlast (a @ sub)) sub"
proof (induction sub s arbitrary: a rule: find_str.induct)
  case (2 sub c cs)
  show ?case
  proof (cases "has_prefix sub (c # cs)")
    case True
    with 2(3) have "a = []" by simp
    moreover have "\<not> contains_str (butlast sub) sub"
    proof
      assume "contains_str (butlast sub) sub"
      then obtain x y where "butlast sub = x @ sub @ y" by (auto simp: contains_str_iff)
      then have "length (butlast sub) \<ge> length sub" by simp
      with 2(2) show False by (cases sub rule: rev_cases) auto
    qed
    ultimately show ?thesis by simp
  next
    case False
    with 2(3) obtain a' where a': "find_str sub cs = Some (a', b)" "a = c # a'" by auto
    from 2(1) [OF False 2(2) a'(1)] have IH: "\<not> contains_str (butlast (a' @ sub)) sub" .
    have bl: "butlast (a @ sub) = c # butlast (a' @ sub)" using a'(2) 2(2) by simp
    have "\<not> has_prefix sub (c # butlast (a' @ sub))"
    proof
      assume "has_prefix sub (c # butlast (a' @ sub))"
      then obtain t where "c # butlast (a' @ sub) = sub @ t" by (auto simp: has_prefix_iff)
      then have "c # a' @ sub = sub @ t @ [last (a' @ sub)]"
        by (metis append_Cons append_assoc append_butlast_last_id append_is_Nil_conv 2(2))
      moreover have "c # cs = c # a' @ sub @ b" using find_str_Some [OF a'(1)] by simp
      ultimately have "c # cs = sub @ t @ last (a' @ sub) # b" by simp
      with False show False by (simp add: has_prefix_iff)
    qed
    with IH bl show ?thesis by simp
  qed
qed (auto split: if_splits)

definition resolve_target :: "string \<Rightarrow> string" where
  "resolve_target raw = (if trim_space raw = [] then ''.'' else trim_space raw)"

lemma file_resolve_eq:
  assumes "is_abs ws"
  shows "file_resolve wd ws raw =
    (let root = clean_segments True ws; t = clean_segments True (clean_path ws @ slash # resolve_target raw) in
     if t = root \<or> root \<noteq> [] \<and> strict_prefix root t then Inr (path_of t)
     else Inl (Message (''path '' @ quote_str raw @ '' escapes workspace'')))"
proof -
  let ?root = "clean_path ws" and ?p = "clean_path ws @ slash # resolve_target raw"
  have r: "is_abs ?root" "clean_path ?root = ?root" using assms by simp_all
  have p: "is_abs ?p" by (rule is_abs_append [OF r(1)])
  have j: "clean_path (join_path [?root, resolve_target raw]) = clean_path ?p"
    using join_two [OF r(1), of "resolve_target raw"] clean_idem [OF p] by (simp add: resolve_target_def)
  have "file_resolve wd ws raw =
      (if clean_path ?p \<noteq> ?root \<and> \<not> has_prefix (?root @ [slash]) (clean_path ?p)
       then Inl (Message (''path '' @ quote_str raw @ '' escapes workspace'')) else Inr (clean_path ?p))"
    using assms j by (simp add: file_resolve_def abs_path_def Let_def resolve_target_def [symmetric])
  then show ?thesis
    using inside_iff [OF r(1) p] r(2) segments_clean [OF assms] clean_path_of [OF p] by (auto simp: Let_def)
qed

section \<open>Properties\<close>

text \<open>
  The file tools stay in the workspace.  Below an absolute workspace root, \<^verbatim>\<open>resolve\<close> returns the
  cleaned path of its input exactly if that is the workspace or lies strictly below it, segment by
  segment, whatever \<open>.\<close>, \<open>..\<close> and repeated separators the input holds; otherwise it returns an error.
\<close>

theorem file_resolve_contains:
  assumes "is_abs ws"
  shows "file_resolve wd ws raw = Inr target \<longleftrightarrow>
    (let root = clean_segments True ws; t = clean_segments True (clean_path ws @ slash # resolve_target raw) in
     (t = root \<or> root \<noteq> [] \<and> strict_prefix root t) \<and> target = path_of t \<and> list_all plain_segment t)"
  unfolding file_resolve_eq [OF assms] by (auto simp: Let_def segments_rooted)

lemma file_resolve_contains_witness:
  "file_resolve (Inr ''/'') ''/work/'' ''a/../b//c.go'' = Inr ''/work/b/c.go''"
proof -
  have "is_abs ''/work/''" by code_simp
  from file_resolve_contains [OF this, of "Inr ''/''" "''a/../b//c.go''" "''/work/b/c.go''"] show ?thesis by code_simp
qed

text \<open>
  An edit that succeeds replaces exactly one text.  The payload holds the old and the new text
  between the markers, the file held the old text, its first occurrence is the only one that does not
  overlap it (nothing before it and nothing after it holds another), and the file is written with that
  occurrence replaced and nothing else changed.
\<close>

theorem edit_file_replaces:
  assumes "edit_file fs wd ws dur call w = ((r, None), w')"
  shows "\<exists>p path old new a b.
    split_line (tc_input call) = (p, Some (old_marker @ old @ new_marker @ new)) \<and>
    file_resolve wd ws p = Inr path \<and> old \<noteq> [] \<and>
    fs_read fs path w = Inr (a @ old @ b) \<and> \<not> contains_str (butlast (a @ old)) old \<and> \<not> contains_str b old \<and>
    fs_write fs path (a @ new @ b) w = (None, w') \<and> tr_output r = ''ok''"
proof -
  obtain p payload where sl: "split_line (tc_input call) = (p, Some payload)"
    using assms by (cases "split_line (tc_input call)") (auto simp: edit_file_def refused_def split: option.splits)
  obtain path where path: "file_resolve wd ws p = Inr path"
    using assms sl by (cases "file_resolve wd ws p") (auto simp: edit_file_def refused_def)
  obtain old new where pe: "parse_edit payload = Inr (old, new)"
    using assms sl path by (cases "parse_edit payload") (auto simp: edit_file_def refused_def)
  obtain body where body: "fs_read fs path w = Inr body"
    using assms sl path pe by (cases "fs_read fs path w") (auto simp: edit_file_def refused_def)
  obtain updated where up: "edit_body body old new = Inr updated"
    using assms sl path pe body by (cases "edit_body body old new") (auto simp: edit_file_def refused_def)
  have wr: "fs_write fs path updated w = (None, w')" "tr_output r = ''ok''"
    using assms sl path pe body up by (auto simp: edit_file_def refused_def answered_def split: prod.splits option.splits)
  have old: "old \<noteq> []" and pay: "payload = old_marker @ old @ new_marker @ new"
    using pe by (auto simp: parse_edit_def trim_prefix_def has_prefix_iff split: if_splits option.splits dest!: find_str_Some)
  obtain a b where ab: "find_str old body = Some (a, b)" "\<not> contains_str b old" "updated = a @ new @ b"
    using up edit_body_Inr [OF old] by blast
  show ?thesis
    using sl path pay old body wr ab find_str_Some [OF ab(1)] find_str_first [OF old ab(1)] by blast
qed

text \<open>A file system of files only, as a map from paths to contents.\<close>

definition map_files :: "(string \<rightharpoonup> string) file_system" where
  "map_files =
     \<lparr>fs_read = (\<lambda>p m. case m p of None \<Rightarrow> Inl (Message ''no such file'') | Some c \<Rightarrow> Inr c),
      fs_write = (\<lambda>p c m. (None, m(p \<mapsto> c))), fs_mkdir_all = (\<lambda>p m. (None, m)),
      fs_read_dir = (\<lambda>p m. Inr [])\<rparr>"

definition ex_edit :: tool_call where
  "ex_edit = \<lparr>tc_name = ''edit_file'',
     tc_input = ''a.txt'' @ newline @ old_marker @ ''two'' @ new_marker @ ''2'', tc_timeout = 0\<rparr>"

definition ex_edited :: "tool_outcome \<times> (string \<rightharpoonup> string)" where
  "ex_edited = edit_file map_files (Inr ''/'') ''/work'' 1 ex_edit [''/work/a.txt'' \<mapsto> ''one two three'']"

lemma ex_edited_ok: "fst ex_edited = (fst (fst ex_edited), None)" "snd ex_edited ''/work/a.txt'' = Some ''one 2 three''"
  by code_simp+

lemma edit_file_replaces_witness:
  "\<exists>p path old new a b.
    split_line (tc_input ex_edit) = (p, Some (old_marker @ old @ new_marker @ new)) \<and>
    file_resolve (Inr ''/'') ''/work'' p = Inr path \<and> old \<noteq> [] \<and>
    fs_read map_files path [''/work/a.txt'' \<mapsto> ''one two three''] = Inr (a @ old @ b) \<and>
    \<not> contains_str (butlast (a @ old)) old \<and> \<not> contains_str b old \<and>
    fs_write map_files path (a @ new @ b) [''/work/a.txt'' \<mapsto> ''one two three''] = (None, snd ex_edited) \<and>
    tr_output (fst (fst ex_edited)) = ''ok''"
proof (rule edit_file_replaces)
  show "edit_file map_files (Inr ''/'') ''/work'' 1 ex_edit [''/work/a.txt'' \<mapsto> ''one two three''] =
      ((fst (fst ex_edited), None), snd ex_edited)"
    using ex_edited_ok(1) unfolding ex_edited_def by (metis prod.collapse)
qed

text \<open>
  What \<^verbatim>\<open>write_file\<close> writes, \<^verbatim>\<open>read_file\<close> reads: on a file system whose reads return what was last
  written, after a successful write of a body to a path (any path without a line break) a read of the
  same path succeeds and returns exactly that body.
\<close>

theorem write_read_roundtrip:
  assumes "\<And>path body w w'. fs_write fs path body w = (None, w') \<Longrightarrow> fs_read fs path w' = Inr body"
    and "CHR 0x0A \<notin> set p"
    and "write_file fs wd ws dur \<lparr>tc_name = n, tc_input = p @ CHR 0x0A # body, tc_timeout = t\<rparr> w = ((r, None), w')"
  shows "read_file fs wd ws dur2 \<lparr>tc_name = n2, tc_input = p, tc_timeout = t2\<rparr> w' =
    ((\<lparr>tr_tool_name = n2, tr_output = body, tr_error = [], tr_duration = dur2\<rparr>, None), w')"
proof -
  obtain path where path: "file_resolve wd ws p = Inr path"
    using assms(3) by (cases "file_resolve wd ws p") (auto simp: write_file_def split_line_join [OF assms(2)] refused_def)
  have "\<exists>w1. fs_write fs path body w1 = (None, w')"
    using assms(3) path
    by (auto simp: write_file_def split_line_join [OF assms(2)] refused_def answered_def split: prod.splits option.splits)
  then have "fs_read fs path w' = Inr body" using assms(1) by blast
  with path show ?thesis by (simp add: read_file_def answered_def)
qed

lemma write_read_roundtrip_witness:
  "\<exists>w'. read_file map_files (Inr ''/'') ''/work'' 3 \<lparr>tc_name = ''read_file'', tc_input = ''a.txt'', tc_timeout = 0\<rparr> w' =
    ((\<lparr>tr_tool_name = ''read_file'', tr_output = ''text'', tr_error = [], tr_duration = 3\<rparr>, None), w')"
proof -
  let ?call = "\<lparr>tc_name = ''write_file'', tc_input = ''a.txt'' @ CHR 0x0A # ''text'', tc_timeout = 0\<rparr>"
  let ?run = "write_file map_files (Inr ''/'') ''/work'' 2 ?call Map.empty"
  have "snd (fst ?run) = None" by code_simp
  then have run: "?run = ((fst (fst ?run), None), snd ?run)" by (metis prod.collapse)
  have "read_file map_files (Inr ''/'') ''/work'' 3 \<lparr>tc_name = ''read_file'', tc_input = ''a.txt'', tc_timeout = 0\<rparr> (snd ?run) =
    ((\<lparr>tr_tool_name = ''read_file'', tr_output = ''text'', tr_error = [], tr_duration = 3\<rparr>, None), snd ?run)"
    by (rule write_read_roundtrip [OF _ _ run]) (auto simp: map_files_def)
  then show ?thesis by blast
qed

end
