(* ===== verification/Go_Text.thy ===== *)
theory Go_Text
  imports Prelude
begin

text \<open>
  More of Go's standard library as the code uses it: \<^verbatim>\<open>strconv.Itoa\<close>, \<^verbatim>\<open>strconv.Atoi\<close> on 64-bit
  integers, and \<^verbatim>\<open>Duration.String\<close>.
\<close>

section \<open>Integers\<close>

definition show_int :: "int \<Rightarrow> string" where
  "show_int i = (if i < 0 then ''-'' @ show_nat (nat (- i)) else show_nat (nat i))"

definition digit_value :: "char \<Rightarrow> nat option" where
  "digit_value c = (let n = of_char c :: nat in if 48 \<le> n \<and> n \<le> 57 then Some (n - 48) else None)"

text \<open>The value of a string of digits, read from the left.\<close>

fun read_digits :: "nat \<Rightarrow> string \<Rightarrow> nat option" where
  "read_digits acc [] = Some acc"
| "read_digits acc (c # cs) =
     (case digit_value c of None \<Rightarrow> None | Some d \<Rightarrow> read_digits (10 * acc + d) cs)"

definition read_nat :: "string \<Rightarrow> nat option" where
  "read_nat s = (if s = [] then None else read_digits 0 s)"

definition int_range :: "int \<Rightarrow> int option" where
  "int_range i = (if - (2 ^ 63) \<le> i \<and> i < 2 ^ 63 then Some i else None)"

text \<open>\<^verbatim>\<open>Atoi\<close>: an optional sign, digits, and the range of a 64-bit integer; \<^term>\<open>None\<close> is its error.\<close>

definition atoi :: "string \<Rightarrow> int option" where
  "atoi s =
     (case s of
        [] \<Rightarrow> None
      | c # cs \<Rightarrow>
          if c = CHR ''-'' then Option.bind (read_nat cs) (\<lambda>n. int_range (- int n))
          else if c = CHR ''+'' then Option.bind (read_nat cs) (\<lambda>n. int_range (int n))
          else Option.bind (read_nat s) (\<lambda>n. int_range (int n)))"

lemma digit_value_char: "d < 10 \<Longrightarrow> digit_value (char_of (48 + d)) = Some d"
  by (simp add: digit_value_def)

lemma read_digits_append:
  "read_digits a (xs @ ys) = Option.bind (read_digits a xs) (\<lambda>b. read_digits b ys)"
  by (induction a xs rule: read_digits.induct) (auto split: option.splits)

lemma show_nat_nonempty [simp]: "show_nat n \<noteq> []"
  by (subst show_nat.simps) simp

lemma read_show_nat: "read_digits 0 (show_nat n) = Some n"
proof (induction n rule: show_nat.induct)
  case (1 n)
  show ?case
  proof (cases "n < 10")
    case True
    then show ?thesis by (subst show_nat.simps) (simp add: digit_value_char)
  next
    case False
    have "digit_value (char_of (48 + n mod 10)) = Some (n mod 10)" by (rule digit_value_char) simp
    with 1 False show ?thesis by (subst show_nat.simps) (simp add: read_digits_append)
  qed
qed

lemma show_nat_digits: "c \<in> set (show_nat n) \<Longrightarrow> digit_value c \<noteq> None"
proof (induction n rule: show_nat.induct)
  case (1 n)
  then show ?case
    by (subst (asm) (2) show_nat.simps) (auto simp: digit_value_char split: if_splits)
qed

lemma atoi_show_int: "int_range i = Some i \<Longrightarrow> atoi (show_int i) = Some i"
proof -
  assume r: "int_range i = Some i"
  show ?thesis
  proof (cases "i < 0")
    case True
    with r show ?thesis by (simp add: show_int_def atoi_def read_nat_def read_show_nat)
  next
    case False
    obtain c cs where c: "show_nat (nat i) = c # cs" by (cases "show_nat (nat i)") simp_all
    with show_nat_digits [of c "nat i"] have "c \<noteq> CHR ''-''" "c \<noteq> CHR ''+''"
      by (auto simp: digit_value_def)
    with r False c read_show_nat [of "nat i"] show ?thesis
      by (simp add: show_int_def atoi_def read_nat_def)
  qed
qed

section \<open>Durations\<close>

text \<open>The fraction of \<open>v\<close> written with \<open>prec\<close> digits, without trailing zeros.\<close>

definition show_fraction :: "nat \<Rightarrow> nat \<Rightarrow> string" where
  "show_fraction prec v =
     (let ds = replicate (prec - length (show_nat v)) (CHR ''0'') @ show_nat v;
          cut = rev (dropWhile (\<lambda>c. c = CHR ''0'') (rev ds))
      in if cut = [] then [] else ''.'' @ cut)"

definition show_seconds :: "nat \<Rightarrow> string" where
  "show_seconds u =
     (let s = u div 1000000000; m = s div 60; h = m div 60;
          secs = show_nat (s mod 60) @ show_fraction 9 (u mod 1000000000) @ ''s''
      in if m = 0 then secs
         else if h = 0 then show_nat m @ ''m'' @ secs
         else show_nat h @ ''h'' @ show_nat (m mod 60) @ ''m'' @ secs)"

definition show_duration :: "duration \<Rightarrow> string" where
  "show_duration d =
     (let u = nat \<bar>d\<bar>;
          text = (if u = 0 then ''0s''
            else if u < 1000 then show_nat u @ ''ns''
            else if u < 1000000 then show_nat (u div 1000) @ show_fraction 3 (u mod 1000) @ [CHR 0xC2, CHR 0xB5, CHR ''s'']
            else if u < 1000000000 then show_nat (u div 1000000) @ show_fraction 6 (u mod 1000000) @ ''ms''
            else show_seconds u)
      in if d < 0 then ''-'' @ text else text)"

section \<open>Integers of 64 bits and times\<close>

definition wrap64 :: "int \<Rightarrow> int" where
  "wrap64 i = (i + 2 ^ 63) mod 2 ^ 64 - 2 ^ 63"

lemma wrap64_id: "- (2 ^ 63) \<le> i \<Longrightarrow> i < 2 ^ 63 \<Longrightarrow> wrap64 i = i"
  by (simp add: wrap64_def)

text \<open>The seconds between Go's zero time and the Unix epoch; \<^verbatim>\<open>Time.UnixNano\<close>, \<^verbatim>\<open>Time.Unix\<close> and
  \<^verbatim>\<open>time.Unix(s, 0)\<close>, which adds on 64 bits.\<close>

definition unix_epoch :: int where "unix_epoch = 62135596800"

definition unix_nano :: "gotime \<Rightarrow> int" where
  "unix_nano t = wrap64 (t - unix_epoch * second)"

definition unix_seconds :: "gotime \<Rightarrow> int" where
  "unix_seconds t = t div second - unix_epoch"

definition from_unix :: "int \<Rightarrow> gotime" where
  "from_unix s = wrap64 (s + unix_epoch) * second"

end
