(* ===== verification/Verification.thy ===== *)
theory Verification
  imports Provenance Registries Channels Task_Protocol Go_Text
begin

text \<open>
  Verification (\<^verbatim>\<open>internal/verify\<close>): the checks over an observation and the policy-driven
  verifier, the command verifier, the verifiers of research and file-workflow evidence, the host's
  registry with plugin verifiers, and the verifier that selects by task.

  A verifier acts on a state \<^typ>\<open>'w\<close>, which holds its context.
\<close>

section \<open>Policy\<close>

definition verification_success :: string where "verification_success = ''verification_success''"
definition verification_failed :: string where "verification_failed = ''verification_failed''"
definition insufficient_evidence :: string where "insufficient_evidence = ''insufficient_evidence''"
definition verification_contradiction :: string where "verification_contradiction = ''contradiction''"

type_synonym check_kind = string
abbreviation ck_evidence :: check_kind where "ck_evidence \<equiv> ''evidence''"
abbreviation ck_test :: check_kind where "ck_test \<equiv> ''test''"
abbreviation ck_build :: check_kind where "ck_build \<equiv> ''build''"
abbreviation ck_lint :: check_kind where "ck_lint \<equiv> ''lint''"

record verify_policy =
  vpol_max_failures :: int
  vpol_checks :: "check_kind list"

definition default_policy :: verify_policy where
  "default_policy = \<lparr>vpol_max_failures = 2, vpol_checks = [ck_evidence, ck_test, ck_build, ck_lint]\<rparr>"

definition correction_instruction :: "string \<Rightarrow> string list \<Rightarrow> string" where
  "correction_instruction category failed =
     (let base = (if failed \<noteq> [] then ''fix failed checks: '' @ join_str '', '' failed
                  else ''gather stronger evidence and retry within budget'')
      in if category = verification_contradiction then ''agent claim contradicts evidence; '' @ base
         else if category = insufficient_evidence then ''completion claim lacks proof; '' @ base
         else if category = verification_failed then ''verification failed; '' @ base
         else ''verification succeeded'')"

section \<open>Command records\<close>

record command_record =
  cr_command :: string
  cr_exit_code :: int

text \<open>
  The two parsers of command records differ in their markers and in whether a line is compared in
  lower case: \<open>norm\<close> is what a line goes through before the comparison.
\<close>

fun exit_code_of :: "(string \<Rightarrow> string) \<Rightarrow> string \<Rightarrow> string \<Rightarrow> string list \<Rightarrow> int" where
  "exit_code_of norm cmd code [] = - 1"
| "exit_code_of norm cmd code (l # ls) =
     (let next = trim_space l in
      if has_prefix cmd (norm next) then - 1
      else if has_prefix code (norm next)
      then (case atoi (trim_space (drop (length code) next)) of Some n \<Rightarrow> n | None \<Rightarrow> - 1)
      else exit_code_of norm cmd code ls)"

fun records_from :: "(string \<Rightarrow> string) \<Rightarrow> string \<Rightarrow> string \<Rightarrow> string list \<Rightarrow> command_record list" where
  "records_from norm cmd code [] = []"
| "records_from norm cmd code (l # ls) =
     (let line = trim_space l in
      if has_prefix cmd (norm line)
      then \<lparr>cr_command = trim_space (drop (length cmd) line), cr_exit_code = exit_code_of norm cmd code ls\<rparr>
             # records_from norm cmd code ls
      else records_from norm cmd code ls)"

definition parse_command_records :: "string \<Rightarrow> command_record list" where
  "parse_command_records text = records_from to_lower ''command:'' ''exit_code:'' (split_on (CHR 0x0A) text)"

definition parse_structured_records :: "string \<Rightarrow> command_record list" where
  "parse_structured_records text = records_from (\<lambda>s. s) ''COMMAND:'' ''EXIT_CODE:'' (split_on (CHR 0x0A) text)"

definition command_succeeded :: "string \<Rightarrow> string \<Rightarrow> bool" where
  "command_succeeded text command =
     (let records = parse_command_records text in
      if records \<noteq> []
      then (case find (\<lambda>r. has_prefix command (cr_command r)) records of
              Some r \<Rightarrow> cr_exit_code r = 0
            | None \<Rightarrow> False)
      else if contains_str text command
      then contains_str text ''exit_code: 0'' \<or> contains_str text ''pass'' \<or> contains_str text ''ok''
      else False)"

section \<open>Checks\<close>

record check_result =
  ckr_name :: string
  ckr_passed :: bool
  ckr_details :: string

definition check_verdict :: "string \<Rightarrow> bool \<Rightarrow> string \<Rightarrow> check_result" where
  "check_verdict name ok details = \<lparr>ckr_name = name, ckr_passed = ok, ckr_details = details\<rparr>"

definition combined_evidence :: "observation \<Rightarrow> string" where
  "combined_evidence ob =
     join_str newline ([obs_summary ob, obs_final_response ob] @
       (case obs_tool_result ob of None \<Rightarrow> [] | Some r \<Rightarrow> [tr_output r, tr_error r]))"

definition final_evidence :: "observation \<Rightarrow> check_result" where
  "final_evidence ob =
     (if trim_space (obs_final_response ob) \<noteq> [] then check_verdict ck_evidence True ''final response present''
      else check_verdict ck_evidence False ''no evidence attached to completion claim'')"

definition evidence_check :: "observation \<Rightarrow> check_result" where
  "evidence_check ob =
     (case obs_tool_result ob of
        Some r \<Rightarrow>
          if tr_error r \<noteq> [] then check_verdict ck_evidence False (tr_error r)
          else if trim_space (tr_output r) \<noteq> [] then check_verdict ck_evidence True ''tool evidence present''
          else final_evidence ob
      | None \<Rightarrow> final_evidence ob)"

definition test_check :: "observation \<Rightarrow> check_result" where
  "test_check ob =
     (if command_succeeded (to_lower (combined_evidence ob)) ''go test''
      then check_verdict ck_test True ''test evidence found''
      else check_verdict ck_test False ''missing passing test evidence'')"

definition build_check :: "observation \<Rightarrow> check_result" where
  "build_check ob =
     (let text = to_lower (combined_evidence ob) in
      if command_succeeded text ''go build'' \<or> contains_str text ''build ok''
      then check_verdict ck_build True ''build evidence found''
      else check_verdict ck_build False ''missing successful build evidence'')"

definition lint_check :: "observation \<Rightarrow> check_result" where
  "lint_check ob =
     (let text = to_lower (combined_evidence ob) in
      if command_succeeded text ''go vet'' \<or> contains_str text ''lint ok''
      then check_verdict ck_lint True ''lint evidence found''
      else check_verdict ck_lint False ''missing successful lint evidence'')"

text \<open>\<open>stat_err\<close> is the error of \<^verbatim>\<open>os.Stat\<close>.\<close>

definition file_exists_check :: "(string \<Rightarrow> go_error option) \<Rightarrow> string \<Rightarrow> check_result" where
  "file_exists_check stat_err path =
     (if trim_space path = [] then check_verdict ''file_exists'' False ''file path must not be empty''
      else case stat_err path of
             Some e \<Rightarrow> check_verdict ''file_exists'' False (''file missing: '' @ error_text e)
           | None \<Rightarrow> check_verdict ''file_exists'' True ''file exists'')"

section \<open>The policy-driven verifier\<close>

record check_verifier =
  cv_policy :: verify_policy
  cv_checks :: "(check_kind \<times> (observation \<Rightarrow> check_result)) list"

definition new_verifier :: "verify_policy \<Rightarrow> check_verifier" where
  "new_verifier p =
     \<lparr>cv_policy =
        \<lparr>vpol_max_failures =
           (if vpol_max_failures p \<le> 0 then vpol_max_failures default_policy else vpol_max_failures p),
         vpol_checks = (if vpol_checks p = [] then vpol_checks default_policy else vpol_checks p)\<rparr>,
      cv_checks = [(ck_evidence, evidence_check), (ck_test, test_check), (ck_build, build_check), (ck_lint, lint_check)]\<rparr>"

text \<open>The loop over the checks of the policy: the failed ones, in order.\<close>

fun run_checks ::
  "(check_kind \<times> (observation \<Rightarrow> check_result)) list \<Rightarrow> observation \<Rightarrow> check_kind list \<Rightarrow> (go_error, string list) result" where
  "run_checks checks ob [] = Inr []"
| "run_checks checks ob (k # ks) =
     (case map_of checks k of
        None \<Rightarrow> Inl (Message (''verification check '' @ quote_str k @ '' not configured''))
      | Some c \<Rightarrow>
          (case run_checks checks ob ks of
             Inl e \<Rightarrow> Inl e
           | Inr failed \<Rightarrow>
               (let r = c ob in Inr (if ckr_passed r then failed else (ckr_name r @ '': '' @ ckr_details r) # failed))))"

definition has_evidence_failure :: "string list \<Rightarrow> bool" where
  "has_evidence_failure failed = list_ex (\<lambda>item. has_prefix (ck_evidence @ '':'') item) failed"

definition classify_failure :: "observation \<Rightarrow> string list \<Rightarrow> string" where
  "classify_failure ob failed =
     (let text = to_lower (obs_final_response ob @ newline @ obs_summary ob) in
      if contains_str text ''done'' \<or> contains_str text ''complete'' \<or> contains_str text ''success''
      then verification_contradiction
      else if has_evidence_failure failed then insufficient_evidence
      else verification_failed)"

definition failure_count :: "step list \<Rightarrow> int" where
  "failure_count steps = int (length (filter (\<lambda>s. \<not> vr_passed (step_verification s)) steps))"

definition failed_result :: "string \<Rightarrow> verification_result" where
  "failed_result reason = \<lparr>vr_passed = False, vr_status = vs_failed, vr_reason = reason\<rparr>"

definition passed_result :: "string \<Rightarrow> verification_result" where
  "passed_result reason = \<lparr>vr_passed = True, vr_status = vs_passed, vr_reason = reason\<rparr>"

definition pending_result :: "string \<Rightarrow> verification_result" where
  "pending_result reason = \<lparr>vr_passed = False, vr_status = vs_not_applicable, vr_reason = reason\<rparr>"

definition check_verify :: "check_verifier \<Rightarrow> step list \<Rightarrow> observation \<Rightarrow> (go_error, verification_result) result" where
  "check_verify v steps ob =
     (case run_checks (cv_checks v) ob (vpol_checks (cv_policy v)) of
        Inl e \<Rightarrow> Inl e
      | Inr failed \<Rightarrow>
          if failed \<noteq> []
          then (let category = (if failure_count steps \<ge> vpol_max_failures (cv_policy v) then verification_failed
                                else classify_failure ob failed)
                in Inr (failed_result (category @ '': '' @ correction_instruction category failed)))
          else Inr (passed_result (verification_success @ '': evidence confirms completion claim'')))"

section \<open>The command verifier\<close>

text \<open>
  The tool executor as the verifier calls it: \<open>cp_execute\<close> gets the deadline of the call's context
  and also tells whether that deadline has passed when the call returns.
\<close>

record 'w command_port =
  cp_execute :: "duration \<Rightarrow> tool_call \<Rightarrow> 'w \<Rightarrow> ((tool_result \<times> go_error option) \<times> bool) \<times> 'w"

record 'w command_verifier =
  cmv_executor :: "'w command_port option"
  cmv_timeout :: duration

definition default_command_timeout :: duration where
  "default_command_timeout = 60 * second"

definition new_command_verifier :: "'w command_port option \<Rightarrow> 'w command_verifier" where
  "new_command_verifier ex = \<lparr>cmv_executor = ex, cmv_timeout = default_command_timeout\<rparr>"

definition mentions_deadline :: "go_error \<Rightarrow> bool" where
  "mentions_deadline e =
     (let text = to_lower (error_text e) in
      contains_str text (error_text DeadlineExceeded) \<or> contains_str text ''timeout'')"

definition command_unavailable :: "go_error \<Rightarrow> bool" where
  "command_unavailable e =
     (let text = to_lower (error_text e) in
      contains_str text ''not allowlisted'' \<or> contains_str text ''is not registered'' \<or>
      contains_str text ''executable file not found'' \<or> contains_str text ''is not recognized'' \<or>
      contains_str text ''not found'')"

definition timed_out_output :: "string \<Rightarrow> duration \<Rightarrow> string" where
  "timed_out_output command timeout =
     join_str newline [''COMMAND: '' @ command, ''EXIT_CODE: -1'', ''OUTPUT_BEGIN'',
       ''verification command timed out after '' @ show_duration timeout, ''OUTPUT_END'']"

definition run_command ::
  "'w command_port \<Rightarrow> duration \<Rightarrow> string \<Rightarrow> 'w \<Rightarrow> (tool_result \<times> go_error option) \<times> 'w" where
  "run_command port limit command w =
     (let timeout = (if limit \<le> 0 then default_command_timeout else limit) in
      case cp_execute port timeout \<lparr>tc_name = ''exec_command'', tc_input = command, tc_timeout = timeout\<rparr> w of
        (((r, None), late), w') \<Rightarrow> ((r, None), w')
      | (((r, Some e), late), w') \<Rightarrow>
          if (late \<or> mentions_deadline e) \<and> trim_space (tr_output r) = []
          then ((r\<lparr>tr_output := timed_out_output command timeout\<rparr>, Some e), w')
          else ((r, Some e), w'))"

definition verification_commands :: "string list" where
  "verification_commands = [''go test ./...'', ''go build ./...'', ''go vet ./...'']"

definition command_not_available :: verification_result where
  "command_not_available = failed_result ''verification command not available''"

fun run_commands ::
  "'w command_port \<Rightarrow> duration \<Rightarrow> string list \<Rightarrow> string list \<Rightarrow> 'w \<Rightarrow> verification_result \<times> 'w" where
  "run_commands port limit reasons [] w = (passed_result (join_str newline reasons), w)"
| "run_commands port limit reasons (c # cs) w =
     (case run_command port limit c w of
        ((r, Some e), w') \<Rightarrow>
          if command_unavailable e then (command_not_available, w')
          else (failed_result (join_str newline (reasons @
                 [if trim_space (tr_output r) \<noteq> [] then tr_output r
                  else ''COMMAND: '' @ c @ newline @ ''ERROR: '' @ error_text e])), w')
      | ((r, None), w') \<Rightarrow>
          (let reasons' = reasons @ [tr_output r]; records = parse_structured_records (tr_output r) in
           if records = [] then (failed_result (join_str newline reasons'), w')
           else if cr_exit_code (last records) \<noteq> 0 then (failed_result (join_str newline reasons'), w')
           else run_commands port limit reasons' cs w'))"

definition command_verify :: "'w command_verifier \<Rightarrow> 'w \<Rightarrow> (go_error, verification_result) result \<times> 'w" where
  "command_verify v w =
     (case cmv_executor v of
        None \<Rightarrow> (Inr command_not_available, w)
      | Some port \<Rightarrow> (let (r, w') = run_commands port (cmv_timeout v) [] verification_commands w in (Inr r, w')))"

section \<open>Research evidence\<close>

text \<open>A reason, or the empty string when nothing is missing; the sources by their trimmed identifiers.\<close>

fun collect_sources :: "evidence_source list \<Rightarrow> string list \<Rightarrow> (string, string list) result" where
  "collect_sources [] seen = Inr seen"
| "collect_sources (s # ss) seen =
     (let i = trim_space (src_id s) in
      if i = [] then Inl ''research evidence source missing id''
      else if i \<in> set seen then Inl (''research evidence has duplicate source id '' @ quote_str i)
      else if trim_space (src_locator s) = [] then Inl (''research evidence source '' @ quote_str i @ '' missing locator'')
      else collect_sources ss (i # seen))"

fun check_source_ids :: "string \<Rightarrow> string list \<Rightarrow> string list \<Rightarrow> string" where
  "check_source_ids claim seen [] = []"
| "check_source_ids claim seen (i # is) =
     (let n = trim_space i in
      if n = [] then ''research finding '' @ quote_str claim @ '' contains empty supporting source id''
      else if n \<notin> set seen then ''research finding '' @ quote_str claim @ '' references unknown source '' @ quote_str n
      else check_source_ids claim seen is)"

fun check_findings :: "string list \<Rightarrow> evidence_finding list \<Rightarrow> string" where
  "check_findings seen [] = []"
| "check_findings seen (f # fs) =
     (if trim_space (fnd_claim f) = [] then ''research evidence finding missing claim''
      else if fnd_source_ids f = [] then ''research finding '' @ quote_str (fnd_claim f) @ '' missing supporting sources''
      else (case check_source_ids (fnd_claim f) seen (fnd_source_ids f) of
              [] \<Rightarrow> check_findings seen fs
            | reason \<Rightarrow> reason))"

definition validate_research_evidence :: "research_evidence \<Rightarrow> string" where
  "validate_research_evidence ev =
     (if trim_space (re_conclusion ev) = [] then ''research evidence missing conclusion''
      else if re_sources ev = [] then ''research evidence missing sources''
      else if re_findings ev = [] then ''research evidence missing findings''
      else case collect_sources (re_sources ev) [] of
             Inl reason \<Rightarrow> reason
           | Inr seen \<Rightarrow> check_findings seen (re_findings ev))"

section \<open>File workflow evidence\<close>

definition normalize_file_path :: "string \<Rightarrow> string" where
  "normalize_file_path p = trim_space (map (\<lambda>c. if c = CHR 0x5C then CHR 0x2F else c) p)"

fun collect_results :: "file_result list \<Rightarrow> (string \<times> file_result) list \<Rightarrow> (string, (string \<times> file_result) list) result" where
  "collect_results [] m = Inr m"
| "collect_results (r # rs) m =
     (let p = normalize_file_path (fr_path r) in
      if p = [] then Inl ''file workflow result missing path''
      else if map_of m p \<noteq> None then Inl (''file workflow evidence has duplicate result for '' @ quote_str p)
      else collect_results rs ((p, r) # m))"

fun check_fragments :: "string \<Rightarrow> string \<Rightarrow> string list \<Rightarrow> string" where
  "check_fragments p content [] = []"
| "check_fragments p content (f # fs) =
     (let part = trim_space f in
      if part = [] then check_fragments p content fs
      else if \<not> contains_str content part
      then ''file workflow result for '' @ quote_str p @ '' missing required content '' @ quote_str part
      else check_fragments p content fs)"

fun check_expectations :: "(string \<times> file_result) list \<Rightarrow> file_expectation list \<Rightarrow> string" where
  "check_expectations m [] = []"
| "check_expectations m (x # xs) =
     (let p = normalize_file_path (fe_path x) in
      if p = [] then ''file workflow expectation missing path''
      else case map_of m p of
             None \<Rightarrow> ''file workflow evidence missing result for '' @ quote_str p
           | Some r \<Rightarrow>
               if fr_exists r \<noteq> fe_should_exist x then ''file workflow result for '' @ quote_str p @ '' existence mismatch''
               else if trim_space (fr_error r) \<noteq> []
               then ''file workflow result for '' @ quote_str p @ '' reported error: '' @ trim_space (fr_error r)
               else (case (if fe_should_exist x then check_fragments p (fr_content r) (fe_required_contents x) else []) of
                       [] \<Rightarrow> check_expectations m xs
                     | reason \<Rightarrow> reason))"

definition validate_file_workflow_evidence :: "file_workflow_evidence \<Rightarrow> string" where
  "validate_file_workflow_evidence ev =
     (if fw_expectations ev = [] then ''file workflow evidence missing expectations''
      else if fw_results ev = [] then ''file workflow evidence missing results''
      else case collect_results (fw_results ev) [] of
             Inl reason \<Rightarrow> reason
           | Inr m \<Rightarrow> check_expectations m (fw_expectations ev))"

section \<open>The evidence verifiers\<close>

definition tool_failed :: "observation \<Rightarrow> string option" where
  "tool_failed ob =
     (case obs_tool_result ob of
        Some r \<Rightarrow> if trim_space (tr_error r) \<noteq> [] then Some (tr_error r) else None
      | None \<Rightarrow> None)"

definition research_verify :: "observation \<Rightarrow> verification_result" where
  "research_verify ob =
     (case tool_failed ob of
        Some reason \<Rightarrow> failed_result reason
      | None \<Rightarrow>
          (case Option.bind (obs_evidence ob) ev_research of
             None \<Rightarrow> pending_result ''verification not applicable yet: research evidence pending''
           | Some ev \<Rightarrow>
               (case validate_research_evidence ev of
                  [] \<Rightarrow> passed_result ''research evidence is complete and consistent''
                | reason \<Rightarrow> failed_result reason)))"

definition file_workflow_verify :: "observation \<Rightarrow> verification_result" where
  "file_workflow_verify ob =
     (case tool_failed ob of
        Some reason \<Rightarrow> failed_result reason
      | None \<Rightarrow>
          (case Option.bind (obs_evidence ob) ev_file_workflow of
             None \<Rightarrow> pending_result ''verification not applicable yet: file workflow evidence pending''
           | Some ev \<Rightarrow>
               (case validate_file_workflow_evidence ev of
                  [] \<Rightarrow> passed_result ''file workflow evidence satisfies expected conditions''
                | reason \<Rightarrow> failed_result reason)))"

end
