(* ===== verification/Verifier_Registry.thy ===== *)
theory Verifier_Registry
  imports Verification
begin

text \<open>
  The host's registry of verifiers and the verifier that selects by task
  (\<^verbatim>\<open>registry.go\<close> and \<^verbatim>\<open>task_aware_verifier.go\<close> of \<^verbatim>\<open>internal/verify\<close>).

  A verifier is its \<^verbatim>\<open>Verify\<close> and what its \<^verbatim>\<open>VerifierProvenance\<close> returns, if it has one.  A
  plugin's verifier may also crash: \<open>Inl\<close> is the text of the panic value it is recovered from.
\<close>

section \<open>Verifiers\<close>

type_synonym ('w, 'r) verify_fun = "task \<Rightarrow> session \<Rightarrow> plan \<Rightarrow> step list \<Rightarrow> observation \<Rightarrow> 'w \<Rightarrow> 'r \<times> 'w"

record 'w verifier =
  vf_verify :: "('w, (go_error, verification_result) result) verify_fun"
  vf_provenance :: "plugin_metadata option"

type_synonym 'w plugin_delegate = "('w, (string, (go_error, verification_result) result) result) verify_fun"

type_synonym 'w verifier_factory = "string \<Rightarrow> 'w command_port option \<Rightarrow> 'w verifier"

record 'w verifier_plugin =
  vpc_metadata :: plugin_metadata
  vpc_policy_id :: string
  vpc_new_verifier :: "string \<Rightarrow> 'w command_port option \<Rightarrow> 'w plugin_delegate option"

definition command_factory :: "'w verifier_factory" where
  "command_factory mode ex =
     \<lparr>vf_verify = (\<lambda>task ses pl steps ob w. command_verify (new_command_verifier ex) w), vf_provenance = None\<rparr>"

definition research_factory :: "'w verifier_factory" where
  "research_factory mode ex =
     \<lparr>vf_verify = (\<lambda>task ses pl steps ob w. (Inr (research_verify ob), w)), vf_provenance = None\<rparr>"

definition file_workflow_factory :: "'w verifier_factory" where
  "file_workflow_factory mode ex =
     \<lparr>vf_verify = (\<lambda>task ses pl steps ob w. (Inr (file_workflow_verify ob), w)), vf_provenance = None\<rparr>"

section \<open>Policy names\<close>

definition normalize_policy_token :: "string \<Rightarrow> string" where
  "normalize_policy_token raw = to_lower (trim_space raw)"

definition normalize_verification_policy :: "string \<Rightarrow> string" where
  "normalize_verification_policy raw =
     (let text = normalize_policy_token raw in
      if text \<in> {[], ''default''} then []
      else if text \<in> {policy_command, ''command_based'', ''coding'', ''code'', ''exec_command''} then policy_command
      else if text \<in> {policy_evidence, ''evidence_based'', ''research''} then policy_evidence
      else if text \<in> {policy_state_output, ''state'', ''output'', ''checklist'', ''file_workflow'', ''file-workflow''}
      then policy_state_output
      else [])"

definition canonical_policy_id :: "string \<Rightarrow> string option" where
  "canonical_policy_id raw =
     (let n = normalize_verification_policy raw in if n = [] then None else Some n)"

section \<open>The registry\<close>

definition unknown_policy :: go_error where
  "unknown_policy = Message ''unknown verification policy''"
definition unauthorized_policy :: go_error where
  "unauthorized_policy = Message ''unauthorized verification policy binding''"
definition duplicate_policy :: go_error where
  "duplicate_policy = Message ''duplicate verification policy''"
definition malformed_result :: go_error where
  "malformed_result = Message ''malformed verification result''"

definition wrap_error :: "go_error \<Rightarrow> string \<Rightarrow> go_error" where
  "wrap_error e what = Wrapped (error_text e @ '': '' @ what) e"

record 'w verifier_descriptor =
  vd_id :: string
  vd_factory :: "'w verifier_factory"

record 'w verifier_registry =
  vr_predeclared :: "string list"
  vr_builtins :: "(string \<times> 'w verifier_descriptor) list"
  vr_plugins :: "(string \<times> 'w verifier_descriptor) list"
  vr_default :: string

fun canonical_all :: "string list \<Rightarrow> string list option" where
  "canonical_all [] = Some []"
| "canonical_all (p # ps) =
     (case canonical_policy_id p of
        None \<Rightarrow> None
      | Some n \<Rightarrow> map_option (\<lambda>ns. n # ns) (canonical_all ps))"

text \<open>\<^verbatim>\<open>NewVerifierRegistryWithPolicies\<close>: its misuse panics.\<close>

definition new_registry_with_policies :: "string list \<Rightarrow> string \<Rightarrow> 'w verifier_registry attempt" where
  "new_registry_with_policies predeclared preferred =
     (case canonical_all predeclared of
        None \<Rightarrow> Panics
      | Some allowed \<Rightarrow>
          if allowed = [] then Panics
          else case canonical_policy_id preferred of
                 None \<Rightarrow> Panics
               | Some d \<Rightarrow>
                   if d \<notin> set allowed then Panics
                   else Done \<lparr>vr_predeclared = allowed, vr_builtins = [], vr_plugins = [], vr_default = d\<rparr>)"

definition registered_policy :: "'w verifier_registry \<Rightarrow> string \<Rightarrow> (go_error, string) result" where
  "registered_policy r i =
     (case canonical_policy_id i of
        None \<Rightarrow> Inl (wrap_error unauthorized_policy (''verifier policy '' @ quote_str (trim_space i)))
      | Some n \<Rightarrow>
          if n \<in> set (vr_predeclared r) then Inr n
          else Inl (wrap_error unauthorized_policy (''verifier policy '' @ quote_str n)))"

definition policy_taken :: "string \<Rightarrow> go_error" where
  "policy_taken n = wrap_error duplicate_policy (''verifier policy '' @ quote_str n @ '' already registered'')"

definition nil_registry :: go_error where
  "nil_registry = wrap_error unknown_policy ''verifier registry is nil''"

text \<open>\<^verbatim>\<open>Register\<close>, \<^verbatim>\<open>RegisterPlugin\<close>, \<^verbatim>\<open>Get\<close> and \<^verbatim>\<open>Resolve\<close>; a nil factory or plugin is \<^term>\<open>None\<close>.\<close>

definition vr_register ::
  "string \<Rightarrow> 'w verifier_factory option \<Rightarrow> 'w verifier_registry \<Rightarrow> (go_error, 'w verifier_registry) result" where
  "vr_register i factory r =
     (case registered_policy r i of
        Inl e \<Rightarrow> Inl e
      | Inr n \<Rightarrow>
          (case factory of
             None \<Rightarrow> Inl (Message ''verifier factory must not be nil'')
           | Some f \<Rightarrow>
               (case map_of (vr_builtins r) n of
                  Some d \<Rightarrow> Inl (policy_taken (vd_id d))
                | None \<Rightarrow> Inr (r\<lparr>vr_builtins := (n, \<lparr>vd_id = n, vd_factory = f\<rparr>) # vr_builtins r\<rparr>))))"

fun vr_error_text :: "vr_error \<Rightarrow> string" where
  "vr_error_text EmptyReason = ''verification reason must not be empty''"
| "vr_error_text (StatusNeedsPassed s) = ''verification status '' @ quote_str s @ '' requires passed=true''"
| "vr_error_text (StatusNeedsNotPassed s) = ''verification status '' @ quote_str s @ '' requires passed=false''"
| "vr_error_text (UnknownVerificationStatus s) = ''unknown verification status '' @ quote_str s"

definition fail_closed :: "string \<Rightarrow> plugin_metadata \<Rightarrow> string \<Rightarrow> verification_result" where
  "fail_closed policy m message =
     failed_result (''verification policy '' @ quote_str policy @ '' fail-closed via plugin '' @ pl_logical_id m @
       '' ('' @ pl_source_path m @ ''): '' @ trim_space message)"

definition plugin_verify ::
  "'w plugin_delegate option \<Rightarrow> plugin_metadata \<Rightarrow> string \<Rightarrow> ('w, (go_error, verification_result) result) verify_fun" where
  "plugin_verify delegate m policy task ses pl steps ob w =
     (case delegate of
        None \<Rightarrow> (Inr (fail_closed policy m ''plugin verifier is not available''), w)
      | Some d \<Rightarrow>
          (case d task ses pl steps ob w of
             (Inl panic, w') \<Rightarrow> (Inr (fail_closed policy m (''plugin verifier crashed: '' @ panic)), w')
           | (Inr (Inl e), w') \<Rightarrow>
               (Inr (fail_closed policy m (''plugin verifier execution failed: '' @ error_text e)), w')
           | (Inr (Inr result), w') \<Rightarrow>
               (let n = vr_normalize result in
                case vr_validate n of
                  Some e \<Rightarrow>
                    (Inr (fail_closed policy m (error_text malformed_result @ '': '' @ vr_error_text e)), w')
                | None \<Rightarrow> (Inr n, w'))))"

definition plugin_factory :: "'w verifier_plugin \<Rightarrow> plugin_metadata \<Rightarrow> string \<Rightarrow> 'w verifier_factory" where
  "plugin_factory p m policy mode ex =
     \<lparr>vf_verify = plugin_verify (vpc_new_verifier p mode ex) m policy, vf_provenance = Some (pl_normalize m)\<rparr>"

definition vr_register_plugin ::
  "'w verifier_plugin option \<Rightarrow> 'w verifier_registry \<Rightarrow> (go_error, 'w verifier_registry) result" where
  "vr_register_plugin plugin r =
     (case plugin of
        None \<Rightarrow> Inl (Message ''verifier plugin contract must not be nil'')
      | Some p \<Rightarrow>
          (let m = pl_normalize (vpc_metadata p) in
           case pl_validate m of
             Some e \<Rightarrow> Inl (Message (metadata_error_text e))
           | None \<Rightarrow>
               if pl_family m \<noteq> pf_verifier
               then Inl (Message (''verifier plugin metadata family must be '' @ quote_str pf_verifier @
                      '', got '' @ quote_str (pl_family m)))
               else (case registered_policy r (vpc_policy_id p) of
                       Inl e \<Rightarrow> Inl e
                     | Inr n \<Rightarrow>
                         (case map_of (vr_plugins r) n of
                            Some d \<Rightarrow> Inl (policy_taken (vd_id d))
                          | None \<Rightarrow> Inr (r\<lparr>vr_plugins := (n, \<lparr>vd_id = n, vd_factory = plugin_factory p m n\<rparr>) # vr_plugins r\<rparr>)))))"

definition find_descriptor :: "'w verifier_registry \<Rightarrow> string \<Rightarrow> 'w verifier_descriptor option" where
  "find_descriptor r n =
     (case map_of (vr_plugins r) n of Some d \<Rightarrow> Some d | None \<Rightarrow> map_of (vr_builtins r) n)"

definition vr_get :: "'w verifier_registry option \<Rightarrow> string \<Rightarrow> 'w verifier_descriptor option" where
  "vr_get r i =
     (case canonical_policy_id i of
        None \<Rightarrow> None
      | Some n \<Rightarrow> (case r of None \<Rightarrow> None | Some r \<Rightarrow> find_descriptor r n))"

definition vr_default_id :: "'w verifier_registry option \<Rightarrow> string" where
  "vr_default_id r = (case r of None \<Rightarrow> [] | Some r \<Rightarrow> vr_default r)"

definition resolve_descriptor :: "'w verifier_registry option \<Rightarrow> string \<Rightarrow> (go_error, 'w verifier_descriptor) result" where
  "resolve_descriptor r i =
     (case r of
        None \<Rightarrow> Inl nil_registry
      | Some r \<Rightarrow>
          (let selected = (if trim_space i = [] then vr_default_id (Some r) else trim_space i) in
           case registered_policy r selected of
             Inl e \<Rightarrow> Inl e
           | Inr n \<Rightarrow>
               (case find_descriptor r n of
                  Some d \<Rightarrow> Inr d
                | None \<Rightarrow>
                    Inl (wrap_error unknown_policy (''verifier policy '' @ quote_str n @ '' not configured'')))))"

definition vr_resolve ::
  "'w verifier_registry option \<Rightarrow> string \<Rightarrow> string \<Rightarrow> 'w command_port option \<Rightarrow> (go_error, 'w verifier) result" where
  "vr_resolve r i mode ex =
     (case resolve_descriptor r i of Inl e \<Rightarrow> Inl e | Inr d \<Rightarrow> Inr (vd_factory d mode ex))"

definition must_register :: "string \<Rightarrow> 'w verifier_factory \<Rightarrow> 'w verifier_registry \<Rightarrow> 'w verifier_registry attempt" where
  "must_register i f r = (case vr_register i (Some f) r of Inl e \<Rightarrow> Panics | Inr r' \<Rightarrow> Done r')"

fun then_attempt :: "'a attempt \<Rightarrow> ('a \<Rightarrow> 'b attempt) \<Rightarrow> 'b attempt" where
  "then_attempt (Done a) f = f a"
| "then_attempt Blocks f = Blocks"
| "then_attempt Panics f = Panics"

definition new_verifier_registry :: "'w verifier_registry attempt" where
  "new_verifier_registry =
     then_attempt (new_registry_with_policies [policy_command, policy_evidence, policy_state_output] policy_command)
       (\<lambda>r. then_attempt (must_register policy_command command_factory r)
       (\<lambda>r. then_attempt (must_register policy_evidence research_factory r)
       (\<lambda>r. must_register policy_state_output file_workflow_factory r)))"

section \<open>The task-aware verifier\<close>

text \<open>The built-in resolver, for a verifier that is given no registry.\<close>

definition builtin_verifiers :: "(string \<times> 'w verifier_factory) list" where
  "builtin_verifiers =
     [(policy_command, command_factory), (policy_evidence, research_factory), (policy_state_output, file_workflow_factory)]"

definition builtin_resolve :: "string \<Rightarrow> string \<Rightarrow> 'w command_port option \<Rightarrow> (go_error, 'w verifier) result" where
  "builtin_resolve i mode ex =
     (let selected = (if trim_space i = [] then policy_command else trim_space i) in
      case map_of builtin_verifiers selected of
        None \<Rightarrow> Inl (Message (''verifier '' @ quote_str selected @ '' not found''))
      | Some f \<Rightarrow> Inr (f mode ex))"

record 'w task_aware =
  ta_fallback_policy :: string
  ta_mode :: string
  ta_executor :: "'w command_port option"
  ta_resolve :: "string \<Rightarrow> string \<Rightarrow> 'w command_port option \<Rightarrow> (go_error, 'w verifier) result"
  ta_resolved :: "'w verifier option"

text \<open>Every mode falls back to the command policy; a nil registry is \<^term>\<open>None\<close>.\<close>

definition new_task_aware ::
  "string \<Rightarrow> 'w command_port option \<Rightarrow>
     (string \<Rightarrow> string \<Rightarrow> 'w command_port option \<Rightarrow> (go_error, 'w verifier) result) option \<Rightarrow> 'w task_aware" where
  "new_task_aware mode ex registry =
     \<lparr>ta_fallback_policy =
        (if to_lower (trim_space mode) \<in> {''strict'', ''standard'', []} then policy_command else policy_command),
      ta_mode = mode, ta_executor = ex,
      ta_resolve = (case registry of None \<Rightarrow> builtin_resolve | Some resolve \<Rightarrow> resolve), ta_resolved = None\<rparr>"

definition select_policy :: "string \<Rightarrow> task \<Rightarrow> string" where
  "select_policy fallback t =
     (let policy = normalize_verification_policy (task_verification_policy t) in
      if policy \<noteq> [] then policy
      else if category_or_default t = cat_coding then policy_command
      else if category_or_default t = cat_research then policy_evidence
      else if category_or_default t = cat_file_workflow then policy_state_output
      else fallback)"

definition policy_not_configured :: "string \<Rightarrow> verification_result" where
  "policy_not_configured p = failed_result (''verification policy '' @ quote_str p @ '' not configured'')"

definition task_aware_verify ::
  "'w task_aware \<Rightarrow> task \<Rightarrow> session \<Rightarrow> plan \<Rightarrow> step list \<Rightarrow> observation \<Rightarrow> 'w
     \<Rightarrow> ((go_error, verification_result) result \<times> 'w) \<times> 'w task_aware" where
  "task_aware_verify v task ses pl steps ob w =
     (let raw = trim_space (task_verification_policy task) in
      if raw \<noteq> [] \<and> normalize_verification_policy raw = [] then ((Inr (policy_not_configured raw), w), v)
      else
        (let policy = select_policy (ta_fallback_policy v) task in
         case ta_resolve v policy (ta_mode v) (ta_executor v) of
           Inl e \<Rightarrow> ((Inr (policy_not_configured policy), w), v)
         | Inr vf \<Rightarrow> (vf_verify vf task ses pl steps ob w, v\<lparr>ta_resolved := Some vf\<rparr>)))"

definition verifier_provenance :: "'w task_aware \<Rightarrow> plugin_metadata option" where
  "verifier_provenance v = (case ta_resolved v of None \<Rightarrow> None | Some vf \<Rightarrow> vf_provenance vf)"

section \<open>The registry's contract\<close>

lemma normalize_policy_trim [simp]: "normalize_verification_policy (trim_space i) = normalize_verification_policy i"
  by (simp add: normalize_verification_policy_def normalize_policy_token_def)

lemma canonical_policy_trim [simp]: "canonical_policy_id (trim_space i) = canonical_policy_id i"
  by (simp add: canonical_policy_id_def)

lemma canonical_policy_key: "canonical_policy_id i = (if normalize_verification_policy i = [] then None else Some (normalize_verification_policy i))"
  by (simp add: canonical_policy_id_def Let_def)

lemma registered_policy_Inr:
  "registered_policy r i = Inr n \<longleftrightarrow> canonical_policy_id i = Some n \<and> n \<in> set (vr_predeclared r)"
  by (auto simp: registered_policy_def split: option.splits if_splits)

text \<open>The built-in entries of a registry with the predeclared policies of \<open>base\<close>.\<close>

definition lookup_builtin ::
  "(string \<times> 'w verifier_descriptor) list \<Rightarrow> string \<Rightarrow> 'w verifier_factory option option" where
  "lookup_builtin bs i =
     Option.bind (canonical_policy_id i) (\<lambda>n. map_option (\<lambda>d. Some (vd_factory d)) (map_of bs n))"

definition register_builtin ::
  "'w verifier_registry \<Rightarrow> string \<Rightarrow> 'w verifier_factory option \<Rightarrow> (string \<times> 'w verifier_descriptor) list
     \<Rightarrow> (go_error, (string \<times> 'w verifier_descriptor) list) result" where
  "register_builtin base i f bs = map_sum id vr_builtins (vr_register i f (base\<lparr>vr_builtins := bs\<rparr>))"

interpretation vb: named_registry normalize_verification_policy
  "\<lambda>i f. is_ok (registered_policy base i) \<and> f \<noteq> None" "register_builtin base" lookup_builtin
  for base :: "'w verifier_registry"
proof (unfold_locales, goal_cases)
  case (1 i v r)
  then show ?case
    by (auto simp: register_builtin_def vr_register_def lookup_builtin_def registered_policy_def
        split: option.splits if_splits)
next
  case (2 i v r r' j)
  then show ?case
    by (auto simp: register_builtin_def vr_register_def lookup_builtin_def registered_policy_def canonical_policy_key
        split: option.splits if_splits)
next
  case (3 i j r)
  then show ?case by (simp add: lookup_builtin_def canonical_policy_key)
qed

lemma new_registry_done:
  "new_verifier_registry = Done
     \<lparr>vr_predeclared = [policy_command, policy_evidence, policy_state_output],
      vr_builtins =
        [(policy_state_output, \<lparr>vd_id = policy_state_output, vd_factory = file_workflow_factory\<rparr>),
         (policy_evidence, \<lparr>vd_id = policy_evidence, vd_factory = research_factory\<rparr>),
         (policy_command, \<lparr>vd_id = policy_command, vd_factory = command_factory\<rparr>)],
      vr_plugins = [], vr_default = policy_command\<rparr>"
proof -
  have c: "canonical_policy_id policy_command = Some policy_command" "canonical_policy_id policy_evidence = Some policy_evidence"
    "canonical_policy_id policy_state_output = Some policy_state_output"
    by code_simp+
  have d: "policy_command \<noteq> policy_evidence" "policy_command \<noteq> policy_state_output" "policy_evidence \<noteq> policy_state_output"
    by code_simp+
  show ?thesis
    using d by (simp add: new_verifier_registry_def new_registry_with_policies_def must_register_def vr_register_def
        registered_policy_def c)
qed

section \<open>Plugins\<close>

text \<open>A plugin the registry takes when its policy is free, and a list of plugins registered in turn.\<close>

definition plugin_acceptable :: "'w verifier_plugin \<Rightarrow> bool" where
  "plugin_acceptable p \<longleftrightarrow> pl_validate (vpc_metadata p) = None \<and> pl_family (pl_normalize (vpc_metadata p)) = pf_verifier"

definition register_plugins :: "'w verifier_plugin list \<Rightarrow> 'w verifier_registry \<Rightarrow> 'w verifier_registry" where
  "register_plugins ps r = fold (\<lambda>p r. case vr_register_plugin (Some p) r of Inl _ \<Rightarrow> r | Inr r' \<Rightarrow> r') ps r"

definition plugin_for :: "'w verifier_plugin list \<Rightarrow> string \<Rightarrow> 'w verifier_plugin option" where
  "plugin_for ps n = find (\<lambda>p. plugin_acceptable p \<and> canonical_policy_id (vpc_policy_id p) = Some n) ps"

definition plugin_descriptor :: "string \<Rightarrow> 'w verifier_plugin \<Rightarrow> 'w verifier_descriptor" where
  "plugin_descriptor n p = \<lparr>vd_id = n, vd_factory = plugin_factory p (pl_normalize (vpc_metadata p)) n\<rparr>"

lemma register_plugin_step:
  "(case vr_register_plugin (Some p) r of Inl _ \<Rightarrow> r | Inr r' \<Rightarrow> r') =
     r\<lparr>vr_plugins :=
       (case canonical_policy_id (vpc_policy_id p) of
          None \<Rightarrow> []
        | Some n \<Rightarrow> if plugin_acceptable p \<and> n \<in> set (vr_predeclared r) \<and> map_of (vr_plugins r) n = None
            then [(n, plugin_descriptor n p)] else []) @ vr_plugins r\<rparr>"
  by (auto simp: vr_register_plugin_def plugin_acceptable_def plugin_descriptor_def registered_policy_def Let_def
      split: option.splits if_splits)

lemma register_plugins_frame:
  "vr_predeclared (register_plugins ps r) = vr_predeclared r \<and> vr_builtins (register_plugins ps r) = vr_builtins r \<and>
   vr_default (register_plugins ps r) = vr_default r"
  by (induction ps arbitrary: r) (simp_all add: register_plugins_def register_plugin_step)

lemma register_plugins_lookup:
  assumes "n \<in> set (vr_predeclared r)"
  shows "map_of (vr_plugins (register_plugins ps r)) n =
    (case map_of (vr_plugins r) n of
       Some d \<Rightarrow> Some d
     | None \<Rightarrow> map_option (plugin_descriptor n) (plugin_for ps n))"
  using assms
proof (induction ps arbitrary: r)
  case (Cons p ps)
  let ?r = "case vr_register_plugin (Some p) r of Inl _ \<Rightarrow> r | Inr r' \<Rightarrow> r'"
  have "n \<in> set (vr_predeclared ?r)" using Cons.prems by (simp add: register_plugin_step)
  from Cons.IH [OF this] Cons.prems show ?case
    by (auto simp: register_plugins_def plugin_for_def register_plugin_step split: option.splits)
qed (simp add: register_plugins_def plugin_for_def split: option.split)

end
