(* ===== verification/Shell_Adapter.thy ===== *)
theory Shell_Adapter
  imports Tools Verification
begin

text \<open>
  The shell tool (\<^verbatim>\<open>internal/tools/adapters/shell.go\<close>) and the command records that it writes
  and the verifiers read.  \<^verbatim>\<open>shellquote.Split\<close> and the processes of the operating system are
  parameters.
\<close>

section \<open>The adapter\<close>

text \<open>How a process ended: without error, with \<^verbatim>\<open>exec.ExitError\<close> and its code, or not run at all.\<close>

datatype run_end = RunOk | RunExit int go_error | RunFailed go_error

record 'w shell_host =
  sh_split :: "string \<Rightarrow> (go_error, string list) result"
  sh_run :: "duration \<Rightarrow> string \<Rightarrow> string list \<Rightarrow> 'w \<Rightarrow> (string \<times> run_end) \<times> 'w"

definition shell_output :: "string \<Rightarrow> int \<Rightarrow> string \<Rightarrow> string" where
  "shell_output command code out =
     join_str newline [''COMMAND: '' @ command, ''EXIT_CODE: '' @ show_int code, ''OUTPUT_BEGIN'', out, ''OUTPUT_END'']"

definition exit_code :: "run_end \<Rightarrow> int" where
  "exit_code e = (case e of RunOk \<Rightarrow> 0 | RunExit n err \<Rightarrow> n | RunFailed err \<Rightarrow> - 1)"

definition run_error :: "run_end \<Rightarrow> go_error option" where
  "run_error e = (case e of RunOk \<Rightarrow> None | RunExit n err \<Rightarrow> Some err | RunFailed err \<Rightarrow> Some err)"

text \<open>\<open>dur\<close> is the time the call took.\<close>

definition shell_result :: "duration \<Rightarrow> tool_call \<Rightarrow> string \<Rightarrow> tool_result" where
  "shell_result dur call out = \<lparr>tr_tool_name = tc_name call, tr_output = out, tr_error = [], tr_duration = dur\<rparr>"

definition shell_exec :: "'w shell_host \<Rightarrow> string \<Rightarrow> duration \<Rightarrow> 'w tool_handler" where
  "shell_exec host ws dur timeout call w =
     (let command = trim_space (tc_input call) in
      if command = [] then ((shell_result dur call [], Some (Message ''command must not be empty'')), w)
      else case sh_split host command of
             Inl e \<Rightarrow> ((shell_result dur call [], Some (Wrapped (''failed to parse command: '' @ error_text e) e)), w)
           | Inr args \<Rightarrow>
               if args = [] then ((shell_result dur call [], Some (Message ''command must not be empty'')), w)
               else (case sh_run host timeout (clean_path ws) args w of
                       ((out, end_), w') \<Rightarrow>
                         ((shell_result dur call (shell_output command (exit_code end_) out), run_error end_), w')))"

section \<open>White space\<close>

lemma trim_space_plain:
  assumes "\<forall>c \<in> set s. c \<notin> \<Union> (set ` set space_words)"
  shows "trim_space s = s"
proof -
  have *: "\<not> starts_with_any ws t" if "\<forall>c \<in> set t. c \<notin> \<Union> (set ` set ws)" for ws and t :: string
  proof
    assume "starts_with_any ws t"
    then obtain w u where "w \<in> set ws" "w \<noteq> []" "t = w @ u" by (auto simp: starts_with_any_def has_prefix_iff)
    from \<open>w \<noteq> []\<close> obtain c cs where "w = c # cs" by (auto simp: neq_Nil_conv)
    with \<open>w \<in> set ws\<close> \<open>t = w @ u\<close> have "c \<in> set t" "c \<in> \<Union> (set ` set ws)" by (simp, metis UN_I list.set_intros(1))
    with that show False by blast
  qed
  have "strip space_words s = s" by (rule strip_id [OF * [OF assms]])
  moreover have "strip (map rev space_words) (rev s) = rev s" by (rule strip_id [OF *]) (use assms in auto)
  ultimately show ?thesis by (simp add: trim_space_def)
qed

lemma strip_space: "strip space_words (CHR 0x20 # s) = strip space_words s"
proof -
  have "find (\<lambda>w. w \<noteq> [] \<and> has_prefix w (CHR 0x20 # s)) space_words = Some [CHR 0x20]"
    by (simp add: space_words_def)
  from strip_Some [OF this] show ?thesis by simp
qed

lemma trim_space_blank_before [simp]: "trim_space (CHR 0x20 # s) = trim_space s"
  by (simp add: trim_space_def strip_space)

lemma space_word_blank: "w \<in> set (map rev space_words) \<Longrightarrow> CHR 0x20 \<in> set w \<Longrightarrow> w = [CHR 0x20]"
  by (auto simp: space_words_def)

text \<open>A label and a blank before a trimmed text make a trimmed line.\<close>

lemma trim_space_label:
  assumes "trim_space c = c" "c \<noteq> []" "\<not> starts_with_any space_words (label @ CHR 0x20 # c)"
  shows "trim_space (label @ CHR 0x20 # c) = label @ CHR 0x20 # c"
proof -
  have l: "strip space_words (label @ CHR 0x20 # c) = label @ CHR 0x20 # c" by (rule strip_id [OF assms(3)])
  have "rev c = strip (map rev space_words) (rev (strip space_words c))"
    using assms(1) by (metis rev_rev_ident trim_space_def)
  then have c: "\<not> starts_with_any (map rev space_words) (rev c)" by (metis strip_done)
  have "\<not> starts_with_any (map rev space_words) (rev c @ CHR 0x20 # rev label)"
  proof
    assume "starts_with_any (map rev space_words) (rev c @ CHR 0x20 # rev label)"
    then obtain w u where w: "w \<in> set (map rev space_words)" "w \<noteq> []" "rev c @ CHR 0x20 # rev label = w @ u"
      by (auto simp: starts_with_any_def has_prefix_iff)
    show False
    proof (cases "length w \<le> length c")
      case True
      with w(3) have "rev c = w @ drop (length w) (rev c)"
        by (metis append_eq_append_conv_if append_take_drop_id length_rev)
      with w(1,2) c show False by (metis has_prefix_append starts_with_any_def)
    next
      case False
      then obtain n where n: "take (length w) (rev c @ CHR 0x20 # rev label) = rev c @ CHR 0x20 # take n (rev label)"
        by (cases "length w - length c") auto
      with w(3) have "w = rev c @ CHR 0x20 # take n (rev label)" by simp
      then have "CHR 0x20 \<in> set w" by simp
      with space_word_blank [OF w(1)] w(3) False assms(2) show False by (cases c) auto
    qed
  qed
  then have "strip (map rev space_words) (rev (label @ CHR 0x20 # c)) = rev (label @ CHR 0x20 # c)"
    by (simp add: strip_id)
  with l show ?thesis by (simp only: trim_space_def rev_rev_ident)
qed

lemma show_int_trim [simp]: "trim_space (show_int i) = show_int i" "show_int i \<noteq> []"
proof -
  have "digit_value c \<noteq> None \<or> c = CHR ''-''" if "c \<in> set (show_int i)" for c
    using that show_nat_digits [of c] by (auto simp: show_int_def split: if_splits)
  then have "\<forall>c \<in> set (show_int i). c \<notin> \<Union> (set ` set space_words)"
    by (fastforce simp: digit_value_def space_words_def)
  then show "trim_space (show_int i) = show_int i" by (rule trim_space_plain)
qed (simp add: show_int_def)

section \<open>Reading the records that were written\<close>

text \<open>An output that holds no line that starts a command record.\<close>

definition unmarked :: "string list \<Rightarrow> bool" where
  "unmarked ls \<longleftrightarrow> list_all (\<lambda>l. \<not> has_prefix ''COMMAND:'' (trim_space l)) ls"

lemma records_unmarked:
  "unmarked ls \<Longrightarrow> records_from (\<lambda>s. s) ''COMMAND:'' code (ls @ ms) = records_from (\<lambda>s. s) ''COMMAND:'' code ms"
  by (induction ls) (auto simp: unmarked_def Let_def)

lemma join_newline: "join_str newline (x # y # zs) = x @ CHR 0x0A # join_str newline (y # zs)"
  by (simp add: newline_def)

lemma split_on_line: "c \<notin> set a \<Longrightarrow> split_on c (a @ c # b) = a # split_on c b"
  by (simp add: split_on_append split_on_id)

lemma shell_output_lines:
  assumes "CHR 0x0A \<notin> set command"
  shows "split_on (CHR 0x0A) (shell_output command code out) =
    [''COMMAND: '' @ command, ''EXIT_CODE: '' @ show_int code, ''OUTPUT_BEGIN''] @ split_on (CHR 0x0A) out @ [''OUTPUT_END'']"
proof -
  have "CHR 0x0A \<notin> set (show_int code)"
    using show_nat_digits [of "CHR 0x0A"] by (auto simp: show_int_def digit_value_def)
  with assms have n: "CHR 0x0A \<notin> set (''COMMAND: '' @ command)" "CHR 0x0A \<notin> set (''EXIT_CODE: '' @ show_int code)"
    "CHR 0x0A \<notin> set ''OUTPUT_BEGIN''" "CHR 0x0A \<notin> set ''OUTPUT_END''"
    by simp_all
  show ?thesis
    unfolding shell_output_def join_newline join_str.simps(2) split_on_line [OF n(1)] split_on_line [OF n(2)]
      split_on_line [OF n(3)] split_on_append [of _ out] split_on_id [OF n(4)]
    by (simp only: append.simps)
qed

lemma block_records:
  assumes "trim_space command = command" "command \<noteq> []" "int_range code = Some code" "unmarked body"
  shows "records_from (\<lambda>s. s) ''COMMAND:'' ''EXIT_CODE:''
      ([''COMMAND: '' @ command, ''EXIT_CODE: '' @ show_int code, ''OUTPUT_BEGIN''] @ body @ [''OUTPUT_END''] @ rest) =
    \<lparr>cr_command = command, cr_exit_code = code\<rparr> # records_from (\<lambda>s. s) ''COMMAND:'' ''EXIT_CODE:'' rest"
proof -
  have s: "\<not> starts_with_any space_words (''COMMAND:'' @ CHR 0x20 # x)"
    "\<not> starts_with_any space_words (''EXIT_CODE:'' @ CHR 0x20 # x)" for x
    by (simp_all add: starts_with_any_def space_words_def)
  have c: "trim_space (''COMMAND: '' @ command) = ''COMMAND: '' @ command"
    using trim_space_label [OF assms(1,2) s(1)] by simp
  have e: "trim_space (''EXIT_CODE: '' @ show_int code) = ''EXIT_CODE: '' @ show_int code"
    using trim_space_label [OF show_int_trim s(2)] by simp
  have u: "unmarked ([''OUTPUT_BEGIN''] @ body @ [''OUTPUT_END''])"
  proof -
    have "\<not> has_prefix ''COMMAND:'' (trim_space ''OUTPUT_BEGIN'')" "\<not> has_prefix ''COMMAND:'' (trim_space ''OUTPUT_END'')"
      by code_simp+
    with assms(4) show ?thesis by (simp add: unmarked_def)
  qed
  have r: "records_from (\<lambda>s. s) ''COMMAND:'' ''EXIT_CODE:'' ([''OUTPUT_BEGIN''] @ body @ [''OUTPUT_END''] @ rest) =
      records_from (\<lambda>s. s) ''COMMAND:'' ''EXIT_CODE:'' rest"
    using records_unmarked [OF u, of _ rest] by simp
  from c e r show ?thesis
    using assms(1) atoi_show_int [OF assms(3)] by (simp add: Let_def)
qed

end
