(* ===== verification/Verification_Properties.thy ===== *)
theory Verification_Properties
  imports Verifier_Registry Shell_Adapter Tools_Properties
begin

text \<open>
  What the verifiers promise: round trip of command records, exactness of the evidence verifiers,
  the command verifier over the executor and the shell adapter, and the registry with plugins.
\<close>

section \<open>Command records\<close>

text \<open>The output of a list of runs, as the verifier joins them.\<close>

record shell_run =
  run_command_line :: string
  run_code :: int
  run_output :: string

definition run_text :: "shell_run \<Rightarrow> string" where
  "run_text r = shell_output (run_command_line r) (run_code r) (run_output r)"

definition readable_run :: "shell_run \<Rightarrow> bool" where
  "readable_run r \<longleftrightarrow> trim_space (run_command_line r) = run_command_line r \<and> run_command_line r \<noteq> [] \<and>
     CHR 0x0A \<notin> set (run_command_line r) \<and> int_range (run_code r) = Some (run_code r) \<and>
     unmarked (split_on (CHR 0x0A) (run_output r))"

definition run_lines :: "shell_run \<Rightarrow> string list" where
  "run_lines r = split_on (CHR 0x0A) (run_text r)"

lemma run_lines_records:
  assumes "readable_run r"
  shows "records_from (\<lambda>s. s) ''COMMAND:'' ''EXIT_CODE:'' (run_lines r @ rest) =
    \<lparr>cr_command = run_command_line r, cr_exit_code = run_code r\<rparr> # records_from (\<lambda>s. s) ''COMMAND:'' ''EXIT_CODE:'' rest"
proof -
  have r: "trim_space (run_command_line r) = run_command_line r" "run_command_line r \<noteq> []"
    "CHR 0x0A \<notin> set (run_command_line r)" "int_range (run_code r) = Some (run_code r)"
    "unmarked (split_on (CHR 0x0A) (run_output r))"
    using assms by (simp_all add: readable_run_def)
  show ?thesis
    unfolding run_lines_def run_text_def shell_output_lines [OF r(3)] append_assoc
    by (rule block_records [OF r(1,2,4,5)])
qed

lemma join_lines:
  "rs \<noteq> [] \<Longrightarrow> split_on (CHR 0x0A) (join_str newline (map run_text rs)) = concat (map run_lines rs)"
proof (induction newline "map run_text rs" arbitrary: rs rule: join_str.induct)
  case (2 s)
  then show ?case by (auto simp: run_lines_def)
next
  case (3 s t ss)
  obtain a b cs where "rs = a # b # cs" "run_text a = s" "run_text b = t" "map run_text cs = ss"
    using 3(2) by (auto simp: map_eq_Cons_conv)
  with 3(1) [of "b # cs"] show ?case
    by (simp add: join_newline split_on_append run_lines_def del: join_str.simps)
qed simp

text \<open>
  The command records round trip.  The joined outputs of any runs (commands of one trimmed line,
  exit codes of 64 bits, outputs without a line that starts a record) are read back as exactly the
  commands with their exit codes, in order.
\<close>

theorem records_roundtrip:
  assumes "list_all readable_run rs"
  shows "parse_structured_records (join_str newline (map run_text rs)) =
    map (\<lambda>r. \<lparr>cr_command = run_command_line r, cr_exit_code = run_code r\<rparr>) rs"
proof (cases rs)
  case Nil
  then show ?thesis by (simp add: parse_structured_records_def)
next
  case (Cons x xs)
  have "records_from (\<lambda>s. s) ''COMMAND:'' ''EXIT_CODE:'' (concat (map run_lines rs)) =
      map (\<lambda>r. \<lparr>cr_command = run_command_line r, cr_exit_code = run_code r\<rparr>) rs"
    using assms by (induction rs) (simp_all add: run_lines_records)
  with Cons show ?thesis by (simp add: parse_structured_records_def join_lines del: join_str.simps list.map)
qed

lemma records_roundtrip_witness:
  "parse_structured_records (join_str newline (map run_text
     [\<lparr>run_command_line = ''go test ./...'', run_code = 1, run_output = ''FAIL''\<rparr>,
      \<lparr>run_command_line = ''go vet ./...'', run_code = 0, run_output = []\<rparr>])) =
   [\<lparr>cr_command = ''go test ./...'', cr_exit_code = 1\<rparr>, \<lparr>cr_command = ''go vet ./...'', cr_exit_code = 0\<rparr>]"
  by (subst records_roundtrip) (code_simp, simp)

section \<open>Evidence\<close>

text \<open>What the verifiers of evidence require.\<close>

definition research_complete :: "research_evidence \<Rightarrow> bool" where
  "research_complete ev \<longleftrightarrow>
     \<not> blank (re_conclusion ev) \<and> re_sources ev \<noteq> [] \<and> re_findings ev \<noteq> [] \<and>
     distinct (map (\<lambda>s. trim_space (src_id s)) (re_sources ev)) \<and>
     list_all (\<lambda>s. \<not> blank (src_id s) \<and> \<not> blank (src_locator s)) (re_sources ev) \<and>
     list_all (\<lambda>f. \<not> blank (fnd_claim f) \<and> fnd_source_ids f \<noteq> [] \<and>
       list_all (\<lambda>i. trim_space i \<in> (\<lambda>s. trim_space (src_id s)) ` set (re_sources ev)) (fnd_source_ids f)) (re_findings ev)"

definition expectation_met :: "file_result list \<Rightarrow> file_expectation \<Rightarrow> bool" where
  "expectation_met rs x \<longleftrightarrow>
     normalize_file_path (fe_path x) \<noteq> [] \<and>
     (\<exists>r \<in> set rs. normalize_file_path (fr_path r) = normalize_file_path (fe_path x) \<and>
        fr_exists r = fe_should_exist x \<and> blank (fr_error r) \<and>
        (fe_should_exist x \<longrightarrow>
           list_all (\<lambda>f. blank f \<or> contains_str (fr_content r) (trim_space f)) (fe_required_contents x)))"

definition workflow_complete :: "file_workflow_evidence \<Rightarrow> bool" where
  "workflow_complete ev \<longleftrightarrow>
     fw_expectations ev \<noteq> [] \<and> fw_results ev \<noteq> [] \<and>
     distinct (map (\<lambda>r. normalize_file_path (fr_path r)) (fw_results ev)) \<and>
     list_all (\<lambda>r. normalize_file_path (fr_path r) \<noteq> []) (fw_results ev) \<and>
     list_all (expectation_met (fw_results ev)) (fw_expectations ev)"

abbreviation source_name :: "evidence_source \<Rightarrow> string" where
  "source_name s \<equiv> trim_space (src_id s)"

abbreviation result_path :: "file_result \<Rightarrow> string" where
  "result_path r \<equiv> normalize_file_path (fr_path r)"

definition sources_ok :: "evidence_source list \<Rightarrow> string list \<Rightarrow> bool" where
  "sources_ok ss seen \<longleftrightarrow> distinct (map source_name ss) \<and> set (map source_name ss) \<inter> set seen = {} \<and>
     list_all (\<lambda>s. \<not> blank (src_id s) \<and> \<not> blank (src_locator s)) ss"

definition results_ok :: "file_result list \<Rightarrow> (string \<times> file_result) list \<Rightarrow> bool" where
  "results_ok rs m \<longleftrightarrow> distinct (map result_path rs) \<and> set (map result_path rs) \<inter> fst ` set m = {} \<and>
     list_all (\<lambda>r. result_path r \<noteq> []) rs"

lemma sources_ok_Cons:
  "sources_ok (s # ss) seen \<longleftrightarrow> \<not> blank (src_id s) \<and> \<not> blank (src_locator s) \<and> source_name s \<notin> set seen \<and>
     sources_ok ss (source_name s # seen)"
  by (auto simp: sources_ok_def)

lemma collect_sources_spec:
  "case collect_sources ss seen of
     Inl reason \<Rightarrow> reason \<noteq> [] \<and> \<not> sources_ok ss seen
   | Inr seen' \<Rightarrow> sources_ok ss seen \<and> set seen' = set seen \<union> source_name ` set ss"
proof (induction ss seen rule: collect_sources.induct)
  case (2 s ss seen)
  then show ?case
    by (cases "blank (src_id s) \<or> source_name s \<in> set seen \<or> blank (src_locator s)")
      (auto simp: Let_def sources_ok_Cons blank_def split: sum.splits)
qed (simp add: sources_ok_def)

lemma check_source_ids_Nil:
  "check_source_ids claim seen is = [] \<longleftrightarrow> list_all (\<lambda>i. \<not> blank i \<and> trim_space i \<in> set seen) is"
  by (induction "is") (auto simp: Let_def blank_def)

lemma check_findings_Cons:
  "check_findings seen (f # fs) = [] \<longleftrightarrow> \<not> blank (fnd_claim f) \<and> fnd_source_ids f \<noteq> [] \<and>
     check_source_ids (fnd_claim f) seen (fnd_source_ids f) = [] \<and> check_findings seen fs = []"
  by (simp add: blank_def split: list.splits)

lemma check_findings_Nil:
  "check_findings seen fs = [] \<longleftrightarrow>
     list_all (\<lambda>f. \<not> blank (fnd_claim f) \<and> fnd_source_ids f \<noteq> [] \<and>
       list_all (\<lambda>i. \<not> blank i \<and> trim_space i \<in> set seen) (fnd_source_ids f)) fs"
proof (induction fs)
  case (Cons f fs)
  then show ?case by (simp only: check_findings_Cons check_source_ids_Nil list.pred_inject conj_assoc)
qed simp

lemma research_complete_sources:
  "research_complete ev \<longleftrightarrow> \<not> blank (re_conclusion ev) \<and> re_sources ev \<noteq> [] \<and> re_findings ev \<noteq> [] \<and>
     sources_ok (re_sources ev) [] \<and>
     list_all (\<lambda>f. \<not> blank (fnd_claim f) \<and> fnd_source_ids f \<noteq> [] \<and>
       list_all (\<lambda>i. trim_space i \<in> source_name ` set (re_sources ev)) (fnd_source_ids f)) (re_findings ev)"
  by (simp add: research_complete_def sources_ok_def conj_assoc)

lemma validate_research_Nil: "validate_research_evidence ev = [] \<longleftrightarrow> research_complete ev"
proof (cases "blank (re_conclusion ev) \<or> re_sources ev = [] \<or> re_findings ev = []")
  case True
  then show ?thesis by (auto simp: validate_research_evidence_def research_complete_def blank_def)
next
  case False
  show ?thesis
  proof (cases "collect_sources (re_sources ev) []")
    case (Inl reason)
    with collect_sources_spec [of "re_sources ev" "[]"] False show ?thesis
      by (simp add: validate_research_evidence_def research_complete_sources blank_def)
  next
    case (Inr seen)
    with collect_sources_spec [of "re_sources ev" "[]"]
    have ok: "sources_ok (re_sources ev) []" and seen: "set seen = source_name ` set (re_sources ev)" by simp_all
    have "blank i \<Longrightarrow> trim_space i \<notin> set seen" for i
      using ok seen by (auto simp: sources_ok_def list_all_iff blank_def)
    then have "(\<not> blank i \<and> trim_space i \<in> set seen) = (trim_space i \<in> set seen)" for i by blast
    then have "check_findings seen (re_findings ev) = [] \<longleftrightarrow> research_complete ev"
      using False ok unfolding check_findings_Nil research_complete_sources seen by simp
    with Inr False show ?thesis by (simp add: validate_research_evidence_def blank_def)
  qed
qed

lemma results_ok_Cons:
  "results_ok (r # rs) m \<longleftrightarrow> result_path r \<noteq> [] \<and> map_of m (result_path r) = None \<and> results_ok rs ((result_path r, r) # m)"
  by (auto simp: results_ok_def map_of_eq_None_iff)

lemma collect_results_spec:
  "case collect_results rs m of
     Inl reason \<Rightarrow> reason \<noteq> [] \<and> \<not> results_ok rs m
   | Inr m' \<Rightarrow> results_ok rs m \<and> m' = rev (map (\<lambda>r. (result_path r, r)) rs) @ m"
proof (induction rs m rule: collect_results.induct)
  case (2 r rs m)
  then show ?case
    by (cases "result_path r = [] \<or> map_of m (result_path r) \<noteq> None")
      (auto simp: Let_def results_ok_Cons split: sum.splits)
qed (simp add: results_ok_def)

lemma check_fragments_Nil:
  "check_fragments p content fs = [] \<longleftrightarrow> list_all (\<lambda>f. blank f \<or> contains_str content (trim_space f)) fs"
  by (induction fs) (auto simp: Let_def blank_def)

lemma check_expectations_Cons:
  "check_expectations m (x # xs) = [] \<longleftrightarrow> normalize_file_path (fe_path x) \<noteq> [] \<and>
     (case map_of m (normalize_file_path (fe_path x)) of
        None \<Rightarrow> False
      | Some r \<Rightarrow> fr_exists r = fe_should_exist x \<and> blank (fr_error r) \<and>
          (fe_should_exist x \<longrightarrow> list_all (\<lambda>f. blank f \<or> contains_str (fr_content r) (trim_space f)) (fe_required_contents x))) \<and>
     check_expectations m xs = []"
proof (cases "map_of m (normalize_file_path (fe_path x))")
  case None
  then show ?thesis by (simp add: Let_def)
next
  case (Some r)
  have nil: "(case c of [] \<Rightarrow> d | y # ys \<Rightarrow> y # ys) = [] \<longleftrightarrow> c = [] \<and> d = []" for c d :: string
    by (cases c) simp_all
  have ifs: "(if c then a else b) = [] \<longleftrightarrow> (if c then a = [] else b = [])" for c and a b :: string
    by simp
  show ?thesis
    unfolding check_expectations.simps Let_def Some option.case ifs nil check_fragments_Nil blank_def
    by auto
qed

lemma check_expectations_Nil:
  assumes "distinct (map result_path rs)"
  shows "check_expectations (rev (map (\<lambda>r. (result_path r, r)) rs)) xs = [] \<longleftrightarrow> list_all (expectation_met rs) xs"
proof (induction xs)
  case (Cons x xs)
  let ?m = "rev (map (\<lambda>r. (result_path r, r)) rs)" and ?p = "normalize_file_path (fe_path x)"
  have d: "distinct (map fst ?m)" using assms by (simp add: comp_def flip: rev_map)
  have look: "map_of ?m p = Some r \<longleftrightarrow> r \<in> set rs \<and> result_path r = p" for p r
    using map_of_eq_Some_iff [OF d, of p r] by auto
  have "(case map_of ?m ?p of
        None \<Rightarrow> False
      | Some r \<Rightarrow> fr_exists r = fe_should_exist x \<and> blank (fr_error r) \<and>
          (fe_should_exist x \<longrightarrow> list_all (\<lambda>f. blank f \<or> contains_str (fr_content r) (trim_space f)) (fe_required_contents x))) \<longleftrightarrow>
      (\<exists>r \<in> set rs. result_path r = ?p \<and> fr_exists r = fe_should_exist x \<and> blank (fr_error r) \<and>
        (fe_should_exist x \<longrightarrow> list_all (\<lambda>f. blank f \<or> contains_str (fr_content r) (trim_space f)) (fe_required_contents x)))"
  proof (cases "map_of ?m ?p")
    case None
    then have "\<not> (r \<in> set rs \<and> result_path r = ?p)" for r using look [of ?p r] by simp
    with None show ?thesis by auto
  next
    case (Some r)
    then have "(q \<in> set rs \<and> result_path q = ?p) = (q = r)" for q using look [of ?p q] by auto
    then have "(\<exists>q \<in> set rs. result_path q = ?p \<and> P q) = P r" for P by metis
    then show ?thesis by (simp add: Some)
  qed
  then show ?case
    unfolding check_expectations_Cons Cons.IH list.pred_inject expectation_met_def [of rs x] by (simp only: conj_assoc)
qed simp

lemma workflow_complete_results:
  "workflow_complete ev \<longleftrightarrow> fw_expectations ev \<noteq> [] \<and> fw_results ev \<noteq> [] \<and> results_ok (fw_results ev) [] \<and>
     list_all (expectation_met (fw_results ev)) (fw_expectations ev)"
  by (simp add: workflow_complete_def results_ok_def conj_assoc)

lemma validate_workflow_Nil: "validate_file_workflow_evidence ev = [] \<longleftrightarrow> workflow_complete ev"
proof (cases "collect_results (fw_results ev) []")
  case (Inl reason)
  with collect_results_spec [of "fw_results ev" "[]"] show ?thesis
    by (simp add: validate_file_workflow_evidence_def workflow_complete_results)
next
  case (Inr m)
  with collect_results_spec [of "fw_results ev" "[]"]
  have "results_ok (fw_results ev) []" "m = rev (map (\<lambda>r. (result_path r, r)) (fw_results ev))" by simp_all
  with Inr check_expectations_Nil [of "fw_results ev" "fw_expectations ev"] show ?thesis
    by (simp add: validate_file_workflow_evidence_def workflow_complete_results results_ok_def)
qed

lemma research_verify_eq:
  "research_verify ob =
     (case tool_failed ob of
        Some reason \<Rightarrow> failed_result reason
      | None \<Rightarrow>
          (case Option.bind (obs_evidence ob) ev_research of
             None \<Rightarrow> pending_result ''verification not applicable yet: research evidence pending''
           | Some ev \<Rightarrow>
               if research_complete ev then passed_result ''research evidence is complete and consistent''
               else failed_result (validate_research_evidence ev)))"
  unfolding research_verify_def validate_research_Nil [symmetric]
  by (simp split: option.split list.split)

lemma file_workflow_verify_eq:
  "file_workflow_verify ob =
     (case tool_failed ob of
        Some reason \<Rightarrow> failed_result reason
      | None \<Rightarrow>
          (case Option.bind (obs_evidence ob) ev_file_workflow of
             None \<Rightarrow> pending_result ''verification not applicable yet: file workflow evidence pending''
           | Some ev \<Rightarrow>
               if workflow_complete ev then passed_result ''file workflow evidence satisfies expected conditions''
               else failed_result (validate_file_workflow_evidence ev)))"
  unfolding file_workflow_verify_def validate_workflow_Nil [symmetric]
  by (simp split: option.split list.split)

lemma tool_failed_nonempty: "tool_failed ob = Some e \<Longrightarrow> e \<noteq> []"
  by (auto simp: tool_failed_def split: option.splits if_splits)

lemmas result_defs = passed_result_def failed_result_def pending_result_def

text \<open>
  C24. The evidence verifiers are exact.  A verifier passes exactly if no tool failed and the
  observation carries evidence of its kind that is complete: for research a conclusion, sources with
  distinct identifiers and locators, and findings that cite only these sources; for a file workflow
  one result for each path and every expectation met.  Without evidence it is not applicable, and
  otherwise it has failed with a reason that is not empty.
\<close>

theorem evidence_verifiers_exact:
  "vr_passed (research_verify ob) =
     (tool_failed ob = None \<and> (\<exists>ev. Option.bind (obs_evidence ob) ev_research = Some ev \<and> research_complete ev)) \<and>
   vr_passed (file_workflow_verify ob) =
     (tool_failed ob = None \<and> (\<exists>ev. Option.bind (obs_evidence ob) ev_file_workflow = Some ev \<and> workflow_complete ev)) \<and>
   vr_status (research_verify ob) =
     (if vr_passed (research_verify ob) then vs_passed
      else if tool_failed ob = None \<and> Option.bind (obs_evidence ob) ev_research = None then vs_not_applicable else vs_failed) \<and>
   vr_status (file_workflow_verify ob) =
     (if vr_passed (file_workflow_verify ob) then vs_passed
      else if tool_failed ob = None \<and> Option.bind (obs_evidence ob) ev_file_workflow = None then vs_not_applicable else vs_failed) \<and>
   vr_reason (research_verify ob) \<noteq> [] \<and> vr_reason (file_workflow_verify ob) \<noteq> []"
  using tool_failed_nonempty [of ob] validate_research_Nil validate_workflow_Nil
  by (cases "tool_failed ob"; cases "Option.bind (obs_evidence ob) ev_research";
      cases "Option.bind (obs_evidence ob) ev_file_workflow")
    (simp_all add: research_verify_eq file_workflow_verify_eq result_defs)

end
