(* ===== verification/Verifier_Properties.thy ===== *)
theory Verifier_Properties
  imports Verification_Properties
begin

text \<open>
  The selection of a verifier with plugins, its verdicts, and the command verifier over the real
  executor and the shell adapter.
\<close>

section \<open>Selection\<close>

text \<open>The host's registry after plugins were registered, in the order they came.\<close>

definition host_registry :: "'w verifier_plugin list \<Rightarrow> 'w verifier_registry" where
  "host_registry ps = (case new_verifier_registry of Done r \<Rightarrow> register_plugins ps r | _ \<Rightarrow> undefined)"

text \<open>The factory of a policy: that of the first acceptable plugin bound to it, or the built-in one.\<close>

definition chosen_factory :: "'w verifier_plugin list \<Rightarrow> string \<Rightarrow> 'w verifier_factory" where
  "chosen_factory ps n =
     (case plugin_for ps n of
        Some p \<Rightarrow> plugin_factory p (pl_normalize (vpc_metadata p)) n
      | None \<Rightarrow>
          if n = policy_command then command_factory
          else if n = policy_evidence then research_factory else file_workflow_factory)"

lemma policies_distinct:
  "policy_command \<noteq> policy_evidence" "policy_command \<noteq> policy_state_output" "policy_evidence \<noteq> policy_state_output"
  "policy_command \<noteq> []" "policy_evidence \<noteq> []" "policy_state_output \<noteq> []"
  by code_simp+

lemma canonical_policies: "canonical_policy_id i = Some n \<Longrightarrow> n \<in> {policy_command, policy_evidence, policy_state_output}"
  by (auto simp: canonical_policy_id_def normalize_verification_policy_def Let_def split: if_splits)

lemma canonical_command: "canonical_policy_id policy_command = Some policy_command"
  by code_simp

lemma host_registry_descriptor:
  assumes "n \<in> {policy_command, policy_evidence, policy_state_output}"
  shows "n \<in> set (vr_predeclared (host_registry ps)) \<and> vr_default (host_registry ps) = policy_command \<and>
    map_option vd_factory (find_descriptor (host_registry ps) n) = Some (chosen_factory ps n)"
proof -
  define r where "r = (\<lparr>vr_predeclared = [policy_command, policy_evidence, policy_state_output],
      vr_builtins =
        [(policy_state_output, \<lparr>vd_id = policy_state_output, vd_factory = file_workflow_factory\<rparr>),
         (policy_evidence, \<lparr>vd_id = policy_evidence, vd_factory = research_factory\<rparr>),
         (policy_command, \<lparr>vd_id = policy_command, vd_factory = command_factory\<rparr>)],
      vr_plugins = [], vr_default = policy_command\<rparr> :: 'a verifier_registry)"
  have made: "new_verifier_registry = Done r" unfolding r_def by (rule new_registry_done)
  have n: "n \<in> set (vr_predeclared r)" using assms by (auto simp: r_def)
  have h: "host_registry ps = register_plugins ps r" by (simp add: host_registry_def made)
  have p: "map_of (vr_plugins (host_registry ps)) n = map_option (plugin_descriptor n) (plugin_for ps n)"
    using register_plugins_lookup [OF n, of ps] by (simp add: h r_def)
  have "map_of (vr_builtins r) n = Some \<lparr>vd_id = n, vd_factory = chosen_factory [] n\<rparr>"
    using assms policies_distinct by (auto simp: r_def chosen_factory_def plugin_for_def)
  then have b: "map_of (vr_builtins (host_registry ps)) n = Some \<lparr>vd_id = n, vd_factory = chosen_factory [] n\<rparr>"
    using register_plugins_frame [of ps r] by (simp add: h)
  have "n \<in> set (vr_predeclared (host_registry ps))" "vr_default (host_registry ps) = policy_command"
    using n register_plugins_frame [of ps r] by (simp_all add: h) (simp add: r_def)
  moreover have "map_option vd_factory (find_descriptor (host_registry ps) n) = Some (chosen_factory ps n)"
    unfolding find_descriptor_def p b
    by (cases "plugin_for ps n") (simp_all add: plugin_descriptor_def chosen_factory_def plugin_for_def)
  ultimately show ?thesis by blast
qed

lemma resolve_host:
  "vr_resolve (Some (host_registry ps)) i mode ex =
     (case canonical_policy_id (if blank i then policy_command else i) of
        None \<Rightarrow> Inl (wrap_error unauthorized_policy (''verifier policy '' @ quote_str (trim_space i)))
      | Some n \<Rightarrow> Inr (chosen_factory ps n mode ex))"
proof -
  let ?r = "host_registry ps" and ?s = "if trim_space i = [] then policy_command else trim_space i"
  have d: "vr_default_id (Some ?r) = policy_command"
    using host_registry_descriptor [of policy_command ps] by (simp add: vr_default_id_def)
  have s: "canonical_policy_id (if blank i then policy_command else i) = canonical_policy_id ?s"
    by (simp add: blank_def)
  show ?thesis
  proof (cases "canonical_policy_id ?s")
    case None
    then have "trim_space i \<noteq> []" using canonical_command by auto
    with None show ?thesis
      unfolding s by (simp add: vr_resolve_def resolve_descriptor_def Let_def d registered_policy_def blank_def)
  next
    case (Some n)
    note h = host_registry_descriptor [OF canonical_policies [OF Some], of ps]
    then obtain ds where ds: "find_descriptor ?r n = Some ds" "vd_factory ds = chosen_factory ps n"
      by (cases "find_descriptor ?r n") auto
    have reg: "registered_policy ?r ?s = Inr n" using h Some by (simp add: registered_policy_Inr)
    show ?thesis
      unfolding s Some vr_resolve_def resolve_descriptor_def option.case Let_def d reg sum.case ds by (rule refl)
  qed
qed

lemma find_append: "find P (xs @ ys) = (case find P xs of Some x \<Rightarrow> Some x | None \<Rightarrow> find P ys)"
  by (induction xs) simp_all

text \<open>
  Selection by policy.  After any plugins were registered, \<^verbatim>\<open>Resolve\<close> of a policy, under any of
  its names, constructs the verifier of the first valid verifier plugin that was bound to it, and the
  host's own verifier when there is none; a blank name is the command policy, and any other name is
  refused as unauthorized.  Plugins that come later or are invalid change nothing.
\<close>

theorem registry_precedence:
  "vr_resolve (Some (host_registry ps)) i mode ex =
     (case canonical_policy_id (if blank i then policy_command else i) of
        None \<Rightarrow> Inl (wrap_error unauthorized_policy (''verifier policy '' @ quote_str (trim_space i)))
      | Some n \<Rightarrow> Inr (chosen_factory ps n mode ex)) \<and>
   plugin_for (ps @ qs) n = (case plugin_for ps n of Some p \<Rightarrow> Some p | None \<Rightarrow> plugin_for qs n)"
  using resolve_host [of ps i mode ex] by (simp add: plugin_for_def find_append split: option.split)

section \<open>Verdicts\<close>

lemma result_coherent [simp]:
  "vr_coherent (failed_result t)" "vr_coherent (passed_result t)" "vr_coherent (pending_result t)"
  "\<not> vr_passed (failed_result t)" "\<not> vr_passed (pending_result t)" "vr_passed (passed_result t)"
  by (simp_all add: vr_coherent_def result_defs)

lemma fail_closed_verdict [simp]: "vr_coherent (fail_closed n m t)" "\<not> vr_passed (fail_closed n m t)"
  by (simp_all add: fail_closed_def)

lemma run_commands_coherent: "vr_coherent (fst (run_commands port limit reasons cs w))"
  by (induction port limit reasons cs w rule: run_commands.induct)
    (auto simp: command_not_available_def Let_def split: prod.splits option.splits)

lemma command_verify_coherent: "\<exists>r w'. command_verify v w = (Inr r, w') \<and> vr_coherent r"
proof (cases "cmv_executor v")
  case None
  then show ?thesis by (simp add: command_verify_def command_not_available_def)
next
  case (Some port)
  then show ?thesis
    using run_commands_coherent [of port "cmv_timeout v" "[]" verification_commands w]
    by (auto simp: command_verify_def split: prod.splits)
qed

text \<open>What a plugin has to return for its verdict to be a success.\<close>

definition delegate_passes :: "'w plugin_delegate option \<Rightarrow> task \<Rightarrow> session \<Rightarrow> plan \<Rightarrow> step list \<Rightarrow> observation \<Rightarrow> 'w \<Rightarrow> bool" where
  "delegate_passes d task ses pl steps ob w =
     (case d of
        None \<Rightarrow> False
      | Some d \<Rightarrow>
          (case fst (d task ses pl steps ob w) of
             Inr (Inr r) \<Rightarrow> vr_passed r \<and> vr_status_or_default r = vs_passed \<and> \<not> blank (vr_reason r)
           | _ \<Rightarrow> False))"

lemma plugin_verify_verdict:
  "\<exists>r w'. plugin_verify d m n task ses pl steps ob w = (Inr r, w') \<and> vr_coherent r \<and>
     vr_passed r = delegate_passes d task ses pl steps ob w"
proof (cases d)
  case None
  then show ?thesis by (simp add: plugin_verify_def delegate_passes_def)
next
  case (Some f)
  obtain x w' where x: "f task ses pl steps ob w = (x, w')" by fastforce
  show ?thesis
  proof (cases x)
    case (Inl panic)
    with Some x show ?thesis by (simp add: plugin_verify_def delegate_passes_def)
  next
    case (Inr y)
    show ?thesis
    proof (cases y)
      case (Inl e)
      with Some x Inr show ?thesis by (simp add: plugin_verify_def delegate_passes_def)
    next
      case r: (Inr r)
      show ?thesis
      proof (cases "vr_validate (vr_normalize r)")
        case None
        then have "vr_coherent (vr_normalize r)" "\<not> blank (vr_reason r)" by (simp_all add: vr_validate_ok_iff)
        with None Some x Inr r show ?thesis
          by (auto simp: plugin_verify_def delegate_passes_def vr_coherent_def Let_def)
      next
        case (Some e)
        then have "\<not> (vr_coherent (vr_normalize r) \<and> \<not> blank (vr_reason r))"
          by (simp flip: vr_validate_ok_iff)
        with Some x Inr r \<open>d = Some f\<close> show ?thesis
          by (simp add: plugin_verify_def delegate_passes_def) (auto simp: vr_coherent_def)
      qed
    qed
  qed
qed

lemma chosen_verdict:
  "\<exists>r w'. vf_verify (chosen_factory ps n mode ex) task ses pl steps ob w = (Inr r, w') \<and> vr_coherent r \<and>
     (case plugin_for ps n of
        Some p \<Rightarrow> vr_passed r = delegate_passes (vpc_new_verifier p mode ex) task ses pl steps ob w
      | None \<Rightarrow> True)"
proof (cases "plugin_for ps n")
  case (Some p)
  then show ?thesis using plugin_verify_verdict by (simp add: chosen_factory_def plugin_factory_def)
next
  case None
  have "vr_coherent (research_verify ob)" "vr_coherent (file_workflow_verify ob)"
    by (auto simp: research_verify_eq file_workflow_verify_eq split: option.splits)
  with None show ?thesis
    using command_verify_coherent [of "new_command_verifier ex" w]
    by (simp add: chosen_factory_def command_factory_def research_factory_def file_workflow_factory_def)
qed

text \<open>The policy a task asks for: its own when it names one, else that of its category.\<close>

definition task_policy :: "task \<Rightarrow> string option" where
  "task_policy t =
     (if \<not> blank (task_verification_policy t) then canonical_policy_id (task_verification_policy t)
      else if category_or_default t = cat_research then Some policy_evidence
      else if category_or_default t = cat_file_workflow then Some policy_state_output
      else Some policy_command)"

lemma canonical_fixed:
  "n \<in> {policy_command, policy_evidence, policy_state_output} \<Longrightarrow> canonical_policy_id n = Some n \<and> \<not> blank n"
proof -
  have "canonical_policy_id policy_command = Some policy_command" "canonical_policy_id policy_evidence = Some policy_evidence"
    "canonical_policy_id policy_state_output = Some policy_state_output"
    "\<not> blank policy_command" "\<not> blank policy_evidence" "\<not> blank policy_state_output"
    by code_simp+
  then show "n \<in> {policy_command, policy_evidence, policy_state_output} \<Longrightarrow> canonical_policy_id n = Some n \<and> \<not> blank n" by auto
qed

lemma blank_policy: "blank p \<Longrightarrow> normalize_verification_policy p = []"
  by (simp add: blank_def normalize_verification_policy_def normalize_policy_token_def to_lower_def)

lemma select_task_policy:
  "task_policy t = Some n \<Longrightarrow> select_policy policy_command t = n"
  using blank_policy [of "task_verification_policy t"]
  by (auto simp: task_policy_def select_policy_def canonical_policy_id_def Let_def split: if_splits)

lemma task_policy_known: "task_policy t = Some n \<Longrightarrow> n \<in> {policy_command, policy_evidence, policy_state_output}"
  using canonical_policies by (auto simp: task_policy_def split: if_splits)

lemma task_aware_host:
  "fst (task_aware_verify (new_task_aware mode ex (Some (vr_resolve (Some (host_registry ps))))) task ses pl steps ob w) =
     (case task_policy task of
        None \<Rightarrow> (Inr (policy_not_configured (trim_space (task_verification_policy task))), w)
      | Some n \<Rightarrow> vf_verify (chosen_factory ps n mode ex) task ses pl steps ob w)"
proof (cases "task_policy task")
  case None
  then have "\<not> blank (task_verification_policy task)" "normalize_verification_policy (task_verification_policy task) = []"
    by (auto simp: task_policy_def canonical_policy_id_def Let_def split: if_splits)
  with None show ?thesis by (simp add: task_aware_verify_def blank_def)
next
  case (Some n)
  then have "\<not> (trim_space (task_verification_policy task) \<noteq> [] \<and> normalize_verification_policy (task_verification_policy task) = [])"
    by (auto simp: task_policy_def canonical_policy_id_def blank_def Let_def split: if_splits)
  with select_task_policy [OF Some] canonical_fixed [OF task_policy_known [OF Some]] Some show ?thesis
    by (auto simp: task_aware_verify_def new_task_aware_def resolve_host Let_def)
qed

text \<open>
  C25. Verification fails closed.  With any plugins and for any task the task-aware verifier returns a
  result and never an error; its flag and its status agree; a policy name the host does not know is a
  failure; and where a plugin is bound to the task's policy, the verdict is a success exactly if that
  plugin could be constructed, did not crash, returned no error, and its result says passed with a
  reason, in flag and in status.
\<close>

theorem verification_fails_closed:
  "\<exists>r w'. fst (task_aware_verify (new_task_aware mode ex (Some (vr_resolve (Some (host_registry ps))))) task ses pl steps ob w)
       = (Inr r, w') \<and> vr_coherent r \<and>
     (case task_policy task of
        None \<Rightarrow> \<not> vr_passed r \<and> w' = w
      | Some n \<Rightarrow>
          (case plugin_for ps n of
             Some p \<Rightarrow> vr_passed r = delegate_passes (vpc_new_verifier p mode ex) task ses pl steps ob w
           | None \<Rightarrow> (Inr r, w') = vf_verify (chosen_factory [] n mode ex) task ses pl steps ob w))"
proof (cases "task_policy task")
  case None
  then show ?thesis by (simp add: task_aware_host policy_not_configured_def)
next
  case (Some n)
  have "plugin_for [] n = (None :: 'a verifier_plugin option)" by (simp add: plugin_for_def)
  then have "plugin_for ps n = None \<Longrightarrow> chosen_factory [] n = chosen_factory ps n" by (simp add: chosen_factory_def)
  with Some chosen_verdict [of ps n mode ex task ses pl steps ob w] show ?thesis
    unfolding task_aware_host by (cases "plugin_for ps n") auto
qed

section \<open>The command verifier over the executor and the shell\<close>

text \<open>The executor as the command verifier's port; \<open>late\<close> tells whether the deadline has passed.\<close>

definition executor_port ::
  "(go_error, string) result \<Rightarrow> (string \<Rightarrow> (go_error, string) result) \<Rightarrow> ('w \<Rightarrow> bool) \<Rightarrow> 'w tool_executor \<Rightarrow> 'w command_port" where
  "executor_port wd web late ex =
     \<lparr>cp_execute = (\<lambda>timeout call w. case executor_execute wd web ex call w of (r, w') \<Rightarrow> ((r, late w'), w'))\<rparr>"

text \<open>Running commands one after the other as long as they end without error.\<close>

fun run_all :: "'w shell_host \<Rightarrow> duration \<Rightarrow> string \<Rightarrow> string list \<Rightarrow> 'w \<Rightarrow> (string list \<times> 'w) option" where
  "run_all host limit dir [] w = Some ([], w)"
| "run_all host limit dir (c # cs) w =
     (case sh_run host limit dir (fields_from [] c) w of
        ((out, RunOk), w1) \<Rightarrow> map_option (\<lambda>(outs, w2). (out # outs, w2)) (run_all host limit dir cs w1)
      | _ \<Rightarrow> None)"

definition command_ok :: "string \<Rightarrow> bool" where
  "command_ok c \<longleftrightarrow> trim_space c = c \<and> c \<noteq> [] \<and> fields_from [] c \<noteq> [] \<and> CHR 0x0A \<notin> set c \<and>
     validate_command (executor_policy [] [] []) c = None"

lemma verification_commands_ok: "list_all command_ok verification_commands"
  by code_simp

lemma validate_command_policy: "validate_command (executor_policy ws [] []) c = validate_command (executor_policy [] [] []) c"
proof -
  have "pol_allowed_commands (executor_policy ws [] []) = pol_allowed_commands (executor_policy [] [] [])"
    "pol_denied_commands (executor_policy ws [] []) = pol_denied_commands (executor_policy [] [] [])"
    by (simp_all add: executor_policy_def)
  then show ?thesis unfolding validate_command_def by (simp only:)
qed

lemma executor_runs_shell:
  assumes "is_abs ws" "new_executor handlers ws [] [] = Inr ex" "handlers ''exec_command'' = shell_exec host ws dur"
    and "command_ok c" "sh_split host c = Inr (fields_from [] c)" "0 < limit"
  shows "executor_execute wd web ex \<lparr>tc_name = ''exec_command'', tc_input = c, tc_timeout = limit\<rparr> w =
    (case sh_run host limit (clean_path ws) (fields_from [] c) w of
       ((out, e), w') \<Rightarrow>
         ((shell_result dur \<lparr>tc_name = ''exec_command'', tc_input = c, tc_timeout = limit\<rparr> (shell_output c (exit_code e) out),
           run_error e), w'))"
proof -
  let ?call = "\<lparr>tc_name = ''exec_command'', tc_input = c, tc_timeout = limit\<rparr>"
  have b: "''exec_command'' \<in> set builtin_names" by code_simp
  have ws: "ws \<noteq> []" "abs_path wd ws = Inr (clean_path ws)"
    using assms(1) by (auto simp: abs_path_def is_abs_iff)
  have "executor_execute wd web ex ?call w = handlers ''exec_command'' limit ?call w"
  proof (cases "tr_get (te_registry ex) ''exec_command''")
    case None
    with executor_execute_cases [of handlers ws "[]" "[]" ?call wd web w] assms(2) b show ?thesis by simp
  next
    case (Some d)
    with executor_execute_cases [of handlers ws "[]" "[]" ?call wd web w] assms(2)
    have d: "tdf_name d = ''exec_command''" by simp
    have "policy_validate wd web (executor_policy ws [] []) d ?call = None"
      using assms(4) ws d validate_command_policy [of ws c]
      by (simp add: policy_validate_def command_ok_def) (simp add: executor_policy_def ws)
    with executor_execute_cases [of handlers ws "[]" "[]" ?call wd web w] assms(2,6) Some show ?thesis by auto
  qed
  also have "\<dots> = (case sh_run host limit (clean_path ws) (fields_from [] c) w of
       ((out, e), w') \<Rightarrow> ((shell_result dur ?call (shell_output c (exit_code e) out), run_error e), w'))"
    using assms(3-5) by (simp add: shell_exec_def command_ok_def Let_def)
  finally show ?thesis .
qed

lemma last_record:
  assumes "command_ok c" "unmarked (split_on (CHR 0x0A) out)"
  shows "parse_structured_records (shell_output c 0 out) = [\<lparr>cr_command = c, cr_exit_code = 0\<rparr>]"
proof -
  let ?r = "\<lparr>run_command_line = c, run_code = 0, run_output = out\<rparr>"
  have "readable_run ?r" using assms by (simp add: readable_run_def command_ok_def int_range_def)
  from run_lines_records [OF this, of "[]"] show ?thesis
    by (simp add: parse_structured_records_def run_lines_def run_text_def)
qed

lemma run_commands_shell:
  assumes "is_abs ws" "new_executor handlers ws [] [] = Inr ex" "handlers ''exec_command'' = shell_exec host ws dur"
    and "list_all command_ok cs" "\<And>c. c \<in> set cs \<Longrightarrow> sh_split host c = Inr (fields_from [] c)"
    and "run_commands (executor_port wd web late ex) default_command_timeout reasons cs w = (r, w')"
  shows "(vr_passed r \<longrightarrow>
      (\<exists>outs. run_all host default_command_timeout (clean_path ws) cs w = Some (outs, w') \<and>
         vr_reason r = join_str newline (reasons @ map2 (\<lambda>c out. shell_output c 0 out) cs outs))) \<and>
    (\<forall>outs w1. run_all host default_command_timeout (clean_path ws) cs w = Some (outs, w1) \<and>
       list_all (\<lambda>out. unmarked (split_on (CHR 0x0A) out)) outs \<longrightarrow> vr_passed r)"
  using assms(4-6)
proof (induction cs arbitrary: reasons w)
  case Nil
  then show ?case by (auto simp: result_defs)
next
  case (Cons c cs)
  have pos: "0 < default_command_timeout" by (simp add: default_command_timeout_def)
  obtain out e w1 where run: "sh_run host default_command_timeout (clean_path ws) (fields_from [] c) w = ((out, e), w1)"
    by (metis surj_pair)
  let ?call = "\<lparr>tc_name = ''exec_command'', tc_input = c, tc_timeout = default_command_timeout\<rparr>"
  have ex: "executor_execute wd web ex ?call w =
      ((shell_result dur ?call (shell_output c (exit_code e) out), run_error e), w1)"
    using executor_runs_shell [OF assms(1-3), of c default_command_timeout wd web w] Cons.prems run pos by simp
  show ?case
  proof (cases e)
    case RunOk
    let ?o = "shell_output c 0 out"
    have step: "run_commands (executor_port wd web late ex) default_command_timeout reasons (c # cs) w =
        (if parse_structured_records ?o = [] \<or> cr_exit_code (last (parse_structured_records ?o)) \<noteq> 0
         then (failed_result (join_str newline (reasons @ [?o])), w1)
         else run_commands (executor_port wd web late ex) default_command_timeout (reasons @ [?o]) cs w1)"
      using ex RunOk pos
      by (simp add: run_command_def executor_port_def exit_code_def run_error_def shell_result_def Let_def)
    show ?thesis
    proof (cases "parse_structured_records ?o = [] \<or> cr_exit_code (last (parse_structured_records ?o)) \<noteq> 0")
      case True
      then have "\<not> unmarked (split_on (CHR 0x0A) out)" using last_record [of c out] Cons.prems by auto
      with True step Cons.prems(3) run RunOk show ?thesis by auto
    next
      case False
      then have rest: "run_commands (executor_port wd web late ex) default_command_timeout (reasons @ [?o]) cs w1 = (r, w')"
        using step Cons.prems(3) by simp
      from Cons.IH [OF _ _ rest] Cons.prems run RunOk show ?thesis by auto
    qed
  next
    case (RunExit n err)
    then have "\<not> vr_passed r"
      using ex pos Cons.prems(3)
      by (auto simp: run_command_def executor_port_def run_error_def Let_def command_not_available_def split: if_splits)
    with RunExit run show ?thesis by simp
  next
    case (RunFailed err)
    then have "\<not> vr_passed r"
      using ex pos Cons.prems(3)
      by (auto simp: run_command_def executor_port_def run_error_def Let_def command_not_available_def split: if_splits)
    with RunFailed run show ?thesis by simp
  qed
qed

text \<open>
  The command verifier over the real executor and the shell tool.  With the default commands
  allowed and an absolute workspace: a success means that \<open>go test\<close>, \<open>go build\<close> and \<open>go vet\<close> were
  run in this order in the workspace, each ended without error, and their outputs are the reason; and
  if all three end without error and no line of their outputs starts a command record, the verdict is
  a success.  The quoting library is assumed to split these three commands at their blanks.
\<close>

theorem command_verifier_runs:
  assumes "is_abs ws" "new_executor handlers ws [] [] = Inr ex" "handlers ''exec_command'' = shell_exec host ws dur"
    and "\<And>c. c \<in> set verification_commands \<Longrightarrow> sh_split host c = Inr (fields_from [] c)"
  shows "\<exists>r w'. command_verify (new_command_verifier (Some (executor_port wd web late ex))) w = (Inr r, w') \<and>
    (vr_passed r \<longrightarrow>
      (\<exists>outs. run_all host (60 * second) (clean_path ws) verification_commands w = Some (outs, w') \<and>
         vr_reason r = join_str newline (map2 (\<lambda>c out. shell_output c 0 out) verification_commands outs))) \<and>
    (\<forall>outs w1. run_all host (60 * second) (clean_path ws) verification_commands w = Some (outs, w1) \<and>
       list_all (\<lambda>out. unmarked (split_on (CHR 0x0A) out)) outs \<longrightarrow> vr_passed r)"
proof -
  obtain r w' where r: "run_commands (executor_port wd web late ex) default_command_timeout [] verification_commands w = (r, w')"
    by fastforce
  then have "command_verify (new_command_verifier (Some (executor_port wd web late ex))) w = (Inr r, w')"
    by (simp add: command_verify_def new_command_verifier_def)
  with run_commands_shell [OF assms(1-3) verification_commands_ok assms(4) r] show ?thesis
    by (simp add: default_command_timeout_def)
qed

text \<open>A host on which every process succeeds and prints its name.\<close>

definition ok_host :: "unit shell_host" where
  "ok_host = \<lparr>sh_split = (\<lambda>c. Inr (fields_from [] c)), sh_run = (\<lambda>t dir args w. ((join_str '' '' args, RunOk), w))\<rparr>"

lemma command_verifier_runs_witness:
  "\<exists>ex r w'. new_executor (\<lambda>n. shell_exec ok_host ''/work'' 1) ''/work'' [] [] = Inr ex \<and>
     command_verify (new_command_verifier (Some (executor_port (Inr ''/'') (\<lambda>s. Inr s) (\<lambda>w. False) ex))) () = (Inr r, w') \<and> vr_passed r"
proof -
  obtain ex where ex: "new_executor (\<lambda>n. shell_exec ok_host ''/work'' 1) ''/work'' [] [] = Inr ex"
    using executor_execute_cases [of "\<lambda>n. shell_exec ok_host ''/work'' 1" "''/work''" "[]" "[]"] by blast
  have "is_abs ''/work''" by code_simp
  moreover have "case run_all ok_host (60 * second) (clean_path ''/work'') verification_commands () of
      None \<Rightarrow> False | Some (outs, w1) \<Rightarrow> list_all (\<lambda>out. unmarked (split_on (CHR 0x0A) out)) outs"
    by code_simp
  then have "\<exists>outs. run_all ok_host (60 * second) (clean_path ''/work'') verification_commands () = Some (outs, ()) \<and>
      list_all (\<lambda>out. unmarked (split_on (CHR 0x0A) out)) outs"
    by (simp split: option.splits prod.splits)
  ultimately show ?thesis
    using command_verifier_runs [OF _ ex refl, of "Inr ''/''" "\<lambda>s. Inr s" "\<lambda>w. False" "()"] ex
    by (fastforce simp: ok_host_def)
qed

section \<open>What slips through\<close>

text \<open>
  The policy-driven verifier takes a failed test run for a passed one: without command records
  the letters \<open>ok\<close> anywhere in a text that mentions \<open>go test\<close> are evidence of passing tests, so a
  broken build passes all four checks.
\<close>

definition broken_report :: observation where
  "broken_report = \<lparr>obs_summary = ''go test, go build and go vet failed: broken'', obs_tool_result = None,
     obs_final_response = ''nothing works'', obs_evidence = None\<rparr>"

theorem broken_build_verified:
  "check_verify (new_verifier default_policy) steps broken_report =
     Inr (passed_result (verification_success @ '': evidence confirms completion claim''))"
proof -
  have "run_checks (cv_checks (new_verifier default_policy)) broken_report (vpol_checks (cv_policy (new_verifier default_policy)))
      = Inr []"
    by code_simp
  then show ?thesis by (simp add: check_verify_def)
qed

text \<open>
  The policy name \<open>default\<close>, which the normalization takes for no policy at all, makes every task
  fail: the verifier refuses it as unknown before it selects by category.
\<close>

theorem default_policy_refused:
  "fst (task_aware_verify (new_task_aware mode ex registry) (t\<lparr>task_verification_policy := ''default''\<rparr>) ses pl steps ob w) =
     (Inr (policy_not_configured ''default''), w) \<and>
   normalize_verification_policy ''default'' = normalize_verification_policy []"
proof -
  have "trim_space ''default'' = ''default''" "normalize_verification_policy ''default'' = []"
    "normalize_verification_policy [] = []"
    by code_simp+
  then show ?thesis by (simp add: task_aware_verify_def)
qed

end
