(* ===== verification/Plugin_Manager.thy ===== *)
theory Plugin_Manager
  imports Tools Channels Go_Text "HOL-Library.AList"
begin

text \<open>
  The plugin manager (\<^verbatim>\<open>internal/plugin/manager.go\<close> and \<^verbatim>\<open>contract.go\<close>): contract versions, discovery,
  loading, reloading, execution with recovery, and closing.

  A plugin tool acts on a state \<^typ>\<open>'w\<close>, the plugins' processes; the loaders and the directory are
  parameters.  The maps of the manager are association lists with one entry for each key; a nil map
  reads as the empty list.  Only \<^verbatim>\<open>failureCounts\<close> is written without a test for nil, so that one
  is an option.
\<close>

section \<open>Contract versions\<close>

definition contract_version :: string where "contract_version = ''1.0.0''"

definition version_mismatch :: go_error where
  "version_mismatch = Message ''plugin contract version mismatch''"

definition atoi_error :: "string \<Rightarrow> go_error" where
  "atoi_error s = Message (''strconv.Atoi: parsing '' @ quote_str s)"

definition version_part :: "string \<Rightarrow> string \<Rightarrow> (go_error, int) result" where
  "version_part version s =
     (case atoi s of
        Some n \<Rightarrow> Inr n
      | None \<Rightarrow> Inl (Wrapped (''invalid semantic version '' @ quote_str version @ '': '' @ error_text (atoi_error s)) (atoi_error s)))"

definition parse_version :: "string \<Rightarrow> (go_error, int \<times> int \<times> int) result" where
  "parse_version version =
     (case split_on (CHR ''.'') version of
        [a, b, c] \<Rightarrow>
          (case version_part version a of
             Inl e \<Rightarrow> Inl e
           | Inr major \<Rightarrow>
               (case version_part version b of
                  Inl e \<Rightarrow> Inl e
                | Inr minor \<Rightarrow>
                    (case version_part version c of
                       Inl e \<Rightarrow> Inl e
                     | Inr patch \<Rightarrow> Inr (major, minor, patch))))
      | _ \<Rightarrow> Inl (Message (''invalid semantic version '' @ quote_str version)))"

definition check_version_compat :: "string \<Rightarrow> string \<Rightarrow> (go_error, bool) result" where
  "check_version_compat plugin host =
     (case parse_version plugin of
        Inl e \<Rightarrow> Inl e
      | Inr (pm, _, _) \<Rightarrow> (case parse_version host of Inl e \<Rightarrow> Inl e | Inr (hm, _, _) \<Rightarrow> Inr (pm = hm)))"

section \<open>Plugin tools\<close>

text \<open>\<open>pt_health\<close> is \<^term>\<open>None\<close> for a tool that has no health check.\<close>

record 'w plugin_tool =
  pt_name :: string
  pt_description :: string
  pt_schema :: string
  pt_capabilities :: "string list"
  pt_safety_level :: string
  pt_contract_version :: string
  pt_execute :: "tool_call \<Rightarrow> 'w \<Rightarrow> (tool_result \<times> go_error option) \<times> 'w"
  pt_close :: "'w \<Rightarrow> go_error option \<times> 'w"
  pt_health :: "('w \<Rightarrow> go_error option \<times> 'w) option"

definition validate_contract :: "'w plugin_tool option \<Rightarrow> go_error option" where
  "validate_contract tool =
     (case tool of
        None \<Rightarrow> Some (Message ''plugin tool is nil'')
      | Some t \<Rightarrow>
          (case check_version_compat (pt_contract_version t) contract_version of
             Inl e \<Rightarrow> Some e
           | Inr True \<Rightarrow> None
           | Inr False \<Rightarrow>
               Some (Wrapped (error_text version_mismatch @ '': plugin='' @ quote_str (pt_contract_version t) @
                       '' expected='' @ quote_str contract_version) version_mismatch)))"

section \<open>The manager\<close>

type_synonym 'w plugin_loader = "string \<Rightarrow> 'w \<Rightarrow> (go_error, 'w plugin_tool option) result \<times> 'w"

type_synonym directory = "string \<Rightarrow> (go_error, (string \<times> bool) list) result"

record 'w plugin_manager =
  pm_discovery_path :: string
  pm_policy :: safety_policy
  pm_loaded :: "(string \<times> 'w plugin_tool) list"
  pm_paths :: "(string \<times> string) list"
  pm_failures :: "(string \<times> int) list option"
  pm_unavailable :: "string list"
  pm_close_handler :: "('w plugin_tool \<Rightarrow> 'w \<Rightarrow> go_error option \<times> 'w) option"
  pm_external_loader :: "'w plugin_loader"
  pm_native_loader :: "'w plugin_loader"
  pm_read_dir :: "'w \<Rightarrow> directory"

definition plugin_unavailable :: go_error where
  "plugin_unavailable = Message ''plugin unavailable''"

definition plugin_not_found :: go_error where
  "plugin_not_found = Message ''plugin not found''"

definition unavailable_error :: "string \<Rightarrow> go_error" where
  "unavailable_error name = Wrapped (error_text plugin_unavailable @ '': '' @ name) plugin_unavailable"

text \<open>\<^verbatim>\<open>filepath.Base\<close> and \<^verbatim>\<open>filepath.Ext\<close> of paths that do not end in a separator.\<close>

definition base_path :: "string \<Rightarrow> string" where
  "base_path p = (if p = [] then ''.'' else last (split_on slash p))"

definition path_ext :: "string \<Rightarrow> string" where
  "path_ext p =
     (let b = last (split_on slash p); e = rev (takeWhile (\<lambda>c. c \<noteq> CHR ''.'') (rev b)) in
      if length e < length b then CHR ''.'' # e else [])"

definition is_native_path :: "string \<Rightarrow> bool" where
  "is_native_path p = equal_fold (path_ext p) ''.so''"

definition pt_external :: string where "pt_external = ''external''"
definition pt_native :: string where "pt_native = ''native''"

record discovered_plugin =
  dp_path :: string
  dp_type :: string

definition discover :: "'w plugin_manager option \<Rightarrow> 'w \<Rightarrow> (go_error, discovered_plugin list) result" where
  "discover m w =
     (case m of
        None \<Rightarrow> Inl (Message ''plugin manager is nil'')
      | Some m \<Rightarrow>
          if trim_space (pm_discovery_path m) = [] then Inl (Message ''plugin discovery path must not be empty'')
          else (case pm_read_dir m w (pm_discovery_path m) of
                  Inl e \<Rightarrow> Inl (Wrapped (''read plugin directory '' @ quote_str (pm_discovery_path m) @ '': '' @ error_text e) e)
                | Inr entries \<Rightarrow>
                    Inr (sort_key dp_path
                      (map (\<lambda>(name, is_dir).
                             (let path = join_path [pm_discovery_path m, name] in
                              \<lparr>dp_path = path, dp_type = (if is_native_path path then pt_native else pt_external)\<rparr>))
                        (filter (\<lambda>(name, is_dir). \<not> is_dir) entries)))))"

definition close_tool :: "'w plugin_manager \<Rightarrow> 'w plugin_tool option \<Rightarrow> 'w \<Rightarrow> go_error option \<times> 'w" where
  "close_tool m tool w =
     (case tool of
        None \<Rightarrow> (None, w)
      | Some t \<Rightarrow> (case pm_close_handler m of Some h \<Rightarrow> h t w | None \<Rightarrow> pt_close t w))"

definition load_plugin :: "'w plugin_manager \<Rightarrow> string \<Rightarrow> 'w \<Rightarrow> (go_error, 'w plugin_tool) result \<times> 'w" where
  "load_plugin m path w =
     (let native = is_native_path path;
          loader = (if native then pm_native_loader m else pm_external_loader m) in
      case loader path w of
        (Inl e, w1) \<Rightarrow>
          (Inl (Wrapped (''load '' @ (if native then pt_native else pt_external) @ '' plugin '' @ quote_str path @ '': '' @
                  error_text e) e), w1)
      | (Inr tool, w1) \<Rightarrow>
          (case validate_contract tool of
             Some e \<Rightarrow> (Inl e, snd (close_tool m tool w1))
           | None \<Rightarrow>
               (case tool of
                  None \<Rightarrow> (Inl plugin_not_found, w1)
                | Some t \<Rightarrow>
                    (case validate_plugin_capabilities (pm_policy m) (pt_capabilities t) of
                       Some e \<Rightarrow>
                         (Inl (Wrapped (''plugin '' @ quote_str (pt_name t) @ '': '' @ error_text e) e),
                          snd (close_tool m tool w1))
                     | None \<Rightarrow> (Inr t, w1)))))"

text \<open>Tracking a tool under its name; the failure count is given.\<close>

definition track :: "'w plugin_tool \<Rightarrow> string \<Rightarrow> int \<Rightarrow> (string \<times> int) list \<Rightarrow> 'w plugin_manager \<Rightarrow> 'w plugin_manager" where
  "track t path n failures m =
     m\<lparr>pm_loaded := AList.update (pt_name t) t (pm_loaded m), pm_paths := AList.update (pt_name t) path (pm_paths m),
       pm_failures := Some (AList.update (pt_name t) n failures), pm_unavailable := removeAll (pt_name t) (pm_unavailable m)\<rparr>"

text \<open>\<^verbatim>\<open>Load\<close>: the assignment into a nil \<^verbatim>\<open>failureCounts\<close> panics.  \<open>ctx_err\<close> is \<^verbatim>\<open>ctx.Err\<close>.\<close>

definition pm_load ::
  "go_error option \<Rightarrow> string \<Rightarrow> 'w plugin_manager option \<Rightarrow> 'w
     \<Rightarrow> ((go_error, 'w plugin_tool) result \<times> 'w plugin_manager option) attempt \<times> 'w" where
  "pm_load ctx_err path m w =
     (case m of
        None \<Rightarrow> (Done (Inl (Message ''plugin manager is nil''), None), w)
      | Some s \<Rightarrow>
          (case ctx_err of
             Some e \<Rightarrow> (Done (Inl e, m), w)
           | None \<Rightarrow>
               if trim_space path = [] then (Done (Inl (Message ''plugin path must not be empty''), m), w)
               else (case load_plugin s path w of
                       (Inl e, w1) \<Rightarrow> (Done (Inl e, m), w1)
                     | (Inr t, w1) \<Rightarrow>
                         (case pm_failures s of
                            None \<Rightarrow> (Panics, w1)
                          | Some f \<Rightarrow> (Done (Inr t, Some (track t path 0 f s)), w1)))))"

definition lookup_plugin :: "string \<Rightarrow> 'w plugin_manager \<Rightarrow> 'w plugin_tool option \<times> bool" where
  "lookup_plugin name m =
     (if name \<in> set (pm_unavailable m) then (None, True) else (map_of (pm_loaded m) name, False))"

definition failure_count_of :: "string \<Rightarrow> 'w plugin_manager \<Rightarrow> int" where
  "failure_count_of name m =
     (case pm_failures m of
        None \<Rightarrow> 0
      | Some f \<Rightarrow> (case map_of f name of None \<Rightarrow> 0 | Some n \<Rightarrow> n))"

definition set_failures :: "string \<Rightarrow> int \<Rightarrow> 'w plugin_manager \<Rightarrow> 'w plugin_manager" where
  "set_failures name n m =
     m\<lparr>pm_failures := Some (AList.update name n (case pm_failures m of None \<Rightarrow> [] | Some f \<Rightarrow> f))\<rparr>"

definition increment_failures :: "string \<Rightarrow> 'w plugin_manager \<Rightarrow> int \<times> 'w plugin_manager" where
  "increment_failures name m = (let n = failure_count_of name m + 1 in (n, set_failures name n m))"

definition reset_failures :: "string \<Rightarrow> 'w plugin_manager \<Rightarrow> 'w plugin_manager" where
  "reset_failures name m =
     (let m1 = set_failures name 0 m in m1\<lparr>pm_unavailable := removeAll name (pm_unavailable m1)\<rparr>)"

definition mark_unavailable :: "string \<Rightarrow> 'w plugin_manager \<Rightarrow> 'w plugin_manager" where
  "mark_unavailable name m = m\<lparr>pm_unavailable := List.insert name (pm_unavailable m)\<rparr>"

definition health_check :: "'w plugin_tool \<Rightarrow> 'w \<Rightarrow> go_error option \<times> 'w" where
  "health_check t w = (case pt_health t of None \<Rightarrow> (None, w) | Some h \<Rightarrow> h w)"

definition reload_path :: "string \<Rightarrow> 'w plugin_manager \<Rightarrow> 'w \<Rightarrow> (go_error, string) result" where
  "reload_path name m w =
     (case discover (Some m) w of
        Inl e \<Rightarrow> Inl e
      | Inr plugins \<Rightarrow>
          (let stored = (case map_of (pm_paths m) name of None \<Rightarrow> [] | Some p \<Rightarrow> p) in
           if stored = [] then Inl plugin_not_found
           else (case find (\<lambda>p. base_path (dp_path p) = base_path stored) plugins of
                   Some p \<Rightarrow> Inr (dp_path p)
                 | None \<Rightarrow> Inl plugin_not_found)))"

definition untrack :: "string \<Rightarrow> 'w plugin_manager \<Rightarrow> 'w plugin_manager" where
  "untrack name m =
     m\<lparr>pm_loaded := AList.delete name (pm_loaded m), pm_paths := AList.delete name (pm_paths m),
       pm_failures := map_option (AList.delete name) (pm_failures m),
       pm_unavailable := removeAll name (pm_unavailable m)\<rparr>"

definition reload_tool ::
  "string \<Rightarrow> 'w plugin_manager option \<Rightarrow> 'w \<Rightarrow> (go_error option \<times> 'w plugin_manager option) \<times> 'w" where
  "reload_tool name m w =
     (case m of
        None \<Rightarrow> ((Some (Message ''plugin manager is nil''), None), w)
      | Some s \<Rightarrow>
          (case map_of (pm_loaded s) name of
             None \<Rightarrow> ((Some plugin_not_found, m), w)
           | Some existing \<Rightarrow>
               (let previous = failure_count_of name s in
                case reload_path name s w of
                  Inl e \<Rightarrow> ((Some e, m), w)
                | Inr path \<Rightarrow>
                    (case load_plugin s path w of
                       (Inl e, w1) \<Rightarrow>
                         ((Some (Wrapped (''load new plugin '' @ quote_str name @ '': '' @ error_text e) e), m), w1)
                     | (Inr t, w1) \<Rightarrow>
                         (case close_tool s (Some existing) w1 of
                            (Some e, w2) \<Rightarrow>
                              ((Some (Wrapped (''close plugin '' @ quote_str name @ '': '' @ error_text e) e), m),
                               snd (close_tool s (Some t) w2))
                          | (None, w2) \<Rightarrow>
                              (let s1 = untrack name s in
                               ((None, Some (track t path previous (case pm_failures s1 of None \<Rightarrow> [] | Some f \<Rightarrow> f) s1)), w2)))))))"

text \<open>\<^verbatim>\<open>executeWithRecovery\<close>: at most two executions of the tool, with a reload between them.\<close>

definition retry_execute ::
  "string \<Rightarrow> tool_call \<Rightarrow> go_error \<Rightarrow> tool_result \<Rightarrow> 'w plugin_manager \<Rightarrow> 'w
     \<Rightarrow> ((tool_result \<times> go_error option) \<times> 'w plugin_manager) \<times> 'w" where
  "retry_execute name call e r m w =
     (case lookup_plugin name m of
        (_, True) \<Rightarrow> (((r, Some (unavailable_error name)), m), w)
      | (None, False) \<Rightarrow> (((r, Some (Wrapped (error_text e @ '': plugin missing after reload'') e)), m), w)
      | (Some t, False) \<Rightarrow>
          (case pt_execute t call w of
             ((r2, None), w1) \<Rightarrow> (((r2, None), reset_failures name m), w1)
           | ((r2, Some e2), w1) \<Rightarrow>
               (let (n, m1) = increment_failures name m in
                if n \<ge> 2 then (((r2, Some (unavailable_error name)), mark_unavailable name m1), w1)
                else (((r2, Some e2), m1), w1))))"

definition execute_with_recovery ::
  "string \<Rightarrow> tool_call \<Rightarrow> 'w plugin_manager \<Rightarrow> 'w \<Rightarrow> ((tool_result \<times> go_error option) \<times> 'w plugin_manager) \<times> 'w" where
  "execute_with_recovery name call m w =
     (let none = \<lparr>tr_tool_name = tc_name call, tr_output = [], tr_error = [], tr_duration = 0\<rparr> in
      case lookup_plugin name m of
        (_, True) \<Rightarrow> (((none, Some (unavailable_error name)), m), w)
      | (None, False) \<Rightarrow> (((none, Some plugin_not_found), m), w)
      | (Some t, False) \<Rightarrow>
          (case pt_execute t call w of
             ((r, None), w1) \<Rightarrow> (((r, None), reset_failures name m), w1)
           | ((r, Some e), w1) \<Rightarrow>
               (let (n, m1) = increment_failures name m in
                if n \<ge> 2 then (((r, Some (unavailable_error name)), mark_unavailable name m1), w1)
                else (case health_check t w1 of
                        (None, w2) \<Rightarrow> (((r, Some e), m1), w2)
                      | (Some he, w2) \<Rightarrow>
                          (case reload_tool name (Some m1) w2 of
                             ((Some re, m2), w3) \<Rightarrow>
                               (((r, Some (Wrapped (error_text e @ ''; reload failed: '' @ error_text re) e)),
                                 case m2 of None \<Rightarrow> m1 | Some m2 \<Rightarrow> m2), w3)
                           | ((None, m2), w3) \<Rightarrow>
                               retry_execute name call e r (case m2 of None \<Rightarrow> m1 | Some m2 \<Rightarrow> m2) w3)))))"

text \<open>\<^verbatim>\<open>CloseAll\<close>: the tools in the order of their names; the errors are joined.\<close>

fun close_named ::
  "'w plugin_manager \<Rightarrow> (string \<times> 'w plugin_tool) list \<Rightarrow> string list \<Rightarrow> 'w \<Rightarrow> go_error list \<times> 'w" where
  "close_named m loaded [] w = ([], w)"
| "close_named m loaded (name # names) w =
     (case close_tool m (map_of loaded name) w of
        (None, w1) \<Rightarrow> close_named m loaded names w1
      | (Some e, w1) \<Rightarrow>
          (let (es, w2) = close_named m loaded names w1 in
           (Wrapped (''close plugin '' @ quote_str name @ '': '' @ error_text e) e # es, w2)))"

definition close_all :: "'w plugin_manager option \<Rightarrow> 'w \<Rightarrow> (go_error list \<times> 'w plugin_manager option) \<times> 'w" where
  "close_all m w =
     (case m of
        None \<Rightarrow> (([], None), w)
      | Some s \<Rightarrow>
          (let (es, w1) = close_named s (pm_loaded s) (sort (map fst (pm_loaded s))) w in
           ((es, Some (s\<lparr>pm_loaded := [], pm_paths := [], pm_failures := Some [], pm_unavailable := []\<rparr>)), w1)))"

section \<open>Interleaving\<close>

text \<open>
  The manager's mutex is held for single lookups and updates and for a whole reload, not while a tool is loaded,
  executed, checked or closed.  Here the operations are goroutines that go from one critical section or call of a
  plugin to the next; \<^verbatim>\<open>Plugin_Properties\<close> shows that without interference \<open>recovery_step\<close> does what
  \<open>execute_with_recovery\<close> does at once.
\<close>

datatype 'w recovery =
    AtLookup
  | AtExecute "'w plugin_tool"
  | AtReset tool_result
  | AtCount "'w plugin_tool" tool_result go_error
  | AtMark tool_result
  | AtHealth "'w plugin_tool" tool_result go_error
  | AtReload tool_result go_error
  | AtLookupAgain tool_result go_error
  | AtRetry "'w plugin_tool"
  | AtCountAgain tool_result go_error
  | AtReturn tool_result "go_error option"

fun recovery_step ::
  "string \<Rightarrow> tool_call \<Rightarrow> 'w recovery \<Rightarrow> 'w plugin_manager \<Rightarrow> 'w \<Rightarrow> ('w recovery \<times> 'w plugin_manager) \<times> 'w" where
  "recovery_step name call AtLookup m w =
     (let none = \<lparr>tr_tool_name = tc_name call, tr_output = [], tr_error = [], tr_duration = 0\<rparr> in
      case lookup_plugin name m of
        (_, True) \<Rightarrow> ((AtReturn none (Some (unavailable_error name)), m), w)
      | (None, False) \<Rightarrow> ((AtReturn none (Some plugin_not_found), m), w)
      | (Some t, False) \<Rightarrow> ((AtExecute t, m), w))"
| "recovery_step name call (AtExecute t) m w =
     (case pt_execute t call w of
        ((r, None), w1) \<Rightarrow> ((AtReset r, m), w1)
      | ((r, Some e), w1) \<Rightarrow> ((AtCount t r e, m), w1))"
| "recovery_step name call (AtReset r) m w = ((AtReturn r None, reset_failures name m), w)"
| "recovery_step name call (AtCount t r e) m w =
     (case increment_failures name m of (n, m1) \<Rightarrow> ((if n \<ge> 2 then AtMark r else AtHealth t r e, m1), w))"
| "recovery_step name call (AtMark r) m w = ((AtReturn r (Some (unavailable_error name)), mark_unavailable name m), w)"
| "recovery_step name call (AtHealth t r e) m w =
     (case health_check t w of
        (None, w1) \<Rightarrow> ((AtReturn r (Some e), m), w1)
      | (Some he, w1) \<Rightarrow> ((AtReload r e, m), w1))"
| "recovery_step name call (AtReload r e) m w =
     (case reload_tool name (Some m) w of
        ((Some re, m2), w1) \<Rightarrow>
          ((AtReturn r (Some (Wrapped (error_text e @ ''; reload failed: '' @ error_text re) e)),
            case m2 of None \<Rightarrow> m | Some m2 \<Rightarrow> m2), w1)
      | ((None, m2), w1) \<Rightarrow> ((AtLookupAgain r e, case m2 of None \<Rightarrow> m | Some m2 \<Rightarrow> m2), w1))"
| "recovery_step name call (AtLookupAgain r e) m w =
     (case lookup_plugin name m of
        (_, True) \<Rightarrow> ((AtReturn r (Some (unavailable_error name)), m), w)
      | (None, False) \<Rightarrow> ((AtReturn r (Some (Wrapped (error_text e @ '': plugin missing after reload'') e)), m), w)
      | (Some t, False) \<Rightarrow> ((AtRetry t, m), w))"
| "recovery_step name call (AtRetry t) m w =
     (case pt_execute t call w of
        ((r, None), w1) \<Rightarrow> ((AtReset r, m), w1)
      | ((r, Some e), w1) \<Rightarrow> ((AtCountAgain r e, m), w1))"
| "recovery_step name call (AtCountAgain r e) m w =
     (case increment_failures name m of (n, m1) \<Rightarrow> ((if n \<ge> 2 then AtMark r else AtReturn r (Some e), m1), w))"
| "recovery_step name call (AtReturn r e) m w = ((AtReturn r e, m), w)"

text \<open>
  A goroutine in the manager: executing, loading (a tool is loaded, then tracked), reloading, or closing all (the
  maps are emptied, then the tools closed).  \<open>None\<close> is a panic.
\<close>

datatype 'w manager_call =
    Recovering string tool_call "'w recovery"
  | LoadingPath string
  | Tracking "'w plugin_tool" string
  | ReloadingTool string
  | ClosingAllTools
  | ClosingTools "(string \<times> 'w plugin_tool) list"
  | EndedCall

fun manager_call_step :: "'w manager_call \<Rightarrow> 'w plugin_manager \<Rightarrow> 'w \<Rightarrow> (('w manager_call \<times> 'w plugin_manager) \<times> 'w) option" where
  "manager_call_step (Recovering name call at) m w =
     (case recovery_step name call at m w of ((at1, m1), w1) \<Rightarrow> Some ((Recovering name call at1, m1), w1))"
| "manager_call_step (LoadingPath path) m w =
     (if trim_space path = [] then Some ((EndedCall, m), w)
      else (case load_plugin m path w of
              (Inl e, w1) \<Rightarrow> Some ((EndedCall, m), w1)
            | (Inr t, w1) \<Rightarrow> Some ((Tracking t path, m), w1)))"
| "manager_call_step (Tracking t path) m w =
     (case pm_failures m of None \<Rightarrow> None | Some f \<Rightarrow> Some ((EndedCall, track t path 0 f m), w))"
| "manager_call_step (ReloadingTool name) m w =
     (case reload_tool name (Some m) w of
        ((e, m2), w1) \<Rightarrow> Some ((EndedCall, case m2 of None \<Rightarrow> m | Some m2 \<Rightarrow> m2), w1))"
| "manager_call_step ClosingAllTools m w =
     Some ((ClosingTools (pm_loaded m),
            m\<lparr>pm_loaded := [], pm_paths := [], pm_failures := Some [], pm_unavailable := []\<rparr>), w)"
| "manager_call_step (ClosingTools loaded) m w =
     (case close_named m loaded (sort (map fst loaded)) w of (es, w1) \<Rightarrow> Some ((EndedCall, m), w1))"
| "manager_call_step EndedCall m w = Some ((EndedCall, m), w)"

definition fresh_call :: "'w manager_call \<Rightarrow> bool" where
  "fresh_call c \<longleftrightarrow> c = ClosingAllTools \<or> (\<exists>path. c = LoadingPath path) \<or> (\<exists>name. c = ReloadingTool name) \<or>
     (\<exists>name call. c = Recovering name call AtLookup)"

inductive manager_step ::
  "'w plugin_manager \<times> 'w \<times> 'w manager_call list \<Rightarrow> 'w plugin_manager \<times> 'w \<times> 'w manager_call list \<Rightarrow> bool" where
  called: "fresh_call c \<Longrightarrow> manager_step (m, w, cs) (m, w, cs @ [c])"
| advances: "i < length cs \<Longrightarrow> manager_call_step (cs ! i) m w = Some ((c, m1), w1) \<Longrightarrow> manager_step (m, w, cs) (m1, w1, cs[i := c])"

inductive_cases manager_stepE: "manager_step s s'"

definition new_manager :: "string \<Rightarrow> safety_policy \<Rightarrow> 'w plugin_loader \<Rightarrow> 'w plugin_loader \<Rightarrow> ('w \<Rightarrow> directory) \<Rightarrow> 'w plugin_manager" where
  "new_manager path policy external native read_dir =
     \<lparr>pm_discovery_path = path, pm_policy = policy, pm_loaded = [], pm_paths = [], pm_failures = Some [],
      pm_unavailable = [], pm_close_handler = None, pm_external_loader = external, pm_native_loader = native,
      pm_read_dir = read_dir\<rparr>"

end
