(* ===== verification/Plugin_Properties.thy ===== *)
theory Plugin_Properties
  imports Plugin_Manager
begin

text \<open>
  What the plugin manager promises: versions, the tools it holds, all-or-nothing reloading, and
  execution with recovery as a circuit breaker.
\<close>

section \<open>Operations and their sequences\<close>

text \<open>A panic ends the process, so it has no next state.\<close>

datatype pm_op = OpLoad "go_error option" string | OpReload string | OpExecute string tool_call | OpCloseAll

fun pm_apply :: "pm_op \<Rightarrow> 'w plugin_manager \<times> 'w \<Rightarrow> ('w plugin_manager \<times> 'w) option" where
  "pm_apply (OpLoad ctx path) (m, w) =
     (case pm_load ctx path (Some m) w of
        (Done (r, Some m'), w') \<Rightarrow> Some (m', w')
      | _ \<Rightarrow> None)"
| "pm_apply (OpReload name) (m, w) =
     (case reload_tool name (Some m) w of ((e, Some m'), w') \<Rightarrow> Some (m', w') | _ \<Rightarrow> None)"
| "pm_apply (OpExecute name call) (m, w) =
     (case execute_with_recovery name call m w of ((r, m'), w') \<Rightarrow> Some (m', w'))"
| "pm_apply OpCloseAll (m, w) =
     (case close_all (Some m) w of ((es, Some m'), w') \<Rightarrow> Some (m', w') | _ \<Rightarrow> None)"

fun pm_run :: "pm_op list \<Rightarrow> 'w plugin_manager \<times> 'w \<Rightarrow> ('w plugin_manager \<times> 'w) option" where
  "pm_run [] s = Some s"
| "pm_run (x # xs) s = Option.bind (pm_apply x s) (pm_run xs)"

section \<open>The invariant\<close>

text \<open>A tool may be held if its contract and its capabilities are accepted.\<close>

definition tool_valid :: "safety_policy \<Rightarrow> 'w plugin_tool \<Rightarrow> bool" where
  "tool_valid policy t \<longleftrightarrow> validate_contract (Some t) = None \<and> validate_plugin_capabilities policy (pt_capabilities t) = None"

definition pm_inv :: "'w plugin_manager \<Rightarrow> bool" where
  "pm_inv m \<longleftrightarrow>
     (\<forall>n t. map_of (pm_loaded m) n = Some t \<longrightarrow> pt_name t = n \<and> tool_valid (pm_policy m) t) \<and>
     dom (map_of (pm_paths m)) = dom (map_of (pm_loaded m)) \<and>
     (\<exists>f. pm_failures m = Some f \<and> dom (map_of f) = dom (map_of (pm_loaded m)) \<and> (\<forall>n k. map_of f n = Some k \<longrightarrow> 0 \<le> k)) \<and>
     set (pm_unavailable m) \<subseteq> dom (map_of (pm_loaded m)) \<and>
     (\<forall>n \<in> set (pm_unavailable m). 2 \<le> failure_count_of n m)"

lemma dom_eq_Some: "dom a = dom b \<Longrightarrow> b x = Some y \<Longrightarrow> \<exists>z. a x = Some z"
  by (metis domD domI)

lemma load_plugin_valid: "load_plugin m path w = (Inr t, w') \<Longrightarrow> tool_valid (pm_policy m) t"
  by (auto simp: load_plugin_def tool_valid_def Let_def split: prod.splits sum.splits option.splits)

lemma track_policy [simp]: "pm_policy (track t path n f m) = pm_policy m" "pm_policy (untrack name m) = pm_policy m"
  by (simp_all add: track_def untrack_def)

lemma inv_track:
  assumes "pm_inv m" "tool_valid (pm_policy m) t" "0 \<le> n" "pm_failures m = Some f"
  shows "pm_inv (track t path n f m)"
  using assms by (auto simp: pm_inv_def track_def failure_count_of_def AList.update_conv')

lemma inv_untrack: "pm_inv m \<Longrightarrow> pm_inv (untrack name m)"
  by (auto simp: pm_inv_def untrack_def failure_count_of_def AList.delete_conv' split: if_splits)

lemma inv_count: "pm_inv m \<Longrightarrow> 0 \<le> failure_count_of name m"
  by (auto simp: pm_inv_def failure_count_of_def split: option.splits)

lemma inv_failures: "pm_inv m \<Longrightarrow> \<exists>f. pm_failures m = Some f"
  by (auto simp: pm_inv_def)

lemma inv_load: "pm_load ctx path (Some m) w = (Done (r, Some m'), w') \<Longrightarrow> pm_inv m \<Longrightarrow> pm_inv m'"
  by (auto simp: pm_load_def intro!: inv_track dest: load_plugin_valid split: option.splits if_splits prod.splits sum.splits)

lemma reload_cases:
  assumes "reload_tool name (Some m) w = ((e, m'), w')"
  obtains err where "e = Some err" "m' = Some m"
  | existing path t w1 w2 where "e = None" "map_of (pm_loaded m) name = Some existing" "reload_path name m w = Inr path"
      "load_plugin m path w = (Inr t, w1)" "close_tool m (Some existing) w1 = (None, w2)"
      "m' = Some (track t path (failure_count_of name m)
             (case pm_failures (untrack name m) of None \<Rightarrow> [] | Some f \<Rightarrow> f) (untrack name m))" "w' = w2"
  using assms
  by (auto simp: reload_tool_def Let_def split: option.splits sum.splits prod.splits)

lemma inv_reload: "reload_tool name (Some m) w = ((e, Some m'), w') \<Longrightarrow> pm_inv m \<Longrightarrow> pm_inv m'"
proof (erule reload_cases)
  fix existing path t w1 w2
  assume inv: "pm_inv m" and load: "load_plugin m path w = (Inr t, w1)"
    and m': "Some m' = Some (track t path (failure_count_of name m)
             (case pm_failures (untrack name m) of None \<Rightarrow> [] | Some f \<Rightarrow> f) (untrack name m))"
  from inv_failures [OF inv_untrack [OF inv]] obtain f where f: "pm_failures (untrack name m) = Some f" by blast
  with m' show "pm_inv m'"
    using inv_track [OF inv_untrack [OF inv] _ inv_count [OF inv] f] load_plugin_valid [OF load] by simp
qed simp

lemma inv_set_failures:
  assumes "pm_inv m" "0 \<le> n" "map_of (pm_loaded m) name \<noteq> None" "name \<in> set (pm_unavailable m) \<Longrightarrow> 2 \<le> n"
  shows "pm_inv (set_failures name n m)"
  using assms by (auto simp: pm_inv_def set_failures_def failure_count_of_def AList.update_conv' insert_absorb domI dest: dom_eq_Some)

lemma inv_reset:
  assumes "pm_inv m" "map_of (pm_loaded m) name \<noteq> None"
  shows "pm_inv (reset_failures name m)"
  using assms
  by (auto simp: pm_inv_def reset_failures_def set_failures_def failure_count_of_def AList.update_conv' insert_absorb domI dest: dom_eq_Some)

lemma inv_mark:
  "pm_inv m \<Longrightarrow> map_of (pm_loaded m) name \<noteq> None \<Longrightarrow> 2 \<le> failure_count_of name m \<Longrightarrow> pm_inv (mark_unavailable name m)"
  by (auto simp: pm_inv_def mark_unavailable_def failure_count_of_def)

lemma set_failures_simps [simp]:
  "pm_loaded (set_failures name n m) = pm_loaded m" "pm_unavailable (set_failures name n m) = pm_unavailable m"
  "failure_count_of name (set_failures name n m) = n" "pm_loaded (mark_unavailable name m) = pm_loaded m"
  "pm_loaded (reset_failures name m) = pm_loaded m"
  by (simp_all add: set_failures_def failure_count_of_def mark_unavailable_def reset_failures_def AList.update_conv' Let_def)

lemma inv_failed:
  assumes "pm_inv m" "map_of (pm_loaded m) name \<noteq> None" "name \<notin> set (pm_unavailable m)"
  shows "pm_inv (set_failures name (failure_count_of name m + 1) m) \<and>
    (2 \<le> failure_count_of name m + 1 \<longrightarrow> pm_inv (mark_unavailable name (set_failures name (failure_count_of name m + 1) m)))"
proof -
  have i: "pm_inv (set_failures name (failure_count_of name m + 1) m)"
    using assms inv_count [OF assms(1), of name] by (intro inv_set_failures) simp_all
  with inv_mark [OF i, of name] assms(2) show ?thesis by simp
qed

lemma lookup_found: "lookup_plugin name m = (Some t, False) \<longleftrightarrow> name \<notin> set (pm_unavailable m) \<and> map_of (pm_loaded m) name = Some t"
  by (auto simp: lookup_plugin_def)

lemma inv_retry: "pm_inv m \<Longrightarrow> retry_execute name call e r m w = ((x, m'), w') \<Longrightarrow> pm_inv m'"
  using inv_reset [of m name] inv_failed [of m name]
  by (auto simp: retry_execute_def lookup_plugin_def increment_failures_def Let_def
      split: prod.splits option.splits bool.splits if_splits)

lemma inv_execute: "pm_inv m \<Longrightarrow> execute_with_recovery name call m w = ((x, m'), w') \<Longrightarrow> pm_inv m'"
  using inv_reset [of m name] inv_failed [of m name]
  by (auto simp: execute_with_recovery_def lookup_plugin_def increment_failures_def Let_def
      split: prod.splits option.splits bool.splits if_splits dest: inv_reload inv_retry)

lemma inv_close_all: "close_all (Some m) w = ((es, Some m'), w') \<Longrightarrow> pm_inv m'"
  by (auto simp: close_all_def pm_inv_def Let_def split: prod.splits)

lemma inv_apply:
  assumes "pm_apply x (m, w) = Some (m', w')" "pm_inv m"
  shows "pm_inv m'"
proof (cases x)
  case (OpLoad c p)
  with assms(1) obtain r where "pm_load c p (Some m) w = (Done (r, Some m'), w')"
    by (simp split: prod.splits attempt.splits option.splits)
  from inv_load [OF this assms(2)] show ?thesis .
next
  case (OpReload n)
  with assms(1) obtain e where "reload_tool n (Some m) w = ((e, Some m'), w')"
    by (simp split: prod.splits option.splits)
  from inv_reload [OF this assms(2)] show ?thesis .
next
  case (OpExecute n call)
  with assms(1) obtain r where "execute_with_recovery n call m w = ((r, m'), w')" by (simp split: prod.splits)
  from inv_execute [OF assms(2) this] show ?thesis .
next
  case OpCloseAll
  with assms(1) obtain es where "close_all (Some m) w = ((es, Some m'), w')"
    by (simp split: prod.splits option.splits)
  then show ?thesis by (rule inv_close_all)
qed

lemma inv_run: "pm_run xs s = Some (m', w') \<Longrightarrow> pm_inv (fst s) \<Longrightarrow> pm_inv m'"
proof (induction xs arbitrary: s)
  case (Cons x xs)
  obtain m w where s: "s = (m, w)" by (cases s)
  show ?case
  proof (cases "pm_apply x s")
    case None
    with Cons.prems(1) show ?thesis by simp
  next
    case (Some s1)
    obtain m1 w1 where s1: "s1 = (m1, w1)" by (cases s1)
    have "pm_inv m1" by (rule inv_apply [OF Some [unfolded s s1]]) (use Cons.prems(2) s in simp)
    with Cons.IH [of s1] Cons.prems(1) Some s1 show ?thesis by simp
  qed
qed simp

lemma inv_new: "pm_inv (new_manager path policy external native read_dir)"
  by (simp add: pm_inv_def new_manager_def)

section \<open>A manager with plugins that always fail\<close>

text \<open>
  A plugin that cannot execute and reports itself down; the state records the artifacts whose tool
  was closed.
\<close>

definition failing_tool :: "string \<Rightarrow> string list plugin_tool" where
  "failing_tool path =
     \<lparr>pt_name = ''demo'', pt_description = [], pt_schema = [], pt_capabilities = [], pt_safety_level = [],
      pt_contract_version = ''1.2.0'',
      pt_execute = (\<lambda>call w. ((\<lparr>tr_tool_name = tc_name call, tr_output = [], tr_error = [], tr_duration = 0\<rparr>, Some (Message ''boom'')), w)),
      pt_close = (\<lambda>w. (None, w @ [path])),
      pt_health = Some (\<lambda>w. (Some (Message ''down''), w))\<rparr>"

definition failing_loader :: "string list plugin_loader" where
  "failing_loader path w = (Inr (Some (failing_tool path)), w)"

definition open_policy :: safety_policy where
  "open_policy =
     \<lparr>pol_workspace_root = [], pol_allowed_commands = [], pol_denied_commands = [], pol_allowed_domains = [],
      pol_allowed_read_roots = [], pol_allowed_write_roots = [], pol_allowed_plugin_paths = [],
      pol_plugin_capabilities = []\<rparr>"

definition failing_manager :: "string list plugin_manager" where
  "failing_manager =
     new_manager ''d'' open_policy failing_loader failing_loader (\<lambda>w p. Inr [(''a'', False), (''b'', False)])"

definition failing_call :: tool_call where
  "failing_call = \<lparr>tc_name = ''demo'', tc_input = [], tc_timeout = 0\<rparr>"

lemma failing_valid: "validate_contract (Some (failing_tool path)) = None"
  by (simp add: failing_tool_def validate_contract_def) code_simp

lemma failing_load: "load_plugin failing_manager path w = (Inr (failing_tool path), w)"
  using failing_valid [of path]
  by (simp add: load_plugin_def failing_manager_def new_manager_def failing_loader_def failing_tool_def
      open_policy_def validate_plugin_capabilities_def Let_def)

text \<open>
  The operations one after another.  After any sequence of loads, reloads, executions and closes, whatever the
  plugins do: every tool is held under its own name, with an accepted contract version and accepted capabilities;
  each held tool, and nothing else, has a path and a failure count, which is not negative; and a tool that is
  unavailable is held and has a failure count of at least two (a reload hands the count on to the tool it loads).
\<close>

theorem plugin_manager_alone:
  assumes "pm_run xs (new_manager path policy external native read_dir, w) = Some (m, w')"
  shows "pm_inv m"
  using inv_run [OF assms] by (simp add: inv_new)

definition failing_run :: "(string list plugin_manager \<times> string list) option" where
  "failing_run = pm_run [OpLoad None ''d/a'', OpExecute ''demo'' failing_call] (failing_manager, [])"

lemma failing_run_is_some: "failing_run \<noteq> None"
  by code_simp

lemma plugin_manager_alone_witness:
  "pm_inv (fst (the failing_run)) \<and> pm_unavailable (fst (the failing_run)) = [''demo''] \<and> snd (the failing_run) = [''d/a'']"
proof -
  have "pm_run [OpLoad None ''d/a'', OpExecute ''demo'' failing_call]
      (new_manager ''d'' open_policy failing_loader failing_loader (\<lambda>w p. Inr [(''a'', False), (''b'', False)]), []) =
    Some (fst (the failing_run), snd (the failing_run))"
    using failing_run_is_some by (simp add: failing_run_def failing_manager_def)
  from plugin_manager_alone [OF this]
  have "pm_inv (fst (the failing_run))" .
  moreover have "pm_unavailable (fst (the failing_run)) = [''demo''] \<and> snd (the failing_run) = [''d/a'']"
    by code_simp
  ultimately show ?thesis by simp
qed

section \<open>Execution with recovery as a circuit breaker\<close>

datatype health = Absent | Healthy | Suspect | Broken

definition health_of :: "string \<Rightarrow> 'w plugin_manager \<Rightarrow> health" where
  "health_of name m =
     (if name \<in> set (pm_unavailable m) then Broken
      else if map_of (pm_loaded m) name = None then Absent
      else if failure_count_of name m \<ge> 1 then Suspect else Healthy)"

text \<open>What an execution saw: success, or a failure with what the health check and the reload did.\<close>

datatype seen = Succeeded | StayedUp | ReloadFailed | Renamed | RetrySucceeded | RetryFailed

text \<open>The specification: two failures without a success between them break the circuit.\<close>

fun breaker :: "health \<Rightarrow> seen \<Rightarrow> health" where
  "breaker Absent x = Absent"
| "breaker Broken x = Broken"
| "breaker h Succeeded = Healthy"
| "breaker Suspect x = Broken"
| "breaker Healthy StayedUp = Suspect"
| "breaker Healthy ReloadFailed = Suspect"
| "breaker Healthy Renamed = Absent"
| "breaker Healthy RetrySucceeded = Healthy"
| "breaker Healthy RetryFailed = Broken"

definition retry_seen :: "string \<Rightarrow> tool_call \<Rightarrow> 'w plugin_manager \<Rightarrow> 'w \<Rightarrow> seen" where
  "retry_seen name call m w =
     (case map_of (pm_loaded m) name of
        None \<Rightarrow> Renamed
      | Some t \<Rightarrow> if snd (fst (pt_execute t call w)) = None then RetrySucceeded else RetryFailed)"

definition execution_seen :: "string \<Rightarrow> tool_call \<Rightarrow> 'w plugin_manager \<Rightarrow> 'w plugin_tool \<Rightarrow> 'w \<Rightarrow> seen" where
  "execution_seen name call m t w =
     (case pt_execute t call w of
        ((r, None), w1) \<Rightarrow> Succeeded
      | ((r, Some e), w1) \<Rightarrow>
          (case health_check t w1 of
             (None, w2) \<Rightarrow> StayedUp
           | (Some he, w2) \<Rightarrow>
               (case reload_tool name (Some (set_failures name (failure_count_of name m + 1) m)) w2 of
                  ((None, Some m2), w3) \<Rightarrow> retry_seen name call m2 w3
                | _ \<Rightarrow> ReloadFailed)))"

definition succeeds :: "health \<Rightarrow> seen \<Rightarrow> bool" where
  "succeeds h x \<longleftrightarrow> h \<in> {Healthy, Suspect} \<and> x = Succeeded \<or> h = Healthy \<and> x = RetrySucceeded"

lemma reload_health:
  assumes "reload_tool name (Some m) w = ((None, Some m'), w')"
  shows "name \<notin> set (pm_unavailable m') \<and> (map_of (pm_loaded m') name = None \<or> failure_count_of name m' = failure_count_of name m)"
  using assms
  by (rule reload_cases)
    (auto simp: track_def untrack_def failure_count_of_def AList.update_conv' AList.delete_conv')

lemma reload_error_same: "reload_tool name (Some m) w = ((Some e, Some m'), w') \<Longrightarrow> m' = m"
  by (erule reload_cases) simp_all

lemma reload_some: "reload_tool name (Some m) w = ((e, m'), w') \<Longrightarrow> \<exists>m1. m' = Some m1"
  by (erule reload_cases) simp_all

lemma health_simps [simp]:
  "map_of (pm_loaded m) name \<noteq> None \<Longrightarrow> health_of name (reset_failures name m) = Healthy"
  "health_of name (mark_unavailable name m) = Broken"
  by (auto simp: health_of_def reset_failures_def mark_unavailable_def set_failures_def failure_count_of_def
      AList.update_conv' Let_def)

lemma retry_refines:
  assumes "retry_execute name call e r m w = (((res, err), m'), w')" "name \<notin> set (pm_unavailable m)"
    and "map_of (pm_loaded m) name = None \<or> failure_count_of name m = 1"
  shows "health_of name m' = breaker Healthy (retry_seen name call m w) \<and>
    (err = None \<longleftrightarrow> retry_seen name call m w = RetrySucceeded) \<and>
    (retry_seen name call m w = RetryFailed \<longrightarrow> err = Some (unavailable_error name))"
proof (cases "map_of (pm_loaded m) name")
  case None
  with assms show ?thesis by (auto simp: retry_execute_def lookup_plugin_def retry_seen_def health_of_def)
next
  case (Some t)
  obtain r2 e2 w1 where x: "pt_execute t call w = ((r2, e2), w1)" by (metis surj_pair)
  with Some assms show ?thesis
    by (cases e2) (auto simp: retry_execute_def lookup_plugin_def retry_seen_def increment_failures_def Let_def)
qed

lemma execute_refines:
  assumes "pm_inv m" "execute_with_recovery name call m w = (((res, err), m'), w')"
    and "map_of (pm_loaded m) name = Some t" "name \<notin> set (pm_unavailable m)"
  shows "health_of name m' = breaker (health_of name m) (execution_seen name call m t w) \<and>
    (err = None \<longleftrightarrow> succeeds (health_of name m) (execution_seen name call m t w)) \<and>
    (health_of name m' = Broken \<longrightarrow> err = Some (unavailable_error name))"
proof -
  let ?n = "failure_count_of name m"
  let ?m1 = "set_failures name (?n + 1) m"
  have n: "0 \<le> ?n" by (rule inv_count [OF assms(1)])
  obtain r e w1 where x: "pt_execute t call w = ((r, e), w1)" by (metis surj_pair)
  show ?thesis
  proof (cases e)
    case None
    with assms(2-4) x show ?thesis
      by (auto simp: execute_with_recovery_def lookup_plugin_def execution_seen_def succeeds_def health_of_def [of name m])
  next
    case e1: (Some e1)
    show ?thesis
    proof (cases "1 \<le> ?n")
      case True
      then have h: "health_of name m = Suspect" using assms(3,4) by (simp add: health_of_def)
      have "execution_seen name call m t w \<noteq> Succeeded"
        using x e1 by (auto simp: execution_seen_def retry_seen_def split: prod.split option.split)
      then have "breaker Suspect (execution_seen name call m t w) = Broken" "\<not> succeeds Suspect (execution_seen name call m t w)"
        by (cases "execution_seen name call m t w"; simp add: succeeds_def)+
      with assms(2-4) x e1 True h show ?thesis
        by (auto simp: execute_with_recovery_def lookup_plugin_def increment_failures_def Let_def)
    next
      case False
      with n have z: "?n = 0" by simp
      then have h: "health_of name m = Healthy" using assms(3,4) by (simp add: health_of_def)
      have h1: "health_of name ?m1 = Suspect" using z assms(3,4) by (simp add: health_of_def)
      obtain he w2 where hc: "health_check t w1 = (he, w2)" by fastforce
      show ?thesis
      proof (cases he)
        case None
        with assms(2-4) x e1 z h h1 hc show ?thesis
          by (auto simp: execute_with_recovery_def lookup_plugin_def increment_failures_def execution_seen_def succeeds_def Let_def)
      next
        case he: (Some he')
        obtain re m2 w3 where rl: "reload_tool name (Some ?m1) w2 = ((re, Some m2), w3)"
          using reload_some by (metis surj_pair)
        show ?thesis
        proof (cases re)
          case None
          from reload_health [OF rl [unfolded None]] z
          have u: "name \<notin> set (pm_unavailable m2)" "map_of (pm_loaded m2) name = None \<or> failure_count_of name m2 = 1"
            by simp_all
          have seen: "execution_seen name call m t w = retry_seen name call m2 w3"
            using x e1 hc he rl None by (simp add: execution_seen_def)
          have "retry_execute name call e1 r m2 w3 = (((res, err), m'), w')"
            using assms(2-4) x e1 z hc he rl None
            by (simp add: execute_with_recovery_def lookup_plugin_def increment_failures_def Let_def)
          moreover have "retry_seen name call m2 w3 \<noteq> Succeeded" by (simp add: retry_seen_def split: option.split)
          ultimately show ?thesis using retry_refines [OF _ u] h seen
            by (cases "retry_seen name call m2 w3") (auto simp: succeeds_def)
        next
          case (Some re')
          with rl have "m2 = ?m1" using reload_error_same by metis
          with assms(2-4) x e1 z h h1 hc he rl Some show ?thesis
            by (auto simp: execute_with_recovery_def lookup_plugin_def increment_failures_def execution_seen_def succeeds_def Let_def)
        qed
      qed
    qed
  qed
qed

text \<open>
  C27. Execution with recovery refines a circuit breaker.  For a held tool, the health of its name
  moves as the breaker says for what the execution saw: a success closes the circuit, a first failure
  makes the tool suspect (after a failed or unneeded reload) or is retried once on the reloaded tool,
  a second failure without a success between breaks it.  The call succeeds exactly if the first
  execution did, or the retry after a first failure did, and a call that breaks the circuit reports
  the plugin as unavailable; a broken or absent tool is not executed at all.
\<close>

theorem execution_refines_breaker:
  assumes "pm_inv m" "execute_with_recovery name call m w = (((res, err), m'), w')"
  shows "(case map_of (pm_loaded m) name of
      None \<Rightarrow> health_of name m = Absent \<and> err = Some plugin_not_found \<and> m' = m \<and> w' = w
    | Some t \<Rightarrow>
        if health_of name m = Broken then err = Some (unavailable_error name) \<and> m' = m \<and> w' = w
        else health_of name m' = breaker (health_of name m) (execution_seen name call m t w) \<and>
          (err = None) = succeeds (health_of name m) (execution_seen name call m t w) \<and>
          (if health_of name m' = Broken then err = Some (unavailable_error name) else True))"
proof (cases "map_of (pm_loaded m) name")
  case None
  then have "name \<notin> set (pm_unavailable m)" using assms(1) by (auto simp: pm_inv_def)
  with None assms(2) show ?thesis by (simp add: execute_with_recovery_def lookup_plugin_def health_of_def)
next
  case (Some t)
  show ?thesis
  proof (cases "name \<in> set (pm_unavailable m)")
    case True
    with Some assms(2) show ?thesis by (simp add: execute_with_recovery_def lookup_plugin_def health_of_def)
  next
    case False
    then have "health_of name m \<noteq> Broken" by (simp add: health_of_def)
    with execute_refines [OF assms Some False] Some show ?thesis by simp
  qed
qed

text \<open>A held plugin that fails, is reloaded and fails again in one call.\<close>

definition held_manager :: "string list plugin_manager" where
  "held_manager = track (failing_tool ''d/a'') ''d/a'' 0 [] failing_manager"

lemma held_inv: "pm_inv held_manager"
  using failing_valid [of "''d/a''"]
  by (simp add: held_manager_def pm_inv_def track_def failing_manager_def new_manager_def failing_tool_def
      tool_valid_def open_policy_def validate_plugin_capabilities_def)

lemma execution_refines_breaker_witness:
  "health_of ''demo'' held_manager = Healthy \<and>
   health_of ''demo'' (snd (fst (execute_with_recovery ''demo'' failing_call held_manager []))) = Broken \<and>
   snd (fst (fst (execute_with_recovery ''demo'' failing_call held_manager []))) = Some (unavailable_error ''demo'')"
proof -
  obtain res err m' w' where x:
    "execute_with_recovery ''demo'' failing_call held_manager [] = (((res, err), m'), w')" by (metis surj_pair)
  have t: "map_of (pm_loaded held_manager) ''demo'' = Some (failing_tool ''d/a'')"
    by (simp add: held_manager_def track_def failing_manager_def new_manager_def failing_tool_def)
  have h: "health_of ''demo'' held_manager = Healthy" by code_simp
  moreover have "execution_seen ''demo'' failing_call held_manager (failing_tool ''d/a'') [] = RetryFailed" by code_simp
  ultimately show ?thesis using execution_refines_breaker [OF held_inv x] t x by simp
qed

section \<open>Interleaved operations\<close>

fun run_recovery ::
  "string \<Rightarrow> tool_call \<Rightarrow> nat \<Rightarrow> 'w recovery \<Rightarrow> 'w plugin_manager \<Rightarrow> 'w \<Rightarrow> ('w recovery \<times> 'w plugin_manager) \<times> 'w" where
  "run_recovery name call 0 at m w = ((at, m), w)"
| "run_recovery name call (Suc n) at m w =
     (case recovery_step name call at m w of ((at1, m1), w1) \<Rightarrow> run_recovery name call n at1 m1 w1)"

lemma run_returned [simp]: "run_recovery name call n (AtReturn r e) m w = ((AtReturn r e, m), w)"
  by (induction n) simp_all

lemma retry_alone:
  assumes "retry_execute name call e r m w = (((r', err), m'), w')"
  shows "run_recovery name call (Suc (Suc (Suc (Suc n)))) (AtLookupAgain r e) m w = ((AtReturn r' err, m'), w')"
  using assms
  by (auto simp: retry_execute_def split: prod.splits option.splits bool.splits if_splits)

text \<open>Without interference, nine steps are an execution with recovery.\<close>

lemma recovery_alone:
  assumes "execute_with_recovery name call m w = (((r, err), m'), w')"
  shows "run_recovery name call 9 AtLookup m w = ((AtReturn r err, m'), w')"
proof -
  have nine: "(9 :: nat) = Suc (Suc (Suc (Suc (Suc (Suc (Suc (Suc (Suc 0))))))))" by simp
  note def = execute_with_recovery_def Let_def
  consider x where "lookup_plugin name m = (x, True)" | "lookup_plugin name m = (None, False)"
    | t where "lookup_plugin name m = (Some t, False)"
    by (metis option.exhaust prod.exhaust)
  then show ?thesis
  proof cases
    case (1 x)
    with assms show ?thesis by (cases x) (simp_all add: nine def)
  next
    case 2
    with assms show ?thesis by (simp add: nine def)
  next
    case (3 t)
    obtain r1 x w1 where e: "pt_execute t call w = ((r1, x), w1)" by (metis surj_pair)
    obtain n m1 where i: "increment_failures name m = (n, m1)" by (metis surj_pair)
    obtain h w2 where c: "health_check t w1 = (h, w2)" by (metis surj_pair)
    obtain y m2 w3 where l: "reload_tool name (Some m1) w2 = ((y, m2), w3)" by (metis surj_pair)
    show ?thesis
    proof (cases "x = None \<or> n \<ge> 2 \<or> h = None \<or> y \<noteq> None")
      case True
      with assms 3 e i c l show ?thesis by (cases x; cases h; cases y) (auto simp: nine def)
    next
      case False
      then obtain e1 where x: "x = Some e1" by auto
      let ?m = "case m2 of None \<Rightarrow> m1 | Some m2 \<Rightarrow> m2"
      have "retry_execute name call e1 r1 ?m w3 = (((r, err), m'), w')"
        using assms 3 e i c l x False by (auto simp: def)
      from retry_alone [OF this, of 0]
      show ?thesis using 3 e i c l x False unfolding nine by auto
    qed
  qed
qed

text \<open>What holds whatever the operations interfere with.\<close>

definition held_sound :: "safety_policy \<Rightarrow> 'w plugin_manager \<Rightarrow> bool" where
  "held_sound policy m \<longleftrightarrow> pm_policy m = policy \<and>
     (\<forall>n t. map_of (pm_loaded m) n = Some t \<longrightarrow> pt_name t = n \<and> tool_valid policy t \<and> map_of (pm_paths m) n \<noteq> None) \<and>
     pm_failures m \<noteq> None"

definition executing :: "'w manager_call \<Rightarrow> (string \<times> 'w plugin_tool) option" where
  "executing c =
     (case c of
        Recovering name call at \<Rightarrow>
          (case at of AtExecute t \<Rightarrow> Some (name, t) | AtRetry t \<Rightarrow> Some (name, t) | _ \<Rightarrow> None)
      | _ \<Rightarrow> None)"

definition call_sound :: "safety_policy \<Rightarrow> 'w manager_call \<Rightarrow> bool" where
  "call_sound policy c \<longleftrightarrow> (\<forall>name t. executing c = Some (name, t) \<longrightarrow> pt_name t = name \<and> tool_valid policy t) \<and>
     (\<forall>t path. c = Tracking t path \<longrightarrow> tool_valid policy t)"

lemma lookup_sound: "held_sound policy m \<Longrightarrow> lookup_plugin name m = (Some t, u) \<Longrightarrow> pt_name t = name \<and> tool_valid policy t"
  by (auto simp: held_sound_def lookup_plugin_def split: if_splits)

lemma held_sound_track:
  "held_sound policy m \<Longrightarrow> tool_valid policy t \<Longrightarrow> held_sound policy (track t path n f m)"
  by (auto simp: held_sound_def track_def AList.update_conv')

lemma held_sound_untrack: "held_sound policy m \<Longrightarrow> held_sound policy (untrack name m)"
  by (auto simp: held_sound_def untrack_def AList.delete_conv' split: if_splits)

lemma held_sound_counts [simp]:
  "held_sound policy (set_failures name n m) \<longleftrightarrow> held_sound policy (m\<lparr>pm_failures := Some []\<rparr>)"
  "held_sound policy (reset_failures name m) \<longleftrightarrow> held_sound policy (m\<lparr>pm_failures := Some []\<rparr>)"
  "held_sound policy (mark_unavailable name m) \<longleftrightarrow> held_sound policy m"
  by (simp_all add: held_sound_def set_failures_def reset_failures_def mark_unavailable_def Let_def)

lemma held_sound_failures: "held_sound policy m \<Longrightarrow> held_sound policy (m\<lparr>pm_failures := Some []\<rparr>)"
  by (simp add: held_sound_def)

lemma held_sound_reload:
  assumes "reload_tool name (Some m) w = ((e, Some m'), w')" "held_sound policy m"
  shows "held_sound policy m'"
  using assms(1)
proof (cases rule: reload_cases)
  case 1
  with assms(2) show ?thesis by simp
next
  case (2 existing path t w1 w2)
  then have "tool_valid policy t" using load_plugin_valid [OF 2(4)] assms(2) by (simp add: held_sound_def)
  with 2(6) assms(2) show ?thesis by (simp add: held_sound_track held_sound_untrack)
qed

lemma recovery_step_sound:
  assumes "recovery_step name call at m w = ((at', m'), w')" "held_sound policy m"
  shows "held_sound policy m' \<and> call_sound policy (Recovering name call at')"
  using assms
  by (cases at)
    (auto simp: Let_def increment_failures_def call_sound_def executing_def held_sound_failures
      split: prod.splits option.splits bool.splits if_splits dest: lookup_sound held_sound_reload)

lemma manager_call_sound:
  assumes "manager_call_step c m w = Some ((c', m'), w')" "held_sound policy m" "call_sound policy c"
  shows "held_sound policy m' \<and> call_sound policy c'"
proof (cases c)
  case (Recovering name call at)
  then obtain at' where "recovery_step name call at m w = ((at', m'), w')" "c' = Recovering name call at'"
    using assms(1) by (auto split: prod.splits)
  with recovery_step_sound [OF _ assms(2)] show ?thesis by blast
next
  case (LoadingPath path)
  with assms show ?thesis
    by (auto simp: call_sound_def executing_def held_sound_def split: if_splits prod.splits sum.splits dest: load_plugin_valid)
next
  case (Tracking t path)
  with assms show ?thesis
    by (auto simp: call_sound_def executing_def intro: held_sound_track split: option.splits)
next
  case (ReloadingTool name)
  with assms show ?thesis
    by (auto simp: call_sound_def executing_def split: prod.splits option.splits dest: held_sound_reload)
next
  case ClosingAllTools
  with assms show ?thesis by (auto simp: call_sound_def executing_def held_sound_def)
qed (use assms in \<open>auto simp: call_sound_def executing_def split: prod.splits\<close>)

lemma fresh_sound: "fresh_call c \<Longrightarrow> call_sound policy c"
  by (auto simp: fresh_call_def call_sound_def executing_def)

lemma manager_step_sound:
  assumes "manager_step s s'" "held_sound policy (fst s)" "\<forall>c \<in> set (snd (snd s)). call_sound policy c"
  shows "held_sound policy (fst s') \<and> (\<forall>c \<in> set (snd (snd s')). call_sound policy c)"
  using assms(1)
proof cases
  case (called c m w cs)
  with assms(2,3) fresh_sound [of c policy] show ?thesis by auto
next
  case (advances i cs m w c m1 w1)
  then have "held_sound policy m1 \<and> call_sound policy c"
    using manager_call_sound [OF advances(4)] assms(2,3) by simp
  with advances assms(3) show ?thesis by (auto dest!: set_update_subset_insert [THEN subsetD])
qed

lemma manager_steps_sound:
  assumes "manager_step\<^sup>*\<^sup>* s s'" "held_sound policy (fst s)" "\<forall>c \<in> set (snd (snd s)). call_sound policy c"
  shows "held_sound policy (fst s') \<and> (\<forall>c \<in> set (snd (snd s')). call_sound policy c)"
  using assms
proof (induction rule: rtranclp_induct)
  case (step y z)
  from manager_step_sound [OF step.hyps(2)] step.IH step.prems show ?case by blast
qed simp

text \<open>
  C26. The plugin manager only holds and executes valid tools.  Over any interleaving of loads, reloads, executions
  with recovery and closes, from one critical section or call of a plugin to the next, whatever the plugins do:
  every tool is held under its own name, with an accepted contract version, accepted capabilities and a path, and
  what an execution calls under a name is such a tool of that name, even if it was replaced or closed meanwhile.
\<close>

theorem plugin_manager_sound:
  assumes "manager_step\<^sup>*\<^sup>* (new_manager path policy external native read_dir, w, []) (m, w', cs)"
  shows "(\<forall>n t. map_of (pm_loaded m) n = Some t \<longrightarrow>
       pt_name t = n \<and> tool_valid policy t \<and> map_of (pm_paths m) n \<noteq> None) \<and>
    (\<forall>c \<in> set cs. \<forall>n t. executing c = Some (n, t) \<longrightarrow> pt_name t = n \<and> tool_valid policy t)"
proof -
  have "held_sound policy (new_manager path policy external native read_dir)"
    by (simp add: held_sound_def new_manager_def)
  then have "held_sound policy m \<and> (\<forall>c \<in> set cs. call_sound policy c)"
    using manager_steps_sound [OF assms, of policy] by simp
  then show ?thesis unfolding held_sound_def call_sound_def by blast
qed

text \<open>A plugin is loaded; an execution has looked it up when everything is closed.\<close>

lemma plugin_manager_sound_witness:
  "pm_loaded (snd (fst (the (manager_call_step ClosingAllTools held_manager [])))) = [] \<and>
   executing (Recovering ''demo'' failing_call (AtExecute (failing_tool ''d/a''))) = Some (''demo'', failing_tool ''d/a'') \<and>
   tool_valid open_policy (failing_tool ''d/a'')"
proof -
  let ?c = "Recovering ''demo'' failing_call (AtExecute (failing_tool ''d/a''))"
  let ?m = "held_manager\<lparr>pm_loaded := [], pm_paths := [], pm_failures := Some [], pm_unavailable := []\<rparr>"
  have t: "trim_space ''d/a'' \<noteq> []" by code_simp
  have "manager_step (failing_manager, [], []) (failing_manager, [], [LoadingPath ''d/a''])"
    using manager_step.called [of "LoadingPath ''d/a''" failing_manager "[]" "[]"] by (simp add: fresh_call_def)
  moreover have "manager_step (failing_manager, [], [LoadingPath ''d/a'']) (failing_manager, [], [Tracking (failing_tool ''d/a'') ''d/a''])"
    using manager_step.advances [of 0 "[LoadingPath ''d/a'']" failing_manager "[]" "Tracking (failing_tool ''d/a'') ''d/a''" failing_manager "[]"] t
    by (simp add: failing_load)
  moreover have "manager_step (failing_manager, [], [Tracking (failing_tool ''d/a'') ''d/a'']) (held_manager, [], [EndedCall])"
    using manager_step.advances [of 0 "[Tracking (failing_tool ''d/a'') ''d/a'']" failing_manager "[]" EndedCall held_manager "[]"]
    by (simp add: held_manager_def failing_manager_def new_manager_def)
  moreover have "manager_step (held_manager, [], [EndedCall]) (held_manager, [], [EndedCall, Recovering ''demo'' failing_call AtLookup])"
    using manager_step.called [of "Recovering ''demo'' failing_call AtLookup" held_manager "[]" "[EndedCall]"] by (simp add: fresh_call_def)
  moreover have "manager_step (held_manager, [], [EndedCall, Recovering ''demo'' failing_call AtLookup]) (held_manager, [], [EndedCall, ?c])"
    using manager_step.advances [of 1 "[EndedCall, Recovering ''demo'' failing_call AtLookup]" held_manager "[]" ?c held_manager "[]"]
    by (simp add: held_manager_def track_def failing_manager_def new_manager_def failing_tool_def lookup_plugin_def)
  moreover have "manager_step (held_manager, [], [EndedCall, ?c]) (held_manager, [], [EndedCall, ?c, ClosingAllTools])"
    using manager_step.called [of ClosingAllTools held_manager "[]" "[EndedCall, ?c]"] by (simp add: fresh_call_def)
  moreover have "manager_step (held_manager, [], [EndedCall, ?c, ClosingAllTools]) (?m, [], [EndedCall, ?c, ClosingTools (pm_loaded held_manager)])"
    using manager_step.advances [of 2 "[EndedCall, ?c, ClosingAllTools]" held_manager "[]" "ClosingTools (pm_loaded held_manager)" ?m "[]"]
    by simp
  ultimately have "manager_step\<^sup>*\<^sup>* (failing_manager, [], []) (?m, [], [EndedCall, ?c, ClosingTools (pm_loaded held_manager)])"
    by (meson converse_rtranclp_into_rtranclp rtranclp.rtrancl_refl)
  from plugin_manager_sound [OF this [unfolded failing_manager_def]] show ?thesis by (simp add: executing_def)
qed

section \<open>Reloading\<close>

text \<open>
  A reload is all or nothing.  When it returns an error the manager is unchanged.  Otherwise the
  old tool was closed without error after the new one had been loaded and found valid, from the
  artifact with the file name of the old one; the new tool is held and available under its own name,
  every other name is as it was, and the failure count is that of the old tool: a tool that was
  unavailable is one failure away from being unavailable again.
\<close>

theorem reload_all_or_nothing:
  assumes "reload_tool name (Some m) w = ((e, Some m'), w')"
  shows "case e of
      Some err \<Rightarrow> m' = m
    | None \<Rightarrow>
        \<exists>existing path t w1. map_of (pm_loaded m) name = Some existing \<and> reload_path name m w = Inr path \<and>
          load_plugin m path w = (Inr t, w1) \<and> close_tool m (Some existing) w1 = (None, w') \<and>
          tool_valid (pm_policy m) t \<and>
          map_of (pm_loaded m') = (map_of (pm_loaded m))(name := None, pt_name t \<mapsto> t) \<and>
          map_of (pm_paths m') = (map_of (pm_paths m))(name := None, pt_name t \<mapsto> path) \<and>
          set (pm_unavailable m') = set (pm_unavailable m) - {name, pt_name t} \<and>
          failure_count_of (pt_name t) m' = failure_count_of name m"
  using assms
proof (rule reload_cases)
  fix existing path t w1 w2
  assume "e = None" "map_of (pm_loaded m) name = Some existing" "reload_path name m w = Inr path"
    and load: "load_plugin m path w = (Inr t, w1)" and "close_tool m (Some existing) w1 = (None, w2)" "w' = w2"
    and m': "Some m' = Some (track t path (failure_count_of name m)
             (case pm_failures (untrack name m) of None \<Rightarrow> [] | Some f \<Rightarrow> f) (untrack name m))"
  moreover have "map_of (pm_loaded m') = (map_of (pm_loaded m))(name := None, pt_name t \<mapsto> t)"
    "map_of (pm_paths m') = (map_of (pm_paths m))(name := None, pt_name t \<mapsto> path)"
    "set (pm_unavailable m') = set (pm_unavailable m) - {name, pt_name t}"
    "failure_count_of (pt_name t) m' = failure_count_of name m"
    using m' by (auto simp: track_def untrack_def failure_count_of_def AList.update_conv' AList.delete_conv')
  ultimately show ?thesis using load_plugin_valid [OF load] by auto
qed simp

lemma reload_all_or_nothing_witness:
  "map_of (pm_loaded (the (snd (fst (reload_tool ''demo'' (Some held_manager) []))))) ''demo'' \<noteq> None \<and>
   snd (reload_tool ''demo'' (Some held_manager) []) = [''d/a'']"
proof -
  obtain e m' w' where x: "reload_tool ''demo'' (Some held_manager) [] = ((e, Some m'), w')"
    using reload_some by (metis surj_pair)
  have "fst (fst (reload_tool ''demo'' (Some held_manager) [])) = None"
    "map_option pt_name (map_of (pm_loaded (the (snd (fst (reload_tool ''demo'' (Some held_manager) []))))) ''demo'') = Some ''demo''"
    "snd (reload_tool ''demo'' (Some held_manager) []) = [''d/a'']"
    by code_simp+
  with reload_all_or_nothing [OF x] x show ?thesis by auto
qed

section \<open>A leak\<close>

text \<open>
  Loading a second plugin under a held name leaks the first.  The manager forgets the first tool
  without closing it, so that closing everything closes the second only, and the first plugin's
  process is left running.
\<close>

theorem load_same_name_leaks:
  assumes "trim_space p \<noteq> []" "trim_space q \<noteq> []"
  shows "map_option snd (pm_run [OpLoad None p, OpLoad None q, OpCloseAll] (failing_manager, [])) = Some [q]"
proof -
  have l: "load_plugin (track (failing_tool p) path n f failing_manager) r w = (Inr (failing_tool r), w)" for path n f r w
    using failing_valid [of r]
    by (simp add: load_plugin_def track_def failing_manager_def new_manager_def failing_loader_def failing_tool_def
        open_policy_def validate_plugin_capabilities_def Let_def)
  have "pm_load None p (Some failing_manager) [] =
      (Done (Inr (failing_tool p), Some (track (failing_tool p) p 0 [] failing_manager)), [])"
    using assms failing_load [of p "[]"] by (simp add: pm_load_def) (simp add: failing_manager_def new_manager_def)
  moreover have "pm_load None q (Some (track (failing_tool p) p 0 [] failing_manager)) [] =
      (Done (Inr (failing_tool q), Some (track (failing_tool q) q 0 [(''demo'', 0)] (track (failing_tool p) p 0 [] failing_manager))), [])"
    using assms by (simp add: pm_load_def l) (simp add: track_def failing_tool_def)
  moreover have "pt_close (failing_tool q) [] = (None, [q])" by (simp add: failing_tool_def)
  ultimately show ?thesis
    by (simp add: close_all_def track_def failing_manager_def new_manager_def close_tool_def failing_tool_def)
qed

lemma load_same_name_leaks_witness:
  "map_option snd (pm_run [OpLoad None ''d/a'', OpLoad None ''d/b'', OpCloseAll] (failing_manager, [])) = Some [''d/b'']"
  by (rule load_same_name_leaks; code_simp)

section \<open>Versions\<close>

definition version_string :: "int \<Rightarrow> int \<Rightarrow> int \<Rightarrow> string" where
  "version_string a b c = show_int a @ ''.'' @ show_int b @ ''.'' @ show_int c"

lemma show_int_no_dot: "CHR ''.'' \<notin> set (show_int i)"
  using show_nat_digits [of "CHR ''.''"] by (auto simp: show_int_def digit_value_def)

lemma parse_version_string:
  assumes "int_range a = Some a" "int_range b = Some b" "int_range c = Some c"
  shows "parse_version (version_string a b c) = Inr (a, b, c)"
proof -
  have "split_on (CHR ''.'') (version_string a b c) = [show_int a, show_int b, show_int c]"
    using split_on_append [of "CHR ''.''" "show_int a" "show_int b @ CHR ''.'' # show_int c"]
      split_on_append [of "CHR ''.''" "show_int b" "show_int c"] show_int_no_dot
    by (simp add: version_string_def split_on_id)
  then show ?thesis using assms by (simp add: parse_version_def version_part_def atoi_show_int)
qed

text \<open>
  Contract versions round trip, and only the major version counts: a version written from three
  64-bit numbers is read back as these, and a tool with it is accepted exactly if the first is 1.
\<close>

theorem version_roundtrip:
  assumes "int_range a = Some a" "int_range b = Some b" "int_range c = Some c"
    and "pt_contract_version t = version_string a b c"
  shows "parse_version (version_string a b c) = Inr (a, b, c) \<and> (validate_contract (Some t) = None) = (a = 1)"
proof -
  have "parse_version contract_version = Inr (1, 0, 0)" by code_simp
  with parse_version_string [OF assms(1-3)] assms(4) show ?thesis
    by (simp add: validate_contract_def check_version_compat_def split: bool.split)
qed

lemma version_roundtrip_witness:
  "parse_version (version_string 1 2 0) = Inr (1, 2, 0) \<and> validate_contract (Some (failing_tool ''d/a'')) = None"
proof -
  have "pt_contract_version (failing_tool ''d/a'') = version_string 1 2 0" by code_simp
  from version_roundtrip [OF _ _ _ this] show ?thesis by (simp add: int_range_def)
qed

end
