(* ===== verification/External_Plugin.thy ===== *)
theory External_Plugin
  imports Plugin_Manager "HOL-Library.Word"
begin

text \<open>
  The client of an external plugin (\<^verbatim>\<open>internal/plugin/external.go\<close>, \<^verbatim>\<open>protocol.go\<close>): JSON-RPC requests
  over the pipes of a process, one at a time, with the handshake, the health check and the shutdown.

  The process, the pipes, the contexts and the clock act on a state \<^typ>\<open>'w\<close>; the decoders stand for
  \<^verbatim>\<open>json.Unmarshal\<close> into the result structs.  Waiting for the process may block.
\<close>

section \<open>The protocol\<close>

definition jsonrpc_version :: string where "jsonrpc_version = ''2.0''"
definition method_initialize :: string where "method_initialize = ''initialize''"
definition method_tool_info :: string where "method_tool_info = ''tool.info''"
definition method_tool_execute :: string where "method_tool_execute = ''tool.execute''"
definition method_shutdown :: string where "method_shutdown = ''shutdown''"

datatype rpc_params = InitializeParams string | ExecuteParams string string int

record rpc_request =
  rq_jsonrpc :: string
  rq_id :: "64 word"
  rq_method :: string
  rq_params :: "rpc_params option"

record rpc_error =
  re_code :: int
  re_message :: string

record rpc_response =
  rp_jsonrpc :: string
  rp_id :: "64 word"
  rp_result :: string
  rp_error :: "rpc_error option"

record external_info =
  xi_name :: string
  xi_description :: string
  xi_schema :: string
  xi_capabilities :: "string list"
  xi_safety_level :: string
  xi_contract_version :: string

record execute_result =
  xr_tool_name :: string
  xr_output :: string
  xr_error :: string

section \<open>The process\<close>

text \<open>What the select of a call sees first: the context's end, or what was read from the pipe.\<close>

datatype reply = ContextEnded go_error | Unreadable go_error | Replied rpc_response

datatype exit_result = ExitedCleanly | ExitStatus | WaitFailed go_error

record 'w plugin_process =
  pp_start :: "'w \<Rightarrow> go_error option \<times> 'w"
  pp_ctx :: "'w \<Rightarrow> go_error option \<times> 'w"
  pp_send :: "rpc_request \<Rightarrow> 'w \<Rightarrow> go_error option \<times> 'w"
  pp_receive :: "'w \<Rightarrow> reply \<times> 'w"
  pp_exited :: "'w \<Rightarrow> bool \<times> 'w"
  pp_kill :: "'w \<Rightarrow> 'w"
  pp_await :: "'w \<Rightarrow> exit_result attempt \<times> 'w"
  pp_close_stdin :: "'w \<Rightarrow> go_error option \<times> 'w"
  pp_stderr :: "'w \<Rightarrow> string \<times> 'w"
  pp_timer_first :: "duration \<Rightarrow> 'w \<Rightarrow> bool \<times> 'w"
  pp_elapsed :: "'w \<Rightarrow> duration \<times> 'w"
  pp_decode_reply :: "string \<Rightarrow> go_error option"
  pp_decode_info :: "string \<Rightarrow> (go_error, external_info) result"
  pp_decode_execute :: "string \<Rightarrow> (go_error, execute_result) result"
  pp_decode_bool :: "string \<Rightarrow> go_error option"

definition external_plugin_closed :: go_error where
  "external_plugin_closed = Message ''external plugin closed''"

definition external_plugin_protocol :: go_error where
  "external_plugin_protocol = Message ''external plugin protocol error''"

definition default_startup_timeout :: duration where "default_startup_timeout = 5 * second"
definition default_health_timeout :: duration where "default_health_timeout = 5 * second"

record external_tool =
  et_id :: "64 word"
  et_closed :: bool
  et_stdin :: bool
  et_process :: bool
  et_failures :: int
  et_info :: external_info

definition empty_info :: external_info where
  "empty_info =
     \<lparr>xi_name = [], xi_description = [], xi_schema = [], xi_capabilities = [], xi_safety_level = [], xi_contract_version = []\<rparr>"

section \<open>Ending the process\<close>

definition kill_process :: "'w plugin_process \<Rightarrow> external_tool \<Rightarrow> 'w \<Rightarrow> 'w" where
  "kill_process p t w =
     (if \<not> et_process t then w
      else (case pp_exited p w of (True, w1) \<Rightarrow> w1 | (False, w1) \<Rightarrow> pp_kill p w1))"

definition wait_process :: "'w plugin_process \<Rightarrow> 'w \<Rightarrow> go_error option attempt \<times> 'w" where
  "wait_process p w =
     (case pp_await p w of
        (Done (WaitFailed e), w1) \<Rightarrow> (Done (Some e), w1)
      | (Done r, w1) \<Rightarrow> (Done None, w1)
      | (Blocks, w1) \<Rightarrow> (Blocks, w1)
      | (Panics, w1) \<Rightarrow> (Panics, w1))"

definition mark_broken :: "external_tool \<Rightarrow> external_tool" where
  "mark_broken t = t\<lparr>et_closed := True\<rparr>"

text \<open>\<^verbatim>\<open>markBroken\<close>, \<^verbatim>\<open>killProcess\<close> and \<^verbatim>\<open>wait\<close>, whose errors are ignored, before a result is returned.\<close>

definition break_off ::
  "'w plugin_process \<Rightarrow> external_tool \<Rightarrow> ('w \<Rightarrow> 'a \<times> 'w) \<Rightarrow> 'w \<Rightarrow> ('a attempt \<times> external_tool) \<times> 'w" where
  "break_off p t result w =
     (let t1 = mark_broken t in
      case wait_process p (kill_process p t1 w) of
        (Done e, w1) \<Rightarrow> (case result w1 of (a, w2) \<Rightarrow> ((Done a, t1), w2))
      | (Blocks, w1) \<Rightarrow> ((Blocks, t1), w1)
      | (Panics, w1) \<Rightarrow> ((Panics, t1), w1))"

definition wrap_process_error :: "'w plugin_process \<Rightarrow> go_error \<Rightarrow> 'w \<Rightarrow> go_error \<times> 'w" where
  "wrap_process_error p e w =
     (case pp_stderr p w of
        (stderr, w1) \<Rightarrow> (if stderr = [] then e else Wrapped (error_text e @ '': stderr='' @ quote_str stderr) e, w1))"

definition fail_protocol ::
  "'w plugin_process \<Rightarrow> external_tool \<Rightarrow> string \<Rightarrow> 'w \<Rightarrow> (((go_error, 'a) result) attempt \<times> external_tool) \<times> 'w" where
  "fail_protocol p t message =
     break_off p t
       (\<lambda>w. case wrap_process_error p (Wrapped (error_text external_plugin_protocol @ '': '' @ message) external_plugin_protocol) w of
              (e, w1) \<Rightarrow> (Inl e, w1))"

section \<open>Calls\<close>

text \<open>
  The reply in \<^verbatim>\<open>callInternal\<close>.  \<open>decode\<close> decodes a result that is not empty; \<^term>\<open>Inr None\<close> leaves the target
  as it was.
\<close>

definition receive_reply ::
  "'w plugin_process \<Rightarrow> string \<Rightarrow> (string \<Rightarrow> (go_error, 'a) result) \<Rightarrow> 64 word \<Rightarrow> external_tool \<Rightarrow> 'w
     \<Rightarrow> (((go_error, 'a option) result) attempt \<times> external_tool) \<times> 'w" where
  "receive_reply p method decode request_id t w =
     (case pp_receive p w of
        (ContextEnded e, w1) \<Rightarrow>
          break_off p t (\<lambda>w. (Inl (Wrapped (''external plugin '' @ method @ '' timeout: '' @ error_text e) e), w)) w1
      | (Unreadable e, w1) \<Rightarrow>
          break_off p t
            (\<lambda>w. case wrap_process_error p (Wrapped (''decode '' @ method @ '' response: '' @ error_text e) e) w of
                   (e1, w2) \<Rightarrow> (Inl e1, w2)) w1
      | (Replied r, w1) \<Rightarrow>
          if rp_jsonrpc r \<noteq> jsonrpc_version
          then fail_protocol p t (''invalid jsonrpc version '' @ quote_str (rp_jsonrpc r)) w1
          else if rp_id r \<noteq> request_id
          then fail_protocol p t (''response id mismatch: got='' @ show_nat (unat (rp_id r)) @ '' want='' @ show_nat (unat request_id)) w1
          else (case rp_error r of
                  Some e \<Rightarrow>
                    (case wrap_process_error p
                            (Message (''remote '' @ method @ '' error ('' @ show_int (re_code e) @ ''): '' @ re_message e)) w1 of
                       (e1, w2) \<Rightarrow> ((Done (Inl e1), t), w2))
                | None \<Rightarrow>
                    if rp_result r = [] then ((Done (Inr None), t), w1)
                    else (case decode (rp_result r) of
                            Inl e \<Rightarrow> fail_protocol p t (''decode '' @ method @ '' result: '' @ error_text e) w1
                          | Inr a \<Rightarrow> ((Done (Inr (Some a)), t), w1))))"

text \<open>
  A call is admitted by its context and by the tool being open; what follows happens under
  \<^verbatim>\<open>rpcMu\<close> and does not look at \<^verbatim>\<open>closed\<close> again.  Another caller can have the lock in between, so the
  two parts are definitions of their own.
\<close>

definition call_admitted :: "'w plugin_process \<Rightarrow> bool \<Rightarrow> external_tool \<Rightarrow> 'w \<Rightarrow> go_error option \<times> 'w" where
  "call_admitted p ignore_closed t w =
     (case pp_ctx p w of
        (Some e, w1) \<Rightarrow> (Some e, w1)
      | (None, w1) \<Rightarrow> (if et_closed t \<and> \<not> ignore_closed then Some external_plugin_closed else None, w1))"

definition rpc_exchange ::
  "'w plugin_process \<Rightarrow> string \<Rightarrow> rpc_params option \<Rightarrow> (string \<Rightarrow> (go_error, 'a) result) \<Rightarrow> external_tool \<Rightarrow> 'w
     \<Rightarrow> (((go_error, 'a option) result) attempt \<times> external_tool) \<times> 'w" where
  "rpc_exchange p method params decode t w =
     (let i = et_id t + 1; t1 = t\<lparr>et_id := i\<rparr> in
      case pp_send p \<lparr>rq_jsonrpc = jsonrpc_version, rq_id = i, rq_method = method, rq_params = params\<rparr> w of
        (Some e, w1) \<Rightarrow>
          (case wrap_process_error p (Wrapped (''send '' @ method @ '' request: '' @ error_text e) e) w1 of
             (e1, w2) \<Rightarrow> ((Done (Inl e1), mark_broken t1), w2))
      | (None, w1) \<Rightarrow> receive_reply p method decode i t1 w1)"

definition call_internal ::
  "'w plugin_process \<Rightarrow> string \<Rightarrow> rpc_params option \<Rightarrow> (string \<Rightarrow> (go_error, 'a) result) \<Rightarrow> bool \<Rightarrow> external_tool \<Rightarrow> 'w
     \<Rightarrow> (((go_error, 'a option) result) attempt \<times> external_tool) \<times> 'w" where
  "call_internal p method params decode ignore_closed t w =
     (case call_admitted p ignore_closed t w of
        (Some e, w1) \<Rightarrow> ((Done (Inl e), t), w1)
      | (None, w1) \<Rightarrow> rpc_exchange p method params decode t w1)"

lemma call_internal_cases:
  "call_internal p method params decode ignore_closed t w =
     (case pp_ctx p w of
        (Some e, w1) \<Rightarrow> ((Done (Inl e), t), w1)
      | (None, w1) \<Rightarrow>
          if et_closed t \<and> \<not> ignore_closed then ((Done (Inl external_plugin_closed), t), w1)
          else rpc_exchange p method params decode t w1)"
  by (auto simp: call_internal_def call_admitted_def split: prod.splits option.splits if_splits)

lemmas call_defs = call_internal_cases rpc_exchange_def

section \<open>Health\<close>

datatype health_error = ClosedTool | CheckFailed string duration int "go_error option"

text \<open>The error as the callers see it: its text, and its cause behind it.\<close>

fun health_go_error :: "string \<Rightarrow> health_error \<Rightarrow> go_error" where
  "health_go_error name ClosedTool = external_plugin_closed"
| "health_go_error name (CheckFailed reason timeout failures cause) =
     (let t = ''external plugin health check failed for '' @ quote_str name @ '': '' @ reason @
            (if failures > 0 then '' (consecutive failures: '' @ show_int failures @ '')'' else []) in
      (case cause of None \<Rightarrow> Message t | Some e \<Rightarrow> Wrapped t e))"

definition record_health_failure ::
  "string \<Rightarrow> duration \<Rightarrow> go_error option \<Rightarrow> external_tool \<Rightarrow> health_error \<times> external_tool" where
  "record_health_failure reason timeout cause t =
     (let n = et_failures t + 1 in (CheckFailed reason timeout n cause, t\<lparr>et_failures := n\<rparr>))"

definition external_health ::
  "'w plugin_process \<Rightarrow> duration \<Rightarrow> external_tool \<Rightarrow> 'w \<Rightarrow> (health_error option \<times> external_tool) \<times> 'w" where
  "external_health p timeout t w =
     (let limit = (if timeout \<le> 0 then default_health_timeout else timeout) in
      case pp_exited p w of
        (exited, w1) \<Rightarrow>
          (case pp_timer_first p limit w1 of
             (True, w2) \<Rightarrow>
               (case record_health_failure ''process check timed out'' limit (Some DeadlineExceeded) t of
                  (e, t1) \<Rightarrow> ((Some e, t1), w2))
           | (False, w2) \<Rightarrow>
               if et_closed t then ((Some ClosedTool, t), w2)
               else if \<not> et_process t then
                 (case record_health_failure ''process is not available'' limit None t of (e, t1) \<Rightarrow> ((Some e, t1), w2))
               else if exited then
                 (case record_health_failure ''process has exited'' limit None t of (e, t1) \<Rightarrow> ((Some e, t1), w2))
               else ((None, t\<lparr>et_failures := 0\<rparr>), w2)))"

section \<open>Executing\<close>

definition non_zero_duration :: "duration \<Rightarrow> duration" where
  "non_zero_duration d = (if d \<le> 0 then 1 else d)"

definition execute_params :: "tool_call \<Rightarrow> rpc_params" where
  "execute_params call =
     ExecuteParams (tc_name call) (tc_input call) (if tc_timeout call > 0 then tc_timeout call div 1000000 else 0)"

definition external_execute ::
  "'w plugin_process \<Rightarrow> tool_call \<Rightarrow> external_tool \<Rightarrow> 'w
     \<Rightarrow> ((tool_result \<times> go_error option) attempt \<times> external_tool) \<times> 'w" where
  "external_execute p call t w =
     (let name = xi_name (et_info t);
          failed = (\<lambda>d e. (\<lparr>tr_tool_name = name, tr_output = [], tr_error = [], tr_duration = d\<rparr>, Some e)) in
      if et_closed t then
        (case pp_elapsed p w of (d, w1) \<Rightarrow> ((Done (failed (non_zero_duration d) external_plugin_closed), t), w1))
      else
        (case external_health p 0 t w of
           ((Some h, t1), w1) \<Rightarrow>
             (case pp_elapsed p w1 of (d, w2) \<Rightarrow> ((Done (failed (non_zero_duration d) (health_go_error name h)), t1), w2))
         | ((None, t1), w1) \<Rightarrow>
             (case call_internal p method_tool_execute (Some (execute_params call)) (pp_decode_execute p) False t1 w1 of
                ((Done (Inl e), t2), w2) \<Rightarrow>
                  (case pp_elapsed p w2 of (d, w3) \<Rightarrow> ((Done (failed d e), t2), w3))
              | ((Done (Inr r), t2), w2) \<Rightarrow>
                  (let x = (case r of None \<Rightarrow> \<lparr>xr_tool_name = [], xr_output = [], xr_error = []\<rparr> | Some x \<Rightarrow> x) in
                   case pp_elapsed p w2 of
                     (d, w3) \<Rightarrow>
                       ((Done (\<lparr>tr_tool_name = (if xr_tool_name x = [] then name else xr_tool_name x), tr_output = xr_output x,
                                tr_error = xr_error x, tr_duration = non_zero_duration d\<rparr>, None), t2), w3))
              | ((Blocks, t2), w2) \<Rightarrow> ((Blocks, t2), w2)
              | ((Panics, t2), w2) \<Rightarrow> ((Panics, t2), w2))))"

section \<open>Closing\<close>

definition close_stdin :: "'w plugin_process \<Rightarrow> external_tool \<Rightarrow> 'w \<Rightarrow> (go_error option \<times> external_tool) \<times> 'w" where
  "close_stdin p t w =
     (if \<not> et_stdin t then ((None, t), w)
      else (case pp_close_stdin p w of (e, w1) \<Rightarrow> ((e, t\<lparr>et_stdin := False\<rparr>), w1)))"

text \<open>Kill and wait, then the given error.\<close>

definition kill_and_return ::
  "'w plugin_process \<Rightarrow> go_error \<Rightarrow> external_tool \<Rightarrow> 'w \<Rightarrow> (go_error option attempt \<times> external_tool) \<times> 'w" where
  "kill_and_return p e t w =
     (case wait_process p (kill_process p t w) of
        (Done x, w1) \<Rightarrow> ((Done (Some e), t), w1)
      | (Blocks, w1) \<Rightarrow> ((Blocks, t), w1)
      | (Panics, w1) \<Rightarrow> ((Panics, t), w1))"

definition finish_close ::
  "'w plugin_process \<Rightarrow> external_tool \<Rightarrow> 'w \<Rightarrow> (go_error option attempt \<times> external_tool) \<times> 'w" where
  "finish_close p t w =
     (case close_stdin p t w of
        ((Some e, t1), w1) \<Rightarrow> kill_and_return p e t1 w1
      | ((None, t1), w1) \<Rightarrow> (case wait_process p w1 of (r, w2) \<Rightarrow> ((r, t1), w2)))"

definition external_close ::
  "'w plugin_process \<Rightarrow> external_tool \<Rightarrow> 'w \<Rightarrow> (go_error option attempt \<times> external_tool) \<times> 'w" where
  "external_close p t w =
     (if et_closed t then ((Done None, t), w)
      else
        (let t1 = t\<lparr>et_closed := True\<rparr> in
         case pp_exited p w of
           (True, w1) \<Rightarrow> finish_close p t1 w1
         | (False, w1) \<Rightarrow>
             (case call_internal p method_shutdown None (\<lambda>s. case pp_decode_bool p s of Some e \<Rightarrow> Inl e | None \<Rightarrow> Inr ()) True t1 w1 of
                ((Done (Inl e), t2), w2) \<Rightarrow>
                  if errors_is e external_plugin_closed then finish_close p t2 w2 else kill_and_return p e t2 w2
              | ((Done (Inr r), t2), w2) \<Rightarrow> finish_close p t2 w2
              | ((Blocks, t2), w2) \<Rightarrow> ((Blocks, t2), w2)
              | ((Panics, t2), w2) \<Rightarrow> ((Panics, t2), w2))))"

section \<open>Loading\<close>

definition external_initialize ::
  "'w plugin_process \<Rightarrow> external_tool \<Rightarrow> 'w \<Rightarrow> (go_error option attempt \<times> external_tool) \<times> 'w" where
  "external_initialize p t w =
     (case call_internal p method_initialize (Some (InitializeParams contract_version))
             (\<lambda>s. case pp_decode_reply p s of Some e \<Rightarrow> Inl e | None \<Rightarrow> Inr ()) False t w of
        ((Done (Inl e), t1), w1) \<Rightarrow>
          ((Done (Some (Wrapped (''initialize external plugin: '' @ error_text e) e)), t1), w1)
      | ((Done (Inr r), t1), w1) \<Rightarrow>
          (case call_internal p method_tool_info None (pp_decode_info p) False t1 w1 of
             ((Done (Inl e), t2), w2) \<Rightarrow>
               ((Done (Some (Wrapped (''read external plugin info: '' @ error_text e) e)), t2), w2)
           | ((Done (Inr i), t2), w2) \<Rightarrow>
               (let info = (case i of None \<Rightarrow> empty_info | Some x \<Rightarrow> x) in
                if xi_name info = [] then
                  ((Done (Some (Wrapped (error_text external_plugin_protocol @ '': plugin name must not be empty'') external_plugin_protocol)), t2), w2)
                else if xi_contract_version info = [] then
                  ((Done (Some (Wrapped (error_text external_plugin_protocol @ '': plugin contract version must not be empty'')
                      external_plugin_protocol)), t2), w2)
                else ((Done None, t2\<lparr>et_info := info\<rparr>), w2))
           | ((Blocks, t2), w2) \<Rightarrow> ((Blocks, t2), w2)
           | ((Panics, t2), w2) \<Rightarrow> ((Panics, t2), w2))
      | ((Blocks, t1), w1) \<Rightarrow> ((Blocks, t1), w1)
      | ((Panics, t1), w1) \<Rightarrow> ((Panics, t1), w1))"

definition new_external_tool :: external_tool where
  "new_external_tool =
     \<lparr>et_id = 0, et_closed = False, et_stdin = True, et_process = True, et_failures = 0, et_info = empty_info\<rparr>"

definition contract_error :: "external_tool \<Rightarrow> go_error option" where
  "contract_error t =
     (case check_version_compat (xi_contract_version (et_info t)) contract_version of
        Inl e \<Rightarrow> Some e
      | Inr True \<Rightarrow> None
      | Inr False \<Rightarrow>
          Some (Wrapped (error_text version_mismatch @ '': plugin='' @ quote_str (xi_contract_version (et_info t)) @
                  '' expected='' @ quote_str contract_version) version_mismatch))"

definition external_load ::
  "'w plugin_process \<Rightarrow> string \<Rightarrow> 'w \<Rightarrow> (((go_error, external_tool) result) attempt) \<times> 'w" where
  "external_load p command w =
     (if command = [] then (Done (Inl (Message ''external plugin command must not be empty'')), w)
      else
        (case pp_start p w of
           (Some e, w1) \<Rightarrow> (Done (Inl e), w1)
         | (None, w1) \<Rightarrow>
             (let close_with = (\<lambda>e t w. case external_close p t w of
                    ((Done x, t1), w1) \<Rightarrow> (Done (Inl e), w1)
                  | ((Blocks, t1), w1) \<Rightarrow> (Blocks, w1)
                  | ((Panics, t1), w1) \<Rightarrow> (Panics, w1)) in
              case external_initialize p new_external_tool w1 of
                ((Done (Some e), t), w2) \<Rightarrow> close_with e t w2
              | ((Done None, t), w2) \<Rightarrow>
                  (case contract_error t of
                     Some e \<Rightarrow> close_with e t w2
                   | None \<Rightarrow> (Done (Inr t), w2))
              | ((Blocks, t), w2) \<Rightarrow> (Blocks, w2)
              | ((Panics, t), w2) \<Rightarrow> (Panics, w2))))"

end
