(* ===== verification/External_Plugin_Properties.thy ===== *)
theory External_Plugin_Properties
  imports External_Plugin
begin

text \<open>
  What the client of an external plugin promises: requests and replies stay in step for as long as the
  tool is open, and a tool that is closed is never used again.
\<close>

section \<open>Recording the traffic\<close>

datatype traffic = Request "64 word" | Reply

definition along :: "('w \<Rightarrow> 'a \<times> 'w) \<Rightarrow> 'w \<times> 'l \<Rightarrow> 'a \<times> ('w \<times> 'l)" where
  "along f s = (case f (fst s) of (a, w) \<Rightarrow> (a, (w, snd s)))"

text \<open>The process with the requests that were sent and the replies that were read.\<close>

definition observed :: "'w plugin_process \<Rightarrow> ('w \<times> traffic list) plugin_process" where
  "observed p =
     \<lparr>pp_start = along (pp_start p), pp_ctx = along (pp_ctx p),
      pp_send = (\<lambda>r (w, l). case pp_send p r w of (e, w1) \<Rightarrow> (e, (w1, l @ [Request (rq_id r)]))),
      pp_receive = (\<lambda>(w, l). case pp_receive p w of
          (Replied r, w1) \<Rightarrow> (Replied r, (w1, l @ [Reply]))
        | (x, w1) \<Rightarrow> (x, (w1, l))),
      pp_exited = along (pp_exited p), pp_kill = (\<lambda>(w, l). (pp_kill p w, l)), pp_await = along (pp_await p),
      pp_close_stdin = along (pp_close_stdin p), pp_stderr = along (pp_stderr p),
      pp_timer_first = (\<lambda>d. along (pp_timer_first p d)), pp_elapsed = along (pp_elapsed p),
      pp_decode_reply = pp_decode_reply p, pp_decode_info = pp_decode_info p, pp_decode_execute = pp_decode_execute p,
      pp_decode_bool = pp_decode_bool p\<rparr>"

lemma along_snd: "along f s = (a, s') \<Longrightarrow> snd s' = snd s"
  by (auto simp: along_def split: prod.splits)

lemma observed_simps [simp]:
  "pp_ctx (observed p) = along (pp_ctx p)" "pp_exited (observed p) = along (pp_exited p)"
  "pp_await (observed p) = along (pp_await p)" "pp_close_stdin (observed p) = along (pp_close_stdin p)"
  "pp_stderr (observed p) = along (pp_stderr p)" "pp_timer_first (observed p) d = along (pp_timer_first p d)"
  "pp_elapsed (observed p) = along (pp_elapsed p)" "pp_start (observed p) = along (pp_start p)"
  by (simp_all add: observed_def)

lemma observed_kill [simp]: "snd (pp_kill (observed p) s) = snd s"
  by (simp add: observed_def split: prod.splits)

lemma observed_send: "pp_send (observed p) r s = (e, s') \<Longrightarrow> snd s' = snd s @ [Request (rq_id r)]"
  by (auto simp: observed_def split: prod.splits)

lemma observed_receive:
  "pp_receive (observed p) s = (x, s') \<Longrightarrow> snd s' = snd s @ (case x of Replied r \<Rightarrow> [Reply] | _ \<Rightarrow> [])"
  by (auto simp: observed_def split: prod.splits reply.splits)

section \<open>Requests and replies in step\<close>

definition rounds :: "nat \<Rightarrow> traffic list" where
  "rounds n = concat (map (\<lambda>i. [Request (of_nat (Suc i)), Reply]) [0..<n])"

lemma rounds_Suc: "rounds (Suc n) = rounds n @ [Request (of_nat (Suc n)), Reply]"
  by (simp add: rounds_def)

lemma rounds_0 [simp]: "rounds 0 = []"
  by (simp add: rounds_def)

text \<open>
  In step: every request, numbered from 1, had its reply before the next one was sent; only a closed
  tool may have sent a last request without a reply.
\<close>

definition in_step :: "external_tool \<Rightarrow> traffic list \<Rightarrow> bool" where
  "in_step t l \<longleftrightarrow>
     (\<exists>n. l = rounds n \<and> et_id t = of_nat n \<or> et_closed t \<and> l = rounds n @ [Request (of_nat (Suc n))])"

lemma kill_snd: "snd (kill_process (observed p) t s) = snd s"
  by (auto simp: kill_process_def split: prod.split bool.split dest: along_snd)

lemma wait_snd: "wait_process (observed p) s = (r, s') \<Longrightarrow> snd s' = snd s"
  by (auto simp: wait_process_def split: prod.splits attempt.splits exit_result.splits dest: along_snd)

lemma wrap_snd: "wrap_process_error (observed p) e s = (e', s') \<Longrightarrow> snd s' = snd s"
  by (auto simp: wrap_process_error_def split: prod.splits dest: along_snd)

lemma break_off_step:
  assumes "break_off (observed p) t result s = ((r, t'), s')" "\<And>s a s'. result s = (a, s') \<Longrightarrow> snd s' = snd s"
  shows "t' = mark_broken t \<and> snd s' = snd s"
  using assms by (auto simp: break_off_def Let_def kill_snd split: prod.splits attempt.splits dest!: wait_snd)

lemma fail_protocol_step:
  assumes "fail_protocol (observed p) t message s = ((r, t'), s')"
  shows "t' = mark_broken t \<and> snd s' = snd s"
  using assms unfolding fail_protocol_def
  by (rule break_off_step) (auto split: prod.splits dest: wrap_snd)

lemma receive_step:
  assumes "receive_reply (observed p) method decode i t s = ((r, t'), s')"
  shows "(t' = t \<and> snd s' = snd s @ [Reply]) \<or> (t' = mark_broken t \<and> (snd s' = snd s \<or> snd s' = snd s @ [Reply]))"
proof -
  obtain x s1 where x: "pp_receive (observed p) s = (x, s1)" by (metis surj_pair)
  note l = observed_receive [OF x]
  show ?thesis
  proof (cases x)
    case (ContextEnded e)
    with assms x have "break_off (observed p) t
        (\<lambda>w. (Inl (Wrapped (''external plugin '' @ method @ '' timeout: '' @ error_text e) e), w)) s1 = ((r, t'), s')"
      by (simp add: receive_reply_def)
    from break_off_step [OF this] l ContextEnded show ?thesis by simp
  next
    case (Unreadable e)
    with assms x have "break_off (observed p) t
        (\<lambda>w. case wrap_process_error (observed p) (Wrapped (''decode '' @ method @ '' response: '' @ error_text e) e) w of
               (e1, w2) \<Rightarrow> (Inl e1, w2)) s1 = ((r, t'), s')"
      by (simp add: receive_reply_def)
    then have "t' = mark_broken t \<and> snd s' = snd s1" by (rule break_off_step) (auto split: prod.splits dest: wrap_snd)
    with l Unreadable show ?thesis by simp
  next
    case (Replied a)
    with assms x l show ?thesis
      by (auto simp: receive_reply_def split: if_splits option.splits sum.splits prod.splits
          dest!: fail_protocol_step dest: wrap_snd)
  qed
qed

lemma call_step:
  assumes "call_internal (observed p) method params decode ignore t s = ((r, t'), s')"
    and "snd s = rounds n" "et_id t = of_nat n"
  shows "in_step t' (snd s') \<and> (et_closed t \<longrightarrow> et_closed t') \<and>
    (et_closed t' \<or> (\<exists>m. snd s' = rounds m \<and> et_id t' = of_nat m))"
proof -
  obtain c s1 where c: "pp_ctx (observed p) s = (c, s1)" by (metis surj_pair)
  then have s1: "snd s1 = rounds n" using assms(2) by (auto dest: along_snd)
  show ?thesis
  proof (cases "c = None \<and> \<not> (et_closed t \<and> \<not> ignore)")
    case False
    with assms c s1 show ?thesis by (auto simp: call_defs in_step_def split: option.splits if_splits)
  next
    case True
    let ?i = "et_id t + 1"
    let ?t = "t\<lparr>et_id := ?i\<rparr>"
    let ?r = "\<lparr>rq_jsonrpc = jsonrpc_version, rq_id = ?i, rq_method = method, rq_params = params\<rparr>"
    obtain e s2 where e: "pp_send (observed p) ?r s1 = (e, s2)" by (metis surj_pair)
    have s2: "snd s2 = rounds n @ [Request (of_nat (Suc n))]" using observed_send [OF e] s1 assms(3) by (simp add: add.commute)
    have i: "?i = of_nat (Suc n)" using assms(3) by simp
    show ?thesis
    proof (cases e)
      case (Some err)
      with True assms(1) c e have "et_closed t'" "snd s' = snd s2"
        by (auto simp: call_defs mark_broken_def Let_def split: prod.splits dest!: wrap_snd)
      with s2 show ?thesis unfolding in_step_def by auto
    next
      case None
      with True assms(1) c e have "receive_reply (observed p) method decode ?i ?t s2 = ((r, t'), s')"
        by (auto simp: call_defs Let_def split: if_splits)
      from receive_step [OF this]
      consider "t' = ?t" "snd s' = snd s2 @ [Reply]" | "et_closed t'" "et_id t' = ?i" "snd s' = snd s2 @ [Reply]"
        | "et_closed t'" "snd s' = snd s2"
        by (auto simp: mark_broken_def)
      then show ?thesis
      proof cases
        case 1
        then have "snd s' = rounds (Suc n)" "et_id t' = of_nat (Suc n)" "et_closed t \<longrightarrow> et_closed t'"
          using s2 i by (simp_all add: rounds_Suc)
        then show ?thesis unfolding in_step_def by blast
      next
        case 2
        then have "snd s' = rounds (Suc n)" "et_id t' = of_nat (Suc n)" using s2 i by (simp_all add: rounds_Suc)
        with 2 show ?thesis unfolding in_step_def by blast
      next
        case 3
        with s2 show ?thesis unfolding in_step_def by auto
      qed
    qed
  qed
qed

text \<open>The invariant of a tool and the traffic of its process.\<close>

definition lockstep :: "external_tool \<Rightarrow> traffic list \<Rightarrow> bool" where
  "lockstep t l \<longleftrightarrow> in_step t l \<and> (et_closed t \<or> (\<exists>n. l = rounds n \<and> et_id t = of_nat n))"

lemma lockstep_open: "lockstep t l \<Longrightarrow> \<not> et_closed t \<Longrightarrow> \<exists>n. l = rounds n \<and> et_id t = of_nat n"
  by (simp add: lockstep_def)

lemma lockstep_cong:
  "et_id t' = et_id t \<Longrightarrow> (et_closed t \<longrightarrow> et_closed t') \<Longrightarrow> lockstep t l \<Longrightarrow> lockstep t' l"
  by (auto simp: lockstep_def in_step_def)

lemma call_lockstep:
  assumes "call_internal (observed p) method params decode ignore t s = ((r, t'), s')"
    and "snd s = rounds n" "et_id t = of_nat n"
  shows "lockstep t' (snd s') \<and> (et_closed t \<longrightarrow> et_closed t')"
  using call_step [OF assms] by (auto simp: lockstep_def)

lemma health_step:
  assumes "external_health (observed p) timeout t s = ((e, t'), s')"
  shows "snd s' = snd s \<and> et_id t' = et_id t \<and> et_closed t' = et_closed t"
  using assms
  by (auto simp: external_health_def record_health_failure_def Let_def split: prod.splits bool.splits if_splits dest!: along_snd)

lemma execute_lockstep:
  assumes "external_execute (observed p) call t s = ((r, t'), s')" "lockstep t (snd s)"
  shows "lockstep t' (snd s')"
proof (cases "et_closed t")
  case True
  with assms show ?thesis by (auto simp: external_execute_def Let_def split: prod.splits dest!: along_snd)
next
  case False
  obtain h t1 s1 where h: "external_health (observed p) 0 t s = ((h, t1), s1)" by (metis surj_pair)
  note hs = health_step [OF h]
  show ?thesis
  proof (cases h)
    case (Some e)
    with False assms h have "t' = t1" "snd s' = snd s1"
      by (auto simp: external_execute_def Let_def split: prod.splits dest!: along_snd)
    with hs assms(2) lockstep_cong [of t1 t "snd s"] show ?thesis by simp
  next
    case None
    obtain r2 t2 s2 where c: "call_internal (observed p) method_tool_execute (Some (execute_params call))
        (pp_decode_execute (observed p)) False t1 s1 = ((r2, t2), s2)" by (metis surj_pair)
    from lockstep_open [OF assms(2) False] hs obtain n where "snd s1 = rounds n" "et_id t1 = of_nat n" by auto
    from call_lockstep [OF c this] have l: "lockstep t2 (snd s2)" by simp
    have "t' = t2 \<and> snd s' = snd s2"
      using False None assms(1) h c
      by (auto simp: external_execute_def Let_def split: prod.splits attempt.splits sum.splits dest!: along_snd)
    with l show ?thesis by simp
  qed
qed

lemma close_stdin_step:
  "close_stdin (observed p) t s = ((e, t'), s') \<Longrightarrow> snd s' = snd s \<and> et_id t' = et_id t \<and> et_closed t' = et_closed t"
  by (auto simp: close_stdin_def split: if_splits prod.splits dest!: along_snd)

lemma kill_and_return_step: "kill_and_return (observed p) e t s = ((r, t'), s') \<Longrightarrow> snd s' = snd s \<and> t' = t"
  by (auto simp: kill_and_return_def kill_snd split: prod.splits attempt.splits dest!: wait_snd)

lemma finish_close_step:
  "finish_close (observed p) t s = ((r, t'), s') \<Longrightarrow> snd s' = snd s \<and> et_id t' = et_id t \<and> et_closed t' = et_closed t"
  by (auto simp: finish_close_def split: prod.splits option.splits dest!: wait_snd close_stdin_step kill_and_return_step)

lemma close_lockstep:
  assumes "external_close (observed p) t s = ((r, t'), s')" "lockstep t (snd s)"
  shows "lockstep t' (snd s') \<and> et_closed t'"
proof (cases "et_closed t")
  case True
  with assms show ?thesis by (simp add: external_close_def)
next
  case False
  let ?t = "t\<lparr>et_closed := True\<rparr>"
  obtain x s1 where x: "pp_exited (observed p) s = (x, s1)" by (metis surj_pair)
  then have s1: "snd s1 = snd s" by (simp add: along_snd)
  from lockstep_open [OF assms(2) False] obtain n where n: "snd s = rounds n" "et_id t = of_nat n" by blast
  show ?thesis
  proof (cases x)
    case True
    with False assms(1) x have "finish_close (observed p) ?t s1 = ((r, t'), s')" by (simp add: external_close_def Let_def)
    with finish_close_step [OF this] s1 assms(2) lockstep_cong [of t' t "snd s"] show ?thesis by simp
  next
    case False': False
    obtain r2 t2 s2 where c: "call_internal (observed p) method_shutdown None
        (\<lambda>b. case pp_decode_bool (observed p) b of Some e \<Rightarrow> Inl e | None \<Rightarrow> Inr ()) True ?t s1 = ((r2, t2), s2)" by (metis surj_pair)
    have l: "lockstep t2 (snd s2) \<and> et_closed t2" using call_lockstep [OF c, of n] n s1 by simp
    have "snd s' = snd s2 \<and> et_id t' = et_id t2 \<and> et_closed t' = et_closed t2"
      using False False' assms(1) x c
      by (auto simp: external_close_def Let_def split: attempt.splits sum.splits if_splits
          dest!: finish_close_step kill_and_return_step)
    with l lockstep_cong [of t' t2 "snd s2"] show ?thesis by simp
  qed
qed

section \<open>Operations and their sequences\<close>

datatype external_op = ExecuteOp tool_call | HealthOp duration | CloseOp

definition external_apply :: "'w plugin_process \<Rightarrow> external_op \<Rightarrow> external_tool \<times> 'w \<Rightarrow> external_tool \<times> 'w" where
  "external_apply p x s =
     (case x of
        ExecuteOp call \<Rightarrow> (case external_execute p call (fst s) (snd s) of ((r, t), w) \<Rightarrow> (t, w))
      | HealthOp timeout \<Rightarrow> (case external_health p timeout (fst s) (snd s) of ((r, t), w) \<Rightarrow> (t, w))
      | CloseOp \<Rightarrow> (case external_close p (fst s) (snd s) of ((r, t), w) \<Rightarrow> (t, w)))"

lemma apply_lockstep:
  assumes "lockstep t (snd s)"
  shows "case external_apply (observed p) x (t, s) of (t', s') \<Rightarrow> lockstep t' (snd s') \<and> (et_closed t \<longrightarrow> et_closed t')"
proof -
  have "et_closed t \<Longrightarrow> external_execute (observed p) call t s = ((r, t'), s') \<Longrightarrow> et_closed t'" for call r t' s'
    by (auto simp: external_execute_def Let_def split: prod.splits)
  with assms show ?thesis
    by (cases x)
      (auto simp: external_apply_def split: prod.splits dest!: health_step
        dest: execute_lockstep close_lockstep intro: lockstep_cong)
qed

lemma apply_all_lockstep:
  assumes "lockstep t (snd s)"
  shows "case fold (external_apply (observed p)) xs (t, s) of (t', s') \<Rightarrow> lockstep t' (snd s') \<and> (et_closed t \<longrightarrow> et_closed t')"
  using assms
proof (induction xs arbitrary: t s)
  case (Cons x xs)
  obtain t1 s1 where x: "external_apply (observed p) x (t, s) = (t1, s1)" by (metis surj_pair)
  with apply_lockstep [OF Cons.prems, of p x] have l: "lockstep t1 (snd s1)" "et_closed t \<longrightarrow> et_closed t1" by simp_all
  from Cons.IH [OF l(1)] l(2) x show ?case by (auto split: prod.splits)
qed simp

lemma initialize_lockstep:
  assumes "external_initialize (observed p) t s = ((r, t'), s')" "snd s = rounds n" "et_id t = of_nat n"
  shows "lockstep t' (snd s')"
proof -
  obtain r1 t1 s1 where c1: "call_internal (observed p) method_initialize (Some (InitializeParams contract_version))
      (\<lambda>b. case pp_decode_reply (observed p) b of Some e \<Rightarrow> Inl e | None \<Rightarrow> Inr ()) False t s = ((r1, t1), s1)" by (metis surj_pair)
  note l1 = call_lockstep [OF c1 assms(2,3)]
  obtain r2 t2 s2 where c2: "call_internal (observed p) method_tool_info None (pp_decode_info (observed p)) False t1 s1 = ((r2, t2), s2)"
    by (metis surj_pair)
  have l2: "lockstep t2 (snd s2)"
  proof (cases "et_closed t1")
    case True
    with c2 l1 show ?thesis by (auto simp: call_defs split: prod.splits option.splits dest!: along_snd)
  next
    case False
    from lockstep_open [OF conjunct1 [OF l1] False] call_lockstep [OF c2] show ?thesis by blast
  qed
  have "(t' = t1 \<and> s' = s1) \<or> (et_id t' = et_id t2 \<and> et_closed t' = et_closed t2 \<and> s' = s2)"
    using assms(1) c1 c2 by (auto simp: external_initialize_def Let_def split: attempt.splits sum.splits if_splits)
  with l1 l2 lockstep_cong [of t' t2 "snd s2"] show ?thesis by auto
qed

text \<open>
  C30. Requests and replies of an external plugin stay in step while its operations are called one after
  another.  From the start of its process on, through the handshake and any sequence of
  executions, health checks and closes, whatever the process answers: the requests are numbered
  1, 2, ... (as 64-bit numbers), each is sent only after the reply to the one before was read, and as
  soon as a reply is missing the tool is closed and nothing more is sent.  (Calls that overlap can break
  this: \<open>late_call_sends\<close>.)
\<close>

theorem external_lockstep:
  "case external_initialize (observed p) new_external_tool (w, []) of
     ((r, t), s) \<Rightarrow>
       (case fold (external_apply (observed p)) xs (t, s) of
          (t', s') \<Rightarrow>
            (\<exists>n. snd s' = rounds n \<or> et_closed t' \<and> snd s' = rounds n @ [Request (of_nat (Suc n))]) \<and>
            et_closed t' = (et_closed t \<or> et_closed t'))"
proof -
  obtain r t s where i: "external_initialize (observed p) new_external_tool (w, []) = ((r, t), s)" by (metis surj_pair)
  have "lockstep t (snd s)"
    using initialize_lockstep [OF i, of 0] by (simp add: new_external_tool_def)
  from apply_all_lockstep [OF this, of p xs] show ?thesis
    unfolding i by (auto simp: lockstep_def in_step_def split: prod.splits)
qed

text \<open>
  A call that was admitted while the tool was open and then waited for the lock sends its request all
  the same after the call before it found no reply and closed the tool.
\<close>

lemma late_call_sends:
  assumes "call_admitted (observed p) False t s = (None, s1)"
    and "call_admitted (observed p) False t s1 = (None, s2)"
    and "rpc_exchange (observed p) m1 params1 decode1 t s2 = ((r1, t1), s3)" "et_closed t1"
    and "rpc_exchange (observed p) m2 params2 decode2 t1 s3 = ((r2, t2), s4)"
  shows "\<not> et_closed t \<and> (\<exists>l. snd s4 = snd s3 @ Request (et_id t1 + 1) # l)"
proof -
  have "\<not> et_closed t" using assms(1) by (auto simp: call_admitted_def split: prod.splits option.splits if_splits)
  moreover obtain e s5 where e: "pp_send (observed p)
      \<lparr>rq_jsonrpc = jsonrpc_version, rq_id = et_id t1 + 1, rq_method = m2, rq_params = params2\<rparr> s3 = (e, s5)"
    by (metis surj_pair)
  have "\<exists>l. snd s4 = snd s5 @ l"
  proof (cases e)
    case (Some x)
    with assms(5) e show ?thesis by (auto simp: rpc_exchange_def Let_def split: prod.splits dest!: wrap_snd)
  next
    case None
    with assms(5) e have "receive_reply (observed p) m2 decode2 (et_id t1 + 1) (t1\<lparr>et_id := et_id t1 + 1\<rparr>) s5 = ((r2, t2), s4)"
      by (simp add: rpc_exchange_def Let_def)
    from receive_step [OF this] show ?thesis by auto
  qed
  ultimately show ?thesis using observed_send [OF e] by auto
qed

section \<open>A leak\<close>

text \<open>
  C31. A plugin whose input cannot be written is never stopped.  When sending a request fails, the tool
  is marked as closed but its process is neither killed nor waited for, and the \<^verbatim>\<open>Close\<close> that follows
  returns without an error and does nothing: the state of the process is that after the failed send.
\<close>

theorem failed_send_leaks:
  assumes "\<not> et_closed t" "pp_ctx p w = (None, w)" "\<And>r. pp_send p r w = (Some err, w)" "pp_stderr p w = ([], w)"
  shows "case call_internal p method params decode False t w of
      ((r, t'), w') \<Rightarrow> w' = w \<and> (\<exists>e. r = Done (Inl e)) \<and> external_close p t' w' = ((Done None, t'), w')"
  using assms by (simp add: call_defs wrap_process_error_def mark_broken_def external_close_def Let_def)

text \<open>A process that runs on with its input closed; the state is whether it is still running.\<close>

definition deaf_process :: "bool plugin_process" where
  "deaf_process =
     \<lparr>pp_start = (\<lambda>w. (None, w)), pp_ctx = (\<lambda>w. (None, w)), pp_send = (\<lambda>r w. (Some (Message ''broken pipe''), w)),
      pp_receive = (\<lambda>w. (ContextEnded DeadlineExceeded, w)), pp_exited = (\<lambda>w. (\<not> w, w)), pp_kill = (\<lambda>w. False),
      pp_await = (\<lambda>w. (if w then Blocks else Done ExitStatus, w)), pp_close_stdin = (\<lambda>w. (None, w)),
      pp_stderr = (\<lambda>w. ([], w)), pp_timer_first = (\<lambda>d w. (False, w)), pp_elapsed = (\<lambda>w. (1, w)),
      pp_decode_reply = (\<lambda>s. None), pp_decode_info = (\<lambda>s. Inr empty_info),
      pp_decode_execute = (\<lambda>s. Inl (Message ''not used'')), pp_decode_bool = (\<lambda>s. None)\<rparr>"

lemma failed_send_leaks_witness:
  "snd (call_internal deaf_process method_tool_execute None (pp_decode_execute deaf_process) False new_external_tool True)"
proof -
  have "\<not> et_closed new_external_tool" "pp_ctx deaf_process True = (None, True)"
    "\<And>r. pp_send deaf_process r True = (Some (Message ''broken pipe''), True)" "pp_stderr deaf_process True = ([], True)"
    by (simp_all add: new_external_tool_def deaf_process_def)
  from failed_send_leaks [OF this, of method_tool_execute None "pp_decode_execute deaf_process"] show ?thesis
    by (auto split: prod.splits)
qed

end
