(* ===== verification/Sse.thy ===== *)
theory Sse
  imports Prelude
begin

text \<open>
  Server-sent events (\<^verbatim>\<open>internal/llm/sse.go\<close>): the lines of a body as \<^verbatim>\<open>bufio.Scanner\<close> yields them,
  and the data events they make up.

  A body is the bytes that can be read from it and the error, if any, that ends the reading.  The
  context and the receiver of the events act on a state \<^typ>\<open>'w\<close>, so that the context may answer
  differently each time it is asked.
\<close>

section \<open>Lines\<close>

definition line_feed :: char where "line_feed = CHR 0x0A"
definition carriage_return :: char where "carriage_return = CHR 0x0D"

definition drop_cr :: "string \<Rightarrow> string" where
  "drop_cr line = (if line \<noteq> [] \<and> last line = carriage_return then butlast line else line)"

definition raw_lines :: "string \<Rightarrow> string list" where
  "raw_lines body = (let ls = split_on line_feed body in if last ls = [] then butlast ls else ls)"

definition token_too_long :: go_error where
  "token_too_long = Message ''bufio.Scanner: token too long''"

definition max_line :: nat where "max_line = 1024 * 1024"

text \<open>A line that does not fit into the buffer with its line feed ends the scan.\<close>

definition scan_body :: "string \<Rightarrow> go_error option \<Rightarrow> string list \<times> go_error option" where
  "scan_body body read_error =
     (let ls = raw_lines body; short = takeWhile (\<lambda>l. length l < max_line) ls in
      (map drop_cr short, if length short < length ls then Some token_too_long else read_error))"

section \<open>Events\<close>

definition sse_done_marker :: string where "sse_done_marker = ''[DONE]''"

definition io_eof :: go_error where "io_eof = Message ''EOF''"

text \<open>\<^verbatim>\<open>flush\<close>; the buffered lines are cleared by its callers.\<close>

definition sse_flush ::
  "('w \<Rightarrow> go_error option \<times> 'w) \<Rightarrow> (string \<Rightarrow> 'w \<Rightarrow> go_error option \<times> 'w) \<Rightarrow> string list \<Rightarrow> 'w
     \<Rightarrow> go_error option \<times> 'w" where
  "sse_flush ctx emit data w =
     (if data = [] then (None, w)
      else if join_str newline data = sse_done_marker then (Some io_eof, w)
      else (case ctx w of
              (Some e, w1) \<Rightarrow> (Some e, w1)
            | (None, w1) \<Rightarrow> emit (join_str newline data) w1))"

definition eof_is_end :: "go_error \<Rightarrow> go_error option" where
  "eof_is_end e = (if e = io_eof then None else Some e)"

definition data_of_line :: "string \<Rightarrow> string" where
  "data_of_line line = trim_prefix '' '' (trim_prefix ''data:'' line)"

fun sse_lines ::
  "('w \<Rightarrow> go_error option \<times> 'w) \<Rightarrow> (string \<Rightarrow> 'w \<Rightarrow> go_error option \<times> 'w) \<Rightarrow> go_error option \<Rightarrow> string list
     \<Rightarrow> string list \<Rightarrow> 'w \<Rightarrow> go_error option \<times> 'w" where
  "sse_lines ctx emit scan_error data [] w =
     (case scan_error of
        Some e \<Rightarrow> (Some e, w)
      | None \<Rightarrow>
          (case sse_flush ctx emit data w of
             (Some e, w1) \<Rightarrow> (eof_is_end e, w1)
           | (None, w1) \<Rightarrow> ctx w1))"
| "sse_lines ctx emit scan_error data (line # lines) w =
     (case ctx w of
        (Some e, w1) \<Rightarrow> (Some e, w1)
      | (None, w1) \<Rightarrow>
          if line = [] then
            (case sse_flush ctx emit data w1 of
               (Some e, w2) \<Rightarrow> (eof_is_end e, w2)
             | (None, w2) \<Rightarrow> sse_lines ctx emit scan_error [] lines w2)
          else if has_prefix '':'' line then sse_lines ctx emit scan_error data lines w1
          else if \<not> has_prefix ''data:'' line then sse_lines ctx emit scan_error data lines w1
          else sse_lines ctx emit scan_error (data @ [data_of_line line]) lines w1)"

definition parse_sse ::
  "('w \<Rightarrow> go_error option \<times> 'w) \<Rightarrow> string \<times> go_error option \<Rightarrow> (string \<Rightarrow> 'w \<Rightarrow> go_error option \<times> 'w) \<Rightarrow> 'w
     \<Rightarrow> go_error option \<times> 'w" where
  "parse_sse ctx body emit w =
     (let (lines, scan_error) = scan_body (fst body) (snd body) in sse_lines ctx emit scan_error [] lines w)"

end
