(* ===== verification/Llm_Client.thy ===== *)
theory Llm_Client
  imports Sse Events Go_Text
begin

text \<open>
  What the model providers of \<^verbatim>\<open>internal/llm\<close> share: requests and responses (\<^verbatim>\<open>provider.go\<close>), the
  HTTP exchange they are built on, the retry loop of their calls, and the streaming of a completed
  response (\<^verbatim>\<open>streaming.go\<close>).

  The HTTP client, the context and the clock act on a state \<^typ>\<open>'w\<close>; the decoders stand for
  \<^verbatim>\<open>json.Unmarshal\<close> into the provider's structs.  A request body is kept as the value that is
  marshalled; these values hold strings, numbers and flags only, so marshalling them does not fail.
\<close>

section \<open>Requests and responses\<close>

record llm_request =
  rq_system :: string
  rq_input :: string

record llm_response =
  rs_model :: string
  rs_output :: string
  rs_stop_reason :: string

record chat_message =
  cm_role :: string
  cm_content :: string

record error_envelope =
  env_type :: string
  env_message :: string

text \<open>The bodies of the chat completion endpoint and of the messages endpoint.\<close>

record chat_body =
  cb_model :: string
  cb_messages :: "chat_message list"
  cb_stream :: bool

record messages_body =
  mb_model :: string
  mb_system :: string
  mb_messages :: "chat_message list"
  mb_max_tokens :: int
  mb_stream :: bool

text \<open>\<^verbatim>\<open>dashScopeGenerateRequest\<close>: a message holds a list of typed blocks.\<close>

record text_block =
  tb_type :: string
  tb_text :: string

record blocks_body =
  bb_model :: string
  bb_system :: string
  bb_messages :: "(string \<times> text_block list) list"
  bb_max_tokens :: int
  bb_stream :: bool

datatype request_body = ChatBody chat_body | MessagesBody messages_body | BlocksBody blocks_body

text \<open>Decoded responses; \<open>ar_\<close> is both \<^verbatim>\<open>anthropicGenerateResponse\<close> and \<^verbatim>\<open>dashScopeGenerateResponse\<close>.\<close>

record chat_choice =
  oc_message :: chat_message
  oc_delta :: chat_message
  oc_finish_reason :: string

record chat_response =
  or_model :: string
  or_choices :: "chat_choice list"
  or_error :: "error_envelope option"

record messages_response =
  ar_content :: "text_block list"
  ar_stop_reason :: string
  ar_model :: string
  ar_error :: "error_envelope option"

record messages_event =
  ae_type :: string
  ae_delta :: "string option"
  ae_error :: "error_envelope option"

section \<open>The HTTP exchange\<close>

record http_request =
  hr_url :: string
  hr_headers :: "(string \<times> string) list"
  hr_body :: request_body

record http_response =
  hs_status :: int
  hs_body :: string
  hs_read_error :: "go_error option"

record 'w llm_env =
  le_request_error :: "string \<Rightarrow> go_error option"
  le_do :: "http_request \<Rightarrow> 'w \<Rightarrow> (go_error, http_response) result \<times> 'w"
  le_ctx :: "'w \<Rightarrow> go_error option \<times> 'w"
  le_wait :: "duration \<Rightarrow> 'w \<Rightarrow> go_error option \<times> 'w"
  le_now :: "'w \<Rightarrow> gotime \<times> 'w"
  le_chat :: "string \<Rightarrow> (go_error, chat_response) result"
  le_messages :: "string \<Rightarrow> (go_error, messages_response) result"
  le_event :: "string \<Rightarrow> (go_error, messages_event) result"

type_synonym 'w emitter = "streaming_event \<Rightarrow> 'w \<Rightarrow> go_error option \<times> 'w"

definition wrap_text :: "string \<Rightarrow> go_error \<Rightarrow> go_error" where
  "wrap_text t e = Wrapped (t @ error_text e) e"

text \<open>\<^verbatim>\<open>http.NewRequestWithContext\<close> and \<^verbatim>\<open>Do\<close>; the error of the first is marked as such.\<close>

datatype sent = NotCreated go_error | NotSent go_error | Answered http_response

definition post :: "'w llm_env \<Rightarrow> http_request \<Rightarrow> 'w \<Rightarrow> sent \<times> 'w" where
  "post env r w =
     (case le_request_error env (hr_url r) of
        Some e \<Rightarrow> (NotCreated e, w)
      | None \<Rightarrow> (case le_do env r w of (Inl e, w1) \<Rightarrow> (NotSent e, w1) | (Inr a, w1) \<Rightarrow> (Answered a, w1)))"

definition json_headers :: "bool \<Rightarrow> (string \<times> string) list" where
  "json_headers stream =
     [(''Content-Type'', ''application/json''),
      (''Accept'', if stream then ''text/event-stream'' else ''application/json'')]"

definition success_status :: "int \<Rightarrow> bool" where
  "success_status s \<longleftrightarrow> 200 \<le> s \<and> s < 300"

definition retry_status :: "int \<Rightarrow> bool" where
  "retry_status s \<longleftrightarrow> s = 429 \<or> 500 \<le> s"

text \<open>A step of the environment beside a record it does not know of.\<close>

definition beside :: "('w \<Rightarrow> 'a \<times> 'w) \<Rightarrow> 'w \<times> 'l \<Rightarrow> 'a \<times> ('w \<times> 'l)" where
  "beside f s = (case f (fst s) of (a, w) \<Rightarrow> (a, (w, snd s)))"

lemma beside_snd: "beside f s = (a, s') \<Longrightarrow> snd s' = snd s"
  by (auto simp: beside_def split: prod.splits)

section \<open>The retry loop\<close>

text \<open>
  \<^verbatim>\<open>for attempt := 0; ; attempt++\<close> as the providers write it: an attempt either settles the call, or
  may be retried, with the result it has when no retry is left.  \<open>wait\<close> is the back-off, whose error
  ends the call.
\<close>

datatype 'a attempt_verdict = Settled 'a | Retryable 'a

function retry_loop ::
  "nat \<Rightarrow> (nat \<Rightarrow> 'w \<Rightarrow> go_error option \<times> 'w) \<Rightarrow> (go_error \<Rightarrow> 'a) \<Rightarrow> ('w \<Rightarrow> 'a attempt_verdict \<times> 'w) \<Rightarrow> nat \<Rightarrow> 'w \<Rightarrow> 'a \<times> 'w" where
  "retry_loop max_retries wait stopped attempt_call attempt w =
     (case attempt_call w of
        (Settled r, w1) \<Rightarrow> (r, w1)
      | (Retryable r, w1) \<Rightarrow>
          if attempt < max_retries then
            (case wait attempt w1 of
               (Some e, w2) \<Rightarrow> (stopped e, w2)
             | (None, w2) \<Rightarrow> retry_loop max_retries wait stopped attempt_call (Suc attempt) w2)
          else (r, w1))"
  by pat_completeness auto
termination
  by (relation "measure (\<lambda>(max_retries, wait, stopped, attempt_call, attempt, w). max_retries - attempt)") auto

declare retry_loop.simps [simp del]

section \<open>Events\<close>

definition emit_token :: "'w llm_env \<Rightarrow> 'w emitter \<Rightarrow> string \<Rightarrow> 'w \<Rightarrow> go_error option \<times> 'w" where
  "emit_token env emit content w = (let (now, w1) = le_now env w in emit (token_delta 0 content now) w1)"

definition emit_complete :: "'w llm_env \<Rightarrow> 'w emitter \<Rightarrow> 'w \<Rightarrow> go_error option \<times> 'w" where
  "emit_complete env emit w = (let (now, w1) = le_now env w in emit (session_complete [] ''success'' now) w1)"

text \<open>A stream of tokens that ends without error is followed by the completion.\<close>

definition then_complete :: "'w llm_env \<Rightarrow> 'w emitter \<Rightarrow> go_error option \<times> 'w \<Rightarrow> go_error option \<times> 'w" where
  "then_complete env emit r = (case r of (Some e, w) \<Rightarrow> (Some e, w) | (None, w) \<Rightarrow> emit_complete env emit w)"

definition stream_fallback ::
  "'w llm_env \<Rightarrow> (llm_request \<Rightarrow> 'w \<Rightarrow> (go_error, llm_response) result \<times> 'w) \<Rightarrow> llm_request \<Rightarrow> 'w emitter \<Rightarrow> 'w
     \<Rightarrow> go_error option \<times> 'w" where
  "stream_fallback env generate request emit w =
     (case le_ctx env w of
        (Some e, w1) \<Rightarrow> (Some e, w1)
      | (None, w1) \<Rightarrow>
          (case generate request w1 of
             (Inl e, w2) \<Rightarrow> (Some e, w2)
           | (Inr response, w2) \<Rightarrow>
               (case le_ctx env w2 of
                  (Some e, w3) \<Rightarrow> (Some e, w3)
                | (None, w3) \<Rightarrow>
                    (case emit_token env emit (rs_output response) w3 of
                       (Some e, w4) \<Rightarrow> (Some e, w4)
                     | (None, w4) \<Rightarrow>
                         (case le_ctx env w4 of
                            (Some e, w5) \<Rightarrow> (Some e, w5)
                          | (None, w5) \<Rightarrow> emit_complete env emit w5)))))"

end
