(* ===== verification/Providers.thy ===== *)
theory Providers
  imports Llm_Client
begin

text \<open>
  The model providers (\<^verbatim>\<open>openai.go\<close>, \<^verbatim>\<open>anthropic.go\<close> and \<^verbatim>\<open>dashscope.go\<close> of \<^verbatim>\<open>internal/llm\<close>): how a
  request is sent, what of the response is an error, what may be retried, and what is streamed.
\<close>

section \<open>Common parts\<close>

text \<open>\<^verbatim>\<open>strings.TrimRight(s, "/")\<close>.\<close>

definition trim_right_slash :: "string \<Rightarrow> string" where
  "trim_right_slash s = rev (dropWhile (\<lambda>c. c = CHR ''/'') (rev s))"

definition or_default :: "string \<Rightarrow> string \<Rightarrow> string" where
  "or_default s d = (if s = [] then d else s)"

text \<open>The checks every call begins with, for a provider of the given name.\<close>

definition config_error :: "string \<Rightarrow> string \<Rightarrow> string \<Rightarrow> string \<Rightarrow> go_error option" where
  "config_error name model base_url api_key =
     (if model = [] then Some (Message (name @ '' model must not be empty''))
      else if base_url = [] then Some (Message (name @ '' base URL must not be empty''))
      else if api_key = [] then Some (Message (name @ '' API key must not be empty''))
      else None)"

definition empty_chat :: chat_response where
  "empty_chat = \<lparr>or_model = [], or_choices = [], or_error = None\<rparr>"

definition empty_messages :: messages_response where
  "empty_messages = \<lparr>ar_content = [], ar_stop_reason = [], ar_model = [], ar_error = None\<rparr>"

text \<open>Why a stream failed; the code tells these apart by private error types.\<close>

datatype stream_failure = Plain go_error | TransportFailure go_error | RetryStatus int string

definition status_failed :: "string \<Rightarrow> int \<Rightarrow> string \<Rightarrow> go_error" where
  "status_failed what status message = Message (what @ '' failed with status '' @ show_int status @ '': '' @ message)"

text \<open>The text blocks of a response, trimmed, without the blank ones.\<close>

definition output_text :: "text_block list \<Rightarrow> string" where
  "output_text bs =
     join_str newline (filter (\<lambda>t. t \<noteq> []) (map (\<lambda>b. trim_space (tb_text b)) (filter (\<lambda>b. tb_type b = ''text'') bs)))"

section \<open>OpenAI\<close>

record openai_provider =
  op_api_key :: string
  op_base_url :: string
  op_model :: string
  op_max_retries :: nat

definition openai_default_base :: string where
  "openai_default_base = ''https://api.openai.com/v1''"

definition new_openai :: "string \<Rightarrow> string \<Rightarrow> string \<Rightarrow> openai_provider" where
  "new_openai api_key base_url model =
     \<lparr>op_api_key = trim_space api_key,
      op_base_url = or_default (trim_right_slash (trim_space base_url)) openai_default_base,
      op_model = trim_space model, op_max_retries = 2\<rparr>"

definition openai_error_message :: "chat_response \<Rightarrow> string" where
  "openai_error_message r =
     (case or_error r of
        None \<Rightarrow> ''request failed''
      | Some e \<Rightarrow>
          if trim_space (env_message e) \<noteq> [] then trim_space (env_message e)
          else if trim_space (env_type e) \<noteq> [] then trim_space (env_type e)
          else ''request failed'')"

definition chat_body_for :: "string \<Rightarrow> llm_request \<Rightarrow> bool \<Rightarrow> chat_body" where
  "chat_body_for model request stream =
     \<lparr>cb_model = model,
      cb_messages = [\<lparr>cm_role = ''system'', cm_content = rq_system request\<rparr>, \<lparr>cm_role = ''user'', cm_content = rq_input request\<rparr>],
      cb_stream = stream\<rparr>"

definition openai_send_request ::
  "'w llm_env \<Rightarrow> openai_provider \<Rightarrow> chat_body \<Rightarrow> bool \<Rightarrow> 'w \<Rightarrow> (go_error, http_response) result \<times> 'w" where
  "openai_send_request env p body stream w =
     (case post env
             \<lparr>hr_url = op_base_url p @ ''/chat/completions'',
              hr_headers = (''Authorization'', ''Bearer '' @ op_api_key p) # json_headers stream,
              hr_body = ChatBody body\<rparr> w of
        (NotCreated e, w1) \<Rightarrow> (Inl (wrap_text ''create openai request: '' e), w1)
      | (NotSent e, w1) \<Rightarrow> (Inl e, w1)
      | (Answered a, w1) \<Rightarrow> (Inr a, w1))"

definition openai_read_response :: "'w llm_env \<Rightarrow> http_response \<Rightarrow> bool \<Rightarrow> (go_error, chat_response) result" where
  "openai_read_response env a stream =
     (case hs_read_error a of
        Some e \<Rightarrow> Inl (wrap_text (if stream then ''read openai stream response: '' else ''read openai response: '') e)
      | None \<Rightarrow>
          if hs_body a = [] then Inr empty_chat
          else (case le_chat env (hs_body a) of
                  Inl e \<Rightarrow>
                    Inl (wrap_text (if stream then ''openai malformed stream response: '' else ''openai malformed response: '') e)
                | Inr r \<Rightarrow> Inr r))"

definition openai_backoff :: "'w llm_env \<Rightarrow> nat \<Rightarrow> 'w \<Rightarrow> go_error option \<times> 'w" where
  "openai_backoff env attempt = le_wait env (second * 2 ^ attempt)"

definition openai_transport_failed :: "go_error \<Rightarrow> go_error" where
  "openai_transport_failed = wrap_text ''openai transport failed: ''"

definition openai_interpret :: "openai_provider \<Rightarrow> chat_response \<Rightarrow> (go_error, llm_response) result" where
  "openai_interpret p r =
     (case or_choices r of
        [] \<Rightarrow> Inl (Message ''openai malformed response: choices must not be empty'')
      | c # cs \<Rightarrow>
          if blank (cm_content (oc_message c))
          then Inl (Message ''openai malformed response: message content must not be empty'')
          else Inr \<lparr>rs_model = or_default (or_model r) (op_model p), rs_output = trim_space (cm_content (oc_message c)),
                 rs_stop_reason = oc_finish_reason c\<rparr>)"

definition openai_generate_once ::
  "'w llm_env \<Rightarrow> openai_provider \<Rightarrow> chat_body \<Rightarrow> 'w \<Rightarrow> (go_error, llm_response) result attempt_verdict \<times> 'w" where
  "openai_generate_once env p body w =
     (case openai_send_request env p body False w of
        (Inl e, w1) \<Rightarrow> (Retryable (Inl (openai_transport_failed e)), w1)
      | (Inr a, w1) \<Rightarrow>
          (case openai_read_response env a False of
             Inl e \<Rightarrow> (Retryable (Inl (openai_transport_failed e)), w1)
           | Inr r \<Rightarrow>
               (let s = hs_status a; message = openai_error_message r in
                (if s = 401 then Settled (Inl (Message (''openai authentication failed: '' @ message)))
                 else if retry_status s then Retryable (Inl (status_failed ''openai request'' s message))
                 else if \<not> success_status s then Settled (Inl (status_failed ''openai request'' s message))
                 else Settled (openai_interpret p r), w1))))"

definition openai_generate ::
  "'w llm_env \<Rightarrow> openai_provider \<Rightarrow> llm_request \<Rightarrow> 'w \<Rightarrow> (go_error, llm_response) result \<times> 'w" where
  "openai_generate env p request w =
     (case config_error ''openai'' (op_model p) (op_base_url p) (op_api_key p) of
        Some e \<Rightarrow> (Inl e, w)
      | None \<Rightarrow>
          retry_loop (op_max_retries p) (openai_backoff env) (\<lambda>e. Inl (openai_transport_failed e))
            (openai_generate_once env p (chat_body_for (op_model p) request False)) 0 w)"

text \<open>One data event of a stream: a token for each choice whose content is not blank.\<close>

fun openai_emit_choices :: "'w llm_env \<Rightarrow> 'w emitter \<Rightarrow> chat_choice list \<Rightarrow> 'w \<Rightarrow> go_error option \<times> 'w" where
  "openai_emit_choices env emit [] w = (None, w)"
| "openai_emit_choices env emit (c # cs) w =
     (if blank (cm_content (oc_delta c)) then openai_emit_choices env emit cs w
      else (case emit_token env emit (cm_content (oc_delta c)) w of
              (Some e, w1) \<Rightarrow> (Some e, w1)
            | (None, w1) \<Rightarrow> openai_emit_choices env emit cs w1))"

definition openai_chunk :: "'w llm_env \<Rightarrow> 'w emitter \<Rightarrow> string \<Rightarrow> 'w \<Rightarrow> go_error option \<times> 'w" where
  "openai_chunk env emit chunk w =
     (case le_chat env chunk of
        Inl e \<Rightarrow> (Some (wrap_text ''openai malformed stream response: '' e), w)
      | Inr r \<Rightarrow> openai_emit_choices env emit (or_choices r) w)"

definition openai_handle_stream ::
  "'w llm_env \<Rightarrow> http_response \<Rightarrow> 'w emitter \<Rightarrow> 'w \<Rightarrow> stream_failure option \<times> 'w" where
  "openai_handle_stream env a emit w =
     (let s = hs_status a in
      if s = 401 \<or> retry_status s \<or> \<not> success_status s then
        (case openai_read_response env a True of
           Inl e \<Rightarrow> (Some (Plain e), w)
         | Inr r \<Rightarrow>
             (let message = openai_error_message r in
              (Some (if s = 401 then Plain (Message (''openai authentication failed: '' @ message))
                     else if retry_status s then RetryStatus s message
                     else Plain (status_failed ''openai stream request'' s message)), w)))
      else
        (case then_complete env emit (parse_sse (le_ctx env) (hs_body a, hs_read_error a) (openai_chunk env emit) w) of
           (Some e, w1) \<Rightarrow> (Some (Plain e), w1)
         | (None, w1) \<Rightarrow> (None, w1)))"

definition openai_stream_once ::
  "'w llm_env \<Rightarrow> openai_provider \<Rightarrow> chat_body \<Rightarrow> 'w emitter \<Rightarrow> 'w \<Rightarrow> go_error option attempt_verdict \<times> 'w" where
  "openai_stream_once env p body emit w =
     (case openai_send_request env p body True w of
        (Inl e, w1) \<Rightarrow> (Retryable (Some (openai_transport_failed e)), w1)
      | (Inr a, w1) \<Rightarrow>
          (case openai_handle_stream env a emit w1 of
             (None, w2) \<Rightarrow> (Settled None, w2)
           | (Some (RetryStatus s message), w2) \<Rightarrow>
               (Retryable (Some (status_failed ''openai stream request'' s message)), w2)
           | (Some (Plain e), w2) \<Rightarrow> (Settled (Some e), w2)
           | (Some (TransportFailure e), w2) \<Rightarrow> (Settled (Some e), w2)))"

definition openai_stream ::
  "'w llm_env \<Rightarrow> openai_provider \<Rightarrow> llm_request \<Rightarrow> 'w emitter \<Rightarrow> 'w \<Rightarrow> go_error option \<times> 'w" where
  "openai_stream env p request emit w =
     (case config_error ''openai'' (op_model p) (op_base_url p) (op_api_key p) of
        Some e \<Rightarrow> (Some e, w)
      | None \<Rightarrow>
          retry_loop (op_max_retries p) (openai_backoff env) (\<lambda>e. Some (openai_transport_failed e))
            (openai_stream_once env p (chat_body_for (op_model p) request True) emit) 0 w)"

section \<open>Anthropic\<close>

record anthropic_provider =
  an_api_key :: string
  an_base_url :: string
  an_model :: string
  an_max_retries :: nat
  an_api_version :: string
  an_backoff_base :: duration

definition anthropic_default_base :: string where
  "anthropic_default_base = ''https://api.anthropic.com/v1''"

definition new_anthropic :: "string \<Rightarrow> string \<Rightarrow> string \<Rightarrow> anthropic_provider" where
  "new_anthropic api_key base_url model =
     \<lparr>an_api_key = trim_space api_key,
      an_base_url = or_default (trim_right_slash (trim_space base_url)) anthropic_default_base,
      an_model = trim_space model, an_max_retries = 2, an_api_version = ''2023-06-01'', an_backoff_base = second\<rparr>"

text \<open>\<^verbatim>\<open>anthropicErrorMessage\<close>, and \<^verbatim>\<open>dashScopeErrorMessage\<close>, which is the same code.\<close>

definition messages_error_message :: "messages_response \<Rightarrow> string" where
  "messages_error_message r =
     (case ar_error r of
        None \<Rightarrow> ''request failed''
      | Some e \<Rightarrow>
          if trim_space (env_message e) \<noteq> [] then trim_space (env_message e)
          else if env_type e \<noteq> [] then env_type e
          else ''request failed'')"

definition messages_body_for :: "string \<Rightarrow> llm_request \<Rightarrow> bool \<Rightarrow> messages_body" where
  "messages_body_for model request stream =
     \<lparr>mb_model = model, mb_system = rq_system request,
      mb_messages = [\<lparr>cm_role = ''user'', cm_content = rq_input request\<rparr>], mb_max_tokens = 4096, mb_stream = stream\<rparr>"

definition anthropic_send_request ::
  "'w llm_env \<Rightarrow> anthropic_provider \<Rightarrow> messages_body \<Rightarrow> bool \<Rightarrow> 'w \<Rightarrow> (stream_failure, http_response) result \<times> 'w" where
  "anthropic_send_request env p body stream w =
     (case post env
             \<lparr>hr_url = an_base_url p @ ''/messages'',
              hr_headers = json_headers stream @ [(''x-api-key'', an_api_key p), (''anthropic-version'', an_api_version p)],
              hr_body = MessagesBody body\<rparr> w of
        (NotCreated e, w1) \<Rightarrow> (Inl (Plain (wrap_text ''create anthropic request: '' e)), w1)
      | (NotSent e, w1) \<Rightarrow> (Inl (TransportFailure e), w1)
      | (Answered a, w1) \<Rightarrow> (Inr a, w1))"

definition anthropic_read_response :: "'w llm_env \<Rightarrow> http_response \<Rightarrow> bool \<Rightarrow> (go_error, messages_response) result" where
  "anthropic_read_response env a stream =
     (case hs_read_error a of
        Some e \<Rightarrow> Inl (wrap_text (if stream then ''read anthropic stream response: '' else ''read anthropic response: '') e)
      | None \<Rightarrow>
          if hs_body a = [] then Inr empty_messages
          else (case le_messages env (hs_body a) of
                  Inl e \<Rightarrow>
                    Inl (wrap_text (if stream then ''anthropic malformed stream response: '' else ''anthropic malformed response: '') e)
                | Inr r \<Rightarrow> Inr r))"

definition anthropic_backoff :: "'w llm_env \<Rightarrow> anthropic_provider \<Rightarrow> nat \<Rightarrow> 'w \<Rightarrow> go_error option \<times> 'w" where
  "anthropic_backoff env p attempt w =
     (if an_max_retries p \<le> attempt then (None, w)
      else (case le_wait env ((if an_backoff_base p \<le> 0 then second else an_backoff_base p) * 2 ^ attempt) w of
              (Some e, w1) \<Rightarrow> (Some (wrap_text ''anthropic retry canceled: '' e), w1)
            | (None, w1) \<Rightarrow> (None, w1)))"

definition anthropic_retry_status :: "int \<Rightarrow> bool" where
  "anthropic_retry_status s \<longleftrightarrow> s = 429 \<or> s = 529 \<or> 500 \<le> s"

definition anthropic_transport_failed :: "go_error \<Rightarrow> go_error" where
  "anthropic_transport_failed = wrap_text ''anthropic transport failed: ''"

definition anthropic_interpret :: "anthropic_provider \<Rightarrow> messages_response \<Rightarrow> (go_error, llm_response) result" where
  "anthropic_interpret p r =
     (if output_text (ar_content r) = [] then Inl (Message ''anthropic malformed response: content must contain text'')
      else Inr \<lparr>rs_model = or_default (ar_model r) (an_model p), rs_output = output_text (ar_content r),
             rs_stop_reason = ar_stop_reason r\<rparr>)"

definition anthropic_generate_once ::
  "'w llm_env \<Rightarrow> anthropic_provider \<Rightarrow> messages_body \<Rightarrow> 'w \<Rightarrow> (go_error, llm_response) result attempt_verdict \<times> 'w" where
  "anthropic_generate_once env p body w =
     (case anthropic_send_request env p body False w of
        (Inl (TransportFailure e), w1) \<Rightarrow> (Retryable (Inl (anthropic_transport_failed e)), w1)
      | (Inl (Plain e), w1) \<Rightarrow> (Settled (Inl e), w1)
      | (Inl (RetryStatus s m), w1) \<Rightarrow> (Settled (Inl (Message m)), w1)
      | (Inr a, w1) \<Rightarrow>
          (case anthropic_read_response env a False of
             Inl e \<Rightarrow> (Settled (Inl e), w1)
           | Inr r \<Rightarrow>
               (let s = hs_status a; message = messages_error_message r in
                (if s = 401 then Settled (Inl (Message (''anthropic authentication failed: '' @ message)))
                 else if anthropic_retry_status s then Retryable (Inl (status_failed ''anthropic request'' s message))
                 else if \<not> success_status s then Settled (Inl (status_failed ''anthropic request'' s message))
                 else Settled (anthropic_interpret p r), w1))))"

definition anthropic_generate ::
  "'w llm_env \<Rightarrow> anthropic_provider \<Rightarrow> llm_request \<Rightarrow> 'w \<Rightarrow> (go_error, llm_response) result \<times> 'w" where
  "anthropic_generate env p request w =
     (case config_error ''anthropic'' (an_model p) (an_base_url p) (an_api_key p) of
        Some e \<Rightarrow> (Inl e, w)
      | None \<Rightarrow>
          retry_loop (an_max_retries p) (anthropic_backoff env p) (\<lambda>e. Inl (anthropic_transport_failed e))
            (anthropic_generate_once env p (messages_body_for (an_model p) request False)) 0 w)"

text \<open>One data event: an error event ends the stream, and only a text delta that is not blank is a token.\<close>

definition messages_chunk ::
  "string \<Rightarrow> string \<Rightarrow> 'w llm_env \<Rightarrow> 'w emitter \<Rightarrow> string \<Rightarrow> 'w \<Rightarrow> go_error option \<times> 'w" where
  "messages_chunk malformed failed env emit chunk w =
     (case le_event env chunk of
        Inl e \<Rightarrow> (Some (wrap_text malformed e), w)
      | Inr ev \<Rightarrow>
          (case ae_error ev of
             Some e \<Rightarrow> (Some (Message (failed @ trim_space (env_message e))), w)
           | None \<Rightarrow>
               (case ae_delta ev of
                  None \<Rightarrow> (None, w)
                | Some content \<Rightarrow>
                    if ae_type ev \<noteq> ''content_block_delta'' \<or> blank content then (None, w)
                    else emit_token env emit content w)))"

definition anthropic_chunk :: "'w llm_env \<Rightarrow> 'w emitter \<Rightarrow> string \<Rightarrow> 'w \<Rightarrow> go_error option \<times> 'w" where
  "anthropic_chunk = messages_chunk ''anthropic malformed stream response: '' ''anthropic stream error: ''"

definition anthropic_send_stream ::
  "'w llm_env \<Rightarrow> anthropic_provider \<Rightarrow> messages_body \<Rightarrow> 'w emitter \<Rightarrow> 'w \<Rightarrow> stream_failure option \<times> 'w" where
  "anthropic_send_stream env p body emit w =
     (case anthropic_send_request env p body True w of
        (Inl f, w1) \<Rightarrow> (Some f, w1)
      | (Inr a, w1) \<Rightarrow>
          (let s = hs_status a in
           if s = 401 \<or> anthropic_retry_status s \<or> \<not> success_status s then
             (case anthropic_read_response env a True of
                Inl e \<Rightarrow> (Some (Plain e), w1)
              | Inr r \<Rightarrow>
                  (let message = messages_error_message r in
                   (Some (if s = 401 then Plain (Message (''anthropic authentication failed: '' @ message))
                          else if anthropic_retry_status s then RetryStatus s message
                          else Plain (status_failed ''anthropic stream request'' s message)), w1)))
           else
             (case then_complete env emit (parse_sse (le_ctx env) (hs_body a, hs_read_error a) (anthropic_chunk env emit) w1) of
                (Some e, w2) \<Rightarrow> (Some (Plain e), w2)
              | (None, w2) \<Rightarrow> (None, w2))))"

definition anthropic_stream_once ::
  "'w llm_env \<Rightarrow> anthropic_provider \<Rightarrow> messages_body \<Rightarrow> 'w emitter \<Rightarrow> 'w \<Rightarrow> go_error option attempt_verdict \<times> 'w" where
  "anthropic_stream_once env p body emit w =
     (case anthropic_send_stream env p body emit w of
        (None, w1) \<Rightarrow> (Settled None, w1)
      | (Some (RetryStatus s message), w1) \<Rightarrow>
          (Retryable (Some (status_failed ''anthropic stream request'' s message)), w1)
      | (Some (TransportFailure e), w1) \<Rightarrow> (Settled (Some (anthropic_transport_failed e)), w1)
      | (Some (Plain e), w1) \<Rightarrow> (Settled (Some e), w1))"

definition anthropic_stream ::
  "'w llm_env \<Rightarrow> anthropic_provider \<Rightarrow> llm_request \<Rightarrow> 'w emitter \<Rightarrow> 'w \<Rightarrow> go_error option \<times> 'w" where
  "anthropic_stream env p request emit w =
     (case config_error ''anthropic'' (an_model p) (an_base_url p) (an_api_key p) of
        Some e \<Rightarrow> (Some e, w)
      | None \<Rightarrow>
          retry_loop (an_max_retries p) (anthropic_backoff env p) (\<lambda>e. Some (anthropic_transport_failed e))
            (anthropic_stream_once env p (messages_body_for (an_model p) request True) emit) 0 w)"

end
