(* ===== verification/Dashscope.thy ===== *)
theory Dashscope
  imports Providers
begin

text \<open>
  The DashScope provider (\<^verbatim>\<open>internal/llm/dashscope.go\<close>), which speaks the messages protocol or the chat
  completion protocol, by its base URL, and tries each request once.
\<close>

record dashscope_provider =
  ds_model :: string
  ds_base_url :: string
  ds_api_key :: string

definition new_dashscope :: "string \<Rightarrow> string \<Rightarrow> string \<Rightarrow> dashscope_provider" where
  "new_dashscope model base_url api_key =
     \<lparr>ds_model = trim_space model, ds_base_url = trim_right_slash (trim_space base_url), ds_api_key = trim_space api_key\<rparr>"

datatype dashscope_protocol = AnthropicProtocol | OpenAIProtocol

definition dashscope_protocol_of :: "dashscope_provider \<Rightarrow> dashscope_protocol" where
  "dashscope_protocol_of p =
     (if contains_str (to_lower (ds_base_url p)) ''/apps/anthropic'' then AnthropicProtocol else OpenAIProtocol)"

definition summarize_raw_body :: "string \<Rightarrow> string" where
  "summarize_raw_body body =
     (let trimmed = trim_space body in
      if trimmed = [] then ''<empty body>''
      else if length trimmed \<le> 220 then trimmed
      else take 220 trimmed @ ''...'')"

definition blocks_body_for :: "dashscope_provider \<Rightarrow> llm_request \<Rightarrow> bool \<Rightarrow> blocks_body" where
  "blocks_body_for p request stream =
     \<lparr>bb_model = ds_model p, bb_system = rq_system request,
      bb_messages = [(''user'', [\<lparr>tb_type = ''text'', tb_text = rq_input request\<rparr>])], bb_max_tokens = 4096, bb_stream = stream\<rparr>"

text \<open>A request; \<open>what\<close> is the request's name in the errors.\<close>

definition dashscope_post ::
  "'w llm_env \<Rightarrow> dashscope_provider \<Rightarrow> string \<Rightarrow> string \<Rightarrow> (string \<times> string) list \<Rightarrow> request_body \<Rightarrow> 'w
     \<Rightarrow> (go_error, http_response) result \<times> 'w" where
  "dashscope_post env p what path headers body w =
     (case post env \<lparr>hr_url = ds_base_url p @ path, hr_headers = headers, hr_body = body\<rparr> w of
        (NotCreated e, w1) \<Rightarrow> (Inl (wrap_text (''create '' @ what @ '' request: '') e), w1)
      | (NotSent e, w1) \<Rightarrow> (Inl (wrap_text (''send '' @ what @ '' request: '') e), w1)
      | (Answered a, w1) \<Rightarrow> (Inr a, w1))"

definition messages_headers :: "dashscope_provider \<Rightarrow> bool \<Rightarrow> (string \<times> string) list" where
  "messages_headers p stream = json_headers stream @ [(''x-api-key'', ds_api_key p), (''anthropic-version'', ''2023-06-01'')]"

definition compat_headers :: "dashscope_provider \<Rightarrow> bool \<Rightarrow> (string \<times> string) list" where
  "compat_headers p stream =
     json_headers stream @ [(''x-api-key'', ds_api_key p), (''Authorization'', ''Bearer '' @ ds_api_key p)]"

definition body_error :: "string \<Rightarrow> string \<Rightarrow> go_error \<Rightarrow> go_error" where
  "body_error what body e = Wrapped (what @ error_text e @ '' (body='' @ summarize_raw_body body @ '')'') e"

section \<open>Generating\<close>

definition generate_messages ::
  "'w llm_env \<Rightarrow> dashscope_provider \<Rightarrow> llm_request \<Rightarrow> 'w \<Rightarrow> (go_error, llm_response) result \<times> 'w" where
  "generate_messages env p request w =
     (case dashscope_post env p ''dashscope'' ''/messages'' (messages_headers p False) (BlocksBody (blocks_body_for p request False)) w of
        (Inl e, w1) \<Rightarrow> (Inl e, w1)
      | (Inr a, w1) \<Rightarrow>
          ((case hs_read_error a of
              Some e \<Rightarrow> Inl (wrap_text ''read dashscope response: '' e)
            | None \<Rightarrow>
                if \<not> success_status (hs_status a) then
                  Inl (status_failed ''dashscope request'' (hs_status a)
                    (case le_messages env (hs_body a) of Inr r \<Rightarrow> messages_error_message r | Inl e \<Rightarrow> summarize_raw_body (hs_body a)))
                else
                  (case le_messages env (hs_body a) of
                     Inl e \<Rightarrow> Inl (body_error ''decode dashscope response: '' (hs_body a) e)
                   | Inr r \<Rightarrow>
                       if output_text (ar_content r) = [] then Inl (Message ''dashscope response contained no text output'')
                       else Inr \<lparr>rs_model = or_default (ar_model r) (ds_model p), rs_output = output_text (ar_content r),
                              rs_stop_reason = ar_stop_reason r\<rparr>)), w1))"

definition generate_openai_compat ::
  "'w llm_env \<Rightarrow> dashscope_provider \<Rightarrow> llm_request \<Rightarrow> 'w \<Rightarrow> (go_error, llm_response) result \<times> 'w" where
  "generate_openai_compat env p request w =
     (case dashscope_post env p ''dashscope openai-compatible'' ''/chat/completions'' (compat_headers p False)
             (ChatBody (chat_body_for (ds_model p) request False)) w of
        (Inl e, w1) \<Rightarrow> (Inl e, w1)
      | (Inr a, w1) \<Rightarrow>
          ((case hs_read_error a of
              Some e \<Rightarrow> Inl (wrap_text ''read dashscope openai-compatible response: '' e)
            | None \<Rightarrow>
                if \<not> success_status (hs_status a) then
                  Inl (status_failed ''dashscope openai-compatible request'' (hs_status a)
                    (case le_chat env (hs_body a) of Inr r \<Rightarrow> openai_error_message r | Inl e \<Rightarrow> summarize_raw_body (hs_body a)))
                else
                  (case le_chat env (hs_body a) of
                     Inl e \<Rightarrow> Inl (body_error ''decode dashscope openai-compatible response: '' (hs_body a) e)
                   | Inr r \<Rightarrow>
                       (case or_choices r of
                          [] \<Rightarrow> Inl (Message ''dashscope openai-compatible response contained no choices'')
                        | c # cs \<Rightarrow>
                            if blank (cm_content (oc_message c))
                            then Inl (Message ''dashscope openai-compatible response contained empty content'')
                            else Inr \<lparr>rs_model = or_default (trim_space (or_model r)) (ds_model p),
                                   rs_output = trim_space (cm_content (oc_message c)), rs_stop_reason = oc_finish_reason c\<rparr>))), w1))"

definition dashscope_generate ::
  "'w llm_env \<Rightarrow> dashscope_provider \<Rightarrow> llm_request \<Rightarrow> 'w \<Rightarrow> (go_error, llm_response) result \<times> 'w" where
  "dashscope_generate env p request w =
     (case config_error ''dashscope'' (ds_model p) (ds_base_url p) (ds_api_key p) of
        Some e \<Rightarrow> (Inl e, w)
      | None \<Rightarrow>
          (case dashscope_protocol_of p of
             OpenAIProtocol \<Rightarrow> generate_openai_compat env p request w
           | AnthropicProtocol \<Rightarrow> generate_messages env p request w))"

section \<open>Streaming\<close>

definition stream_messages ::
  "'w llm_env \<Rightarrow> dashscope_provider \<Rightarrow> llm_request \<Rightarrow> 'w emitter \<Rightarrow> 'w \<Rightarrow> go_error option \<times> 'w" where
  "stream_messages env p request emit w =
     (case dashscope_post env p ''dashscope stream'' ''/messages'' (messages_headers p True) (BlocksBody (blocks_body_for p request True)) w of
        (Inl e, w1) \<Rightarrow> (Some e, w1)
      | (Inr a, w1) \<Rightarrow>
          if \<not> success_status (hs_status a) then
            (Some (case hs_read_error a of
                     Some e \<Rightarrow> wrap_text ''read dashscope stream response: '' e
                   | None \<Rightarrow>
                       (case (if hs_body a = [] then Inr empty_messages else le_messages env (hs_body a)) of
                          Inl e \<Rightarrow> body_error ''decode dashscope stream response: '' (hs_body a) e
                        | Inr r \<Rightarrow> status_failed ''dashscope request'' (hs_status a) (messages_error_message r))), w1)
          else
            then_complete env emit
              (parse_sse (le_ctx env) (hs_body a, hs_read_error a)
                 (messages_chunk ''decode dashscope stream chunk: '' ''dashscope stream error: '' env emit) w1))"

text \<open>The token of an OpenAI-compatible data event is the first choice's content without white space around it.\<close>

definition compat_chunk :: "'w llm_env \<Rightarrow> 'w emitter \<Rightarrow> string \<Rightarrow> 'w \<Rightarrow> go_error option \<times> 'w" where
  "compat_chunk env emit chunk w =
     (case le_chat env chunk of
        Inl e \<Rightarrow> (Some (wrap_text ''decode dashscope openai-compatible stream chunk: '' e), w)
      | Inr r \<Rightarrow>
          (case or_choices r of
             [] \<Rightarrow> (None, w)
           | c # cs \<Rightarrow>
               (let delta = trim_space (cm_content (oc_delta c)) in
                if delta = [] then (None, w) else emit_token env emit delta w)))"

definition stream_openai_compat ::
  "'w llm_env \<Rightarrow> dashscope_provider \<Rightarrow> llm_request \<Rightarrow> 'w emitter \<Rightarrow> 'w \<Rightarrow> go_error option \<times> 'w" where
  "stream_openai_compat env p request emit w =
     (case dashscope_post env p ''dashscope openai-compatible stream'' ''/chat/completions'' (compat_headers p True)
             (ChatBody (chat_body_for (ds_model p) request True)) w of
        (Inl e, w1) \<Rightarrow> (Some e, w1)
      | (Inr a, w1) \<Rightarrow>
          if \<not> success_status (hs_status a) then
            (Some (case hs_read_error a of
                     Some e \<Rightarrow> wrap_text ''read dashscope openai-compatible stream response: '' e
                   | None \<Rightarrow>
                       status_failed ''dashscope openai-compatible request'' (hs_status a)
                         (if hs_body a = [] then summarize_raw_body (hs_body a)
                          else (case le_chat env (hs_body a) of
                                  Inr r \<Rightarrow> openai_error_message r
                                | Inl e \<Rightarrow> summarize_raw_body (hs_body a)))), w1)
          else
            then_complete env emit (parse_sse (le_ctx env) (hs_body a, hs_read_error a) (compat_chunk env emit) w1))"

definition dashscope_stream ::
  "'w llm_env \<Rightarrow> dashscope_provider \<Rightarrow> llm_request \<Rightarrow> 'w emitter \<Rightarrow> 'w \<Rightarrow> go_error option \<times> 'w" where
  "dashscope_stream env p request emit w =
     (case config_error ''dashscope'' (ds_model p) (ds_base_url p) (ds_api_key p) of
        Some e \<Rightarrow> (Some e, w)
      | None \<Rightarrow>
          (case dashscope_protocol_of p of
             OpenAIProtocol \<Rightarrow> stream_openai_compat env p request emit w
           | AnthropicProtocol \<Rightarrow> stream_messages env p request emit w))"

end
