(* ===== verification/Provider_Registry.thy ===== *)
theory Provider_Registry
  imports Dashscope Provenance
begin

text \<open>
  The selection of a provider (\<^verbatim>\<open>internal/llm/provider.go\<close>): the built-in registry, the adapter that
  gives a provider its plugin identity, and \<^verbatim>\<open>NewProvider\<close>; and the stub output of \<^verbatim>\<open>stub_json.go\<close>.
\<close>

datatype provider =
    OpenAIProvider openai_provider
  | AnthropicProvider anthropic_provider
  | DashScopeProvider dashscope_provider

fun provider_name :: "provider \<Rightarrow> string" where
  "provider_name (OpenAIProvider p) = ''openai''"
| "provider_name (AnthropicProvider p) = ''anthropic''"
| "provider_name (DashScopeProvider p) = ''dashscope''"

fun provider_model :: "provider \<Rightarrow> string" where
  "provider_model (OpenAIProvider p) = op_model p"
| "provider_model (AnthropicProvider p) = an_model p"
| "provider_model (DashScopeProvider p) = ds_model p"

fun provider_generate :: "'w llm_env \<Rightarrow> provider \<Rightarrow> llm_request \<Rightarrow> 'w \<Rightarrow> (go_error, llm_response) result \<times> 'w" where
  "provider_generate env (OpenAIProvider p) = openai_generate env p"
| "provider_generate env (AnthropicProvider p) = anthropic_generate env p"
| "provider_generate env (DashScopeProvider p) = dashscope_generate env p"

fun provider_stream :: "'w llm_env \<Rightarrow> provider \<Rightarrow> llm_request \<Rightarrow> 'w emitter \<Rightarrow> 'w \<Rightarrow> go_error option \<times> 'w" where
  "provider_stream env (OpenAIProvider p) = openai_stream env p"
| "provider_stream env (AnthropicProvider p) = anthropic_stream env p"
| "provider_stream env (DashScopeProvider p) = dashscope_stream env p"

section \<open>The plugin identity of a provider\<close>

record provider_plugin =
  pa_id :: string
  pa_provider :: provider
  pa_metadata :: plugin_metadata

definition adapt_provider :: "string \<Rightarrow> provider \<Rightarrow> provider_plugin" where
  "adapt_provider i p =
     (let t = trim_space i in
      \<lparr>pa_id = t, pa_provider = p,
       pa_metadata =
         \<lparr>pl_family = pf_provider, pl_logical_id = t, pl_display_name = provider_name p, pl_contract_version = ''1.0.0'',
          pl_implementation_version = ''1.0.0'', pl_execution_mode = pm_native, pl_source_path = ''builtin://llm/'' @ t\<rparr>\<rparr>)"

definition provider_metadata :: "provider_plugin \<Rightarrow> plugin_metadata" where
  "provider_metadata a = pl_normalize (pa_metadata a)"

section \<open>The built-in registry\<close>

record provider_config =
  pc_model :: string
  pc_provider :: string
  pc_provider_type :: string
  pc_api_key :: string
  pc_base_url :: string

abbreviation provider_openai :: string where "provider_openai \<equiv> ''openai''"
abbreviation provider_anthropic :: string where "provider_anthropic \<equiv> ''anthropic''"
abbreviation provider_dashscope :: string where "provider_dashscope \<equiv> ''dashscope''"

type_synonym provider_factory = "provider_config \<Rightarrow> (go_error, provider_plugin) result"

definition openai_factory :: provider_factory where
  "openai_factory cfg =
     Inr (adapt_provider provider_openai
       (OpenAIProvider (new_openai (pc_api_key cfg) (or_default (pc_base_url cfg) ''https://api.openai.com/v1'') (pc_model cfg))))"

definition anthropic_factory :: provider_factory where
  "anthropic_factory cfg =
     Inr (adapt_provider provider_anthropic
       (AnthropicProvider (new_anthropic (pc_api_key cfg) (or_default (pc_base_url cfg) ''https://api.anthropic.com/v1'') (pc_model cfg))))"

definition dashscope_factory :: provider_factory where
  "dashscope_factory cfg =
     Inr (adapt_provider provider_dashscope
       (DashScopeProvider (new_dashscope (pc_model cfg)
          (or_default (pc_base_url cfg) ''https://coding.dashscope.aliyuncs.com/apps/anthropic/v1'') (pc_api_key cfg))))"

definition builtin_providers :: "(string \<times> provider_factory) list" where
  "builtin_providers =
     [(provider_openai, openai_factory), (provider_anthropic, anthropic_factory), (provider_dashscope, dashscope_factory)]"

definition unsupported_provider_type :: go_error where
  "unsupported_provider_type = Message ''unsupported provider type''"

definition builtin_provider_resolve :: "string \<Rightarrow> provider_config \<Rightarrow> (go_error, provider_plugin) result" where
  "builtin_provider_resolve i cfg =
     (let selected = or_default (trim_space i) provider_openai in
      case map_of builtin_providers selected of
        None \<Rightarrow> Inl (Wrapped (error_text unsupported_provider_type @ '' '' @ quote_str selected) unsupported_provider_type)
      | Some factory \<Rightarrow> factory cfg)"

text \<open>\<^verbatim>\<open>NewProvider\<close>, with the resolver in effect; a nil resolver is reset to the built-in one.\<close>

type_synonym provider_resolver = "string \<Rightarrow> provider_config \<Rightarrow> (go_error, provider_plugin) result"

definition set_default_resolver :: "provider_resolver option \<Rightarrow> provider_resolver" where
  "set_default_resolver r = (case r of None \<Rightarrow> builtin_provider_resolve | Some resolve \<Rightarrow> resolve)"

definition new_provider :: "provider_resolver \<Rightarrow> provider_config \<Rightarrow> (go_error, provider_plugin) result" where
  "new_provider resolve cfg = resolve (trim_space (pc_provider_type cfg)) cfg"

section \<open>Stub output\<close>

definition dq :: string where "dq = [CHR 0x22]"

definition operation_is :: "string \<Rightarrow> string \<Rightarrow> bool" where
  "operation_is input name \<longleftrightarrow>
     contains_str input (dq @ ''operation'' @ dq @ '':'' @ dq @ name @ dq) \<or>
     contains_str input (dq @ ''operation'' @ dq @ '': '' @ dq @ name @ dq)"

definition build_stub_json_output :: "llm_request \<Rightarrow> string" where
  "build_stub_json_output request =
     (let input = to_lower (trim_space (rq_input request));
          plan = ''{'' @ dq @ ''summary'' @ dq @ '':'' @ dq @ ''stub plan'' @ dq @ '','' @ dq @ ''steps'' @ dq @ '':['' @ dq @
            ''produce deterministic response'' @ dq @ '']}'' in
      if operation_is input ''create_plan'' then plan
      else if operation_is input ''next_action'' then
        ''{'' @ dq @ ''type'' @ dq @ '':'' @ dq @ ''respond'' @ dq @ '','' @ dq @ ''summary'' @ dq @ '':'' @ dq @
        ''respond with deterministic output'' @ dq @ '','' @ dq @ ''response'' @ dq @ '':'' @ dq @ ''stub response'' @ dq @ ''}''
      else if operation_is input ''observe'' then
        ''{'' @ dq @ ''summary'' @ dq @ '':'' @ dq @ ''stub observation'' @ dq @ '','' @ dq @ ''final_response'' @ dq @ '':'' @ dq @
        ''stub response'' @ dq @ ''}''
      else plan)"

end
