(* ===== verification/Plugin_Registry.thy ===== *)
theory Plugin_Registry
  imports Plugin_Manager Provider_Registry Verifier_Registry
begin

text \<open>
  The host's registries of providers, verifiers and agent strategies
  (\<^verbatim>\<open>internal/plugin/registry.go\<close>) and the resolution the plugin manager does with them
  (\<^verbatim>\<open>manager.go\<close>).  A registry is made by its constructor; its entries are an association list with the
  newest first, which has the same entries as the code's map.
\<close>

section \<open>Registrations\<close>

definition source_builtin :: string where "source_builtin = ''builtin''"
definition source_plugin :: string where "source_plugin = ''plugin''"

record registration_metadata =
  rm_display_name :: string
  rm_source :: string
  rm_path :: string

definition duplicate_registry_id :: go_error where
  "duplicate_registry_id = Message ''duplicate registry id''"
definition registry_entry_not_found :: go_error where
  "registry_entry_not_found = Message ''registry entry not found''"
definition verifier_version_mismatch :: go_error where
  "verifier_version_mismatch = Message ''verifier plugin contract version mismatch''"

definition normalize_registration ::
  "string \<Rightarrow> registration_metadata \<Rightarrow> (go_error, string \<times> registration_metadata) result" where
  "normalize_registration i m =
     (let n = trim_space i;
          m1 = \<lparr>rm_display_name = trim_space (rm_display_name m),
                rm_source = (if rm_source m = [] then source_plugin else rm_source m), rm_path = trim_space (rm_path m)\<rparr> in
      if n = [] then Inl (Message ''registry id must not be empty'')
      else if rm_source m1 = source_builtin \<or> rm_source m1 = source_plugin then Inr (n, m1)
      else Inl (Message (''unsupported registration source '' @ quote_str (rm_source m1))))"

definition metadata_display_name :: "registration_metadata \<Rightarrow> string" where
  "metadata_display_name m =
     (if rm_display_name m \<noteq> [] then rm_display_name m
      else if rm_path m \<noteq> [] then rm_path m
      else rm_source m)"

definition collision_error :: "string \<Rightarrow> string \<Rightarrow> registration_metadata \<Rightarrow> registration_metadata \<Rightarrow> go_error" where
  "collision_error family i existing incoming =
     Wrapped (error_text duplicate_registry_id @ '': '' @ family @ '' '' @ quote_str i @ '' already registered by '' @
        metadata_display_name existing @ '' ('' @ rm_source existing @ ''), cannot replace with '' @
        metadata_display_name incoming @ '' ('' @ rm_source incoming @ '')'') duplicate_registry_id"

section \<open>Registries of factories\<close>

text \<open>\<^verbatim>\<open>ProviderRegistry\<close> and \<^verbatim>\<open>AgentStrategyRegistry\<close> are the same code for two families of factories.\<close>

record 'f registry_descriptor =
  rd_id :: string
  rd_metadata :: registration_metadata
  rd_factory :: 'f

record 'f family_registry =
  rg_entries :: "(string \<times> 'f registry_descriptor) list"
  rg_default :: string

definition rg_register ::
  "string \<Rightarrow> string \<Rightarrow> registration_metadata \<Rightarrow> 'f option \<Rightarrow> 'f family_registry \<Rightarrow> (go_error, 'f family_registry) result" where
  "rg_register family i m factory r =
     (case normalize_registration i m of
        Inl e \<Rightarrow> Inl e
      | Inr (n, m1) \<Rightarrow>
          (case factory of
             None \<Rightarrow> Inl (Message (family @ '' factory must not be nil''))
           | Some f \<Rightarrow>
               (case map_of (rg_entries r) n of
                  Some existing \<Rightarrow> Inl (collision_error family n (rd_metadata existing) m1)
                | None \<Rightarrow> Inr (r\<lparr>rg_entries := (n, \<lparr>rd_id = n, rd_metadata = m1, rd_factory = f\<rparr>) # rg_entries r\<rparr>))))"

definition rg_get :: "'f family_registry option \<Rightarrow> string \<Rightarrow> 'f registry_descriptor option" where
  "rg_get r i =
     (let n = trim_space i in
      if n = [] then None else (case r of None \<Rightarrow> None | Some r \<Rightarrow> map_of (rg_entries r) n))"

definition rg_default_id :: "'f family_registry option \<Rightarrow> string" where
  "rg_default_id r = (case r of None \<Rightarrow> [] | Some r \<Rightarrow> rg_default r)"

definition not_found :: "string \<Rightarrow> go_error" where
  "not_found what = Wrapped (error_text registry_entry_not_found @ '': '' @ what) registry_entry_not_found"

definition rg_descriptor :: "string \<Rightarrow> 'f family_registry option \<Rightarrow> string \<Rightarrow> (go_error, 'f registry_descriptor) result" where
  "rg_descriptor family r i =
     (case r of
        None \<Rightarrow> Inl (not_found (family @ '' registry is nil''))
      | Some r \<Rightarrow>
          (let selected = or_default (trim_space i) (rg_default r) in
           case map_of (rg_entries r) selected of
             None \<Rightarrow> Inl (not_found (family @ '' '' @ quote_str selected))
           | Some d \<Rightarrow> Inr d))"

definition must_register_builtin ::
  "string \<Rightarrow> string \<Rightarrow> string \<Rightarrow> 'f \<Rightarrow> 'f family_registry \<Rightarrow> 'f family_registry attempt" where
  "must_register_builtin family i display_name factory r =
     (case rg_register family i \<lparr>rm_display_name = display_name, rm_source = source_builtin, rm_path = []\<rparr> (Some factory) r of
        Inl e \<Rightarrow> Panics
      | Inr r1 \<Rightarrow> Done r1)"

text \<open>The two families.\<close>

definition provider_register ::
  "string \<Rightarrow> registration_metadata \<Rightarrow> provider_factory option \<Rightarrow> provider_factory family_registry
     \<Rightarrow> (go_error, provider_factory family_registry) result" where
  "provider_register = rg_register ''provider''"

definition provider_resolve ::
  "provider_factory family_registry option \<Rightarrow> string \<Rightarrow> provider_config \<Rightarrow> (go_error, provider_plugin) result" where
  "provider_resolve r i cfg =
     (case rg_descriptor ''provider'' r i of Inl e \<Rightarrow> Inl e | Inr d \<Rightarrow> rd_factory d cfg)"

definition new_provider_registry :: "provider_factory family_registry attempt" where
  "new_provider_registry =
     then_attempt (must_register_builtin ''provider'' provider_openai ''OpenAI'' openai_factory
         \<lparr>rg_entries = [], rg_default = provider_openai\<rparr>)
       (\<lambda>r. then_attempt (must_register_builtin ''provider'' provider_anthropic ''Anthropic'' anthropic_factory r)
       (\<lambda>r. must_register_builtin ''provider'' provider_dashscope ''DashScope'' dashscope_factory r))"

type_synonym 's host_strategy_factory = "unit \<Rightarrow> (go_error, 's) result"

definition strategy_register ::
  "string \<Rightarrow> registration_metadata \<Rightarrow> 's host_strategy_factory option \<Rightarrow> 's host_strategy_factory family_registry
     \<Rightarrow> (go_error, 's host_strategy_factory family_registry) result" where
  "strategy_register = rg_register ''agent strategy''"

definition strategy_resolve :: "'s host_strategy_factory family_registry option \<Rightarrow> string \<Rightarrow> (go_error, 's) result" where
  "strategy_resolve r i =
     (case rg_descriptor ''agent strategy'' r i of Inl e \<Rightarrow> Inl e | Inr d \<Rightarrow> rd_factory d ())"

definition host_default_strategy :: string where
  "host_default_strategy = ''host_default''"

text \<open>A strategy is known to its registry by its identifier only; \<open>static\<close> is \<^verbatim>\<open>staticAgentStrategy\<close>.\<close>

definition new_host_strategies :: "(string \<Rightarrow> 's) \<Rightarrow> 's host_strategy_factory family_registry attempt" where
  "new_host_strategies static =
     must_register_builtin ''agent strategy'' host_default_strategy ''Host Default Strategy''
       (\<lambda>u. Inr (static host_default_strategy)) \<lparr>rg_entries = [], rg_default = host_default_strategy\<rparr>"

section \<open>The registry of verifiers\<close>

record 'w host_verifiers =
  hv_entries :: "(string \<times> registration_metadata) list"
  hv_registry :: "'w verifier_registry"

definition hv_register ::
  "string \<Rightarrow> registration_metadata \<Rightarrow> 'w verifier_factory option \<Rightarrow> 'w host_verifiers \<Rightarrow> (go_error, 'w host_verifiers) result" where
  "hv_register i m factory r =
     (case normalize_registration i m of
        Inl e \<Rightarrow> Inl e
      | Inr (n, m1) \<Rightarrow>
          if factory = None then Inl (Message ''verifier factory must not be nil'')
          else (case map_of (hv_entries r) n of
                  Some existing \<Rightarrow> Inl (collision_error ''verifier'' n existing m1)
                | None \<Rightarrow>
                    (case vr_register n factory (hv_registry r) of
                       Inl e \<Rightarrow> Inl e
                     | Inr v \<Rightarrow> Inr (r\<lparr>hv_registry := v, hv_entries := (n, m1) # hv_entries r\<rparr>))))"

definition verifier_plugin_version :: string where
  "verifier_plugin_version = ''1.0.0''"

definition hv_register_plugin :: "'w verifier_plugin option \<Rightarrow> 'w host_verifiers \<Rightarrow> (go_error, 'w host_verifiers) result" where
  "hv_register_plugin plugin r =
     (case plugin of
        None \<Rightarrow> Inl (Message ''verifier plugin contract must not be nil'')
      | Some p \<Rightarrow>
          (let m = pl_normalize (vpc_metadata p) in
           case pl_validate m of
             Some e \<Rightarrow> Inl (Message (metadata_error_text e))
           | None \<Rightarrow>
               if pl_family m \<noteq> pf_verifier
               then Inl (Message (''verifier plugin metadata family must be '' @ quote_str pf_verifier @
                      '', got '' @ quote_str (pl_family m)))
               else if pl_contract_version m \<noteq> verifier_plugin_version
               then Inl (Wrapped (error_text verifier_version_mismatch @ '': plugin='' @ quote_str (pl_contract_version m) @
                      '' expected='' @ quote_str verifier_plugin_version) verifier_version_mismatch)
               else (case vr_register_plugin plugin (hv_registry r) of
                       Inl e \<Rightarrow> Inl e
                     | Inr v \<Rightarrow> Inr (r\<lparr>hv_registry := v\<rparr>))))"

definition hv_get :: "'w host_verifiers option \<Rightarrow> string \<Rightarrow> 'w verifier_descriptor option" where
  "hv_get r i =
     (let n = trim_space i in
      if n = [] then None else (case r of None \<Rightarrow> None | Some r \<Rightarrow> vr_get (Some (hv_registry r)) n))"

definition hv_get_registration :: "'w host_verifiers option \<Rightarrow> string \<Rightarrow> (string \<times> registration_metadata) option" where
  "hv_get_registration r i =
     (let n = trim_space i in
      if n = [] then None
      else (case r of None \<Rightarrow> None | Some r \<Rightarrow> map_option (\<lambda>m. (n, m)) (map_of (hv_entries r) n)))"

definition hv_resolve ::
  "'w host_verifiers option \<Rightarrow> string \<Rightarrow> string \<Rightarrow> 'w command_port option \<Rightarrow> (go_error, 'w verifier) result" where
  "hv_resolve r i mode ex =
     (case r of
        None \<Rightarrow> Inl (not_found ''verifier registry is nil'')
      | Some r \<Rightarrow>
          (case vr_resolve (Some (hv_registry r)) i mode ex of
             Inl e \<Rightarrow>
               if errors_is e unknown_policy \<or> errors_is e unauthorized_policy
               then Inl (not_found (''verifier '' @ quote_str (trim_space i)))
               else Inl e
           | Inr v \<Rightarrow> Inr v))"

definition hv_default_id :: "'w host_verifiers option \<Rightarrow> string" where
  "hv_default_id r = (case r of None \<Rightarrow> [] | Some r \<Rightarrow> vr_default_id (Some (hv_registry r)))"

definition hv_must_register :: "string \<Rightarrow> string \<Rightarrow> 'w host_verifiers \<Rightarrow> 'w host_verifiers attempt" where
  "hv_must_register i display_name r =
     (case normalize_registration i \<lparr>rm_display_name = display_name, rm_source = source_builtin, rm_path = []\<rparr> of
        Inl e \<Rightarrow> Panics
      | Inr (n, m) \<Rightarrow>
          if vr_get (Some (hv_registry r)) n = None then Panics
          else Done (r\<lparr>hv_entries := (n, m) # hv_entries r\<rparr>))"

definition new_host_verifiers :: "'w host_verifiers attempt" where
  "new_host_verifiers =
     then_attempt new_verifier_registry
       (\<lambda>v. then_attempt (hv_must_register policy_command ''Command Verifier'' \<lparr>hv_entries = [], hv_registry = v\<rparr>)
       (\<lambda>r. then_attempt (hv_must_register policy_evidence ''Research Verifier'' r)
       (\<lambda>r. hv_must_register policy_state_output ''File Workflow Verifier'' r)))"

section \<open>Resolution by the manager\<close>

text \<open>
  The manager's \<^verbatim>\<open>ResolveProvider\<close>, \<^verbatim>\<open>ResolveVerifier\<close> and \<^verbatim>\<open>ResolveAgentStrategy\<close> on its registry, which
  is nil in a nil manager and in one that was not constructed.
\<close>

definition manager_resolve_provider ::
  "provider_factory family_registry option \<Rightarrow> string \<Rightarrow> provider_config \<Rightarrow> (go_error, provider_plugin) result" where
  "manager_resolve_provider providers i cfg =
     (case providers of
        None \<Rightarrow> Inl (not_found ''provider registry is nil'')
      | Some r \<Rightarrow> provider_resolve (Some r) i cfg)"

definition manager_resolve_verifier ::
  "'w host_verifiers option \<Rightarrow> string \<Rightarrow> string \<Rightarrow> 'w command_port option \<Rightarrow> (go_error, 'w verifier) result" where
  "manager_resolve_verifier verifiers i mode ex =
     (case verifiers of
        None \<Rightarrow> Inl (not_found ''verifier registry is nil'')
      | Some r \<Rightarrow> hv_resolve (Some r) i mode ex)"

definition manager_resolve_strategy :: "'s host_strategy_factory family_registry option \<Rightarrow> string \<Rightarrow> (go_error, 's) result" where
  "manager_resolve_strategy strategies i =
     (case strategies of
        None \<Rightarrow> Inl (not_found ''agent strategy registry is nil'')
      | Some r \<Rightarrow> strategy_resolve (Some r) i)"

text \<open>The resolver the plugin package installs for \<^verbatim>\<open>llm.NewProvider\<close>: that of a new manager.\<close>

definition default_llm_resolve :: "string \<Rightarrow> provider_config \<Rightarrow> (go_error, provider_plugin) result attempt" where
  "default_llm_resolve i cfg =
     then_attempt new_provider_registry (\<lambda>r. Done (manager_resolve_provider (Some r) i cfg))"

end
