(* ===== verification/Plugin_Registry_Properties.thy ===== *)
theory Plugin_Registry_Properties
  imports Plugin_Registry
begin

text \<open>
  What the host's registries promise: a built-in entry is never replaced, a name is bound at most
  once, the built-in policies are the only verifiers the host registers, and the resolver behind
  \<^verbatim>\<open>llm.NewProvider\<close> knows the built-in providers only.
\<close>

section \<open>The registry contract\<close>

definition rg_lookup :: "'f family_registry \<Rightarrow> string \<Rightarrow> 'f option option" where
  "rg_lookup r i = map_option (\<lambda>d. Some (rd_factory d)) (map_of (rg_entries r) (trim_space i))"

definition registration_ok :: "string \<Rightarrow> registration_metadata \<Rightarrow> bool" where
  "registration_ok i m \<longleftrightarrow> \<not> blank i \<and> rm_source m \<in> {[], source_builtin, source_plugin}"

lemma normalize_ok:
  "normalize_registration i m = Inr (n, m1) \<Longrightarrow> registration_ok i m \<and> n = trim_space i"
  by (auto simp: normalize_registration_def registration_ok_def blank_def Let_def split: if_splits)

lemma normalize_refused: "normalize_registration i m = Inl e \<Longrightarrow> \<not> registration_ok i m"
  by (auto simp: normalize_registration_def registration_ok_def blank_def source_plugin_def Let_def split: if_splits)

interpretation hr: named_registry trim_space "\<lambda>i f. registration_ok i m \<and> f \<noteq> None"
  "\<lambda>i f r. rg_register family i m f r" rg_lookup
  for m :: registration_metadata and family :: string
proof (unfold_locales, goal_cases)
  case (1 i v r)
  then show ?case
    by (auto simp: rg_register_def rg_lookup_def split: sum.splits prod.splits option.splits
        dest!: normalize_ok normalize_refused)
next
  case (2 i v r r' j)
  then show ?case
    by (auto simp: rg_register_def rg_lookup_def split: sum.splits prod.splits option.splits dest!: normalize_ok)
next
  case (3 i j r)
  then show ?case by (simp add: rg_lookup_def)
qed

section \<open>Constructed registries\<close>

lemma provider_registry_done:
  "\<exists>r. new_provider_registry = Done r \<and> rg_default r = provider_openai \<and>
     rg_lookup r provider_openai = Some (Some openai_factory) \<and>
     rg_lookup r provider_anthropic = Some (Some anthropic_factory) \<and>
     rg_lookup r provider_dashscope = Some (Some dashscope_factory) \<and>
     set (map fst (rg_entries r)) = {provider_openai, provider_anthropic, provider_dashscope}"
proof -
  have n: "normalize_registration provider_openai \<lparr>rm_display_name = d, rm_source = source_builtin, rm_path = []\<rparr> =
      Inr (provider_openai, \<lparr>rm_display_name = trim_space d, rm_source = source_builtin, rm_path = []\<rparr>)"
    "normalize_registration provider_anthropic \<lparr>rm_display_name = d, rm_source = source_builtin, rm_path = []\<rparr> =
      Inr (provider_anthropic, \<lparr>rm_display_name = trim_space d, rm_source = source_builtin, rm_path = []\<rparr>)"
    "normalize_registration provider_dashscope \<lparr>rm_display_name = d, rm_source = source_builtin, rm_path = []\<rparr> =
      Inr (provider_dashscope, \<lparr>rm_display_name = trim_space d, rm_source = source_builtin, rm_path = []\<rparr>)" for d
    by (simp_all add: normalize_registration_def source_builtin_def Let_def) code_simp+
  have t: "trim_space provider_openai = provider_openai" "trim_space provider_anthropic = provider_anthropic"
    "trim_space provider_dashscope = provider_dashscope"
    by code_simp+
  show ?thesis
    by (auto simp: new_provider_registry_def must_register_builtin_def rg_register_def n rg_lookup_def t)
qed

lemma register_default: "rg_register family i m f r = Inr r' \<Longrightarrow> rg_default r' = rg_default r"
  by (auto simp: rg_register_def split: sum.splits prod.splits option.splits)

lemma register_all_default: "rg_default (register_all (\<lambda>i f. rg_register family i m f) es r) = rg_default r"
  by (induction es arbitrary: r) (auto split: sum.splits dest: register_default)

lemma descriptor_lookup:
  "rg_descriptor family (Some r) i =
     (case map_of (rg_entries r) (or_default (trim_space i) (rg_default r)) of
        None \<Rightarrow> Inl (not_found (family @ '' '' @ quote_str (or_default (trim_space i) (rg_default r))))
      | Some d \<Rightarrow> Inr d)"
  by (simp add: rg_descriptor_def Let_def)

lemma trim_or_default: "trim_space d = d \<Longrightarrow> trim_space (or_default (trim_space i) d) = or_default (trim_space i) d"
  by (simp add: or_default_def)

lemma resolve_lookup:
  assumes "trim_space (rg_default r) = rg_default r"
  shows "provider_resolve (Some r) i cfg =
     (case rg_lookup r (or_default (trim_space i) (rg_default r)) of
        Some (Some f) \<Rightarrow> f cfg
      | _ \<Rightarrow> Inl (not_found (''provider '' @ quote_str (or_default (trim_space i) (rg_default r)))))"
  by (simp add: provider_resolve_def descriptor_lookup rg_lookup_def trim_or_default [OF assms] split: option.split)

text \<open>The first of the entries that may be registered under a name.\<close>

definition first_entry :: "registration_metadata \<Rightarrow> (string \<times> 'f option) list \<Rightarrow> string \<Rightarrow> 'f option" where
  "first_entry m es n =
     Option.bind (find (\<lambda>(i, f). trim_space i = n \<and> registration_ok i m \<and> f \<noteq> None) es) snd"

lemma provider_precedence_helper:
  "case new_provider_registry of
     Done r \<Rightarrow>
       provider_resolve (Some (register_all (\<lambda>i f. provider_register i m f) es r)) i cfg =
         (case map_of builtin_providers (or_default (trim_space i) provider_openai) of
            Some factory \<Rightarrow> factory cfg
          | None \<Rightarrow>
              (case first_entry m es (trim_space i) of
                 Some factory \<Rightarrow> factory cfg
               | None \<Rightarrow> Inl (not_found (''provider '' @ quote_str (trim_space i)))))
   | _ \<Rightarrow> False"
proof -
  obtain r where r: "new_provider_registry = Done r" "rg_default r = provider_openai"
    and b: "rg_lookup r provider_openai = Some (Some openai_factory)"
      "rg_lookup r provider_anthropic = Some (Some anthropic_factory)"
      "rg_lookup r provider_dashscope = Some (Some dashscope_factory)"
    and e: "set (map fst (rg_entries r)) = {provider_openai, provider_anthropic, provider_dashscope}"
    using provider_registry_done by blast
  let ?r = "register_all (\<lambda>i f. provider_register i m f) es r"
  let ?n = "or_default (trim_space i) provider_openai"
  have t: "trim_space provider_openai = provider_openai" by code_simp
  have d: "rg_default ?r = provider_openai" using register_all_default [of "''provider''" m es r] r(2) by (simp add: provider_register_def)
  have n: "trim_space ?n = ?n" by (rule trim_or_default [OF t])
  have l: "rg_lookup ?r ?n =
      (case rg_lookup r ?n of Some u \<Rightarrow> Some u
       | None \<Rightarrow> map_option snd (find (\<lambda>(j, f). trim_space j = ?n \<and> registration_ok j m \<and> f \<noteq> None) es))"
    using hr.register_all_lookup [of "''provider''" m es r ?n, unfolded n] by (simp only: provider_register_def)
  have res: "provider_resolve (Some ?r) i cfg =
      (case rg_lookup ?r ?n of Some (Some f) \<Rightarrow> f cfg | _ \<Rightarrow> Inl (not_found (''provider '' @ quote_str ?n)))"
    using resolve_lookup [of ?r i cfg, unfolded d, OF t] .
  have "provider_resolve (Some ?r) i cfg =
      (case map_of builtin_providers ?n of
         Some factory \<Rightarrow> factory cfg
       | None \<Rightarrow>
           (case first_entry m es (trim_space i) of
              Some factory \<Rightarrow> factory cfg
            | None \<Rightarrow> Inl (not_found (''provider '' @ quote_str (trim_space i)))))"
  proof (cases "?n \<in> {provider_openai, provider_anthropic, provider_dashscope}")
    case True
    with res l b show ?thesis by (auto simp: builtin_providers_def)
  next
    case False
    then have "rg_lookup r ?n = None" using e n by (auto simp: rg_lookup_def map_of_eq_None_iff)
    moreover have "?n = trim_space i" using False by (auto simp: or_default_def)
    moreover have "map_of builtin_providers ?n = None" using False by (auto simp: builtin_providers_def)
    ultimately show ?thesis using res l
      by (auto simp: first_entry_def split: option.splits dest!: find_Some_iff [THEN iffD1])
  qed
  then show ?thesis unfolding r(1) attempt.case .
qed

text \<open>
  A provider is selected by its name, and the built-in providers are never replaced.  Whatever is
  registered in a new provider registry under one metadata, a blank name selects OpenAI, the three built-in names select
  the built-in providers, and any other name selects the first provider that was registered under it
  with a valid source; otherwise there is none.
\<close>

theorem provider_precedence:
  "case new_provider_registry of
     Done r \<Rightarrow>
       provider_resolve (Some (register_all (\<lambda>i f. provider_register i m f) es r)) i cfg =
         (case map_of builtin_providers (or_default (trim_space i) provider_openai) of
            Some factory \<Rightarrow> factory cfg
          | None \<Rightarrow>
              (case first_entry m es (trim_space i) of
                 Some factory \<Rightarrow> factory cfg
               | None \<Rightarrow> Inl (not_found (''provider '' @ quote_str (trim_space i)))))
   | _ \<Rightarrow> False"
  by (rule provider_precedence_helper)

section \<open>The resolver of the model providers\<close>

lemma builtin_factory_ok: "map_of builtin_providers n = Some f \<Longrightarrow> \<exists>a. f cfg = Inr a"
  by (auto simp: builtin_providers_def openai_factory_def anthropic_factory_def dashscope_factory_def split: if_splits)

text \<open>
  The resolver the plugin package installs is equivalent to the built-in one.  It gives the same
  provider for the same name and configuration, and an error for the same names; so a provider that a
  plugin manager has registered is never found by \<^verbatim>\<open>NewProvider\<close>.
\<close>

theorem default_resolver_equivalent:
  "case default_llm_resolve i cfg of
     Done r \<Rightarrow>
       (case builtin_provider_resolve i cfg of
          Inr a \<Rightarrow> r = Inr a
        | Inl e \<Rightarrow> (\<exists>e'. r = Inl e' \<and> errors_is e' registry_entry_not_found) \<and> errors_is e unsupported_provider_type)
   | _ \<Rightarrow> False"
proof -
  obtain r where r: "new_provider_registry = Done r" using provider_registry_done by blast
  have "provider_resolve (Some r) i cfg =
      (case map_of builtin_providers (or_default (trim_space i) provider_openai) of
         Some factory \<Rightarrow> factory cfg
       | None \<Rightarrow> Inl (not_found (''provider '' @ quote_str (trim_space i))))"
    using provider_precedence_helper [of "\<lparr>rm_display_name = [], rm_source = [], rm_path = []\<rparr>" "[]" i cfg]
    unfolding r attempt.case by (simp only: register_all.simps first_entry_def find.simps bind.simps option.case)
  then show ?thesis
    using builtin_factory_ok [of "or_default (trim_space i) provider_openai" _ cfg]
    unfolding default_llm_resolve_def r then_attempt.simps attempt.case
    by (auto simp: manager_resolve_provider_def builtin_provider_resolve_def not_found_def Let_def
        split: option.splits)
qed

section \<open>The registry of verifiers\<close>

text \<open>Every predeclared policy has a built-in verifier.\<close>

definition all_taken :: "'w verifier_registry \<Rightarrow> bool" where
  "all_taken v \<longleftrightarrow> list_all (\<lambda>p. map_of (vr_builtins v) p \<noteq> None) (vr_predeclared v)"

lemma all_taken_refuses: "all_taken v \<Longrightarrow> \<not> is_ok (vr_register i f v)"
  by (auto simp: all_taken_def vr_register_def registered_policy_Inr list_all_iff split: sum.splits option.splits)

lemma register_plugin_taken: "vr_register_plugin p v = Inr v' \<Longrightarrow> all_taken v \<Longrightarrow> all_taken v'"
  by (auto simp: vr_register_plugin_def all_taken_def Let_def split: option.splits if_splits sum.splits)

lemma hv_register_plugin_taken:
  "hv_register_plugin p r = Inr r' \<Longrightarrow> all_taken (hv_registry r) \<Longrightarrow> all_taken (hv_registry r')"
  by (auto simp: hv_register_plugin_def Let_def split: option.splits if_splits sum.splits dest: register_plugin_taken)

definition host_plugins :: "'w verifier_plugin list \<Rightarrow> 'w host_verifiers \<Rightarrow> 'w host_verifiers" where
  "host_plugins ps r = fold (\<lambda>p r. case hv_register_plugin (Some p) r of Inl e \<Rightarrow> r | Inr r' \<Rightarrow> r') ps r"

lemma host_plugins_taken: "all_taken (hv_registry r) \<Longrightarrow> all_taken (hv_registry (host_plugins ps r))"
proof (induction ps arbitrary: r)
  case (Cons p ps)
  then have "all_taken (hv_registry (case hv_register_plugin (Some p) r of Inl e \<Rightarrow> r | Inr r' \<Rightarrow> r'))"
    by (auto split: sum.split dest: hv_register_plugin_taken)
  from Cons.IH [OF this] show ?case by (simp add: host_plugins_def)
qed (simp add: host_plugins_def)

lemma host_verifiers_done: "\<exists>h. new_host_verifiers = Done h \<and> all_taken (hv_registry h)"
proof -
  have n: "normalize_registration policy_command m = Inr (policy_command, (snd (projr (normalize_registration policy_command m))))"
    "normalize_registration policy_evidence m = Inr (policy_evidence, (snd (projr (normalize_registration policy_evidence m))))"
    "normalize_registration policy_state_output m = Inr (policy_state_output, (snd (projr (normalize_registration policy_state_output m))))"
    if "rm_source m = source_builtin" for m
  proof -
    have "trim_space policy_command = policy_command" "trim_space policy_evidence = policy_evidence"
      "trim_space policy_state_output = policy_state_output" "policy_command \<noteq> []" "policy_evidence \<noteq> []" "policy_state_output \<noteq> []"
      "source_builtin \<noteq> []"
      by code_simp+
    with that show "normalize_registration policy_command m = Inr (policy_command, (snd (projr (normalize_registration policy_command m))))"
      "normalize_registration policy_evidence m = Inr (policy_evidence, (snd (projr (normalize_registration policy_evidence m))))"
      "normalize_registration policy_state_output m = Inr (policy_state_output, (snd (projr (normalize_registration policy_state_output m))))"
      by (simp_all add: normalize_registration_def Let_def)
  qed
  have c: "canonical_policy_id policy_command = Some policy_command" "canonical_policy_id policy_evidence = Some policy_evidence"
    "canonical_policy_id policy_state_output = Some policy_state_output"
    by code_simp+
  have d: "policy_command \<noteq> policy_evidence" "policy_command \<noteq> policy_state_output" "policy_evidence \<noteq> policy_state_output"
    by code_simp+
  show ?thesis
    unfolding new_host_verifiers_def new_registry_done then_attempt.simps hv_must_register_def
    by (subst n(1), simp, simp add: vr_get_def find_descriptor_def c d, subst n(2), simp, simp add: vr_get_def find_descriptor_def c d,
        subst n(3), simp, simp add: all_taken_def vr_get_def find_descriptor_def c d)
qed

text \<open>
  The host's verifiers are closed.  In a new registry every policy the host declares has its
  built-in verifier, so \<^verbatim>\<open>Register\<close> refuses every further factory under every name, also after plugins
  have been registered for any of the policies.
\<close>

theorem host_verifiers_closed:
  fixes ps :: "'w verifier_plugin list"
  shows "case new_host_verifiers of
     Done h \<Rightarrow> \<not> is_ok (hv_register i m factory (host_plugins ps h))
   | _ \<Rightarrow> False"
proof -
  obtain h :: "'w host_verifiers" where h: "new_host_verifiers = Done h" and t: "all_taken (hv_registry h)" using host_verifiers_done by blast
  have "\<not> is_ok (hv_register i m factory r)" if "all_taken (hv_registry r)" for r :: "'w host_verifiers"
    using all_taken_refuses [OF that]
    by (auto simp: hv_register_def is_ok_iff split: sum.splits option.splits prod.splits if_splits)
  from this [OF host_plugins_taken [OF t]] show ?thesis unfolding h attempt.case .
qed

end
