(* ===== verification/Memory_Store.thy ===== *)
theory Memory_Store
  imports Memory_Model Go_Text "HOL-Library.Product_Lexorder"
begin

text \<open>
  The memory policy (\<^verbatim>\<open>internal/memory/policy.go\<close>) and the stores of memory entries
  (\<^verbatim>\<open>internal/store/memory_store.go\<close> and \<^verbatim>\<open>internal/memory/store.go\<close>).

  A table is the list of its rows in the order of their insertion; a statement on it has the meaning SQL
  gives it.  An error of the database is a parameter; times are kept as instants, and the first store's
  columns are ordered as these.  A nil store is \<^term>\<open>None\<close>.
\<close>

section \<open>The policy\<close>

definition is_valid_scope :: "memory_scope \<Rightarrow> bool" where
  "is_valid_scope s \<longleftrightarrow> s \<in> {ms_session, ms_project, ms_global}"

definition is_valid_type :: "memory_type \<Rightarrow> bool" where
  "is_valid_type t \<longleftrightarrow> t \<in> {mt_preference, mt_fact, mt_summary}"

definition invalid_entry :: go_error where
  "invalid_entry = Message ''memory entry failed validation''"
definition global_scope_write :: go_error where
  "global_scope_write = Message ''global memory is read-only''"
definition session_scope_match :: go_error where
  "session_scope_match = Message ''session scope requires matching session id''"

definition entry_refused :: "string \<Rightarrow> go_error" where
  "entry_refused what = Wrapped (error_text invalid_entry @ '': '' @ what) invalid_entry"

definition validate_entry :: "memory_entry \<Rightarrow> go_error option" where
  "validate_entry e =
     (if \<not> is_valid_scope (me_scope e) then Some (entry_refused (''invalid scope '' @ quote_str (me_scope e)))
      else if \<not> is_valid_type (me_type e) then Some (entry_refused (''invalid type '' @ quote_str (me_type e)))
      else if blank (me_key e) then Some (entry_refused ''key must not be empty'')
      else if blank (me_content e) then Some (entry_refused ''content must not be empty'')
      else if blank (me_source e) then Some (entry_refused ''source must not be empty'')
      else if me_confidence e < 0 \<or> me_confidence e > 100 then Some (entry_refused ''confidence must be between 0 and 100'')
      else if me_scope e = ms_session \<and> blank (me_session_id e) then Some (entry_refused ''session scope requires session id'')
      else if me_scope e = ms_global then Some global_scope_write
      else None)"

definition validate_query :: "recall_query \<Rightarrow> go_error option" where
  "validate_query q =
     (if rq_scope q \<noteq> [] \<and> \<not> is_valid_scope (rq_scope q) then Some (Message (''invalid query scope '' @ quote_str (rq_scope q)))
      else if rq_type q \<noteq> [] \<and> \<not> is_valid_type (rq_type q) then Some (Message (''invalid query type '' @ quote_str (rq_type q)))
      else if rq_scope q = ms_session \<and> blank (rq_session_id q) then Some session_scope_match
      else if rq_limit q < 0 then Some (Message ''query limit must not be negative'')
      else None)"

section \<open>The SQLite store\<close>

record memory_row =
  mr_id :: int
  mr_session :: "string option"
  mr_scope :: memory_scope
  mr_type :: memory_type
  mr_key :: string
  mr_value :: string
  mr_source :: string
  mr_confidence :: int
  mr_provenance :: "string option"
  mr_created :: gotime
  mr_updated :: gotime

record memory_table =
  mm_rows :: "memory_row list"
  mm_next :: int

definition empty_memory :: memory_table where
  "empty_memory = \<lparr>mm_rows = [], mm_next = 1\<rparr>"

definition nullable :: "string \<Rightarrow> string option" where
  "nullable s = (if trim_space s = [] then None else Some (trim_space s))"

definition null_string :: "string option \<Rightarrow> string" where
  "null_string s = (case s of None \<Rightarrow> [] | Some t \<Rightarrow> t)"

definition validate_memory_entry :: "memory_entry \<Rightarrow> go_error option" where
  "validate_memory_entry e =
     (if blank (me_key e) then Some (Message ''memory entry failed validation: key must not be empty'')
      else if blank (me_content e) then Some (Message ''memory entry failed validation: content must not be empty'')
      else if blank (me_source e) then Some (Message ''memory entry failed validation: source must not be empty'')
      else if me_confidence e < 0 \<or> me_confidence e > 100
      then Some (Message ''memory entry failed validation: confidence must be between 0 and 100'')
      else if me_scope e \<notin> {ms_session, ms_project, ms_global}
      then Some (Message (''memory entry failed validation: invalid scope '' @ quote_str (me_scope e)))
      else if me_type e \<notin> {mt_preference, mt_fact, mt_summary}
      then Some (Message (''memory entry failed validation: invalid type '' @ quote_str (me_type e)))
      else if me_scope e = ms_session \<and> blank (me_session_id e)
      then Some (Message ''memory entry failed validation: session scope requires session id'')
      else if me_scope e = ms_global then Some (Message ''global memory is read-only'')
      else None)"

definition validate_recall_query :: "recall_query \<Rightarrow> go_error option" where
  "validate_recall_query q =
     (if rq_scope q \<noteq> [] \<and> rq_scope q \<notin> {ms_session, ms_project, ms_global}
      then Some (Message (''invalid query scope '' @ quote_str (rq_scope q)))
      else if rq_type q \<noteq> [] \<and> rq_type q \<notin> {mt_preference, mt_fact, mt_summary}
      then Some (Message (''invalid query type '' @ quote_str (rq_type q)))
      else if rq_scope q = ms_session \<and> blank (rq_session_id q)
      then Some (Message ''session scope requires matching session id'')
      else if rq_limit q < 0 then Some (Message ''query limit must not be negative'')
      else None)"

text \<open>The \<^verbatim>\<open>INSERT\<close> statement of both writers.\<close>

definition insert_row :: "memory_entry \<Rightarrow> memory_table \<Rightarrow> memory_table" where
  "insert_row e t =
     t\<lparr>mm_rows := mm_rows t @
         [\<lparr>mr_id = mm_next t, mr_session = nullable (me_session_id e), mr_scope = me_scope e, mr_type = me_type e,
           mr_key = me_key e, mr_value = me_content e, mr_source = me_source e, mr_confidence = me_confidence e,
           mr_provenance = nullable (me_provenance e), mr_created = me_created_at e, mr_updated = me_updated_at e\<rparr>],
       mm_next := mm_next t + 1\<rparr>"

definition store_not_initialized :: go_error where
  "store_not_initialized = Message ''sqlite memory store is not initialized''"

text \<open>\<open>stamp\<close> is the current time in the layout of \<^verbatim>\<open>formatTimestamp\<close>.\<close>

definition observation_entry :: "string \<Rightarrow> observation \<Rightarrow> gotime \<Rightarrow> string \<Rightarrow> memory_entry" where
  "observation_entry sid ob now stamp =
     \<lparr>me_id = [], me_session_id = sid, me_project_key = [], me_scope = ms_session, me_type = mt_summary,
      me_key = ''observation-'' @ stamp,
      me_content = (case obs_tool_result ob of
                      None \<Rightarrow> obs_summary ob
                    | Some r \<Rightarrow> if tr_output r \<noteq> [] then tr_output r else obs_summary ob),
      me_source = (case obs_tool_result ob of
                     None \<Rightarrow> ''runtime''
                   | Some r \<Rightarrow> if tr_tool_name r \<noteq> [] then ''tool:'' @ tr_tool_name r else ''runtime''),
      me_confidence = 50, me_provenance = ''runtime.Remember'', me_created_at = now, me_updated_at = now, me_expires_at = None\<rparr>"

definition ms_remember ::
  "go_error option \<Rightarrow> gotime \<Rightarrow> string \<Rightarrow> string \<Rightarrow> observation \<Rightarrow> memory_table option \<Rightarrow> go_error option \<times> memory_table option" where
  "ms_remember db_error now stamp sid ob s =
     (case s of
        None \<Rightarrow> (Some store_not_initialized, None)
      | Some t \<Rightarrow>
          if blank (obs_summary ob) \<and> obs_tool_result ob = None then (None, s)
          else
            (let e = observation_entry sid ob now stamp in
             case validate_memory_entry e of
               Some err \<Rightarrow> (Some (Wrapped (''validate runtime observation: '' @ error_text err) err), s)
             | None \<Rightarrow>
                 (case db_error of
                    Some err \<Rightarrow> (Some (Wrapped (''persist runtime observation: '' @ error_text err) err), s)
                  | None \<Rightarrow> (None, Some (insert_row e t)))))"

text \<open>The zero time is \<open>0\<close>.\<close>

definition ms_write ::
  "go_error option \<Rightarrow> gotime \<Rightarrow> memory_entry \<Rightarrow> memory_table option \<Rightarrow> (go_error, memory_entry) result \<times> memory_table option" where
  "ms_write db_error now e s =
     (case s of
        None \<Rightarrow> (Inl store_not_initialized, None)
      | Some t \<Rightarrow>
          (case validate_memory_entry e of
             Some err \<Rightarrow> (Inl err, s)
           | None \<Rightarrow>
               (let created = (if me_created_at e = 0 then now else me_created_at e);
                    updated = (if me_updated_at e = 0 then created else me_updated_at e);
                    e1 = e\<lparr>me_created_at := created, me_updated_at := updated\<rparr> in
                case db_error of
                  Some err \<Rightarrow> (Inl (Wrapped (''write memory entry '' @ quote_str (me_key e) @ '': '' @ error_text err) err), s)
                | None \<Rightarrow> (Inr (e1\<lparr>me_id := show_int (mm_next t)\<rparr>), Some (insert_row e1 t)))))"

text \<open>The \<^verbatim>\<open>WHERE\<close> clause as it is put together, \<^verbatim>\<open>ORDER BY updated_at DESC, id DESC\<close> and \<^verbatim>\<open>LIMIT\<close>.\<close>

definition row_matches :: "recall_query \<Rightarrow> memory_row \<Rightarrow> bool" where
  "row_matches q r \<longleftrightarrow>
     (rq_scope q \<noteq> [] \<longrightarrow> mr_scope r = rq_scope q) \<and>
     (rq_scope q = ms_session \<longrightarrow> mr_session r = Some (rq_session_id q)) \<and>
     (rq_type q \<noteq> [] \<longrightarrow> mr_type r = rq_type q) \<and>
     (\<not> blank (rq_key q) \<longrightarrow> mr_key r = rq_key q)"

definition newest_first :: "memory_row list \<Rightarrow> memory_row list" where
  "newest_first rows = rev (sort_key (\<lambda>r. (mr_updated r, mr_id r)) rows)"

definition scan_row :: "memory_row \<Rightarrow> memory_entry" where
  "scan_row r =
     \<lparr>me_id = show_int (mr_id r), me_session_id = null_string (mr_session r), me_project_key = [], me_scope = mr_scope r,
      me_type = mr_type r, me_key = mr_key r, me_content = mr_value r, me_source = mr_source r, me_confidence = mr_confidence r,
      me_provenance = null_string (mr_provenance r), me_created_at = mr_created r, me_updated_at = mr_updated r,
      me_expires_at = None\<rparr>"

definition ms_recall :: "go_error option \<Rightarrow> recall_query \<Rightarrow> memory_table option \<Rightarrow> (go_error, memory_entry list) result" where
  "ms_recall db_error q s =
     (case s of
        None \<Rightarrow> Inl store_not_initialized
      | Some t \<Rightarrow>
          (case validate_recall_query q of
             Some err \<Rightarrow> Inl err
           | None \<Rightarrow>
               (case db_error of
                  Some err \<Rightarrow> Inl (Wrapped (''recall memory entries: '' @ error_text err) err)
                | None \<Rightarrow>
                    (let rows = newest_first (filter (row_matches q) (mm_rows t)) in
                     Inr (map scan_row (if rq_limit q > 0 then take (nat (rq_limit q)) rows else rows))))))"

section \<open>The store of explicit entries\<close>

text \<open>
  \<^verbatim>\<open>internal/memory/store.go\<close>: the columns of its table, with the times as the text they are stored as.
  \<open>show_time\<close> and \<open>read_time\<close> are the layout of \<^verbatim>\<open>time.RFC3339Nano\<close>.
\<close>

record explicit_row =
  er_id :: string
  er_session :: string
  er_project :: string
  er_scope :: memory_scope
  er_type :: memory_type
  er_content :: string
  er_source :: string
  er_confidence :: int
  er_created :: string
  er_last_used :: string

record explicit_store =
  es_rows :: "explicit_row list"
  es_project_key :: string

definition explicit_write ::
  "(gotime \<Rightarrow> string) \<Rightarrow> go_error option \<Rightarrow> memory_entry \<Rightarrow> explicit_store \<Rightarrow> go_error option \<times> explicit_store" where
  "explicit_write show_time db_error e s =
     (case validate_entry e of
        Some err \<Rightarrow> (Some err, s)
      | None \<Rightarrow>
          (case db_error of
             Some err \<Rightarrow> (Some err, s)
           | None \<Rightarrow>
               if me_id e \<in> set (map er_id (es_rows s)) then (Some (Message ''UNIQUE constraint failed: memory_entries.id''), s)
               else (None,
                 s\<lparr>es_rows := es_rows s @
                     [\<lparr>er_id = me_id e, er_session = me_session_id e, er_project = me_project_key e, er_scope = me_scope e,
                       er_type = me_type e, er_content = me_content e, er_source = me_source e, er_confidence = me_confidence e,
                       er_created = show_time (me_created_at e), er_last_used = show_time (me_updated_at e)\<rparr>]\<rparr>)))"

definition explicit_remember ::
  "(gotime \<Rightarrow> string) \<Rightarrow> go_error option \<Rightarrow> gotime \<Rightarrow> string \<Rightarrow> observation \<Rightarrow> explicit_store \<Rightarrow> go_error option \<times> explicit_store" where
  "explicit_remember show_time db_error now sid ob s =
     (let text = trim_space (obs_summary ob) in
      if \<not> has_prefix ''remember:'' (to_lower text) then (None, s)
      else
        (let e = \<lparr>me_id = sid @ ''-'' @ show_int (unix_nano now), me_session_id = sid, me_project_key = es_project_key s,
                  me_scope = ms_session, me_type = mt_summary, me_key = ''observation-'' @ show_int (unix_nano now),
                  me_content = trim_space (trim_prefix ''remember:'' text), me_source = ''runtime_observation'',
                  me_confidence = 50, me_provenance = [], me_created_at = now, me_updated_at = now, me_expires_at = None\<rparr> in
         if me_content e = [] then (None, s) else explicit_write show_time db_error e s))"

fun read_rows :: "(string \<Rightarrow> (go_error, gotime) result) \<Rightarrow> explicit_row list \<Rightarrow> (go_error, memory_entry list) result" where
  "read_rows read_time [] = Inr []"
| "read_rows read_time (r # rs) =
     (case read_time (er_created r) of
        Inl e \<Rightarrow> Inl (Wrapped (''parse created_at for memory entry '' @ quote_str (er_id r) @ '': '' @ error_text e) e)
      | Inr created \<Rightarrow>
          (case read_time (er_last_used r) of
             Inl e \<Rightarrow> Inl (Wrapped (''parse last_used_at for memory entry '' @ quote_str (er_id r) @ '': '' @ error_text e) e)
           | Inr updated \<Rightarrow>
               (case read_rows read_time rs of
                  Inl e \<Rightarrow> Inl e
                | Inr es \<Rightarrow>
                    Inr (\<lparr>me_id = er_id r, me_session_id = er_session r, me_project_key = er_project r, me_scope = er_scope r,
                          me_type = er_type r, me_key = [], me_content = er_content r, me_source = er_source r,
                          me_confidence = er_confidence r, me_provenance = [], me_created_at = created, me_updated_at = updated,
                          me_expires_at = None\<rparr> # es))))"

text \<open>Rows with equal times come in an order the statement leaves open; here the newest row is first.\<close>

definition load_relevant ::
  "(string \<Rightarrow> (go_error, gotime) result) \<Rightarrow> go_error option \<Rightarrow> string \<Rightarrow> explicit_store \<Rightarrow> (go_error, memory_entry list) result" where
  "load_relevant read_time db_error sid s =
     (case db_error of
        Some e \<Rightarrow> Inl e
      | None \<Rightarrow>
          read_rows read_time
            (rev (sort_key er_last_used
              (filter (\<lambda>r. er_session r = sid \<or> (er_project r = es_project_key s \<and> er_scope r \<in> {ms_project, ms_global}))
                (es_rows s)))))"

end
