(* ===== verification/Memory_Properties.thy ===== *)
theory Memory_Properties
  imports Memory_Store
begin

text \<open>
  What the stores of memory entries keep: the invariant of the table, what a recall returns, and which
  entries come back from it.
\<close>

section \<open>The invariant of the table\<close>

text \<open>The tables that sequences of \<^verbatim>\<open>Remember\<close> and \<^verbatim>\<open>Write\<close> calls, failing ones too, leave behind.\<close>

inductive memory_reachable :: "memory_table \<Rightarrow> bool" where
  opened: "memory_reachable empty_memory"
| remembered: "\<lbrakk>memory_reachable t; ms_remember db now stamp sid ob (Some t) = (err, Some t')\<rbrakk> \<Longrightarrow> memory_reachable t'"
| written: "\<lbrakk>memory_reachable t; ms_write db now e (Some t) = (res, Some t')\<rbrakk> \<Longrightarrow> memory_reachable t'"

definition row_ok :: "memory_row \<Rightarrow> bool" where
  "row_ok r \<longleftrightarrow> mr_scope r \<in> {ms_session, ms_project} \<and> is_valid_type (mr_type r) \<and> \<not> blank (mr_key r) \<and>
     \<not> blank (mr_value r) \<and> \<not> blank (mr_source r) \<and> 0 \<le> mr_confidence r \<and> mr_confidence r \<le> 100 \<and>
     (mr_scope r = ms_session \<longrightarrow> mr_session r \<noteq> None) \<and>
     (\<forall>s. mr_session r = Some s \<longrightarrow> s \<noteq> [] \<and> trim_space s = s)"

definition memory_ok :: "memory_table \<Rightarrow> bool" where
  "memory_ok t \<longleftrightarrow> sorted_wrt (<) (map mr_id (mm_rows t)) \<and> (\<forall>r \<in> set (mm_rows t). mr_id r < mm_next t \<and> row_ok r)"

lemma validated_entry:
  assumes "validate_memory_entry e = None"
  shows "me_scope e \<in> {ms_session, ms_project}" "is_valid_type (me_type e)" "\<not> blank (me_key e)"
    "\<not> blank (me_content e)" "\<not> blank (me_source e)" "0 \<le> me_confidence e" "me_confidence e \<le> 100"
    "me_scope e = ms_session \<Longrightarrow> \<not> blank (me_session_id e)"
  using assms by (auto simp: validate_memory_entry_def is_valid_type_def split: if_splits)

lemma insert_keeps_ok:
  assumes "memory_ok t" and "validate_memory_entry e = None"
  shows "memory_ok (insert_row e t)"
  using assms(1) validated_entry[OF assms(2)]
  by (fastforce simp: memory_ok_def insert_row_def row_ok_def sorted_wrt_append nullable_def blank_def)

lemma validate_times [simp]: "validate_memory_entry (e\<lparr>me_created_at := a, me_updated_at := b\<rparr>) = validate_memory_entry e"
  by (simp add: validate_memory_entry_def)

lemma remember_step:
  assumes "ms_remember db now stamp sid ob (Some t) = (err, Some t')"
  shows "t' = t \<or> (err = None \<and> validate_memory_entry (observation_entry sid ob now stamp) = None \<and>
                    t' = insert_row (observation_entry sid ob now stamp) t)"
  using assms by (auto simp: ms_remember_def Let_def split: if_splits option.splits)

lemma write_step:
  assumes "ms_write db now e (Some t) = (res, Some t')"
  shows "t' = t \<or> (\<exists>a b. validate_memory_entry (e\<lparr>me_created_at := a, me_updated_at := b\<rparr>) = None \<and>
                    t' = insert_row (e\<lparr>me_created_at := a, me_updated_at := b\<rparr>) t)"
proof -
  define a where "a = (if me_created_at e = 0 then now else me_created_at e)"
  define b where "b = (if me_updated_at e = 0 then a else me_updated_at e)"
  have "t' = t \<or> (validate_memory_entry e = None \<and> t' = insert_row (e\<lparr>me_created_at := a, me_updated_at := b\<rparr>) t)"
    using assms unfolding ms_write_def Let_def a_def[symmetric] b_def[symmetric] by (simp split: option.splits)
  then show ?thesis by auto
qed

lemma reachable_ok: "memory_reachable t \<Longrightarrow> memory_ok t"
proof (induction rule: memory_reachable.induct)
  case opened
  show ?case by (simp add: memory_ok_def empty_memory_def)
next
  case (remembered t db now stamp sid ob err t')
  then show ?case using remember_step[OF remembered(2)] insert_keeps_ok by metis
next
  case (written t db now e res t')
  then show ?case using write_step[OF written(2)] insert_keeps_ok by metis
qed

section \<open>Recalling\<close>

lemma set_newest [simp]: "set (newest_first rows) = set rows" and length_newest [simp]: "length (newest_first rows) = length rows"
  by (simp_all add: newest_first_def)

lemma distinct_rows: "memory_ok t \<Longrightarrow> distinct (map mr_id (filter P (mm_rows t)))"
  by (metis memory_ok_def strict_sorted_iff distinct_map_filter)

lemma newest_sorted:
  assumes "distinct (map mr_id rows)"
  shows "sorted_wrt (\<lambda>a b. (mr_updated b, mr_id b) < (mr_updated a, mr_id a)) (newest_first rows)"
proof -
  let ?f = "\<lambda>r. (mr_updated r, mr_id r)"
  have "distinct (map ?f rows)" using assms by (auto simp: distinct_map inj_on_def)
  then have "distinct (map ?f (sort_key ?f rows))" by (simp add: distinct_map)
  moreover have "sorted (map ?f (sort_key ?f rows))" by simp
  ultimately have "sorted_wrt (<) (map ?f (sort_key ?f rows))" using strict_sorted_iff by blast
  then show ?thesis by (simp add: newest_first_def sorted_wrt_map sorted_wrt_rev)
qed

definition recalled_rows :: "recall_query \<Rightarrow> memory_table \<Rightarrow> memory_row list" where
  "recalled_rows q t =
     (let rows = newest_first (filter (row_matches q) (mm_rows t)) in
      if rq_limit q > 0 then take (nat (rq_limit q)) rows else rows)"

lemma recall_of_rows:
  "ms_recall None q (Some t) = (case validate_recall_query q of Some err \<Rightarrow> Inl err | None \<Rightarrow> Inr (map scan_row (recalled_rows q t)))"
  by (simp add: ms_recall_def recalled_rows_def Let_def split: option.split)

lemma recalled_subset: "set (recalled_rows q t) \<subseteq> {r \<in> set (mm_rows t). row_matches q r}"
  by (auto simp: recalled_rows_def Let_def dest: in_set_takeD)

lemma recalled_all: "rq_limit q \<le> 0 \<Longrightarrow> set (recalled_rows q t) = {r \<in> set (mm_rows t). row_matches q r}"
  by (auto simp: recalled_rows_def Let_def)

lemma recalled_sorted:
  "memory_ok t \<Longrightarrow> sorted_wrt (\<lambda>a b. (mr_updated b, mr_id b) < (mr_updated a, mr_id a)) (recalled_rows q t)"
  using newest_sorted[OF distinct_rows] by (auto simp: recalled_rows_def Let_def sorted_wrt_take)

text \<open>C32.  What a recall returns from any table the store can reach: rows that match the query, newest first
  (strictly, by time and then by row number); no more than the limit; and a row that matches and is left
  out is older than every row returned, and is left out only when the limit has been used up.\<close>

theorem recall_newest_matching:
  assumes "memory_reachable t" and "ms_recall None q (Some t) = Inr es"
  shows "\<exists>rows. es = map scan_row rows \<and> set rows \<subseteq> {r \<in> set (mm_rows t). row_matches q r} \<and>
     sorted_wrt (\<lambda>a b. (mr_updated b, mr_id b) < (mr_updated a, mr_id a)) rows \<and>
     (\<forall>r \<in> set (mm_rows t). row_matches q r \<and> r \<notin> set rows \<longrightarrow>
        rq_limit q > 0 \<and> int (length rows) = rq_limit q \<and>
        (\<forall>k \<in> set rows. (mr_updated r, mr_id r) < (mr_updated k, mr_id k))) \<and>
     (rq_limit q > 0 \<longrightarrow> int (length rows) \<le> rq_limit q)"
proof (intro exI[of _ "recalled_rows q t"] conjI ballI impI)
  have ok: "memory_ok t" by (rule reachable_ok[OF assms(1)])
  show "es = map scan_row (recalled_rows q t)"
    using assms(2) by (simp add: recall_of_rows split: option.splits)
  show "set (recalled_rows q t) \<subseteq> {r \<in> set (mm_rows t). row_matches q r}" by (rule recalled_subset)
  show "sorted_wrt (\<lambda>a b. (mr_updated b, mr_id b) < (mr_updated a, mr_id a)) (recalled_rows q t)"
    by (rule recalled_sorted[OF ok])
  show "rq_limit q > 0 \<Longrightarrow> int (length (recalled_rows q t)) \<le> rq_limit q"
    by (simp add: recalled_rows_def Let_def)
  let ?all = "newest_first (filter (row_matches q) (mm_rows t))"
  fix r assume r: "r \<in> set (mm_rows t)" "row_matches q r \<and> r \<notin> set (recalled_rows q t)"
  then show lim: "rq_limit q > 0" using recalled_all[of q t] by (cases "rq_limit q \<le> 0") auto
  have in_all: "r \<in> set ?all" using r by simp
  have parts: "?all = recalled_rows q t @ drop (nat (rq_limit q)) ?all"
    using lim by (simp add: recalled_rows_def Let_def)
  then have left: "r \<in> set (drop (nat (rq_limit q)) ?all)" using in_all r(2) by (metis Un_iff set_append)
  then have "nat (rq_limit q) < length ?all" by (metis drop_all empty_iff linorder_not_le list.set(1))
  then show "int (length (recalled_rows q t)) = rq_limit q" using lim by (simp add: recalled_rows_def Let_def)
  have "sorted_wrt (\<lambda>a b. (mr_updated b, mr_id b) < (mr_updated a, mr_id a)) (recalled_rows q t @ drop (nat (rq_limit q)) ?all)"
    using newest_sorted[OF distinct_rows[OF ok]] parts by metis
  then show "(mr_updated r, mr_id r) < (mr_updated k, mr_id k)" if "k \<in> set (recalled_rows q t)" for k
    using that left by (auto simp: sorted_wrt_append)
qed

definition sample_entry :: "string \<Rightarrow> string \<Rightarrow> memory_entry" where
  "sample_entry sid key = \<lparr>me_id = [], me_session_id = sid, me_project_key = [], me_scope = ms_session, me_type = mt_fact,
     me_key = key, me_content = ''go 1.22'', me_source = ''tool'', me_confidence = 80, me_provenance = ''run'',
     me_created_at = 0, me_updated_at = 0, me_expires_at = None\<rparr>"

definition session_query :: "string \<Rightarrow> recall_query" where
  "session_query sid = \<lparr>rq_session_id = sid, rq_scope = ms_session, rq_type = [], rq_key = [], rq_source = [], rq_limit = 1, rq_prefix = []\<rparr>"

definition two_rows :: memory_table where
  "two_rows = the (snd (ms_write None 7 (sample_entry ''s1'' ''b'') (snd (ms_write None 5 (sample_entry ''s1'' ''a'') (Some empty_memory)))))"

lemma sample_texts:
  "trim_space ''s1'' = ''s1''" "trim_space ''run'' = ''run''" "trim_space '' s1'' = ''s1''" "\<not> blank ''a''" "\<not> blank ''b''"
  "\<not> blank ''go 1.22''" "\<not> blank ''tool''" "\<not> blank ''s1''" "\<not> blank '' s1''"
  by code_simp+

lemma sample_valid: "validate_memory_entry (sample_entry ''s1'' ''a'') = None" "validate_memory_entry (sample_entry ''s1'' ''b'') = None"
  by (simp_all add: validate_memory_entry_def sample_entry_def sample_texts)

lemma sample_write: "ms_write None now (sample_entry ''s1'' k) (Some t) =
   (if validate_memory_entry (sample_entry ''s1'' k) = None
    then (Inr ((sample_entry ''s1'' k)\<lparr>me_id := show_int (mm_next t), me_created_at := now, me_updated_at := now\<rparr>),
          Some (insert_row ((sample_entry ''s1'' k)\<lparr>me_created_at := now, me_updated_at := now\<rparr>) t))
    else (Inl (the (validate_memory_entry (sample_entry ''s1'' k))), Some t))"
  by (auto simp: ms_write_def sample_entry_def Let_def split: option.splits)

lemma two_rows_eq:
  "two_rows = insert_row ((sample_entry ''s1'' ''b'')\<lparr>me_created_at := 7, me_updated_at := 7\<rparr>)
     (insert_row ((sample_entry ''s1'' ''a'')\<lparr>me_created_at := 5, me_updated_at := 5\<rparr>) empty_memory)"
  by (simp add: two_rows_def sample_write sample_valid)

lemma two_rows_reachable: "memory_reachable two_rows"
proof -
  have "memory_reachable (insert_row ((sample_entry ''s1'' ''a'')\<lparr>me_created_at := 5, me_updated_at := 5\<rparr>) empty_memory)"
    by (rule written[OF opened, of None 5 "sample_entry ''s1'' ''a''"]) (simp add: sample_write sample_valid)
  then show ?thesis
    unfolding two_rows_eq by (rule written[of _ None 7 "sample_entry ''s1'' ''b''"]) (simp add: sample_write sample_valid)
qed

lemma two_rows_recall:
  "ms_recall None (session_query ''s1'') (Some two_rows) = Inr [scan_row (mm_rows two_rows ! 1)]"
  by (simp add: two_rows_eq recall_of_rows recalled_rows_def newest_first_def row_matches_def
      session_query_def validate_recall_query_def insert_row_def empty_memory_def sample_entry_def nullable_def sample_texts)

theorem recall_newest_matching_witness:
  "memory_reachable two_rows \<and> (\<exists>rows. [scan_row (mm_rows two_rows ! 1)] = map scan_row rows \<and> set rows \<subseteq> set (mm_rows two_rows))"
  using two_rows_reachable recall_newest_matching[OF two_rows_reachable two_rows_recall] by (metis (no_types, lifting) mem_Collect_eq subset_eq)

section \<open>What comes back\<close>

lemma recall_inserted:
  assumes "validate_recall_query q = None" and "rq_limit q = 0"
    and "row_matches q (last (mm_rows (insert_row e t)))"
  shows "\<exists>es. ms_recall None q (Some (insert_row e t)) = Inr es \<and> scan_row (last (mm_rows (insert_row e t))) \<in> set es"
  using assms recalled_all[of q "insert_row e t"] by (force simp: recall_of_rows insert_row_def)

definition recall_of_entry :: "memory_entry \<Rightarrow> recall_query" where
  "recall_of_entry e = \<lparr>rq_session_id = me_session_id e, rq_scope = me_scope e, rq_type = me_type e, rq_key = me_key e,
     rq_source = [], rq_limit = 0, rq_prefix = []\<rparr>"

lemma query_of_validated: "validate_memory_entry e = None \<Longrightarrow> validate_recall_query (recall_of_entry e) = None"
  by (auto simp: validate_memory_entry_def validate_recall_query_def recall_of_entry_def split: if_splits)

text \<open> An entry that \<^verbatim>\<open>Write\<close> accepts comes back from a query for its scope, type, key and session, if
  its session id has no white space around it: with the row number as its id, the time of the call for a
  missing time, and everything else as it was written, but for the project key and the expiry, which have
  no column, and white space around the provenance.\<close>

theorem write_recall_roundtrip:
  assumes "ms_write None now e (Some t) = (Inr e', Some t')"
    and "trim_space (me_session_id e) = me_session_id e"
  shows "\<exists>es. ms_recall None (recall_of_entry e) (Some t') = Inr es \<and>
     e'\<lparr>me_project_key := [], me_expires_at := None, me_provenance := trim_space (me_provenance e)\<rparr> \<in> set es"
proof -
  define created where "created = (if me_created_at e = 0 then now else me_created_at e)"
  define updated where "updated = (if me_updated_at e = 0 then created else me_updated_at e)"
  let ?e1 = "e\<lparr>me_created_at := created, me_updated_at := updated\<rparr>"
  have valid: "validate_memory_entry e = None" and t': "t' = insert_row ?e1 t"
    and e': "e' = ?e1\<lparr>me_id := show_int (mm_next t)\<rparr>"
    using assms(1) by (auto simp: ms_write_def Let_def created_def updated_def split: option.splits)
  have "row_matches (recall_of_entry e) (last (mm_rows (insert_row ?e1 t)))"
    using validated_entry(8)[OF valid] assms(2)
    by (auto simp: row_matches_def recall_of_entry_def insert_row_def nullable_def blank_def)
  moreover have "scan_row (last (mm_rows (insert_row ?e1 t))) =
      e'\<lparr>me_project_key := [], me_expires_at := None, me_provenance := trim_space (me_provenance e)\<rparr>"
    using assms(2) by (simp add: scan_row_def insert_row_def e' nullable_def null_string_def)
  ultimately show ?thesis
    using recall_inserted[OF query_of_validated[OF valid], of ?e1 t] t' by (simp add: recall_of_entry_def)
qed

theorem write_recall_roundtrip_witness:
  "\<exists>es. ms_recall None (recall_of_entry (sample_entry ''s1'' ''a''))
      (Some (insert_row ((sample_entry ''s1'' ''a'')\<lparr>me_created_at := 5, me_updated_at := 5\<rparr>) empty_memory)) = Inr es \<and> es \<noteq> []"
proof -
  let ?e = "sample_entry ''s1'' ''a''"
  have "ms_write None 5 ?e (Some empty_memory) =
      (Inr (?e\<lparr>me_id := show_int 1, me_created_at := 5, me_updated_at := 5\<rparr>),
       Some (insert_row (?e\<lparr>me_created_at := 5, me_updated_at := 5\<rparr>) empty_memory))"
    by (simp add: sample_write sample_valid empty_memory_def)
  moreover have "trim_space (me_session_id ?e) = me_session_id ?e" by (simp add: sample_entry_def sample_texts)
  ultimately obtain es x where "ms_recall None (recall_of_entry ?e)
      (Some (insert_row (?e\<lparr>me_created_at := 5, me_updated_at := 5\<rparr>) empty_memory)) = Inr es" "x \<in> set es"
    by (blast dest: write_recall_roundtrip)
  then show ?thesis by (metis empty_iff list.set(1))
qed

text \<open> C33. A session id with white space around it is trimmed when it is stored and not when it is asked for:
  whatever is remembered or written for such a session, a recall for it is accepted and returns nothing.\<close>

theorem padded_session_recalls_nothing:
  assumes "memory_reachable t" and "rq_scope q = ms_session"
    and "trim_space (rq_session_id q) \<noteq> rq_session_id q" and "validate_recall_query q = None"
  shows "ms_recall None q (Some t) = Inr []"
proof -
  have "\<not> row_matches q r" if "r \<in> set (mm_rows t)" for r
    using reachable_ok[OF assms(1)] that assms(2,3) by (auto simp: memory_ok_def row_ok_def row_matches_def)
  then have "recalled_rows q t = []"
    using recalled_subset[of q t] by (metis (no_types, lifting) mem_Collect_eq set_empty subset_empty subset_eq ex_in_conv)
  then show ?thesis using assms(4) by (simp add: recall_of_rows)
qed

theorem padded_session_recalls_nothing_witness:
  "ms_recall None (session_query '' s1'') (Some two_rows) = Inr [] \<and> validate_recall_query (session_query '' s1'') = None"
  using padded_session_recalls_nothing[OF two_rows_reachable, of "session_query '' s1''"]
  by (simp add: session_query_def validate_recall_query_def sample_texts)

end
