(* ===== verification/Config.thy ===== *)
theory Config
  imports Go_Text Paths "HOL-Library.AList"
begin

text \<open>
  The configuration of a process (\<^verbatim>\<open>internal/config/config.go\<close>): defaults, the file, the environment,
  the flags and the final validation.

  What the process finds outside is a \<open>config_host\<close>: the environment, the home directory, the
  files, the decoder of JSON, and the parsers of durations and of integers in any base.  A map is an
  association list; the order of its entries is the order an iteration happens to take.  A nil map is
  an empty one: the code writes only to a map it has made.
\<close>

section \<open>The configuration\<close>

record provider_settings =
  ps_type :: string
  ps_model :: string
  ps_api_key :: string
  ps_base_url :: string

record runtime_settings =
  rt_max_steps :: int
  rt_step_timeout :: duration
  rt_memory_limit_mb :: int
  rt_verify_mode :: string
  rt_allowed_commands :: "string list"
  rt_allowed_plugin_paths :: "string list"
  rt_plugin_capabilities :: "string list"

record web_ui_settings =
  wu_enabled :: bool
  wu_static_dir :: string
  wu_index_path :: string

record server_settings =
  sv_listen_address :: string
  sv_jwt_secret :: string
  sv_jwt_secret_file :: string
  sv_active_session_cap :: int
  sv_shutdown_timeout :: duration
  sv_enable_wal :: bool
  sv_web_ui_enabled :: bool
  sv_web_ui :: web_ui_settings

record config =
  cf_default_provider :: string
  cf_providers :: "(string \<times> provider_settings) list"
  cf_runtime :: runtime_settings
  cf_server :: server_settings
  cf_provider :: string
  cf_plugin_provider :: string

text \<open>The file's fields, each \<^term>\<open>None\<close> if it is missing.\<close>

record provider_file =
  pf_type :: "string option"
  pf_model :: "string option"
  pf_api_key :: "string option"
  pf_base_url :: "string option"

record runtime_file =
  rf_max_steps :: "int option"
  rf_step_timeout :: "string option"
  rf_memory_limit_mb :: "int option"
  rf_verify_mode :: "string option"
  rf_allowed_commands :: "string list option"
  rf_allowed_plugin_paths :: "string list option"
  rf_plugin_capabilities :: "string list option"

record web_ui_file =
  wf_enabled :: "bool option"
  wf_static_dir :: "string option"
  wf_index_path :: "string option"

record server_file =
  sf_listen_address :: "string option"
  sf_jwt_secret :: "string option"
  sf_jwt_secret_file :: "string option"
  sf_active_session_cap :: "int option"
  sf_shutdown_timeout :: "string option"
  sf_enable_wal :: "bool option"
  sf_web_ui :: "web_ui_file option"

record file_config =
  fc_default_provider :: "string option"
  fc_providers :: "(string \<times> provider_file) list"
  fc_runtime :: "runtime_file option"
  fc_server :: "server_file option"
  fc_model :: "string option"
  fc_provider :: "string option"
  fc_plugin_provider :: "string option"
  fc_max_steps :: "int option"
  fc_step_timeout :: "string option"
  fc_memory_limit_mb :: "int option"
  fc_verify_mode :: "string option"
  fc_api_key :: "string option"
  fc_base_url :: "string option"
  fc_listen_address :: "string option"
  fc_jwt_secret :: "string option"
  fc_jwt_secret_file :: "string option"
  fc_active_session_cap :: "int option"
  fc_shutdown_timeout :: "string option"
  fc_enable_wal :: "bool option"

text \<open>
  Which provider has been selected so far, and by what.  The flags \<^verbatim>\<open>builtinDefined\<close> and
  \<^verbatim>\<open>pluginDefined\<close> are never read.
\<close>

record selection_source =
  sel_builtin_id :: string
  sel_plugin_id :: string
  sel_builtin_origin :: string
  sel_plugin_origin :: string
  sel_builtin_defined :: bool
  sel_plugin_defined :: bool

definition no_selection :: selection_source where
  "no_selection = \<lparr>sel_builtin_id = [], sel_plugin_id = [], sel_builtin_origin = [], sel_plugin_origin = [],
     sel_builtin_defined = False, sel_plugin_defined = False\<rparr>"

definition selected_builtin :: "string \<Rightarrow> string \<Rightarrow> selection_source" where
  "selected_builtin pid origin = \<lparr>sel_builtin_id = pid, sel_plugin_id = [], sel_builtin_origin = origin, sel_plugin_origin = [],
     sel_builtin_defined = True, sel_plugin_defined = False\<rparr>"

definition selected_plugin :: "string \<Rightarrow> string \<Rightarrow> selection_source" where
  "selected_plugin pid origin = \<lparr>sel_builtin_id = [], sel_plugin_id = pid, sel_builtin_origin = [], sel_plugin_origin = origin,
     sel_builtin_defined = False, sel_plugin_defined = True\<rparr>"

definition no_settings :: provider_settings where
  "no_settings = \<lparr>ps_type = [], ps_model = [], ps_api_key = [], ps_base_url = []\<rparr>"

definition default_config :: config where
  "default_config =
     \<lparr>cf_default_provider = ''openai'',
      cf_providers = [(''openai'', \<lparr>ps_type = ''openai'', ps_model = ''gpt-4.1-mini'', ps_api_key = [], ps_base_url = []\<rparr>)],
      cf_runtime = \<lparr>rt_max_steps = 8, rt_step_timeout = 30 * second, rt_memory_limit_mb = 256, rt_verify_mode = ''standard'',
        rt_allowed_commands = [], rt_allowed_plugin_paths = [], rt_plugin_capabilities = []\<rparr>,
      cf_server = \<lparr>sv_listen_address = '':8080'', sv_jwt_secret = [], sv_jwt_secret_file = [], sv_active_session_cap = 8,
        sv_shutdown_timeout = 30 * second, sv_enable_wal = True, sv_web_ui_enabled = False,
        sv_web_ui = \<lparr>wu_enabled = False, wu_static_dir = [], wu_index_path = ''web/index.html''\<rparr>\<rparr>,
      cf_provider = ''openai'', cf_plugin_provider = []\<rparr>"

section \<open>Providers\<close>

definition settings_of :: "(string \<times> provider_settings) list \<Rightarrow> string \<Rightarrow> provider_settings" where
  "settings_of ps n = (case map_of ps n of None \<Rightarrow> no_settings | Some s \<Rightarrow> s)"

definition selected_settings :: "config \<Rightarrow> provider_settings" where
  "selected_settings c = settings_of (cf_providers c) (cf_provider c)"

definition get_model :: "config \<Rightarrow> string" where "get_model c = ps_model (selected_settings c)"
definition get_provider :: "config \<Rightarrow> string" where "get_provider c = cf_provider c"
definition get_provider_type :: "config \<Rightarrow> string" where "get_provider_type c = ps_type (selected_settings c)"
definition get_api_key :: "config \<Rightarrow> string" where "get_api_key c = ps_api_key (selected_settings c)"
definition get_base_url :: "config \<Rightarrow> string" where "get_base_url c = ps_base_url (selected_settings c)"

definition set_provider :: "string \<Rightarrow> provider_settings \<Rightarrow> config \<Rightarrow> config" where
  "set_provider n s c = c\<lparr>cf_providers := AList.update n s (cf_providers c)\<rparr>"

definition normalize_name :: "string \<Rightarrow> string" where
  "normalize_name s = to_lower (trim_space s)"

definition infer_provider_type :: "string \<Rightarrow> string" where
  "infer_provider_type n =
     (if normalize_name n \<in> {''openai'', ''anthropic'', ''dashscope''} then normalize_name n else ''openai'')"

definition trim_pointer :: "string option \<Rightarrow> string" where
  "trim_pointer v = (case v of None \<Rightarrow> [] | Some s \<Rightarrow> trim_space s)"

definition normalize_provider_type :: "string option \<Rightarrow> string \<Rightarrow> string" where
  "normalize_provider_type v n = (if trim_pointer v = [] then infer_provider_type n else to_lower (trim_pointer v))"

definition with_type :: "string \<Rightarrow> provider_settings \<Rightarrow> provider_settings" where
  "with_type n s = (if ps_type s = [] then s\<lparr>ps_type := infer_provider_type n\<rparr> else s)"

definition upsert_selected_provider :: "config \<Rightarrow> config" where
  "upsert_selected_provider c =
     (let p1 = (if blank (cf_provider c) then cf_default_provider c else cf_provider c);
          p2 = (if blank p1 then ''openai'' else p1);
          p = normalize_name p2;
          c1 = c\<lparr>cf_provider := p\<rparr> in
      case map_of (cf_providers c1) p of
        None \<Rightarrow> c1
      | Some s \<Rightarrow>
          (let s1 = with_type p s;
               s2 = (if \<not> blank (cf_plugin_provider c1) \<and> p = trim_space (cf_plugin_provider c1)
                     then s1\<lparr>ps_type := ''plugin''\<rparr> else s1)
           in set_provider p s2 c1))"

definition selection_conflict :: "string \<Rightarrow> string \<Rightarrow> string \<Rightarrow> string \<Rightarrow> bool \<Rightarrow> go_error option" where
  "selection_conflict origin selected existing_origin existing builtin =
     (if blank selected \<or> blank existing \<or> existing_origin = [] then None
      else
        (let kinds = (if builtin then (''built-in provider'', ''plugin-backed provider'')
                      else (''plugin-backed provider'', ''built-in provider'')) in
         Some (Message (''provider selection conflict: '' @ origin @ '' selected '' @ fst kinds @ '' '' @ quote_str (trim_space selected) @
           '' but '' @ existing_origin @ '' already selected '' @ snd kinds @ '' '' @ quote_str (trim_space existing)))))"

text \<open>One layer's choice of a built-in provider, and of a plugin.\<close>

definition select_builtin :: "string \<Rightarrow> string \<Rightarrow> config \<times> selection_source \<Rightarrow> (go_error, config \<times> selection_source) result" where
  "select_builtin origin n cs =
     (case selection_conflict origin n (sel_plugin_origin (snd cs)) (sel_plugin_id (snd cs)) True of
        Some e \<Rightarrow> Inl e
      | None \<Rightarrow> Inr ((fst cs)\<lparr>cf_plugin_provider := [], cf_provider := n\<rparr>, selected_builtin n origin))"

definition select_plugin :: "string \<Rightarrow> string \<Rightarrow> config \<times> selection_source \<Rightarrow> (go_error, config \<times> selection_source) result" where
  "select_plugin origin n cs =
     (case selection_conflict origin n (sel_builtin_origin (snd cs)) (sel_builtin_id (snd cs)) False of
        Some e \<Rightarrow> Inl e
      | None \<Rightarrow> Inr ((fst cs)\<lparr>cf_plugin_provider := n, cf_provider := n\<rparr>, selected_plugin n origin))"

section \<open>The outside\<close>

record config_host =
  ch_getenv :: "string \<Rightarrow> string"
  ch_home :: "(go_error, string) result"
  ch_stat :: "string \<Rightarrow> (go_error, bool) result"
  ch_read :: "string \<Rightarrow> (go_error, string) result"
  ch_unmarshal :: "string \<Rightarrow> (go_error, file_config) result"
  ch_parse_duration :: "string \<Rightarrow> (go_error, duration) result"
  ch_parse_int :: "string \<Rightarrow> (go_error, int) result"

text \<open>\<^verbatim>\<open>os.Stat\<close> says whether the path is a directory; \<open>os_not_exist\<close> is \<^verbatim>\<open>os.ErrNotExist\<close>.\<close>

definition os_not_exist :: go_error where "os_not_exist = Message ''file does not exist''"

text \<open>\<^verbatim>\<open>strconv.Atoi\<close> and \<^verbatim>\<open>strconv.ParseBool\<close> with their errors.\<close>

definition parse_atoi :: "string \<Rightarrow> (go_error, int) result" where
  "parse_atoi s =
     (case atoi s of
        Some i \<Rightarrow> Inr i
      | None \<Rightarrow>
          (let digits = (if s \<noteq> [] \<and> hd s \<in> {CHR ''-'', CHR ''+''} then tl s else s) in
           Inl (Message (''strconv.Atoi: parsing '' @ quote_str s @
             (if read_nat digits = None then '': invalid syntax'' else '': value out of range'')))))"

definition parse_bool :: "string \<Rightarrow> (go_error, bool) result" where
  "parse_bool s =
     (if s \<in> {''1'', ''t'', ''T'', ''true'', ''TRUE'', ''True''} then Inr True
      else if s \<in> {''0'', ''f'', ''F'', ''false'', ''FALSE'', ''False''} then Inr False
      else Inl (Message (''strconv.ParseBool: parsing '' @ quote_str s @ '': invalid syntax'')))"

section \<open>The environment\<close>

type_synonym config_step = "config \<times> selection_source \<Rightarrow> (go_error, config \<times> selection_source) result"

fun run_steps :: "config_step list \<Rightarrow> config_step" where
  "run_steps [] cs = Inr cs"
| "run_steps (f # fs) cs = (case f cs of Inl e \<Rightarrow> Inl e | Inr cs1 \<Rightarrow> run_steps fs cs1)"

definition on_config :: "(config \<Rightarrow> config) \<Rightarrow> config_step" where
  "on_config f cs = Inr (f (fst cs), snd cs)"

definition env_value :: "config_host \<Rightarrow> string \<Rightarrow> string" where
  "env_value h name = trim_space (ch_getenv h name)"

definition env_text :: "config_host \<Rightarrow> string \<Rightarrow> (string \<Rightarrow> config \<Rightarrow> config) \<Rightarrow> config_step" where
  "env_text h name f cs = (if env_value h name = [] then Inr cs else on_config (f (env_value h name)) cs)"

definition env_parsed ::
  "config_host \<Rightarrow> (string \<Rightarrow> (go_error, 'a) result) \<Rightarrow> string \<Rightarrow> ('a \<Rightarrow> config \<Rightarrow> config) \<Rightarrow> config_step" where
  "env_parsed h parse name f cs =
     (if env_value h name = [] then Inr cs
      else case parse (env_value h name) of
        Inl e \<Rightarrow> Inl (Wrapped (''parse '' @ name @ '': '' @ error_text e) e)
      | Inr v \<Rightarrow> on_config (f v) cs)"

definition env_provider :: "config_host \<Rightarrow> config_step" where
  "env_provider h cs =
     (let v = env_value h ''ZHENG_PROVIDER'' in
      if v = [] then Inr cs
      else run_steps [select_builtin ''environment variable ZHENG_PROVIDER'' (to_lower v), on_config upsert_selected_provider] cs)"

definition env_plugin_provider :: "config_host \<Rightarrow> config_step" where
  "env_plugin_provider h cs =
     (let v = env_value h ''ZHENG_PLUGIN_PROVIDER'' in
      if v = [] then Inr cs
      else run_steps [select_plugin ''environment variable ZHENG_PLUGIN_PROVIDER'' v, on_config upsert_selected_provider] cs)"

text \<open>The settings of the selected provider are written back, even where there were none.\<close>

definition on_selected :: "(provider_settings \<Rightarrow> provider_settings) \<Rightarrow> config \<Rightarrow> config" where
  "on_selected f c = set_provider (cf_provider c) (f (selected_settings c)) c"

definition set_max_steps :: "int \<Rightarrow> config \<Rightarrow> config" where
  "set_max_steps v c = c\<lparr>cf_runtime := (cf_runtime c)\<lparr>rt_max_steps := v\<rparr>\<rparr>"
definition set_step_timeout :: "duration \<Rightarrow> config \<Rightarrow> config" where
  "set_step_timeout v c = c\<lparr>cf_runtime := (cf_runtime c)\<lparr>rt_step_timeout := v\<rparr>\<rparr>"
definition set_memory_limit :: "int \<Rightarrow> config \<Rightarrow> config" where
  "set_memory_limit v c = c\<lparr>cf_runtime := (cf_runtime c)\<lparr>rt_memory_limit_mb := v\<rparr>\<rparr>"
definition set_verify_mode :: "string \<Rightarrow> config \<Rightarrow> config" where
  "set_verify_mode v c = c\<lparr>cf_runtime := (cf_runtime c)\<lparr>rt_verify_mode := v\<rparr>\<rparr>"
definition on_server :: "(server_settings \<Rightarrow> server_settings) \<Rightarrow> config \<Rightarrow> config" where
  "on_server f c = c\<lparr>cf_server := f (cf_server c)\<rparr>"
definition on_web_ui :: "(web_ui_settings \<Rightarrow> web_ui_settings) \<Rightarrow> server_settings \<Rightarrow> server_settings" where
  "on_web_ui f s = s\<lparr>sv_web_ui := f (sv_web_ui s)\<rparr>"
definition set_web_ui_enabled :: "bool \<Rightarrow> config \<Rightarrow> config" where
  "set_web_ui_enabled b = on_server (\<lambda>s. on_web_ui (wu_enabled_update (\<lambda>_. b)) (s\<lparr>sv_web_ui_enabled := b\<rparr>))"

definition env_steps :: "config_host \<Rightarrow> config_step list" where
  "env_steps h =
     [env_provider h,
      env_plugin_provider h,
      env_text h ''ZHENG_MODEL'' (\<lambda>v. on_selected (ps_model_update (\<lambda>_. v))),
      env_parsed h parse_atoi ''ZHENG_MAX_STEPS'' set_max_steps,
      env_parsed h (ch_parse_duration h) ''ZHENG_STEP_TIMEOUT'' set_step_timeout,
      env_parsed h parse_atoi ''ZHENG_MEMORY_LIMIT_MB'' set_memory_limit,
      env_text h ''ZHENG_VERIFY_MODE'' (\<lambda>v. set_verify_mode (to_lower v)),
      env_text h ''ZHENG_API_KEY'' (\<lambda>v. on_selected (ps_api_key_update (\<lambda>_. v))),
      env_text h ''ZHENG_BASE_URL'' (\<lambda>v. on_selected (ps_base_url_update (\<lambda>_. v))),
      env_text h ''ZHENG_SERVER_LISTEN_ADDRESS'' (\<lambda>v. on_server (sv_listen_address_update (\<lambda>_. v))),
      env_text h ''ZHENG_SERVER_JWT_SECRET'' (\<lambda>v. on_server (sv_jwt_secret_update (\<lambda>_. v))),
      env_text h ''ZHENG_SERVER_JWT_SECRET_FILE'' (\<lambda>v. on_server (sv_jwt_secret_file_update (\<lambda>_. v))),
      env_parsed h parse_atoi ''ZHENG_SERVER_ACTIVE_SESSION_CAP'' (\<lambda>v. on_server (sv_active_session_cap_update (\<lambda>_. v))),
      env_parsed h (ch_parse_duration h) ''ZHENG_SERVER_SHUTDOWN_TIMEOUT'' (\<lambda>v. on_server (sv_shutdown_timeout_update (\<lambda>_. v))),
      env_parsed h parse_bool ''ZHENG_SERVER_ENABLE_WAL'' (\<lambda>v. on_server (sv_enable_wal_update (\<lambda>_. v))),
      env_parsed h parse_bool ''ZHENG_SERVER_WEB_UI_ENABLED'' set_web_ui_enabled,
      env_text h ''ZHENG_SERVER_WEB_UI_DIR'' (\<lambda>v. on_server (on_web_ui (wu_static_dir_update (\<lambda>_. v))))]"

definition apply_env :: "config_host \<Rightarrow> config_step" where
  "apply_env h = run_steps (env_steps h)"

section \<open>The file\<close>

text \<open>What a field of the file sets, if it is there.\<close>

definition file_set :: "'a option \<Rightarrow> ('a \<Rightarrow> config \<Rightarrow> config) \<Rightarrow> config_step" where
  "file_set v f = (case v of None \<Rightarrow> Inr | Some x \<Rightarrow> on_config (f x))"

definition file_text :: "string option \<Rightarrow> (string \<Rightarrow> config \<Rightarrow> config) \<Rightarrow> config_step" where
  "file_text v f = file_set v (\<lambda>x. f (trim_space x))"

definition parse_duration_field :: "config_host \<Rightarrow> string \<Rightarrow> string \<Rightarrow> string \<Rightarrow> (go_error, duration) result" where
  "parse_duration_field h raw path field =
     (if blank raw then Inr 0
      else case ch_parse_duration h (trim_space raw) of
        Inl e \<Rightarrow> Inl (Wrapped (''parse '' @ field @ '' from config file '' @ quote_str path @ '': '' @ error_text e) e)
      | Inr d \<Rightarrow> Inr d)"

definition file_duration :: "config_host \<Rightarrow> string \<Rightarrow> string \<Rightarrow> string option \<Rightarrow> (duration \<Rightarrow> config \<Rightarrow> config) \<Rightarrow> config_step" where
  "file_duration h path field v f cs =
     (case v of
        None \<Rightarrow> Inr cs
      | Some raw \<Rightarrow> (case parse_duration_field h raw path field of Inl e \<Rightarrow> Inl e | Inr d \<Rightarrow> on_config (f d) cs))"

definition normalize_string_list :: "string list \<Rightarrow> string list" where
  "normalize_string_list vs = filter (\<lambda>v. v \<noteq> []) (map trim_space vs)"

definition normalize_command_list :: "string list \<Rightarrow> string list" where
  "normalize_command_list = normalize_string_list"

definition file_plugin :: "file_config \<Rightarrow> config_step" where
  "file_plugin f cs =
     (case fc_plugin_provider f of
        None \<Rightarrow> Inr cs
      | Some v \<Rightarrow> select_plugin ''config file field plugin_provider'' (trim_space v) cs)"

definition default_when_blank :: "file_config \<Rightarrow> config \<Rightarrow> config" where
  "default_when_blank f c =
     (if fc_provider f = None \<and> blank (cf_provider c) then c\<lparr>cf_provider := cf_default_provider c\<rparr> else c)"

fun collect_providers ::
  "(string \<times> provider_file) list \<Rightarrow> (string \<times> provider_settings) list \<Rightarrow> (string \<times> provider_settings) list" where
  "collect_providers [] acc = acc"
| "collect_providers ((name, p) # rest) acc =
     collect_providers rest
       (if normalize_name name = [] then acc
        else AList.update (normalize_name name)
          \<lparr>ps_type = normalize_provider_type (pf_type p) (normalize_name name), ps_model = trim_pointer (pf_model p),
           ps_api_key = trim_pointer (pf_api_key p), ps_base_url = trim_pointer (pf_base_url p)\<rparr> acc)"

definition file_providers :: "file_config \<Rightarrow> config \<Rightarrow> config" where
  "file_providers f c =
     (let ps = collect_providers (fc_providers f) [] in if ps = [] then c else c\<lparr>cf_providers := ps\<rparr>)"

definition default_when_unset :: "file_config \<Rightarrow> config \<Rightarrow> config" where
  "default_when_unset f c =
     (if fc_provider f = None \<and> fc_plugin_provider f = None then c\<lparr>cf_provider := cf_default_provider c\<rparr> else c)"

definition runtime_steps :: "config_host \<Rightarrow> string \<Rightarrow> runtime_file \<Rightarrow> config_step list" where
  "runtime_steps h path r =
     [file_set (rf_max_steps r) set_max_steps,
      file_duration h path ''runtime.step_timeout'' (rf_step_timeout r) set_step_timeout,
      file_set (rf_memory_limit_mb r) set_memory_limit,
      file_set (rf_verify_mode r) (\<lambda>v. set_verify_mode (normalize_name v)),
      file_set (rf_allowed_commands r) (\<lambda>v c. c\<lparr>cf_runtime := (cf_runtime c)\<lparr>rt_allowed_commands := normalize_command_list v\<rparr>\<rparr>),
      file_set (rf_allowed_plugin_paths r) (\<lambda>v c. c\<lparr>cf_runtime := (cf_runtime c)\<lparr>rt_allowed_plugin_paths := normalize_string_list v\<rparr>\<rparr>),
      file_set (rf_plugin_capabilities r) (\<lambda>v c. c\<lparr>cf_runtime := (cf_runtime c)\<lparr>rt_plugin_capabilities := normalize_string_list v\<rparr>\<rparr>)]"

definition web_ui_steps :: "web_ui_file \<Rightarrow> config_step list" where
  "web_ui_steps w =
     [file_set (wf_enabled w) set_web_ui_enabled,
      file_text (wf_static_dir w) (\<lambda>v. on_server (on_web_ui (wu_static_dir_update (\<lambda>_. v)))),
      file_text (wf_index_path w) (\<lambda>v. on_server (on_web_ui (wu_index_path_update (\<lambda>_. v))))]"

text \<open>The fields of the server, which the file may also have at its top level.\<close>

definition server_steps ::
  "config_host \<Rightarrow> string \<Rightarrow> string \<Rightarrow> string option \<Rightarrow> string option \<Rightarrow> string option \<Rightarrow> int option \<Rightarrow> string option \<Rightarrow> bool option \<Rightarrow> config_step list" where
  "server_steps h path field address secret secret_file cap shutdown wal =
     [file_text address (\<lambda>v. on_server (sv_listen_address_update (\<lambda>_. v))),
      file_text secret (\<lambda>v. on_server (sv_jwt_secret_update (\<lambda>_. v))),
      file_text secret_file (\<lambda>v. on_server (sv_jwt_secret_file_update (\<lambda>_. v))),
      file_set cap (\<lambda>v. on_server (sv_active_session_cap_update (\<lambda>_. v))),
      file_duration h path field shutdown (\<lambda>v. on_server (sv_shutdown_timeout_update (\<lambda>_. v))),
      file_set wal (\<lambda>v. on_server (sv_enable_wal_update (\<lambda>_. v)))]"

definition file_server_steps :: "config_host \<Rightarrow> string \<Rightarrow> server_file \<Rightarrow> config_step list" where
  "file_server_steps h path s =
     server_steps h path ''server.shutdown_timeout'' (sf_listen_address s) (sf_jwt_secret s) (sf_jwt_secret_file s)
       (sf_active_session_cap s) (sf_shutdown_timeout s) (sf_enable_wal s) @
     (case sf_web_ui s of None \<Rightarrow> [] | Some w \<Rightarrow> web_ui_steps w)"

text \<open>The older layout, with everything at the top level.\<close>

definition has_legacy :: "file_config \<Rightarrow> bool" where
  "has_legacy f \<longleftrightarrow> fc_provider f \<noteq> None \<or> fc_model f \<noteq> None \<or> fc_api_key f \<noteq> None \<or> fc_base_url f \<noteq> None \<or>
     fc_max_steps f \<noteq> None \<or> fc_step_timeout f \<noteq> None \<or> fc_memory_limit_mb f \<noteq> None \<or> fc_verify_mode f \<noteq> None \<or>
     fc_listen_address f \<noteq> None \<or> fc_jwt_secret f \<noteq> None \<or> fc_jwt_secret_file f \<noteq> None \<or> fc_active_session_cap f \<noteq> None \<or>
     fc_shutdown_timeout f \<noteq> None \<or> fc_enable_wal f \<noteq> None"

definition set_texts :: "file_config \<Rightarrow> provider_settings \<Rightarrow> provider_settings" where
  "set_texts f s =
     (let s1 = (case fc_model f of None \<Rightarrow> s | Some v \<Rightarrow> s\<lparr>ps_model := trim_space v\<rparr>);
          s2 = (case fc_api_key f of None \<Rightarrow> s1 | Some v \<Rightarrow> s1\<lparr>ps_api_key := trim_space v\<rparr>)
      in case fc_base_url f of None \<Rightarrow> s2 | Some v \<Rightarrow> s2\<lparr>ps_base_url := trim_space v\<rparr>)"

definition legacy_provider :: "file_config \<Rightarrow> string \<Rightarrow> config \<Rightarrow> config" where
  "legacy_provider f n c =
     (let n1 = (if n = [] then cf_default_provider c else n);
          p = (if n1 = [] then ''openai'' else n1)
      in (set_provider p (set_texts f (with_type p (settings_of (cf_providers c) p))) c)
           \<lparr>cf_default_provider := p, cf_provider := p\<rparr>)"

definition file_legacy_provider :: "file_config \<Rightarrow> config_step" where
  "file_legacy_provider f cs =
     (case fc_provider f of
        None \<Rightarrow> on_config (legacy_provider f (cf_provider (fst cs))) cs
      | Some v \<Rightarrow>
          (let n = normalize_name v in
           case selection_conflict ''config file field provider'' n (sel_plugin_origin (snd cs)) (sel_plugin_id (snd cs)) True of
             Some e \<Rightarrow> Inl e
           | None \<Rightarrow> Inr (legacy_provider f n ((fst cs)\<lparr>cf_plugin_provider := []\<rparr>), selected_builtin n ''config file field provider'')))"

definition legacy_steps :: "config_host \<Rightarrow> string \<Rightarrow> file_config \<Rightarrow> config_step list" where
  "legacy_steps h path f =
     [file_legacy_provider f,
      file_set (fc_max_steps f) set_max_steps,
      file_duration h path ''step_timeout'' (fc_step_timeout f) set_step_timeout,
      file_set (fc_memory_limit_mb f) set_memory_limit,
      file_set (fc_verify_mode f) (\<lambda>v. set_verify_mode (normalize_name v))] @
     server_steps h path ''shutdown_timeout'' (fc_listen_address f) (fc_jwt_secret f) (fc_jwt_secret_file f)
       (fc_active_session_cap f) (fc_shutdown_timeout f) (fc_enable_wal f)"

definition first_provider_name :: "(string \<times> provider_settings) list \<Rightarrow> string" where
  "first_provider_name ps = (case ps of [] \<Rightarrow> [] | p # _ \<Rightarrow> fst p)"

definition settle_provider :: "config \<Rightarrow> config" where
  "settle_provider c =
     (let p1 = (if cf_provider c \<noteq> [] \<and> map_of (cf_providers c) (cf_provider c) = None then [] else cf_provider c);
          p2 = (if p1 = [] then cf_default_provider c else p1);
          p3 = (if p2 = [] then first_provider_name (cf_providers c) else p2);
          c1 = upsert_selected_provider (c\<lparr>cf_provider := p3\<rparr>)
      in if cf_default_provider c1 = [] then c1\<lparr>cf_default_provider := cf_provider c1\<rparr> else c1)"

definition file_steps :: "config_host \<Rightarrow> string \<Rightarrow> file_config \<Rightarrow> config_step list" where
  "file_steps h path f =
     [file_set (fc_default_provider f) (\<lambda>v c. c\<lparr>cf_default_provider := normalize_name v\<rparr>),
      file_plugin f,
      on_config (default_when_blank f),
      on_config (file_providers f),
      on_config (default_when_unset f)] @
     (case fc_runtime f of None \<Rightarrow> [] | Some r \<Rightarrow> runtime_steps h path r) @
     (case fc_server f of None \<Rightarrow> [] | Some s \<Rightarrow> file_server_steps h path s) @
     (if has_legacy f then legacy_steps h path f else []) @
     [on_config settle_provider]"

definition load_from_file :: "config_host \<Rightarrow> string \<Rightarrow> bool \<Rightarrow> config_step" where
  "load_from_file h path required cs =
     (case ch_read h path of
        Inl e \<Rightarrow>
          if \<not> required \<and> errors_is e os_not_exist then Inr cs
          else Inl (Wrapped (''read config file '' @ quote_str path @ '': '' @ error_text e) e)
      | Inr text \<Rightarrow>
          (case ch_unmarshal h text of
             Inl e \<Rightarrow> Inl (Wrapped (''parse config file '' @ quote_str path @ '': '' @ error_text e) e)
           | Inr f \<Rightarrow> run_steps (file_steps h path f) cs))"

section \<open>The path of the file\<close>

definition home_error :: "go_error \<Rightarrow> go_error" where
  "home_error e = Wrapped (''resolve user home: '' @ error_text e) e"

definition expand_path :: "config_host \<Rightarrow> string \<Rightarrow> (go_error, string) result" where
  "expand_path h path =
     (let t = trim_space path in
      if t = [] then Inr []
      else if t = ''~'' then (case ch_home h of Inl e \<Rightarrow> Inl (home_error e) | Inr d \<Rightarrow> Inr d)
      else if has_prefix ''~/'' t \<or> has_prefix [CHR ''~'', CHR 0x5C] t
      then (case ch_home h of Inl e \<Rightarrow> Inl (home_error e) | Inr d \<Rightarrow> Inr (join_path [d, drop 2 t]))
      else Inr t)"

fun extract_config_path :: "string list \<Rightarrow> (go_error, string option) result" where
  "extract_config_path [] = Inr None"
| "extract_config_path (a # rest) =
     (if a = ''-config'' \<or> a = ''--config''
      then (case rest of [] \<Rightarrow> Inl (Message ''flag needs an argument: -config'') | v # _ \<Rightarrow> Inr (Some v))
      else if has_prefix ''-config='' a then Inr (Some (trim_prefix ''-config='' a))
      else if has_prefix ''--config='' a then Inr (Some (trim_prefix ''--config='' a))
      else extract_config_path rest)"

fun find_config :: "config_host \<Rightarrow> string list \<Rightarrow> (go_error, string \<times> bool) result" where
  "find_config h [] = Inr ([], False)"
| "find_config h (candidate # rest) =
     (case expand_path h candidate of
        Inl e \<Rightarrow> Inl e
      | Inr path \<Rightarrow>
          (case ch_stat h path of
             Inr is_dir \<Rightarrow> if \<not> is_dir then Inr (path, False) else find_config h rest
           | Inl e \<Rightarrow>
               if errors_is e os_not_exist then find_config h rest
               else Inl (Wrapped (''stat config file '' @ quote_str path @ '': '' @ error_text e) e)))"

text \<open>The path, or nothing, and whether the file must be there.\<close>

definition resolve_config_path :: "config_host \<Rightarrow> string list \<Rightarrow> (go_error, string \<times> bool) result" where
  "resolve_config_path h args =
     (case extract_config_path args of
        Inl e \<Rightarrow> Inl e
      | Inr (Some path) \<Rightarrow>
          (case expand_path h path of
             Inl e \<Rightarrow> Inl e
           | Inr p \<Rightarrow> if blank p then Inl (Message ''config path must not be empty'') else Inr (p, True))
      | Inr None \<Rightarrow> find_config h [''zheng.json'', join_path [''~'', ''.zheng'', ''config.json'']])"

section \<open>The flags\<close>

record flag_values =
  fv_config :: string
  fv_model :: string
  fv_provider :: string
  fv_plugin_provider :: string
  fv_max_steps :: int
  fv_step_timeout :: duration
  fv_memory_limit_mb :: int
  fv_verify_mode :: string
  fv_api_key :: string
  fv_base_url :: string
  fv_listen_address :: string
  fv_jwt_secret :: string
  fv_jwt_secret_file :: string
  fv_active_session_cap :: int
  fv_shutdown_timeout :: duration
  fv_enable_wal :: bool
  fv_web_ui_enabled :: bool
  fv_web_ui_dir :: string

text \<open>A flag: its \<^verbatim>\<open>Set\<close> method, and whether it may stand without a value, as a Boolean one does.\<close>

type_synonym 'v setter = "string \<Rightarrow> 'v \<Rightarrow> (go_error, 'v) result"
type_synonym flag_setter = "flag_values setter"

definition string_flag :: "(string \<Rightarrow> 'v \<Rightarrow> 'v) \<Rightarrow> bool \<times> 'v setter" where
  "string_flag f = (False, \<lambda>v fv. Inr (f v fv))"

definition parsed_flag :: "bool \<Rightarrow> (string \<Rightarrow> (go_error, 'a) result) \<Rightarrow> ('a \<Rightarrow> 'v \<Rightarrow> 'v) \<Rightarrow> bool \<times> 'v setter" where
  "parsed_flag is_bool parse f = (is_bool, \<lambda>v fv. case parse v of Inl e \<Rightarrow> Inl e | Inr x \<Rightarrow> Inr (f x fv))"

definition parse_error :: go_error where "parse_error = Message ''parse error''"

definition flag_parse :: "(string \<Rightarrow> (go_error, 'a) result) \<Rightarrow> string \<Rightarrow> (go_error, 'a) result" where
  "flag_parse parse v = (case parse v of Inl e \<Rightarrow> Inl parse_error | Inr x \<Rightarrow> Inr x)"

definition config_flags :: "config_host \<Rightarrow> (string \<times> bool \<times> flag_setter) list" where
  "config_flags h =
     [(''config'', string_flag (\<lambda>v. fv_config_update (\<lambda>_. v))),
      (''model'', string_flag (\<lambda>v. fv_model_update (\<lambda>_. v))),
      (''provider'', string_flag (\<lambda>v. fv_provider_update (\<lambda>_. v))),
      (''plugin-provider'', string_flag (\<lambda>v. fv_plugin_provider_update (\<lambda>_. v))),
      (''max-steps'', parsed_flag False (ch_parse_int h) (\<lambda>v. fv_max_steps_update (\<lambda>_. v))),
      (''step-timeout'', parsed_flag False (flag_parse (ch_parse_duration h)) (\<lambda>v. fv_step_timeout_update (\<lambda>_. v))),
      (''memory-limit-mb'', parsed_flag False (ch_parse_int h) (\<lambda>v. fv_memory_limit_mb_update (\<lambda>_. v))),
      (''verify-mode'', string_flag (\<lambda>v. fv_verify_mode_update (\<lambda>_. v))),
      (''api-key'', string_flag (\<lambda>v. fv_api_key_update (\<lambda>_. v))),
      (''base-url'', string_flag (\<lambda>v. fv_base_url_update (\<lambda>_. v))),
      (''listen-address'', string_flag (\<lambda>v. fv_listen_address_update (\<lambda>_. v))),
      (''jwt-secret'', string_flag (\<lambda>v. fv_jwt_secret_update (\<lambda>_. v))),
      (''jwt-secret-file'', string_flag (\<lambda>v. fv_jwt_secret_file_update (\<lambda>_. v))),
      (''active-session-cap'', parsed_flag False (ch_parse_int h) (\<lambda>v. fv_active_session_cap_update (\<lambda>_. v))),
      (''shutdown-timeout'', parsed_flag False (flag_parse (ch_parse_duration h)) (\<lambda>v. fv_shutdown_timeout_update (\<lambda>_. v))),
      (''server-enable-wal'', parsed_flag True (flag_parse parse_bool) (\<lambda>v. fv_enable_wal_update (\<lambda>_. v))),
      (''web-ui-enabled'', parsed_flag True (flag_parse parse_bool) (\<lambda>v. fv_web_ui_enabled_update (\<lambda>_. v))),
      (''web-ui-dir'', string_flag (\<lambda>v. fv_web_ui_dir_update (\<lambda>_. v)))]"

text \<open>
  \<^verbatim>\<open>FlagSet.Parse\<close>.  \<open>split_flag\<close> gives the name and the value of one argument, or \<^term>\<open>None\<close> where
  the flags end.  The second component of a result holds the flags that were set with their texts, the
  latest first, as \<^verbatim>\<open>Visit\<close> sees them.
\<close>

definition split_flag :: "string \<Rightarrow> (go_error, string \<times> string option) result option" where
  "split_flag a =
     (if length a < 2 \<or> hd a \<noteq> CHR ''-'' \<or> a = ''--'' then None
      else
        (let name = (if a ! 1 = CHR ''-'' then drop 2 a else drop 1 a) in
         if name = [] \<or> hd name \<in> {CHR ''-'', CHR ''=''} then Some (Inl (Message (''bad flag syntax: '' @ a)))
         else
           (let key = takeWhile (\<lambda>c. c \<noteq> CHR ''='') name; rest = drop (length key) name
            in Some (Inr (key, if rest = [] then None else Some (tl rest))))))"

definition apply_flag ::
  "bool \<Rightarrow> string \<Rightarrow> 'v setter \<Rightarrow> string \<Rightarrow> 'v \<Rightarrow> (go_error, 'v) result" where
  "apply_flag is_bool name setter v fv =
     (case setter v fv of
        Inl e \<Rightarrow>
          Inl (Wrapped (if is_bool then ''invalid boolean value '' @ quote_str v @ '' for -'' @ name @ '': '' @ error_text e
                        else ''invalid value '' @ quote_str v @ '' for flag -'' @ name @ '': '' @ error_text e) e)
      | Inr fv1 \<Rightarrow> Inr fv1)"

fun parse_flags ::
  "(string \<times> bool \<times> 'v setter) list \<Rightarrow> string list \<Rightarrow> (string \<times> string) list \<Rightarrow> 'v \<Rightarrow>
   (go_error, 'v \<times> (string \<times> string) list) result" where
  "parse_flags formal [] visited fv = Inr (fv, visited)"
| "parse_flags formal (a # args) visited fv =
     (case split_flag a of
        None \<Rightarrow> Inr (fv, visited)
      | Some (Inl e) \<Rightarrow> Inl e
      | Some (Inr (name, given)) \<Rightarrow>
          (case map_of formal name of
             None \<Rightarrow>
               Inl (Message (if name \<in> {''help'', ''h''} then ''flag: help requested''
                             else ''flag provided but not defined: -'' @ name))
           | Some (is_bool, setter) \<Rightarrow>
               (case (given, is_bool) of
                  (Some v, _) \<Rightarrow>
                    (case apply_flag is_bool name setter v fv of
                       Inl e \<Rightarrow> Inl e | Inr fv1 \<Rightarrow> parse_flags formal args ((name, v) # visited) fv1)
                | (None, True) \<Rightarrow>
                    (case apply_flag is_bool name setter ''true'' fv of
                       Inl e \<Rightarrow> Inl e | Inr fv1 \<Rightarrow> parse_flags formal args ((name, ''true'') # visited) fv1)
                | (None, False) \<Rightarrow>
                    (case args of
                       [] \<Rightarrow> Inl (Message (''flag needs an argument: -'' @ name))
                     | v # args1 \<Rightarrow>
                         (case apply_flag is_bool name setter v fv of
                            Inl e \<Rightarrow> Inl e | Inr fv1 \<Rightarrow> parse_flags formal args1 ((name, v) # visited) fv1)))))"

section \<open>Validation\<close>

definition config_validate :: "config \<Rightarrow> go_error option" where
  "config_validate c =
     (let s = selected_settings c; r = cf_runtime c; sv = cf_server c in
      if blank (cf_default_provider c) then Some (Message ''default provider must not be empty'')
      else if cf_providers c = [] then Some (Message ''providers must not be empty'')
      else if map_of (cf_providers c) (cf_default_provider c) = None
      then Some (Message (''default provider '' @ quote_str (cf_default_provider c) @ '' not found''))
      else if blank (cf_provider c) then Some (Message ''provider must not be empty'')
      else if map_of (cf_providers c) (cf_provider c) = None
      then Some (Message (''provider '' @ quote_str (cf_provider c) @ '' not found''))
      else if ps_type s = ''dashscope'' \<and> ps_api_key s = []
      then Some (Message ''dashscope provider requires API key (set ZHENG_API_KEY or --api-key)'')
      else if ps_type s = ''plugin'' \<and> blank (cf_plugin_provider c)
      then Some (Message ''plugin-backed provider config requires plugin_provider selection'')
      else if ps_type s \<notin> {''openai'', ''anthropic'', ''dashscope'', ''plugin''}
      then Some (Message (''unsupported provider type '' @ quote_str (ps_type s)))
      else if ps_model s = [] then Some (Message ''model must not be empty'')
      else if rt_max_steps r \<le> 0 then Some (Message ''max steps must be greater than zero'')
      else if rt_step_timeout r \<le> 0 then Some (Message ''step timeout must be greater than zero'')
      else if rt_memory_limit_mb r \<le> 0 then Some (Message ''memory limit must be greater than zero'')
      else if blank (sv_listen_address sv) then Some (Message ''server listen address must not be empty'')
      else if sv_active_session_cap sv \<le> 0 then Some (Message ''server active session cap must be greater than zero'')
      else if sv_shutdown_timeout sv \<le> 0 then Some (Message ''server shutdown timeout must be greater than zero'')
      else if blank (wu_index_path (sv_web_ui sv)) then Some (Message ''server web UI index path must not be empty'')
      else if rt_verify_mode r \<notin> {''off'', ''standard'', ''strict''}
      then Some (Message (''unsupported verify mode '' @ quote_str (rt_verify_mode r)))
      else None)"

section \<open>Loading\<close>

definition initial_flags :: "string \<Rightarrow> config \<Rightarrow> flag_values" where
  "initial_flags path c =
     \<lparr>fv_config = path, fv_model = get_model c, fv_provider = cf_provider c, fv_plugin_provider = cf_plugin_provider c,
      fv_max_steps = rt_max_steps (cf_runtime c), fv_step_timeout = rt_step_timeout (cf_runtime c),
      fv_memory_limit_mb = rt_memory_limit_mb (cf_runtime c), fv_verify_mode = rt_verify_mode (cf_runtime c),
      fv_api_key = get_api_key c, fv_base_url = get_base_url c, fv_listen_address = sv_listen_address (cf_server c),
      fv_jwt_secret = sv_jwt_secret (cf_server c), fv_jwt_secret_file = sv_jwt_secret_file (cf_server c),
      fv_active_session_cap = sv_active_session_cap (cf_server c), fv_shutdown_timeout = sv_shutdown_timeout (cf_server c),
      fv_enable_wal = sv_enable_wal (cf_server c),
      fv_web_ui_enabled = (sv_web_ui_enabled (cf_server c) \<or> wu_enabled (sv_web_ui (cf_server c))),
      fv_web_ui_dir = wu_static_dir (sv_web_ui (cf_server c))\<rparr>"

definition visited_flag :: "(string \<times> string) list \<Rightarrow> string \<Rightarrow> bool" where
  "visited_flag visited name \<longleftrightarrow> map_of visited name \<noteq> None"

definition select_by_flags :: "flag_values \<Rightarrow> (string \<times> string) list \<Rightarrow> config_step" where
  "select_by_flags fv visited cs =
     (if visited_flag visited ''provider'' \<and> visited_flag visited ''plugin-provider''
      then Inl (Message ''provider selection conflict: choose either --provider for built-in providers or --plugin-provider for plugin-backed providers'')
      else run_steps
        ((if visited_flag visited ''provider'' then [select_builtin ''CLI flag --provider'' (normalize_name (fv_provider fv))] else []) @
         (if visited_flag visited ''plugin-provider''
          then [select_plugin ''CLI flag --plugin-provider'' (trim_space (fv_plugin_provider fv))] else [])) cs)"

definition flag_settings :: "flag_values \<Rightarrow> (string \<times> string) list \<Rightarrow> config \<Rightarrow> config" where
  "flag_settings fv visited c =
     (let p = normalize_name (cf_provider c); c1 = upsert_selected_provider (c\<lparr>cf_provider := p\<rparr>) in
      case map_of (cf_providers c1) p of
        None \<Rightarrow> c1
      | Some s \<Rightarrow>
          (let s1 = (if visited_flag visited ''model'' then s\<lparr>ps_model := trim_space (fv_model fv)\<rparr> else s);
               s2 = (if visited_flag visited ''api-key'' then s1\<lparr>ps_api_key := trim_space (fv_api_key fv)\<rparr> else s1);
               s3 = (if visited_flag visited ''base-url'' then s2\<lparr>ps_base_url := trim_space (fv_base_url fv)\<rparr> else s2);
               s4 = with_type p s3;
               s5 = (if cf_plugin_provider c1 \<noteq> [] then s4\<lparr>ps_type := ''plugin''\<rparr> else s4)
           in set_provider p s5 c1))"

definition flag_limits :: "flag_values \<Rightarrow> config \<Rightarrow> config" where
  "flag_limits fv c =
     (let r = cf_runtime c; s = cf_server c;
          c1 = c\<lparr>cf_runtime := r\<lparr>rt_max_steps := fv_max_steps fv, rt_step_timeout := fv_step_timeout fv,
                    rt_memory_limit_mb := fv_memory_limit_mb fv, rt_verify_mode := normalize_name (fv_verify_mode fv)\<rparr>,
                 cf_server := s\<lparr>sv_listen_address := trim_space (fv_listen_address fv), sv_jwt_secret := trim_space (fv_jwt_secret fv),
                    sv_jwt_secret_file := trim_space (fv_jwt_secret_file fv), sv_active_session_cap := fv_active_session_cap fv,
                    sv_shutdown_timeout := fv_shutdown_timeout fv, sv_enable_wal := fv_enable_wal fv,
                    sv_web_ui_enabled := fv_web_ui_enabled fv,
                    sv_web_ui := (sv_web_ui s)\<lparr>wu_enabled := fv_web_ui_enabled fv, wu_static_dir := trim_space (fv_web_ui_dir fv)\<rparr>\<rparr>\<rparr>
      in if blank (cf_default_provider c1) then c1\<lparr>cf_default_provider := cf_provider c1\<rparr> else c1)"

definition load_flags :: "config_host \<Rightarrow> string list \<Rightarrow> string \<Rightarrow> config_step" where
  "load_flags h args path cs =
     (case parse_flags (config_flags h) args [] (initial_flags path (fst cs)) of
        Inl e \<Rightarrow> Inl e
      | Inr (fv, visited) \<Rightarrow>
          run_steps [select_by_flags fv visited, on_config (flag_settings fv visited), on_config (flag_limits fv)] cs)"

definition load_layers :: "config_host \<Rightarrow> string list \<Rightarrow> string \<times> bool \<Rightarrow> config_step" where
  "load_layers h args file =
     run_steps ((if fst file \<noteq> [] then [load_from_file h (fst file) (snd file)] else []) @ [apply_env h, load_flags h args (fst file)])"

definition load_config :: "config_host \<Rightarrow> string list \<Rightarrow> (go_error, config) result" where
  "load_config h args =
     (case resolve_config_path h args of
        Inl e \<Rightarrow> Inl e
      | Inr file \<Rightarrow>
          (case load_layers h args file (default_config, no_selection) of
             Inl e \<Rightarrow> Inl e
           | Inr (c, _) \<Rightarrow> (case config_validate c of Some e \<Rightarrow> Inl e | None \<Rightarrow> Inr c)))"

end
