(* ===== verification/Config_Properties.thy ===== *)
theory Config_Properties
  imports Config
begin

text \<open>
  What loading a configuration guarantees: the order in which the layers override each other, and the
  provider that is selected in the end.
\<close>

section \<open>Names\<close>

text \<open>The bytes of white space are no letters, so lowering a string and trimming it commute.\<close>

definition no_letter :: "char \<Rightarrow> bool" where
  "no_letter c \<longleftrightarrow> (let n = of_char c :: nat in \<not> (65 \<le> n \<and> n \<le> 90) \<and> \<not> (97 \<le> n \<and> n \<le> 122))"

lemma lower_code: "(of_char (lower_char d) :: nat) = (if 65 \<le> (of_char d :: nat) \<and> (of_char d :: nat) \<le> 90 then of_char d + 32 else of_char d)"
  by (simp add: lower_char_def Let_def)

lemma lower_no_letter: "no_letter c \<Longrightarrow> lower_char d = c \<longleftrightarrow> d = c"
proof
  assume c: "no_letter c" and eq: "lower_char d = c"
  have "\<not> (65 \<le> (of_char d :: nat) \<and> (of_char d :: nat) \<le> 90)"
  proof
    assume d: "65 \<le> (of_char d :: nat) \<and> (of_char d :: nat) \<le> 90"
    then have "(of_char c :: nat) = of_char d + 32" using lower_code[of d] eq by metis
    then show False using c d by (simp add: no_letter_def Let_def)
  qed
  then have "lower_char d = d" by (auto simp: lower_char_def Let_def)
  then show "d = c" using eq by simp
next
  assume "no_letter c" and "d = c"
  then show "lower_char d = c" by (auto simp: no_letter_def lower_char_def Let_def)
qed

lemma prefix_to_lower: "\<forall>c \<in> set w. no_letter c \<Longrightarrow> has_prefix w (to_lower s) = has_prefix w s"
proof (induction w s rule: has_prefix.induct)
  case (3 c cs d ds)
  then have "lower_char d = c \<longleftrightarrow> d = c" using lower_no_letter by simp
  then show ?case using 3 by (auto simp: to_lower_def)
qed (simp_all add: to_lower_def)

lemma strip_to_lower:
  assumes "\<forall>w \<in> set ws. \<forall>c \<in> set w. no_letter c"
  shows "strip ws (to_lower s) = to_lower (strip ws s)"
  using assms
proof (induction ws s rule: strip.induct)
  case (1 ws s)
  have same: "find (\<lambda>w. w \<noteq> [] \<and> has_prefix w (to_lower s)) ws = find (\<lambda>w. w \<noteq> [] \<and> has_prefix w s) ws"
    by (rule find_cong) (use 1(2) prefix_to_lower in auto)
  show ?case
  proof (cases "find (\<lambda>w. w \<noteq> [] \<and> has_prefix w s) ws")
    case None
    then show ?thesis using same by (simp add: strip_None)
  next
    case (Some w)
    then have "strip ws (to_lower s) = strip ws (to_lower (drop (length w) s))"
      using same by (simp add: strip_Some to_lower_def drop_map)
    then show ?thesis using 1 Some by (simp add: strip_Some)
  qed
qed

lemma space_no_letter: "\<forall>w \<in> set space_words. \<forall>c \<in> set w. no_letter c"
  by (simp add: space_words_def no_letter_def)

lemma trim_to_lower [simp]: "trim_space (to_lower s) = to_lower (trim_space s)"
proof -
  have "rev (to_lower t) = to_lower (rev t)" for t by (simp add: to_lower_def rev_map)
  moreover have "\<forall>w \<in> set (map rev space_words). \<forall>c \<in> set w. no_letter c" using space_no_letter by simp
  ultimately show ?thesis using space_no_letter by (simp add: trim_space_def strip_to_lower)
qed

lemma normalize_name_idem [simp]: "normalize_name (normalize_name s) = normalize_name s"
  by (simp add: normalize_name_def)

lemma normalize_name_blank [simp]: "blank (normalize_name s) = blank s" "normalize_name s = [] \<longleftrightarrow> blank s"
proof -
  have "trim_space (normalize_name s) = to_lower (trim_space s)" by (simp add: normalize_name_def)
  then show "blank (normalize_name s) = blank s" by (simp add: blank_def to_lower_def)
  show "normalize_name s = [] \<longleftrightarrow> blank s" by (simp add: normalize_name_def blank_def to_lower_def)
qed

section \<open>Steps\<close>

lemma run_steps_append:
  "run_steps (fs @ gs) cs = (case run_steps fs cs of Inl e \<Rightarrow> Inl e | Inr cs1 \<Rightarrow> run_steps gs cs1)"
  by (induction fs arbitrary: cs) (auto split: sum.split)

text \<open>A step keeps a property of the configuration and what has been selected.\<close>

definition step_keeps :: "(config \<times> selection_source \<Rightarrow> bool) \<Rightarrow> config_step \<Rightarrow> bool" where
  "step_keeps P f \<longleftrightarrow> (\<forall>cs cs'. P cs \<longrightarrow> f cs = Inr cs' \<longrightarrow> P cs')"

lemma step_keepsD: "step_keeps P f \<Longrightarrow> P cs \<Longrightarrow> f cs = Inr cs' \<Longrightarrow> P cs'"
  unfolding step_keeps_def by blast

lemma run_keeps: "\<forall>f \<in> set fs. step_keeps P f \<Longrightarrow> step_keeps P (run_steps fs)"
proof (induction fs)
  case Nil
  then show ?case by (simp add: step_keeps_def)
next
  case (Cons f fs)
  then have "step_keeps P f" "step_keeps P (run_steps fs)" by simp_all
  moreover have "\<exists>cs1. f cs = Inr cs1 \<and> run_steps fs cs1 = Inr cs'" if "run_steps (f # fs) cs = Inr cs'" for cs cs'
    using that by (cases "f cs") simp_all
  ultimately show ?case unfolding step_keeps_def by blast
qed

lemma step_keepsI: "(\<And>cs cs'. P cs \<Longrightarrow> f cs = Inr cs' \<Longrightarrow> P cs') \<Longrightarrow> step_keeps P f"
  unfolding step_keeps_def by blast

lemma keeps_on_config: "(\<And>c s. P (c, s) \<Longrightarrow> P (f c, s)) \<Longrightarrow> step_keeps P (on_config f)"
  by (rule step_keepsI) (metis Inr_inject on_config_def prod.collapse)

lemma keeps_Inr: "step_keeps P Inr"
  by (rule step_keepsI) simp

lemma keeps_env_text:
  assumes "\<And>v. step_keeps P (on_config (f v))"
  shows "step_keeps P (env_text h n f)"
proof (rule step_keepsI)
  fix cs cs' assume "P cs" "env_text h n f cs = Inr cs'"
  then show "P cs'" using assms[of "env_value h n"] by (cases "env_value h n = []") (simp_all add: env_text_def step_keepsD)
qed

lemma keeps_env_parsed:
  assumes "\<And>v. step_keeps P (on_config (f v))"
  shows "step_keeps P (env_parsed h parse n f)"
proof (rule step_keepsI)
  fix cs cs' assume a: "P cs" "env_parsed h parse n f cs = Inr cs'"
  show "P cs'"
  proof (cases "env_value h n = []")
    case False
    then obtain v where "parse (env_value h n) = Inr v" "on_config (f v) cs = Inr cs'"
      using a(2) by (cases "parse (env_value h n)") (simp_all add: env_parsed_def)
    then show ?thesis using assms[of v] a(1) by (simp add: step_keepsD)
  qed (use a in \<open>simp add: env_parsed_def\<close>)
qed

lemma keeps_file_set: "(\<And>v. step_keeps P (on_config (f v))) \<Longrightarrow> step_keeps P (file_set v f)"
  by (cases v) (simp_all add: file_set_def keeps_Inr)

lemma keeps_file_text: "(\<And>v. step_keeps P (on_config (f v))) \<Longrightarrow> step_keeps P (file_text v f)"
  by (simp add: file_text_def keeps_file_set)

lemma keeps_file_duration:
  assumes "\<And>v. step_keeps P (on_config (f v))"
  shows "step_keeps P (file_duration h path field v f)"
proof (rule step_keepsI)
  fix cs cs' assume a: "P cs" "file_duration h path field v f cs = Inr cs'"
  show "P cs'"
  proof (cases v)
    case (Some raw)
    then obtain d where "on_config (f d) cs = Inr cs'"
      using a(2) by (cases "parse_duration_field h raw path field") (simp_all add: file_duration_def)
    then show ?thesis using assms[of d] a(1) by (simp add: step_keepsD)
  qed (use a in \<open>simp add: file_duration_def\<close>)
qed

lemmas keeps_rules = keeps_on_config keeps_env_text keeps_env_parsed keeps_file_set keeps_file_text keeps_file_duration

lemmas setter_defs = set_max_steps_def set_step_timeout_def set_memory_limit_def set_verify_mode_def on_server_def on_web_ui_def
  set_web_ui_enabled_def on_selected_def set_provider_def

section \<open>A provider is always selected\<close>

definition provider_named :: "config \<times> selection_source \<Rightarrow> bool" where
  "provider_named cs \<longleftrightarrow> \<not> blank (cf_provider (fst cs))"

lemma openai_not_blank [simp]: "\<not> blank ''openai''" by code_simp

lemma upsert_provider:
  "cf_provider (upsert_selected_provider c) =
     normalize_name (if blank (cf_provider c) then if blank (cf_default_provider c) then ''openai'' else cf_default_provider c
                     else cf_provider c)"
  "cf_plugin_provider (upsert_selected_provider c) = cf_plugin_provider c"
  "cf_runtime (upsert_selected_provider c) = cf_runtime c"
  "cf_server (upsert_selected_provider c) = cf_server c"
  by (auto simp: upsert_selected_provider_def Let_def set_provider_def split: option.split)

lemma upsert_named [simp]: "\<not> blank (cf_provider (upsert_selected_provider c))"
  by (simp add: upsert_provider)

lemma settle_named: "\<not> blank (cf_provider (settle_provider c))"
  by (simp add: settle_provider_def Let_def)

lemma file_named:
  assumes "provider_named cs" and "load_from_file h path required cs = Inr cs'"
  shows "provider_named cs'"
proof (cases "ch_read h path")
  case (Inl e)
  then show ?thesis using assms by (auto simp: load_from_file_def split: if_splits)
next
  case (Inr t)
  then obtain f where f: "run_steps (file_steps h path f) cs = Inr cs'"
    using assms(2) by (auto simp: load_from_file_def split: sum.splits)
  then have "\<exists>cs1. on_config settle_provider cs1 = Inr cs'"
    unfolding file_steps_def append_assoc[symmetric] by (auto simp: run_steps_append split: sum.splits)
  then show ?thesis by (auto simp: on_config_def provider_named_def settle_named)
qed

lemma env_provider_named: "step_keeps provider_named (env_provider h)" "step_keeps provider_named (env_plugin_provider h)"
  by (rule step_keepsI; force simp: env_provider_def env_plugin_provider_def Let_def on_config_def provider_named_def split: if_splits sum.splits)+

lemma env_named: "step_keeps provider_named (apply_env h)"
  unfolding apply_env_def env_steps_def
  by (rule run_keeps)
    (auto intro!: keeps_rules env_provider_named simp: provider_named_def setter_defs)

section \<open>What the flags select\<close>

text \<open>The plugin in use is the selected provider, or there is none.\<close>

lemma select_builtin_plugin: "select_builtin origin n cs = Inr cs' \<Longrightarrow> cf_plugin_provider (fst cs') = []"
  by (auto simp: select_builtin_def split: option.splits)

lemma select_plugin_plugin:
  "select_plugin origin n cs = Inr cs' \<Longrightarrow> cf_plugin_provider (fst cs') = n \<and> cf_provider (fst cs') = n"
  by (auto simp: select_plugin_def split: option.splits)

lemma flags_named:
  assumes "select_by_flags fv visited cs = Inr cs'" and "provider_named cs"
  shows "cf_plugin_provider (fst cs') = [] \<or> provider_named cs'"
proof -
  have p: "cf_plugin_provider (fst cs') = [] \<or> provider_named cs'"
    if "select_plugin ''CLI flag --plugin-provider'' n cs1 = Inr cs'" "n = trim_space m" for n m cs1
    using select_plugin_plugin[OF that(1)] that(2) by (simp add: provider_named_def blank_def)
  show ?thesis
  proof (cases "visited_flag visited ''plugin-provider''")
    case True
    then have "select_plugin ''CLI flag --plugin-provider'' (trim_space (fv_plugin_provider fv)) cs = Inr cs'"
      using assms(1) by (auto simp: select_by_flags_def split: if_splits sum.splits)
    then show ?thesis using p by blast
  next
    case False
    then consider "cs' = cs" | origin n where "select_builtin origin n cs = Inr cs'"
      using assms(1) by (auto simp: select_by_flags_def split: if_splits sum.splits)
    then show ?thesis by cases (use assms(2) select_builtin_plugin in blast)+
  qed
qed

lemma flag_settings_type:
  assumes "cf_plugin_provider c = [] \<or> \<not> blank (cf_provider c)" and "c' = flag_settings fv visited c"
    and "cf_plugin_provider c' \<noteq> []" and "map_of (cf_providers c') (cf_provider c') = Some s"
  shows "ps_type s = ''plugin''"
proof -
  let ?p = "normalize_name (cf_provider c)"
  let ?c1 = "upsert_selected_provider (c\<lparr>cf_provider := ?p\<rparr>)"
  have plugin: "cf_plugin_provider c' = cf_plugin_provider c"
    using assms(2) by (simp add: flag_settings_def Let_def set_provider_def upsert_provider split: option.splits)
  then have "\<not> blank (cf_provider c)" using assms(1,3) by simp
  then have p: "cf_provider ?c1 = ?p" by (simp add: upsert_provider)
  show ?thesis
  proof (cases "map_of (cf_providers ?c1) ?p")
    case None
    then have "c' = ?c1" using assms(2) by (simp add: flag_settings_def Let_def)
    then show ?thesis using None assms(4) p by simp
  next
    case (Some s0)
    then show ?thesis using assms p plugin
      by (auto simp: flag_settings_def Let_def set_provider_def update_conv upsert_provider)
  qed
qed

lemma flag_limits_keep:
  "cf_plugin_provider (flag_limits fv c) = cf_plugin_provider c" "cf_provider (flag_limits fv c) = cf_provider c"
  "cf_providers (flag_limits fv c) = cf_providers c"
  by (simp_all add: flag_limits_def Let_def)

lemma load_flags_type:
  assumes "load_flags h args path cs = Inr cs'" and "provider_named cs"
    and "cf_plugin_provider (fst cs') \<noteq> []" and "map_of (cf_providers (fst cs')) (cf_provider (fst cs')) = Some s"
  shows "ps_type s = ''plugin''"
proof -
  obtain fv visited cs1 where sel: "select_by_flags fv visited cs = Inr cs1"
    and c': "fst cs' = flag_limits fv (flag_settings fv visited (fst cs1))"
    using assms(1) by (auto simp: load_flags_def on_config_def split: sum.splits prod.splits)
  show ?thesis
    using flag_settings_type[of "fst cs1", OF _ refl] flags_named[OF sel assms(2)] assms(3,4) c'
    by (auto simp: flag_limits_keep provider_named_def)
qed

lemma layers_split:
  assumes "load_layers h args file cs = Inr cs'"
  obtains cs1 cs2 where "if fst file = [] then cs1 = cs else load_from_file h (fst file) (snd file) cs = Inr cs1"
    "apply_env h cs1 = Inr cs2" "load_flags h args (fst file) cs2 = Inr cs'"
  using assms by (auto simp: load_layers_def split: if_splits sum.splits)

lemma default_named: "provider_named (default_config, no_selection)"
  by (simp add: provider_named_def default_config_def)

lemma load_config_split:
  assumes "load_config h args = Inr c"
  obtains found sel where "resolve_config_path h args = Inr found"
    "load_layers h args found (default_config, no_selection) = Inr (c, sel)" "config_validate c = None"
  using assms by (auto simp: load_config_def split: sum.splits option.splits)

lemma validated_config:
  assumes "config_validate c = None"
  shows "\<exists>s. map_of (cf_providers c) (cf_provider c) = Some s \<and>
       ps_type s \<in> {''openai'', ''anthropic'', ''dashscope'', ''plugin''} \<and> ps_model s \<noteq> [] \<and>
       (ps_type s = ''dashscope'' \<longrightarrow> ps_api_key s \<noteq> []) \<and> (ps_type s = ''plugin'' \<longrightarrow> \<not> blank (cf_plugin_provider c))"
    and "map_of (cf_providers c) (cf_default_provider c) \<noteq> None"
    and "0 < rt_max_steps (cf_runtime c)" "0 < rt_step_timeout (cf_runtime c)" "0 < rt_memory_limit_mb (cf_runtime c)"
    and "0 < sv_active_session_cap (cf_server c)" "0 < sv_shutdown_timeout (cf_server c)"
    and "rt_verify_mode (cf_runtime c) \<in> {''off'', ''standard'', ''strict''}"
  using assms by (auto simp: config_validate_def Let_def selected_settings_def settings_of_def split: if_splits)

lemma loaded_valid: "load_config h args = Inr c \<Longrightarrow> config_validate c = None"
  by (erule load_config_split) simp

lemma loaded_type:
  assumes "load_config h args = Inr c" and "cf_plugin_provider c \<noteq> []" and "map_of (cf_providers c) (cf_provider c) = Some s"
  shows "ps_type s = ''plugin''"
proof -
  obtain found sel where l: "load_layers h args found (default_config, no_selection) = Inr (c, sel)"
    using load_config_split[OF assms(1)] by blast
  obtain cs1 cs2 where steps: "if fst found = [] then cs1 = (default_config, no_selection)
        else load_from_file h (fst found) (snd found) (default_config, no_selection) = Inr cs1"
    and env: "apply_env h cs1 = Inr cs2" and flags: "load_flags h args (fst found) cs2 = Inr (c, sel)"
    using layers_split[OF l] by blast
  have "provider_named cs1" using steps default_named file_named by (metis (full_types))
  then have "provider_named cs2" using env_named env step_keepsD by blast
  then show ?thesis using load_flags_type[OF flags] assms(2,3) by simp
qed

section \<open>The order of the layers\<close>

text \<open>
  A reference for the flags: the texts they were given, the latest first, whatever their setters say; and
  the file that is read, if any.
\<close>

fun given_flags :: "(string \<times> bool \<times> flag_setter) list \<Rightarrow> string list \<Rightarrow> (string \<times> string) list \<Rightarrow> (string \<times> string) list" where
  "given_flags formal [] acc = acc"
| "given_flags formal (a # args) acc =
     (case split_flag a of
        Some (Inr (name, Some v)) \<Rightarrow> given_flags formal args ((name, v) # acc)
      | Some (Inr (name, None)) \<Rightarrow>
          (case map_of formal name of
             Some (True, _) \<Rightarrow> given_flags formal args ((name, ''true'') # acc)
           | _ \<Rightarrow> (case args of [] \<Rightarrow> acc | v # args1 \<Rightarrow> given_flags formal args1 ((name, v) # acc)))
      | _ \<Rightarrow> acc)"

definition flag_text :: "config_host \<Rightarrow> string list \<Rightarrow> string \<Rightarrow> string option" where
  "flag_text h args name = map_of (given_flags (config_flags h) args []) name"

definition config_file :: "config_host \<Rightarrow> string list \<Rightarrow> file_config option" where
  "config_file h args =
     (case resolve_config_path h args of
        Inl _ \<Rightarrow> None
      | Inr (path, _) \<Rightarrow>
          if path = [] then None
          else case ch_read h path of
            Inl _ \<Rightarrow> None
          | Inr t \<Rightarrow> (case ch_unmarshal h t of Inl _ \<Rightarrow> None | Inr f \<Rightarrow> Some f))"

definition set_or :: "int option \<Rightarrow> int \<Rightarrow> int" where
  "set_or v d = (case v of None \<Rightarrow> d | Some x \<Rightarrow> x)"

text \<open>
  An integer setting \<open>v\<close> by its layers: the last flag, else the environment, else the top level of the
  file, else its section, else the default.
\<close>

definition layered ::
  "config_host \<Rightarrow> string list \<Rightarrow> string \<Rightarrow> string \<Rightarrow> (file_config \<Rightarrow> int option) \<Rightarrow> (file_config \<Rightarrow> int option) \<Rightarrow> int \<Rightarrow> int \<Rightarrow> bool" where
  "layered h args flag env outer nested d v =
     (case flag_text h args flag of
        Some t \<Rightarrow> ch_parse_int h t = Inr v
      | None \<Rightarrow>
          if env_value h env \<noteq> [] then parse_atoi (env_value h env) = Inr v
          else v = (case config_file h args of None \<Rightarrow> d | Some f \<Rightarrow> set_or (outer f) (set_or (nested f) d)))"

text \<open>What a flag of the list does to the value of one of them.\<close>

definition setter_for :: "string \<Rightarrow> (flag_values \<Rightarrow> int) \<Rightarrow> (string \<Rightarrow> (go_error, int) result) \<Rightarrow> string \<times> bool \<times> flag_setter \<Rightarrow> bool" where
  "setter_for name get parse entry \<longleftrightarrow>
     (\<forall>v fv fv'. snd (snd entry) v fv = Inr fv' \<longrightarrow>
        (if fst entry = name then parse v = Inr (get fv') else get fv' = get fv))"

definition flag_holds :: "string \<Rightarrow> (flag_values \<Rightarrow> int) \<Rightarrow> (string \<Rightarrow> (go_error, int) result) \<Rightarrow> int \<Rightarrow> (string \<times> string) list \<Rightarrow> flag_values \<Rightarrow> bool" where
  "flag_holds name get parse d visited fv \<longleftrightarrow>
     (case map_of visited name of Some t \<Rightarrow> parse t = Inr (get fv) | None \<Rightarrow> get fv = d)"

lemma apply_flag_holds:
  assumes "setter_for name get parse (n, b, setter)" and "apply_flag b n setter v fv = Inr fv'"
    and "flag_holds name get parse d visited fv"
  shows "flag_holds name get parse d ((n, v) # visited) fv'"
proof -
  have s: "setter v fv = Inr fv'" using assms(2) by (simp add: apply_flag_def split: sum.splits)
  then have "if n = name then parse v = Inr (get fv') else get fv' = get fv"
    using assms(1) by (simp add: setter_for_def del: split_paired_All)
  then show ?thesis using assms(3) by (auto simp: flag_holds_def split: if_splits option.splits)
qed

lemma parse_flags_holds:
  assumes "\<forall>e \<in> set formal. setter_for name get parse e"
    and "parse_flags formal args visited fv = Inr (fv', visited')" and "flag_holds name get parse d visited fv"
  shows "visited' = given_flags formal args visited \<and> flag_holds name get parse d visited' fv'"
  using assms(2,3)
proof (induction args arbitrary: visited fv rule: length_induct)
  case (1 args)
  note parsed = "1.prems"(1) and holds = "1.prems"(2)
  have ih: "length args1 < length args \<Longrightarrow> parse_flags formal args1 visited1 fv1 = Inr (fv', visited') \<Longrightarrow>
      flag_holds name get parse d visited1 fv1 \<Longrightarrow>
      visited' = given_flags formal args1 visited1 \<and> flag_holds name get parse d visited' fv'" for args1 visited1 fv1
    using "1.IH" by blast
  show ?case
  proof (cases args)
    case Nil
    then show ?thesis using parsed holds by simp
  next
    case args: (Cons a rest)
    show ?thesis
    proof (cases "split_flag a")
      case None
      then show ?thesis using parsed holds args by simp
    next
      case (Some r)
      then obtain n given where r: "split_flag a = Some (Inr (n, given))"
        using parsed args by (cases r) auto
      then obtain b setter where f: "map_of formal n = Some (b, setter)"
        using parsed args by (auto split: option.splits)
      then have s: "setter_for name get parse (n, b, setter)" using assms(1) by (blast dest: map_of_SomeD)
      obtain v args1 fv1 where fv1: "apply_flag b n setter v fv = Inr fv1"
          and parsed1: "parse_flags formal args1 ((n, v) # visited) fv1 = Inr (fv', visited')"
          and given: "given_flags formal args visited = given_flags formal args1 ((n, v) # visited)"
          and shorter: "length args1 < length args"
      proof (cases given)
        case (Some v)
        then show ?thesis using that[of v _ rest] parsed args r f by (auto split: sum.splits)
      next
        case None
        show ?thesis
        proof (cases b)
          case True
          then show ?thesis using that[of "''true''" _ rest] None parsed args r f by (auto split: sum.splits)
        next
          case False
          then obtain v rest1 where "rest = v # rest1" using None parsed args r f by (auto split: list.splits)
          then show ?thesis using that[of v _ rest1] None False parsed args r f by (auto split: sum.splits)
        qed
      qed
      show ?thesis using ih[OF shorter parsed1 apply_flag_holds[OF s fv1 holds]] given by metis
    qed
  qed
qed


text \<open>The settings of the runtime and the server are kept by every step that selects a provider.\<close>

definition limit :: "(config \<Rightarrow> int) \<Rightarrow> bool" where
  "limit g \<longleftrightarrow> (\<forall>c c'. cf_runtime c = cf_runtime c' \<longrightarrow> cf_server c = cf_server c' \<longrightarrow> g c = g c')"

abbreviation keeps_value :: "(config \<Rightarrow> int) \<Rightarrow> config_step \<Rightarrow> bool" where
  "keeps_value g f \<equiv> (\<forall>v. step_keeps (\<lambda>cs. g (fst cs) = v) f)"

definition untouched :: "config_step \<Rightarrow> bool" where
  "untouched f \<longleftrightarrow> (\<forall>cs cs'. f cs = Inr cs' \<longrightarrow> cf_runtime (fst cs') = cf_runtime (fst cs) \<and> cf_server (fst cs') = cf_server (fst cs))"

lemma untouched_keeps: "limit g \<Longrightarrow> untouched f \<Longrightarrow> keeps_value g f"
  unfolding limit_def untouched_def step_keeps_def by metis

lemma untouched_on_config: "(\<And>c. cf_runtime (f c) = cf_runtime c \<and> cf_server (f c) = cf_server c) \<Longrightarrow> untouched (on_config f)"
  by (auto simp: untouched_def on_config_def)

lemma untouched_select: "untouched (select_builtin origin n)" "untouched (select_plugin origin n)"
  by (auto simp: untouched_def select_builtin_def select_plugin_def split: option.splits)

lemma untouched_run: "\<forall>f \<in> set fs. untouched f \<Longrightarrow> untouched (run_steps fs)"
proof (induction fs)
  case Nil
  then show ?case by (simp add: untouched_def)
next
  case (Cons f fs)
  then have "untouched f" "untouched (run_steps fs)" by simp_all
  moreover have "\<exists>cs1. f cs = Inr cs1 \<and> run_steps fs cs1 = Inr cs'" if "run_steps (f # fs) cs = Inr cs'" for cs cs'
    using that by (cases "f cs") simp_all
  ultimately show ?case unfolding untouched_def by metis
qed

lemma untouched_legacy: "untouched (file_legacy_provider f)"
  by (auto simp: untouched_def file_legacy_provider_def on_config_def legacy_provider_def set_provider_def Let_def split: option.splits)

lemma untouched_providers:
  "untouched (env_provider h)" "untouched (env_plugin_provider h)" "untouched (file_plugin f)"
  "untouched (on_config upsert_selected_provider)" "untouched (on_config settle_provider)"
  "untouched (on_config (default_when_blank f))" "untouched (on_config (file_providers f))" "untouched (on_config (default_when_unset f))"
  "untouched (on_config (flag_settings fv visited))" "untouched (select_by_flags fv visited)"
proof -
  show up: "untouched (on_config upsert_selected_provider)" by (rule untouched_on_config) (simp add: upsert_provider)
  have inr: "untouched Inr" by (simp add: untouched_def)
  have env: "untouched (\<lambda>cs. if b then Inr cs else run_steps fs cs)" if "\<forall>f \<in> set fs. untouched f" for b fs
    using inr untouched_run[OF that] by (cases b) simp_all
  show "untouched (env_provider h)" "untouched (env_plugin_provider h)"
    unfolding env_provider_def env_plugin_provider_def Let_def by (rule env; simp add: up untouched_select)+
  show "untouched (file_plugin f)" unfolding file_plugin_def
    by (cases "fc_plugin_provider f") (simp_all add: inr untouched_select)
  show "untouched (on_config settle_provider)"
    by (rule untouched_on_config) (simp add: settle_provider_def Let_def upsert_provider(3,4))
  show "untouched (on_config (default_when_blank f))" "untouched (on_config (file_providers f))" "untouched (on_config (default_when_unset f))"
    by (rule untouched_on_config; simp add: default_when_blank_def file_providers_def default_when_unset_def Let_def)+
  show "untouched (on_config (flag_settings fv visited))"
    by (rule untouched_on_config) (simp add: flag_settings_def set_provider_def Let_def upsert_provider split: option.split)
  have err: "untouched (\<lambda>cs. if b then Inl e else run_steps fs cs)" if "\<forall>f \<in> set fs. untouched f" for b e fs
    using untouched_run[OF that] by (cases b) (simp_all add: untouched_def)
  show "untouched (select_by_flags fv visited)"
    unfolding select_by_flags_def[abs_def] by (rule err) (auto simp: untouched_select)
qed

text \<open>One step sets a value, those around it keep it.\<close>

lemma keeps_run:
  assumes "\<forall>f \<in> set fs. keeps_value g f" and "run_steps fs cs = Inr cs'"
  shows "g (fst cs') = g (fst cs)"
proof -
  have "step_keeps (\<lambda>cs1. g (fst cs1) = g (fst cs)) (run_steps fs)" by (rule run_keeps) (use assms(1) in blast)
  from step_keepsD[OF this _ assms(2)] show ?thesis by simp
qed

lemma set_between:
  assumes "run_steps (pre @ f # post) cs = Inr cs'"
    and "\<forall>f \<in> set pre. keeps_value g f" and "\<forall>f \<in> set post. keeps_value g f"
  obtains cs1 cs2 where "g (fst cs1) = g (fst cs)" "f cs1 = Inr cs2" "g (fst cs') = g (fst cs2)"
proof -
  obtain cs1 where 1: "run_steps pre cs = Inr cs1" "run_steps (f # post) cs1 = Inr cs'"
    using assms(1) by (auto simp: run_steps_append split: sum.splits)
  obtain cs2 where 2: "f cs1 = Inr cs2" "run_steps post cs2 = Inr cs'"
    using 1(2) by (auto split: sum.splits)
  show ?thesis using that keeps_run[OF assms(2) 1(1)] 2(1) keeps_run[OF assms(3) 2(2)] by blast
qed

lemma file_set_between:
  assumes "run_steps (pre @ file_set v f # post) cs = Inr cs'"
    and "\<forall>f \<in> set pre. keeps_value g f" and "\<forall>f \<in> set post. keeps_value g f" and "\<And>x c. g (f x c) = x"
  shows "g (fst cs') = (case v of None \<Rightarrow> g (fst cs) | Some x \<Rightarrow> x)"
  by (rule set_between[OF assms(1-3)]) (auto simp: file_set_def on_config_def assms(4) split: option.splits)

lemma env_between:
  assumes "run_steps (pre @ env_parsed h parse n f # post) cs = Inr cs'"
    and "\<forall>f \<in> set pre. keeps_value g f" and "\<forall>f \<in> set post. keeps_value g f" and "\<And>x c. g (f x c) = x"
  shows "if env_value h n = [] then g (fst cs') = g (fst cs) else parse (env_value h n) = Inr (g (fst cs'))"
  by (rule set_between[OF assms(1-3)]) (auto simp: env_parsed_def on_config_def assms(4) split: if_splits sum.splits)

end
