(* ===== verification/Config_Provider.thy ===== *)
theory Config_Provider
  imports Config_Properties Plugin_Registry_Properties
begin

text \<open>
  The configuration as \<^verbatim>\<open>llm.NewProvider\<close> sees it (\<^verbatim>\<open>internal/llm/provider.go\<close>): the provider is looked up by the
  type of the selected settings.
\<close>

text \<open>
  The limits of a loaded configuration by the layers that set them.
\<close>

definition max_steps_of :: "config \<Rightarrow> int" where "max_steps_of c = rt_max_steps (cf_runtime c)"
definition memory_limit_of :: "config \<Rightarrow> int" where "memory_limit_of c = rt_memory_limit_mb (cf_runtime c)"
definition session_cap_of :: "config \<Rightarrow> int" where "session_cap_of c = sv_active_session_cap (cf_server c)"

lemmas limit_defs = max_steps_of_def memory_limit_of_def session_cap_of_def

lemma limits: "limit max_steps_of" "limit memory_limit_of" "limit session_cap_of"
  by (simp_all add: limit_def limit_defs)

lemmas untouched_limits = untouched_keeps[OF limits(1)] untouched_keeps[OF limits(2)] untouched_keeps[OF limits(3)]

lemma untouched_values:
  assumes "untouched f"
  shows "step_keeps (\<lambda>cs. rt_max_steps (cf_runtime (fst cs)) = v) f" "step_keeps (\<lambda>cs. rt_memory_limit_mb (cf_runtime (fst cs)) = v) f"
    "step_keeps (\<lambda>cs. sv_active_session_cap (cf_server (fst cs)) = v) f"
  using untouched_limits[OF assms, unfolded limit_defs] by blast+

lemmas untouched_all = untouched_providers untouched_legacy untouched_select

section \<open>The environment\<close>

lemma env_split3: "env_steps h = take 3 (env_steps h) @ env_parsed h parse_atoi ''ZHENG_MAX_STEPS'' set_max_steps # drop 4 (env_steps h)"
  by (simp add: env_steps_def)

lemma env_split5: "env_steps h = take 5 (env_steps h) @ env_parsed h parse_atoi ''ZHENG_MEMORY_LIMIT_MB'' set_memory_limit # drop 6 (env_steps h)"
  by (simp add: env_steps_def)

lemma env_split12: "env_steps h = take 12 (env_steps h) @
    env_parsed h parse_atoi ''ZHENG_SERVER_ACTIVE_SESSION_CAP'' (\<lambda>v. on_server (sv_active_session_cap_update (\<lambda>_. v))) # drop 13 (env_steps h)"
  by (simp add: env_steps_def)

lemma env_max_steps:
  assumes "apply_env h cs = Inr cs'"
  shows "if env_value h ''ZHENG_MAX_STEPS'' = [] then max_steps_of (fst cs') = max_steps_of (fst cs)
         else parse_atoi (env_value h ''ZHENG_MAX_STEPS'') = Inr (max_steps_of (fst cs'))"
proof (rule env_between)
  show "run_steps (take 3 (env_steps h) @ env_parsed h parse_atoi ''ZHENG_MAX_STEPS'' set_max_steps # drop 4 (env_steps h)) cs = Inr cs'"
    using assms by (simp add: apply_env_def flip: env_split3)
  show "\<forall>f \<in> set (take 3 (env_steps h)). keeps_value max_steps_of f" "\<forall>f \<in> set (drop 4 (env_steps h)). keeps_value max_steps_of f"
    by (auto simp: env_steps_def untouched_values untouched_all limit_defs setter_defs intro!: keeps_rules)
qed (simp add: limit_defs setter_defs)

lemma env_memory_limit:
  assumes "apply_env h cs = Inr cs'"
  shows "if env_value h ''ZHENG_MEMORY_LIMIT_MB'' = [] then memory_limit_of (fst cs') = memory_limit_of (fst cs)
         else parse_atoi (env_value h ''ZHENG_MEMORY_LIMIT_MB'') = Inr (memory_limit_of (fst cs'))"
proof (rule env_between)
  show "run_steps (take 5 (env_steps h) @ env_parsed h parse_atoi ''ZHENG_MEMORY_LIMIT_MB'' set_memory_limit # drop 6 (env_steps h)) cs = Inr cs'"
    using assms by (simp add: apply_env_def flip: env_split5)
  show "\<forall>f \<in> set (take 5 (env_steps h)). keeps_value memory_limit_of f" "\<forall>f \<in> set (drop 6 (env_steps h)). keeps_value memory_limit_of f"
    by (auto simp: env_steps_def untouched_values untouched_all limit_defs setter_defs intro!: keeps_rules)
qed (simp add: limit_defs setter_defs)

lemma env_session_cap:
  assumes "apply_env h cs = Inr cs'"
  shows "if env_value h ''ZHENG_SERVER_ACTIVE_SESSION_CAP'' = [] then session_cap_of (fst cs') = session_cap_of (fst cs)
         else parse_atoi (env_value h ''ZHENG_SERVER_ACTIVE_SESSION_CAP'') = Inr (session_cap_of (fst cs'))"
proof (rule env_between)
  show "run_steps (take 12 (env_steps h) @ env_parsed h parse_atoi ''ZHENG_SERVER_ACTIVE_SESSION_CAP''
      (\<lambda>v. on_server (sv_active_session_cap_update (\<lambda>_. v))) # drop 13 (env_steps h)) cs = Inr cs'"
    using assms by (simp add: apply_env_def flip: env_split12)
  show "\<forall>f \<in> set (take 12 (env_steps h)). keeps_value session_cap_of f" "\<forall>f \<in> set (drop 13 (env_steps h)). keeps_value session_cap_of f"
    by (auto simp: env_steps_def untouched_values untouched_all limit_defs setter_defs intro!: keeps_rules)
qed (simp add: limit_defs setter_defs)

section \<open>The flags\<close>

lemma setters:
  "\<forall>e \<in> set (config_flags h). setter_for ''max-steps'' fv_max_steps (ch_parse_int h) e"
  "\<forall>e \<in> set (config_flags h). setter_for ''memory-limit-mb'' fv_memory_limit_mb (ch_parse_int h) e"
  "\<forall>e \<in> set (config_flags h). setter_for ''active-session-cap'' fv_active_session_cap (ch_parse_int h) e"
  by (auto simp: config_flags_def setter_for_def string_flag_def parsed_flag_def split: sum.splits)

lemma flags_value:
  assumes "load_flags h args path cs = Inr cs'"
    and "\<forall>e \<in> set (config_flags h). setter_for name get (ch_parse_int h) e"
    and "get (initial_flags path (fst cs)) = g (fst cs)" and "\<And>fv c. g (flag_limits fv c) = get fv"
  shows "case flag_text h args name of Some t \<Rightarrow> ch_parse_int h t = Inr (g (fst cs')) | None \<Rightarrow> g (fst cs') = g (fst cs)"
proof -
  obtain fv visited c1 where p: "parse_flags (config_flags h) args [] (initial_flags path (fst cs)) = Inr (fv, visited)"
    and c': "fst cs' = flag_limits fv c1"
    using assms(1) by (auto simp: load_flags_def on_config_def split: sum.splits prod.splits)
  have "flag_holds name get (ch_parse_int h) (g (fst cs)) [] (initial_flags path (fst cs))"
    using assms(3) by (simp add: flag_holds_def)
  from parse_flags_holds[OF assms(2) p this]
  show ?thesis by (auto simp: flag_holds_def flag_text_def c' assms(4) split: option.splits)
qed

section \<open>The file\<close>

text \<open>The sections of the file set the nested value, its top level the outer one.\<close>

definition file_sections :: "config_host \<Rightarrow> string \<Rightarrow> file_config \<Rightarrow> config_step list" where
  "file_sections h path f =
     (case fc_runtime f of None \<Rightarrow> [] | Some r \<Rightarrow> runtime_steps h path r) @
     (case fc_server f of None \<Rightarrow> [] | Some s \<Rightarrow> file_server_steps h path s)"

lemma run_untouched: "limit g \<Longrightarrow> untouched f \<Longrightarrow> f cs = Inr cs' \<Longrightarrow> g (fst cs') = g (fst cs)"
  unfolding limit_def untouched_def by metis

lemma run_appendE:
  assumes "run_steps (fs @ gs) cs = Inr cs'"
  obtains cs1 where "run_steps fs cs = Inr cs1" "run_steps gs cs1 = Inr cs'"
  using assms unfolding run_steps_append by (cases "run_steps fs cs") simp_all

lemma file_value:
  assumes run: "run_steps (file_steps h path f) cs = Inr cs'" and "limit g"
    and nested: "\<And>cs cs'. run_steps (file_sections h path f) cs = Inr cs' \<Longrightarrow> g (fst cs') = set_or n (g (fst cs))"
    and outer: "\<And>cs cs'. run_steps (legacy_steps h path f) cs = Inr cs' \<Longrightarrow> g (fst cs') = set_or u (g (fst cs))"
    and legacy: "u \<noteq> None \<Longrightarrow> has_legacy f"
  shows "g (fst cs') = set_or u (set_or n (g (fst cs)))"
proof -
  let ?pre = "[file_set (fc_default_provider f) (\<lambda>v c. c\<lparr>cf_default_provider := normalize_name v\<rparr>), file_plugin f,
      on_config (default_when_blank f), on_config (file_providers f), on_config (default_when_unset f)]"
  let ?leg = "if has_legacy f then legacy_steps h path f else []"
  have parts: "file_steps h path f = ?pre @ file_sections h path f @ ?leg @ [on_config settle_provider]"
    by (simp add: file_steps_def file_sections_def)
  obtain cs1 where 1: "run_steps ?pre cs = Inr cs1"
    and r1: "run_steps (file_sections h path f @ ?leg @ [on_config settle_provider]) cs1 = Inr cs'"
    by (rule run_appendE[OF run[unfolded parts]])
  obtain cs2 where 2: "run_steps (file_sections h path f) cs1 = Inr cs2"
    and r2: "run_steps (?leg @ [on_config settle_provider]) cs2 = Inr cs'" by (rule run_appendE[OF r1])
  obtain cs3 where 3: "run_steps ?leg cs2 = Inr cs3" and r3: "run_steps [on_config settle_provider] cs3 = Inr cs'"
    by (rule run_appendE[OF r2])
  have 4: "on_config settle_provider cs3 = Inr cs'" using r3 by (simp add: on_config_def)
  have "untouched (file_set (fc_default_provider f) (\<lambda>v c. c\<lparr>cf_default_provider := normalize_name v\<rparr>))"
    by (auto simp: untouched_def file_set_def on_config_def split: option.splits)
  then have "untouched (run_steps ?pre)" by (intro untouched_run) (auto simp: untouched_all)
  then have "g (fst cs1) = g (fst cs)" by (rule run_untouched[OF assms(2), where f = "run_steps ?pre"]) (rule 1)
  moreover have "g (fst cs2) = set_or n (g (fst cs1))" by (rule nested[OF 2])
  moreover have "g (fst cs3) = set_or u (g (fst cs2))"
    using 3 outer legacy by (cases "has_legacy f"; cases u) (auto simp: set_or_def)
  moreover have "g (fst cs') = g (fst cs3)" by (rule run_untouched[OF assms(2), where f = "on_config settle_provider"]) (simp_all add: untouched_all 4)
  ultimately show ?thesis by simp
qed

text \<open>Each limit in its section and at the top level.\<close>

lemma file_set_run:
  assumes "run_steps fs cs = Inr cs'" and "fs = pre @ file_set v f # suf"
    and "\<forall>f \<in> set pre. keeps_value g f" and "\<forall>f \<in> set suf. keeps_value g f" and "\<And>x c. g (f x c) = x"
  shows "g (fst cs') = set_or v (g (fst cs))"
  using file_set_between[of pre v f suf, OF assms(1)[unfolded assms(2)] assms(3,4)] assms(5) by (simp add: set_or_def)

lemmas section_defs = file_sections_def runtime_steps_def file_server_steps_def server_steps_def web_ui_steps_def legacy_steps_def

definition nested_runtime :: "(runtime_file \<Rightarrow> int option) \<Rightarrow> file_config \<Rightarrow> int option" where
  "nested_runtime get f = Option.bind (fc_runtime f) get"

definition nested_server :: "(server_file \<Rightarrow> int option) \<Rightarrow> file_config \<Rightarrow> int option" where
  "nested_server get f = Option.bind (fc_server f) get"

lemma set_or_None [simp]: "set_or None d = d" and set_or_Some [simp]: "set_or (Some x) d = x"
  by (simp_all add: set_or_def)

lemma nested_max_steps:
  assumes "run_steps (file_sections h path f) cs = Inr cs'"
  shows "max_steps_of (fst cs') = set_or (nested_runtime rf_max_steps f) (max_steps_of (fst cs))"
proof (cases "fc_runtime f")
  case None
  have "max_steps_of (fst cs') = max_steps_of (fst cs)"
    by (rule keeps_run[OF _ assms])
      (auto simp: None section_defs limit_defs setter_defs intro!: keeps_rules split: option.splits)
  then show ?thesis by (simp add: None nested_runtime_def)
next
  case (Some r)
  have "max_steps_of (fst cs') = set_or (rf_max_steps r) (max_steps_of (fst cs))"
    by (rule file_set_run[OF assms, where pre = "[]" and suf = "drop 1 (file_sections h path f)" and f = set_max_steps])
      (auto simp: Some section_defs limit_defs setter_defs intro!: keeps_rules split: option.splits)
  then show ?thesis by (simp add: Some nested_runtime_def)
qed

lemma nested_memory_limit:
  assumes "run_steps (file_sections h path f) cs = Inr cs'"
  shows "memory_limit_of (fst cs') = set_or (nested_runtime rf_memory_limit_mb f) (memory_limit_of (fst cs))"
proof (cases "fc_runtime f")
  case None
  have "memory_limit_of (fst cs') = memory_limit_of (fst cs)"
    by (rule keeps_run[OF _ assms])
      (auto simp: None section_defs limit_defs setter_defs intro!: keeps_rules split: option.splits)
  then show ?thesis by (simp add: None nested_runtime_def)
next
  case (Some r)
  have "memory_limit_of (fst cs') = set_or (rf_memory_limit_mb r) (memory_limit_of (fst cs))"
    by (rule file_set_run[OF assms, where pre = "take 2 (file_sections h path f)" and suf = "drop 3 (file_sections h path f)" and f = set_memory_limit])
      (auto simp: Some section_defs limit_defs setter_defs intro!: keeps_rules split: option.splits)
  then show ?thesis by (simp add: Some nested_runtime_def)
qed

lemma nested_session_cap:
  assumes "run_steps (file_sections h path f) cs = Inr cs'"
  shows "session_cap_of (fst cs') = set_or (nested_server sf_active_session_cap f) (session_cap_of (fst cs))"
proof (cases "fc_server f")
  case None
  have "session_cap_of (fst cs') = session_cap_of (fst cs)"
    by (rule keeps_run[OF _ assms])
      (auto simp: None section_defs limit_defs setter_defs intro!: keeps_rules split: option.splits)
  then show ?thesis by (simp add: None nested_server_def)
next
  case (Some s)
  let ?fs = "file_server_steps h path s"
  have "session_cap_of (fst cs') = set_or (sf_active_session_cap s) (session_cap_of (fst cs))"
    by (rule file_set_run[OF assms, where suf = "drop 4 ?fs" and f = "\<lambda>v. on_server (sv_active_session_cap_update (\<lambda>_. v))"
          and pre = "(case fc_runtime f of None \<Rightarrow> [] | Some r \<Rightarrow> runtime_steps h path r) @ take 3 ?fs"])
      (auto simp: Some section_defs limit_defs setter_defs intro!: keeps_rules split: option.splits)
  then show ?thesis by (simp add: Some nested_server_def)
qed

lemma outer_limits:
  assumes "run_steps (legacy_steps h path f) cs = Inr cs'"
  shows "max_steps_of (fst cs') = set_or (fc_max_steps f) (max_steps_of (fst cs))"
    and "memory_limit_of (fst cs') = set_or (fc_memory_limit_mb f) (memory_limit_of (fst cs))"
    and "session_cap_of (fst cs') = set_or (fc_active_session_cap f) (session_cap_of (fst cs))"
proof -
  let ?fs = "legacy_steps h path f"
  show "max_steps_of (fst cs') = set_or (fc_max_steps f) (max_steps_of (fst cs))"
    by (rule file_set_run[OF assms, where pre = "take 1 ?fs" and suf = "drop 2 ?fs" and f = set_max_steps])
      (auto simp: section_defs untouched_values untouched_all limit_defs setter_defs intro!: keeps_rules)
  show "memory_limit_of (fst cs') = set_or (fc_memory_limit_mb f) (memory_limit_of (fst cs))"
    by (rule file_set_run[OF assms, where pre = "take 3 ?fs" and suf = "drop 4 ?fs" and f = set_memory_limit])
      (auto simp: section_defs untouched_values untouched_all limit_defs setter_defs intro!: keeps_rules)
  show "session_cap_of (fst cs') = set_or (fc_active_session_cap f) (session_cap_of (fst cs))"
    by (rule file_set_run[OF assms, where pre = "take 8 ?fs" and suf = "drop 9 ?fs"
          and f = "\<lambda>v. on_server (sv_active_session_cap_update (\<lambda>_. v))"])
      (auto simp: section_defs untouched_values untouched_all limit_defs setter_defs intro!: keeps_rules)
qed


lemma file_limits:
  assumes "run_steps (file_steps h path f) cs = Inr cs'"
  shows "max_steps_of (fst cs') = set_or (fc_max_steps f) (set_or (nested_runtime rf_max_steps f) (max_steps_of (fst cs)))"
    and "memory_limit_of (fst cs') = set_or (fc_memory_limit_mb f) (set_or (nested_runtime rf_memory_limit_mb f) (memory_limit_of (fst cs)))"
    and "session_cap_of (fst cs') = set_or (fc_active_session_cap f) (set_or (nested_server sf_active_session_cap f) (session_cap_of (fst cs)))"
proof -
  show "max_steps_of (fst cs') = set_or (fc_max_steps f) (set_or (nested_runtime rf_max_steps f) (max_steps_of (fst cs)))"
    by (rule file_value[OF assms limits(1)]) (simp_all add: nested_max_steps outer_limits(1) has_legacy_def)
  show "memory_limit_of (fst cs') = set_or (fc_memory_limit_mb f) (set_or (nested_runtime rf_memory_limit_mb f) (memory_limit_of (fst cs)))"
    by (rule file_value[OF assms limits(2)]) (simp_all add: nested_memory_limit outer_limits(2) has_legacy_def)
  show "session_cap_of (fst cs') = set_or (fc_active_session_cap f) (set_or (nested_server sf_active_session_cap f) (session_cap_of (fst cs)))"
    by (rule file_value[OF assms limits(3)]) (simp_all add: nested_session_cap outer_limits(3) has_legacy_def)
qed

section \<open>All layers\<close>

lemma file_layer:
  assumes "resolve_config_path h args = Inr found"
    and "if fst found = [] then cs1 = cs else load_from_file h (fst found) (snd found) cs = Inr cs1"
  shows "case config_file h args of None \<Rightarrow> cs1 = cs | Some f \<Rightarrow> run_steps (file_steps h (fst found) f) cs = Inr cs1"
  using assms by (auto simp: config_file_def load_from_file_def split: prod.splits sum.splits if_splits)

lemma layered_of_steps:
  assumes from_file: "case config_file h args of None \<Rightarrow> g (fst cs1) = d | Some f \<Rightarrow> g (fst cs1) = set_or (outer f) (set_or (nested f) d)"
    and env: "if env_value h e = [] then g (fst cs2) = g (fst cs1) else parse_atoi (env_value h e) = Inr (g (fst cs2))"
    and flags: "case flag_text h args n of Some t \<Rightarrow> ch_parse_int h t = Inr (g (fst cs3)) | None \<Rightarrow> g (fst cs3) = g (fst cs2)"
  shows "layered h args n e outer nested d (g (fst cs3))"
  using assms by (auto simp: layered_def split: option.splits if_splits)

section \<open>An example\<close>

text \<open>A file with one provider and a limit, a plugin chosen by the environment, and a flag.\<close>

definition no_file :: file_config where
  "no_file = \<lparr>fc_default_provider = None, fc_providers = [], fc_runtime = None, fc_server = None, fc_model = None, fc_provider = None,
     fc_plugin_provider = None, fc_max_steps = None, fc_step_timeout = None, fc_memory_limit_mb = None, fc_verify_mode = None,
     fc_api_key = None, fc_base_url = None, fc_listen_address = None, fc_jwt_secret = None, fc_jwt_secret_file = None,
     fc_active_session_cap = None, fc_shutdown_timeout = None, fc_enable_wal = None\<rparr>"

definition example_file :: file_config where
  "example_file = no_file\<lparr>fc_default_provider := Some ''acme'',
     fc_providers := [(''Acme'', \<lparr>pf_type = None, pf_model = Some ''m'', pf_api_key = None, pf_base_url = None\<rparr>)],
     fc_runtime := Some \<lparr>rf_max_steps = Some 3, rf_step_timeout = None, rf_memory_limit_mb = Some 64, rf_verify_mode = None,
       rf_allowed_commands = None, rf_allowed_plugin_paths = None, rf_plugin_capabilities = None\<rparr>\<rparr>"

definition example_host :: config_host where
  "example_host = \<lparr>ch_getenv = (\<lambda>n. if n = ''ZHENG_PLUGIN_PROVIDER'' then ''acme'' else if n = ''ZHENG_MAX_STEPS'' then ''4'' else []),
     ch_home = Inl os_not_exist, ch_stat = (\<lambda>_. Inr False), ch_read = (\<lambda>_. Inr []), ch_unmarshal = (\<lambda>_. Inr example_file),
     ch_parse_duration = (\<lambda>s. Inl parse_error), ch_parse_int = parse_atoi\<rparr>"

definition example_config :: config where
  "example_config = default_config\<lparr>cf_default_provider := ''acme'',
     cf_providers := [(''acme'', \<lparr>ps_type = ''plugin'', ps_model = ''m'', ps_api_key = [], ps_base_url = []\<rparr>)],
     cf_runtime := (cf_runtime default_config)\<lparr>rt_max_steps := 5, rt_memory_limit_mb := 64\<rparr>,
     cf_provider := ''acme'', cf_plugin_provider := ''acme''\<rparr>"

lemma example_loads: "load_config example_host [''--max-steps'', ''5''] = Inr example_config"
  by code_simp


section \<open>What a loaded configuration is\<close>

text \<open> C34. A configuration that loads selects a provider it holds, with a model, and of the type plugin exactly
  if a plugin was selected; DashScope has its key; the default provider exists, the limits are positive, and
  the mode of verification is known.\<close>

theorem load_selects_provider:
  assumes "load_config h args = Inr c"
  shows "(\<exists>s. map_of (cf_providers c) (cf_provider c) = Some s \<and> ps_model s \<noteq> [] \<and>
         ps_type s \<in> {''openai'', ''anthropic'', ''dashscope'', ''plugin''} \<and>
         (ps_type s = ''plugin'' \<longleftrightarrow> cf_plugin_provider c \<noteq> []) \<and> (ps_type s = ''dashscope'' \<longrightarrow> ps_api_key s \<noteq> [])) \<and>
     map_of (cf_providers c) (cf_default_provider c) \<noteq> None \<and>
     0 < rt_max_steps (cf_runtime c) \<and> 0 < rt_step_timeout (cf_runtime c) \<and> 0 < rt_memory_limit_mb (cf_runtime c) \<and>
     0 < sv_active_session_cap (cf_server c) \<and> 0 < sv_shutdown_timeout (cf_server c) \<and>
     rt_verify_mode (cf_runtime c) \<in> {''off'', ''standard'', ''strict''}"
proof -
  obtain s where s: "map_of (cf_providers c) (cf_provider c) = Some s" "ps_model s \<noteq> []"
      "ps_type s \<in> {''openai'', ''anthropic'', ''dashscope'', ''plugin''}" "ps_type s = ''dashscope'' \<longrightarrow> ps_api_key s \<noteq> []"
      "ps_type s = ''plugin'' \<longrightarrow> \<not> blank (cf_plugin_provider c)"
    using validated_config(1) loaded_valid[OF assms] by blast
  moreover have "ps_type s = ''plugin'' \<longleftrightarrow> cf_plugin_provider c \<noteq> []"
    using s(1,5) loaded_type[OF assms] by auto
  ultimately show ?thesis using validated_config(2-8)[OF loaded_valid[OF assms]] by blast
qed


theorem load_selects_provider_witness:
  "\<exists>s. map_of (cf_providers example_config) (cf_provider example_config) = Some s \<and> ps_type s = ''plugin''"
proof -
  have "cf_plugin_provider example_config \<noteq> []" by (simp add: example_config_def)
  then show ?thesis using load_selects_provider[OF example_loads] by blast
qed

text \<open> The layers override each other in the order they promise: for the number of steps, the memory and the
  cap on sessions, the last flag decides, else the environment, else the top level of the file, else its
  section, else the default; a value that does not parse makes the load fail.\<close>

theorem load_layers_precedence:
  assumes "load_config h args = Inr c"
  shows "layered h args ''max-steps'' ''ZHENG_MAX_STEPS'' fc_max_steps (nested_runtime rf_max_steps) 8 (max_steps_of c) \<and>
     layered h args ''memory-limit-mb'' ''ZHENG_MEMORY_LIMIT_MB'' fc_memory_limit_mb (nested_runtime rf_memory_limit_mb) 256 (memory_limit_of c) \<and>
     layered h args ''active-session-cap'' ''ZHENG_SERVER_ACTIVE_SESSION_CAP'' fc_active_session_cap
       (nested_server sf_active_session_cap) 8 (session_cap_of c)"
proof -
  obtain found sel where r: "resolve_config_path h args = Inr found"
    and l: "load_layers h args found (default_config, no_selection) = Inr (c, sel)"
    using load_config_split[OF assms] by blast
  obtain cs1 cs2 where 1: "if fst found = [] then cs1 = (default_config, no_selection)
        else load_from_file h (fst found) (snd found) (default_config, no_selection) = Inr cs1"
    and 2: "apply_env h cs1 = Inr cs2" and 3: "load_flags h args (fst found) cs2 = Inr (c, sel)"
    using layers_split[OF l] by blast
  note fl = file_layer[OF r 1]
  have d: "max_steps_of default_config = 8" "memory_limit_of default_config = 256" "session_cap_of default_config = 8"
    by (simp_all add: limit_defs default_config_def)
  note d = d d[unfolded limit_defs]
  have "layered h args ''max-steps'' ''ZHENG_MAX_STEPS'' fc_max_steps (nested_runtime rf_max_steps) 8 (max_steps_of (fst (c, sel)))"
    by (rule layered_of_steps[where g = max_steps_of, OF _ env_max_steps[OF 2] flags_value[where g = max_steps_of, OF 3 setters(1)]])
      (use fl file_limits(1) in \<open>auto simp: d initial_flags_def flag_limits_def limit_defs Let_def split: option.splits\<close>)
  moreover have "layered h args ''memory-limit-mb'' ''ZHENG_MEMORY_LIMIT_MB'' fc_memory_limit_mb (nested_runtime rf_memory_limit_mb) 256
      (memory_limit_of (fst (c, sel)))"
    by (rule layered_of_steps[where g = memory_limit_of, OF _ env_memory_limit[OF 2] flags_value[where g = memory_limit_of, OF 3 setters(2)]])
      (use fl file_limits(2) in \<open>auto simp: d initial_flags_def flag_limits_def limit_defs Let_def split: option.splits\<close>)
  moreover have "layered h args ''active-session-cap'' ''ZHENG_SERVER_ACTIVE_SESSION_CAP'' fc_active_session_cap
      (nested_server sf_active_session_cap) 8 (session_cap_of (fst (c, sel)))"
    by (rule layered_of_steps[where g = session_cap_of, OF _ env_session_cap[OF 2] flags_value[where g = session_cap_of, OF 3 setters(3)]])
      (use fl file_limits(3) in \<open>auto simp: d initial_flags_def flag_limits_def limit_defs Let_def split: option.splits\<close>)
  ultimately show ?thesis by simp
qed


theorem load_layers_precedence_witness:
  "layered example_host [''--max-steps'', ''5''] ''max-steps'' ''ZHENG_MAX_STEPS'' fc_max_steps (nested_runtime rf_max_steps) 8 5"
  using load_layers_precedence[OF example_loads] by (simp add: limit_defs example_config_def)


definition provider_config_of :: "config \<Rightarrow> provider_config" where
  "provider_config_of c = \<lparr>pc_model = get_model c, pc_provider = cf_provider c, pc_provider_type = get_provider_type c, pc_api_key = get_api_key c, pc_base_url = get_base_url c\<rparr>"

lemma trim_plugin: "trim_space ''plugin'' = ''plugin''"
  by code_simp

lemma loaded_plugin_type:
  assumes "load_config h args = Inr c" and "cf_plugin_provider c \<noteq> []"
  shows "pc_provider_type (provider_config_of c) = ''plugin''"
proof -
  obtain s where "map_of (cf_providers c) (cf_provider c) = Some s"
    using validated_config(1)[OF loaded_valid[OF assms(1)]] by blast
  moreover from this have "ps_type s = ''plugin''" by (rule loaded_type[OF assms])
  ultimately show ?thesis by (simp add: provider_config_of_def get_provider_type_def selected_settings_def settings_of_def)
qed

lemma plugin_not_builtin: "\<exists>e. builtin_provider_resolve ''plugin'' cfg = Inl e"
  by (simp add: builtin_provider_resolve_def trim_plugin or_default_def builtin_providers_def Let_def)

text \<open> A plugin that is selected as the provider is not found by the repository's resolvers: whatever its name, \<^verbatim>\<open>NewProvider\<close>
  asks its resolver for a provider named plugin, which neither the built-in resolver nor the one the plugin
  package installs has.  (A resolver that is installed by hand can look at the provider's name in the configuration.)\<close>

theorem selected_plugin_not_made:
  assumes "load_config h args = Inr c" and "cf_plugin_provider c \<noteq> []"
  shows "new_provider resolve (provider_config_of c) = resolve ''plugin'' (provider_config_of c) \<and>
     (\<exists>e. new_provider builtin_provider_resolve (provider_config_of c) = Inl e) \<and>
     (\<exists>e. default_llm_resolve ''plugin'' (provider_config_of c) = Done (Inl e))"
proof -
  have same: "new_provider r (provider_config_of c) = r ''plugin'' (provider_config_of c)" for r
    by (simp add: new_provider_def loaded_plugin_type[OF assms] trim_plugin)
  moreover obtain e where e: "builtin_provider_resolve ''plugin'' (provider_config_of c) = Inl e" using plugin_not_builtin by blast
  moreover have "\<exists>e. default_llm_resolve ''plugin'' (provider_config_of c) = Done (Inl e)"
    using default_resolver_equivalent[of "''plugin''" "provider_config_of c"] e by (auto split: attempt.splits)
  ultimately show ?thesis by simp
qed

theorem selected_plugin_not_made_witness:
  "load_config example_host [''--max-steps'', ''5''] = Inr example_config \<and> cf_plugin_provider example_config = ''acme'' \<and>
   (\<exists>e. new_provider builtin_provider_resolve (provider_config_of example_config) = Inl e)"
proof -
  have p: "cf_plugin_provider example_config = ''acme''" by (simp add: example_config_def)
  then have "cf_plugin_provider example_config \<noteq> []" by simp
  from selected_plugin_not_made[OF example_loads this] p example_loads show ?thesis by blast
qed

end
