(* ===== verification/Sse_Correct.thy ===== *)
theory Sse_Correct
  imports Sse Paths
begin

text \<open>
  What the event parser promises: data events that were written come back in order, one by one, and
  nothing after the end marker is read.
\<close>

section \<open>What every parse keeps\<close>

lemma sse_flush_inv:
  assumes "\<And>w e w'. ctx w = (e, w') \<Longrightarrow> P w \<Longrightarrow> P w'" "\<And>c w e w'. emit c w = (e, w') \<Longrightarrow> P w \<Longrightarrow> P w'"
  shows "sse_flush ctx emit data w = (e, w') \<Longrightarrow> P w \<Longrightarrow> P w'"
  using assms by (auto simp: sse_flush_def split: if_splits prod.splits option.splits)

lemma sse_lines_inv:
  assumes "\<And>w e w'. ctx w = (e, w') \<Longrightarrow> P w \<Longrightarrow> P w'" "\<And>c w e w'. emit c w = (e, w') \<Longrightarrow> P w \<Longrightarrow> P w'"
  shows "sse_lines ctx emit scan_error data lines w = (e, w') \<Longrightarrow> P w \<Longrightarrow> P w'"
proof (induction lines arbitrary: data w)
  case Nil
  then show ?case
    using sse_flush_inv [of ctx P emit, OF assms(1) assms(2)] assms(1)
    by (auto split: option.splits prod.splits)
next
  case (Cons line lines)
  obtain c w1 where c: "ctx w = (c, w1)" by fastforce
  with Cons.prems(2) assms(1) have p1: "P w1" by blast
  obtain f w2 where f: "sse_flush ctx emit data w1 = (f, w2)" by fastforce
  have p2: "P w2" using sse_flush_inv [of ctx P emit, OF assms(1) assms(2) f p1] .
  show ?case
    using Cons.prems(1) c f p1 p2 Cons.IH
    by (auto split: option.splits if_splits)
qed

lemma parse_sse_inv:
  assumes "\<And>w e w'. ctx w = (e, w') \<Longrightarrow> P w \<Longrightarrow> P w'" "\<And>c w e w'. emit c w = (e, w') \<Longrightarrow> P w \<Longrightarrow> P w'"
    and "parse_sse ctx body emit w = (e, w')" "P w"
  shows "P w'"
  using assms(3,4) sse_lines_inv [of ctx P emit, OF assms(1) assms(2)]
  by (simp add: parse_sse_def split: prod.splits)

section \<open>Writing events\<close>

definition sse_line :: "string \<Rightarrow> string" where
  "sse_line l = ''data: '' @ l @ [line_feed]"

definition sse_encode :: "string \<Rightarrow> string" where
  "sse_encode chunk = concat (map sse_line (split_on line_feed chunk)) @ [line_feed]"

text \<open>A line that the scanner keeps as it is.\<close>

definition clean_line :: "string \<Rightarrow> bool" where
  "clean_line l \<longleftrightarrow> length l + 6 < max_line \<and> (l = [] \<or> last l \<noteq> carriage_return)"

definition clean_chunk :: "string \<Rightarrow> bool" where
  "clean_chunk chunk \<longleftrightarrow> chunk \<noteq> sse_done_marker \<and> list_all clean_line (split_on line_feed chunk)"

section \<open>Scanning\<close>

lemma raw_lines_step: "line_feed \<notin> set l \<Longrightarrow> raw_lines (l @ line_feed # s) = l # raw_lines s"
  by (simp add: raw_lines_def split_on_append split_on_id Let_def)

lemma scan_step:
  assumes "line_feed \<notin> set l" "length l < max_line"
  shows "scan_body (l @ line_feed # s) e = (drop_cr l # fst (scan_body s e), snd (scan_body s e))"
  using assms by (simp add: scan_body_def raw_lines_step Let_def)

text \<open>The parser from some point of a body on.\<close>

definition sse_from ::
  "('w \<Rightarrow> go_error option \<times> 'w) \<Rightarrow> (string \<Rightarrow> 'w \<Rightarrow> go_error option \<times> 'w) \<Rightarrow> string list \<Rightarrow> string \<Rightarrow> go_error option \<Rightarrow> 'w
     \<Rightarrow> go_error option \<times> 'w" where
  "sse_from ctx emit data body e w = sse_lines ctx emit (snd (scan_body body e)) data (fst (scan_body body e)) w"

lemma parse_sse_from: "parse_sse ctx (body, e) emit w = sse_from ctx emit [] body e w"
  by (simp add: parse_sse_def sse_from_def split: prod.split)

text \<open>A context that is never done.\<close>

definition never_done :: "'w \<Rightarrow> go_error option \<times> 'w" where "never_done w = (None, w)"

lemma blank_line_step:
  "sse_from never_done emit data (line_feed # s) e w =
     (case sse_flush never_done emit data w of
        (Some err, w1) \<Rightarrow> (eof_is_end err, w1)
      | (None, w1) \<Rightarrow> sse_from never_done emit [] s e w1)"
  using scan_step [of "[]" s e] by (simp add: sse_from_def never_done_def drop_cr_def max_line_def cong: option.case_cong)

lemma drop_cr_data: "l = [] \<or> last l \<noteq> carriage_return \<Longrightarrow> drop_cr (''data: '' @ l) = ''data: '' @ l"
  by (auto simp: drop_cr_def carriage_return_def)

lemma data_of_data: "data_of_line (''data: '' @ l) = l"
  by (simp add: data_of_line_def trim_prefix_def)

lemma data_line_step:
  assumes "clean_line l" "line_feed \<notin> set l"
  shows "sse_from never_done emit data (sse_line l @ s) e w = sse_from never_done emit (data @ [l]) s e w"
proof -
  have "line_feed \<notin> set (''data: '' @ l)" "length (''data: '' @ l) < max_line"
    using assms by (simp_all add: clean_line_def line_feed_def)
  note s = scan_step [OF this, of s e]
  have d: "drop_cr (''data: '' @ l) = ''data: '' @ l" using assms(1) by (intro drop_cr_data) (simp add: clean_line_def)
  have "sse_lines never_done emit se data ((''data: '' @ l) # ls) w = sse_lines never_done emit se (data @ [l]) ls w" for se ls
    using data_of_data [of l] by (simp add: never_done_def)
  with s d show ?thesis by (simp add: sse_from_def sse_line_def)
qed

lemma data_lines_step:
  assumes "list_all clean_line ls" "\<forall>l \<in> set ls. line_feed \<notin> set l"
  shows "sse_from never_done emit data (concat (map sse_line ls) @ s) e w = sse_from never_done emit (data @ ls) s e w"
  using assms
proof (induction ls arbitrary: data)
  case (Cons l ls)
  then show ?case using data_line_step [of l emit data "concat (map sse_line ls) @ s" e w] by simp
qed simp

lemma newline_line_feed: "newline = [line_feed]"
  by (simp add: newline_def line_feed_def)

lemma chunk_step:
  assumes "list_all clean_line (split_on line_feed chunk)"
  shows "sse_from never_done emit [] (sse_encode chunk @ s) e w =
    (if chunk = sse_done_marker then (None, w)
     else (case emit chunk w of
             (Some err, w1) \<Rightarrow> (eof_is_end err, w1)
           | (None, w1) \<Rightarrow> sse_from never_done emit [] s e w1))"
proof -
  have "\<forall>l \<in> set (split_on line_feed chunk). line_feed \<notin> set l" using split_on_no_sep by blast
  with assms show ?thesis
    using data_lines_step [of "split_on line_feed chunk" emit "[]" "line_feed # s" e w]
    by (simp add: sse_encode_def blank_line_step sse_flush_def newline_line_feed join_split_on never_done_def eof_is_end_def)
qed

lemmas clean_simps = clean_chunk_def clean_line_def max_line_def sse_done_marker_def line_feed_def carriage_return_def newline_def

section \<open>The parser on written events\<close>

text \<open>The receiver on the events one by one, up to its first error.\<close>

fun deliver :: "(string \<Rightarrow> 'w \<Rightarrow> go_error option \<times> 'w) \<Rightarrow> string list \<Rightarrow> 'w \<Rightarrow> go_error option \<times> 'w" where
  "deliver emit [] w = (None, w)"
| "deliver emit (c # cs) w =
     (case emit c w of (Some e, w1) \<Rightarrow> (eof_is_end e, w1) | (None, w1) \<Rightarrow> deliver emit cs w1)"

definition sse_body :: "string list \<Rightarrow> string \<Rightarrow> string" where
  "sse_body chunks rest = concat (map sse_encode chunks) @ sse_encode sse_done_marker @ rest"

lemma done_clean: "list_all clean_line (split_on line_feed sse_done_marker)"
  by (simp add: clean_simps)

lemma sse_from_body:
  "list_all clean_chunk chunks \<Longrightarrow> sse_from never_done emit [] (sse_body chunks rest) e w = deliver emit chunks w"
proof (induction chunks arbitrary: w)
  case Nil
  show ?case using chunk_step [OF done_clean, of emit rest e w] by (simp add: sse_body_def)
next
  case (Cons c cs)
  have c: "list_all clean_line (split_on line_feed c)" "c \<noteq> sse_done_marker" using Cons.prems by (simp_all add: clean_chunk_def)
  have "sse_body (c # cs) rest = sse_encode c @ sse_body cs rest" by (simp add: sse_body_def)
  with chunk_step [OF c(1), of emit "sse_body cs rest" e w] c(2) Cons show ?case by (simp split: prod.split option.split)
qed

lemma parse_sse_body:
  "list_all clean_chunk chunks \<Longrightarrow> parse_sse never_done (sse_body chunks rest, e) emit w = deliver emit chunks w"
  by (simp add: parse_sse_from sse_from_body)

definition record_chunk :: "string \<Rightarrow> string list \<Rightarrow> go_error option \<times> string list" where
  "record_chunk chunk seen = (None, seen @ [chunk])"

lemma deliver_record: "deliver record_chunk chunks seen = (None, seen @ chunks)"
  by (induction chunks arbitrary: seen) (simp_all add: record_chunk_def)

text \<open>
  C28. Server-sent events round trip.  Events that are written as lines of data, each followed by an
  empty line, are received one by one, in order and unchanged, if none of their lines ends in a carriage
  return (the scanner strips it) or reaches the scanner's limit of 1 MiB and none of the events is the
  end marker; the end marker ends the stream without error, and what follows it is not looked at, be it malformed, too
  long or cut off by a read error.
\<close>

theorem sse_roundtrip:
  assumes "list_all clean_chunk chunks"
  shows "parse_sse never_done (sse_body chunks rest, read_error) record_chunk [] = (None, chunks)"
  using assms by (simp add: parse_sse_body deliver_record)

lemma sse_roundtrip_witness:
  "parse_sse never_done (sse_body [''first'', ''two'' @ newline @ ''lines'', []] ''noise'', Some (Message ''reset'')) record_chunk [] =
     (None, [''first'', ''two'' @ newline @ ''lines'', []])"
  by (rule sse_roundtrip) (simp add: clean_simps)

end
