(* ===== verification/Provider_Calls.thy ===== *)
theory Provider_Calls
  imports Provider_Registry Sse_Correct "HOL-Library.Sublist"
begin

text \<open>
  What the providers promise of the calls they make: how many requests a call sends and how long it
  waits between them, and when it has a result.
\<close>

section \<open>Recording the exchange\<close>

datatype net_event = Sent | Waited duration

text \<open>The environment that also records the requests and the waits.\<close>

definition recorded :: "'w llm_env \<Rightarrow> ('w \<times> net_event list) llm_env" where
  "recorded env =
     \<lparr>le_request_error = le_request_error env,
      le_do = (\<lambda>r (w, l). case le_do env r w of (a, w1) \<Rightarrow> (a, (w1, l @ [Sent]))),
      le_ctx = beside (le_ctx env),
      le_wait = (\<lambda>d (w, l). case le_wait env d w of (a, w1) \<Rightarrow> (a, (w1, l @ [Waited d]))),
      le_now = beside (le_now env),
      le_chat = le_chat env, le_messages = le_messages env, le_event = le_event env\<rparr>"

lemma recorded_simps [simp]:
  "le_request_error (recorded env) = le_request_error env" "le_chat (recorded env) = le_chat env"
  "le_messages (recorded env) = le_messages env" "le_event (recorded env) = le_event env"
  "le_ctx (recorded env) = beside (le_ctx env)" "le_now (recorded env) = beside (le_now env)"
  by (simp_all add: recorded_def)

definition log_of :: "'a \<times> ('w \<times> net_event list) \<Rightarrow> net_event list" where
  "log_of r = snd (snd r)"

text \<open>Steps that add nothing, or at most the events of a schedule, to the record.\<close>

definition unrecorded :: "('w \<times> net_event list \<Rightarrow> 'a \<times> ('w \<times> net_event list)) \<Rightarrow> bool" where
  "unrecorded f \<longleftrightarrow> (\<forall>w l. log_of (f (w, l)) = l)"

definition within :: "net_event list \<Rightarrow> ('w \<times> net_event list \<Rightarrow> 'a \<times> ('w \<times> net_event list)) \<Rightarrow> bool" where
  "within xs f \<longleftrightarrow> (\<forall>w l. \<exists>ys. log_of (f (w, l)) = l @ ys \<and> subseq ys xs)"

lemma silent_beside [simp]: "unrecorded (beside f)"
  by (simp add: unrecorded_def beside_def log_of_def split: prod.split)

lemma silentD: "unrecorded f \<Longrightarrow> f (w, l) = (a, (w', l')) \<Longrightarrow> l' = l"
  by (auto simp: unrecorded_def log_of_def dest!: spec [of _ w] spec [of _ l])

lemma withinD: "within xs f \<Longrightarrow> f (w, l) = (a, (w', l')) \<Longrightarrow> \<exists>ys. l' = l @ ys \<and> subseq ys xs"
  by (auto simp: within_def log_of_def dest!: spec [of _ w] spec [of _ l])

lemma silent_within: "unrecorded f \<Longrightarrow> within xs f"
  by (auto simp: unrecorded_def within_def intro!: exI [of _ "[]"])

section \<open>The schedule of a retried call\<close>

fun retry_schedule :: "nat \<Rightarrow> nat \<Rightarrow> net_event list" where
  "retry_schedule 0 attempt = [Sent]"
| "retry_schedule (Suc n) attempt = Sent # Waited (second * 2 ^ attempt) # retry_schedule n (Suc attempt)"

lemma retry_schedule_within:
  assumes "within [Sent] attempt_call"
    and "\<And>a. a < max_retries \<Longrightarrow> within [Waited (second * 2 ^ a)] (wait a)"
    and "attempt \<le> max_retries"
  shows "within (retry_schedule (max_retries - attempt) attempt) (retry_loop max_retries wait stopped attempt_call attempt)"
  using assms(3)
proof (induction "max_retries - attempt" arbitrary: attempt)
  case 0
  show ?case unfolding within_def
  proof (intro allI)
    fix w l
    obtain v w1 l1 where a: "attempt_call (w, l) = (v, (w1, l1))" by (metis surj_pair)
    from withinD [OF assms(1) a] 0 a
    show "\<exists>ys. log_of (retry_loop max_retries wait stopped attempt_call attempt (w, l)) = l @ ys \<and>
        subseq ys (retry_schedule (max_retries - attempt) attempt)"
      by (subst retry_loop.simps) (auto simp: log_of_def split: attempt_verdict.split)
  qed
next
  case (Suc n)
  then have lt: "attempt < max_retries" and n: "max_retries - attempt = Suc n" "n = max_retries - Suc attempt" by simp_all
  show ?case unfolding within_def
  proof (intro allI)
    fix w l
    let ?goal = "\<lambda>x. \<exists>ys. log_of x = l @ ys \<and> subseq ys (retry_schedule (max_retries - attempt) attempt)"
    obtain v w1 l1 where a: "attempt_call (w, l) = (v, (w1, l1))" by (metis surj_pair)
    obtain ys where ys: "l1 = l @ ys" "subseq ys [Sent]" using withinD [OF assms(1) a] by blast
    obtain e w2 l2 where e: "wait attempt (w1, l1) = (e, (w2, l2))" by (metis surj_pair)
    obtain zs where zs: "l2 = l1 @ zs" "subseq zs [Waited (second * 2 ^ attempt)]"
      using withinD [OF assms(2) [OF lt] e] by blast
    have s: "subseq (ys @ zs) [Sent, Waited (second * 2 ^ attempt)]" using list_emb_append_mono [OF ys(2) zs(2)] by simp
    from Suc.hyps(1) [OF n(2)] lt
    obtain us where us: "log_of (retry_loop max_retries wait stopped attempt_call (Suc attempt) (w2, l2)) = l2 @ us"
      "subseq us (retry_schedule n (Suc attempt))"
      unfolding within_def n(2) by (metis Suc_leI)
    have all: "subseq (ys @ zs @ us) (retry_schedule (Suc n) attempt)"
      using list_emb_append_mono [OF s us(2)] by simp
    have p: "subseq ys (ys @ (zs @ us))" "subseq (ys @ zs) ((ys @ zs) @ us)"
      by (rule list_emb_prefix [OF subseq_order.order_refl])+
    have y: "subseq ys (retry_schedule (Suc n) attempt)" by (rule subseq_order.order_trans [OF p(1) all])
    have yz: "subseq (ys @ zs) (retry_schedule (Suc n) attempt)"
      by (rule subseq_order.order_trans [OF p(2)]) (use all in simp)
    then show "?goal (retry_loop max_retries wait stopped attempt_call attempt (w, l))"
      using a e lt ys zs us all y yz n(1)
      by (subst retry_loop.simps) (auto simp: log_of_def split: attempt_verdict.split option.split)
  qed
qed

lemma within_rule: "(\<And>w l a w' l'. f (w, l) = (a, (w', l')) \<Longrightarrow> \<exists>ys. l' = l @ ys \<and> subseq ys xs) \<Longrightarrow> within xs f"
  unfolding within_def log_of_def by (metis prod.collapse)

lemma within_wait [intro]: "within [Waited d] (le_wait (recorded env) d)"
  by (rule within_rule) (auto simp: recorded_def split: prod.splits)

lemma within_post: "within [Sent] (post (recorded env) r)"
  by (rule within_rule) (auto simp: post_def recorded_def split: option.splits prod.splits sum.splits)

lemma within_openai_backoff: "within [Waited (second * 2 ^ a)] (openai_backoff (recorded env) a)"
  unfolding openai_backoff_def by (rule within_wait)

lemma within_anthropic_backoff:
  "a < an_max_retries p \<Longrightarrow> an_backoff_base p = second \<Longrightarrow> within [Waited (second * 2 ^ a)] (anthropic_backoff (recorded env) p a)"
  by (rule within_rule) (auto simp: anthropic_backoff_def recorded_def split: option.splits prod.splits)

lemma within_openai_once: "within [Sent] (openai_generate_once (recorded env) p body)"
proof (rule within_rule)
  fix w l a w' l'
  assume r: "openai_generate_once (recorded env) p body (w, l) = (a, (w', l'))"
  let ?r = "\<lparr>hr_url = op_base_url p @ ''/chat/completions'',
              hr_headers = (''Authorization'', ''Bearer '' @ op_api_key p) # json_headers False,
              hr_body = ChatBody body\<rparr>"
  obtain x w1 l1 where x: "post (recorded env) ?r (w, l) = (x, (w1, l1))" by (metis surj_pair)
  with r have "l' = l1"
    by (auto simp: openai_generate_once_def openai_send_request_def Let_def split: sent.splits sum.splits)
  with withinD [OF within_post x] show "\<exists>ys. l' = l @ ys \<and> subseq ys [Sent]" by simp
qed

text \<open>A receiver of events that does not know of the record.\<close>

definition unaware :: "'w emitter \<Rightarrow> ('w \<times> net_event list) emitter" where
  "unaware emit ev = beside (emit ev)"

lemma silent_rule: "(\<And>w l a w' l'. f (w, l) = (a, (w', l')) \<Longrightarrow> l' = l) \<Longrightarrow> unrecorded f"
  unfolding unrecorded_def log_of_def by (metis prod.collapse)

lemma beside_keeps: "beside f (w, l) = (a, (w', l')) \<Longrightarrow> l' = l"
  by (simp add: beside_def split: prod.splits)

lemma silent_token: "unrecorded (emit_token (recorded env) (unaware emit) content)"
  by (rule silent_rule) (auto simp: emit_token_def unaware_def split: prod.splits dest!: beside_keeps)

lemma silent_complete: "unrecorded (emit_complete (recorded env) (unaware emit))"
  by (rule silent_rule) (auto simp: emit_complete_def unaware_def split: prod.splits dest!: beside_keeps)

lemma silent_choices: "unrecorded (openai_emit_choices (recorded env) (unaware emit) cs)"
proof (rule silent_rule)
  fix w l a w' l'
  assume "openai_emit_choices (recorded env) (unaware emit) cs (w, l) = (a, (w', l'))"
  then show "l' = l"
  proof (induction cs arbitrary: w l)
    case (Cons c cs)
    obtain e w1 l1 where e: "emit_token (recorded env) (unaware emit) (cm_content (oc_delta c)) (w, l) = (e, (w1, l1))"
      by (metis surj_pair)
    with silentD [OF silent_token e] Cons show ?case by (auto split: if_splits option.splits)
  qed simp
qed

lemma silent_chunks:
  "unrecorded (openai_chunk (recorded env) (unaware emit) chunk)"
  "unrecorded (messages_chunk malformed failed (recorded env) (unaware emit) chunk)"
  "unrecorded (compat_chunk (recorded env) (unaware emit) chunk)"
  by (rule silent_rule;
      auto simp: openai_chunk_def messages_chunk_def compat_chunk_def Let_def
        split: sum.splits option.splits if_splits list.splits dest: silentD [OF silent_choices] silentD [OF silent_token])+

lemma silent_stream:
  assumes "\<And>chunk. unrecorded (chunk_fun chunk)"
  shows "unrecorded (\<lambda>s. then_complete (recorded env) (unaware emit) (parse_sse (le_ctx (recorded env)) body chunk_fun s))"
proof (rule silent_rule)
  fix w l a w' l'
  assume r: "then_complete (recorded env) (unaware emit) (parse_sse (le_ctx (recorded env)) body chunk_fun (w, l)) = (a, (w', l'))"
  obtain e w1 l1 where p: "parse_sse (le_ctx (recorded env)) body chunk_fun (w, l) = (e, (w1, l1))" by (metis surj_pair)
  have "snd (w1, l1) = l"
    by (rule parse_sse_inv [where P = "\<lambda>s. snd s = l", OF _ _ p])
      (use silentD [OF assms] beside_keeps in auto)
  with r p show "l' = l" by (auto simp: then_complete_def split: option.splits dest: silentD [OF silent_complete])
qed

lemma silent_handle: "unrecorded (openai_handle_stream (recorded env) a (unaware emit))"
  using silent_stream [of "openai_chunk (recorded env) (unaware emit)" env emit "(hs_body a, hs_read_error a)", OF silent_chunks(1)]
  by (intro silent_rule) (auto simp: openai_handle_stream_def Let_def split: if_splits sum.splits prod.splits option.splits dest: silentD)

lemma within_openai_stream_once: "within [Sent] (openai_stream_once (recorded env) p body (unaware emit))"
proof (rule within_rule)
  fix w l a w' l'
  assume r: "openai_stream_once (recorded env) p body (unaware emit) (w, l) = (a, (w', l'))"
  let ?r = "\<lparr>hr_url = op_base_url p @ ''/chat/completions'',
              hr_headers = (''Authorization'', ''Bearer '' @ op_api_key p) # json_headers True,
              hr_body = ChatBody body\<rparr>"
  obtain x w1 l1 where x: "post (recorded env) ?r (w, l) = (x, (w1, l1))" by (metis surj_pair)
  with r have "l' = l1"
    by (auto simp: openai_stream_once_def openai_send_request_def split: sent.splits prod.splits option.splits stream_failure.splits
        dest: silentD [OF silent_handle])
  with withinD [OF within_post x] show "\<exists>ys. l' = l @ ys \<and> subseq ys [Sent]" by simp
qed

lemma within_anthropic_send: "within [Sent] (anthropic_send_request (recorded env) p body stream)"
  unfolding anthropic_send_request_def
  by (rule within_rule) (auto split: sent.splits prod.splits dest: withinD [OF within_post])

lemma within_anthropic_once: "within [Sent] (anthropic_generate_once (recorded env) p body)"
  by (rule within_rule)
    (auto simp: anthropic_generate_once_def Let_def split: prod.splits sum.splits stream_failure.splits
      dest: withinD [OF within_anthropic_send])

lemma within_anthropic_stream_once: "within [Sent] (anthropic_stream_once (recorded env) p body (unaware emit))"
proof (rule within_rule)
  fix w l a w' l'
  assume r: "anthropic_stream_once (recorded env) p body (unaware emit) (w, l) = (a, (w', l'))"
  obtain x w1 l1 where x: "anthropic_send_request (recorded env) p body True (w, l) = (x, (w1, l1))" by (metis surj_pair)
  have q: "unrecorded (\<lambda>s. then_complete (recorded env) (unaware emit)
      (parse_sse (le_ctx (recorded env)) (hs_body h, hs_read_error h) (anthropic_chunk (recorded env) (unaware emit)) s))" for h
    unfolding anthropic_chunk_def by (rule silent_stream) (rule silent_chunks)
  from r x have "l' = l1"
    by (auto simp: anthropic_stream_once_def anthropic_send_stream_def Let_def
        split: sum.splits prod.splits option.splits stream_failure.splits if_splits dest: silentD [OF q [unfolded recorded_simps]])
  with withinD [OF within_anthropic_send x] show "\<exists>ys. l' = l @ ys \<and> subseq ys [Sent]" by simp
qed

lemma within_dashscope_post: "within [Sent] (dashscope_post (recorded env) p what path headers body)"
  unfolding dashscope_post_def
  by (rule within_rule) (auto split: sent.splits prod.splits dest: withinD [OF within_post])

lemma within_dashscope_generate: "within [Sent] (dashscope_generate (recorded env) p request)"
  unfolding dashscope_generate_def generate_messages_def generate_openai_compat_def
  by (rule within_rule)
    (auto split: option.splits dashscope_protocol.splits prod.splits sum.splits dest: withinD [OF within_dashscope_post])

lemma within_then_silent:
  assumes "within xs f" "\<And>h. unrecorded (g h)"
    "\<And>s. k s = (case f s of (Inl e, s1) \<Rightarrow> (Some e, s1) | (Inr h, s1) \<Rightarrow> if c h then (d h, s1) else g h s1)"
  shows "within xs k"
  by (rule within_rule)
    (auto simp: assms(3) split: prod.splits sum.splits if_splits dest: withinD [OF assms(1)] silentD [OF assms(2)])

lemma within_dashscope_stream: "within [Sent] (dashscope_stream (recorded env) p request (unaware emit))"
proof -
  have m: "within [Sent] (stream_messages (recorded env) p request (unaware emit))"
    by (rule within_then_silent [OF within_dashscope_post silent_stream [OF silent_chunks(2)] stream_messages_def])
  have c: "within [Sent] (stream_openai_compat (recorded env) p request (unaware emit))"
    by (rule within_then_silent [OF within_dashscope_post silent_stream [OF silent_chunks(3)] stream_openai_compat_def])
  show ?thesis unfolding dashscope_stream_def
    by (rule within_rule) (auto split: option.splits dashscope_protocol.splits dest: withinD [OF m] withinD [OF c])
qed

section \<open>The bound on the calls\<close>

text \<open>The most a call does: the retrying providers send three times, waiting one and two seconds.\<close>

definition most_calls :: "provider \<Rightarrow> net_event list" where
  "most_calls p =
     (case p of DashScopeProvider d \<Rightarrow> [Sent] | _ \<Rightarrow> [Sent, Waited second, Sent, Waited (2 * second), Sent])"

text \<open>The retries and the back-off the constructors set.\<close>

definition constructed :: "provider \<Rightarrow> bool" where
  "constructed p =
     (case p of
        OpenAIProvider q \<Rightarrow> op_max_retries q = 2
      | AnthropicProvider q \<Rightarrow> an_max_retries q = 2 \<and> an_backoff_base q = second
      | DashScopeProvider q \<Rightarrow> True)"

lemma schedule_2: "retry_schedule (Suc (Suc 0) - 0) 0 = [Sent, Waited second, Sent, Waited (2 * second), Sent]"
  by simp

lemma within_config:
  assumes "within xs g" "\<And>s. k s = (case c of Some e \<Rightarrow> (f e, s) | None \<Rightarrow> g s)"
  shows "within xs k"
  by (rule within_rule) (auto simp: assms(2) split: option.splits dest: withinD [OF assms(1)])

lemma within_retry:
  assumes "n = Suc (Suc 0)" "within [Sent] call" "\<And>a. a < n \<Longrightarrow> within [Waited (second * 2 ^ a)] (wait a)"
  shows "within [Sent, Waited second, Sent, Waited (2 * second), Sent] (retry_loop n wait stopped call 0)"
  using retry_schedule_within [where max_retries = n and attempt = 0 and wait = wait and stopped = stopped, OF assms(2,3)]
  by (simp add: assms(1))

lemma openai_within:
  assumes "op_max_retries p = Suc (Suc 0)"
  shows "within [Sent, Waited second, Sent, Waited (2 * second), Sent] (openai_generate (recorded env) p request)"
    "within [Sent, Waited second, Sent, Waited (2 * second), Sent] (openai_stream (recorded env) p request (unaware emit))"
proof goal_cases
  case 1
  show ?case by (rule within_config [OF _ openai_generate_def])
      (intro within_retry assms within_openai_once within_openai_backoff)
next
  case 2
  show ?case by (rule within_config [OF _ openai_stream_def])
      (intro within_retry assms within_openai_stream_once within_openai_backoff)
qed

lemma anthropic_within:
  assumes "an_max_retries p = Suc (Suc 0)" "an_backoff_base p = second"
  shows "within [Sent, Waited second, Sent, Waited (2 * second), Sent] (anthropic_generate (recorded env) p request)"
    "within [Sent, Waited second, Sent, Waited (2 * second), Sent] (anthropic_stream (recorded env) p request (unaware emit))"
proof goal_cases
  case 1
  show ?case by (rule within_config [OF _ anthropic_generate_def])
      (intro within_retry assms within_anthropic_once within_anthropic_backoff)
next
  case 2
  show ?case by (rule within_config [OF _ anthropic_stream_def])
      (intro within_retry assms within_anthropic_stream_once within_anthropic_backoff)
qed

lemma generate_within: "constructed p \<Longrightarrow> within (most_calls p) (provider_generate (recorded env) p request)"
  by (cases p)
    (auto simp: constructed_def most_calls_def numeral_2_eq_2
      intro: openai_within [simplified] anthropic_within [simplified] within_dashscope_generate)

lemma stream_within: "constructed p \<Longrightarrow> within (most_calls p) (provider_stream (recorded env) p request (unaware emit))"
  by (cases p)
    (auto simp: constructed_def most_calls_def numeral_2_eq_2
      intro: openai_within [simplified] anthropic_within [simplified] within_dashscope_stream)

lemma resolve_constructed: "builtin_provider_resolve i cfg = Inr a \<Longrightarrow> constructed (pa_provider a)"
  by (auto simp: builtin_provider_resolve_def builtin_providers_def openai_factory_def anthropic_factory_def dashscope_factory_def
      adapt_provider_def constructed_def new_openai_def new_anthropic_def Let_def split: if_splits option.splits)

text \<open>
  C29. Every call of a model ends after a bounded number of requests.  Whatever the network answers, a
  call to generate or to stream with a provider of the built-in registry sends at most three requests,
  at most one if the provider is DashScope's, and waits at most one second before the second and two
  seconds before the third.
\<close>

theorem provider_calls_bounded:
  "case builtin_provider_resolve i cfg of
     Inl e \<Rightarrow> errors_is e unsupported_provider_type
   | Inr a \<Rightarrow>
       subseq (log_of (provider_generate (recorded env) (pa_provider a) request (w, []))) (most_calls (pa_provider a)) \<and>
       subseq (log_of (provider_stream (recorded env) (pa_provider a) request (unaware emit) (w, []))) (most_calls (pa_provider a))"
proof (cases "builtin_provider_resolve i cfg")
  case (Inl e)
  then have "errors_is e unsupported_provider_type"
    by (auto simp: builtin_provider_resolve_def builtin_providers_def openai_factory_def anthropic_factory_def dashscope_factory_def
        Let_def split: option.splits if_splits)
  with Inl show ?thesis by simp
next
  case (Inr a)
  then have c: "constructed (pa_provider a)" by (rule resolve_constructed)
  from generate_within [OF c, of env request] stream_within [OF c, of env request emit] Inr
  show ?thesis unfolding within_def by (auto dest!: spec [of _ w] spec [of _ "[]"])
qed

end
