(* ===== verification/Provider_Streams.thy ===== *)
theory Provider_Streams
  imports Provider_Registry Sse_Correct
begin

text \<open>
  What the providers promise of the events they stream: tokens, then one completion if and only if the
  call succeeds, all from one response; and which text the tokens carry.
\<close>

section \<open>Recording the events\<close>

text \<open>An environment beside a record of events, and the receiver that fills the record.\<close>

definition with_record :: "'w llm_env \<Rightarrow> ('w \<times> streaming_event list) llm_env" where
  "with_record env =
     \<lparr>le_request_error = le_request_error env, le_do = (\<lambda>r. beside (le_do env r)), le_ctx = beside (le_ctx env),
      le_wait = (\<lambda>d. beside (le_wait env d)), le_now = beside (le_now env),
      le_chat = le_chat env, le_messages = le_messages env, le_event = le_event env\<rparr>"

definition recording :: "('w \<times> streaming_event list) emitter" where
  "recording ev s = (None, (fst s, snd s @ [ev]))"

lemma with_record_simps [simp]:
  "le_request_error (with_record env) = le_request_error env" "le_chat (with_record env) = le_chat env"
  "le_messages (with_record env) = le_messages env" "le_event (with_record env) = le_event env"
  "le_do (with_record env) r = beside (le_do env r)" "le_ctx (with_record env) = beside (le_ctx env)"
  "le_wait (with_record env) d = beside (le_wait env d)" "le_now (with_record env) = beside (le_now env)"
  by (simp_all add: with_record_def)

definition is_token :: "streaming_event \<Rightarrow> bool" where
  "is_token ev \<longleftrightarrow> ev_type ev = ev_token_delta"

definition is_completion :: "streaming_event \<Rightarrow> bool" where
  "is_completion ev \<longleftrightarrow> ev_type ev = ev_session_complete"

lemma emit_token_record:
  "emit_token (with_record env) recording c s = (e, s') \<Longrightarrow> e = None \<and> (\<exists>now. snd s' = snd s @ [token_delta 0 c now])"
  by (auto simp: emit_token_def recording_def split: prod.splits dest!: beside_snd)

lemma emit_complete_record:
  "emit_complete (with_record env) recording s = (e, s') \<Longrightarrow>
     e = None \<and> (\<exists>now. snd s' = snd s @ [session_complete [] ''success'' now])"
  by (auto simp: emit_complete_def recording_def split: prod.splits dest!: beside_snd)

lemma token_simps [simp]:
  "is_token (token_delta i c now)" "\<not> is_completion (token_delta i c now)" "is_completion (session_complete sid st now)"
  "\<not> is_token (session_complete sid st now)"
  by (simp_all add: is_token_def is_completion_def token_delta_def session_complete_def new_streaming_event_def)

section \<open>The contract of a stream\<close>

text \<open>
  \<^verbatim>\<open>Provider.Stream\<close> as its callers rely on it: tokens are added to the record, and a completion
  after them exactly if there is no error.
\<close>

definition added :: "streaming_event list \<Rightarrow> streaming_event list \<Rightarrow> bool \<Rightarrow> bool" where
  "added evs evs' ok \<longleftrightarrow>
     (\<exists>toks. list_all is_token toks \<and>
        (if ok then \<exists>c. is_completion c \<and> evs' = evs @ toks @ [c] else evs' = evs @ toks))"

locale event_source =
  fixes stream :: "'w \<times> streaming_event list \<Rightarrow> go_error option \<times> ('w \<times> streaming_event list)"
  assumes stream_adds: "stream (w, evs) = (e, (w', evs')) \<Longrightarrow> added evs evs' (e = None)"

context event_source begin

lemma completion_is_success:
  "case stream (w, []) of (e, (w', evs)) \<Rightarrow>
     (e = None) = (\<exists>c \<in> set evs. is_completion c) \<and> length (filter is_completion evs) \<le> 1 \<and>
     (if e = None then evs \<noteq> [] \<and> is_completion (last evs) else True) \<and>
     list_all (\<lambda>ev. is_token ev \<or> is_completion ev) evs"
proof -
  obtain e w' evs where r: "stream (w, []) = (e, (w', evs))" by (metis surj_pair)
  obtain toks where t: "list_all is_token toks"
    "if e = None then \<exists>c. is_completion c \<and> evs = toks @ [c] else evs = toks"
    using stream_adds [OF r] unfolding added_def append_Nil by (auto split: if_splits)
  have n: "filter is_completion toks = []" "\<forall>c \<in> set toks. \<not> is_completion c"
    using t(1) by (auto simp: list_all_iff is_token_def is_completion_def filter_empty_conv)
  from t n show ?thesis unfolding r by (auto simp: list_all_iff split: if_splits)
qed

end

section \<open>The providers keep the contract\<close>

definition tokens_added :: "streaming_event list \<Rightarrow> 'w \<times> streaming_event list \<Rightarrow> bool" where
  "tokens_added evs s \<longleftrightarrow> (\<exists>toks. list_all is_token toks \<and> snd s = evs @ toks)"

lemma tokens_added_refl: "tokens_added evs (w, evs)"
  by (auto simp: tokens_added_def intro: exI [of _ "[]"])

lemma tokens_added_beside: "beside f s = (e, s') \<Longrightarrow> tokens_added evs s \<Longrightarrow> tokens_added evs s'"
  by (auto simp: tokens_added_def dest: beside_snd)

lemma tokens_added_token:
  "emit_token (with_record env) recording c s = (e, s') \<Longrightarrow> tokens_added evs s \<Longrightarrow> tokens_added evs s'"
  by (drule emit_token_record) (fastforce simp: tokens_added_def)

lemma tokens_added_choices:
  "openai_emit_choices (with_record env) recording cs s = (e, s') \<Longrightarrow> tokens_added evs s \<Longrightarrow> tokens_added evs s'"
proof (induction cs arbitrary: s)
  case (Cons c cs)
  obtain e1 s1 where x: "emit_token (with_record env) recording (cm_content (oc_delta c)) s = (e1, s1)" by (metis surj_pair)
  from Cons x tokens_added_token [OF x Cons.prems(2)] show ?case by (auto split: if_splits option.splits)
qed simp

text \<open>The receiver of data events of each provider.\<close>

datatype chunk_kind = ChatChunks | CompatChunks | MessageChunks string string

fun chunk_fun :: "chunk_kind \<Rightarrow> 'w llm_env \<Rightarrow> 'w emitter \<Rightarrow> string \<Rightarrow> 'w \<Rightarrow> go_error option \<times> 'w" where
  "chunk_fun ChatChunks = openai_chunk"
| "chunk_fun CompatChunks = compat_chunk"
| "chunk_fun (MessageChunks malformed failed) = messages_chunk malformed failed"

lemma tokens_added_chunk:
  "chunk_fun k (with_record env) recording chunk s = (e, s') \<Longrightarrow> tokens_added evs s \<Longrightarrow> tokens_added evs s'"
  by (cases k)
    (auto simp: openai_chunk_def compat_chunk_def messages_chunk_def Let_def
      split: sum.splits list.splits if_splits option.splits intro: tokens_added_choices tokens_added_token)

text \<open>The streaming of one response.\<close>

definition streamed :: "chunk_kind \<Rightarrow> 'w llm_env \<Rightarrow> 'w emitter \<Rightarrow> http_response \<Rightarrow> 'w \<Rightarrow> go_error option \<times> 'w" where
  "streamed k env emit a w =
     then_complete env emit (parse_sse (le_ctx env) (hs_body a, hs_read_error a) (chunk_fun k env emit) w)"

lemma streamed_adds:
  assumes "streamed k (with_record env) recording a (w, evs) = (e, (w', evs'))"
  shows "added evs evs' (e = None)"
proof -
  obtain e1 s1 where p: "parse_sse (le_ctx (with_record env)) (hs_body a, hs_read_error a)
      (chunk_fun k (with_record env) recording) (w, evs) = (e1, s1)" by (metis surj_pair)
  have "tokens_added evs s1"
    by (rule parse_sse_inv [where P = "tokens_added evs", OF _ _ p])
      (use tokens_added_beside tokens_added_chunk tokens_added_refl in auto)
  with assms p show ?thesis
    by (auto simp: streamed_def then_complete_def added_def tokens_added_def split: option.splits dest!: emit_complete_record)
qed

text \<open>A call that is settled by streaming one response, or fails without an event.\<close>

definition one_response ::
  "chunk_kind \<Rightarrow> 'w llm_env \<Rightarrow> streaming_event list \<Rightarrow> go_error option \<times> ('w \<times> streaming_event list) \<Rightarrow> bool" where
  "one_response k env evs r \<longleftrightarrow>
     (fst r \<noteq> None \<and> snd (snd r) = evs) \<or>
     (\<exists>a w. success_status (hs_status a) \<and> streamed k (with_record env) recording a (w, evs) = r)"

lemma one_response_adds: "one_response k env evs (e, (w', evs')) \<Longrightarrow> added evs evs' (e = None)"
  unfolding one_response_def
proof (elim disjE exE conjE)
  assume "fst (e, (w', evs')) \<noteq> None" "snd (snd (e, (w', evs'))) = evs"
  then show ?thesis by (auto simp: added_def intro: exI [of _ "[]"])
qed (auto dest: streamed_adds)

lemma retry_one_response:
  assumes once: "\<And>w v w' evs'. attempt_call (w, evs) = (v, (w', evs')) \<Longrightarrow>
      (case v of Settled r \<Rightarrow> one_response k env evs (r, (w', evs')) | Retryable r \<Rightarrow> r \<noteq> None \<and> evs' = evs)"
    and wait: "\<And>a s e s'. wait a s = (e, s') \<Longrightarrow> snd s' = snd s"
    and stopped: "\<And>e. stopped e \<noteq> None"
  shows "one_response k env evs (retry_loop max_retries wait stopped attempt_call attempt (w, evs))"
proof (induction "max_retries - attempt" arbitrary: attempt w rule: less_induct)
  case less
  obtain v w1 evs1 where a: "attempt_call (w, evs) = (v, (w1, evs1))" by (metis surj_pair)
  show ?case
  proof (cases v)
    case (Settled r)
    with once [OF a] a show ?thesis by (subst retry_loop.simps) simp
  next
    case (Retryable r)
    with once [OF a] have r: "r \<noteq> None" "evs1 = evs" by simp_all
    obtain e w2 evs2 where e: "wait attempt (w1, evs1) = (e, (w2, evs2))" by (metis surj_pair)
    with wait [OF e] r have [simp]: "evs2 = evs" by simp
    show ?thesis
    proof (cases "attempt < max_retries \<and> e = None")
      case True
      then have "one_response k env evs (retry_loop max_retries wait stopped attempt_call (Suc attempt) (w2, evs))"
        by (intro less) arith
      with True a e Retryable r show ?thesis by (subst retry_loop.simps) simp
    next
      case False
      with a e Retryable r stopped show ?thesis
        by (subst retry_loop.simps) (auto simp: one_response_def split: option.splits)
    qed
  qed
qed

lemma post_snd: "post (with_record env) r s = (x, s') \<Longrightarrow> snd s' = snd s"
  by (auto simp: post_def split: option.splits prod.splits sum.splits dest: beside_snd)

text \<open>A call that is refused before it is sent.\<close>

lemma refused_one_response: "snd s = evs \<Longrightarrow> one_response k env evs (Some e, s)"
  by (simp add: one_response_def)

lemma openai_send_snd: "openai_send_request (with_record env) p body stream s = (x, s') \<Longrightarrow> snd s' = snd s"
  by (auto simp: openai_send_request_def split: sent.splits prod.splits dest: post_snd)

lemma openai_stream_once_one:
  assumes "openai_stream_once (with_record env) p body recording (w, evs) = (v, (w', evs'))"
  shows "case v of Settled r \<Rightarrow> one_response ChatChunks env evs (r, (w', evs')) | Retryable r \<Rightarrow> r \<noteq> None \<and> evs' = evs"
proof -
  obtain x w1 evs1 where x: "openai_send_request (with_record env) p body True (w, evs) = (x, (w1, evs1))" by (metis surj_pair)
  have [simp]: "evs1 = evs" using openai_send_snd [OF x] by simp
  show ?thesis
  proof (cases x)
    case (Inl e)
    with x assms show ?thesis by (auto simp: openai_stream_once_def)
  next
    case (Inr a)
    show ?thesis
    proof (cases "hs_status a = 401 \<or> retry_status (hs_status a) \<or> \<not> success_status (hs_status a)")
      case True
      with x Inr assms show ?thesis
        by (auto simp: openai_stream_once_def openai_handle_stream_def one_response_def Let_def split: sum.splits if_splits)
    next
      case False
      obtain r s1 where r: "streamed ChatChunks (with_record env) recording a (w1, evs) = (r, s1)" by (metis surj_pair)
      with x Inr False assms have "v = Settled r" "s1 = (w', evs')"
        by (auto simp: openai_stream_once_def openai_handle_stream_def streamed_def Let_def split: option.splits prod.splits)
      with r False show ?thesis by (auto simp: one_response_def)
    qed
  qed
qed

lemma anthropic_send_snd: "anthropic_send_request (with_record env) p body stream s = (x, s') \<Longrightarrow> snd s' = snd s"
  by (auto simp: anthropic_send_request_def split: sent.splits prod.splits dest: post_snd)

abbreviation anthropic_chunks :: chunk_kind where
  "anthropic_chunks \<equiv> MessageChunks ''anthropic malformed stream response: '' ''anthropic stream error: ''"

abbreviation dashscope_chunks :: chunk_kind where
  "dashscope_chunks \<equiv> MessageChunks ''decode dashscope stream chunk: '' ''dashscope stream error: ''"

lemma anthropic_stream_once_one:
  assumes "anthropic_stream_once (with_record env) p body recording (w, evs) = (v, (w', evs'))"
  shows "case v of Settled r \<Rightarrow> one_response anthropic_chunks env evs (r, (w', evs')) | Retryable r \<Rightarrow> r \<noteq> None \<and> evs' = evs"
proof -
  obtain x w1 evs1 where x: "anthropic_send_request (with_record env) p body True (w, evs) = (x, (w1, evs1))" by (metis surj_pair)
  have [simp]: "evs1 = evs" using anthropic_send_snd [OF x] by simp
  show ?thesis
  proof (cases x)
    case (Inl f)
    with x assms show ?thesis
      by (cases f) (auto simp: anthropic_stream_once_def anthropic_send_stream_def one_response_def)
  next
    case (Inr a)
    show ?thesis
    proof (cases "hs_status a = 401 \<or> anthropic_retry_status (hs_status a) \<or> \<not> success_status (hs_status a)")
      case True
      with x Inr assms show ?thesis
        by (auto simp: anthropic_stream_once_def anthropic_send_stream_def one_response_def Let_def split: sum.splits if_splits)
    next
      case False
      obtain r s1 where r: "streamed anthropic_chunks (with_record env) recording a (w1, evs) = (r, s1)" by (metis surj_pair)
      with x Inr False assms have "v = Settled r" "s1 = (w', evs')"
        by (auto simp: anthropic_stream_once_def anthropic_send_stream_def streamed_def anthropic_chunk_def Let_def
            split: option.splits prod.splits)
      with r False show ?thesis by (auto simp: one_response_def)
    qed
  qed
qed

lemma dashscope_post_snd: "dashscope_post (with_record env) p what path headers body s = (x, s') \<Longrightarrow> snd s' = snd s"
  by (auto simp: dashscope_post_def split: sent.splits prod.splits dest: post_snd)

lemma answered_one_response:
  assumes "snd (snd y) = evs"
    and "call = (case y of
        (Inl e, s1) \<Rightarrow> (Some e, s1)
      | (Inr a, s1) \<Rightarrow> if \<not> success_status (hs_status a) then (Some (failed a), s1)
          else streamed k (with_record env) recording a s1)"
  shows "one_response k env evs call"
proof -
  obtain x w1 evs1 where y: "y = (x, (w1, evs1))" by (metis surj_pair)
  then show ?thesis using assms by (cases x) (auto simp: one_response_def)
qed

section \<open>Every provider\<close>

definition chunks_of :: "provider \<Rightarrow> chunk_kind" where
  "chunks_of p =
     (case p of
        OpenAIProvider q \<Rightarrow> ChatChunks
      | AnthropicProvider q \<Rightarrow> anthropic_chunks
      | DashScopeProvider q \<Rightarrow>
          (case dashscope_protocol_of q of OpenAIProtocol \<Rightarrow> CompatChunks | AnthropicProtocol \<Rightarrow> dashscope_chunks))"

lemma dashscope_one_response:
  "one_response (chunks_of (DashScopeProvider p)) env evs (dashscope_stream (with_record env) p request recording (w, evs))"
proof (cases "config_error ''dashscope'' (ds_model p) (ds_base_url p) (ds_api_key p)")
  case (Some e)
  then show ?thesis by (simp add: dashscope_stream_def refused_one_response)
next
  case None
  show ?thesis
  proof (cases "dashscope_protocol_of p")
    case AnthropicProtocol
    have "one_response dashscope_chunks env evs (stream_messages (with_record env) p request recording (w, evs))"
      by (rule answered_one_response [OF _ stream_messages_def [of "with_record env" p request recording "(w, evs)",
            folded chunk_fun.simps, folded streamed_def]])
        (metis dashscope_post_snd snd_conv surj_pair)
    with None AnthropicProtocol show ?thesis by (simp add: dashscope_stream_def chunks_of_def)
  next
    case OpenAIProtocol
    have "one_response CompatChunks env evs (stream_openai_compat (with_record env) p request recording (w, evs))"
      by (rule answered_one_response [OF _ stream_openai_compat_def [of "with_record env" p request recording "(w, evs)",
            folded chunk_fun.simps, folded streamed_def]])
        (metis dashscope_post_snd snd_conv surj_pair)
    with None OpenAIProtocol show ?thesis by (simp add: dashscope_stream_def chunks_of_def)
  qed
qed

lemma provider_one_response:
  "one_response (chunks_of p) env evs (provider_stream (with_record env) p request recording (w, evs))"
proof (cases p)
  case (OpenAIProvider q)
  have "one_response ChatChunks env evs (retry_loop (op_max_retries q) (openai_backoff (with_record env))
      (\<lambda>e. Some (openai_transport_failed e)) (openai_stream_once (with_record env) q body recording) 0 (w, evs))" for body
    by (rule retry_one_response [OF openai_stream_once_one]) (auto simp: openai_backoff_def dest: beside_snd)
  then show ?thesis using OpenAIProvider
    by (simp add: openai_stream_def chunks_of_def refused_one_response split: option.split)
next
  case (AnthropicProvider q)
  have "one_response anthropic_chunks env evs (retry_loop (an_max_retries q) (anthropic_backoff (with_record env) q)
      (\<lambda>e. Some (anthropic_transport_failed e)) (anthropic_stream_once (with_record env) q body recording) 0 (w, evs))" for body
    by (rule retry_one_response [OF anthropic_stream_once_one])
      (auto simp: anthropic_backoff_def split: if_splits prod.splits option.splits dest: beside_snd)
  then show ?thesis using AnthropicProvider
    by (simp add: anthropic_stream_def chunks_of_def refused_one_response split: option.split)
next
  case (DashScopeProvider q)
  then show ?thesis using dashscope_one_response by simp
qed

interpretation ps: event_source "provider_stream (with_record env) p request recording" for env :: "'w llm_env" and p request
proof
  fix w evs e w' evs'
  assume "provider_stream (with_record env) p request recording (w, evs) = (e, (w', evs'))"
  with provider_one_response [of p env evs request w] show "added evs evs' (e = None)"
    by (simp add: one_response_adds)
qed

text \<open>
  A stream is completed exactly if it succeeds.  Whatever the network, the decoders and the
  context do, a call of \<^verbatim>\<open>Stream\<close> of any provider hands over tokens and at most one completion, which
  is the last event and there exactly if the call returns no error.
\<close>

theorem stream_completes_once:
  "case provider_stream (with_record env) p request recording (w, []) of (e, (w', evs)) \<Rightarrow>
     (e = None) = (\<exists>c \<in> set evs. is_completion c) \<and> length (filter is_completion evs) \<le> 1 \<and>
     (if e = None then evs \<noteq> [] \<and> is_completion (last evs) else True) \<and>
     list_all (\<lambda>ev. is_token ev \<or> is_completion ev) evs"
  by (rule ps.completion_is_success)

text \<open>
  Retrying never repeats a token.  The events of a call of \<^verbatim>\<open>Stream\<close> are those of streaming one
  response, with a success status, from its beginning (which response the client gave is not part of
  the statement); the attempts before it, and a call that fails
  otherwise, hand over no event at all.
\<close>

theorem stream_one_response:
  "case provider_stream (with_record env) p request recording (w, evs) of (e, (w', evs')) \<Rightarrow>
     (evs' = evs \<and> (\<exists>err. e = Some err)) \<or>
     (\<exists>a w1. success_status (hs_status a) \<and>
        streamed (chunks_of p) (with_record env) recording a (w1, evs) = (e, (w', evs')))"
  using provider_one_response [of p env evs request w] by (auto simp: one_response_def split: prod.split)

section \<open>The text of the tokens\<close>

text \<open>An environment that answers every request with one response; \<open>dec\<close> is the content a data event carries.\<close>

definition delta_response :: "string \<Rightarrow> chat_response" where
  "delta_response content =
     \<lparr>or_model = [],
      or_choices = [\<lparr>oc_message = \<lparr>cm_role = [], cm_content = []\<rparr>, oc_delta = \<lparr>cm_role = [], cm_content = content\<rparr>, oc_finish_reason = []\<rparr>],
      or_error = None\<rparr>"

definition replay_env :: "(string \<Rightarrow> string) \<Rightarrow> string \<Rightarrow> unit llm_env" where
  "replay_env dec body =
     \<lparr>le_request_error = (\<lambda>u. None),
      le_do = (\<lambda>r w. (Inr \<lparr>hs_status = 200, hs_body = body, hs_read_error = None\<rparr>, w)),
      le_ctx = never_done, le_wait = (\<lambda>d w. (None, w)), le_now = (\<lambda>w. (0, w)),
      le_chat = (\<lambda>chunk. Inr (delta_response (dec chunk))),
      le_messages = (\<lambda>s. Inr empty_messages), le_event = (\<lambda>s. Inl (Message ''not used''))\<rparr>"

definition token_text :: "streaming_event \<Rightarrow> string list" where
  "token_text ev = (case ev_payload ev of TokenDeltaPayload c \<Rightarrow> [c] | _ \<Rightarrow> [])"

definition streamed_text :: "provider \<Rightarrow> (string \<Rightarrow> string) \<Rightarrow> string list \<Rightarrow> string list" where
  "streamed_text p dec chunks =
     concat (map token_text
       (snd (snd (provider_stream (with_record (replay_env dec (sse_body chunks []))) p \<lparr>rq_system = [], rq_input = []\<rparr> recording ((), [])))))"

lemma beside_never_done: "beside never_done = never_done"
  by (rule ext) (simp add: beside_def never_done_def)

lemma replay_simps [simp]:
  "le_ctx (replay_env dec body) = never_done" "le_chat (replay_env dec body) chunk = Inr (delta_response (dec chunk))"
  "le_now (replay_env dec body) w = (0, w)" "le_request_error (replay_env dec body) u = None"
  "le_do (replay_env dec body) r w = (Inr \<lparr>hs_status = 200, hs_body = body, hs_read_error = None\<rparr>, w)"
  by (simp_all add: replay_env_def)

lemma replay_token:
  "emit_token (with_record (replay_env dec body)) recording c (w, evs) = (None, (w, evs @ [token_delta 0 c 0]))"
  by (simp add: emit_token_def recording_def beside_def)

lemma deliver_chat:
  "deliver (openai_chunk (with_record (replay_env dec body)) recording) chunks (w, evs) =
     (None, (w, evs @ map (\<lambda>c. token_delta 0 c 0) (filter (\<lambda>c. \<not> blank c) (map dec chunks))))"
  by (induction chunks arbitrary: evs) (simp_all add: openai_chunk_def delta_response_def replay_token)

lemma deliver_compat:
  "deliver (compat_chunk (with_record (replay_env dec body)) recording) chunks (w, evs) =
     (None, (w, evs @ map (\<lambda>c. token_delta 0 (trim_space c) 0) (filter (\<lambda>c. \<not> blank c) (map dec chunks))))"
  by (induction chunks arbitrary: evs) (simp_all add: compat_chunk_def delta_response_def replay_token blank_def)

lemma replay_complete:
  "then_complete (with_record (replay_env dec body)) recording (None, (w, evs)) =
     (None, (w, evs @ [session_complete [] ''success'' 0]))"
  by (simp add: then_complete_def emit_complete_def recording_def beside_def)

lemma token_text_simps [simp]: "token_text (token_delta i c now) = [c]" "token_text (session_complete sid st now) = []"
  by (simp_all add: token_text_def token_delta_def session_complete_def new_streaming_event_def)

lemma post_replay:
  "post (with_record (replay_env dec body)) r s = (Answered \<lparr>hs_status = 200, hs_body = body, hs_read_error = None\<rparr>, s)"
  by (cases s) (simp add: post_def beside_def)

text \<open>
  DashScope's OpenAI-compatible stream runs words together.  Where the OpenAI provider hands over
  every content that is not blank as it is, the DashScope provider, given the same data events, hands
  over each content without the white space around it: the space before or after a word is lost.
\<close>

theorem compat_stream_trims:
  assumes "list_all clean_chunk chunks"
    and "config_error ''openai'' (op_model p) (op_base_url p) (op_api_key p) = None"
    and "config_error ''dashscope'' (ds_model d) (ds_base_url d) (ds_api_key d) = None"
    and "dashscope_protocol_of d = OpenAIProtocol"
  shows "streamed_text (OpenAIProvider p) dec chunks = filter (\<lambda>c. \<not> blank c) (map dec chunks) \<and>
    streamed_text (DashScopeProvider d) dec chunks = map trim_space (filter (\<lambda>c. \<not> blank c) (map dec chunks))"
proof -
  let ?env = "with_record (replay_env dec (sse_body chunks []))"
  note parse = parse_sse_body [OF assms(1), of "[]" None]
  have once: "openai_stream_once ?env p body recording ((), []) =
      (Settled None, ((), map (\<lambda>c. token_delta 0 c 0) (filter (\<lambda>c. \<not> blank c) (map dec chunks)) @ [session_complete [] ''success'' 0]))" for body
    by (simp add: openai_stream_once_def openai_send_request_def post_replay openai_handle_stream_def retry_status_def
        success_status_def beside_never_done parse deliver_chat replay_complete)
  have "streamed_text (OpenAIProvider p) dec chunks = filter (\<lambda>c. \<not> blank c) (map dec chunks)"
    by (simp add: streamed_text_def openai_stream_def assms(2) retry_loop.simps [of _ _ _ _ 0] once comp_def)
  moreover have "streamed_text (DashScopeProvider d) dec chunks = map trim_space (filter (\<lambda>c. \<not> blank c) (map dec chunks))"
    by (simp add: streamed_text_def dashscope_stream_def assms(3,4) stream_openai_compat_def dashscope_post_def post_replay
        success_status_def beside_never_done parse deliver_compat replay_complete comp_def)
  ultimately show ?thesis by blast
qed

lemma compat_stream_trims_witness:
  "concat (streamed_text (OpenAIProvider (new_openai ''k'' [] ''m'')) (\<lambda>c. c) [''Hello'', '' world'']) = ''Hello world'' \<and>
   concat (streamed_text (DashScopeProvider (new_dashscope ''m'' ''http://h/v1'' ''k'')) (\<lambda>c. c) [''Hello'', '' world'']) = ''Helloworld''"
proof -
  have c: "list_all clean_chunk [''Hello'', '' world'']" by (simp add: clean_simps)
  have "config_error ''openai'' (op_model (new_openai ''k'' [] ''m'')) (op_base_url (new_openai ''k'' [] ''m'')) (op_api_key (new_openai ''k'' [] ''m'')) = None"
    "config_error ''dashscope'' (ds_model (new_dashscope ''m'' ''http://h/v1'' ''k'')) (ds_base_url (new_dashscope ''m'' ''http://h/v1'' ''k''))
      (ds_api_key (new_dashscope ''m'' ''http://h/v1'' ''k'')) = None"
    "dashscope_protocol_of (new_dashscope ''m'' ''http://h/v1'' ''k'') = OpenAIProtocol"
    by code_simp+
  note r = compat_stream_trims [OF c this, of "\<lambda>c. c"]
  have "map trim_space [''Hello'', '' world''] = [''Hello'', ''world'']" "filter (\<lambda>c. \<not> blank c) [''Hello'', '' world''] = [''Hello'', '' world'']"
    by code_simp+
  with r show ?thesis by simp
qed

end
