(* ===== verification/Session_Store.thy ===== *)
theory Session_Store
  imports Memory_Store Verifier_Registry
begin

text \<open>
  The store of sessions, plans and steps (\<^verbatim>\<open>internal/store/session_store.go\<close> and
  \<^verbatim>\<open>internal/store/provenance.go\<close>).

  The database is its tables, each the list of its rows in the order of their insertion, with the outcomes
  of the statements to come: a fault is the error a statement fails with as a whole.  A column of JSON holds
  what its text decodes to; encoding and decoding are the identity but where the types say otherwise.
  Foreign keys are not enforced, as the code does not switch them on.
\<close>

section \<open>Rows\<close>

record stored_task =
  sto_description :: string
  sto_goal :: string
  sto_category :: task_category
  sto_protocol_hint :: string
  sto_verification_policy :: string

record stored_conversation =
  sco_id :: string
  sco_parent_session_id :: string
  sco_turn_index :: int

record stored_diagnostics =
  sdi_request_id :: string
  sdi_failure_reason :: string
  sdi_finalized :: bool

record session_metadata =
  smd_task :: "stored_task option"
  smd_provenance :: "provenance option"
  smd_conversation :: "stored_conversation option"
  smd_diagnostics :: "stored_diagnostics option"

record session_lifecycle =
  slc_phase :: string
  slc_active :: bool
  slc_terminal :: bool
  slc_resumable :: bool

text \<open>\<^term>\<open>None\<close> is a null; the columns of the life cycle are null in rows of older versions.\<close>

record session_row =
  sn_id :: string
  sn_task_id :: string
  sn_status :: session_status
  sn_phase :: "string option"
  sn_active :: "int option"
  sn_terminal :: "int option"
  sn_resumable :: "int option"
  sn_config :: "session_metadata option"
  sn_provenance :: "provenance option"
  sn_created_at :: gotime
  sn_updated_at :: gotime
  sn_terminated_reason :: "string option"

record plan_row =
  pr_id :: string
  pr_task_id :: string
  pr_summary :: string
  pr_steps :: "step list"
  pr_created_at :: gotime
  pr_updated_at :: gotime

record step_row =
  sw_id :: int
  sw_session_id :: string
  sw_step_index :: int
  sw_action :: action
  sw_observation :: observation
  sw_provenance :: "provenance option"
  sw_verification :: verification_result
  sw_created_at :: gotime

record session_db =
  sdb_sessions :: "session_row list"
  sdb_plans :: "plan_row list"
  sdb_steps :: "step_row list"
  sdb_next_step :: int
  sdb_faults :: "go_error option list"

definition empty_db :: session_db where
  "empty_db = \<lparr>sdb_sessions = [], sdb_plans = [], sdb_steps = [], sdb_next_step = 1, sdb_faults = []\<rparr>"

section \<open>Statements\<close>

type_synonym 'a db_result = "(go_error, 'a) result \<times> session_db"

text \<open>One statement reaches the database, or fails with the next fault.\<close>

definition statement :: "session_db \<Rightarrow> unit db_result" where
  "statement d =
     (case sdb_faults d of
        [] \<Rightarrow> (Inr (), d)
      | None # fs \<Rightarrow> (Inr (), d\<lparr>sdb_faults := fs\<rparr>)
      | Some e # fs \<Rightarrow> (Inl e, d\<lparr>sdb_faults := fs\<rparr>))"

definition and_then :: "('e, 'a) result \<times> 's \<Rightarrow> ('a \<Rightarrow> 's \<Rightarrow> ('e, 'b) result \<times> 's) \<Rightarrow> ('e, 'b) result \<times> 's" where
  "and_then r f = (case r of (Inl e, d) \<Rightarrow> (Inl e, d) | (Inr a, d) \<Rightarrow> f a d)"

text \<open>\<^verbatim>\<open>fmt.Errorf\<close> with a text and the error behind a colon.\<close>

definition wrapped :: "string \<Rightarrow> 'a db_result \<Rightarrow> 'a db_result" where
  "wrapped msg r = (case r of (Inl e, d) \<Rightarrow> (Inl (Wrapped (msg @ '': '' @ error_text e) e), d) | (Inr a, d) \<Rightarrow> (Inr a, d))"

definition session_store_nil :: go_error where
  "session_store_nil = Message ''sqlite session store is not initialized''"

text \<open>The guard of every method: a nil store.\<close>

definition with_db :: "(session_db \<Rightarrow> 'a db_result) \<Rightarrow> session_db option \<Rightarrow> (go_error, 'a) result \<times> session_db option" where
  "with_db f s =
     (case s of None \<Rightarrow> (Inl session_store_nil, None) | Some d \<Rightarrow> (case f d of (r, d1) \<Rightarrow> (r, Some d1)))"

definition sql_no_rows :: go_error where "sql_no_rows = Message ''sql: no rows in result set''"

section \<open>Provenance\<close>

definition json_error :: "metadata_error \<Rightarrow> go_error" where
  "json_error e = Message (metadata_error_text e)"

text \<open>\<^verbatim>\<open>marshalProvenance\<close> and \<^verbatim>\<open>parseProvenance\<close>; a nil provenance is the empty text, hence null.\<close>

definition marshal_provenance :: "provenance option \<Rightarrow> (go_error, provenance option) result" where
  "marshal_provenance p =
     (case p of
        None \<Rightarrow> Inr None
      | Some q \<Rightarrow>
          (case pv_validate (pv_normalize q) of
             Some e \<Rightarrow> Inl (json_error e)
           | None \<Rightarrow> (case pv_marshal q of Inl e \<Rightarrow> Inl (json_error e) | Inr n \<Rightarrow> Inr (Some n))))"

definition parse_provenance :: "provenance option \<Rightarrow> (go_error, provenance option) result" where
  "parse_provenance p =
     (case p of
        None \<Rightarrow> Inr None
      | Some q \<Rightarrow> (case pv_unmarshal q of Inl e \<Rightarrow> Inl (json_error e) | Inr n \<Rightarrow> Inr (Some (pv_normalize n))))"

definition validated :: "provenance \<Rightarrow> provenance option" where
  "validated p = (if pv_validate p = None then Some p else None)"

text \<open>The plugins that are not there yet are added one by one.\<close>

fun add_plugins :: "plugin_metadata list \<Rightarrow> plugin_metadata list \<Rightarrow> plugin_metadata list" where
  "add_plugins merged [] = merged"
| "add_plugins merged (p # ps) =
     add_plugins
       (if \<exists>c \<in> set merged. pl_family c = pl_family p \<and> pl_logical_id c = pl_logical_id p then merged else merged @ [p]) ps"

definition merge_stored_provenance :: "provenance option \<Rightarrow> provenance option \<Rightarrow> provenance option" where
  "merge_stored_provenance existing incoming =
     (case (existing, incoming) of
        (None, None) \<Rightarrow> None
      | (None, Some p) \<Rightarrow> validated (pv_normalize p)
      | (Some p, None) \<Rightarrow> validated (pv_normalize p)
      | (Some p, Some q) \<Rightarrow>
          (let merged = pv_normalize \<lparr>pv_plugins = add_plugins (pv_plugins (pv_normalize p)) (pv_plugins (pv_normalize q))\<rparr> in
           if pv_plugins merged = [] then None else validated merged))"

section \<open>The metadata of a session\<close>

definition no_metadata :: session_metadata where
  "no_metadata = \<lparr>smd_task = None, smd_provenance = None, smd_conversation = None, smd_diagnostics = None\<rparr>"

definition marshal_metadata :: "session_metadata \<Rightarrow> (go_error, session_metadata) result" where
  "marshal_metadata m =
     (case smd_provenance m of
        None \<Rightarrow> Inr m
      | Some p \<Rightarrow> (case pv_marshal p of Inl e \<Rightarrow> Inl (json_error e) | Inr n \<Rightarrow> Inr (m\<lparr>smd_provenance := Some n\<rparr>)))"

definition parse_metadata :: "session_metadata option \<Rightarrow> (go_error, session_metadata) result" where
  "parse_metadata raw =
     (case raw of
        None \<Rightarrow> Inr no_metadata
      | Some m \<Rightarrow>
          (let m1 = m\<lparr>smd_task := map_option (\<lambda>t. t\<lparr>sto_category := category_normalize (sto_category t)\<rparr>) (smd_task m)\<rparr> in
           case smd_provenance m of
             None \<Rightarrow> Inr m1
           | Some p \<Rightarrow>
               (case pv_unmarshal p of
                  Inl e \<Rightarrow> Inl (json_error e)
                | Inr n \<Rightarrow> Inr (m1\<lparr>smd_provenance := Some (pv_normalize n)\<rparr>))))"

text \<open>An empty object is stored as null by \<^verbatim>\<open>SaveSession\<close>.\<close>

definition nullable_metadata :: "session_metadata \<Rightarrow> session_metadata option" where
  "nullable_metadata m = (if m = no_metadata then None else Some m)"

definition new_stored_task :: "task \<Rightarrow> stored_task option" where
  "new_stored_task t =
     (let n = task_normalize t in
      if task_category n = cat_general \<and> task_protocol_hint n = [] \<and> task_verification_policy n = [] then None
      else Some \<lparr>sto_description = task_description n, sto_goal = task_goal n, sto_category = task_category n,
        sto_protocol_hint = task_protocol_hint n, sto_verification_policy = task_verification_policy n\<rparr>)"

definition find_session :: "string \<Rightarrow> session_db \<Rightarrow> session_row option" where
  "find_session sid d = find (\<lambda>r. sn_id r = sid) (sdb_sessions d)"

definition load_session_metadata :: "string \<Rightarrow> session_db \<Rightarrow> session_metadata db_result" where
  "load_session_metadata sid d =
     (if sid = [] then (Inr no_metadata, d)
      else and_then (statement d) (\<lambda>_ d1.
        case find_session sid d1 of
          None \<Rightarrow> (Inr no_metadata, d1)
        | Some r \<Rightarrow> (parse_metadata (sn_config r), d1)))"

section \<open>The life cycle\<close>

definition lifecycle_for :: "session_status \<Rightarrow> session_lifecycle \<times> string option" where
  "lifecycle_for s =
     (if s = ss_pending then (\<lparr>slc_phase = ''queued'', slc_active = False, slc_terminal = False, slc_resumable = True\<rparr>, None)
      else if s = ss_running \<or> s = ss_blocked_input
      then (\<lparr>slc_phase = ''running'', slc_active = True, slc_terminal = False, slc_resumable = False\<rparr>, None)
      else if s = ss_success
      then (\<lparr>slc_phase = ''completed'', slc_active = False, slc_terminal = True, slc_resumable = False\<rparr>, Some s)
      else if s = ss_interrupted
      then (\<lparr>slc_phase = ''cancelled'', slc_active = False, slc_terminal = False, slc_resumable = True\<rparr>, Some s)
      else if s = ss_verification_failed \<or> s = ss_budget_exceeded \<or> s = ss_fatal_error
      then (\<lparr>slc_phase = ''failed'', slc_active = False, slc_terminal = True, slc_resumable = False\<rparr>, Some s)
      else (\<lparr>slc_phase = ''queued'', slc_active = False, slc_terminal = False, slc_resumable = True\<rparr>, None))"

definition sqlite_int :: "bool \<Rightarrow> int" where "sqlite_int b = (if b then 1 else 0)"

definition lifecycle_from_row :: "session_row \<Rightarrow> session_lifecycle" where
  "lifecycle_from_row r =
     (let l = fst (lifecycle_for (sn_status r));
          flag = (\<lambda>v d. case v of None \<Rightarrow> d | Some i \<Rightarrow> (i :: int) \<noteq> 0) in
      \<lparr>slc_phase = (case sn_phase r of Some p \<Rightarrow> if p \<noteq> [] then p else slc_phase l | None \<Rightarrow> slc_phase l),
       slc_active = flag (sn_active r) (slc_active l), slc_terminal = flag (sn_terminal r) (slc_terminal l),
       slc_resumable = flag (sn_resumable r) (slc_resumable l)\<rparr>)"

section \<open>Saving\<close>

definition row_of_session :: "session_metadata \<Rightarrow> provenance option \<Rightarrow> session \<Rightarrow> session_row" where
  "row_of_session m p s =
     (let l = fst (lifecycle_for (sess_status s)) in
      \<lparr>sn_id = sess_id s, sn_task_id = sess_task_id s, sn_status = sess_status s, sn_phase = Some (slc_phase l),
       sn_active = Some (sqlite_int (slc_active l)), sn_terminal = Some (sqlite_int (slc_terminal l)),
       sn_resumable = Some (sqlite_int (slc_resumable l)), sn_config = nullable_metadata m, sn_provenance = p,
       sn_created_at = sess_created_at s, sn_updated_at = sess_updated_at s,
       sn_terminated_reason = snd (lifecycle_for (sess_status s))\<rparr>)"

text \<open>\<^verbatim>\<open>INSERT ... ON CONFLICT(id) DO UPDATE\<close>: the creation time of an existing row stays.\<close>

definition upsert_session :: "session_row \<Rightarrow> session_db \<Rightarrow> session_db" where
  "upsert_session r d =
     (if find_session (sn_id r) d = None then d\<lparr>sdb_sessions := sdb_sessions d @ [r]\<rparr>
      else d\<lparr>sdb_sessions := map (\<lambda>x. if sn_id x = sn_id r then r\<lparr>sn_created_at := sn_created_at x\<rparr> else x) (sdb_sessions d)\<rparr>)"

definition save_session_body :: "session \<Rightarrow> session_db \<Rightarrow> unit db_result" where
  "save_session_body s d =
     and_then (wrapped (''load existing session metadata for '' @ quote_str (sess_id s)) (load_session_metadata (sess_id s) d)) (\<lambda>m d1.
       let m1 = m\<lparr>smd_provenance := merge_stored_provenance (smd_provenance m) (sess_provenance s)\<rparr> in
       and_then (wrapped (''marshal session metadata for '' @ quote_str (sess_id s)) (marshal_metadata m1, d1)) (\<lambda>m2 d1.
       and_then (wrapped (''marshal session provenance for '' @ quote_str (sess_id s)) (marshal_provenance (smd_provenance m1), d1)) (\<lambda>p d1.
       and_then (wrapped (''save session '' @ quote_str (sess_id s)) (statement d1)) (\<lambda>_ d2.
         (Inr (), upsert_session (row_of_session m2 p s) d2)))))"

definition store_save_session :: "session \<Rightarrow> session_db option \<Rightarrow> (go_error, unit) result \<times> session_db option" where
  "store_save_session s = with_db (save_session_body s)"

text \<open>\<^verbatim>\<open>UPDATE sessions SET config_json = ?, updated_at = ... WHERE id = ?\<close>.\<close>

definition update_config :: "string \<Rightarrow> session_metadata \<Rightarrow> session_db \<Rightarrow> session_db" where
  "update_config sid m d =
     d\<lparr>sdb_sessions := map (\<lambda>r. if sn_id r = sid
          then r\<lparr>sn_config := Some m,
                 sn_updated_at := (if sn_updated_at r > sn_created_at r then sn_updated_at r else sn_created_at r)\<rparr>
          else r) (sdb_sessions d)\<rparr>"

text \<open>Load the metadata, change it, and write it back.\<close>

definition change_metadata ::
  "string \<Rightarrow> (session_metadata \<Rightarrow> session_metadata) \<Rightarrow> string \<Rightarrow> session_db \<Rightarrow> unit db_result" where
  "change_metadata what f sid d =
     and_then (wrapped (''load existing session metadata for session '' @ quote_str sid) (load_session_metadata sid d)) (\<lambda>m d1.
     and_then (wrapped (''marshal '' @ what @ '' metadata for session '' @ quote_str sid) (marshal_metadata (f m), d1)) (\<lambda>m1 d1.
     and_then (wrapped (''save '' @ what @ '' metadata for session '' @ quote_str sid) (statement d1)) (\<lambda>_ d2.
       (Inr (), update_config sid m1 d2))))"

definition save_task :: "string \<Rightarrow> task \<Rightarrow> session_db option \<Rightarrow> (go_error, unit) result \<times> session_db option" where
  "save_task sid t =
     with_db (change_metadata ''task'' (\<lambda>m. m\<lparr>smd_task := new_stored_task t\<rparr>) sid)"

definition save_conversation_state ::
  "string \<Rightarrow> string \<Rightarrow> string \<Rightarrow> int \<Rightarrow> session_db option \<Rightarrow> (go_error, unit) result \<times> session_db option" where
  "save_conversation_state sid cid parent turn =
     with_db (change_metadata ''conversation''
       (\<lambda>m. m\<lparr>smd_conversation := Some \<lparr>sco_id = (if blank cid then sid else trim_space cid),
          sco_parent_session_id = trim_space parent, sco_turn_index = turn\<rparr>\<rparr>) sid)"

definition merge_diagnostics :: "stored_diagnostics \<Rightarrow> stored_diagnostics option \<Rightarrow> stored_diagnostics" where
  "merge_diagnostics new old =
     (let o1 = (case old of None \<Rightarrow> \<lparr>sdi_request_id = [], sdi_failure_reason = [], sdi_finalized = False\<rparr> | Some x \<Rightarrow> x) in
      \<lparr>sdi_request_id = (if blank (sdi_request_id new) then sdi_request_id o1 else trim_space (sdi_request_id new)),
       sdi_failure_reason = (if blank (sdi_failure_reason new) then sdi_failure_reason o1 else trim_space (sdi_failure_reason new)),
       sdi_finalized = (sdi_finalized new \<or> sdi_finalized o1)\<rparr>)"

definition save_diagnostics :: "string \<Rightarrow> stored_diagnostics \<Rightarrow> session_db option \<Rightarrow> (go_error, unit) result \<times> session_db option" where
  "save_diagnostics sid new =
     with_db (change_metadata ''diagnostics''
       (\<lambda>m. m\<lparr>smd_diagnostics := Some (merge_diagnostics new (smd_diagnostics m))\<rparr>) sid)"


text \<open>A step as JSON: the verification result and the provenance have encodings of their own.\<close>

definition encode_step :: "step \<Rightarrow> (go_error, step) result" where
  "encode_step s =
     (case step_provenance s of
        None \<Rightarrow> Inr (s\<lparr>step_verification := vr_marshal (step_verification s)\<rparr>)
      | Some p \<Rightarrow>
          (case pv_marshal p of
             Inl e \<Rightarrow> Inl (json_error e)
           | Inr n \<Rightarrow> Inr (s\<lparr>step_verification := vr_marshal (step_verification s), step_provenance := Some n\<rparr>)))"

definition decode_verification :: "verification_result \<Rightarrow> (go_error, verification_result) result" where
  "decode_verification v = (case vr_unmarshal v of Inl e \<Rightarrow> Inl (Message (vr_error_text e)) | Inr n \<Rightarrow> Inr n)"

definition decode_step :: "step \<Rightarrow> (go_error, step) result" where
  "decode_step s =
     (case decode_verification (step_verification s) of
        Inl e \<Rightarrow> Inl e
      | Inr v \<Rightarrow>
          (case step_provenance s of
             None \<Rightarrow> Inr (s\<lparr>step_verification := v\<rparr>)
           | Some p \<Rightarrow>
               (case pv_unmarshal p of
                  Inl e \<Rightarrow> Inl (json_error e)
                | Inr n \<Rightarrow> Inr (s\<lparr>step_verification := v, step_provenance := Some n\<rparr>))))"

fun each :: "('a \<Rightarrow> (go_error, 'b) result) \<Rightarrow> 'a list \<Rightarrow> (go_error, 'b list) result" where
  "each f [] = Inr []"
| "each f (x # xs) =
     (case f x of Inl e \<Rightarrow> Inl e | Inr y \<Rightarrow> (case each f xs of Inl e \<Rightarrow> Inl e | Inr ys \<Rightarrow> Inr (y # ys)))"

definition upsert_plan :: "plan_row \<Rightarrow> session_db \<Rightarrow> session_db" where
  "upsert_plan r d =
     (if \<exists>x \<in> set (sdb_plans d). pr_id x = pr_id r
      then d\<lparr>sdb_plans := map (\<lambda>x. if pr_id x = pr_id r then r\<lparr>pr_created_at := pr_created_at x\<rparr> else x) (sdb_plans d)\<rparr>
      else d\<lparr>sdb_plans := sdb_plans d @ [r]\<rparr>)"

text \<open>\<open>now\<close> is the current time; the zero time is \<open>0\<close>.\<close>

definition store_save_plan :: "gotime \<Rightarrow> plan \<Rightarrow> session_db option \<Rightarrow> (go_error, unit) result \<times> session_db option" where
  "store_save_plan now p =
     with_db (\<lambda>d.
       and_then (wrapped (''marshal plan '' @ quote_str (plan_id p)) (each encode_step (plan_steps p), d)) (\<lambda>steps d.
       and_then (wrapped (''save plan '' @ quote_str (plan_id p)) (statement d)) (\<lambda>_ d1.
         (Inr (), upsert_plan \<lparr>pr_id = plan_id p, pr_task_id = plan_task_id p, pr_summary = plan_summary p, pr_steps = steps,
            pr_created_at = plan_created_at p,
            pr_updated_at = (if plan_created_at p = 0 then now else plan_created_at p)\<rparr> d1))))"

definition insert_step :: "gotime \<Rightarrow> string \<Rightarrow> step \<Rightarrow> provenance option \<Rightarrow> session_db \<Rightarrow> session_db" where
  "insert_step now sid s p d =
     d\<lparr>sdb_steps := sdb_steps d @
         [\<lparr>sw_id = sdb_next_step d, sw_session_id = sid, sw_step_index = step_index s, sw_action = step_action s,
           sw_observation = step_observation s, sw_provenance = p, sw_verification = vr_marshal (step_verification s),
           sw_created_at = now\<rparr>],
       sdb_next_step := sdb_next_step d + 1\<rparr>"

definition store_append_step :: "gotime \<Rightarrow> string \<Rightarrow> step \<Rightarrow> session_db option \<Rightarrow> (go_error, unit) result \<times> session_db option" where
  "store_append_step now sid s =
     with_db (\<lambda>d.
       and_then (wrapped ''marshal step provenance'' (marshal_provenance (step_provenance s), d)) (\<lambda>p d.
       and_then (wrapped (''append step '' @ show_int (step_index s) @ '' for session '' @ quote_str sid) (statement d)) (\<lambda>_ d1.
         (Inr (), insert_step now sid s p d1))))"

section \<open>Loading\<close>

definition load_session_record :: "string \<Rightarrow> session_db \<Rightarrow> (session \<times> session_metadata \<times> session_lifecycle) db_result" where
  "load_session_record sid d =
     and_then (wrapped (''load session '' @ quote_str sid) (statement d)) (\<lambda>_ d1.
       case find_session sid d1 of
         None \<Rightarrow> wrapped (''session '' @ quote_str sid @ '' not found'') (Inl sql_no_rows, d1)
       | Some r \<Rightarrow>
           and_then (wrapped (''load session '' @ quote_str sid @ '' metadata'') (parse_metadata (sn_config r), d1)) (\<lambda>m d1.
           and_then (wrapped (''load session '' @ quote_str sid @ '' provenance'') (statement d1)) (\<lambda>_ d2.
           and_then (wrapped (''load session '' @ quote_str sid @ '' provenance'') (parse_provenance (sn_provenance r), d2)) (\<lambda>p d2.
             (Inr (\<lparr>sess_id = sn_id r, sess_task_id = sn_task_id r, sess_status = sn_status r,
                    sess_provenance = merge_stored_provenance (smd_provenance m) p,
                    sess_created_at = sn_created_at r, sess_updated_at = sn_updated_at r\<rparr>, m, lifecycle_from_row r), d2)))))"

text \<open>The latest plan of a task; of equally late ones the one inserted last.\<close>

definition latest_plan :: "string \<Rightarrow> session_db \<Rightarrow> plan_row option" where
  "latest_plan tid d =
     (case rev (sort_key (\<lambda>r. (pr_updated_at r, pr_created_at r)) (filter (\<lambda>r. pr_task_id r = tid) (sdb_plans d))) of
        [] \<Rightarrow> None | r # _ \<Rightarrow> Some r)"

definition load_latest_plan :: "string \<Rightarrow> session_db \<Rightarrow> plan db_result" where
  "load_latest_plan tid d =
     and_then (wrapped (''load latest plan for task '' @ quote_str tid) (statement d)) (\<lambda>_ d1.
       case latest_plan tid d1 of
         None \<Rightarrow> wrapped (''plan for task '' @ quote_str tid @ '' not found'') (Inl sql_no_rows, d1)
       | Some r \<Rightarrow>
           and_then (wrapped (''unmarshal plan '' @ quote_str (pr_id r)) (each decode_step (pr_steps r), d1)) (\<lambda>steps d1.
             (Inr \<lparr>plan_id = pr_id r, plan_task_id = pr_task_id r, plan_summary = pr_summary r, plan_steps = steps,
                plan_created_at = pr_created_at r\<rparr>, d1)))"

definition load_step_row :: "string \<Rightarrow> step_row \<Rightarrow> (go_error, step) result" where
  "load_step_row sid r =
     (case parse_provenance (sw_provenance r) of
        Inl e \<Rightarrow> Inl (Wrapped (''unmarshal provenance for session '' @ quote_str sid @ '': '' @ error_text e) e)
      | Inr p \<Rightarrow>
          (case decode_verification (sw_verification r) of
             Inl e \<Rightarrow> Inl (Wrapped (''unmarshal verification for session '' @ quote_str sid @ '': '' @ error_text e) e)
           | Inr v \<Rightarrow> Inr \<lparr>step_index = sw_step_index r, step_action = sw_action r, step_observation = sw_observation r,
                step_verification = v, step_provenance = p\<rparr>))"

definition session_steps :: "string \<Rightarrow> session_db \<Rightarrow> step_row list" where
  "session_steps sid d = sort_key (\<lambda>r. (sw_step_index r, sw_id r)) (filter (\<lambda>r. sw_session_id r = sid) (sdb_steps d))"

definition load_steps :: "string \<Rightarrow> session_db \<Rightarrow> step list db_result" where
  "load_steps sid d =
     and_then (wrapped (''query steps for session '' @ quote_str sid) (statement d)) (\<lambda>_ d1.
       (each (load_step_row sid) (session_steps sid d1), d1))"

definition resume_session :: "string \<Rightarrow> session_db option \<Rightarrow> (go_error, session \<times> plan \<times> step list) result \<times> session_db option" where
  "resume_session sid =
     with_db (\<lambda>d.
       and_then (load_session_record sid d) (\<lambda>(s, _, _) d1.
       and_then (load_latest_plan (sess_task_id s) d1) (\<lambda>p d2.
       and_then (load_steps sid d2) (\<lambda>steps d3. (Inr (s, p, steps), d3)))))"

text \<open>The task of a session: its plan's summary, and over it what is stored.\<close>

definition task_of_record :: "session \<Rightarrow> plan \<Rightarrow> stored_task option \<Rightarrow> task" where
  "task_of_record s p stored =
     task_normalize
       (case stored of
          None \<Rightarrow> \<lparr>task_id = sess_task_id s, task_description = plan_summary p, task_goal = plan_summary p, task_category = [],
            task_protocol_hint = [], task_verification_policy = [], task_created_at = sess_created_at s\<rparr>
        | Some t \<Rightarrow> \<lparr>task_id = sess_task_id s,
            task_description = (if sto_description t \<noteq> [] then sto_description t else plan_summary p),
            task_goal = (if sto_goal t \<noteq> [] then sto_goal t else plan_summary p), task_category = sto_category t,
            task_protocol_hint = sto_protocol_hint t, task_verification_policy = sto_verification_policy t,
            task_created_at = sess_created_at s\<rparr>)"

definition load_task :: "string \<Rightarrow> session_db option \<Rightarrow> (go_error, task \<times> bool) result \<times> session_db option" where
  "load_task sid =
     with_db (\<lambda>d.
       and_then (load_session_record sid d) (\<lambda>(s, m, _) d1.
       and_then (load_latest_plan (sess_task_id s) d1) (\<lambda>p d2.
         (Inr (task_of_record s p (smd_task m), smd_task m \<noteq> None), d2))))"

record inspect_state =
  is_session :: session
  is_task :: task
  is_plan :: plan
  is_steps :: "step list"
  is_lifecycle :: session_lifecycle
  is_request_id :: string
  is_failure_reason :: string
  is_finalized :: bool

definition lookup_missing :: "go_error \<Rightarrow> bool" where
  "lookup_missing e \<longleftrightarrow> errors_is e sql_no_rows \<or> contains_str (error_text e) ''not found''"

definition inspect_session :: "string \<Rightarrow> session_db option \<Rightarrow> (go_error, inspect_state) result \<times> session_db option" where
  "inspect_session sid =
     with_db (\<lambda>d.
       and_then (load_session_record sid d) (\<lambda>(s, m, l) d1.
       and_then (load_steps sid d1) (\<lambda>steps d2.
       and_then (case load_latest_plan (sess_task_id s) d2 of
                   (Inl e, d3) \<Rightarrow>
                     if lookup_missing e then (Inr (zero_plan\<lparr>plan_task_id := sess_task_id s\<rparr>), d3) else (Inl e, d3)
                 | (Inr p, d3) \<Rightarrow> (Inr p, d3)) (\<lambda>p d3.
         (Inr \<lparr>is_session = s, is_task = task_of_record s p (smd_task m), is_plan = p, is_steps = steps, is_lifecycle = l,
            is_request_id = (case smd_diagnostics m of None \<Rightarrow> [] | Some x \<Rightarrow> trim_space (sdi_request_id x)),
            is_failure_reason = (case smd_diagnostics m of None \<Rightarrow> [] | Some x \<Rightarrow> trim_space (sdi_failure_reason x)),
            is_finalized = (case smd_diagnostics m of None \<Rightarrow> False | Some x \<Rightarrow> sdi_finalized x)\<rparr>, d3)))))"


section \<open>Listing\<close>

record list_params =
  lp_page :: int
  lp_page_size :: int
  lp_status :: string

record session_summary =
  ssu_session_id :: string
  ssu_conversation_id :: string
  ssu_parent_session_id :: string
  ssu_turn_index :: int
  ssu_status :: string
  ssu_task :: string
  ssu_task_type :: string
  ssu_created_at :: gotime
  ssu_updated_at :: gotime

record list_result =
  lr_sessions :: "session_summary list"
  lr_total :: int
  lr_page :: int
  lr_page_size :: int

definition statuses_for_filter :: "string \<Rightarrow> (go_error, session_status list) result" where
  "statuses_for_filter status =
     (let s = trim_space status in
      if s = ''created'' then Inr [ss_pending]
      else if s = ''running'' then Inr [ss_running, ss_blocked_input]
      else if s = ''completed'' then Inr [ss_success]
      else if s = ''cancelled'' then Inr [ss_interrupted]
      else if s = ''failed'' then Inr [ss_verification_failed, ss_budget_exceeded, ss_fatal_error]
      else Inl (Message (''unsupported session status filter '' @ quote_str status)))"

definition summary_of_row :: "session_row \<Rightarrow> session_metadata \<Rightarrow> session_summary" where
  "summary_of_row r m =
     (let cid = (case smd_conversation m of None \<Rightarrow> [] | Some c \<Rightarrow> trim_space (sco_id c));
          kind = (case smd_task m of None \<Rightarrow> [] | Some t \<Rightarrow> category_normalize (sto_category t)) in
      \<lparr>ssu_session_id = sn_id r, ssu_conversation_id = (if cid = [] then sn_id r else cid),
       ssu_parent_session_id = (case smd_conversation m of None \<Rightarrow> [] | Some c \<Rightarrow> trim_space (sco_parent_session_id c)),
       ssu_turn_index = (case smd_conversation m of None \<Rightarrow> 0 | Some c \<Rightarrow> sco_turn_index c), ssu_status = sn_status r,
       ssu_task = (case smd_task m of None \<Rightarrow> [] | Some t \<Rightarrow> trim_space (sto_description t)),
       ssu_task_type = (if kind = [] then cat_general else kind),
       ssu_created_at = sn_created_at r, ssu_updated_at = sn_updated_at r\<rparr>)"

definition read_session_row :: "session_row \<Rightarrow> (go_error, session_row \<times> session_metadata) result" where
  "read_session_row r =
     (case parse_metadata (sn_config r) of
        Inl e \<Rightarrow> Inl (Wrapped (''parse session '' @ quote_str (sn_id r) @ '' metadata: '' @ error_text e) e)
      | Inr m \<Rightarrow> Inr (r, m))"

text \<open>
  \<^verbatim>\<open>ORDER BY created_at DESC LIMIT ? OFFSET ?\<close>; rows created at the same time come in an order the statement
  leaves open, here the one inserted last first.  The offset is computed on 64 bits, and a negative one
  counts as none.
\<close>

definition page_of_rows :: "int \<Rightarrow> int \<Rightarrow> session_row list \<Rightarrow> session_row list" where
  "page_of_rows page per_page rows = take (nat per_page) (drop (nat (wrap64 ((page - 1) * per_page))) (rev (sort_key sn_created_at rows)))"

definition list_sessions :: "list_params \<Rightarrow> session_db option \<Rightarrow> (go_error, list_result) result \<times> session_db option" where
  "list_sessions p =
     with_db (\<lambda>d.
       let page = max (lp_page p) 1;
           per_page = (if lp_page_size p < 1 then 20 else lp_page_size p);
           status = trim_space (lp_status p) in
       and_then (if status = [] then (Inr (\<lambda>_. True), d)
                 else case statuses_for_filter status of
                   Inl e \<Rightarrow> (Inl e, d) | Inr ss \<Rightarrow> (Inr (\<lambda>r. sn_status r \<in> set ss), d)) (\<lambda>keep d.
       and_then (wrapped ''count sessions'' (statement d)) (\<lambda>_ d1.
       and_then (wrapped ''query sessions'' (statement d1)) (\<lambda>_ d2.
       and_then (each read_session_row (page_of_rows page per_page (filter keep (sdb_sessions d2))), d2) (\<lambda>rows d2.
         (Inr \<lparr>lr_sessions = map (\<lambda>(r, m). summary_of_row r m) rows, lr_total = int (length (filter keep (sdb_sessions d1))),
            lr_page = page, lr_page_size = per_page\<rparr>, d2))))))"

record conversation_record =
  cr_session :: session
  cr_task :: task
  cr_lifecycle :: session_lifecycle
  cr_conversation_id :: string
  cr_parent_session_id :: string
  cr_turn_index :: int

definition record_of_row :: "session_row \<Rightarrow> session_metadata \<Rightarrow> conversation_record" where
  "record_of_row r m =
     \<lparr>cr_session = \<lparr>sess_id = sn_id r, sess_task_id = sn_task_id r, sess_status = sn_status r, sess_provenance = None,
        sess_created_at = sn_created_at r, sess_updated_at = sn_updated_at r\<rparr>,
      cr_task = task_normalize
        (case smd_task m of
           None \<Rightarrow> \<lparr>task_id = sn_task_id r, task_description = [], task_goal = [], task_category = [], task_protocol_hint = [],
             task_verification_policy = [], task_created_at = sn_created_at r\<rparr>
         | Some t \<Rightarrow> \<lparr>task_id = sn_task_id r, task_description = sto_description t, task_goal = sto_goal t,
             task_category = sto_category t, task_protocol_hint = sto_protocol_hint t,
             task_verification_policy = sto_verification_policy t, task_created_at = sn_created_at r\<rparr>),
      cr_lifecycle = lifecycle_from_row r,
      cr_conversation_id =
        (case smd_conversation m of None \<Rightarrow> sn_id r | Some c \<Rightarrow> if blank (sco_id c) then sn_id r else trim_space (sco_id c)),
      cr_parent_session_id = (case smd_conversation m of None \<Rightarrow> [] | Some c \<Rightarrow> trim_space (sco_parent_session_id c)),
      cr_turn_index = (case smd_conversation m of None \<Rightarrow> 0 | Some c \<Rightarrow> sco_turn_index c)\<rparr>"

definition list_conversation_sessions ::
  "string \<Rightarrow> session_db option \<Rightarrow> (go_error, conversation_record list) result \<times> session_db option" where
  "list_conversation_sessions cid =
     with_db (\<lambda>d.
       if blank cid then (Inl (Message ''conversation id is required''), d)
       else
         and_then (wrapped ''query conversation sessions'' (statement d)) (\<lambda>_ d1.
         and_then (each read_session_row (sort_key (\<lambda>r. (sn_created_at r, sn_id r)) (sdb_sessions d1)), d1) (\<lambda>rows d1.
           (let rs = filter (\<lambda>c. cr_conversation_id c = trim_space cid) (map (\<lambda>(r, m). record_of_row r m) rows) in
            if rs = [] then wrapped (''conversation '' @ quote_str (trim_space cid) @ '' not found'') (Inl sql_no_rows, d1)
            else (Inr rs, d1)))))"

end
