(* ===== verification/Chat.thy ===== *)
theory Chat
  imports Session_Store "HOL-Library.AList" Config
begin

text \<open>
  The chat service (\<^verbatim>\<open>internal/service/chat.go\<close>, \<^verbatim>\<open>internal/service/service.go\<close>) over the
  store of sessions.

  A \<open>chat_env\<close> holds what one call finds: the time, the request's id, the session manager's answers (its
  state of an actor, and the error \<^verbatim>\<open>Start\<close> returns, if any), and the builder of engines; a nil manager
  or builder is \<^term>\<open>None\<close>.  The state is the store and the requests handed to the manager; what the
  manager then runs is not part of the call.
\<close>

text \<open>
  Conversations and their transcripts (\<^verbatim>\<open>internal/domain/conversation.go\<close>).  The optional fields that
  no code sets are left out: the metadata of messages, and the times of the last resumption and submission.
\<close>

type_synonym chat_role = string
abbreviation role_user :: chat_role where "role_user \<equiv> ''user''"
abbreviation role_assistant :: chat_role where "role_assistant \<equiv> ''assistant''"
abbreviation role_system :: chat_role where "role_system \<equiv> ''system''"
abbreviation role_tool :: chat_role where "role_tool \<equiv> ''tool''"

type_synonym conversation_status = string
abbreviation cs_active :: conversation_status where "cs_active \<equiv> ''active''"
abbreviation cs_blocked :: conversation_status where "cs_blocked \<equiv> ''blocked''"
abbreviation cs_completed :: conversation_status where "cs_completed \<equiv> ''completed''"
abbreviation cs_failed :: conversation_status where "cs_failed \<equiv> ''failed''"

record conversation_message =
  msg_id :: string
  msg_turn_index :: int
  msg_role :: chat_role
  msg_content :: string
  msg_timestamp :: gotime

record conversation_checkpoint =
  cp_last_message_id :: string
  cp_last_turn_index :: int
  cp_last_event_time :: gotime
  cp_resumable :: bool

record conversation =
  cv_id :: string
  cv_session_id :: string
  cv_status :: conversation_status
  cv_messages :: "conversation_message list"
  cv_checkpoint :: conversation_checkpoint
  cv_created_at :: gotime
  cv_updated_at :: gotime

record transcript_turn =
  tt_turn_index :: int
  tt_user_message :: "conversation_message option"
  tt_assistant_messages :: "conversation_message list"
  tt_system_messages :: "conversation_message list"
  tt_tool_messages :: "conversation_message list"
  tt_first_message_at :: gotime
  tt_last_message_at :: gotime
  tt_assistant_completed :: bool

record chat_transcript =
  ct_conversation_id :: string
  ct_session_id :: string
  ct_status :: conversation_status
  ct_messages :: "conversation_message list"
  ct_turns :: "transcript_turn list"
  ct_created_at :: gotime
  ct_updated_at :: gotime

definition belongs_to_session :: "conversation \<Rightarrow> string \<Rightarrow> bool" where
  "belongs_to_session c sid \<longleftrightarrow> cv_session_id c \<noteq> [] \<and> cv_session_id c = sid"

text \<open>\<^verbatim>\<open>sort.SliceStable\<close> by time, then turn, then id.\<close>

definition messages_in_order :: "conversation \<Rightarrow> conversation_message list" where
  "messages_in_order c = sort_key (\<lambda>m. (msg_timestamp m, msg_turn_index m, msg_id m)) (cv_messages c)"

definition new_turn :: "int \<Rightarrow> transcript_turn" where
  "new_turn i = \<lparr>tt_turn_index = i, tt_user_message = None, tt_assistant_messages = [], tt_system_messages = [], tt_tool_messages = [],
     tt_first_message_at = 0, tt_last_message_at = 0, tt_assistant_completed = False\<rparr>"

text \<open>A message joins its turn; the zero time is \<open>0\<close>.\<close>

definition join_turn :: "conversation_message \<Rightarrow> transcript_turn \<Rightarrow> transcript_turn" where
  "join_turn m t =
     (let t1 = (if tt_first_message_at t = 0 \<or> msg_timestamp m < tt_first_message_at t
                then t\<lparr>tt_first_message_at := msg_timestamp m\<rparr> else t);
          t2 = (if tt_last_message_at t1 = 0 \<or> msg_timestamp m > tt_last_message_at t1
                then t1\<lparr>tt_last_message_at := msg_timestamp m\<rparr> else t1) in
      if msg_role m = role_user
      then (if tt_user_message t2 = None then t2\<lparr>tt_user_message := Some m\<rparr> else t2)
      else if msg_role m = role_assistant
      then t2\<lparr>tt_assistant_messages := tt_assistant_messages t2 @ [m], tt_assistant_completed := True\<rparr>
      else if msg_role m = role_system then t2\<lparr>tt_system_messages := tt_system_messages t2 @ [m]\<rparr>
      else if msg_role m = role_tool then t2\<lparr>tt_tool_messages := tt_tool_messages t2 @ [m]\<rparr>
      else t2)"

text \<open>The turns by their indexes, in the order in which they first occur.\<close>

fun collect_turns :: "conversation_message list \<Rightarrow> (int \<times> transcript_turn) list \<Rightarrow> (int \<times> transcript_turn) list" where
  "collect_turns [] turns = turns"
| "collect_turns (m # ms) turns =
     collect_turns ms
       (case map_of turns (msg_turn_index m) of
          None \<Rightarrow> turns @ [(msg_turn_index m, join_turn m (new_turn (msg_turn_index m)))]
        | Some t \<Rightarrow> AList.update (msg_turn_index m) (join_turn m t) turns)"

definition build_chat_transcript :: "conversation \<Rightarrow> chat_transcript" where
  "build_chat_transcript c =
     (let ordered = messages_in_order c; turns = collect_turns ordered [] in
      \<lparr>ct_conversation_id = cv_id c, ct_session_id = cv_session_id c, ct_status = cv_status c, ct_messages = ordered,
       ct_turns = map (\<lambda>i. the (map_of turns i)) (sort (map fst turns)),
       ct_created_at = cv_created_at c, ct_updated_at = cv_updated_at c\<rparr>)"


section \<open>Errors\<close>

datatype chat_error =
    ValidationError string
  | NotFoundError string string go_error
  | ConflictError string
  | OtherError go_error
  | WrappedError string chat_error

fun chat_error_text :: "chat_error \<Rightarrow> string" where
  "chat_error_text (ValidationError m) = m"
| "chat_error_text (NotFoundError kind i e) = (if blank kind then ''not found'' else kind @ '' not found'')"
| "chat_error_text (ConflictError m) = (if m \<noteq> [] then m else ''conflict'')"
| "chat_error_text (OtherError e) = error_text e"
| "chat_error_text (WrappedError m e) = m @ '': '' @ chat_error_text e"

text \<open>\<^verbatim>\<open>mapStoreLookupError\<close>.\<close>

definition map_lookup_error :: "string \<Rightarrow> string \<Rightarrow> go_error \<Rightarrow> chat_error" where
  "map_lookup_error kind i e = (if lookup_missing e then NotFoundError kind i e else OtherError e)"

definition first_non_empty :: "string list \<Rightarrow> string" where
  "first_non_empty vs = (case filter (\<lambda>v. \<not> blank v) vs of [] \<Rightarrow> [] | v # _ \<Rightarrow> v)"

section \<open>State\<close>

record chat_start_request =
  csq_session_id :: string
  csq_task :: task
  csq_max_steps :: int
  csq_verify_mode :: string
  csq_created_at :: gotime

record engine_builder =
  eb_executor_error :: "go_error option"
  eb_has_model :: bool
  eb_default_max_steps :: int

record chat_env =
  ce_now :: gotime
  ce_request_id :: string
  ce_manager :: "(string \<Rightarrow> string option) option"
  ce_start :: "chat_start_request \<Rightarrow> go_error option"
  ce_builder :: "engine_builder option"
  ce_config :: config

record chat_state =
  cst_store :: "session_db option"
  cst_started :: "chat_start_request list"

type_synonym 'a chat_result = "(chat_error, 'a) result \<times> chat_state"

definition on_store ::
  "(go_error \<Rightarrow> chat_error) \<Rightarrow> (session_db option \<Rightarrow> (go_error, 'a) result \<times> session_db option) \<Rightarrow> chat_state \<Rightarrow> 'a chat_result" where
  "on_store err f st =
     (case f (cst_store st) of
        (Inl e, s) \<Rightarrow> (Inl (err e), st\<lparr>cst_store := s\<rparr>)
      | (Inr a, s) \<Rightarrow> (Inr a, st\<lparr>cst_store := s\<rparr>))"

definition store_failed :: "string \<Rightarrow> go_error \<Rightarrow> chat_error" where
  "store_failed msg e = OtherError (Wrapped (msg @ '': '' @ error_text e) e)"

definition manager_start :: "chat_env \<Rightarrow> chat_start_request \<Rightarrow> chat_state \<Rightarrow> unit chat_result" where
  "manager_start env q st =
     (let st1 = st\<lparr>cst_started := cst_started st @ [q]\<rparr> in
      case ce_start env q of Some e \<Rightarrow> (Inl (OtherError e), st1) | None \<Rightarrow> (Inr (), st1))"

definition stream_url :: "string \<Rightarrow> string" where
  "stream_url sid = ''/api/v1/sessions/'' @ trim_space sid @ ''/stream''"

definition is_terminal_status :: "session_status \<Rightarrow> bool" where
  "is_terminal_status s \<longleftrightarrow> s \<in> {ss_success, ss_verification_failed, ss_budget_exceeded, ss_fatal_error}"

definition supported_verify_mode :: "string \<Rightarrow> bool" where
  "supported_verify_mode v \<longleftrightarrow> trim_space v \<in> {[], ''off'', ''standard'', ''strict''}"

definition supported_task_type :: "string \<Rightarrow> bool" where
  "supported_task_type v \<longleftrightarrow> trim_space v \<in> {''general'', ''coding'', ''research'', ''file_workflow''}"

definition api_session_status :: "session_status \<Rightarrow> string" where
  "api_session_status s =
     (if s = ss_pending then ''created''
      else if s = ss_running \<or> s = ss_blocked_input then ''running''
      else if s = ss_success then ''completed''
      else if s = ss_interrupted then ''cancelled''
      else ''failed'')"

definition conversation_status_for :: "session_status \<Rightarrow> conversation_status" where
  "conversation_status_for s =
     (if s = ss_pending \<or> s = ss_running \<or> s = ss_blocked_input then cs_active
      else if s = ss_interrupted then cs_blocked
      else if s = ss_success then cs_completed
      else cs_failed)"

section \<open>Starting\<close>

record start_options =
  so_message :: string
  so_task_type :: string
  so_max_steps :: int
  so_verify_mode :: string

definition validate_start :: "start_options \<Rightarrow> chat_error option" where
  "validate_start o1 =
     (if blank (so_message o1) then Some (ValidationError ''task is required'')
      else if so_max_steps o1 < 0 then Some (ValidationError ''max_steps must be greater than or equal to zero'')
      else if \<not> blank (so_verify_mode o1) \<and> \<not> supported_verify_mode (so_verify_mode o1)
      then Some (ValidationError ''verify_mode must be one of off, standard, strict'')
      else if \<not> blank (so_task_type o1) \<and> \<not> supported_task_type (so_task_type o1)
      then Some (ValidationError ''task_type must be one of general, coding, research, file_workflow'')
      else None)"

definition new_session_id :: "chat_env \<Rightarrow> string" where
  "new_session_id env = ''session-'' @ show_int (unix_nano (ce_now env))"

definition new_conversation_id :: "chat_env \<Rightarrow> string" where
  "new_conversation_id env = ''conversation-'' @ show_int (unix_nano (ce_now env))"

definition new_task :: "chat_env \<Rightarrow> string \<Rightarrow> string \<Rightarrow> task_category \<Rightarrow> task" where
  "new_task env description goal category =
     task_normalize \<lparr>task_id = new_session_id env, task_description = description, task_goal = goal,
       task_category = category_normalize category, task_protocol_hint = [], task_verification_policy = [],
       task_created_at = ce_now env\<rparr>"

definition initial_session :: "chat_env \<Rightarrow> session" where
  "initial_session env =
     \<lparr>sess_id = new_session_id env, sess_task_id = new_session_id env, sess_status = ss_pending, sess_provenance = None,
      sess_created_at = ce_now env, sess_updated_at = ce_now env\<rparr>"

definition persist_diagnostics ::
  "string \<Rightarrow> string \<Rightarrow> string \<Rightarrow> bool \<Rightarrow> session_db option \<Rightarrow> (go_error, unit) result \<times> session_db option" where
  "persist_diagnostics request_id sid reason finalized s =
     (if s = None \<or> (blank request_id \<and> blank reason \<and> \<not> finalized) then (Inr (), s)
      else save_diagnostics sid
        \<lparr>sdi_request_id = trim_space request_id, sdi_failure_reason = trim_space reason, sdi_finalized = finalized\<rparr> s)"

text \<open>The session, its task and its diagnostics, which every way to start writes first.\<close>

definition save_new_session :: "chat_env \<Rightarrow> task \<Rightarrow> chat_state \<Rightarrow> unit chat_result" where
  "save_new_session env t st =
     and_then (on_store (store_failed ''save initial session'') (store_save_session (initial_session env)) st) (\<lambda>_ st1.
     and_then (on_store (store_failed ''save task metadata'') (save_task (new_session_id env) t) st1) (\<lambda>_ st2.
       on_store (store_failed ''save session diagnostics'') (persist_diagnostics (ce_request_id env) (new_session_id env) [] False) st2))"

record chat_service_response =
  crs_conversation_id :: string
  crs_session_id :: string
  crs_status :: string
  crs_stream_url :: string
  crs_turn_index :: int
  crs_task :: task

definition chat_created :: "string \<Rightarrow> string \<Rightarrow> int \<Rightarrow> task \<Rightarrow> chat_service_response" where
  "chat_created cid sid turn t =
     \<lparr>crs_conversation_id = cid, crs_session_id = sid, crs_status = ''created'', crs_stream_url = stream_url sid,
      crs_turn_index = turn, crs_task = t\<rparr>"

definition start_conversation :: "chat_env \<Rightarrow> start_options \<Rightarrow> chat_state \<Rightarrow> chat_service_response chat_result" where
  "start_conversation env o1 st =
     (case validate_start o1 of
        Some e \<Rightarrow> (Inl e, st)
      | None \<Rightarrow>
          (let sid = new_session_id env; text = trim_space (so_message o1); t = new_task env text text (trim_space (so_task_type o1)) in
           and_then (save_new_session env t st) (\<lambda>_ st1.
           and_then (manager_start env \<lparr>csq_session_id = sid, csq_task = t, csq_max_steps = so_max_steps o1,
                       csq_verify_mode = trim_space (so_verify_mode o1), csq_created_at = ce_now env\<rparr> st1) (\<lambda>_ st2.
             (Inr (chat_created sid sid 0 t), st2)))))"

definition start_chat :: "chat_env \<Rightarrow> start_options \<Rightarrow> chat_state \<Rightarrow> chat_service_response chat_result" where
  "start_chat env o1 st =
     (case validate_start o1 of
        Some e \<Rightarrow> (Inl e, st)
      | None \<Rightarrow>
          (let sid = new_session_id env; cid = new_conversation_id env; text = trim_space (so_message o1);
               t = new_task env text text (trim_space (so_task_type o1)) in
           and_then (save_new_session env t st) (\<lambda>_ st1.
           and_then (on_store (store_failed ''save conversation metadata'') (save_conversation_state sid cid [] 0) st1) (\<lambda>_ st2.
           and_then (manager_start env \<lparr>csq_session_id = sid, csq_task = t, csq_max_steps = so_max_steps o1,
                       csq_verify_mode = trim_space (so_verify_mode o1), csq_created_at = ce_now env\<rparr> st2) (\<lambda>_ st3.
             (Inr (chat_created cid sid 0 t), st3))))))"

section \<open>Transcripts\<close>

definition tool_name_for_step :: "step \<Rightarrow> string" where
  "tool_name_for_step s =
     (case act_tool_call (step_action s) of
        Some c \<Rightarrow> trim_space (tc_name c)
      | None \<Rightarrow> (case obs_tool_result (step_observation s) of Some r \<Rightarrow> trim_space (tr_tool_name r) | None \<Rightarrow> []))"

definition message_of :: "string \<Rightarrow> string \<Rightarrow> int \<Rightarrow> chat_role \<Rightarrow> string \<Rightarrow> gotime \<Rightarrow> conversation_message" where
  "message_of sid kind i role content t =
     \<lparr>msg_id = sid @ ''-'' @ kind @ ''-'' @ show_int i, msg_turn_index = i, msg_role = role, msg_content = content, msg_timestamp = t\<rparr>"

definition unless_empty :: "string \<Rightarrow> conversation_message \<Rightarrow> conversation_message list" where
  "unless_empty content m = (if content = [] then [] else [m])"

definition step_messages :: "session \<Rightarrow> step \<Rightarrow> conversation_message list" where
  "step_messages s x =
     (let base = (if sess_updated_at s = 0 then sess_created_at s else sess_updated_at s);
          summary = trim_space (act_summary (step_action x));
          tool = tool_name_for_step x;
          reply = first_non_empty [trim_space (obs_final_response (step_observation x)), trim_space (obs_summary (step_observation x)),
            trim_space (vr_reason (step_verification x))] in
      unless_empty summary (message_of (sess_id s) ''system'' (step_index x) role_system summary base) @
      unless_empty tool (message_of (sess_id s) ''tool'' (step_index x) role_tool tool (base + 1)) @
      unless_empty reply (message_of (sess_id s) ''assistant'' (step_index x) role_assistant reply (base + 2)))"

definition with_last_message :: "conversation \<Rightarrow> conversation" where
  "with_last_message c =
     (if cv_messages c = [] then c
      else c\<lparr>cv_checkpoint := (cv_checkpoint c)\<lparr>cp_last_message_id := msg_id (last (cv_messages c)),
               cp_last_event_time := msg_timestamp (last (cv_messages c))\<rparr>\<rparr>)"

definition build_conversation :: "inspect_state \<Rightarrow> conversation" where
  "build_conversation i =
     (let s = is_session i; text = trim_space (first_non_empty [task_goal (is_task i), task_description (is_task i)]) in
      with_last_message
        \<lparr>cv_id = sess_id s, cv_session_id = sess_id s, cv_status = conversation_status_for (sess_status s),
         cv_messages =
           unless_empty text (message_of (sess_id s) ''user'' 0 role_user text (sess_created_at s)) @
           concat (map (step_messages s) (is_steps i)),
         cv_checkpoint = \<lparr>cp_last_message_id = [], cp_last_turn_index = int (length (is_steps i)), cp_last_event_time = 0,
           cp_resumable = (\<not> is_terminal_status (sess_status s))\<rparr>,
         cv_created_at = sess_created_at s, cv_updated_at = sess_updated_at s\<rparr>)"

record transcript =
  trn_conversation :: conversation
  trn_chat :: chat_transcript
  trn_inspect :: inspect_state

definition transcript_of :: "conversation \<Rightarrow> inspect_state \<Rightarrow> transcript" where
  "transcript_of c i = \<lparr>trn_conversation = c, trn_chat = build_chat_transcript c, trn_inspect = i\<rparr>"

definition segment_messages :: "nat \<Rightarrow> int \<Rightarrow> inspect_state \<Rightarrow> conversation_message list" where
  "segment_messages idx turn i =
     map (\<lambda>m. m\<lparr>msg_turn_index := msg_turn_index m + turn, msg_id := msg_id m @ ''-'' @ show_nat idx\<rparr>)
       (cv_messages (build_conversation i))"

text \<open>The sessions of a conversation are inspected one by one.\<close>

fun inspect_records :: "nat \<Rightarrow> conversation_record list \<Rightarrow> chat_state \<Rightarrow> (conversation_message list \<times> inspect_state) list chat_result" where
  "inspect_records idx [] st = (Inr [], st)"
| "inspect_records idx (r # rs) st =
     and_then (on_store (map_lookup_error ''session'' (sess_id (cr_session r))) (inspect_session (sess_id (cr_session r))) st) (\<lambda>i st1.
     and_then (inspect_records (Suc idx) rs st1) (\<lambda>is st2.
       (Inr ((segment_messages idx (cr_turn_index r) i, i) # is), st2)))"

definition build_from_records :: "string \<Rightarrow> conversation_record list \<Rightarrow> chat_state \<Rightarrow> (conversation \<times> inspect_state) chat_result" where
  "build_from_records cid records st =
     and_then (inspect_records 0 records st) (\<lambda>parts st1.
       (let latest = last records; s = cr_session latest in
        (Inr (with_last_message
           \<lparr>cv_id = cid, cv_session_id = sess_id s, cv_status = conversation_status_for (sess_status s),
            cv_messages = concat (map fst parts),
            cv_checkpoint = \<lparr>cp_last_message_id = [], cp_last_turn_index = cr_turn_index latest, cp_last_event_time = 0,
              cp_resumable = (\<not> is_terminal_status (sess_status s))\<rparr>,
            cv_created_at = sess_created_at (cr_session (hd records)), cv_updated_at = sess_updated_at s\<rparr>,
           snd (last parts)), st1)))"

text \<open>If the conversation is not found as one, it may be a session.  The store never returns an empty list.\<close>

definition get_transcript :: "string \<Rightarrow> chat_state \<Rightarrow> transcript chat_result" where
  "get_transcript cid0 st =
     (if blank cid0 then (Inl (ValidationError ''conversation id is required''), st)
      else
        (let cid = trim_space cid0 in
         case list_conversation_sessions cid (cst_store st) of
           (Inl e, s) \<Rightarrow>
             (case inspect_session cid s of
                (Inl _, s1) \<Rightarrow> (Inl (map_lookup_error ''conversation'' cid e), st\<lparr>cst_store := s1\<rparr>)
              | (Inr i, s1) \<Rightarrow> (Inr (transcript_of (build_conversation i) i), st\<lparr>cst_store := s1\<rparr>))
         | (Inr records, s) \<Rightarrow>
             if records = [] then
               (case inspect_session cid s of
                  (Inl _, s1) \<Rightarrow> (Inl (ValidationError (''conversation not found: '' @ cid)), st\<lparr>cst_store := s1\<rparr>)
                | (Inr i, s1) \<Rightarrow> (Inr (transcript_of (build_conversation i) i), st\<lparr>cst_store := s1\<rparr>))
             else and_then (build_from_records cid records (st\<lparr>cst_store := s\<rparr>)) (\<lambda>(c, i) st1. (Inr (transcript_of c i), st1))))"


section \<open>Replies\<close>

text \<open>The history a reply carries: what users and assistants said, with a blank line between two messages.\<close>

definition context_entry :: "conversation_message \<Rightarrow> string list" where
  "context_entry m =
     (let content = trim_space (msg_content m) in
      if content = [] then []
      else if msg_role m = role_user then [''User:'' @ newline @ content @ newline]
      else if msg_role m = role_assistant then [''Assistant:'' @ newline @ content @ newline]
      else [])"

definition conversation_context :: "conversation_message list \<Rightarrow> string" where
  "conversation_context ms =
     (let entries = concat (map context_entry ms) in
      if entries = [] then [] else trim_space (''Conversation history:'' @ newline @ join_str newline entries))"

definition history_failed :: string where
  "history_failed =
     [CHR 0xE8, CHR 0x8E, CHR 0xB7, CHR 0xE5, CHR 0x8F, CHR 0x96, CHR 0xE5, CHR 0xAF, CHR 0xB9, CHR 0xE8, CHR 0xAF, CHR 0x9D,
      CHR 0xE5, CHR 0x8E, CHR 0x86, CHR 0xE5, CHR 0x8F, CHR 0xB2, CHR 0xE5, CHR 0xA4, CHR 0xB1, CHR 0xE8, CHR 0xB4, CHR 0xA5]"

definition wrap_chat :: "string \<Rightarrow> 'a chat_result \<Rightarrow> 'a chat_result" where
  "wrap_chat msg r = (case r of (Inl e, st) \<Rightarrow> (Inl (WrappedError msg e), st) | (Inr a, st) \<Rightarrow> (Inr a, st))"

definition last_terminal :: "conversation_record list \<Rightarrow> conversation_record option" where
  "last_terminal records = find (\<lambda>r. is_terminal_status (sess_status (cr_session r))) (rev records)"

definition reply_description :: "conversation_message list \<Rightarrow> string \<Rightarrow> string" where
  "reply_description ms content =
     (let context = conversation_context ms in
      if context = [] then content
      else context @ newline @ newline @ ''Current user message:'' @ newline @ content)"

definition submit_reply :: "chat_env \<Rightarrow> string \<Rightarrow> string \<Rightarrow> chat_state \<Rightarrow> chat_service_response chat_result" where
  "submit_reply env target text st =
     (if blank target then (Inl (ValidationError ''conversation id is required''), st)
      else if blank text then (Inl (ValidationError ''input content is required''), st)
      else
        (let i = trim_space target; content = trim_space text in
         and_then (wrap_chat history_failed (get_transcript i st)) (\<lambda>tr st1.
           (let cid = (if ct_conversation_id (trn_chat tr) = [] then i else ct_conversation_id (trn_chat tr)) in
            and_then (on_store (map_lookup_error ''conversation'' cid) (list_conversation_sessions cid) st1) (\<lambda>records st2.
              if records = [] then (Inl (ValidationError (''conversation not found: '' @ cid)), st2)
              else case last_terminal records of
                None \<Rightarrow> (Inl (ConflictError ''conversation is already running''), st2)
              | Some parent \<Rightarrow>
                  (let sid = new_session_id env; turn = cr_turn_index parent + 1;
                       t = new_task env (reply_description (ct_messages (trn_chat tr)) content) content
                             (category_or_default (cr_task parent)) in
                   and_then (save_new_session env t st2) (\<lambda>_ st3.
                   and_then (on_store (store_failed ''save conversation metadata'')
                       (save_conversation_state sid cid (sess_id (cr_session parent)) turn) st3) (\<lambda>_ st4.
                   and_then (manager_start env \<lparr>csq_session_id = sid, csq_task = t, csq_max_steps = 0, csq_verify_mode = [],
                       csq_created_at = ce_now env\<rparr> st4) (\<lambda>_ st5.
                     (Inr (chat_created cid sid turn t), st5))))))))))"

record turn_submission =
  ts_conversation_id :: string
  ts_session_id :: string
  ts_content :: string
  ts_submitted_at :: gotime

text \<open>\<open>now\<close> is the time when the reply has been submitted.\<close>

definition submit_turn ::
  "chat_env \<Rightarrow> gotime \<Rightarrow> turn_submission \<Rightarrow> chat_state \<Rightarrow> (chat_service_response \<times> turn_submission) chat_result" where
  "submit_turn env now sub st =
     and_then (submit_reply env (first_non_empty [trim_space (ts_conversation_id sub), trim_space (ts_session_id sub)]) (ts_content sub) st)
       (\<lambda>r st1. (Inr (r, sub\<lparr>ts_submitted_at := (if ts_submitted_at sub = 0 then now else ts_submitted_at sub),
          ts_conversation_id := crs_conversation_id r, ts_session_id := crs_session_id r\<rparr>), st1))"

section \<open>Resuming\<close>

fun provenance_conflicts :: "string \<Rightarrow> plugin_metadata list \<Rightarrow> string list" where
  "provenance_conflicts selected [] = []"
| "provenance_conflicts selected (p # ps) =
     (if pl_family p = ''provider'' \<and> \<not> blank (pl_logical_id p) \<and> selected \<noteq> [] \<and> selected \<noteq> trim_space (pl_logical_id p)
      then [''provider plugin '' @ quote_str (trim_space (pl_logical_id p)) @ '' was used but current configuration uses '' @ quote_str selected]
      else []) @ provenance_conflicts selected ps"

definition validate_provenance_for_resume :: "chat_env \<Rightarrow> provenance option \<Rightarrow> string list" where
  "validate_provenance_for_resume env p =
     (case (p, ce_builder env) of
        (Some q, Some _) \<Rightarrow> provenance_conflicts (cf_plugin_provider (ce_config env)) (pv_plugins (pv_normalize q))
      | _ \<Rightarrow> [])"

definition running_actor :: "string option \<Rightarrow> bool" where
  "running_actor a \<longleftrightarrow> a = Some ''pending'' \<or> a = Some ''running''"

definition manager_missing :: chat_error where
  "manager_missing = OtherError (Message ''chat service session manager is not initialized'')"

definition resume_conversation :: "chat_env \<Rightarrow> string \<Rightarrow> chat_state \<Rightarrow> chat_service_response chat_result" where
  "resume_conversation env target st =
     (case ce_manager env of
        None \<Rightarrow> (Inl manager_missing, st)
      | Some lookup \<Rightarrow>
          let sid = trim_space target in
          if sid = [] then (Inl (ValidationError ''session_id is required''), st)
          else if running_actor (lookup sid) then (Inl (ConflictError ''session already running''), st)
          else
            and_then (on_store (map_lookup_error ''session'' sid) (inspect_session sid) st) (\<lambda>i st1.
              let errs = validate_provenance_for_resume env (sess_provenance (is_session i)) in
              if is_terminal_status (sess_status (is_session i)) then (Inl (ConflictError ''session is not resumable''), st1)
              else if errs \<noteq> [] then (Inl (ConflictError (''session cannot be resumed: '' @ join_str ''; '' errs)), st1)
              else
                let t0 = is_task i;
                    t1 = (if task_id t0 = [] then t0\<lparr>task_id := sid\<rparr> else t0);
                    t = (if task_created_at t1 = 0 then t1\<lparr>task_created_at := sess_created_at (is_session i)\<rparr> else t1) in
                and_then (manager_start env \<lparr>csq_session_id = sid, csq_task = t, csq_max_steps = 0, csq_verify_mode = [],
                    csq_created_at = sess_created_at (is_session i)\<rparr> st1) (\<lambda>_ st2.
                  (Inr ((chat_created sid sid 0 t)\<lparr>crs_status := ''running''\<rparr>), st2))))"

text \<open>The actor that streams a session, if it has one.\<close>

definition validate_stream_session :: "chat_env \<Rightarrow> string \<Rightarrow> chat_state \<Rightarrow> string option chat_result" where
  "validate_stream_session env target st =
     (let sid = trim_space target in
      if sid = [] then (Inl (ValidationError ''session id is required''), st)
      else case ce_manager env of
        None \<Rightarrow> (Inl manager_missing, st)
      | Some lookup \<Rightarrow>
          if lookup sid \<noteq> None then (Inr (lookup sid), st)
          else
            and_then (on_store (map_lookup_error ''session'' sid) (inspect_session sid) st) (\<lambda>i st1.
              if is_terminal_status (sess_status (is_session i)) then (Inr None, st1)
              else (Inl (ConflictError ''session stream is not active''), st1)))"

section \<open>Lists\<close>

record conversation_summary =
  csm_conversation_id :: string
  csm_session_id :: string
  csm_status :: string
  csm_task :: string
  csm_task_type :: string
  csm_created_at :: gotime
  csm_updated_at :: gotime

record chat_list =
  cl_conversations :: "conversation_summary list"
  cl_total :: int
  cl_page :: int
  cl_page_size :: int

definition summary_for :: "string \<Rightarrow> session_summary \<Rightarrow> conversation_summary" where
  "summary_for cid s =
     \<lparr>csm_conversation_id = cid, csm_session_id = ssu_session_id s, csm_status = api_session_status (ssu_status s),
      csm_task = ssu_task s, csm_task_type = ssu_task_type s, csm_created_at = ssu_created_at s, csm_updated_at = ssu_updated_at s\<rparr>"

definition list_conversations :: "list_params \<Rightarrow> chat_state \<Rightarrow> chat_list chat_result" where
  "list_conversations p st =
     and_then (on_store (store_failed ''list sessions'') (list_sessions p) st) (\<lambda>r st1.
       (Inr \<lparr>cl_conversations = map (\<lambda>s. summary_for (ssu_session_id s) s) (lr_sessions r), cl_total = lr_total r,
          cl_page = lr_page r, cl_page_size = lr_page_size r\<rparr>, st1))"

definition newer_summary :: "conversation_summary \<Rightarrow> conversation_summary \<Rightarrow> bool" where
  "newer_summary a b \<longleftrightarrow> csm_created_at a > csm_created_at b \<or> (csm_created_at a = csm_created_at b \<and> csm_session_id a > csm_session_id b)"

fun group_by_conversation ::
  "session_summary list \<Rightarrow> (string \<times> conversation_summary) list \<Rightarrow> (string \<times> conversation_summary) list" where
  "group_by_conversation [] acc = acc"
| "group_by_conversation (s # ss) acc =
     (let cid = first_non_empty [ssu_conversation_id s, ssu_session_id s]; new = summary_for cid s in
      group_by_conversation ss
        (case map_of acc cid of
           None \<Rightarrow> AList.update cid new acc
         | Some old \<Rightarrow> if newer_summary new old then AList.update cid new acc else acc))"

definition list_chats :: "list_params \<Rightarrow> chat_state \<Rightarrow> chat_list chat_result" where
  "list_chats p st =
     and_then (on_store (store_failed ''list sessions'') (list_sessions p) st) (\<lambda>r st1.
       (let groups = group_by_conversation (lr_sessions r) [] in
        (Inr \<lparr>cl_conversations = rev (sort_key (\<lambda>c. (csm_created_at c, csm_conversation_id c)) (map snd groups)),
           cl_total = int (length groups), cl_page = lr_page r, cl_page_size = lr_page_size r\<rparr>, st1)))"

section \<open>What the manager runs\<close>

text \<open>The settings of the engine a request is run with; an engine factory is a builder of its own.\<close>

definition new_engine :: "chat_env \<Rightarrow> int \<Rightarrow> string \<Rightarrow> (go_error, int \<times> string) result" where
  "new_engine env max_steps verify_mode =
     (case ce_builder env of
        None \<Rightarrow> Inl (Message ''server runtime builder is not initialized'')
      | Some b \<Rightarrow>
          (case eb_executor_error b of
             Some e \<Rightarrow> Inl e
           | None \<Rightarrow>
               if \<not> eb_has_model b then Inl (Message ''server runtime model is not configured'')
               else Inr (if max_steps \<le> 0 then eb_default_max_steps b else max_steps,
                         if blank verify_mode then rt_verify_mode (cf_runtime (ce_config env)) else verify_mode)))"

text \<open>The finalizer of an actor: \<open>err\<close> and \<open>status\<close> are the runner's; \<open>now\<close> is the time when it runs.\<close>

definition persist_fatal ::
  "gotime \<Rightarrow> gotime \<Rightarrow> string \<Rightarrow> go_error option \<Rightarrow> session_status \<Rightarrow> session_db option \<Rightarrow> session_db option" where
  "persist_fatal created now sid err status s =
     (let reason = (case err of None \<Rightarrow> [] | Some e \<Rightarrow> trim_space (error_text e));
          s1 = snd (save_diagnostics sid \<lparr>sdi_request_id = [], sdi_failure_reason = reason, sdi_finalized = True\<rparr> s) in
      if err \<noteq> None \<and> status = []
      then snd (store_save_session \<lparr>sess_id = sid, sess_task_id = sid, sess_status = ss_fatal_error, sess_provenance = None,
             sess_created_at = created, sess_updated_at = now\<rparr> s1)
      else s1)"

end
