(* ===== verification/Session_Store_Properties.thy ===== *)
theory Session_Store_Properties
  imports Session_Store
begin

text \<open>
  What the store of sessions guarantees: its rows can be read, a session comes back as it was saved, and
  the steps that cannot be read back.
\<close>

section \<open>Statements\<close>

lemma and_then_simps [simp]: "and_then (Inl e, s) f = (Inl e, s)" "and_then (Inr a, s) f = f a s"
  by (simp_all add: and_then_def)

lemma wrapped_simps [simp]:
  "wrapped msg (Inr a, d) = (Inr a, d)" "wrapped msg (Inl e, d) = (Inl (Wrapped (msg @ '': '' @ error_text e) e), d)"
  by (simp_all add: wrapped_def)

lemma with_db_Some: "with_db f (Some d) = (fst (f d), Some (snd (f d)))"
  by (simp add: with_db_def split: prod.split)

lemma with_db_None [simp]: "with_db f None = (Inl session_store_nil, None)"
  by (simp add: with_db_def)

lemma and_then_Inr: "and_then r f = (Inr b, s) \<longleftrightarrow> (\<exists>a s1. r = (Inr a, s1) \<and> f a s1 = (Inr b, s))"
  by (cases r; cases "fst r") (auto simp: and_then_def)

lemma wrapped_Inr: "wrapped msg r = (Inr a, d) \<longleftrightarrow> r = (Inr a, d)"
  by (cases r; cases "fst r") (auto simp: wrapped_def)

text \<open>The tables, which only a statement that has not failed changes.\<close>

definition same_tables :: "session_db \<Rightarrow> session_db \<Rightarrow> bool" where
  "same_tables d d' \<longleftrightarrow> sdb_sessions d' = sdb_sessions d \<and> sdb_plans d' = sdb_plans d \<and> sdb_steps d' = sdb_steps d \<and>
     sdb_next_step d' = sdb_next_step d"

lemma same_tables_refl [simp]: "same_tables d d"
  by (simp add: same_tables_def)

lemma same_tables_trans [trans]: "same_tables a b \<Longrightarrow> same_tables b c \<Longrightarrow> same_tables a c"
  by (simp add: same_tables_def)

lemma statement_tables: "same_tables d (snd (statement d))"
  by (auto simp: statement_def same_tables_def split: list.split option.split)

lemma statement_same: "statement d = (r, d1) \<Longrightarrow> same_tables d d1"
  using statement_tables[of d] by simp

lemma statement_ok: "sdb_faults d = [] \<Longrightarrow> statement d = (Inr (), d)"
  by (simp add: statement_def)

lemma find_session_same: "same_tables d d1 \<Longrightarrow> find_session sid d1 = find_session sid d"
  by (simp add: find_session_def same_tables_def)

lemma load_metadata_same: "load_session_metadata sid d = (r, d1) \<Longrightarrow> same_tables d d1"
  using statement_tables[of d]
  by (auto simp: load_session_metadata_def and_then_def split: if_splits prod.splits sum.splits option.splits)

section \<open>What is stored can be read\<close>

definition metadata_ok :: "session_metadata \<Rightarrow> bool" where
  "metadata_ok m \<longleftrightarrow> pv_ok (smd_provenance m)"

lemma pv_marshal_ok: "pv_marshal p = Inr n \<Longrightarrow> pv_validate n = None \<and> n = pv_normalize p"
  by (clarsimp simp: pv_marshal_def Let_def split: option.splits)

lemma pv_unmarshal_valid: "pv_unmarshal p = (case pv_validate p of None \<Rightarrow> Inr (pv_normalize p) | Some e \<Rightarrow> Inl e)"
  by (simp add: pv_unmarshal_def Let_def)

lemma marshal_metadata_ok: "marshal_metadata m = Inr m1 \<Longrightarrow> metadata_ok m1"
  using pv_marshal_ok by (auto simp: marshal_metadata_def metadata_ok_def pv_ok_def split: option.splits sum.splits)

lemma marshal_provenance_ok: "marshal_provenance p = Inr q \<Longrightarrow> pv_ok q"
  using pv_marshal_ok by (auto simp: marshal_provenance_def pv_ok_def split: option.splits sum.splits)

lemma parse_metadata_readable: "(\<exists>m. parse_metadata c = Inr m) \<longleftrightarrow> (\<forall>m. c = Some m \<longrightarrow> metadata_ok m)"
  by (auto simp: parse_metadata_def metadata_ok_def pv_ok_def Let_def pv_unmarshal_valid split: option.splits)

lemma parse_provenance_readable: "(\<exists>q. parse_provenance p = Inr q) \<longleftrightarrow> pv_ok p"
  by (auto simp: parse_provenance_def pv_ok_def pv_unmarshal_valid split: option.splits)

definition session_row_ok :: "session_row \<Rightarrow> bool" where
  "session_row_ok r \<longleftrightarrow> (\<forall>m. sn_config r = Some m \<longrightarrow> metadata_ok m) \<and> pv_ok (sn_provenance r)"

definition db_ok :: "session_db \<Rightarrow> bool" where
  "db_ok d \<longleftrightarrow> distinct (map sn_id (sdb_sessions d)) \<and> (\<forall>r \<in> set (sdb_sessions d). session_row_ok r) \<and>
     (\<forall>w \<in> set (sdb_steps d). pv_ok (sw_provenance w)) \<and>
     (\<forall>p \<in> set (sdb_plans d). \<forall>x \<in> set (pr_steps p). pv_ok (step_provenance x))"

lemma db_ok_same: "same_tables d d1 \<Longrightarrow> db_ok d1 = db_ok d"
  by (simp add: db_ok_def same_tables_def)

text \<open>The stores that sequences of calls leave behind, whatever fails.\<close>

inductive store_reachable :: "session_db \<Rightarrow> bool" where
  empty: "sdb_sessions d = [] \<Longrightarrow> sdb_plans d = [] \<Longrightarrow> sdb_steps d = [] \<Longrightarrow> store_reachable d"
| session: "store_reachable d \<Longrightarrow> store_save_session s (Some d) = (r, Some d1) \<Longrightarrow> store_reachable d1"
| task: "store_reachable d \<Longrightarrow> save_task sid t (Some d) = (r, Some d1) \<Longrightarrow> store_reachable d1"
| conversation: "store_reachable d \<Longrightarrow> save_conversation_state sid cid parent turn (Some d) = (r, Some d1) \<Longrightarrow> store_reachable d1"
| diagnostics: "store_reachable d \<Longrightarrow> save_diagnostics sid x (Some d) = (r, Some d1) \<Longrightarrow> store_reachable d1"
| plan: "store_reachable d \<Longrightarrow> store_save_plan now p (Some d) = (r, Some d1) \<Longrightarrow> store_reachable d1"
| step: "store_reachable d \<Longrightarrow> store_append_step now sid s (Some d) = (r, Some d1) \<Longrightarrow> store_reachable d1"

text \<open>Every writer leaves the tables as they were, or writes the one row it is about.\<close>

lemma save_session_writes:
  assumes "save_session_body s d = (r, d1)"
  shows "same_tables d d1 \<or> (\<exists>m p d2. r = Inr () \<and> metadata_ok m \<and> pv_ok p \<and> same_tables d d2 \<and> d1 = upsert_session (row_of_session m p s) d2)"
proof -
  obtain r0 d0 where 0: "load_session_metadata (sess_id s) d = (r0, d0)" by fastforce
  note same0 = load_metadata_same[OF 0]
  show ?thesis
  proof (cases r0)
    case (Inl e)
    then show ?thesis using assms 0 same0 by (simp add: save_session_body_def)
  next
    case (Inr m)
    let ?p = "merge_stored_provenance (smd_provenance m) (sess_provenance s)"
    obtain r2 d2 where st: "statement d0 = (r2, d2)" by fastforce
    have same2: "same_tables d d2" using same0 statement_same[OF st] by (rule same_tables_trans)
    show ?thesis
    proof (cases "marshal_metadata (m\<lparr>smd_provenance := ?p\<rparr>)")
      case m1: (Inl e)
      then show ?thesis using assms 0 Inr same0 by (simp add: save_session_body_def)
    next
      case m1: (Inr m1)
      show ?thesis
      proof (cases "marshal_provenance ?p")
        case (Inl e)
        then show ?thesis using assms 0 Inr m1 same0 by (simp add: save_session_body_def)
      next
        case q: (Inr q)
        show ?thesis using assms 0 Inr m1 q st same2 marshal_metadata_ok[OF m1] marshal_provenance_ok[OF q]
          by (cases r2) (auto simp: save_session_body_def)
      qed
    qed
  qed
qed

lemma change_metadata_writes:
  assumes "change_metadata what f sid d = (r, d1)"
  shows "same_tables d d1 \<or> (\<exists>m d2. r = Inr () \<and> metadata_ok m \<and> same_tables d d2 \<and> d1 = update_config sid m d2)"
proof -
  obtain r0 d0 where 0: "load_session_metadata sid d = (r0, d0)" by fastforce
  note same0 = load_metadata_same[OF 0]
  show ?thesis
  proof (cases r0)
    case (Inl e)
    then show ?thesis using assms 0 same0 by (simp add: change_metadata_def)
  next
    case (Inr m)
    obtain r2 d2 where st: "statement d0 = (r2, d2)" by fastforce
    have same2: "same_tables d d2" using same0 statement_same[OF st] by (rule same_tables_trans)
    show ?thesis
    proof (cases "marshal_metadata (f m)")
      case m1: (Inl e)
      then show ?thesis using assms 0 Inr same0 by (simp add: change_metadata_def)
    next
      case m1: (Inr m1)
      then show ?thesis using assms 0 Inr st same2 marshal_metadata_ok[OF m1]
        by (cases r2) (auto simp: change_metadata_def)
    qed
  qed
qed

lemma upsert_session_ok:
  assumes "db_ok d" and "session_row_ok r"
  shows "db_ok (upsert_session r d)"
proof (cases "find_session (sn_id r) d")
  case None
  then show ?thesis using assms by (auto simp: upsert_session_def db_ok_def find_session_def find_None_iff)
next
  case (Some x)
  have "map sn_id (map (\<lambda>x. if sn_id x = sn_id r then r\<lparr>sn_created_at := sn_created_at x\<rparr> else x) (sdb_sessions d)) = map sn_id (sdb_sessions d)"
    by simp
  then show ?thesis using Some assms by (auto simp: upsert_session_def db_ok_def session_row_ok_def simp del: map_map)
qed

lemma update_config_ok: "db_ok d \<Longrightarrow> metadata_ok m \<Longrightarrow> db_ok (update_config sid m d)"
  by (auto simp: update_config_def db_ok_def session_row_ok_def comp_def if_distrib cong: if_cong)

lemma row_of_session_ok: "metadata_ok m \<Longrightarrow> pv_ok p \<Longrightarrow> session_row_ok (row_of_session m p s)"
  by (simp add: row_of_session_def session_row_ok_def Let_def nullable_metadata_def)

lemma change_metadata_ok: "db_ok d \<Longrightarrow> with_db (change_metadata what f sid) (Some d) = (r, Some d1) \<Longrightarrow> db_ok d1"
  using change_metadata_writes[of what f sid d] by (auto simp: with_db_def db_ok_same update_config_ok split: prod.splits)

lemma each_Inr: "each f xs = Inr ys \<Longrightarrow> list_all2 (\<lambda>x y. f x = Inr y) xs ys"
  by (induction xs arbitrary: ys) (auto split: sum.splits)

lemma each_ok_iff: "is_ok (each f xs) \<longleftrightarrow> (\<forall>x \<in> set xs. is_ok (f x))"
  by (induction xs) (auto simp: is_ok_iff split: sum.splits)

lemma encoded_steps_ok: "each encode_step xs = Inr ys \<Longrightarrow> \<forall>y \<in> set ys. pv_ok (step_provenance y)"
proof
  fix y assume "each encode_step xs = Inr ys" "y \<in> set ys"
  then obtain x where "encode_step x = Inr y"
    using each_Inr[of encode_step xs ys] by (auto simp: list_all2_conv_all_nth in_set_conv_nth)
  then show "pv_ok (step_provenance y)"
    using pv_marshal_ok by (auto simp: encode_step_def pv_ok_def split: option.splits sum.splits)
qed

lemma save_plan_writes:
  assumes "store_save_plan now p (Some d) = (r, Some d1)"
  shows "same_tables d d1 \<or> (\<exists>row d2. same_tables d d2 \<and> d1 = upsert_plan row d2 \<and> (\<forall>x \<in> set (pr_steps row). pv_ok (step_provenance x)))"
proof -
  obtain r2 d2 where st: "statement d = (r2, d2)" by fastforce
  show ?thesis
  proof (cases "each encode_step (plan_steps p)")
    case (Inl e)
    then show ?thesis using assms by (simp add: store_save_plan_def with_db_def)
  next
    case (Inr steps)
    show ?thesis
    proof (cases r2)
      case r2: (Inl e)
      then show ?thesis using assms st statement_same[OF st] Inr by (simp add: store_save_plan_def with_db_def)
    next
      case r2: (Inr u)
      then show ?thesis using assms st statement_same[OF st] encoded_steps_ok[OF Inr] Inr
        by (intro disjI2 exI[of _ d2] exI conjI) (auto simp: store_save_plan_def with_db_def)
    qed
  qed
qed

lemma append_step_writes:
  assumes "store_append_step now sid s (Some d) = (r, Some d1)"
  shows "(same_tables d d1 \<and> r \<noteq> Inr ()) \<or> (\<exists>q d2. r = Inr () \<and> same_tables d d2 \<and> pv_ok q \<and> d1 = insert_step now sid s q d2)"
proof -
  obtain r2 d2 where st: "statement d = (r2, d2)" by fastforce
  show ?thesis
  proof (cases "marshal_provenance (step_provenance s)")
    case (Inl e)
    then show ?thesis using assms by (auto simp: store_append_step_def with_db_def)
  next
    case (Inr q)
    then show ?thesis using assms st statement_same[OF st] marshal_provenance_ok[OF Inr]
      by (cases r2) (auto simp: store_append_step_def with_db_def)
  qed
qed

lemma reachable_db_ok: "store_reachable d \<Longrightarrow> db_ok d"
proof (induction rule: store_reachable.induct)
  case (empty d)
  then show ?case by (simp add: db_ok_def)
next
  case (session d s r d1)
  then have "save_session_body s d = (r, d1)" by (auto simp: store_save_session_def with_db_def split: prod.splits)
  from save_session_writes[OF this] show ?case
    using session.IH by (auto simp: db_ok_same intro: upsert_session_ok row_of_session_ok)
next
  case (task d sid t r d1)
  then show ?case using change_metadata_ok by (simp add: save_task_def)
next
  case (conversation d sid cid parent turn r d1)
  then show ?case using change_metadata_ok by (simp add: save_conversation_state_def)
next
  case (diagnostics d sid x r d1)
  then show ?case using change_metadata_ok by (simp add: save_diagnostics_def)
next
  case (plan d now p r d1)
  from save_plan_writes[OF plan.hyps(2)] show ?case
  proof (elim disjE exE conjE)
    fix row d2 assume "same_tables d d2" "d1 = upsert_plan row d2" "\<forall>x \<in> set (pr_steps row). pv_ok (step_provenance x)"
    moreover from this have "db_ok d2" using plan.IH by (simp add: db_ok_same)
    ultimately show "db_ok d1" by (auto simp: upsert_plan_def db_ok_def)
  qed (use plan.IH in \<open>simp add: db_ok_same\<close>)
next
  case (step d now sid s r d1)
  from append_step_writes[OF step.hyps(2)] show ?case
  proof (elim disjE exE conjE)
    fix q d2 assume "same_tables d d2" "d1 = insert_step now sid s q d2" "pv_ok q"
    moreover from this have "db_ok d2" using step.IH by (simp add: db_ok_same)
    ultimately show "db_ok d1" by (auto simp: insert_step_def db_ok_def)
  qed (use step.IH in \<open>simp add: db_ok_same\<close>)
qed

section \<open>Inspecting\<close>

lemma found_row_ok: "db_ok d \<Longrightarrow> find_session sid d = Some r \<Longrightarrow> session_row_ok r \<and> sn_id r = sid"
  by (auto simp: find_session_def find_Some_iff db_ok_def)

lemma load_record:
  assumes "db_ok d" and "find_session sid d = Some r" and "sdb_faults d = []"
  shows "\<exists>p m. load_session_record sid d =
     (Inr (\<lparr>sess_id = sid, sess_task_id = sn_task_id r, sess_status = sn_status r, sess_provenance = p,
            sess_created_at = sn_created_at r, sess_updated_at = sn_updated_at r\<rparr>, m, lifecycle_from_row r), d) \<and>
     parse_metadata (sn_config r) = Inr m"
proof -
  have ok: "session_row_ok r" "sn_id r = sid" using found_row_ok[OF assms(1,2)] by simp_all
  obtain m where m: "parse_metadata (sn_config r) = Inr m"
    using ok(1) parse_metadata_readable unfolding session_row_ok_def by metis
  obtain q where q: "parse_provenance (sn_provenance r) = Inr q"
    using ok(1) parse_provenance_readable unfolding session_row_ok_def by metis
  show ?thesis using assms(2,3) ok(2) m q by (simp add: load_session_record_def statement_ok)
qed

lemma decode_ok: "is_ok (decode_verification v) \<longleftrightarrow> vr_validate v = None"
  by (simp add: decode_verification_def vr_unmarshal_def Let_def split: option.split)

lemma step_row_readable: "pv_ok (sw_provenance w) \<Longrightarrow> is_ok (load_step_row sid w) \<longleftrightarrow> vr_validate (sw_verification w) = None"
  using parse_provenance_readable[of "sw_provenance w"]
  by (auto simp: load_step_row_def simp flip: decode_ok split: sum.splits)

lemma steps_readable:
  assumes "db_ok d" and "sdb_faults d = []"
  shows "is_ok (fst (load_steps sid d)) \<longleftrightarrow> (\<forall>w \<in> set (session_steps sid d). vr_validate (sw_verification w) = None)"
    and "snd (load_steps sid d) = d"
proof -
  have "\<forall>w \<in> set (session_steps sid d). pv_ok (sw_provenance w)"
    using assms(1) by (auto simp: session_steps_def db_ok_def)
  then show "is_ok (fst (load_steps sid d)) \<longleftrightarrow> (\<forall>w \<in> set (session_steps sid d). vr_validate (sw_verification w) = None)"
    using assms(2) by (simp add: load_steps_def statement_ok each_ok_iff step_row_readable)
  show "snd (load_steps sid d) = d" using assms(2) by (simp add: load_steps_def statement_ok)
qed

lemma plan_step_readable: "pv_ok (step_provenance x) \<Longrightarrow> is_ok (decode_step x) \<longleftrightarrow> vr_validate (step_verification x) = None"
  by (auto simp: decode_step_def pv_ok_def pv_unmarshal_valid simp flip: decode_ok split: sum.splits option.splits)

lemma latest_plan_in: "latest_plan tid d = Some r \<Longrightarrow> r \<in> set (sdb_plans d)"
proof -
  assume l: "latest_plan tid d = Some r"
  then have "r \<in> set (rev (sort_key (\<lambda>r. (pr_updated_at r, pr_created_at r)) (filter (\<lambda>r. pr_task_id r = tid) (sdb_plans d))))"
    by (simp only: latest_plan_def split: list.splits) simp_all
  then show ?thesis by simp
qed

text \<open>The plan is found, missing, or cannot be decoded.\<close>

lemma plan_readable:
  assumes "db_ok d" and "sdb_faults d = []"
  shows "(case load_latest_plan tid d of (Inl e, d3) \<Rightarrow> lookup_missing e \<or> latest_plan tid d \<noteq> None | (Inr p, d3) \<Rightarrow> True) \<and>
     snd (load_latest_plan tid d) = d \<and>
     (is_ok (fst (load_latest_plan tid d)) \<longleftrightarrow>
        (\<exists>p. latest_plan tid d = Some p \<and> (\<forall>x \<in> set (pr_steps p). vr_validate (step_verification x) = None)))"
proof (cases "latest_plan tid d")
  case None
  then show ?thesis using assms(2)
    by (simp add: load_latest_plan_def statement_ok lookup_missing_def sql_no_rows_def)
next
  case (Some p)
  have "\<forall>x \<in> set (pr_steps p). pv_ok (step_provenance x)"
    using assms(1) latest_plan_in[OF Some] by (simp add: db_ok_def)
  then have "is_ok (each decode_step (pr_steps p)) \<longleftrightarrow> (\<forall>x \<in> set (pr_steps p). vr_validate (step_verification x) = None)"
    by (simp add: each_ok_iff plan_step_readable)
  then show ?thesis using Some assms(2)
    by (cases "each decode_step (pr_steps p)") (auto simp: load_latest_plan_def statement_ok is_ok_def)
qed


definition readable_steps :: "string \<Rightarrow> session_db \<Rightarrow> bool" where
  "readable_steps sid d \<longleftrightarrow> (\<forall>w \<in> set (session_steps sid d). vr_validate (sw_verification w) = None)"

definition readable_plan :: "string \<Rightarrow> session_db \<Rightarrow> bool" where
  "readable_plan tid d \<longleftrightarrow> (\<forall>p. latest_plan tid d = Some p \<longrightarrow> (\<forall>x \<in> set (pr_steps p). vr_validate (step_verification x) = None))"

lemma loaded_indexes: "each (load_step_row sid) ws = Inr xs \<Longrightarrow> map step_index xs = map sw_step_index ws"
proof (induction ws arbitrary: xs)
  case (Cons w ws)
  then show ?case by (auto simp: load_step_row_def split: sum.splits)
qed simp

lemma inspect_cases:
  assumes "db_ok d" and "sdb_faults d = []" and "find_session sid d = Some r" and "readable_plan (sn_task_id r) d"
  shows "if readable_steps sid d
     then \<exists>i. inspect_session sid (Some d) = (Inr i, Some d) \<and>
       sess_id (is_session i) = sid \<and> sess_task_id (is_session i) = sn_task_id r \<and> sess_status (is_session i) = sn_status r \<and>
       sess_created_at (is_session i) = sn_created_at r \<and> sess_updated_at (is_session i) = sn_updated_at r \<and>
       is_lifecycle i = lifecycle_from_row r \<and> map step_index (is_steps i) = map sw_step_index (session_steps sid d) \<and>
       (\<exists>m. parse_metadata (sn_config r) = Inr m \<and>
         is_task i = task_of_record (is_session i) (is_plan i) (smd_task m) \<and>
         is_plan i = (case load_latest_plan (sn_task_id r) d of (Inl e, _) \<Rightarrow> zero_plan\<lparr>plan_task_id := sn_task_id r\<rparr> | (Inr p, _) \<Rightarrow> p))
     else \<exists>e. inspect_session sid (Some d) = (Inl e, Some d)"
proof -
  obtain p m where rec: "load_session_record sid d =
     (Inr (\<lparr>sess_id = sid, sess_task_id = sn_task_id r, sess_status = sn_status r, sess_provenance = p,
            sess_created_at = sn_created_at r, sess_updated_at = sn_updated_at r\<rparr>, m, lifecycle_from_row r), d)"
    and m: "parse_metadata (sn_config r) = Inr m"
    using load_record[OF assms(1,3,2)] by blast
  note steps = steps_readable[OF assms(1,2), of sid]
  have ls: "load_steps sid d = (each (load_step_row sid) (session_steps sid d), d)"
    using assms(2) by (simp add: load_steps_def statement_ok)
  obtain pr where lp: "load_latest_plan (sn_task_id r) d = (pr, d)" and missing: "\<And>e. pr = Inl e \<Longrightarrow> lookup_missing e"
  proof -
    have "snd (load_latest_plan (sn_task_id r) d) = d" using plan_readable[OF assms(1,2)] by blast
    then obtain pr where lp: "load_latest_plan (sn_task_id r) d = (pr, d)" by (metis prod.collapse)
    moreover have "lookup_missing e" if "pr = Inl e" for e
      using plan_readable[OF assms(1,2), of "sn_task_id r"] assms(4) lp that by (auto simp: readable_plan_def)
    ultimately show ?thesis using that by blast
  qed
  show ?thesis
  proof (cases "each (load_step_row sid) (session_steps sid d)")
    case (Inl e)
    then have "\<not> readable_steps sid d" using steps(1) ls by (simp add: readable_steps_def)
    then show ?thesis using rec ls Inl by (simp add: inspect_session_def with_db_def)
  next
    case (Inr xs)
    then have "readable_steps sid d" using steps(1) ls by (simp add: readable_steps_def)
    then show ?thesis using rec ls Inr lp missing m loaded_indexes[OF Inr]
      by (cases pr) (simp_all add: inspect_session_def with_db_def)
  qed
qed

definition sample_session :: session where
  "sample_session = \<lparr>sess_id = ''s'', sess_task_id = ''s'', sess_status = ss_success, sess_provenance = None, sess_created_at = 3, sess_updated_at = 5\<rparr>"

definition sample_step :: "verification_result \<Rightarrow> step" where
  "sample_step v = \<lparr>step_index = 1, step_action = \<lparr>act_type = at_complete, act_summary = ''done'', act_tool_call = None, act_response = []\<rparr>,
     step_observation = \<lparr>obs_summary = ''done'', obs_tool_result = None, obs_final_response = ''ok'', obs_evidence = None\<rparr>,
     step_verification = v, step_provenance = None\<rparr>"

definition sample_db :: session_db where
  "sample_db = the (snd (store_save_session sample_session (Some empty_db)))"

lemma sample_saved: "store_save_session sample_session (Some empty_db) = (Inr (), Some sample_db)"
  by code_simp

lemma sample_reachable: "store_reachable empty_db" "store_reachable sample_db"
proof -
  show e: "store_reachable empty_db" by (rule empty) (simp_all add: empty_db_def)
  show "store_reachable sample_db" by (rule session[OF e sample_saved])
qed

lemma sample_facts: "sdb_faults empty_db = []" "sdb_faults sample_db = []" "find_session ''s'' sample_db \<noteq> None"
  "session_steps ''s'' empty_db = []" "latest_plan t empty_db = None" "session_steps ''s'' sample_db = []" "latest_plan t sample_db = None"
proof -
  show e: "sdb_faults empty_db = []" "session_steps ''s'' empty_db = []" "latest_plan t empty_db = None"
    by (simp_all add: empty_db_def session_steps_def latest_plan_def)
  show "sdb_faults sample_db = []" "find_session ''s'' sample_db \<noteq> None" by code_simp+
  have "sdb_steps sample_db = []" "sdb_plans sample_db = []" by code_simp+
  then show "session_steps ''s'' sample_db = []" "latest_plan t sample_db = None" by (simp_all add: session_steps_def latest_plan_def)
qed



section \<open>Saving and inspecting\<close>

lemma lifecycle_of_row: "lifecycle_from_row (row_of_session m p s) = fst (lifecycle_for (sess_status s))"
  by (simp add: lifecycle_from_row_def row_of_session_def Let_def sqlite_int_def lifecycle_for_def)

lemma find_upserted:
  "find_session (sn_id r) (upsert_session r d) =
     Some (case find_session (sn_id r) d of None \<Rightarrow> r | Some x \<Rightarrow> r\<lparr>sn_created_at := sn_created_at x\<rparr>)"
proof (cases "find_session (sn_id r) d")
  case None
  then have "\<forall>x \<in> set (sdb_sessions d). sn_id x \<noteq> sn_id r" by (auto simp: find_session_def find_None_iff)
  moreover have "find (\<lambda>x. sn_id x = sn_id r) (rows @ [r]) = Some r" if "\<forall>x \<in> set rows. sn_id x \<noteq> sn_id r" for rows
    using that by (induction rows) auto
  ultimately have "find (\<lambda>x. sn_id x = sn_id r) (sdb_sessions d @ [r]) = Some r" by blast
  then show ?thesis using None by (simp add: upsert_session_def find_session_def)
next
  case (Some x)
  have "find (\<lambda>x. sn_id x = sn_id r) (map (\<lambda>x. if sn_id x = sn_id r then r\<lparr>sn_created_at := sn_created_at x\<rparr> else x) rows) =
      map_option (\<lambda>x. r\<lparr>sn_created_at := sn_created_at x\<rparr>) (find (\<lambda>x. sn_id x = sn_id r) rows)" for rows
    by (induction rows) auto
  then show ?thesis using Some by (simp add: upsert_session_def find_session_def)
qed

lemma upsert_other_tables [simp]:
  "session_steps sid (upsert_session r d) = session_steps sid d" "latest_plan tid (upsert_session r d) = latest_plan tid d"
  by (simp_all add: upsert_session_def session_steps_def latest_plan_def)

lemma same_other_tables:
  "same_tables d d1 \<Longrightarrow> session_steps sid d1 = session_steps sid d" "same_tables d d1 \<Longrightarrow> latest_plan tid d1 = latest_plan tid d"
  by (simp_all add: same_tables_def session_steps_def latest_plan_def)

lemma store_save_session_ok:
  assumes "db_ok d" and "store_save_session s (Some d) = (Inr (), Some d1)"
  shows "\<exists>m p d2. same_tables d d2 \<and> d1 = upsert_session (row_of_session m p s) d2"
proof -
  have body: "save_session_body s d = (Inr (), d1)" using assms(2) by (auto simp: store_save_session_def with_db_def split: prod.splits)
  obtain m d0 where 0: "load_session_metadata (sess_id s) d = (Inr m, d0)"
    using body by (auto simp: save_session_body_def and_then_Inr wrapped_Inr)
  then obtain m1 p d2 where "statement d0 = (Inr (), d2)" "d1 = upsert_session (row_of_session m1 p s) d2"
    using body by (auto simp: save_session_body_def and_then_Inr wrapped_Inr Let_def)
  then show ?thesis using load_metadata_same[OF 0] statement_same same_tables_trans by blast
qed

text \<open> A session that has been saved is inspected as it was saved: its task, status and time of update are
  the new ones, its time of creation is that of the first time it was saved, its life cycle is that of the
  status, and its steps are the ones it had.\<close>

theorem saved_session_inspected:
  assumes "store_reachable d" and "store_save_session s (Some d) = (Inr (), Some d1)" and "sdb_faults d1 = []"
    and "readable_steps (sess_id s) d" and "readable_plan (sess_task_id s) d"
  shows "\<exists>i. inspect_session (sess_id s) (Some d1) = (Inr i, Some d1) \<and>
     sess_id (is_session i) = sess_id s \<and> sess_task_id (is_session i) = sess_task_id s \<and>
     sess_status (is_session i) = sess_status s \<and> sess_updated_at (is_session i) = sess_updated_at s \<and>
     sess_created_at (is_session i) =
       (case find_session (sess_id s) d of None \<Rightarrow> sess_created_at s | Some r \<Rightarrow> sn_created_at r) \<and>
     is_lifecycle i = fst (lifecycle_for (sess_status s)) \<and>
     map step_index (is_steps i) = map sw_step_index (session_steps (sess_id s) d)"
proof -
  obtain m p d2 where same: "same_tables d d2" and d1: "d1 = upsert_session (row_of_session m p s) d2"
    using store_save_session_ok[OF reachable_db_ok[OF assms(1)] assms(2)] by blast
  let ?row = "row_of_session m p s"
  have ids: "sn_id ?row = sess_id s" "sn_task_id ?row = sess_task_id s" "sn_status ?row = sess_status s"
    "sn_updated_at ?row = sess_updated_at s" "sn_created_at ?row = sess_created_at s"
    by (simp_all add: row_of_session_def Let_def)
  define row where "row = (case find_session (sess_id s) d of None \<Rightarrow> ?row | Some x \<Rightarrow> ?row\<lparr>sn_created_at := sn_created_at x\<rparr>)"
  have found: "find_session (sess_id s) d1 = Some row"
    using find_upserted[of ?row d2] find_session_same[OF same] by (simp add: d1 ids row_def)
  have row: "sn_task_id row = sess_task_id s" "sn_status row = sess_status s" "sn_updated_at row = sess_updated_at s"
    "sn_created_at row = (case find_session (sess_id s) d of None \<Rightarrow> sess_created_at s | Some r \<Rightarrow> sn_created_at r)"
    "lifecycle_from_row row = fst (lifecycle_for (sess_status s))"
    using ids lifecycle_of_row[of m p s] by (auto simp: row_def lifecycle_from_row_def split: option.splits)
  have tables: "session_steps (sess_id s) d1 = session_steps (sess_id s) d" "latest_plan (sess_task_id s) d1 = latest_plan (sess_task_id s) d"
    using same_other_tables[OF same] by (simp_all add: d1)
  have ok: "store_reachable d1" by (rule session[OF assms(1,2)])
  have "readable_plan (sn_task_id row) d1" "readable_steps (sess_id s) d1"
    using assms(4,5) tables row(1) by (simp_all add: readable_plan_def readable_steps_def)
  with inspect_cases[OF reachable_db_ok[OF ok] assms(3) found] row tables show ?thesis by auto
qed

theorem saved_session_inspected_witness:
  "\<exists>i. inspect_session ''s'' (Some sample_db) = (Inr i, Some sample_db) \<and> sess_created_at (is_session i) = 3"
proof -
  have s: "sess_id sample_session = ''s''" "sess_task_id sample_session = ''s''" "sess_created_at sample_session = 3"
    by (simp_all add: sample_session_def)
  have "find_session ''s'' empty_db = None" by (simp add: find_session_def empty_db_def)
  moreover have "readable_steps (sess_id sample_session) empty_db" "readable_plan (sess_task_id sample_session) empty_db"
    using sample_facts s by (simp_all add: readable_plan_def readable_steps_def)
  ultimately show ?thesis using saved_session_inspected[OF sample_reachable(1) sample_saved sample_facts(2)] s by auto
qed

lemma and_then_same:
  assumes "and_then r f = (b, d')" and "same_tables d (snd r)" and "\<And>a b d1 d2. f a d1 = (b, d2) \<Longrightarrow> same_tables d1 d2"
  shows "same_tables d d'"
  using assms by (cases r; cases "fst r") (auto intro: same_tables_trans)

lemma wrapped_same: "same_tables d (snd (wrapped msg r)) = same_tables d (snd r)"
  by (cases r; cases "fst r") auto

lemma load_record_same: "load_session_record sid d = (r, d1) \<Longrightarrow> same_tables d d1"
proof -
  assume l: "load_session_record sid d = (r, d1)"
  obtain r2 d2 where st: "statement d = (r2, d2)" by fastforce
  obtain r3 d3 where st3: "statement d2 = (r3, d3)" by fastforce
  have same: "same_tables d d2" "same_tables d d3"
    using statement_same[OF st] statement_same[OF st3] same_tables_trans by blast+
  show ?thesis using l st st3 same
    by (cases r2; cases r3; cases "find_session sid d2"; cases "parse_metadata (sn_config (the (find_session sid d2)))";
        cases "parse_provenance (sn_provenance (the (find_session sid d2)))") (auto simp: load_session_record_def)
qed

lemma load_plan_same: "load_latest_plan tid d = (r, d1) \<Longrightarrow> same_tables d d1"
proof -
  assume l: "load_latest_plan tid d = (r, d1)"
  obtain r2 d2 where st: "statement d = (r2, d2)" by fastforce
  show ?thesis using l st statement_same[OF st]
    by (cases r2; cases "latest_plan tid d2"; cases "each decode_step (pr_steps (the (latest_plan tid d2)))") (auto simp: load_latest_plan_def)
qed

lemma steps_unreadable:
  assumes "same_tables d1 d2" and "w \<in> set (session_steps sid d1)" and "\<not> is_ok (load_step_row sid w)"
  shows "\<not> is_ok (fst (load_steps sid d2))"
proof -
  obtain r d3 where st: "statement d2 = (r, d3)" by fastforce
  have "session_steps sid d3 = session_steps sid d1"
    using same_other_tables(1) same_tables_trans[OF assms(1) statement_same[OF st]] by blast
  then have "\<not> is_ok (each (load_step_row sid) (session_steps sid d3))" using assms(2,3) by (auto simp: each_ok_iff)
  then show ?thesis using st by (cases r) (simp_all add: load_steps_def)
qed

text \<open> A step whose verification result contradicts itself is accepted, and from then on the session can be
  neither inspected nor resumed.\<close>

theorem incoherent_step_locks_session:
  assumes "store_reachable d" and "store_append_step now sid x (Some d) = (Inr (), Some d1)"
    and "\<not> vr_coherent (vr_normalize (step_verification x))"
  shows "\<not> is_ok (fst (inspect_session sid (Some d1))) \<and> \<not> is_ok (fst (resume_session sid (Some d1)))"
proof -
  obtain q d2 where d1: "d1 = insert_step now sid x q d2" using append_step_writes[OF assms(2)] by auto
  have bad: "vr_validate (vr_marshal (step_verification x)) \<noteq> None"
    using assms(3) vr_validate_ok_iff by simp
  let ?w = "last (sdb_steps d1)"
  have w: "?w \<in> set (session_steps sid d1)" "sw_verification ?w = vr_marshal (step_verification x)"
    by (simp_all add: d1 insert_step_def session_steps_def)
  have "\<not> is_ok (load_step_row sid ?w)"
    using bad w(2) decode_ok[of "sw_verification ?w"] by (auto simp: load_step_row_def is_ok_def split: sum.splits)
  then have none: "\<not> is_ok (fst (load_steps sid d'))" if "same_tables d1 d'" for d'
    using w(1) steps_unreadable that by blast
  obtain r3 d3 where rec: "load_session_record sid d1 = (r3, d3)" by fastforce
  have same3: "same_tables d1 d3" by (rule load_record_same[OF rec])
  have "\<not> is_ok (fst (inspect_session sid (Some d1)))"
    using none[OF same3] rec by (cases r3; cases "load_steps sid d3"; cases "fst (load_steps sid d3)") (auto simp: inspect_session_def with_db_Some)
  moreover have "\<not> is_ok (fst (resume_session sid (Some d1)))"
  proof (cases r3)
    case (Inr t)
    obtain s m l where t: "t = (s, m, l)" by (cases t)
    obtain r4 d4 where pl: "load_latest_plan (sess_task_id s) d3 = (r4, d4)" by fastforce
    have "same_tables d1 d4" using same3 load_plan_same[OF pl] by (rule same_tables_trans)
    from none[OF this] show ?thesis
      using rec Inr t pl by (cases r4; cases "load_steps sid d4"; cases "fst (load_steps sid d4)") (auto simp: resume_session_def with_db_Some)
  qed (use rec in \<open>simp add: resume_session_def with_db_Some\<close>)
  ultimately show ?thesis ..
qed


definition contradicting :: verification_result where
  "contradicting = \<lparr>vr_passed = True, vr_status = vs_failed, vr_reason = ''done''\<rparr>"

theorem incoherent_step_locks_session_witness:
  "\<exists>d. store_append_step 7 ''s'' (sample_step contradicting) (Some sample_db) = (Inr (), Some d) \<and>
     \<not> is_ok (fst (inspect_session ''s'' (Some d)))"
proof -
  obtain d where d: "store_append_step 7 ''s'' (sample_step contradicting) (Some sample_db) = (Inr (), Some d)"
    using sample_facts(2)
    by (simp add: store_append_step_def with_db_def marshal_provenance_def sample_step_def statement_ok)
  have "\<not> vr_coherent (vr_normalize (step_verification (sample_step contradicting)))"
    by (simp add: sample_step_def contradicting_def vr_coherent_def vr_status_or_default_def)
  from incoherent_step_locks_session[OF sample_reachable(2) d this] d show ?thesis by blast
qed

end
