(* ===== verification/Chat_Properties.thy ===== *)
theory Chat_Properties
  imports Chat Session_Store_Properties
begin

text \<open>
  What the chat service does with its store: what is saved before a session starts, what a transcript
  shows, and how its turns are put together.
\<close>

section \<open>The turns of a transcript\<close>

definition of_turn :: "int \<Rightarrow> conversation_message list \<Rightarrow> conversation_message list" where
  "of_turn i ms = filter (\<lambda>m. msg_turn_index m = i) ms"

definition of_role :: "chat_role \<Rightarrow> conversation_message list \<Rightarrow> conversation_message list" where
  "of_role r ms = filter (\<lambda>m. msg_role m = r) ms"

lemma join_turn_fields:
  "tt_turn_index (join_turn m t) = tt_turn_index t"
  "tt_user_message (join_turn m t) =
     (if msg_role m = role_user \<and> tt_user_message t = None then Some m else tt_user_message t)"
  "tt_assistant_messages (join_turn m t) = tt_assistant_messages t @ of_role role_assistant [m]"
  "tt_system_messages (join_turn m t) = tt_system_messages t @ of_role role_system [m]"
  "tt_tool_messages (join_turn m t) = tt_tool_messages t @ of_role role_tool [m]"
  by (simp_all add: join_turn_def Let_def of_role_def)

lemma fold_join_turn:
  "tt_turn_index (fold join_turn ms t) = tt_turn_index t \<and>
   tt_user_message (fold join_turn ms t) =
     (if tt_user_message t = None then (case of_role role_user ms of [] \<Rightarrow> None | m # _ \<Rightarrow> Some m) else tt_user_message t) \<and>
   tt_assistant_messages (fold join_turn ms t) = tt_assistant_messages t @ of_role role_assistant ms \<and>
   tt_system_messages (fold join_turn ms t) = tt_system_messages t @ of_role role_system ms \<and>
   tt_tool_messages (fold join_turn ms t) = tt_tool_messages t @ of_role role_tool ms"
proof (induction ms arbitrary: t)
  case (Cons m ms)
  then show ?case by (simp add: join_turn_fields of_role_def split: list.split)
qed (simp add: of_role_def)

lemma collected_turn:
  "map_of (collect_turns ms acc) i =
     (if map_of acc i = None \<and> of_turn i ms = [] then None
      else Some (fold join_turn (of_turn i ms) (case map_of acc i of None \<Rightarrow> new_turn i | Some t \<Rightarrow> t)))"
proof (induction ms arbitrary: acc)
  case (Cons m ms)
  then show ?case by (auto simp: of_turn_def map_of_append update_conv map_add_def split: option.splits)
qed (simp add: of_turn_def split: option.split)

lemma collected_keys:
  "distinct (map fst acc) \<Longrightarrow>
     distinct (map fst (collect_turns ms acc)) \<and> set (map fst (collect_turns ms acc)) = set (map fst acc) \<union> msg_turn_index ` set ms"
proof (induction ms arbitrary: acc)
  case (Cons m ms)
  let ?k = "msg_turn_index m"
  define acc' where "acc' = (case map_of acc ?k of None \<Rightarrow> acc @ [(?k, join_turn m (new_turn ?k))] | Some t \<Rightarrow> AList.update ?k (join_turn m t) acc)"
  have keys: "map fst acc' = (if ?k \<in> set (map fst acc) then map fst acc else map fst acc @ [?k])"
  proof (cases "map_of acc ?k")
    case None
    then have "?k \<notin> set (map fst acc)" by (simp add: map_of_eq_None_iff)
    then show ?thesis using None by (simp add: acc'_def)
  next
    case (Some t)
    then show ?thesis by (simp add: acc'_def update_keys)
  qed
  then have "distinct (map fst acc')" using Cons.prems by simp
  from Cons.IH[OF this] have "distinct (map fst (collect_turns ms acc'))"
    "set (map fst (collect_turns ms acc')) = set (map fst acc') \<union> msg_turn_index ` set ms" by simp_all
  moreover have "collect_turns (m # ms) acc = collect_turns ms acc'" by (simp add: acc'_def)
  moreover have "set (map fst acc') = insert ?k (set (map fst acc))" using keys by auto
  ultimately show ?case by simp
qed simp

text \<open>C37.  The turns of a transcript are the indexes that occur among its messages, in ascending order; a turn
  holds, in the order of the messages, exactly those of its index, by their roles, and the first one of the
  user.\<close>

theorem transcript_turns:
  "map tt_turn_index (ct_turns (build_chat_transcript c)) = sorted_list_of_set (msg_turn_index ` set (cv_messages c)) \<and>
   (\<forall>t \<in> set (ct_turns (build_chat_transcript c)).
      (let ms = of_turn (tt_turn_index t) (messages_in_order c) in
       tt_user_message t = (case of_role role_user ms of [] \<Rightarrow> None | m # _ \<Rightarrow> Some m) \<and>
       tt_assistant_messages t = of_role role_assistant ms \<and> tt_system_messages t = of_role role_system ms \<and>
       tt_tool_messages t = of_role role_tool ms))"
proof -
  let ?ms = "messages_in_order c"
  let ?turns = "collect_turns ?ms []"
  let ?keys = "sort (map fst ?turns)"
  have set_ms: "set ?ms = set (cv_messages c)" by (simp add: messages_in_order_def)
  have keys: "distinct (map fst ?turns)" "set (map fst ?turns) = msg_turn_index ` set (cv_messages c)"
    using collected_keys[of "[]" ?ms] set_ms by simp_all
  have turn: "map_of ?turns i = Some (fold join_turn (of_turn i ?ms) (new_turn i))" if "i \<in> set ?keys" for i
  proof -
    have "of_turn i ?ms \<noteq> []" using that keys(2) set_ms by (auto simp: of_turn_def filter_empty_conv)
    then show ?thesis by (simp add: collected_turn)
  qed
  have ct: "ct_turns (build_chat_transcript c) = map (\<lambda>i. fold join_turn (of_turn i ?ms) (new_turn i)) ?keys"
    using turn by (simp add: build_chat_transcript_def Let_def)
  have "map tt_turn_index (ct_turns (build_chat_transcript c)) = ?keys"
    by (simp add: ct comp_def fold_join_turn new_turn_def)
  also have "\<dots> = sorted_list_of_set (msg_turn_index ` set (cv_messages c))"
    using keys by (metis distinct_sort set_sort sorted_list_of_set.idem_if_sorted_distinct sorted_sort)
  finally show ?thesis
    by (auto simp: ct fold_join_turn new_turn_def Let_def)
qed

definition sample_message :: conversation_message where
  "sample_message = \<lparr>msg_id = ''m1'', msg_turn_index = 3, msg_role = role_user, msg_content = ''hi'', msg_timestamp = 5\<rparr>"

definition sample_talk :: conversation where
  "sample_talk = \<lparr>cv_id = ''c'', cv_session_id = ''s'', cv_status = cs_active, cv_messages = [sample_message],
     cv_checkpoint = \<lparr>cp_last_message_id = [], cp_last_turn_index = 0, cp_last_event_time = 0, cp_resumable = False\<rparr>,
     cv_created_at = 1, cv_updated_at = 1\<rparr>"

theorem transcript_turns_witness:
  "\<exists>t. ct_turns (build_chat_transcript sample_talk) = [t] \<and> tt_turn_index t = 3 \<and> tt_user_message t = Some sample_message"
proof -
  have ms: "messages_in_order sample_talk = [sample_message]" "cv_messages sample_talk = [sample_message]"
    by (simp_all add: messages_in_order_def sample_talk_def)
  have "map tt_turn_index (ct_turns (build_chat_transcript sample_talk)) = [3]"
    using conjunct1[OF transcript_turns[of sample_talk]] ms by (simp add: sample_message_def)
  then obtain t where t: "ct_turns (build_chat_transcript sample_talk) = [t]" "tt_turn_index t = 3" by auto
  moreover have "tt_user_message t = Some sample_message"
    using conjunct2[OF transcript_turns[of sample_talk]] t ms
    by (simp add: of_turn_def of_role_def sample_message_def Let_def)
  ultimately show ?thesis by blast
qed

section \<open>The list of chats\<close>

lemma group_keys: "distinct (map fst acc) \<Longrightarrow>
    distinct (map fst (group_by_conversation ss acc)) \<and> length (group_by_conversation ss acc) \<le> length acc + length ss"
proof (induction ss arbitrary: acc)
  case (Cons s ss)
  have le: "length (AList.update k v xs) \<le> Suc (length xs)" for k and v :: conversation_summary and xs
    by (induction xs) auto
  have upd: "distinct (map fst (group_by_conversation ss (AList.update k v acc))) \<and>
      length (group_by_conversation ss (AList.update k v acc)) \<le> Suc (length acc + length ss)" for k v
  proof -
    have "distinct (map fst (AList.update k v acc))" using Cons.prems by (rule distinct_update)
    from Cons.IH[OF this] le[of k v acc] show ?thesis by linarith
  qed
  have same: "distinct (map fst (group_by_conversation ss acc)) \<and> length (group_by_conversation ss acc) \<le> Suc (length acc + length ss)"
    using Cons.IH[OF Cons.prems] by simp
  show ?case using upd same by (simp add: Let_def split: option.split)
qed simp

lemma list_sessions_page:
  assumes "list_sessions p s = (Inr r, s1)"
  shows "int (length (lr_sessions r)) \<le> lr_page_size r"
  using assms
  by (auto simp: list_sessions_def with_db_def and_then_Inr wrapped_Inr Let_def page_of_rows_def
      dest!: each_Inr list_all2_lengthD split: option.splits prod.splits if_splits)

text \<open> The total that a list of chats reports is the number of conversations on the page, so it never exceeds
  the size of a page, however many conversations there are.\<close>

theorem chat_total_is_page:
  assumes "list_chats p st = (Inr r, st1)"
  shows "cl_total r = int (length (cl_conversations r)) \<and> cl_total r \<le> cl_page_size r"
proof -
  obtain l s1 where l: "list_sessions p (cst_store st) = (Inr l, s1)"
    and r: "cl_total r = int (length (group_by_conversation (lr_sessions l) []))" "cl_page_size r = lr_page_size l"
      "length (cl_conversations r) = length (group_by_conversation (lr_sessions l) [])"
    using assms by (auto simp: list_chats_def and_then_Inr on_store_def Let_def split: prod.splits sum.splits)
  have "length (group_by_conversation (lr_sessions l) []) \<le> length (lr_sessions l)"
    using group_keys[of "[]" "lr_sessions l"] by simp
  then show ?thesis using r list_sessions_page[OF l] by simp
qed

definition sample_row :: "string \<Rightarrow> gotime \<Rightarrow> session_row" where
  "sample_row sid t = row_of_session no_metadata None
     \<lparr>sess_id = sid, sess_task_id = sid, sess_status = ss_success, sess_provenance = None, sess_created_at = t, sess_updated_at = t\<rparr>"

definition two_chats :: chat_state where
  "two_chats = \<lparr>cst_store = Some (empty_db\<lparr>sdb_sessions := [sample_row ''a'' 1, sample_row ''b'' 2]\<rparr>), cst_started = []\<rparr>"

theorem chat_total_is_page_witness:
  "\<exists>r. list_chats \<lparr>lp_page = 1, lp_page_size = 1, lp_status = []\<rparr> two_chats = (Inr r, two_chats) \<and>
     cl_total r = int (length (cl_conversations r)) \<and> cl_total r \<le> 1"
proof -
  have "\<exists>r. list_chats \<lparr>lp_page = 1, lp_page_size = 1, lp_status = []\<rparr> two_chats = (Inr r, two_chats) \<and> cl_page_size r = 1"
    by (simp add: list_chats_def on_store_def list_sessions_def with_db_def two_chats_def empty_db_def statement_def page_of_rows_def
        sample_row_def row_of_session_def Let_def wrap64_def read_session_row_def parse_metadata_def nullable_metadata_def)
  then show ?thesis using chat_total_is_page by metis
qed


section \<open>Identifiers\<close>

lemma prefix_hd: "w \<noteq> [] \<Longrightarrow> has_prefix w s \<Longrightarrow> s \<noteq> [] \<and> hd s = hd w"
  by (cases w; cases s) auto

lemma trim_plain:
  assumes "s \<noteq> []" and "hd s \<notin> hd ` set space_words" and "last s \<notin> last ` set space_words"
  shows "trim_space s = s"
proof -
  have "\<not> starts_with_any space_words s"
    using assms(2) prefix_hd[of _ s] by (force simp: starts_with_any_def)
  moreover have "\<not> starts_with_any (map rev space_words) (rev s)"
  proof
    assume "starts_with_any (map rev space_words) (rev s)"
    then obtain w where "w \<in> set space_words" "w \<noteq> []" "has_prefix (rev w) (rev s)" by (auto simp: starts_with_any_def)
    then have "hd (rev s) = hd (rev w)" using prefix_hd[of "rev w" "rev s"] by simp
    then show False using assms(3) \<open>w \<in> set space_words\<close> by (simp add: hd_rev)
  qed
  ultimately show ?thesis by (simp add: trim_space_def strip_id)
qed

lemma last_show_nat: "\<exists>k :: nat. k < 10 \<and> last (show_nat n) = char_of (48 + k)"
proof (induction n rule: show_nat.induct)
  case (1 n)
  show ?case by (subst show_nat.simps) (auto intro: exI[of _ "n mod 10"] exI[of _ n])
qed

lemma last_show_int: "last (show_int i) \<notin> last ` set space_words"
proof -
  obtain n where "last (show_int i) = last (show_nat n)" by (cases "i < 0") (auto simp: show_int_def)
  then obtain k :: nat where "k < 10" "last (show_int i) = char_of (48 + k)" using last_show_nat by metis
  then have "(of_char (last (show_int i)) :: nat) = 48 + k" by simp
  moreover have "\<forall>w \<in> set space_words. (of_char (last w) :: nat) < 48 \<or> (of_char (last w) :: nat) > 57"
    by (simp add: space_words_def)
  ultimately show ?thesis using \<open>k < 10\<close> by fastforce
qed

lemma trim_id: "trim_space (''session-'' @ show_int i) = ''session-'' @ show_int i" "trim_space (''conversation-'' @ show_int i) = ''conversation-'' @ show_int i"
proof -
  have ne: "show_int i \<noteq> []" by (simp add: show_int_def)
  have hd: "CHR ''s'' \<notin> hd ` set space_words" "CHR ''c'' \<notin> hd ` set space_words" by (simp_all add: space_words_def)
  show "trim_space (''session-'' @ show_int i) = ''session-'' @ show_int i"
    by (rule trim_plain) (use ne hd last_show_int in simp_all)
  show "trim_space (''conversation-'' @ show_int i) = ''conversation-'' @ show_int i"
    by (rule trim_plain) (use ne hd last_show_int in simp_all)
qed


section \<open>Starting a chat\<close>

definition with_row :: "session_row \<Rightarrow> session_db \<Rightarrow> session_db" where
  "with_row r d = d\<lparr>sdb_sessions := sdb_sessions d @ [r]\<rparr>"

lemma with_row_faults [simp]: "sdb_faults (with_row r d) = sdb_faults d"
  by (simp add: with_row_def)

lemma fresh_ids: "find_session sid d = None \<longleftrightarrow> (\<forall>r \<in> set (sdb_sessions d). sn_id r \<noteq> sid)"
  by (auto simp: find_session_def find_None_iff)

lemma find_with_row: "find_session sid d = None \<Longrightarrow> sn_id r = sid \<Longrightarrow> find_session sid (with_row r d) = Some r"
proof -
  have "find (\<lambda>x. sn_id x = sid) (rows @ [r]) = Some r" if "\<forall>x \<in> set rows. sn_id x \<noteq> sid" "sn_id r = sid" for rows
    using that by (induction rows) auto
  then show "find_session sid d = None \<Longrightarrow> sn_id r = sid \<Longrightarrow> find_session sid (with_row r d) = Some r"
    by (simp add: fresh_ids) (simp add: find_session_def with_row_def)
qed

lemma upsert_fresh: "find_session (sn_id r) d = None \<Longrightarrow> upsert_session r d = with_row r d"
  by (simp add: upsert_session_def with_row_def)

lemma update_with_row:
  assumes "find_session sid d = None" and "sn_id r = sid" and "sn_updated_at r = sn_created_at r"
  shows "update_config sid m (with_row r d) = with_row (r\<lparr>sn_config := Some m\<rparr>) d"
proof -
  have "map (\<lambda>x. if sn_id x = sid then f x else x) (sdb_sessions d) = sdb_sessions d" for f
    by (rule map_idI) (use assms(1) in \<open>simp add: fresh_ids\<close>)
  then show ?thesis using assms(2,3) by (simp add: update_config_def with_row_def)
qed

lemma load_with_row:
  assumes "find_session sid d = None" and "sdb_faults d = []" and "sid \<noteq> []" and "sn_id r = sid"
  shows "load_session_metadata sid (with_row r d) = (parse_metadata (sn_config r), with_row r d)"
  using assms by (simp add: load_session_metadata_def statement_ok find_with_row)

lemma change_with_row:
  assumes "find_session sid d = None" and "sdb_faults d = []" and "sid \<noteq> []" and "sn_id r = sid"
    and "sn_updated_at r = sn_created_at r" and "parse_metadata (sn_config r) = Inr m" and "smd_provenance (f m) = None"
  shows "with_db (change_metadata what f sid) (Some (with_row r d)) = (Inr (), Some (with_row (r\<lparr>sn_config := Some (f m)\<rparr>) d))"
  using assms by (simp add: with_db_def change_metadata_def load_with_row marshal_metadata_def statement_ok update_with_row)

lemma parse_plain:
  assumes "smd_provenance m = None" and "\<forall>t. smd_task m = Some t \<longrightarrow> category_normalize (sto_category t) = sto_category t"
  shows "parse_metadata (Some m) = Inr m"
  using assms by (cases "smd_task m") (simp_all add: parse_metadata_def Let_def)

lemma stored_task_category: "new_stored_task t = Some x \<Longrightarrow> category_normalize (sto_category x) = sto_category x"
  by (auto simp: new_stored_task_def Let_def split: if_splits)

definition diagnostics_of :: "string \<Rightarrow> stored_diagnostics option" where
  "diagnostics_of request_id =
     (if blank request_id then None
      else Some (merge_diagnostics \<lparr>sdi_request_id = trim_space request_id, sdi_failure_reason = [], sdi_finalized = False\<rparr> None))"

definition new_row :: "chat_env \<Rightarrow> session_row" where
  "new_row env = row_of_session no_metadata None (initial_session env)"

lemma new_row_fields [simp]:
  "sn_id (new_row env) = new_session_id env" "sn_task_id (new_row env) = new_session_id env" "sn_config (new_row env) = None"
  "sn_provenance (new_row env) = None" "sn_status (new_row env) = ss_pending"
  "sn_created_at (new_row env) = ce_now env" "sn_updated_at (new_row env) = ce_now env"
  by (simp_all add: new_row_def row_of_session_def initial_session_def Let_def nullable_metadata_def)

lemma new_session_id_simps [simp]: "new_session_id env \<noteq> []" "trim_space (new_session_id env) = new_session_id env"
proof -
  show "new_session_id env \<noteq> []" by (simp add: new_session_id_def)
  show "trim_space (new_session_id env) = new_session_id env" unfolding new_session_id_def by (rule trim_id)
qed

lemma saved_new_session:
  assumes "find_session (new_session_id env) d = None" and "sdb_faults d = []"
  shows "save_new_session env t \<lparr>cst_store = Some d, cst_started = q\<rparr> =
     (Inr (), \<lparr>cst_store = Some (with_row ((new_row env)\<lparr>sn_config :=
        Some (no_metadata\<lparr>smd_task := new_stored_task t, smd_diagnostics := diagnostics_of (ce_request_id env)\<rparr>)\<rparr>) d), cst_started = q\<rparr>)"
proof -
  let ?sid = "new_session_id env"
  have s: "store_save_session (initial_session env) (Some d) = (Inr (), Some (with_row (new_row env) d))"
    using assms
    by (simp add: store_save_session_def with_db_def save_session_body_def load_session_metadata_def initial_session_def statement_ok
        parse_metadata_def no_metadata_def merge_stored_provenance_def marshal_metadata_def marshal_provenance_def Let_def
        upsert_fresh new_row_def row_of_session_def nullable_metadata_def)
  have "no_metadata = parse" if "parse_metadata None = Inr parse" for parse using that by (simp add: parse_metadata_def)
  let ?m1 = "no_metadata\<lparr>smd_task := new_stored_task t\<rparr>"
  have t: "save_task ?sid t (Some (with_row (new_row env) d)) = (Inr (), Some (with_row ((new_row env)\<lparr>sn_config := Some ?m1\<rparr>) d))"
    unfolding save_task_def
    by (rule change_with_row) (use assms in \<open>simp_all add: parse_metadata_def no_metadata_def\<close>)
  have p1: "parse_metadata (Some ?m1) = Inr ?m1"
    by (rule parse_plain) (use stored_task_category in \<open>auto simp: no_metadata_def\<close>)
  have g: "persist_diagnostics (ce_request_id env) ?sid [] False (Some (with_row ((new_row env)\<lparr>sn_config := Some ?m1\<rparr>) d)) =
      (Inr (), Some (with_row ((new_row env)\<lparr>sn_config := Some (?m1\<lparr>smd_diagnostics := diagnostics_of (ce_request_id env)\<rparr>)\<rparr>) d))"
  proof (cases "blank (ce_request_id env)")
    case True
    then show ?thesis by (simp add: persist_diagnostics_def diagnostics_of_def no_metadata_def)
  next
    case False
    have "save_diagnostics ?sid x (Some (with_row ((new_row env)\<lparr>sn_config := Some ?m1\<rparr>) d)) =
        (Inr (), Some (with_row ((new_row env)\<lparr>sn_config := Some ?m1, sn_config := Some (?m1\<lparr>smd_diagnostics := Some (merge_diagnostics x (smd_diagnostics ?m1))\<rparr>)\<rparr>) d))" for x
      unfolding save_diagnostics_def
      by (rule change_with_row) (use assms p1 in \<open>simp_all add: no_metadata_def\<close>)
    then show ?thesis using False by (simp add: persist_diagnostics_def diagnostics_of_def no_metadata_def)
  qed
  show ?thesis by (simp add: save_new_session_def on_store_def s t g)
qed


lemma new_conversation_id_simps: "\<not> blank (new_conversation_id env)" "trim_space (new_conversation_id env) = new_conversation_id env"
  using trim_id(2) by (simp_all add: new_conversation_id_def blank_def)

lemma saved_new_conversation:
  assumes "find_session (new_session_id env) d = None" and "sdb_faults d = []"
    and "m = no_metadata\<lparr>smd_task := new_stored_task t, smd_diagnostics := x\<rparr>"
  shows "save_conversation_state (new_session_id env) (new_conversation_id env) [] 0 (Some (with_row ((new_row env)\<lparr>sn_config := Some m\<rparr>) d)) =
     (Inr (), Some (with_row ((new_row env)\<lparr>sn_config :=
        Some (m\<lparr>smd_conversation := Some \<lparr>sco_id = new_conversation_id env, sco_parent_session_id = [], sco_turn_index = 0\<rparr>\<rparr>)\<rparr>) d))"
proof -
  have p: "parse_metadata (Some m) = Inr m"
    by (rule parse_plain) (use stored_task_category assms(3) in \<open>auto simp: no_metadata_def\<close>)
  show ?thesis
    unfolding save_conversation_state_def new_conversation_id_simps(2) using new_conversation_id_simps(1)
    by (subst change_with_row[where m = m]) (use assms p in \<open>simp_all add: no_metadata_def\<close>)
qed

lemma started_chat_state:
  assumes "find_session (new_session_id env) d = None" and "sdb_faults d = []"
    and "start_chat env opts \<lparr>cst_store = Some d, cst_started = q\<rparr> = (Inr r, st1)"
  shows "\<exists>t x row. crs_conversation_id r = new_conversation_id env \<and>
     t = new_task env (trim_space (so_message opts)) (trim_space (so_message opts)) (trim_space (so_task_type opts)) \<and>
     row = (new_row env)\<lparr>sn_config := Some (no_metadata\<lparr>smd_task := new_stored_task t, smd_diagnostics := x,
        smd_conversation := Some \<lparr>sco_id = new_conversation_id env, sco_parent_session_id = [], sco_turn_index = 0\<rparr>\<rparr>)\<rparr> \<and>
     st1 = \<lparr>cst_store = Some (with_row row d), cst_started = q @
        [\<lparr>csq_session_id = new_session_id env, csq_task = t, csq_max_steps = so_max_steps opts,
          csq_verify_mode = trim_space (so_verify_mode opts), csq_created_at = ce_now env\<rparr>]\<rparr> \<and> \<not> blank (so_message opts)"
proof -
  let ?t = "new_task env (trim_space (so_message opts)) (trim_space (so_message opts)) (trim_space (so_task_type opts))"
  have valid: "validate_start opts = None" using assms(3) by (auto simp: start_chat_def split: option.splits)
  show ?thesis
    using assms(3) valid saved_new_session[OF assms(1,2), of ?t q]
      saved_new_conversation[OF assms(1,2) refl, where t = ?t and x = "diagnostics_of (ce_request_id env)"]
    by (auto simp: start_chat_def Let_def on_store_def manager_start_def chat_created_def validate_start_def and_then_Inr
        split: option.splits if_splits)
qed

lemma start_chat_ok:
  assumes "find_session (new_session_id env) d = None" and "sdb_faults d = []" and "validate_start opts = None"
    and "\<And>q. ce_start env q = None"
  shows "\<exists>r st1. start_chat env opts \<lparr>cst_store = Some d, cst_started = q\<rparr> = (Inr r, st1)"
  using assms(3,4) saved_new_session[OF assms(1,2), of "new_task env (trim_space (so_message opts)) (trim_space (so_message opts)) (trim_space (so_task_type opts))" q]
    saved_new_conversation[OF assms(1,2) refl, where t = "new_task env (trim_space (so_message opts)) (trim_space (so_message opts)) (trim_space (so_task_type opts))" and x = "diagnostics_of (ce_request_id env)"]
  by (simp add: start_chat_def Let_def on_store_def manager_start_def)

section \<open>The transcript of a new chat\<close>

lemma each_all: "\<forall>x \<in> set xs. f x = Inr (g x) \<Longrightarrow> each f xs = Inr (map g xs)"
  by (induction xs) simp_all

definition metadata_of :: "session_row \<Rightarrow> session_metadata" where
  "metadata_of r = projr (parse_metadata (sn_config r))"

definition record_for :: "session_row \<Rightarrow> conversation_record" where
  "record_for r = record_of_row r (metadata_of r)"

lemma listed_conversation:
  assumes "db_ok d" and "sdb_faults d = []" and "\<not> blank cid" and "trim_space cid = cid"
    and "filter (\<lambda>r. cr_conversation_id (record_for r) = cid) (sdb_sessions d) = [row]"
  shows "list_conversation_sessions cid (Some d) = (Inr [record_for row], Some d)"
proof -
  let ?rows = "sort_key (\<lambda>r. (sn_created_at r, sn_id r)) (sdb_sessions d)"
  have "read_session_row r = Inr (r, metadata_of r)" if "r \<in> set ?rows" for r
  proof -
    have "session_row_ok r" using that assms(1) by (simp add: db_ok_def)
    then obtain m where "parse_metadata (sn_config r) = Inr m"
      using parse_metadata_readable unfolding session_row_ok_def by metis
    then show ?thesis by (simp add: read_session_row_def metadata_of_def)
  qed
  then have "each read_session_row ?rows = Inr (map (\<lambda>r. (r, metadata_of r)) ?rows)" by (intro each_all) blast
  moreover have "filter (\<lambda>c. cr_conversation_id c = cid) (map record_for ?rows) = [record_for row]"
    using assms(5) by (simp add: filter_map comp_def filter_sort)
  ultimately show ?thesis
    using assms(2-4) by (simp add: list_conversation_sessions_def with_db_def statement_ok comp_def Let_def flip: record_for_def)
qed

lemma with_row_ok: "db_ok d \<Longrightarrow> find_session (sn_id r) d = None \<Longrightarrow> session_row_ok r \<Longrightarrow> db_ok (with_row r d)"
  by (auto simp: db_ok_def with_row_def fresh_ids)

definition said :: "chat_transcript \<Rightarrow> (chat_role \<times> string) list" where
  "said t = map (\<lambda>m. (msg_role m, msg_content m)) (ct_messages t)"

text \<open>A session without steps and plan is shown as what its stored task says.\<close>

lemma inspect_bare:
  assumes "db_ok d" and "sdb_faults d = []" and "find_session sid d = Some r" and "session_steps sid d = []"
    and "latest_plan (sn_task_id r) d = None" and "parse_metadata (sn_config r) = Inr m"
  shows "\<exists>i. inspect_session sid (Some d) = (Inr i, Some d) \<and> sess_id (is_session i) = sid \<and> is_steps i = [] \<and>
     first_non_empty [task_goal (is_task i), task_description (is_task i)] =
       (case smd_task m of None \<Rightarrow> [] | Some t \<Rightarrow> first_non_empty [sto_goal t, sto_description t])"
proof -
  have readable: "readable_steps sid d" "readable_plan (sn_task_id r) d"
    using assms(4,5) by (simp_all add: readable_steps_def readable_plan_def)
  obtain e where e: "load_latest_plan (sn_task_id r) d = (Inl e, d)"
    using assms(2,5) by (simp add: load_latest_plan_def statement_ok)
  obtain i where i: "inspect_session sid (Some d) = (Inr i, Some d)" "sess_id (is_session i) = sid"
    and steps: "map step_index (is_steps i) = []"
    and view: "is_task i = task_of_record (is_session i) (is_plan i) (smd_task m)" "is_plan i = zero_plan\<lparr>plan_task_id := sn_task_id r\<rparr>"
    using inspect_cases[OF assms(1-3) readable(2)] readable(1) assms(4,6) e by auto
  have "plan_summary (is_plan i) = []" by (simp add: view zero_plan_def)
  then have "first_non_empty [task_goal (is_task i), task_description (is_task i)] =
       (case smd_task m of None \<Rightarrow> [] | Some t \<Rightarrow> first_non_empty [sto_goal t, sto_description t])"
    unfolding view(1) by (simp add: task_of_record_def task_normalize_def first_non_empty_def blank_def split: option.split)
  then show ?thesis using i steps by auto
qed

lemma build_single:
  assumes "inspect_session (sess_id (cr_session rec)) (Some d) = (Inr i, Some d)" and "is_steps i = []" and "cr_turn_index rec = 0"
    and "trim_space (first_non_empty [task_goal (is_task i), task_description (is_task i)]) = text1"
  shows "\<exists>c. build_from_records cid [rec] \<lparr>cst_store = Some d, cst_started = q\<rparr> = (Inr (c, i), \<lparr>cst_store = Some d, cst_started = q\<rparr>) \<and>
     map (\<lambda>m. (msg_role m, msg_content m)) (messages_in_order c) = (if text1 = [] then [] else [(role_user, text1)])"
proof -
  have last: "cv_messages (with_last_message c) = cv_messages c" for c by (simp add: with_last_message_def)
  show ?thesis
    using assms(1-3)
    by (simp add: build_from_records_def on_store_def segment_messages_def build_conversation_def Let_def last messages_in_order_def
        unless_empty_def message_of_def assms(4))
qed

lemma transcript_listed:
  assumes "\<not> blank cid" and "trim_space cid = cid"
    and "list_conversation_sessions cid (cst_store st) = (Inr rs, cst_store st)" and "rs \<noteq> []"
    and "build_from_records cid rs st = (Inr (c, i), st)"
  shows "get_transcript cid st = (Inr (transcript_of c i), st)"
  using assms by (simp add: get_transcript_def Let_def)

text \<open> The transcript of a chat that has just been started shows the user's message, unless the chat is a
  general one: then it shows nothing, since the store does not keep the task of a general chat.\<close>

theorem started_chat_transcript:
  assumes "store_reachable d" and "sdb_faults d = []" and "find_session (new_session_id env) d = None"
    and "session_steps (new_session_id env) d = []" and "latest_plan (new_session_id env) d = None"
    and "\<forall>r \<in> set (sdb_sessions d). cr_conversation_id (record_for r) \<noteq> new_conversation_id env"
    and "start_chat env opts \<lparr>cst_store = Some d, cst_started = q\<rparr> = (Inr r, st1)"
  shows "\<exists>t. get_transcript (crs_conversation_id r) st1 = (Inr t, st1) \<and>
     said (trn_chat t) =
       (if category_normalize (trim_space (so_task_type opts)) = cat_general then [] else [(role_user, trim_space (so_message opts))])"
proof -
  let ?sid = "new_session_id env" and ?cid = "new_conversation_id env" and ?text = "trim_space (so_message opts)"
  obtain t x row m where r: "crs_conversation_id r = ?cid" and t: "t = new_task env ?text ?text (trim_space (so_task_type opts))"
    and m: "m = no_metadata\<lparr>smd_task := new_stored_task t, smd_diagnostics := x,
        smd_conversation := Some \<lparr>sco_id = ?cid, sco_parent_session_id = [], sco_turn_index = 0\<rparr>\<rparr>"
    and row: "row = (new_row env)\<lparr>sn_config := Some m\<rparr>"
    and st1: "cst_store st1 = Some (with_row row d)" and msg: "?text \<noteq> []"
    using started_chat_state[OF assms(3,2,7)] by (auto simp: blank_def)
  have plain: "smd_provenance m = None" by (simp add: m no_metadata_def)
  have parsed: "parse_metadata (sn_config row) = Inr m"
    unfolding row by simp (rule parse_plain, use stored_task_category in \<open>auto simp: m no_metadata_def\<close>)
  have id: "sn_id row = ?sid" "sn_task_id row = ?sid" "sn_provenance row = None" by (simp_all add: row)
  have "session_row_ok row" using plain id(3) by (auto simp: session_row_ok_def row metadata_ok_def pv_ok_def)
  then have ok: "db_ok (with_row row d)" using with_row_ok[OF reachable_db_ok[OF assms(1)]] assms(3) id(1) by metis
  have tables: "session_steps ?sid (with_row row d) = []" "latest_plan ?sid (with_row row d) = None" "sdb_faults (with_row row d) = []"
    using assms(2,4,5) by (simp_all add: with_row_def session_steps_def latest_plan_def)
  note cid = new_conversation_id_simps[of env]
  have rec: "cr_conversation_id (record_for row) = ?cid" "sess_id (cr_session (record_for row)) = ?sid" "cr_turn_index (record_for row) = 0"
    using cid by (simp_all add: record_for_def metadata_of_def parsed record_of_row_def m no_metadata_def id)
  have "filter (\<lambda>r. cr_conversation_id (record_for r) = ?cid) (sdb_sessions (with_row row d)) = [row]"
    using assms(6) rec(1) by (simp add: with_row_def filter_empty_conv)
  from listed_conversation[OF ok tables(3) cid this]
  have listed: "list_conversation_sessions ?cid (Some (with_row row d)) = (Inr [record_for row], Some (with_row row d))" .
  obtain i where i: "inspect_session ?sid (Some (with_row row d)) = (Inr i, Some (with_row row d))" "is_steps i = []"
      "first_non_empty [task_goal (is_task i), task_description (is_task i)] =
       (case smd_task m of None \<Rightarrow> [] | Some t \<Rightarrow> first_non_empty [sto_goal t, sto_description t])"
    using inspect_bare[OF ok tables(3) find_with_row[OF assms(3) id(1)] tables(1) _ parsed] tables(2) id(2) by auto
  have said: "trim_space (first_non_empty [task_goal (is_task i), task_description (is_task i)]) =
      (if category_normalize (trim_space (so_task_type opts)) = cat_general then [] else ?text)"
    unfolding i(3) using msg by (simp add: m t new_stored_task_def new_task_def Let_def first_non_empty_def blank_def task_normalize_def category_or_default_def)
  obtain c where built: "build_from_records ?cid [record_for row] \<lparr>cst_store = Some (with_row row d), cst_started = cst_started st1\<rparr> =
      (Inr (c, i), \<lparr>cst_store = Some (with_row row d), cst_started = cst_started st1\<rparr>)"
    and shown: "map (\<lambda>m. (msg_role m, msg_content m)) (messages_in_order c) =
      (if category_normalize (trim_space (so_task_type opts)) = cat_general then [] else [(role_user, ?text)])"
    using build_single[of "record_for row" "with_row row d" i _ ?cid "cst_started st1"] i(1,2) rec(2,3) said msg by (auto split: if_splits)
  have eta: "\<lparr>cst_store = Some (with_row row d), cst_started = cst_started st1\<rparr> = st1" using st1 by simp
  have "get_transcript ?cid st1 = (Inr (transcript_of c i), st1)"
    by (rule transcript_listed[OF cid _ _ built[unfolded eta]]) (simp_all only: listed st1 list.distinct not_False_eq_True)
  moreover have "said (trn_chat (transcript_of c i)) = map (\<lambda>m. (msg_role m, msg_content m)) (messages_in_order c)"
    by (simp add: said_def transcript_of_def build_chat_transcript_def Let_def)
  ultimately show ?thesis unfolding r shown[symmetric] by (intro exI[of _ "transcript_of c i"] conjI)
qed

definition sample_env :: chat_env where
  "sample_env = \<lparr>ce_now = 7, ce_request_id = [], ce_manager = None, ce_start = (\<lambda>_. None), ce_builder = None, ce_config = default_config\<rparr>"

definition sample_options :: start_options where
  "sample_options = \<lparr>so_message = ''hi'', so_task_type = [], so_max_steps = 0, so_verify_mode = []\<rparr>"

theorem started_chat_transcript_witness:
  "\<exists>r st1 t. start_chat sample_env sample_options \<lparr>cst_store = Some empty_db, cst_started = []\<rparr> = (Inr r, st1) \<and>
     get_transcript (crs_conversation_id r) st1 = (Inr t, st1) \<and> said (trn_chat t) = []"
proof -
  have "find_session sid empty_db = None" for sid by (simp add: find_session_def empty_db_def)
  moreover have "validate_start sample_options = None" by code_simp
  moreover have "ce_start sample_env q = None" for q by (simp add: sample_env_def)
  ultimately obtain r st1 where r: "start_chat sample_env sample_options \<lparr>cst_store = Some empty_db, cst_started = []\<rparr> = (Inr r, st1)"
    using start_chat_ok[of sample_env empty_db sample_options] sample_facts(1) by metis
  have "category_normalize (trim_space (so_task_type sample_options)) = cat_general"
    by (simp add: sample_options_def category_normalize_def)
  moreover have "session_steps sid empty_db = []" "find_session sid empty_db = None" "sdb_sessions empty_db = []" for sid
    by (simp_all add: session_steps_def find_session_def empty_db_def)
  ultimately show ?thesis
    using started_chat_transcript[OF sample_reachable(1) sample_facts(1) _ _ sample_facts(5) _ r] r by auto
qed

section \<open>What is started has been saved\<close>

text \<open>The requests a call adds are for sessions that are stored at its end, with whatever the database then answers.\<close>

definition stored_session :: "chat_state \<Rightarrow> string \<Rightarrow> bool" where
  "stored_session st sid \<longleftrightarrow> (\<exists>d r. cst_store st = Some d \<and> find_session sid d = Some r \<and> sn_status r = ss_pending)"

lemma find_same_id:
  "(\<And>r. sn_id (f r) = sn_id r) \<Longrightarrow> find (\<lambda>r. sn_id r = sid) (map f rows) = map_option f (find (\<lambda>r. sn_id r = sid) rows)"
  by (induction rows) auto

lemma find_update_config:
  "find_session sid (update_config sid' m d) =
     map_option (\<lambda>r. if sn_id r = sid'
          then r\<lparr>sn_config := Some m,
                 sn_updated_at := (if sn_updated_at r > sn_created_at r then sn_updated_at r else sn_created_at r)\<rparr>
          else r) (find_session sid d)"
  unfolding find_session_def by (subst find_same_id[symmetric]) (simp_all add: update_config_def)

lemma change_keeps_pending:
  assumes "stored_session st sid" and "f (cst_store st) = (r, s)" and "f = with_db (change_metadata what g sid')"
  shows "stored_session (st\<lparr>cst_store := s\<rparr>) sid"
proof -
  obtain d row where d: "cst_store st = Some d" "find_session sid d = Some row" "sn_status row = ss_pending"
    using assms(1) by (auto simp: stored_session_def)
  obtain d1 where s: "s = Some d1" "change_metadata what g sid' d = (r, d1)"
    using assms(2,3) d(1) by (auto simp: with_db_def split: prod.splits)
  from change_metadata_writes[OF s(2)] show ?thesis
  proof
    assume "same_tables d d1"
    then show ?thesis using d s(1) by (auto simp: stored_session_def find_session_same)
  next
    assume "\<exists>m d2. r = Inr () \<and> metadata_ok m \<and> same_tables d d2 \<and> d1 = update_config sid' m d2"
    then show ?thesis using d s(1) by (auto simp: stored_session_def find_update_config find_session_same)
  qed
qed

lemma save_initial_pending:
  assumes "store_save_session (initial_session env) s = (Inr (), s1)"
  shows "stored_session (st\<lparr>cst_store := s1\<rparr>) (new_session_id env)"
proof -
  obtain d d1 where d: "s = Some d" "s1 = Some d1" "save_session_body (initial_session env) d = (Inr (), d1)"
    using assms by (cases s) (auto simp: store_save_session_def with_db_def split: prod.splits)
  obtain m0 d0 where 0: "load_session_metadata (sess_id (initial_session env)) d = (Inr m0, d0)"
    using d(3) by (auto simp: save_session_body_def and_then_Inr wrapped_Inr)
  then obtain m p d2 where w: "d1 = upsert_session (row_of_session m p (initial_session env)) d2"
    using d(3) by (auto simp: save_session_body_def and_then_Inr wrapped_Inr Let_def)
  have "sn_id (row_of_session m p (initial_session env)) = new_session_id env"
    "sn_status (row_of_session m p (initial_session env)) = ss_pending" for m p
    by (simp_all add: row_of_session_def initial_session_def Let_def)
  then show ?thesis using d(2) w find_upserted[of "row_of_session m p (initial_session env)" d2]
    by (auto simp: stored_session_def split: option.splits)
qed

lemma on_store_started: "cst_started (snd (on_store err f st)) = cst_started st"
  by (simp add: on_store_def split: prod.split sum.split)

lemma on_store_Inr: "on_store err f st = (Inr a, st1) \<longleftrightarrow> (\<exists>s. f (cst_store st) = (Inr a, s) \<and> st1 = st\<lparr>cst_store := s\<rparr>)"
  by (auto simp: on_store_def split: prod.splits sum.splits)

lemma save_new_pending:
  assumes "save_new_session env t st = (Inr (), st3)"
  shows "stored_session st3 (new_session_id env)"
proof -
  let ?sid = "new_session_id env"
  obtain s1 s2 s3 where s: "store_save_session (initial_session env) (cst_store st) = (Inr (), s1)" "save_task ?sid t s1 = (Inr (), s2)"
      "persist_diagnostics (ce_request_id env) ?sid [] False s2 = (Inr (), s3)" "st3 = st\<lparr>cst_store := s3\<rparr>"
    using assms by (auto simp: save_new_session_def and_then_Inr on_store_Inr)
  have "stored_session (st\<lparr>cst_store := s1\<rparr>) ?sid" by (rule save_initial_pending[OF s(1)])
  from change_keeps_pending[OF this, of "save_task ?sid t"] s(2)
  have 2: "stored_session (st\<lparr>cst_store := s2\<rparr>) ?sid" by (auto simp: save_task_def)
  then show ?thesis
    using change_keeps_pending[OF 2, of "save_diagnostics ?sid _"] s(3,4)
    by (auto simp: persist_diagnostics_def save_diagnostics_def split: if_splits)
qed

text \<open>A call either adds no request, or one for a session that is stored as pending.\<close>

definition starts_saved :: "chat_start_request list \<Rightarrow> 'a chat_result \<Rightarrow> bool" where
  "starts_saved qs r \<longleftrightarrow> cst_started (snd r) = qs \<or>
     (\<exists>q. cst_started (snd r) = qs @ [q] \<and> stored_session (snd r) (csq_session_id q))"

lemma started_then:
  assumes "cst_started (snd r) = qs" and "\<And>a st1. cst_started st1 = qs \<Longrightarrow> cst_started (snd (f a st1)) = qs"
  shows "cst_started (snd (and_then r f)) = qs"
  using assms by (cases r; cases "fst r") (auto simp: and_then_def)

lemma saved_then:
  assumes "cst_started (snd r) = qs" and "\<And>a st1. r = (Inr a, st1) \<Longrightarrow> cst_started st1 = qs \<Longrightarrow> starts_saved qs (f a st1)"
  shows "starts_saved qs (and_then r f)"
  using assms by (cases r; cases "fst r") (auto simp: and_then_def starts_saved_def)

lemma saved_same: "cst_started st = qs \<Longrightarrow> starts_saved qs (r, st)"
  by (simp add: starts_saved_def)

lemma saved_list_then:
  assumes "cst_started st = qs" and "\<And>a st1. cst_started st1 = qs \<Longrightarrow> starts_saved qs (f a st1)"
  shows "starts_saved qs (and_then (on_store err (list_conversation_sessions cid) st) f)"
  using assms by (intro saved_then) (simp_all add: on_store_started)

lemma save_new_started: "cst_started (snd (save_new_session env t st)) = cst_started st"
  unfolding save_new_session_def by (intro started_then) (simp_all add: on_store_started)

lemma saved_new_then:
  assumes "cst_started st = qs" and "\<And>st1. cst_started st1 = qs \<Longrightarrow> stored_session st1 (new_session_id env) \<Longrightarrow> starts_saved qs (f () st1)"
  shows "starts_saved qs (and_then (save_new_session env t st) f)"
  using assms save_new_pending by (intro saved_then) (simp_all add: save_new_started)

lemma saved_conversation_then:
  assumes "stored_session st sid" and "cst_started st = qs"
    and "\<And>st1. cst_started st1 = qs \<Longrightarrow> stored_session st1 sid \<Longrightarrow> starts_saved qs (f () st1)"
  shows "starts_saved qs (and_then (on_store err (save_conversation_state sid1 cid parent turn) st) f)"
proof (rule saved_then)
  fix a :: unit and st1
  assume "on_store err (save_conversation_state sid1 cid parent turn) st = (Inr a, st1)" and st1: "cst_started st1 = qs"
  then have "stored_session st1 sid"
    using change_keeps_pending[OF assms(1), of "save_conversation_state sid1 cid parent turn"]
    by (auto simp: on_store_Inr save_conversation_state_def)
  then show "starts_saved qs (f a st1)" using assms(3) st1 by simp
qed (simp add: on_store_started assms(2))

lemma saved_start:
  assumes "stored_session st (csq_session_id q)" and "cst_started st = qs"
  shows "starts_saved qs (and_then (manager_start env q st) (\<lambda>_ st1. (Inr a, st1)))"
proof -
  have "snd (and_then (manager_start env q st) (\<lambda>_ st1. (Inr a, st1))) = st\<lparr>cst_started := cst_started st @ [q]\<rparr>"
    by (simp add: manager_start_def and_then_def Let_def split: option.split)
  then show ?thesis using assms by (simp add: starts_saved_def stored_session_def)
qed

lemma records_started: "cst_started (snd (inspect_records n rs st)) = cst_started st"
proof (induction n rs st rule: inspect_records.induct)
  case (2 idx r rs st)
  show ?case unfolding inspect_records.simps
  proof (rule started_then)
    fix i and st1 :: chat_state assume "cst_started st1 = cst_started st"
    then show "cst_started (snd (and_then (inspect_records (Suc idx) rs st1)
        (\<lambda>is st2. (Inr ((segment_messages idx (cr_turn_index r) i, i) # is), st2)))) = cst_started st"
      using 2 by (intro started_then) simp_all
  qed (simp add: on_store_started)
qed simp

lemma transcript_started: "cst_started (snd (get_transcript cid st)) = cst_started st"
proof -
  have "cst_started (snd (build_from_records cid rs st1)) = cst_started st" if "cst_started st1 = cst_started st" for cid rs st1
    unfolding build_from_records_def by (rule started_then) (simp_all add: records_started that Let_def)
  then have "cst_started (snd (and_then (build_from_records cid rs st1) (\<lambda>(c, i) st1. (Inr (transcript_of c i), st1)))) = cst_started st"
    if "cst_started st1 = cst_started st" for cid rs st1
    using that by (intro started_then) (auto split: prod.split)
  then show ?thesis by (simp add: get_transcript_def Let_def split: prod.split sum.split)
qed

lemma saved_transcript_then:
  assumes "cst_started st = qs" and "\<And>a st1. cst_started st1 = qs \<Longrightarrow> starts_saved qs (f a st1)"
  shows "starts_saved qs (and_then (wrap_chat msg (get_transcript cid st)) f)"
proof (rule saved_then)
  have "snd (wrap_chat msg r) = snd r" for r :: "transcript chat_result" by (simp add: wrap_chat_def split: prod.split sum.split)
  then show "cst_started (snd (wrap_chat msg (get_transcript cid st))) = qs" using assms(1) by (simp add: transcript_started)
qed (rule assms(2))

lemmas saved_rules = saved_same saved_start saved_conversation_then saved_new_then saved_transcript_then saved_list_then

text \<open>C36.  Whatever the database answers, a session is handed to the session manager only after its row has been
  stored, as pending, by a new conversation, a new chat and a reply alike.\<close>

theorem started_after_saved:
  "starts_saved (cst_started st) (start_conversation env opts st) \<and> starts_saved (cst_started st) (start_chat env opts st) \<and>
   starts_saved (cst_started st) (submit_reply env target content st)"
proof -
  have qs: "starts_saved qs (start_conversation env opts st) \<and> starts_saved qs (start_chat env opts st) \<and>
      starts_saved qs (submit_reply env target content st)" if "cst_started st = qs" for qs
  proof (intro conjI)
    show "starts_saved qs (start_conversation env opts st)"
      unfolding start_conversation_def Let_def using that by (auto split: option.split intro!: saved_rules)
    show "starts_saved qs (start_chat env opts st)"
      unfolding start_chat_def Let_def using that by (auto split: option.split intro!: saved_rules)
    show "starts_saved qs (submit_reply env target content st)"
      unfolding submit_reply_def Let_def using that by (auto split: option.split intro!: saved_rules)
  qed
  then show ?thesis by blast
qed

end
