(* ===== verification/Accounts.thy ===== *)
theory Accounts
  imports Go_Text Chat
begin

text \<open>
  Users and their passwords: the table of users (\<^verbatim>\<open>internal/store/user_store.go\<close>) and the
  authentication service (\<^verbatim>\<open>internal/service/auth_service.go\<close>).

  The table is the list of its rows with the outcomes of the statements to come, as in the store of sessions.
  The text of the database's error for a value that is not unique is not in the repository: it is part of the
  state.  Hashing passwords, comparing them and new identifiers are parameters, in an \<open>auth_env\<close> with the
  tokens' and the secret.
\<close>

text \<open>
  Bearer tokens: \<^verbatim>\<open>base64.RawURLEncoding\<close>, \<^verbatim>\<open>AuthService.issueToken\<close>
  (\<^verbatim>\<open>internal/service/auth_service.go\<close>), and their validation (\<^verbatim>\<open>internal/server/api.go\<close>).

  A \<open>token_env\<close> holds what is not in the repository: the keyed hash (\<^verbatim>\<open>hmac.New(sha256.New, secret)\<close>
  applied to a text), the JSON encoding of the three claims, and the JSON decoding of an object.  A number of
  JSON is the integer that \<^verbatim>\<open>int64\<close> makes of it.
\<close>

section \<open>Base 64\<close>

definition b64_alphabet :: string where
  "b64_alphabet = ''ABCDEFGHIJKLMNOPQRSTUVWXYZabcdefghijklmnopqrstuvwxyz0123456789-_''"

definition b64_char :: "nat \<Rightarrow> char" where "b64_char n = b64_alphabet ! n"

fun position :: "'a \<Rightarrow> 'a list \<Rightarrow> nat option" where
  "position x [] = None"
| "position x (y # ys) = (if x = y then Some 0 else map_option Suc (position x ys))"

definition b64_value :: "char \<Rightarrow> nat option" where "b64_value c = position c b64_alphabet"

fun b64_groups :: "nat list \<Rightarrow> nat list" where
  "b64_groups [] = []"
| "b64_groups [a] = [a div 4, (a mod 4) * 16]"
| "b64_groups [a, b] = [a div 4, (a mod 4) * 16 + b div 16, (b mod 16) * 4]"
| "b64_groups (a # b # c # bs) = a div 4 # ((a mod 4) * 16 + b div 16) # ((b mod 16) * 4 + c div 64) # c mod 64 # b64_groups bs"

definition b64_encode :: "string \<Rightarrow> string" where
  "b64_encode s = map b64_char (b64_groups (map of_char s))"

text \<open>The bits that are left over in a last group are not looked at; a single character is an error.\<close>

fun b64_bytes :: "nat list \<Rightarrow> nat list option" where
  "b64_bytes [] = Some []"
| "b64_bytes [w] = None"
| "b64_bytes [w, x] = Some [w * 4 + x div 16]"
| "b64_bytes [w, x, y] = Some [w * 4 + x div 16, (x mod 16) * 16 + y div 4]"
| "b64_bytes (w # x # y # z # vs) =
     map_option (\<lambda>bs. (w * 4 + x div 16) # ((x mod 16) * 16 + y div 4) # ((y mod 4) * 64 + z) # bs) (b64_bytes vs)"

definition b64_decode :: "string \<Rightarrow> string option" where
  "b64_decode s =
     Option.bind (those (map b64_value (filter (\<lambda>c. c \<noteq> CHR 0x0A \<and> c \<noteq> CHR 0x0D) s)))
       (\<lambda>vs. map_option (map char_of) (b64_bytes vs))"

section \<open>Tokens\<close>

datatype json_value = JString string | JNumber int | JOther

record token_env =
  tk_mac :: "string \<Rightarrow> string \<Rightarrow> string"
  tk_claims :: "string \<Rightarrow> int \<Rightarrow> int \<Rightarrow> string"
  tk_decode :: "string \<Rightarrow> (string \<Rightarrow> json_value option) option"

record jwt_claims =
  jc_subject :: string
  jc_issued_at :: gotime
  jc_expires_at :: gotime

definition token_header :: string where
  "token_header = [CHR ''{'', CHR 0x22] @ ''alg'' @ [CHR 0x22, CHR '':'', CHR 0x22] @ ''HS256'' @ [CHR 0x22, CHR '','', CHR 0x22] @
     ''typ'' @ [CHR 0x22, CHR '':'', CHR 0x22] @ ''JWT'' @ [CHR 0x22, CHR ''}'']"

definition sign_token :: "token_env \<Rightarrow> string \<Rightarrow> string \<Rightarrow> string" where
  "sign_token e secret payload =
     (let input = b64_encode token_header @ ''.'' @ b64_encode payload in
      input @ ''.'' @ b64_encode (tk_mac e secret input))"

definition issue_token :: "token_env \<Rightarrow> string \<Rightarrow> string \<Rightarrow> gotime \<Rightarrow> (go_error, string) result" where
  "issue_token e secret subject now =
     (if blank secret then Inl (Message ''jwt secret is not configured'')
      else Inr (sign_token e secret
        (tk_claims e (trim_space subject) (unix_seconds now) (unix_seconds (now + 8 * 3600 * second)))))"

definition numeric_claim :: "(string \<Rightarrow> json_value option) \<Rightarrow> string \<Rightarrow> int option" where
  "numeric_claim claims key = (case claims key of Some (JNumber i) \<Rightarrow> Some i | _ \<Rightarrow> None)"

definition invalid_token :: go_error where "invalid_token = Message ''invalid bearer token''"
definition expired_token :: go_error where "expired_token = Message ''expired bearer token''"

definition string_claim :: "(string \<Rightarrow> json_value option) \<Rightarrow> string \<Rightarrow> string" where
  "string_claim claims key = (case claims key of Some (JString s) \<Rightarrow> s | _ \<Rightarrow> [])"

definition decoded_part :: "token_env \<Rightarrow> string \<Rightarrow> (string \<Rightarrow> json_value option) option" where
  "decoded_part e part = Option.bind (b64_decode part) (tk_decode e)"

text \<open>The signature is compared before anything is decoded.\<close>

definition validate_jwt :: "token_env \<Rightarrow> string \<Rightarrow> string \<Rightarrow> gotime \<Rightarrow> (go_error, jwt_claims) result" where
  "validate_jwt e token secret now =
     (case split_on CHR ''.'' token of
        [p0, p1, p2] \<Rightarrow>
          if b64_encode (tk_mac e secret (p0 @ ''.'' @ p1)) \<noteq> p2 then Inl invalid_token
          else (case decoded_part e p0 of
            None \<Rightarrow> Inl invalid_token
          | Some header \<Rightarrow>
              if string_claim header ''alg'' \<noteq> ''HS256'' then Inl invalid_token
              else (case decoded_part e p1 of
                None \<Rightarrow> Inl invalid_token
              | Some claims \<Rightarrow>
                  if blank (string_claim claims ''sub'') then Inl invalid_token
                  else (case (numeric_claim claims ''iat'', numeric_claim claims ''exp'') of
                    (Some iat, Some exp) \<Rightarrow>
                      if \<not> from_unix exp > now then Inl expired_token
                      else if from_unix exp - from_unix iat > 24 * 3600 * second then Inl invalid_token
                      else Inr \<lparr>jc_subject = trim_space (string_claim claims ''sub''), jc_issued_at = from_unix iat,
                             jc_expires_at = from_unix exp\<rparr>
                  | _ \<Rightarrow> Inl invalid_token)))
      | _ \<Rightarrow> Inl invalid_token)"

text \<open>The part of the header behind \<^verbatim>\<open>Bearer\<close>, in any case.\<close>

definition bearer_token :: "string \<Rightarrow> (go_error, string) result" where
  "bearer_token header0 =
     (let h = trim_space header0; word = takeWhile (\<lambda>c. c \<noteq> CHR '' '') h; rest = dropWhile (\<lambda>c. c \<noteq> CHR '' '') h in
      if h = [] then Inl (Message ''missing bearer token'')
      else if rest = [] \<or> \<not> equal_fold word ''Bearer'' \<or> blank (tl rest) then Inl invalid_token
      else Inr (trim_space (tl rest)))"

section \<open>Decoding what was encoded\<close>

lemma position_nth: "distinct xs \<Longrightarrow> n < length xs \<Longrightarrow> position (xs ! n) xs = Some n"
proof (induction xs arbitrary: n)
  case (Cons x xs)
  then show ?case by (cases n) auto
qed simp

lemma b64_alphabet_facts: "distinct b64_alphabet" "length b64_alphabet = 64" "CHR 0x0A \<notin> set b64_alphabet" "CHR 0x0D \<notin> set b64_alphabet"
  "CHR ''.'' \<notin> set b64_alphabet" "CHR '' '' \<notin> set b64_alphabet"
  by (simp_all add: b64_alphabet_def)

lemma b64_value_char: "n < 64 \<Longrightarrow> b64_value (b64_char n) = Some n"
  by (simp add: b64_value_def b64_char_def position_nth b64_alphabet_facts)

lemma b64_char_in: "n < 64 \<Longrightarrow> b64_char n \<in> set b64_alphabet"
  by (simp add: b64_char_def b64_alphabet_facts)

lemma b64_groups_range: "\<forall>b \<in> set bs. b < 256 \<Longrightarrow> \<forall>v \<in> set (b64_groups bs). v < 64"
  by (induction bs rule: b64_groups.induct) auto

lemma b64_bytes_groups: "\<forall>b \<in> set bs. b < 256 \<Longrightarrow> b64_bytes (b64_groups bs) = Some bs"
proof (induction bs rule: b64_groups.induct)
  case (4 a b c bs)
  have "(a div 4) * 4 + ((a mod 4) * 16 + b div 16) div 16 = a"
    "(((a mod 4) * 16 + b div 16) mod 16) * 16 + ((b mod 16) * 4 + c div 64) div 4 = b"
    "(((b mod 16) * 4 + c div 64) mod 4) * 64 + c mod 64 = c"
    using 4(2) by auto
  then show ?case using 4 by simp
qed auto

lemma those_map: "(\<And>x. x \<in> set xs \<Longrightarrow> f x = Some (g x)) \<Longrightarrow> those (map f xs) = Some (map g xs)"
  by (induction xs) simp_all

lemma b64_chars: "set (b64_encode s) \<subseteq> set b64_alphabet"
proof -
  have "\<forall>v \<in> set (b64_groups (map of_char s)). v < 64" by (rule b64_groups_range) (simp add: of_char_def)
  then show ?thesis by (auto simp: b64_encode_def intro: b64_char_in)
qed

text \<open> Decoding what was encoded gives it back, for every string of bytes.\<close>

theorem b64_roundtrip: "b64_decode (b64_encode s) = Some s"
proof -
  let ?vs = "b64_groups (map of_char s)"
  have range: "\<forall>b \<in> set (map of_char s :: nat list). b < 256" by (simp add: of_char_def)
  have "filter (\<lambda>c. c \<noteq> CHR 0x0A \<and> c \<noteq> CHR 0x0D) (b64_encode s) = b64_encode s"
    using b64_chars[of s] b64_alphabet_facts(3,4) by (auto intro: filter_True)
  moreover have "those (map b64_value (map b64_char ?vs)) = Some ?vs"
    using those_map[of ?vs "b64_value \<circ> b64_char" id] b64_groups_range[OF range] b64_value_char by simp
  ultimately show ?thesis
    using b64_bytes_groups[OF range] by (simp add: b64_decode_def b64_encode_def comp_def)
qed


section \<open>The table of users\<close>

record user =
  us_id :: string
  us_username :: string
  us_password_hash :: string
  us_created_at :: gotime

record user_db =
  udb_users :: "user list"
  udb_faults :: "go_error option list"
  udb_not_unique :: go_error

type_synonym 'a user_result = "(go_error, 'a) result \<times> user_db"

definition user_statement :: "user_db \<Rightarrow> unit user_result" where
  "user_statement d =
     (case udb_faults d of
        [] \<Rightarrow> (Inr (), d)
      | None # fs \<Rightarrow> (Inr (), d\<lparr>udb_faults := fs\<rparr>)
      | Some e # fs \<Rightarrow> (Inl e, d\<lparr>udb_faults := fs\<rparr>))"

definition user_store_nil :: go_error where
  "user_store_nil = Message ''sqlite user store is not initialized''"

definition normalize_username :: "string \<Rightarrow> string" where
  "normalize_username u = trim_space (to_lower u)"

definition mentions :: "string \<Rightarrow> go_error \<Rightarrow> bool" where
  "mentions word e = contains_str (to_lower (error_text e)) word"

definition insert_user :: "user \<Rightarrow> user_db \<Rightarrow> unit user_result" where
  "insert_user u d =
     and_then (user_statement d) (\<lambda>_ d1.
       if \<exists>x \<in> set (udb_users d1). us_id x = us_id u \<or> us_username x = us_username u then (Inl (udb_not_unique d1), d1)
       else (Inr (), d1\<lparr>udb_users := udb_users d1 @ [u]\<rparr>))"

definition create_user :: "user \<Rightarrow> user_db option \<Rightarrow> (go_error, user) result \<times> user_db option" where
  "create_user u0 s =
     (case s of
        None \<Rightarrow> (Inl user_store_nil, None)
      | Some d \<Rightarrow>
          (let u = u0\<lparr>us_id := trim_space (us_id u0), us_username := normalize_username (us_username u0),
                      us_password_hash := trim_space (us_password_hash u0)\<rparr> in
           if us_id u = [] \<or> us_username u = [] \<or> us_password_hash u = [] \<or> us_created_at u = 0
           then (Inl (Message ''user is incomplete''), s)
           else (case insert_user u d of
                   (Inl e, d1) \<Rightarrow>
                     (Inl (if mentions ''unique'' e then Wrapped (''user already exists: '' @ error_text e) e else e), Some d1)
                 | (Inr _, d1) \<Rightarrow> (Inr u, Some d1))))"

definition get_by_username :: "string \<Rightarrow> user_db option \<Rightarrow> (go_error, user) result \<times> user_db option" where
  "get_by_username name s =
     (case s of
        None \<Rightarrow> (Inl user_store_nil, None)
      | Some d \<Rightarrow>
          (case user_statement d of
             (Inl e, d1) \<Rightarrow> (Inl e, Some d1)
           | (Inr _, d1) \<Rightarrow>
               (case find (\<lambda>u. us_username u = normalize_username name) (udb_users d1) of
                  None \<Rightarrow> (Inl sql_no_rows, Some d1)
                | Some u \<Rightarrow> (Inr u, Some d1))))"

section \<open>The service\<close>

record auth_env =
  ae_tokens :: token_env
  ae_secret :: string
  ae_now :: gotime
  ae_new_id :: string
  ae_hash :: "string \<Rightarrow> (go_error, string) result"
  ae_matches :: "string \<Rightarrow> string \<Rightarrow> bool"

text \<open>\<^verbatim>\<open>EnsureDefaultAdmin\<close>; the texts of its errors are Chinese, here in UTF-8.\<close>

definition check_failed :: string where
  "check_failed =
     [CHR 0xE6, CHR 0xA3, CHR 0x80, CHR 0xE6, CHR 0x9F, CHR 0xA5, CHR 0xE9, CHR 0xBB, CHR 0x98, CHR 0xE8, CHR 0xAE, CHR 0xA4,
      CHR 0xE7, CHR 0x94, CHR 0xA8, CHR 0xE6, CHR 0x88, CHR 0xB7, CHR 0xE5, CHR 0xA4, CHR 0xB1, CHR 0xE8, CHR 0xB4, CHR 0xA5]"

definition hash_failed :: string where
  "hash_failed =
     [CHR 0xE5, CHR 0x8A, CHR 0xA0, CHR 0xE5, CHR 0xAF, CHR 0x86, CHR 0xE9, CHR 0xBB, CHR 0x98, CHR 0xE8, CHR 0xAE, CHR 0xA4,
      CHR 0xE5, CHR 0xAF, CHR 0x86, CHR 0xE7, CHR 0xA0, CHR 0x81, CHR 0xE5, CHR 0xA4, CHR 0xB1, CHR 0xE8, CHR 0xB4, CHR 0xA5]"

definition create_failed :: string where
  "create_failed =
     [CHR 0xE5, CHR 0x88, CHR 0x9B, CHR 0xE5, CHR 0xBB, CHR 0xBA, CHR 0xE9, CHR 0xBB, CHR 0x98, CHR 0xE8, CHR 0xAE, CHR 0xA4,
      CHR 0xE7, CHR 0xAE, CHR 0xA1, CHR 0xE7, CHR 0x90, CHR 0x86, CHR 0xE5, CHR 0x91, CHR 0x98, CHR 0xE5, CHR 0xA4, CHR 0xB1,
      CHR 0xE8, CHR 0xB4, CHR 0xA5]"

definition default_admin_username :: string where "default_admin_username = ''admin''"
definition default_admin_password :: string where "default_admin_password = ''admin123''"

definition ensure_default_admin :: "auth_env \<Rightarrow> user_db option \<Rightarrow> go_error option \<times> user_db option" where
  "ensure_default_admin e s =
     (case s of
        None \<Rightarrow> (Some user_store_nil, None)
      | Some _ \<Rightarrow>
          (case get_by_username default_admin_username s of
             (Inr _, s1) \<Rightarrow> (None, s1)
           | (Inl err, s1) \<Rightarrow>
               if \<not> errors_is err sql_no_rows then (Some (Wrapped (check_failed @ '': '' @ error_text err) err), s1)
               else (case ae_hash e default_admin_password of
                   Inl err \<Rightarrow> (Some (Wrapped (hash_failed @ '': '' @ error_text err) err), s1)
                 | Inr hash \<Rightarrow>
                     (case create_user \<lparr>us_id = ''default-admin'', us_username = default_admin_username,
                             us_password_hash = hash, us_created_at = ae_now e\<rparr> s1 of
                        (Inr _, s2) \<Rightarrow> (None, s2)
                      | (Inl err, s2) \<Rightarrow>
                          if mentions ''unique'' err then (None, s2)
                          else (Some (Wrapped (create_failed @ '': '' @ error_text err) err), s2)))))"

record auth_result =
  aur_token :: string
  aur_user :: user

definition with_token :: "auth_env \<Rightarrow> user \<Rightarrow> (chat_error, auth_result) result" where
  "with_token e u =
     (case issue_token (ae_tokens e) (trim_space (ae_secret e)) (us_username u) (ae_now e) of
        Inl err \<Rightarrow> Inl (OtherError err)
      | Inr t \<Rightarrow> Inr \<lparr>aur_token = t, aur_user = u\<lparr>us_password_hash := []\<rparr>\<rparr>)"

definition validate_credentials :: "string \<Rightarrow> string \<Rightarrow> chat_error option" where
  "validate_credentials username password =
     (if username = [] then Some (ValidationError ''username is required'')
      else if length username < 3 then Some (ValidationError ''username must be at least 3 characters'')
      else if password = [] then Some (ValidationError ''password is required'')
      else if length password < 8 then Some (ValidationError ''password must be at least 8 characters'')
      else None)"

definition register :: "auth_env \<Rightarrow> string \<Rightarrow> string \<Rightarrow> user_db option \<Rightarrow> (chat_error, auth_result) result \<times> user_db option" where
  "register e name pass s =
     (let username = normalize_username name; password = trim_space pass in
      case validate_credentials username password of
        Some err \<Rightarrow> (Inl err, s)
      | None \<Rightarrow>
          (case ae_hash e password of
             Inl err \<Rightarrow> (Inl (store_failed ''hash password'' err), s)
           | Inr hash \<Rightarrow>
               (case create_user \<lparr>us_id = ae_new_id e, us_username = username, us_password_hash = hash, us_created_at = ae_now e\<rparr> s of
                  (Inl err, s1) \<Rightarrow>
                    (Inl (if mentions ''already exists'' err \<or> mentions ''unique'' err then ConflictError ''username already exists''
                          else OtherError err), s1)
                | (Inr u, s1) \<Rightarrow> (with_token e u, s1))))"

definition wrong_credentials :: chat_error where
  "wrong_credentials = ValidationError ''invalid username or password''"

definition login :: "auth_env \<Rightarrow> string \<Rightarrow> string \<Rightarrow> user_db option \<Rightarrow> (chat_error, auth_result) result \<times> user_db option" where
  "login e name pass s =
     (let username = normalize_username name; password = trim_space pass in
      if username = [] \<or> password = [] then (Inl (ValidationError ''username and password are required''), s)
      else (case get_by_username username s of
          (Inl err, s1) \<Rightarrow> (Inl (if errors_is err sql_no_rows then wrong_credentials else OtherError err), s1)
        | (Inr u, s1) \<Rightarrow>
            if \<not> ae_matches e (us_password_hash u) password then (Inl wrong_credentials, s1)
            else (with_token e u, s1)))"

end
