(* ===== verification/Router.thy ===== *)
theory Router
  imports Go_Text
begin

text \<open>
  The router the server is built on (\<^verbatim>\<open>third_party/github.com/go-chi/chi/v5/chi.go\<close>): patterns of
  paths, and the table of routes a router and its children share, each with the middleware that was in use
  when it was added.  A handler is of any type; the parameters of the path are given to it.
\<close>

section \<open>Patterns\<close>

definition is_param :: "string \<Rightarrow> bool" where
  "is_param part \<longleftrightarrow> has_prefix [CHR 0x7B] part \<and> has_prefix [CHR 0x7D] (rev part)"

definition param_name :: "string \<Rightarrow> string" where
  "param_name part =
     (let inner = trim_prefix [CHR 0x7B] part in
      if has_prefix [CHR 0x7D] (rev inner) then butlast inner else inner)"

definition trim_slashes :: "string \<Rightarrow> string" where
  "trim_slashes s = rev (dropWhile (\<lambda>c. c = CHR ''/'') (rev (dropWhile (\<lambda>c. c = CHR ''/'') s)))"

definition split_pattern :: "string \<Rightarrow> string list" where
  "split_pattern value0 = (let t = trim_slashes (trim_space value0) in if t = [] then [] else split_on CHR ''/'' t)"

definition join_pattern :: "string \<Rightarrow> string \<Rightarrow> string" where
  "join_pattern prefix0 pattern =
     (let p = trim_space prefix0;
          base = (if p \<noteq> [] \<and> last p = CHR ''/'' then butlast p else p);
          c = trim_space pattern;
          child = (if c = [] then ''/'' else if has_prefix ''/'' c then c else ''/'' @ c) in
      if base = [] \<or> base = ''/'' then child else base @ child)"

type_synonym params = "(string \<times> string) list"

text \<open>The parts of a pattern and of a path, one by one; a later parameter of the same name wins.\<close>

fun match_parts :: "string list \<Rightarrow> string list \<Rightarrow> params option" where
  "match_parts (p # ps) (x # xs) =
     (if is_param p then map_option (\<lambda>qs. qs @ [(param_name p, x)]) (match_parts ps xs)
      else if p = x then match_parts ps xs else None)"
| "match_parts _ _ = Some []"

definition match_pattern :: "string \<Rightarrow> string \<Rightarrow> params option" where
  "match_pattern pattern path0 =
     (let ps = split_pattern pattern; xs = split_pattern path0 in
      if ps \<noteq> [] \<and> last ps = ''*'' then
        (if length xs < length ps - 1 then None else match_parts (butlast ps) xs)
      else if length ps \<noteq> length xs then None
      else match_parts ps xs)"

section \<open>Routers\<close>

record 'h route =
  rt_method :: string
  rt_pattern :: string
  rt_handler :: 'h

record 'h mux =
  mx_prefix :: string
  mx_middlewares :: "('h \<Rightarrow> 'h) list"

definition new_router :: "'h mux" where
  "new_router = \<lparr>mx_prefix = [], mx_middlewares = []\<rparr>"

definition mux_use :: "('h \<Rightarrow> 'h) \<Rightarrow> 'h mux \<Rightarrow> 'h mux" where
  "mux_use m x = x\<lparr>mx_middlewares := mx_middlewares x @ [m]\<rparr>"

definition mux_child :: "string \<Rightarrow> 'h mux \<Rightarrow> 'h mux" where
  "mux_child pattern x = \<lparr>mx_prefix = join_pattern (mx_prefix x) pattern, mx_middlewares = mx_middlewares x\<rparr>"

text \<open>The first middleware is the outermost one.\<close>

definition mux_handle :: "'h mux \<Rightarrow> string \<Rightarrow> string \<Rightarrow> 'h \<Rightarrow> 'h route list \<Rightarrow> 'h route list" where
  "mux_handle x meth pattern h routes =
     routes @ [\<lparr>rt_method = meth, rt_pattern = join_pattern (mx_prefix x) pattern, rt_handler = foldr (\<lambda>m. m) (mx_middlewares x) h\<rparr>]"

definition mux_get :: "'h mux \<Rightarrow> string \<Rightarrow> 'h \<Rightarrow> 'h route list \<Rightarrow> 'h route list" where
  "mux_get x = mux_handle x ''GET''"

definition mux_post :: "'h mux \<Rightarrow> string \<Rightarrow> 'h \<Rightarrow> 'h route list \<Rightarrow> 'h route list" where
  "mux_post x = mux_handle x ''POST''"

text \<open>The first route that matches serves; \<^term>\<open>None\<close> is the answer 404.\<close>

fun find_route :: "'h route list \<Rightarrow> string \<Rightarrow> string \<Rightarrow> ('h \<times> params) option" where
  "find_route [] meth p = None"
| "find_route (r # rs) meth p =
     (case match_pattern (rt_pattern r) p of
        None \<Rightarrow> find_route rs meth p
      | Some qs \<Rightarrow> if rt_method r \<noteq> meth then find_route rs meth p else Some (rt_handler r, qs))"

definition url_param :: "params \<Rightarrow> string \<Rightarrow> string" where
  "url_param qs key = (case map_of qs key of None \<Rightarrow> [] | Some v \<Rightarrow> v)"

lemma find_route_in: "find_route rs meth p = Some (h, qs) \<Longrightarrow> \<exists>r \<in> set rs. rt_handler r = h \<and> match_pattern (rt_pattern r) p = Some qs \<and> rt_method r = meth"
  by (induction rs) (auto split: option.splits if_splits)

end
