(* ===== verification/Api.thy ===== *)
theory Api
  imports Accounts Router Session_Manager
begin

text \<open>
  The HTTP interface (\<^verbatim>\<open>internal/server/api.go\<close>, \<^verbatim>\<open>auth_handlers.go\<close>, \<^verbatim>\<open>middleware.go\<close>): its handlers over
  the chat service and the table of users, and what they answer.

  An \<open>api_env\<close> holds the configuration of the server and what it takes from outside: the decoders of request
  bodies, the formatting of times, and the decoder of tool inputs.  A body is decoded as a whole: too large, not
  of the shape that is asked for, followed by more data, or a value.  A response's body is the value that is
  marshalled.  The state is the chat service's, the users' and the counter of requests.
\<close>

section \<open>Requests and responses\<close>

record server_request =
  hq_method :: string
  hq_path :: string
  hq_authorization :: string
  hq_query :: "(string \<times> string) list"
  hq_body :: string

datatype 'a decoded_body = Too_Large | Bad_Json go_error | More_Data | Body 'a

record transcript_entry =
  te_turn_index :: int
  te_role :: string
  te_content :: string
  te_timestamp :: string

record list_item =
  li_session_id :: string
  li_status :: string
  li_task :: string
  li_task_type :: string
  li_created_at :: gotime
  li_updated_at :: gotime

record inspect_step =
  isp_step_number :: int
  isp_tool_name :: string
  isp_tool_input :: "(string \<times> string) list option"
  isp_observation :: string
  isp_status :: string

record inspect_provenance =
  ipr_provider :: "plugin_metadata option"
  ipr_verifier :: "plugin_metadata option"
  ipr_agent_strategy :: "plugin_metadata option"

text \<open>The fields \<^verbatim>\<open>request_id\<close>, \<^verbatim>\<open>failure_reason\<close> and \<^verbatim>\<open>finalized\<close>, which no code sets, are left out.\<close>

record inspect_response =
  ir_session_id :: string
  ir_status :: string
  ir_task :: string
  ir_task_type :: string
  ir_created_at :: gotime
  ir_updated_at :: gotime
  ir_steps :: "inspect_step list"
  ir_provenance :: "inspect_provenance option"
  ir_plan :: string
  ir_termination :: string

datatype response_body =
    SessionAccepted string string string
  | ChatStarted string string string string
  | ChatReplied string int string
  | TranscriptShown string string "transcript_entry list"
  | SessionsListed "list_item list" int int int
  | ConversationsListed "list_item list" int int int
  | Inspected inspect_response
  | PluginReloaded
  | Authenticated auth_result
  | Health string
  | ErrorEnvelope string string string
  | PlainText string
  | EventStream "string list"
  | NoContent

record server_response =
  resp_status :: int
  resp_headers :: "(string \<times> string) list"
  resp_body :: response_body

record request_ctx =
  rc_params :: params
  rc_request_id :: string
  rc_subject :: string

record api_state =
  as_chat :: chat_state
  as_users :: "user_db option"
  as_requests :: int

record api_codec =
  co_run :: "string \<Rightarrow> start_options decoded_body"
  co_chat :: "string \<Rightarrow> start_options decoded_body"
  co_resume :: "string \<Rightarrow> string decoded_body"
  co_reply :: "string \<Rightarrow> string decoded_body"
  co_auth :: "string \<Rightarrow> (string \<times> string) decoded_body"
  co_time :: "gotime \<Rightarrow> string"
  co_tool_input :: "string \<Rightarrow> (string \<times> string) list option"

record api_env =
  ap_chat :: chat_env
  ap_auth :: auth_env
  ap_secret :: string
  ap_codec :: api_codec
  ap_reloader :: "(string \<Rightarrow> go_error option) option"
  ap_retry_after :: int
  ap_stream :: "string \<Rightarrow> server_response"
  ap_web_enabled :: bool
  ap_file_server :: "string \<Rightarrow> server_response"
  ap_index :: "string option"

definition write_json :: "int \<Rightarrow> response_body \<Rightarrow> server_response" where
  "write_json status b = \<lparr>resp_status = status, resp_headers = [(''Content-Type'', ''application/json'')], resp_body = b\<rparr>"

section \<open>Errors\<close>

record api_error =
  aer_status :: int
  aer_code :: string
  aer_message :: string
  aer_cause :: "chat_error option"

definition bad_request :: "string \<Rightarrow> api_error" where
  "bad_request m = \<lparr>aer_status = 400, aer_code = ''invalid_request'', aer_message = m, aer_cause = None\<rparr>"

definition internal_error :: "string \<Rightarrow> chat_error option \<Rightarrow> api_error" where
  "internal_error m c = \<lparr>aer_status = 500, aer_code = ''internal_error'', aer_message = m, aer_cause = c\<rparr>"

text \<open>\<^verbatim>\<open>http.StatusText\<close> of the statuses in use.\<close>

definition status_text :: "int \<Rightarrow> string" where
  "status_text s =
     (if s = 400 then ''Bad Request'' else if s = 401 then ''Unauthorized'' else if s = 404 then ''Not Found''
      else if s = 409 then ''Conflict'' else if s = 413 then ''Request Entity Too Large'' else if s = 429 then ''Too Many Requests''
      else if s = 500 then ''Internal Server Error'' else [])"

definition api_error_text :: "api_error \<Rightarrow> string" where
  "api_error_text e =
     (if aer_message e \<noteq> [] then aer_message e
      else case aer_cause e of Some c \<Rightarrow> chat_error_text c | None \<Rightarrow> status_text (aer_status e))"

text \<open>\<^verbatim>\<open>errors.AsType\<close> and \<^verbatim>\<open>errors.Is\<close> look through what \<^verbatim>\<open>fmt.Errorf\<close> wraps.\<close>

fun root_error :: "chat_error \<Rightarrow> chat_error" where
  "root_error (WrappedError m e) = root_error e"
| "root_error e = e"

fun chat_error_is :: "chat_error \<Rightarrow> go_error \<Rightarrow> bool" where
  "chat_error_is (WrappedError m e) target = chat_error_is e target"
| "chat_error_is (OtherError e) target = errors_is e target"
| "chat_error_is (NotFoundError k i e) target = errors_is e target"
| "chat_error_is _ target = False"

definition map_start_error :: "chat_error \<Rightarrow> api_error" where
  "map_start_error e =
     (if chat_error_is e session_already_active
      then \<lparr>aer_status = 409, aer_code = ''conflict'', aer_message = ''session already running'', aer_cause = Some e\<rparr>
      else if chat_error_is e active_session_limit
      then \<lparr>aer_status = 429, aer_code = ''too_many_requests'', aer_message = ''active session cap exceeded'', aer_cause = Some e\<rparr>
      else if chat_error_is e session_manager_closed
      then \<lparr>aer_status = 409, aer_code = ''conflict'', aer_message = ''session manager is shutting down'', aer_cause = Some e\<rparr>
      else internal_error ''start session'' (Some e))"

definition map_service_error :: "chat_error \<Rightarrow> string \<Rightarrow> api_error" where
  "map_service_error e default_message =
     (case root_error e of
        ValidationError m \<Rightarrow> \<lparr>aer_status = 400, aer_code = ''invalid_request'', aer_message = m, aer_cause = Some e\<rparr>
      | ConflictError m \<Rightarrow>
          \<lparr>aer_status = 409,
           aer_code = (if contains_str (chat_error_text (ConflictError m)) ''session cannot be resumed:'' then ''provenance_mismatch''
             else ''conflict''),
           aer_message = chat_error_text (ConflictError m), aer_cause = Some e\<rparr>
      | NotFoundError kind i c \<Rightarrow>
          \<lparr>aer_status = 404, aer_code = ''not_found'',
           aer_message = (if i \<noteq> [] then kind @ '' '' @ quote_str i @ '' not found'' else chat_error_text (NotFoundError kind i c)),
           aer_cause = Some e\<rparr>
      | _ \<Rightarrow>
          if chat_error_is e session_already_active \<or> chat_error_is e active_session_limit \<or> chat_error_is e session_manager_closed
          then map_start_error e
          else internal_error default_message (Some e))"

definition structured_error :: "request_ctx \<Rightarrow> int \<Rightarrow> string \<Rightarrow> string \<Rightarrow> server_response" where
  "structured_error c status code message = write_json status (ErrorEnvelope code message (rc_request_id c))"

definition write_error :: "api_env \<Rightarrow> request_ctx \<Rightarrow> api_error \<Rightarrow> server_response" where
  "write_error env c e =
     (let r = structured_error c (aer_status e) (aer_code e) (api_error_text e) in
      if aer_status e = 429
      then r\<lparr>resp_headers := (''Retry-After'', show_int (if ap_retry_after env \<le> 0 then 1 else ap_retry_after env)) # resp_headers r\<rparr>
      else r)"

section \<open>Handlers\<close>

type_synonym http_handler = "server_request \<Rightarrow> request_ctx \<Rightarrow> api_state \<Rightarrow> server_response \<times> api_state"
type_synonym fallible_handler = "server_request \<Rightarrow> request_ctx \<Rightarrow> api_state \<Rightarrow> (api_error, server_response) result \<times> api_state"

text \<open>\<^verbatim>\<open>API.JSON\<close>.\<close>

definition json_handler :: "api_env \<Rightarrow> fallible_handler \<Rightarrow> http_handler" where
  "json_handler env h q c st =
     (case h q c st of (Inl e, st1) \<Rightarrow> (write_error env c e, st1) | (Inr r, st1) \<Rightarrow> (r, st1))"

definition max_request_body_size :: int where "max_request_body_size = 32 * 1024"

definition decode_json :: "'a decoded_body \<Rightarrow> (api_error, 'a) result" where
  "decode_json b =
     (case b of
        Too_Large \<Rightarrow> Inl \<lparr>aer_status = 413, aer_code = ''request_too_large'',
           aer_message = ''request body must be less than '' @ show_int max_request_body_size @ '' bytes'', aer_cause = None\<rparr>
      | Bad_Json e \<Rightarrow> Inl ((bad_request ''invalid JSON body'')\<lparr>aer_cause := Some (OtherError e)\<rparr>)
      | More_Data \<Rightarrow> Inl (bad_request ''request body must contain a single JSON object'')
      | Body a \<Rightarrow> Inr a)"

text \<open>A call of the chat service, for the request that is in the context.\<close>

definition service_env :: "api_env \<Rightarrow> request_ctx \<Rightarrow> chat_env" where
  "service_env env c = (ap_chat env)\<lparr>ce_request_id := rc_request_id c\<rparr>"

definition on_service :: "string \<Rightarrow> (chat_state \<Rightarrow> 'a chat_result) \<Rightarrow> api_state \<Rightarrow> (api_error, 'a) result \<times> api_state" where
  "on_service default_message f st =
     (case f (as_chat st) of
        (Inl e, s) \<Rightarrow> (Inl (map_service_error e default_message), st\<lparr>as_chat := s\<rparr>)
      | (Inr a, s) \<Rightarrow> (Inr a, st\<lparr>as_chat := s\<rparr>))"

definition answer :: "(api_error, 'a) result \<times> api_state \<Rightarrow> ('a \<Rightarrow> server_response) \<Rightarrow> (api_error, server_response) result \<times> api_state" where
  "answer r f = and_then r (\<lambda>a st. (Inr (f a), st))"

definition session_accepted :: "chat_service_response \<Rightarrow> server_response" where
  "session_accepted r = write_json 202 (SessionAccepted (crs_session_id r) (crs_status r) (crs_stream_url r))"

definition handle_run :: "api_env \<Rightarrow> fallible_handler" where
  "handle_run env q c st =
     and_then (decode_json (co_run (ap_codec env) (hq_body q)), st) (\<lambda>opts st.
       answer (on_service ''start session'' (start_conversation (service_env env c) opts) st) session_accepted)"

definition handle_resume :: "api_env \<Rightarrow> fallible_handler" where
  "handle_resume env q c st =
     and_then (decode_json (co_resume (ap_codec env) (hq_body q)), st) (\<lambda>sid st.
       answer (on_service ''resume session'' (resume_conversation (service_env env c) sid) st) session_accepted)"

definition handle_chat_start :: "api_env \<Rightarrow> fallible_handler" where
  "handle_chat_start env q c st =
     and_then (decode_json (co_chat (ap_codec env) (hq_body q)), st) (\<lambda>opts st.
       answer (on_service ''start chat'' (start_chat (service_env env c) opts) st) (\<lambda>r.
         write_json 202 (ChatStarted (crs_conversation_id r) (crs_session_id r) (crs_status r) (crs_stream_url r))))"

definition conversation_param :: "request_ctx \<Rightarrow> (api_error, string) result" where
  "conversation_param c =
     (let i = trim_space (url_param (rc_params c) ''conversation_id'') in
      if i = [] then Inl (bad_request ''conversation id is required'') else Inr i)"

definition handle_chat_reply :: "api_env \<Rightarrow> fallible_handler" where
  "handle_chat_reply env q c st =
     and_then (conversation_param c, st) (\<lambda>cid st.
     and_then (decode_json (co_reply (ap_codec env) (hq_body q)), st) (\<lambda>message st.
       answer (on_service ''reply to chat'' (submit_reply (service_env env c) cid message) st) (\<lambda>r.
         write_json 202 (ChatReplied (crs_conversation_id r) (crs_turn_index r) (crs_stream_url r)))))"

definition to_transcript_entry :: "api_env \<Rightarrow> conversation_message \<Rightarrow> transcript_entry" where
  "to_transcript_entry env m =
     \<lparr>te_turn_index = msg_turn_index m, te_role = msg_role m, te_content = msg_content m,
      te_timestamp = co_time (ap_codec env) (msg_timestamp m)\<rparr>"

definition handle_chat_transcript :: "api_env \<Rightarrow> fallible_handler" where
  "handle_chat_transcript env q c st =
     and_then (conversation_param c, st) (\<lambda>cid st.
       answer (on_service ''load transcript'' (get_transcript cid) st) (\<lambda>t.
         write_json 200 (TranscriptShown (ct_conversation_id (trn_chat t)) (ct_status (trn_chat t))
           (map (to_transcript_entry env) (ct_messages (trn_chat t))))))"

subsection \<open>Lists\<close>

definition query_value :: "server_request \<Rightarrow> string \<Rightarrow> string" where
  "query_value q key = (case map_of (hq_query q) key of None \<Rightarrow> [] | Some v \<Rightarrow> v)"

definition parse_positive_int_query :: "server_request \<Rightarrow> string \<Rightarrow> int \<Rightarrow> (api_error, int) result" where
  "parse_positive_int_query q key default_value =
     (let raw = trim_space (query_value q key) in
      if raw = [] then Inr default_value
      else case atoi raw of
        None \<Rightarrow> Inl (bad_request (key @ '' must be a positive integer''))
      | Some v \<Rightarrow> if v < 1 then Inl (bad_request (key @ '' must be a positive integer'')) else Inr v)"

definition list_status_filters :: "string list" where
  "list_status_filters = [''created'', ''running'', ''completed'', ''cancelled'', ''failed'']"

definition parse_list_status_filter :: "string \<Rightarrow> (api_error, string) result" where
  "parse_list_status_filter raw =
     (let s = trim_space raw in
      if s = [] then Inr [] else if s \<in> set list_status_filters then Inr s
      else Inl (bad_request ''status must be one of created, running, completed, cancelled, failed''))"

definition parse_list_params :: "server_request \<Rightarrow> (api_error, list_params) result" where
  "parse_list_params q =
     (case parse_positive_int_query q ''page'' 1 of
        Inl e \<Rightarrow> Inl e
      | Inr page \<Rightarrow>
          (case parse_positive_int_query q ''page_size'' 20 of
             Inl e \<Rightarrow> Inl e
           | Inr per_page \<Rightarrow>
               (case parse_list_status_filter (query_value q ''status'') of
                  Inl e \<Rightarrow> Inl e
                | Inr s \<Rightarrow> Inr \<lparr>lp_page = page, lp_page_size = min per_page 100, lp_status = s\<rparr>)))"

definition to_list_item :: "conversation_summary \<Rightarrow> list_item" where
  "to_list_item s =
     \<lparr>li_session_id = csm_session_id s, li_status = csm_status s, li_task = csm_task s, li_task_type = csm_task_type s,
      li_created_at = csm_created_at s, li_updated_at = csm_updated_at s\<rparr>"

definition listed ::
  "string \<Rightarrow> (list_item list \<Rightarrow> int \<Rightarrow> int \<Rightarrow> int \<Rightarrow> response_body) \<Rightarrow> (chat_state \<Rightarrow> chat_list chat_result) \<Rightarrow> api_state \<Rightarrow> (api_error, server_response) result \<times> api_state" where
  "listed message shape f st =
     (case f (as_chat st) of
        (Inl e, s) \<Rightarrow> (Inl (internal_error message (Some e)), st\<lparr>as_chat := s\<rparr>)
      | (Inr r, s) \<Rightarrow>
          (Inr (write_json 200 (shape (map to_list_item (cl_conversations r)) (cl_page r) (cl_page_size r) (cl_total r))),
           st\<lparr>as_chat := s\<rparr>))"

definition handle_chat_list :: "api_env \<Rightarrow> fallible_handler" where
  "handle_chat_list env q c st =
     and_then (parse_list_params q, st) (\<lambda>p st. listed ''list conversations'' ConversationsListed (list_chats p) st)"

definition handle_list_sessions :: "api_env \<Rightarrow> fallible_handler" where
  "handle_list_sessions env q c st =
     and_then (parse_list_params q, st) (\<lambda>p st. listed ''list sessions'' SessionsListed (list_conversations p) st)"

subsection \<open>Plugins\<close>

definition handle_plugin_reload :: "api_env \<Rightarrow> fallible_handler" where
  "handle_plugin_reload env q c st =
     (let name = trim_space (url_param (rc_params c) ''name'') in
      if name = [] then (Inl (bad_request ''plugin name is required''), st)
      else case ap_reloader env of
        None \<Rightarrow>
          (Inl (internal_error ''plugin reload not configured'' (Some (OtherError (Message ''tool plugin reloader is not configured'')))), st)
      | Some reload \<Rightarrow>
          (case reload name of
             None \<Rightarrow> (Inr (write_json 200 PluginReloaded), st)
           | Some e \<Rightarrow>
               (Inl (if contains_str (error_text e) ''plugin not found''
                     then \<lparr>aer_status = 404, aer_code = ''not_found'', aer_message = ''plugin not found'', aer_cause = Some (OtherError e)\<rparr>
                     else internal_error ''failed to reload plugin'' (Some (OtherError e))), st)))"

subsection \<open>Inspection\<close>

definition inspect_step_status :: "step \<Rightarrow> string" where
  "inspect_step_status s =
     (if vr_passed (step_verification s) then ''completed''
      else if \<not> blank (vr_reason (step_verification s)) then ''failed''
      else ''running'')"

definition to_inspect_step :: "api_env \<Rightarrow> step \<Rightarrow> inspect_step" where
  "to_inspect_step env s =
     \<lparr>isp_step_number = step_index s,
      isp_tool_name = (case act_tool_call (step_action s) of None \<Rightarrow> [] | Some t \<Rightarrow> tc_name t),
      isp_tool_input = (case act_tool_call (step_action s) of None \<Rightarrow> None
        | Some t \<Rightarrow> if blank (tc_input t) then None else co_tool_input (ap_codec env) (trim_space (tc_input t))),
      isp_observation = trim_space (obs_summary (step_observation s)), isp_status = inspect_step_status s\<rparr>"

text \<open>The last plugin of each family.\<close>

fun set_family :: "plugin_metadata list \<Rightarrow> inspect_provenance \<Rightarrow> inspect_provenance" where
  "set_family [] out = out"
| "set_family (p # ps) out =
     set_family ps
       (if pl_family p = ''provider'' then out\<lparr>ipr_provider := Some p\<rparr>
        else if pl_family p = ''verifier'' then out\<lparr>ipr_verifier := Some p\<rparr>
        else if pl_family p = ''agent_strategy'' then out\<lparr>ipr_agent_strategy := Some p\<rparr>
        else out)"

definition to_inspect_provenance :: "provenance option \<Rightarrow> inspect_provenance option" where
  "to_inspect_provenance p =
     map_option (\<lambda>q. set_family (pv_plugins (pv_normalize q)) \<lparr>ipr_provider = None, ipr_verifier = None, ipr_agent_strategy = None\<rparr>) p"

definition derive_termination_reason :: "session \<Rightarrow> step list \<Rightarrow> string" where
  "derive_termination_reason s steps =
     (if steps = [] then sess_status s
      else let l = last steps in
        if \<not> blank (vr_reason (step_verification l)) then vr_reason (step_verification l)
        else if \<not> blank (obs_final_response (step_observation l)) then obs_final_response (step_observation l)
        else if \<not> blank (obs_summary (step_observation l)) then obs_summary (step_observation l)
        else sess_status s)"

definition inspected :: "api_env \<Rightarrow> inspect_state \<Rightarrow> inspect_response" where
  "inspected env i =
     (let s = is_session i in
      \<lparr>ir_session_id = sess_id s, ir_status = api_session_status (sess_status s), ir_task = task_description (is_task i),
       ir_task_type = category_or_default (is_task i), ir_created_at = sess_created_at s, ir_updated_at = sess_updated_at s,
       ir_steps = map (to_inspect_step env) (is_steps i), ir_provenance = to_inspect_provenance (sess_provenance s),
       ir_plan = plan_summary (is_plan i), ir_termination = derive_termination_reason s (is_steps i)\<rparr>)"

definition handle_inspect :: "api_env \<Rightarrow> fallible_handler" where
  "handle_inspect env q c st =
     (let sid = trim_space (url_param (rc_params c) ''id'') in
      if sid = [] then (Inl (bad_request ''session id is required''), st)
      else answer (on_service ''load session state'' (get_transcript sid) st) (\<lambda>t. write_json 200 (Inspected (inspected env (trn_inspect t)))))"

text \<open>The stream of a session without an actor is empty; \<open>ap_stream\<close> is what an actor's stream answers.\<close>

definition handle_stream :: "api_env \<Rightarrow> fallible_handler" where
  "handle_stream env q c st =
     (let sid = trim_space (url_param (rc_params c) ''id'') in
      answer (on_service ''load session state'' (validate_stream_session (service_env env c) sid) st) (\<lambda>actor.
        case actor of None \<Rightarrow> \<lparr>resp_status = 200, resp_headers = [], resp_body = NoContent\<rparr> | Some _ \<Rightarrow> ap_stream env sid))"

subsection \<open>Users\<close>

definition on_users ::
  "string \<Rightarrow> (user_db option \<Rightarrow> (chat_error, 'a) result \<times> user_db option) \<Rightarrow> api_state \<Rightarrow> (api_error, 'a) result \<times> api_state" where
  "on_users default_message f st =
     (case f (as_users st) of
        (Inl e, s) \<Rightarrow> (Inl (map_service_error e default_message), st\<lparr>as_users := s\<rparr>)
      | (Inr a, s) \<Rightarrow> (Inr a, st\<lparr>as_users := s\<rparr>))"

definition handle_register :: "api_env \<Rightarrow> fallible_handler" where
  "handle_register env q c st =
     and_then (decode_json (co_auth (ap_codec env) (hq_body q)), st) (\<lambda>(name, pass) st.
       answer (on_users ''register user'' (register (ap_auth env) name pass) st) (\<lambda>r. write_json 201 (Authenticated r)))"

definition handle_login :: "api_env \<Rightarrow> fallible_handler" where
  "handle_login env q c st =
     and_then (decode_json (co_auth (ap_codec env) (hq_body q)), st) (\<lambda>(name, pass) st.
       answer (on_users ''login user'' (login (ap_auth env) name pass) st) (\<lambda>r. write_json 200 (Authenticated r)))"

section \<open>Middleware\<close>

definition request_id_middleware :: "http_handler \<Rightarrow> http_handler" where
  "request_id_middleware h q c st =
     (let n = (as_requests st + 1) mod 2 ^ 64; i = ''req-'' @ show_int n in
      case h q (c\<lparr>rc_request_id := i\<rparr>) (st\<lparr>as_requests := n\<rparr>) of
        (r, st1) \<Rightarrow> (r\<lparr>resp_headers := (''X-Request-Id'', i) # resp_headers r\<rparr>, st1))"

definition auth_middleware :: "api_env \<Rightarrow> http_handler \<Rightarrow> http_handler" where
  "auth_middleware env h q c st =
     (case bearer_token (hq_authorization q) of
        Inl e \<Rightarrow> (structured_error c 401 ''unauthorized'' (error_text e), st)
      | Inr t \<Rightarrow>
          (case validate_jwt (ae_tokens (ap_auth env)) t (ap_secret env) (ae_now (ap_auth env)) of
             Inl e \<Rightarrow> (structured_error c 401 ''unauthorized'' (error_text e), st)
           | Inr claims \<Rightarrow> h q (c\<lparr>rc_subject := jc_subject claims\<rparr>) st))"

section \<open>Routes\<close>

text \<open>
  \<^verbatim>\<open>registerRoutesWithWebFS\<close> (\<^verbatim>\<open>cmd/server/server.go\<close>) and \<^verbatim>\<open>RegisterWebRoutesWithFS\<close> (\<^verbatim>\<open>web.go\<close>).  The
  middleware that recovers from panics is left out, as nothing here panics.
\<close>

definition dev_claims :: "gotime \<Rightarrow> string" where
  "dev_claims now =
     (let q = [CHR 0x22] in
      ''{'' @ q @ ''sub'' @ q @ '':'' @ q @ ''dev'' @ q @ '','' @ q @ ''iat'' @ q @ '':'' @ show_int (unix_seconds now) @ '','' @
      q @ ''exp'' @ q @ '':'' @ show_int (unix_seconds (now + 8 * 3600 * second)) @ ''}'')"

definition healthz :: "api_env \<Rightarrow> http_handler" where
  "healthz env q c st =
     (write_json 200 (Health
        (if ap_secret env = [] then []
         else sign_token (ae_tokens (ap_auth env)) (ap_secret env) (dev_claims (ae_now (ap_auth env))))), st)"

definition no_route :: server_response where
  "no_route = \<lparr>resp_status = 404, resp_headers = [(''Content-Type'', ''text/plain; charset=utf-8'')],
     resp_body = PlainText (''404 page not found'' @ newline)\<rparr>"

definition web_file :: "api_env \<Rightarrow> http_handler" where
  "web_file env q c st =
     (if has_prefix ''/web'' (hq_path q) then ap_file_server env (trim_prefix ''/web'' (hq_path q)) else no_route, st)"

definition web_index :: "api_env \<Rightarrow> http_handler" where
  "web_index env q c st =
     ((case ap_index env of
         None \<Rightarrow> no_route
       | Some text \<Rightarrow> \<lparr>resp_status = 200, resp_headers = [(''Content-Type'', ''text/html; charset=utf-8'')], resp_body = PlainText text\<rparr>), st)"

definition web_routes :: "api_env \<Rightarrow> http_handler mux \<Rightarrow> http_handler route list \<Rightarrow> http_handler route list" where
  "web_routes env x routes =
     (if \<not> ap_web_enabled env then routes
      else mux_get x ''/'' (web_index env) (mux_get (mux_child ''/web'' x) ''/*'' (web_file env) routes))"

definition server_routes :: "api_env \<Rightarrow> http_handler route list" where
  "server_routes env =
     (let x = mux_use request_id_middleware new_router;
          v = mux_child ''/api/v1'' x;
          a = mux_use (auth_middleware env) v in
      web_routes env x (fold (\<lambda>f. f)
        [mux_get x ''/healthz'' (healthz env),
         mux_post v ''/auth/register'' (json_handler env (handle_register env)),
         mux_post v ''/auth/login'' (json_handler env (handle_login env)),
         mux_post a ''/run'' (json_handler env (handle_run env)),
         mux_post a ''/resume'' (json_handler env (handle_resume env)),
         mux_post a ''/chat/start'' (json_handler env (handle_chat_start env)),
         mux_post a ''/chat/{conversation_id}/reply'' (json_handler env (handle_chat_reply env)),
         mux_get a ''/chat/{conversation_id}/transcript'' (json_handler env (handle_chat_transcript env)),
         mux_get a ''/chat/conversations'' (json_handler env (handle_chat_list env)),
         mux_post a ''/plugins/{name}/reload'' (json_handler env (handle_plugin_reload env)),
         mux_get a ''/sessions'' (json_handler env (handle_list_sessions env)),
         mux_get a ''/sessions/{id}/inspect'' (json_handler env (handle_inspect env)),
         mux_get a ''/sessions/{id}/stream'' (json_handler env (handle_stream env))] []))"

definition serve :: "api_env \<Rightarrow> server_request \<Rightarrow> api_state \<Rightarrow> server_response \<times> api_state" where
  "serve env q st =
     (case find_route (server_routes env) (hq_method q) (hq_path q) of
        None \<Rightarrow> (no_route, st)
      | Some (h, qs) \<Rightarrow> h q \<lparr>rc_params = qs, rc_request_id = [], rc_subject = []\<rparr> st)"

end
