(* ===== verification/Server_Properties.thy ===== *)
theory Server_Properties
  imports Api Chat_Properties
begin

text \<open>
  Who gets through to the handlers: tokens that were issued are accepted, a request without a valid token reaches
  only the routes for registration and login, and the health check gives a valid token to everyone.
\<close>

section \<open>Tokens\<close>

lemma split_on_none: "c \<notin> set s \<Longrightarrow> split_on c s = [s]"
  by (induction s) auto

lemma split_on_sep: "c \<notin> set s \<Longrightarrow> split_on c (s @ c # t) = s # split_on c t"
  by (induction s) auto

lemma b64_no_dot [simp]: "CHR ''.'' \<notin> set (b64_encode s)"
  using b64_chars[of s] b64_alphabet_facts(5) by auto

lemma split_token: "split_on CHR ''.'' (sign_token e secret payload) =
    [b64_encode token_header, b64_encode payload, b64_encode (tk_mac e secret (b64_encode token_header @ ''.'' @ b64_encode payload))]"
  by (simp add: sign_token_def Let_def split_on_sep split_on_none)

text \<open>The decoder reads an object with the three claims.\<close>

definition reads_claims :: "token_env \<Rightarrow> string \<Rightarrow> string \<Rightarrow> int \<Rightarrow> int \<Rightarrow> bool" where
  "reads_claims e payload sub iat exp \<longleftrightarrow>
     (\<exists>claims. tk_decode e payload = Some claims \<and> claims ''sub'' = Some (JString sub) \<and> claims ''iat'' = Some (JNumber iat) \<and>
        claims ''exp'' = Some (JNumber exp))"

definition reads_header :: "token_env \<Rightarrow> bool" where
  "reads_header e \<longleftrightarrow> (\<exists>header. tk_decode e token_header = Some header \<and> header ''alg'' = Some (JString ''HS256''))"

lemma signed_token_valid:
  assumes "reads_header e" and "reads_claims e payload sub iat exp" and "\<not> blank sub"
    and "from_unix exp > now" and "from_unix exp - from_unix iat \<le> 24 * 3600 * second"
  shows "validate_jwt e (sign_token e secret payload) secret now =
     Inr \<lparr>jc_subject = trim_space sub, jc_issued_at = from_unix iat, jc_expires_at = from_unix exp\<rparr>"
proof -
  obtain header where h: "tk_decode e token_header = Some header" "header ''alg'' = Some (JString ''HS256'')"
    using assms(1) by (auto simp: reads_header_def)
  obtain claims where c: "tk_decode e payload = Some claims" "claims ''sub'' = Some (JString sub)" "claims ''iat'' = Some (JNumber iat)"
      "claims ''exp'' = Some (JNumber exp)"
    using assms(2) by (auto simp: reads_claims_def)
  show ?thesis
    using h c assms(3-5) unfolding validate_jwt_def split_token
    by (simp add: decoded_part_def b64_roundtrip string_claim_def numeric_claim_def)
qed

lemma div_second: "0 \<le> now div second \<and> now div second \<le> now" if "0 \<le> now" for now :: int
proof -
  have "now = now div second * second + now mod second" "0 \<le> now mod second" by simp_all
  moreover have "0 \<le> now div second" using that by (simp add: pos_imp_zdiv_nonneg_iff)
  ultimately show ?thesis by linarith
qed

lemma from_unix_seconds:
  assumes "0 \<le> now" and "now < 2 ^ 62"
  shows "from_unix (unix_seconds now) = now div second * second"
    "from_unix (unix_seconds (now + 8 * 3600 * second)) = (now div second + 8 * 3600) * second"
proof -
  have w: "wrap64 i = i" if "0 \<le> i" "i < 2 ^ 62 + 28800" for i using that by (intro wrap64_id) simp_all
  have "0 \<le> now div second" "now div second < 2 ^ 62" using div_second[OF assms(1)] assms(2) by linarith+
  moreover have "(now + 8 * 3600 * second) div second = now div second + 28800" by simp
  ultimately show "from_unix (unix_seconds now) = now div second * second"
    "from_unix (unix_seconds (now + 8 * 3600 * second)) = (now div second + 8 * 3600) * second"
    by (simp_all only: from_unix_def unix_seconds_def diff_add_cancel w) simp_all
qed

text \<open> A token is accepted with its subject for the next eight hours, up to the second in which it was issued, by
  a validation with the same secret.\<close>

theorem issued_token_accepted:
  assumes "issue_token e secret subject now = Inr t" and "reads_header e"
    and "reads_claims e (tk_claims e (trim_space subject) (unix_seconds now) (unix_seconds (now + 8 * 3600 * second)))
           (trim_space subject) (unix_seconds now) (unix_seconds (now + 8 * 3600 * second))"
    and "\<not> blank subject" and "0 \<le> now" and "now < 2 ^ 62" and "later < (now div second + 8 * 3600) * second"
  shows "\<exists>c. validate_jwt e t secret later = Inr c \<and> jc_subject c = trim_space subject"
proof -
  let ?i = "unix_seconds now" and ?x = "unix_seconds (now + 8 * 3600 * second)"
  have t: "t = sign_token e secret (tk_claims e (trim_space subject) ?i ?x)"
    using assms(1) by (simp add: issue_token_def split: if_splits)
  have "from_unix ?x > later" "from_unix ?x - from_unix ?i \<le> 24 * 3600 * second"
    using assms(7) from_unix_seconds[OF assms(5,6)] by (simp_all add: algebra_simps)
  then show ?thesis
    using signed_token_valid[OF assms(2,3)] assms(4) t by simp
qed

section \<open>The header\<close>

lemma b64_not_space: "c \<in> set b64_alphabet \<union> {CHR ''.''} \<Longrightarrow> c \<notin> hd ` set space_words \<and> c \<notin> last ` set space_words"
proof -
  assume "c \<in> set b64_alphabet \<union> {CHR ''.''}"
  moreover have "\<forall>c \<in> set b64_alphabet \<union> {CHR ''.''}. (of_char c :: nat) < 128 \<and> (of_char c :: nat) > 32"
    by (simp add: b64_alphabet_def)
  moreover have "\<forall>w \<in> set space_words. ((of_char (hd w) :: nat) \<le> 32 \<or> (of_char (hd w) :: nat) \<ge> 128) \<and>
      ((of_char (last w) :: nat) \<le> 32 \<or> (of_char (last w) :: nat) \<ge> 128)"
    by (simp add: space_words_def)
  ultimately show ?thesis by fastforce
qed

lemma token_chars: "set (sign_token e secret payload) \<subseteq> set b64_alphabet \<union> {CHR ''.''}"
  using b64_chars by (auto simp: sign_token_def Let_def)

lemma bearer_of_token: "bearer_token (''Bearer '' @ sign_token e secret payload) = Inr (sign_token e secret payload)"
proof -
  let ?t = "sign_token e secret payload"
  have ne: "?t \<noteq> []" by (simp add: sign_token_def Let_def)
  then have ends: "hd ?t \<in> set b64_alphabet \<union> {CHR ''.''}" "last ?t \<in> set b64_alphabet \<union> {CHR ''.''}"
    using token_chars[of e secret payload] hd_in_set last_in_set by blast+
  have trim: "trim_space ?t = ?t" using trim_plain[OF ne] b64_not_space ends by blast
  have "CHR ''B'' \<notin> hd ` set space_words" by (simp add: space_words_def)
  then have whole: "trim_space (''Bearer '' @ ?t) = ''Bearer '' @ ?t"
    using ne b64_not_space[OF ends(2)] by (intro trim_plain) simp_all
  have "takeWhile (\<lambda>c. c \<noteq> CHR '' '') (''Bearer '' @ ?t) = ''Bearer''" "dropWhile (\<lambda>c. c \<noteq> CHR '' '') (''Bearer '' @ ?t) = CHR '' '' # ?t"
    by simp_all
  then show ?thesis using ne trim whole by (simp add: bearer_token_def Let_def equal_fold_def blank_def)
qed

section \<open>Routes\<close>

lemma joined_patterns:
  "join_pattern [] ''/healthz'' = ''/healthz''" "join_pattern [] ''/api/v1'' = ''/api/v1''"
  "join_pattern [] ''/web'' = ''/web''" "join_pattern [] ''/'' = ''/''" "join_pattern ''/web'' ''/*'' = ''/web/*''"
  "join_pattern ''/api/v1'' ''/auth/register'' = ''/api/v1/auth/register''"
  "join_pattern ''/api/v1'' ''/auth/login'' = ''/api/v1/auth/login''"
  by code_simp+









definition base_mux :: "http_handler mux" where "base_mux = \<lparr>mx_prefix = [], mx_middlewares = [request_id_middleware]\<rparr>"
definition api_mux :: "http_handler mux" where "api_mux = \<lparr>mx_prefix = ''/api/v1'', mx_middlewares = [request_id_middleware]\<rparr>"
definition guarded_mux :: "api_env \<Rightarrow> http_handler mux" where
  "guarded_mux env = \<lparr>mx_prefix = ''/api/v1'', mx_middlewares = [request_id_middleware, auth_middleware env]\<rparr>"

lemma muxes:
  "mux_use request_id_middleware new_router = base_mux" "mux_child ''/api/v1'' base_mux = api_mux"
  "mux_use (auth_middleware env) api_mux = guarded_mux env"
  by (simp_all add: mux_use_def new_router_def base_mux_def api_mux_def guarded_mux_def mux_child_def joined_patterns)










definition authorized :: "api_env \<Rightarrow> server_request \<Rightarrow> bool" where
  "authorized env q \<longleftrightarrow>
     (\<exists>t c. bearer_token (hq_authorization q) = Inr t \<and>
        validate_jwt (ae_tokens (ap_auth env)) t (ap_secret env) (ae_now (ap_auth env)) = Inr c)"




section \<open>The health check\<close>

lemma first_route: "find_route (server_routes env) ''GET'' ''/healthz'' = Some (request_id_middleware (healthz env), [])"
proof -
  have h: "match_pattern ''/healthz'' ''/healthz'' = Some []" by code_simp
  have first: "find_route (mux_handle x m p k rs) a b = Some y" if "find_route rs a b = Some y" for x m p k rs a b and y :: "http_handler \<times> params"
  proof -
    have "find_route (rs @ rs') a b = Some y" for rs' using that by (induction rs) (auto split: option.splits if_splits)
    then show ?thesis by (simp only: mux_handle_def)
  qed
  have "find_route (mux_get base_mux ''/healthz'' (healthz env) []) ''GET'' ''/healthz'' = Some (request_id_middleware (healthz env), [])"
    using h by (simp add: mux_get_def mux_handle_def base_mux_def joined_patterns)
  then show ?thesis
    unfolding server_routes_def Let_def muxes fold_simps web_routes_def
    by (simp only: mux_get_def mux_post_def first split: if_split) simp
qed

text \<open> If a secret is configured, the health check, which asks for no token, answers everyone with a token that
  authorizes every request for the next eight hours.\<close>

theorem health_check_authorizes:
  assumes "ap_secret env \<noteq> []" and "hq_method q = ''GET''" and "hq_path q = ''/healthz''"
    and "reads_header (ae_tokens (ap_auth env))"
    and "reads_claims (ae_tokens (ap_auth env)) (dev_claims now) ''dev'' (unix_seconds now) (unix_seconds (now + 8 * 3600 * second))"
    and "now = ae_now (ap_auth env)" and "0 \<le> now" and "now < 2 ^ 62"
    and "later < (now div second + 8 * 3600) * second"
  shows "\<exists>t. resp_status (fst (serve env q st)) = 200 \<and> resp_body (fst (serve env q st)) = Health t \<and>
     (\<forall>q1. hq_authorization q1 = ''Bearer '' @ t \<longrightarrow> authorized (env\<lparr>ap_auth := (ap_auth env)\<lparr>ae_now := later\<rparr>\<rparr>) q1)"
proof -
  let ?e = "ae_tokens (ap_auth env)"
  let ?t = "sign_token ?e (ap_secret env) (dev_claims now)"
  have r: "resp_status (fst (serve env q st)) = 200" "resp_body (fst (serve env q st)) = Health ?t"
    using assms(1,6) first_route[of env] assms(2,3)
    by (simp_all add: serve_def request_id_middleware_def healthz_def write_json_def Let_def)
  have "from_unix (unix_seconds (now + 8 * 3600 * second)) > later"
    "from_unix (unix_seconds (now + 8 * 3600 * second)) - from_unix (unix_seconds now) \<le> 24 * 3600 * second"
    using assms(9) from_unix_seconds[OF assms(7,8)] by (simp_all add: algebra_simps)
  moreover have "\<not> blank ''dev''" by code_simp
  ultimately have "\<exists>c. validate_jwt ?e ?t (ap_secret env) later = Inr c"
    using signed_token_valid[OF assms(4,5)] by blast
  then have "authorized (env\<lparr>ap_auth := (ap_auth env)\<lparr>ae_now := later\<rparr>\<rparr>) q1" if "hq_authorization q1 = ''Bearer '' @ ?t" for q1
    using that bearer_of_token by (auto simp: authorized_def)
  then show ?thesis using r by blast
qed

section \<open>Registration and login\<close>

lemma set_strip: "set (strip ws s) \<subseteq> set s"
proof (induction ws s rule: strip.induct)
  case (1 ws s)
  show ?case
  proof (cases "find (\<lambda>w. w \<noteq> [] \<and> has_prefix w s) ws")
    case None
    then show ?thesis by (simp add: strip_None)
  next
    case (Some w)
    then have "strip ws s = strip ws (drop (length w) s)" by (simp add: strip_Some)
    then show ?thesis using 1 Some set_drop_subset[of "length w" s] by auto
  qed
qed

lemma set_trim_space: "set (trim_space s) \<subseteq> set s"
  using set_strip[of space_words s] set_strip[of "map rev space_words" "rev (strip space_words s)"] by (auto simp: trim_space_def)

lemma normalize_username_idem [simp]: "normalize_username (normalize_username u) = normalize_username u"
proof -
  have "lower_char c = c" if "c \<in> set (trim_space (to_lower u))" for c
    using that set_trim_space[of "to_lower u"] by (auto simp: to_lower_def)
  then have "to_lower (trim_space (to_lower u)) = trim_space (to_lower u)" by (simp add: to_lower_def map_idI)
  then show ?thesis by (simp add: normalize_username_def)
qed

lemma created_user:
  assumes "create_user u0 (Some d) = (Inr u, s1)"
  shows "\<exists>d1. s1 = Some d1 \<and> find (\<lambda>x. us_username x = us_username u) (udb_users d1) = Some u \<and>
     us_username u = normalize_username (us_username u0) \<and> us_password_hash u = trim_space (us_password_hash u0)"
proof -
  obtain d1 where u: "us_username u = normalize_username (us_username u0)" "us_password_hash u = trim_space (us_password_hash u0)"
    and i: "insert_user u d = (Inr (), d1)" "s1 = Some d1"
    using assms by (auto simp: create_user_def Let_def split: if_splits prod.splits sum.splits)
  obtain d0 where "d1 = d0\<lparr>udb_users := udb_users d0 @ [u]\<rparr>" "\<forall>x \<in> set (udb_users d0). us_username x \<noteq> us_username u"
    using i(1) by (auto simp: insert_user_def and_then_Inr split: if_splits)
  moreover have "find (\<lambda>x. us_username x = us_username u) (us @ [u]) = Some u" if "\<forall>x \<in> set us. us_username x \<noteq> us_username u" for us
    using that by (induction us) auto
  ultimately show ?thesis using u i(2) by simp
qed

lemma registered_user:
  assumes "register e name pass (Some d) = (Inr r, s1)"
  shows "\<exists>hash u d1. ae_hash e (trim_space pass) = Inr hash \<and> s1 = Some d1 \<and> with_token e u = Inr r \<and>
     find (\<lambda>x. us_username x = normalize_username name) (udb_users d1) = Some u \<and>
     us_username u = normalize_username name \<and> us_password_hash u = trim_space hash \<and>
     validate_credentials (normalize_username name) (trim_space pass) = None"
proof -
  let ?u0 = "\<lambda>hash. \<lparr>us_id = ae_new_id e, us_username = normalize_username name, us_password_hash = hash, us_created_at = ae_now e\<rparr>"
  obtain hash u where "validate_credentials (normalize_username name) (trim_space pass) = None" "ae_hash e (trim_space pass) = Inr hash"
    "create_user (?u0 hash) (Some d) = (Inr u, s1)" "with_token e u = Inr r"
    using assms by (auto simp: register_def Let_def split: option.splits sum.splits prod.splits)
  then show ?thesis using created_user[of "?u0 hash" d u s1] by auto
qed

text \<open> Who has registered can log in with the same name and password, and no one can register a name again that
  differs from it only in case and surrounding white space.\<close>

theorem registered_logs_in:
  assumes "register e name pass (Some d) = (Inr r, Some d1)" and "udb_faults d1 = []"
    and "\<And>p h. ae_hash e p = Inr h \<Longrightarrow> ae_matches e (trim_space h) p"
  shows "login e name pass (Some d1) = (Inr r, Some d1) \<and> us_username (aur_user r) = normalize_username name \<and>
     us_password_hash (aur_user r) = [] \<and>
     (\<forall>e1 name1 pass1. normalize_username name1 = normalize_username name \<longrightarrow>
        \<not> is_ok (fst (register e1 name1 pass1 (Some d1))) \<and> snd (register e1 name1 pass1 (Some d1)) = Some d1)"
proof (intro conjI allI impI)
  obtain hash u where h: "ae_hash e (trim_space pass) = Inr hash" and t: "with_token e u = Inr r"
    and f: "find (\<lambda>x. us_username x = normalize_username name) (udb_users d1) = Some u"
    and u: "us_username u = normalize_username name" "us_password_hash u = trim_space hash"
    and v: "validate_credentials (normalize_username name) (trim_space pass) = None"
    using registered_user[OF assms(1)] by auto
  have st: "user_statement d1 = (Inr (), d1)" using assms(2) by (simp add: user_statement_def)
  have "normalize_username name \<noteq> []" "trim_space pass \<noteq> []" using v by (auto simp: validate_credentials_def split: if_splits)
  moreover have "ae_matches e (us_password_hash u) (trim_space pass)" using assms(3)[OF h] u(2) by simp
  ultimately show "login e name pass (Some d1) = (Inr r, Some d1)"
    using st f t by (simp add: login_def get_by_username_def Let_def)
  show "us_username (aur_user r) = normalize_username name" "us_password_hash (aur_user r) = []"
    using t u(1) by (auto simp: with_token_def split: sum.splits)
  fix e1 name1 pass1 assume same: "normalize_username name1 = normalize_username name"
  have taken: "\<exists>x \<in> set (udb_users d1). us_username x = normalize_username name" 
    by (rule bexI[of _ u]) (use f u(1) in \<open>auto simp: find_Some_iff\<close>)
  have "insert_user w d1 = (Inl (udb_not_unique d1), d1)" if "us_username w = normalize_username name" for w
    using st taken that by (auto simp: insert_user_def)
  then have c: "\<exists>err. create_user w (Some d1) = (Inl err, Some d1)" if "us_username w = normalize_username name" for w
    using that by (simp add: create_user_def Let_def)
  have "\<not> is_ok (fst (register e1 name1 pass1 (Some d1))) \<and> snd (register e1 name1 pass1 (Some d1)) = Some d1"
  proof (cases "ae_hash e1 (trim_space pass1)")
    case (Inl err)
    then show ?thesis by (simp add: register_def Let_def split: option.split)
  next
    case (Inr hash1)
    obtain err where "create_user \<lparr>us_id = ae_new_id e1, us_username = normalize_username name1, us_password_hash = hash1,
        us_created_at = ae_now e1\<rparr> (Some d1) = (Inl err, Some d1)"
      using c same by fastforce
    then show ?thesis using Inr by (simp add: register_def Let_def split: option.split)
  qed
  then show "\<not> is_ok (fst (register e1 name1 pass1 (Some d1)))" "snd (register e1 name1 pass1 (Some d1)) = Some d1" by simp_all
qed

section \<open>The properties at work\<close>

definition sample_claims :: "string \<Rightarrow> int \<Rightarrow> int \<Rightarrow> string \<Rightarrow> json_value option" where
  "sample_claims sub iat exp = [''alg'' \<mapsto> JString ''HS256'', ''sub'' \<mapsto> JString sub, ''iat'' \<mapsto> JNumber iat, ''exp'' \<mapsto> JNumber exp]"

definition sample_tokens :: "string \<Rightarrow> gotime \<Rightarrow> token_env" where
  "sample_tokens sub now =
     \<lparr>tk_mac = (\<lambda>secret text1. secret), tk_claims = (\<lambda>_ _ _. ''claims''),
      tk_decode = (\<lambda>_. Some (sample_claims sub (unix_seconds now) (unix_seconds (now + 8 * 3600 * second))))\<rparr>"

definition sample_auth :: auth_env where
  "sample_auth =
     \<lparr>ae_tokens = sample_tokens ''dev'' 5, ae_secret = ''k'', ae_now = 5, ae_new_id = ''u1'', ae_hash = (\<lambda>p. Inr (''h'' @ p)),
      ae_matches = (\<lambda>h p. h = trim_space (''h'' @ p))\<rparr>"

definition sample_api :: api_env where
  "sample_api =
     \<lparr>ap_chat = sample_env, ap_auth = sample_auth, ap_secret = ''k'',
      ap_codec = \<lparr>co_run = (\<lambda>_. More_Data), co_chat = (\<lambda>_. More_Data), co_resume = (\<lambda>_. More_Data), co_reply = (\<lambda>_. More_Data), co_auth = (\<lambda>_. More_Data),
        co_time = (\<lambda>_. []), co_tool_input = (\<lambda>_. None)\<rparr>,
      ap_reloader = None, ap_retry_after = 0, ap_stream = (\<lambda>_. no_route), ap_web_enabled = False, ap_file_server = (\<lambda>_. no_route),
      ap_index = None\<rparr>"

definition sample_request :: "string \<Rightarrow> string \<Rightarrow> server_request" where
  "sample_request meth p = \<lparr>hq_method = meth, hq_path = p, hq_authorization = [], hq_query = [], hq_body = []\<rparr>"

definition sample_state :: api_state where
  "sample_state = \<lparr>as_chat = \<lparr>cst_store = None, cst_started = []\<rparr>, as_users = None, as_requests = 0\<rparr>"

lemma sample_reads: "reads_header (sample_tokens sub now)"
  "reads_claims (sample_tokens sub now) payload sub (unix_seconds now) (unix_seconds (now + 8 * 3600 * second))"
  by (simp_all add: reads_header_def reads_claims_def sample_tokens_def sample_claims_def)



theorem health_check_authorizes_witness:
  "\<exists>t. resp_body (fst (serve sample_api (sample_request ''GET'' ''/healthz'') sample_state)) = Health t \<and>
     authorized (sample_api\<lparr>ap_auth := sample_auth\<lparr>ae_now := 7\<rparr>\<rparr>) ((sample_request ''GET'' [])\<lparr>hq_authorization := ''Bearer '' @ t\<rparr>)"
proof -
  have f: "ap_secret sample_api \<noteq> []" "ae_tokens (ap_auth sample_api) = sample_tokens ''dev'' 5" "ap_auth sample_api = sample_auth"
    "5 = ae_now (ap_auth sample_api)" "hq_method (sample_request ''GET'' ''/healthz'') = ''GET''"
    "hq_path (sample_request ''GET'' ''/healthz'') = ''/healthz''"
    by (simp_all add: sample_api_def sample_auth_def sample_request_def)
  have "reads_header (ae_tokens (ap_auth sample_api))"
    "reads_claims (ae_tokens (ap_auth sample_api)) (dev_claims 5) ''dev'' (unix_seconds 5) (unix_seconds (5 + 8 * 3600 * second))"
    unfolding f(2) by (rule sample_reads)+
  from health_check_authorizes[OF f(1,5,6) this f(4), of 7 sample_state] show ?thesis by (auto simp: f(3))
qed

theorem issued_token_accepted_witness:
  "\<exists>t c. issue_token (sample_tokens ''dev'' 5) ''k'' ''dev'' 5 = Inr t \<and> validate_jwt (sample_tokens ''dev'' 5) t ''k'' 7 = Inr c \<and>
     jc_subject c = ''dev''"
proof -
  have f: "\<not> blank ''k''" "\<not> blank ''dev''" "trim_space ''dev'' = ''dev''" by code_simp+
  then obtain t where t: "issue_token (sample_tokens ''dev'' 5) ''k'' ''dev'' 5 = Inr t" by (simp add: issue_token_def)
  have "\<exists>c. validate_jwt (sample_tokens ''dev'' 5) t ''k'' 7 = Inr c \<and> jc_subject c = trim_space ''dev''"
    by (rule issued_token_accepted[OF t sample_reads(1)]) (simp_all only: f sample_reads(2), simp_all)
  then show ?thesis using t f(3) by auto
qed

theorem registered_logs_in_witness:
  "\<exists>r d1. register sample_auth ''Bob'' ''secret-1'' (Some \<lparr>udb_users = [], udb_faults = [], udb_not_unique = Canceled\<rparr>) = (Inr r, Some d1) \<and>
     login sample_auth ''Bob'' ''secret-1'' (Some d1) = (Inr r, Some d1)"
proof -
  let ?d = "\<lparr>udb_users = [], udb_faults = [], udb_not_unique = Canceled\<rparr>"
  let ?d1 = "the (snd (register sample_auth ''Bob'' ''secret-1'' (Some ?d)))"
  have f: "normalize_username ''Bob'' = ''bob''" "trim_space ''secret-1'' = ''secret-1''" "trim_space ''hsecret-1'' = ''hsecret-1''"
    "trim_space ''u1'' = ''u1''" "normalize_username ''bob'' = ''bob''" "\<not> blank ''k''" "trim_space ''k'' = ''k''"
    by code_simp+
  have "\<exists>r d1. register sample_auth ''Bob'' ''secret-1'' (Some ?d) = (Inr r, Some d1) \<and> udb_faults d1 = []"
    using f by (simp add: register_def Let_def validate_credentials_def sample_auth_def create_user_def insert_user_def user_statement_def
        with_token_def issue_token_def)
  then obtain r d1 where r: "register sample_auth ''Bob'' ''secret-1'' (Some ?d) = (Inr r, Some d1)" "udb_faults d1 = []" by blast
  have "ae_matches sample_auth (trim_space h) p" if "ae_hash sample_auth p = Inr h" for p h using that by (auto simp: sample_auth_def)
  from registered_logs_in[OF r this] show ?thesis using r(1) by blast
qed

end
