(* ===== verification/Event_Stream.thy ===== *)
theory Event_Stream
  imports Events
begin

text \<open>
  The stream of server-sent events of a session (\<^verbatim>\<open>sseWriter\<close> and the loop of \<^verbatim>\<open>API.HandleStream\<close> in
  \<^verbatim>\<open>internal/server/api.go\<close>).  The writer holds what has been written, chunk by chunk, and how many more
  writes succeed: \<^term>\<open>None\<close> if all do.  What the loop selects next is a list of inputs; marshalling an event
  is a parameter, as it may fail.
\<close>

record stream_writer =
  sw_chunks :: "string list"
  sw_left :: "nat option"

datatype stream_error = Malformed_Event | Write_Failed

definition write_chunk :: "string \<Rightarrow> stream_writer \<Rightarrow> stream_error option \<times> stream_writer" where
  "write_chunk s w =
     (case sw_left w of
        None \<Rightarrow> (None, w\<lparr>sw_chunks := sw_chunks w @ [s]\<rparr>)
      | Some 0 \<Rightarrow> (Some Write_Failed, w)
      | Some (Suc n) \<Rightarrow> (None, \<lparr>sw_chunks = sw_chunks w @ [s], sw_left = Some n\<rparr>))"

definition write_comment :: "string \<Rightarrow> stream_writer \<Rightarrow> stream_error option \<times> stream_writer" where
  "write_comment comment = write_chunk ('': '' @ trim_space comment @ newline @ newline)"

definition supported_stream_event :: "event_type \<Rightarrow> bool" where
  "supported_stream_event t \<longleftrightarrow>
     t \<in> {ev_token_delta, ev_tool_start, ev_tool_end, ev_step_complete, ev_error, ev_session_complete}"

text \<open>The marshaller gives \<^term>\<open>None\<close> for an event it cannot encode.\<close>

definition write_event ::
  "(streaming_event \<Rightarrow> string option) \<Rightarrow> streaming_event \<Rightarrow> stream_writer \<Rightarrow> stream_error option \<times> stream_writer" where
  "write_event marshal e w =
     (if \<not> supported_stream_event (ev_type e) then (None, w)
      else case marshal e of
        None \<Rightarrow> (Some Malformed_Event, w)
      | Some data \<Rightarrow>
          (case write_chunk (''event: '' @ ev_type e @ newline) w of
             (Some err, w1) \<Rightarrow> (Some err, w1)
           | (None, w1) \<Rightarrow> write_chunk (''data: '' @ data @ newline @ newline) w1))"

text \<open>The events' channel is closed with the event that tells of an overflow, if there was one.\<close>

datatype stream_input = Request_Done | Heartbeat | Event_Received streaming_event | Events_Closed "streaming_event option"

fun stream_loop :: "(streaming_event \<Rightarrow> string option) \<Rightarrow> stream_input list \<Rightarrow> stream_writer \<Rightarrow> stream_writer" where
  "stream_loop marshal [] w = w"
| "stream_loop marshal (Request_Done # inputs) w = w"
| "stream_loop marshal (Heartbeat # inputs) w =
     (case write_comment ''heartbeat'' w of
        (Some err, w1) \<Rightarrow> w1
      | (None, w1) \<Rightarrow> stream_loop marshal inputs w1)"
| "stream_loop marshal (Events_Closed overflow # inputs) w =
     (case overflow of None \<Rightarrow> w | Some e \<Rightarrow> snd (write_event marshal e w))"
| "stream_loop marshal (Event_Received e # inputs) w =
     (case write_event marshal e w of
        (Some Write_Failed, w1) \<Rightarrow> w1
      | (_, w1) \<Rightarrow> stream_loop marshal inputs w1)"

definition stream_events :: "(streaming_event \<Rightarrow> string option) \<Rightarrow> stream_input list \<Rightarrow> stream_writer \<Rightarrow> stream_writer" where
  "stream_events marshal inputs w =
     (case write_comment ''stream opened; no replay'' w of
        (Some err, w1) \<Rightarrow> w1
      | (None, w1) \<Rightarrow> stream_loop marshal inputs w1)"

section \<open>What a client reads\<close>

text \<open>The chunks of the events, and what the loop takes from its inputs.\<close>

definition event_chunks :: "(streaming_event \<Rightarrow> string option) \<Rightarrow> streaming_event \<Rightarrow> string list" where
  "event_chunks marshal e =
     (if supported_stream_event (ev_type e)
      then (case marshal e of None \<Rightarrow> [] | Some data \<Rightarrow> [''event: '' @ ev_type e @ newline, ''data: '' @ data @ newline @ newline])
      else [])"

definition heartbeat_chunk :: string where
  "heartbeat_chunk = '': '' @ trim_space ''heartbeat'' @ newline @ newline"

fun shown :: "(streaming_event \<Rightarrow> string option) \<Rightarrow> stream_input list \<Rightarrow> string list" where
  "shown marshal [] = []"
| "shown marshal (Request_Done # inputs) = []"
| "shown marshal (Heartbeat # inputs) = heartbeat_chunk # shown marshal inputs"
| "shown marshal (Events_Closed overflow # inputs) = (case overflow of None \<Rightarrow> [] | Some e \<Rightarrow> event_chunks marshal e)"
| "shown marshal (Event_Received e # inputs) = event_chunks marshal e @ shown marshal inputs"

text \<open>What a writer takes of some chunks, and the writer after it.\<close>

definition taken :: "stream_writer \<Rightarrow> string list \<Rightarrow> string list" where
  "taken w cs = (case sw_left w of None \<Rightarrow> cs | Some n \<Rightarrow> take n cs)"

definition after_chunks :: "string list \<Rightarrow> stream_writer \<Rightarrow> stream_writer" where
  "after_chunks cs w = \<lparr>sw_chunks = sw_chunks w @ taken w cs, sw_left = map_option (\<lambda>n. n - length cs) (sw_left w)\<rparr>"

definition full :: "string list \<Rightarrow> stream_writer \<Rightarrow> bool" where
  "full cs w \<longleftrightarrow> (case sw_left w of None \<Rightarrow> False | Some n \<Rightarrow> n < length cs)"

lemma write_chunk_spec: "write_chunk s w = (if full [s] w then Some Write_Failed else None, after_chunks [s] w)"
  by (cases w) (auto simp: write_chunk_def full_def after_chunks_def taken_def split: option.split nat.split)

lemma after_two: "\<not> full [a] w \<Longrightarrow> after_chunks [b] (after_chunks [a] w) = after_chunks [a, b] w \<and> full [b] (after_chunks [a] w) = full [a, b] w"
proof (cases "sw_left w")
  case None
  then show ?thesis by (simp add: full_def after_chunks_def taken_def)
next
  case (Some n)
  moreover assume "\<not> full [a] w"
  ultimately obtain m where "sw_left w = Some (Suc m)" by (cases n) (simp_all add: full_def)
  then show ?thesis by (cases m) (simp_all add: full_def after_chunks_def taken_def)
qed

lemma after_full: "full [a] w \<Longrightarrow> after_chunks [a] w = after_chunks (a # cs) w \<and> full (a # cs) w"
  by (auto simp: full_def after_chunks_def taken_def split: option.splits)

lemma after_none: "after_chunks [] w = w \<and> \<not> full [] w"
proof (cases w)
  case (fields chunks left)
  then show ?thesis by (cases left) (simp_all add: after_chunks_def taken_def full_def)
qed

lemma write_event_spec:
  "snd (write_event marshal e w) = after_chunks (event_chunks marshal e) w \<and>
   (fst (write_event marshal e w) = Some Write_Failed \<longleftrightarrow> full (event_chunks marshal e) w)"
proof -
  let ?a = "''event: '' @ ev_type e @ newline"
  have none: "after_chunks [] w = w" "\<not> full [] w"
    using after_none by simp_all
  show ?thesis
  proof (cases "supported_stream_event (ev_type e) \<and> marshal e \<noteq> None")
    case False
    then show ?thesis using none by (auto simp: write_event_def event_chunks_def)
  next
    case True
    then obtain data where d: "marshal e = Some data" by blast
    let ?b = "''data: '' @ data @ newline @ newline"
    have chunks: "event_chunks marshal e = [?a, ?b]" using True d by (simp add: event_chunks_def)
    have w: "write_event marshal e w =
        (if full [?a] w then (Some Write_Failed, after_chunks [?a] w) else write_chunk ?b (after_chunks [?a] w))"
      using True d by (simp add: write_event_def write_chunk_spec)
    show ?thesis
    proof (cases "full [?a] w")
      case True
      then show ?thesis unfolding chunks w using after_full[OF True, of "[?b]"] by simp
    next
      case False
      then show ?thesis unfolding chunks w using after_two[OF False, of ?b] by (simp add: write_chunk_spec)
    qed
  qed
qed

lemma taken_append: "sw_chunks (after_chunks cs w) @ taken (after_chunks cs w) ds = sw_chunks w @ taken w (cs @ ds)"
  by (simp add: after_chunks_def taken_def split: option.split)

lemma taken_full: "full cs w \<Longrightarrow> taken w (cs @ ds) = taken w cs"
  by (auto simp: full_def taken_def split: option.splits)

lemma stream_loop_chunks: "sw_chunks (stream_loop marshal inputs w) = sw_chunks w @ taken w (shown marshal inputs)"
proof (induction marshal inputs w rule: stream_loop.induct)
  case (3 marshal inputs w)
  have "write_comment ''heartbeat'' w = (if full [heartbeat_chunk] w then Some Write_Failed else None, after_chunks [heartbeat_chunk] w)"
    unfolding write_comment_def heartbeat_chunk_def by (rule write_chunk_spec)
  then show ?case
    using 3 taken_append[of "[heartbeat_chunk]" w] taken_full[of "[heartbeat_chunk]" w "shown marshal inputs"]
    by (auto simp: after_chunks_def split: if_splits)
next
  case (4 marshal overflow inputs w)
  then show ?case using write_event_spec[of marshal _ w] by (auto simp: after_chunks_def taken_def split: option.split)
next
  case (5 marshal e inputs w)
  obtain r w1 where r: "write_event marshal e w = (r, w1)" by fastforce
  then have w1: "w1 = after_chunks (event_chunks marshal e) w" and f: "r = Some Write_Failed \<longleftrightarrow> full (event_chunks marshal e) w"
    using write_event_spec[of marshal e w] by simp_all
  show ?case
  proof (cases "r = Some Write_Failed")
    case True
    then show ?thesis using r w1 f taken_full by (simp add: after_chunks_def)
  next
    case False
    then have "stream_loop marshal (Event_Received e # inputs) w = stream_loop marshal inputs w1"
      using r by (auto split: option.split stream_error.split)
    moreover have "sw_chunks (stream_loop marshal inputs w1) = sw_chunks w1 @ taken w1 (shown marshal inputs)"
      using False 5 r by (cases r; cases "the r") auto
    ultimately show ?thesis using w1 taken_append by simp
  qed
qed (simp_all add: taken_def split: option.split)

definition opening_chunk :: string where
  "opening_chunk = '': '' @ trim_space ''stream opened; no replay'' @ newline @ newline"

text \<open> A client reads the opening comment and then, in order, every supported event that can be encoded, with
  heartbeats between them, up to the end of the stream or of the request, or up to the first write that fails.\<close>

theorem stream_shows_events:
  "sw_chunks (stream_events marshal inputs w) = sw_chunks w @ taken w (opening_chunk # shown marshal inputs)"
proof -
  have "write_comment ''stream opened; no replay'' w =
      (if full [opening_chunk] w then Some Write_Failed else None, after_chunks [opening_chunk] w)"
    unfolding write_comment_def opening_chunk_def by (rule write_chunk_spec)
  then show ?thesis
    using stream_loop_chunks[of marshal inputs "after_chunks [opening_chunk] w"] taken_append[of "[opening_chunk]" w]
      taken_full[of "[opening_chunk]" w "shown marshal inputs"]
    by (auto simp: stream_events_def after_chunks_def split: if_splits)
qed

end
