(* ===== verification/Model_Adapter.thy ===== *)
theory Model_Adapter
  imports Memory_Model Provenance Go_Text Agent_Strategy Llm_Client
begin

text \<open>
  The model behind the engine (\<^verbatim>\<open>internal/runtime/model_adapter.go\<close>): a provider of language models is asked with
  a prompt, and what it writes is read as a plan, an action or an observation.

  A provider acts on the world; its stream takes a receiver of events, which here also collects the text, so it
  acts on the world beside a text.  Marshalling a prompt, decoding a reply and parsing a duration are parameters.
\<close>

text \<open>
  The prompts for a model (\<^verbatim>\<open>internal/config/prompts\<close>): the system prompt and the inputs for a plan, an action
  and an observation.  An input is the JSON value that is marshalled; it holds strings, numbers, flags, lists and
  objects only, so marshalling it does not fail.  Confidence is an integer here, as in the memory model.
\<close>

section \<open>Values\<close>

datatype prompt_value =
    PNull
  | PText string
  | PInt int
  | PBool bool
  | PList "prompt_value list"
  | PObject "(string \<times> prompt_value) list"

definition system_prompt_v1 :: string where
  "system_prompt_v1 =
     ''You are zheng-agent, a CLI-first general agent harness.'' @ newline @
     ''Stay within configured tool and verification boundaries.'' @ newline @
     ''Prefer explicit evidence, bounded steps, and inspectable outputs.'' @ newline @
     ''Use only tools listed in the prompt input when needed.'' @ newline @
     ''When a tool is required, emit a tool_call action with valid tool name/input/timeout.''"

definition default_prompt_version :: string where "default_prompt_version = ''v1.0''"

definition system_prompt :: "string \<Rightarrow> string option" where
  "system_prompt version = (if version = ''v1.0'' then Some system_prompt_v1 else None)"

section \<open>Parts\<close>

definition max_tool_schema_length :: nat where "max_tool_schema_length = 1200"

definition truncate_tool_schema :: "string \<Rightarrow> string" where
  "truncate_tool_schema schema =
     (let t = trim_space schema in
      if length t \<le> max_tool_schema_length then t
      else trim_space (take max_tool_schema_length t) @ [CHR 0xE2, CHR 0x80, CHR 0xA6] @ ''(truncated)'')"

definition tool_payload :: "tool_info \<Rightarrow> prompt_value" where
  "tool_payload t =
     PObject [(''name'', PText (trim_space (ti_name t))), (''description'', PText (trim_space (ti_description t))),
       (''schema'', PText (truncate_tool_schema (ti_schema t)))]"

definition tools_payload :: "tool_info list \<Rightarrow> prompt_value list" where
  "tools_payload tools = map tool_payload (filter (\<lambda>t. \<not> blank (ti_name t)) tools)"

definition memory_item :: "memory_entry \<Rightarrow> prompt_value" where
  "memory_item m =
     PObject [(''scope'', PText (me_scope m)), (''type'', PText (me_type m)), (''content'', PText (trim_space (me_content m))),
       (''confidence'', PInt (me_confidence m)), (''source'', PText (trim_space (me_source m)))]"

definition memory_payload :: "memory_entry list \<Rightarrow> prompt_value list" where
  "memory_payload ms = map memory_item (filter (\<lambda>m. \<not> blank (me_content m)) ms)"

definition if_given :: "string \<Rightarrow> string \<Rightarrow> (string \<times> prompt_value) list" where
  "if_given key s = (if trim_space s = [] then [] else [(key, PText (trim_space s))])"

definition task_payload :: "task \<Rightarrow> prompt_value" where
  "task_payload t =
     PObject [(''id'', PText (task_id t)), (''description'', PText (task_description t)), (''goal'', PText (task_goal t)),
       (''type'', PText (category_or_default t)),
       (''protocol'', PObject ((''category'', PText (category_or_default t)) #
          if_given ''hint'' (task_protocol_hint t) @ if_given ''verification_policy'' (task_verification_policy t)))]"

definition session_payload :: "session \<Rightarrow> prompt_value" where
  "session_payload s = PObject [(''id'', PText (sess_id s)), (''status'', PText (sess_status s))]"

definition plan_payload :: "plan \<Rightarrow> prompt_value" where
  "plan_payload p = PObject [(''id'', PText (plan_id p)), (''summary'', PText (plan_summary p))]"

definition list_unless_empty :: "string \<Rightarrow> prompt_value list \<Rightarrow> (string \<times> prompt_value) list" where
  "list_unless_empty key vs = (if vs = [] then [] else [(key, PList vs)])"

definition instructions :: "string list \<Rightarrow> string \<times> prompt_value" where
  "instructions lines = (''instructions'', PList (map PText lines))"

definition quoted :: "string \<Rightarrow> string" where "quoted s = [CHR 0x22] @ s @ [CHR 0x22]"

section \<open>Inputs\<close>

definition create_plan_input :: "task \<Rightarrow> session \<Rightarrow> memory_entry list \<Rightarrow> prompt_value" where
  "create_plan_input t s ms =
     PObject ([(''operation'', PText ''create_plan''),
       instructions [''Return JSON only.'',
         ''Use shape: {'' @ quoted ''summary'' @ '': string, '' @ quoted ''steps'' @ '': []string}.'',
         ''Keep the summary concise and the steps actionable.''],
       (''task'', task_payload t), (''session'', session_payload s)] @
       list_unless_empty ''memory'' (memory_payload ms))"

definition history_item :: "step \<Rightarrow> prompt_value" where
  "history_item s =
     PObject [(''index'', PInt (step_index s)), (''action_summary'', PText (act_summary (step_action s))),
       (''action_type'', PText (act_type (step_action s))), (''observation'', PText (obs_summary (step_observation s))),
       (''final_response'', PText (obs_final_response (step_observation s))),
       (''verification_passed'', PBool (vr_passed (step_verification s))),
       (''verification_reason'', PText (vr_reason (step_verification s)))]"

definition action_shape :: string where
  "action_shape =
     ''Use shape: {'' @ quoted ''type'' @ '': '' @ quoted ''respond'' @ ''|'' @ quoted ''tool_call'' @ ''|'' @ quoted ''request_input'' @
     ''|'' @ quoted ''complete'' @ '', '' @ quoted ''summary'' @ '': string, '' @ quoted ''response'' @ '': string, '' @
     quoted ''tool_call'' @ '': {'' @ quoted ''name'' @ '': string, '' @ quoted ''input'' @ '': string, '' @ quoted ''timeout'' @ '': string}}.''"

definition next_action_input ::
  "task \<Rightarrow> session \<Rightarrow> plan \<Rightarrow> step list \<Rightarrow> tool_info list \<Rightarrow> memory_entry list \<Rightarrow> prompt_value" where
  "next_action_input t s p steps tools ms =
     PObject ([(''operation'', PText ''next_action''),
       instructions [''Return JSON only.'', action_shape,
         ''When type is respond, provide response and omit tool_call.'',
         ''When type is tool_call, provide tool_call and omit response.'',
         ''When type is request_input, provide response describing the exact missing external input and omit tool_call.'',
         ''When type is complete, provide response containing the final user-facing completion message and omit tool_call.'',
         ''Choose the action type that best fits the task protocol; do not assume the task is code-focused.''],
       (''task'', task_payload t), (''session'', session_payload s), (''plan'', plan_payload p),
       (''history'', PList (map history_item steps))] @
       list_unless_empty ''tools'' (tools_payload tools) @ list_unless_empty ''memory'' (memory_payload ms))"

definition tool_call_payload :: "tool_call \<Rightarrow> prompt_value" where
  "tool_call_payload c =
     PObject [(''name'', PText (tc_name c)), (''input'', PText (tc_input c)), (''timeout'', PText (show_duration (tc_timeout c)))]"

definition tool_result_payload :: "tool_result \<Rightarrow> prompt_value" where
  "tool_result_payload r =
     PObject [(''tool_name'', PText (tr_tool_name r)), (''output'', PText (tr_output r)), (''error'', PText (tr_error r)),
       (''duration'', PText (show_duration (tr_duration r)))]"

definition observe_input :: "task \<Rightarrow> session \<Rightarrow> plan \<Rightarrow> action \<Rightarrow> tool_result option \<Rightarrow> prompt_value" where
  "observe_input t s p a r =
     PObject [(''operation'', PText ''observe''),
       instructions [''Return JSON only.'',
         ''Use shape: {'' @ quoted ''summary'' @ '': string, '' @ quoted ''final_response'' @ '': string}.'',
         ''Summarize the outcome of the action using the tool result if present.'',
         ''Set final_response when the user-facing answer is ready.''],
       (''task'', task_payload t), (''session'', session_payload s), (''plan'', plan_payload p),
       (''action'', PObject [(''type'', PText (act_type a)), (''summary'', PText (act_summary a)), (''response'', PText (act_response a)),
          (''tool_call'', case act_tool_call a of None \<Rightarrow> PNull | Some c \<Rightarrow> tool_call_payload c)]),
       (''tool_result'', case r of None \<Rightarrow> PNull | Some x \<Rightarrow> tool_result_payload x)]"


section \<open>The adapter\<close>

record 'w provider_port =
  pp_name :: string
  pp_model :: string
  pp_generate :: "llm_request \<Rightarrow> 'w \<Rightarrow> (go_error, llm_response) result \<times> 'w"
  pp_stream :: "llm_request \<Rightarrow> ('w \<times> string) emitter \<Rightarrow> 'w \<times> string \<Rightarrow> go_error option \<times> ('w \<times> string)"
  pp_metadata :: "plugin_metadata option"

record plan_reply =
  plr_summary :: string
  plr_steps :: "string list"

record tool_call_reply =
  tcr_name :: string
  tcr_input :: string
  tcr_timeout :: string

record action_reply =
  acr_type :: string
  acr_summary :: string
  acr_response :: string
  acr_tool_call :: "tool_call_reply option"

record observation_reply =
  obr_summary :: string
  obr_final_response :: string

record model_codec =
  mco_marshal :: "prompt_value \<Rightarrow> string"
  mco_plan :: "string \<Rightarrow> (go_error, plan_reply) result"
  mco_action :: "string \<Rightarrow> (go_error, action_reply) result"
  mco_observation :: "string \<Rightarrow> (go_error, observation_reply) result"
  mco_duration :: "string \<Rightarrow> (go_error, duration) result"

record 'w model_adapter =
  ma_provider :: "'w provider_port option"
  ma_system_prompt :: string
  ma_codec :: model_codec

definition new_model_adapter :: "model_codec \<Rightarrow> 'w provider_port option \<Rightarrow> 'w model_adapter" where
  "new_model_adapter c p =
     \<lparr>ma_provider = p,
      ma_system_prompt = trim_space (case system_prompt default_prompt_version of None \<Rightarrow> [] | Some s \<Rightarrow> s), ma_codec = c\<rparr>"

text \<open>Only a plugin's provider has a provenance.\<close>

definition adapter_provenance :: "'w model_adapter \<Rightarrow> plugin_metadata option" where
  "adapter_provenance ma =
     (case ma_provider ma of
        None \<Rightarrow> None
      | Some p \<Rightarrow>
          (case pp_metadata p of
             None \<Rightarrow> None
           | Some m \<Rightarrow>
               if pl_validate (pl_normalize m) \<noteq> None \<or> has_prefix ''builtin://'' (pl_source_path (pl_normalize m)) then None
               else Some (pl_normalize m)))"

section \<open>Asking\<close>

text \<open>\<^verbatim>\<open>GetPayload\<close> into a token's payload: what has no field of that name leaves it empty.\<close>

definition token_content :: "streaming_event \<Rightarrow> string" where
  "token_content ev = (case ev_payload ev of TokenDeltaPayload c \<Rightarrow> c | _ \<Rightarrow> [])"

definition forward :: "'w emitter \<Rightarrow> ('w \<times> string) emitter" where
  "forward emit ev s =
     (let text1 = (if ev_type ev = ev_token_delta then snd s @ token_content ev else snd s) in
      if ev_type ev = ev_session_complete then (None, (fst s, text1))
      else (case emit ev (fst s) of (e, w) \<Rightarrow> (e, (w, text1))))"

definition generate_stream :: "'w provider_port \<Rightarrow> llm_request \<Rightarrow> 'w emitter \<Rightarrow> 'w \<Rightarrow> (go_error, llm_response) result \<times> 'w" where
  "generate_stream p request emit w =
     (case pp_stream p request (forward emit) (w, []) of
        (Some e, (w1, out)) \<Rightarrow> (Inl (wrap_text (''stream '' @ pp_name p @ '' response: '') e), w1)
      | (None, (w1, out)) \<Rightarrow> (Inr \<lparr>rs_model = pp_model p, rs_output = out, rs_stop_reason = ''stream_complete''\<rparr>, w1))"

text \<open>\<open>emit\<close> is the emitter in the context, if there is one.\<close>

definition adapter_generate ::
  "'w model_adapter \<Rightarrow> 'w emitter option \<Rightarrow> string \<Rightarrow> 'w \<Rightarrow> (go_error, llm_response) result \<times> 'w" where
  "adapter_generate ma emit input w =
     (case ma_provider ma of
        None \<Rightarrow> (Inl (Message ''model adapter requires provider''), w)
      | Some p \<Rightarrow>
          (let request = \<lparr>rq_system = ma_system_prompt ma, rq_input = input\<rparr> in
           case emit of
             Some em \<Rightarrow> generate_stream p request em w
           | None \<Rightarrow>
               (case pp_generate p request w of
                  (Inl e, w1) \<Rightarrow> (Inl (wrap_text (''generate '' @ pp_name p @ '' response: '') e), w1)
                | (Inr r, w1) \<Rightarrow> (Inr r, w1))))"

section \<open>Reading the answer\<close>

text \<open>\<^verbatim>\<open>strings.LastIndex\<close>.\<close>

fun last_index :: "string \<Rightarrow> string \<Rightarrow> nat option" where
  "last_index sub [] = (if sub = [] then Some 0 else None)"
| "last_index sub (c # cs) =
     (case last_index sub cs of
        Some i \<Rightarrow> Some (Suc i)
      | None \<Rightarrow> if has_prefix sub (c # cs) then Some 0 else None)"

definition fence :: string where "fence = replicate 3 (CHR 0x60)"

text \<open>A code fence around the answer is removed: its first line, and all from the last fence on.\<close>

definition unfence :: "string \<Rightarrow> string" where
  "unfence t =
     (let n = length (takeWhile (\<lambda>c. c \<noteq> CHR 0x0A) t) in
      if \<not> has_prefix fence t \<or> n = length t then t
      else case last_index fence t of
             None \<Rightarrow> t
           | Some i \<Rightarrow> if i > n then trim_space (drop (n + 1) (take i t)) else t)"

definition decode_reply :: "(string \<Rightarrow> (go_error, 'a) result) \<Rightarrow> string \<Rightarrow> (go_error, 'a) result" where
  "decode_reply unmarshal raw =
     (let t = trim_space raw in
      if t = [] then Inl (Message ''empty model response'')
      else case unmarshal (unfence t) of
             Inl e \<Rightarrow> Inl (wrap_text (''parse JSON output '' @ quote_str (unfence t) @ '': '') e)
           | Inr a \<Rightarrow> Inr a)"

definition asked ::
  "'w model_adapter \<Rightarrow> 'w emitter option \<Rightarrow> prompt_value \<Rightarrow> (string \<Rightarrow> (go_error, 'r) result) \<Rightarrow> string
     \<Rightarrow> ('r \<Rightarrow> (go_error, 'a) result) \<Rightarrow> 'w \<Rightarrow> (go_error, 'a) result \<times> 'w" where
  "asked ma emit prompt unmarshal what use w =
     (case adapter_generate ma emit (mco_marshal (ma_codec ma) prompt) w of
        (Inl e, w1) \<Rightarrow> (Inl e, w1)
      | (Inr response, w1) \<Rightarrow>
          (case decode_reply unmarshal (rs_output response) of
             Inl e \<Rightarrow> (Inl (wrap_text (''decode '' @ what @ '' response: '') e), w1)
           | Inr r \<Rightarrow> (use r, w1)))"

section \<open>Plans\<close>

definition zero_verification :: verification_result where
  "zero_verification = \<lparr>vr_passed = False, vr_status = [], vr_reason = []\<rparr>"

definition zero_observation :: observation where
  "zero_observation = \<lparr>obs_summary = [], obs_tool_result = None, obs_final_response = [], obs_evidence = None\<rparr>"

text \<open>The steps keep the place they had in the answer, with gaps where it was blank.\<close>

definition planned_step :: "nat \<Rightarrow> string \<Rightarrow> step" where
  "planned_step i summary =
     \<lparr>step_index = int i + 1,
      step_action = \<lparr>act_type = at_respond, act_summary = trim_space summary, act_tool_call = None, act_response = []\<rparr>,
      step_observation = zero_observation, step_verification = zero_verification, step_provenance = None\<rparr>"

definition plan_of :: "task \<Rightarrow> plan_reply \<Rightarrow> plan" where
  "plan_of t r =
     \<lparr>plan_id = ''plan-'' @ task_id t, plan_task_id = task_id t,
      plan_summary = (if blank (plr_summary r) then trim_space (task_description t) else trim_space (plr_summary r)),
      plan_steps = map (\<lambda>(i, s). planned_step i s) (filter (\<lambda>(i, s). \<not> blank s) (enumerate 0 (plr_steps r))),
      plan_created_at = 0\<rparr>"

definition adapter_create_plan ::
  "'w model_adapter \<Rightarrow> 'w emitter option \<Rightarrow> task \<Rightarrow> session \<Rightarrow> memory_entry list \<Rightarrow> 'w \<Rightarrow> (go_error, plan) result \<times> 'w" where
  "adapter_create_plan ma emit t s ms =
     asked ma emit (create_plan_input t s ms) (mco_plan (ma_codec ma)) ''create plan'' (\<lambda>r. Inr (plan_of t r))"

section \<open>Actions\<close>

definition tool_action :: "model_codec \<Rightarrow> string \<Rightarrow> tool_call_reply \<Rightarrow> (go_error, action) result" where
  "tool_action c summary r =
     (let name = trim_space (tcr_name r);
          timeout = (if blank (tcr_timeout r) then Inr 0 else mco_duration c (trim_space (tcr_timeout r))) in
      if name = [] then Inl (Message ''tool_call action missing tool name'')
      else case timeout of
             Inl e \<Rightarrow> Inl (wrap_text ''parse tool timeout: '' e)
           | Inr d \<Rightarrow>
               Inr \<lparr>act_type = at_tool_call, act_summary = (if summary = [] then ''Call tool '' @ name else summary),
                    act_tool_call = Some \<lparr>tc_name = name, tc_input = tcr_input r, tc_timeout = d\<rparr>, act_response = []\<rparr>)"

definition text_action :: "action_type \<Rightarrow> string \<Rightarrow> string \<Rightarrow> action" where
  "text_action ty summary response = \<lparr>act_type = ty, act_summary = summary, act_tool_call = None, act_response = response\<rparr>"

definition answer_action :: "action_type \<Rightarrow> string \<Rightarrow> string \<Rightarrow> string \<Rightarrow> (go_error, action) result" where
  "answer_action ty missing summary response =
     (if response = [] then Inl (Message missing) else Inr (text_action ty (if summary = [] then response else summary) response))"

definition action_of :: "model_codec \<Rightarrow> action_reply \<Rightarrow> (go_error, action) result" where
  "action_of c r =
     (let summary = trim_space (acr_summary r); response = trim_space (acr_response r);
          ty = to_lower (trim_space (acr_type r)) in
      if ty = at_tool_call then
        (case acr_tool_call r of
           None \<Rightarrow> Inl (Message ''tool_call action missing tool_call body'')
         | Some call \<Rightarrow> tool_action c summary call)
      else if ty = [] \<or> ty = at_respond then
        answer_action at_respond ''respond action missing response'' summary (if response = [] then summary else response)
      else if ty = at_request_input then answer_action at_request_input ''request_input action missing response'' summary response
      else if ty = at_complete then answer_action at_complete ''complete action missing response'' summary response
      else Inl (Message (''unsupported action type '' @ quote_str (acr_type r))))"

definition adapter_next_action ::
  "'w model_adapter \<Rightarrow> 'w emitter option \<Rightarrow> task \<Rightarrow> session \<Rightarrow> plan \<Rightarrow> step list \<Rightarrow> memory_entry list \<Rightarrow> tool_info list
     \<Rightarrow> 'w \<Rightarrow> (go_error, action) result \<times> 'w" where
  "adapter_next_action ma emit t s p steps ms tools =
     asked ma emit (next_action_input t s p steps tools ms) (mco_action (ma_codec ma)) ''next action'' (action_of (ma_codec ma))"

section \<open>Observations\<close>

definition observation_of :: "action \<Rightarrow> tool_result option \<Rightarrow> observation_reply \<Rightarrow> observation" where
  "observation_of a result r =
     \<lparr>obs_summary = (if blank (obr_summary r) then trim_space (act_summary a) else trim_space (obr_summary r)),
      obs_tool_result = result,
      obs_final_response =
        (if blank (obr_final_response r) \<and> act_type a = at_respond then trim_space (act_response a)
         else trim_space (obr_final_response r)),
      obs_evidence = None\<rparr>"

definition adapter_observe ::
  "'w model_adapter \<Rightarrow> 'w emitter option \<Rightarrow> task \<Rightarrow> session \<Rightarrow> plan \<Rightarrow> action \<Rightarrow> tool_result option
     \<Rightarrow> 'w \<Rightarrow> (go_error, observation) result \<times> 'w" where
  "adapter_observe ma emit t s p a result =
     asked ma emit (observe_input t s p a result) (mco_observation (ma_codec ma)) ''observation''
       (\<lambda>r. Inr (observation_of a result r))"

text \<open>The port of the engine.\<close>

definition adapter_model :: "'w model_adapter \<Rightarrow> 'w emitter option \<Rightarrow> 'w model" where
  "adapter_model ma emit =
     \<lparr>md_create_plan = adapter_create_plan ma emit, md_next_action = adapter_next_action ma emit,
      md_observe = adapter_observe ma emit, md_provenance = adapter_provenance ma\<rparr>"

end
