(* ===== verification/Model_Adapter_Properties.thy ===== *)
theory Model_Adapter_Properties
  imports Model_Adapter Chat_Properties
begin

text \<open>
  What the adapter hands to the engine: every action is of a shape the host accepts, and an answer in a code
  fence is read like the answer alone.
\<close>

section \<open>Actions\<close>

definition well_formed_action :: "action \<Rightarrow> bool" where
  "well_formed_action a \<longleftrightarrow> act_summary a \<noteq> [] \<and>
     (case act_tool_call a of
        Some c \<Rightarrow> act_type a = at_tool_call \<and> tc_name c \<noteq> [] \<and> act_response a = []
      | None \<Rightarrow> act_type a \<in> {at_respond, at_request_input, at_complete} \<and> act_response a \<noteq> [])"

lemma answer_action_wf:
  "answer_action ty missing summary response = Inr a \<Longrightarrow> ty \<in> {at_respond, at_request_input, at_complete} \<Longrightarrow> well_formed_action a"
  by (auto simp: answer_action_def well_formed_action_def text_action_def split: if_splits)

lemma tool_action_wf: "tool_action c summary r = Inr a \<Longrightarrow> well_formed_action a"
  by (auto simp: tool_action_def well_formed_action_def Let_def split: if_splits sum.splits)

lemma action_of_wf:
  assumes "action_of c r = Inr a"
  shows "well_formed_action a"
proof -
  let ?s = "trim_space (acr_summary r)" and ?p = "trim_space (acr_response r)"
  consider call where "tool_action c ?s call = Inr a"
    | ty missing response where "answer_action ty missing ?s response = Inr a" "ty \<in> {at_respond, at_request_input, at_complete}"
    using assms by (auto simp: action_of_def Let_def split: if_splits option.splits)
  then show ?thesis by cases (auto intro: tool_action_wf answer_action_wf)
qed

lemma asked_ok: "asked ma emit prompt u what use w = (Inr a, w1) \<Longrightarrow> \<exists>r. use r = Inr a"
  by (auto simp: asked_def split: prod.splits sum.splits)

text \<open> Whatever a model answers, an action that reaches the host has one of the four types, a summary, and either a
  named tool or a response; the host refuses it only for a tool that is not on its list.\<close>

theorem adapter_actions_accepted:
  assumes "st_next_action (builtin_strategy (adapter_model ma emit)) c w = (Inr a, w1)"
  shows "well_formed_action a \<and>
    (validate_action allowed a = Inr a \<longleftrightarrow>
       (\<forall>call. act_tool_call a = Some call \<longrightarrow> is_allowed_tool (tc_name call) allowed))"
proof -
  have "\<exists>r. action_of (ma_codec ma) r = Inr a"
    using assms asked_ok by (auto simp: builtin_strategy_def adapter_model_def adapter_next_action_def)
  then have "well_formed_action a" using action_of_wf by blast
  then show ?thesis by (auto simp: validate_action_Inr well_formed_action_def split: option.splits)
qed

section \<open>Code fences\<close>

lemma last_index_end: "sub \<noteq> [] \<Longrightarrow> last_index sub (s @ sub) = Some (length s)"
proof (induction s)
  case Nil
  have "last_index sub t = None" if "length t < length sub" for t
  proof -
    have "\<not> has_prefix sub (c # cs)" if "Suc (length cs) < length sub" for c cs
      using that by (auto simp: has_prefix_iff dest: arg_cong[of _ _ length])
    then show ?thesis using that by (induction t) auto
  qed
  then show ?case using Nil by (cases sub) (simp_all add: has_prefix_iff)
qed simp

lemma newline_word: "w \<in> set space_words \<Longrightarrow> CHR 0x0A \<in> set w \<Longrightarrow> w = newline"
  by (auto simp: space_words_def newline_def)

lemma prefix_before_newline:
  assumes "w \<in> set space_words" and "s \<noteq> []"
  shows "has_prefix w (s @ newline) \<longleftrightarrow> has_prefix w s"
proof
  assume "has_prefix w (s @ newline)"
  then obtain t where t: "s @ newline = w @ t" by (auto simp: has_prefix_iff)
  show "has_prefix w s"
  proof (cases t rule: rev_cases)
    case Nil
    then have "CHR 0x0A \<in> set w" using t by (metis append.right_neutral in_set_conv_decomp newline_def append_Nil2)
    then have "w = newline" by (rule newline_word[OF assms(1)])
    then show ?thesis using t Nil assms(2) by simp
  next
    case (snoc u c)
    then have "s = w @ u" using t by (simp add: newline_def)
    then show ?thesis by simp
  qed
qed (auto simp: has_prefix_iff)

lemma strip_newline: "strip space_words (s @ newline) = (if strip space_words s = [] then [] else strip space_words s @ newline)"
proof (induction "length s" arbitrary: s rule: less_induct)
  case less
  show ?case
  proof (cases "s = []")
    case True
    have "strip space_words newline = []" "strip space_words [] = []" by code_simp+
    then show ?thesis using True by simp
  next
    case False
    have same: "find (\<lambda>w. w \<noteq> [] \<and> has_prefix w (s @ newline)) space_words = find (\<lambda>w. w \<noteq> [] \<and> has_prefix w s) space_words"
      using prefix_before_newline[OF _ False] by (intro find_cong) auto
    show ?thesis
    proof (cases "find (\<lambda>w. w \<noteq> [] \<and> has_prefix w s) space_words")
      case None
      then show ?thesis using False same by (simp add: strip_None)
    next
      case (Some w)
      then have w: "w \<noteq> []" "has_prefix w s" by (auto simp: find_Some_iff)
      then have d: "drop (length w) (s @ newline) = drop (length w) s @ newline" by (auto simp: has_prefix_iff)
      have "length (drop (length w) s) < length s" using w(1) False by simp
      from less[OF this] show ?thesis using Some same d by (simp add: strip_Some)
    qed
  qed
qed

lemma trim_newline: "trim_space (s @ newline) = trim_space s"
proof -
  let ?r = "map rev space_words"
  have find: "find (\<lambda>w. w \<noteq> [] \<and> has_prefix w (CHR 0x0A # t)) ?r = Some [CHR 0x0A]" for t
    by (simp add: space_words_def)
  have "strip ?r (CHR 0x0A # t) = strip ?r t" for t using strip_Some[OF find[of t]] by simp
  then have "strip ?r (rev newline @ t) = strip ?r t" for t by (simp add: newline_def)
  then show ?thesis by (simp add: trim_space_def strip_newline)
qed

lemma fence_ends: "fence \<noteq> []" "hd fence \<notin> hd ` set space_words" "last fence \<notin> last ` set space_words"
  by (simp_all add: fence_def space_words_def numeral_3_eq_3)

lemma unfence_fenced:
  assumes "CHR 0x0A \<notin> set lang"
  shows "unfence (fence @ lang @ newline @ body @ newline @ fence) = trim_space body"
proof -
  let ?t = "fence @ lang @ newline @ body @ newline @ fence"
  have n: "length (takeWhile (\<lambda>c. c \<noteq> CHR 0x0A) ?t) = length (fence @ lang)"
    using assms by (simp add: newline_def takeWhile_append fence_def)
  have l: "last_index fence ?t = Some (length (fence @ lang @ newline @ body @ newline))"
    using last_index_end[OF fence_ends(1), of "fence @ lang @ newline @ body @ newline"] by simp
  have d: "drop (length (fence @ lang) + 1) (take (length (fence @ lang @ newline @ body @ newline)) ?t) = body @ newline"
    by (simp add: newline_def)
  have "has_prefix fence ?t" "length (fence @ lang) \<noteq> length ?t" "length (fence @ lang) < length (fence @ lang @ newline @ body @ newline)"
    by (simp_all add: newline_def)
  then show ?thesis unfolding unfence_def Let_def n l option.case d by (simp only: if_True if_False simp_thms trim_newline)
qed

text \<open> An answer between code fences is read like the answer without them.\<close>

theorem fenced_reply_read:
  assumes "CHR 0x0A \<notin> set lang" and "\<not> blank body" and "\<not> has_prefix fence (trim_space body)"
  shows "decode_reply unmarshal (fence @ lang @ newline @ body @ newline @ fence) = decode_reply unmarshal body"
proof -
  let ?t = "fence @ lang @ newline @ body @ newline @ fence"
  have t: "trim_space ?t = ?t"
    by (rule trim_plain) (use fence_ends in auto)
  have "unfence (trim_space body) = trim_space body" using assms(3) by (simp add: unfence_def Let_def)
  moreover have "trim_space body \<noteq> []" "?t \<noteq> []" using assms(2) fence_ends(1) by (simp_all add: blank_def)
  ultimately show ?thesis by (simp only: decode_reply_def Let_def t unfence_fenced[OF assms(1)] if_False)
qed

section \<open>The properties at work\<close>

theorem fenced_reply_read_witness:
  "decode_reply Inr (fence @ ''json'' @ newline @ ''{}'' @ newline @ fence) = Inr ''{}''"
proof -
  have t: "trim_space ''{}'' = ''{}''" by code_simp
  then have "\<not> blank ''{}''" "\<not> has_prefix fence (trim_space ''{}'')" by (simp_all add: blank_def fence_def numeral_3_eq_3)
  from fenced_reply_read[OF _ this, of "''json''" Inr] t show ?thesis
    by (simp add: decode_reply_def Let_def unfence_def fence_def numeral_3_eq_3)
qed

definition sample_reply :: action_reply where
  "sample_reply = \<lparr>acr_type = ''complete'', acr_summary = [], acr_response = ''done'', acr_tool_call = None\<rparr>"

definition sample_adapter :: "unit model_adapter" where
  "sample_adapter = new_model_adapter
     \<lparr>mco_marshal = (\<lambda>_. ''{}''), mco_plan = (\<lambda>_. Inl Canceled), mco_action = (\<lambda>_. Inr sample_reply),
      mco_observation = (\<lambda>_. Inl Canceled), mco_duration = (\<lambda>_. Inr 0)\<rparr>
     (Some \<lparr>pp_name = ''stub'', pp_model = ''m'',
        pp_generate = (\<lambda>_ w. (Inr \<lparr>rs_model = ''m'', rs_output = ''{}'', rs_stop_reason = ''stop''\<rparr>, w)),
        pp_stream = (\<lambda>_ _ s. (None, s)), pp_metadata = None\<rparr>)"

lemma sample_words: "trim_space ''{}'' = ''{}''" "trim_space ''complete'' = ''complete''" "trim_space ''done'' = ''done''"
  "to_lower ''complete'' = ''complete''"
  by code_simp+

theorem adapter_actions_accepted_witness:
  "\<forall>t. \<exists>a. fst (st_next_action (builtin_strategy (adapter_model sample_adapter None))
       \<lparr>ac_task = t, ac_session = zero_session, ac_plan = zero_plan, ac_steps = [], ac_memory = [], ac_allowed_tools = []\<rparr> ()) = Inr a \<and>
     well_formed_action a \<and> validate_action [] a = Inr a"
proof
  fix t
  let ?c = "\<lparr>ac_task = t, ac_session = zero_session, ac_plan = zero_plan, ac_steps = [], ac_memory = [], ac_allowed_tools = []\<rparr>"
  let ?a = "text_action at_complete ''done'' ''done''"
  have "st_next_action (builtin_strategy (adapter_model sample_adapter None)) ?c () = (Inr ?a, ())"
    by (simp add: builtin_strategy_def adapter_model_def adapter_next_action_def asked_def adapter_generate_def sample_adapter_def
        new_model_adapter_def decode_reply_def sample_words unfence_def fence_def numeral_3_eq_3 action_of_def sample_reply_def answer_action_def Let_def)
  from adapter_actions_accepted[OF this, of "[]"] this
  show "\<exists>a. fst (st_next_action (builtin_strategy (adapter_model sample_adapter None)) ?c ()) = Inr a \<and>
      well_formed_action a \<and> validate_action [] a = Inr a" by (simp add: text_action_def)
qed

end
