(* ===== verification/Builder.thy ===== *)
theory Builder
  imports Engine Plugin_Manager Verifier_Registry Config Model_Adapter
begin

text \<open>
  The wiring of an engine from a configuration (\<^verbatim>\<open>internal/runtimebuilder\<close>): plugin options, the settings of
  the server, the filter of the command line's arguments, the store that renames sessions, the executor that puts
  plugins before the host's tools, and the engine that is built from all of these.

  What makes a provider, the handlers of the built-in tools and the loaders of plugins are parameters.
\<close>

section \<open>Plugin options\<close>

record plugin_options =
  plo_directory :: string
  plo_names :: "string list"
  plo_allowed_paths :: "string list"

definition normalize_values :: "string list \<Rightarrow> string list" where
  "normalize_values vs = filter (\<lambda>v. v \<noteq> []) (map trim_space vs)"

definition normalize_plugin_options :: "plugin_options \<Rightarrow> plugin_options" where
  "normalize_plugin_options o1 =
     \<lparr>plo_directory = (if blank (plo_directory o1) then ''./plugins'' else trim_space (plo_directory o1)),
      plo_names = normalize_values (plo_names o1), plo_allowed_paths = normalize_values (plo_allowed_paths o1)\<rparr>"

text \<open>The raw string of the source holds two backslashes.\<close>

definition is_plugin_path_reference :: "string \<Rightarrow> bool" where
  "is_plugin_path_reference v \<longleftrightarrow> contains_str v ''/'' \<or> contains_str v [CHR 0x5C, CHR 0x5C] \<or> path_ext v \<noteq> []"

definition resolve_plugin_targets :: "plugin_options \<Rightarrow> string list" where
  "resolve_plugin_targets o1 =
     map (\<lambda>n. if is_plugin_path_reference n then n else join_path [plo_directory o1, n]) (normalize_values (plo_names o1))"

section \<open>The arguments of the configuration\<close>

definition config_flag_names :: "string list" where
  "config_flag_names =
     [''config'', ''model'', ''provider'', ''plugin-provider'', ''max-steps'', ''step-timeout'', ''memory-limit-mb'', ''verify-mode'',
      ''api-key'', ''base-url'', ''listen-address'', ''jwt-secret'', ''jwt-secret-file'', ''active-session-cap'', ''shutdown-timeout'',
      ''server-enable-wal'', ''web-ui-enabled'', ''web-ui-dir'']"

definition flag_name_of :: "string \<Rightarrow> string" where
  "flag_name_of arg = takeWhile (\<lambda>c. c \<noteq> CHR ''='') (dropWhile (\<lambda>c. c = CHR ''-'') arg)"

fun filter_config_args :: "string list \<Rightarrow> string list" where
  "filter_config_args [] = []"
| "filter_config_args (arg # args) =
     (if flag_name_of arg \<notin> set config_flag_names then filter_config_args args
      else case args of
             [] \<Rightarrow> [arg]
           | v # rest \<Rightarrow>
               if CHR ''='' \<notin> set arg \<and> \<not> has_prefix ''-'' v then arg # v # filter_config_args rest
               else arg # filter_config_args args)"

definition load_cli_config :: "config_host \<Rightarrow> string \<Rightarrow> string list \<Rightarrow> (go_error, config) result" where
  "load_cli_config h command args =
     (if command \<noteq> ''run'' \<and> command \<noteq> ''resume'' then Inr default_config else load_config h (filter_config_args args))"

section \<open>The settings of the server\<close>

record server_config =
  svc_listen_address :: string
  svc_jwt_secret :: string
  svc_jwt_secret_file :: string
  svc_active_session_cap :: int
  svc_shutdown_timeout :: duration
  svc_enable_wal :: bool

definition normalize_server_config :: "server_config \<Rightarrow> server_config" where
  "normalize_server_config c =
     c\<lparr>svc_listen_address := (if blank (svc_listen_address c) then '':8080'' else trim_space (svc_listen_address c)),
       svc_jwt_secret := trim_space (svc_jwt_secret c), svc_jwt_secret_file := trim_space (svc_jwt_secret_file c),
       svc_active_session_cap := (if svc_active_session_cap c \<le> 0 then 8 else svc_active_session_cap c),
       svc_shutdown_timeout := (if svc_shutdown_timeout c \<le> 0 then 30 * second else svc_shutdown_timeout c)\<rparr>"

definition validate_server_config :: "server_config \<Rightarrow> go_error option" where
  "validate_server_config c0 =
     (let c = normalize_server_config c0 in
      if svc_listen_address c = [] then Some (Message ''server listen address must not be empty'')
      else if svc_jwt_secret c \<noteq> [] \<and> svc_jwt_secret_file c \<noteq> []
      then Some (Message ''server JWT secret source must be exactly one of inline secret or secret file'')
      else if svc_jwt_secret c = [] \<and> svc_jwt_secret_file c = [] then Some (Message ''server JWT secret source must be configured'')
      else if svc_active_session_cap c \<le> 0 then Some (Message ''server active session cap must be greater than zero'')
      else if svc_shutdown_timeout c \<le> 0 then Some (Message ''server shutdown timeout must be greater than zero'')
      else None)"

section \<open>The store that renames sessions\<close>

text \<open>The context is handled as in the source: a call that is cancelled still reaches the store.\<close>

definition alias_sessions :: "string \<Rightarrow> 'w session_port \<Rightarrow> 'w session_port" where
  "alias_sessions sid inner =
     \<lparr>sp_save_session = (\<lambda>s. sp_save_session inner (s\<lparr>sess_id := sid\<rparr>)), sp_save_plan = sp_save_plan inner,
      sp_append_step = (\<lambda>_. sp_append_step inner sid)\<rparr>"

section \<open>Executors\<close>

text \<open>An executor as the builder sees it; \<^verbatim>\<open>Registry\<close> and \<^verbatim>\<open>Close\<close> are optional methods.\<close>

record 'w host_executor =
  hx_execute :: "tool_call \<Rightarrow> 'w \<Rightarrow> (tool_result \<times> go_error option) \<times> 'w"
  hx_registry :: "'w tool_registry option"
  hx_close :: "('w \<Rightarrow> go_error list \<times> 'w) option"

record 'w builder =
  bu_config :: config
  bu_workspace_root :: string
  bu_model :: "'w model option"
  bu_new_manager :: "string \<Rightarrow> 'w plugin_manager option"
  bu_handlers :: "string \<Rightarrow> 'w tool_handler"
  bu_working_dir :: "(go_error, string) result"
  bu_web_host :: "string \<Rightarrow> (go_error, string) result"

text \<open>
  \<^verbatim>\<open>New\<close>: \<open>make_provider\<close> is \<^verbatim>\<open>llm.NewProvider\<close>; the last four fields are the default factories and the
  host's environment.
\<close>

definition new_builder ::
  "(config \<Rightarrow> (go_error, 'w provider_port) result) \<Rightarrow> model_codec \<Rightarrow> 'w emitter option \<Rightarrow> 'w builder \<Rightarrow> config \<Rightarrow> string
     \<Rightarrow> (go_error, 'w builder) result" where
  "new_builder make_provider codec emit host cfg root0 =
     (let root = (if blank root0 then ''.'' else trim_space root0);
          type1 = trim_space (get_provider_type cfg);
          b = host\<lparr>bu_config := cfg, bu_workspace_root := root, bu_model := None\<rparr> in
      if type1 = ''plugin'' \<or> (type1 \<noteq> [] \<and> \<not> blank (get_api_key cfg)) then
        (case make_provider cfg of
           Inl e \<Rightarrow> Inl e
         | Inr p \<Rightarrow> Inr (b\<lparr>bu_model := Some (adapter_model (new_model_adapter codec (Some p)) emit)\<rparr>))
      else Inr b)"

definition clone_registry :: "'w tool_registry option \<Rightarrow> 'w tool_registry" where
  "clone_registry r =
     (case r of
        None \<Rightarrow> new_tool_registry
      | Some r \<Rightarrow> fold (\<lambda>d acc. case tr_register d acc of Inl e \<Rightarrow> acc | Inr acc1 \<Rightarrow> acc1) (tr_list r) new_tool_registry)"

definition to_tool_definition :: "'w plugin_tool \<Rightarrow> 'w tool_definition" where
  "to_tool_definition t =
     \<lparr>tdf_name = pt_name t, tdf_description = pt_description t, tdf_schema = pt_schema t, tdf_default_timeout = 30 * second,
      tdf_safety_level = pt_safety_level t, tdf_handler = Some (\<lambda>timeout. pt_execute t)\<rparr>"

definition plugin_policy :: "'w builder \<Rightarrow> plugin_options \<Rightarrow> safety_policy" where
  "plugin_policy b o1 =
     \<lparr>pol_workspace_root = bu_workspace_root b, pol_allowed_commands = [], pol_denied_commands = [], pol_allowed_domains = [],
      pol_allowed_read_roots = [], pol_allowed_write_roots = [],
      pol_allowed_plugin_paths = rt_allowed_plugin_paths (cf_runtime (bu_config b)) @ plo_allowed_paths o1,
      pol_plugin_capabilities = rt_plugin_capabilities (cf_runtime (bu_config b))\<rparr>"

text \<open>The tools that were loaded, with the registry and the manager; on an error the manager closes what it holds.\<close>

record 'w loaded_plugins =
  lpl_manager :: "'w plugin_manager"
  lpl_registry :: "'w tool_registry"
  lpl_tools :: "(string \<times> 'w plugin_tool) list"

definition close_and_fail :: "go_error \<Rightarrow> 'w plugin_manager \<Rightarrow> 'w \<Rightarrow> (go_error, 'a) result attempt \<times> 'w" where
  "close_and_fail e m w = (Done (Inl e), snd (close_all (Some m) w))"

fun load_targets ::
  "(go_error, string) result \<Rightarrow> string list \<Rightarrow> 'w loaded_plugins \<Rightarrow> 'w \<Rightarrow> (go_error, 'w loaded_plugins) result attempt \<times> 'w" where
  "load_targets wd [] l w = (Done (Inr l), w)"
| "load_targets wd (path # paths) l w =
     (case validate_plugin_path wd (pm_policy (lpl_manager l)) path of
        Some e \<Rightarrow> close_and_fail e (lpl_manager l) w
      | None \<Rightarrow>
          (case pm_load None path (Some (lpl_manager l)) w of
             (Done (Inr t, Some m1), w1) \<Rightarrow>
               (case tr_register (to_tool_definition t) (lpl_registry l) of
                  Inl e \<Rightarrow> close_and_fail e m1 w1
                | Inr r1 \<Rightarrow>
                    load_targets wd paths \<lparr>lpl_manager = m1, lpl_registry = r1, lpl_tools = AList.update (pt_name t) t (lpl_tools l)\<rparr> w1)
           | (Done (Inl e, m1), w1) \<Rightarrow> close_and_fail e (case m1 of None \<Rightarrow> lpl_manager l | Some m1 \<Rightarrow> m1) w1
           | (_, w1) \<Rightarrow> (Panics, w1)))"

definition plugin_executor :: "'w host_executor \<Rightarrow> 'w loaded_plugins \<Rightarrow> 'w host_executor" where
  "plugin_executor base l =
     \<lparr>hx_execute = (\<lambda>call w.
        case map_of (lpl_tools l) (tc_name call) of Some t \<Rightarrow> pt_execute t call w | None \<Rightarrow> hx_execute base call w),
      hx_registry = Some (lpl_registry l),
      hx_close = Some (\<lambda>w. case close_all (Some (lpl_manager l)) w of ((es, m), w1) \<Rightarrow> (es, w1))\<rparr>"

definition build_plugin_executor ::
  "'w builder \<Rightarrow> 'w host_executor \<Rightarrow> plugin_options \<Rightarrow> 'w \<Rightarrow> (go_error, 'w host_executor) result attempt \<times> 'w" where
  "build_plugin_executor b base o1 w =
     (case bu_new_manager b (plo_directory o1) of
        None \<Rightarrow> (Done (Inl (Message ''plugin manager factory returned nil'')), w)
      | Some m \<Rightarrow>
          (case load_targets (bu_working_dir b) (resolve_plugin_targets o1)
                  \<lparr>lpl_manager = m\<lparr>pm_policy := plugin_policy b o1\<rparr>, lpl_registry = clone_registry (hx_registry base), lpl_tools = []\<rparr> w of
             (Done (Inr l), w1) \<Rightarrow> (Done (Inr (plugin_executor base l)), w1)
           | (Done (Inl e), w1) \<Rightarrow> (Done (Inl e), w1)
           | (Blocks, w1) \<Rightarrow> (Blocks, w1)
           | (Panics, w1) \<Rightarrow> (Panics, w1)))"

definition wrap_executor_with_plugins ::
  "'w builder option \<Rightarrow> 'w host_executor \<Rightarrow> plugin_options \<Rightarrow> 'w \<Rightarrow> (go_error, 'w host_executor) result attempt \<times> 'w" where
  "wrap_executor_with_plugins b base o1 w =
     (case b of
        None \<Rightarrow> (Done (Inl (Message ''runtime builder is nil'')), w)
      | Some bu \<Rightarrow>
          (let n = normalize_plugin_options o1 in
           if plo_names n = [] then (Done (Inr base), w) else build_plugin_executor bu base n w))"

definition tools_executor :: "'w builder \<Rightarrow> 'w tool_executor \<Rightarrow> 'w host_executor" where
  "tools_executor b ex =
     \<lparr>hx_execute = executor_execute (bu_working_dir b) (bu_web_host b) ex, hx_registry = Some (te_registry ex), hx_close = None\<rparr>"

definition builder_executor ::
  "'w builder option \<Rightarrow> string list \<Rightarrow> plugin_options \<Rightarrow> 'w \<Rightarrow> (go_error, 'w host_executor) result attempt \<times> 'w" where
  "builder_executor b extras o1 w =
     (case b of
        None \<Rightarrow> (Done (Inl (Message ''runtime builder is nil'')), w)
      | Some bu \<Rightarrow>
          (case new_executor (bu_handlers bu) (bu_workspace_root bu) (rt_allowed_commands (cf_runtime (bu_config bu))) extras of
             Inl e \<Rightarrow> (Done (Inl e), w)
           | Inr ex \<Rightarrow> wrap_executor_with_plugins b (tools_executor bu ex) o1 w))"

section \<open>Engines\<close>

text \<open>Off is no verifier; every other mode is the verifier that chooses by task.\<close>

definition verifier_from_config :: "config \<Rightarrow> 'w command_port option \<Rightarrow> 'w task_aware option" where
  "verifier_from_config cfg ex =
     (if rt_verify_mode (cf_runtime cfg) = ''off'' then None else Some (new_task_aware (rt_verify_mode (cf_runtime cfg)) ex None))"

definition default_max_steps :: "'w builder \<Rightarrow> int" where
  "default_max_steps b = (if rt_max_steps (cf_runtime (bu_config b)) > 0 then rt_max_steps (cf_runtime (bu_config b)) else 8)"

definition step_timeout :: "'w builder \<Rightarrow> duration" where
  "step_timeout b =
     (if rt_step_timeout (cf_runtime (bu_config b)) > 0 then rt_step_timeout (cf_runtime (bu_config b)) else 30 * second)"

definition session_timeout :: "'w builder \<Rightarrow> int \<Rightarrow> duration" where
  "session_timeout b max_steps = wrap64 ((if max_steps \<le> 0 then default_max_steps b else max_steps) * step_timeout b)"

record 'w engine_options =
  eo_model :: "'w model option"
  eo_tools :: "'w tool_port option"
  eo_memory :: "'w memory_port option"
  eo_sessions :: "'w session_port option"
  eo_verifier :: "'w verifier_port option"
  eo_max_steps :: int
  eo_events :: "(streaming_event \<Rightarrow> 'w \<Rightarrow> go_error option \<times> 'w) option"
  eo_clock :: "('w \<Rightarrow> gotime \<times> 'w) option"
  eo_session_alias :: string

text \<open>
  \<open>port\<close> is a verifier as the engine calls it: the object keeps what it resolved last in the world.
  \<open>commands\<close> are the options' tools as the verifier calls them; \<open>time\<close> and \<open>ctx_err\<close> are the
  engine's clock and context.
\<close>

definition build_engine ::
  "('w task_aware \<Rightarrow> 'w verifier_port) \<Rightarrow> 'w command_port option \<Rightarrow> ('w \<Rightarrow> gotime \<times> 'w) \<Rightarrow> ('w \<Rightarrow> go_error option \<times> 'w)
     \<Rightarrow> 'w builder \<Rightarrow> 'w engine_options \<Rightarrow> 'w engine" where
  "build_engine port commands time ctx_err b o1 =
     (let steps = (if eo_max_steps o1 \<le> 0 then default_max_steps b else eo_max_steps o1) in
      \<lparr>eng_model = (case eo_model o1 of None \<Rightarrow> bu_model b | Some m \<Rightarrow> Some m), eng_tools = eo_tools o1, eng_memory = eo_memory o1,
       eng_sessions =
         (if blank (eo_session_alias o1) then eo_sessions o1
          else map_option (alias_sessions (eo_session_alias o1)) (eo_sessions o1)),
       eng_verifier =
         (case eo_verifier o1 of
            None \<Rightarrow> map_option port (verifier_from_config (bu_config b) commands)
          | Some v \<Rightarrow> Some v),
       eng_strategies = None, eng_strategy_id = [], eng_events = eo_events o1, eng_clock = eo_clock o1, eng_time = time,
       eng_ctx_err = ctx_err, eng_max_steps = steps, eng_max_retries = steps, eng_session_timeout = session_timeout b steps\<rparr>)"

text \<open>
  The engine of a request (\<^verbatim>\<open>ChatService.newEngine\<close>): the verifier of the request's mode, over the store that
  files everything under the session's id.
\<close>

definition request_engine ::
  "('w task_aware \<Rightarrow> 'w verifier_port) \<Rightarrow> 'w command_port option \<Rightarrow> ('w \<Rightarrow> gotime \<times> 'w) \<Rightarrow> ('w \<Rightarrow> go_error option \<times> 'w)
     \<Rightarrow> 'w builder \<Rightarrow> config \<Rightarrow> 'w tool_port \<Rightarrow> 'w memory_port \<Rightarrow> 'w session_port
     \<Rightarrow> (streaming_event \<Rightarrow> 'w \<Rightarrow> go_error option \<times> 'w) option \<Rightarrow> task \<Rightarrow> int \<Rightarrow> string \<Rightarrow> (go_error, 'w engine) result" where
  "request_engine port commands time ctx_err b cfg0 tools memory sessions events t max_steps verify_mode =
     (case bu_model b of
        None \<Rightarrow> Inl (Message ''server runtime model is not configured'')
      | Some m \<Rightarrow>
          (let cfg = (if blank verify_mode then cfg0 else cfg0\<lparr>cf_runtime := (cf_runtime cfg0)\<lparr>rt_verify_mode := verify_mode\<rparr>\<rparr>) in
           Inr (build_engine port commands time ctx_err b
             \<lparr>eo_model = Some m, eo_tools = Some tools, eo_memory = Some memory,
              eo_sessions = Some (alias_sessions (task_id t) sessions),
              eo_verifier = map_option port (verifier_from_config cfg commands),
              eo_max_steps = (if max_steps \<le> 0 then default_max_steps b else max_steps), eo_events = events, eo_clock = None,
              eo_session_alias = []\<rparr>)))"

end
