(* ===== verification/Builder_Properties.thy ===== *)
theory Builder_Properties
  imports Builder
begin

text \<open>
  What the builder promises: plugins stand beside the host's tools and what is listed under a name is what runs;
  and where it does not do what is asked: a request without verification, and a task that is named like a flag.
\<close>

section \<open>Registries\<close>

definition listed_under_names :: "'w tool_registry \<Rightarrow> bool" where
  "listed_under_names r \<longleftrightarrow> distinct (map fst r) \<and> (\<forall>(n, d) \<in> set r. n = tdf_name d \<and> tool_complete d)"

lemma register_new: "tr_register d r = Inr r1 \<Longrightarrow> map_of r (tdf_name d) = None \<and> r1 = (tdf_name d, d) # r \<and> tool_complete d"
  by (auto simp: tr_register_def tool_complete_def split: if_splits)

lemma register_complete: "tool_complete d \<Longrightarrow> map_of r (tdf_name d) = None \<Longrightarrow> tr_register d r = Inr ((tdf_name d, d) # r)"
  by (auto simp: tr_register_def tool_complete_def)

lemma cloned_registry:
  assumes "distinct (map tdf_name ds)" and "\<forall>d \<in> set ds. tool_complete d \<and> map_of acc (tdf_name d) = None"
  shows "map_of (fold (\<lambda>d acc. case tr_register d acc of Inl e \<Rightarrow> acc | Inr acc1 \<Rightarrow> acc1) ds acc) n =
     (case map_of (map (\<lambda>d. (tdf_name d, d)) ds) n of Some d \<Rightarrow> Some d | None \<Rightarrow> map_of acc n)"
  using assms
proof (induction ds arbitrary: acc)
  case (Cons d ds)
  have r: "tr_register d acc = Inr ((tdf_name d, d) # acc)" by (rule register_complete) (use Cons.prems in auto)
  have "\<forall>x \<in> set ds. tool_complete x \<and> map_of ((tdf_name d, d) # acc) (tdf_name x) = None"
    using Cons.prems by (auto simp: image_iff dest: sym)
  note IH = Cons.IH[OF _ this]
  have "map_of (map (\<lambda>d. (tdf_name d, d)) ds) (tdf_name d) = None"
    using Cons.prems(1) by (simp add: map_of_eq_None_iff image_image)
  then show ?case using IH Cons.prems(1) r by (cases "n = tdf_name d") (simp_all split: option.split)
qed simp

lemma clone_registry_lookup:
  assumes "listed_under_names r"
  shows "tr_get (clone_registry (Some r)) n = tr_get r n"
proof -
  have keys: "map fst r = map tdf_name (map snd r)" using assms by (auto simp: listed_under_names_def)
  have perm: "mset (tr_list r) = mset (map snd r)" by (simp add: tr_list_def)
  have dist: "distinct (map tdf_name (tr_list r))"
    using assms keys perm by (metis (no_types, lifting) distinct_map listed_under_names_def mset_eq_imp_distinct_iff set_mset_mset mset_map)
  have complete: "\<forall>d \<in> set (tr_list r). tool_complete d \<and> map_of new_tool_registry (tdf_name d) = None"
    using assms by (auto simp: listed_under_names_def tr_list_def new_tool_registry_def)
  have pairs: "set (map (\<lambda>d. (tdf_name d, d)) (tr_list r)) = set r"
    using assms by (force simp: listed_under_names_def tr_list_def)
  have "map_of (map (\<lambda>d. (tdf_name d, d)) (tr_list r)) = map_of r"
    by (rule map_of_inject_set[THEN iffD2]) (use pairs dist assms in \<open>simp_all add: listed_under_names_def comp_def\<close>)
  then show ?thesis
    using cloned_registry[OF dist complete] by (simp add: clone_registry_def tr_get_def new_tool_registry_def split: option.split)
qed

section \<open>Plugins beside the host's tools\<close>

definition beside_host :: "'w tool_registry \<Rightarrow> 'w loaded_plugins \<Rightarrow> bool" where
  "beside_host r l \<longleftrightarrow> (\<forall>n.
     (case map_of (lpl_tools l) n of
        None \<Rightarrow> tr_get (lpl_registry l) n = tr_get r n
      | Some t \<Rightarrow> tr_get (lpl_registry l) n = Some (to_tool_definition t) \<and> tr_get r n = None))"

lemma beside_host_step:
  assumes "beside_host r l" and "tr_register (to_tool_definition t) (lpl_registry l) = Inr r1"
  shows "beside_host r \<lparr>lpl_manager = m, lpl_registry = r1, lpl_tools = AList.update (pt_name t) t (lpl_tools l)\<rparr>"
proof -
  have new: "map_of (lpl_registry l) (pt_name t) = None" "r1 = (pt_name t, to_tool_definition t) # lpl_registry l"
    using register_new[OF assms(2)] by (simp_all add: to_tool_definition_def)
  have host: "tr_get r (pt_name t) = None" using assms(1) new(1) by (auto simp: beside_host_def tr_get_def split: option.splits dest: spec[of _ "pt_name t"])
  show ?thesis
    unfolding beside_host_def
  proof
    fix n
    show "case map_of (lpl_tools \<lparr>lpl_manager = m, lpl_registry = r1, lpl_tools = AList.update (pt_name t) t (lpl_tools l)\<rparr>) n of
        None \<Rightarrow> tr_get (lpl_registry \<lparr>lpl_manager = m, lpl_registry = r1, lpl_tools = AList.update (pt_name t) t (lpl_tools l)\<rparr>) n = tr_get r n
      | Some t' \<Rightarrow> tr_get (lpl_registry \<lparr>lpl_manager = m, lpl_registry = r1, lpl_tools = AList.update (pt_name t) t (lpl_tools l)\<rparr>) n =
            Some (to_tool_definition t') \<and> tr_get r n = None"
      using assms(1)[unfolded beside_host_def, rule_format, of n] new host by (auto simp: tr_get_def update_conv' split: option.splits)
  qed
qed

lemma load_targets_beside:
  assumes "beside_host r l" and "load_targets wd paths l w = (Done (Inr l1), w1)"
  shows "beside_host r l1"
  using assms
proof (induction wd paths l w rule: load_targets.induct)
  case (2 wd path paths l w)
  then obtain t m1 w2 r1 where "validate_plugin_path wd (pm_policy (lpl_manager l)) path = None"
      and "pm_load None path (Some (lpl_manager l)) w = (Done (Inr t, Some m1), w2)"
      and "tr_register (to_tool_definition t) (lpl_registry l) = Inr r1"
      and "load_targets wd paths \<lparr>lpl_manager = m1, lpl_registry = r1, lpl_tools = AList.update (pt_name t) t (lpl_tools l)\<rparr> w2 = (Done (Inr l1), w1)"
    by (auto simp: close_and_fail_def split: option.splits prod.splits attempt.splits sum.splits)
  then show ?case using 2 beside_host_step by metis
qed simp

text \<open> An executor with plugins runs under every name exactly what it lists under that name: for a name of the
  host's tools the host's executor, with its policy; for any other name that is listed the plugin, with no policy and
  no timeout of the executor's; a plugin cannot take the name of a host's tool.\<close>

theorem plugin_executor_routes:
  assumes "build_plugin_executor b base o1 w = (Done (Inr ex), w1)" and "hx_registry base = Some r" and "listed_under_names r"
  shows "\<exists>reg. hx_registry ex = Some reg \<and> (\<forall>call s.
     (case tr_get r (tc_name call) of
        Some d \<Rightarrow> tr_get reg (tc_name call) = Some d \<and> hx_execute ex call s = hx_execute base call s
      | None \<Rightarrow>
          (case tr_get reg (tc_name call) of
             None \<Rightarrow> hx_execute ex call s = hx_execute base call s
           | Some d \<Rightarrow> \<exists>h. tdf_handler d = Some h \<and> (\<forall>timeout. hx_execute ex call s = h timeout call s))))"
proof -
  obtain m l where ex: "ex = plugin_executor base l" and l: "load_targets (bu_working_dir b) (resolve_plugin_targets o1)
      \<lparr>lpl_manager = m, lpl_registry = clone_registry (hx_registry base), lpl_tools = []\<rparr> w = (Done (Inr l), w1)"
    using assms(1) by (auto simp: build_plugin_executor_def split: option.splits prod.splits attempt.splits sum.splits)
  have "beside_host r \<lparr>lpl_manager = m, lpl_registry = clone_registry (hx_registry base), lpl_tools = []\<rparr>"
    by (simp add: beside_host_def assms(2) clone_registry_lookup[OF assms(3)])
  then have b: "beside_host r l" using l by (rule load_targets_beside)
  have "(case tr_get r (tc_name call) of
        Some d \<Rightarrow> tr_get (lpl_registry l) (tc_name call) = Some d \<and> hx_execute ex call s = hx_execute base call s
      | None \<Rightarrow>
          (case tr_get (lpl_registry l) (tc_name call) of
             None \<Rightarrow> hx_execute ex call s = hx_execute base call s
           | Some d \<Rightarrow> \<exists>h. tdf_handler d = Some h \<and> (\<forall>timeout. hx_execute ex call s = h timeout call s)))" for call s
    using b[unfolded beside_host_def, rule_format, of "tc_name call"]
    by (cases "map_of (lpl_tools l) (tc_name call)")
      (auto simp: ex plugin_executor_def to_tool_definition_def split: option.split)
  then show ?thesis by (auto simp: ex plugin_executor_def)
qed

section \<open>A request without verification\<close>

text \<open> A request to switch verification off is run like one for the mode the server is configured with; and if that is
  off too, the engine never runs: it lacks a verifier and every task fails.\<close>

theorem off_request_not_off:
  assumes "request_engine port commands time ctx_err b cfg tools memory sessions events t n ''off'' = Inr E"
  shows "(let mode = rt_verify_mode (cf_runtime (bu_config b)) in
     if mode = ''off'' then engine_run E t wd = (failed_run dependencies_required, wd)
     else eng_verifier E = Some (port (new_task_aware mode commands None)))"
proof -
  have nb: "\<not> blank ''off''" by code_simp
  have v: "eng_verifier E = map_option port (verifier_from_config (bu_config b) commands)"
    using assms nb by (auto simp: request_engine_def build_engine_def verifier_from_config_def Let_def split: option.splits)
  then show ?thesis
    by (auto simp: Let_def verifier_from_config_def engine_run_def required_ports_def split: option.split)
qed

section \<open>A task that is named like a flag\<close>

lemma flag_names_plain: "name \<in> set config_flag_names \<Longrightarrow> flag_name_of name = name \<and> CHR ''='' \<notin> set name \<and> hd name \<noteq> CHR ''-'' \<and> name \<noteq> []"
  by (auto simp: config_flag_names_def flag_name_of_def)

lemma task_flag_dropped: "flag_name_of ''--task'' \<notin> set config_flag_names"
  by (simp add: config_flag_names_def flag_name_of_def)

lemma flags_end: "hd name \<noteq> CHR ''-'' \<Longrightarrow> parse_flags formal (name # args) visited fv = Inr (fv, visited)"
  by (simp add: split_flag_def)

text \<open> If the text of a task is the name of a flag of the configuration, it stays among the arguments that are
  parsed and ends the flags: the run then ignores every flag of the configuration but that of the file.\<close>

theorem task_named_like_flag:
  assumes "name \<in> set config_flag_names" and "args = [] \<or> has_prefix ''-'' (hd args)"
    and "extract_config_path (filter_config_args args) = Inr None"
  shows "load_cli_config h ''run'' (''--task'' # name # args) = load_config h []"
proof -
  have n: "flag_name_of name = name" "hd name \<noteq> CHR ''-''" "name \<noteq> []" using flag_names_plain[OF assms(1)] by auto
  have f: "filter_config_args (''--task'' # name # args) = name # filter_config_args args"
    using assms(1,2) task_flag_dropped n(1) by (cases args) auto
  have p: "\<not> has_prefix ''-config='' name" "\<not> has_prefix ''--config='' name" "name \<noteq> ''-config''" "name \<noteq> ''--config''"
    using n(2,3) by (cases name; auto)+
  have x: "extract_config_path (name # filter_config_args args) = extract_config_path []"
    using p assms(3) by simp
  have "load_flags h (name # filter_config_args args) path cs = load_flags h [] path cs" for path cs
    unfolding load_flags_def flags_end[OF n(2)] by simp
  then have same: "load_flags h (name # filter_config_args args) = load_flags h []" by (intro ext)
  have "load_config h (name # filter_config_args args) = load_config h []"
    unfolding load_config_def resolve_config_path_def x load_layers_def same ..
  then show ?thesis unfolding load_cli_config_def f by simp
qed

section \<open>The properties at work\<close>

theorem task_named_like_flag_witness:
  "\<forall>h. load_cli_config h ''run'' [''--task'', ''model'', ''--verify-mode'', ''off''] = load_config h []"
proof
  fix h
  have "''model'' \<in> set config_flag_names" "extract_config_path (filter_config_args [''--verify-mode'', ''off'']) = Inr None"
    by (simp_all add: config_flag_names_def flag_name_of_def)
  from task_named_like_flag[OF this(1) _ this(2), of h]
  show "load_cli_config h ''run'' [''--task'', ''model'', ''--verify-mode'', ''off''] = load_config h []" by simp
qed

definition sample_plugin :: "nat plugin_tool" where
  "sample_plugin = \<lparr>pt_name = ''acme'', pt_description = ''d'', pt_schema = ''{}'', pt_capabilities = [], pt_safety_level = ''low'',
     pt_contract_version = ''1.0.0'', pt_execute = (\<lambda>call n. ((empty_result ''acme'', None), n + 1)), pt_close = (\<lambda>n. (None, n)),
     pt_health = None\<rparr>"

definition sample_model_port :: "nat model" where
  "sample_model_port = \<lparr>md_create_plan = (\<lambda>_ _ _ n. (Inl Canceled, n)), md_next_action = (\<lambda>_ _ _ _ _ _ n. (Inl Canceled, n)),
     md_observe = (\<lambda>_ _ _ _ _ n. (Inl Canceled, n)), md_provenance = None\<rparr>"

definition sample_builder :: "string \<Rightarrow> nat builder" where
  "sample_builder mode =
     \<lparr>bu_config = set_verify_mode mode default_config, bu_workspace_root = ''.'', bu_model = Some sample_model_port,
      bu_new_manager = (\<lambda>path. Some (new_manager path (executor_policy ''.'' [] []) (\<lambda>_ n. (Inr (Some sample_plugin), n))
        (\<lambda>_ n. (Inl Canceled, n)) (\<lambda>_ _. Inr []))),
      bu_handlers = (\<lambda>_ _ call n. ((empty_result (tc_name call), None), n)), bu_working_dir = Inr ''/w'', bu_web_host = (\<lambda>_. Inl Canceled)\<rparr>"

definition sample_host :: "nat host_executor" where
  "sample_host = \<lparr>hx_execute = (\<lambda>call n. ((empty_result (tc_name call), None), n)), hx_registry = Some [], hx_close = None\<rparr>"

definition sample_plugin_options :: plugin_options where
  "sample_plugin_options = \<lparr>plo_directory = ''./plugins'', plo_names = [''acme''], plo_allowed_paths = []\<rparr>"

lemma sample_targets: "resolve_plugin_targets sample_plugin_options = [''plugins/acme'']"
  by code_simp

lemma sample_path: "\<not> is_native_path ''plugins/acme''" "trim_space ''plugins/acme'' = ''plugins/acme''"
  "check_version_compat ''1.0.0'' contract_version = Inr True"
  by code_simp+

theorem plugin_executor_routes_witness:
  "\<exists>ex w. build_plugin_executor (sample_builder ''standard'') sample_host sample_plugin_options 0 = (Done (Inr ex), w) \<and>
     (\<exists>reg. hx_registry ex = Some reg \<and> (\<exists>d. tr_get reg ''acme'' = Some d))"
proof -
  let ?l = "\<lparr>lpl_manager = track sample_plugin ''plugins/acme'' 0 [] ((the (bu_new_manager (sample_builder ''standard'') ''./plugins''))
        \<lparr>pm_policy := plugin_policy (sample_builder ''standard'') sample_plugin_options\<rparr>),
      lpl_registry = [(''acme'', to_tool_definition sample_plugin)], lpl_tools = [(''acme'', sample_plugin)]\<rparr>"
  have "build_plugin_executor (sample_builder ''standard'') sample_host sample_plugin_options 0 = (Done (Inr (plugin_executor sample_host ?l)), 0)"
    unfolding build_plugin_executor_def sample_targets
    by (simp add: sample_builder_def sample_plugin_options_def sample_host_def new_manager_def plugin_policy_def clone_registry_def tr_list_def
        new_tool_registry_def validate_plugin_path_def sample_path pm_load_def load_plugin_def sample_plugin_def validate_contract_def
        validate_plugin_capabilities_def default_config_def set_verify_mode_def tr_register_def to_tool_definition_def)
  moreover from plugin_executor_routes[OF this, of "[]"] obtain reg where "hx_registry (plugin_executor sample_host ?l) = Some reg"
    by (auto simp: sample_host_def listed_under_names_def)
  ultimately show ?thesis by (auto simp: plugin_executor_def tr_get_def)
qed

definition sample_task :: task where
  "sample_task = \<lparr>task_id = ''t'', task_description = ''d'', task_goal = ''g'', task_category = ''general'', task_protocol_hint = [],
     task_verification_policy = [], task_created_at = 1\<rparr>"

definition sample_tools_port :: "nat tool_port" where
  "sample_tools_port = \<lparr>tp_execute = (\<lambda>call n. ((empty_result (tc_name call), None), n)), tp_infos = None\<rparr>"

definition sample_memory_port :: "nat memory_port" where
  "sample_memory_port = \<lparr>mp_remember = (\<lambda>_ _ n. (None, n)), mp_recall = (\<lambda>_ n. (Inr [], n))\<rparr>"

definition sample_session_port :: "nat session_port" where
  "sample_session_port = \<lparr>sp_save_session = (\<lambda>_ n. (None, n)), sp_save_plan = (\<lambda>_ n. (None, n)), sp_append_step = (\<lambda>_ _ n. (None, n))\<rparr>"

definition sample_verifier_port :: "nat task_aware \<Rightarrow> nat verifier_port" where
  "sample_verifier_port v =
     \<lparr>vp_verify = (\<lambda>t ses pl steps ob n. fst (task_aware_verify v t ses pl steps ob n)), vp_provenance = (\<lambda>_. verifier_provenance v)\<rparr>"

theorem off_request_not_off_witness:
  "\<exists>E. request_engine sample_verifier_port None (\<lambda>n. (0, n)) (\<lambda>n. (None, n)) (sample_builder ''off'') default_config
       sample_tools_port sample_memory_port sample_session_port None sample_task 0 ''off'' = Inr E \<and>
     engine_run E sample_task \<lparr>wd_state = 0, wd_log = []\<rparr> = (failed_run dependencies_required, \<lparr>wd_state = 0, wd_log = []\<rparr>)"
proof -
  obtain E where E: "request_engine sample_verifier_port None (\<lambda>n. (0, n)) (\<lambda>n. (None, n)) (sample_builder ''off'') default_config
      sample_tools_port sample_memory_port sample_session_port None sample_task 0 ''off'' = Inr E"
    by (simp add: request_engine_def sample_builder_def Let_def)
  have "rt_verify_mode (cf_runtime (bu_config (sample_builder ''off''))) = ''off''" by (simp add: sample_builder_def set_verify_mode_def)
  with off_request_not_off[OF E] E show ?thesis by (auto simp: Let_def)
qed

end
