(* ===== verification/Cli.thy ===== *)
theory Cli
  imports Builder Session_Store Event_Stream
begin

text \<open>
  The command line (\<^verbatim>\<open>cmd/agent/cli.go\<close>): the commands that run, resume and inspect a session and reload a plugin,
  what they print, and the checks a resumed session must pass.

  As in \<^verbatim>\<open>cliApp\<close>, opening the stores and running an engine are fields of the application: \<open>cl_run\<close> and
  \<open>cl_run_multi\<close> run a task to its end, \<open>cl_stream\<close> gives the events of a run, after which the context may
  be over.  The state is the database and what has been printed; a value that is printed as JSON is kept as it is.
\<close>

section \<open>Options and state\<close>

record multi_agent_options =
  mao_decompose :: bool
  mao_max_workers :: int
  mao_aggregation :: string

record run_settings =
  rs_max_steps :: int
  rs_allow_commands :: "string list"
  rs_plugins :: plugin_options
  rs_session_id :: string

record task_metadata =
  tmd_task_type :: task_category
  tmd_protocol_hint :: string
  tmd_verification_policy :: string

record run_json_output =
  ro_session_id :: string
  ro_status :: session_status
  ro_task_input :: string
  ro_plan :: string
  ro_steps :: int
  ro_metadata :: task_metadata

record inspect_output =
  ino_session_id :: string
  ino_status :: session_status
  ino_terminated_reason :: string
  ino_plan :: string
  ino_step_count :: int
  ino_step_summaries :: "string list"
  ino_provenance :: "provenance option"
  ino_metadata :: task_metadata

datatype cli_output = OutText string | OutRun run_json_output | OutInspect inspect_output

record cli_state =
  cw_store :: "session_db option"
  cw_out :: "cli_output list"
  cw_err :: "string list"

type_synonym 'a cli_result = "(go_error, 'a) result \<times> cli_state"

record cli_env =
  cl_config :: config
  cl_host :: config_host
  cl_now :: gotime
  cl_open_session :: "string \<Rightarrow> go_error option"
  cl_open_memory :: "string \<Rightarrow> go_error option"
  cl_run :: "run_settings \<Rightarrow> task \<Rightarrow> cli_state \<Rightarrow> run_result \<times> cli_state"
  cl_run_multi :: "run_settings \<Rightarrow> multi_agent_options \<Rightarrow> task \<Rightarrow> cli_state \<Rightarrow> run_result \<times> cli_state"
  cl_stream :: "run_settings \<Rightarrow> task \<Rightarrow> cli_state \<Rightarrow> (go_error, streaming_event list option) result \<times> cli_state"
  cl_context :: "cli_state \<Rightarrow> go_error option"
  cl_provider :: "config \<Rightarrow> (go_error, plugin_metadata option) result"

definition print_text :: "string \<Rightarrow> cli_state \<Rightarrow> cli_state" where
  "print_text s st = st\<lparr>cw_out := cw_out st @ [OutText s]\<rparr>"

definition print_error :: "string \<Rightarrow> cli_state \<Rightarrow> cli_state" where
  "print_error s st = st\<lparr>cw_err := cw_err st @ [s]\<rparr>"

definition on_sessions :: "(session_db option \<Rightarrow> (go_error, 'a) result \<times> session_db option) \<Rightarrow> cli_state \<Rightarrow> 'a cli_result" where
  "on_sessions f st = (case f (cw_store st) of (r, s) \<Rightarrow> (r, st\<lparr>cw_store := s\<rparr>))"

section \<open>What is printed\<close>

definition step_summary :: "step \<Rightarrow> string" where
  "step_summary s =
     (let a = act_summary (step_action s);
          b = (if blank a then obs_summary (step_observation s) else a);
          c = (if blank b then vr_reason (step_verification s) else b) in
      ''step '' @ show_int (step_index s) @ '': '' @ trim_space c)"

definition summarize_steps :: "step list \<Rightarrow> string list" where
  "summarize_steps steps = map step_summary (drop (length steps - 3) steps)"

definition summarize_provenance :: "provenance option \<Rightarrow> string list" where
  "summarize_provenance p =
     (case p of
        None \<Rightarrow> []
      | Some q \<Rightarrow>
          map (\<lambda>m. ''plugin '' @ pl_family m @ ''/'' @ pl_logical_id m @ '' via '' @ pl_execution_mode m @ '' ('' @ pl_source_path m @ '')'')
            (pv_plugins (pv_normalize q)))"

definition normalize_task_metadata :: "task \<Rightarrow> task" where
  "normalize_task_metadata t =
     (let n = task_normalize t in
      n\<lparr>task_protocol_hint := trim_space (task_protocol_hint n), task_verification_policy := trim_space (task_verification_policy n)\<rparr>)"

definition summarize_task_metadata :: "task \<Rightarrow> task_metadata" where
  "summarize_task_metadata t =
     (let n = normalize_task_metadata t in
      \<lparr>tmd_task_type = task_category n, tmd_protocol_hint = task_protocol_hint n, tmd_verification_policy = task_verification_policy n\<rparr>)"

definition cli_termination_reason :: "session \<Rightarrow> step list \<Rightarrow> string" where
  "cli_termination_reason s steps =
     (if steps = [] then sess_status s
      else let l = last steps in
        if \<not> blank (vr_reason (step_verification l)) then vr_reason (step_verification l)
        else if \<not> blank (obs_final_response (step_observation l)) then obs_final_response (step_observation l)
        else if \<not> blank (obs_summary (step_observation l)) then obs_summary (step_observation l)
        else sess_status s)"

definition labelled :: "string \<Rightarrow> string \<Rightarrow> string" where
  "labelled label value1 = label @ '': '' @ value1 @ newline"

definition print_items :: "session \<Rightarrow> step list \<Rightarrow> cli_state \<Rightarrow> cli_state" where
  "print_items s steps st =
     fold (\<lambda>i. print_text (''- '' @ i @ newline))
       (summarize_provenance (sess_provenance s) @ summarize_steps steps @ (if steps = [] then [''no steps recorded''] else [])) st"

definition emit_run_result :: "bool \<Rightarrow> task \<Rightarrow> session \<Rightarrow> plan \<Rightarrow> step list \<Rightarrow> cli_state \<Rightarrow> cli_state" where
  "emit_run_result json t s p steps st =
     (if json
      then st\<lparr>cw_out := cw_out st @ [OutRun \<lparr>ro_session_id = sess_id s, ro_status = sess_status s, ro_task_input = task_description t,
              ro_plan = plan_summary p, ro_steps = int (length steps), ro_metadata = summarize_task_metadata t\<rparr>]\<rparr>
      else print_text (labelled ''Session'' (sess_id s) @ labelled ''Status'' (sess_status s) @ labelled ''Task'' (task_description t) @
              labelled ''Plan'' (plan_summary p) @ labelled ''Steps'' (show_int (int (length steps)))) st)"

definition emit_resume_result :: "session \<Rightarrow> plan \<Rightarrow> step list \<Rightarrow> bool \<Rightarrow> cli_state \<Rightarrow> cli_state" where
  "emit_resume_result s p steps continued st =
     print_items s steps
       (print_text (labelled ((if continued then ''Continued'' else ''Resumed'') @ '' session'') (sess_id s) @ labelled ''Status'' (sess_status s) @
          labelled ''Plan'' (plan_summary p) @ ''History:'' @ newline) st)"

definition emit_inspect_result :: "bool \<Rightarrow> task \<Rightarrow> session \<Rightarrow> plan \<Rightarrow> step list \<Rightarrow> cli_state \<Rightarrow> cli_state" where
  "emit_inspect_result json t s p steps st =
     (if json
      then st\<lparr>cw_out := cw_out st @ [OutInspect \<lparr>ino_session_id = sess_id s, ino_status = sess_status s,
              ino_terminated_reason = cli_termination_reason s steps, ino_plan = plan_summary p, ino_step_count = int (length steps),
              ino_step_summaries = summarize_steps steps, ino_provenance = sess_provenance s, ino_metadata = summarize_task_metadata t\<rparr>]\<rparr>
      else print_items s steps
        (print_text (labelled ''Session'' (sess_id s) @ labelled ''Status'' (sess_status s) @ labelled ''Termination'' (cli_termination_reason s steps) @
           labelled ''Plan'' (plan_summary p) @ ''Summary:'' @ newline) st))"

section \<open>The consumer of a stream\<close>

text \<open>Standard output takes what it takes (\<^typ>\<open>stream_writer\<close>); a payload's fields are read by their JSON names.\<close>

record stream_consumer =
  sc_out :: stream_writer
  sc_err :: "string list"
  sc_json :: bool
  sc_session_id :: string
  sc_tool_started :: "(string \<times> gotime) list"
  sc_inline_token :: bool

definition payload_tool_name :: "event_payload \<Rightarrow> string" where
  "payload_tool_name p = (case p of ToolStartPayload n _ \<Rightarrow> n | ToolEndPayload n _ _ \<Rightarrow> n | _ \<Rightarrow> [])"

definition payload_content :: "event_payload \<Rightarrow> string" where
  "payload_content p = (case p of TokenDeltaPayload c \<Rightarrow> c | _ \<Rightarrow> [])"

definition payload_message :: "event_payload \<Rightarrow> string" where
  "payload_message p = (case p of ErrorPayload m \<Rightarrow> m | _ \<Rightarrow> [])"

definition payload_session :: "event_payload \<Rightarrow> string \<times> string" where
  "payload_session p = (case p of SessionCompletePayload i s \<Rightarrow> (i, s) | _ \<Rightarrow> ([], []))"

definition normalize_complete :: "string \<Rightarrow> streaming_event \<Rightarrow> streaming_event" where
  "normalize_complete sid e =
     (if blank sid then e else e\<lparr>ev_payload := SessionCompletePayload sid (snd (payload_session (ev_payload e)))\<rparr>)"

definition tool_key :: "int \<Rightarrow> string \<Rightarrow> string" where
  "tool_key i name = show_int i @ '':'' @ name"

definition write_out :: "string \<Rightarrow> stream_consumer \<Rightarrow> stream_error option \<times> stream_consumer" where
  "write_out s c = (case write_chunk s (sc_out c) of (e, w) \<Rightarrow> (e, c\<lparr>sc_out := w\<rparr>))"

definition ensure_line_break :: "stream_consumer \<Rightarrow> stream_consumer" where
  "ensure_line_break c = (if sc_inline_token c then (snd (write_out newline c))\<lparr>sc_inline_token := False\<rparr> else c)"

definition max_duration :: duration where "max_duration = 2 ^ 63 - 1"

definition format_duration :: "string \<Rightarrow> gotime \<Rightarrow> stream_consumer \<Rightarrow> string \<times> stream_consumer" where
  "format_duration key ended c =
     (case map_of (sc_tool_started c) key of
        None \<Rightarrow> (''unknown'', c)
      | Some started \<Rightarrow>
          if started = 0 \<or> ended < started then (''unknown'', c)
          else (show_duration (min (ended - started) max_duration), c\<lparr>sc_tool_started := AList.delete key (sc_tool_started c)\<rparr>))"

definition consume :: "(streaming_event \<Rightarrow> string) \<Rightarrow> streaming_event \<Rightarrow> stream_consumer \<Rightarrow> stream_error option \<times> stream_consumer" where
  "consume encode e0 c =
     (let e = (if ev_type e0 = ev_session_complete then normalize_complete (sc_session_id c) e0 else e0);
          name = payload_tool_name (ev_payload e); key = tool_key (ev_step_index e) name in
      if sc_json c then write_out (encode e @ newline) c
      else if ev_type e = ev_token_delta then
        (case write_out (payload_content (ev_payload e)) c of
           (Some err, c1) \<Rightarrow> (Some err, c1)
         | (None, c1) \<Rightarrow> (None, c1\<lparr>sc_inline_token := True\<rparr>))
      else if ev_type e = ev_tool_start then
        (let c1 = ensure_line_break c in
         write_out (''[Tool: '' @ name @ '']'' @ newline) (c1\<lparr>sc_tool_started := AList.update key (ev_timestamp e) (sc_tool_started c1)\<rparr>))
      else if ev_type e = ev_tool_end then
        (case format_duration key (ev_timestamp e) (ensure_line_break c) of
           (d, c1) \<Rightarrow> write_out (''[Tool: '' @ name @ ''] done ('' @ d @ '')'' @ newline) c1)
      else if ev_type e = ev_step_complete then
        write_out (''--- Step '' @ show_int (ev_step_index e) @ '' complete ---'' @ newline) (ensure_line_break c)
      else if ev_type e = ev_error then (None, c\<lparr>sc_err := sc_err c @ [''ERROR: '' @ payload_message (ev_payload e) @ newline]\<rparr>)
      else if ev_type e = ev_session_complete then
        write_out (labelled ''Session'' (fst (payload_session (ev_payload e))) @ labelled ''Status'' (snd (payload_session (ev_payload e))))
          (ensure_line_break c)
      else (None, c))"

fun consume_all :: "(streaming_event \<Rightarrow> string) \<Rightarrow> streaming_event list \<Rightarrow> stream_consumer \<Rightarrow> stream_error option \<times> stream_consumer" where
  "consume_all encode [] c = (None, c)"
| "consume_all encode (e # es) c =
     (case consume encode e c of (Some err, c1) \<Rightarrow> (Some err, c1) | (None, c1) \<Rightarrow> consume_all encode es c1)"

definition load_stream_result :: "string \<Rightarrow> cli_state \<Rightarrow> (session \<times> plan \<times> step list) cli_result" where
  "load_stream_result sid = on_sessions (resume_session sid)"

definition write_failed :: go_error where "write_failed = Message ''write failed''"

text \<open>Everything that is printed succeeds here: a full standard output is \<open>consume_all\<close>'s business.\<close>

definition streaming_command ::
  "cli_env \<Rightarrow> (streaming_event \<Rightarrow> string) \<Rightarrow> run_settings \<Rightarrow> task \<Rightarrow> bool \<Rightarrow> cli_state \<Rightarrow> unit cli_result" where
  "streaming_command env encode rs t json st0 =
     and_then (cl_stream env rs t st0) (\<lambda>events st.
       case events of
         None \<Rightarrow> (Inl (Message ''streaming runtime returned nil event channel''), st)
       | Some es \<Rightarrow>
           (case consume_all encode es \<lparr>sc_out = \<lparr>sw_chunks = [], sw_left = None\<rparr>, sc_err = [], sc_json = json, sc_session_id = rs_session_id rs,
                   sc_tool_started = [], sc_inline_token = False\<rparr> of
              (err, c) \<Rightarrow>
                (let st1 = st\<lparr>cw_out := cw_out st @ map OutText (sw_chunks (sc_out c)), cw_err := cw_err st @ sc_err c\<rparr> in
                 if err \<noteq> None then (Inl write_failed, st1)
                 else and_then (load_stream_result (rs_session_id rs) st1) (\<lambda>(s, p, steps) st2.
                   case cl_context env st2 of
                     Some e \<Rightarrow> if sess_status s \<noteq> ss_success then (Inl e, st2) else (Inr (), st2)
                   | None \<Rightarrow> (Inr (), st2)))))"

section \<open>Flags\<close>

text \<open>What the flag package itself prints about a flag it refuses is left out.\<close>

record cli_flags =
  clf_allow_commands :: "string list"
  clf_plugins :: "string list"
  clf_allow_plugins :: "string list"
  clf_plugin_dir :: string
  clf_task :: string
  clf_task_type :: string
  clf_protocol_hint :: string
  clf_verification_policy :: string
  clf_session :: string
  clf_db :: string
  clf_max_steps :: int
  clf_json :: bool
  clf_stream :: bool
  clf_decompose :: bool
  clf_max_workers :: int
  clf_aggregation :: string

definition flag_all_succeed :: string where "flag_all_succeed = ''all-succeed''"
definition flag_best_effort :: string where "flag_best_effort = ''best-effort''"
definition default_db_path :: string where "default_db_path = ''./agent.db''"

definition cli_default_max_steps :: "config \<Rightarrow> int" where
  "cli_default_max_steps cfg = (if rt_max_steps (cf_runtime cfg) > 0 then rt_max_steps (cf_runtime cfg) else 8)"

definition initial_cli_flags :: "config \<Rightarrow> cli_flags" where
  "initial_cli_flags cfg =
     \<lparr>clf_allow_commands = [], clf_plugins = [], clf_allow_plugins = [], clf_plugin_dir = ''./plugins'', clf_task = [], clf_task_type = [],
      clf_protocol_hint = [], clf_verification_policy = [], clf_session = [], clf_db = default_db_path,
      clf_max_steps = cli_default_max_steps cfg, clf_json = False, clf_stream = False, clf_decompose = False, clf_max_workers = 4,
      clf_aggregation = flag_all_succeed\<rparr>"

text \<open>\<^verbatim>\<open>stringSliceFlag.Set\<close>, and the flags that only the loading of the configuration reads.\<close>

definition slice_flag :: "(string \<Rightarrow> cli_flags \<Rightarrow> cli_flags) \<Rightarrow> bool \<times> cli_flags setter" where
  "slice_flag add =
     (False, \<lambda>v f. if blank v then Inl (Message ''allow-command must not be empty'') else Inr (add (trim_space v) f))"

definition ignored_flags :: "config_host \<Rightarrow> string list \<Rightarrow> (string \<times> bool \<times> cli_flags setter) list" where
  "ignored_flags h names =
     map (\<lambda>n. (n, string_flag (\<lambda>_ f. f))) names @ [(''memory-limit-mb'', parsed_flag False (ch_parse_int h) (\<lambda>_ f. f))]"

definition plugin_flags :: "(string \<times> bool \<times> cli_flags setter) list" where
  "plugin_flags =
     [(''allow-command'', slice_flag (\<lambda>v f. f\<lparr>clf_allow_commands := clf_allow_commands f @ [v]\<rparr>)),
      (''plugin-dir'', string_flag (\<lambda>v f. f\<lparr>clf_plugin_dir := v\<rparr>)),
      (''plugin'', slice_flag (\<lambda>v f. f\<lparr>clf_plugins := clf_plugins f @ [v]\<rparr>)),
      (''allow-plugin'', slice_flag (\<lambda>v f. f\<lparr>clf_allow_plugins := clf_allow_plugins f @ [v]\<rparr>))]"

definition bool_flag :: "(bool \<Rightarrow> cli_flags \<Rightarrow> cli_flags) \<Rightarrow> bool \<times> cli_flags setter" where
  "bool_flag = parsed_flag True (flag_parse parse_bool)"

definition output_flags :: "config_host \<Rightarrow> (string \<times> bool \<times> cli_flags setter) list" where
  "output_flags h =
     [(''db'', string_flag (\<lambda>v f. f\<lparr>clf_db := v\<rparr>)), (''max-steps'', parsed_flag False (ch_parse_int h) (\<lambda>v f. f\<lparr>clf_max_steps := v\<rparr>)),
      (''json'', bool_flag (\<lambda>v f. f\<lparr>clf_json := v\<rparr>)), (''stream'', bool_flag (\<lambda>v f. f\<lparr>clf_stream := v\<rparr>))]"

definition run_flags :: "config_host \<Rightarrow> (string \<times> bool \<times> cli_flags setter) list" where
  "run_flags h =
     ignored_flags h [''config'', ''provider'', ''plugin-provider'', ''model'', ''api-key'', ''base-url'', ''step-timeout'', ''verify-mode''] @
     plugin_flags @ output_flags h @
     [(''task'', string_flag (\<lambda>v f. f\<lparr>clf_task := v\<rparr>)), (''task-type'', string_flag (\<lambda>v f. f\<lparr>clf_task_type := v\<rparr>)),
      (''task-protocol'', string_flag (\<lambda>v f. f\<lparr>clf_protocol_hint := v\<rparr>)),
      (''task-verification-policy'', string_flag (\<lambda>v f. f\<lparr>clf_verification_policy := v\<rparr>)),
      (''decompose'', bool_flag (\<lambda>v f. f\<lparr>clf_decompose := v\<rparr>)),
      (''max-workers'', parsed_flag False (ch_parse_int h) (\<lambda>v f. f\<lparr>clf_max_workers := v\<rparr>)),
      (''aggregation'', string_flag (\<lambda>v f. f\<lparr>clf_aggregation := v\<rparr>))]"

definition resume_flags :: "config_host \<Rightarrow> (string \<times> bool \<times> cli_flags setter) list" where
  "resume_flags h =
     ignored_flags h [''config'', ''provider'', ''model'', ''api-key'', ''base-url'', ''step-timeout'', ''verify-mode''] @
     plugin_flags @ output_flags h @ [(''session'', string_flag (\<lambda>v f. f\<lparr>clf_session := v\<rparr>))]"

definition inspect_flags :: "config_host \<Rightarrow> (string \<times> bool \<times> cli_flags setter) list" where
  "inspect_flags h =
     ignored_flags h [''config'', ''provider'', ''model'', ''api-key'', ''base-url'', ''step-timeout'', ''verify-mode''] @
     [(''session'', string_flag (\<lambda>v f. f\<lparr>clf_session := v\<rparr>)), (''db'', string_flag (\<lambda>v f. f\<lparr>clf_db := v\<rparr>)),
      (''json'', bool_flag (\<lambda>v f. f\<lparr>clf_json := v\<rparr>))]"

definition normalize_multi_agent :: "bool \<Rightarrow> int \<Rightarrow> string \<Rightarrow> (go_error, multi_agent_options) result" where
  "normalize_multi_agent decompose workers aggregation =
     (let a = trim_space aggregation in
      if workers \<le> 0 then Inl (Message ''run requires --max-workers > 0'')
      else if a = [] \<or> a = flag_all_succeed
      then Inr \<lparr>mao_decompose = decompose, mao_max_workers = workers, mao_aggregation = flag_all_succeed\<rparr>
      else if a = flag_best_effort then Inr \<lparr>mao_decompose = decompose, mao_max_workers = workers, mao_aggregation = a\<rparr>
      else Inl (Message (''run requires --aggregation to be one of '' @ quote_str flag_all_succeed @ '' or '' @ quote_str flag_best_effort)))"

definition plugin_settings :: "cli_flags \<Rightarrow> plugin_options" where
  "plugin_settings f =
     (if clf_plugins f = [] then \<lparr>plo_directory = [], plo_names = [], plo_allowed_paths = []\<rparr>
      else normalize_plugin_options
        \<lparr>plo_directory = trim_space (clf_plugin_dir f), plo_names = clf_plugins f, plo_allowed_paths = clf_allow_plugins f\<rparr>)"

definition run_settings_of :: "cli_flags \<Rightarrow> string \<Rightarrow> run_settings" where
  "run_settings_of f sid =
     \<lparr>rs_max_steps = clf_max_steps f, rs_allow_commands = clf_allow_commands f, rs_plugins = plugin_settings f, rs_session_id = sid\<rparr>"

section \<open>Commands\<close>

definition open_runtime_deps :: "cli_env \<Rightarrow> string \<Rightarrow> go_error option" where
  "open_runtime_deps env path = (case cl_open_session env path of Some e \<Rightarrow> Some e | None \<Rightarrow> cl_open_memory env path)"

definition wrap_cli :: "string \<Rightarrow> 'a cli_result \<Rightarrow> 'a cli_result" where
  "wrap_cli t r = (case r of (Inl e, st) \<Rightarrow> (Inl (wrap_text t e), st) | (Inr a, st) \<Rightarrow> (Inr a, st))"

definition running_session :: "cli_env \<Rightarrow> string \<Rightarrow> session" where
  "running_session env sid =
     \<lparr>sess_id = sid, sess_task_id = sid, sess_status = ss_running, sess_provenance = None, sess_created_at = cl_now env,
      sess_updated_at = cl_now env\<rparr>"

definition task_of_flags :: "cli_env \<Rightarrow> cli_flags \<Rightarrow> string \<Rightarrow> task" where
  "task_of_flags env f sid =
     normalize_task_metadata
       \<lparr>task_id = sid, task_description = trim_space (clf_task f), task_goal = trim_space (clf_task f), task_category = trim_space (clf_task_type f),
        task_protocol_hint = trim_space (clf_protocol_hint f), task_verification_policy = trim_space (clf_verification_policy f),
        task_created_at = cl_now env\<rparr>"

text \<open>What becomes of the session when the engine has returned; an error of the store is dropped.\<close>

definition settle_session :: "cli_env \<Rightarrow> string \<Rightarrow> string \<Rightarrow> session \<Rightarrow> go_error option \<Rightarrow> cli_state \<Rightarrow> session \<times> cli_state" where
  "settle_session env sid tid s0 err st =
     (let s = s0\<lparr>sess_id := sid\<rparr>;
          file = (\<lambda>status. let s1 = s\<lparr>sess_status := status, sess_task_id := (if sess_task_id s = [] then tid else sess_task_id s)\<rparr> in
            (s1, snd (on_sessions (store_save_session s1) st))) in
      if cl_context env st \<noteq> None \<and> sess_status s \<noteq> ss_success then file ss_interrupted
      else if (sess_status s = [] \<or> sess_status s = ss_running) \<and> err \<noteq> None then file ss_fatal_error
      else (s, st))"

definition from_option :: "go_error option \<Rightarrow> (go_error, unit) result" where
  "from_option e = (case e of None \<Rightarrow> Inr () | Some x \<Rightarrow> Inl x)"

definition session_name :: "cli_env \<Rightarrow> string" where
  "session_name env = ''session-'' @ show_int (unix_nano (cl_now env))"

definition run_task_command ::
  "cli_env \<Rightarrow> (streaming_event \<Rightarrow> string) \<Rightarrow> cli_flags \<Rightarrow> multi_agent_options \<Rightarrow> cli_state \<Rightarrow> unit cli_result" where
  "run_task_command env encode f mo st =
     (let sid = session_name env; rs = run_settings_of f sid; t = task_of_flags env f sid in
      and_then (wrap_cli ''save initial session: '' (on_sessions (store_save_session (running_session env sid)) st)) (\<lambda>_ st1.
      and_then (wrap_cli ''save task metadata: '' (on_sessions (save_task sid t) st1)) (\<lambda>_ st2.
        if clf_stream f then streaming_command env encode rs t (clf_json f) st2
        else
          (case (if mao_decompose mo then cl_run_multi env rs mo t st2 else cl_run env rs t st2) of
             ((s, p, steps, err), st3) \<Rightarrow>
               (case settle_session env sid sid s err st3 of
                  (s1, st4) \<Rightarrow> (from_option err, emit_run_result (clf_json f) t s1 p steps st4))))))"

definition run_subcommand :: "cli_env \<Rightarrow> (streaming_event \<Rightarrow> string) \<Rightarrow> string list \<Rightarrow> cli_state \<Rightarrow> unit cli_result" where
  "run_subcommand env encode args st =
     (case parse_flags (run_flags (cl_host env)) args [] (initial_cli_flags (cl_config env)) of
        Inl e \<Rightarrow> (Inl e, st)
      | Inr (f, _) \<Rightarrow>
          if blank (clf_task f) then (Inl (Message ''run requires --task''), st)
          else if clf_max_steps f \<le> 0 then (Inl (Message ''run requires --max-steps > 0''), st)
          else case normalize_multi_agent (clf_decompose f) (clf_max_workers f) (clf_aggregation f) of
                 Inl e \<Rightarrow> (Inl e, st)
               | Inr mo \<Rightarrow>
                   (case open_runtime_deps env (clf_db f) of
                      Some e \<Rightarrow> (Inl e, st)
                    | None \<Rightarrow> run_task_command env encode f mo st))"

section \<open>Resuming\<close>

definition fail_closed_error :: "string \<Rightarrow> go_error" where
  "fail_closed_error what = Message (''resume fail-closed: '' @ what)"

definition required_by :: "plugin_metadata \<Rightarrow> string" where
  "required_by m = quote_str (pl_logical_id m) @ '' required by session provenance is unavailable''"

definition versioned :: "plugin_metadata \<Rightarrow> string" where
  "versioned m = quote_str (pl_logical_id m) @ ''@'' @ pl_contract_version m"

definition validate_provider_requirement :: "cli_env \<Rightarrow> plugin_metadata \<Rightarrow> go_error option" where
  "validate_provider_requirement env m =
     (let selected = trim_space (cf_plugin_provider (cl_config env)) in
      if selected = [] then
        Some (fail_closed_error (''provider plugin '' @ required_by m @ ''; configure --plugin-provider '' @ quote_str (pl_logical_id m)))
      else if selected \<noteq> pl_logical_id m then
        Some (fail_closed_error (''provider plugin mismatch, session requires '' @ quote_str (pl_logical_id m) @
          '' but active selection is '' @ quote_str selected))
      else case cl_provider env (cl_config env) of
             Inl e \<Rightarrow> Some (wrap_text (''resume fail-closed: provider plugin '' @ required_by m @ '': '') e)
           | Inr None \<Rightarrow>
               Some (fail_closed_error (''provider plugin mismatch, session requires plugin provider '' @ quote_str (pl_logical_id m) @
                 '' but active provider is not plugin-backed''))
           | Inr (Some a0) \<Rightarrow>
               (let a = pl_normalize a0 in
                if pl_logical_id a \<noteq> pl_logical_id m then
                  Some (fail_closed_error (''provider plugin mismatch, session requires '' @ quote_str (pl_logical_id m) @
                    '' but active provider is '' @ quote_str (pl_logical_id a)))
                else if \<not> blank (pl_contract_version m) \<and> pl_contract_version a \<noteq> pl_contract_version m then
                  Some (fail_closed_error (''provider plugin mismatch, session requires '' @ versioned m @ '' but active provider is '' @ versioned a))
                else None))"

text \<open>The verifier is made anew from the configuration; the fake one of mode off has no provenance.\<close>

definition active_verifier :: "config \<Rightarrow> 'w command_port option \<Rightarrow> plugin_metadata option" where
  "active_verifier cfg ex = (case verifier_from_config cfg ex of None \<Rightarrow> None | Some v \<Rightarrow> verifier_provenance v)"

definition validate_verifier_requirement :: "cli_env \<Rightarrow> 'w command_port option \<Rightarrow> plugin_metadata \<Rightarrow> go_error option" where
  "validate_verifier_requirement env ex m =
     (case active_verifier (cl_config env) ex of
        None \<Rightarrow> Some (fail_closed_error (''verifier plugin '' @ required_by m))
      | Some a0 \<Rightarrow>
          (let a = pl_normalize a0 in
           if pl_logical_id a \<noteq> pl_logical_id m \<or> pl_contract_version a \<noteq> pl_contract_version m then
             Some (fail_closed_error (''verifier plugin mismatch, session requires '' @ versioned m @ '' but active verifier is '' @ versioned a))
           else None))"

definition validate_strategy_requirement :: "plugin_metadata \<Rightarrow> go_error option" where
  "validate_strategy_requirement m =
     (if pl_logical_id m = host_default then None else Some (fail_closed_error (''agent strategy plugin '' @ required_by m)))"

fun validate_requirements :: "cli_env \<Rightarrow> 'w command_port option \<Rightarrow> plugin_metadata list \<Rightarrow> go_error option" where
  "validate_requirements env ex [] = None"
| "validate_requirements env ex (m # ms) =
     (case (if pl_family m = pf_provider then validate_provider_requirement env m
            else if pl_family m = pf_verifier then validate_verifier_requirement env ex m
            else if pl_family m = pf_agent_strategy then validate_strategy_requirement m
            else None) of
        Some e \<Rightarrow> Some e
      | None \<Rightarrow> validate_requirements env ex ms)"

definition validate_resume :: "cli_env \<Rightarrow> 'w command_port option \<Rightarrow> session \<Rightarrow> go_error option" where
  "validate_resume env ex s =
     (case sess_provenance s of None \<Rightarrow> None | Some p \<Rightarrow> validate_requirements env ex (pv_plugins (pv_normalize p)))"

definition cli_terminal_status :: "session_status \<Rightarrow> bool" where
  "cli_terminal_status s \<longleftrightarrow> s \<in> {ss_success, ss_verification_failed, ss_budget_exceeded, ss_fatal_error}"

definition continue_session ::
  "cli_env \<Rightarrow> (streaming_event \<Rightarrow> string) \<Rightarrow> cli_flags \<Rightarrow> cli_state \<Rightarrow> unit cli_result" where
  "continue_session env encode f st =
     (let sid = clf_session f; rs = run_settings_of f sid in
      and_then (on_sessions (load_task sid) st) (\<lambda>(t, _) st1.
        if clf_stream f then streaming_command env encode rs t (clf_json f) st1
        else
          (case cl_run env rs t st1 of
             ((s, p, steps, err), st2) \<Rightarrow>
               (case settle_session env sid (task_id t) s err st2 of
                  (s1, st3) \<Rightarrow> (from_option err, emit_resume_result s1 p steps True st3)))))"

definition resume_command ::
  "cli_env \<Rightarrow> 'w command_port option \<Rightarrow> (streaming_event \<Rightarrow> string) \<Rightarrow> string list \<Rightarrow> cli_state \<Rightarrow> unit cli_result" where
  "resume_command env ex encode args st =
     (case parse_flags (resume_flags (cl_host env)) args [] (initial_cli_flags (cl_config env)) of
        Inl e \<Rightarrow> (Inl e, st)
      | Inr (f, _) \<Rightarrow>
          if blank (clf_session f) then (Inl (Message ''resume requires --session''), st)
          else if clf_max_steps f \<le> 0 then (Inl (Message ''resume requires --max-steps > 0''), st)
          else case open_runtime_deps env (clf_db f) of
                 Some e \<Rightarrow> (Inl e, st)
               | None \<Rightarrow>
                   and_then (on_sessions (resume_session (clf_session f)) st) (\<lambda>(s, p, steps) st1.
                     (let st2 = (if clf_stream f \<and> \<not> cli_terminal_status (sess_status s) then st1 else emit_resume_result s p steps False st1) in
                      if cli_terminal_status (sess_status s) then (Inr (), st2)
                      else case validate_resume env ex s of
                             Some e \<Rightarrow> (Inl e, st2)
                           | None \<Rightarrow> continue_session env encode f st2)))"

definition inspect_command :: "cli_env \<Rightarrow> string list \<Rightarrow> cli_state \<Rightarrow> unit cli_result" where
  "inspect_command env args st =
     (case parse_flags (inspect_flags (cl_host env)) args [] (initial_cli_flags (cl_config env)) of
        Inl e \<Rightarrow> (Inl e, st)
      | Inr (f, _) \<Rightarrow>
          if blank (clf_session f) then (Inl (Message ''inspect requires --session''), st)
          else case cl_open_session env (clf_db f) of
                 Some e \<Rightarrow> (Inl e, st)
               | None \<Rightarrow>
                   and_then (on_sessions (resume_session (clf_session f)) st) (\<lambda>(s, p, steps) st1.
                   and_then (on_sessions (load_task (clf_session f)) st1) (\<lambda>(t, _) st2.
                     (Inr (), emit_inspect_result (clf_json f) t s p steps st2))))"

section \<open>Reloading a plugin\<close>

text \<open>What is left behind the flags.\<close>

fun rest_args :: "(string \<times> bool \<times> 'v setter) list \<Rightarrow> string list \<Rightarrow> string list" where
  "rest_args formal [] = []"
| "rest_args formal (a # args) =
     (case split_flag a of
        None \<Rightarrow> if a = ''--'' then args else a # args
      | Some (Inl e) \<Rightarrow> []
      | Some (Inr (name, given)) \<Rightarrow>
          (case map_of formal name of
             None \<Rightarrow> []
           | Some (is_bool, _) \<Rightarrow>
               if given = None \<and> \<not> is_bool then (case args of [] \<Rightarrow> [] | v # args1 \<Rightarrow> rest_args formal args1)
               else rest_args formal args))"

definition prime_reload_target ::
  "string \<Rightarrow> 'w plugin_manager option \<Rightarrow> 'w \<Rightarrow> (go_error option \<times> 'w plugin_manager option) attempt \<times> 'w" where
  "prime_reload_target name m w =
     (case m of
        None \<Rightarrow> (Done (Some (Message ''plugin manager is nil''), None), w)
      | Some s \<Rightarrow>
          if map_of (pm_loaded s) name \<noteq> None then (Done (None, m), w)
          else
            (case discover m w of
               Inl e \<Rightarrow> (Done (Some e, m), w)
             | Inr plugins \<Rightarrow>
                 (case find (\<lambda>p. base_path (dp_path p) = name) plugins of
                    None \<Rightarrow> (Done (Some plugin_not_found, m), w)
                  | Some p \<Rightarrow>
                      (case pm_load None (dp_path p) m w of
                         (Done (Inl e, m1), w1) \<Rightarrow> (Done (Some e, m1), w1)
                       | (Done (Inr t, m1), w1) \<Rightarrow> (Done (None, m1), w1)
                       | (Blocks, w1) \<Rightarrow> (Blocks, w1)
                       | (Panics, w1) \<Rightarrow> (Panics, w1)))))"

definition reload_failed :: "string \<Rightarrow> go_error \<Rightarrow> go_error" where
  "reload_failed name e = wrap_text (''Failed to reload plugin '' @ name @ '': '') e"

definition reload_flags :: "(string \<times> bool \<times> string setter) list" where
  "reload_flags = [(''plugin-dir'', string_flag (\<lambda>v _. v))]"

definition tool_reload_command ::
  "(string \<Rightarrow> 'w plugin_manager) \<Rightarrow> string list \<Rightarrow> cli_state \<Rightarrow> 'w \<Rightarrow> unit cli_result attempt \<times> 'w" where
  "tool_reload_command new_pm args st w =
     (case parse_flags reload_flags args [] ''./plugins'' of
        Inl e \<Rightarrow> (Done (Inl e, st), w)
      | Inr (dir, _) \<Rightarrow>
          (case rest_args reload_flags args of
             [a] \<Rightarrow>
               (let name = trim_space a in
                if name = [] then (Done (Inl (Message ''tool reload requires <plugin-name>''), st), w)
                else case prime_reload_target name (Some (new_pm dir)) w of
                       (Done (Some e, m), w1) \<Rightarrow> (Done (Inl (reload_failed name e), st), w1)
                     | (Done (None, m), w1) \<Rightarrow>
                         (case reload_tool name m w1 of
                            ((Some e, m1), w2) \<Rightarrow> (Done (Inl (reload_failed name e), st), w2)
                          | ((None, m1), w2) \<Rightarrow>
                              (Done (Inr (), print_text (''Plugin '' @ name @ '' reloaded successfully'' @ newline) st), w2))
                     | (Blocks, w1) \<Rightarrow> (Blocks, w1)
                     | (Panics, w1) \<Rightarrow> (Panics, w1))
           | _ \<Rightarrow> (Done (Inl (Message ''tool reload requires <plugin-name>''), st), w)))"

section \<open>The program\<close>

definition is_root_help :: "string \<Rightarrow> bool" where
  "is_root_help arg \<longleftrightarrow> trim_space arg \<in> {''-h'', ''--help'', ''help''}"

definition tool_command ::
  "(string \<Rightarrow> 'w plugin_manager) \<Rightarrow> string list \<Rightarrow> cli_state \<Rightarrow> 'w \<Rightarrow> unit cli_result attempt \<times> 'w" where
  "tool_command new_pm args st w =
     (case args of
        [] \<Rightarrow> (Done (Inl (Message ''tool requires subcommand''), st), w)
      | a # rest \<Rightarrow>
          if is_root_help a then (Done (Inl (Message ''tool requires subcommand''), st), w)
          else if a = ''reload'' then tool_reload_command new_pm rest st w
          else (Done (Inl (Message (''unknown tool subcommand '' @ quote_str a)), st), w))"

definition usage_lines :: "string list" where
  "usage_lines =
     [''Usage: zheng-agent <run|resume|inspect|tool> [flags]'',
      ''  run --task '' @ quoted ''task description'' @ '' [--provider <built-in-id> | --plugin-provider <plugin-id>] [--db ./agent.db] [--json] [--stream] [--decompose] [--max-workers 4] [--aggregation all-succeed]'',
      ''  resume --session <id> [--db ./agent.db] [--json] [--stream]'',
      ''  inspect --session <id> [--db ./agent.db] [--json]'',
      ''  tool reload <plugin-name> [--plugin-dir ./plugins]'',
      ''  provider ids: built-in ids use --provider; plugin-backed ids use --plugin-provider'',
      ''  --help, -h, help  Show this help'']"

definition print_usage :: "cli_state \<Rightarrow> cli_state" where
  "print_usage = fold (\<lambda>l. print_error (l @ newline)) usage_lines"

definition cli_exit :: "unit cli_result \<Rightarrow> int \<times> cli_state" where
  "cli_exit r = (case r of (Inl e, st) \<Rightarrow> (1, print_error (error_text e @ newline) st) | (Inr _, st) \<Rightarrow> (0, st))"

definition exit_attempt :: "unit cli_result attempt \<times> 'w \<Rightarrow> (int \<times> cli_state) attempt \<times> 'w" where
  "exit_attempt r =
     (case r of (Done x, w) \<Rightarrow> (Done (cli_exit x), w) | (Blocks, w) \<Rightarrow> (Blocks, w) | (Panics, w) \<Rightarrow> (Panics, w))"

definition cli_main ::
  "cli_env \<Rightarrow> 'w command_port option \<Rightarrow> (string \<Rightarrow> 'w plugin_manager) \<Rightarrow> (streaming_event \<Rightarrow> string) \<Rightarrow> string list \<Rightarrow> cli_state \<Rightarrow> 'w
     \<Rightarrow> (int \<times> cli_state) attempt \<times> 'w" where
  "cli_main env ex new_pm encode args st w =
     (case args of
        [] \<Rightarrow> (Done (0, print_usage st), w)
      | a # rest \<Rightarrow>
          if is_root_help a then (Done (0, print_usage st), w)
          else if a = ''run'' then (Done (cli_exit (run_subcommand env encode rest st)), w)
          else if a = ''resume'' then (Done (cli_exit (resume_command env ex encode rest st)), w)
          else if a = ''inspect'' then (Done (cli_exit (inspect_command env rest st)), w)
          else if a = ''tool'' then exit_attempt (tool_command new_pm rest st w)
          else (Done (1, print_error (''unknown subcommand '' @ quote_str a @ newline) (print_usage st)), w))"

end
