(* ===== verification/Cli_Properties.thy ===== *)
theory Cli_Properties
  imports Cli Session_Store_Properties
begin

text \<open>
  What the command line guarantees of the sessions it resumes and inspects, what it prints of a stream, and the
  checks that can never succeed.
\<close>

section \<open>Sessions that ended\<close>

text \<open>An environment with another engine.\<close>

definition with_engine ::
  "(run_settings \<Rightarrow> task \<Rightarrow> cli_state \<Rightarrow> run_result \<times> cli_state)
     \<Rightarrow> (run_settings \<Rightarrow> task \<Rightarrow> cli_state \<Rightarrow> (go_error, streaming_event list option) result \<times> cli_state) \<Rightarrow> cli_env \<Rightarrow> cli_env" where
  "with_engine run stream env = env\<lparr>cl_run := run, cl_stream := stream\<rparr>"

lemma with_engine_simps [simp]:
  "cl_config (with_engine run stream env) = cl_config env" "cl_host (with_engine run stream env) = cl_host env"
  "cl_open_session (with_engine run stream env) = cl_open_session env" "cl_open_memory (with_engine run stream env) = cl_open_memory env"
  "cl_provider (with_engine run stream env) = cl_provider env"
  by (simp_all add: with_engine_def)

lemma requirement_engine [simp]:
  "validate_provider_requirement (with_engine run stream env) m = validate_provider_requirement env m"
  "validate_verifier_requirement (with_engine run stream env) ex m = validate_verifier_requirement env ex m"
  unfolding validate_provider_requirement_def validate_verifier_requirement_def with_engine_simps by (rule refl)+

lemma requirements_engine [simp]: "validate_requirements (with_engine run stream env) ex ms = validate_requirements env ex ms"
  by (induction ms) (simp_all split: option.split)

lemma resume_engine [simp]: "validate_resume (with_engine run stream env) ex s = validate_resume env ex s"
  by (simp add: validate_resume_def split: option.split)

lemma deps_engine [simp]: "open_runtime_deps (with_engine run stream env) path = open_runtime_deps env path"
  by (simp add: open_runtime_deps_def split: option.split)

lemma printed_store: "cw_store (fold (\<lambda>i. print_text (f i)) xs w) = cw_store w"
  by (induction xs arbitrary: w) (simp_all add: print_text_def)

lemma emit_resume_store: "cw_store (emit_resume_result s p steps c st) = cw_store st"
  unfolding emit_resume_result_def print_items_def printed_store by (simp add: print_text_def)

lemma resume_loaded:
  assumes "parse_flags (resume_flags (cl_host env)) args [] (initial_cli_flags (cl_config env)) = Inr (f, v)"
    and "resume_session (clf_session f) (cw_store st) = (Inr (s, p, steps), db)"
    and "\<not> blank (clf_session f)" "0 < clf_max_steps f" "open_runtime_deps env (clf_db f) = None"
  shows "resume_command env ex encode args st =
     (let st1 = st\<lparr>cw_store := db\<rparr>;
          st2 = (if clf_stream f \<and> \<not> cli_terminal_status (sess_status s) then st1 else emit_resume_result s p steps False st1) in
      if cli_terminal_status (sess_status s) then (Inr (), st2)
      else case validate_resume env ex s of Some e \<Rightarrow> (Inl e, st2) | None \<Rightarrow> continue_session env encode f st2)"
  using assms by (simp add: resume_command_def on_sessions_def Let_def not_le[symmetric] split: option.split)

text \<open>A store with a session that has ended, with its plan, and an environment over it.\<close>

definition planned_db :: session_db where
  "planned_db = the (snd (store_save_plan 4 (zero_plan\<lparr>plan_id := ''p'', plan_task_id := ''s''\<rparr>) (Some sample_db)))"

definition cli_start :: "session_db \<Rightarrow> cli_state" where
  "cli_start d = \<lparr>cw_store = Some d, cw_out = [], cw_err = []\<rparr>"

definition cli_sample_env :: cli_env where
  "cli_sample_env =
     \<lparr>cl_config = default_config,
      cl_host = \<lparr>ch_getenv = (\<lambda>_. []), ch_home = Inl os_not_exist, ch_stat = (\<lambda>_. Inr False), ch_read = (\<lambda>_. Inr []),
        ch_unmarshal = (\<lambda>_. Inl os_not_exist), ch_parse_duration = (\<lambda>_. Inl os_not_exist), ch_parse_int = (\<lambda>_. Inr 1)\<rparr>,
      cl_now = 9, cl_open_session = (\<lambda>_. None), cl_open_memory = (\<lambda>_. None),
      cl_run = (\<lambda>_ _ st. (failed_run os_not_exist, st)), cl_run_multi = (\<lambda>_ _ _ st. (failed_run os_not_exist, st)),
      cl_stream = (\<lambda>_ _ st. (Inr (Some [session_complete ''s'' ss_fatal_error 9]), st)),
      cl_context = (\<lambda>_. None), cl_provider = (\<lambda>_. Inr None)\<rparr>"

definition session_flags :: cli_flags where
  "session_flags = (initial_cli_flags default_config)\<lparr>clf_session := ''s''\<rparr>"

lemma planned_loaded:
  "resume_session ''s'' (Some planned_db) = (Inr (sample_session, zero_plan\<lparr>plan_id := ''p'', plan_task_id := ''s''\<rparr>, []), Some planned_db)"
  by code_simp

lemma session_flags_parsed:
  "parse_flags (resume_flags (cl_host cli_sample_env)) [''--session'', ''s''] [] (initial_cli_flags (cl_config cli_sample_env)) =
     Inr (session_flags, [(''session'', ''s'')])"
  "parse_flags (inspect_flags (cl_host cli_sample_env)) [''--session'', ''s''] [] (initial_cli_flags (cl_config cli_sample_env)) =
     Inr (session_flags, [(''session'', ''s'')])"
  by (simp_all add: resume_flags_def inspect_flags_def ignored_flags_def plugin_flags_def output_flags_def split_flag_def apply_flag_def
      string_flag_def session_flags_def cli_sample_env_def Let_def)

text \<open> C40. Whatever the engine does: a session that has ended, or that needs a plugin which is not the active one, is not run
  again by resuming it, and nothing is written to it. \<close>

theorem ended_session_not_rerun:
  assumes "parse_flags (resume_flags (cl_host env)) args [] (initial_cli_flags (cl_config env)) = Inr (f, v)"
    and "resume_session (clf_session f) (cw_store st) = (Inr (s, p, steps), db)"
    and "sess_status s \<in> {ss_success, ss_verification_failed, ss_budget_exceeded, ss_fatal_error} \<or> validate_resume env ex s \<noteq> None"
  shows "resume_command (with_engine run stream env) ex encode args st = resume_command env ex encode args st \<and>
     cw_store (snd (resume_command env ex encode args st)) \<in> {cw_store st, db}"
proof (cases "\<not> blank (clf_session f) \<and> 0 < clf_max_steps f \<and> open_runtime_deps env (clf_db f) = None")
  case True
  have ended: "cli_terminal_status (sess_status s) \<or> validate_resume env ex s \<noteq> None" using assms(3) unfolding cli_terminal_status_def .
  have "resume_command env1 ex encode args st =
      (let st2 = (if clf_stream f \<and> \<not> cli_terminal_status (sess_status s) then st\<lparr>cw_store := db\<rparr>
                  else emit_resume_result s p steps False (st\<lparr>cw_store := db\<rparr>)) in
       (if cli_terminal_status (sess_status s) then Inr () else Inl (the (validate_resume env ex s)), st2))"
    if "env1 = env \<or> env1 = with_engine run stream env" for env1
    using that assms(1,2) ended True resume_loaded[of env1 args f v st s p steps db ex encode] by (auto simp: Let_def)
  from this[of env] this[of "with_engine run stream env"] emit_resume_store show ?thesis by (simp add: Let_def)
next
  case False
  then have "resume_command env1 ex encode args st = resume_command env ex encode args st \<and>
      cw_store (snd (resume_command env1 ex encode args st)) = cw_store st"
    if "env1 = env \<or> env1 = with_engine run stream env" for env1
    using that assms(1) by (auto simp: resume_command_def split: option.split)
  from this[of env] this[of "with_engine run stream env"] show ?thesis by simp
qed

theorem ended_session_not_rerun_witness:
  "resume_command (with_engine (\<lambda>_ _ st. (failed_run sql_no_rows, st\<lparr>cw_store := None\<rparr>)) (\<lambda>_ _ st. (Inl sql_no_rows, st)) cli_sample_env)
       (None :: unit command_port option) (\<lambda>_. []) [''--session'', ''s''] (cli_start planned_db) =
     resume_command cli_sample_env (None :: unit command_port option) (\<lambda>_. []) [''--session'', ''s''] (cli_start planned_db)"
proof -
  have load: "resume_session (clf_session session_flags) (cw_store (cli_start planned_db)) =
      (Inr (sample_session, zero_plan\<lparr>plan_id := ''p'', plan_task_id := ''s''\<rparr>, []), Some planned_db)"
    using planned_loaded by (simp add: session_flags_def cli_start_def)
  have "sess_status sample_session \<in> {ss_success, ss_verification_failed, ss_budget_exceeded, ss_fatal_error}" by (simp add: sample_session_def)
  then show ?thesis by (intro ended_session_not_rerun[OF session_flags_parsed(1) load, THEN conjunct1] disjI1)
qed

section \<open>Sessions without a plan\<close>

lemma load_record_task:
  assumes "load_session_record sid d = (Inr (s, x), d1)"
  shows "\<exists>r. find_session sid d = Some r \<and> sess_task_id s = sn_task_id r \<and> same_tables d d1"
proof -
  obtain u d0 where st: "statement d = (u, d0)" by fastforce
  show ?thesis using assms statement_same[OF st] st find_session_same[OF statement_same[OF st]] statement_same[of d0]
    by (auto intro: same_tables_trans simp: load_session_record_def wrapped_def and_then_def split: option.splits sum.splits prod.splits)
qed

lemma latest_plan_same: "same_tables d d1 \<Longrightarrow> latest_plan tid d1 = latest_plan tid d"
  by (simp add: latest_plan_def same_tables_def)

lemma resume_needs_plan:
  assumes "find_session sid d = Some r" and "latest_plan (sn_task_id r) d = None"
  shows "\<exists>e. fst (resume_session sid (Some d)) = Inl e"
proof (cases "load_session_record sid d")
  case (Pair res d1)
  show ?thesis
  proof (cases res)
    case (Inl e)
    then show ?thesis using Pair by (simp add: resume_session_def with_db_def)
  next
    case (Inr y)
    obtain s x where y: "y = (s, x)" by (cases y)
    from load_record_task[of sid d s x d1] Pair Inr y assms have task: "sess_task_id s = sn_task_id r" and same: "same_tables d d1" by auto
    obtain u d2 where st: "statement d1 = (u, d2)" by fastforce
    have "latest_plan (sn_task_id r) d2 = None" using latest_plan_same same_tables_trans[OF same statement_same[OF st]] assms(2) by simp
    then have "\<exists>e. fst (load_latest_plan (sess_task_id s) d1) = Inl e" using st task by (cases u) (simp_all add: load_latest_plan_def)
    then show ?thesis using Pair Inr y by (cases "load_latest_plan (sess_task_id s) d1") (auto simp: resume_session_def with_db_def)
  qed
qed

text \<open> A session that is stored without a plan, as a run leaves it whose planning failed, can be neither inspected nor
  resumed from the command line: both commands end with an error, whatever their flags. \<close>

theorem unplanned_session_refused:
  assumes "cw_store st = Some d" and "find_session sid d = Some r" and "latest_plan (sn_task_id r) d = None"
    and "parse_flags (inspect_flags (cl_host env)) args [] (initial_cli_flags (cl_config env)) = Inr (f, v)" and "clf_session f = sid"
    and "parse_flags (resume_flags (cl_host env)) args1 [] (initial_cli_flags (cl_config env)) = Inr (f1, v1)" and "clf_session f1 = sid"
  shows "(\<exists>e. fst (inspect_command env args st) = Inl e) \<and> (\<exists>e. fst (resume_command env ex encode args1 st) = Inl e)"
proof -
  obtain e db where "resume_session sid (Some d) = (Inl e, db)" using resume_needs_plan[OF assms(2,3)] by (cases "resume_session sid (Some d)") auto
  then show ?thesis using assms by (auto simp: inspect_command_def resume_command_def on_sessions_def split: option.split)
qed

theorem unplanned_session_refused_witness:
  "(\<exists>e. fst (inspect_command cli_sample_env [''--session'', ''s''] (cli_start sample_db)) = Inl e) \<and>
   (\<exists>e. fst (resume_command cli_sample_env (None :: unit command_port option) (\<lambda>_. []) [''--session'', ''s''] (cli_start sample_db)) = Inl e)"
proof -
  obtain r where r: "find_session ''s'' sample_db = Some r" using sample_facts(3) by auto
  have "cw_store (cli_start sample_db) = Some sample_db" "clf_session session_flags = ''s''"
    by (simp_all add: cli_start_def session_flags_def)
  from unplanned_session_refused[OF this(1) r sample_facts(7) session_flags_parsed(2) this(2) session_flags_parsed(1) this(2),
      where ex = "None :: unit command_port option" and encode = "\<lambda>_. []"]
  show ?thesis .
qed

section \<open>Checks that never succeed\<close>

lemma fresh_verifier [simp]: "active_verifier cfg ex = None"
  by (simp add: active_verifier_def verifier_from_config_def verifier_provenance_def new_task_aware_def Let_def split: option.split)

lemma requirement_refused: "m \<in> set ms \<Longrightarrow> pl_family m = pf_verifier \<Longrightarrow> \<exists>e. validate_requirements env ex ms = Some e"
  by (induction ms) (auto simp: validate_verifier_requirement_def split: option.split)

text \<open> A session whose provenance names a verifier plugin is never resumed, whatever is configured: the plugin is compared with
  the provenance of a verifier that has just been made and has resolved none. \<close>

theorem verifier_session_never_resumed:
  assumes "sess_provenance s = Some p" and "m \<in> set (pv_plugins (pv_normalize p))" and "pl_family m = pf_verifier"
  shows "\<exists>e. validate_resume env ex s = Some e"
  using requirement_refused[OF assms(2,3)] assms(1) by (simp add: validate_resume_def)

theorem verifier_session_never_resumed_witness:
  "\<exists>e. validate_resume cli_sample_env (None :: unit command_port option)
     (sample_session\<lparr>sess_provenance := Some \<lparr>pv_plugins = [\<lparr>pl_family = pf_verifier, pl_logical_id = ''v'', pl_display_name = [],
        pl_contract_version = ''1'', pl_implementation_version = [], pl_execution_mode = [], pl_source_path = []\<rparr>]\<rparr>\<rparr>) = Some e"
  (is "\<exists>e. validate_resume _ _ (sample_session\<lparr>sess_provenance := Some \<lparr>pv_plugins = [?m]\<rparr>\<rparr>) = _")
proof -
  have "pl_normalize ?m = ?m" by code_simp
  then have "?m \<in> set (pv_plugins (pv_normalize \<lparr>pv_plugins = [?m]\<rparr>))" by (simp add: pv_normalize_def)
  moreover have "sess_provenance (sample_session\<lparr>sess_provenance := Some \<lparr>pv_plugins = [?m]\<rparr>\<rparr>) = Some \<lparr>pv_plugins = [?m]\<rparr>" by simp
  moreover have "pl_family ?m = pf_verifier" by simp
  ultimately show ?thesis using verifier_session_never_resumed by blast
qed

text \<open> The error that tells to configure \<^verbatim>\<open>--plugin-provider\<close> names a flag that resuming does not know: with it the
  command ends before the session is looked at. \<close>

theorem suggested_flag_unknown:
  "resume_command env ex encode (''--session'' # sid # ''--plugin-provider'' # pid # args) st =
     (Inl (Message ''flag provided but not defined: -plugin-provider''), st)"
  by (simp add: resume_command_def resume_flags_def ignored_flags_def plugin_flags_def output_flags_def split_flag_def
      apply_flag_def string_flag_def Let_def)

section \<open>Streams\<close>

text \<open> A run that is streamed to its end succeeds, whatever became of the session: if the events are printed, the session can be
  read and the context is not over, the command returns no error even for a session that failed. \<close>

theorem streamed_run_succeeds:
  assumes "cl_stream env rs t st = (Inr (Some es), st1)"
    and "consume_all encode es \<lparr>sc_out = \<lparr>sw_chunks = [], sw_left = None\<rparr>, sc_err = [], sc_json = json, sc_session_id = rs_session_id rs,
           sc_tool_started = [], sc_inline_token = False\<rparr> = (None, c)"
    and "resume_session (rs_session_id rs) (cw_store st1) = (Inr (s, p, steps), db)"
    and "\<And>st2. cl_context env st2 = None"
  shows "fst (streaming_command env encode rs t json st) = Inr ()"
  using assms by (simp add: streaming_command_def load_stream_result_def on_sessions_def Let_def)

theorem streamed_run_succeeds_witness:
  "fst (streaming_command cli_sample_env (\<lambda>_. []) (run_settings_of session_flags ''s'') (task_of_flags cli_sample_env session_flags ''s'') False
     (cli_start (planned_db\<lparr>sdb_sessions := map (\<lambda>r. r\<lparr>sn_status := ss_fatal_error\<rparr>) (sdb_sessions planned_db)\<rparr>))) = Inr ()"
  (is "fst (streaming_command _ _ ?rs ?t _ (cli_start ?d)) = _")
proof -
  have stream: "cl_stream cli_sample_env ?rs ?t (cli_start ?d) = (Inr (Some [session_complete ''s'' ss_fatal_error 9]), cli_start ?d)"
    by (simp add: cli_sample_env_def)
  have id: "rs_session_id ?rs = ''s''" by (simp add: run_settings_of_def)
  have "fst (consume_all (\<lambda>_. []) [session_complete ''s'' ss_fatal_error 9] \<lparr>sc_out = \<lparr>sw_chunks = [], sw_left = None\<rparr>,
      sc_err = [], sc_json = False, sc_session_id = ''s'', sc_tool_started = [], sc_inline_token = False\<rparr>) = None"
    by code_simp
  then obtain c where c: "consume_all (\<lambda>_. []) [session_complete ''s'' ss_fatal_error 9] \<lparr>sc_out = \<lparr>sw_chunks = [], sw_left = None\<rparr>,
      sc_err = [], sc_json = False, sc_session_id = rs_session_id ?rs, sc_tool_started = [], sc_inline_token = False\<rparr> = (None, c)"
    unfolding id by (metis prod.collapse)
  have "map_sum (\<lambda>_. ()) (\<lambda>x. sess_status (fst x)) (fst (resume_session ''s'' (Some ?d))) = Inr ss_fatal_error" by code_simp
  then obtain s p steps db where "resume_session (rs_session_id ?rs) (cw_store (cli_start ?d)) = (Inr (s, p, steps), db)"
    unfolding id by (cases "resume_session ''s'' (Some ?d)"; cases "fst (resume_session ''s'' (Some ?d))") (auto simp: cli_start_def)
  from streamed_run_succeeds[OF stream c this] show ?thesis by (simp add: cli_sample_env_def)
qed

end
