(* ===== verification/Search_Adapter.thy ===== *)
theory Search_Adapter
  imports File_Adapter Sse Plugin_Manager Llm_Client
begin

text \<open>
  The tools that find files (\<^verbatim>\<open>internal/tools/adapters/search.go\<close>, \<^verbatim>\<open>glob.go\<close>, \<^verbatim>\<open>codesearch.go\<close>).

  The directory below the workspace is a tree, as \<^verbatim>\<open>filepath.WalkDir\<close> finds it with its entries in the order
  of their names; a file is what \<^verbatim>\<open>os.ReadFile\<close> gives for it, if it can be read.  Go's regular expressions and
  the library of glob patterns are functions of the environment; \<open>se_ctx i\<close> tells whether the context is over at
  the \<open>i\<close>-th entry.
\<close>

section \<open>Walking a directory\<close>

datatype disk = Regular "string option" | Unlistable go_error | Directory "(string \<times> disk) list"

record search_env =
  se_wd :: "(go_error, string) result"
  se_workspace :: string
  se_tree :: "string \<Rightarrow> (go_error, disk) result"
  se_compile :: "string \<Rightarrow> (go_error, string \<Rightarrow> bool) result"
  se_match :: "string \<Rightarrow> string \<Rightarrow> (go_error, bool) result"
  se_glob :: "string \<Rightarrow> (go_error, string list) result"
  se_is_dir :: "string \<Rightarrow> (go_error, bool) result"
  se_ctx :: "nat \<Rightarrow> go_error option"
  se_duration :: duration

type_synonym 'c visitor = "string list \<Rightarrow> string option \<Rightarrow> 'c \<Rightarrow> go_error option \<times> 'c"

text \<open>The number counts the entries at which the context has been looked at.\<close>

fun walk_node ::
  "(string \<Rightarrow> bool) \<Rightarrow> (nat \<Rightarrow> go_error option) \<Rightarrow> 'c visitor \<Rightarrow> string list \<Rightarrow> string \<Rightarrow> disk \<Rightarrow> nat \<times> 'c
     \<Rightarrow> go_error option \<times> nat \<times> 'c"
and walk_entries ::
  "(string \<Rightarrow> bool) \<Rightarrow> (nat \<Rightarrow> go_error option) \<Rightarrow> 'c visitor \<Rightarrow> string list \<Rightarrow> (string \<times> disk) list \<Rightarrow> nat \<times> 'c
     \<Rightarrow> go_error option \<times> nat \<times> 'c" where
  "walk_node skip ctx visit path name (Regular content) (n, c) =
     (case ctx n of
        Some e \<Rightarrow> (Some e, Suc n, c)
      | None \<Rightarrow> (case visit path content c of (r, c1) \<Rightarrow> (r, Suc n, c1)))"
| "walk_node skip ctx visit path name (Unlistable err) (n, c) =
     (case ctx n of
        Some e \<Rightarrow> (Some e, Suc n, c)
      | None \<Rightarrow> if skip name then (None, Suc n, c) else (Some err, Suc n, c))"
| "walk_node skip ctx visit path name (Directory entries) (n, c) =
     (case ctx n of
        Some e \<Rightarrow> (Some e, Suc n, c)
      | None \<Rightarrow> if skip name then (None, Suc n, c) else walk_entries skip ctx visit path entries (Suc n, c))"
| "walk_entries skip ctx visit path [] s = (None, s)"
| "walk_entries skip ctx visit path ((name, node) # entries) s =
     (case walk_node skip ctx visit (path @ [name]) name node s of
        (Some e, s1) \<Rightarrow> (Some e, s1)
      | (None, s1) \<Rightarrow> walk_entries skip ctx visit path entries s1)"

definition walk_dir ::
  "search_env \<Rightarrow> (string \<Rightarrow> bool) \<Rightarrow> 'c visitor \<Rightarrow> string \<Rightarrow> 'c \<Rightarrow> go_error option \<times> 'c" where
  "walk_dir env skip visit root c =
     (case se_tree env root of
        Inl e \<Rightarrow> (Some e, c)
      | Inr node \<Rightarrow> (case walk_node skip (se_ctx env) visit [] (base_path root) node (0, c) of (r, _, c1) \<Rightarrow> (r, c1)))"

text \<open>\<^verbatim>\<open>filepath.Rel\<close> of a path below the root.\<close>

definition rel_name :: "string list \<Rightarrow> string" where
  "rel_name path = (if path = [] then ''.'' else join_str [slash] path)"

section \<open>Lines\<close>

text \<open>The lines a \<^verbatim>\<open>bufio.Scanner\<close> with its default buffer yields: up to the first that does not fit.\<close>

definition scanner_limit :: nat where "scanner_limit = 64 * 1024"

definition scan_lines :: "string \<Rightarrow> string list" where
  "scan_lines content = map drop_cr (takeWhile (\<lambda>l. length l < scanner_limit) (raw_lines content))"

definition numbered :: "string list \<Rightarrow> (int \<times> string) list" where
  "numbered ls = zip (map int [1..<Suc (length ls)]) ls"

definition located :: "string \<Rightarrow> int \<times> string \<Rightarrow> string" where
  "located rel l = rel @ '':'' @ show_int (fst l) @ '': '' @ snd l"

section \<open>grep\_search\<close>

record search_query =
  sq_pattern :: string
  sq_flags :: string
  sq_output_mode :: string
  sq_include_glob :: string

definition files_mode :: string where "files_mode = ''files_with_matches''"

fun unix_newlines :: "string \<Rightarrow> string" where
  "unix_newlines [] = []"
| "unix_newlines [c] = [c]"
| "unix_newlines (c # d # cs) =
     (if c = carriage_return \<and> d = line_feed then line_feed # unix_newlines cs else c # unix_newlines (d # cs))"

definition nth_or :: "nat \<Rightarrow> string \<Rightarrow> string list \<Rightarrow> string" where
  "nth_or i d parts = (if i < length parts \<and> \<not> blank (parts ! i) then trim_space (parts ! i) else d)"

definition parse_search_input :: "string \<Rightarrow> (go_error, search_query) result" where
  "parse_search_input input =
     (let parts = rev (dropWhile blank (rev (split_on line_feed (unix_newlines input)))) in
      if parts = [] then Inr \<lparr>sq_pattern = [], sq_flags = [], sq_output_mode = [], sq_include_glob = []\<rparr>
      else if length parts > 4
      then Inl (Message ''grep_search input supports up to four lines: pattern, flags, output mode, include glob'')
      else Inr \<lparr>sq_pattern = trim_space (hd parts), sq_flags = nth_or 1 [] parts, sq_output_mode = nth_or 2 files_mode parts,
        sq_include_glob = nth_or 3 [] parts\<rparr>)"

definition compile_pattern :: "search_env \<Rightarrow> string \<Rightarrow> string \<Rightarrow> (go_error, string \<Rightarrow> bool) result" where
  "compile_pattern env pattern flags =
     (if flags = [] then se_compile env pattern
      else if \<not> list_all (\<lambda>c. c = CHR ''i'' \<or> c = CHR ''m'') flags then Inl (Message (''unsupported regex flags '' @ quote_str flags))
      else se_compile env (''(?'' @ flags @ '')'' @ pattern))"

record search_collector =
  sco_mode :: string
  sco_files :: "string list"
  sco_content :: "string list"
  sco_counts :: "(string \<times> int) list"

definition normalize_output_mode :: "string \<Rightarrow> string" where
  "normalize_output_mode mode = (if mode = [] then files_mode else mode)"

definition new_search_collector :: "string \<Rightarrow> (go_error, search_collector) result" where
  "new_search_collector mode =
     (if mode \<in> {[], files_mode, ''content'', ''count''}
      then Inr \<lparr>sco_mode = normalize_output_mode mode, sco_files = [], sco_content = [], sco_counts = []\<rparr>
      else Inl (Message (''unsupported grep_search output mode '' @ quote_str mode)))"

definition search_collect :: "(string \<Rightarrow> bool) \<Rightarrow> string \<Rightarrow> string \<Rightarrow> search_collector \<Rightarrow> search_collector" where
  "search_collect m rel content c =
     (let hits = filter (\<lambda>l. m (snd l)) (numbered (scan_lines content)) in
      if hits = [] then c
      else c\<lparr>sco_content := (if sco_mode c = ''content'' then sco_content c @ map (located rel) hits else sco_content c),
             sco_files := List.insert rel (sco_files c), sco_counts := AList.update rel (int (length hits)) (sco_counts c)\<rparr>)"

definition count_lines :: "(string \<times> int) list \<Rightarrow> string list" where
  "count_lines counts = map (\<lambda>k. k @ '':'' @ show_int (the (map_of counts k))) (sort (map fst counts))"

definition search_output :: "search_collector \<Rightarrow> string" where
  "search_output c =
     join_str newline (if sco_mode c = ''content'' then sco_content c
                       else if sco_mode c = ''count'' then count_lines (sco_counts c)
                       else sort (sco_files c))"

definition skip_search_dir :: "string \<Rightarrow> bool" where
  "skip_search_dir name \<longleftrightarrow> name = ''.git'' \<or> name = ''.sisyphus''"

definition search_visit :: "search_env \<Rightarrow> search_query \<Rightarrow> (string \<Rightarrow> bool) \<Rightarrow> search_collector visitor" where
  "search_visit env q m path content c =
     (let rel = rel_name path;
          included = (if sq_include_glob q = [] then Inr True else se_match env (sq_include_glob q) rel) in
      case included of
        Inl e \<Rightarrow> (Some e, c)
      | Inr ok \<Rightarrow>
          (case content of
             None \<Rightarrow> (None, c)
           | Some text1 \<Rightarrow> (None, if ok then search_collect m rel text1 c else c)))"

definition reported :: "duration \<Rightarrow> tool_call \<Rightarrow> go_error \<Rightarrow> tool_outcome" where
  "reported dur call e = (\<lparr>tr_tool_name = tc_name call, tr_output = [], tr_error = error_text e, tr_duration = dur\<rparr>, None)"

definition grep_search :: "search_env \<Rightarrow> tool_call \<Rightarrow> tool_outcome" where
  "grep_search env call =
     (case parse_search_input (tc_input call) of
        Inl e \<Rightarrow> refused (se_duration env) call e
      | Inr q \<Rightarrow>
          if sq_pattern q = [] then refused (se_duration env) call (Message ''search term must not be empty'')
          else
            (case compile_pattern env (sq_pattern q) (sq_flags q) of
               Inl e \<Rightarrow> reported (se_duration env) call e
             | Inr m \<Rightarrow>
                 (case abs_path (se_wd env) (se_workspace env) of
                    Inl e \<Rightarrow> refused (se_duration env) call e
                  | Inr root \<Rightarrow>
                      (case new_search_collector (sq_output_mode q) of
                         Inl e \<Rightarrow> reported (se_duration env) call e
                       | Inr c \<Rightarrow>
                           (case walk_dir env skip_search_dir (search_visit env q m) root c of
                              (Some e, _) \<Rightarrow> refused (se_duration env) call e
                            | (None, c1) \<Rightarrow> answered (se_duration env) call (search_output c1))))))"

section \<open>glob\<close>

definition validate_glob_pattern :: "string \<Rightarrow> go_error option" where
  "validate_glob_pattern pattern =
     (if is_abs pattern \<or> ''..'' \<in> set (split_on slash (map (\<lambda>c. if c = CHR 0x5C then slash else c) pattern))
      then Some (Message (''glob pattern '' @ quote_str pattern @ '' escapes workspace'')) else None)"

definition is_within_workspace :: "string \<Rightarrow> string \<Rightarrow> bool" where
  "is_within_workspace root target \<longleftrightarrow> clean_path target = clean_path root \<or> has_prefix (clean_path root @ [slash]) (clean_path target)"

definition rel_to :: "string \<Rightarrow> string \<Rightarrow> string" where
  "rel_to root target = (if target = root then ''.'' else drop (length root + 1) target)"

text \<open>Matches outside the workspace, matches that are gone and directories are left out.\<close>

fun glob_results :: "search_env \<Rightarrow> string \<Rightarrow> nat \<Rightarrow> string list \<Rightarrow> (go_error, string list) result" where
  "glob_results env root i [] = Inr []"
| "glob_results env root i (match # matches) =
     (case se_ctx env i of
        Some e \<Rightarrow> Inl e
      | None \<Rightarrow>
          (case abs_path (se_wd env) match of
             Inl e \<Rightarrow> Inl e
           | Inr resolved \<Rightarrow>
               (case glob_results env root (Suc i) matches of
                  Inl e \<Rightarrow> Inl e
                | Inr rest \<Rightarrow>
                    Inr (if is_within_workspace root resolved \<and> se_is_dir env resolved = Inr False
                         then rel_to root resolved # rest else rest))))"

definition glob_files :: "search_env \<Rightarrow> tool_call \<Rightarrow> tool_outcome" where
  "glob_files env call =
     (let pattern = trim_space (tc_input call) in
      if pattern = [] then refused (se_duration env) call (Message ''glob pattern must not be empty'')
      else case validate_glob_pattern pattern of
             Some e \<Rightarrow> refused (se_duration env) call e
           | None \<Rightarrow>
               (case abs_path (se_wd env) (se_workspace env) of
                  Inl e \<Rightarrow> refused (se_duration env) call e
                | Inr root \<Rightarrow>
                    (case se_glob env (join_path [root, pattern]) of
                       Inl e \<Rightarrow> refused (se_duration env) call e
                     | Inr matches \<Rightarrow>
                         (case glob_results env root 0 matches of
                            Inl e \<Rightarrow> refused (se_duration env) call e
                          | Inr results \<Rightarrow> answered (se_duration env) call (join_str newline results)))))"

section \<open>code\_search\<close>

record code_search_input =
  csi_pattern :: string
  csi_language :: string
  csi_output_mode :: string
  csi_max_results :: int

definition default_code_results :: int where "default_code_results = 50"
definition context_lines :: int where "context_lines = 2"

definition max_results_reached :: go_error where "max_results_reached = Message ''code_search max results reached''"

definition code_languages :: "(string \<times> string list) list" where
  "code_languages =
     [(''go'', [''.go'']), (''python'', [''.py'']), (''javascript'', [''.js'', ''.jsx'', ''.mjs'', ''.cjs'']),
      (''typescript'', [''.ts'', ''.tsx'', ''.mts'', ''.cts'']), (''java'', [''.java'']), (''rust'', [''.rs''])]"

definition code_extensions :: "string list" where
  "code_extensions =
     [''.go'', ''.py'', ''.js'', ''.jsx'', ''.mjs'', ''.cjs'', ''.ts'', ''.tsx'', ''.mts'', ''.cts'', ''.java'', ''.rs'',
      ''.c'', ''.cc'', ''.cpp'', ''.cxx'', ''.h'', ''.hh'', ''.hpp'', ''.hxx'', ''.cs'', ''.rb'', ''.php'', ''.swift'', ''.kt'', ''.kts'',
      ''.scala'', ''.sh'', ''.bash'', ''.zsh'', ''.ps1'', ''.sql'', ''.html'', ''.css'', ''.scss'', ''.sass'', ''.less'', ''.json'',
      ''.yaml'', ''.yml'', ''.xml'', ''.toml'']"

definition parse_code_search_input ::
  "(string \<Rightarrow> (go_error, code_search_input) result) \<Rightarrow> string \<Rightarrow> (go_error, code_search_input) result" where
  "parse_code_search_input unmarshal raw =
     (case unmarshal raw of
        Inl e \<Rightarrow> Inl (wrap_text ''code_search input must be valid JSON: '' e)
      | Inr i \<Rightarrow>
          (let pattern = trim_space (csi_pattern i);
               limit = (if csi_max_results i = 0 then default_code_results else csi_max_results i) in
           if pattern = [] then Inl (Message ''code_search pattern must not be empty'')
           else if limit < 0 then Inl (Message ''code_search max_results must be non-negative'')
           else Inr \<lparr>csi_pattern = pattern, csi_language = to_lower (trim_space (csi_language i)),
             csi_output_mode = normalize_output_mode (trim_space (csi_output_mode i)), csi_max_results = limit\<rparr>))"

definition language_extensions :: "string \<Rightarrow> (go_error, string list) result" where
  "language_extensions language =
     (if language = [] then Inr code_extensions
      else case map_of code_languages language of
             None \<Rightarrow> Inl (Message (''unsupported code_search language '' @ quote_str language))
           | Some es \<Rightarrow> Inr es)"

definition skip_code_dir :: "string \<Rightarrow> bool" where
  "skip_code_dir name \<longleftrightarrow> name \<in> set [''.git'', ''.sisyphus'', ''vendor'', ''node_modules'']"

definition has_suffix :: "string \<Rightarrow> string \<Rightarrow> bool" where
  "has_suffix s t \<longleftrightarrow> has_prefix (rev s) (rev t)"

definition skip_code_file :: "string \<Rightarrow> string list \<Rightarrow> bool" where
  "skip_code_file rel allowed \<longleftrightarrow>
     (let base = to_lower (base_path rel) in
      has_suffix ''.min.js'' base \<or> has_suffix ''.min.css'' base \<or> to_lower (path_ext base) \<notin> set allowed)"

definition is_binary :: "string \<Rightarrow> bool" where "is_binary content \<longleftrightarrow> CHR 0x00 \<in> set content"

record code_collector =
  cc_mode :: string
  cc_max_results :: int
  cc_files :: "string list"
  cc_counts :: "(string \<times> int) list"
  cc_blocks :: "string list list"
  cc_results :: int

definition new_code_collector :: "string \<Rightarrow> int \<Rightarrow> (go_error, code_collector) result" where
  "new_code_collector mode limit =
     (if mode \<in> {files_mode, ''content'', ''count''}
      then Inr \<lparr>cc_mode = mode, cc_max_results = limit, cc_files = [], cc_counts = [], cc_blocks = [], cc_results = 0\<rparr>
      else Inl (Message (''unsupported code_search output mode '' @ quote_str mode)))"

text \<open>The windows around the matching lines, the latest first.\<close>

definition add_window :: "int \<Rightarrow> int \<Rightarrow> int \<Rightarrow> (int \<times> int) list \<Rightarrow> (int \<times> int) list" where
  "add_window ntotal around line ws =
     (let start = max 1 (line - around); stop = min ntotal (line + around) in
      case ws of
        [] \<Rightarrow> [(start, stop)]
      | (a, b) # rest \<Rightarrow>
          if start > b + 1 then (start, stop) # ws else if stop > b then (a, stop) # rest else ws)"

definition merge_windows :: "int list \<Rightarrow> int \<Rightarrow> int \<Rightarrow> (int \<times> int) list" where
  "merge_windows matches ntotal around = rev (fold (add_window ntotal around) matches [])"

definition code_full :: "code_collector \<Rightarrow> bool" where
  "code_full c \<longleftrightarrow> cc_max_results c > 0 \<and> cc_results c \<ge> cc_max_results c"

definition window_block :: "string \<Rightarrow> string list \<Rightarrow> int \<times> int \<Rightarrow> string list" where
  "window_block rel ls w = map (\<lambda>i. located rel (i, ls ! nat (i - 1))) [fst w..snd w]"

fun collect_windows :: "string \<Rightarrow> string list \<Rightarrow> (int \<times> int) list \<Rightarrow> code_collector \<Rightarrow> go_error option \<times> code_collector" where
  "collect_windows rel ls [] c = (None, c)"
| "collect_windows rel ls (w # ws) c =
     (if code_full c then (Some max_results_reached, c)
      else collect_windows rel ls ws (c\<lparr>cc_blocks := cc_blocks c @ [window_block rel ls w], cc_results := cc_results c + 1\<rparr>))"

definition code_collect :: "(string \<Rightarrow> bool) \<Rightarrow> string \<Rightarrow> string \<Rightarrow> code_collector \<Rightarrow> go_error option \<times> code_collector" where
  "code_collect m rel content c =
     (let ls = scan_lines content; hits = map fst (filter (\<lambda>l. m (snd l)) (numbered ls)) in
      if hits = [] then (None, c)
      else if cc_mode c = ''content'' then collect_windows rel ls (merge_windows hits (int (length ls)) context_lines) c
      else if code_full c then (Some max_results_reached, c)
      else if cc_mode c = ''count''
      then (None, c\<lparr>cc_counts := AList.update rel (int (length hits)) (cc_counts c), cc_results := cc_results c + 1\<rparr>)
      else (None, c\<lparr>cc_files := List.insert rel (cc_files c), cc_results := cc_results c + 1\<rparr>))"

definition code_output :: "code_collector \<Rightarrow> string" where
  "code_output c =
     (if cc_mode c = ''content'' then join_str (newline @ ''--'' @ newline) (map (join_str newline) (cc_blocks c))
      else join_str newline (if cc_mode c = ''count'' then count_lines (cc_counts c) else sort (cc_files c)))"

definition code_visit :: "string list \<Rightarrow> (string \<Rightarrow> bool) \<Rightarrow> code_collector visitor" where
  "code_visit allowed m path content c =
     (if skip_code_file (rel_name path) allowed then (None, c)
      else case content of
             None \<Rightarrow> (None, c)
           | Some text1 \<Rightarrow> if is_binary text1 then (None, c) else code_collect m (rel_name path) text1 c)"

definition code_search ::
  "search_env \<Rightarrow> (string \<Rightarrow> (go_error, code_search_input) result) \<Rightarrow> tool_call \<Rightarrow> tool_outcome" where
  "code_search env unmarshal call =
     (case parse_code_search_input unmarshal (tc_input call) of
        Inl e \<Rightarrow> refused (se_duration env) call e
      | Inr i \<Rightarrow>
          (case se_compile env (csi_pattern i) of
             Inl e \<Rightarrow> reported (se_duration env) call e
           | Inr m \<Rightarrow>
               (case abs_path (se_wd env) (se_workspace env) of
                  Inl e \<Rightarrow> refused (se_duration env) call e
                | Inr root \<Rightarrow>
                    (case new_code_collector (csi_output_mode i) (csi_max_results i) of
                       Inl e \<Rightarrow> reported (se_duration env) call e
                     | Inr c \<Rightarrow>
                         (case language_extensions (csi_language i) of
                            Inl e \<Rightarrow> reported (se_duration env) call e
                          | Inr allowed \<Rightarrow>
                              (case walk_dir env skip_code_dir (code_visit allowed m) root c of
                                 (Some e, c1) \<Rightarrow>
                                   if errors_is e max_results_reached then answered (se_duration env) call (code_output c1)
                                   else refused (se_duration env) call e
                               | (None, c1) \<Rightarrow> answered (se_duration env) call (code_output c1)))))))"

end
