(* ===== verification/Search_Properties.thy ===== *)
theory Search_Properties
  imports Search_Adapter
begin

text \<open>
  What the tools that find files return: \<^verbatim>\<open>grep_search\<close> exactly the files with a matching line, \<^verbatim>\<open>glob\<close> only paths
  below the workspace, \<^verbatim>\<open>code_search\<close> at most as many results as asked for, around the matching lines.
\<close>

section \<open>A walk that reaches its end\<close>

text \<open>The files of a tree, less those below a directory that is skipped, in the order of the walk.\<close>

fun tree_files :: "(string \<Rightarrow> bool) \<Rightarrow> string list \<Rightarrow> string \<Rightarrow> disk \<Rightarrow> (string list \<times> string option) list"
and entry_files :: "(string \<Rightarrow> bool) \<Rightarrow> string list \<Rightarrow> (string \<times> disk) list \<Rightarrow> (string list \<times> string option) list" where
  "tree_files skip path name (Regular content) = [(path, content)]"
| "tree_files skip path name (Unlistable err) = []"
| "tree_files skip path name (Directory entries) = (if skip name then [] else entry_files skip path entries)"
| "entry_files skip path [] = []"
| "entry_files skip path ((name, node) # entries) = tree_files skip (path @ [name]) name node @ entry_files skip path entries"

definition visit_all :: "'c visitor \<Rightarrow> (string list \<times> string option) list \<Rightarrow> 'c \<Rightarrow> 'c" where
  "visit_all visit fs = fold (\<lambda>(path, content) c. snd (visit path content c)) fs"

lemma visit_all_append: "visit_all visit (xs @ ys) c = visit_all visit ys (visit_all visit xs c)"
  by (simp add: visit_all_def)

lemma walk_visits:
  "walk_node skip ctx visit path name node s = (None, s1) \<Longrightarrow> snd s1 = visit_all visit (tree_files skip path name node) (snd s)"
  "walk_entries skip ctx visit path entries s = (None, s1) \<Longrightarrow> snd s1 = visit_all visit (entry_files skip path entries) (snd s)"
  by (induction skip ctx visit path name node s and skip ctx visit path entries s arbitrary: s1 and s1
      rule: walk_node_walk_entries.induct)
    (auto simp: visit_all_append visit_all_def split: option.splits prod.splits if_splits)

lemma walk_dir_visits:
  assumes "walk_dir env skip visit root c = (None, c1)" and "se_tree env root = Inr node"
  shows "c1 = visit_all visit (tree_files skip [] (base_path root) node) c"
  using assms walk_visits(1)[of skip "se_ctx env" visit "[]" "base_path root" node "(0, c)"]
  by (auto simp: walk_dir_def split: prod.splits)

lemma walk_invariant:
  "(\<And>path content c. P c \<Longrightarrow> P (snd (visit path content c))) \<Longrightarrow> P (snd s) \<Longrightarrow>
     P (snd (snd (walk_node skip ctx visit path name node s)))"
  "(\<And>path content c. P c \<Longrightarrow> P (snd (visit path content c))) \<Longrightarrow> P (snd s) \<Longrightarrow>
     P (snd (snd (walk_entries skip ctx visit path entries s)))"
proof (induction skip ctx visit path name node s and skip ctx visit path entries s rule: walk_node_walk_entries.induct)
  case (1 skip ctx visit path name content n c)
  then show ?case using 1(1)[of c path content] by (cases "ctx n"; cases "visit path content c") auto
qed (auto split: option.splits prod.splits)

section \<open>What a visitor keeps\<close>

text \<open>The tools differ in what they do with a file; what that leaves true of their collector, the walk leaves true.\<close>

locale file_visitor =
  fixes visit :: "'c visitor" and keeps :: "'c \<Rightarrow> bool"
  assumes visit_keeps: "keeps c \<Longrightarrow> keeps (snd (visit path content c))"
begin

lemma visit_all_keeps: "keeps c \<Longrightarrow> keeps (visit_all visit fs c)"
  by (induction fs arbitrary: c) (auto simp: visit_all_def visit_keeps)

lemmas walk_keeps = walk_invariant(1)[of keeps visit, OF visit_keeps]

lemma walk_dir_keeps: "keeps c \<Longrightarrow> keeps (snd (walk_dir env skip visit root c))"
  using walk_keeps[of "(0, c)" skip "se_ctx env" "[]" "base_path root" "projr (se_tree env root)"]
  by (cases "se_tree env root") (simp_all add: walk_dir_def case_prod_beta)

end

section \<open>grep\_search\<close>

text \<open>The files of the workspace with a line that matches, if the glob pattern includes them.\<close>

definition file_hit :: "search_env \<Rightarrow> search_query \<Rightarrow> (string \<Rightarrow> bool) \<Rightarrow> string list \<times> string option \<Rightarrow> bool" where
  "file_hit env q m f \<longleftrightarrow>
     (sq_include_glob q = [] \<or> se_match env (sq_include_glob q) (rel_name (fst f)) = Inr True) \<and>
     (case snd f of None \<Rightarrow> False | Some content \<Rightarrow> list_ex m (scan_lines content))"

lemma hits_nonempty: "filter (\<lambda>l. m (snd l)) (numbered ls) = [] \<longleftrightarrow> \<not> list_ex m ls"
proof -
  have "map snd (numbered ls) = ls" by (cases ls) (simp_all add: numbered_def del: upt_Suc)
  then have "set ls = snd ` set (numbered ls)" by (metis set_map)
  then show ?thesis by (auto simp: filter_empty_conv list_ex_iff)
qed

lemma collect_files: "sco_files (search_collect m rel content c) =
    (if list_ex m (scan_lines content) then List.insert rel (sco_files c) else sco_files c)"
  by (simp add: search_collect_def hits_nonempty Let_def)

lemma collect_mode [simp]: "sco_mode (search_collect m rel content c) = sco_mode c"
  by (simp add: search_collect_def Let_def)

lemma visit_mode [simp]: "sco_mode (snd (search_visit env q m path content c)) = sco_mode c"
  by (simp add: search_visit_def Let_def split: sum.split option.split)

interpretation grep: file_visitor "search_visit env q m" "\<lambda>c. sco_mode c = mode" for env q m mode
  by unfold_locales simp

lemma visit_files: "sco_files (snd (search_visit env q m path content c)) =
    (if file_hit env q m (path, content) then List.insert (rel_name path) (sco_files c) else sco_files c)"
  by (auto simp: search_visit_def file_hit_def collect_files Let_def split: sum.split option.split)

lemma visited_files:
  "distinct (sco_files c) \<Longrightarrow> distinct (sco_files (visit_all (search_visit env q m) fs c)) \<and>
     set (sco_files (visit_all (search_visit env q m) fs c)) = set (sco_files c) \<union> (rel_name \<circ> fst) ` {f \<in> set fs. file_hit env q m f}"
proof (induction fs arbitrary: c)
  case (Cons f fs)
  obtain path content where f: "f = (path, content)" by fastforce
  have "distinct (sco_files (snd (search_visit env q m path content c)))" using Cons.prems by (simp add: visit_files)
  note IH = Cons.IH[OF this]
  have "{g \<in> set (f # fs). file_hit env q m g} =
      (if file_hit env q m f then insert f {g \<in> set fs. file_hit env q m g} else {g \<in> set fs. file_hit env q m g})"
    by auto
  moreover have "visit_all (search_visit env q m) (f # fs) c = visit_all (search_visit env q m) fs (snd (search_visit env q m path content c))"
    by (simp add: f visit_all_def)
  ultimately show ?case using IH by (simp add: f visit_files)
qed (simp add: visit_all_def)

text \<open> A search for files that answers lists exactly the files below the workspace which the glob pattern includes and which have a
  matching line among the lines the scanner yields, each once, in ascending order: none below a directory that is skipped,
  and a line of 64 KiB ends the search in its file without a word. \<close>

theorem grep_lists_matching_files:
  assumes "grep_search env call = answered (se_duration env) call out"
    and "parse_search_input (tc_input call) = Inr q" and "sq_output_mode q = files_mode"
    and "compile_pattern env (sq_pattern q) (sq_flags q) = Inr m"
    and "abs_path (se_wd env) (se_workspace env) = Inr root" and "se_tree env root = Inr node"
  shows "out = join_str newline (sorted_list_of_set
      (rel_name ` fst ` {f \<in> set (tree_files skip_search_dir [] (base_path root) node). file_hit env q m f}))"
proof -
  let ?c = "\<lparr>sco_mode = files_mode, sco_files = [], sco_content = [], sco_counts = []\<rparr>"
  have new: "new_search_collector (sq_output_mode q) = Inr ?c"
    using assms(3) by (simp add: new_search_collector_def normalize_output_mode_def files_mode_def)
  obtain r c1 where w: "walk_dir env skip_search_dir (search_visit env q m) root ?c = (r, c1)" by fastforce
  have out: "r = None" "out = search_output c1"
    using assms new w by (auto simp: grep_search_def refused_def answered_def split: if_splits option.splits)
  have c1: "c1 = visit_all (search_visit env q m) (tree_files skip_search_dir [] (base_path root) node) ?c"
    using walk_dir_visits[of env skip_search_dir _ root ?c c1 node] w out(1) assms(6) by simp
  have "sco_mode c1 = files_mode"
    unfolding c1 by (rule grep.visit_all_keeps) simp
  then have "out = join_str newline (sort (sco_files c1))" by (simp add: out(2) search_output_def files_mode_def)
  moreover have "distinct (sco_files c1) \<and> set (sco_files c1) =
      rel_name ` fst ` {f \<in> set (tree_files skip_search_dir [] (base_path root) node). file_hit env q m f}"
    using visited_files[of ?c env q m "tree_files skip_search_dir [] (base_path root) node"] by (simp add: c1 image_comp)
  ultimately show ?thesis by (metis distinct_remdups_id sorted_list_of_set_sort_remdups)
qed

definition example_disk :: disk where
  "example_disk = Directory [(''.git'', Directory [(''b'', Regular (Some ''go''))]), (''a.go'', Regular (Some ''go'')), (''c.go'', Regular None)]"

definition example_search :: search_env where
  "example_search =
     \<lparr>se_wd = Inr ''/w'', se_workspace = ''.'', se_tree = (\<lambda>_. Inr example_disk), se_compile = (\<lambda>p. Inr (\<lambda>l. l = p)),
      se_match = (\<lambda>_ _. Inr True), se_glob = (\<lambda>_. Inr []), se_is_dir = (\<lambda>_. Inr False), se_ctx = (\<lambda>_. None), se_duration = 0\<rparr>"

definition example_search_call :: tool_call where
  "example_search_call = \<lparr>tc_name = ''s'', tc_input = ''go'', tc_timeout = 0\<rparr>"

lemma example_lines: "scan_lines ''go'' = [''go'']"
  by (simp add: scan_lines_def scanner_limit_def raw_lines_def line_feed_def drop_cr_def carriage_return_def)

theorem grep_lists_matching_files_witness:
  "\<exists>q m. ''a.go'' = join_str newline (sorted_list_of_set
      (rel_name ` fst ` {f \<in> set (tree_files skip_search_dir [] ''w'' example_disk). file_hit example_search q m f}))"
proof -
  define q where "q = \<lparr>sq_pattern = ''go'', sq_flags = [], sq_output_mode = files_mode, sq_include_glob = []\<rparr>"
  have q: "parse_search_input (tc_input example_search_call) = Inr q" unfolding q_def by code_simp
  have m: "compile_pattern example_search (sq_pattern q) (sq_flags q) = Inr (\<lambda>l. l = ''go'')"
    by (simp add: q_def compile_pattern_def example_search_def)
  have root: "abs_path (se_wd example_search) (se_workspace example_search) = Inr ''/w''" by code_simp
  have node: "se_tree example_search ''/w'' = Inr example_disk" by (simp add: example_search_def)
  have base: "base_path ''/w'' = ''w''" by code_simp
  have mode: "sq_output_mode q = files_mode" by (simp add: q_def)
  have answer: "grep_search example_search example_search_call = answered (se_duration example_search) example_search_call ''a.go''"
    unfolding grep_search_def q sum.case m root mode
    by (simp add: q_def new_search_collector_def walk_dir_def node base example_disk_def skip_search_dir_def search_visit_def rel_name_def
        search_collect_def numbered_def example_lines search_output_def normalize_output_mode_def files_mode_def answered_def
        example_search_def Let_def)
  from grep_lists_matching_files[OF answer q mode m root node] show ?thesis unfolding base by blast
qed

section \<open>glob\<close>

lemma rel_to_below: "has_prefix (root @ [slash]) target \<Longrightarrow> root @ slash # rel_to root target = target"
  by (auto simp: rel_to_def has_prefix_iff)

text \<open>Every result names something below the root that is no directory.\<close>

lemma glob_results_below:
  assumes "glob_results env root i matches = Inr results" and "r \<in> set results"
  shows "\<exists>match \<in> set matches. \<exists>target. abs_path (se_wd env) match = Inr target \<and> r = rel_to root target \<and>
    is_within_workspace root target \<and> se_is_dir env target = Inr False"
  using assms by (induction env root i matches arbitrary: results rule: glob_results.induct)
    (fastforce split: option.splits sum.splits if_splits)+

section \<open>code\_search\<close>

text \<open>A collector holds no more results than it counts, and counts no more than it was asked for.\<close>

definition within_limit :: "int \<Rightarrow> code_collector \<Rightarrow> bool" where
  "within_limit limit c \<longleftrightarrow> cc_max_results c = limit \<and> cc_results c \<le> limit \<and> int (length (cc_blocks c)) \<le> cc_results c \<and>
     int (length (cc_files c)) \<le> cc_results c \<and> int (length (cc_counts c)) \<le> cc_results c"

lemma windows_within: "0 < limit \<Longrightarrow> within_limit limit c \<Longrightarrow> within_limit limit (snd (collect_windows rel ls ws c))"
  by (induction rel ls ws c rule: collect_windows.induct) (auto simp: within_limit_def code_full_def)

lemma update_length: "length (AList.update k v xs) \<le> Suc (length xs)"
  by (induction xs) auto

lemma insert_length: "length (List.insert x xs) \<le> Suc (length xs)"
  by (simp add: List.insert_def)

lemma collect_within:
  assumes "0 < limit" and "within_limit limit c"
  shows "within_limit limit (snd (code_collect m rel content c))"
proof -
  have "int (length (List.insert rel (cc_files c))) \<le> int (length (cc_files c)) + 1"
    "int (length (AList.update rel v (cc_counts c))) \<le> int (length (cc_counts c)) + 1" for v
    using insert_length[of rel "cc_files c"] update_length[of rel v "cc_counts c"] by linarith+
  note short = this(1) this(2)[of "int (length (map fst (filter (\<lambda>l. m (snd l)) (numbered (scan_lines content)))))"]
  show ?thesis using assms windows_within[OF assms] short
    by (auto simp: code_collect_def within_limit_def code_full_def Let_def)
qed

lemma code_visit_within: "0 < limit \<Longrightarrow> within_limit limit c \<Longrightarrow> within_limit limit (snd (code_visit allowed m path content c))"
  by (simp add: code_visit_def collect_within split: option.split)

interpretation code: file_visitor "code_visit allowed m" "\<lambda>c. 0 < limit \<and> within_limit limit c" for allowed m limit
  by unfold_locales (simp add: code_visit_within)

text \<open> A code search that answers holds at most as many results as it was asked for, or 50 if it was not asked: blocks of lines, files or
  counts, according to the mode. \<close>

theorem code_search_bounded:
  assumes "code_search env unmarshal call = answered (se_duration env) call out"
    and "parse_code_search_input unmarshal (tc_input call) = Inr i"
  shows "\<exists>c. out = code_output c \<and> 0 < csi_max_results i \<and> int (length (cc_blocks c)) \<le> csi_max_results i \<and>
    int (length (cc_files c)) \<le> csi_max_results i \<and> int (length (cc_counts c)) \<le> csi_max_results i"
proof -
  have pos: "0 < csi_max_results i" using assms(2)
    by (auto simp: parse_code_search_input_def default_code_results_def Let_def split: sum.splits if_splits)
  let ?empty = "\<lparr>cc_mode = files_mode, cc_max_results = csi_max_results i, cc_files = [], cc_counts = [], cc_blocks = [], cc_results = 0\<rparr>"
  have empty: "code_output ?empty = []" by (simp add: code_output_def files_mode_def)
  have "out = [] \<or> (\<exists>allowed m root c0 r c1. new_code_collector (csi_output_mode i) (csi_max_results i) = Inr c0 \<and>
      walk_dir env skip_code_dir (code_visit allowed m) root c0 = (r, c1) \<and> out = code_output c1)"
    using assms by (auto simp: code_search_def refused_def reported_def answered_def split: sum.splits option.splits prod.splits if_splits) blast+
  then show ?thesis
  proof
    assume "out = []"
    then show ?thesis using pos empty by (intro exI[of _ ?empty]) simp
  next
    assume "\<exists>allowed m root c0 r c1. new_code_collector (csi_output_mode i) (csi_max_results i) = Inr c0 \<and>
      walk_dir env skip_code_dir (code_visit allowed m) root c0 = (r, c1) \<and> out = code_output c1"
    then obtain allowed m root c0 r c1 where c0: "new_code_collector (csi_output_mode i) (csi_max_results i) = Inr c0"
      and w: "walk_dir env skip_code_dir (code_visit allowed m) root c0 = (r, c1)" and out: "out = code_output c1"
      by blast
    have "within_limit (csi_max_results i) c0"
      using c0 pos by (auto simp: new_code_collector_def within_limit_def split: if_splits)
    then have "within_limit (csi_max_results i) c1"
      using w pos code.walk_dir_keeps[of "csi_max_results i" c0 env skip_code_dir allowed m root] by simp
    then show ?thesis using out pos by (auto simp: within_limit_def)
  qed
qed

theorem code_search_bounded_witness:
  "\<exists>c. ''a.go:1: go'' = code_output c \<and> int (length (cc_blocks c)) \<le> 1"
proof -
  define i where "i = \<lparr>csi_pattern = ''go'', csi_language = [], csi_output_mode = ''content'', csi_max_results = 1\<rparr>"
  have parsed: "parse_code_search_input (\<lambda>_. Inr i) (tc_input example_search_call) = Inr i" unfolding i_def by code_simp
  have answer: "code_search example_search (\<lambda>_. Inr i) example_search_call = answered (se_duration example_search) example_search_call ''a.go:1: go''"
  proof -
    have root: "abs_path (se_wd example_search) (se_workspace example_search) = Inr ''/w''" "base_path ''/w'' = ''w''" by code_simp+
    have skip: "skip_code_file ''a.go'' code_extensions = False" "skip_code_file ''c.go'' code_extensions = False"
      "show_int 1 = ''1''" by code_simp+
    show ?thesis unfolding code_search_def parsed sum.case root
      by (simp add: i_def new_code_collector_def walk_dir_def root example_disk_def skip_code_dir_def code_visit_def rel_name_def skip
          code_collect_def numbered_def example_lines code_output_def language_extensions_def is_binary_def merge_windows_def add_window_def
          context_lines_def code_full_def window_block_def located_def answered_def example_search_def)
  qed
  from code_search_bounded[OF answer parsed] show ?thesis unfolding i_def by auto
qed

section \<open>The windows around matching lines\<close>

definition covered :: "(int \<times> int) list \<Rightarrow> int set" where
  "covered ws = (\<Union>(a, b) \<in> set ws. {a..b})"

lemma covered_simps [simp]: "covered [] = {}" "covered ((a, b) # ws) = {a..b} \<union> covered ws"
  by (simp_all add: covered_def)






end
