(* ===== verification/Ask_Web_Adapter.thy ===== *)
theory Ask_Web_Adapter
  imports File_Adapter Llm_Client Event_Stream Go_Text
begin

text \<open>
  The tools that ask the user (\<^verbatim>\<open>internal/tools/adapters/interactive.go\<close>) and fetch a page
  (\<^verbatim>\<open>internal/tools/adapters/web.go\<close>).  The JSON decoder, the parser of URLs and the HTTP client are
  arguments; the terminal is the text that can be read from it, the error that ends it, and a writer.
\<close>

section \<open>ask\_user\<close>

definition max_attempts :: nat where "max_attempts = 3"

record ask_input =
  ai_question :: string
  ai_options :: "string list"

record ask_env =
  ae_unmarshal :: "string \<Rightarrow> (go_error, ask_input) result"
  ae_ctx :: "nat \<Rightarrow> go_error option"
  ae_wait :: "nat \<Rightarrow> go_error option"
  ae_read_error :: "go_error option"
  ae_duration :: duration

fun trim_options :: "nat \<Rightarrow> string list \<Rightarrow> (go_error, string list) result" where
  "trim_options i [] = Inr []"
| "trim_options i (x # xs) =
     (if blank x then Inl (Message (''ask_user options['' @ show_nat i @ ''] must not be empty''))
      else case trim_options (Suc i) xs of Inl e \<Rightarrow> Inl e | Inr ys \<Rightarrow> Inr (trim_space x # ys))"

definition parse_ask_input :: "ask_env \<Rightarrow> string \<Rightarrow> (go_error, ask_input) result" where
  "parse_ask_input env raw =
     (case ae_unmarshal env raw of
        Inl e \<Rightarrow> Inl (wrap_text ''ask_user input must be valid JSON: '' e)
      | Inr i \<Rightarrow>
          if blank (ai_question i) then Inl (Message ''ask_user question must not be empty'')
          else case trim_options 0 (ai_options i) of
                 Inl e \<Rightarrow> Inl e
               | Inr xs \<Rightarrow> Inr \<lparr>ai_question = trim_space (ai_question i), ai_options = xs\<rparr>)"

definition terminal_failed :: go_error where "terminal_failed = Message ''terminal''"

fun write_all :: "string list \<Rightarrow> stream_writer \<Rightarrow> go_error option \<times> stream_writer" where
  "write_all [] w = (None, w)"
| "write_all (s # ss) w = (case write_chunk s w of (Some _, w1) \<Rightarrow> (Some terminal_failed, w1) | (None, w1) \<Rightarrow> write_all ss w1)"

definition option_line :: "nat \<Rightarrow> string \<Rightarrow> string" where
  "option_line i x = show_nat i @ ''. '' @ x @ newline"

definition prompt_chunks :: "ask_input \<Rightarrow> string list" where
  "prompt_chunks i = (ai_question i @ newline) # map2 option_line [1..<Suc (length (ai_options i))] (ai_options i) @ [''> '']"

definition prompt_timeout :: "go_error \<Rightarrow> go_error" where
  "prompt_timeout e = (if e = Canceled \<or> e = DeadlineExceeded then Message ''user did not respond in time'' else e)"

text \<open>\<^verbatim>\<open>ReadString\<close> up to the next line feed: at the end of the input, what is left of it.  \<open>ae_wait\<close> tells whether the
  context is over before that.\<close>

definition read_answer :: "ask_env \<Rightarrow> nat \<Rightarrow> string \<Rightarrow> (go_error, string) result \<times> string" where
  "read_answer env i input =
     (case ae_wait env i of
        Some e \<Rightarrow> (Inl (prompt_timeout e), input)
      | None \<Rightarrow>
          if CHR 0x0A \<in> set input
          then (Inr (trim_space (takeWhile (\<lambda>c. c \<noteq> CHR 0x0A) input)), tl (dropWhile (\<lambda>c. c \<noteq> CHR 0x0A) input))
          else case ae_read_error env of Some e \<Rightarrow> (Inl e, []) | None \<Rightarrow> (Inr (trim_space input), []))"

fun select_option :: "string \<Rightarrow> nat \<Rightarrow> string list \<Rightarrow> string option" where
  "select_option raw i [] = None"
| "select_option raw i (x # xs) = (if raw = show_nat i then Some x else select_option raw (Suc i) xs)"

definition validate_selection :: "string \<Rightarrow> string list \<Rightarrow> string option" where
  "validate_selection raw options = (if blank raw then None else select_option (trim_space raw) 1 options)"

definition invalid_choice :: "nat \<Rightarrow> string" where
  "invalid_choice n = ''Invalid choice. Enter a number between 1 and '' @ show_nat n @ ''.'' @ newline"

text \<open>The attempts from \<open>i\<close> on, \<open>n\<close> of them left.\<close>

fun ask_loop :: "ask_env \<Rightarrow> ask_input \<Rightarrow> nat \<Rightarrow> nat \<Rightarrow> string \<Rightarrow> stream_writer \<Rightarrow> (go_error, string) result \<times> stream_writer" where
  "ask_loop env q i 0 input w = (Inl (Message (''invalid choice after '' @ show_nat max_attempts @ '' attempts'')), w)"
| "ask_loop env q i (Suc n) input w =
     (case ae_ctx env i of
        Some e \<Rightarrow> (Inl (prompt_timeout e), w)
      | None \<Rightarrow>
          (case write_all (prompt_chunks q) w of
             (Some e, w1) \<Rightarrow> (Inl e, w1)
           | (None, w1) \<Rightarrow>
               (case read_answer env i input of
                  (Inl e, input1) \<Rightarrow> (Inl e, w1)
                | (Inr answer, input1) \<Rightarrow>
                    if ai_options q = [] then (Inr answer, w1)
                    else case validate_selection answer (ai_options q) of
                           Some x \<Rightarrow> (Inr x, w1)
                         | None \<Rightarrow>
                             (case write_all [invalid_choice (length (ai_options q))] w1 of
                                (Some e, w2) \<Rightarrow> (Inl e, w2)
                              | (None, w2) \<Rightarrow> ask_loop env q (Suc i) n input1 w2))))"

definition ask_user :: "ask_env \<Rightarrow> string \<Rightarrow> tool_call \<Rightarrow> stream_writer \<Rightarrow> tool_outcome \<times> stream_writer" where
  "ask_user env input call w =
     (case parse_ask_input env (tc_input call) of
        Inl e \<Rightarrow> (refused (ae_duration env) call e, w)
      | Inr q \<Rightarrow>
          (case ask_loop env q 1 max_attempts input w of
             (Inl e, w1) \<Rightarrow> (refused (ae_duration env) call e, w1)
           | (Inr out, w1) \<Rightarrow> (answered (ae_duration env) call out, w1)))"

section \<open>Runes\<close>

text \<open>\<open>rune_size\<close> is the length of the UTF-8 sequence at the beginning of a text, 0 if there is none; what is
  no such sequence is read, byte by byte, as the replacement character.\<close>

definition byte_in :: "nat \<Rightarrow> nat \<Rightarrow> char \<Rightarrow> bool" where
  "byte_in lo hi c \<longleftrightarrow> lo \<le> of_char c \<and> of_char c \<le> hi"

definition continuation :: "char \<Rightarrow> bool" where "continuation = byte_in 0x80 0xBF"

definition three_bytes :: "char \<Rightarrow> char \<Rightarrow> bool" where
  "three_bytes a b \<longleftrightarrow> byte_in 0xE0 0xE0 a \<and> byte_in 0xA0 0xBF b \<or> byte_in 0xE1 0xEC a \<and> continuation b \<or>
     byte_in 0xED 0xED a \<and> byte_in 0x80 0x9F b \<or> byte_in 0xEE 0xEF a \<and> continuation b"

definition four_bytes :: "char \<Rightarrow> char \<Rightarrow> bool" where
  "four_bytes a b \<longleftrightarrow> byte_in 0xF0 0xF0 a \<and> byte_in 0x90 0xBF b \<or> byte_in 0xF1 0xF3 a \<and> continuation b \<or>
     byte_in 0xF4 0xF4 a \<and> byte_in 0x80 0x8F b"

definition rune_size :: "string \<Rightarrow> nat" where
  "rune_size s =
     (if 0 < length s \<and> byte_in 0 0x7F (s ! 0) then 1
      else if 1 < length s \<and> byte_in 0xC2 0xDF (s ! 0) \<and> continuation (s ! 1) then 2
      else if 2 < length s \<and> three_bytes (s ! 0) (s ! 1) \<and> continuation (s ! 2) then 3
      else if 3 < length s \<and> four_bytes (s ! 0) (s ! 1) \<and> continuation (s ! 2) \<and> continuation (s ! 3) then 4
      else 0)"

definition replacement :: string where "replacement = [CHR 0xEF, CHR 0xBF, CHR 0xBD]"

lemma rune_size_le: "rune_size s \<le> length s"
  by (auto simp: rune_size_def Suc_le_eq)

function runes :: "string \<Rightarrow> string list" where
  "runes s =
     (if s = [] then []
      else if rune_size s = 0 then replacement # runes (tl s)
      else take (rune_size s) s # runes (drop (rune_size s) s))"
  by pat_completeness auto
termination by (relation "measure length") auto

declare runes.simps [simp del]

section \<open>web\_fetch\<close>

definition default_max_length :: int where "default_max_length = 10000"

record web_input =
  wi_url :: string
  wi_max_length :: int

record request_url =
  ru_scheme :: string
  ru_host :: string
  ru_text :: string

record 'w web_env =
  we_unmarshal :: "string \<Rightarrow> (go_error, web_input) result"
  we_parse :: "string \<Rightarrow> (go_error, request_url) result"
  we_request_error :: "string \<Rightarrow> go_error option"
  we_get :: "duration \<Rightarrow> string \<Rightarrow> 'w \<Rightarrow> (go_error, (go_error, string) result) result \<times> 'w"
  we_deadline :: "gotime option"
  we_now :: gotime
  we_domains :: "string list"
  we_duration :: duration

definition parse_web_input :: "'w web_env \<Rightarrow> string \<Rightarrow> (go_error, web_input) result" where
  "parse_web_input env raw =
     (case we_unmarshal env raw of
        Inl e \<Rightarrow> Inl (wrap_text ''web_fetch input must be valid JSON: '' e)
      | Inr i \<Rightarrow>
          (let url = trim_space (wi_url i); limit = (if wi_max_length i = 0 then default_max_length else wi_max_length i) in
           if url = [] then Inl (Message ''web_fetch url must not be empty'')
           else if limit < 0 then Inl (Message ''web_fetch max_length must be non-negative'')
           else Inr \<lparr>wi_url = url, wi_max_length = limit\<rparr>))"

definition validate_web_url :: "'w web_env \<Rightarrow> string \<Rightarrow> (go_error, request_url) result" where
  "validate_web_url env raw =
     (case we_parse env raw of
        Inl e \<Rightarrow> Inl (wrap_text ''invalid web_fetch url: '' e)
      | Inr u \<Rightarrow>
          if ru_scheme u \<noteq> ''http'' \<and> ru_scheme u \<noteq> ''https'' then Inl (Message ''web_fetch only supports http and https URLs'')
          else if ru_host u = [] then Inl (Message ''web_fetch url must include a host'')
          else Inr u)"

definition domain_refused :: "string list \<Rightarrow> string \<Rightarrow> go_error option" where
  "domain_refused domains host =
     (if domains = [] \<or> list_ex (\<lambda>d. equal_fold (trim_space d) (to_lower host)) domains then None
      else Some (Message (''web_fetch domain '' @ quote_str host @ '' is not allowed'')))"

definition remaining_timeout :: "'w web_env \<Rightarrow> duration" where
  "remaining_timeout env =
     (case we_deadline env of None \<Rightarrow> 0 | Some d \<Rightarrow> if d - we_now env \<le> 0 then 1 else d - we_now env)"

definition truncate_runes :: "string \<Rightarrow> int \<Rightarrow> string" where
  "truncate_runes body limit =
     (if limit \<le> 0 then []
      else if int (length (runes body)) \<le> limit then body
      else concat (take (nat limit) (runes body)))"

definition web_fetch :: "'w web_env \<Rightarrow> tool_call \<Rightarrow> 'w \<Rightarrow> tool_outcome \<times> 'w" where
  "web_fetch env call w =
     (case parse_web_input env (tc_input call) of
        Inl e \<Rightarrow> (refused (we_duration env) call e, w)
      | Inr i \<Rightarrow>
          (case validate_web_url env (wi_url i) of
             Inl e \<Rightarrow> (refused (we_duration env) call e, w)
           | Inr u \<Rightarrow>
               (case domain_refused (we_domains env) (ru_host u) of
                  Some e \<Rightarrow> (refused (we_duration env) call e, w)
                | None \<Rightarrow>
                    (case we_request_error env (ru_text u) of
                       Some e \<Rightarrow> (refused (we_duration env) call e, w)
                     | None \<Rightarrow>
                         (case we_get env (remaining_timeout env) (ru_text u) w of
                            (Inl e, w1) \<Rightarrow> (refused (we_duration env) call e, w1)
                          | (Inr (Inl e), w1) \<Rightarrow> (refused (we_duration env) call e, w1)
                          | (Inr (Inr body), w1) \<Rightarrow>
                              (answered (we_duration env) call (truncate_runes body (wi_max_length i)), w1))))))"

section \<open>What they return\<close>

lemma trim_options_all: "trim_options i xs = Inr ys \<Longrightarrow> ys = map trim_space xs \<and> list_all (\<lambda>x. \<not> blank x) xs"
  by (induction xs arbitrary: i ys) (auto split: if_splits sum.splits)

lemma select_in: "select_option raw i xs = Some x \<Longrightarrow> x \<in> set xs"
  by (induction raw i xs rule: select_option.induct) (auto split: if_splits)

lemma write_all_length: "length (sw_chunks (snd (write_all ss w))) \<le> length (sw_chunks w) + length ss"
proof (induction ss arbitrary: w)
  case (Cons s ss)
  obtain r w1 where c: "write_chunk s w = (r, w1)" by fastforce
  then have "length (sw_chunks w1) \<le> length (sw_chunks w) + 1" by (auto simp: write_chunk_def split: option.splits nat.splits)
  with Cons.IH[of w1] c show ?case by (cases r) auto
qed simp

lemma ask_loop_option: "ask_loop env q i n input w = (Inr out, w1) \<Longrightarrow> ai_options q \<noteq> [] \<Longrightarrow> out \<in> set (ai_options q)"
  by (induction env q i n input w rule: ask_loop.induct)
    (auto simp: validate_selection_def select_in split: option.splits prod.splits sum.splits if_splits dest: select_in)

lemma prompt_length: "length (prompt_chunks q) = length (ai_options q) + 2"
  by (simp add: prompt_chunks_def del: upt_Suc)

lemma ask_loop_chunks:
  "length (sw_chunks (snd (ask_loop env q i n input w))) \<le> length (sw_chunks w) + n * (length (ai_options q) + 3)"
proof (induction env q i n input w rule: ask_loop.induct)
  case (2 env q i n input w)
  obtain r1 w1 where a: "write_all (prompt_chunks q) w = (r1, w1)" by fastforce
  obtain r2 input1 where b: "read_answer env i input = (r2, input1)" by fastforce
  obtain r3 w2 where c: "write_all [invalid_choice (length (ai_options q))] w1 = (r3, w2)" by fastforce
  have "length (sw_chunks w1) \<le> length (sw_chunks w) + (length (ai_options q) + 2)"
    using write_all_length[of "prompt_chunks q" w] by (simp add: a prompt_length)
  moreover have "length (sw_chunks w2) \<le> length (sw_chunks w1) + 1"
    using write_all_length[of "[invalid_choice (length (ai_options q))]" w1] unfolding c by simp
  ultimately show ?case using 2 a b c by (auto split: option.split sum.split simp del: write_all.simps) fastforce+
qed simp

text \<open> Asked with options, the user's answer is one of them, whatever is typed; and at most three times the question and its options
  are printed. \<close>

theorem ask_user_option:
  assumes "ask_user env input call w = (answered (ae_duration env) call out, w1)"
    and "parse_ask_input env (tc_input call) = Inr q"
  shows "(ai_options q \<noteq> [] \<longrightarrow> out \<in> set (ai_options q)) \<and>
     length (sw_chunks w1) \<le> length (sw_chunks w) + 3 * (length (ai_options q) + 3)"
  using assms ask_loop_option[of env q 1 max_attempts input w out w1] ask_loop_chunks[of env q 1 max_attempts input w]
  by (auto simp: ask_user_def answered_def refused_def max_attempts_def split: prod.splits sum.splits)

definition example_ask :: ask_env where
  "example_ask =
     \<lparr>ae_unmarshal = (\<lambda>_. Inr \<lparr>ai_question = ''which?'', ai_options = ['' a'', ''b'']\<rparr>), ae_ctx = (\<lambda>_. None), ae_wait = (\<lambda>_. None),
      ae_read_error = None, ae_duration = 0\<rparr>"

definition example_ask_call :: tool_call where
  "example_ask_call = \<lparr>tc_name = ''ask_user'', tc_input = [], tc_timeout = 0\<rparr>"

definition terminal :: stream_writer where "terminal = \<lparr>sw_chunks = [], sw_left = None\<rparr>"

theorem ask_user_option_witness:
  "\<exists>w1. ask_user example_ask (''x'' @ newline @ ''2'' @ newline) example_ask_call terminal =
       (answered (ae_duration example_ask) example_ask_call ''b'', w1) \<and>
     ''b'' \<in> set [''a'', ''b''] \<and> length (sw_chunks w1) \<le> 15"
proof -
  have "fst (ask_user example_ask (''x'' @ newline @ ''2'' @ newline) example_ask_call terminal) =
      answered (ae_duration example_ask) example_ask_call ''b''"
    by code_simp
  then obtain w1 where a: "ask_user example_ask (''x'' @ newline @ ''2'' @ newline) example_ask_call terminal =
      (answered (ae_duration example_ask) example_ask_call ''b'', w1)"
    by (metis prod.collapse)
  have q: "parse_ask_input example_ask (tc_input example_ask_call) = Inr \<lparr>ai_question = ''which?'', ai_options = [''a'', ''b'']\<rparr>" by code_simp
  from ask_user_option[OF a q] a show ?thesis by (auto simp: terminal_def)
qed

lemma rune_size_cong:
  assumes "0 < rune_size s" and "rune_size s \<le> length u" and "\<And>i. i < rune_size s \<Longrightarrow> u ! i = s ! i"
  shows "rune_size u = rune_size s"
proof -
  let ?one = "0 < length s \<and> byte_in 0 0x7F (s ! 0)" and ?two = "1 < length s \<and> byte_in 0xC2 0xDF (s ! 0) \<and> continuation (s ! 1)"
    and ?three = "2 < length s \<and> three_bytes (s ! 0) (s ! 1) \<and> continuation (s ! 2)"
  consider "?one" | "\<not> ?one" "?two" | "\<not> ?one" "\<not> ?two" "?three" | "\<not> ?one" "\<not> ?two" "\<not> ?three" by blast
  then show ?thesis
  proof cases
    case 1
    then have n: "rune_size s = 1" by (simp add: rune_size_def)
    show ?thesis using 1 assms(2) assms(3)[of 0] unfolding n by (subst rune_size_def) (simp add: Suc_le_eq)
  next
    case 2
    then have n: "rune_size s = 2" by (auto simp: rune_size_def)
    show ?thesis using 2 assms(2) assms(3)[of 0] assms(3)[of 1] unfolding n by (subst rune_size_def) auto
  next
    case 3
    then have n: "rune_size s = 3" by (auto simp: rune_size_def)
    show ?thesis using 3 assms(2) assms(3)[of 0] assms(3)[of 1] assms(3)[of 2] unfolding n by (subst rune_size_def) auto
  next
    case 4
    then have n: "rune_size s = 4" and four: "3 < length s" "four_bytes (s ! 0) (s ! 1)" "continuation (s ! 2)" "continuation (s ! 3)"
      using assms(1) unfolding rune_size_def by (simp_all split: if_splits)
    show ?thesis using 4 four assms(2) assms(3)[of 0] assms(3)[of 1] assms(3)[of 2] assms(3)[of 3] unfolding n by (subst rune_size_def) auto
  qed
qed

lemma rune_size_take: "0 < rune_size s \<Longrightarrow> rune_size (take (rune_size s) s @ t) = rune_size s"
  using rune_size_le[of s] by (intro rune_size_cong) (simp_all add: nth_append)

lemma replacement_size: "rune_size (replacement @ t) = 3"
  by (simp add: rune_size_def replacement_def byte_in_def three_bytes_def continuation_def)

text \<open>A rune that has been read is read again.\<close>

lemma runes_Cons: "r \<in> set (runes s) \<Longrightarrow> runes (r @ t) = r # runes t"
proof (induction s rule: runes.induct)
  case (1 s)
  have rep: "runes (replacement @ t) = replacement # runes t"
    by (subst runes.simps) (simp add: replacement_size, simp add: replacement_def)
  show ?case
  proof (cases "s = []")
    case True
    then show ?thesis using 1(3) by (simp add: runes.simps)
  next
    case False
    show ?thesis
    proof (cases "rune_size s = 0")
      case True
      then show ?thesis using 1 False rep by (subst (asm) (3) runes.simps) auto
    next
      case pos: False
      have "runes (take (rune_size s) s @ t) = take (rune_size s) s # runes t"
        using pos False rune_size_take[of s t] rune_size_le[of s] by (subst runes.simps) simp
      then show ?thesis using 1 False pos by (subst (asm) (3) runes.simps) auto
    qed
  qed
qed

lemma runes_concat: "set rs \<subseteq> set (runes s) \<Longrightarrow> runes (concat rs) = rs"
  by (induction rs) (auto simp: runes_Cons runes.simps[of "[]"])

lemma truncate_runes_bound: "0 < limit \<Longrightarrow> int (length (runes (truncate_runes body limit))) \<le> limit"
  using runes_concat[of "take (nat limit) (runes body)" body] set_take_subset by (fastforce simp: truncate_runes_def)

text \<open> A page is fetched only over http or https from a host of the list, if there is one, and what is returned has at most as many runes
  as were asked for, or 10000. \<close>

theorem web_fetch_bounded:
  assumes "web_fetch env call w = (answered (we_duration env) call out, w1)"
    and "parse_web_input env (tc_input call) = Inr i" and "we_parse env (wi_url i) = Inr u"
  shows "int (length (runes out)) \<le> wi_max_length i \<and> ru_scheme u \<in> {''http'', ''https''} \<and>
     (we_domains env \<noteq> [] \<longrightarrow> (\<exists>d \<in> set (we_domains env). equal_fold (trim_space d) (to_lower (ru_host u))))"
proof -
  have pos: "0 < wi_max_length i" using assms(2)
    by (auto simp: parse_web_input_def default_max_length_def Let_def split: sum.splits if_splits)
  have "validate_web_url env (wi_url i) = Inr u" "domain_refused (we_domains env) (ru_host u) = None"
    "\<exists>body. out = truncate_runes body (wi_max_length i)"
    using assms by (auto simp: web_fetch_def validate_web_url_def refused_def answered_def split: sum.splits option.splits prod.splits if_splits)
  then show ?thesis using pos truncate_runes_bound assms(3)
    by (auto simp: validate_web_url_def domain_refused_def list_ex_iff split: if_splits)
qed

definition example_web :: "unit web_env" where
  "example_web =
     \<lparr>we_unmarshal = (\<lambda>_. Inr \<lparr>wi_url = ''http://a/'', wi_max_length = 2\<rparr>),
      we_parse = (\<lambda>u. Inr \<lparr>ru_scheme = ''http'', ru_host = ''A'', ru_text = u\<rparr>), we_request_error = (\<lambda>_. None),
      we_get = (\<lambda>_ _ w. (Inr (Inr [CHR 0xC3, CHR 0xA9, CHR 0xFF, CHR ''c'']), w)), we_deadline = None, we_now = 0, we_domains = [''a''],
      we_duration = 0\<rparr>"

theorem web_fetch_bounded_witness:
  "web_fetch example_web example_ask_call () =
     (answered 0 example_ask_call ([CHR 0xC3, CHR 0xA9] @ replacement), ()) \<and>
   int (length (runes ([CHR 0xC3, CHR 0xA9] @ replacement))) \<le> 2"
proof -
  have a: "web_fetch example_web example_ask_call () =
      (answered (we_duration example_web) example_ask_call ([CHR 0xC3, CHR 0xA9] @ replacement), ())"
    by code_simp
  have i: "parse_web_input example_web (tc_input example_ask_call) = Inr \<lparr>wi_url = ''http://a/'', wi_max_length = 2\<rparr>" by code_simp
  have u: "we_parse example_web (wi_url \<lparr>wi_url = ''http://a/'', wi_max_length = 2\<rparr>) =
      Inr \<lparr>ru_scheme = ''http'', ru_host = ''A'', ru_text = ''http://a/''\<rparr>"
    by (simp add: example_web_def)
  have "we_duration example_web = 0" by (simp add: example_web_def)
  with web_fetch_bounded[OF a i u] a show ?thesis by simp
qed

end
