(* ===== verification/Server_Start.thy ===== *)
theory Server_Start
  imports Builder Accounts Session_Manager
begin

text \<open>
  The start and the end of the server (\<^verbatim>\<open>cmd/server/server.go\<close>): flags, the JWT secret, the stores, the check of the
  database's mode, serving and shutting down.  Opening and closing are recorded in the order in which they happen;
  the router that is served is \<^verbatim>\<open>Router\<close> and \<^verbatim>\<open>Api\<close>.  As in \<^verbatim>\<open>serverApp\<close>, the files, the database driver and the
  HTTP server are fields of the environment.
\<close>

section \<open>Environment\<close>

datatype server_store = Session_Rows | Memory_Rows | User_Rows | Raw_Database

datatype server_action = Opened server_store | Closed server_store | Listening config | Http_Shutdown | Manager_Shutdown

datatype serving = Serve_Ended "go_error option" | Signalled "go_error option"

record server_env =
  sve_config :: config
  sve_host :: config_host
  sve_read_file :: "string \<Rightarrow> (go_error, string) result"
  sve_open :: "server_store \<Rightarrow> string \<Rightarrow> bool \<Rightarrow> go_error option"
  sve_journal_mode :: "(go_error, string) result"
  sve_auth :: auth_env
  sve_serving :: serving
  sve_http_shutdown :: "go_error option"
  sve_manager_shutdown :: "go_error option"

text \<open>\<^term>\<open>Serve_Ended e\<close>: the listener ended first; \<^term>\<open>Signalled e\<close>: the context was over first, and the listener ends with
  \<open>e\<close> when it is shut down.  \<^verbatim>\<open>http.ErrServerClosed\<close> is no error of the listener.\<close>

definition server_closed :: go_error where "server_closed = Message ''http: Server closed''"

definition serve_error :: "go_error option \<Rightarrow> go_error option" where
  "serve_error e = (case e of None \<Rightarrow> None | Some x \<Rightarrow> if errors_is x server_closed then None else Some x)"

section \<open>Flags\<close>

record server_flags =
  svf_server :: server_config
  svf_web_ui :: bool
  svf_web_dir :: string
  svf_db :: string

definition initial_server_flags :: "config \<Rightarrow> server_flags" where
  "initial_server_flags c =
     (let s = cf_server c in
      \<lparr>svf_server = \<lparr>svc_listen_address = sv_listen_address s, svc_jwt_secret = sv_jwt_secret s, svc_jwt_secret_file = sv_jwt_secret_file s,
         svc_active_session_cap = sv_active_session_cap s, svc_shutdown_timeout = sv_shutdown_timeout s, svc_enable_wal = sv_enable_wal s\<rparr>,
       svf_web_ui = sv_web_ui_enabled s, svf_web_dir = wu_static_dir (sv_web_ui s), svf_db = ''./agent.db''\<rparr>)"

definition on_server_flags :: "(server_config \<Rightarrow> server_config) \<Rightarrow> server_flags \<Rightarrow> server_flags" where
  "on_server_flags f x = x\<lparr>svf_server := f (svf_server x)\<rparr>"

definition server_flag_set :: "config_host \<Rightarrow> (string \<times> bool \<times> server_flags setter) list" where
  "server_flag_set h =
     map (\<lambda>n. (n, string_flag (\<lambda>_ f. f)))
       [''config'', ''provider'', ''plugin-provider'', ''model'', ''api-key'', ''base-url'', ''step-timeout'', ''verify-mode''] @
     map (\<lambda>n. (n, parsed_flag False (ch_parse_int h) (\<lambda>_ f. f))) [''max-steps'', ''memory-limit-mb''] @
     [(''listen-address'', string_flag (\<lambda>v. on_server_flags (\<lambda>c. c\<lparr>svc_listen_address := v\<rparr>))),
      (''jwt-secret'', string_flag (\<lambda>v. on_server_flags (\<lambda>c. c\<lparr>svc_jwt_secret := v\<rparr>))),
      (''jwt-secret-file'', string_flag (\<lambda>v. on_server_flags (\<lambda>c. c\<lparr>svc_jwt_secret_file := v\<rparr>))),
      (''active-session-cap'', parsed_flag False (ch_parse_int h) (\<lambda>v. on_server_flags (\<lambda>c. c\<lparr>svc_active_session_cap := v\<rparr>))),
      (''shutdown-timeout'', parsed_flag False (ch_parse_duration h) (\<lambda>v. on_server_flags (\<lambda>c. c\<lparr>svc_shutdown_timeout := v\<rparr>))),
      (''server-enable-wal'', parsed_flag True (flag_parse parse_bool) (\<lambda>v. on_server_flags (\<lambda>c. c\<lparr>svc_enable_wal := v\<rparr>))),
      (''web-ui-enabled'', parsed_flag True (flag_parse parse_bool) (\<lambda>v f. f\<lparr>svf_web_ui := v\<rparr>)),
      (''web-ui-dir'', string_flag (\<lambda>v f. f\<lparr>svf_web_dir := v\<rparr>)), (''db'', string_flag (\<lambda>v f. f\<lparr>svf_db := v\<rparr>))]"

section \<open>Start\<close>

definition resolve_jwt_secret :: "server_env \<Rightarrow> server_config \<Rightarrow> (go_error, string) result" where
  "resolve_jwt_secret env c =
     (if svc_jwt_secret c \<noteq> [] then Inr (svc_jwt_secret c)
      else case sve_read_file env (svc_jwt_secret_file c) of
             Inl e \<Rightarrow> Inl (wrap_text ''read server JWT secret file: '' e)
           | Inr data \<Rightarrow>
               if blank data then Inl (Message ''server JWT secret file must not be empty'') else Inr (trim_space data))"

definition api_config :: "config \<Rightarrow> server_config \<Rightarrow> server_flags \<Rightarrow> config" where
  "api_config c s f =
     c\<lparr>cf_server := (cf_server c)\<lparr>sv_listen_address := svc_listen_address s, sv_jwt_secret := svc_jwt_secret s,
         sv_jwt_secret_file := svc_jwt_secret_file s, sv_active_session_cap := svc_active_session_cap s,
         sv_shutdown_timeout := svc_shutdown_timeout s, sv_enable_wal := svc_enable_wal s, sv_web_ui_enabled := svf_web_ui f,
         sv_web_ui := (sv_web_ui (cf_server c))\<lparr>wu_enabled := svf_web_ui f, wu_static_dir := trim_space (svf_web_dir f)\<rparr>\<rparr>\<rparr>"

definition server_stores :: "server_store list" where "server_stores = [Session_Rows, Memory_Rows, User_Rows]"

text \<open>What is open is closed when a later one cannot be opened; the last opened first.\<close>

fun open_server_stores :: "(server_store \<Rightarrow> go_error option) \<Rightarrow> server_store list \<Rightarrow> server_store list \<Rightarrow> go_error option \<times> server_action list" where
  "open_server_stores open1 [] held = (None, [])"
| "open_server_stores open1 (x # xs) held =
     (case open1 x of
        Some e \<Rightarrow> (Some e, map Closed held)
      | None \<Rightarrow> (case open_server_stores open1 xs (x # held) of (r, acts) \<Rightarrow> (r, Opened x # acts)))"

definition close_server_stores :: "server_action list" where
  "close_server_stores = map Closed (rev server_stores)"

definition verify_wal :: "server_env \<Rightarrow> string \<Rightarrow> server_config \<Rightarrow> go_error option \<times> server_action list" where
  "verify_wal env path c =
     (if \<not> svc_enable_wal c then (Some (Message ''server startup requires sqlite WAL mode''), [])
      else case sve_open env Raw_Database path False of
             Some e \<Rightarrow> (Some (wrap_text ''open sqlite database for WAL verification: '' e), [])
           | None \<Rightarrow>
               (case sve_journal_mode env of
                  Inl e \<Rightarrow> Some (wrap_text ''verify sqlite WAL mode: '' e)
                | Inr mode \<Rightarrow>
                    if mode \<noteq> ''wal'' then Some (Message (''server startup requires sqlite WAL mode, got '' @ quote_str mode)) else None,
                [Opened Raw_Database, Closed Raw_Database]))"

definition server_manager_options :: "server_config \<Rightarrow> manager_options" where
  "server_manager_options c =
     \<lparr>mo_active_session_cap = svc_active_session_cap c, mo_shutdown_timeout = svc_shutdown_timeout c, mo_event_buffer_size = 0\<rparr>"

section \<open>Serving\<close>

definition server_serve :: "server_env \<Rightarrow> go_error option \<times> server_action list" where
  "server_serve env =
     (case sve_serving env of
        Serve_Ended e \<Rightarrow> (serve_error e, [])
      | Signalled e \<Rightarrow>
          (case sve_http_shutdown env of
             Some x \<Rightarrow> (Some x, [Http_Shutdown])
           | None \<Rightarrow>
               (case sve_manager_shutdown env of
                  Some x \<Rightarrow> (Some x, [Http_Shutdown, Manager_Shutdown])
                | None \<Rightarrow> (serve_error e, [Http_Shutdown, Manager_Shutdown]))))"

text \<open>An error in creating the default administrator is printed and dropped.\<close>

definition server_listen ::
  "server_env \<Rightarrow> server_flags \<Rightarrow> server_config \<Rightarrow> user_db option \<Rightarrow> (go_error option \<times> server_action list) \<times> user_db option" where
  "server_listen env f c users =
     (case open_server_stores (\<lambda>x. sve_open env x (svf_db f) (svc_enable_wal c)) server_stores [] of
        (Some e, acts) \<Rightarrow> ((Some e, acts), users)
      | (None, acts) \<Rightarrow>
          (case verify_wal env (svf_db f) c of
             (Some e, wal) \<Rightarrow> ((Some e, acts @ wal @ close_server_stores), users)
           | (None, wal) \<Rightarrow>
               (case server_serve env of
                  (r, served) \<Rightarrow>
                    ((r, acts @ wal @ [Listening (api_config (sve_config env) c f)] @ served @ close_server_stores),
                     snd (ensure_default_admin (sve_auth env) users)))))"

definition server_run ::
  "server_env \<Rightarrow> string list \<Rightarrow> user_db option \<Rightarrow> (go_error option \<times> server_action list) \<times> user_db option" where
  "server_run env args users =
     (case parse_flags (server_flag_set (sve_host env)) args [] (initial_server_flags (sve_config env)) of
        Inl e \<Rightarrow> ((Some e, []), users)
      | Inr (f, _) \<Rightarrow>
          (let c = normalize_server_config (svf_server f) in
           case validate_server_config c of
             Some e \<Rightarrow> ((Some e, []), users)
           | None \<Rightarrow>
               (case resolve_jwt_secret env c of
                  Inl e \<Rightarrow> ((Some e, []), users)
                | Inr secret \<Rightarrow> server_listen env f (c\<lparr>svc_jwt_secret := secret, svc_jwt_secret_file := []\<rparr>) users)))"

section \<open>What a run of the server guarantees\<close>

text \<open>Stores are closed in the reverse order of opening, and all of them.\<close>

fun well_nested :: "server_store list \<Rightarrow> server_action list \<Rightarrow> bool" where
  "well_nested held [] = (held = [])"
| "well_nested held (Opened x # acts) = well_nested (x # held) acts"
| "well_nested held (Closed x # acts) = (case held of [] \<Rightarrow> False | y # rest \<Rightarrow> x = y \<and> well_nested rest acts)"
| "well_nested held (a # acts) = well_nested held acts"

lemma closed_nested: "well_nested held (map Closed held)"
  by (induction held) auto

lemma open_failed_nested: "open_server_stores open1 xs held = (Some e, acts) \<Longrightarrow> well_nested held acts"
  by (induction open1 xs held arbitrary: acts rule: open_server_stores.induct) (auto simp: closed_nested split: option.splits prod.splits)

lemma opened_all: "open_server_stores open1 xs held = (None, acts) \<Longrightarrow> acts = map Opened xs"
  by (induction open1 xs held arbitrary: acts rule: open_server_stores.induct) (auto split: option.splits prod.splits)

lemma wal_actions: "verify_wal env path c = (r, acts) \<Longrightarrow> acts = [] \<or> acts = [Opened Raw_Database, Closed Raw_Database]"
  by (auto simp: verify_wal_def split: if_splits option.splits sum.splits)

lemma serve_actions: "server_serve env = (r, acts) \<Longrightarrow> set acts \<subseteq> {Http_Shutdown, Manager_Shutdown}"
  by (auto simp: server_serve_def split: serving.splits option.splits)

lemma quiet_nested: "set acts \<subseteq> {Http_Shutdown, Manager_Shutdown} \<Longrightarrow> well_nested held (acts @ rest) = well_nested held rest"
  by (induction acts) auto

definition only_stores :: "server_action list \<Rightarrow> bool" where
  "only_stores acts \<longleftrightarrow> (\<forall>a \<in> set acts. \<exists>x. a = Opened x \<or> a = Closed x)"

lemma open_only_stores: "open_server_stores open1 xs held = (r, acts) \<Longrightarrow> only_stores acts"
  by (induction open1 xs held arbitrary: acts rule: open_server_stores.induct) (fastforce simp: only_stores_def split: option.splits prod.splits)+

lemma stores_nested: "acts = [] \<or> acts = [Opened Raw_Database, Closed Raw_Database] \<Longrightarrow> set served \<subseteq> {Http_Shutdown, Manager_Shutdown} \<Longrightarrow>
    well_nested [] (map Opened server_stores @ acts @ close_server_stores) \<and>
    well_nested [] (map Opened server_stores @ acts @ [Listening c] @ served @ close_server_stores)"
  by (auto simp: server_stores_def close_server_stores_def quiet_nested)

text \<open>A run that gets as far as the stores either opens and closes them, or listens in between.\<close>

lemma listen_form:
  "well_nested [] (snd (fst (server_listen env f c users))) \<and> only_stores (snd (fst (server_listen env f c users))) \<or>
   (\<exists>wal. wal \<in> {[], [Opened Raw_Database, Closed Raw_Database]} \<and> fst (verify_wal env (svf_db f) c) = None \<and>
     snd (fst (server_listen env f c users)) =
       map Opened server_stores @ wal @ [Listening (api_config (sve_config env) c f)] @ snd (server_serve env) @ close_server_stores)"
proof -
  obtain r acts where o: "open_server_stores (\<lambda>x. sve_open env x (svf_db f) (svc_enable_wal c)) server_stores [] = (r, acts)" by fastforce
  obtain r1 wal where w: "verify_wal env (svf_db f) c = (r1, wal)" by fastforce
  obtain r2 served where s: "server_serve env = (r2, served)" by fastforce
  show ?thesis
  proof (cases r)
    case (Some e)
    then show ?thesis using o open_failed_nested[OF o[unfolded Some]] open_only_stores[OF o] by (simp add: server_listen_def)
  next
    case None
    have acts: "acts = map Opened server_stores" using opened_all[OF o[unfolded None]] .
    show ?thesis
    proof (cases r1)
      case None
      then show ?thesis using o w s acts wal_actions[OF w] \<open>r = None\<close> by (intro disjI2 exI[of _ wal]) (auto simp: server_listen_def)
    next
      case (Some e)
      then have "snd (fst (server_listen env f c users)) = map Opened server_stores @ wal @ close_server_stores"
        using o w acts \<open>r = None\<close> by (simp add: server_listen_def)
      moreover have "only_stores (map Opened server_stores @ wal @ close_server_stores)"
        using wal_actions[OF w] by (auto simp: only_stores_def close_server_stores_def)
      ultimately show ?thesis using stores_nested[OF wal_actions[OF w], of "[]"] by simp
    qed
  qed
qed

lemma serve_end: "set (snd (server_serve env)) \<subseteq> {Http_Shutdown, Manager_Shutdown}"
  using serve_actions[of env] by (cases "server_serve env") auto

lemma close_only: "only_stores close_server_stores"
  by (auto simp: only_stores_def close_server_stores_def)

text \<open> Whatever fails and however the server ends, every store that was opened has been closed, the last opened first. \<close>

theorem server_closes_stores:
  "well_nested [] (snd (fst (server_run env args users)))"
proof -
  have "well_nested [] (snd (fst (server_listen env f c users)))" for f c
    using listen_form[of env f c users] stores_nested[OF _ serve_end[of env]] by fastforce
  then show ?thesis by (simp add: server_run_def Let_def split: sum.split option.split prod.split)
qed

text \<open> The server listens only with a secret for its tokens, a positive cap for the sessions and a database in write-ahead mode. \<close>

theorem server_listens_secured:
  assumes "Listening c \<in> set (snd (fst (server_run env args users)))"
  shows "sv_jwt_secret (cf_server c) \<noteq> [] \<and> sv_jwt_secret_file (cf_server c) = [] \<and> 0 < sv_active_session_cap (cf_server c) \<and>
     0 < sv_shutdown_timeout (cf_server c) \<and> sve_journal_mode env = Inr ''wal''"
proof -
  obtain f v secret where secret: "resolve_jwt_secret env (normalize_server_config (svf_server f)) = Inr secret"
    and l: "Listening c \<in> set (snd (fst (server_listen env f
        ((normalize_server_config (svf_server f))\<lparr>svc_jwt_secret := secret, svc_jwt_secret_file := []\<rparr>) users)))"
    using assms by (auto simp: server_run_def Let_def split: sum.splits option.splits prod.splits)
  let ?c = "(normalize_server_config (svf_server f))\<lparr>svc_jwt_secret := secret, svc_jwt_secret_file := []\<rparr>"
  have "secret \<noteq> []" using secret by (auto simp: resolve_jwt_secret_def blank_def split: if_splits sum.splits)
  moreover have "0 < svc_active_session_cap ?c" "0 < svc_shutdown_timeout ?c"
    by (simp_all add: normalize_server_config_def)
  moreover have "c = api_config (sve_config env) ?c f \<and> fst (verify_wal env (svf_db f) ?c) = None"
    using listen_form[of env f ?c users] l serve_end[of env] close_only by (fastforce simp: only_stores_def)
  moreover have "fst (verify_wal env (svf_db f) ?c) = None \<Longrightarrow> sve_journal_mode env = Inr ''wal''"
    by (auto simp: verify_wal_def split: if_splits option.splits sum.splits)
  ultimately show ?thesis by (simp add: api_config_def)
qed

definition example_server :: "auth_env \<Rightarrow> server_env" where
  "example_server a =
     \<lparr>sve_config = default_config,
      sve_host = \<lparr>ch_getenv = (\<lambda>_. []), ch_home = Inl os_not_exist, ch_stat = (\<lambda>_. Inr False), ch_read = (\<lambda>_. Inr []),
        ch_unmarshal = (\<lambda>_. Inl os_not_exist), ch_parse_duration = (\<lambda>_. Inl os_not_exist), ch_parse_int = (\<lambda>_. Inr 1)\<rparr>,
      sve_read_file = (\<lambda>_. Inl os_not_exist), sve_open = (\<lambda>_ _ _. None), sve_journal_mode = Inr ''wal'', sve_auth = a,
      sve_serving = Signalled None, sve_http_shutdown = Some DeadlineExceeded, sve_manager_shutdown = None\<rparr>"

lemma example_server_listens:
  "snd (fst (server_run (example_server a) [''--jwt-secret'', ''key''] None)) =
     map Opened server_stores @ [Opened Raw_Database, Closed Raw_Database,
       Listening (default_config\<lparr>cf_server := (cf_server default_config)\<lparr>sv_jwt_secret := ''key''\<rparr>\<rparr>), Http_Shutdown] @ close_server_stores"
proof -
  have trim: "trim_space ''key'' = ''key''" "trim_space '':8080'' = '':8080''" "blank '':8080'' = False" by code_simp+
  show ?thesis
    by (simp add: server_run_def example_server_def server_flag_set_def split_flag_def apply_flag_def string_flag_def parsed_flag_def Let_def
        on_server_flags_def initial_server_flags_def default_config_def normalize_server_config_def validate_server_config_def trim
        resolve_jwt_secret_def server_listen_def verify_wal_def server_serve_def api_config_def server_stores_def)
qed

theorem server_listens_secured_witness:
  "\<forall>a. \<exists>c. Listening c \<in> set (snd (fst (server_run (example_server a) [''--jwt-secret'', ''key''] None))) \<and>
     sv_jwt_secret (cf_server c) \<noteq> [] \<and> sve_journal_mode (example_server a) = Inr ''wal''"
proof
  fix a
  obtain c where c: "Listening c \<in> set (snd (fst (server_run (example_server a) [''--jwt-secret'', ''key''] None)))"
    unfolding example_server_listens by auto
  with server_listens_secured[OF c] show "\<exists>c. Listening c \<in> set (snd (fst (server_run (example_server a) [''--jwt-secret'', ''key''] None))) \<and>
     sv_jwt_secret (cf_server c) \<noteq> [] \<and> sve_journal_mode (example_server a) = Inr ''wal''" by blast
qed

text \<open> If shutting down the HTTP server fails, as it does when an event stream outlives the time limit, the session manager is not shut
  down: no running session is told to end before the stores are closed. \<close>

theorem failed_shutdown_skips_manager:
  assumes "sve_serving env = Signalled e" and "sve_http_shutdown env = Some x"
  shows "Manager_Shutdown \<notin> set (snd (fst (server_run env args users)))"
proof -
  have "snd (server_serve env) = [Http_Shutdown]" using assms by (simp add: server_serve_def)
  then have "Manager_Shutdown \<notin> set (snd (fst (server_listen env f c users)))" for f c
    using listen_form[of env f c users] close_only by (fastforce simp: only_stores_def)
  then show ?thesis by (simp add: server_run_def Let_def split: sum.split option.split prod.split)
qed

theorem failed_shutdown_skips_manager_witness:
  "\<forall>a. Manager_Shutdown \<notin> set (snd (fst (server_run (example_server a) [''--jwt-secret'', ''key''] None)))"
proof
  fix a
  have "sve_serving (example_server a) = Signalled None" "sve_http_shutdown (example_server a) = Some DeadlineExceeded"
    by (simp_all add: example_server_def)
  then show "Manager_Shutdown \<notin> set (snd (fst (server_run (example_server a) [''--jwt-secret'', ''key''] None)))"
    by (rule failed_shutdown_skips_manager)
qed

end
