(* ===== verification/Step_Repository.thy ===== *)
theory Step_Repository
  imports Session_Store
begin

text \<open>
  The repositories of sessions and steps over the older schema (\<^verbatim>\<open>internal/store/session.go\<close> and
  \<^verbatim>\<open>internal/store/step.go\<close>), which keeps a step in columns of its own instead of JSON.  Rows and faults are those of
  \<^verbatim>\<open>Session_Store\<close>; a time written in RFC 3339 is read back as it was.
\<close>

section \<open>Tables\<close>

record repo_session =
  rps_id :: string
  rps_task_id :: string
  rps_status :: session_status
  rps_provenance :: "provenance option"
  rps_created_at :: gotime
  rps_updated_at :: gotime

record repo_plan =
  rpp_id :: string
  rpp_task_id :: string
  rpp_summary :: string
  rpp_created_at :: gotime

record repo_step =
  rpx_session_id :: string
  rpx_index :: int
  rpx_action_type :: action_type
  rpx_action_summary :: string
  rpx_action_response :: string
  rpx_tool_name :: string
  rpx_tool_input :: string
  rpx_tool_timeout :: duration
  rpx_observation_summary :: string
  rpx_final_response :: string
  rpx_tool_output :: string
  rpx_tool_error :: string
  rpx_tool_duration :: duration
  rpx_passed :: int
  rpx_status :: verification_status
  rpx_reason :: string
  rpx_provenance :: "provenance option"
  rpx_created_at :: gotime

record repo_db =
  rdb_sessions :: "repo_session list"
  rdb_plans :: "repo_plan list"
  rdb_steps :: "repo_step list"
  rdb_faults :: "go_error option list"

definition repo_statement :: "repo_db \<Rightarrow> (go_error, unit) result \<times> repo_db" where
  "repo_statement d =
     (case rdb_faults d of
        [] \<Rightarrow> (Inr (), d)
      | None # fs \<Rightarrow> (Inr (), d\<lparr>rdb_faults := fs\<rparr>)
      | Some e # fs \<Rightarrow> (Inl e, d\<lparr>rdb_faults := fs\<rparr>))"

text \<open>\<^verbatim>\<open>ON CONFLICT(id) DO UPDATE\<close>.\<close>

definition upsert_row :: "('a \<Rightarrow> 'k) \<Rightarrow> 'a \<Rightarrow> 'a list \<Rightarrow> 'a list" where
  "upsert_row key row rows =
     (if key row \<in> key ` set rows then map (\<lambda>x. if key x = key row then row else x) rows else rows @ [row])"

section \<open>Steps\<close>

definition bool_to_int :: "bool \<Rightarrow> int" where "bool_to_int b = (if b then 1 else 0)"

text \<open>The error of encoding the provenance is overwritten by the outcome of the statement.\<close>

definition repo_step_row :: "gotime \<Rightarrow> string \<Rightarrow> step \<Rightarrow> repo_step" where
  "repo_step_row now sid s =
     (let call = act_tool_call (step_action s); out = obs_tool_result (step_observation s); v = step_verification s in
      \<lparr>rpx_session_id = sid, rpx_index = step_index s, rpx_action_type = act_type (step_action s),
       rpx_action_summary = act_summary (step_action s), rpx_action_response = act_response (step_action s),
       rpx_tool_name = (case call of None \<Rightarrow> [] | Some c \<Rightarrow> tc_name c), rpx_tool_input = (case call of None \<Rightarrow> [] | Some c \<Rightarrow> tc_input c),
       rpx_tool_timeout = (case call of None \<Rightarrow> 0 | Some c \<Rightarrow> tc_timeout c), rpx_observation_summary = obs_summary (step_observation s),
       rpx_final_response = obs_final_response (step_observation s), rpx_tool_output = (case out of None \<Rightarrow> [] | Some r \<Rightarrow> tr_output r),
       rpx_tool_error = (case out of None \<Rightarrow> [] | Some r \<Rightarrow> tr_error r), rpx_tool_duration = (case out of None \<Rightarrow> 0 | Some r \<Rightarrow> tr_duration r),
       rpx_passed = bool_to_int (vr_passed v), rpx_status = vr_status_or_default v, rpx_reason = vr_reason v,
       rpx_provenance = (case marshal_provenance (step_provenance s) of Inl e \<Rightarrow> None | Inr p \<Rightarrow> p), rpx_created_at = now\<rparr>)"

text \<open>\<^verbatim>\<open>INSERT OR REPLACE\<close> with the primary key of session and index.\<close>

definition repo_key :: "repo_step \<Rightarrow> string \<times> int" where "repo_key r = (rpx_session_id r, rpx_index r)"

definition repo_append_step :: "gotime \<Rightarrow> string \<Rightarrow> step \<Rightarrow> repo_db \<Rightarrow> (go_error, unit) result \<times> repo_db" where
  "repo_append_step now sid s d =
     (case repo_statement d of
        (Inl e, d1) \<Rightarrow> (Inl e, d1)
      | (Inr _, d1) \<Rightarrow>
          (let row = repo_step_row now sid s in
           (Inr (), d1\<lparr>rdb_steps := filter (\<lambda>r. repo_key r \<noteq> repo_key row) (rdb_steps d1) @ [row]\<rparr>)))"

definition load_repo_step :: "repo_step \<Rightarrow> (go_error, step) result" where
  "load_repo_step r =
     (let called = rpx_tool_name r \<noteq> [];
          x = \<lparr>step_index = rpx_index r,
            step_action = \<lparr>act_type = rpx_action_type r, act_summary = rpx_action_summary r,
              act_tool_call = (if called then Some \<lparr>tc_name = rpx_tool_name r, tc_input = rpx_tool_input r, tc_timeout = rpx_tool_timeout r\<rparr> else None),
              act_response = rpx_action_response r\<rparr>,
            step_observation = \<lparr>obs_summary = rpx_observation_summary r,
              obs_tool_result = (if called then Some \<lparr>tr_tool_name = rpx_tool_name r, tr_output = rpx_tool_output r, tr_error = rpx_tool_error r,
                tr_duration = rpx_tool_duration r\<rparr> else None),
              obs_final_response = rpx_final_response r, obs_evidence = None\<rparr>,
            step_verification = vr_normalize \<lparr>vr_passed = (rpx_passed r = 1), vr_status = rpx_status r, vr_reason = rpx_reason r\<rparr>,
            step_provenance = None\<rparr> in
      case rpx_provenance r of
        None \<Rightarrow> Inr x
      | Some p \<Rightarrow> (case pv_unmarshal p of Inl e \<Rightarrow> Inl (json_error e) | Inr q \<Rightarrow> Inr (x\<lparr>step_provenance := Some q\<rparr>)))"

definition load_repo_steps :: "string \<Rightarrow> repo_db \<Rightarrow> (go_error, step list) result \<times> repo_db" where
  "load_repo_steps sid d =
     (case repo_statement d of
        (Inl e, d1) \<Rightarrow> (Inl e, d1)
      | (Inr _, d1) \<Rightarrow> (each load_repo_step (sort_key rpx_index (filter (\<lambda>r. rpx_session_id r = sid) (rdb_steps d1))), d1))"

section \<open>Sessions\<close>

definition repo_save_session :: "session \<Rightarrow> repo_db \<Rightarrow> (go_error, unit) result \<times> repo_db" where
  "repo_save_session s d =
     (case marshal_provenance (sess_provenance s) of
        Inl e \<Rightarrow> (Inl e, d)
      | Inr p \<Rightarrow>
          (case repo_statement d of
             (Inl e, d1) \<Rightarrow> (Inl e, d1)
           | (Inr _, d1) \<Rightarrow>
               (Inr (), d1\<lparr>rdb_sessions := upsert_row rps_id
                  \<lparr>rps_id = sess_id s, rps_task_id = sess_task_id s, rps_status = sess_status s, rps_provenance = p,
                   rps_created_at = sess_created_at s, rps_updated_at = sess_updated_at s\<rparr> (rdb_sessions d1)\<rparr>)))"

definition repo_save_plan :: "plan \<Rightarrow> repo_db \<Rightarrow> (go_error, unit) result \<times> repo_db" where
  "repo_save_plan p d =
     (case repo_statement d of
        (Inl e, d1) \<Rightarrow> (Inl e, d1)
      | (Inr _, d1) \<Rightarrow>
          (Inr (), d1\<lparr>rdb_plans := upsert_row rpp_id
             \<lparr>rpp_id = plan_id p, rpp_task_id = plan_task_id p, rpp_summary = plan_summary p, rpp_created_at = plan_created_at p\<rparr> (rdb_plans d1)\<rparr>))"

definition repo_resume :: "string \<Rightarrow> repo_db \<Rightarrow> (go_error, session \<times> step list) result \<times> repo_db" where
  "repo_resume sid d =
     (case repo_statement d of
        (Inl e, d1) \<Rightarrow> (Inl e, d1)
      | (Inr _, d1) \<Rightarrow>
          (case find (\<lambda>r. rps_id r = sid) (rdb_sessions d1) of
             None \<Rightarrow> (Inl sql_no_rows, d1)
           | Some r \<Rightarrow>
               (case (case rps_provenance r of None \<Rightarrow> Inr None | Some p \<Rightarrow> (case pv_unmarshal p of Inl e \<Rightarrow> Inl e | Inr q \<Rightarrow> Inr (Some q))) of
                  Inl e \<Rightarrow> (Inl (json_error e), d1)
                | Inr p \<Rightarrow>
                    (case load_repo_steps sid d1 of
                       (Inl e, d2) \<Rightarrow> (Inl e, d2)
                     | (Inr steps, d2) \<Rightarrow>
                         (Inr (\<lparr>sess_id = rps_id r, sess_task_id = rps_task_id r, sess_status = rps_status r, sess_provenance = p,
                            sess_created_at = rps_created_at r, sess_updated_at = rps_updated_at r\<rparr>, steps), d2)))))"

section \<open>What comes back\<close>

definition repo_ok :: "repo_db \<Rightarrow> bool" where
  "repo_ok d \<longleftrightarrow> distinct (map repo_key (rdb_steps d)) \<and> (\<forall>r \<in> set (rdb_steps d). pv_ok (rpx_provenance r))"

text \<open>A step as the columns hold it: no evidence, a result only of a call with a name, and no provenance that is not valid.\<close>

definition stored_form :: "step \<Rightarrow> step" where
  "stored_form s =
     (let call = act_tool_call (step_action s); named = (case call of None \<Rightarrow> False | Some c \<Rightarrow> tc_name c \<noteq> []);
          out = (case obs_tool_result (step_observation s) of None \<Rightarrow> \<lparr>tr_tool_name = [], tr_output = [], tr_error = [], tr_duration = 0\<rparr> | Some r \<Rightarrow> r) in
      s\<lparr>step_action := (step_action s)\<lparr>act_tool_call := (if named then call else None)\<rparr>,
        step_observation := (step_observation s)\<lparr>obs_tool_result := (if named then Some (out\<lparr>tr_tool_name := tc_name (the call)\<rparr>) else None),
          obs_evidence := None\<rparr>,
        step_verification := vr_normalize (step_verification s),
        step_provenance := (case marshal_provenance (step_provenance s) of Inl e \<Rightarrow> None | Inr p \<Rightarrow> p)\<rparr>)"

lemma marshalled_read: "marshal_provenance p = Inr (Some q) \<Longrightarrow> pv_unmarshal q = Inr q"
  by (auto simp: marshal_provenance_def pv_marshal_def pv_unmarshal_def Let_def split: option.splits sum.splits)

lemma load_row: "load_repo_step (repo_step_row now sid s) = Inr (stored_form s)"
  using marshalled_read[of "step_provenance s"]
  by (auto simp: load_repo_step_def repo_step_row_def stored_form_def bool_to_int_def vr_normalize_def vr_status_or_default_def Let_def
      split: option.splits sum.splits)

definition read_row :: "repo_step \<Rightarrow> step" where "read_row r = projr (load_repo_step r)"

lemma row_readable: "pv_ok (rpx_provenance r) \<Longrightarrow> load_repo_step r = Inr (read_row r) \<and> step_index (read_row r) = rpx_index r"
  by (auto simp: load_repo_step_def read_row_def pv_ok_def pv_unmarshal_def Let_def split: option.splits)

lemma each_total: "\<forall>x \<in> set xs. f x = Inr (g x) \<Longrightarrow> each f xs = Inr (map g xs)"
  by (induction xs) auto

lemma load_rows:
  assumes "repo_ok d" and "rdb_faults d = []"
  shows "load_repo_steps sid d = (Inr (map read_row (sort_key rpx_index (filter (\<lambda>r. rpx_session_id r = sid) (rdb_steps d)))), d)"
  using assms by (auto simp: load_repo_steps_def repo_statement_def repo_ok_def row_readable intro!: each_total)

lemma repo_row_ok: "pv_ok (rpx_provenance (repo_step_row now sid s))"
  by (auto simp: repo_step_row_def pv_ok_def marshal_provenance_def pv_marshal_def Let_def split: option.splits sum.splits)

lemma append_ok:
  assumes "repo_ok d"
  shows "repo_ok (d\<lparr>rdb_steps := filter (\<lambda>r. repo_key r \<noteq> repo_key (repo_step_row now sid s)) (rdb_steps d) @ [repo_step_row now sid s]\<rparr>)"
  using assms repo_row_ok[of now sid s] by (auto simp: repo_ok_def distinct_map_filter)

lemma indexes_distinct: "distinct (map repo_key rs) \<Longrightarrow> distinct (map rpx_index (filter (\<lambda>r. rpx_session_id r = sid) rs))"
  by (induction rs) (auto simp: repo_key_def image_iff)

lemma strictly_sorted: "distinct (map rpx_index rs) \<Longrightarrow> sorted_wrt (<) (map rpx_index (sort_key rpx_index rs))"
  by (simp add: strict_sorted_iff distinct_map)

text \<open> A step that is appended comes back when the session's steps are loaded, in the form the columns hold, in the place of a step with
  the same index if there was one, and the other steps come back as before, in ascending order. \<close>

theorem repo_step_comes_back:
  assumes "repo_ok d" and "rdb_faults d = []" and "fst (load_repo_steps sid d) = Inr ys"
  shows "\<exists>d1 xs. repo_append_step now sid s d = (Inr (), d1) \<and> repo_ok d1 \<and> fst (load_repo_steps sid d1) = Inr xs \<and>
     sorted_wrt (<) (map step_index xs) \<and> set xs = {y \<in> set ys. step_index y \<noteq> step_index s} \<union> {stored_form s}"
proof -
  let ?row = "repo_step_row now sid s"
  let ?d = "d\<lparr>rdb_steps := filter (\<lambda>r. repo_key r \<noteq> repo_key ?row) (rdb_steps d) @ [?row]\<rparr>"
  let ?rows = "\<lambda>d. sort_key rpx_index (filter (\<lambda>r. rpx_session_id r = sid) (rdb_steps d))"
  have ok: "repo_ok ?d" using append_ok[OF assms(1)] .
  have key: "rpx_session_id ?row = sid" "rpx_index ?row = step_index s" by (simp_all add: repo_step_row_def Let_def)
  have append: "repo_append_step now sid s d = (Inr (), ?d)" using assms(2) by (simp add: repo_append_step_def repo_statement_def Let_def)
  have xs: "fst (load_repo_steps sid ?d) = Inr (map read_row (?rows ?d))" using load_rows[OF ok] assms(2) by simp
  have ys: "ys = map read_row (?rows d)" using load_rows[OF assms(1,2), of sid] assms(3) by simp
  have index: "step_index (read_row r) = rpx_index r" if "r \<in> set (rdb_steps d) \<or> r \<in> set (rdb_steps ?d)" for r
    using that assms(1) ok row_readable[of r] by (auto simp: repo_ok_def)
  have "distinct (map rpx_index (filter (\<lambda>r. rpx_session_id r = sid) (rdb_steps ?d)))"
    using ok indexes_distinct unfolding repo_ok_def by blast
  then have "sorted_wrt (<) (map rpx_index (?rows ?d))" by (rule strictly_sorted)
  moreover have "map step_index (map read_row (?rows ?d)) = map rpx_index (?rows ?d)" using index by (auto simp: comp_def)
  ultimately have sorted: "sorted_wrt (<) (map step_index (map read_row (?rows ?d)))" by (simp only:)
  have row: "read_row ?row = stored_form s" by (simp add: read_row_def load_row)
  have "set (map read_row (?rows ?d)) = {y \<in> set ys. step_index y \<noteq> step_index s} \<union> {stored_form s}"
    using index key row by (auto simp: ys repo_key_def)
  then show ?thesis using append ok xs sorted by blast
qed

definition empty_repo :: repo_db where
  "empty_repo = \<lparr>rdb_sessions = [], rdb_plans = [], rdb_steps = [], rdb_faults = []\<rparr>"

definition unnamed_plugin_step :: step where
  "unnamed_plugin_step = \<lparr>step_index = 1, step_action = \<lparr>act_type = at_complete, act_summary = ''done'', act_tool_call = None, act_response = []\<rparr>,
     step_observation = \<lparr>obs_summary = ''seen'', obs_tool_result = None, obs_final_response = [], obs_evidence = None\<rparr>,
     step_verification = \<lparr>vr_passed = True, vr_status = [], vr_reason = ''ok''\<rparr>,
     step_provenance = Some \<lparr>pv_plugins = [\<lparr>pl_family = ''tool'', pl_logical_id = [], pl_display_name = [], pl_contract_version = [],
       pl_implementation_version = [], pl_execution_mode = [], pl_source_path = []\<rparr>]\<rparr>\<rparr>"

theorem repo_step_comes_back_witness:
  "\<exists>d1 xs. repo_append_step 5 ''s'' unnamed_plugin_step empty_repo = (Inr (), d1) \<and> fst (load_repo_steps ''s'' d1) = Inr xs \<and>
     set xs = {stored_form unnamed_plugin_step} \<and> step_provenance (stored_form unnamed_plugin_step) = None"
proof -
  have "repo_ok empty_repo" "rdb_faults empty_repo = []" "fst (load_repo_steps ''s'' empty_repo) = Inr []"
    by (simp_all add: repo_ok_def empty_repo_def load_repo_steps_def repo_statement_def)
  moreover have "step_provenance (stored_form unnamed_plugin_step) = None" by code_simp
  ultimately show ?thesis using repo_step_comes_back[of empty_repo "''s''" "[]" 5 unnamed_plugin_step] by auto
qed

end
