(* ===== verification/Spec2Isabelle.thy ===== *)
theory Spec2Isabelle
  imports Provenance Scheduler_Properties Publishing Aggregation Engine_Properties
    Session_Manager_Properties Subscriptions File_Adapter Verifier_Properties Plugin_Properties External_Plugin_Properties Plugin_Registry_Properties Memory_Properties Config_Provider Provider_Calls Provider_Streams Chat_Properties Server_Properties Event_Stream Model_Adapter_Properties Builder_Properties Cli_Properties Search_Properties Ask_Web_Adapter Server_Start Step_Repository
begin

text \<open>
  A model of Zheng Harness, a Go program that runs agents: a language model plans a task and chooses actions, the
  harness executes them as tool calls, verifies what they did, stores every step, and serves this from a command line
  and over HTTP.  Every definition is translated from the source under \<^verbatim>\<open>src/\<close>; the theories below it state what the
  parts guarantee, and where they do not do what they mean to do.

  The parts and how they interact.

  \<^item> \<^verbatim>\<open>internal/domain\<close>: the data that all parts exchange (\<^verbatim>\<open>Domain\<close>, \<^verbatim>\<open>Provenance\<close>, \<^verbatim>\<open>Events\<close>, \<^verbatim>\<open>Memory_Model\<close>).  A Go struct is a record with a prefix of its own, an error value a \<open>go_error\<close>, a pair of a
    value and an error a \<open>result\<close>; \<^verbatim>\<open>Prelude\<close>, \<^verbatim>\<open>Go_Text\<close> and \<^verbatim>\<open>Paths\<close> hold the parts of Go's library that the code
    uses: strings (as bytes), numbers with 64 bits, durations, quoting, paths.
  \<^item> \<^verbatim>\<open>internal/runtime\<close>: \<^verbatim>\<open>Engine.Run\<close> (\<^verbatim>\<open>Engine\<close>) asks an agent strategy (\<^verbatim>\<open>Agent_Strategy\<close>) over the model adapter
    (\<^verbatim>\<open>Model_Adapter\<close>, which also writes the prompts) for a plan and for one action after the other, executes tools,
    observes, verifies and saves, over ports whose calls are logged.  The session manager (\<^verbatim>\<open>Session_Manager\<close>) runs
    sessions in goroutines under a cap, and a relay hands their events to subscribers (\<^verbatim>\<open>Subscriptions\<close>).  The task
    protocols are \<^verbatim>\<open>Task_Protocol\<close>.
  \<^item> \<^verbatim>\<open>internal/orchestration\<close>: a decomposition of a task (\<^verbatim>\<open>Decomposition\<close>) is validated, scheduled by its
    dependencies (\<^verbatim>\<open>Scheduler\<close>) and executed by workers (\<^verbatim>\<open>Workers\<close>) in concurrent goroutines (\<^verbatim>\<open>Orchestrator\<close>) that
    publish to a bounded channel (\<^verbatim>\<open>Publishing\<close>), whose results go through channels (\<^verbatim>\<open>Channels\<close>) to the aggregator (\<^verbatim>\<open>Aggregation\<close>).
  \<^item> \<^verbatim>\<open>internal/tools\<close>: the registry of tools, the safety policy and the executor (\<^verbatim>\<open>Tools\<close>), and the tools: files
    (\<^verbatim>\<open>File_Adapter\<close>), commands (\<^verbatim>\<open>Shell_Adapter\<close>), searches (\<^verbatim>\<open>Search_Adapter\<close>), questions to the user and web pages
    (\<^verbatim>\<open>Ask_Web_Adapter\<close>).
  \<^item> \<^verbatim>\<open>internal/verify\<close>: the verifiers of commands and evidence (\<^verbatim>\<open>Verification\<close>) and their selection by policy and
    plugin (\<^verbatim>\<open>Verifier_Registry\<close>).
  \<^item> \<^verbatim>\<open>internal/plugin\<close>: the manager of plugins (\<^verbatim>\<open>Plugin_Manager\<close>), the client of an external plugin's process
    (\<^verbatim>\<open>External_Plugin\<close>) and the host's registries (\<^verbatim>\<open>Plugin_Registry\<close>).  All registries of the harness are instances of
    one contract, the locale \<open>named_registry\<close> of \<^verbatim>\<open>Registries\<close>.
  \<^item> \<^verbatim>\<open>internal/llm\<close>: server-sent events (\<^verbatim>\<open>Sse\<close>), requests, retries and responses of the OpenAI, Anthropic and
    DashScope providers (\<^verbatim>\<open>Llm_Client\<close>, \<^verbatim>\<open>Providers\<close>, \<^verbatim>\<open>Dashscope\<close>) and their selection (\<^verbatim>\<open>Provider_Registry\<close>).
  \<^item> \<^verbatim>\<open>internal/memory\<close>, \<^verbatim>\<open>internal/store\<close>: the policy and the store of memory entries (\<^verbatim>\<open>Memory_Store\<close>), the store of
    sessions, plans and steps (\<^verbatim>\<open>Session_Store\<close>, \<^verbatim>\<open>Step_Repository\<close> over the older schema), users (\<^verbatim>\<open>Accounts\<close>).  A table is the list of its rows; a list of
    faults in the database's state says which statements fail.
  \<^item> \<^verbatim>\<open>internal/config\<close>, \<^verbatim>\<open>internal/runtimebuilder\<close>: the configuration with its layers (\<^verbatim>\<open>Config\<close>) and what is built
    from it (\<^verbatim>\<open>Builder\<close>).
  \<^item> \<^verbatim>\<open>internal/service\<close>, \<^verbatim>\<open>internal/server\<close>, \<^verbatim>\<open>cmd\<close>: the chat service (\<^verbatim>\<open>Chat\<close>), accounts and tokens (\<^verbatim>\<open>Accounts\<close>), the vendored router (\<^verbatim>\<open>Router\<close>), the handlers (\<^verbatim>\<open>Api\<close>), the stream of events (\<^verbatim>\<open>Event_Stream\<close>), the start and
    end of the server (\<^verbatim>\<open>Server_Start\<close>) and the command line (\<^verbatim>\<open>Cli\<close>).

  How the code's constructs are modelled.  State is passed explicitly: operations on a Go object take its record and
  return it.  What the repository does not contain is an argument: the HTTP client, the process runner, the database's
  answers, regular expressions, JSON decoders, hash functions, the clock; its state is a type variable, so nothing is
  assumed of it.  Goroutines are step relations or sequences of atomic actions between critical sections
  (\<^verbatim>\<open>Orchestrator\<close>, \<^verbatim>\<open>Publishing\<close>, \<^verbatim>\<open>Session_Manager\<close>, \<^verbatim>\<open>Subscriptions\<close>, \<open>manager_step\<close> of \<^verbatim>\<open>Plugin_Manager\<close>); a blocked or panicking operation is a value (\<^verbatim>\<open>Channels\<close>,
  \<^verbatim>\<open>Plugin_Manager\<close>).  Contexts are functions that may answer differently each time they are asked.

  What the lemmas show.

  \<^item> Engine (\<^verbatim>\<open>Engine_Correct\<close>, \<^verbatim>\<open>Engine_Run\<close>, \<^verbatim>\<open>Engine_Properties\<close>): the status of a returned session is justified by
    the recorded steps; only tools of the list are called, or any if the list is empty; the number of steps and retries is bounded; a run returns.
  \<^item> Orchestration (\<^verbatim>\<open>Decomposition_Correct\<close>, \<^verbatim>\<open>Scheduler_Correct\<close>, \<^verbatim>\<open>Scheduler_Properties\<close>, \<^verbatim>\<open>Workers_Correct\<close>,
    \<^verbatim>\<open>Orchestrator_Correct\<close>, \<^verbatim>\<open>Orchestrator_Invariant\<close>, \<^verbatim>\<open>Orchestrator_Properties\<close>, \<^verbatim>\<open>Publishing\<close>): validation accepts exactly the
    well-formed acyclic decompositions; subtasks start only after their dependencies, in every interleaving; executions
    end, do not deadlock as long as the workers return and the result channel has room for their results (and do
    not return nil without it), and return nil only if every subtask succeeded.  The proofs about executions hold for all
    workers that satisfy the locale \<open>honest_runs\<close>, which the repository's own workers do.
  \<^item> Session manager (\<^verbatim>\<open>Session_Manager_Correct\<close>, \<^verbatim>\<open>Session_Manager_Properties\<close>, \<^verbatim>\<open>Subscriptions\<close>): the cap on active
    sessions, one actor for each session, its life cycle, shutdown, and what a subscriber sees.
  \<^item> Tools and verification (\<^verbatim>\<open>Tools_Properties\<close>, \<^verbatim>\<open>File_Adapter\<close>, \<^verbatim>\<open>Search_Properties\<close>, \<^verbatim>\<open>Ask_Web_Adapter\<close>,
    \<^verbatim>\<open>Verification_Properties\<close>, \<^verbatim>\<open>Verifier_Properties\<close>): paths that the policy accepts lie below a root, calls reach a
    handler only through the policy, searches return exactly the matching files and lines, evidence is accepted exactly
    if it holds, and a policy that is not known fails closed.
  \<^item> Plugins (\<^verbatim>\<open>Plugin_Properties\<close>, \<^verbatim>\<open>External_Plugin_Properties\<close>, \<^verbatim>\<open>Plugin_Registry_Properties\<close>): what the
    manager holds and executes over any interleaving of its operations, execution as a refinement of a circuit breaker
    (for executions that do not overlap), and replies that belong to their requests while calls do not overlap.
  \<^item> Providers (\<^verbatim>\<open>Sse_Correct\<close>, \<^verbatim>\<open>Provider_Calls\<close>, \<^verbatim>\<open>Provider_Streams\<close>, \<^verbatim>\<open>Model_Adapter_Properties\<close>): events that were
    written are read back, calls are retried a bounded number of times, streams end with one completion, and actions
    that reach the host are well formed.
  \<^item> Stores and configuration (\<^verbatim>\<open>Memory_Properties\<close>, \<^verbatim>\<open>Session_Store_Properties\<close>, \<^verbatim>\<open>Config_Properties\<close>, \<^verbatim>\<open>Config_Provider\<close>, \<^verbatim>\<open>Builder_Properties\<close>): invariants of the tables, what a recall returns, which sessions can be
    inspected, the precedence of the layers, and the executor with plugins.
  \<^item> Service, server and command line (\<^verbatim>\<open>Chat_Properties\<close>, \<^verbatim>\<open>Server_Properties\<close>, \<^verbatim>\<open>Event_Stream\<close>, \<^verbatim>\<open>Server_Start\<close>,
    \<^verbatim>\<open>Cli_Properties\<close>): what is saved before a session starts, transcripts, who gets through to a handler, tokens and
    passwords, the events a client reads, the stores a server opens and closes, and which sessions are resumed.

  Bounds and fuel.  The depth-first search for cycles takes the number of nodes as its fuel; \<open>walk_fuel\<close> shows that
  this is enough, so the search always returns.  The loop of \<open>TopologicalSort\<close> takes one round for each subtask and
  one for the end.  The loop of the engine takes the step budget, as in the code.  The retry loop of the providers ends
  because the attempts that are left decrease; ask_user makes three attempts.  All other recursions are structural or
  measured by the length of a text, so every definition is total.

  Not modelled, and why.

  \<^item> Go's plugin loader (\<^verbatim>\<open>internal/plugin/native.go\<close>) and the database driver with opening, schema and migrations
    (\<^verbatim>\<open>internal/store/db.go\<close>, \<^verbatim>\<open>sqlite.go\<close>): code of other libraries, or SQL text that only they interpret.
  \<^item> \<^verbatim>\<open>Engine.RunStream\<close>, which runs the modelled loop in a goroutine with an event channel; \<^verbatim>\<open>executeMultiAgentRun\<close>, the
    signal handling and the construction of the application in \<^verbatim>\<open>cmd/agent\<close>: they connect modelled parts to Go's runtime.
    The command line takes the engine, and the server the HTTP server, as arguments.
  \<^item> Mutexes around operations that hold them throughout and are modelled as atomic (the plugin manager's operations and
    the calls of an external plugin are also given as the steps between their critical sections), and the recovery of
    panics in handlers.
  \<^item> The password hash (\<^verbatim>\<open>third_party/golang.org/x/crypto\<close>) and the keyed hash of tokens: parameters, of which the
    properties assume only what a hash promises.
  \<^item> Text beyond bytes: folding and lower case act on ASCII letters.
\<close>

end
